(* ===== verification/Prelude.thy ===== *)
theory Prelude
  imports Main "HOL-Library.Word"
begin

text \<open>
  Shared vocabulary of the development: the fixed-width integer types of
  \<^verbatim>\<open>src/src/asm/types.h\<close>, the C constructs the generated code is built from (a field
  extraction \<^verbatim>\<open>(inst >> k) & m\<close>, a \<^verbatim>\<open>switch\<close> statement), and the generic
  lemmas on words and lists that the component theories use.
\<close>

unbundle bit_operations_syntax

type_synonym u8 = "8 word"
type_synonym u16 = "16 word"
type_synonym u32 = "32 word"
type_synonym u64 = "64 word"

section \<open>The C switch statement\<close>

text \<open>
  \<^verbatim>\<open>switch (v) { case k: x; break; ... default: d }\<close>: the first case whose label equals
  the selector, the default otherwise. Only the selector is simplified eagerly, as only the
  branch that is taken is executed.
\<close>

fun switch :: "'k \<Rightarrow> ('k \<times> 'v) list \<Rightarrow> 'v \<Rightarrow> 'v" where
  "switch v [] d = d"
| "switch v ((k, x) # cs) d = (if v = k then x else switch v cs d)"

lemma switch_weak_cong [cong]: "v = v' \<Longrightarrow> switch v cs d = switch v' cs d"
  by simp

lemma switch_rule:
  assumes "\<And>k x. (k, x) \<in> set cs \<Longrightarrow> v = k \<Longrightarrow> P x" and "P d"
  shows "P (switch v cs d)"
  using assms by (induction v cs d rule: switch.induct) auto

lemma switch_list_all:
  "list_all (\<lambda>(k, x). v = k \<longrightarrow> P x) cs \<Longrightarrow> P d \<Longrightarrow> P (switch v cs d)"
  by (rule switch_rule) (auto simp: list_all_iff)

section \<open>Bit fields of an instruction word\<close>

definition inst_bits :: "u64 \<Rightarrow> nat \<Rightarrow> u64 \<Rightarrow> u64" where
  "inst_bits inst k m = drop_bit k inst AND m"

lemma bit_and_eqD: "(x :: 'a::len word) AND m = v \<Longrightarrow> bit m i \<Longrightarrow> bit x i = bit v i"
  by (metis bit_and_iff)

lemma bit_and_subD: "(x :: 'a::len word) AND m = v \<Longrightarrow> bit v i \<Longrightarrow> bit m i"
  by (metis bit_and_iff)

text \<open>What is known of an instruction word under a mask decides every field inside the mask.\<close>

lemma inst_bits_of_masked:
  assumes "inst AND M = V" and "push_bit k m AND M = push_bit k m" and "drop_bit k (push_bit k m) = m"
  shows "inst_bits inst k m = drop_bit k V AND m"
proof (rule bit_word_eqI)
  fix n assume "n < LENGTH(64)"
  have "bit m n \<Longrightarrow> bit M (k + n)"
  proof -
    assume "bit m n"
    then have "bit (push_bit k m) (k + n)"
      using assms(3) by (metis bit_drop_bit_eq comp_apply)
    then show "bit M (k + n)" using assms(2) by (metis bit_and_iff)
  qed
  then show "bit (inst_bits inst k m) n = bit (drop_bit k V AND m) n"
    using bit_and_eqD [OF assms(1), of "k + n"]
    by (auto simp: inst_bits_def bit_and_iff bit_drop_bit_eq)
qed

lemma masked_of_inst_bits:
  "inst_bits inst k m = c \<Longrightarrow> inst AND push_bit k m = push_bit k c"
  by (rule bit_word_eqI) (auto simp: inst_bits_def bit_and_iff bit_drop_bit_eq bit_push_bit_iff)

lemma masked_Un:
  fixes x :: "'a::len word"
  shows "x AND A = a \<Longrightarrow> x AND B = b \<Longrightarrow> x AND (A OR B) = a OR b"
  by (auto simp: bit.conj_disj_distrib)

lemma masked_mono:
  fixes x :: "'a::len word"
  assumes "x AND K = V" and "M AND K = M"
  shows "x AND M = V AND M"
proof (rule bit_word_eqI)
  fix n assume "n < LENGTH('a)"
  have "bit M n \<Longrightarrow> bit K n" using assms(2) by (metis bit_and_iff)
  then show "bit (x AND M) n = bit (V AND M) n"
    using bit_and_eqD [OF assms(1), of n] by (auto simp: bit_and_iff)
qed

lemma masked_eq_mono:
  fixes x :: "'a::len word"
  shows "x AND K = y AND K \<Longrightarrow> M AND K = M \<Longrightarrow> x AND M = y AND M"
  using masked_mono [of x K "y AND K" M] masked_mono [of y K "y AND K" M] by simp

lemma ucast_ucast_mask:
  fixes x :: u64
  shows "ucast (ucast x :: 'a::len word) AND mask LENGTH('a) = x AND mask LENGTH('a)"
  by (rule bit_word_eqI) (auto simp: bit_and_iff bit_ucast_iff bit_mask_iff)

text \<open>A selector made of two disjoint fields determines each of them.\<close>

lemma inst_bits_pair:
  assumes "inst_bits inst j a OR inst_bits inst k b = c" and "a AND b = 0"
  shows "inst_bits inst j a = c AND a" and "inst_bits inst k b = c AND b"
proof -
  have d: "\<not> (bit a n \<and> bit b n)" for n using assms(2) by (metis bit_and_iff bit_0_eq bot_apply bot_bool_def)
  show "inst_bits inst j a = c AND a"
    unfolding assms(1) [symmetric] inst_bits_def
    by (rule bit_word_eqI) (use d in \<open>auto simp: bit_and_iff bit_or_iff\<close>)
  show "inst_bits inst k b = c AND b"
    unfolding assms(1) [symmetric] inst_bits_def
    by (rule bit_word_eqI) (use d in \<open>auto simp: bit_and_iff bit_or_iff\<close>)
qed

section \<open>Words as numbers\<close>

lemma unat_and_mask: "unat (x AND mask n :: u64) = unat x mod 2 ^ n"
  by (metis take_bit_eq_mask take_bit_nat_def unsigned_take_bit_eq)

lemma unat_drop: "unat (drop_bit n x :: u64) = unat x div 2 ^ n"
  by (simp only: unat_drop_bit_eq) (simp add: drop_bit_eq_div)

lemma unat_small: "k < 2 ^ 64 \<Longrightarrow> unat (of_nat k :: u64) = k"
  by (simp add: unat_of_nat take_bit_nat_eq_self)

lemma small_and_mask: "k < 2 ^ 64 \<Longrightarrow> (of_nat k AND mask n :: u64) = of_nat (k mod 2 ^ n)"
  by (rule word_unat_eq_iff [THEN iffD2])
    (simp add: unat_and_mask unat_small order.strict_trans1 [OF mod_less_eq_dividend])

end
