(* ===== verification/Operands.thy ===== *)
theory Operands
  imports Prelude
begin

text \<open>
  The immediate bit-range templates of \<^verbatim>\<open>src/src/asm/types.h\<close> (\<^verbatim>\<open>B\<close>, \<^verbatim>\<open>S\<close>,
  \<^verbatim>\<open>imm_operand_impl_t\<close>, \<^verbatim>\<open>simm_operand_t\<close>, \<^verbatim>\<open>uimm_operand_t\<close>) and the 56 operand
  types that \<^verbatim>\<open>src/src/asm/operands.h\<close> builds from them. A template instance is a value of
  type \<open>imm_operand\<close>; the static members \<^verbatim>\<open>decode\<close> and \<^verbatim>\<open>encode\<close> are functions
  of that value, by the same recursion over the parameter packs as the templates. The locale
  \<open>operand_codec\<close> states what a client of an operand may rely on (the round trip, and which
  instruction bits the operand owns), and every operand is shown to satisfy it.
\<close>

unbundle bit_operations_syntax

section \<open>Bit ranges and segments\<close>

text \<open>\<open>BR n m\<close> is \<^verbatim>\<open>B<N,M>\<close>; \<open>SEG k l rs\<close> is \<^verbatim>\<open>S<K,L,B...>\<close>.\<close>

datatype bit_range = BR nat nat

datatype segment = SEG nat nat "bit_range list"

record imm_operand =
  op_signed :: bool
  op_width :: nat
  op_segs :: "segment list"

fun B_width :: "bit_range \<Rightarrow> nat" where
  "B_width (BR n m) = n - m + 1"

definition B_mask :: "nat \<Rightarrow> nat \<Rightarrow> u64" where
  "B_mask n m = (push_bit (n + 1) 1 - 1) XOR (push_bit m 1 - 1)"

fun S_offset :: "bit_range list \<Rightarrow> nat" where
  "S_offset [] = 0"
| "S_offset (H # T) = S_offset T + B_width H"

definition S_shift :: "nat \<Rightarrow> bit_range \<Rightarrow> bit_range list \<Rightarrow> int" where
  "S_shift l H T = (case H of BR n m \<Rightarrow>
     int (S_offset (H # T)) + int l - int (B_width H) - int m)"

fun S_decode_pack :: "nat \<Rightarrow> bit_range list \<Rightarrow> u64 \<Rightarrow> u64" where
  "S_decode_pack l [] inst = 0"
| "S_decode_pack l (BR n m # T) inst =
     (let shift = S_shift l (BR n m) T in
      ((if shift < 0 then push_bit (nat (- shift)) inst else drop_bit (nat shift) inst)
         AND B_mask n m) OR S_decode_pack l T inst)"

fun S_encode_pack :: "nat \<Rightarrow> bit_range list \<Rightarrow> u64 \<Rightarrow> u64" where
  "S_encode_pack l [] imm = 0"
| "S_encode_pack l (BR n m # T) imm =
     (let shift = S_shift l (BR n m) T in
      (if shift < 0 then drop_bit (nat (- shift)) (imm AND B_mask n m)
       else push_bit (nat shift) (imm AND B_mask n m)) OR S_encode_pack l T imm)"

fun S_decode :: "segment \<Rightarrow> u64 \<Rightarrow> u64" where
  "S_decode (SEG k l rs) inst = S_decode_pack l rs inst"

fun S_encode :: "segment \<Rightarrow> u64 \<Rightarrow> u64" where
  "S_encode (SEG k l rs) imm = S_encode_pack l rs imm"

fun imm_decode :: "segment list \<Rightarrow> u64 \<Rightarrow> u64" where
  "imm_decode [] inst = 0"
| "imm_decode (H # T) inst = imm_decode T inst OR S_decode H inst"

fun imm_encode :: "segment list \<Rightarrow> u64 \<Rightarrow> u64" where
  "imm_encode [] imm = 0"
| "imm_encode (H # T) imm = imm_encode T imm OR S_encode H imm"

text \<open>
  Assigning to a signed bit field of \<open>w\<close> bits and reading it back is truncation to \<open>w\<close>
  bits followed by sign extension.
\<close>

definition sign_extend :: "nat \<Rightarrow> u64 \<Rightarrow> u64" where
  "sign_extend w x = signed_take_bit (w - 1) x"

definition simm_operand :: "nat \<Rightarrow> segment list \<Rightarrow> imm_operand" where
  "simm_operand w segs = \<lparr>op_signed = True, op_width = w, op_segs = segs\<rparr>"

definition uimm_operand :: "nat \<Rightarrow> segment list \<Rightarrow> imm_operand" where
  "uimm_operand w segs = \<lparr>op_signed = False, op_width = w, op_segs = segs\<rparr>"

definition operand_decode :: "imm_operand \<Rightarrow> u64 \<Rightarrow> u64" where
  "operand_decode opd inst =
     (if op_signed opd then sign_extend (op_width opd) (imm_decode (op_segs opd) inst)
      else imm_decode (op_segs opd) inst)"

definition operand_encode :: "imm_operand \<Rightarrow> u64 \<Rightarrow> u64" where
  "operand_encode opd imm = imm_encode (op_segs opd) imm"

section \<open>The operand types of operands.h\<close>

definition operand_rd :: imm_operand where
  "operand_rd = uimm_operand 5 [SEG 11 7 [BR 4 0]]"

definition operand_rs1 :: imm_operand where
  "operand_rs1 = uimm_operand 5 [SEG 19 15 [BR 4 0]]"

definition operand_rs2 :: imm_operand where
  "operand_rs2 = uimm_operand 5 [SEG 24 20 [BR 4 0]]"

definition operand_rs3 :: imm_operand where
  "operand_rs3 = uimm_operand 5 [SEG 31 27 [BR 4 0]]"

definition operand_frd :: imm_operand where
  "operand_frd = uimm_operand 5 [SEG 11 7 [BR 4 0]]"

definition operand_frs1 :: imm_operand where
  "operand_frs1 = uimm_operand 5 [SEG 19 15 [BR 4 0]]"

definition operand_frs2 :: imm_operand where
  "operand_frs2 = uimm_operand 5 [SEG 24 20 [BR 4 0]]"

definition operand_frs3 :: imm_operand where
  "operand_frs3 = uimm_operand 5 [SEG 31 27 [BR 4 0]]"

definition operand_aq :: imm_operand where
  "operand_aq = uimm_operand 1 [SEG 26 26 [BR 0 0]]"

definition operand_rl :: imm_operand where
  "operand_rl = uimm_operand 1 [SEG 25 25 [BR 0 0]]"

definition operand_pred :: imm_operand where
  "operand_pred = uimm_operand 4 [SEG 27 24 [BR 3 0]]"

definition operand_succ :: imm_operand where
  "operand_succ = uimm_operand 4 [SEG 23 20 [BR 3 0]]"

definition operand_rm :: imm_operand where
  "operand_rm = uimm_operand 3 [SEG 14 12 [BR 2 0]]"

definition operand_imm20 :: imm_operand where
  "operand_imm20 = simm_operand 32 [SEG 31 12 [BR 31 12]]"

definition operand_oimm20 :: imm_operand where
  "operand_oimm20 = simm_operand 32 [SEG 31 12 [BR 31 12]]"

definition operand_jimm20 :: imm_operand where
  "operand_jimm20 = simm_operand 21 [SEG 31 12 [BR 20 20, BR 10 1, BR 11 11, BR 19 12]]"

definition operand_imm12 :: imm_operand where
  "operand_imm12 = simm_operand 12 [SEG 31 20 [BR 11 0]]"

definition operand_oimm12 :: imm_operand where
  "operand_oimm12 = simm_operand 12 [SEG 31 20 [BR 11 0]]"

definition operand_csr12 :: imm_operand where
  "operand_csr12 = uimm_operand 12 [SEG 31 20 [BR 11 0]]"

definition operand_simm12 :: imm_operand where
  "operand_simm12 = simm_operand 12 [SEG 31 25 [BR 11 5], SEG 11 7 [BR 4 0]]"

definition operand_sbimm12 :: imm_operand where
  "operand_sbimm12 = simm_operand 13 [SEG 31 25 [BR 12 12, BR 10 5], SEG 11 7 [BR 4 1, BR 11 11]]"

definition operand_zimm :: imm_operand where
  "operand_zimm = uimm_operand 5 [SEG 19 15 [BR 4 0]]"

definition operand_shamt5 :: imm_operand where
  "operand_shamt5 = uimm_operand 5 [SEG 24 20 [BR 4 0]]"

definition operand_shamt6 :: imm_operand where
  "operand_shamt6 = uimm_operand 6 [SEG 25 20 [BR 5 0]]"

definition operand_shamt7 :: imm_operand where
  "operand_shamt7 = uimm_operand 7 [SEG 26 20 [BR 6 0]]"

definition operand_crd0 :: imm_operand where
  "operand_crd0 = uimm_operand 1 [SEG 12 12 [BR 0 0]]"

definition operand_crdq :: imm_operand where
  "operand_crdq = uimm_operand 3 [SEG 4 2 [BR 2 0]]"

definition operand_crs1q :: imm_operand where
  "operand_crs1q = uimm_operand 3 [SEG 9 7 [BR 2 0]]"

definition operand_crs1rdq :: imm_operand where
  "operand_crs1rdq = uimm_operand 3 [SEG 9 7 [BR 2 0]]"

definition operand_crs2q :: imm_operand where
  "operand_crs2q = uimm_operand 3 [SEG 4 2 [BR 2 0]]"

definition operand_crd :: imm_operand where
  "operand_crd = uimm_operand 5 [SEG 11 7 [BR 4 0]]"

definition operand_crs1 :: imm_operand where
  "operand_crs1 = uimm_operand 5 [SEG 11 7 [BR 4 0]]"

definition operand_crs1rd :: imm_operand where
  "operand_crs1rd = uimm_operand 5 [SEG 11 7 [BR 4 0]]"

definition operand_crs2 :: imm_operand where
  "operand_crs2 = uimm_operand 5 [SEG 6 2 [BR 4 0]]"

definition operand_cfrdq :: imm_operand where
  "operand_cfrdq = uimm_operand 3 [SEG 4 2 [BR 2 0]]"

definition operand_cfrs2q :: imm_operand where
  "operand_cfrs2q = uimm_operand 3 [SEG 4 2 [BR 2 0]]"

definition operand_cfrs2 :: imm_operand where
  "operand_cfrs2 = uimm_operand 5 [SEG 6 2 [BR 4 0]]"

definition operand_cfrd :: imm_operand where
  "operand_cfrd = uimm_operand 5 [SEG 11 7 [BR 4 0]]"

definition operand_cimmsh5 :: imm_operand where
  "operand_cimmsh5 = uimm_operand 5 [SEG 6 2 [BR 4 0]]"

definition operand_cimmsh6 :: imm_operand where
  "operand_cimmsh6 = uimm_operand 6 [SEG 12 12 [BR 5 5], SEG 6 2 [BR 4 0]]"

definition operand_cimmi :: imm_operand where
  "operand_cimmi = simm_operand 6 [SEG 12 12 [BR 5 5], SEG 6 2 [BR 4 0]]"

definition operand_cnzimmi :: imm_operand where
  "operand_cnzimmi = simm_operand 6 [SEG 12 12 [BR 5 5], SEG 6 2 [BR 4 0]]"

definition operand_cimmui :: imm_operand where
  "operand_cimmui = simm_operand 18 [SEG 12 12 [BR 17 17], SEG 6 2 [BR 16 12]]"

definition operand_cimmlwsp :: imm_operand where
  "operand_cimmlwsp = uimm_operand 8 [SEG 12 12 [BR 5 5], SEG 6 2 [BR 4 2, BR 7 6]]"

definition operand_cimmldsp :: imm_operand where
  "operand_cimmldsp = uimm_operand 9 [SEG 12 12 [BR 5 5], SEG 6 2 [BR 4 3, BR 8 6]]"

definition operand_cimmlqsp :: imm_operand where
  "operand_cimmlqsp = uimm_operand 10 [SEG 12 12 [BR 5 5], SEG 6 2 [BR 4 4, BR 9 6]]"

definition operand_cimm16sp :: imm_operand where
  "operand_cimm16sp = simm_operand 10 [SEG 12 12 [BR 9 9], SEG 6 2 [BR 4 4, BR 6 6, BR 8 7, BR 5 5]]"

definition operand_cimmj :: imm_operand where
  "operand_cimmj = simm_operand 12 [SEG 12 2 [BR 11 11, BR 4 4, BR 9 8, BR 10 10, BR 6 6, BR 7 7, BR 3 1, BR 5 5]]"

definition operand_cimmb :: imm_operand where
  "operand_cimmb = simm_operand 9 [SEG 12 10 [BR 8 8, BR 4 3], SEG 6 2 [BR 7 6, BR 2 1, BR 5 5]]"

definition operand_cimmswsp :: imm_operand where
  "operand_cimmswsp = uimm_operand 8 [SEG 12 7 [BR 5 2, BR 7 6]]"

definition operand_cimmsdsp :: imm_operand where
  "operand_cimmsdsp = uimm_operand 9 [SEG 12 7 [BR 5 3, BR 8 6]]"

definition operand_cimmsqsp :: imm_operand where
  "operand_cimmsqsp = uimm_operand 10 [SEG 12 7 [BR 5 4, BR 9 6]]"

definition operand_cimm4spn :: imm_operand where
  "operand_cimm4spn = uimm_operand 10 [SEG 12 5 [BR 5 4, BR 9 6, BR 2 2, BR 3 3]]"

definition operand_cimmw :: imm_operand where
  "operand_cimmw = uimm_operand 7 [SEG 12 10 [BR 5 3], SEG 6 5 [BR 2 2, BR 6 6]]"

definition operand_cimmd :: imm_operand where
  "operand_cimmd = uimm_operand 8 [SEG 12 10 [BR 5 3], SEG 6 5 [BR 7 6]]"

definition operand_cimmq :: imm_operand where
  "operand_cimmq = uimm_operand 9 [SEG 12 10 [BR 5 4, BR 8 8], SEG 6 5 [BR 7 6]]"

definition all_operands :: "imm_operand list" where
  "all_operands = [
     operand_rd, operand_rs1, operand_rs2, operand_rs3, operand_frd,
     operand_frs1, operand_frs2, operand_frs3, operand_aq, operand_rl,
     operand_pred, operand_succ, operand_rm, operand_imm20, operand_oimm20,
     operand_jimm20, operand_imm12, operand_oimm12, operand_csr12, operand_simm12,
     operand_sbimm12, operand_zimm, operand_shamt5, operand_shamt6, operand_shamt7,
     operand_crd0, operand_crdq, operand_crs1q, operand_crs1rdq, operand_crs2q,
     operand_crd, operand_crs1, operand_crs1rd, operand_crs2, operand_cfrdq,
     operand_cfrs2q, operand_cfrs2, operand_cfrd, operand_cimmsh5, operand_cimmsh6,
     operand_cimmi, operand_cnzimmi, operand_cimmui, operand_cimmlwsp, operand_cimmldsp,
     operand_cimmlqsp, operand_cimm16sp, operand_cimmj, operand_cimmb, operand_cimmswsp,
     operand_cimmsdsp, operand_cimmsqsp, operand_cimm4spn, operand_cimmw, operand_cimmd,
     operand_cimmq]"

lemmas operand_defs =
  simm_operand_def uimm_operand_def
  operand_rd_def operand_rs1_def operand_rs2_def operand_rs3_def
  operand_frd_def operand_frs1_def operand_frs2_def operand_frs3_def
  operand_aq_def operand_rl_def operand_pred_def operand_succ_def
  operand_rm_def operand_imm20_def operand_oimm20_def operand_jimm20_def
  operand_imm12_def operand_oimm12_def operand_csr12_def operand_simm12_def
  operand_sbimm12_def operand_zimm_def operand_shamt5_def operand_shamt6_def
  operand_shamt7_def operand_crd0_def operand_crdq_def operand_crs1q_def
  operand_crs1rdq_def operand_crs2q_def operand_crd_def operand_crs1_def
  operand_crs1rd_def operand_crs2_def operand_cfrdq_def operand_cfrs2q_def
  operand_cfrs2_def operand_cfrd_def operand_cimmsh5_def operand_cimmsh6_def
  operand_cimmi_def operand_cnzimmi_def operand_cimmui_def operand_cimmlwsp_def
  operand_cimmldsp_def operand_cimmlqsp_def operand_cimm16sp_def operand_cimmj_def
  operand_cimmb_def operand_cimmswsp_def operand_cimmsdsp_def operand_cimmsqsp_def
  operand_cimm4spn_def operand_cimmw_def operand_cimmd_def operand_cimmq_def

section \<open>Pieces: where each immediate bit lives in the instruction\<close>

text \<open>
  A piece \<open>(n, m, p)\<close> says that immediate bits \<open>n\<close> down to \<open>m\<close> are the instruction
  bits \<open>p + (n - m)\<close> down to \<open>p\<close>.
\<close>

type_synonym piece = "nat \<times> nat \<times> nat"

fun S_pieces :: "nat \<Rightarrow> bit_range list \<Rightarrow> piece list" where
  "S_pieces l [] = []"
| "S_pieces l (BR n m # T) = (n, m, l + S_offset T) # S_pieces l T"

fun seg_pieces :: "segment \<Rightarrow> piece list" where
  "seg_pieces (SEG k l rs) = S_pieces l rs"

definition imm_pieces :: "segment list \<Rightarrow> piece list" where
  "imm_pieces segs = concat (map seg_pieces segs)"

fun piece_ok :: "piece \<Rightarrow> bool" where
  "piece_ok (n, m, p) = (m \<le> n \<and> n < 64 \<and> p + (n - m) < 64)"

fun imm_covers :: "nat \<Rightarrow> piece \<Rightarrow> bool" where
  "imm_covers i (n, m, p) = (m \<le> i \<and> i \<le> n)"

fun inst_covers :: "nat \<Rightarrow> piece \<Rightarrow> bool" where
  "inst_covers j (n, m, p) = (p \<le> j \<and> j \<le> p + (n - m))"

fun pieces_apart :: "piece \<Rightarrow> piece \<Rightarrow> bool" where
  "pieces_apart (n, m, p) (n', m', p') =
     ((n < m' \<or> n' < m) \<and> (p + (n - m) < p' \<or> p' + (n' - m') < p))"

fun all_apart :: "piece list \<Rightarrow> bool" where
  "all_apart [] = True"
| "all_apart (x # xs) = (list_all (pieces_apart x) xs \<and> all_apart xs)"

definition imm_mask :: "segment list \<Rightarrow> u64" where
  "imm_mask segs = foldr (\<lambda>(n, m, p) acc. B_mask n m OR acc) (imm_pieces segs) 0"

definition inst_mask :: "segment list \<Rightarrow> u64" where
  "inst_mask segs = foldr (\<lambda>(n, m, p) acc. B_mask (p + (n - m)) p OR acc) (imm_pieces segs) 0"

text \<open>
  Well-formed operands: the ranges of a segment fill it exactly, no two pieces share an
  immediate bit or an instruction bit, and every immediate bit is inside the operand's width.
\<close>

fun seg_ok :: "segment \<Rightarrow> bool" where
  "seg_ok (SEG k l rs) = (0 < l \<and> k < 64 \<and> l + S_offset rs = k + 1)"

definition operand_wf :: "imm_operand \<Rightarrow> bool" where
  "operand_wf opd \<longleftrightarrow>
     list_all seg_ok (op_segs opd) \<and>
     list_all piece_ok (imm_pieces (op_segs opd)) \<and>
     all_apart (imm_pieces (op_segs opd)) \<and>
     list_all (\<lambda>(n, m, p). n < op_width opd) (imm_pieces (op_segs opd)) \<and>
     0 < op_width opd \<and> op_width opd \<le> 64"

text \<open>The values an operand can carry: its immediate bits only, sign-extended when signed.\<close>

definition operand_valid :: "imm_operand \<Rightarrow> u64 \<Rightarrow> bool" where
  "operand_valid opd x \<longleftrightarrow>
     (if op_signed opd then sign_extend (op_width opd) (x AND imm_mask (op_segs opd)) = x
      else x AND imm_mask (op_segs opd) = x)"

lemma bit_B_mask: "bit (B_mask n m) i \<longleftrightarrow> i < 64 \<and> (i < m \<longleftrightarrow> \<not> i < Suc n)"
proof -
  have e: "(push_bit k 1 :: u64) - 1 = mask k" for k
    by (simp add: mask_eq_exp_minus_1 push_bit_eq_mult)
  show ?thesis
    unfolding B_mask_def e by (auto simp: bit_xor_iff bit_mask_iff possible_bit_def)
qed

lemma bit_B_mask_ok: "m \<le> n \<Longrightarrow> bit (B_mask n m) i \<longleftrightarrow> i < 64 \<and> m \<le> i \<and> i \<le> n"
  by (auto simp: bit_B_mask)

lemma S_shift_eq: "m \<le> n \<Longrightarrow> S_shift l (BR n m) T = int (l + S_offset T) - int m"
  by (simp add: S_shift_def)


section \<open>What decode and encode do to single bits\<close>

lemma bit_S_decode_pack:
  assumes "list_all piece_ok (S_pieces l rs)"
  shows "bit (S_decode_pack l rs w) i \<longleftrightarrow>
     (\<exists>(n, m, p) \<in> set (S_pieces l rs). m \<le> i \<and> i \<le> n \<and> bit w (i - m + p))"
  using assms
proof (induction l rs rule: S_pieces.induct)
  case (2 l n m T)
  then have ok: "m \<le> n" "n < 64" by auto
  have shift: "bit ((if S_shift l (BR n m) T < 0 then push_bit (nat (- S_shift l (BR n m) T)) w
       else drop_bit (nat (S_shift l (BR n m) T)) w) AND B_mask n m) i \<longleftrightarrow>
     m \<le> i \<and> i \<le> n \<and> bit w (i - m + (l + S_offset T))"
    using ok
    by (auto simp: S_shift_eq bit_and_iff bit_B_mask_ok bit_push_bit_iff bit_drop_bit_eq
        nat_diff_distrib nat_add_distrib add.commute add.left_commute
        intro: arg_cong [where f = "bit w", THEN iffD1])
  then show ?case
    using 2 by (auto simp: Let_def bit_or_iff shift)
qed simp

lemma bit_S_encode_pack:
  assumes "list_all piece_ok (S_pieces l rs)"
  shows "bit (S_encode_pack l rs x) j \<longleftrightarrow>
     (\<exists>(n, m, p) \<in> set (S_pieces l rs). p \<le> j \<and> j \<le> p + (n - m) \<and> bit x (j - p + m))"
  using assms
proof (induction l rs rule: S_pieces.induct)
  case (2 l n m T)
  then have ok: "m \<le> n" "n < 64" "l + S_offset T + (n - m) < 64" by auto
  have shift: "bit (if S_shift l (BR n m) T < 0
       then drop_bit (nat (- S_shift l (BR n m) T)) (x AND B_mask n m)
       else push_bit (nat (S_shift l (BR n m) T)) (x AND B_mask n m)) j \<longleftrightarrow>
     l + S_offset T \<le> j \<and> j \<le> l + S_offset T + (n - m) \<and> bit x (j - (l + S_offset T) + m)"
    using ok
    by (auto simp: S_shift_eq bit_and_iff bit_B_mask_ok bit_push_bit_iff bit_drop_bit_eq
        nat_diff_distrib nat_add_distrib add.commute add.left_commute
        intro: arg_cong [where f = "bit x", THEN iffD1])
  then show ?case
    using 2 by (auto simp: Let_def bit_or_iff shift)
qed simp

lemma imm_pieces_Cons [simp]: "imm_pieces (SEG k l rs # T) = S_pieces l rs @ imm_pieces T"
  by (simp add: imm_pieces_def)

lemma imm_pieces_Nil [simp]: "imm_pieces [] = []"
  by (simp add: imm_pieces_def)

lemma bit_imm_decode:
  assumes "list_all piece_ok (imm_pieces segs)"
  shows "bit (imm_decode segs w) i \<longleftrightarrow>
     (\<exists>(n, m, p) \<in> set (imm_pieces segs). m \<le> i \<and> i \<le> n \<and> bit w (i - m + p))"
  using assms
proof (induction segs)
  case (Cons s T)
  then show ?case by (cases s) (simp add: bit_or_iff bit_S_decode_pack bex_Un disj_commute)
qed simp

lemma bit_imm_encode:
  assumes "list_all piece_ok (imm_pieces segs)"
  shows "bit (imm_encode segs x) j \<longleftrightarrow>
     (\<exists>(n, m, p) \<in> set (imm_pieces segs). p \<le> j \<and> j \<le> p + (n - m) \<and> bit x (j - p + m))"
  using assms
proof (induction segs)
  case (Cons s T)
  then show ?case by (cases s) (simp add: bit_or_iff bit_S_encode_pack bex_Un disj_commute)
qed simp

lemma bit_imm_mask:
  assumes "list_all piece_ok (imm_pieces segs)"
  shows "bit (imm_mask segs) i \<longleftrightarrow> (\<exists>(n, m, p) \<in> set (imm_pieces segs). m \<le> i \<and> i \<le> n)"
proof -
  have "list_all piece_ok ps \<Longrightarrow> bit (foldr (\<lambda>(n, m, p) acc. B_mask n m OR acc) ps (0 :: u64)) i \<longleftrightarrow>
     (\<exists>(n, m, p) \<in> set ps. m \<le> i \<and> i \<le> n)" for ps
    by (induction ps) (auto simp: bit_or_iff bit_B_mask_ok)
  then show ?thesis using assms by (simp add: imm_mask_def)
qed

lemma bit_inst_mask:
  assumes "list_all piece_ok (imm_pieces segs)"
  shows "bit (inst_mask segs) j \<longleftrightarrow>
     (\<exists>(n, m, p) \<in> set (imm_pieces segs). p \<le> j \<and> j \<le> p + (n - m))"
proof -
  have "list_all piece_ok ps \<Longrightarrow>
     bit (foldr (\<lambda>(n, m, p) acc. B_mask (p + (n - m)) p OR acc) ps (0 :: u64)) j \<longleftrightarrow>
     (\<exists>(n, m, p) \<in> set ps. p \<le> j \<and> j \<le> p + (n - m))" for ps
    by (induction ps) (auto simp: bit_or_iff bit_B_mask_ok)
  then show ?thesis using assms by (simp add: inst_mask_def)
qed

text \<open>Two pieces that share a bit are the same piece.\<close>

lemma all_apart_imm:
  assumes "all_apart ps" and "(n, m, p) \<in> set ps" and "(n', m', p') \<in> set ps"
    and "m \<le> i" "i \<le> n" "m' \<le> i" "i \<le> n'"
  shows "(n, m, p) = (n', m', p')"
  using assms by (induction ps) (auto simp: list_all_iff)

lemma all_apart_inst:
  assumes "all_apart ps" and "(n, m, p) \<in> set ps" and "(n', m', p') \<in> set ps"
    and "p \<le> j" "j \<le> p + (n - m)" "p' \<le> j" "j \<le> p' + (n' - m')"
  shows "(n, m, p) = (n', m', p')"
  using assms by (induction ps) (auto simp: list_all_iff)

section \<open>Round trips\<close>

lemma imm_decode_encode:
  assumes ok: "list_all piece_ok (imm_pieces segs)" and apart: "all_apart (imm_pieces segs)"
  shows "imm_decode segs (imm_encode segs x) = x AND imm_mask segs"
proof (rule bit_word_eqI)
  fix i assume "i < LENGTH(64)"
  have "bit (imm_encode segs x) (i - m + p) = bit x i"
    if "(n, m, p) \<in> set (imm_pieces segs)" "m \<le> i" "i \<le> n" for n m p
  proof
    assume "bit (imm_encode segs x) (i - m + p)"
    then obtain n' m' p' where q: "(n', m', p') \<in> set (imm_pieces segs)"
        "p' \<le> i - m + p" "i - m + p \<le> p' + (n' - m')" "bit x (i - m + p - p' + m')"
      using ok by (auto simp: bit_imm_encode)
    have "(n, m, p) = (n', m', p')"
      by (rule all_apart_inst [OF apart that(1) q(1), where j = "i - m + p"]) (use that q in auto)
    then show "bit x i" using q that by simp
  next
    assume "bit x i"
    then show "bit (imm_encode segs x) (i - m + p)"
      using that ok by (auto simp: bit_imm_encode intro!: bexI [of _ "(n, m, p)"])
  qed
  then show "bit (imm_decode segs (imm_encode segs x)) i = bit (x AND imm_mask segs) i"
    using ok by (fastforce simp: bit_imm_decode bit_and_iff bit_imm_mask)
qed

lemma imm_encode_decode:
  assumes ok: "list_all piece_ok (imm_pieces segs)" and apart: "all_apart (imm_pieces segs)"
  shows "imm_encode segs (imm_decode segs w) = w AND inst_mask segs"
proof (rule bit_word_eqI)
  fix j assume "j < LENGTH(64)"
  have "bit (imm_decode segs w) (j - p + m) = bit w j"
    if "(n, m, p) \<in> set (imm_pieces segs)" "p \<le> j" "j \<le> p + (n - m)" for n m p
  proof -
    have mn: "m \<le> n" using that(1) ok by (auto simp: list_all_iff)
    show ?thesis
    proof
      assume "bit (imm_decode segs w) (j - p + m)"
      then obtain n' m' p' where q: "(n', m', p') \<in> set (imm_pieces segs)"
          "m' \<le> j - p + m" "j - p + m \<le> n'" "bit w (j - p + m - m' + p')"
        using ok by (auto simp: bit_imm_decode)
      have "(n, m, p) = (n', m', p')"
        by (rule all_apart_imm [OF apart that(1) q(1), where i = "j - p + m"]) (use that q mn in auto)
      then show "bit w j" using q that by simp
    next
      assume "bit w j"
      then show "bit (imm_decode segs w) (j - p + m)"
        using that ok mn by (auto simp: bit_imm_decode intro!: bexI [of _ "(n, m, p)"])
    qed
  qed
  then show "bit (imm_encode segs (imm_decode segs w)) j = bit (w AND inst_mask segs) j"
    using ok by (fastforce simp: bit_imm_encode bit_and_iff bit_inst_mask)
qed

lemma imm_decode_cong:
  assumes "list_all piece_ok (imm_pieces segs)" and "a AND inst_mask segs = b AND inst_mask segs"
  shows "imm_decode segs a = imm_decode segs b"
proof -
  have "bit a (i - m + p) = bit b (i - m + p)"
    if "(n, m, p) \<in> set (imm_pieces segs)" "m \<le> i" "i \<le> n" for i n m p
  proof -
    have "bit (inst_mask segs) (i - m + p)"
      using that assms(1) by (auto simp: bit_inst_mask intro!: bexI [of _ "(n, m, p)"])
    then show ?thesis using bit_and_eqD [OF assms(2), of "i - m + p"] by (simp add: bit_and_iff)
  qed
  then show ?thesis using assms(1) by (intro bit_word_eqI) (fastforce simp: bit_imm_decode)
qed

lemma imm_encode_mask:
  assumes "list_all piece_ok (imm_pieces segs)"
  shows "imm_encode segs x AND inst_mask segs = imm_encode segs x"
  by (rule bit_word_eqI) (use assms in \<open>fastforce simp: bit_and_iff bit_imm_encode bit_inst_mask\<close>)

section \<open>The interface of an operand\<close>

text \<open>
  What the instruction encoders and decoders rely on: reading back a written value gives the
  value, an operand writes only the instruction bits it owns, and reading depends on those bits
  only.
\<close>

locale operand_codec =
  fixes dec :: "u64 \<Rightarrow> u64" and enc :: "u64 \<Rightarrow> u64" and owned :: u64 and valid :: "u64 \<Rightarrow> bool"
  assumes dec_enc: "valid x \<Longrightarrow> dec (enc x) = x"
    and enc_owned: "enc x AND owned = enc x"
    and dec_owned: "a AND owned = b AND owned \<Longrightarrow> dec a = dec b"
    and enc_dec: "enc (dec w) = w AND owned"
    and valid_dec: "valid (dec w)"
begin

text \<open>Whatever else is in the word, the operand reads back as long as nothing else touches its bits.\<close>

lemma dec_enc_or:
  assumes "valid x" and "y AND owned = enc x AND owned \<or> y AND owned = 0"
  shows "dec (enc x OR y) = x"
proof -
  have "(enc x OR y) AND owned = enc x AND owned"
    using assms(2) by (auto simp: bit.conj_disj_distrib2)
  then have "dec (enc x OR y) = dec (enc x)" by (rule dec_owned)
  then show ?thesis by (simp add: dec_enc [OF assms(1)])
qed

lemma dec_of_owned:
  assumes "valid x" and "w AND owned = enc x"
  shows "dec w = x"
proof -
  have "dec w = dec (enc x)" by (rule dec_owned) (simp add: assms(2) enc_owned)
  then show ?thesis by (simp add: dec_enc [OF assms(1)])
qed

lemma enc_outside:
  assumes "m AND owned = 0"
  shows "enc x AND m = 0"
proof -
  have "enc x AND m = (enc x AND owned) AND m" by (simp add: enc_owned)
  also have "\<dots> = enc x AND (m AND owned)" by (simp only: ac_simps)
  finally show ?thesis using assms by simp
qed

lemma enc_inj: "valid x \<Longrightarrow> valid y \<Longrightarrow> enc x = enc y \<Longrightarrow> x = y"
  by (metis dec_enc)

end

lemma sign_extend_idem: "0 < w \<Longrightarrow> w \<le> 64 \<Longrightarrow> sign_extend w (sign_extend w x) = sign_extend w x"
  by (rule bit_word_eqI) (auto simp: sign_extend_def bit_signed_take_bit_iff)

lemma bit_sign_extend:
  "0 < w \<Longrightarrow> w \<le> 64 \<Longrightarrow> bit (sign_extend w x) i \<longleftrightarrow> i < 64 \<and> bit x (min (w - 1) i)"
  by (auto simp: sign_extend_def bit_signed_take_bit_iff possible_bit_def)

lemma bit_sign_extend_low: "i < w \<Longrightarrow> w \<le> 64 \<Longrightarrow> bit (sign_extend w x) i = bit x i"
  by (simp add: bit_sign_extend min_absorb2)

lemma operand_encode_decode:
  assumes "operand_wf opd"
  shows "operand_encode opd (operand_decode opd w) = w AND inst_mask (op_segs opd)"
proof -
  have ok: "list_all piece_ok (imm_pieces (op_segs opd))" "all_apart (imm_pieces (op_segs opd))"
    "list_all (\<lambda>(n, m, p). n < op_width opd) (imm_pieces (op_segs opd))"
    "0 < op_width opd" "op_width opd \<le> 64"
    using assms by (auto simp: operand_wf_def)
  have "imm_encode (op_segs opd) (sign_extend (op_width opd) x) = imm_encode (op_segs opd) x" for x
  proof (rule bit_word_eqI)
    fix j assume "j < LENGTH(64)"
    have "bit (sign_extend (op_width opd) x) (j - p + m) = bit x (j - p + m)"
      if "(n, m, p) \<in> set (imm_pieces (op_segs opd))" "p \<le> j" "j \<le> p + (n - m)" for n m p
    proof -
      have "j - p + m < op_width opd" using that ok by (fastforce simp: list_all_iff)
      then show ?thesis using ok(5) by (rule bit_sign_extend_low)
    qed
    then show "bit (imm_encode (op_segs opd) (sign_extend (op_width opd) x)) j =
        bit (imm_encode (op_segs opd) x) j"
      using ok(1) by (fastforce simp: bit_imm_encode)
  qed
  then show ?thesis
    by (simp add: operand_encode_def operand_decode_def imm_encode_decode [OF ok(1,2)])
qed

lemma imm_decode_masked:
  assumes "list_all piece_ok (imm_pieces segs)"
  shows "imm_decode segs w AND imm_mask segs = imm_decode segs w"
  by (rule bit_word_eqI) (use assms in \<open>fastforce simp: bit_and_iff bit_imm_decode bit_imm_mask\<close>)

lemma sign_extend_masked:
  assumes "operand_wf opd"
  shows "sign_extend (op_width opd) (sign_extend (op_width opd) (imm_decode (op_segs opd) w) AND
      imm_mask (op_segs opd)) = sign_extend (op_width opd) (imm_decode (op_segs opd) w)"
proof -
  have ok: "list_all piece_ok (imm_pieces (op_segs opd))"
    "list_all (\<lambda>(n, m, p). n < op_width opd) (imm_pieces (op_segs opd))"
    "0 < op_width opd" "op_width opd \<le> 64"
    using assms by (auto simp: operand_wf_def)
  have "i < op_width opd" if "bit (imm_mask (op_segs opd)) i" for i
    using that ok(1,2) by (fastforce simp: bit_imm_mask list_all_iff)
  then have "sign_extend (op_width opd) x AND imm_mask (op_segs opd) = x AND imm_mask (op_segs opd)" for x
    by (intro bit_word_eqI) (use ok(4) in \<open>auto simp: bit_and_iff bit_sign_extend_low\<close>)
  then show ?thesis by (simp add: imm_decode_masked [OF ok(1)])
qed

lemma operand_codecI:
  assumes "operand_wf opd"
  shows "operand_codec (operand_decode opd) (operand_encode opd) (inst_mask (op_segs opd))
     (operand_valid opd)"
proof
  have ok: "list_all piece_ok (imm_pieces (op_segs opd))" "all_apart (imm_pieces (op_segs opd))"
    using assms by (auto simp: operand_wf_def)
  show "operand_decode opd (operand_encode opd x) = x" if "operand_valid opd x" for x
    using that imm_decode_encode [OF ok, of x]
    by (auto simp: operand_valid_def operand_decode_def operand_encode_def split: if_splits)
  show "operand_encode opd x AND inst_mask (op_segs opd) = operand_encode opd x" for x
    by (simp add: operand_encode_def imm_encode_mask [OF ok(1)])
  show "operand_decode opd a = operand_decode opd b"
    if "a AND inst_mask (op_segs opd) = b AND inst_mask (op_segs opd)" for a b
    using imm_decode_cong [OF ok(1) that] by (simp add: operand_decode_def)
  show "operand_encode opd (operand_decode opd w) = w AND inst_mask (op_segs opd)" for w
    by (rule operand_encode_decode [OF assms])
  show "operand_valid opd (operand_decode opd w)" for w
    using sign_extend_masked [OF assms]
    by (simp add: operand_valid_def operand_decode_def imm_decode_masked [OF ok(1)])
qed

lemma all_operands_wf: "list_all operand_wf all_operands"
  by (simp add: all_operands_def operand_defs operand_wf_def)

lemma operand_codec_owned:
  assumes "operand_wf opd" and "inst_mask (op_segs opd) = M"
  shows "operand_codec (operand_decode opd) (operand_encode opd) M (operand_valid opd)"
  using operand_codecI [OF assms(1)] by (simp add: assms(2))

section \<open>Every operand satisfies the interface\<close>

lemmas operand_eval =
  operand_defs operand_wf_def inst_mask_def imm_mask_def imm_pieces_def B_mask_def

interpretation opd_rd: operand_codec "operand_decode operand_rd" "operand_encode operand_rd"
  "0xf80" "operand_valid operand_rd"
  by (rule operand_codec_owned) (simp_all add: operand_eval)

interpretation opd_rs1: operand_codec "operand_decode operand_rs1" "operand_encode operand_rs1"
  "0xf8000" "operand_valid operand_rs1"
  by (rule operand_codec_owned) (simp_all add: operand_eval)

interpretation opd_rs2: operand_codec "operand_decode operand_rs2" "operand_encode operand_rs2"
  "0x1f00000" "operand_valid operand_rs2"
  by (rule operand_codec_owned) (simp_all add: operand_eval)

interpretation opd_rs3: operand_codec "operand_decode operand_rs3" "operand_encode operand_rs3"
  "0xf8000000" "operand_valid operand_rs3"
  by (rule operand_codec_owned) (simp_all add: operand_eval)

interpretation opd_frd: operand_codec "operand_decode operand_frd" "operand_encode operand_frd"
  "0xf80" "operand_valid operand_frd"
  by (rule operand_codec_owned) (simp_all add: operand_eval)

interpretation opd_frs1: operand_codec "operand_decode operand_frs1" "operand_encode operand_frs1"
  "0xf8000" "operand_valid operand_frs1"
  by (rule operand_codec_owned) (simp_all add: operand_eval)

interpretation opd_frs2: operand_codec "operand_decode operand_frs2" "operand_encode operand_frs2"
  "0x1f00000" "operand_valid operand_frs2"
  by (rule operand_codec_owned) (simp_all add: operand_eval)

interpretation opd_frs3: operand_codec "operand_decode operand_frs3" "operand_encode operand_frs3"
  "0xf8000000" "operand_valid operand_frs3"
  by (rule operand_codec_owned) (simp_all add: operand_eval)

interpretation opd_aq: operand_codec "operand_decode operand_aq" "operand_encode operand_aq"
  "0x4000000" "operand_valid operand_aq"
  by (rule operand_codec_owned) (simp_all add: operand_eval)

interpretation opd_rl: operand_codec "operand_decode operand_rl" "operand_encode operand_rl"
  "0x2000000" "operand_valid operand_rl"
  by (rule operand_codec_owned) (simp_all add: operand_eval)

interpretation opd_pred: operand_codec "operand_decode operand_pred" "operand_encode operand_pred"
  "0xf000000" "operand_valid operand_pred"
  by (rule operand_codec_owned) (simp_all add: operand_eval)

interpretation opd_succ: operand_codec "operand_decode operand_succ" "operand_encode operand_succ"
  "0xf00000" "operand_valid operand_succ"
  by (rule operand_codec_owned) (simp_all add: operand_eval)

interpretation opd_rm: operand_codec "operand_decode operand_rm" "operand_encode operand_rm"
  "0x7000" "operand_valid operand_rm"
  by (rule operand_codec_owned) (simp_all add: operand_eval)

interpretation opd_imm20: operand_codec "operand_decode operand_imm20" "operand_encode operand_imm20"
  "0xfffff000" "operand_valid operand_imm20"
  by (rule operand_codec_owned) (simp_all add: operand_eval)

interpretation opd_oimm20: operand_codec "operand_decode operand_oimm20" "operand_encode operand_oimm20"
  "0xfffff000" "operand_valid operand_oimm20"
  by (rule operand_codec_owned) (simp_all add: operand_eval)

interpretation opd_jimm20: operand_codec "operand_decode operand_jimm20" "operand_encode operand_jimm20"
  "0xfffff000" "operand_valid operand_jimm20"
  by (rule operand_codec_owned) (simp_all add: operand_eval)

interpretation opd_imm12: operand_codec "operand_decode operand_imm12" "operand_encode operand_imm12"
  "0xfff00000" "operand_valid operand_imm12"
  by (rule operand_codec_owned) (simp_all add: operand_eval)

interpretation opd_oimm12: operand_codec "operand_decode operand_oimm12" "operand_encode operand_oimm12"
  "0xfff00000" "operand_valid operand_oimm12"
  by (rule operand_codec_owned) (simp_all add: operand_eval)

interpretation opd_csr12: operand_codec "operand_decode operand_csr12" "operand_encode operand_csr12"
  "0xfff00000" "operand_valid operand_csr12"
  by (rule operand_codec_owned) (simp_all add: operand_eval)

interpretation opd_simm12: operand_codec "operand_decode operand_simm12" "operand_encode operand_simm12"
  "0xfe000f80" "operand_valid operand_simm12"
  by (rule operand_codec_owned) (simp_all add: operand_eval)

interpretation opd_sbimm12: operand_codec "operand_decode operand_sbimm12" "operand_encode operand_sbimm12"
  "0xfe000f80" "operand_valid operand_sbimm12"
  by (rule operand_codec_owned) (simp_all add: operand_eval)

interpretation opd_zimm: operand_codec "operand_decode operand_zimm" "operand_encode operand_zimm"
  "0xf8000" "operand_valid operand_zimm"
  by (rule operand_codec_owned) (simp_all add: operand_eval)

interpretation opd_shamt5: operand_codec "operand_decode operand_shamt5" "operand_encode operand_shamt5"
  "0x1f00000" "operand_valid operand_shamt5"
  by (rule operand_codec_owned) (simp_all add: operand_eval)

interpretation opd_shamt6: operand_codec "operand_decode operand_shamt6" "operand_encode operand_shamt6"
  "0x3f00000" "operand_valid operand_shamt6"
  by (rule operand_codec_owned) (simp_all add: operand_eval)

interpretation opd_shamt7: operand_codec "operand_decode operand_shamt7" "operand_encode operand_shamt7"
  "0x7f00000" "operand_valid operand_shamt7"
  by (rule operand_codec_owned) (simp_all add: operand_eval)

interpretation opd_crd0: operand_codec "operand_decode operand_crd0" "operand_encode operand_crd0"
  "0x1000" "operand_valid operand_crd0"
  by (rule operand_codec_owned) (simp_all add: operand_eval)

interpretation opd_crdq: operand_codec "operand_decode operand_crdq" "operand_encode operand_crdq"
  "0x1c" "operand_valid operand_crdq"
  by (rule operand_codec_owned) (simp_all add: operand_eval)

interpretation opd_crs1q: operand_codec "operand_decode operand_crs1q" "operand_encode operand_crs1q"
  "0x380" "operand_valid operand_crs1q"
  by (rule operand_codec_owned) (simp_all add: operand_eval)

interpretation opd_crs1rdq: operand_codec "operand_decode operand_crs1rdq" "operand_encode operand_crs1rdq"
  "0x380" "operand_valid operand_crs1rdq"
  by (rule operand_codec_owned) (simp_all add: operand_eval)

interpretation opd_crs2q: operand_codec "operand_decode operand_crs2q" "operand_encode operand_crs2q"
  "0x1c" "operand_valid operand_crs2q"
  by (rule operand_codec_owned) (simp_all add: operand_eval)

interpretation opd_crd: operand_codec "operand_decode operand_crd" "operand_encode operand_crd"
  "0xf80" "operand_valid operand_crd"
  by (rule operand_codec_owned) (simp_all add: operand_eval)

interpretation opd_crs1: operand_codec "operand_decode operand_crs1" "operand_encode operand_crs1"
  "0xf80" "operand_valid operand_crs1"
  by (rule operand_codec_owned) (simp_all add: operand_eval)

interpretation opd_crs1rd: operand_codec "operand_decode operand_crs1rd" "operand_encode operand_crs1rd"
  "0xf80" "operand_valid operand_crs1rd"
  by (rule operand_codec_owned) (simp_all add: operand_eval)

interpretation opd_crs2: operand_codec "operand_decode operand_crs2" "operand_encode operand_crs2"
  "0x7c" "operand_valid operand_crs2"
  by (rule operand_codec_owned) (simp_all add: operand_eval)

interpretation opd_cfrdq: operand_codec "operand_decode operand_cfrdq" "operand_encode operand_cfrdq"
  "0x1c" "operand_valid operand_cfrdq"
  by (rule operand_codec_owned) (simp_all add: operand_eval)

interpretation opd_cfrs2q: operand_codec "operand_decode operand_cfrs2q" "operand_encode operand_cfrs2q"
  "0x1c" "operand_valid operand_cfrs2q"
  by (rule operand_codec_owned) (simp_all add: operand_eval)

interpretation opd_cfrs2: operand_codec "operand_decode operand_cfrs2" "operand_encode operand_cfrs2"
  "0x7c" "operand_valid operand_cfrs2"
  by (rule operand_codec_owned) (simp_all add: operand_eval)

interpretation opd_cfrd: operand_codec "operand_decode operand_cfrd" "operand_encode operand_cfrd"
  "0xf80" "operand_valid operand_cfrd"
  by (rule operand_codec_owned) (simp_all add: operand_eval)

interpretation opd_cimmsh5: operand_codec "operand_decode operand_cimmsh5" "operand_encode operand_cimmsh5"
  "0x7c" "operand_valid operand_cimmsh5"
  by (rule operand_codec_owned) (simp_all add: operand_eval)

interpretation opd_cimmsh6: operand_codec "operand_decode operand_cimmsh6" "operand_encode operand_cimmsh6"
  "0x107c" "operand_valid operand_cimmsh6"
  by (rule operand_codec_owned) (simp_all add: operand_eval)

interpretation opd_cimmi: operand_codec "operand_decode operand_cimmi" "operand_encode operand_cimmi"
  "0x107c" "operand_valid operand_cimmi"
  by (rule operand_codec_owned) (simp_all add: operand_eval)

interpretation opd_cnzimmi: operand_codec "operand_decode operand_cnzimmi" "operand_encode operand_cnzimmi"
  "0x107c" "operand_valid operand_cnzimmi"
  by (rule operand_codec_owned) (simp_all add: operand_eval)

interpretation opd_cimmui: operand_codec "operand_decode operand_cimmui" "operand_encode operand_cimmui"
  "0x107c" "operand_valid operand_cimmui"
  by (rule operand_codec_owned) (simp_all add: operand_eval)

interpretation opd_cimmlwsp: operand_codec "operand_decode operand_cimmlwsp" "operand_encode operand_cimmlwsp"
  "0x107c" "operand_valid operand_cimmlwsp"
  by (rule operand_codec_owned) (simp_all add: operand_eval)

interpretation opd_cimmldsp: operand_codec "operand_decode operand_cimmldsp" "operand_encode operand_cimmldsp"
  "0x107c" "operand_valid operand_cimmldsp"
  by (rule operand_codec_owned) (simp_all add: operand_eval)

interpretation opd_cimmlqsp: operand_codec "operand_decode operand_cimmlqsp" "operand_encode operand_cimmlqsp"
  "0x107c" "operand_valid operand_cimmlqsp"
  by (rule operand_codec_owned) (simp_all add: operand_eval)

interpretation opd_cimm16sp: operand_codec "operand_decode operand_cimm16sp" "operand_encode operand_cimm16sp"
  "0x107c" "operand_valid operand_cimm16sp"
  by (rule operand_codec_owned) (simp_all add: operand_eval)

interpretation opd_cimmj: operand_codec "operand_decode operand_cimmj" "operand_encode operand_cimmj"
  "0x1ffc" "operand_valid operand_cimmj"
  by (rule operand_codec_owned) (simp_all add: operand_eval)

interpretation opd_cimmb: operand_codec "operand_decode operand_cimmb" "operand_encode operand_cimmb"
  "0x1c7c" "operand_valid operand_cimmb"
  by (rule operand_codec_owned) (simp_all add: operand_eval)

interpretation opd_cimmswsp: operand_codec "operand_decode operand_cimmswsp" "operand_encode operand_cimmswsp"
  "0x1f80" "operand_valid operand_cimmswsp"
  by (rule operand_codec_owned) (simp_all add: operand_eval)

interpretation opd_cimmsdsp: operand_codec "operand_decode operand_cimmsdsp" "operand_encode operand_cimmsdsp"
  "0x1f80" "operand_valid operand_cimmsdsp"
  by (rule operand_codec_owned) (simp_all add: operand_eval)

interpretation opd_cimmsqsp: operand_codec "operand_decode operand_cimmsqsp" "operand_encode operand_cimmsqsp"
  "0x1f80" "operand_valid operand_cimmsqsp"
  by (rule operand_codec_owned) (simp_all add: operand_eval)

interpretation opd_cimm4spn: operand_codec "operand_decode operand_cimm4spn" "operand_encode operand_cimm4spn"
  "0x1fe0" "operand_valid operand_cimm4spn"
  by (rule operand_codec_owned) (simp_all add: operand_eval)

interpretation opd_cimmw: operand_codec "operand_decode operand_cimmw" "operand_encode operand_cimmw"
  "0x1c60" "operand_valid operand_cimmw"
  by (rule operand_codec_owned) (simp_all add: operand_eval)

interpretation opd_cimmd: operand_codec "operand_decode operand_cimmd" "operand_encode operand_cimmd"
  "0x1c60" "operand_valid operand_cimmd"
  by (rule operand_codec_owned) (simp_all add: operand_eval)

interpretation opd_cimmq: operand_codec "operand_decode operand_cimmq" "operand_encode operand_cimmq"
  "0x1c60" "operand_valid operand_cimmq"
  by (rule operand_codec_owned) (simp_all add: operand_eval)


section \<open>Properties\<close>

text \<open>
  Every operand type of \<^verbatim>\<open>operands.h\<close> is a lossless codec: a value the operand can
  carry is read back unchanged after encoding, and re-encoding what was decoded from any
  instruction word reproduces exactly the instruction bits the operand owns.
\<close>

theorem operand_round_trip:
  assumes "opd \<in> set all_operands"
  shows "(operand_valid opd x \<longrightarrow> operand_decode opd (operand_encode opd x) = x) \<and>
     operand_encode opd (operand_decode opd w) = w AND inst_mask (op_segs opd) \<and>
     operand_valid opd (operand_decode opd w)"
proof -
  have "operand_wf opd" using assms all_operands_wf by (simp add: list_all_iff)
  then have c: "operand_codec (operand_decode opd) (operand_encode opd) (inst_mask (op_segs opd))
     (operand_valid opd)" by (rule operand_codecI)
  show ?thesis
    using operand_codec.dec_enc [OF c] operand_codec.enc_dec [OF c] operand_codec.valid_dec [OF c]
    by blast
qed

theorem operand_round_trip_witness:
  "operand_jimm20 \<in> set all_operands \<and> operand_valid operand_jimm20 (- 2048) \<and>
   operand_decode operand_jimm20 (operand_encode operand_jimm20 (- 2048)) = - 2048"
proof -
  have m: "operand_jimm20 \<in> set all_operands" by (simp add: all_operands_def)
  have v: "operand_valid operand_jimm20 (- 2048)" by code_simp
  show ?thesis using operand_round_trip [OF m, of "- 2048" 0] m v by blast
qed

end
