(* ===== verification/Meta.thy ===== *)
theory Meta
  imports Prelude
begin

text \<open>
  The instruction metadata of \<^verbatim>\<open>src/src/asm/meta.h\<close> and \<^verbatim>\<open>src/src/asm/meta.cc\<close>: the
  enumerations of opcodes, codecs and constraints, and the tables indexed by opcode. An opcode
  is the number the C++ enumeration gives it, so that a table lookup is a list access; the
  codecs and the compression constraints are datatypes. An array of constraints ends with
  \<open>rvc_end\<close>, an array of compression data with an entry whose constraints are
  \<open>None\<close> (the null pointer), as in the source.
\<close>

section \<open>Enumerations\<close>

type_synonym opcode = nat

abbreviation (input) rv_op_illegal :: opcode where "rv_op_illegal \<equiv> 0"
abbreviation (input) rv_op_lui :: opcode where "rv_op_lui \<equiv> 1"
abbreviation (input) rv_op_auipc :: opcode where "rv_op_auipc \<equiv> 2"
abbreviation (input) rv_op_jal :: opcode where "rv_op_jal \<equiv> 3"
abbreviation (input) rv_op_jalr :: opcode where "rv_op_jalr \<equiv> 4"
abbreviation (input) rv_op_beq :: opcode where "rv_op_beq \<equiv> 5"
abbreviation (input) rv_op_bne :: opcode where "rv_op_bne \<equiv> 6"
abbreviation (input) rv_op_blt :: opcode where "rv_op_blt \<equiv> 7"
abbreviation (input) rv_op_bge :: opcode where "rv_op_bge \<equiv> 8"
abbreviation (input) rv_op_bltu :: opcode where "rv_op_bltu \<equiv> 9"
abbreviation (input) rv_op_bgeu :: opcode where "rv_op_bgeu \<equiv> 10"
abbreviation (input) rv_op_lb :: opcode where "rv_op_lb \<equiv> 11"
abbreviation (input) rv_op_lh :: opcode where "rv_op_lh \<equiv> 12"
abbreviation (input) rv_op_lw :: opcode where "rv_op_lw \<equiv> 13"
abbreviation (input) rv_op_lbu :: opcode where "rv_op_lbu \<equiv> 14"
abbreviation (input) rv_op_lhu :: opcode where "rv_op_lhu \<equiv> 15"
abbreviation (input) rv_op_sb :: opcode where "rv_op_sb \<equiv> 16"
abbreviation (input) rv_op_sh :: opcode where "rv_op_sh \<equiv> 17"
abbreviation (input) rv_op_sw :: opcode where "rv_op_sw \<equiv> 18"
abbreviation (input) rv_op_addi :: opcode where "rv_op_addi \<equiv> 19"
abbreviation (input) rv_op_slti :: opcode where "rv_op_slti \<equiv> 20"
abbreviation (input) rv_op_sltiu :: opcode where "rv_op_sltiu \<equiv> 21"
abbreviation (input) rv_op_xori :: opcode where "rv_op_xori \<equiv> 22"
abbreviation (input) rv_op_ori :: opcode where "rv_op_ori \<equiv> 23"
abbreviation (input) rv_op_andi :: opcode where "rv_op_andi \<equiv> 24"
abbreviation (input) rv_op_slli :: opcode where "rv_op_slli \<equiv> 25"
abbreviation (input) rv_op_srli :: opcode where "rv_op_srli \<equiv> 26"
abbreviation (input) rv_op_srai :: opcode where "rv_op_srai \<equiv> 27"
abbreviation (input) rv_op_add :: opcode where "rv_op_add \<equiv> 28"
abbreviation (input) rv_op_sub :: opcode where "rv_op_sub \<equiv> 29"
abbreviation (input) rv_op_sll :: opcode where "rv_op_sll \<equiv> 30"
abbreviation (input) rv_op_slt :: opcode where "rv_op_slt \<equiv> 31"
abbreviation (input) rv_op_sltu :: opcode where "rv_op_sltu \<equiv> 32"
abbreviation (input) rv_op_xor :: opcode where "rv_op_xor \<equiv> 33"
abbreviation (input) rv_op_srl :: opcode where "rv_op_srl \<equiv> 34"
abbreviation (input) rv_op_sra :: opcode where "rv_op_sra \<equiv> 35"
abbreviation (input) rv_op_or :: opcode where "rv_op_or \<equiv> 36"
abbreviation (input) rv_op_and :: opcode where "rv_op_and \<equiv> 37"
abbreviation (input) rv_op_fence :: opcode where "rv_op_fence \<equiv> 38"
abbreviation (input) rv_op_fence_i :: opcode where "rv_op_fence_i \<equiv> 39"
abbreviation (input) rv_op_lwu :: opcode where "rv_op_lwu \<equiv> 40"
abbreviation (input) rv_op_ld :: opcode where "rv_op_ld \<equiv> 41"
abbreviation (input) rv_op_sd :: opcode where "rv_op_sd \<equiv> 42"
abbreviation (input) rv_op_addiw :: opcode where "rv_op_addiw \<equiv> 43"
abbreviation (input) rv_op_slliw :: opcode where "rv_op_slliw \<equiv> 44"
abbreviation (input) rv_op_srliw :: opcode where "rv_op_srliw \<equiv> 45"
abbreviation (input) rv_op_sraiw :: opcode where "rv_op_sraiw \<equiv> 46"
abbreviation (input) rv_op_addw :: opcode where "rv_op_addw \<equiv> 47"
abbreviation (input) rv_op_subw :: opcode where "rv_op_subw \<equiv> 48"
abbreviation (input) rv_op_sllw :: opcode where "rv_op_sllw \<equiv> 49"
abbreviation (input) rv_op_srlw :: opcode where "rv_op_srlw \<equiv> 50"
abbreviation (input) rv_op_sraw :: opcode where "rv_op_sraw \<equiv> 51"
abbreviation (input) rv_op_ldu :: opcode where "rv_op_ldu \<equiv> 52"
abbreviation (input) rv_op_lq :: opcode where "rv_op_lq \<equiv> 53"
abbreviation (input) rv_op_sq :: opcode where "rv_op_sq \<equiv> 54"
abbreviation (input) rv_op_addid :: opcode where "rv_op_addid \<equiv> 55"
abbreviation (input) rv_op_sllid :: opcode where "rv_op_sllid \<equiv> 56"
abbreviation (input) rv_op_srlid :: opcode where "rv_op_srlid \<equiv> 57"
abbreviation (input) rv_op_sraid :: opcode where "rv_op_sraid \<equiv> 58"
abbreviation (input) rv_op_addd :: opcode where "rv_op_addd \<equiv> 59"
abbreviation (input) rv_op_subd :: opcode where "rv_op_subd \<equiv> 60"
abbreviation (input) rv_op_slld :: opcode where "rv_op_slld \<equiv> 61"
abbreviation (input) rv_op_srld :: opcode where "rv_op_srld \<equiv> 62"
abbreviation (input) rv_op_srad :: opcode where "rv_op_srad \<equiv> 63"
abbreviation (input) rv_op_mul :: opcode where "rv_op_mul \<equiv> 64"
abbreviation (input) rv_op_mulh :: opcode where "rv_op_mulh \<equiv> 65"
abbreviation (input) rv_op_mulhsu :: opcode where "rv_op_mulhsu \<equiv> 66"
abbreviation (input) rv_op_mulhu :: opcode where "rv_op_mulhu \<equiv> 67"
abbreviation (input) rv_op_div :: opcode where "rv_op_div \<equiv> 68"
abbreviation (input) rv_op_divu :: opcode where "rv_op_divu \<equiv> 69"
abbreviation (input) rv_op_rem :: opcode where "rv_op_rem \<equiv> 70"
abbreviation (input) rv_op_remu :: opcode where "rv_op_remu \<equiv> 71"
abbreviation (input) rv_op_mulw :: opcode where "rv_op_mulw \<equiv> 72"
abbreviation (input) rv_op_divw :: opcode where "rv_op_divw \<equiv> 73"
abbreviation (input) rv_op_divuw :: opcode where "rv_op_divuw \<equiv> 74"
abbreviation (input) rv_op_remw :: opcode where "rv_op_remw \<equiv> 75"
abbreviation (input) rv_op_remuw :: opcode where "rv_op_remuw \<equiv> 76"
abbreviation (input) rv_op_muld :: opcode where "rv_op_muld \<equiv> 77"
abbreviation (input) rv_op_divd :: opcode where "rv_op_divd \<equiv> 78"
abbreviation (input) rv_op_divud :: opcode where "rv_op_divud \<equiv> 79"
abbreviation (input) rv_op_remd :: opcode where "rv_op_remd \<equiv> 80"
abbreviation (input) rv_op_remud :: opcode where "rv_op_remud \<equiv> 81"
abbreviation (input) rv_op_lr_w :: opcode where "rv_op_lr_w \<equiv> 82"
abbreviation (input) rv_op_sc_w :: opcode where "rv_op_sc_w \<equiv> 83"
abbreviation (input) rv_op_amoswap_w :: opcode where "rv_op_amoswap_w \<equiv> 84"
abbreviation (input) rv_op_amoadd_w :: opcode where "rv_op_amoadd_w \<equiv> 85"
abbreviation (input) rv_op_amoxor_w :: opcode where "rv_op_amoxor_w \<equiv> 86"
abbreviation (input) rv_op_amoor_w :: opcode where "rv_op_amoor_w \<equiv> 87"
abbreviation (input) rv_op_amoand_w :: opcode where "rv_op_amoand_w \<equiv> 88"
abbreviation (input) rv_op_amomin_w :: opcode where "rv_op_amomin_w \<equiv> 89"
abbreviation (input) rv_op_amomax_w :: opcode where "rv_op_amomax_w \<equiv> 90"
abbreviation (input) rv_op_amominu_w :: opcode where "rv_op_amominu_w \<equiv> 91"
abbreviation (input) rv_op_amomaxu_w :: opcode where "rv_op_amomaxu_w \<equiv> 92"
abbreviation (input) rv_op_lr_d :: opcode where "rv_op_lr_d \<equiv> 93"
abbreviation (input) rv_op_sc_d :: opcode where "rv_op_sc_d \<equiv> 94"
abbreviation (input) rv_op_amoswap_d :: opcode where "rv_op_amoswap_d \<equiv> 95"
abbreviation (input) rv_op_amoadd_d :: opcode where "rv_op_amoadd_d \<equiv> 96"
abbreviation (input) rv_op_amoxor_d :: opcode where "rv_op_amoxor_d \<equiv> 97"
abbreviation (input) rv_op_amoor_d :: opcode where "rv_op_amoor_d \<equiv> 98"
abbreviation (input) rv_op_amoand_d :: opcode where "rv_op_amoand_d \<equiv> 99"
abbreviation (input) rv_op_amomin_d :: opcode where "rv_op_amomin_d \<equiv> 100"
abbreviation (input) rv_op_amomax_d :: opcode where "rv_op_amomax_d \<equiv> 101"
abbreviation (input) rv_op_amominu_d :: opcode where "rv_op_amominu_d \<equiv> 102"
abbreviation (input) rv_op_amomaxu_d :: opcode where "rv_op_amomaxu_d \<equiv> 103"
abbreviation (input) rv_op_lr_q :: opcode where "rv_op_lr_q \<equiv> 104"
abbreviation (input) rv_op_sc_q :: opcode where "rv_op_sc_q \<equiv> 105"
abbreviation (input) rv_op_amoswap_q :: opcode where "rv_op_amoswap_q \<equiv> 106"
abbreviation (input) rv_op_amoadd_q :: opcode where "rv_op_amoadd_q \<equiv> 107"
abbreviation (input) rv_op_amoxor_q :: opcode where "rv_op_amoxor_q \<equiv> 108"
abbreviation (input) rv_op_amoor_q :: opcode where "rv_op_amoor_q \<equiv> 109"
abbreviation (input) rv_op_amoand_q :: opcode where "rv_op_amoand_q \<equiv> 110"
abbreviation (input) rv_op_amomin_q :: opcode where "rv_op_amomin_q \<equiv> 111"
abbreviation (input) rv_op_amomax_q :: opcode where "rv_op_amomax_q \<equiv> 112"
abbreviation (input) rv_op_amominu_q :: opcode where "rv_op_amominu_q \<equiv> 113"
abbreviation (input) rv_op_amomaxu_q :: opcode where "rv_op_amomaxu_q \<equiv> 114"
abbreviation (input) rv_op_ecall :: opcode where "rv_op_ecall \<equiv> 115"
abbreviation (input) rv_op_ebreak :: opcode where "rv_op_ebreak \<equiv> 116"
abbreviation (input) rv_op_uret :: opcode where "rv_op_uret \<equiv> 117"
abbreviation (input) rv_op_sret :: opcode where "rv_op_sret \<equiv> 118"
abbreviation (input) rv_op_hret :: opcode where "rv_op_hret \<equiv> 119"
abbreviation (input) rv_op_mret :: opcode where "rv_op_mret \<equiv> 120"
abbreviation (input) rv_op_dret :: opcode where "rv_op_dret \<equiv> 121"
abbreviation (input) rv_op_sfence_vm :: opcode where "rv_op_sfence_vm \<equiv> 122"
abbreviation (input) rv_op_sfence_vma :: opcode where "rv_op_sfence_vma \<equiv> 123"
abbreviation (input) rv_op_wfi :: opcode where "rv_op_wfi \<equiv> 124"
abbreviation (input) rv_op_csrrw :: opcode where "rv_op_csrrw \<equiv> 125"
abbreviation (input) rv_op_csrrs :: opcode where "rv_op_csrrs \<equiv> 126"
abbreviation (input) rv_op_csrrc :: opcode where "rv_op_csrrc \<equiv> 127"
abbreviation (input) rv_op_csrrwi :: opcode where "rv_op_csrrwi \<equiv> 128"
abbreviation (input) rv_op_csrrsi :: opcode where "rv_op_csrrsi \<equiv> 129"
abbreviation (input) rv_op_csrrci :: opcode where "rv_op_csrrci \<equiv> 130"
abbreviation (input) rv_op_flw :: opcode where "rv_op_flw \<equiv> 131"
abbreviation (input) rv_op_fsw :: opcode where "rv_op_fsw \<equiv> 132"
abbreviation (input) rv_op_fmadd_s :: opcode where "rv_op_fmadd_s \<equiv> 133"
abbreviation (input) rv_op_fmsub_s :: opcode where "rv_op_fmsub_s \<equiv> 134"
abbreviation (input) rv_op_fnmsub_s :: opcode where "rv_op_fnmsub_s \<equiv> 135"
abbreviation (input) rv_op_fnmadd_s :: opcode where "rv_op_fnmadd_s \<equiv> 136"
abbreviation (input) rv_op_fadd_s :: opcode where "rv_op_fadd_s \<equiv> 137"
abbreviation (input) rv_op_fsub_s :: opcode where "rv_op_fsub_s \<equiv> 138"
abbreviation (input) rv_op_fmul_s :: opcode where "rv_op_fmul_s \<equiv> 139"
abbreviation (input) rv_op_fdiv_s :: opcode where "rv_op_fdiv_s \<equiv> 140"
abbreviation (input) rv_op_fsgnj_s :: opcode where "rv_op_fsgnj_s \<equiv> 141"
abbreviation (input) rv_op_fsgnjn_s :: opcode where "rv_op_fsgnjn_s \<equiv> 142"
abbreviation (input) rv_op_fsgnjx_s :: opcode where "rv_op_fsgnjx_s \<equiv> 143"
abbreviation (input) rv_op_fmin_s :: opcode where "rv_op_fmin_s \<equiv> 144"
abbreviation (input) rv_op_fmax_s :: opcode where "rv_op_fmax_s \<equiv> 145"
abbreviation (input) rv_op_fsqrt_s :: opcode where "rv_op_fsqrt_s \<equiv> 146"
abbreviation (input) rv_op_fle_s :: opcode where "rv_op_fle_s \<equiv> 147"
abbreviation (input) rv_op_flt_s :: opcode where "rv_op_flt_s \<equiv> 148"
abbreviation (input) rv_op_feq_s :: opcode where "rv_op_feq_s \<equiv> 149"
abbreviation (input) rv_op_fcvt_w_s :: opcode where "rv_op_fcvt_w_s \<equiv> 150"
abbreviation (input) rv_op_fcvt_wu_s :: opcode where "rv_op_fcvt_wu_s \<equiv> 151"
abbreviation (input) rv_op_fcvt_s_w :: opcode where "rv_op_fcvt_s_w \<equiv> 152"
abbreviation (input) rv_op_fcvt_s_wu :: opcode where "rv_op_fcvt_s_wu \<equiv> 153"
abbreviation (input) rv_op_fmv_x_s :: opcode where "rv_op_fmv_x_s \<equiv> 154"
abbreviation (input) rv_op_fclass_s :: opcode where "rv_op_fclass_s \<equiv> 155"
abbreviation (input) rv_op_fmv_s_x :: opcode where "rv_op_fmv_s_x \<equiv> 156"
abbreviation (input) rv_op_fcvt_l_s :: opcode where "rv_op_fcvt_l_s \<equiv> 157"
abbreviation (input) rv_op_fcvt_lu_s :: opcode where "rv_op_fcvt_lu_s \<equiv> 158"
abbreviation (input) rv_op_fcvt_s_l :: opcode where "rv_op_fcvt_s_l \<equiv> 159"
abbreviation (input) rv_op_fcvt_s_lu :: opcode where "rv_op_fcvt_s_lu \<equiv> 160"
abbreviation (input) rv_op_fld :: opcode where "rv_op_fld \<equiv> 161"
abbreviation (input) rv_op_fsd :: opcode where "rv_op_fsd \<equiv> 162"
abbreviation (input) rv_op_fmadd_d :: opcode where "rv_op_fmadd_d \<equiv> 163"
abbreviation (input) rv_op_fmsub_d :: opcode where "rv_op_fmsub_d \<equiv> 164"
abbreviation (input) rv_op_fnmsub_d :: opcode where "rv_op_fnmsub_d \<equiv> 165"
abbreviation (input) rv_op_fnmadd_d :: opcode where "rv_op_fnmadd_d \<equiv> 166"
abbreviation (input) rv_op_fadd_d :: opcode where "rv_op_fadd_d \<equiv> 167"
abbreviation (input) rv_op_fsub_d :: opcode where "rv_op_fsub_d \<equiv> 168"
abbreviation (input) rv_op_fmul_d :: opcode where "rv_op_fmul_d \<equiv> 169"
abbreviation (input) rv_op_fdiv_d :: opcode where "rv_op_fdiv_d \<equiv> 170"
abbreviation (input) rv_op_fsgnj_d :: opcode where "rv_op_fsgnj_d \<equiv> 171"
abbreviation (input) rv_op_fsgnjn_d :: opcode where "rv_op_fsgnjn_d \<equiv> 172"
abbreviation (input) rv_op_fsgnjx_d :: opcode where "rv_op_fsgnjx_d \<equiv> 173"
abbreviation (input) rv_op_fmin_d :: opcode where "rv_op_fmin_d \<equiv> 174"
abbreviation (input) rv_op_fmax_d :: opcode where "rv_op_fmax_d \<equiv> 175"
abbreviation (input) rv_op_fcvt_s_d :: opcode where "rv_op_fcvt_s_d \<equiv> 176"
abbreviation (input) rv_op_fcvt_d_s :: opcode where "rv_op_fcvt_d_s \<equiv> 177"
abbreviation (input) rv_op_fsqrt_d :: opcode where "rv_op_fsqrt_d \<equiv> 178"
abbreviation (input) rv_op_fle_d :: opcode where "rv_op_fle_d \<equiv> 179"
abbreviation (input) rv_op_flt_d :: opcode where "rv_op_flt_d \<equiv> 180"
abbreviation (input) rv_op_feq_d :: opcode where "rv_op_feq_d \<equiv> 181"
abbreviation (input) rv_op_fcvt_w_d :: opcode where "rv_op_fcvt_w_d \<equiv> 182"
abbreviation (input) rv_op_fcvt_wu_d :: opcode where "rv_op_fcvt_wu_d \<equiv> 183"
abbreviation (input) rv_op_fcvt_d_w :: opcode where "rv_op_fcvt_d_w \<equiv> 184"
abbreviation (input) rv_op_fcvt_d_wu :: opcode where "rv_op_fcvt_d_wu \<equiv> 185"
abbreviation (input) rv_op_fclass_d :: opcode where "rv_op_fclass_d \<equiv> 186"
abbreviation (input) rv_op_fcvt_l_d :: opcode where "rv_op_fcvt_l_d \<equiv> 187"
abbreviation (input) rv_op_fcvt_lu_d :: opcode where "rv_op_fcvt_lu_d \<equiv> 188"
abbreviation (input) rv_op_fmv_x_d :: opcode where "rv_op_fmv_x_d \<equiv> 189"
abbreviation (input) rv_op_fcvt_d_l :: opcode where "rv_op_fcvt_d_l \<equiv> 190"
abbreviation (input) rv_op_fcvt_d_lu :: opcode where "rv_op_fcvt_d_lu \<equiv> 191"
abbreviation (input) rv_op_fmv_d_x :: opcode where "rv_op_fmv_d_x \<equiv> 192"
abbreviation (input) rv_op_flq :: opcode where "rv_op_flq \<equiv> 193"
abbreviation (input) rv_op_fsq :: opcode where "rv_op_fsq \<equiv> 194"
abbreviation (input) rv_op_fmadd_q :: opcode where "rv_op_fmadd_q \<equiv> 195"
abbreviation (input) rv_op_fmsub_q :: opcode where "rv_op_fmsub_q \<equiv> 196"
abbreviation (input) rv_op_fnmsub_q :: opcode where "rv_op_fnmsub_q \<equiv> 197"
abbreviation (input) rv_op_fnmadd_q :: opcode where "rv_op_fnmadd_q \<equiv> 198"
abbreviation (input) rv_op_fadd_q :: opcode where "rv_op_fadd_q \<equiv> 199"
abbreviation (input) rv_op_fsub_q :: opcode where "rv_op_fsub_q \<equiv> 200"
abbreviation (input) rv_op_fmul_q :: opcode where "rv_op_fmul_q \<equiv> 201"
abbreviation (input) rv_op_fdiv_q :: opcode where "rv_op_fdiv_q \<equiv> 202"
abbreviation (input) rv_op_fsgnj_q :: opcode where "rv_op_fsgnj_q \<equiv> 203"
abbreviation (input) rv_op_fsgnjn_q :: opcode where "rv_op_fsgnjn_q \<equiv> 204"
abbreviation (input) rv_op_fsgnjx_q :: opcode where "rv_op_fsgnjx_q \<equiv> 205"
abbreviation (input) rv_op_fmin_q :: opcode where "rv_op_fmin_q \<equiv> 206"
abbreviation (input) rv_op_fmax_q :: opcode where "rv_op_fmax_q \<equiv> 207"
abbreviation (input) rv_op_fcvt_s_q :: opcode where "rv_op_fcvt_s_q \<equiv> 208"
abbreviation (input) rv_op_fcvt_q_s :: opcode where "rv_op_fcvt_q_s \<equiv> 209"
abbreviation (input) rv_op_fcvt_d_q :: opcode where "rv_op_fcvt_d_q \<equiv> 210"
abbreviation (input) rv_op_fcvt_q_d :: opcode where "rv_op_fcvt_q_d \<equiv> 211"
abbreviation (input) rv_op_fsqrt_q :: opcode where "rv_op_fsqrt_q \<equiv> 212"
abbreviation (input) rv_op_fle_q :: opcode where "rv_op_fle_q \<equiv> 213"
abbreviation (input) rv_op_flt_q :: opcode where "rv_op_flt_q \<equiv> 214"
abbreviation (input) rv_op_feq_q :: opcode where "rv_op_feq_q \<equiv> 215"
abbreviation (input) rv_op_fcvt_w_q :: opcode where "rv_op_fcvt_w_q \<equiv> 216"
abbreviation (input) rv_op_fcvt_wu_q :: opcode where "rv_op_fcvt_wu_q \<equiv> 217"
abbreviation (input) rv_op_fcvt_q_w :: opcode where "rv_op_fcvt_q_w \<equiv> 218"
abbreviation (input) rv_op_fcvt_q_wu :: opcode where "rv_op_fcvt_q_wu \<equiv> 219"
abbreviation (input) rv_op_fclass_q :: opcode where "rv_op_fclass_q \<equiv> 220"
abbreviation (input) rv_op_fcvt_l_q :: opcode where "rv_op_fcvt_l_q \<equiv> 221"
abbreviation (input) rv_op_fcvt_lu_q :: opcode where "rv_op_fcvt_lu_q \<equiv> 222"
abbreviation (input) rv_op_fcvt_q_l :: opcode where "rv_op_fcvt_q_l \<equiv> 223"
abbreviation (input) rv_op_fcvt_q_lu :: opcode where "rv_op_fcvt_q_lu \<equiv> 224"
abbreviation (input) rv_op_fmv_x_q :: opcode where "rv_op_fmv_x_q \<equiv> 225"
abbreviation (input) rv_op_fmv_q_x :: opcode where "rv_op_fmv_q_x \<equiv> 226"
abbreviation (input) rv_op_c_addi4spn :: opcode where "rv_op_c_addi4spn \<equiv> 227"
abbreviation (input) rv_op_c_fld :: opcode where "rv_op_c_fld \<equiv> 228"
abbreviation (input) rv_op_c_lw :: opcode where "rv_op_c_lw \<equiv> 229"
abbreviation (input) rv_op_c_flw :: opcode where "rv_op_c_flw \<equiv> 230"
abbreviation (input) rv_op_c_fsd :: opcode where "rv_op_c_fsd \<equiv> 231"
abbreviation (input) rv_op_c_sw :: opcode where "rv_op_c_sw \<equiv> 232"
abbreviation (input) rv_op_c_fsw :: opcode where "rv_op_c_fsw \<equiv> 233"
abbreviation (input) rv_op_c_nop :: opcode where "rv_op_c_nop \<equiv> 234"
abbreviation (input) rv_op_c_addi :: opcode where "rv_op_c_addi \<equiv> 235"
abbreviation (input) rv_op_c_jal :: opcode where "rv_op_c_jal \<equiv> 236"
abbreviation (input) rv_op_c_li :: opcode where "rv_op_c_li \<equiv> 237"
abbreviation (input) rv_op_c_addi16sp :: opcode where "rv_op_c_addi16sp \<equiv> 238"
abbreviation (input) rv_op_c_lui :: opcode where "rv_op_c_lui \<equiv> 239"
abbreviation (input) rv_op_c_srli :: opcode where "rv_op_c_srli \<equiv> 240"
abbreviation (input) rv_op_c_srai :: opcode where "rv_op_c_srai \<equiv> 241"
abbreviation (input) rv_op_c_andi :: opcode where "rv_op_c_andi \<equiv> 242"
abbreviation (input) rv_op_c_sub :: opcode where "rv_op_c_sub \<equiv> 243"
abbreviation (input) rv_op_c_xor :: opcode where "rv_op_c_xor \<equiv> 244"
abbreviation (input) rv_op_c_or :: opcode where "rv_op_c_or \<equiv> 245"
abbreviation (input) rv_op_c_and :: opcode where "rv_op_c_and \<equiv> 246"
abbreviation (input) rv_op_c_subw :: opcode where "rv_op_c_subw \<equiv> 247"
abbreviation (input) rv_op_c_addw :: opcode where "rv_op_c_addw \<equiv> 248"
abbreviation (input) rv_op_c_j :: opcode where "rv_op_c_j \<equiv> 249"
abbreviation (input) rv_op_c_beqz :: opcode where "rv_op_c_beqz \<equiv> 250"
abbreviation (input) rv_op_c_bnez :: opcode where "rv_op_c_bnez \<equiv> 251"
abbreviation (input) rv_op_c_slli :: opcode where "rv_op_c_slli \<equiv> 252"
abbreviation (input) rv_op_c_fldsp :: opcode where "rv_op_c_fldsp \<equiv> 253"
abbreviation (input) rv_op_c_lwsp :: opcode where "rv_op_c_lwsp \<equiv> 254"
abbreviation (input) rv_op_c_flwsp :: opcode where "rv_op_c_flwsp \<equiv> 255"
abbreviation (input) rv_op_c_jr :: opcode where "rv_op_c_jr \<equiv> 256"
abbreviation (input) rv_op_c_mv :: opcode where "rv_op_c_mv \<equiv> 257"
abbreviation (input) rv_op_c_ebreak :: opcode where "rv_op_c_ebreak \<equiv> 258"
abbreviation (input) rv_op_c_jalr :: opcode where "rv_op_c_jalr \<equiv> 259"
abbreviation (input) rv_op_c_add :: opcode where "rv_op_c_add \<equiv> 260"
abbreviation (input) rv_op_c_fsdsp :: opcode where "rv_op_c_fsdsp \<equiv> 261"
abbreviation (input) rv_op_c_swsp :: opcode where "rv_op_c_swsp \<equiv> 262"
abbreviation (input) rv_op_c_fswsp :: opcode where "rv_op_c_fswsp \<equiv> 263"
abbreviation (input) rv_op_c_ld :: opcode where "rv_op_c_ld \<equiv> 264"
abbreviation (input) rv_op_c_sd :: opcode where "rv_op_c_sd \<equiv> 265"
abbreviation (input) rv_op_c_addiw :: opcode where "rv_op_c_addiw \<equiv> 266"
abbreviation (input) rv_op_c_ldsp :: opcode where "rv_op_c_ldsp \<equiv> 267"
abbreviation (input) rv_op_c_sdsp :: opcode where "rv_op_c_sdsp \<equiv> 268"
abbreviation (input) rv_op_c_lq :: opcode where "rv_op_c_lq \<equiv> 269"
abbreviation (input) rv_op_c_sq :: opcode where "rv_op_c_sq \<equiv> 270"
abbreviation (input) rv_op_c_lqsp :: opcode where "rv_op_c_lqsp \<equiv> 271"
abbreviation (input) rv_op_c_sqsp :: opcode where "rv_op_c_sqsp \<equiv> 272"
abbreviation (input) rv_op_nop :: opcode where "rv_op_nop \<equiv> 273"
abbreviation (input) rv_op_mv :: opcode where "rv_op_mv \<equiv> 274"
abbreviation (input) rv_op_not :: opcode where "rv_op_not \<equiv> 275"
abbreviation (input) rv_op_neg :: opcode where "rv_op_neg \<equiv> 276"
abbreviation (input) rv_op_negw :: opcode where "rv_op_negw \<equiv> 277"
abbreviation (input) rv_op_sext_w :: opcode where "rv_op_sext_w \<equiv> 278"
abbreviation (input) rv_op_seqz :: opcode where "rv_op_seqz \<equiv> 279"
abbreviation (input) rv_op_snez :: opcode where "rv_op_snez \<equiv> 280"
abbreviation (input) rv_op_sltz :: opcode where "rv_op_sltz \<equiv> 281"
abbreviation (input) rv_op_sgtz :: opcode where "rv_op_sgtz \<equiv> 282"
abbreviation (input) rv_op_fmv_s :: opcode where "rv_op_fmv_s \<equiv> 283"
abbreviation (input) rv_op_fabs_s :: opcode where "rv_op_fabs_s \<equiv> 284"
abbreviation (input) rv_op_fneg_s :: opcode where "rv_op_fneg_s \<equiv> 285"
abbreviation (input) rv_op_fmv_d :: opcode where "rv_op_fmv_d \<equiv> 286"
abbreviation (input) rv_op_fabs_d :: opcode where "rv_op_fabs_d \<equiv> 287"
abbreviation (input) rv_op_fneg_d :: opcode where "rv_op_fneg_d \<equiv> 288"
abbreviation (input) rv_op_fmv_q :: opcode where "rv_op_fmv_q \<equiv> 289"
abbreviation (input) rv_op_fabs_q :: opcode where "rv_op_fabs_q \<equiv> 290"
abbreviation (input) rv_op_fneg_q :: opcode where "rv_op_fneg_q \<equiv> 291"
abbreviation (input) rv_op_beqz :: opcode where "rv_op_beqz \<equiv> 292"
abbreviation (input) rv_op_bnez :: opcode where "rv_op_bnez \<equiv> 293"
abbreviation (input) rv_op_blez :: opcode where "rv_op_blez \<equiv> 294"
abbreviation (input) rv_op_bgez :: opcode where "rv_op_bgez \<equiv> 295"
abbreviation (input) rv_op_bltz :: opcode where "rv_op_bltz \<equiv> 296"
abbreviation (input) rv_op_bgtz :: opcode where "rv_op_bgtz \<equiv> 297"
abbreviation (input) rv_op_ble :: opcode where "rv_op_ble \<equiv> 298"
abbreviation (input) rv_op_bleu :: opcode where "rv_op_bleu \<equiv> 299"
abbreviation (input) rv_op_bgt :: opcode where "rv_op_bgt \<equiv> 300"
abbreviation (input) rv_op_bgtu :: opcode where "rv_op_bgtu \<equiv> 301"
abbreviation (input) rv_op_j :: opcode where "rv_op_j \<equiv> 302"
abbreviation (input) rv_op_ret :: opcode where "rv_op_ret \<equiv> 303"
abbreviation (input) rv_op_jr :: opcode where "rv_op_jr \<equiv> 304"
abbreviation (input) rv_op_rdcycle :: opcode where "rv_op_rdcycle \<equiv> 305"
abbreviation (input) rv_op_rdtime :: opcode where "rv_op_rdtime \<equiv> 306"
abbreviation (input) rv_op_rdinstret :: opcode where "rv_op_rdinstret \<equiv> 307"
abbreviation (input) rv_op_rdcycleh :: opcode where "rv_op_rdcycleh \<equiv> 308"
abbreviation (input) rv_op_rdtimeh :: opcode where "rv_op_rdtimeh \<equiv> 309"
abbreviation (input) rv_op_rdinstreth :: opcode where "rv_op_rdinstreth \<equiv> 310"
abbreviation (input) rv_op_frcsr :: opcode where "rv_op_frcsr \<equiv> 311"
abbreviation (input) rv_op_frrm :: opcode where "rv_op_frrm \<equiv> 312"
abbreviation (input) rv_op_frflags :: opcode where "rv_op_frflags \<equiv> 313"
abbreviation (input) rv_op_fscsr :: opcode where "rv_op_fscsr \<equiv> 314"
abbreviation (input) rv_op_fsrm :: opcode where "rv_op_fsrm \<equiv> 315"
abbreviation (input) rv_op_fsflags :: opcode where "rv_op_fsflags \<equiv> 316"
abbreviation (input) rv_op_fsrmi :: opcode where "rv_op_fsrmi \<equiv> 317"
abbreviation (input) rv_op_fsflagsi :: opcode where "rv_op_fsflagsi \<equiv> 318"

datatype rv_codec =
  rv_codec_illegal | rv_codec_none | rv_codec_u | rv_codec_uj
| rv_codec_i | rv_codec_i_sh5 | rv_codec_i_sh6 | rv_codec_i_sh7
| rv_codec_i_csr | rv_codec_s | rv_codec_sb | rv_codec_r
| rv_codec_r_m | rv_codec_r4_m | rv_codec_r_a | rv_codec_r_l
| rv_codec_r_f | rv_codec_cb | rv_codec_cb_imm | rv_codec_cb_sh5
| rv_codec_cb_sh6 | rv_codec_ci | rv_codec_ci_sh5 | rv_codec_ci_sh6
| rv_codec_ci_16sp | rv_codec_ci_lwsp | rv_codec_ci_ldsp | rv_codec_ci_lqsp
| rv_codec_ci_li | rv_codec_ci_lui | rv_codec_ci_none | rv_codec_ciw_4spn
| rv_codec_cj | rv_codec_cj_jal | rv_codec_cl_lw | rv_codec_cl_ld
| rv_codec_cl_lq | rv_codec_cr | rv_codec_cr_mv | rv_codec_cr_jalr
| rv_codec_cr_jr | rv_codec_cs | rv_codec_cs_sw | rv_codec_cs_sd
| rv_codec_cs_sq | rv_codec_css_swsp | rv_codec_css_sdsp | rv_codec_css_sqsp

datatype rvc_constraint =
  rvc_end | rvc_simm_6 | rvc_simm_9 | rvc_simm_10
| rvc_simm_12 | rvc_imm_5 | rvc_imm_6 | rvc_imm_7
| rvc_imm_8 | rvc_imm_9 | rvc_imm_10 | rvc_imm_12
| rvc_imm_18 | rvc_imm_nz | rvc_imm_x2 | rvc_imm_x4
| rvc_imm_x8 | rvc_imm_x16 | rvc_rd_b3 | rvc_rs1_b3
| rvc_rs2_b3 | rvc_rd_eq_rs1 | rvc_rd_eq_ra | rvc_rd_eq_sp
| rvc_rd_eq_x0 | rvc_rs1_eq_sp | rvc_rs1_eq_x0 | rvc_rs2_eq_x0
| rvc_rd_ne_x0_x2 | rvc_rd_ne_x0 | rvc_rs1_ne_x0 | rvc_rs2_ne_x0
| rvc_rs2_eq_rs1 | rvc_rs1_eq_ra | rvc_imm_eq_zero | rvc_imm_eq_n1
| rvc_imm_eq_p1 | rvc_csr_eq_0x001 | rvc_csr_eq_0x002 | rvc_csr_eq_0x003
| rvc_csr_eq_0xc00 | rvc_csr_eq_0xc01 | rvc_csr_eq_0xc02 | rvc_csr_eq_0xc80
| rvc_csr_eq_0xc81 | rvc_csr_eq_0xc82

text \<open>\<^verbatim>\<open>struct rv_comp_data\<close>: an opcode and a pointer to its constraints.\<close>

type_synonym rv_comp_data = "opcode \<times> rvc_constraint list option"

section \<open>Constraint arrays\<close>

definition rvcc_c_addi4spn :: "rvc_constraint list" where
  "rvcc_c_addi4spn = [rvc_imm_10, rvc_imm_x4, rvc_imm_nz, rvc_rd_b3, rvc_rs1_eq_sp, rvc_end]"

definition rvcc_c_fld :: "rvc_constraint list" where
  "rvcc_c_fld = [rvc_imm_8, rvc_imm_x8, rvc_rd_b3, rvc_rs1_b3, rvc_end]"

definition rvcc_c_lw :: "rvc_constraint list" where
  "rvcc_c_lw = [rvc_imm_7, rvc_imm_x4, rvc_rd_b3, rvc_rs1_b3, rvc_end]"

definition rvcc_c_flw :: "rvc_constraint list" where
  "rvcc_c_flw = [rvc_imm_7, rvc_imm_x4, rvc_rd_b3, rvc_rs1_b3, rvc_end]"

definition rvcc_c_fsd :: "rvc_constraint list" where
  "rvcc_c_fsd = [rvc_imm_8, rvc_imm_x8, rvc_rs1_b3, rvc_rs2_b3, rvc_end]"

definition rvcc_c_sw :: "rvc_constraint list" where
  "rvcc_c_sw = [rvc_imm_7, rvc_imm_x4, rvc_rs1_b3, rvc_rs2_b3, rvc_end]"

definition rvcc_c_fsw :: "rvc_constraint list" where
  "rvcc_c_fsw = [rvc_imm_7, rvc_imm_x4, rvc_rs1_b3, rvc_rs2_b3, rvc_end]"

definition rvcc_c_nop :: "rvc_constraint list" where
  "rvcc_c_nop = [rvc_rd_eq_x0, rvc_rs1_eq_x0, rvc_rs2_eq_x0, rvc_end]"

definition rvcc_c_addi :: "rvc_constraint list" where
  "rvcc_c_addi = [rvc_simm_6, rvc_imm_nz, rvc_rd_ne_x0, rvc_rd_eq_rs1, rvc_end]"

definition rvcc_c_jal :: "rvc_constraint list" where
  "rvcc_c_jal = [rvc_imm_12, rvc_imm_x2, rvc_rd_eq_ra, rvc_end]"

definition rvcc_c_li :: "rvc_constraint list" where
  "rvcc_c_li = [rvc_simm_6, rvc_rd_ne_x0, rvc_rs1_eq_x0, rvc_end]"

definition rvcc_c_addi16sp :: "rvc_constraint list" where
  "rvcc_c_addi16sp = [rvc_simm_10, rvc_imm_x4, rvc_imm_nz, rvc_rd_eq_sp, rvc_rs1_eq_sp, rvc_end]"

definition rvcc_c_lui :: "rvc_constraint list" where
  "rvcc_c_lui = [rvc_imm_18, rvc_imm_nz, rvc_rd_ne_x0_x2, rvc_end]"

definition rvcc_c_srli_rv32c :: "rvc_constraint list" where
  "rvcc_c_srli_rv32c = [rvc_imm_5, rvc_imm_nz, rvc_rd_eq_rs1, rvc_rd_b3, rvc_rs1_b3, rvc_end]"

definition rvcc_c_srai_rv32c :: "rvc_constraint list" where
  "rvcc_c_srai_rv32c = [rvc_imm_5, rvc_imm_nz, rvc_rd_eq_rs1, rvc_rd_b3, rvc_rs1_b3, rvc_end]"

definition rvcc_c_andi :: "rvc_constraint list" where
  "rvcc_c_andi = [rvc_imm_5, rvc_imm_nz, rvc_rd_eq_rs1, rvc_rd_b3, rvc_rs1_b3, rvc_end]"

definition rvcc_c_sub :: "rvc_constraint list" where
  "rvcc_c_sub = [rvc_rd_eq_rs1, rvc_rd_b3, rvc_rs1_b3, rvc_rs2_b3, rvc_end]"

definition rvcc_c_xor :: "rvc_constraint list" where
  "rvcc_c_xor = [rvc_rd_eq_rs1, rvc_rd_b3, rvc_rs1_b3, rvc_rs2_b3, rvc_end]"

definition rvcc_c_or :: "rvc_constraint list" where
  "rvcc_c_or = [rvc_rd_eq_rs1, rvc_rd_b3, rvc_rs1_b3, rvc_rs2_b3, rvc_end]"

definition rvcc_c_and :: "rvc_constraint list" where
  "rvcc_c_and = [rvc_rd_eq_rs1, rvc_rd_b3, rvc_rs1_b3, rvc_rs2_b3, rvc_end]"

definition rvcc_c_subw :: "rvc_constraint list" where
  "rvcc_c_subw = [rvc_rd_eq_rs1, rvc_rd_b3, rvc_rs1_b3, rvc_rs2_b3, rvc_end]"

definition rvcc_c_addw :: "rvc_constraint list" where
  "rvcc_c_addw = [rvc_rd_eq_rs1, rvc_rd_b3, rvc_rs1_b3, rvc_rs2_b3, rvc_end]"

definition rvcc_c_j :: "rvc_constraint list" where
  "rvcc_c_j = [rvc_simm_12, rvc_imm_x2, rvc_rd_eq_x0, rvc_end]"

definition rvcc_c_beqz :: "rvc_constraint list" where
  "rvcc_c_beqz = [rvc_simm_9, rvc_imm_x2, rvc_rs1_b3, rvc_rs2_eq_x0, rvc_end]"

definition rvcc_c_bnez :: "rvc_constraint list" where
  "rvcc_c_bnez = [rvc_simm_9, rvc_imm_x2, rvc_rs1_b3, rvc_rs2_eq_x0, rvc_end]"

definition rvcc_c_slli_rv32c :: "rvc_constraint list" where
  "rvcc_c_slli_rv32c = [rvc_imm_5, rvc_imm_nz, rvc_rd_ne_x0, rvc_rd_eq_rs1, rvc_end]"

definition rvcc_c_fldsp :: "rvc_constraint list" where
  "rvcc_c_fldsp = [rvc_imm_9, rvc_imm_x8, rvc_rs1_eq_sp, rvc_end]"

definition rvcc_c_lwsp :: "rvc_constraint list" where
  "rvcc_c_lwsp = [rvc_imm_8, rvc_imm_x4, rvc_rd_ne_x0, rvc_rs1_eq_sp, rvc_end]"

definition rvcc_c_flwsp :: "rvc_constraint list" where
  "rvcc_c_flwsp = [rvc_imm_8, rvc_imm_x4, rvc_rs1_eq_sp, rvc_end]"

definition rvcc_c_jr :: "rvc_constraint list" where
  "rvcc_c_jr = [rvc_imm_eq_zero, rvc_rd_eq_x0, rvc_rs1_ne_x0, rvc_end]"

definition rvcc_c_mv :: "rvc_constraint list" where
  "rvcc_c_mv = [rvc_imm_eq_zero, rvc_rd_ne_x0, rvc_end]"

definition rvcc_c_ebreak :: "rvc_constraint list" where
  "rvcc_c_ebreak = [rvc_end]"

definition rvcc_c_jalr :: "rvc_constraint list" where
  "rvcc_c_jalr = [rvc_imm_eq_zero, rvc_rd_eq_ra, rvc_rs1_ne_x0, rvc_end]"

definition rvcc_c_add :: "rvc_constraint list" where
  "rvcc_c_add = [rvc_rd_eq_rs1, rvc_rd_ne_x0, rvc_rs2_ne_x0, rvc_end]"

definition rvcc_c_fsdsp :: "rvc_constraint list" where
  "rvcc_c_fsdsp = [rvc_imm_9, rvc_imm_x8, rvc_rs1_eq_sp, rvc_end]"

definition rvcc_c_swsp :: "rvc_constraint list" where
  "rvcc_c_swsp = [rvc_imm_8, rvc_imm_x4, rvc_rs1_eq_sp, rvc_end]"

definition rvcc_c_fswsp :: "rvc_constraint list" where
  "rvcc_c_fswsp = [rvc_imm_8, rvc_imm_x4, rvc_rs1_eq_sp, rvc_end]"

definition rvcc_c_ld :: "rvc_constraint list" where
  "rvcc_c_ld = [rvc_imm_8, rvc_imm_x8, rvc_rd_b3, rvc_rs1_b3, rvc_end]"

definition rvcc_c_sd :: "rvc_constraint list" where
  "rvcc_c_sd = [rvc_imm_8, rvc_imm_x8, rvc_rs1_b3, rvc_rs2_b3, rvc_end]"

definition rvcc_c_addiw :: "rvc_constraint list" where
  "rvcc_c_addiw = [rvc_simm_6, rvc_rd_ne_x0, rvc_rd_eq_rs1, rvc_end]"

definition rvcc_c_srli_rv64c :: "rvc_constraint list" where
  "rvcc_c_srli_rv64c = [rvc_imm_5, rvc_imm_nz, rvc_rd_eq_rs1, rvc_rd_b3, rvc_rs1_b3, rvc_end]"

definition rvcc_c_srai_rv64c :: "rvc_constraint list" where
  "rvcc_c_srai_rv64c = [rvc_imm_5, rvc_imm_nz, rvc_rd_eq_rs1, rvc_rd_b3, rvc_rs1_b3, rvc_end]"

definition rvcc_c_slli_rv64c :: "rvc_constraint list" where
  "rvcc_c_slli_rv64c = [rvc_imm_5, rvc_imm_nz, rvc_rd_ne_x0, rvc_rd_eq_rs1, rvc_end]"

definition rvcc_c_ldsp :: "rvc_constraint list" where
  "rvcc_c_ldsp = [rvc_imm_9, rvc_imm_x8, rvc_rd_ne_x0, rvc_rs1_eq_sp, rvc_end]"

definition rvcc_c_sdsp :: "rvc_constraint list" where
  "rvcc_c_sdsp = [rvc_imm_9, rvc_imm_x8, rvc_rs1_eq_sp, rvc_end]"

definition rvcc_c_lq :: "rvc_constraint list" where
  "rvcc_c_lq = [rvc_imm_9, rvc_imm_x16, rvc_end]"

definition rvcc_c_sq :: "rvc_constraint list" where
  "rvcc_c_sq = [rvc_imm_9, rvc_imm_x16, rvc_end]"

definition rvcc_c_lqsp :: "rvc_constraint list" where
  "rvcc_c_lqsp = [rvc_imm_10, rvc_imm_x16, rvc_rs1_eq_sp, rvc_end]"

definition rvcc_c_sqsp :: "rvc_constraint list" where
  "rvcc_c_sqsp = [rvc_imm_10, rvc_imm_x16, rvc_rs1_eq_sp, rvc_end]"

definition rvcc_jal :: "rvc_constraint list" where
  "rvcc_jal = [rvc_rd_eq_ra, rvc_end]"

definition rvcc_jalr :: "rvc_constraint list" where
  "rvcc_jalr = [rvc_rd_eq_ra, rvc_imm_eq_zero, rvc_end]"

definition rvcc_nop :: "rvc_constraint list" where
  "rvcc_nop = [rvc_rd_eq_x0, rvc_rs1_eq_x0, rvc_imm_eq_zero, rvc_end]"

definition rvcc_mv :: "rvc_constraint list" where
  "rvcc_mv = [rvc_imm_eq_zero, rvc_end]"

definition rvcc_not :: "rvc_constraint list" where
  "rvcc_not = [rvc_imm_eq_n1, rvc_end]"

definition rvcc_neg :: "rvc_constraint list" where
  "rvcc_neg = [rvc_rs1_eq_x0, rvc_end]"

definition rvcc_negw :: "rvc_constraint list" where
  "rvcc_negw = [rvc_rs1_eq_x0, rvc_end]"

definition rvcc_sext_w :: "rvc_constraint list" where
  "rvcc_sext_w = [rvc_imm_eq_zero, rvc_end]"

definition rvcc_seqz :: "rvc_constraint list" where
  "rvcc_seqz = [rvc_imm_eq_p1, rvc_end]"

definition rvcc_snez :: "rvc_constraint list" where
  "rvcc_snez = [rvc_rs1_eq_x0, rvc_end]"

definition rvcc_sltz :: "rvc_constraint list" where
  "rvcc_sltz = [rvc_rs2_eq_x0, rvc_end]"

definition rvcc_sgtz :: "rvc_constraint list" where
  "rvcc_sgtz = [rvc_rs1_eq_x0, rvc_end]"

definition rvcc_fmv_s :: "rvc_constraint list" where
  "rvcc_fmv_s = [rvc_rs2_eq_rs1, rvc_end]"

definition rvcc_fabs_s :: "rvc_constraint list" where
  "rvcc_fabs_s = [rvc_rs2_eq_rs1, rvc_end]"

definition rvcc_fneg_s :: "rvc_constraint list" where
  "rvcc_fneg_s = [rvc_rs2_eq_rs1, rvc_end]"

definition rvcc_fmv_d :: "rvc_constraint list" where
  "rvcc_fmv_d = [rvc_rs2_eq_rs1, rvc_end]"

definition rvcc_fabs_d :: "rvc_constraint list" where
  "rvcc_fabs_d = [rvc_rs2_eq_rs1, rvc_end]"

definition rvcc_fneg_d :: "rvc_constraint list" where
  "rvcc_fneg_d = [rvc_rs2_eq_rs1, rvc_end]"

definition rvcc_fmv_q :: "rvc_constraint list" where
  "rvcc_fmv_q = [rvc_rs2_eq_rs1, rvc_end]"

definition rvcc_fabs_q :: "rvc_constraint list" where
  "rvcc_fabs_q = [rvc_rs2_eq_rs1, rvc_end]"

definition rvcc_fneg_q :: "rvc_constraint list" where
  "rvcc_fneg_q = [rvc_rs2_eq_rs1, rvc_end]"

definition rvcc_beqz :: "rvc_constraint list" where
  "rvcc_beqz = [rvc_rs2_eq_x0, rvc_end]"

definition rvcc_bnez :: "rvc_constraint list" where
  "rvcc_bnez = [rvc_rs2_eq_x0, rvc_end]"

definition rvcc_blez :: "rvc_constraint list" where
  "rvcc_blez = [rvc_rs1_eq_x0, rvc_end]"

definition rvcc_bgez :: "rvc_constraint list" where
  "rvcc_bgez = [rvc_rs2_eq_x0, rvc_end]"

definition rvcc_bltz :: "rvc_constraint list" where
  "rvcc_bltz = [rvc_rs2_eq_x0, rvc_end]"

definition rvcc_bgtz :: "rvc_constraint list" where
  "rvcc_bgtz = [rvc_rs1_eq_x0, rvc_end]"

definition rvcc_ble :: "rvc_constraint list" where
  "rvcc_ble = [rvc_end]"

definition rvcc_bleu :: "rvc_constraint list" where
  "rvcc_bleu = [rvc_end]"

definition rvcc_bgt :: "rvc_constraint list" where
  "rvcc_bgt = [rvc_end]"

definition rvcc_bgtu :: "rvc_constraint list" where
  "rvcc_bgtu = [rvc_end]"

definition rvcc_j :: "rvc_constraint list" where
  "rvcc_j = [rvc_rd_eq_x0, rvc_end]"

definition rvcc_ret :: "rvc_constraint list" where
  "rvcc_ret = [rvc_rd_eq_x0, rvc_rs1_eq_ra, rvc_end]"

definition rvcc_jr :: "rvc_constraint list" where
  "rvcc_jr = [rvc_rd_eq_x0, rvc_imm_eq_zero, rvc_end]"

definition rvcc_rdcycle :: "rvc_constraint list" where
  "rvcc_rdcycle = [rvc_rs1_eq_x0, rvc_csr_eq_0xc00, rvc_end]"

definition rvcc_rdtime :: "rvc_constraint list" where
  "rvcc_rdtime = [rvc_rs1_eq_x0, rvc_csr_eq_0xc01, rvc_end]"

definition rvcc_rdinstret :: "rvc_constraint list" where
  "rvcc_rdinstret = [rvc_rs1_eq_x0, rvc_csr_eq_0xc02, rvc_end]"

definition rvcc_rdcycleh :: "rvc_constraint list" where
  "rvcc_rdcycleh = [rvc_rs1_eq_x0, rvc_csr_eq_0xc80, rvc_end]"

definition rvcc_rdtimeh :: "rvc_constraint list" where
  "rvcc_rdtimeh = [rvc_rs1_eq_x0, rvc_csr_eq_0xc81, rvc_end]"

definition rvcc_rdinstreth :: "rvc_constraint list" where
  "rvcc_rdinstreth = [rvc_rs1_eq_x0, rvc_csr_eq_0xc82, rvc_end]"

definition rvcc_frcsr :: "rvc_constraint list" where
  "rvcc_frcsr = [rvc_rs1_eq_x0, rvc_csr_eq_0x003, rvc_end]"

definition rvcc_frrm :: "rvc_constraint list" where
  "rvcc_frrm = [rvc_rs1_eq_x0, rvc_csr_eq_0x002, rvc_end]"

definition rvcc_frflags :: "rvc_constraint list" where
  "rvcc_frflags = [rvc_rs1_eq_x0, rvc_csr_eq_0x001, rvc_end]"

definition rvcc_fscsr :: "rvc_constraint list" where
  "rvcc_fscsr = [rvc_csr_eq_0x003, rvc_end]"

definition rvcc_fsrm :: "rvc_constraint list" where
  "rvcc_fsrm = [rvc_csr_eq_0x002, rvc_end]"

definition rvcc_fsflags :: "rvc_constraint list" where
  "rvcc_fsflags = [rvc_csr_eq_0x001, rvc_end]"

definition rvcc_fsrmi :: "rvc_constraint list" where
  "rvcc_fsrmi = [rvc_csr_eq_0x002, rvc_end]"

definition rvcc_fsflagsi :: "rvc_constraint list" where
  "rvcc_fsflagsi = [rvc_csr_eq_0x001, rvc_end]"

section \<open>Compression and pseudo-instruction data\<close>

definition rvcd_rv32_lui :: "rv_comp_data list" where
  "rvcd_rv32_lui = [(rv_op_c_lui, Some rvcc_c_lui),
     (rv_op_illegal, None)]"

definition rvcd_rv32_jal :: "rv_comp_data list" where
  "rvcd_rv32_jal = [(rv_op_c_jal, Some rvcc_c_jal),
     (rv_op_c_j, Some rvcc_c_j),
     (rv_op_illegal, None)]"

definition rvcd_rv32_jalr :: "rv_comp_data list" where
  "rvcd_rv32_jalr = [(rv_op_c_jr, Some rvcc_c_jr),
     (rv_op_c_jalr, Some rvcc_c_jalr),
     (rv_op_illegal, None)]"

definition rvcd_rv32_beq :: "rv_comp_data list" where
  "rvcd_rv32_beq = [(rv_op_c_beqz, Some rvcc_c_beqz),
     (rv_op_illegal, None)]"

definition rvcd_rv32_bne :: "rv_comp_data list" where
  "rvcd_rv32_bne = [(rv_op_c_bnez, Some rvcc_c_bnez),
     (rv_op_illegal, None)]"

definition rvcd_rv32_lw :: "rv_comp_data list" where
  "rvcd_rv32_lw = [(rv_op_c_lw, Some rvcc_c_lw),
     (rv_op_c_lwsp, Some rvcc_c_lwsp),
     (rv_op_illegal, None)]"

definition rvcd_rv32_sw :: "rv_comp_data list" where
  "rvcd_rv32_sw = [(rv_op_c_sw, Some rvcc_c_sw),
     (rv_op_c_swsp, Some rvcc_c_swsp),
     (rv_op_illegal, None)]"

definition rvcd_rv32_addi :: "rv_comp_data list" where
  "rvcd_rv32_addi = [(rv_op_c_addi4spn, Some rvcc_c_addi4spn),
     (rv_op_c_nop, Some rvcc_c_nop),
     (rv_op_c_addi, Some rvcc_c_addi),
     (rv_op_c_li, Some rvcc_c_li),
     (rv_op_c_addi16sp, Some rvcc_c_addi16sp),
     (rv_op_c_mv, Some rvcc_c_mv),
     (rv_op_illegal, None)]"

definition rvcd_rv32_andi :: "rv_comp_data list" where
  "rvcd_rv32_andi = [(rv_op_c_andi, Some rvcc_c_andi),
     (rv_op_illegal, None)]"

definition rvcd_rv32_slli :: "rv_comp_data list" where
  "rvcd_rv32_slli = [(rv_op_c_slli, Some rvcc_c_slli_rv32c),
     (rv_op_illegal, None)]"

definition rvcd_rv32_srli :: "rv_comp_data list" where
  "rvcd_rv32_srli = [(rv_op_c_srli, Some rvcc_c_srli_rv32c),
     (rv_op_illegal, None)]"

definition rvcd_rv32_srai :: "rv_comp_data list" where
  "rvcd_rv32_srai = [(rv_op_c_srai, Some rvcc_c_srai_rv32c),
     (rv_op_illegal, None)]"

definition rvcd_rv32_add :: "rv_comp_data list" where
  "rvcd_rv32_add = [(rv_op_c_add, Some rvcc_c_add),
     (rv_op_illegal, None)]"

definition rvcd_rv32_sub :: "rv_comp_data list" where
  "rvcd_rv32_sub = [(rv_op_c_sub, Some rvcc_c_sub),
     (rv_op_illegal, None)]"

definition rvcd_rv32_xor :: "rv_comp_data list" where
  "rvcd_rv32_xor = [(rv_op_c_xor, Some rvcc_c_xor),
     (rv_op_illegal, None)]"

definition rvcd_rv32_or :: "rv_comp_data list" where
  "rvcd_rv32_or = [(rv_op_c_or, Some rvcc_c_or),
     (rv_op_illegal, None)]"

definition rvcd_rv32_and :: "rv_comp_data list" where
  "rvcd_rv32_and = [(rv_op_c_and, Some rvcc_c_and),
     (rv_op_illegal, None)]"

definition rvcd_rv32_ebreak :: "rv_comp_data list" where
  "rvcd_rv32_ebreak = [(rv_op_c_ebreak, Some rvcc_c_ebreak),
     (rv_op_illegal, None)]"

definition rvcd_rv32_flw :: "rv_comp_data list" where
  "rvcd_rv32_flw = [(rv_op_c_flw, Some rvcc_c_flw),
     (rv_op_c_flwsp, Some rvcc_c_flwsp),
     (rv_op_illegal, None)]"

definition rvcd_rv32_fsw :: "rv_comp_data list" where
  "rvcd_rv32_fsw = [(rv_op_c_fsw, Some rvcc_c_fsw),
     (rv_op_c_fswsp, Some rvcc_c_fswsp),
     (rv_op_illegal, None)]"

definition rvcd_rv32_fld :: "rv_comp_data list" where
  "rvcd_rv32_fld = [(rv_op_c_fld, Some rvcc_c_fld),
     (rv_op_c_fldsp, Some rvcc_c_fldsp),
     (rv_op_illegal, None)]"

definition rvcd_rv32_fsd :: "rv_comp_data list" where
  "rvcd_rv32_fsd = [(rv_op_c_fsd, Some rvcc_c_fsd),
     (rv_op_c_fsdsp, Some rvcc_c_fsdsp),
     (rv_op_illegal, None)]"

definition rvcd_rv64_lui :: "rv_comp_data list" where
  "rvcd_rv64_lui = [(rv_op_c_lui, Some rvcc_c_lui),
     (rv_op_illegal, None)]"

definition rvcd_rv64_jal :: "rv_comp_data list" where
  "rvcd_rv64_jal = [(rv_op_c_j, Some rvcc_c_j),
     (rv_op_illegal, None)]"

definition rvcd_rv64_jalr :: "rv_comp_data list" where
  "rvcd_rv64_jalr = [(rv_op_c_jr, Some rvcc_c_jr),
     (rv_op_c_jalr, Some rvcc_c_jalr),
     (rv_op_illegal, None)]"

definition rvcd_rv64_beq :: "rv_comp_data list" where
  "rvcd_rv64_beq = [(rv_op_c_beqz, Some rvcc_c_beqz),
     (rv_op_illegal, None)]"

definition rvcd_rv64_bne :: "rv_comp_data list" where
  "rvcd_rv64_bne = [(rv_op_c_bnez, Some rvcc_c_bnez),
     (rv_op_illegal, None)]"

definition rvcd_rv64_lw :: "rv_comp_data list" where
  "rvcd_rv64_lw = [(rv_op_c_lw, Some rvcc_c_lw),
     (rv_op_c_lwsp, Some rvcc_c_lwsp),
     (rv_op_illegal, None)]"

definition rvcd_rv64_sw :: "rv_comp_data list" where
  "rvcd_rv64_sw = [(rv_op_c_sw, Some rvcc_c_sw),
     (rv_op_c_swsp, Some rvcc_c_swsp),
     (rv_op_illegal, None)]"

definition rvcd_rv64_addi :: "rv_comp_data list" where
  "rvcd_rv64_addi = [(rv_op_c_addi4spn, Some rvcc_c_addi4spn),
     (rv_op_c_nop, Some rvcc_c_nop),
     (rv_op_c_addi, Some rvcc_c_addi),
     (rv_op_c_li, Some rvcc_c_li),
     (rv_op_c_addi16sp, Some rvcc_c_addi16sp),
     (rv_op_c_mv, Some rvcc_c_mv),
     (rv_op_illegal, None)]"

definition rvcd_rv64_andi :: "rv_comp_data list" where
  "rvcd_rv64_andi = [(rv_op_c_andi, Some rvcc_c_andi),
     (rv_op_illegal, None)]"

definition rvcd_rv64_add :: "rv_comp_data list" where
  "rvcd_rv64_add = [(rv_op_c_add, Some rvcc_c_add),
     (rv_op_illegal, None)]"

definition rvcd_rv64_sub :: "rv_comp_data list" where
  "rvcd_rv64_sub = [(rv_op_c_sub, Some rvcc_c_sub),
     (rv_op_illegal, None)]"

definition rvcd_rv64_xor :: "rv_comp_data list" where
  "rvcd_rv64_xor = [(rv_op_c_xor, Some rvcc_c_xor),
     (rv_op_illegal, None)]"

definition rvcd_rv64_or :: "rv_comp_data list" where
  "rvcd_rv64_or = [(rv_op_c_or, Some rvcc_c_or),
     (rv_op_illegal, None)]"

definition rvcd_rv64_and :: "rv_comp_data list" where
  "rvcd_rv64_and = [(rv_op_c_and, Some rvcc_c_and),
     (rv_op_illegal, None)]"

definition rvcd_rv64_ld :: "rv_comp_data list" where
  "rvcd_rv64_ld = [(rv_op_c_ld, Some rvcc_c_ld),
     (rv_op_c_ldsp, Some rvcc_c_ldsp),
     (rv_op_illegal, None)]"

definition rvcd_rv64_sd :: "rv_comp_data list" where
  "rvcd_rv64_sd = [(rv_op_c_sd, Some rvcc_c_sd),
     (rv_op_c_sdsp, Some rvcc_c_sdsp),
     (rv_op_illegal, None)]"

definition rvcd_rv64_slli :: "rv_comp_data list" where
  "rvcd_rv64_slli = [(rv_op_c_slli, Some rvcc_c_slli_rv64c),
     (rv_op_illegal, None)]"

definition rvcd_rv64_srli :: "rv_comp_data list" where
  "rvcd_rv64_srli = [(rv_op_c_srli, Some rvcc_c_srli_rv64c),
     (rv_op_illegal, None)]"

definition rvcd_rv64_srai :: "rv_comp_data list" where
  "rvcd_rv64_srai = [(rv_op_c_srai, Some rvcc_c_srai_rv64c),
     (rv_op_illegal, None)]"

definition rvcd_rv64_addiw :: "rv_comp_data list" where
  "rvcd_rv64_addiw = [(rv_op_c_addiw, Some rvcc_c_addiw),
     (rv_op_illegal, None)]"

definition rvcd_rv64_addw :: "rv_comp_data list" where
  "rvcd_rv64_addw = [(rv_op_c_addw, Some rvcc_c_addw),
     (rv_op_illegal, None)]"

definition rvcd_rv64_subw :: "rv_comp_data list" where
  "rvcd_rv64_subw = [(rv_op_c_subw, Some rvcc_c_subw),
     (rv_op_illegal, None)]"

definition rvcd_rv64_ebreak :: "rv_comp_data list" where
  "rvcd_rv64_ebreak = [(rv_op_c_ebreak, Some rvcc_c_ebreak),
     (rv_op_illegal, None)]"

definition rvcd_rv64_fld :: "rv_comp_data list" where
  "rvcd_rv64_fld = [(rv_op_c_fld, Some rvcc_c_fld),
     (rv_op_c_fldsp, Some rvcc_c_fldsp),
     (rv_op_illegal, None)]"

definition rvcd_rv64_fsd :: "rv_comp_data list" where
  "rvcd_rv64_fsd = [(rv_op_c_fsd, Some rvcc_c_fsd),
     (rv_op_c_fsdsp, Some rvcc_c_fsdsp),
     (rv_op_illegal, None)]"

definition rvcd_rv128_lq :: "rv_comp_data list" where
  "rvcd_rv128_lq = [(rv_op_c_lq, Some rvcc_c_lq),
     (rv_op_c_lqsp, Some rvcc_c_lqsp),
     (rv_op_illegal, None)]"

definition rvcd_rv128_sq :: "rv_comp_data list" where
  "rvcd_rv128_sq = [(rv_op_c_sq, Some rvcc_c_sq),
     (rv_op_c_sqsp, Some rvcc_c_sqsp),
     (rv_op_illegal, None)]"

definition rvcp_jal :: "rv_comp_data list" where
  "rvcp_jal = [(rv_op_j, Some rvcc_j),
     (rv_op_jal, Some rvcc_jal),
     (rv_op_illegal, None)]"

definition rvcp_jalr :: "rv_comp_data list" where
  "rvcp_jalr = [(rv_op_ret, Some rvcc_ret),
     (rv_op_jr, Some rvcc_jr),
     (rv_op_jalr, Some rvcc_jalr),
     (rv_op_illegal, None)]"

definition rvcp_beq :: "rv_comp_data list" where
  "rvcp_beq = [(rv_op_beqz, Some rvcc_beqz),
     (rv_op_illegal, None)]"

definition rvcp_bne :: "rv_comp_data list" where
  "rvcp_bne = [(rv_op_bnez, Some rvcc_bnez),
     (rv_op_illegal, None)]"

definition rvcp_blt :: "rv_comp_data list" where
  "rvcp_blt = [(rv_op_bltz, Some rvcc_bltz),
     (rv_op_bgtz, Some rvcc_bgtz),
     (rv_op_bgt, Some rvcc_bgt),
     (rv_op_illegal, None)]"

definition rvcp_bge :: "rv_comp_data list" where
  "rvcp_bge = [(rv_op_blez, Some rvcc_blez),
     (rv_op_bgez, Some rvcc_bgez),
     (rv_op_ble, Some rvcc_ble),
     (rv_op_illegal, None)]"

definition rvcp_bltu :: "rv_comp_data list" where
  "rvcp_bltu = [(rv_op_bgtu, Some rvcc_bgtu),
     (rv_op_illegal, None)]"

definition rvcp_bgeu :: "rv_comp_data list" where
  "rvcp_bgeu = [(rv_op_bleu, Some rvcc_bleu),
     (rv_op_illegal, None)]"

definition rvcp_addi :: "rv_comp_data list" where
  "rvcp_addi = [(rv_op_nop, Some rvcc_nop),
     (rv_op_mv, Some rvcc_mv),
     (rv_op_illegal, None)]"

definition rvcp_sltiu :: "rv_comp_data list" where
  "rvcp_sltiu = [(rv_op_seqz, Some rvcc_seqz),
     (rv_op_illegal, None)]"

definition rvcp_xori :: "rv_comp_data list" where
  "rvcp_xori = [(rv_op_not, Some rvcc_not),
     (rv_op_illegal, None)]"

definition rvcp_sub :: "rv_comp_data list" where
  "rvcp_sub = [(rv_op_neg, Some rvcc_neg),
     (rv_op_illegal, None)]"

definition rvcp_slt :: "rv_comp_data list" where
  "rvcp_slt = [(rv_op_sltz, Some rvcc_sltz),
     (rv_op_sgtz, Some rvcc_sgtz),
     (rv_op_illegal, None)]"

definition rvcp_sltu :: "rv_comp_data list" where
  "rvcp_sltu = [(rv_op_snez, Some rvcc_snez),
     (rv_op_illegal, None)]"

definition rvcp_addiw :: "rv_comp_data list" where
  "rvcp_addiw = [(rv_op_sext_w, Some rvcc_sext_w),
     (rv_op_illegal, None)]"

definition rvcp_subw :: "rv_comp_data list" where
  "rvcp_subw = [(rv_op_negw, Some rvcc_negw),
     (rv_op_illegal, None)]"

definition rvcp_csrrw :: "rv_comp_data list" where
  "rvcp_csrrw = [(rv_op_fscsr, Some rvcc_fscsr),
     (rv_op_fsrm, Some rvcc_fsrm),
     (rv_op_fsflags, Some rvcc_fsflags),
     (rv_op_illegal, None)]"

definition rvcp_csrrs :: "rv_comp_data list" where
  "rvcp_csrrs = [(rv_op_rdcycle, Some rvcc_rdcycle),
     (rv_op_rdtime, Some rvcc_rdtime),
     (rv_op_rdinstret, Some rvcc_rdinstret),
     (rv_op_rdcycleh, Some rvcc_rdcycleh),
     (rv_op_rdtimeh, Some rvcc_rdtimeh),
     (rv_op_rdinstreth, Some rvcc_rdinstreth),
     (rv_op_frcsr, Some rvcc_frcsr),
     (rv_op_frrm, Some rvcc_frrm),
     (rv_op_frflags, Some rvcc_frflags),
     (rv_op_illegal, None)]"

definition rvcp_csrrwi :: "rv_comp_data list" where
  "rvcp_csrrwi = [(rv_op_fsrmi, Some rvcc_fsrmi),
     (rv_op_fsflagsi, Some rvcc_fsflagsi),
     (rv_op_illegal, None)]"

definition rvcp_fsgnj_s :: "rv_comp_data list" where
  "rvcp_fsgnj_s = [(rv_op_fmv_s, Some rvcc_fmv_s),
     (rv_op_illegal, None)]"

definition rvcp_fsgnjn_s :: "rv_comp_data list" where
  "rvcp_fsgnjn_s = [(rv_op_fneg_s, Some rvcc_fneg_s),
     (rv_op_illegal, None)]"

definition rvcp_fsgnjx_s :: "rv_comp_data list" where
  "rvcp_fsgnjx_s = [(rv_op_fabs_s, Some rvcc_fabs_s),
     (rv_op_illegal, None)]"

definition rvcp_fsgnj_d :: "rv_comp_data list" where
  "rvcp_fsgnj_d = [(rv_op_fmv_d, Some rvcc_fmv_d),
     (rv_op_illegal, None)]"

definition rvcp_fsgnjn_d :: "rv_comp_data list" where
  "rvcp_fsgnjn_d = [(rv_op_fneg_d, Some rvcc_fneg_d),
     (rv_op_illegal, None)]"

definition rvcp_fsgnjx_d :: "rv_comp_data list" where
  "rvcp_fsgnjx_d = [(rv_op_fabs_d, Some rvcc_fabs_d),
     (rv_op_illegal, None)]"

definition rvcp_fsgnj_q :: "rv_comp_data list" where
  "rvcp_fsgnj_q = [(rv_op_fmv_q, Some rvcc_fmv_q),
     (rv_op_illegal, None)]"

definition rvcp_fsgnjn_q :: "rv_comp_data list" where
  "rvcp_fsgnjn_q = [(rv_op_fneg_q, Some rvcc_fneg_q),
     (rv_op_illegal, None)]"

definition rvcp_fsgnjx_q :: "rv_comp_data list" where
  "rvcp_fsgnjx_q = [(rv_op_fabs_q, Some rvcc_fabs_q),
     (rv_op_illegal, None)]"

section \<open>Tables indexed by opcode\<close>

definition rv_inst_codec :: "rv_codec list" where
  "rv_inst_codec = [
     rv_codec_illegal, rv_codec_u, rv_codec_u, rv_codec_uj,
     rv_codec_i, rv_codec_sb, rv_codec_sb, rv_codec_sb,
     rv_codec_sb, rv_codec_sb, rv_codec_sb, rv_codec_i,
     rv_codec_i, rv_codec_i, rv_codec_i, rv_codec_i,
     rv_codec_s, rv_codec_s, rv_codec_s, rv_codec_i,
     rv_codec_i, rv_codec_i, rv_codec_i, rv_codec_i,
     rv_codec_i, rv_codec_i_sh7, rv_codec_i_sh7, rv_codec_i_sh7,
     rv_codec_r, rv_codec_r, rv_codec_r, rv_codec_r,
     rv_codec_r, rv_codec_r, rv_codec_r, rv_codec_r,
     rv_codec_r, rv_codec_r, rv_codec_r_f, rv_codec_none,
     rv_codec_i, rv_codec_i, rv_codec_s, rv_codec_i,
     rv_codec_i_sh5, rv_codec_i_sh5, rv_codec_i_sh5, rv_codec_r,
     rv_codec_r, rv_codec_r, rv_codec_r, rv_codec_r,
     rv_codec_i, rv_codec_i, rv_codec_s, rv_codec_i,
     rv_codec_i_sh6, rv_codec_i_sh6, rv_codec_i_sh6, rv_codec_r,
     rv_codec_r, rv_codec_r, rv_codec_r, rv_codec_r,
     rv_codec_r, rv_codec_r, rv_codec_r, rv_codec_r,
     rv_codec_r, rv_codec_r, rv_codec_r, rv_codec_r,
     rv_codec_r, rv_codec_r, rv_codec_r, rv_codec_r,
     rv_codec_r, rv_codec_r, rv_codec_r, rv_codec_r,
     rv_codec_r, rv_codec_r, rv_codec_r_l, rv_codec_r_a,
     rv_codec_r_a, rv_codec_r_a, rv_codec_r_a, rv_codec_r_a,
     rv_codec_r_a, rv_codec_r_a, rv_codec_r_a, rv_codec_r_a,
     rv_codec_r_a, rv_codec_r_l, rv_codec_r_a, rv_codec_r_a,
     rv_codec_r_a, rv_codec_r_a, rv_codec_r_a, rv_codec_r_a,
     rv_codec_r_a, rv_codec_r_a, rv_codec_r_a, rv_codec_r_a,
     rv_codec_r_l, rv_codec_r_a, rv_codec_r_a, rv_codec_r_a,
     rv_codec_r_a, rv_codec_r_a, rv_codec_r_a, rv_codec_r_a,
     rv_codec_r_a, rv_codec_r_a, rv_codec_r_a, rv_codec_none,
     rv_codec_none, rv_codec_none, rv_codec_none, rv_codec_none,
     rv_codec_none, rv_codec_none, rv_codec_r, rv_codec_r,
     rv_codec_none, rv_codec_i_csr, rv_codec_i_csr, rv_codec_i_csr,
     rv_codec_i_csr, rv_codec_i_csr, rv_codec_i_csr, rv_codec_i,
     rv_codec_s, rv_codec_r4_m, rv_codec_r4_m, rv_codec_r4_m,
     rv_codec_r4_m, rv_codec_r_m, rv_codec_r_m, rv_codec_r_m,
     rv_codec_r_m, rv_codec_r, rv_codec_r, rv_codec_r,
     rv_codec_r, rv_codec_r, rv_codec_r_m, rv_codec_r,
     rv_codec_r, rv_codec_r, rv_codec_r_m, rv_codec_r_m,
     rv_codec_r_m, rv_codec_r_m, rv_codec_r, rv_codec_r,
     rv_codec_r, rv_codec_r_m, rv_codec_r_m, rv_codec_r_m,
     rv_codec_r_m, rv_codec_i, rv_codec_s, rv_codec_r4_m,
     rv_codec_r4_m, rv_codec_r4_m, rv_codec_r4_m, rv_codec_r_m,
     rv_codec_r_m, rv_codec_r_m, rv_codec_r_m, rv_codec_r,
     rv_codec_r, rv_codec_r, rv_codec_r, rv_codec_r,
     rv_codec_r_m, rv_codec_r_m, rv_codec_r_m, rv_codec_r,
     rv_codec_r, rv_codec_r, rv_codec_r_m, rv_codec_r_m,
     rv_codec_r_m, rv_codec_r_m, rv_codec_r, rv_codec_r_m,
     rv_codec_r_m, rv_codec_r, rv_codec_r_m, rv_codec_r_m,
     rv_codec_r, rv_codec_i, rv_codec_s, rv_codec_r4_m,
     rv_codec_r4_m, rv_codec_r4_m, rv_codec_r4_m, rv_codec_r_m,
     rv_codec_r_m, rv_codec_r_m, rv_codec_r_m, rv_codec_r,
     rv_codec_r, rv_codec_r, rv_codec_r, rv_codec_r,
     rv_codec_r_m, rv_codec_r_m, rv_codec_r_m, rv_codec_r_m,
     rv_codec_r_m, rv_codec_r, rv_codec_r, rv_codec_r,
     rv_codec_r_m, rv_codec_r_m, rv_codec_r_m, rv_codec_r_m,
     rv_codec_r, rv_codec_r_m, rv_codec_r_m, rv_codec_r_m,
     rv_codec_r_m, rv_codec_r, rv_codec_r, rv_codec_ciw_4spn,
     rv_codec_cl_ld, rv_codec_cl_lw, rv_codec_cl_lw, rv_codec_cs_sd,
     rv_codec_cs_sw, rv_codec_cs_sw, rv_codec_ci_none, rv_codec_ci,
     rv_codec_cj_jal, rv_codec_ci_li, rv_codec_ci_16sp, rv_codec_ci_lui,
     rv_codec_cb_sh6, rv_codec_cb_sh6, rv_codec_cb_imm, rv_codec_cs,
     rv_codec_cs, rv_codec_cs, rv_codec_cs, rv_codec_cs,
     rv_codec_cs, rv_codec_cj, rv_codec_cb, rv_codec_cb,
     rv_codec_ci_sh6, rv_codec_ci_ldsp, rv_codec_ci_lwsp, rv_codec_ci_lwsp,
     rv_codec_cr_jr, rv_codec_cr_mv, rv_codec_ci_none, rv_codec_cr_jalr,
     rv_codec_cr, rv_codec_css_sdsp, rv_codec_css_swsp, rv_codec_css_swsp,
     rv_codec_cl_ld, rv_codec_cs_sd, rv_codec_ci, rv_codec_ci_ldsp,
     rv_codec_css_sdsp, rv_codec_cl_lq, rv_codec_cs_sq, rv_codec_ci_lqsp,
     rv_codec_css_sqsp, rv_codec_i, rv_codec_i, rv_codec_i,
     rv_codec_r, rv_codec_r, rv_codec_i, rv_codec_i,
     rv_codec_r, rv_codec_r, rv_codec_r, rv_codec_r,
     rv_codec_r, rv_codec_r, rv_codec_r, rv_codec_r,
     rv_codec_r, rv_codec_r, rv_codec_r, rv_codec_r,
     rv_codec_sb, rv_codec_sb, rv_codec_sb, rv_codec_sb,
     rv_codec_sb, rv_codec_sb, rv_codec_sb, rv_codec_sb,
     rv_codec_sb, rv_codec_sb, rv_codec_uj, rv_codec_i,
     rv_codec_i, rv_codec_i_csr, rv_codec_i_csr, rv_codec_i_csr,
     rv_codec_i_csr, rv_codec_i_csr, rv_codec_i_csr, rv_codec_i_csr,
     rv_codec_i_csr, rv_codec_i_csr, rv_codec_i_csr, rv_codec_i_csr,
     rv_codec_i_csr, rv_codec_i_csr, rv_codec_i_csr]"

definition rv_inst_match :: "u64 list" where
  "rv_inst_match = [
     0x0, 0x37, 0x17, 0x6f, 0x67, 0x63,
     0x1063, 0x4063, 0x5063, 0x6063, 0x7063, 0x3,
     0x1003, 0x2003, 0x4003, 0x5003, 0x23, 0x1023,
     0x2023, 0x13, 0x2013, 0x3013, 0x4013, 0x6013,
     0x7013, 0x1013, 0x5013, 0x40005013, 0x33, 0x40000033,
     0x1033, 0x2033, 0x3033, 0x4033, 0x5033, 0x40005033,
     0x6033, 0x7033, 0xf, 0x100f, 0x6003, 0x3003,
     0x3023, 0x1b, 0x101b, 0x501b, 0x4000501b, 0x3b,
     0x4000003b, 0x103b, 0x503b, 0x4000503b, 0x7003, 0x200f,
     0x4023, 0x5b, 0x105b, 0x505b, 0x4000505b, 0x7b,
     0x4000007b, 0x107b, 0x507b, 0x4000507b, 0x2000033, 0x2001033,
     0x2002033, 0x2003033, 0x2004033, 0x2005033, 0x2006033, 0x2007033,
     0x200003b, 0x200403b, 0x200503b, 0x200603b, 0x200703b, 0x200007b,
     0x200407b, 0x200507b, 0x200607b, 0x200707b, 0x1000202f, 0x1800202f,
     0x800202f, 0x202f, 0x2000202f, 0x4000202f, 0x6000202f, 0x8000202f,
     0xa000202f, 0xc000202f, 0xe000202f, 0x1000302f, 0x1800302f, 0x800302f,
     0x302f, 0x2000302f, 0x4000302f, 0x6000302f, 0x8000302f, 0xa000302f,
     0xc000302f, 0xe000302f, 0x1000402f, 0x1800402f, 0x800402f, 0x402f,
     0x2000402f, 0x4000402f, 0x6000402f, 0x8000402f, 0xa000402f, 0xc000402f,
     0xe000402f, 0x73, 0x100073, 0x200073, 0x10200073, 0x20200073,
     0x30200073, 0x7b200073, 0x10400073, 0x12000073, 0x10500073, 0x1073,
     0x2073, 0x3073, 0x5073, 0x6073, 0x7073, 0x2007,
     0x2027, 0x43, 0x47, 0x4b, 0x4f, 0x53,
     0x8000053, 0x10000053, 0x18000053, 0x20000053, 0x20001053, 0x20002053,
     0x28000053, 0x28001053, 0x58000053, 0xa0000053, 0xa0001053, 0xa0002053,
     0xc0000053, 0xc0100053, 0xd0000053, 0xd0100053, 0xe0000053, 0xe0001053,
     0xf0000053, 0xc0200053, 0xc0300053, 0xd0200053, 0xd0300053, 0x3007,
     0x3027, 0x2000043, 0x2000047, 0x200004b, 0x200004f, 0x2000053,
     0xa000053, 0x12000053, 0x1a000053, 0x22000053, 0x22001053, 0x22002053,
     0x2a000053, 0x2a001053, 0x40100053, 0x42000053, 0x5a000053, 0xa2000053,
     0xa2001053, 0xa2002053, 0xc2000053, 0xc2100053, 0xd2000053, 0xd2100053,
     0xe2001053, 0xc2200053, 0xc2300053, 0xe2000053, 0xd2200053, 0xd2300053,
     0xf2000053, 0x4007, 0x4027, 0x6000043, 0x6000047, 0x600004b,
     0x600004f, 0x6000053, 0xe000053, 0x16000053, 0x1e000053, 0x26000053,
     0x26001053, 0x26002053, 0x2e000053, 0x2e001053, 0x40300053, 0x46000053,
     0x42300053, 0x46100053, 0x5e000053, 0xa6000053, 0xa6001053, 0xa6002053,
     0xc6000053, 0xc6100053, 0xd6000053, 0xd6100053, 0xe6001053, 0xc6200053,
     0xc6300053, 0xd6200053, 0xd6300053, 0xe6000053, 0xf6000053, 0x0,
     0x2000, 0x4000, 0x6000, 0xa000, 0xc000, 0xe000,
     0x1, 0x1, 0x2001, 0x4001, 0x6101, 0x6001,
     0x8001, 0x8401, 0x8801, 0x8c01, 0x8c21, 0x8c41,
     0x8c61, 0x9c01, 0x9c21, 0xa001, 0xc001, 0xe001,
     0x2, 0x2002, 0x4002, 0x6002, 0x8002, 0x8002,
     0x9002, 0x9002, 0x9002, 0xa002, 0xc002, 0xe002,
     0x6000, 0xe000, 0x2001, 0x6002, 0xe002, 0x2000,
     0xa000, 0x2002, 0xa002, 0x0, 0x0, 0x0,
     0x0, 0x0, 0x0, 0x0, 0x0, 0x0,
     0x0, 0x0, 0x0, 0x0, 0x0, 0x0,
     0x0, 0x0, 0x0, 0x0, 0x0, 0x0,
     0x0, 0x0, 0x0, 0x0, 0x0, 0x0,
     0x0, 0x0, 0x0, 0x0, 0x0, 0x0,
     0x0, 0x0, 0x0, 0x0, 0x0, 0x0,
     0x0, 0x0, 0x0, 0x0, 0x0, 0x0,
     0x0]"

definition rv_inst_mask :: "u64 list" where
  "rv_inst_mask = [
     0x0, 0x7f, 0x7f, 0x7f, 0x707f, 0x707f,
     0x707f, 0x707f, 0x707f, 0x707f, 0x707f, 0x707f,
     0x707f, 0x707f, 0x707f, 0x707f, 0x707f, 0x707f,
     0x707f, 0x707f, 0x707f, 0x707f, 0x707f, 0x707f,
     0x707f, 0xf800707f, 0xf800707f, 0xf800707f, 0xfe00707f, 0xfe00707f,
     0xfe00707f, 0xfe00707f, 0xfe00707f, 0xfe00707f, 0xfe00707f, 0xfe00707f,
     0xfe00707f, 0xfe00707f, 0x707f, 0x707f, 0x707f, 0x707f,
     0x707f, 0x707f, 0xfe00707f, 0xfe00707f, 0xfe00707f, 0xfe00707f,
     0xfe00707f, 0xfe00707f, 0xfe00707f, 0xfe00707f, 0x707f, 0x707f,
     0x707f, 0x707f, 0xfc00707f, 0xfc00707f, 0xfc00707f, 0xfe00707f,
     0xfe00707f, 0xfe00707f, 0xfe00707f, 0xfe00707f, 0xfe00707f, 0xfe00707f,
     0xfe00707f, 0xfe00707f, 0xfe00707f, 0xfe00707f, 0xfe00707f, 0xfe00707f,
     0xfe00707f, 0xfe00707f, 0xfe00707f, 0xfe00707f, 0xfe00707f, 0xfe00707f,
     0xfe00707f, 0xfe00707f, 0xfe00707f, 0xfe00707f, 0xf9f0707f, 0xf800707f,
     0xf800707f, 0xf800707f, 0xf800707f, 0xf800707f, 0xf800707f, 0xf800707f,
     0xf800707f, 0xf800707f, 0xf800707f, 0xf9f0707f, 0xf800707f, 0xf800707f,
     0xf800707f, 0xf800707f, 0xf800707f, 0xf800707f, 0xf800707f, 0xf800707f,
     0xf800707f, 0xf800707f, 0xf9f0707f, 0xf800707f, 0xf800707f, 0xf800707f,
     0xf800707f, 0xf800707f, 0xf800707f, 0xf800707f, 0xf800707f, 0xf800707f,
     0xf800707f, 0xffffffff, 0xffffffff, 0xffffffff, 0xffffffff, 0xffffffff,
     0xffffffff, 0xffffffff, 0xfff07fff, 0xfe007fff, 0xffffffff, 0x707f,
     0x707f, 0x707f, 0x707f, 0x707f, 0x707f, 0x707f,
     0x707f, 0x600007f, 0x600007f, 0x600007f, 0x600007f, 0xfe00007f,
     0xfe00007f, 0xfe00007f, 0xfe00007f, 0xfe00707f, 0xfe00707f, 0xfe00707f,
     0xfe00707f, 0xfe00707f, 0xfff0007f, 0xfe00707f, 0xfe00707f, 0xfe00707f,
     0xfff0007f, 0xfff0007f, 0xfff0007f, 0xfff0007f, 0xfff0707f, 0xfff0707f,
     0xfff0707f, 0xfff0007f, 0xfff0007f, 0xfff0007f, 0xfff0007f, 0x707f,
     0x707f, 0x600007f, 0x600007f, 0x600007f, 0x600007f, 0xfe00007f,
     0xfe00007f, 0xfe00007f, 0xfe00007f, 0xfe00707f, 0xfe00707f, 0xfe00707f,
     0xfe00707f, 0xfe00707f, 0xfff0007f, 0xfff0007f, 0xfff0007f, 0xfe00707f,
     0xfe00707f, 0xfe00707f, 0xfff0007f, 0xfff0007f, 0xfff0007f, 0xfff0007f,
     0xfff0707f, 0xfff0007f, 0xfff0007f, 0xfff0707f, 0xfff0007f, 0xfff0007f,
     0xfff0707f, 0x707f, 0x707f, 0x600007f, 0x600007f, 0x600007f,
     0x600007f, 0xfe00007f, 0xfe00007f, 0xfe00007f, 0xfe00007f, 0xfe00707f,
     0xfe00707f, 0xfe00707f, 0xfe00707f, 0xfe00707f, 0xfff0007f, 0xfff0007f,
     0xfff0007f, 0xfff0007f, 0xfff0007f, 0xfe00707f, 0xfe00707f, 0xfe00707f,
     0xfff0007f, 0xfff0007f, 0xfff0007f, 0xfff0007f, 0xfff0707f, 0xfff0007f,
     0xfff0007f, 0xfff0007f, 0xfff0007f, 0xfff0707f, 0xfff0707f, 0xe003,
     0xe003, 0xe003, 0xe003, 0xe003, 0xe003, 0xe003,
     0xffff, 0xe003, 0xe003, 0xe003, 0xef83, 0xe003,
     0xec03, 0xec03, 0xec03, 0xfc63, 0xfc63, 0xfc63,
     0xfc63, 0xfc63, 0xfc63, 0xe003, 0xe003, 0xe003,
     0xe003, 0xe003, 0xe003, 0xe003, 0xf07f, 0xf003,
     0xffff, 0xf07f, 0xf003, 0xe003, 0xe003, 0xe003,
     0xe003, 0xe003, 0xe003, 0xe003, 0xe003, 0xe003,
     0xe003, 0xe003, 0xe003, 0x0, 0x0, 0x0,
     0x0, 0x0, 0x0, 0x0, 0x0, 0x0,
     0x0, 0x0, 0x0, 0x0, 0x0, 0x0,
     0x0, 0x0, 0x0, 0x0, 0x0, 0x0,
     0x0, 0x0, 0x0, 0x0, 0x0, 0x0,
     0x0, 0x0, 0x0, 0x0, 0x0, 0x0,
     0x0, 0x0, 0x0, 0x0, 0x0, 0x0,
     0x0, 0x0, 0x0, 0x0, 0x0, 0x0,
     0x0]"

definition rv_inst_pseudo :: "rv_comp_data list option list" where
  "rv_inst_pseudo = [
     None, None, None, Some rvcp_jal, Some rvcp_jalr, Some rvcp_beq,
     Some rvcp_bne, Some rvcp_blt, Some rvcp_bge, Some rvcp_bltu, Some rvcp_bgeu, None,
     None, None, None, None, None, None,
     None, Some rvcp_addi, None, Some rvcp_sltiu, Some rvcp_xori, None,
     None, None, None, None, None, Some rvcp_sub,
     None, Some rvcp_slt, Some rvcp_sltu, None, None, None,
     None, None, None, None, None, None,
     None, Some rvcp_addiw, None, None, None, None,
     Some rvcp_subw, None, None, None, None, None,
     None, None, None, None, None, None,
     None, None, None, None, None, None,
     None, None, None, None, None, None,
     None, None, None, None, None, None,
     None, None, None, None, None, None,
     None, None, None, None, None, None,
     None, None, None, None, None, None,
     None, None, None, None, None, None,
     None, None, None, None, None, None,
     None, None, None, None, None, None,
     None, None, None, None, None, None,
     None, None, None, None, None, Some rvcp_csrrw,
     Some rvcp_csrrs, None, Some rvcp_csrrwi, None, None, None,
     None, None, None, None, None, None,
     None, None, None, Some rvcp_fsgnj_s, Some rvcp_fsgnjn_s, Some rvcp_fsgnjx_s,
     None, None, None, None, None, None,
     None, None, None, None, None, None,
     None, None, None, None, None, None,
     None, None, None, None, None, None,
     None, None, None, Some rvcp_fsgnj_d, Some rvcp_fsgnjn_d, Some rvcp_fsgnjx_d,
     None, None, None, None, None, None,
     None, None, None, None, None, None,
     None, None, None, None, None, None,
     None, None, None, None, None, None,
     None, None, None, None, None, Some rvcp_fsgnj_q,
     Some rvcp_fsgnjn_q, Some rvcp_fsgnjx_q, None, None, None, None,
     None, None, None, None, None, None,
     None, None, None, None, None, None,
     None, None, None, None, None, None,
     None, None, None, None, None, None,
     None, None, None, None, None, None,
     None, None, None, None, None, None,
     None, None, None, None, None, None,
     None, None, None, None, None, None,
     None, None, None, None, None, None,
     None, None, None, None, None, None,
     None, None, None, None, None, None,
     None, None, None, None, None, None,
     None, None, None, None, None, None,
     None, None, None, None, None, None,
     None, None, None, None, None, None,
     None, None, None, None, None, None,
     None, None, None, None, None, None,
     None, None, None, None, None, None,
     None]"

definition rv_inst_depseudo :: "rv_comp_data list" where
  "rv_inst_depseudo = [
     (rv_op_illegal, None), (rv_op_illegal, None), (rv_op_illegal, None),
     (rv_op_jal, Some rvcc_jal), (rv_op_jalr, Some rvcc_jalr), (rv_op_illegal, None),
     (rv_op_illegal, None), (rv_op_illegal, None), (rv_op_illegal, None),
     (rv_op_illegal, None), (rv_op_illegal, None), (rv_op_illegal, None),
     (rv_op_illegal, None), (rv_op_illegal, None), (rv_op_illegal, None),
     (rv_op_illegal, None), (rv_op_illegal, None), (rv_op_illegal, None),
     (rv_op_illegal, None), (rv_op_illegal, None), (rv_op_illegal, None),
     (rv_op_illegal, None), (rv_op_illegal, None), (rv_op_illegal, None),
     (rv_op_illegal, None), (rv_op_illegal, None), (rv_op_illegal, None),
     (rv_op_illegal, None), (rv_op_illegal, None), (rv_op_illegal, None),
     (rv_op_illegal, None), (rv_op_illegal, None), (rv_op_illegal, None),
     (rv_op_illegal, None), (rv_op_illegal, None), (rv_op_illegal, None),
     (rv_op_illegal, None), (rv_op_illegal, None), (rv_op_illegal, None),
     (rv_op_illegal, None), (rv_op_illegal, None), (rv_op_illegal, None),
     (rv_op_illegal, None), (rv_op_illegal, None), (rv_op_illegal, None),
     (rv_op_illegal, None), (rv_op_illegal, None), (rv_op_illegal, None),
     (rv_op_illegal, None), (rv_op_illegal, None), (rv_op_illegal, None),
     (rv_op_illegal, None), (rv_op_illegal, None), (rv_op_illegal, None),
     (rv_op_illegal, None), (rv_op_illegal, None), (rv_op_illegal, None),
     (rv_op_illegal, None), (rv_op_illegal, None), (rv_op_illegal, None),
     (rv_op_illegal, None), (rv_op_illegal, None), (rv_op_illegal, None),
     (rv_op_illegal, None), (rv_op_illegal, None), (rv_op_illegal, None),
     (rv_op_illegal, None), (rv_op_illegal, None), (rv_op_illegal, None),
     (rv_op_illegal, None), (rv_op_illegal, None), (rv_op_illegal, None),
     (rv_op_illegal, None), (rv_op_illegal, None), (rv_op_illegal, None),
     (rv_op_illegal, None), (rv_op_illegal, None), (rv_op_illegal, None),
     (rv_op_illegal, None), (rv_op_illegal, None), (rv_op_illegal, None),
     (rv_op_illegal, None), (rv_op_illegal, None), (rv_op_illegal, None),
     (rv_op_illegal, None), (rv_op_illegal, None), (rv_op_illegal, None),
     (rv_op_illegal, None), (rv_op_illegal, None), (rv_op_illegal, None),
     (rv_op_illegal, None), (rv_op_illegal, None), (rv_op_illegal, None),
     (rv_op_illegal, None), (rv_op_illegal, None), (rv_op_illegal, None),
     (rv_op_illegal, None), (rv_op_illegal, None), (rv_op_illegal, None),
     (rv_op_illegal, None), (rv_op_illegal, None), (rv_op_illegal, None),
     (rv_op_illegal, None), (rv_op_illegal, None), (rv_op_illegal, None),
     (rv_op_illegal, None), (rv_op_illegal, None), (rv_op_illegal, None),
     (rv_op_illegal, None), (rv_op_illegal, None), (rv_op_illegal, None),
     (rv_op_illegal, None), (rv_op_illegal, None), (rv_op_illegal, None),
     (rv_op_illegal, None), (rv_op_illegal, None), (rv_op_illegal, None),
     (rv_op_illegal, None), (rv_op_illegal, None), (rv_op_illegal, None),
     (rv_op_illegal, None), (rv_op_illegal, None), (rv_op_illegal, None),
     (rv_op_illegal, None), (rv_op_illegal, None), (rv_op_illegal, None),
     (rv_op_illegal, None), (rv_op_illegal, None), (rv_op_illegal, None),
     (rv_op_illegal, None), (rv_op_illegal, None), (rv_op_illegal, None),
     (rv_op_illegal, None), (rv_op_illegal, None), (rv_op_illegal, None),
     (rv_op_illegal, None), (rv_op_illegal, None), (rv_op_illegal, None),
     (rv_op_illegal, None), (rv_op_illegal, None), (rv_op_illegal, None),
     (rv_op_illegal, None), (rv_op_illegal, None), (rv_op_illegal, None),
     (rv_op_illegal, None), (rv_op_illegal, None), (rv_op_illegal, None),
     (rv_op_illegal, None), (rv_op_illegal, None), (rv_op_illegal, None),
     (rv_op_illegal, None), (rv_op_illegal, None), (rv_op_illegal, None),
     (rv_op_illegal, None), (rv_op_illegal, None), (rv_op_illegal, None),
     (rv_op_illegal, None), (rv_op_illegal, None), (rv_op_illegal, None),
     (rv_op_illegal, None), (rv_op_illegal, None), (rv_op_illegal, None),
     (rv_op_illegal, None), (rv_op_illegal, None), (rv_op_illegal, None),
     (rv_op_illegal, None), (rv_op_illegal, None), (rv_op_illegal, None),
     (rv_op_illegal, None), (rv_op_illegal, None), (rv_op_illegal, None),
     (rv_op_illegal, None), (rv_op_illegal, None), (rv_op_illegal, None),
     (rv_op_illegal, None), (rv_op_illegal, None), (rv_op_illegal, None),
     (rv_op_illegal, None), (rv_op_illegal, None), (rv_op_illegal, None),
     (rv_op_illegal, None), (rv_op_illegal, None), (rv_op_illegal, None),
     (rv_op_illegal, None), (rv_op_illegal, None), (rv_op_illegal, None),
     (rv_op_illegal, None), (rv_op_illegal, None), (rv_op_illegal, None),
     (rv_op_illegal, None), (rv_op_illegal, None), (rv_op_illegal, None),
     (rv_op_illegal, None), (rv_op_illegal, None), (rv_op_illegal, None),
     (rv_op_illegal, None), (rv_op_illegal, None), (rv_op_illegal, None),
     (rv_op_illegal, None), (rv_op_illegal, None), (rv_op_illegal, None),
     (rv_op_illegal, None), (rv_op_illegal, None), (rv_op_illegal, None),
     (rv_op_illegal, None), (rv_op_illegal, None), (rv_op_illegal, None),
     (rv_op_illegal, None), (rv_op_illegal, None), (rv_op_illegal, None),
     (rv_op_illegal, None), (rv_op_illegal, None), (rv_op_illegal, None),
     (rv_op_illegal, None), (rv_op_illegal, None), (rv_op_illegal, None),
     (rv_op_illegal, None), (rv_op_illegal, None), (rv_op_illegal, None),
     (rv_op_illegal, None), (rv_op_illegal, None), (rv_op_illegal, None),
     (rv_op_illegal, None), (rv_op_illegal, None), (rv_op_illegal, None),
     (rv_op_illegal, None), (rv_op_illegal, None), (rv_op_illegal, None),
     (rv_op_illegal, None), (rv_op_illegal, None), (rv_op_illegal, None),
     (rv_op_illegal, None), (rv_op_illegal, None), (rv_op_illegal, None),
     (rv_op_illegal, None), (rv_op_illegal, None), (rv_op_illegal, None),
     (rv_op_illegal, None), (rv_op_illegal, None), (rv_op_illegal, None),
     (rv_op_illegal, None), (rv_op_illegal, None), (rv_op_illegal, None),
     (rv_op_illegal, None), (rv_op_illegal, None), (rv_op_illegal, None),
     (rv_op_illegal, None), (rv_op_illegal, None), (rv_op_illegal, None),
     (rv_op_illegal, None), (rv_op_illegal, None), (rv_op_illegal, None),
     (rv_op_illegal, None), (rv_op_illegal, None), (rv_op_illegal, None),
     (rv_op_illegal, None), (rv_op_illegal, None), (rv_op_illegal, None),
     (rv_op_illegal, None), (rv_op_illegal, None), (rv_op_illegal, None),
     (rv_op_illegal, None), (rv_op_illegal, None), (rv_op_illegal, None),
     (rv_op_illegal, None), (rv_op_illegal, None), (rv_op_illegal, None),
     (rv_op_illegal, None), (rv_op_illegal, None), (rv_op_illegal, None),
     (rv_op_illegal, None), (rv_op_illegal, None), (rv_op_illegal, None),
     (rv_op_addi, Some rvcc_nop), (rv_op_addi, Some rvcc_mv), (rv_op_xori, Some rvcc_not),
     (rv_op_sub, Some rvcc_neg), (rv_op_subw, Some rvcc_negw), (rv_op_addiw, Some rvcc_sext_w),
     (rv_op_sltiu, Some rvcc_seqz), (rv_op_sltu, Some rvcc_snez), (rv_op_slt, Some rvcc_sltz),
     (rv_op_slt, Some rvcc_sgtz), (rv_op_fsgnj_s, Some rvcc_fmv_s), (rv_op_fsgnjx_s, Some rvcc_fabs_s),
     (rv_op_fsgnjn_s, Some rvcc_fneg_s), (rv_op_fsgnj_d, Some rvcc_fmv_d), (rv_op_fsgnjx_d, Some rvcc_fabs_d),
     (rv_op_fsgnjn_d, Some rvcc_fneg_d), (rv_op_fsgnj_q, Some rvcc_fmv_q), (rv_op_fsgnjx_q, Some rvcc_fabs_q),
     (rv_op_fsgnjn_q, Some rvcc_fneg_q), (rv_op_beq, Some rvcc_beqz), (rv_op_bne, Some rvcc_bnez),
     (rv_op_bge, Some rvcc_blez), (rv_op_bge, Some rvcc_bgez), (rv_op_blt, Some rvcc_bltz),
     (rv_op_blt, Some rvcc_bgtz), (rv_op_bge, Some rvcc_ble), (rv_op_bgeu, Some rvcc_bleu),
     (rv_op_blt, Some rvcc_bgt), (rv_op_bltu, Some rvcc_bgtu), (rv_op_jal, Some rvcc_j),
     (rv_op_jalr, Some rvcc_ret), (rv_op_jalr, Some rvcc_jr), (rv_op_csrrs, Some rvcc_rdcycle),
     (rv_op_csrrs, Some rvcc_rdtime), (rv_op_csrrs, Some rvcc_rdinstret), (rv_op_csrrs, Some rvcc_rdcycleh),
     (rv_op_csrrs, Some rvcc_rdtimeh), (rv_op_csrrs, Some rvcc_rdinstreth), (rv_op_csrrs, Some rvcc_frcsr),
     (rv_op_csrrs, Some rvcc_frrm), (rv_op_csrrs, Some rvcc_frflags), (rv_op_csrrw, Some rvcc_fscsr),
     (rv_op_csrrw, Some rvcc_fsrm), (rv_op_csrrw, Some rvcc_fsflags), (rv_op_csrrwi, Some rvcc_fsrmi),
     (rv_op_csrrwi, Some rvcc_fsflagsi)]"

definition rv_inst_comp_rv32 :: "rv_comp_data list option list" where
  "rv_inst_comp_rv32 = [
     None, Some rvcd_rv32_lui, None, Some rvcd_rv32_jal, Some rvcd_rv32_jalr, Some rvcd_rv32_beq,
     Some rvcd_rv32_bne, None, None, None, None, None,
     None, Some rvcd_rv32_lw, None, None, None, None,
     Some rvcd_rv32_sw, Some rvcd_rv32_addi, None, None, None, None,
     Some rvcd_rv32_andi, Some rvcd_rv32_slli, Some rvcd_rv32_srli, Some rvcd_rv32_srai, Some rvcd_rv32_add, Some rvcd_rv32_sub,
     None, None, None, Some rvcd_rv32_xor, None, None,
     Some rvcd_rv32_or, Some rvcd_rv32_and, None, None, None, None,
     None, None, None, None, None, None,
     None, None, None, None, None, None,
     None, None, None, None, None, None,
     None, None, None, None, None, None,
     None, None, None, None, None, None,
     None, None, None, None, None, None,
     None, None, None, None, None, None,
     None, None, None, None, None, None,
     None, None, None, None, None, None,
     None, None, None, None, None, None,
     None, None, None, None, None, None,
     None, None, None, None, None, None,
     None, None, Some rvcd_rv32_ebreak, None, None, None,
     None, None, None, None, None, None,
     None, None, None, None, None, Some rvcd_rv32_flw,
     Some rvcd_rv32_fsw, None, None, None, None, None,
     None, None, None, None, None, None,
     None, None, None, None, None, None,
     None, None, None, None, None, None,
     None, None, None, None, None, Some rvcd_rv32_fld,
     Some rvcd_rv32_fsd, None, None, None, None, None,
     None, None, None, None, None, None,
     None, None, None, None, None, None,
     None, None, None, None, None, None,
     None, None, None, None, None, None,
     None, None, None, None, None, None,
     None, None, None, None, None, None,
     None, None, None, None, None, None,
     None, None, None, None, None, None,
     None, None, None, None, None, None,
     None, None, None, None, None, None,
     None, None, None, None, None, None,
     None, None, None, None, None, None,
     None, None, None, None, None, None,
     None, None, None, None, None, None,
     None, None, None, None, None, None,
     None, None, None, None, None, None,
     None, None, None, None, None, None,
     None, None, None, None, None, None,
     None, None, None, None, None, None,
     None, None, None, None, None, None,
     None, None, None, None, None, None,
     None, None, None, None, None, None,
     None, None, None, None, None, None,
     None, None, None, None, None, None,
     None, None, None, None, None, None,
     None]"

definition rv_inst_comp_rv64 :: "rv_comp_data list option list" where
  "rv_inst_comp_rv64 = [
     None, Some rvcd_rv64_lui, None, Some rvcd_rv64_jal, Some rvcd_rv64_jalr, Some rvcd_rv64_beq,
     Some rvcd_rv64_bne, None, None, None, None, None,
     None, Some rvcd_rv64_lw, None, None, None, None,
     Some rvcd_rv64_sw, Some rvcd_rv64_addi, None, None, None, None,
     Some rvcd_rv64_andi, Some rvcd_rv64_slli, Some rvcd_rv64_srli, Some rvcd_rv64_srai, Some rvcd_rv64_add, Some rvcd_rv64_sub,
     None, None, None, Some rvcd_rv64_xor, None, None,
     Some rvcd_rv64_or, Some rvcd_rv64_and, None, None, None, Some rvcd_rv64_ld,
     Some rvcd_rv64_sd, Some rvcd_rv64_addiw, None, None, None, Some rvcd_rv64_addw,
     Some rvcd_rv64_subw, None, None, None, None, None,
     None, None, None, None, None, None,
     None, None, None, None, None, None,
     None, None, None, None, None, None,
     None, None, None, None, None, None,
     None, None, None, None, None, None,
     None, None, None, None, None, None,
     None, None, None, None, None, None,
     None, None, None, None, None, None,
     None, None, None, None, None, None,
     None, None, None, None, None, None,
     None, None, Some rvcd_rv64_ebreak, None, None, None,
     None, None, None, None, None, None,
     None, None, None, None, None, None,
     None, None, None, None, None, None,
     None, None, None, None, None, None,
     None, None, None, None, None, None,
     None, None, None, None, None, None,
     None, None, None, None, None, Some rvcd_rv64_fld,
     Some rvcd_rv64_fsd, None, None, None, None, None,
     None, None, None, None, None, None,
     None, None, None, None, None, None,
     None, None, None, None, None, None,
     None, None, None, None, None, None,
     None, None, None, None, None, None,
     None, None, None, None, None, None,
     None, None, None, None, None, None,
     None, None, None, None, None, None,
     None, None, None, None, None, None,
     None, None, None, None, None, None,
     None, None, None, None, None, None,
     None, None, None, None, None, None,
     None, None, None, None, None, None,
     None, None, None, None, None, None,
     None, None, None, None, None, None,
     None, None, None, None, None, None,
     None, None, None, None, None, None,
     None, None, None, None, None, None,
     None, None, None, None, None, None,
     None, None, None, None, None, None,
     None, None, None, None, None, None,
     None, None, None, None, None, None,
     None, None, None, None, None, None,
     None, None, None, None, None, None,
     None, None, None, None, None, None,
     None]"

definition rv_inst_comp_rv128 :: "rv_comp_data list option list" where
  "rv_inst_comp_rv128 = [
     None, None, None, None, None, None,
     None, None, None, None, None, None,
     None, None, None, None, None, None,
     None, None, None, None, None, None,
     None, None, None, None, None, None,
     None, None, None, None, None, None,
     None, None, None, None, None, None,
     None, None, None, None, None, None,
     None, None, None, None, None, Some rvcd_rv128_lq,
     Some rvcd_rv128_sq, None, None, None, None, None,
     None, None, None, None, None, None,
     None, None, None, None, None, None,
     None, None, None, None, None, None,
     None, None, None, None, None, None,
     None, None, None, None, None, None,
     None, None, None, None, None, None,
     None, None, None, None, None, None,
     None, None, None, None, None, None,
     None, None, None, None, None, None,
     None, None, None, None, None, None,
     None, None, None, None, None, None,
     None, None, None, None, None, None,
     None, None, None, None, None, None,
     None, None, None, None, None, None,
     None, None, None, None, None, None,
     None, None, None, None, None, None,
     None, None, None, None, None, None,
     None, None, None, None, None, None,
     None, None, None, None, None, None,
     None, None, None, None, None, None,
     None, None, None, None, None, None,
     None, None, None, None, None, None,
     None, None, None, None, None, None,
     None, None, None, None, None, None,
     None, None, None, None, None, None,
     None, None, None, None, None, None,
     None, None, None, None, None, None,
     None, None, None, None, None, None,
     None, None, None, None, None, None,
     None, None, None, None, None, None,
     None, None, None, None, None, None,
     None, None, None, None, None, None,
     None, None, None, None, None, None,
     None, None, None, None, None, None,
     None, None, None, None, None, None,
     None, None, None, None, None, None,
     None, None, None, None, None, None,
     None, None, None, None, None, None,
     None, None, None, None, None, None,
     None, None, None, None, None, None,
     None, None, None, None, None, None,
     None, None, None, None, None, None,
     None, None, None, None, None, None,
     None]"

definition rv_inst_decomp_rv32 :: "opcode list" where
  "rv_inst_decomp_rv32 = [
     rv_op_illegal, rv_op_illegal, rv_op_illegal, rv_op_illegal,
     rv_op_illegal, rv_op_illegal, rv_op_illegal, rv_op_illegal,
     rv_op_illegal, rv_op_illegal, rv_op_illegal, rv_op_illegal,
     rv_op_illegal, rv_op_illegal, rv_op_illegal, rv_op_illegal,
     rv_op_illegal, rv_op_illegal, rv_op_illegal, rv_op_illegal,
     rv_op_illegal, rv_op_illegal, rv_op_illegal, rv_op_illegal,
     rv_op_illegal, rv_op_illegal, rv_op_illegal, rv_op_illegal,
     rv_op_illegal, rv_op_illegal, rv_op_illegal, rv_op_illegal,
     rv_op_illegal, rv_op_illegal, rv_op_illegal, rv_op_illegal,
     rv_op_illegal, rv_op_illegal, rv_op_illegal, rv_op_illegal,
     rv_op_illegal, rv_op_illegal, rv_op_illegal, rv_op_illegal,
     rv_op_illegal, rv_op_illegal, rv_op_illegal, rv_op_illegal,
     rv_op_illegal, rv_op_illegal, rv_op_illegal, rv_op_illegal,
     rv_op_illegal, rv_op_illegal, rv_op_illegal, rv_op_illegal,
     rv_op_illegal, rv_op_illegal, rv_op_illegal, rv_op_illegal,
     rv_op_illegal, rv_op_illegal, rv_op_illegal, rv_op_illegal,
     rv_op_illegal, rv_op_illegal, rv_op_illegal, rv_op_illegal,
     rv_op_illegal, rv_op_illegal, rv_op_illegal, rv_op_illegal,
     rv_op_illegal, rv_op_illegal, rv_op_illegal, rv_op_illegal,
     rv_op_illegal, rv_op_illegal, rv_op_illegal, rv_op_illegal,
     rv_op_illegal, rv_op_illegal, rv_op_illegal, rv_op_illegal,
     rv_op_illegal, rv_op_illegal, rv_op_illegal, rv_op_illegal,
     rv_op_illegal, rv_op_illegal, rv_op_illegal, rv_op_illegal,
     rv_op_illegal, rv_op_illegal, rv_op_illegal, rv_op_illegal,
     rv_op_illegal, rv_op_illegal, rv_op_illegal, rv_op_illegal,
     rv_op_illegal, rv_op_illegal, rv_op_illegal, rv_op_illegal,
     rv_op_illegal, rv_op_illegal, rv_op_illegal, rv_op_illegal,
     rv_op_illegal, rv_op_illegal, rv_op_illegal, rv_op_illegal,
     rv_op_illegal, rv_op_illegal, rv_op_illegal, rv_op_illegal,
     rv_op_illegal, rv_op_illegal, rv_op_illegal, rv_op_illegal,
     rv_op_illegal, rv_op_illegal, rv_op_illegal, rv_op_illegal,
     rv_op_illegal, rv_op_illegal, rv_op_illegal, rv_op_illegal,
     rv_op_illegal, rv_op_illegal, rv_op_illegal, rv_op_illegal,
     rv_op_illegal, rv_op_illegal, rv_op_illegal, rv_op_illegal,
     rv_op_illegal, rv_op_illegal, rv_op_illegal, rv_op_illegal,
     rv_op_illegal, rv_op_illegal, rv_op_illegal, rv_op_illegal,
     rv_op_illegal, rv_op_illegal, rv_op_illegal, rv_op_illegal,
     rv_op_illegal, rv_op_illegal, rv_op_illegal, rv_op_illegal,
     rv_op_illegal, rv_op_illegal, rv_op_illegal, rv_op_illegal,
     rv_op_illegal, rv_op_illegal, rv_op_illegal, rv_op_illegal,
     rv_op_illegal, rv_op_illegal, rv_op_illegal, rv_op_illegal,
     rv_op_illegal, rv_op_illegal, rv_op_illegal, rv_op_illegal,
     rv_op_illegal, rv_op_illegal, rv_op_illegal, rv_op_illegal,
     rv_op_illegal, rv_op_illegal, rv_op_illegal, rv_op_illegal,
     rv_op_illegal, rv_op_illegal, rv_op_illegal, rv_op_illegal,
     rv_op_illegal, rv_op_illegal, rv_op_illegal, rv_op_illegal,
     rv_op_illegal, rv_op_illegal, rv_op_illegal, rv_op_illegal,
     rv_op_illegal, rv_op_illegal, rv_op_illegal, rv_op_illegal,
     rv_op_illegal, rv_op_illegal, rv_op_illegal, rv_op_illegal,
     rv_op_illegal, rv_op_illegal, rv_op_illegal, rv_op_illegal,
     rv_op_illegal, rv_op_illegal, rv_op_illegal, rv_op_illegal,
     rv_op_illegal, rv_op_illegal, rv_op_illegal, rv_op_illegal,
     rv_op_illegal, rv_op_illegal, rv_op_illegal, rv_op_illegal,
     rv_op_illegal, rv_op_illegal, rv_op_illegal, rv_op_illegal,
     rv_op_illegal, rv_op_illegal, rv_op_illegal, rv_op_illegal,
     rv_op_illegal, rv_op_illegal, rv_op_illegal, rv_op_illegal,
     rv_op_illegal, rv_op_illegal, rv_op_illegal, rv_op_addi,
     rv_op_fld, rv_op_lw, rv_op_flw, rv_op_fsd,
     rv_op_sw, rv_op_fsw, rv_op_addi, rv_op_addi,
     rv_op_jal, rv_op_addi, rv_op_addi, rv_op_lui,
     rv_op_srli, rv_op_srai, rv_op_andi, rv_op_sub,
     rv_op_xor, rv_op_or, rv_op_and, rv_op_subw,
     rv_op_addw, rv_op_jal, rv_op_beq, rv_op_bne,
     rv_op_slli, rv_op_fld, rv_op_lw, rv_op_flw,
     rv_op_jalr, rv_op_addi, rv_op_ebreak, rv_op_jalr,
     rv_op_add, rv_op_fsd, rv_op_sw, rv_op_fsw,
     rv_op_illegal, rv_op_illegal, rv_op_illegal, rv_op_illegal,
     rv_op_illegal, rv_op_illegal, rv_op_illegal, rv_op_illegal,
     rv_op_illegal, rv_op_illegal, rv_op_illegal, rv_op_illegal,
     rv_op_illegal, rv_op_illegal, rv_op_illegal, rv_op_illegal,
     rv_op_illegal, rv_op_illegal, rv_op_illegal, rv_op_illegal,
     rv_op_illegal, rv_op_illegal, rv_op_illegal, rv_op_illegal,
     rv_op_illegal, rv_op_illegal, rv_op_illegal, rv_op_illegal,
     rv_op_illegal, rv_op_illegal, rv_op_illegal, rv_op_illegal,
     rv_op_illegal, rv_op_illegal, rv_op_illegal, rv_op_illegal,
     rv_op_illegal, rv_op_illegal, rv_op_illegal, rv_op_illegal,
     rv_op_illegal, rv_op_illegal, rv_op_illegal, rv_op_illegal,
     rv_op_illegal, rv_op_illegal, rv_op_illegal, rv_op_illegal,
     rv_op_illegal, rv_op_illegal, rv_op_illegal, rv_op_illegal,
     rv_op_illegal, rv_op_illegal, rv_op_illegal]"

definition rv_inst_decomp_rv64 :: "opcode list" where
  "rv_inst_decomp_rv64 = [
     rv_op_illegal, rv_op_illegal, rv_op_illegal, rv_op_illegal,
     rv_op_illegal, rv_op_illegal, rv_op_illegal, rv_op_illegal,
     rv_op_illegal, rv_op_illegal, rv_op_illegal, rv_op_illegal,
     rv_op_illegal, rv_op_illegal, rv_op_illegal, rv_op_illegal,
     rv_op_illegal, rv_op_illegal, rv_op_illegal, rv_op_illegal,
     rv_op_illegal, rv_op_illegal, rv_op_illegal, rv_op_illegal,
     rv_op_illegal, rv_op_illegal, rv_op_illegal, rv_op_illegal,
     rv_op_illegal, rv_op_illegal, rv_op_illegal, rv_op_illegal,
     rv_op_illegal, rv_op_illegal, rv_op_illegal, rv_op_illegal,
     rv_op_illegal, rv_op_illegal, rv_op_illegal, rv_op_illegal,
     rv_op_illegal, rv_op_illegal, rv_op_illegal, rv_op_illegal,
     rv_op_illegal, rv_op_illegal, rv_op_illegal, rv_op_illegal,
     rv_op_illegal, rv_op_illegal, rv_op_illegal, rv_op_illegal,
     rv_op_illegal, rv_op_illegal, rv_op_illegal, rv_op_illegal,
     rv_op_illegal, rv_op_illegal, rv_op_illegal, rv_op_illegal,
     rv_op_illegal, rv_op_illegal, rv_op_illegal, rv_op_illegal,
     rv_op_illegal, rv_op_illegal, rv_op_illegal, rv_op_illegal,
     rv_op_illegal, rv_op_illegal, rv_op_illegal, rv_op_illegal,
     rv_op_illegal, rv_op_illegal, rv_op_illegal, rv_op_illegal,
     rv_op_illegal, rv_op_illegal, rv_op_illegal, rv_op_illegal,
     rv_op_illegal, rv_op_illegal, rv_op_illegal, rv_op_illegal,
     rv_op_illegal, rv_op_illegal, rv_op_illegal, rv_op_illegal,
     rv_op_illegal, rv_op_illegal, rv_op_illegal, rv_op_illegal,
     rv_op_illegal, rv_op_illegal, rv_op_illegal, rv_op_illegal,
     rv_op_illegal, rv_op_illegal, rv_op_illegal, rv_op_illegal,
     rv_op_illegal, rv_op_illegal, rv_op_illegal, rv_op_illegal,
     rv_op_illegal, rv_op_illegal, rv_op_illegal, rv_op_illegal,
     rv_op_illegal, rv_op_illegal, rv_op_illegal, rv_op_illegal,
     rv_op_illegal, rv_op_illegal, rv_op_illegal, rv_op_illegal,
     rv_op_illegal, rv_op_illegal, rv_op_illegal, rv_op_illegal,
     rv_op_illegal, rv_op_illegal, rv_op_illegal, rv_op_illegal,
     rv_op_illegal, rv_op_illegal, rv_op_illegal, rv_op_illegal,
     rv_op_illegal, rv_op_illegal, rv_op_illegal, rv_op_illegal,
     rv_op_illegal, rv_op_illegal, rv_op_illegal, rv_op_illegal,
     rv_op_illegal, rv_op_illegal, rv_op_illegal, rv_op_illegal,
     rv_op_illegal, rv_op_illegal, rv_op_illegal, rv_op_illegal,
     rv_op_illegal, rv_op_illegal, rv_op_illegal, rv_op_illegal,
     rv_op_illegal, rv_op_illegal, rv_op_illegal, rv_op_illegal,
     rv_op_illegal, rv_op_illegal, rv_op_illegal, rv_op_illegal,
     rv_op_illegal, rv_op_illegal, rv_op_illegal, rv_op_illegal,
     rv_op_illegal, rv_op_illegal, rv_op_illegal, rv_op_illegal,
     rv_op_illegal, rv_op_illegal, rv_op_illegal, rv_op_illegal,
     rv_op_illegal, rv_op_illegal, rv_op_illegal, rv_op_illegal,
     rv_op_illegal, rv_op_illegal, rv_op_illegal, rv_op_illegal,
     rv_op_illegal, rv_op_illegal, rv_op_illegal, rv_op_illegal,
     rv_op_illegal, rv_op_illegal, rv_op_illegal, rv_op_illegal,
     rv_op_illegal, rv_op_illegal, rv_op_illegal, rv_op_illegal,
     rv_op_illegal, rv_op_illegal, rv_op_illegal, rv_op_illegal,
     rv_op_illegal, rv_op_illegal, rv_op_illegal, rv_op_illegal,
     rv_op_illegal, rv_op_illegal, rv_op_illegal, rv_op_illegal,
     rv_op_illegal, rv_op_illegal, rv_op_illegal, rv_op_illegal,
     rv_op_illegal, rv_op_illegal, rv_op_illegal, rv_op_illegal,
     rv_op_illegal, rv_op_illegal, rv_op_illegal, rv_op_illegal,
     rv_op_illegal, rv_op_illegal, rv_op_illegal, rv_op_illegal,
     rv_op_illegal, rv_op_illegal, rv_op_illegal, rv_op_illegal,
     rv_op_illegal, rv_op_illegal, rv_op_illegal, rv_op_illegal,
     rv_op_illegal, rv_op_illegal, rv_op_illegal, rv_op_addi,
     rv_op_fld, rv_op_lw, rv_op_illegal, rv_op_fsd,
     rv_op_sw, rv_op_illegal, rv_op_addi, rv_op_addi,
     rv_op_illegal, rv_op_addi, rv_op_addi, rv_op_lui,
     rv_op_srli, rv_op_srai, rv_op_andi, rv_op_sub,
     rv_op_xor, rv_op_or, rv_op_and, rv_op_subw,
     rv_op_addw, rv_op_jal, rv_op_beq, rv_op_bne,
     rv_op_slli, rv_op_fld, rv_op_lw, rv_op_illegal,
     rv_op_jalr, rv_op_addi, rv_op_ebreak, rv_op_jalr,
     rv_op_add, rv_op_fsd, rv_op_sw, rv_op_illegal,
     rv_op_ld, rv_op_sd, rv_op_addiw, rv_op_ld,
     rv_op_sd, rv_op_illegal, rv_op_illegal, rv_op_illegal,
     rv_op_illegal, rv_op_illegal, rv_op_illegal, rv_op_illegal,
     rv_op_illegal, rv_op_illegal, rv_op_illegal, rv_op_illegal,
     rv_op_illegal, rv_op_illegal, rv_op_illegal, rv_op_illegal,
     rv_op_illegal, rv_op_illegal, rv_op_illegal, rv_op_illegal,
     rv_op_illegal, rv_op_illegal, rv_op_illegal, rv_op_illegal,
     rv_op_illegal, rv_op_illegal, rv_op_illegal, rv_op_illegal,
     rv_op_illegal, rv_op_illegal, rv_op_illegal, rv_op_illegal,
     rv_op_illegal, rv_op_illegal, rv_op_illegal, rv_op_illegal,
     rv_op_illegal, rv_op_illegal, rv_op_illegal, rv_op_illegal,
     rv_op_illegal, rv_op_illegal, rv_op_illegal, rv_op_illegal,
     rv_op_illegal, rv_op_illegal, rv_op_illegal, rv_op_illegal,
     rv_op_illegal, rv_op_illegal, rv_op_illegal]"

definition rv_inst_decomp_rv128 :: "opcode list" where
  "rv_inst_decomp_rv128 = [
     rv_op_illegal, rv_op_illegal, rv_op_illegal, rv_op_illegal,
     rv_op_illegal, rv_op_illegal, rv_op_illegal, rv_op_illegal,
     rv_op_illegal, rv_op_illegal, rv_op_illegal, rv_op_illegal,
     rv_op_illegal, rv_op_illegal, rv_op_illegal, rv_op_illegal,
     rv_op_illegal, rv_op_illegal, rv_op_illegal, rv_op_illegal,
     rv_op_illegal, rv_op_illegal, rv_op_illegal, rv_op_illegal,
     rv_op_illegal, rv_op_illegal, rv_op_illegal, rv_op_illegal,
     rv_op_illegal, rv_op_illegal, rv_op_illegal, rv_op_illegal,
     rv_op_illegal, rv_op_illegal, rv_op_illegal, rv_op_illegal,
     rv_op_illegal, rv_op_illegal, rv_op_illegal, rv_op_illegal,
     rv_op_illegal, rv_op_illegal, rv_op_illegal, rv_op_illegal,
     rv_op_illegal, rv_op_illegal, rv_op_illegal, rv_op_illegal,
     rv_op_illegal, rv_op_illegal, rv_op_illegal, rv_op_illegal,
     rv_op_illegal, rv_op_illegal, rv_op_illegal, rv_op_illegal,
     rv_op_illegal, rv_op_illegal, rv_op_illegal, rv_op_illegal,
     rv_op_illegal, rv_op_illegal, rv_op_illegal, rv_op_illegal,
     rv_op_illegal, rv_op_illegal, rv_op_illegal, rv_op_illegal,
     rv_op_illegal, rv_op_illegal, rv_op_illegal, rv_op_illegal,
     rv_op_illegal, rv_op_illegal, rv_op_illegal, rv_op_illegal,
     rv_op_illegal, rv_op_illegal, rv_op_illegal, rv_op_illegal,
     rv_op_illegal, rv_op_illegal, rv_op_illegal, rv_op_illegal,
     rv_op_illegal, rv_op_illegal, rv_op_illegal, rv_op_illegal,
     rv_op_illegal, rv_op_illegal, rv_op_illegal, rv_op_illegal,
     rv_op_illegal, rv_op_illegal, rv_op_illegal, rv_op_illegal,
     rv_op_illegal, rv_op_illegal, rv_op_illegal, rv_op_illegal,
     rv_op_illegal, rv_op_illegal, rv_op_illegal, rv_op_illegal,
     rv_op_illegal, rv_op_illegal, rv_op_illegal, rv_op_illegal,
     rv_op_illegal, rv_op_illegal, rv_op_illegal, rv_op_illegal,
     rv_op_illegal, rv_op_illegal, rv_op_illegal, rv_op_illegal,
     rv_op_illegal, rv_op_illegal, rv_op_illegal, rv_op_illegal,
     rv_op_illegal, rv_op_illegal, rv_op_illegal, rv_op_illegal,
     rv_op_illegal, rv_op_illegal, rv_op_illegal, rv_op_illegal,
     rv_op_illegal, rv_op_illegal, rv_op_illegal, rv_op_illegal,
     rv_op_illegal, rv_op_illegal, rv_op_illegal, rv_op_illegal,
     rv_op_illegal, rv_op_illegal, rv_op_illegal, rv_op_illegal,
     rv_op_illegal, rv_op_illegal, rv_op_illegal, rv_op_illegal,
     rv_op_illegal, rv_op_illegal, rv_op_illegal, rv_op_illegal,
     rv_op_illegal, rv_op_illegal, rv_op_illegal, rv_op_illegal,
     rv_op_illegal, rv_op_illegal, rv_op_illegal, rv_op_illegal,
     rv_op_illegal, rv_op_illegal, rv_op_illegal, rv_op_illegal,
     rv_op_illegal, rv_op_illegal, rv_op_illegal, rv_op_illegal,
     rv_op_illegal, rv_op_illegal, rv_op_illegal, rv_op_illegal,
     rv_op_illegal, rv_op_illegal, rv_op_illegal, rv_op_illegal,
     rv_op_illegal, rv_op_illegal, rv_op_illegal, rv_op_illegal,
     rv_op_illegal, rv_op_illegal, rv_op_illegal, rv_op_illegal,
     rv_op_illegal, rv_op_illegal, rv_op_illegal, rv_op_illegal,
     rv_op_illegal, rv_op_illegal, rv_op_illegal, rv_op_illegal,
     rv_op_illegal, rv_op_illegal, rv_op_illegal, rv_op_illegal,
     rv_op_illegal, rv_op_illegal, rv_op_illegal, rv_op_illegal,
     rv_op_illegal, rv_op_illegal, rv_op_illegal, rv_op_illegal,
     rv_op_illegal, rv_op_illegal, rv_op_illegal, rv_op_illegal,
     rv_op_illegal, rv_op_illegal, rv_op_illegal, rv_op_illegal,
     rv_op_illegal, rv_op_illegal, rv_op_illegal, rv_op_illegal,
     rv_op_illegal, rv_op_illegal, rv_op_illegal, rv_op_illegal,
     rv_op_illegal, rv_op_illegal, rv_op_illegal, rv_op_illegal,
     rv_op_illegal, rv_op_illegal, rv_op_illegal, rv_op_illegal,
     rv_op_illegal, rv_op_illegal, rv_op_illegal, rv_op_illegal,
     rv_op_illegal, rv_op_illegal, rv_op_illegal, rv_op_illegal,
     rv_op_illegal, rv_op_illegal, rv_op_illegal, rv_op_illegal,
     rv_op_illegal, rv_op_illegal, rv_op_illegal, rv_op_illegal,
     rv_op_illegal, rv_op_illegal, rv_op_illegal, rv_op_illegal,
     rv_op_illegal, rv_op_illegal, rv_op_illegal, rv_op_illegal,
     rv_op_illegal, rv_op_illegal, rv_op_illegal, rv_op_illegal,
     rv_op_illegal, rv_op_illegal, rv_op_illegal, rv_op_illegal,
     rv_op_illegal, rv_op_illegal, rv_op_illegal, rv_op_illegal,
     rv_op_illegal, rv_op_illegal, rv_op_illegal, rv_op_illegal,
     rv_op_illegal, rv_op_illegal, rv_op_illegal, rv_op_illegal,
     rv_op_illegal, rv_op_lq, rv_op_sq, rv_op_lq,
     rv_op_sq, rv_op_illegal, rv_op_illegal, rv_op_illegal,
     rv_op_illegal, rv_op_illegal, rv_op_illegal, rv_op_illegal,
     rv_op_illegal, rv_op_illegal, rv_op_illegal, rv_op_illegal,
     rv_op_illegal, rv_op_illegal, rv_op_illegal, rv_op_illegal,
     rv_op_illegal, rv_op_illegal, rv_op_illegal, rv_op_illegal,
     rv_op_illegal, rv_op_illegal, rv_op_illegal, rv_op_illegal,
     rv_op_illegal, rv_op_illegal, rv_op_illegal, rv_op_illegal,
     rv_op_illegal, rv_op_illegal, rv_op_illegal, rv_op_illegal,
     rv_op_illegal, rv_op_illegal, rv_op_illegal, rv_op_illegal,
     rv_op_illegal, rv_op_illegal, rv_op_illegal, rv_op_illegal,
     rv_op_illegal, rv_op_illegal, rv_op_illegal, rv_op_illegal,
     rv_op_illegal, rv_op_illegal, rv_op_illegal]"

lemmas rvcc_defs =
  rvcc_c_addi4spn_def rvcc_c_fld_def rvcc_c_lw_def rvcc_c_flw_def
  rvcc_c_fsd_def rvcc_c_sw_def rvcc_c_fsw_def rvcc_c_nop_def
  rvcc_c_addi_def rvcc_c_jal_def rvcc_c_li_def rvcc_c_addi16sp_def
  rvcc_c_lui_def rvcc_c_srli_rv32c_def rvcc_c_srai_rv32c_def rvcc_c_andi_def
  rvcc_c_sub_def rvcc_c_xor_def rvcc_c_or_def rvcc_c_and_def
  rvcc_c_subw_def rvcc_c_addw_def rvcc_c_j_def rvcc_c_beqz_def
  rvcc_c_bnez_def rvcc_c_slli_rv32c_def rvcc_c_fldsp_def rvcc_c_lwsp_def
  rvcc_c_flwsp_def rvcc_c_jr_def rvcc_c_mv_def rvcc_c_ebreak_def
  rvcc_c_jalr_def rvcc_c_add_def rvcc_c_fsdsp_def rvcc_c_swsp_def
  rvcc_c_fswsp_def rvcc_c_ld_def rvcc_c_sd_def rvcc_c_addiw_def
  rvcc_c_srli_rv64c_def rvcc_c_srai_rv64c_def rvcc_c_slli_rv64c_def rvcc_c_ldsp_def
  rvcc_c_sdsp_def rvcc_c_lq_def rvcc_c_sq_def rvcc_c_lqsp_def
  rvcc_c_sqsp_def rvcc_jal_def rvcc_jalr_def rvcc_nop_def
  rvcc_mv_def rvcc_not_def rvcc_neg_def rvcc_negw_def
  rvcc_sext_w_def rvcc_seqz_def rvcc_snez_def rvcc_sltz_def
  rvcc_sgtz_def rvcc_fmv_s_def rvcc_fabs_s_def rvcc_fneg_s_def
  rvcc_fmv_d_def rvcc_fabs_d_def rvcc_fneg_d_def rvcc_fmv_q_def
  rvcc_fabs_q_def rvcc_fneg_q_def rvcc_beqz_def rvcc_bnez_def
  rvcc_blez_def rvcc_bgez_def rvcc_bltz_def rvcc_bgtz_def
  rvcc_ble_def rvcc_bleu_def rvcc_bgt_def rvcc_bgtu_def
  rvcc_j_def rvcc_ret_def rvcc_jr_def rvcc_rdcycle_def
  rvcc_rdtime_def rvcc_rdinstret_def rvcc_rdcycleh_def rvcc_rdtimeh_def
  rvcc_rdinstreth_def rvcc_frcsr_def rvcc_frrm_def rvcc_frflags_def
  rvcc_fscsr_def rvcc_fsrm_def rvcc_fsflags_def rvcc_fsrmi_def
  rvcc_fsflagsi_def

lemmas rvcd_defs =
  rvcd_rv32_lui_def rvcd_rv32_jal_def rvcd_rv32_jalr_def rvcd_rv32_beq_def
  rvcd_rv32_bne_def rvcd_rv32_lw_def rvcd_rv32_sw_def rvcd_rv32_addi_def
  rvcd_rv32_andi_def rvcd_rv32_slli_def rvcd_rv32_srli_def rvcd_rv32_srai_def
  rvcd_rv32_add_def rvcd_rv32_sub_def rvcd_rv32_xor_def rvcd_rv32_or_def
  rvcd_rv32_and_def rvcd_rv32_ebreak_def rvcd_rv32_flw_def rvcd_rv32_fsw_def
  rvcd_rv32_fld_def rvcd_rv32_fsd_def rvcd_rv64_lui_def rvcd_rv64_jal_def
  rvcd_rv64_jalr_def rvcd_rv64_beq_def rvcd_rv64_bne_def rvcd_rv64_lw_def
  rvcd_rv64_sw_def rvcd_rv64_addi_def rvcd_rv64_andi_def rvcd_rv64_add_def
  rvcd_rv64_sub_def rvcd_rv64_xor_def rvcd_rv64_or_def rvcd_rv64_and_def
  rvcd_rv64_ld_def rvcd_rv64_sd_def rvcd_rv64_slli_def rvcd_rv64_srli_def
  rvcd_rv64_srai_def rvcd_rv64_addiw_def rvcd_rv64_addw_def rvcd_rv64_subw_def
  rvcd_rv64_ebreak_def rvcd_rv64_fld_def rvcd_rv64_fsd_def rvcd_rv128_lq_def
  rvcd_rv128_sq_def

lemmas rvcp_defs =
  rvcp_jal_def rvcp_jalr_def rvcp_beq_def rvcp_bne_def
  rvcp_blt_def rvcp_bge_def rvcp_bltu_def rvcp_bgeu_def
  rvcp_addi_def rvcp_sltiu_def rvcp_xori_def rvcp_sub_def
  rvcp_slt_def rvcp_sltu_def rvcp_addiw_def rvcp_subw_def
  rvcp_csrrw_def rvcp_csrrs_def rvcp_csrrwi_def rvcp_fsgnj_s_def
  rvcp_fsgnjn_s_def rvcp_fsgnjx_s_def rvcp_fsgnj_d_def rvcp_fsgnjn_d_def
  rvcp_fsgnjx_d_def rvcp_fsgnj_q_def rvcp_fsgnjn_q_def rvcp_fsgnjx_q_def

section \<open>Shape of the tables\<close>

lemma table_lengths:
  "length rv_inst_codec = 319" "length rv_inst_match = 319" "length rv_inst_mask = 319"
  "length rv_inst_pseudo = 319" "length rv_inst_depseudo = 319"
  "length rv_inst_comp_rv32 = 319" "length rv_inst_comp_rv64 = 319" "length rv_inst_comp_rv128 = 319"
  "length rv_inst_decomp_rv32 = 319" "length rv_inst_decomp_rv64 = 319"
  "length rv_inst_decomp_rv128 = 319"
  by (simp_all add: rv_inst_codec_def rv_inst_match_def rv_inst_mask_def rv_inst_pseudo_def
      rv_inst_depseudo_def rv_inst_comp_rv32_def rv_inst_comp_rv64_def rv_inst_comp_rv128_def
      rv_inst_decomp_rv32_def rv_inst_decomp_rv64_def rv_inst_decomp_rv128_def)

section \<open>Table lookups\<close>

text \<open>The entry of every opcode, so that later proofs look an entry up in one step.\<close>

named_theorems meta_nth \<open>the entries of the tables indexed by opcode\<close>

lemma rv_inst_codec_nth [meta_nth]:
  "rv_inst_codec ! rv_op_illegal = rv_codec_illegal"
  "rv_inst_codec ! rv_op_lui = rv_codec_u"
  "rv_inst_codec ! rv_op_auipc = rv_codec_u"
  "rv_inst_codec ! rv_op_jal = rv_codec_uj"
  "rv_inst_codec ! rv_op_jalr = rv_codec_i"
  "rv_inst_codec ! rv_op_beq = rv_codec_sb"
  "rv_inst_codec ! rv_op_bne = rv_codec_sb"
  "rv_inst_codec ! rv_op_blt = rv_codec_sb"
  "rv_inst_codec ! rv_op_bge = rv_codec_sb"
  "rv_inst_codec ! rv_op_bltu = rv_codec_sb"
  "rv_inst_codec ! rv_op_bgeu = rv_codec_sb"
  "rv_inst_codec ! rv_op_lb = rv_codec_i"
  "rv_inst_codec ! rv_op_lh = rv_codec_i"
  "rv_inst_codec ! rv_op_lw = rv_codec_i"
  "rv_inst_codec ! rv_op_lbu = rv_codec_i"
  "rv_inst_codec ! rv_op_lhu = rv_codec_i"
  "rv_inst_codec ! rv_op_sb = rv_codec_s"
  "rv_inst_codec ! rv_op_sh = rv_codec_s"
  "rv_inst_codec ! rv_op_sw = rv_codec_s"
  "rv_inst_codec ! rv_op_addi = rv_codec_i"
  "rv_inst_codec ! rv_op_slti = rv_codec_i"
  "rv_inst_codec ! rv_op_sltiu = rv_codec_i"
  "rv_inst_codec ! rv_op_xori = rv_codec_i"
  "rv_inst_codec ! rv_op_ori = rv_codec_i"
  "rv_inst_codec ! rv_op_andi = rv_codec_i"
  "rv_inst_codec ! rv_op_slli = rv_codec_i_sh7"
  "rv_inst_codec ! rv_op_srli = rv_codec_i_sh7"
  "rv_inst_codec ! rv_op_srai = rv_codec_i_sh7"
  "rv_inst_codec ! rv_op_add = rv_codec_r"
  "rv_inst_codec ! rv_op_sub = rv_codec_r"
  "rv_inst_codec ! rv_op_sll = rv_codec_r"
  "rv_inst_codec ! rv_op_slt = rv_codec_r"
  "rv_inst_codec ! rv_op_sltu = rv_codec_r"
  "rv_inst_codec ! rv_op_xor = rv_codec_r"
  "rv_inst_codec ! rv_op_srl = rv_codec_r"
  "rv_inst_codec ! rv_op_sra = rv_codec_r"
  "rv_inst_codec ! rv_op_or = rv_codec_r"
  "rv_inst_codec ! rv_op_and = rv_codec_r"
  "rv_inst_codec ! rv_op_fence = rv_codec_r_f"
  "rv_inst_codec ! rv_op_fence_i = rv_codec_none"
  "rv_inst_codec ! rv_op_lwu = rv_codec_i"
  "rv_inst_codec ! rv_op_ld = rv_codec_i"
  "rv_inst_codec ! rv_op_sd = rv_codec_s"
  "rv_inst_codec ! rv_op_addiw = rv_codec_i"
  "rv_inst_codec ! rv_op_slliw = rv_codec_i_sh5"
  "rv_inst_codec ! rv_op_srliw = rv_codec_i_sh5"
  "rv_inst_codec ! rv_op_sraiw = rv_codec_i_sh5"
  "rv_inst_codec ! rv_op_addw = rv_codec_r"
  "rv_inst_codec ! rv_op_subw = rv_codec_r"
  "rv_inst_codec ! rv_op_sllw = rv_codec_r"
  "rv_inst_codec ! rv_op_srlw = rv_codec_r"
  "rv_inst_codec ! rv_op_sraw = rv_codec_r"
  "rv_inst_codec ! rv_op_ldu = rv_codec_i"
  "rv_inst_codec ! rv_op_lq = rv_codec_i"
  "rv_inst_codec ! rv_op_sq = rv_codec_s"
  "rv_inst_codec ! rv_op_addid = rv_codec_i"
  "rv_inst_codec ! rv_op_sllid = rv_codec_i_sh6"
  "rv_inst_codec ! rv_op_srlid = rv_codec_i_sh6"
  "rv_inst_codec ! rv_op_sraid = rv_codec_i_sh6"
  "rv_inst_codec ! rv_op_addd = rv_codec_r"
  "rv_inst_codec ! rv_op_subd = rv_codec_r"
  "rv_inst_codec ! rv_op_slld = rv_codec_r"
  "rv_inst_codec ! rv_op_srld = rv_codec_r"
  "rv_inst_codec ! rv_op_srad = rv_codec_r"
  "rv_inst_codec ! rv_op_mul = rv_codec_r"
  "rv_inst_codec ! rv_op_mulh = rv_codec_r"
  "rv_inst_codec ! rv_op_mulhsu = rv_codec_r"
  "rv_inst_codec ! rv_op_mulhu = rv_codec_r"
  "rv_inst_codec ! rv_op_div = rv_codec_r"
  "rv_inst_codec ! rv_op_divu = rv_codec_r"
  "rv_inst_codec ! rv_op_rem = rv_codec_r"
  "rv_inst_codec ! rv_op_remu = rv_codec_r"
  "rv_inst_codec ! rv_op_mulw = rv_codec_r"
  "rv_inst_codec ! rv_op_divw = rv_codec_r"
  "rv_inst_codec ! rv_op_divuw = rv_codec_r"
  "rv_inst_codec ! rv_op_remw = rv_codec_r"
  "rv_inst_codec ! rv_op_remuw = rv_codec_r"
  "rv_inst_codec ! rv_op_muld = rv_codec_r"
  "rv_inst_codec ! rv_op_divd = rv_codec_r"
  "rv_inst_codec ! rv_op_divud = rv_codec_r"
  "rv_inst_codec ! rv_op_remd = rv_codec_r"
  "rv_inst_codec ! rv_op_remud = rv_codec_r"
  "rv_inst_codec ! rv_op_lr_w = rv_codec_r_l"
  "rv_inst_codec ! rv_op_sc_w = rv_codec_r_a"
  "rv_inst_codec ! rv_op_amoswap_w = rv_codec_r_a"
  "rv_inst_codec ! rv_op_amoadd_w = rv_codec_r_a"
  "rv_inst_codec ! rv_op_amoxor_w = rv_codec_r_a"
  "rv_inst_codec ! rv_op_amoor_w = rv_codec_r_a"
  "rv_inst_codec ! rv_op_amoand_w = rv_codec_r_a"
  "rv_inst_codec ! rv_op_amomin_w = rv_codec_r_a"
  "rv_inst_codec ! rv_op_amomax_w = rv_codec_r_a"
  "rv_inst_codec ! rv_op_amominu_w = rv_codec_r_a"
  "rv_inst_codec ! rv_op_amomaxu_w = rv_codec_r_a"
  "rv_inst_codec ! rv_op_lr_d = rv_codec_r_l"
  "rv_inst_codec ! rv_op_sc_d = rv_codec_r_a"
  "rv_inst_codec ! rv_op_amoswap_d = rv_codec_r_a"
  "rv_inst_codec ! rv_op_amoadd_d = rv_codec_r_a"
  "rv_inst_codec ! rv_op_amoxor_d = rv_codec_r_a"
  "rv_inst_codec ! rv_op_amoor_d = rv_codec_r_a"
  "rv_inst_codec ! rv_op_amoand_d = rv_codec_r_a"
  "rv_inst_codec ! rv_op_amomin_d = rv_codec_r_a"
  "rv_inst_codec ! rv_op_amomax_d = rv_codec_r_a"
  "rv_inst_codec ! rv_op_amominu_d = rv_codec_r_a"
  "rv_inst_codec ! rv_op_amomaxu_d = rv_codec_r_a"
  "rv_inst_codec ! rv_op_lr_q = rv_codec_r_l"
  "rv_inst_codec ! rv_op_sc_q = rv_codec_r_a"
  "rv_inst_codec ! rv_op_amoswap_q = rv_codec_r_a"
  "rv_inst_codec ! rv_op_amoadd_q = rv_codec_r_a"
  "rv_inst_codec ! rv_op_amoxor_q = rv_codec_r_a"
  "rv_inst_codec ! rv_op_amoor_q = rv_codec_r_a"
  "rv_inst_codec ! rv_op_amoand_q = rv_codec_r_a"
  "rv_inst_codec ! rv_op_amomin_q = rv_codec_r_a"
  "rv_inst_codec ! rv_op_amomax_q = rv_codec_r_a"
  "rv_inst_codec ! rv_op_amominu_q = rv_codec_r_a"
  "rv_inst_codec ! rv_op_amomaxu_q = rv_codec_r_a"
  "rv_inst_codec ! rv_op_ecall = rv_codec_none"
  "rv_inst_codec ! rv_op_ebreak = rv_codec_none"
  "rv_inst_codec ! rv_op_uret = rv_codec_none"
  "rv_inst_codec ! rv_op_sret = rv_codec_none"
  "rv_inst_codec ! rv_op_hret = rv_codec_none"
  "rv_inst_codec ! rv_op_mret = rv_codec_none"
  "rv_inst_codec ! rv_op_dret = rv_codec_none"
  "rv_inst_codec ! rv_op_sfence_vm = rv_codec_r"
  "rv_inst_codec ! rv_op_sfence_vma = rv_codec_r"
  "rv_inst_codec ! rv_op_wfi = rv_codec_none"
  "rv_inst_codec ! rv_op_csrrw = rv_codec_i_csr"
  "rv_inst_codec ! rv_op_csrrs = rv_codec_i_csr"
  "rv_inst_codec ! rv_op_csrrc = rv_codec_i_csr"
  "rv_inst_codec ! rv_op_csrrwi = rv_codec_i_csr"
  "rv_inst_codec ! rv_op_csrrsi = rv_codec_i_csr"
  "rv_inst_codec ! rv_op_csrrci = rv_codec_i_csr"
  "rv_inst_codec ! rv_op_flw = rv_codec_i"
  "rv_inst_codec ! rv_op_fsw = rv_codec_s"
  "rv_inst_codec ! rv_op_fmadd_s = rv_codec_r4_m"
  "rv_inst_codec ! rv_op_fmsub_s = rv_codec_r4_m"
  "rv_inst_codec ! rv_op_fnmsub_s = rv_codec_r4_m"
  "rv_inst_codec ! rv_op_fnmadd_s = rv_codec_r4_m"
  "rv_inst_codec ! rv_op_fadd_s = rv_codec_r_m"
  "rv_inst_codec ! rv_op_fsub_s = rv_codec_r_m"
  "rv_inst_codec ! rv_op_fmul_s = rv_codec_r_m"
  "rv_inst_codec ! rv_op_fdiv_s = rv_codec_r_m"
  "rv_inst_codec ! rv_op_fsgnj_s = rv_codec_r"
  "rv_inst_codec ! rv_op_fsgnjn_s = rv_codec_r"
  "rv_inst_codec ! rv_op_fsgnjx_s = rv_codec_r"
  "rv_inst_codec ! rv_op_fmin_s = rv_codec_r"
  "rv_inst_codec ! rv_op_fmax_s = rv_codec_r"
  "rv_inst_codec ! rv_op_fsqrt_s = rv_codec_r_m"
  "rv_inst_codec ! rv_op_fle_s = rv_codec_r"
  "rv_inst_codec ! rv_op_flt_s = rv_codec_r"
  "rv_inst_codec ! rv_op_feq_s = rv_codec_r"
  "rv_inst_codec ! rv_op_fcvt_w_s = rv_codec_r_m"
  "rv_inst_codec ! rv_op_fcvt_wu_s = rv_codec_r_m"
  "rv_inst_codec ! rv_op_fcvt_s_w = rv_codec_r_m"
  "rv_inst_codec ! rv_op_fcvt_s_wu = rv_codec_r_m"
  "rv_inst_codec ! rv_op_fmv_x_s = rv_codec_r"
  "rv_inst_codec ! rv_op_fclass_s = rv_codec_r"
  "rv_inst_codec ! rv_op_fmv_s_x = rv_codec_r"
  "rv_inst_codec ! rv_op_fcvt_l_s = rv_codec_r_m"
  "rv_inst_codec ! rv_op_fcvt_lu_s = rv_codec_r_m"
  "rv_inst_codec ! rv_op_fcvt_s_l = rv_codec_r_m"
  "rv_inst_codec ! rv_op_fcvt_s_lu = rv_codec_r_m"
  "rv_inst_codec ! rv_op_fld = rv_codec_i"
  "rv_inst_codec ! rv_op_fsd = rv_codec_s"
  "rv_inst_codec ! rv_op_fmadd_d = rv_codec_r4_m"
  "rv_inst_codec ! rv_op_fmsub_d = rv_codec_r4_m"
  "rv_inst_codec ! rv_op_fnmsub_d = rv_codec_r4_m"
  "rv_inst_codec ! rv_op_fnmadd_d = rv_codec_r4_m"
  "rv_inst_codec ! rv_op_fadd_d = rv_codec_r_m"
  "rv_inst_codec ! rv_op_fsub_d = rv_codec_r_m"
  "rv_inst_codec ! rv_op_fmul_d = rv_codec_r_m"
  "rv_inst_codec ! rv_op_fdiv_d = rv_codec_r_m"
  "rv_inst_codec ! rv_op_fsgnj_d = rv_codec_r"
  "rv_inst_codec ! rv_op_fsgnjn_d = rv_codec_r"
  "rv_inst_codec ! rv_op_fsgnjx_d = rv_codec_r"
  "rv_inst_codec ! rv_op_fmin_d = rv_codec_r"
  "rv_inst_codec ! rv_op_fmax_d = rv_codec_r"
  "rv_inst_codec ! rv_op_fcvt_s_d = rv_codec_r_m"
  "rv_inst_codec ! rv_op_fcvt_d_s = rv_codec_r_m"
  "rv_inst_codec ! rv_op_fsqrt_d = rv_codec_r_m"
  "rv_inst_codec ! rv_op_fle_d = rv_codec_r"
  "rv_inst_codec ! rv_op_flt_d = rv_codec_r"
  "rv_inst_codec ! rv_op_feq_d = rv_codec_r"
  "rv_inst_codec ! rv_op_fcvt_w_d = rv_codec_r_m"
  "rv_inst_codec ! rv_op_fcvt_wu_d = rv_codec_r_m"
  "rv_inst_codec ! rv_op_fcvt_d_w = rv_codec_r_m"
  "rv_inst_codec ! rv_op_fcvt_d_wu = rv_codec_r_m"
  "rv_inst_codec ! rv_op_fclass_d = rv_codec_r"
  "rv_inst_codec ! rv_op_fcvt_l_d = rv_codec_r_m"
  "rv_inst_codec ! rv_op_fcvt_lu_d = rv_codec_r_m"
  "rv_inst_codec ! rv_op_fmv_x_d = rv_codec_r"
  "rv_inst_codec ! rv_op_fcvt_d_l = rv_codec_r_m"
  "rv_inst_codec ! rv_op_fcvt_d_lu = rv_codec_r_m"
  "rv_inst_codec ! rv_op_fmv_d_x = rv_codec_r"
  "rv_inst_codec ! rv_op_flq = rv_codec_i"
  "rv_inst_codec ! rv_op_fsq = rv_codec_s"
  "rv_inst_codec ! rv_op_fmadd_q = rv_codec_r4_m"
  "rv_inst_codec ! rv_op_fmsub_q = rv_codec_r4_m"
  "rv_inst_codec ! rv_op_fnmsub_q = rv_codec_r4_m"
  "rv_inst_codec ! rv_op_fnmadd_q = rv_codec_r4_m"
  "rv_inst_codec ! rv_op_fadd_q = rv_codec_r_m"
  "rv_inst_codec ! rv_op_fsub_q = rv_codec_r_m"
  "rv_inst_codec ! rv_op_fmul_q = rv_codec_r_m"
  "rv_inst_codec ! rv_op_fdiv_q = rv_codec_r_m"
  "rv_inst_codec ! rv_op_fsgnj_q = rv_codec_r"
  "rv_inst_codec ! rv_op_fsgnjn_q = rv_codec_r"
  "rv_inst_codec ! rv_op_fsgnjx_q = rv_codec_r"
  "rv_inst_codec ! rv_op_fmin_q = rv_codec_r"
  "rv_inst_codec ! rv_op_fmax_q = rv_codec_r"
  "rv_inst_codec ! rv_op_fcvt_s_q = rv_codec_r_m"
  "rv_inst_codec ! rv_op_fcvt_q_s = rv_codec_r_m"
  "rv_inst_codec ! rv_op_fcvt_d_q = rv_codec_r_m"
  "rv_inst_codec ! rv_op_fcvt_q_d = rv_codec_r_m"
  "rv_inst_codec ! rv_op_fsqrt_q = rv_codec_r_m"
  "rv_inst_codec ! rv_op_fle_q = rv_codec_r"
  "rv_inst_codec ! rv_op_flt_q = rv_codec_r"
  "rv_inst_codec ! rv_op_feq_q = rv_codec_r"
  "rv_inst_codec ! rv_op_fcvt_w_q = rv_codec_r_m"
  "rv_inst_codec ! rv_op_fcvt_wu_q = rv_codec_r_m"
  "rv_inst_codec ! rv_op_fcvt_q_w = rv_codec_r_m"
  "rv_inst_codec ! rv_op_fcvt_q_wu = rv_codec_r_m"
  "rv_inst_codec ! rv_op_fclass_q = rv_codec_r"
  "rv_inst_codec ! rv_op_fcvt_l_q = rv_codec_r_m"
  "rv_inst_codec ! rv_op_fcvt_lu_q = rv_codec_r_m"
  "rv_inst_codec ! rv_op_fcvt_q_l = rv_codec_r_m"
  "rv_inst_codec ! rv_op_fcvt_q_lu = rv_codec_r_m"
  "rv_inst_codec ! rv_op_fmv_x_q = rv_codec_r"
  "rv_inst_codec ! rv_op_fmv_q_x = rv_codec_r"
  "rv_inst_codec ! rv_op_c_addi4spn = rv_codec_ciw_4spn"
  "rv_inst_codec ! rv_op_c_fld = rv_codec_cl_ld"
  "rv_inst_codec ! rv_op_c_lw = rv_codec_cl_lw"
  "rv_inst_codec ! rv_op_c_flw = rv_codec_cl_lw"
  "rv_inst_codec ! rv_op_c_fsd = rv_codec_cs_sd"
  "rv_inst_codec ! rv_op_c_sw = rv_codec_cs_sw"
  "rv_inst_codec ! rv_op_c_fsw = rv_codec_cs_sw"
  "rv_inst_codec ! rv_op_c_nop = rv_codec_ci_none"
  "rv_inst_codec ! rv_op_c_addi = rv_codec_ci"
  "rv_inst_codec ! rv_op_c_jal = rv_codec_cj_jal"
  "rv_inst_codec ! rv_op_c_li = rv_codec_ci_li"
  "rv_inst_codec ! rv_op_c_addi16sp = rv_codec_ci_16sp"
  "rv_inst_codec ! rv_op_c_lui = rv_codec_ci_lui"
  "rv_inst_codec ! rv_op_c_srli = rv_codec_cb_sh6"
  "rv_inst_codec ! rv_op_c_srai = rv_codec_cb_sh6"
  "rv_inst_codec ! rv_op_c_andi = rv_codec_cb_imm"
  "rv_inst_codec ! rv_op_c_sub = rv_codec_cs"
  "rv_inst_codec ! rv_op_c_xor = rv_codec_cs"
  "rv_inst_codec ! rv_op_c_or = rv_codec_cs"
  "rv_inst_codec ! rv_op_c_and = rv_codec_cs"
  "rv_inst_codec ! rv_op_c_subw = rv_codec_cs"
  "rv_inst_codec ! rv_op_c_addw = rv_codec_cs"
  "rv_inst_codec ! rv_op_c_j = rv_codec_cj"
  "rv_inst_codec ! rv_op_c_beqz = rv_codec_cb"
  "rv_inst_codec ! rv_op_c_bnez = rv_codec_cb"
  "rv_inst_codec ! rv_op_c_slli = rv_codec_ci_sh6"
  "rv_inst_codec ! rv_op_c_fldsp = rv_codec_ci_ldsp"
  "rv_inst_codec ! rv_op_c_lwsp = rv_codec_ci_lwsp"
  "rv_inst_codec ! rv_op_c_flwsp = rv_codec_ci_lwsp"
  "rv_inst_codec ! rv_op_c_jr = rv_codec_cr_jr"
  "rv_inst_codec ! rv_op_c_mv = rv_codec_cr_mv"
  "rv_inst_codec ! rv_op_c_ebreak = rv_codec_ci_none"
  "rv_inst_codec ! rv_op_c_jalr = rv_codec_cr_jalr"
  "rv_inst_codec ! rv_op_c_add = rv_codec_cr"
  "rv_inst_codec ! rv_op_c_fsdsp = rv_codec_css_sdsp"
  "rv_inst_codec ! rv_op_c_swsp = rv_codec_css_swsp"
  "rv_inst_codec ! rv_op_c_fswsp = rv_codec_css_swsp"
  "rv_inst_codec ! rv_op_c_ld = rv_codec_cl_ld"
  "rv_inst_codec ! rv_op_c_sd = rv_codec_cs_sd"
  "rv_inst_codec ! rv_op_c_addiw = rv_codec_ci"
  "rv_inst_codec ! rv_op_c_ldsp = rv_codec_ci_ldsp"
  "rv_inst_codec ! rv_op_c_sdsp = rv_codec_css_sdsp"
  "rv_inst_codec ! rv_op_c_lq = rv_codec_cl_lq"
  "rv_inst_codec ! rv_op_c_sq = rv_codec_cs_sq"
  "rv_inst_codec ! rv_op_c_lqsp = rv_codec_ci_lqsp"
  "rv_inst_codec ! rv_op_c_sqsp = rv_codec_css_sqsp"
  "rv_inst_codec ! rv_op_nop = rv_codec_i"
  "rv_inst_codec ! rv_op_mv = rv_codec_i"
  "rv_inst_codec ! rv_op_not = rv_codec_i"
  "rv_inst_codec ! rv_op_neg = rv_codec_r"
  "rv_inst_codec ! rv_op_negw = rv_codec_r"
  "rv_inst_codec ! rv_op_sext_w = rv_codec_i"
  "rv_inst_codec ! rv_op_seqz = rv_codec_i"
  "rv_inst_codec ! rv_op_snez = rv_codec_r"
  "rv_inst_codec ! rv_op_sltz = rv_codec_r"
  "rv_inst_codec ! rv_op_sgtz = rv_codec_r"
  "rv_inst_codec ! rv_op_fmv_s = rv_codec_r"
  "rv_inst_codec ! rv_op_fabs_s = rv_codec_r"
  "rv_inst_codec ! rv_op_fneg_s = rv_codec_r"
  "rv_inst_codec ! rv_op_fmv_d = rv_codec_r"
  "rv_inst_codec ! rv_op_fabs_d = rv_codec_r"
  "rv_inst_codec ! rv_op_fneg_d = rv_codec_r"
  "rv_inst_codec ! rv_op_fmv_q = rv_codec_r"
  "rv_inst_codec ! rv_op_fabs_q = rv_codec_r"
  "rv_inst_codec ! rv_op_fneg_q = rv_codec_r"
  "rv_inst_codec ! rv_op_beqz = rv_codec_sb"
  "rv_inst_codec ! rv_op_bnez = rv_codec_sb"
  "rv_inst_codec ! rv_op_blez = rv_codec_sb"
  "rv_inst_codec ! rv_op_bgez = rv_codec_sb"
  "rv_inst_codec ! rv_op_bltz = rv_codec_sb"
  "rv_inst_codec ! rv_op_bgtz = rv_codec_sb"
  "rv_inst_codec ! rv_op_ble = rv_codec_sb"
  "rv_inst_codec ! rv_op_bleu = rv_codec_sb"
  "rv_inst_codec ! rv_op_bgt = rv_codec_sb"
  "rv_inst_codec ! rv_op_bgtu = rv_codec_sb"
  "rv_inst_codec ! rv_op_j = rv_codec_uj"
  "rv_inst_codec ! rv_op_ret = rv_codec_i"
  "rv_inst_codec ! rv_op_jr = rv_codec_i"
  "rv_inst_codec ! rv_op_rdcycle = rv_codec_i_csr"
  "rv_inst_codec ! rv_op_rdtime = rv_codec_i_csr"
  "rv_inst_codec ! rv_op_rdinstret = rv_codec_i_csr"
  "rv_inst_codec ! rv_op_rdcycleh = rv_codec_i_csr"
  "rv_inst_codec ! rv_op_rdtimeh = rv_codec_i_csr"
  "rv_inst_codec ! rv_op_rdinstreth = rv_codec_i_csr"
  "rv_inst_codec ! rv_op_frcsr = rv_codec_i_csr"
  "rv_inst_codec ! rv_op_frrm = rv_codec_i_csr"
  "rv_inst_codec ! rv_op_frflags = rv_codec_i_csr"
  "rv_inst_codec ! rv_op_fscsr = rv_codec_i_csr"
  "rv_inst_codec ! rv_op_fsrm = rv_codec_i_csr"
  "rv_inst_codec ! rv_op_fsflags = rv_codec_i_csr"
  "rv_inst_codec ! rv_op_fsrmi = rv_codec_i_csr"
  "rv_inst_codec ! rv_op_fsflagsi = rv_codec_i_csr"
  by (simp_all add: rv_inst_codec_def)

lemmas rv_inst_codec_nth_lui [meta_nth] = rv_inst_codec_nth(2) [unfolded One_nat_def]

lemma rv_inst_match_nth [meta_nth]:
  "rv_inst_match ! rv_op_illegal = 0x0"
  "rv_inst_match ! rv_op_lui = 0x37"
  "rv_inst_match ! rv_op_auipc = 0x17"
  "rv_inst_match ! rv_op_jal = 0x6f"
  "rv_inst_match ! rv_op_jalr = 0x67"
  "rv_inst_match ! rv_op_beq = 0x63"
  "rv_inst_match ! rv_op_bne = 0x1063"
  "rv_inst_match ! rv_op_blt = 0x4063"
  "rv_inst_match ! rv_op_bge = 0x5063"
  "rv_inst_match ! rv_op_bltu = 0x6063"
  "rv_inst_match ! rv_op_bgeu = 0x7063"
  "rv_inst_match ! rv_op_lb = 0x3"
  "rv_inst_match ! rv_op_lh = 0x1003"
  "rv_inst_match ! rv_op_lw = 0x2003"
  "rv_inst_match ! rv_op_lbu = 0x4003"
  "rv_inst_match ! rv_op_lhu = 0x5003"
  "rv_inst_match ! rv_op_sb = 0x23"
  "rv_inst_match ! rv_op_sh = 0x1023"
  "rv_inst_match ! rv_op_sw = 0x2023"
  "rv_inst_match ! rv_op_addi = 0x13"
  "rv_inst_match ! rv_op_slti = 0x2013"
  "rv_inst_match ! rv_op_sltiu = 0x3013"
  "rv_inst_match ! rv_op_xori = 0x4013"
  "rv_inst_match ! rv_op_ori = 0x6013"
  "rv_inst_match ! rv_op_andi = 0x7013"
  "rv_inst_match ! rv_op_slli = 0x1013"
  "rv_inst_match ! rv_op_srli = 0x5013"
  "rv_inst_match ! rv_op_srai = 0x40005013"
  "rv_inst_match ! rv_op_add = 0x33"
  "rv_inst_match ! rv_op_sub = 0x40000033"
  "rv_inst_match ! rv_op_sll = 0x1033"
  "rv_inst_match ! rv_op_slt = 0x2033"
  "rv_inst_match ! rv_op_sltu = 0x3033"
  "rv_inst_match ! rv_op_xor = 0x4033"
  "rv_inst_match ! rv_op_srl = 0x5033"
  "rv_inst_match ! rv_op_sra = 0x40005033"
  "rv_inst_match ! rv_op_or = 0x6033"
  "rv_inst_match ! rv_op_and = 0x7033"
  "rv_inst_match ! rv_op_fence = 0xf"
  "rv_inst_match ! rv_op_fence_i = 0x100f"
  "rv_inst_match ! rv_op_lwu = 0x6003"
  "rv_inst_match ! rv_op_ld = 0x3003"
  "rv_inst_match ! rv_op_sd = 0x3023"
  "rv_inst_match ! rv_op_addiw = 0x1b"
  "rv_inst_match ! rv_op_slliw = 0x101b"
  "rv_inst_match ! rv_op_srliw = 0x501b"
  "rv_inst_match ! rv_op_sraiw = 0x4000501b"
  "rv_inst_match ! rv_op_addw = 0x3b"
  "rv_inst_match ! rv_op_subw = 0x4000003b"
  "rv_inst_match ! rv_op_sllw = 0x103b"
  "rv_inst_match ! rv_op_srlw = 0x503b"
  "rv_inst_match ! rv_op_sraw = 0x4000503b"
  "rv_inst_match ! rv_op_ldu = 0x7003"
  "rv_inst_match ! rv_op_lq = 0x200f"
  "rv_inst_match ! rv_op_sq = 0x4023"
  "rv_inst_match ! rv_op_addid = 0x5b"
  "rv_inst_match ! rv_op_sllid = 0x105b"
  "rv_inst_match ! rv_op_srlid = 0x505b"
  "rv_inst_match ! rv_op_sraid = 0x4000505b"
  "rv_inst_match ! rv_op_addd = 0x7b"
  "rv_inst_match ! rv_op_subd = 0x4000007b"
  "rv_inst_match ! rv_op_slld = 0x107b"
  "rv_inst_match ! rv_op_srld = 0x507b"
  "rv_inst_match ! rv_op_srad = 0x4000507b"
  "rv_inst_match ! rv_op_mul = 0x2000033"
  "rv_inst_match ! rv_op_mulh = 0x2001033"
  "rv_inst_match ! rv_op_mulhsu = 0x2002033"
  "rv_inst_match ! rv_op_mulhu = 0x2003033"
  "rv_inst_match ! rv_op_div = 0x2004033"
  "rv_inst_match ! rv_op_divu = 0x2005033"
  "rv_inst_match ! rv_op_rem = 0x2006033"
  "rv_inst_match ! rv_op_remu = 0x2007033"
  "rv_inst_match ! rv_op_mulw = 0x200003b"
  "rv_inst_match ! rv_op_divw = 0x200403b"
  "rv_inst_match ! rv_op_divuw = 0x200503b"
  "rv_inst_match ! rv_op_remw = 0x200603b"
  "rv_inst_match ! rv_op_remuw = 0x200703b"
  "rv_inst_match ! rv_op_muld = 0x200007b"
  "rv_inst_match ! rv_op_divd = 0x200407b"
  "rv_inst_match ! rv_op_divud = 0x200507b"
  "rv_inst_match ! rv_op_remd = 0x200607b"
  "rv_inst_match ! rv_op_remud = 0x200707b"
  "rv_inst_match ! rv_op_lr_w = 0x1000202f"
  "rv_inst_match ! rv_op_sc_w = 0x1800202f"
  "rv_inst_match ! rv_op_amoswap_w = 0x800202f"
  "rv_inst_match ! rv_op_amoadd_w = 0x202f"
  "rv_inst_match ! rv_op_amoxor_w = 0x2000202f"
  "rv_inst_match ! rv_op_amoor_w = 0x4000202f"
  "rv_inst_match ! rv_op_amoand_w = 0x6000202f"
  "rv_inst_match ! rv_op_amomin_w = 0x8000202f"
  "rv_inst_match ! rv_op_amomax_w = 0xa000202f"
  "rv_inst_match ! rv_op_amominu_w = 0xc000202f"
  "rv_inst_match ! rv_op_amomaxu_w = 0xe000202f"
  "rv_inst_match ! rv_op_lr_d = 0x1000302f"
  "rv_inst_match ! rv_op_sc_d = 0x1800302f"
  "rv_inst_match ! rv_op_amoswap_d = 0x800302f"
  "rv_inst_match ! rv_op_amoadd_d = 0x302f"
  "rv_inst_match ! rv_op_amoxor_d = 0x2000302f"
  "rv_inst_match ! rv_op_amoor_d = 0x4000302f"
  "rv_inst_match ! rv_op_amoand_d = 0x6000302f"
  "rv_inst_match ! rv_op_amomin_d = 0x8000302f"
  "rv_inst_match ! rv_op_amomax_d = 0xa000302f"
  "rv_inst_match ! rv_op_amominu_d = 0xc000302f"
  "rv_inst_match ! rv_op_amomaxu_d = 0xe000302f"
  "rv_inst_match ! rv_op_lr_q = 0x1000402f"
  "rv_inst_match ! rv_op_sc_q = 0x1800402f"
  "rv_inst_match ! rv_op_amoswap_q = 0x800402f"
  "rv_inst_match ! rv_op_amoadd_q = 0x402f"
  "rv_inst_match ! rv_op_amoxor_q = 0x2000402f"
  "rv_inst_match ! rv_op_amoor_q = 0x4000402f"
  "rv_inst_match ! rv_op_amoand_q = 0x6000402f"
  "rv_inst_match ! rv_op_amomin_q = 0x8000402f"
  "rv_inst_match ! rv_op_amomax_q = 0xa000402f"
  "rv_inst_match ! rv_op_amominu_q = 0xc000402f"
  "rv_inst_match ! rv_op_amomaxu_q = 0xe000402f"
  "rv_inst_match ! rv_op_ecall = 0x73"
  "rv_inst_match ! rv_op_ebreak = 0x100073"
  "rv_inst_match ! rv_op_uret = 0x200073"
  "rv_inst_match ! rv_op_sret = 0x10200073"
  "rv_inst_match ! rv_op_hret = 0x20200073"
  "rv_inst_match ! rv_op_mret = 0x30200073"
  "rv_inst_match ! rv_op_dret = 0x7b200073"
  "rv_inst_match ! rv_op_sfence_vm = 0x10400073"
  "rv_inst_match ! rv_op_sfence_vma = 0x12000073"
  "rv_inst_match ! rv_op_wfi = 0x10500073"
  "rv_inst_match ! rv_op_csrrw = 0x1073"
  "rv_inst_match ! rv_op_csrrs = 0x2073"
  "rv_inst_match ! rv_op_csrrc = 0x3073"
  "rv_inst_match ! rv_op_csrrwi = 0x5073"
  "rv_inst_match ! rv_op_csrrsi = 0x6073"
  "rv_inst_match ! rv_op_csrrci = 0x7073"
  "rv_inst_match ! rv_op_flw = 0x2007"
  "rv_inst_match ! rv_op_fsw = 0x2027"
  "rv_inst_match ! rv_op_fmadd_s = 0x43"
  "rv_inst_match ! rv_op_fmsub_s = 0x47"
  "rv_inst_match ! rv_op_fnmsub_s = 0x4b"
  "rv_inst_match ! rv_op_fnmadd_s = 0x4f"
  "rv_inst_match ! rv_op_fadd_s = 0x53"
  "rv_inst_match ! rv_op_fsub_s = 0x8000053"
  "rv_inst_match ! rv_op_fmul_s = 0x10000053"
  "rv_inst_match ! rv_op_fdiv_s = 0x18000053"
  "rv_inst_match ! rv_op_fsgnj_s = 0x20000053"
  "rv_inst_match ! rv_op_fsgnjn_s = 0x20001053"
  "rv_inst_match ! rv_op_fsgnjx_s = 0x20002053"
  "rv_inst_match ! rv_op_fmin_s = 0x28000053"
  "rv_inst_match ! rv_op_fmax_s = 0x28001053"
  "rv_inst_match ! rv_op_fsqrt_s = 0x58000053"
  "rv_inst_match ! rv_op_fle_s = 0xa0000053"
  "rv_inst_match ! rv_op_flt_s = 0xa0001053"
  "rv_inst_match ! rv_op_feq_s = 0xa0002053"
  "rv_inst_match ! rv_op_fcvt_w_s = 0xc0000053"
  "rv_inst_match ! rv_op_fcvt_wu_s = 0xc0100053"
  "rv_inst_match ! rv_op_fcvt_s_w = 0xd0000053"
  "rv_inst_match ! rv_op_fcvt_s_wu = 0xd0100053"
  "rv_inst_match ! rv_op_fmv_x_s = 0xe0000053"
  "rv_inst_match ! rv_op_fclass_s = 0xe0001053"
  "rv_inst_match ! rv_op_fmv_s_x = 0xf0000053"
  "rv_inst_match ! rv_op_fcvt_l_s = 0xc0200053"
  "rv_inst_match ! rv_op_fcvt_lu_s = 0xc0300053"
  "rv_inst_match ! rv_op_fcvt_s_l = 0xd0200053"
  "rv_inst_match ! rv_op_fcvt_s_lu = 0xd0300053"
  "rv_inst_match ! rv_op_fld = 0x3007"
  "rv_inst_match ! rv_op_fsd = 0x3027"
  "rv_inst_match ! rv_op_fmadd_d = 0x2000043"
  "rv_inst_match ! rv_op_fmsub_d = 0x2000047"
  "rv_inst_match ! rv_op_fnmsub_d = 0x200004b"
  "rv_inst_match ! rv_op_fnmadd_d = 0x200004f"
  "rv_inst_match ! rv_op_fadd_d = 0x2000053"
  "rv_inst_match ! rv_op_fsub_d = 0xa000053"
  "rv_inst_match ! rv_op_fmul_d = 0x12000053"
  "rv_inst_match ! rv_op_fdiv_d = 0x1a000053"
  "rv_inst_match ! rv_op_fsgnj_d = 0x22000053"
  "rv_inst_match ! rv_op_fsgnjn_d = 0x22001053"
  "rv_inst_match ! rv_op_fsgnjx_d = 0x22002053"
  "rv_inst_match ! rv_op_fmin_d = 0x2a000053"
  "rv_inst_match ! rv_op_fmax_d = 0x2a001053"
  "rv_inst_match ! rv_op_fcvt_s_d = 0x40100053"
  "rv_inst_match ! rv_op_fcvt_d_s = 0x42000053"
  "rv_inst_match ! rv_op_fsqrt_d = 0x5a000053"
  "rv_inst_match ! rv_op_fle_d = 0xa2000053"
  "rv_inst_match ! rv_op_flt_d = 0xa2001053"
  "rv_inst_match ! rv_op_feq_d = 0xa2002053"
  "rv_inst_match ! rv_op_fcvt_w_d = 0xc2000053"
  "rv_inst_match ! rv_op_fcvt_wu_d = 0xc2100053"
  "rv_inst_match ! rv_op_fcvt_d_w = 0xd2000053"
  "rv_inst_match ! rv_op_fcvt_d_wu = 0xd2100053"
  "rv_inst_match ! rv_op_fclass_d = 0xe2001053"
  "rv_inst_match ! rv_op_fcvt_l_d = 0xc2200053"
  "rv_inst_match ! rv_op_fcvt_lu_d = 0xc2300053"
  "rv_inst_match ! rv_op_fmv_x_d = 0xe2000053"
  "rv_inst_match ! rv_op_fcvt_d_l = 0xd2200053"
  "rv_inst_match ! rv_op_fcvt_d_lu = 0xd2300053"
  "rv_inst_match ! rv_op_fmv_d_x = 0xf2000053"
  "rv_inst_match ! rv_op_flq = 0x4007"
  "rv_inst_match ! rv_op_fsq = 0x4027"
  "rv_inst_match ! rv_op_fmadd_q = 0x6000043"
  "rv_inst_match ! rv_op_fmsub_q = 0x6000047"
  "rv_inst_match ! rv_op_fnmsub_q = 0x600004b"
  "rv_inst_match ! rv_op_fnmadd_q = 0x600004f"
  "rv_inst_match ! rv_op_fadd_q = 0x6000053"
  "rv_inst_match ! rv_op_fsub_q = 0xe000053"
  "rv_inst_match ! rv_op_fmul_q = 0x16000053"
  "rv_inst_match ! rv_op_fdiv_q = 0x1e000053"
  "rv_inst_match ! rv_op_fsgnj_q = 0x26000053"
  "rv_inst_match ! rv_op_fsgnjn_q = 0x26001053"
  "rv_inst_match ! rv_op_fsgnjx_q = 0x26002053"
  "rv_inst_match ! rv_op_fmin_q = 0x2e000053"
  "rv_inst_match ! rv_op_fmax_q = 0x2e001053"
  "rv_inst_match ! rv_op_fcvt_s_q = 0x40300053"
  "rv_inst_match ! rv_op_fcvt_q_s = 0x46000053"
  "rv_inst_match ! rv_op_fcvt_d_q = 0x42300053"
  "rv_inst_match ! rv_op_fcvt_q_d = 0x46100053"
  "rv_inst_match ! rv_op_fsqrt_q = 0x5e000053"
  "rv_inst_match ! rv_op_fle_q = 0xa6000053"
  "rv_inst_match ! rv_op_flt_q = 0xa6001053"
  "rv_inst_match ! rv_op_feq_q = 0xa6002053"
  "rv_inst_match ! rv_op_fcvt_w_q = 0xc6000053"
  "rv_inst_match ! rv_op_fcvt_wu_q = 0xc6100053"
  "rv_inst_match ! rv_op_fcvt_q_w = 0xd6000053"
  "rv_inst_match ! rv_op_fcvt_q_wu = 0xd6100053"
  "rv_inst_match ! rv_op_fclass_q = 0xe6001053"
  "rv_inst_match ! rv_op_fcvt_l_q = 0xc6200053"
  "rv_inst_match ! rv_op_fcvt_lu_q = 0xc6300053"
  "rv_inst_match ! rv_op_fcvt_q_l = 0xd6200053"
  "rv_inst_match ! rv_op_fcvt_q_lu = 0xd6300053"
  "rv_inst_match ! rv_op_fmv_x_q = 0xe6000053"
  "rv_inst_match ! rv_op_fmv_q_x = 0xf6000053"
  "rv_inst_match ! rv_op_c_addi4spn = 0x0"
  "rv_inst_match ! rv_op_c_fld = 0x2000"
  "rv_inst_match ! rv_op_c_lw = 0x4000"
  "rv_inst_match ! rv_op_c_flw = 0x6000"
  "rv_inst_match ! rv_op_c_fsd = 0xa000"
  "rv_inst_match ! rv_op_c_sw = 0xc000"
  "rv_inst_match ! rv_op_c_fsw = 0xe000"
  "rv_inst_match ! rv_op_c_nop = 0x1"
  "rv_inst_match ! rv_op_c_addi = 0x1"
  "rv_inst_match ! rv_op_c_jal = 0x2001"
  "rv_inst_match ! rv_op_c_li = 0x4001"
  "rv_inst_match ! rv_op_c_addi16sp = 0x6101"
  "rv_inst_match ! rv_op_c_lui = 0x6001"
  "rv_inst_match ! rv_op_c_srli = 0x8001"
  "rv_inst_match ! rv_op_c_srai = 0x8401"
  "rv_inst_match ! rv_op_c_andi = 0x8801"
  "rv_inst_match ! rv_op_c_sub = 0x8c01"
  "rv_inst_match ! rv_op_c_xor = 0x8c21"
  "rv_inst_match ! rv_op_c_or = 0x8c41"
  "rv_inst_match ! rv_op_c_and = 0x8c61"
  "rv_inst_match ! rv_op_c_subw = 0x9c01"
  "rv_inst_match ! rv_op_c_addw = 0x9c21"
  "rv_inst_match ! rv_op_c_j = 0xa001"
  "rv_inst_match ! rv_op_c_beqz = 0xc001"
  "rv_inst_match ! rv_op_c_bnez = 0xe001"
  "rv_inst_match ! rv_op_c_slli = 0x2"
  "rv_inst_match ! rv_op_c_fldsp = 0x2002"
  "rv_inst_match ! rv_op_c_lwsp = 0x4002"
  "rv_inst_match ! rv_op_c_flwsp = 0x6002"
  "rv_inst_match ! rv_op_c_jr = 0x8002"
  "rv_inst_match ! rv_op_c_mv = 0x8002"
  "rv_inst_match ! rv_op_c_ebreak = 0x9002"
  "rv_inst_match ! rv_op_c_jalr = 0x9002"
  "rv_inst_match ! rv_op_c_add = 0x9002"
  "rv_inst_match ! rv_op_c_fsdsp = 0xa002"
  "rv_inst_match ! rv_op_c_swsp = 0xc002"
  "rv_inst_match ! rv_op_c_fswsp = 0xe002"
  "rv_inst_match ! rv_op_c_ld = 0x6000"
  "rv_inst_match ! rv_op_c_sd = 0xe000"
  "rv_inst_match ! rv_op_c_addiw = 0x2001"
  "rv_inst_match ! rv_op_c_ldsp = 0x6002"
  "rv_inst_match ! rv_op_c_sdsp = 0xe002"
  "rv_inst_match ! rv_op_c_lq = 0x2000"
  "rv_inst_match ! rv_op_c_sq = 0xa000"
  "rv_inst_match ! rv_op_c_lqsp = 0x2002"
  "rv_inst_match ! rv_op_c_sqsp = 0xa002"
  "rv_inst_match ! rv_op_nop = 0x0"
  "rv_inst_match ! rv_op_mv = 0x0"
  "rv_inst_match ! rv_op_not = 0x0"
  "rv_inst_match ! rv_op_neg = 0x0"
  "rv_inst_match ! rv_op_negw = 0x0"
  "rv_inst_match ! rv_op_sext_w = 0x0"
  "rv_inst_match ! rv_op_seqz = 0x0"
  "rv_inst_match ! rv_op_snez = 0x0"
  "rv_inst_match ! rv_op_sltz = 0x0"
  "rv_inst_match ! rv_op_sgtz = 0x0"
  "rv_inst_match ! rv_op_fmv_s = 0x0"
  "rv_inst_match ! rv_op_fabs_s = 0x0"
  "rv_inst_match ! rv_op_fneg_s = 0x0"
  "rv_inst_match ! rv_op_fmv_d = 0x0"
  "rv_inst_match ! rv_op_fabs_d = 0x0"
  "rv_inst_match ! rv_op_fneg_d = 0x0"
  "rv_inst_match ! rv_op_fmv_q = 0x0"
  "rv_inst_match ! rv_op_fabs_q = 0x0"
  "rv_inst_match ! rv_op_fneg_q = 0x0"
  "rv_inst_match ! rv_op_beqz = 0x0"
  "rv_inst_match ! rv_op_bnez = 0x0"
  "rv_inst_match ! rv_op_blez = 0x0"
  "rv_inst_match ! rv_op_bgez = 0x0"
  "rv_inst_match ! rv_op_bltz = 0x0"
  "rv_inst_match ! rv_op_bgtz = 0x0"
  "rv_inst_match ! rv_op_ble = 0x0"
  "rv_inst_match ! rv_op_bleu = 0x0"
  "rv_inst_match ! rv_op_bgt = 0x0"
  "rv_inst_match ! rv_op_bgtu = 0x0"
  "rv_inst_match ! rv_op_j = 0x0"
  "rv_inst_match ! rv_op_ret = 0x0"
  "rv_inst_match ! rv_op_jr = 0x0"
  "rv_inst_match ! rv_op_rdcycle = 0x0"
  "rv_inst_match ! rv_op_rdtime = 0x0"
  "rv_inst_match ! rv_op_rdinstret = 0x0"
  "rv_inst_match ! rv_op_rdcycleh = 0x0"
  "rv_inst_match ! rv_op_rdtimeh = 0x0"
  "rv_inst_match ! rv_op_rdinstreth = 0x0"
  "rv_inst_match ! rv_op_frcsr = 0x0"
  "rv_inst_match ! rv_op_frrm = 0x0"
  "rv_inst_match ! rv_op_frflags = 0x0"
  "rv_inst_match ! rv_op_fscsr = 0x0"
  "rv_inst_match ! rv_op_fsrm = 0x0"
  "rv_inst_match ! rv_op_fsflags = 0x0"
  "rv_inst_match ! rv_op_fsrmi = 0x0"
  "rv_inst_match ! rv_op_fsflagsi = 0x0"
  by (simp_all add: rv_inst_match_def)

lemmas rv_inst_match_nth_lui [meta_nth] = rv_inst_match_nth(2) [unfolded One_nat_def]

lemma rv_inst_mask_nth [meta_nth]:
  "rv_inst_mask ! rv_op_illegal = 0x0"
  "rv_inst_mask ! rv_op_lui = 0x7f"
  "rv_inst_mask ! rv_op_auipc = 0x7f"
  "rv_inst_mask ! rv_op_jal = 0x7f"
  "rv_inst_mask ! rv_op_jalr = 0x707f"
  "rv_inst_mask ! rv_op_beq = 0x707f"
  "rv_inst_mask ! rv_op_bne = 0x707f"
  "rv_inst_mask ! rv_op_blt = 0x707f"
  "rv_inst_mask ! rv_op_bge = 0x707f"
  "rv_inst_mask ! rv_op_bltu = 0x707f"
  "rv_inst_mask ! rv_op_bgeu = 0x707f"
  "rv_inst_mask ! rv_op_lb = 0x707f"
  "rv_inst_mask ! rv_op_lh = 0x707f"
  "rv_inst_mask ! rv_op_lw = 0x707f"
  "rv_inst_mask ! rv_op_lbu = 0x707f"
  "rv_inst_mask ! rv_op_lhu = 0x707f"
  "rv_inst_mask ! rv_op_sb = 0x707f"
  "rv_inst_mask ! rv_op_sh = 0x707f"
  "rv_inst_mask ! rv_op_sw = 0x707f"
  "rv_inst_mask ! rv_op_addi = 0x707f"
  "rv_inst_mask ! rv_op_slti = 0x707f"
  "rv_inst_mask ! rv_op_sltiu = 0x707f"
  "rv_inst_mask ! rv_op_xori = 0x707f"
  "rv_inst_mask ! rv_op_ori = 0x707f"
  "rv_inst_mask ! rv_op_andi = 0x707f"
  "rv_inst_mask ! rv_op_slli = 0xf800707f"
  "rv_inst_mask ! rv_op_srli = 0xf800707f"
  "rv_inst_mask ! rv_op_srai = 0xf800707f"
  "rv_inst_mask ! rv_op_add = 0xfe00707f"
  "rv_inst_mask ! rv_op_sub = 0xfe00707f"
  "rv_inst_mask ! rv_op_sll = 0xfe00707f"
  "rv_inst_mask ! rv_op_slt = 0xfe00707f"
  "rv_inst_mask ! rv_op_sltu = 0xfe00707f"
  "rv_inst_mask ! rv_op_xor = 0xfe00707f"
  "rv_inst_mask ! rv_op_srl = 0xfe00707f"
  "rv_inst_mask ! rv_op_sra = 0xfe00707f"
  "rv_inst_mask ! rv_op_or = 0xfe00707f"
  "rv_inst_mask ! rv_op_and = 0xfe00707f"
  "rv_inst_mask ! rv_op_fence = 0x707f"
  "rv_inst_mask ! rv_op_fence_i = 0x707f"
  "rv_inst_mask ! rv_op_lwu = 0x707f"
  "rv_inst_mask ! rv_op_ld = 0x707f"
  "rv_inst_mask ! rv_op_sd = 0x707f"
  "rv_inst_mask ! rv_op_addiw = 0x707f"
  "rv_inst_mask ! rv_op_slliw = 0xfe00707f"
  "rv_inst_mask ! rv_op_srliw = 0xfe00707f"
  "rv_inst_mask ! rv_op_sraiw = 0xfe00707f"
  "rv_inst_mask ! rv_op_addw = 0xfe00707f"
  "rv_inst_mask ! rv_op_subw = 0xfe00707f"
  "rv_inst_mask ! rv_op_sllw = 0xfe00707f"
  "rv_inst_mask ! rv_op_srlw = 0xfe00707f"
  "rv_inst_mask ! rv_op_sraw = 0xfe00707f"
  "rv_inst_mask ! rv_op_ldu = 0x707f"
  "rv_inst_mask ! rv_op_lq = 0x707f"
  "rv_inst_mask ! rv_op_sq = 0x707f"
  "rv_inst_mask ! rv_op_addid = 0x707f"
  "rv_inst_mask ! rv_op_sllid = 0xfc00707f"
  "rv_inst_mask ! rv_op_srlid = 0xfc00707f"
  "rv_inst_mask ! rv_op_sraid = 0xfc00707f"
  "rv_inst_mask ! rv_op_addd = 0xfe00707f"
  "rv_inst_mask ! rv_op_subd = 0xfe00707f"
  "rv_inst_mask ! rv_op_slld = 0xfe00707f"
  "rv_inst_mask ! rv_op_srld = 0xfe00707f"
  "rv_inst_mask ! rv_op_srad = 0xfe00707f"
  "rv_inst_mask ! rv_op_mul = 0xfe00707f"
  "rv_inst_mask ! rv_op_mulh = 0xfe00707f"
  "rv_inst_mask ! rv_op_mulhsu = 0xfe00707f"
  "rv_inst_mask ! rv_op_mulhu = 0xfe00707f"
  "rv_inst_mask ! rv_op_div = 0xfe00707f"
  "rv_inst_mask ! rv_op_divu = 0xfe00707f"
  "rv_inst_mask ! rv_op_rem = 0xfe00707f"
  "rv_inst_mask ! rv_op_remu = 0xfe00707f"
  "rv_inst_mask ! rv_op_mulw = 0xfe00707f"
  "rv_inst_mask ! rv_op_divw = 0xfe00707f"
  "rv_inst_mask ! rv_op_divuw = 0xfe00707f"
  "rv_inst_mask ! rv_op_remw = 0xfe00707f"
  "rv_inst_mask ! rv_op_remuw = 0xfe00707f"
  "rv_inst_mask ! rv_op_muld = 0xfe00707f"
  "rv_inst_mask ! rv_op_divd = 0xfe00707f"
  "rv_inst_mask ! rv_op_divud = 0xfe00707f"
  "rv_inst_mask ! rv_op_remd = 0xfe00707f"
  "rv_inst_mask ! rv_op_remud = 0xfe00707f"
  "rv_inst_mask ! rv_op_lr_w = 0xf9f0707f"
  "rv_inst_mask ! rv_op_sc_w = 0xf800707f"
  "rv_inst_mask ! rv_op_amoswap_w = 0xf800707f"
  "rv_inst_mask ! rv_op_amoadd_w = 0xf800707f"
  "rv_inst_mask ! rv_op_amoxor_w = 0xf800707f"
  "rv_inst_mask ! rv_op_amoor_w = 0xf800707f"
  "rv_inst_mask ! rv_op_amoand_w = 0xf800707f"
  "rv_inst_mask ! rv_op_amomin_w = 0xf800707f"
  "rv_inst_mask ! rv_op_amomax_w = 0xf800707f"
  "rv_inst_mask ! rv_op_amominu_w = 0xf800707f"
  "rv_inst_mask ! rv_op_amomaxu_w = 0xf800707f"
  "rv_inst_mask ! rv_op_lr_d = 0xf9f0707f"
  "rv_inst_mask ! rv_op_sc_d = 0xf800707f"
  "rv_inst_mask ! rv_op_amoswap_d = 0xf800707f"
  "rv_inst_mask ! rv_op_amoadd_d = 0xf800707f"
  "rv_inst_mask ! rv_op_amoxor_d = 0xf800707f"
  "rv_inst_mask ! rv_op_amoor_d = 0xf800707f"
  "rv_inst_mask ! rv_op_amoand_d = 0xf800707f"
  "rv_inst_mask ! rv_op_amomin_d = 0xf800707f"
  "rv_inst_mask ! rv_op_amomax_d = 0xf800707f"
  "rv_inst_mask ! rv_op_amominu_d = 0xf800707f"
  "rv_inst_mask ! rv_op_amomaxu_d = 0xf800707f"
  "rv_inst_mask ! rv_op_lr_q = 0xf9f0707f"
  "rv_inst_mask ! rv_op_sc_q = 0xf800707f"
  "rv_inst_mask ! rv_op_amoswap_q = 0xf800707f"
  "rv_inst_mask ! rv_op_amoadd_q = 0xf800707f"
  "rv_inst_mask ! rv_op_amoxor_q = 0xf800707f"
  "rv_inst_mask ! rv_op_amoor_q = 0xf800707f"
  "rv_inst_mask ! rv_op_amoand_q = 0xf800707f"
  "rv_inst_mask ! rv_op_amomin_q = 0xf800707f"
  "rv_inst_mask ! rv_op_amomax_q = 0xf800707f"
  "rv_inst_mask ! rv_op_amominu_q = 0xf800707f"
  "rv_inst_mask ! rv_op_amomaxu_q = 0xf800707f"
  "rv_inst_mask ! rv_op_ecall = 0xffffffff"
  "rv_inst_mask ! rv_op_ebreak = 0xffffffff"
  "rv_inst_mask ! rv_op_uret = 0xffffffff"
  "rv_inst_mask ! rv_op_sret = 0xffffffff"
  "rv_inst_mask ! rv_op_hret = 0xffffffff"
  "rv_inst_mask ! rv_op_mret = 0xffffffff"
  "rv_inst_mask ! rv_op_dret = 0xffffffff"
  "rv_inst_mask ! rv_op_sfence_vm = 0xfff07fff"
  "rv_inst_mask ! rv_op_sfence_vma = 0xfe007fff"
  "rv_inst_mask ! rv_op_wfi = 0xffffffff"
  "rv_inst_mask ! rv_op_csrrw = 0x707f"
  "rv_inst_mask ! rv_op_csrrs = 0x707f"
  "rv_inst_mask ! rv_op_csrrc = 0x707f"
  "rv_inst_mask ! rv_op_csrrwi = 0x707f"
  "rv_inst_mask ! rv_op_csrrsi = 0x707f"
  "rv_inst_mask ! rv_op_csrrci = 0x707f"
  "rv_inst_mask ! rv_op_flw = 0x707f"
  "rv_inst_mask ! rv_op_fsw = 0x707f"
  "rv_inst_mask ! rv_op_fmadd_s = 0x600007f"
  "rv_inst_mask ! rv_op_fmsub_s = 0x600007f"
  "rv_inst_mask ! rv_op_fnmsub_s = 0x600007f"
  "rv_inst_mask ! rv_op_fnmadd_s = 0x600007f"
  "rv_inst_mask ! rv_op_fadd_s = 0xfe00007f"
  "rv_inst_mask ! rv_op_fsub_s = 0xfe00007f"
  "rv_inst_mask ! rv_op_fmul_s = 0xfe00007f"
  "rv_inst_mask ! rv_op_fdiv_s = 0xfe00007f"
  "rv_inst_mask ! rv_op_fsgnj_s = 0xfe00707f"
  "rv_inst_mask ! rv_op_fsgnjn_s = 0xfe00707f"
  "rv_inst_mask ! rv_op_fsgnjx_s = 0xfe00707f"
  "rv_inst_mask ! rv_op_fmin_s = 0xfe00707f"
  "rv_inst_mask ! rv_op_fmax_s = 0xfe00707f"
  "rv_inst_mask ! rv_op_fsqrt_s = 0xfff0007f"
  "rv_inst_mask ! rv_op_fle_s = 0xfe00707f"
  "rv_inst_mask ! rv_op_flt_s = 0xfe00707f"
  "rv_inst_mask ! rv_op_feq_s = 0xfe00707f"
  "rv_inst_mask ! rv_op_fcvt_w_s = 0xfff0007f"
  "rv_inst_mask ! rv_op_fcvt_wu_s = 0xfff0007f"
  "rv_inst_mask ! rv_op_fcvt_s_w = 0xfff0007f"
  "rv_inst_mask ! rv_op_fcvt_s_wu = 0xfff0007f"
  "rv_inst_mask ! rv_op_fmv_x_s = 0xfff0707f"
  "rv_inst_mask ! rv_op_fclass_s = 0xfff0707f"
  "rv_inst_mask ! rv_op_fmv_s_x = 0xfff0707f"
  "rv_inst_mask ! rv_op_fcvt_l_s = 0xfff0007f"
  "rv_inst_mask ! rv_op_fcvt_lu_s = 0xfff0007f"
  "rv_inst_mask ! rv_op_fcvt_s_l = 0xfff0007f"
  "rv_inst_mask ! rv_op_fcvt_s_lu = 0xfff0007f"
  "rv_inst_mask ! rv_op_fld = 0x707f"
  "rv_inst_mask ! rv_op_fsd = 0x707f"
  "rv_inst_mask ! rv_op_fmadd_d = 0x600007f"
  "rv_inst_mask ! rv_op_fmsub_d = 0x600007f"
  "rv_inst_mask ! rv_op_fnmsub_d = 0x600007f"
  "rv_inst_mask ! rv_op_fnmadd_d = 0x600007f"
  "rv_inst_mask ! rv_op_fadd_d = 0xfe00007f"
  "rv_inst_mask ! rv_op_fsub_d = 0xfe00007f"
  "rv_inst_mask ! rv_op_fmul_d = 0xfe00007f"
  "rv_inst_mask ! rv_op_fdiv_d = 0xfe00007f"
  "rv_inst_mask ! rv_op_fsgnj_d = 0xfe00707f"
  "rv_inst_mask ! rv_op_fsgnjn_d = 0xfe00707f"
  "rv_inst_mask ! rv_op_fsgnjx_d = 0xfe00707f"
  "rv_inst_mask ! rv_op_fmin_d = 0xfe00707f"
  "rv_inst_mask ! rv_op_fmax_d = 0xfe00707f"
  "rv_inst_mask ! rv_op_fcvt_s_d = 0xfff0007f"
  "rv_inst_mask ! rv_op_fcvt_d_s = 0xfff0007f"
  "rv_inst_mask ! rv_op_fsqrt_d = 0xfff0007f"
  "rv_inst_mask ! rv_op_fle_d = 0xfe00707f"
  "rv_inst_mask ! rv_op_flt_d = 0xfe00707f"
  "rv_inst_mask ! rv_op_feq_d = 0xfe00707f"
  "rv_inst_mask ! rv_op_fcvt_w_d = 0xfff0007f"
  "rv_inst_mask ! rv_op_fcvt_wu_d = 0xfff0007f"
  "rv_inst_mask ! rv_op_fcvt_d_w = 0xfff0007f"
  "rv_inst_mask ! rv_op_fcvt_d_wu = 0xfff0007f"
  "rv_inst_mask ! rv_op_fclass_d = 0xfff0707f"
  "rv_inst_mask ! rv_op_fcvt_l_d = 0xfff0007f"
  "rv_inst_mask ! rv_op_fcvt_lu_d = 0xfff0007f"
  "rv_inst_mask ! rv_op_fmv_x_d = 0xfff0707f"
  "rv_inst_mask ! rv_op_fcvt_d_l = 0xfff0007f"
  "rv_inst_mask ! rv_op_fcvt_d_lu = 0xfff0007f"
  "rv_inst_mask ! rv_op_fmv_d_x = 0xfff0707f"
  "rv_inst_mask ! rv_op_flq = 0x707f"
  "rv_inst_mask ! rv_op_fsq = 0x707f"
  "rv_inst_mask ! rv_op_fmadd_q = 0x600007f"
  "rv_inst_mask ! rv_op_fmsub_q = 0x600007f"
  "rv_inst_mask ! rv_op_fnmsub_q = 0x600007f"
  "rv_inst_mask ! rv_op_fnmadd_q = 0x600007f"
  "rv_inst_mask ! rv_op_fadd_q = 0xfe00007f"
  "rv_inst_mask ! rv_op_fsub_q = 0xfe00007f"
  "rv_inst_mask ! rv_op_fmul_q = 0xfe00007f"
  "rv_inst_mask ! rv_op_fdiv_q = 0xfe00007f"
  "rv_inst_mask ! rv_op_fsgnj_q = 0xfe00707f"
  "rv_inst_mask ! rv_op_fsgnjn_q = 0xfe00707f"
  "rv_inst_mask ! rv_op_fsgnjx_q = 0xfe00707f"
  "rv_inst_mask ! rv_op_fmin_q = 0xfe00707f"
  "rv_inst_mask ! rv_op_fmax_q = 0xfe00707f"
  "rv_inst_mask ! rv_op_fcvt_s_q = 0xfff0007f"
  "rv_inst_mask ! rv_op_fcvt_q_s = 0xfff0007f"
  "rv_inst_mask ! rv_op_fcvt_d_q = 0xfff0007f"
  "rv_inst_mask ! rv_op_fcvt_q_d = 0xfff0007f"
  "rv_inst_mask ! rv_op_fsqrt_q = 0xfff0007f"
  "rv_inst_mask ! rv_op_fle_q = 0xfe00707f"
  "rv_inst_mask ! rv_op_flt_q = 0xfe00707f"
  "rv_inst_mask ! rv_op_feq_q = 0xfe00707f"
  "rv_inst_mask ! rv_op_fcvt_w_q = 0xfff0007f"
  "rv_inst_mask ! rv_op_fcvt_wu_q = 0xfff0007f"
  "rv_inst_mask ! rv_op_fcvt_q_w = 0xfff0007f"
  "rv_inst_mask ! rv_op_fcvt_q_wu = 0xfff0007f"
  "rv_inst_mask ! rv_op_fclass_q = 0xfff0707f"
  "rv_inst_mask ! rv_op_fcvt_l_q = 0xfff0007f"
  "rv_inst_mask ! rv_op_fcvt_lu_q = 0xfff0007f"
  "rv_inst_mask ! rv_op_fcvt_q_l = 0xfff0007f"
  "rv_inst_mask ! rv_op_fcvt_q_lu = 0xfff0007f"
  "rv_inst_mask ! rv_op_fmv_x_q = 0xfff0707f"
  "rv_inst_mask ! rv_op_fmv_q_x = 0xfff0707f"
  "rv_inst_mask ! rv_op_c_addi4spn = 0xe003"
  "rv_inst_mask ! rv_op_c_fld = 0xe003"
  "rv_inst_mask ! rv_op_c_lw = 0xe003"
  "rv_inst_mask ! rv_op_c_flw = 0xe003"
  "rv_inst_mask ! rv_op_c_fsd = 0xe003"
  "rv_inst_mask ! rv_op_c_sw = 0xe003"
  "rv_inst_mask ! rv_op_c_fsw = 0xe003"
  "rv_inst_mask ! rv_op_c_nop = 0xffff"
  "rv_inst_mask ! rv_op_c_addi = 0xe003"
  "rv_inst_mask ! rv_op_c_jal = 0xe003"
  "rv_inst_mask ! rv_op_c_li = 0xe003"
  "rv_inst_mask ! rv_op_c_addi16sp = 0xef83"
  "rv_inst_mask ! rv_op_c_lui = 0xe003"
  "rv_inst_mask ! rv_op_c_srli = 0xec03"
  "rv_inst_mask ! rv_op_c_srai = 0xec03"
  "rv_inst_mask ! rv_op_c_andi = 0xec03"
  "rv_inst_mask ! rv_op_c_sub = 0xfc63"
  "rv_inst_mask ! rv_op_c_xor = 0xfc63"
  "rv_inst_mask ! rv_op_c_or = 0xfc63"
  "rv_inst_mask ! rv_op_c_and = 0xfc63"
  "rv_inst_mask ! rv_op_c_subw = 0xfc63"
  "rv_inst_mask ! rv_op_c_addw = 0xfc63"
  "rv_inst_mask ! rv_op_c_j = 0xe003"
  "rv_inst_mask ! rv_op_c_beqz = 0xe003"
  "rv_inst_mask ! rv_op_c_bnez = 0xe003"
  "rv_inst_mask ! rv_op_c_slli = 0xe003"
  "rv_inst_mask ! rv_op_c_fldsp = 0xe003"
  "rv_inst_mask ! rv_op_c_lwsp = 0xe003"
  "rv_inst_mask ! rv_op_c_flwsp = 0xe003"
  "rv_inst_mask ! rv_op_c_jr = 0xf07f"
  "rv_inst_mask ! rv_op_c_mv = 0xf003"
  "rv_inst_mask ! rv_op_c_ebreak = 0xffff"
  "rv_inst_mask ! rv_op_c_jalr = 0xf07f"
  "rv_inst_mask ! rv_op_c_add = 0xf003"
  "rv_inst_mask ! rv_op_c_fsdsp = 0xe003"
  "rv_inst_mask ! rv_op_c_swsp = 0xe003"
  "rv_inst_mask ! rv_op_c_fswsp = 0xe003"
  "rv_inst_mask ! rv_op_c_ld = 0xe003"
  "rv_inst_mask ! rv_op_c_sd = 0xe003"
  "rv_inst_mask ! rv_op_c_addiw = 0xe003"
  "rv_inst_mask ! rv_op_c_ldsp = 0xe003"
  "rv_inst_mask ! rv_op_c_sdsp = 0xe003"
  "rv_inst_mask ! rv_op_c_lq = 0xe003"
  "rv_inst_mask ! rv_op_c_sq = 0xe003"
  "rv_inst_mask ! rv_op_c_lqsp = 0xe003"
  "rv_inst_mask ! rv_op_c_sqsp = 0xe003"
  "rv_inst_mask ! rv_op_nop = 0x0"
  "rv_inst_mask ! rv_op_mv = 0x0"
  "rv_inst_mask ! rv_op_not = 0x0"
  "rv_inst_mask ! rv_op_neg = 0x0"
  "rv_inst_mask ! rv_op_negw = 0x0"
  "rv_inst_mask ! rv_op_sext_w = 0x0"
  "rv_inst_mask ! rv_op_seqz = 0x0"
  "rv_inst_mask ! rv_op_snez = 0x0"
  "rv_inst_mask ! rv_op_sltz = 0x0"
  "rv_inst_mask ! rv_op_sgtz = 0x0"
  "rv_inst_mask ! rv_op_fmv_s = 0x0"
  "rv_inst_mask ! rv_op_fabs_s = 0x0"
  "rv_inst_mask ! rv_op_fneg_s = 0x0"
  "rv_inst_mask ! rv_op_fmv_d = 0x0"
  "rv_inst_mask ! rv_op_fabs_d = 0x0"
  "rv_inst_mask ! rv_op_fneg_d = 0x0"
  "rv_inst_mask ! rv_op_fmv_q = 0x0"
  "rv_inst_mask ! rv_op_fabs_q = 0x0"
  "rv_inst_mask ! rv_op_fneg_q = 0x0"
  "rv_inst_mask ! rv_op_beqz = 0x0"
  "rv_inst_mask ! rv_op_bnez = 0x0"
  "rv_inst_mask ! rv_op_blez = 0x0"
  "rv_inst_mask ! rv_op_bgez = 0x0"
  "rv_inst_mask ! rv_op_bltz = 0x0"
  "rv_inst_mask ! rv_op_bgtz = 0x0"
  "rv_inst_mask ! rv_op_ble = 0x0"
  "rv_inst_mask ! rv_op_bleu = 0x0"
  "rv_inst_mask ! rv_op_bgt = 0x0"
  "rv_inst_mask ! rv_op_bgtu = 0x0"
  "rv_inst_mask ! rv_op_j = 0x0"
  "rv_inst_mask ! rv_op_ret = 0x0"
  "rv_inst_mask ! rv_op_jr = 0x0"
  "rv_inst_mask ! rv_op_rdcycle = 0x0"
  "rv_inst_mask ! rv_op_rdtime = 0x0"
  "rv_inst_mask ! rv_op_rdinstret = 0x0"
  "rv_inst_mask ! rv_op_rdcycleh = 0x0"
  "rv_inst_mask ! rv_op_rdtimeh = 0x0"
  "rv_inst_mask ! rv_op_rdinstreth = 0x0"
  "rv_inst_mask ! rv_op_frcsr = 0x0"
  "rv_inst_mask ! rv_op_frrm = 0x0"
  "rv_inst_mask ! rv_op_frflags = 0x0"
  "rv_inst_mask ! rv_op_fscsr = 0x0"
  "rv_inst_mask ! rv_op_fsrm = 0x0"
  "rv_inst_mask ! rv_op_fsflags = 0x0"
  "rv_inst_mask ! rv_op_fsrmi = 0x0"
  "rv_inst_mask ! rv_op_fsflagsi = 0x0"
  by (simp_all add: rv_inst_mask_def)

lemmas rv_inst_mask_nth_lui [meta_nth] = rv_inst_mask_nth(2) [unfolded One_nat_def]

end
