(* ===== verification/Decode.thy ===== *)
theory Decode
  imports Operands Meta
begin

text \<open>
  The decoded instruction \<^verbatim>\<open>struct decode\<close> of \<^verbatim>\<open>src/src/asm/codec.h\<close> and the operand
  decoders of \<^verbatim>\<open>src/src/asm/decode.h\<close>, one per codec. A decoder writes the fields of its
  codec into the structure it is given and leaves the others as they were; the fields keep the
  widths of the source, so a store truncates.
\<close>

unbundle bit_operations_syntax

record decode =
  dec_imm :: "32 word"
  dec_rd :: u8
  dec_rs1 :: u8
  dec_rs2 :: u8
  dec_rs3 :: u8
  dec_op :: opcode
  dec_codec :: rv_codec
  dec_rm :: "3 word"
  dec_aq :: "1 word"
  dec_rl :: "1 word"
  dec_pred :: "4 word"
  dec_succ :: "4 word"

text \<open>The constructor \<^verbatim>\<open>decode()\<close>.\<close>

definition decode_init :: decode where
  "decode_init = \<lparr>dec_imm = 0, dec_rd = 0, dec_rs1 = 0, dec_rs2 = 0, dec_rs3 = 0, dec_op = 0,
     dec_codec = rv_codec_illegal, dec_rm = 0, dec_aq = 0, dec_rl = 0, dec_pred = 0, dec_succ = 0\<rparr>"

abbreviation (input) rv_ireg_zero :: u8 where "rv_ireg_zero \<equiv> 0"
abbreviation (input) rv_ireg_ra :: u8 where "rv_ireg_ra \<equiv> 1"
abbreviation (input) rv_ireg_sp :: u8 where "rv_ireg_sp \<equiv> 2"

section \<open>Operand decoders\<close>

definition decode_none :: "decode \<Rightarrow> u64 \<Rightarrow> decode" where
  "decode_none dec inst = dec\<lparr>
     dec_rs2 := rv_ireg_zero,
     dec_rs1 := rv_ireg_zero,
     dec_rd := rv_ireg_zero,
     dec_imm := 0\<rparr>"

definition decode_ci_none :: "decode \<Rightarrow> u64 \<Rightarrow> decode" where
  "decode_ci_none dec inst = dec\<lparr>
     dec_rs2 := rv_ireg_zero,
     dec_rs1 := rv_ireg_zero,
     dec_rd := rv_ireg_zero,
     dec_imm := 0\<rparr>"

definition decode_cr :: "decode \<Rightarrow> u64 \<Rightarrow> decode" where
  "decode_cr dec inst = dec\<lparr>
     dec_rs1 := ucast (operand_decode operand_crs1rd inst),
     dec_rd := ucast (operand_decode operand_crs1rd inst),
     dec_rs2 := ucast (operand_decode operand_crs2 inst),
     dec_imm := 0\<rparr>"

definition decode_cr_mv :: "decode \<Rightarrow> u64 \<Rightarrow> decode" where
  "decode_cr_mv dec inst = dec\<lparr>
     dec_rd := ucast (operand_decode operand_crd inst),
     dec_rs1 := ucast (operand_decode operand_crs2 inst),
     dec_rs2 := rv_ireg_zero,
     dec_imm := 0\<rparr>"

definition decode_cr_jalr :: "decode \<Rightarrow> u64 \<Rightarrow> decode" where
  "decode_cr_jalr dec inst = dec\<lparr>
     dec_rd := rv_ireg_ra,
     dec_rs1 := ucast (operand_decode operand_crs1 inst),
     dec_rs2 := rv_ireg_zero,
     dec_imm := 0\<rparr>"

definition decode_cr_jr :: "decode \<Rightarrow> u64 \<Rightarrow> decode" where
  "decode_cr_jr dec inst = dec\<lparr>
     dec_rd := rv_ireg_zero,
     dec_rs1 := ucast (operand_decode operand_crs1 inst),
     dec_rs2 := rv_ireg_zero,
     dec_imm := 0\<rparr>"

definition decode_ci :: "decode \<Rightarrow> u64 \<Rightarrow> decode" where
  "decode_ci dec inst = dec\<lparr>
     dec_rs1 := ucast (operand_decode operand_crs1rd inst),
     dec_rd := ucast (operand_decode operand_crs1rd inst),
     dec_rs2 := rv_ireg_zero,
     dec_imm := ucast (operand_decode operand_cimmi inst)\<rparr>"

definition decode_ci_sh5 :: "decode \<Rightarrow> u64 \<Rightarrow> decode" where
  "decode_ci_sh5 dec inst = dec\<lparr>
     dec_rs1 := ucast (operand_decode operand_crs1rd inst),
     dec_rd := ucast (operand_decode operand_crs1rd inst),
     dec_rs2 := rv_ireg_zero,
     dec_imm := ucast (operand_decode operand_cimmsh5 inst)\<rparr>"

definition decode_ci_sh6 :: "decode \<Rightarrow> u64 \<Rightarrow> decode" where
  "decode_ci_sh6 dec inst = dec\<lparr>
     dec_rs1 := ucast (operand_decode operand_crs1rd inst),
     dec_rd := ucast (operand_decode operand_crs1rd inst),
     dec_rs2 := rv_ireg_zero,
     dec_imm := ucast (operand_decode operand_cimmsh6 inst)\<rparr>"

definition decode_ci_li :: "decode \<Rightarrow> u64 \<Rightarrow> decode" where
  "decode_ci_li dec inst = dec\<lparr>
     dec_rd := ucast (operand_decode operand_crd inst),
     dec_rs1 := rv_ireg_zero,
     dec_rs2 := rv_ireg_zero,
     dec_imm := ucast (operand_decode operand_cimmi inst)\<rparr>"

definition decode_ci_lui :: "decode \<Rightarrow> u64 \<Rightarrow> decode" where
  "decode_ci_lui dec inst = dec\<lparr>
     dec_rd := ucast (operand_decode operand_crd inst),
     dec_rs1 := rv_ireg_zero,
     dec_rs2 := rv_ireg_zero,
     dec_imm := ucast (operand_decode operand_cimmui inst)\<rparr>"

definition decode_ci_lwsp :: "decode \<Rightarrow> u64 \<Rightarrow> decode" where
  "decode_ci_lwsp dec inst = dec\<lparr>
     dec_rd := ucast (operand_decode operand_crd inst),
     dec_rs1 := rv_ireg_sp,
     dec_rs2 := rv_ireg_zero,
     dec_imm := ucast (operand_decode operand_cimmlwsp inst)\<rparr>"

definition decode_ci_ldsp :: "decode \<Rightarrow> u64 \<Rightarrow> decode" where
  "decode_ci_ldsp dec inst = dec\<lparr>
     dec_rd := ucast (operand_decode operand_crd inst),
     dec_rs1 := rv_ireg_sp,
     dec_rs2 := rv_ireg_zero,
     dec_imm := ucast (operand_decode operand_cimmldsp inst)\<rparr>"

definition decode_ci_lqsp :: "decode \<Rightarrow> u64 \<Rightarrow> decode" where
  "decode_ci_lqsp dec inst = dec\<lparr>
     dec_rd := ucast (operand_decode operand_crd inst),
     dec_rs1 := rv_ireg_sp,
     dec_rs2 := rv_ireg_zero,
     dec_imm := ucast (operand_decode operand_cimmlqsp inst)\<rparr>"

definition decode_ci_16sp :: "decode \<Rightarrow> u64 \<Rightarrow> decode" where
  "decode_ci_16sp dec inst = dec\<lparr>
     dec_rd := rv_ireg_sp,
     dec_rs1 := rv_ireg_sp,
     dec_rs2 := rv_ireg_zero,
     dec_imm := ucast (operand_decode operand_cimm16sp inst)\<rparr>"

definition decode_css_swsp :: "decode \<Rightarrow> u64 \<Rightarrow> decode" where
  "decode_css_swsp dec inst = dec\<lparr>
     dec_rd := rv_ireg_zero,
     dec_rs1 := rv_ireg_sp,
     dec_rs2 := ucast (operand_decode operand_crs2 inst),
     dec_imm := ucast (operand_decode operand_cimmswsp inst)\<rparr>"

definition decode_css_sdsp :: "decode \<Rightarrow> u64 \<Rightarrow> decode" where
  "decode_css_sdsp dec inst = dec\<lparr>
     dec_rd := rv_ireg_zero,
     dec_rs1 := rv_ireg_sp,
     dec_rs2 := ucast (operand_decode operand_crs2 inst),
     dec_imm := ucast (operand_decode operand_cimmsdsp inst)\<rparr>"

definition decode_css_sqsp :: "decode \<Rightarrow> u64 \<Rightarrow> decode" where
  "decode_css_sqsp dec inst = dec\<lparr>
     dec_rd := rv_ireg_zero,
     dec_rs1 := rv_ireg_sp,
     dec_rs2 := ucast (operand_decode operand_crs2 inst),
     dec_imm := ucast (operand_decode operand_cimmsqsp inst)\<rparr>"

definition decode_ciw_4spn :: "decode \<Rightarrow> u64 \<Rightarrow> decode" where
  "decode_ciw_4spn dec inst = dec\<lparr>
     dec_rd := ucast (operand_decode operand_crdq inst + 8),
     dec_rs1 := rv_ireg_sp,
     dec_rs2 := rv_ireg_zero,
     dec_imm := ucast (operand_decode operand_cimm4spn inst)\<rparr>"

definition decode_cl_lw :: "decode \<Rightarrow> u64 \<Rightarrow> decode" where
  "decode_cl_lw dec inst = dec\<lparr>
     dec_rd := ucast (operand_decode operand_crdq inst + 8),
     dec_rs1 := ucast (operand_decode operand_crs1q inst + 8),
     dec_rs2 := rv_ireg_zero,
     dec_imm := ucast (operand_decode operand_cimmw inst)\<rparr>"

definition decode_cl_ld :: "decode \<Rightarrow> u64 \<Rightarrow> decode" where
  "decode_cl_ld dec inst = dec\<lparr>
     dec_rd := ucast (operand_decode operand_crdq inst + 8),
     dec_rs1 := ucast (operand_decode operand_crs1q inst + 8),
     dec_rs2 := rv_ireg_zero,
     dec_imm := ucast (operand_decode operand_cimmd inst)\<rparr>"

definition decode_cl_lq :: "decode \<Rightarrow> u64 \<Rightarrow> decode" where
  "decode_cl_lq dec inst = dec\<lparr>
     dec_rd := ucast (operand_decode operand_crdq inst + 8),
     dec_rs1 := ucast (operand_decode operand_crs1q inst + 8),
     dec_rs2 := rv_ireg_zero,
     dec_imm := ucast (operand_decode operand_cimmq inst)\<rparr>"

definition decode_cs :: "decode \<Rightarrow> u64 \<Rightarrow> decode" where
  "decode_cs dec inst = dec\<lparr>
     dec_rs1 := ucast (operand_decode operand_crs1rdq inst + 8),
     dec_rd := ucast (operand_decode operand_crs1rdq inst + 8),
     dec_rs2 := ucast (operand_decode operand_crs2q inst + 8),
     dec_imm := 0\<rparr>"

definition decode_cs_sw :: "decode \<Rightarrow> u64 \<Rightarrow> decode" where
  "decode_cs_sw dec inst = dec\<lparr>
     dec_rd := rv_ireg_zero,
     dec_rs1 := ucast (operand_decode operand_crs1q inst + 8),
     dec_rs2 := ucast (operand_decode operand_crs2q inst + 8),
     dec_imm := ucast (operand_decode operand_cimmw inst)\<rparr>"

definition decode_cs_sd :: "decode \<Rightarrow> u64 \<Rightarrow> decode" where
  "decode_cs_sd dec inst = dec\<lparr>
     dec_rd := rv_ireg_zero,
     dec_rs1 := ucast (operand_decode operand_crs1q inst + 8),
     dec_rs2 := ucast (operand_decode operand_crs2q inst + 8),
     dec_imm := ucast (operand_decode operand_cimmd inst)\<rparr>"

definition decode_cs_sq :: "decode \<Rightarrow> u64 \<Rightarrow> decode" where
  "decode_cs_sq dec inst = dec\<lparr>
     dec_rd := rv_ireg_zero,
     dec_rs1 := ucast (operand_decode operand_crs1q inst + 8),
     dec_rs2 := ucast (operand_decode operand_crs2q inst + 8),
     dec_imm := ucast (operand_decode operand_cimmq inst)\<rparr>"

definition decode_cb :: "decode \<Rightarrow> u64 \<Rightarrow> decode" where
  "decode_cb dec inst = dec\<lparr>
     dec_rd := rv_ireg_zero,
     dec_rs1 := ucast (operand_decode operand_crs1q inst + 8),
     dec_rs2 := rv_ireg_zero,
     dec_imm := ucast (operand_decode operand_cimmb inst)\<rparr>"

definition decode_cb_imm :: "decode \<Rightarrow> u64 \<Rightarrow> decode" where
  "decode_cb_imm dec inst = dec\<lparr>
     dec_rs1 := ucast (operand_decode operand_crs1rdq inst + 8),
     dec_rd := ucast (operand_decode operand_crs1rdq inst + 8),
     dec_rs2 := rv_ireg_zero,
     dec_imm := ucast (operand_decode operand_cimmi inst)\<rparr>"

definition decode_cb_sh5 :: "decode \<Rightarrow> u64 \<Rightarrow> decode" where
  "decode_cb_sh5 dec inst = dec\<lparr>
     dec_rs1 := ucast (operand_decode operand_crs1rdq inst + 8),
     dec_rd := ucast (operand_decode operand_crs1rdq inst + 8),
     dec_rs2 := rv_ireg_zero,
     dec_imm := ucast (operand_decode operand_cimmsh5 inst)\<rparr>"

definition decode_cb_sh6 :: "decode \<Rightarrow> u64 \<Rightarrow> decode" where
  "decode_cb_sh6 dec inst = dec\<lparr>
     dec_rs1 := ucast (operand_decode operand_crs1rdq inst + 8),
     dec_rd := ucast (operand_decode operand_crs1rdq inst + 8),
     dec_rs2 := rv_ireg_zero,
     dec_imm := ucast (operand_decode operand_cimmsh6 inst)\<rparr>"

definition decode_cj :: "decode \<Rightarrow> u64 \<Rightarrow> decode" where
  "decode_cj dec inst = dec\<lparr>
     dec_rs2 := rv_ireg_zero,
     dec_rs1 := rv_ireg_zero,
     dec_rd := rv_ireg_zero,
     dec_imm := ucast (operand_decode operand_cimmj inst)\<rparr>"

definition decode_cj_jal :: "decode \<Rightarrow> u64 \<Rightarrow> decode" where
  "decode_cj_jal dec inst = dec\<lparr>
     dec_rd := rv_ireg_ra,
     dec_rs2 := rv_ireg_zero,
     dec_rs1 := rv_ireg_zero,
     dec_imm := ucast (operand_decode operand_cimmj inst)\<rparr>"

definition decode_r :: "decode \<Rightarrow> u64 \<Rightarrow> decode" where
  "decode_r dec inst = dec\<lparr>
     dec_rd := ucast (operand_decode operand_rd inst),
     dec_rs1 := ucast (operand_decode operand_rs1 inst),
     dec_rs2 := ucast (operand_decode operand_rs2 inst),
     dec_imm := 0\<rparr>"

definition decode_r_m :: "decode \<Rightarrow> u64 \<Rightarrow> decode" where
  "decode_r_m dec inst = dec\<lparr>
     dec_rd := ucast (operand_decode operand_rd inst),
     dec_rs1 := ucast (operand_decode operand_rs1 inst),
     dec_rs2 := ucast (operand_decode operand_rs2 inst),
     dec_imm := 0,
     dec_rm := ucast (operand_decode operand_rm inst)\<rparr>"

definition decode_r_l :: "decode \<Rightarrow> u64 \<Rightarrow> decode" where
  "decode_r_l dec inst = dec\<lparr>
     dec_rd := ucast (operand_decode operand_rd inst),
     dec_rs1 := ucast (operand_decode operand_rs1 inst),
     dec_rs2 := rv_ireg_zero,
     dec_imm := 0,
     dec_aq := ucast (operand_decode operand_aq inst),
     dec_rl := ucast (operand_decode operand_rl inst)\<rparr>"

definition decode_r_a :: "decode \<Rightarrow> u64 \<Rightarrow> decode" where
  "decode_r_a dec inst = dec\<lparr>
     dec_rd := ucast (operand_decode operand_rd inst),
     dec_rs1 := ucast (operand_decode operand_rs1 inst),
     dec_rs2 := ucast (operand_decode operand_rs2 inst),
     dec_imm := 0,
     dec_aq := ucast (operand_decode operand_aq inst),
     dec_rl := ucast (operand_decode operand_rl inst)\<rparr>"

definition decode_r4_m :: "decode \<Rightarrow> u64 \<Rightarrow> decode" where
  "decode_r4_m dec inst = dec\<lparr>
     dec_rd := ucast (operand_decode operand_rd inst),
     dec_rs1 := ucast (operand_decode operand_rs1 inst),
     dec_rs2 := ucast (operand_decode operand_rs2 inst),
     dec_rs3 := ucast (operand_decode operand_rs3 inst),
     dec_imm := 0,
     dec_rm := ucast (operand_decode operand_rm inst)\<rparr>"

definition decode_r_f :: "decode \<Rightarrow> u64 \<Rightarrow> decode" where
  "decode_r_f dec inst = dec\<lparr>
     dec_rs2 := rv_ireg_zero,
     dec_rs1 := rv_ireg_zero,
     dec_rd := rv_ireg_zero,
     dec_pred := ucast (operand_decode operand_pred inst),
     dec_succ := ucast (operand_decode operand_succ inst),
     dec_imm := 0\<rparr>"

definition decode_i :: "decode \<Rightarrow> u64 \<Rightarrow> decode" where
  "decode_i dec inst = dec\<lparr>
     dec_rd := ucast (operand_decode operand_rd inst),
     dec_rs1 := ucast (operand_decode operand_rs1 inst),
     dec_rs2 := rv_ireg_zero,
     dec_imm := ucast (operand_decode operand_imm12 inst)\<rparr>"

definition decode_i_csr :: "decode \<Rightarrow> u64 \<Rightarrow> decode" where
  "decode_i_csr dec inst = dec\<lparr>
     dec_rd := ucast (operand_decode operand_rd inst),
     dec_rs1 := ucast (operand_decode operand_rs1 inst),
     dec_rs2 := rv_ireg_zero,
     dec_imm := ucast (operand_decode operand_csr12 inst)\<rparr>"

definition decode_i_sh5 :: "decode \<Rightarrow> u64 \<Rightarrow> decode" where
  "decode_i_sh5 dec inst = dec\<lparr>
     dec_rd := ucast (operand_decode operand_rd inst),
     dec_rs1 := ucast (operand_decode operand_rs1 inst),
     dec_rs2 := rv_ireg_zero,
     dec_imm := ucast (operand_decode operand_shamt5 inst)\<rparr>"

definition decode_i_sh6 :: "decode \<Rightarrow> u64 \<Rightarrow> decode" where
  "decode_i_sh6 dec inst = dec\<lparr>
     dec_rd := ucast (operand_decode operand_rd inst),
     dec_rs1 := ucast (operand_decode operand_rs1 inst),
     dec_rs2 := rv_ireg_zero,
     dec_imm := ucast (operand_decode operand_shamt6 inst)\<rparr>"

definition decode_i_sh7 :: "decode \<Rightarrow> u64 \<Rightarrow> decode" where
  "decode_i_sh7 dec inst = dec\<lparr>
     dec_rd := ucast (operand_decode operand_rd inst),
     dec_rs1 := ucast (operand_decode operand_rs1 inst),
     dec_rs2 := rv_ireg_zero,
     dec_imm := ucast (operand_decode operand_shamt7 inst)\<rparr>"

definition decode_s :: "decode \<Rightarrow> u64 \<Rightarrow> decode" where
  "decode_s dec inst = dec\<lparr>
     dec_rd := rv_ireg_zero,
     dec_rs1 := ucast (operand_decode operand_rs1 inst),
     dec_rs2 := ucast (operand_decode operand_rs2 inst),
     dec_imm := ucast (operand_decode operand_simm12 inst)\<rparr>"

definition decode_sb :: "decode \<Rightarrow> u64 \<Rightarrow> decode" where
  "decode_sb dec inst = dec\<lparr>
     dec_rd := rv_ireg_zero,
     dec_rs1 := ucast (operand_decode operand_rs1 inst),
     dec_rs2 := ucast (operand_decode operand_rs2 inst),
     dec_imm := ucast (operand_decode operand_sbimm12 inst)\<rparr>"

definition decode_u :: "decode \<Rightarrow> u64 \<Rightarrow> decode" where
  "decode_u dec inst = dec\<lparr>
     dec_rd := ucast (operand_decode operand_rd inst),
     dec_rs2 := rv_ireg_zero,
     dec_rs1 := rv_ireg_zero,
     dec_imm := ucast (operand_decode operand_imm20 inst)\<rparr>"

definition decode_uj :: "decode \<Rightarrow> u64 \<Rightarrow> decode" where
  "decode_uj dec inst = dec\<lparr>
     dec_rd := ucast (operand_decode operand_rd inst),
     dec_rs2 := rv_ireg_zero,
     dec_rs1 := rv_ireg_zero,
     dec_imm := ucast (operand_decode operand_jimm20 inst)\<rparr>"

lemmas decode_codec_defs =
  decode_none_def decode_ci_none_def decode_cr_def decode_cr_mv_def
  decode_cr_jalr_def decode_cr_jr_def decode_ci_def decode_ci_sh5_def
  decode_ci_sh6_def decode_ci_li_def decode_ci_lui_def decode_ci_lwsp_def
  decode_ci_ldsp_def decode_ci_lqsp_def decode_ci_16sp_def decode_css_swsp_def
  decode_css_sdsp_def decode_css_sqsp_def decode_ciw_4spn_def decode_cl_lw_def
  decode_cl_ld_def decode_cl_lq_def decode_cs_def decode_cs_sw_def
  decode_cs_sd_def decode_cs_sq_def decode_cb_def decode_cb_imm_def
  decode_cb_sh5_def decode_cb_sh6_def decode_cj_def decode_cj_jal_def
  decode_r_def decode_r_m_def decode_r_l_def decode_r_a_def
  decode_r4_m_def decode_r_f_def decode_i_def decode_i_csr_def
  decode_i_sh5_def decode_i_sh6_def decode_i_sh7_def decode_s_def
  decode_sb_def decode_u_def decode_uj_def

definition decode_inst_type :: "decode \<Rightarrow> u64 \<Rightarrow> decode" where
  "decode_inst_type dec0 inst =
     (let dec = dec0\<lparr>dec_codec := rv_inst_codec ! dec_op dec0\<rparr> in
      case dec_codec dec of
        rv_codec_illegal \<Rightarrow> dec
      | rv_codec_none \<Rightarrow> decode_none dec inst
      | rv_codec_u \<Rightarrow> decode_u dec inst
      | rv_codec_uj \<Rightarrow> decode_uj dec inst
      | rv_codec_i \<Rightarrow> decode_i dec inst
      | rv_codec_i_sh5 \<Rightarrow> decode_i_sh5 dec inst
      | rv_codec_i_sh6 \<Rightarrow> decode_i_sh6 dec inst
      | rv_codec_i_sh7 \<Rightarrow> decode_i_sh7 dec inst
      | rv_codec_i_csr \<Rightarrow> decode_i_csr dec inst
      | rv_codec_s \<Rightarrow> decode_s dec inst
      | rv_codec_sb \<Rightarrow> decode_sb dec inst
      | rv_codec_r \<Rightarrow> decode_r dec inst
      | rv_codec_r_m \<Rightarrow> decode_r_m dec inst
      | rv_codec_r4_m \<Rightarrow> decode_r4_m dec inst
      | rv_codec_r_a \<Rightarrow> decode_r_a dec inst
      | rv_codec_r_l \<Rightarrow> decode_r_l dec inst
      | rv_codec_r_f \<Rightarrow> decode_r_f dec inst
      | rv_codec_cb \<Rightarrow> decode_cb dec inst
      | rv_codec_cb_imm \<Rightarrow> decode_cb_imm dec inst
      | rv_codec_cb_sh5 \<Rightarrow> decode_cb_sh5 dec inst
      | rv_codec_cb_sh6 \<Rightarrow> decode_cb_sh6 dec inst
      | rv_codec_ci \<Rightarrow> decode_ci dec inst
      | rv_codec_ci_sh5 \<Rightarrow> decode_ci_sh5 dec inst
      | rv_codec_ci_sh6 \<Rightarrow> decode_ci_sh6 dec inst
      | rv_codec_ci_16sp \<Rightarrow> decode_ci_16sp dec inst
      | rv_codec_ci_lwsp \<Rightarrow> decode_ci_lwsp dec inst
      | rv_codec_ci_ldsp \<Rightarrow> decode_ci_ldsp dec inst
      | rv_codec_ci_lqsp \<Rightarrow> decode_ci_lqsp dec inst
      | rv_codec_ci_li \<Rightarrow> decode_ci_li dec inst
      | rv_codec_ci_lui \<Rightarrow> decode_ci_lui dec inst
      | rv_codec_ci_none \<Rightarrow> decode_ci_none dec inst
      | rv_codec_ciw_4spn \<Rightarrow> decode_ciw_4spn dec inst
      | rv_codec_cj \<Rightarrow> decode_cj dec inst
      | rv_codec_cj_jal \<Rightarrow> decode_cj_jal dec inst
      | rv_codec_cl_lw \<Rightarrow> decode_cl_lw dec inst
      | rv_codec_cl_ld \<Rightarrow> decode_cl_ld dec inst
      | rv_codec_cl_lq \<Rightarrow> decode_cl_lq dec inst
      | rv_codec_cr \<Rightarrow> decode_cr dec inst
      | rv_codec_cr_mv \<Rightarrow> decode_cr_mv dec inst
      | rv_codec_cr_jalr \<Rightarrow> decode_cr_jalr dec inst
      | rv_codec_cr_jr \<Rightarrow> decode_cr_jr dec inst
      | rv_codec_cs \<Rightarrow> decode_cs dec inst
      | rv_codec_cs_sw \<Rightarrow> decode_cs_sw dec inst
      | rv_codec_cs_sd \<Rightarrow> decode_cs_sd dec inst
      | rv_codec_cs_sq \<Rightarrow> decode_cs_sq dec inst
      | rv_codec_css_swsp \<Rightarrow> decode_css_swsp dec inst
      | rv_codec_css_sdsp \<Rightarrow> decode_css_sdsp dec inst
      | rv_codec_css_sqsp \<Rightarrow> decode_css_sqsp dec inst)"

end
