(* ===== verification/Encode.thy ===== *)
theory Encode
  imports Decode
begin

text \<open>
  The operand encoders of \<^verbatim>\<open>src/src/asm/encode.h\<close> and \<^verbatim>\<open>encode_inst\<close> of
  \<^verbatim>\<open>src/src/asm/switch.h\<close>. A failing \<^verbatim>\<open>assert\<close> aborts the program; it is the value
  \<open>None\<close>. Registers are zero-extended and the immediate is sign-extended to 64 bits when
  they are passed to an operand's \<^verbatim>\<open>encode\<close>.
\<close>

unbundle bit_operations_syntax

section \<open>Operand encoders\<close>

definition encode_none :: "decode \<Rightarrow> u64 option" where
  "encode_none dec =
     Some (0)"

definition encode_ci_none :: "decode \<Rightarrow> u64 option" where
  "encode_ci_none dec =
     (if dec_rd dec = rv_ireg_zero \<and> dec_rs1 dec = rv_ireg_zero \<and> dec_rs2 dec = rv_ireg_zero
      then Some (0)
      else None)"

definition encode_cr :: "decode \<Rightarrow> u64 option" where
  "encode_cr dec =
     (if dec_rd dec = dec_rs1 dec
      then Some (operand_encode operand_crs1rd (ucast (dec_rd dec)) OR
       operand_encode operand_crs2 (ucast (dec_rs2 dec)))
      else None)"

definition encode_cr_mv :: "decode \<Rightarrow> u64 option" where
  "encode_cr_mv dec =
     (if dec_imm dec = 0
      then Some (operand_encode operand_crd (ucast (dec_rd dec)) OR
       operand_encode operand_crs2 (ucast (dec_rs1 dec)))
      else None)"

definition encode_cr_jalr :: "decode \<Rightarrow> u64 option" where
  "encode_cr_jalr dec =
     (if dec_rd dec = rv_ireg_ra
      then Some (operand_encode operand_crs1 (ucast (dec_rs1 dec)))
      else None)"

definition encode_cr_jr :: "decode \<Rightarrow> u64 option" where
  "encode_cr_jr dec =
     (if dec_rd dec = rv_ireg_zero
      then Some (operand_encode operand_crs1 (ucast (dec_rs1 dec)))
      else None)"

definition encode_ci :: "decode \<Rightarrow> u64 option" where
  "encode_ci dec =
     (if dec_rd dec = dec_rs1 dec
      then Some (operand_encode operand_crs1rd (ucast (dec_rs1 dec)) OR
       operand_encode operand_cimmi (scast (dec_imm dec)))
      else None)"

definition encode_ci_sh5 :: "decode \<Rightarrow> u64 option" where
  "encode_ci_sh5 dec =
     (if dec_rd dec = dec_rs1 dec
      then Some (operand_encode operand_crs1rd (ucast (dec_rs1 dec)) OR
       operand_encode operand_cimmsh5 (scast (dec_imm dec)))
      else None)"

definition encode_ci_sh6 :: "decode \<Rightarrow> u64 option" where
  "encode_ci_sh6 dec =
     (if dec_rd dec = dec_rs1 dec
      then Some (operand_encode operand_crs1rd (ucast (dec_rs1 dec)) OR
       operand_encode operand_cimmsh6 (scast (dec_imm dec)))
      else None)"

definition encode_ci_li :: "decode \<Rightarrow> u64 option" where
  "encode_ci_li dec =
     (if dec_rs1 dec = rv_ireg_zero
      then Some (operand_encode operand_crd (ucast (dec_rd dec)) OR
       operand_encode operand_cimmi (scast (dec_imm dec)))
      else None)"

definition encode_ci_lui :: "decode \<Rightarrow> u64 option" where
  "encode_ci_lui dec =
     (if dec_rs1 dec = rv_ireg_zero
      then Some (operand_encode operand_crd (ucast (dec_rd dec)) OR
       operand_encode operand_cimmui (scast (dec_imm dec)))
      else None)"

definition encode_ci_lwsp :: "decode \<Rightarrow> u64 option" where
  "encode_ci_lwsp dec =
     (if dec_rs1 dec = rv_ireg_sp
      then Some (operand_encode operand_crd (ucast (dec_rd dec)) OR
       operand_encode operand_cimmlwsp (scast (dec_imm dec)))
      else None)"

definition encode_ci_ldsp :: "decode \<Rightarrow> u64 option" where
  "encode_ci_ldsp dec =
     (if dec_rs1 dec = rv_ireg_sp
      then Some (operand_encode operand_crd (ucast (dec_rd dec)) OR
       operand_encode operand_cimmldsp (scast (dec_imm dec)))
      else None)"

definition encode_ci_lqsp :: "decode \<Rightarrow> u64 option" where
  "encode_ci_lqsp dec =
     (if dec_rs1 dec = rv_ireg_sp
      then Some (operand_encode operand_crd (ucast (dec_rd dec)) OR
       operand_encode operand_cimmlqsp (scast (dec_imm dec)))
      else None)"

definition encode_ci_16sp :: "decode \<Rightarrow> u64 option" where
  "encode_ci_16sp dec =
     (if dec_rd dec = rv_ireg_sp \<and> dec_rs1 dec = rv_ireg_sp
      then Some (operand_encode operand_cimm16sp (scast (dec_imm dec)))
      else None)"

definition encode_css_swsp :: "decode \<Rightarrow> u64 option" where
  "encode_css_swsp dec =
     (if dec_rs1 dec = rv_ireg_sp
      then Some (operand_encode operand_crs2 (ucast (dec_rs2 dec)) OR
       operand_encode operand_cimmswsp (scast (dec_imm dec)))
      else None)"

definition encode_css_sdsp :: "decode \<Rightarrow> u64 option" where
  "encode_css_sdsp dec =
     (if dec_rs1 dec = rv_ireg_sp
      then Some (operand_encode operand_crs2 (ucast (dec_rs2 dec)) OR
       operand_encode operand_cimmsdsp (scast (dec_imm dec)))
      else None)"

definition encode_css_sqsp :: "decode \<Rightarrow> u64 option" where
  "encode_css_sqsp dec =
     (if dec_rs1 dec = rv_ireg_sp
      then Some (operand_encode operand_crs2 (ucast (dec_rs2 dec)) OR
       operand_encode operand_cimmsqsp (scast (dec_imm dec)))
      else None)"

definition encode_ciw_4spn :: "decode \<Rightarrow> u64 option" where
  "encode_ciw_4spn dec =
     (if dec_rs1 dec = rv_ireg_sp
      then Some (operand_encode operand_crdq (ucast (dec_rd dec) + 8) OR
       operand_encode operand_cimm4spn (scast (dec_imm dec)))
      else None)"

definition encode_cl_lw :: "decode \<Rightarrow> u64 option" where
  "encode_cl_lw dec =
     Some (operand_encode operand_crdq (ucast (dec_rd dec) + 8) OR
       operand_encode operand_crs1q (ucast (dec_rs1 dec) + 8) OR
       operand_encode operand_cimmw (scast (dec_imm dec)))"

definition encode_cl_ld :: "decode \<Rightarrow> u64 option" where
  "encode_cl_ld dec =
     Some (operand_encode operand_crdq (ucast (dec_rd dec) + 8) OR
       operand_encode operand_crs1q (ucast (dec_rs1 dec) + 8) OR
       operand_encode operand_cimmd (scast (dec_imm dec)))"

definition encode_cl_lq :: "decode \<Rightarrow> u64 option" where
  "encode_cl_lq dec =
     Some (operand_encode operand_crdq (ucast (dec_rd dec) + 8) OR
       operand_encode operand_crs1q (ucast (dec_rs1 dec) + 8) OR
       operand_encode operand_cimmq (scast (dec_imm dec)))"

definition encode_cs :: "decode \<Rightarrow> u64 option" where
  "encode_cs dec =
     (if dec_rd dec = dec_rs1 dec
      then Some (operand_encode operand_crdq (ucast (dec_rd dec) + 8) OR
       operand_encode operand_crs1q (ucast (dec_rs1 dec) + 8))
      else None)"

definition encode_cs_sw :: "decode \<Rightarrow> u64 option" where
  "encode_cs_sw dec =
     Some (operand_encode operand_crs1q (ucast (dec_rs1 dec) + 8) OR
       operand_encode operand_crs2q (ucast (dec_rs2 dec) + 8) OR
       operand_encode operand_cimmw (scast (dec_imm dec)))"

definition encode_cs_sd :: "decode \<Rightarrow> u64 option" where
  "encode_cs_sd dec =
     Some (operand_encode operand_crs1q (ucast (dec_rs1 dec) + 8) OR
       operand_encode operand_crs2q (ucast (dec_rs2 dec) + 8) OR
       operand_encode operand_cimmd (scast (dec_imm dec)))"

definition encode_cs_sq :: "decode \<Rightarrow> u64 option" where
  "encode_cs_sq dec =
     Some (operand_encode operand_crs1q (ucast (dec_rs1 dec) + 8) OR
       operand_encode operand_crs2q (ucast (dec_rs2 dec) + 8) OR
       operand_encode operand_cimmq (scast (dec_imm dec)))"

definition encode_cb :: "decode \<Rightarrow> u64 option" where
  "encode_cb dec =
     Some (operand_encode operand_crs1q (ucast (dec_rs1 dec) + 8) OR
       operand_encode operand_cimmb (scast (dec_imm dec)))"

definition encode_cb_imm :: "decode \<Rightarrow> u64 option" where
  "encode_cb_imm dec =
     (if dec_rd dec = dec_rs1 dec
      then Some (operand_encode operand_crs1rdq (ucast (dec_rs1 dec) + 8) OR
       operand_encode operand_cimmi (scast (dec_imm dec)))
      else None)"

definition encode_cb_sh5 :: "decode \<Rightarrow> u64 option" where
  "encode_cb_sh5 dec =
     (if dec_rd dec = dec_rs1 dec
      then Some (operand_encode operand_crs1rdq (ucast (dec_rs1 dec) + 8) OR
       operand_encode operand_cimmsh5 (scast (dec_imm dec)))
      else None)"

definition encode_cb_sh6 :: "decode \<Rightarrow> u64 option" where
  "encode_cb_sh6 dec =
     (if dec_rd dec = dec_rs1 dec
      then Some (operand_encode operand_crs1rdq (ucast (dec_rs1 dec) + 8) OR
       operand_encode operand_cimmsh6 (scast (dec_imm dec)))
      else None)"

definition encode_cj :: "decode \<Rightarrow> u64 option" where
  "encode_cj dec =
     Some (operand_encode operand_cimmj (scast (dec_imm dec)))"

definition encode_cj_jal :: "decode \<Rightarrow> u64 option" where
  "encode_cj_jal dec =
     Some (operand_encode operand_cimmj (scast (dec_imm dec)))"

definition encode_r :: "decode \<Rightarrow> u64 option" where
  "encode_r dec =
     Some (operand_encode operand_rd (ucast (dec_rd dec)) OR
       operand_encode operand_rs1 (ucast (dec_rs1 dec)) OR
       operand_encode operand_rs2 (ucast (dec_rs2 dec)))"

definition encode_r_m :: "decode \<Rightarrow> u64 option" where
  "encode_r_m dec =
     Some (operand_encode operand_rd (ucast (dec_rd dec)) OR
       operand_encode operand_rs1 (ucast (dec_rs1 dec)) OR
       operand_encode operand_rs2 (ucast (dec_rs2 dec)) OR
       operand_encode operand_rm (ucast (dec_rm dec)))"

definition encode_r_l :: "decode \<Rightarrow> u64 option" where
  "encode_r_l dec =
     (if dec_rs2 dec = 0
      then Some (operand_encode operand_rd (ucast (dec_rd dec)) OR
       operand_encode operand_rs1 (ucast (dec_rs1 dec)) OR
       operand_encode operand_aq (ucast (dec_aq dec)) OR
       operand_encode operand_rl (ucast (dec_rl dec)))
      else None)"

definition encode_r_a :: "decode \<Rightarrow> u64 option" where
  "encode_r_a dec =
     Some (operand_encode operand_rd (ucast (dec_rd dec)) OR
       operand_encode operand_rs1 (ucast (dec_rs1 dec)) OR
       operand_encode operand_rs2 (ucast (dec_rs2 dec)) OR
       operand_encode operand_aq (ucast (dec_aq dec)) OR
       operand_encode operand_rl (ucast (dec_rl dec)))"

definition encode_r4_m :: "decode \<Rightarrow> u64 option" where
  "encode_r4_m dec =
     Some (operand_encode operand_rd (ucast (dec_rd dec)) OR
       operand_encode operand_rs1 (ucast (dec_rs1 dec)) OR
       operand_encode operand_rs2 (ucast (dec_rs2 dec)) OR
       operand_encode operand_rs3 (ucast (dec_rs3 dec)) OR
       operand_encode operand_rm (ucast (dec_rm dec)))"

definition encode_r_f :: "decode \<Rightarrow> u64 option" where
  "encode_r_f dec =
     Some (operand_encode operand_pred (ucast (dec_pred dec)) OR
       operand_encode operand_succ (ucast (dec_succ dec)))"

definition encode_i :: "decode \<Rightarrow> u64 option" where
  "encode_i dec =
     Some (operand_encode operand_rd (ucast (dec_rd dec)) OR
       operand_encode operand_rs1 (ucast (dec_rs1 dec)) OR
       operand_encode operand_imm12 (scast (dec_imm dec)))"

definition encode_i_csr :: "decode \<Rightarrow> u64 option" where
  "encode_i_csr dec =
     Some (operand_encode operand_rd (ucast (dec_rd dec)) OR
       operand_encode operand_rs1 (ucast (dec_rs1 dec)) OR
       operand_encode operand_csr12 (scast (dec_imm dec)))"

definition encode_i_sh5 :: "decode \<Rightarrow> u64 option" where
  "encode_i_sh5 dec =
     Some (operand_encode operand_rd (ucast (dec_rd dec)) OR
       operand_encode operand_rs1 (ucast (dec_rs1 dec)) OR
       operand_encode operand_shamt5 (scast (dec_imm dec)))"

definition encode_i_sh6 :: "decode \<Rightarrow> u64 option" where
  "encode_i_sh6 dec =
     Some (operand_encode operand_rd (ucast (dec_rd dec)) OR
       operand_encode operand_rs1 (ucast (dec_rs1 dec)) OR
       operand_encode operand_shamt6 (scast (dec_imm dec)))"

definition encode_i_sh7 :: "decode \<Rightarrow> u64 option" where
  "encode_i_sh7 dec =
     Some (operand_encode operand_rd (ucast (dec_rd dec)) OR
       operand_encode operand_rs1 (ucast (dec_rs1 dec)) OR
       operand_encode operand_shamt7 (scast (dec_imm dec)))"

definition encode_s :: "decode \<Rightarrow> u64 option" where
  "encode_s dec =
     Some (operand_encode operand_rs1 (ucast (dec_rs1 dec)) OR
       operand_encode operand_rs2 (ucast (dec_rs2 dec)) OR
       operand_encode operand_simm12 (scast (dec_imm dec)))"

definition encode_sb :: "decode \<Rightarrow> u64 option" where
  "encode_sb dec =
     Some (operand_encode operand_rs1 (ucast (dec_rs1 dec)) OR
       operand_encode operand_rs2 (ucast (dec_rs2 dec)) OR
       operand_encode operand_sbimm12 (scast (dec_imm dec)))"

definition encode_u :: "decode \<Rightarrow> u64 option" where
  "encode_u dec =
     Some (operand_encode operand_rd (ucast (dec_rd dec)) OR
       operand_encode operand_imm20 (scast (dec_imm dec)))"

definition encode_uj :: "decode \<Rightarrow> u64 option" where
  "encode_uj dec =
     Some (operand_encode operand_rd (ucast (dec_rd dec)) OR
       operand_encode operand_jimm20 (scast (dec_imm dec)))"

lemmas encode_codec_defs =
  encode_none_def encode_ci_none_def encode_cr_def encode_cr_mv_def
  encode_cr_jalr_def encode_cr_jr_def encode_ci_def encode_ci_sh5_def
  encode_ci_sh6_def encode_ci_li_def encode_ci_lui_def encode_ci_lwsp_def
  encode_ci_ldsp_def encode_ci_lqsp_def encode_ci_16sp_def encode_css_swsp_def
  encode_css_sdsp_def encode_css_sqsp_def encode_ciw_4spn_def encode_cl_lw_def
  encode_cl_ld_def encode_cl_lq_def encode_cs_def encode_cs_sw_def
  encode_cs_sd_def encode_cs_sq_def encode_cb_def encode_cb_imm_def
  encode_cb_sh5_def encode_cb_sh6_def encode_cj_def encode_cj_jal_def
  encode_r_def encode_r_m_def encode_r_l_def encode_r_a_def
  encode_r4_m_def encode_r_f_def encode_i_def encode_i_csr_def
  encode_i_sh5_def encode_i_sh6_def encode_i_sh7_def encode_s_def
  encode_sb_def encode_u_def encode_uj_def

text \<open>The switch of \<^verbatim>\<open>encode_inst\<close>: the operand bits of a codec.\<close>

definition encode_operands :: "rv_codec \<Rightarrow> decode \<Rightarrow> u64 option" where
  "encode_operands codec dec =
     (case codec of
        rv_codec_illegal \<Rightarrow> Some 0
      | rv_codec_none \<Rightarrow> encode_none dec
      | rv_codec_u \<Rightarrow> encode_u dec
      | rv_codec_uj \<Rightarrow> encode_uj dec
      | rv_codec_i \<Rightarrow> encode_i dec
      | rv_codec_i_sh5 \<Rightarrow> encode_i_sh5 dec
      | rv_codec_i_sh6 \<Rightarrow> encode_i_sh6 dec
      | rv_codec_i_sh7 \<Rightarrow> encode_i_sh7 dec
      | rv_codec_i_csr \<Rightarrow> encode_i_csr dec
      | rv_codec_s \<Rightarrow> encode_s dec
      | rv_codec_sb \<Rightarrow> encode_sb dec
      | rv_codec_r \<Rightarrow> encode_r dec
      | rv_codec_r_m \<Rightarrow> encode_r_m dec
      | rv_codec_r4_m \<Rightarrow> encode_r4_m dec
      | rv_codec_r_a \<Rightarrow> encode_r_a dec
      | rv_codec_r_l \<Rightarrow> encode_r_l dec
      | rv_codec_r_f \<Rightarrow> encode_r_f dec
      | rv_codec_cb \<Rightarrow> encode_cb dec
      | rv_codec_cb_imm \<Rightarrow> encode_cb_imm dec
      | rv_codec_cb_sh5 \<Rightarrow> encode_cb_sh5 dec
      | rv_codec_cb_sh6 \<Rightarrow> encode_cb_sh6 dec
      | rv_codec_ci \<Rightarrow> encode_ci dec
      | rv_codec_ci_sh5 \<Rightarrow> encode_ci_sh5 dec
      | rv_codec_ci_sh6 \<Rightarrow> encode_ci_sh6 dec
      | rv_codec_ci_16sp \<Rightarrow> encode_ci_16sp dec
      | rv_codec_ci_lwsp \<Rightarrow> encode_ci_lwsp dec
      | rv_codec_ci_ldsp \<Rightarrow> encode_ci_ldsp dec
      | rv_codec_ci_lqsp \<Rightarrow> encode_ci_lqsp dec
      | rv_codec_ci_li \<Rightarrow> encode_ci_li dec
      | rv_codec_ci_lui \<Rightarrow> encode_ci_lui dec
      | rv_codec_ci_none \<Rightarrow> encode_ci_none dec
      | rv_codec_ciw_4spn \<Rightarrow> encode_ciw_4spn dec
      | rv_codec_cj \<Rightarrow> encode_cj dec
      | rv_codec_cj_jal \<Rightarrow> encode_cj_jal dec
      | rv_codec_cl_lw \<Rightarrow> encode_cl_lw dec
      | rv_codec_cl_ld \<Rightarrow> encode_cl_ld dec
      | rv_codec_cl_lq \<Rightarrow> encode_cl_lq dec
      | rv_codec_cr \<Rightarrow> encode_cr dec
      | rv_codec_cr_mv \<Rightarrow> encode_cr_mv dec
      | rv_codec_cr_jalr \<Rightarrow> encode_cr_jalr dec
      | rv_codec_cr_jr \<Rightarrow> encode_cr_jr dec
      | rv_codec_cs \<Rightarrow> encode_cs dec
      | rv_codec_cs_sw \<Rightarrow> encode_cs_sw dec
      | rv_codec_cs_sd \<Rightarrow> encode_cs_sd dec
      | rv_codec_cs_sq \<Rightarrow> encode_cs_sq dec
      | rv_codec_css_swsp \<Rightarrow> encode_css_swsp dec
      | rv_codec_css_sdsp \<Rightarrow> encode_css_sdsp dec
      | rv_codec_css_sqsp \<Rightarrow> encode_css_sqsp dec)"

definition encode_inst :: "decode \<Rightarrow> (decode \<times> u64) option" where
  "encode_inst dec0 =
     (let dec = dec0\<lparr>dec_codec := rv_inst_codec ! dec_op dec0\<rparr>;
          inst = rv_inst_match ! dec_op dec0
      in map_option (\<lambda>bits. (dec, inst OR bits)) (encode_operands (dec_codec dec) dec))"

end
