(* ===== verification/Switch.thy ===== *)
theory Switch
  imports Meta
begin

text \<open>
  The opcode decoder of \<^verbatim>\<open>src/src/asm/switch.h\<close>: the generated decision tree
  \<^verbatim>\<open>decode_inst_op\<close>, one definition per major opcode, with the template parameters
  (base width and extensions) as the record \<open>isa\<close>. The tree is shown to agree with the
  match/mask table of \<^verbatim>\<open>meta.cc\<close> in both directions.
\<close>

unbundle bit_operations_syntax

record isa =
  rv32 :: bool
  rv64 :: bool
  rv128 :: bool
  rvi :: bool
  rvm :: bool
  rva :: bool
  rvs :: bool
  rvf :: bool
  rvd :: bool
  rvq :: bool
  rvc :: bool

text \<open>\<^verbatim>\<open>if (ext) op = x; break;\<close>: the opcode stays \<open>rv_op_illegal\<close> when the extension is off.\<close>

abbreviation op_when :: "bool \<Rightarrow> opcode \<Rightarrow> opcode" where
  "op_when b x \<equiv> (if b then x else rv_op_illegal)"

definition decode_op_c0 :: "isa \<Rightarrow> u64 \<Rightarrow> opcode" where
  "decode_op_c0 isa inst =
     switch (inst_bits inst 13 0x7) [
      (0, op_when (rvc isa) rv_op_c_addi4spn),
      (1, op_when (rvc isa) rv_op_c_fld),
      (2, op_when (rvc isa) rv_op_c_lw),
      (3, if rvc isa \<and> rv32 isa then rv_op_c_flw else op_when (rvc isa \<and> rv64 isa) rv_op_c_ld),
      (5, op_when (rvc isa) rv_op_c_fsd),
      (6, op_when (rvc isa) rv_op_c_sw),
      (7, if rvc isa \<and> rv32 isa then rv_op_c_fsw else op_when (rvc isa \<and> rv64 isa) rv_op_c_sd)] rv_op_illegal"

definition decode_op_c1 :: "isa \<Rightarrow> u64 \<Rightarrow> opcode" where
  "decode_op_c1 isa inst =
     switch (inst_bits inst 13 0x7) [
      (0, switch (inst_bits inst 2 0x7ff) [
        (0, op_when (rvc isa) rv_op_c_nop)] (op_when (rvc isa) rv_op_c_addi)),
      (1, if rvc isa \<and> rv32 isa then rv_op_c_jal else op_when (rvc isa \<and> rv64 isa) rv_op_c_addiw),
      (2, op_when (rvc isa) rv_op_c_li),
      (3, switch (inst_bits inst 7 0x1f) [
        (2, op_when (rvc isa) rv_op_c_addi16sp)] (op_when (rvc isa) rv_op_c_lui)),
      (4, switch (inst_bits inst 10 0x3) [
        (0, if rvc isa \<and> rv32 isa then rv_op_c_srli else op_when (rvc isa \<and> rv64 isa) rv_op_c_srli),
        (1, if rvc isa \<and> rv32 isa then rv_op_c_srai else op_when (rvc isa \<and> rv64 isa) rv_op_c_srai),
        (2, op_when (rvc isa) rv_op_c_andi),
        (3, switch (inst_bits inst 10 0x4 OR inst_bits inst 5 0x3) [
          (0, op_when (rvc isa) rv_op_c_sub),
          (1, op_when (rvc isa) rv_op_c_xor),
          (2, op_when (rvc isa) rv_op_c_or),
          (3, op_when (rvc isa) rv_op_c_and),
          (4, op_when (rvc isa) rv_op_c_subw),
          (5, op_when (rvc isa) rv_op_c_addw)] rv_op_illegal)] rv_op_illegal),
      (5, op_when (rvc isa) rv_op_c_j),
      (6, op_when (rvc isa) rv_op_c_beqz),
      (7, op_when (rvc isa) rv_op_c_bnez)] rv_op_illegal"

definition decode_op_c2 :: "isa \<Rightarrow> u64 \<Rightarrow> opcode" where
  "decode_op_c2 isa inst =
     switch (inst_bits inst 13 0x7) [
      (0, if rvc isa \<and> rv32 isa then rv_op_c_slli else op_when (rvc isa \<and> rv64 isa) rv_op_c_slli),
      (1, op_when (rvc isa) rv_op_c_fldsp),
      (2, op_when (rvc isa) rv_op_c_lwsp),
      (3, if rvc isa \<and> rv32 isa then rv_op_c_flwsp else op_when (rvc isa \<and> rv64 isa) rv_op_c_ldsp),
      (4, switch (inst_bits inst 12 0x1) [
        (0, switch (inst_bits inst 2 0x1f) [
          (0, op_when (rvc isa) rv_op_c_jr)] (op_when (rvc isa) rv_op_c_mv)),
        (1, switch (inst_bits inst 2 0x1f) [
          (0, switch (inst_bits inst 7 0x1f) [
            (0, op_when (rvc isa) rv_op_c_ebreak)] (op_when (rvc isa) rv_op_c_jalr))] (op_when (rvc isa) rv_op_c_add))] rv_op_illegal),
      (5, op_when (rvc isa) rv_op_c_fsdsp),
      (6, op_when (rvc isa) rv_op_c_swsp),
      (7, if rvc isa \<and> rv32 isa then rv_op_c_fswsp else op_when (rvc isa \<and> rv64 isa) rv_op_c_sdsp)] rv_op_illegal"

definition decode_op_load :: "isa \<Rightarrow> u64 \<Rightarrow> opcode" where
  "decode_op_load isa inst =
     switch (inst_bits inst 12 0x7) [
      (0, op_when (rvi isa) rv_op_lb),
      (1, op_when (rvi isa) rv_op_lh),
      (2, op_when (rvi isa) rv_op_lw),
      (3, op_when (rvi isa) rv_op_ld),
      (4, op_when (rvi isa) rv_op_lbu),
      (5, op_when (rvi isa) rv_op_lhu),
      (6, op_when (rvi isa) rv_op_lwu),
      (7, op_when (rvi isa \<and> rv128 isa) rv_op_ldu)] rv_op_illegal"

definition decode_op_load_fp :: "isa \<Rightarrow> u64 \<Rightarrow> opcode" where
  "decode_op_load_fp isa inst =
     switch (inst_bits inst 12 0x7) [
      (2, op_when (rvf isa) rv_op_flw),
      (3, op_when (rvd isa) rv_op_fld),
      (4, op_when (rvq isa) rv_op_flq)] rv_op_illegal"

definition decode_op_misc_mem :: "isa \<Rightarrow> u64 \<Rightarrow> opcode" where
  "decode_op_misc_mem isa inst =
     switch (inst_bits inst 12 0x7) [
      (0, op_when (rvi isa) rv_op_fence),
      (1, op_when (rvi isa) rv_op_fence_i),
      (2, op_when (rvi isa \<and> rv128 isa) rv_op_lq)] rv_op_illegal"

definition decode_op_op_imm :: "isa \<Rightarrow> u64 \<Rightarrow> opcode" where
  "decode_op_op_imm isa inst =
     switch (inst_bits inst 12 0x7) [
      (0, op_when (rvi isa) rv_op_addi),
      (1, switch (inst_bits inst 27 0x1f) [
        (0, if rvi isa \<and> rv32 isa then rv_op_slli else if rvi isa \<and> rv64 isa then rv_op_slli else op_when (rvi isa \<and> rv128 isa) rv_op_slli)] rv_op_illegal),
      (2, op_when (rvi isa) rv_op_slti),
      (3, op_when (rvi isa) rv_op_sltiu),
      (4, op_when (rvi isa) rv_op_xori),
      (5, switch (inst_bits inst 27 0x1f) [
        (0, if rvi isa \<and> rv32 isa then rv_op_srli else if rvi isa \<and> rv64 isa then rv_op_srli else op_when (rvi isa \<and> rv128 isa) rv_op_srli),
        (8, if rvi isa \<and> rv32 isa then rv_op_srai else if rvi isa \<and> rv64 isa then rv_op_srai else op_when (rvi isa \<and> rv128 isa) rv_op_srai)] rv_op_illegal),
      (6, op_when (rvi isa) rv_op_ori),
      (7, op_when (rvi isa) rv_op_andi)] rv_op_illegal"

definition decode_op_op_imm_32 :: "isa \<Rightarrow> u64 \<Rightarrow> opcode" where
  "decode_op_op_imm_32 isa inst =
     switch (inst_bits inst 12 0x7) [
      (0, op_when (rvi isa) rv_op_addiw),
      (1, switch (inst_bits inst 25 0x7f) [
        (0, op_when (rvi isa) rv_op_slliw)] rv_op_illegal),
      (5, switch (inst_bits inst 25 0x7f) [
        (0, op_when (rvi isa) rv_op_srliw),
        (32, op_when (rvi isa) rv_op_sraiw)] rv_op_illegal)] rv_op_illegal"

definition decode_op_store :: "isa \<Rightarrow> u64 \<Rightarrow> opcode" where
  "decode_op_store isa inst =
     switch (inst_bits inst 12 0x7) [
      (0, op_when (rvi isa) rv_op_sb),
      (1, op_when (rvi isa) rv_op_sh),
      (2, op_when (rvi isa) rv_op_sw),
      (3, op_when (rvi isa) rv_op_sd),
      (4, op_when (rvi isa \<and> rv128 isa) rv_op_sq)] rv_op_illegal"

definition decode_op_store_fp :: "isa \<Rightarrow> u64 \<Rightarrow> opcode" where
  "decode_op_store_fp isa inst =
     switch (inst_bits inst 12 0x7) [
      (2, op_when (rvf isa) rv_op_fsw),
      (3, op_when (rvd isa) rv_op_fsd),
      (4, op_when (rvq isa) rv_op_fsq)] rv_op_illegal"

definition decode_op_amo :: "isa \<Rightarrow> u64 \<Rightarrow> opcode" where
  "decode_op_amo isa inst =
     switch (inst_bits inst 24 0xf8 OR inst_bits inst 12 0x7) [
      (2, op_when (rva isa) rv_op_amoadd_w),
      (3, op_when (rva isa) rv_op_amoadd_d),
      (4, op_when (rva isa \<and> rv128 isa) rv_op_amoadd_q),
      (10, op_when (rva isa) rv_op_amoswap_w),
      (11, op_when (rva isa) rv_op_amoswap_d),
      (12, op_when (rva isa \<and> rv128 isa) rv_op_amoswap_q),
      (18, switch (inst_bits inst 20 0x1f) [
        (0, op_when (rva isa) rv_op_lr_w)] rv_op_illegal),
      (19, switch (inst_bits inst 20 0x1f) [
        (0, op_when (rva isa) rv_op_lr_d)] rv_op_illegal),
      (20, switch (inst_bits inst 20 0x1f) [
        (0, op_when (rva isa \<and> rv128 isa) rv_op_lr_q)] rv_op_illegal),
      (26, op_when (rva isa) rv_op_sc_w),
      (27, op_when (rva isa) rv_op_sc_d),
      (28, op_when (rva isa \<and> rv128 isa) rv_op_sc_q),
      (34, op_when (rva isa) rv_op_amoxor_w),
      (35, op_when (rva isa) rv_op_amoxor_d),
      (36, op_when (rva isa \<and> rv128 isa) rv_op_amoxor_q),
      (66, op_when (rva isa) rv_op_amoor_w),
      (67, op_when (rva isa) rv_op_amoor_d),
      (68, op_when (rva isa \<and> rv128 isa) rv_op_amoor_q),
      (98, op_when (rva isa) rv_op_amoand_w),
      (99, op_when (rva isa) rv_op_amoand_d),
      (100, op_when (rva isa \<and> rv128 isa) rv_op_amoand_q),
      (130, op_when (rva isa) rv_op_amomin_w),
      (131, op_when (rva isa) rv_op_amomin_d),
      (132, op_when (rva isa \<and> rv128 isa) rv_op_amomin_q),
      (162, op_when (rva isa) rv_op_amomax_w),
      (163, op_when (rva isa) rv_op_amomax_d),
      (164, op_when (rva isa \<and> rv128 isa) rv_op_amomax_q),
      (194, op_when (rva isa) rv_op_amominu_w),
      (195, op_when (rva isa) rv_op_amominu_d),
      (196, op_when (rva isa \<and> rv128 isa) rv_op_amominu_q),
      (226, op_when (rva isa) rv_op_amomaxu_w),
      (227, op_when (rva isa) rv_op_amomaxu_d),
      (228, op_when (rva isa \<and> rv128 isa) rv_op_amomaxu_q)] rv_op_illegal"

definition decode_op_op :: "isa \<Rightarrow> u64 \<Rightarrow> opcode" where
  "decode_op_op isa inst =
     switch (inst_bits inst 22 0x3f8 OR inst_bits inst 12 0x7) [
      (0, op_when (rvi isa) rv_op_add),
      (1, op_when (rvi isa) rv_op_sll),
      (2, op_when (rvi isa) rv_op_slt),
      (3, op_when (rvi isa) rv_op_sltu),
      (4, op_when (rvi isa) rv_op_xor),
      (5, op_when (rvi isa) rv_op_srl),
      (6, op_when (rvi isa) rv_op_or),
      (7, op_when (rvi isa) rv_op_and),
      (8, op_when (rvm isa) rv_op_mul),
      (9, op_when (rvm isa) rv_op_mulh),
      (10, op_when (rvm isa) rv_op_mulhsu),
      (11, op_when (rvm isa) rv_op_mulhu),
      (12, op_when (rvm isa) rv_op_div),
      (13, op_when (rvm isa) rv_op_divu),
      (14, op_when (rvm isa) rv_op_rem),
      (15, op_when (rvm isa) rv_op_remu),
      (256, op_when (rvi isa) rv_op_sub),
      (261, op_when (rvi isa) rv_op_sra)] rv_op_illegal"

definition decode_op_op_32 :: "isa \<Rightarrow> u64 \<Rightarrow> opcode" where
  "decode_op_op_32 isa inst =
     switch (inst_bits inst 22 0x3f8 OR inst_bits inst 12 0x7) [
      (0, op_when (rvi isa) rv_op_addw),
      (1, op_when (rvi isa) rv_op_sllw),
      (5, op_when (rvi isa) rv_op_srlw),
      (8, op_when (rvm isa) rv_op_mulw),
      (12, op_when (rvm isa) rv_op_divw),
      (13, op_when (rvm isa) rv_op_divuw),
      (14, op_when (rvm isa) rv_op_remw),
      (15, op_when (rvm isa) rv_op_remuw),
      (256, op_when (rvi isa) rv_op_subw),
      (261, op_when (rvi isa) rv_op_sraw)] rv_op_illegal"

definition decode_op_madd :: "isa \<Rightarrow> u64 \<Rightarrow> opcode" where
  "decode_op_madd isa inst =
     switch (inst_bits inst 25 0x3) [
      (0, op_when (rvf isa) rv_op_fmadd_s),
      (1, op_when (rvd isa) rv_op_fmadd_d),
      (3, op_when (rvq isa) rv_op_fmadd_q)] rv_op_illegal"

definition decode_op_msub :: "isa \<Rightarrow> u64 \<Rightarrow> opcode" where
  "decode_op_msub isa inst =
     switch (inst_bits inst 25 0x3) [
      (0, op_when (rvf isa) rv_op_fmsub_s),
      (1, op_when (rvd isa) rv_op_fmsub_d),
      (3, op_when (rvq isa) rv_op_fmsub_q)] rv_op_illegal"

definition decode_op_nmsub :: "isa \<Rightarrow> u64 \<Rightarrow> opcode" where
  "decode_op_nmsub isa inst =
     switch (inst_bits inst 25 0x3) [
      (0, op_when (rvf isa) rv_op_fnmsub_s),
      (1, op_when (rvd isa) rv_op_fnmsub_d),
      (3, op_when (rvq isa) rv_op_fnmsub_q)] rv_op_illegal"

definition decode_op_nmadd :: "isa \<Rightarrow> u64 \<Rightarrow> opcode" where
  "decode_op_nmadd isa inst =
     switch (inst_bits inst 25 0x3) [
      (0, op_when (rvf isa) rv_op_fnmadd_s),
      (1, op_when (rvd isa) rv_op_fnmadd_d),
      (3, op_when (rvq isa) rv_op_fnmadd_q)] rv_op_illegal"

definition decode_op_op_fp :: "isa \<Rightarrow> u64 \<Rightarrow> opcode" where
  "decode_op_op_fp isa inst =
     switch (inst_bits inst 25 0x7f) [
      (0, op_when (rvf isa) rv_op_fadd_s),
      (1, op_when (rvd isa) rv_op_fadd_d),
      (3, op_when (rvq isa) rv_op_fadd_q),
      (4, op_when (rvf isa) rv_op_fsub_s),
      (5, op_when (rvd isa) rv_op_fsub_d),
      (7, op_when (rvq isa) rv_op_fsub_q),
      (8, op_when (rvf isa) rv_op_fmul_s),
      (9, op_when (rvd isa) rv_op_fmul_d),
      (11, op_when (rvq isa) rv_op_fmul_q),
      (12, op_when (rvf isa) rv_op_fdiv_s),
      (13, op_when (rvd isa) rv_op_fdiv_d),
      (15, op_when (rvq isa) rv_op_fdiv_q),
      (16, switch (inst_bits inst 12 0x7) [
        (0, op_when (rvf isa) rv_op_fsgnj_s),
        (1, op_when (rvf isa) rv_op_fsgnjn_s),
        (2, op_when (rvf isa) rv_op_fsgnjx_s)] rv_op_illegal),
      (17, switch (inst_bits inst 12 0x7) [
        (0, op_when (rvd isa) rv_op_fsgnj_d),
        (1, op_when (rvd isa) rv_op_fsgnjn_d),
        (2, op_when (rvd isa) rv_op_fsgnjx_d)] rv_op_illegal),
      (19, switch (inst_bits inst 12 0x7) [
        (0, op_when (rvq isa) rv_op_fsgnj_q),
        (1, op_when (rvq isa) rv_op_fsgnjn_q),
        (2, op_when (rvq isa) rv_op_fsgnjx_q)] rv_op_illegal),
      (20, switch (inst_bits inst 12 0x7) [
        (0, op_when (rvf isa) rv_op_fmin_s),
        (1, op_when (rvf isa) rv_op_fmax_s)] rv_op_illegal),
      (21, switch (inst_bits inst 12 0x7) [
        (0, op_when (rvd isa) rv_op_fmin_d),
        (1, op_when (rvd isa) rv_op_fmax_d)] rv_op_illegal),
      (23, switch (inst_bits inst 12 0x7) [
        (0, op_when (rvq isa) rv_op_fmin_q),
        (1, op_when (rvq isa) rv_op_fmax_q)] rv_op_illegal),
      (32, switch (inst_bits inst 20 0x1f) [
        (1, op_when (rvd isa) rv_op_fcvt_s_d),
        (3, op_when (rvq isa) rv_op_fcvt_s_q)] rv_op_illegal),
      (33, switch (inst_bits inst 20 0x1f) [
        (0, op_when (rvd isa) rv_op_fcvt_d_s),
        (3, op_when (rvq isa) rv_op_fcvt_d_q)] rv_op_illegal),
      (35, switch (inst_bits inst 20 0x1f) [
        (0, op_when (rvq isa) rv_op_fcvt_q_s),
        (1, op_when (rvq isa) rv_op_fcvt_q_d)] rv_op_illegal),
      (44, switch (inst_bits inst 20 0x1f) [
        (0, op_when (rvf isa) rv_op_fsqrt_s)] rv_op_illegal),
      (45, switch (inst_bits inst 20 0x1f) [
        (0, op_when (rvd isa) rv_op_fsqrt_d)] rv_op_illegal),
      (47, switch (inst_bits inst 20 0x1f) [
        (0, op_when (rvq isa) rv_op_fsqrt_q)] rv_op_illegal),
      (80, switch (inst_bits inst 12 0x7) [
        (0, op_when (rvf isa) rv_op_fle_s),
        (1, op_when (rvf isa) rv_op_flt_s),
        (2, op_when (rvf isa) rv_op_feq_s)] rv_op_illegal),
      (81, switch (inst_bits inst 12 0x7) [
        (0, op_when (rvd isa) rv_op_fle_d),
        (1, op_when (rvd isa) rv_op_flt_d),
        (2, op_when (rvd isa) rv_op_feq_d)] rv_op_illegal),
      (83, switch (inst_bits inst 12 0x7) [
        (0, op_when (rvq isa) rv_op_fle_q),
        (1, op_when (rvq isa) rv_op_flt_q),
        (2, op_when (rvq isa) rv_op_feq_q)] rv_op_illegal),
      (96, switch (inst_bits inst 20 0x1f) [
        (0, op_when (rvf isa) rv_op_fcvt_w_s),
        (1, op_when (rvf isa) rv_op_fcvt_wu_s),
        (2, op_when (rvf isa) rv_op_fcvt_l_s),
        (3, op_when (rvf isa) rv_op_fcvt_lu_s)] rv_op_illegal),
      (97, switch (inst_bits inst 20 0x1f) [
        (0, op_when (rvd isa) rv_op_fcvt_w_d),
        (1, op_when (rvd isa) rv_op_fcvt_wu_d),
        (2, op_when (rvd isa) rv_op_fcvt_l_d),
        (3, op_when (rvd isa) rv_op_fcvt_lu_d)] rv_op_illegal),
      (99, switch (inst_bits inst 20 0x1f) [
        (0, op_when (rvq isa) rv_op_fcvt_w_q),
        (1, op_when (rvq isa) rv_op_fcvt_wu_q),
        (2, op_when (rvq isa) rv_op_fcvt_l_q),
        (3, op_when (rvq isa) rv_op_fcvt_lu_q)] rv_op_illegal),
      (104, switch (inst_bits inst 20 0x1f) [
        (0, op_when (rvf isa) rv_op_fcvt_s_w),
        (1, op_when (rvf isa) rv_op_fcvt_s_wu),
        (2, op_when (rvf isa) rv_op_fcvt_s_l),
        (3, op_when (rvf isa) rv_op_fcvt_s_lu)] rv_op_illegal),
      (105, switch (inst_bits inst 20 0x1f) [
        (0, op_when (rvd isa) rv_op_fcvt_d_w),
        (1, op_when (rvd isa) rv_op_fcvt_d_wu),
        (2, op_when (rvd isa) rv_op_fcvt_d_l),
        (3, op_when (rvd isa) rv_op_fcvt_d_lu)] rv_op_illegal),
      (107, switch (inst_bits inst 20 0x1f) [
        (0, op_when (rvq isa) rv_op_fcvt_q_w),
        (1, op_when (rvq isa) rv_op_fcvt_q_wu),
        (2, op_when (rvq isa) rv_op_fcvt_q_l),
        (3, op_when (rvq isa) rv_op_fcvt_q_lu)] rv_op_illegal),
      (112, switch (inst_bits inst 17 0xf8 OR inst_bits inst 12 0x7) [
        (0, op_when (rvf isa) rv_op_fmv_x_s),
        (1, op_when (rvf isa) rv_op_fclass_s)] rv_op_illegal),
      (113, switch (inst_bits inst 17 0xf8 OR inst_bits inst 12 0x7) [
        (0, op_when (rvd isa) rv_op_fmv_x_d),
        (1, op_when (rvd isa) rv_op_fclass_d)] rv_op_illegal),
      (115, switch (inst_bits inst 17 0xf8 OR inst_bits inst 12 0x7) [
        (0, op_when (rvq isa) rv_op_fmv_x_q),
        (1, op_when (rvq isa) rv_op_fclass_q)] rv_op_illegal),
      (120, switch (inst_bits inst 17 0xf8 OR inst_bits inst 12 0x7) [
        (0, op_when (rvf isa) rv_op_fmv_s_x)] rv_op_illegal),
      (121, switch (inst_bits inst 17 0xf8 OR inst_bits inst 12 0x7) [
        (0, op_when (rvd isa) rv_op_fmv_d_x)] rv_op_illegal),
      (123, switch (inst_bits inst 17 0xf8 OR inst_bits inst 12 0x7) [
        (0, op_when (rvq isa) rv_op_fmv_q_x)] rv_op_illegal)] rv_op_illegal"

definition decode_op_op_imm_64 :: "isa \<Rightarrow> u64 \<Rightarrow> opcode" where
  "decode_op_op_imm_64 isa inst =
     switch (inst_bits inst 12 0x7) [
      (0, op_when (rvi isa \<and> rv128 isa) rv_op_addid),
      (1, switch (inst_bits inst 26 0x3f) [
        (0, op_when (rvi isa \<and> rv128 isa) rv_op_sllid)] rv_op_illegal),
      (5, switch (inst_bits inst 26 0x3f) [
        (0, op_when (rvi isa \<and> rv128 isa) rv_op_srlid),
        (16, op_when (rvi isa \<and> rv128 isa) rv_op_sraid)] rv_op_illegal)] rv_op_illegal"

definition decode_op_branch :: "isa \<Rightarrow> u64 \<Rightarrow> opcode" where
  "decode_op_branch isa inst =
     switch (inst_bits inst 12 0x7) [
      (0, op_when (rvi isa) rv_op_beq),
      (1, op_when (rvi isa) rv_op_bne),
      (4, op_when (rvi isa) rv_op_blt),
      (5, op_when (rvi isa) rv_op_bge),
      (6, op_when (rvi isa) rv_op_bltu),
      (7, op_when (rvi isa) rv_op_bgeu)] rv_op_illegal"

definition decode_op_jalr :: "isa \<Rightarrow> u64 \<Rightarrow> opcode" where
  "decode_op_jalr isa inst =
     switch (inst_bits inst 12 0x7) [
      (0, op_when (rvi isa) rv_op_jalr)] rv_op_illegal"

definition decode_op_system :: "isa \<Rightarrow> u64 \<Rightarrow> opcode" where
  "decode_op_system isa inst =
     switch (inst_bits inst 12 0x7) [
      (0, switch (inst_bits inst 20 0xfe0 OR inst_bits inst 7 0x1f) [
        (0, switch (inst_bits inst 15 0x3ff) [
          (0, op_when (rvs isa) rv_op_ecall),
          (32, op_when (rvs isa) rv_op_ebreak),
          (64, op_when (rvs isa) rv_op_uret)] rv_op_illegal),
        (256, switch (inst_bits inst 20 0x1f) [
          (2, switch (inst_bits inst 15 0x1f) [
            (0, op_when (rvs isa) rv_op_sret)] rv_op_illegal),
          (4, op_when (rvs isa) rv_op_sfence_vm),
          (5, switch (inst_bits inst 15 0x1f) [
            (0, op_when (rvs isa) rv_op_wfi)] rv_op_illegal)] rv_op_illegal),
        (288, op_when (rvs isa) rv_op_sfence_vma),
        (512, switch (inst_bits inst 15 0x3ff) [
          (64, op_when (rvs isa) rv_op_hret)] rv_op_illegal),
        (768, switch (inst_bits inst 15 0x3ff) [
          (64, op_when (rvs isa) rv_op_mret)] rv_op_illegal),
        (1952, switch (inst_bits inst 15 0x3ff) [
          (576, op_when (rvs isa) rv_op_dret)] rv_op_illegal)] rv_op_illegal),
      (1, op_when (rvs isa) rv_op_csrrw),
      (2, op_when (rvs isa) rv_op_csrrs),
      (3, op_when (rvs isa) rv_op_csrrc),
      (5, op_when (rvs isa) rv_op_csrrwi),
      (6, op_when (rvs isa) rv_op_csrrsi),
      (7, op_when (rvs isa) rv_op_csrrci)] rv_op_illegal"

definition decode_op_op_64 :: "isa \<Rightarrow> u64 \<Rightarrow> opcode" where
  "decode_op_op_64 isa inst =
     switch (inst_bits inst 22 0x3f8 OR inst_bits inst 12 0x7) [
      (0, op_when (rvi isa \<and> rv128 isa) rv_op_addd),
      (1, op_when (rvi isa \<and> rv128 isa) rv_op_slld),
      (5, op_when (rvi isa \<and> rv128 isa) rv_op_srld),
      (8, op_when (rvm isa \<and> rv128 isa) rv_op_muld),
      (12, op_when (rvm isa \<and> rv128 isa) rv_op_divd),
      (13, op_when (rvm isa \<and> rv128 isa) rv_op_divud),
      (14, op_when (rvm isa \<and> rv128 isa) rv_op_remd),
      (15, op_when (rvm isa \<and> rv128 isa) rv_op_remud),
      (256, op_when (rvi isa \<and> rv128 isa) rv_op_subd),
      (261, op_when (rvi isa \<and> rv128 isa) rv_op_srad)] rv_op_illegal"

definition decode_op_q3 :: "isa \<Rightarrow> u64 \<Rightarrow> opcode" where
  "decode_op_q3 isa inst =
     switch (inst_bits inst 2 0x1f) [
      (0, decode_op_load isa inst),
      (1, decode_op_load_fp isa inst),
      (3, decode_op_misc_mem isa inst),
      (4, decode_op_op_imm isa inst),
      (5, op_when (rvi isa) rv_op_auipc),
      (6, decode_op_op_imm_32 isa inst),
      (8, decode_op_store isa inst),
      (9, decode_op_store_fp isa inst),
      (11, decode_op_amo isa inst),
      (12, decode_op_op isa inst),
      (13, op_when (rvi isa) rv_op_lui),
      (14, decode_op_op_32 isa inst),
      (16, decode_op_madd isa inst),
      (17, decode_op_msub isa inst),
      (18, decode_op_nmsub isa inst),
      (19, decode_op_nmadd isa inst),
      (20, decode_op_op_fp isa inst),
      (22, decode_op_op_imm_64 isa inst),
      (24, decode_op_branch isa inst),
      (25, decode_op_jalr isa inst),
      (27, op_when (rvi isa) rv_op_jal),
      (28, decode_op_system isa inst),
      (30, decode_op_op_64 isa inst)] rv_op_illegal"

definition decode_inst_op :: "isa \<Rightarrow> u64 \<Rightarrow> opcode" where
  "decode_inst_op isa inst =
     switch (inst_bits inst 0 0x3) [
      (0, decode_op_c0 isa inst),
      (1, decode_op_c1 isa inst),
      (2, decode_op_c2 isa inst),
      (3, decode_op_q3 isa inst)] rv_op_illegal"

lemmas decode_op_defs =
  decode_op_c0_def decode_op_c1_def decode_op_c2_def decode_op_load_def
  decode_op_load_fp_def decode_op_misc_mem_def decode_op_op_imm_def decode_op_op_imm_32_def
  decode_op_store_def decode_op_store_fp_def decode_op_amo_def decode_op_op_def
  decode_op_op_32_def decode_op_madd_def decode_op_msub_def decode_op_nmsub_def
  decode_op_nmadd_def decode_op_op_fp_def decode_op_op_imm_64_def decode_op_branch_def
  decode_op_jalr_def decode_op_system_def decode_op_op_64_def decode_op_q3_def
  decode_inst_op_def

section \<open>Agreement with the match/mask table\<close>

definition op_matches :: "u64 \<Rightarrow> opcode \<Rightarrow> bool" where
  "op_matches inst op \<longleftrightarrow> inst AND rv_inst_mask ! op = rv_inst_match ! op"

definition op_sound :: "u64 \<Rightarrow> opcode \<Rightarrow> bool" where
  "op_sound inst op \<longleftrightarrow> op = rv_op_illegal \<or> op_matches inst op"

lemma op_sound_illegal: "op_sound inst rv_op_illegal"
  by (simp add: op_sound_def)

lemma op_sound_if: "(b \<Longrightarrow> op_sound inst x) \<Longrightarrow> op_sound inst y \<Longrightarrow> op_sound inst (if b then x else y)"
  by simp

text \<open>Testing one more field extends the known part of the instruction word.\<close>

lemma op_sound_leaf:
  assumes "inst AND K = V" and "rv_inst_mask ! op AND K = rv_inst_mask ! op"
    and "V AND rv_inst_mask ! op = rv_inst_match ! op"
  shows "op_sound inst op"
  using masked_mono [OF assms(1,2)] assms(3) by (simp add: op_sound_def op_matches_def)

lemma known_field:
  "inst AND K = V \<Longrightarrow> inst_bits inst k m = c \<Longrightarrow>
     inst AND (K OR push_bit k m) = V OR push_bit k c"
  by (intro masked_Un masked_of_inst_bits)

lemma known_fields:
  assumes "inst AND K = V" and "inst_bits inst j a OR inst_bits inst k b = c" and "a AND b = 0"
  shows "inst AND (K OR push_bit j a OR push_bit k b) = V OR push_bit j (c AND a) OR push_bit k (c AND b)"
  by (intro masked_Un masked_of_inst_bits assms(1) inst_bits_pair [OF assms(2,3)])

lemma op_sound_switch:
  assumes "inst AND K = V"
    and "list_all (\<lambda>(c, x). inst AND (K OR push_bit k m) = V OR push_bit k c \<longrightarrow> op_sound inst x) cs"
    and "inst AND K = V \<Longrightarrow> op_sound inst d"
  shows "op_sound inst (switch (inst_bits inst k m) cs d)"
proof (rule switch_rule)
  fix c x assume "(c, x) \<in> set cs" and "inst_bits inst k m = c"
  then show "op_sound inst x" using assms(2) known_field [OF assms(1)] by (force simp: list_all_iff)
qed (rule assms(3) [OF assms(1)])

lemma op_sound_switch2:
  assumes "inst AND K = V"
    and "list_all (\<lambda>(c, x). inst AND (K OR push_bit j a OR push_bit k b) =
      V OR push_bit j (c AND a) OR push_bit k (c AND b) \<longrightarrow> op_sound inst x) cs"
    and "inst AND K = V \<Longrightarrow> op_sound inst d" and "a AND b = 0"
  shows "op_sound inst (switch (inst_bits inst j a OR inst_bits inst k b) cs d)"
proof (rule switch_rule)
  fix c x assume "(c, x) \<in> set cs" and "inst_bits inst j a OR inst_bits inst k b = c"
  then show "op_sound inst x"
    using assms(2) known_fields [OF assms(1) _ assms(4)] by (force simp: list_all_iff)
qed (rule assms(3) [OF assms(1)])

lemma list_all_casesI:
  "list_all (\<lambda>(c, x). P c x) []"
  "P c x \<Longrightarrow> list_all (\<lambda>(c, x). P c x) cs \<Longrightarrow> list_all (\<lambda>(c, x). P c x) ((c, x) # cs)"
  by simp_all

lemma decode_inst_op_sound: "op_sound inst (decode_inst_op isa inst)"
proof -
  have "inst AND 0 = 0" by simp
  then show ?thesis
    unfolding decode_op_defs
    by - ((rule impI list_all_casesI op_sound_if op_sound_illegal 
        | erule op_sound_switch | erule op_sound_switch2
        | (erule op_sound_leaf; simp add: meta_nth; fail) | (simp; fail))+)
qed

section \<open>Completeness: every matching word is decoded\<close>

text \<open>The two instantiations of the decoder that the emulators use, with every extension on.\<close>

definition isa_rv32 :: isa where
  "isa_rv32 = \<lparr>rv32 = True, rv64 = False, rv128 = False, rvi = True, rvm = True, rva = True,
     rvs = True, rvf = True, rvd = True, rvq = True, rvc = True\<rparr>"

definition isa_rv64 :: isa where
  "isa_rv64 = \<lparr>rv32 = False, rv64 = True, rv128 = False, rvi = True, rvm = True, rva = True,
     rvs = True, rvf = True, rvd = True, rvq = True, rvc = True\<rparr>"

text \<open>The opcodes of the two instantiations.\<close>

definition rv32_ops :: "opcode list" where
  "rv32_ops = [
     rv_op_lui, rv_op_auipc, rv_op_jal, rv_op_jalr, rv_op_beq,
     rv_op_bne, rv_op_blt, rv_op_bge, rv_op_bltu, rv_op_bgeu,
     rv_op_lb, rv_op_lh, rv_op_lw, rv_op_lbu, rv_op_lhu,
     rv_op_sb, rv_op_sh, rv_op_sw, rv_op_addi, rv_op_slti,
     rv_op_sltiu, rv_op_xori, rv_op_ori, rv_op_andi, rv_op_slli,
     rv_op_srli, rv_op_srai, rv_op_add, rv_op_sub, rv_op_sll,
     rv_op_slt, rv_op_sltu, rv_op_xor, rv_op_srl, rv_op_sra,
     rv_op_or, rv_op_and, rv_op_fence, rv_op_fence_i, rv_op_lwu,
     rv_op_ld, rv_op_sd, rv_op_addiw, rv_op_slliw, rv_op_srliw,
     rv_op_sraiw, rv_op_addw, rv_op_subw, rv_op_sllw, rv_op_srlw,
     rv_op_sraw, rv_op_mul, rv_op_mulh, rv_op_mulhsu, rv_op_mulhu,
     rv_op_div, rv_op_divu, rv_op_rem, rv_op_remu, rv_op_mulw,
     rv_op_divw, rv_op_divuw, rv_op_remw, rv_op_remuw, rv_op_lr_w,
     rv_op_sc_w, rv_op_amoswap_w, rv_op_amoadd_w, rv_op_amoxor_w, rv_op_amoor_w,
     rv_op_amoand_w, rv_op_amomin_w, rv_op_amomax_w, rv_op_amominu_w, rv_op_amomaxu_w,
     rv_op_lr_d, rv_op_sc_d, rv_op_amoswap_d, rv_op_amoadd_d, rv_op_amoxor_d,
     rv_op_amoor_d, rv_op_amoand_d, rv_op_amomin_d, rv_op_amomax_d, rv_op_amominu_d,
     rv_op_amomaxu_d, rv_op_ecall, rv_op_ebreak, rv_op_uret, rv_op_sret,
     rv_op_hret, rv_op_mret, rv_op_dret, rv_op_sfence_vm, rv_op_sfence_vma,
     rv_op_wfi, rv_op_csrrw, rv_op_csrrs, rv_op_csrrc, rv_op_csrrwi,
     rv_op_csrrsi, rv_op_csrrci, rv_op_flw, rv_op_fsw, rv_op_fmadd_s,
     rv_op_fmsub_s, rv_op_fnmsub_s, rv_op_fnmadd_s, rv_op_fadd_s, rv_op_fsub_s,
     rv_op_fmul_s, rv_op_fdiv_s, rv_op_fsgnj_s, rv_op_fsgnjn_s, rv_op_fsgnjx_s,
     rv_op_fmin_s, rv_op_fmax_s, rv_op_fsqrt_s, rv_op_fle_s, rv_op_flt_s,
     rv_op_feq_s, rv_op_fcvt_w_s, rv_op_fcvt_wu_s, rv_op_fcvt_s_w, rv_op_fcvt_s_wu,
     rv_op_fmv_x_s, rv_op_fclass_s, rv_op_fmv_s_x, rv_op_fcvt_l_s, rv_op_fcvt_lu_s,
     rv_op_fcvt_s_l, rv_op_fcvt_s_lu, rv_op_fld, rv_op_fsd, rv_op_fmadd_d,
     rv_op_fmsub_d, rv_op_fnmsub_d, rv_op_fnmadd_d, rv_op_fadd_d, rv_op_fsub_d,
     rv_op_fmul_d, rv_op_fdiv_d, rv_op_fsgnj_d, rv_op_fsgnjn_d, rv_op_fsgnjx_d,
     rv_op_fmin_d, rv_op_fmax_d, rv_op_fcvt_s_d, rv_op_fcvt_d_s, rv_op_fsqrt_d,
     rv_op_fle_d, rv_op_flt_d, rv_op_feq_d, rv_op_fcvt_w_d, rv_op_fcvt_wu_d,
     rv_op_fcvt_d_w, rv_op_fcvt_d_wu, rv_op_fclass_d, rv_op_fcvt_l_d, rv_op_fcvt_lu_d,
     rv_op_fmv_x_d, rv_op_fcvt_d_l, rv_op_fcvt_d_lu, rv_op_fmv_d_x, rv_op_flq,
     rv_op_fsq, rv_op_fmadd_q, rv_op_fmsub_q, rv_op_fnmsub_q, rv_op_fnmadd_q,
     rv_op_fadd_q, rv_op_fsub_q, rv_op_fmul_q, rv_op_fdiv_q, rv_op_fsgnj_q,
     rv_op_fsgnjn_q, rv_op_fsgnjx_q, rv_op_fmin_q, rv_op_fmax_q, rv_op_fcvt_s_q,
     rv_op_fcvt_q_s, rv_op_fcvt_d_q, rv_op_fcvt_q_d, rv_op_fsqrt_q, rv_op_fle_q,
     rv_op_flt_q, rv_op_feq_q, rv_op_fcvt_w_q, rv_op_fcvt_wu_q, rv_op_fcvt_q_w,
     rv_op_fcvt_q_wu, rv_op_fclass_q, rv_op_fcvt_l_q, rv_op_fcvt_lu_q, rv_op_fcvt_q_l,
     rv_op_fcvt_q_lu, rv_op_fmv_x_q, rv_op_fmv_q_x, rv_op_c_addi4spn, rv_op_c_fld,
     rv_op_c_lw, rv_op_c_flw, rv_op_c_fsd, rv_op_c_sw, rv_op_c_fsw,
     rv_op_c_nop, rv_op_c_addi, rv_op_c_jal, rv_op_c_li, rv_op_c_addi16sp,
     rv_op_c_lui, rv_op_c_srli, rv_op_c_srai, rv_op_c_andi, rv_op_c_sub,
     rv_op_c_xor, rv_op_c_or, rv_op_c_and, rv_op_c_subw, rv_op_c_addw,
     rv_op_c_j, rv_op_c_beqz, rv_op_c_bnez, rv_op_c_slli, rv_op_c_fldsp,
     rv_op_c_lwsp, rv_op_c_flwsp, rv_op_c_jr, rv_op_c_mv, rv_op_c_ebreak,
     rv_op_c_jalr, rv_op_c_add, rv_op_c_fsdsp, rv_op_c_swsp, rv_op_c_fswsp]"

definition rv64_ops :: "opcode list" where
  "rv64_ops = [
     rv_op_lui, rv_op_auipc, rv_op_jal, rv_op_jalr, rv_op_beq,
     rv_op_bne, rv_op_blt, rv_op_bge, rv_op_bltu, rv_op_bgeu,
     rv_op_lb, rv_op_lh, rv_op_lw, rv_op_lbu, rv_op_lhu,
     rv_op_sb, rv_op_sh, rv_op_sw, rv_op_addi, rv_op_slti,
     rv_op_sltiu, rv_op_xori, rv_op_ori, rv_op_andi, rv_op_slli,
     rv_op_srli, rv_op_srai, rv_op_add, rv_op_sub, rv_op_sll,
     rv_op_slt, rv_op_sltu, rv_op_xor, rv_op_srl, rv_op_sra,
     rv_op_or, rv_op_and, rv_op_fence, rv_op_fence_i, rv_op_lwu,
     rv_op_ld, rv_op_sd, rv_op_addiw, rv_op_slliw, rv_op_srliw,
     rv_op_sraiw, rv_op_addw, rv_op_subw, rv_op_sllw, rv_op_srlw,
     rv_op_sraw, rv_op_mul, rv_op_mulh, rv_op_mulhsu, rv_op_mulhu,
     rv_op_div, rv_op_divu, rv_op_rem, rv_op_remu, rv_op_mulw,
     rv_op_divw, rv_op_divuw, rv_op_remw, rv_op_remuw, rv_op_lr_w,
     rv_op_sc_w, rv_op_amoswap_w, rv_op_amoadd_w, rv_op_amoxor_w, rv_op_amoor_w,
     rv_op_amoand_w, rv_op_amomin_w, rv_op_amomax_w, rv_op_amominu_w, rv_op_amomaxu_w,
     rv_op_lr_d, rv_op_sc_d, rv_op_amoswap_d, rv_op_amoadd_d, rv_op_amoxor_d,
     rv_op_amoor_d, rv_op_amoand_d, rv_op_amomin_d, rv_op_amomax_d, rv_op_amominu_d,
     rv_op_amomaxu_d, rv_op_ecall, rv_op_ebreak, rv_op_uret, rv_op_sret,
     rv_op_hret, rv_op_mret, rv_op_dret, rv_op_sfence_vm, rv_op_sfence_vma,
     rv_op_wfi, rv_op_csrrw, rv_op_csrrs, rv_op_csrrc, rv_op_csrrwi,
     rv_op_csrrsi, rv_op_csrrci, rv_op_flw, rv_op_fsw, rv_op_fmadd_s,
     rv_op_fmsub_s, rv_op_fnmsub_s, rv_op_fnmadd_s, rv_op_fadd_s, rv_op_fsub_s,
     rv_op_fmul_s, rv_op_fdiv_s, rv_op_fsgnj_s, rv_op_fsgnjn_s, rv_op_fsgnjx_s,
     rv_op_fmin_s, rv_op_fmax_s, rv_op_fsqrt_s, rv_op_fle_s, rv_op_flt_s,
     rv_op_feq_s, rv_op_fcvt_w_s, rv_op_fcvt_wu_s, rv_op_fcvt_s_w, rv_op_fcvt_s_wu,
     rv_op_fmv_x_s, rv_op_fclass_s, rv_op_fmv_s_x, rv_op_fcvt_l_s, rv_op_fcvt_lu_s,
     rv_op_fcvt_s_l, rv_op_fcvt_s_lu, rv_op_fld, rv_op_fsd, rv_op_fmadd_d,
     rv_op_fmsub_d, rv_op_fnmsub_d, rv_op_fnmadd_d, rv_op_fadd_d, rv_op_fsub_d,
     rv_op_fmul_d, rv_op_fdiv_d, rv_op_fsgnj_d, rv_op_fsgnjn_d, rv_op_fsgnjx_d,
     rv_op_fmin_d, rv_op_fmax_d, rv_op_fcvt_s_d, rv_op_fcvt_d_s, rv_op_fsqrt_d,
     rv_op_fle_d, rv_op_flt_d, rv_op_feq_d, rv_op_fcvt_w_d, rv_op_fcvt_wu_d,
     rv_op_fcvt_d_w, rv_op_fcvt_d_wu, rv_op_fclass_d, rv_op_fcvt_l_d, rv_op_fcvt_lu_d,
     rv_op_fmv_x_d, rv_op_fcvt_d_l, rv_op_fcvt_d_lu, rv_op_fmv_d_x, rv_op_flq,
     rv_op_fsq, rv_op_fmadd_q, rv_op_fmsub_q, rv_op_fnmsub_q, rv_op_fnmadd_q,
     rv_op_fadd_q, rv_op_fsub_q, rv_op_fmul_q, rv_op_fdiv_q, rv_op_fsgnj_q,
     rv_op_fsgnjn_q, rv_op_fsgnjx_q, rv_op_fmin_q, rv_op_fmax_q, rv_op_fcvt_s_q,
     rv_op_fcvt_q_s, rv_op_fcvt_d_q, rv_op_fcvt_q_d, rv_op_fsqrt_q, rv_op_fle_q,
     rv_op_flt_q, rv_op_feq_q, rv_op_fcvt_w_q, rv_op_fcvt_wu_q, rv_op_fcvt_q_w,
     rv_op_fcvt_q_wu, rv_op_fclass_q, rv_op_fcvt_l_q, rv_op_fcvt_lu_q, rv_op_fcvt_q_l,
     rv_op_fcvt_q_lu, rv_op_fmv_x_q, rv_op_fmv_q_x, rv_op_c_addi4spn, rv_op_c_fld,
     rv_op_c_lw, rv_op_c_fsd, rv_op_c_sw, rv_op_c_nop, rv_op_c_addi,
     rv_op_c_li, rv_op_c_addi16sp, rv_op_c_lui, rv_op_c_srli, rv_op_c_srai,
     rv_op_c_andi, rv_op_c_sub, rv_op_c_xor, rv_op_c_or, rv_op_c_and,
     rv_op_c_subw, rv_op_c_addw, rv_op_c_j, rv_op_c_beqz, rv_op_c_bnez,
     rv_op_c_slli, rv_op_c_fldsp, rv_op_c_lwsp, rv_op_c_jr, rv_op_c_mv,
     rv_op_c_ebreak, rv_op_c_jalr, rv_op_c_add, rv_op_c_fsdsp, rv_op_c_swsp,
     rv_op_c_ld, rv_op_c_sd, rv_op_c_addiw, rv_op_c_ldsp, rv_op_c_sdsp]"

text \<open>
  Five compressed opcodes are the default case of a switch: their pattern also covers words that
  belong to a more specific opcode.
\<close>

definition op_refined_by :: "opcode \<Rightarrow> opcode list" where
  "op_refined_by op = switch op [
     (rv_op_c_addi, [rv_op_c_nop]), (rv_op_c_lui, [rv_op_c_addi16sp]), (rv_op_c_mv, [rv_op_c_jr]),
     (rv_op_c_jalr, [rv_op_c_ebreak]), (rv_op_c_add, [rv_op_c_jalr, rv_op_c_ebreak])] []"

definition op_selected :: "u64 \<Rightarrow> opcode \<Rightarrow> bool" where
  "op_selected inst op \<longleftrightarrow> op_matches inst op \<and>
     list_all (\<lambda>r. \<not> op_matches inst r) (op_refined_by op)"

definition op_complete :: "isa \<Rightarrow> opcode \<Rightarrow> bool" where
  "op_complete isa op \<longleftrightarrow> (\<forall>inst. op_selected inst op \<longrightarrow> decode_inst_op isa inst = op)"

text \<open>A field that takes the value of a more specific pattern makes that pattern match.\<close>

lemma field_excluded:
  assumes "inst AND K = V" and "\<not> op_matches inst r"
    and "rv_inst_mask ! r AND (K OR push_bit k m) = rv_inst_mask ! r"
    and "(V OR push_bit k c) AND rv_inst_mask ! r = rv_inst_match ! r"
  shows "inst_bits inst k m \<noteq> c"
  using assms masked_mono [OF known_field [OF assms(1)] assms(3)] by (auto simp: op_matches_def)

lemma op_complete_default:
  assumes "r \<in> set (op_refined_by op)"
    and "rv_inst_mask ! r AND (rv_inst_mask ! op OR push_bit k m) = rv_inst_mask ! r"
    and "(rv_inst_match ! op OR push_bit k c) AND rv_inst_mask ! r = rv_inst_match ! r"
    and "\<And>inst. inst AND rv_inst_mask ! op = rv_inst_match ! op \<Longrightarrow> inst_bits inst k m \<noteq> c \<Longrightarrow>
      decode_inst_op isa inst = op"
  shows "op_complete isa op"
  unfolding op_complete_def
proof (intro allI impI)
  fix inst assume "op_selected inst op"
  then have h: "inst AND rv_inst_mask ! op = rv_inst_match ! op" and n: "\<not> op_matches inst r"
    using assms(1) by (auto simp: op_selected_def op_matches_def [of _ op] list_all_iff)
  show "decode_inst_op isa inst = op"
    by (rule assms(4) [OF h field_excluded [OF h n assms(2,3)]])
qed

lemmas decode_eval = decode_op_defs inst_bits_of_masked meta_nth

lemma op_complete_refined:
  assumes "rvc isa"
  shows "op_complete isa rv_op_c_addi" "op_complete isa rv_op_c_lui" "op_complete isa rv_op_c_mv"
    "op_complete isa rv_op_c_jalr" "op_complete isa rv_op_c_add"
proof -
  note ev = op_refined_by_def decode_eval assms
  show "op_complete isa rv_op_c_addi"
    by (rule op_complete_default [where r = rv_op_c_nop and k = 2 and m = "0x7ff" and c = 0])
      (simp_all add: ev)
  show "op_complete isa rv_op_c_lui"
    by (rule op_complete_default [where r = rv_op_c_addi16sp and k = 7 and m = "0x1f" and c = 2])
      (simp_all add: ev)
  show "op_complete isa rv_op_c_mv"
    by (rule op_complete_default [where r = rv_op_c_jr and k = 2 and m = "0x1f" and c = 0])
      (simp_all add: ev)
  show "op_complete isa rv_op_c_jalr"
    by (rule op_complete_default [where r = rv_op_c_ebreak and k = 7 and m = "0x1f" and c = 0])
      (simp_all add: ev)
  show "op_complete isa rv_op_c_add"
    by (rule op_complete_default [where r = rv_op_c_jalr and k = 2 and m = "0x1f" and c = 0])
      (simp_all add: ev)
qed

lemma op_complete_plain:
  "op_refined_by op = [] \<Longrightarrow>
   (\<And>inst. inst AND rv_inst_mask ! op = rv_inst_match ! op \<Longrightarrow> decode_inst_op isa inst = op) \<Longrightarrow>
   op_complete isa op"
  by (simp add: op_complete_def op_selected_def op_matches_def)

lemma list_all_consI: "list_all P []" "P x \<Longrightarrow> list_all P xs \<Longrightarrow> list_all P (x # xs)"
  by simp_all

lemma rv64_ops_complete: "list_all (op_complete isa_rv64) rv64_ops"
  unfolding rv64_ops_def
  by ((rule list_all_consI | (rule op_complete_refined, simp add: isa_rv64_def; fail)
      | (rule op_complete_plain; simp add: op_refined_by_def decode_eval isa_rv64_def; fail))+)

lemma rv32_ops_complete: "list_all (op_complete isa_rv32) rv32_ops"
  unfolding rv32_ops_def
  by ((rule list_all_consI | (rule op_complete_refined, simp add: isa_rv32_def; fail)
      | (rule op_complete_plain; simp add: op_refined_by_def decode_eval isa_rv32_def; fail))+)

section \<open>Which opcodes can come out\<close>

definition op_in_range :: "opcode set \<Rightarrow> opcode \<Rightarrow> bool" where
  "op_in_range R op \<longleftrightarrow> op \<in> R"

lemma op_in_range_switch:
  "list_all (\<lambda>(c, x). op_in_range R x) cs \<Longrightarrow> op_in_range R d \<Longrightarrow> op_in_range R (switch v cs d)"
  by (rule switch_list_all) (auto simp: list_all_iff)

lemma op_in_range_if:
  "(b \<Longrightarrow> op_in_range R x) \<Longrightarrow> (\<not> b \<Longrightarrow> op_in_range R y) \<Longrightarrow> op_in_range R (if b then x else y)"
  by simp

lemma decode_inst_op_bound: "op_in_range {..<273} (decode_inst_op isa inst)"
  unfolding decode_op_defs
  by ((rule op_in_range_switch list_all_casesI op_in_range_if | (simp add: op_in_range_def; fail))+)

lemma rv64_range: "op_in_range (insert rv_op_illegal (set rv64_ops)) (decode_inst_op isa_rv64 inst)"
  unfolding decode_op_defs
  by ((rule op_in_range_switch list_all_casesI op_in_range_if
      | (simp add: op_in_range_def rv64_ops_def isa_rv64_def; fail))+)

lemma rv32_range: "op_in_range (insert rv_op_illegal (set rv32_ops)) (decode_inst_op isa_rv32 inst)"
  unfolding decode_op_defs
  by ((rule op_in_range_switch list_all_casesI op_in_range_if
      | (simp add: op_in_range_def rv32_ops_def isa_rv32_def; fail))+)

section \<open>The decoder is exactly the match/mask table\<close>

text \<open>
  The argument is the same for the two instantiations, so it is made once, for any decoder that
  is sound, complete on a list of opcodes and confined to it.
\<close>

locale op_decoder =
  fixes decoder :: "u64 \<Rightarrow> opcode" and ops :: "opcode list"
  assumes sound: "op_sound inst (decoder inst)"
    and complete: "op \<in> set ops \<Longrightarrow> op_selected inst op \<Longrightarrow> decoder inst = op"
    and confined: "decoder inst = rv_op_illegal \<or> decoder inst \<in> set ops"
    and legal: "rv_op_illegal \<notin> set ops"
    and refined: "op \<in> set ops \<Longrightarrow> set (op_refined_by op) \<subseteq> set ops"
begin

lemma matching_decoded:
  assumes "op \<in> set ops" and "op_matches inst op"
  shows "decoder inst = op \<or> decoder inst \<in> set (op_refined_by op)"
proof (cases "op_selected inst op")
  case True
  then show ?thesis using complete [OF assms(1)] by blast
next
  case False
  then obtain r where r: "r \<in> set (op_refined_by op)" "op_matches inst r"
    using assms(2) by (auto simp: op_selected_def list_all_iff)
  have r_ops: "r \<in> set ops" using r(1) refined [OF assms(1)] by blast
  show ?thesis
  proof (cases "op_selected inst r")
    case True
    then show ?thesis using complete [OF r_ops] r(1) by blast
  next
    case False
    then obtain s where s: "s \<in> set (op_refined_by r)" "op_matches inst s"
      using r(2) by (auto simp: op_selected_def list_all_iff)
    have "op = rv_op_c_add \<and> r = rv_op_c_jalr \<and> s = rv_op_c_ebreak"
      using r(1) s(1) by (auto simp: op_refined_by_def split: if_splits)
    moreover have "s \<in> set ops" using s(1) refined [OF r_ops] by blast
    moreover have "op_selected inst s"
      using s(2) calculation by (simp add: op_selected_def op_refined_by_def)
    ultimately show ?thesis using complete [of s inst] by (simp add: op_refined_by_def)
  qed
qed

lemma decoded_iff_selected:
  assumes "op \<in> set ops"
  shows "decoder inst = op \<longleftrightarrow> op_selected inst op"
proof
  assume d: "decoder inst = op"
  have "op_matches inst op"
    using sound [of inst] d assms legal by (auto simp: op_sound_def)
  moreover have "\<not> op_matches inst r" if "r \<in> set (op_refined_by op)" for r
  proof
    assume "op_matches inst r"
    moreover have "r \<in> set ops" using that refined [OF assms] by blast
    ultimately have "op = r \<or> op \<in> set (op_refined_by r)"
      using matching_decoded d by blast
    then show False using that by (auto simp: op_refined_by_def split: if_splits)
  qed
  ultimately show "op_selected inst op" by (auto simp: op_selected_def list_all_iff)
qed (rule complete [OF assms])

lemma illegal_iff_unmatched:
  "decoder inst = rv_op_illegal \<longleftrightarrow> (\<forall>op \<in> set ops. \<not> op_matches inst op)"
proof
  assume d: "decoder inst = rv_op_illegal"
  show "\<forall>op \<in> set ops. \<not> op_matches inst op"
  proof (intro ballI notI)
    fix op assume o: "op \<in> set ops" "op_matches inst op"
    then have "rv_op_illegal = op \<or> rv_op_illegal \<in> set (op_refined_by op)"
      using matching_decoded [OF o] d by simp
    then show False using o(1) legal refined [OF o(1)] by auto
  qed
next
  assume "\<forall>op \<in> set ops. \<not> op_matches inst op"
  then show "decoder inst = rv_op_illegal"
    using confined [of inst] sound [of inst] by (auto simp: op_sound_def)
qed

end

lemma op_refined_subset: "list_all (\<lambda>op. list_all (\<lambda>r. r \<in> set ops) (op_refined_by op)) ops \<Longrightarrow>
   op \<in> set ops \<Longrightarrow> set (op_refined_by op) \<subseteq> set ops"
  by (auto simp: list_all_iff)

interpretation dec64: op_decoder "decode_inst_op isa_rv64" rv64_ops
proof
  show "op_sound inst (decode_inst_op isa_rv64 inst)" for inst by (rule decode_inst_op_sound)
  show "op \<in> set rv64_ops \<Longrightarrow> op_selected inst op \<Longrightarrow> decode_inst_op isa_rv64 inst = op" for op inst
    using rv64_ops_complete by (simp add: list_all_iff op_complete_def)
  show "decode_inst_op isa_rv64 inst = rv_op_illegal \<or> decode_inst_op isa_rv64 inst \<in> set rv64_ops" for inst
    using rv64_range [of inst] by (auto simp: op_in_range_def)
  show "rv_op_illegal \<notin> set rv64_ops" by (simp add: rv64_ops_def)
  show "op \<in> set rv64_ops \<Longrightarrow> set (op_refined_by op) \<subseteq> set rv64_ops" for op
    by (rule op_refined_subset) (simp_all add: rv64_ops_def op_refined_by_def)
qed

interpretation dec32: op_decoder "decode_inst_op isa_rv32" rv32_ops
proof
  show "op_sound inst (decode_inst_op isa_rv32 inst)" for inst by (rule decode_inst_op_sound)
  show "op \<in> set rv32_ops \<Longrightarrow> op_selected inst op \<Longrightarrow> decode_inst_op isa_rv32 inst = op" for op inst
    using rv32_ops_complete by (simp add: list_all_iff op_complete_def)
  show "decode_inst_op isa_rv32 inst = rv_op_illegal \<or> decode_inst_op isa_rv32 inst \<in> set rv32_ops" for inst
    using rv32_range [of inst] by (auto simp: op_in_range_def)
  show "rv_op_illegal \<notin> set rv32_ops" by (simp add: rv32_ops_def)
  show "op \<in> set rv32_ops \<Longrightarrow> set (op_refined_by op) \<subseteq> set rv32_ops" for op
    by (rule op_refined_subset) (simp_all add: rv32_ops_def op_refined_by_def)
qed

section \<open>Properties\<close>

text \<open>
  C7. RV64: an instruction word decodes to an opcode of the RV64 set exactly when it matches the
  entry of that opcode in the match and mask tables and no more specific entry (such as
  \<^verbatim>\<open>c.nop\<close> for \<^verbatim>\<open>c.addi\<close>) matches. The nested switch is thus equivalent to
  a scan of the tables.
\<close>

theorem decode_inst_op_exact_rv64:
  assumes "op \<in> set rv64_ops"
  shows "decode_inst_op isa_rv64 inst = op \<longleftrightarrow> op_selected inst op"
  using assms by (rule dec64.decoded_iff_selected)

theorem decode_inst_op_exact_rv64_witness:
  "rv_op_c_jalr \<in> set rv64_ops \<and> decode_inst_op isa_rv64 0x9082 = rv_op_c_jalr \<and>
   decode_inst_op isa_rv64 0x9002 = rv_op_c_ebreak \<and> \<not> op_selected 0x9002 rv_op_c_jalr"
proof -
  have m: "rv_op_c_jalr \<in> set rv64_ops" "rv_op_c_ebreak \<in> set rv64_ops" by (simp_all add: rv64_ops_def)
  have s: "op_selected 0x9082 rv_op_c_jalr" "op_selected 0x9002 rv_op_c_ebreak"
    "\<not> op_selected 0x9002 rv_op_c_jalr"
    by (simp_all add: op_selected_def op_matches_def op_refined_by_def meta_nth)
  show ?thesis
    using decode_inst_op_exact_rv64 [OF m(1)] decode_inst_op_exact_rv64 [OF m(2)] m(1) s by blast
qed

text \<open>
  RV32: the same equivalence of the nested switch and the match and mask tables for the RV32
  instantiation, where for instance \<^verbatim>\<open>c.jal\<close> and \<^verbatim>\<open>c.addiw\<close> share an encoding.
\<close>

theorem decode_inst_op_exact_rv32:
  assumes "op \<in> set rv32_ops"
  shows "decode_inst_op isa_rv32 inst = op \<longleftrightarrow> op_selected inst op"
  using assms by (rule dec32.decoded_iff_selected)

theorem decode_inst_op_exact_rv32_witness:
  "rv_op_c_jal \<in> set rv32_ops \<and> decode_inst_op isa_rv32 0x2001 = rv_op_c_jal"
proof -
  have m: "rv_op_c_jal \<in> set rv32_ops" by (simp add: rv32_ops_def)
  have s: "op_selected 0x2001 rv_op_c_jal"
    by (simp add: op_selected_def op_matches_def op_refined_by_def meta_nth)
  show ?thesis using decode_inst_op_exact_rv32 [OF m] m s by blast
qed

text \<open>
  An instruction word decodes to the illegal opcode exactly when it matches no entry of the
  RV64 (respectively RV32) part of the tables: no legal instruction is rejected and no
  unassigned encoding is accepted.
\<close>

theorem decode_inst_op_illegal_iff:
  "(decode_inst_op isa_rv64 inst = rv_op_illegal \<longleftrightarrow> list_all (\<lambda>op. \<not> op_matches inst op) rv64_ops) \<and>
   (decode_inst_op isa_rv32 inst = rv_op_illegal \<longleftrightarrow> list_all (\<lambda>op. \<not> op_matches inst op) rv32_ops)"
  using dec64.illegal_iff_unmatched [of inst] dec32.illegal_iff_unmatched [of inst]
  by (simp_all add: list_all_iff)

text \<open>
  For every instantiation of the template, the decoded opcode indexes inside every table of
  \<^verbatim>\<open>meta.cc\<close>, so no lookup keyed by a decoded opcode reads out of bounds.
\<close>

theorem decode_inst_op_in_tables:
  "decode_inst_op isa inst < length rv_inst_codec \<and>
   decode_inst_op isa inst < length rv_inst_match \<and>
   decode_inst_op isa inst < length rv_inst_mask \<and>
   decode_inst_op isa inst < length rv_inst_pseudo \<and>
   decode_inst_op isa inst < length rv_inst_depseudo \<and>
   decode_inst_op isa inst < length rv_inst_comp_rv32 \<and>
   decode_inst_op isa inst < length rv_inst_comp_rv64 \<and>
   decode_inst_op isa inst < length rv_inst_comp_rv128 \<and>
   decode_inst_op isa inst < length rv_inst_decomp_rv32 \<and>
   decode_inst_op isa inst < length rv_inst_decomp_rv64 \<and>
   decode_inst_op isa inst < length rv_inst_decomp_rv128"
  using decode_inst_op_bound [of isa inst] by (simp add: op_in_range_def table_lengths)

end
