(* ===== verification/Bytes.thy ===== *)
theory Bytes
  imports Prelude
begin

text \<open>
  Bytes of machine words: the little-endian loads of the host and the byte view of a 64-bit value,
  shared by the instruction fetch and the checkpoint recorder.
\<close>

unbundle bit_operations_syntax

text \<open>Little-endian loads from a byte-addressed memory.\<close>

definition load_le16 :: "(u64 \<Rightarrow> u8) \<Rightarrow> u64 \<Rightarrow> u16" where
  "load_le16 mem addr = ucast (mem addr) OR push_bit 8 (ucast (mem (addr + 1)))"

definition load_le32 :: "(u64 \<Rightarrow> u8) \<Rightarrow> u64 \<Rightarrow> u32" where
  "load_le32 mem addr = ucast (load_le16 mem addr) OR push_bit 16 (ucast (load_le16 mem (addr + 2)))"

section \<open>Bytes of a word\<close>

text \<open>Byte \<open>i\<close> of a 64-bit value.\<close>

definition byte_of :: "u64 \<Rightarrow> nat \<Rightarrow> u8" where
  "byte_of w i = ucast (drop_bit (8 * i) w)"

lemma byte_of_0 [simp]: "byte_of 0 i = 0"
  by (simp add: byte_of_def)

lemma byte_of_or: "byte_of (a OR b) i = byte_of a i OR byte_of b i"
  by (rule bit_word_eqI) (auto simp: byte_of_def bit_ucast_iff bit_or_iff bit_drop_bit_eq)

lemma byte_of_load16:
  "byte_of (ucast (load_le16 mem a)) i = (if i = 0 then mem a else if i = 1 then mem (a + 1) else 0)"
proof (rule bit_word_eqI)
  fix n assume "n < LENGTH(8)"
  then show "bit (byte_of (ucast (load_le16 mem a)) i) n =
      bit (if i = 0 then mem a else if i = 1 then mem (a + 1) else 0) n"
    by (auto simp: byte_of_def load_le16_def bit_ucast_iff bit_or_iff bit_drop_bit_eq
        bit_push_bit_iff dest: bit_imp_le_length)
qed

lemma byte_of_push: "byte_of (push_bit (8 * k) w) i = (if i < k then 0 else if i < 8 then byte_of w (i - k) else 0)"
proof (rule bit_word_eqI)
  fix n assume n: "n < LENGTH(8)"
  have sub: "k \<le> i \<Longrightarrow> 8 * i + n - 8 * k = 8 * (i - k) + n" by simp
  show "bit (byte_of (push_bit (8 * k) w) i) n =
      bit (if i < k then 0 else if i < 8 then byte_of w (i - k) else 0) n"
    using n sub by (auto simp: byte_of_def bit_ucast_iff bit_drop_bit_eq bit_push_bit_iff)
qed

lemma byte_of_mask: "byte_of (w AND mask (8 * k)) i = (if i < k then byte_of w i else 0)"
  by (rule bit_word_eqI)
    (auto simp: byte_of_def bit_ucast_iff bit_drop_bit_eq bit_and_iff bit_mask_iff
      dest: bit_imp_le_length)

lemma ucast_load32: "(ucast (load_le32 mem a) :: u64) =
   ucast (load_le16 mem a) OR push_bit (8 * 2) (ucast (load_le16 mem (a + 2)))"
  by (rule bit_word_eqI)
    (auto simp: load_le32_def bit_ucast_iff bit_or_iff bit_push_bit_iff dest: bit_imp_le_length)

lemma byte_of_load32:
  "byte_of (ucast (load_le32 mem a)) i = (if i < 4 then mem (a + of_nat i) else 0)"
proof -
  consider "i = 0" | "i = 1" | "i = 2" | "i = 3" | "4 \<le> i" by linarith
  then show ?thesis
    by cases (auto simp: ucast_load32 byte_of_or byte_of_load16 add.assoc byte_of_push [of 2, simplified])
qed

text \<open>A word is bounded by its length when its bytes beyond it are zero.\<close>

lemma byte_of_bounded:
  assumes "\<And>i. k \<le> i \<Longrightarrow> i < 8 \<Longrightarrow> byte_of w i = 0"
  shows "w AND mask (8 * k) = w"
proof (rule bit_word_eqI)
  fix n assume n: "n < LENGTH(64)"
  have "bit w n \<Longrightarrow> n < 8 * k"
  proof (rule ccontr)
    assume b: "bit w n" and "\<not> n < 8 * k"
    then have "byte_of w (n div 8) = 0" using n by (intro assms) auto
    moreover have "bit (byte_of w (n div 8)) (n mod 8)"
      using b by (simp add: byte_of_def bit_ucast_iff bit_drop_bit_eq)
    ultimately show False by simp
  qed
  then show "bit (w AND mask (8 * k)) n = bit w n" using n by (auto simp: bit_and_iff bit_mask_iff)
qed

end
