(* ===== verification/Codec.thy ===== *)
theory Codec
  imports Encode Switch Bytes
begin

text \<open>
  The public interface of \<^verbatim>\<open>src/src/asm/codec.h\<close>: instruction length and fetch, decoding with
  decompression, compression, pseudo-instructions, and the constraint interpreter of
  \<^verbatim>\<open>src/src/asm/constraints.h\<close> they rest on. A function that takes \<^verbatim>\<open>T &dec\<close> and
  returns \<^verbatim>\<open>bool\<close> is a function from the structure to the pair of its result and the
  updated structure.
\<close>

unbundle bit_operations_syntax

section \<open>Constraints\<close>

text \<open>One case of the switch of \<^verbatim>\<open>constraint_check\<close>: does the constraint hold?\<close>

fun constraint_holds :: "decode \<Rightarrow> rvc_constraint \<Rightarrow> bool" where
  "constraint_holds dec rvc_simm_6 \<longleftrightarrow> - 32 \<le> sint (dec_imm dec) \<and> sint (dec_imm dec) < 32"
| "constraint_holds dec rvc_simm_9 \<longleftrightarrow> - 256 \<le> sint (dec_imm dec) \<and> sint (dec_imm dec) < 256"
| "constraint_holds dec rvc_simm_10 \<longleftrightarrow> - 512 \<le> sint (dec_imm dec) \<and> sint (dec_imm dec) < 512"
| "constraint_holds dec rvc_simm_12 \<longleftrightarrow> - 2048 \<le> sint (dec_imm dec) \<and> sint (dec_imm dec) < 2048"
| "constraint_holds dec rvc_imm_5 \<longleftrightarrow> 0 \<le> sint (dec_imm dec) \<and> sint (dec_imm dec) \<le> 31"
| "constraint_holds dec rvc_imm_6 \<longleftrightarrow> 0 \<le> sint (dec_imm dec) \<and> sint (dec_imm dec) \<le> 63"
| "constraint_holds dec rvc_imm_7 \<longleftrightarrow> 0 \<le> sint (dec_imm dec) \<and> sint (dec_imm dec) \<le> 127"
| "constraint_holds dec rvc_imm_8 \<longleftrightarrow> 0 \<le> sint (dec_imm dec) \<and> sint (dec_imm dec) \<le> 255"
| "constraint_holds dec rvc_imm_9 \<longleftrightarrow> 0 \<le> sint (dec_imm dec) \<and> sint (dec_imm dec) \<le> 511"
| "constraint_holds dec rvc_imm_10 \<longleftrightarrow> 0 \<le> sint (dec_imm dec) \<and> sint (dec_imm dec) \<le> 1023"
| "constraint_holds dec rvc_imm_12 \<longleftrightarrow> 0 \<le> sint (dec_imm dec) \<and> sint (dec_imm dec) \<le> 4095"
| "constraint_holds dec rvc_imm_18 \<longleftrightarrow> 0 \<le> sint (dec_imm dec) \<and> sint (dec_imm dec) \<le> 262143"
| "constraint_holds dec rvc_imm_nz \<longleftrightarrow> dec_imm dec \<noteq> 0"
| "constraint_holds dec rvc_imm_x2 \<longleftrightarrow> dec_imm dec AND 1 = 0"
| "constraint_holds dec rvc_imm_x4 \<longleftrightarrow> dec_imm dec AND 3 = 0"
| "constraint_holds dec rvc_imm_x8 \<longleftrightarrow> dec_imm dec AND 7 = 0"
| "constraint_holds dec rvc_imm_x16 \<longleftrightarrow> dec_imm dec AND 15 = 0"
| "constraint_holds dec rvc_rd_b3 \<longleftrightarrow> 8 \<le> dec_rd dec \<and> dec_rd dec \<le> 15"
| "constraint_holds dec rvc_rs1_b3 \<longleftrightarrow> 8 \<le> dec_rs1 dec \<and> dec_rs1 dec \<le> 15"
| "constraint_holds dec rvc_rs2_b3 \<longleftrightarrow> 8 \<le> dec_rs2 dec \<and> dec_rs2 dec \<le> 15"
| "constraint_holds dec rvc_rd_eq_rs1 \<longleftrightarrow> dec_rd dec = dec_rs1 dec"
| "constraint_holds dec rvc_rd_eq_ra \<longleftrightarrow> dec_rd dec = 1"
| "constraint_holds dec rvc_rd_eq_sp \<longleftrightarrow> dec_rd dec = 2"
| "constraint_holds dec rvc_rd_eq_x0 \<longleftrightarrow> dec_rd dec = 0"
| "constraint_holds dec rvc_rs1_eq_sp \<longleftrightarrow> dec_rs1 dec = 2"
| "constraint_holds dec rvc_rs1_eq_x0 \<longleftrightarrow> dec_rs1 dec = 0"
| "constraint_holds dec rvc_rs2_eq_x0 \<longleftrightarrow> dec_rs2 dec = 0"
| "constraint_holds dec rvc_rd_ne_x0_x2 \<longleftrightarrow> dec_rd dec \<noteq> 0 \<and> dec_rd dec \<noteq> 2"
| "constraint_holds dec rvc_rd_ne_x0 \<longleftrightarrow> dec_rd dec \<noteq> 0"
| "constraint_holds dec rvc_rs1_ne_x0 \<longleftrightarrow> dec_rs1 dec \<noteq> 0"
| "constraint_holds dec rvc_rs2_ne_x0 \<longleftrightarrow> dec_rs2 dec \<noteq> 0"
| "constraint_holds dec rvc_rs2_eq_rs1 \<longleftrightarrow> dec_rs2 dec = dec_rs1 dec"
| "constraint_holds dec rvc_rs1_eq_ra \<longleftrightarrow> dec_rs1 dec = 1"
| "constraint_holds dec rvc_imm_eq_zero \<longleftrightarrow> dec_imm dec = 0"
| "constraint_holds dec rvc_imm_eq_n1 \<longleftrightarrow> dec_imm dec = - 1"
| "constraint_holds dec rvc_imm_eq_p1 \<longleftrightarrow> dec_imm dec = 1"
| "constraint_holds dec rvc_csr_eq_0x001 \<longleftrightarrow> dec_imm dec = 0x001"
| "constraint_holds dec rvc_csr_eq_0x002 \<longleftrightarrow> dec_imm dec = 0x002"
| "constraint_holds dec rvc_csr_eq_0x003 \<longleftrightarrow> dec_imm dec = 0x003"
| "constraint_holds dec rvc_csr_eq_0xc00 \<longleftrightarrow> dec_imm dec = 0xc00"
| "constraint_holds dec rvc_csr_eq_0xc01 \<longleftrightarrow> dec_imm dec = 0xc01"
| "constraint_holds dec rvc_csr_eq_0xc02 \<longleftrightarrow> dec_imm dec = 0xc02"
| "constraint_holds dec rvc_csr_eq_0xc80 \<longleftrightarrow> dec_imm dec = 0xc80"
| "constraint_holds dec rvc_csr_eq_0xc81 \<longleftrightarrow> dec_imm dec = 0xc81"
| "constraint_holds dec rvc_csr_eq_0xc82 \<longleftrightarrow> dec_imm dec = 0xc82"
| "constraint_holds dec rvc_end \<longleftrightarrow> True"

text \<open>
  The loop of \<^verbatim>\<open>constraint_check\<close> runs to the terminator \<open>rvc_end\<close>. Every constraint
  array has one, so the empty list is never reached from the tables
  (\<open>tables_terminated\<close> below).
\<close>

fun constraint_check :: "decode \<Rightarrow> rvc_constraint list \<Rightarrow> bool" where
  "constraint_check dec [] = True"
| "constraint_check dec (c # cs) =
     (if c = rvc_end then True
      else if \<not> constraint_holds dec c then False
      else constraint_check dec cs)"

fun constraint_assign :: "decode \<Rightarrow> rvc_constraint \<Rightarrow> decode" where
  "constraint_assign dec rvc_rd_eq_rs1 = dec\<lparr>dec_rd := dec_rs1 dec\<rparr>"
| "constraint_assign dec rvc_rd_eq_ra = dec\<lparr>dec_rd := 1\<rparr>"
| "constraint_assign dec rvc_rd_eq_sp = dec\<lparr>dec_rd := 2\<rparr>"
| "constraint_assign dec rvc_rd_eq_x0 = dec\<lparr>dec_rd := 0\<rparr>"
| "constraint_assign dec rvc_rs1_eq_sp = dec\<lparr>dec_rs1 := 2\<rparr>"
| "constraint_assign dec rvc_rs1_eq_x0 = dec\<lparr>dec_rs1 := 0\<rparr>"
| "constraint_assign dec rvc_rs2_eq_x0 = dec\<lparr>dec_rs2 := 0\<rparr>"
| "constraint_assign dec rvc_rs2_eq_rs1 = dec\<lparr>dec_rs2 := dec_rs1 dec\<rparr>"
| "constraint_assign dec rvc_rs1_eq_ra = dec\<lparr>dec_rs1 := 1\<rparr>"
| "constraint_assign dec rvc_imm_eq_zero = dec\<lparr>dec_imm := 0\<rparr>"
| "constraint_assign dec rvc_imm_eq_n1 = dec\<lparr>dec_imm := - 1\<rparr>"
| "constraint_assign dec rvc_imm_eq_p1 = dec\<lparr>dec_imm := 1\<rparr>"
| "constraint_assign dec rvc_csr_eq_0x001 = dec\<lparr>dec_imm := 0x001\<rparr>"
| "constraint_assign dec rvc_csr_eq_0x002 = dec\<lparr>dec_imm := 0x002\<rparr>"
| "constraint_assign dec rvc_csr_eq_0x003 = dec\<lparr>dec_imm := 0x003\<rparr>"
| "constraint_assign dec rvc_csr_eq_0xc00 = dec\<lparr>dec_imm := 0xc00\<rparr>"
| "constraint_assign dec rvc_csr_eq_0xc01 = dec\<lparr>dec_imm := 0xc01\<rparr>"
| "constraint_assign dec rvc_csr_eq_0xc02 = dec\<lparr>dec_imm := 0xc02\<rparr>"
| "constraint_assign dec rvc_csr_eq_0xc80 = dec\<lparr>dec_imm := 0xc80\<rparr>"
| "constraint_assign dec rvc_csr_eq_0xc81 = dec\<lparr>dec_imm := 0xc81\<rparr>"
| "constraint_assign dec rvc_csr_eq_0xc82 = dec\<lparr>dec_imm := 0xc82\<rparr>"
| "constraint_assign dec _ = dec"

fun constraint_set :: "decode \<Rightarrow> rvc_constraint list \<Rightarrow> decode" where
  "constraint_set dec [] = dec"
| "constraint_set dec (c # cs) =
     (if c = rvc_end then dec else constraint_set (constraint_assign dec c) cs)"

section \<open>Instruction length and fetch\<close>

definition inst_length :: "u64 \<Rightarrow> nat" where
  "inst_length inst =
     (if inst AND 0b11 \<noteq> 0b11 then 2
      else if inst AND 0b11100 \<noteq> 0b11100 then 4
      else if inst AND 0b111111 = 0b011111 then 6
      else if inst AND 0b1111111 = 0b0111111 then 8
      else 0)"

text \<open>The result is the instruction and the value stored in \<^verbatim>\<open>pc_offset\<close>.\<close>

definition inst_fetch :: "(u64 \<Rightarrow> u8) \<Rightarrow> u64 \<Rightarrow> u64 \<times> nat" where
  "inst_fetch mem addr =
     (let inst = ucast (load_le32 mem addr) :: u64 in
      if inst AND 0b11 \<noteq> 0b11 then (inst AND 0xffff, 2)
      else if inst AND 0b11100 \<noteq> 0b11100 then (inst, 4)
      else if inst AND 0b111111 = 0b011111
        then (inst OR push_bit 32 (ucast (load_le16 mem (addr + 4))), 6)
      else if inst AND 0b1111111 = 0b0111111
        then (inst OR push_bit 32 (ucast (load_le32 mem (addr + 4))), 8)
      else (0, 0))"

section \<open>Decompression and decoding\<close>

text \<open>The three functions differ only in the table they index.\<close>

definition decompress_with :: "opcode list \<Rightarrow> decode \<Rightarrow> decode" where
  "decompress_with table dec =
     (let decomp_op = table ! dec_op dec in
      if decomp_op \<noteq> rv_op_illegal
      then dec\<lparr>dec_op := decomp_op, dec_codec := rv_inst_codec ! decomp_op\<rparr>
      else dec)"

definition decompress_inst_rv32 :: "decode \<Rightarrow> decode" where
  "decompress_inst_rv32 = decompress_with rv_inst_decomp_rv32"

definition decompress_inst_rv64 :: "decode \<Rightarrow> decode" where
  "decompress_inst_rv64 = decompress_with rv_inst_decomp_rv64"

definition decompress_inst_rv128 :: "decode \<Rightarrow> decode" where
  "decompress_inst_rv128 = decompress_with rv_inst_decomp_rv128"

definition isa_rv128 :: isa where
  "isa_rv128 = \<lparr>rv32 = False, rv64 = False, rv128 = True, rvi = True, rvm = True, rva = True,
     rvs = True, rvf = True, rvd = True, rvq = True, rvc = True\<rparr>"

definition decode_inst :: "isa \<Rightarrow> decode \<Rightarrow> u64 \<Rightarrow> decode" where
  "decode_inst isa dec inst = decode_inst_type (dec\<lparr>dec_op := decode_inst_op isa inst\<rparr>) inst"

definition decode_inst_rv32 :: "decode \<Rightarrow> u64 \<Rightarrow> decode" where
  "decode_inst_rv32 dec inst = decompress_inst_rv32 (decode_inst isa_rv32 dec inst)"

definition decode_inst_rv64 :: "decode \<Rightarrow> u64 \<Rightarrow> decode" where
  "decode_inst_rv64 dec inst = decompress_inst_rv64 (decode_inst isa_rv64 dec inst)"

definition decode_inst_rv128 :: "decode \<Rightarrow> u64 \<Rightarrow> decode" where
  "decode_inst_rv128 dec inst = decompress_inst_rv128 (decode_inst isa_rv128 dec inst)"

section \<open>Compression and pseudo-instructions\<close>

text \<open>
  The loop \<^verbatim>\<open>while (comp_data->constraints)\<close> over an array of candidates, taking the
  first whose constraints hold.
\<close>

fun comp_loop :: "decode \<Rightarrow> rv_comp_data list \<Rightarrow> bool \<times> decode" where
  "comp_loop dec [] = (False, dec)"
| "comp_loop dec ((op, None) # rest) = (False, dec)"
| "comp_loop dec ((op, Some cs) # rest) =
     (if constraint_check dec cs
      then (True, dec\<lparr>dec_op := op, dec_codec := rv_inst_codec ! op\<rparr>)
      else comp_loop dec rest)"

definition comp_with :: "rv_comp_data list option list \<Rightarrow> decode \<Rightarrow> bool \<times> decode" where
  "comp_with table dec =
     (case table ! dec_op dec of None \<Rightarrow> (False, dec) | Some comp_data \<Rightarrow> comp_loop dec comp_data)"

definition decode_pseudo_inst :: "decode \<Rightarrow> bool \<times> decode" where
  "decode_pseudo_inst = comp_with rv_inst_pseudo"

definition compress_inst_rv32 :: "decode \<Rightarrow> bool \<times> decode" where
  "compress_inst_rv32 = comp_with rv_inst_comp_rv32"

definition compress_inst_rv64 :: "decode \<Rightarrow> bool \<times> decode" where
  "compress_inst_rv64 = comp_with rv_inst_comp_rv64"

definition compress_inst_rv128 :: "decode \<Rightarrow> bool \<times> decode" where
  "compress_inst_rv128 = comp_with rv_inst_comp_rv128"

definition encode_pseudo :: "decode \<Rightarrow> bool \<times> decode" where
  "encode_pseudo dec =
     (case rv_inst_depseudo ! dec_op dec of
        (op, None) \<Rightarrow> (False, dec)
      | (op, Some cs) \<Rightarrow>
          (True, constraint_set (dec\<lparr>dec_op := op, dec_codec := rv_inst_codec ! op\<rparr>) cs))"

section \<open>Candidate tables\<close>

lemma comp_loop_hit:
  "comp_loop dec cds = (True, dec') \<Longrightarrow>
   \<exists>op cs. (op, Some cs) \<in> set cds \<and> constraint_check dec cs \<and>
     dec' = dec\<lparr>dec_op := op, dec_codec := rv_inst_codec ! op\<rparr>"
  by (induction dec cds rule: comp_loop.induct) (auto split: if_splits)

lemma comp_loop_miss: "comp_loop dec cds = (False, dec') \<Longrightarrow> dec' = dec"
  by (induction dec cds rule: comp_loop.induct) (auto split: if_splits)

lemma comp_with_hit:
  assumes "comp_with table dec = (True, dec')"
  obtains cds op cs where "table ! dec_op dec = Some cds" and "(op, Some cs) \<in> set cds"
    and "constraint_check dec cs" and "dec' = dec\<lparr>dec_op := op, dec_codec := rv_inst_codec ! op\<rparr>"
  using assms comp_loop_hit by (fastforce simp: comp_with_def split: option.splits)

lemma comp_with_miss: "comp_with table dec = (False, dec') \<Longrightarrow> dec' = dec"
  by (auto simp: comp_with_def dest: comp_loop_miss split: option.splits)

text \<open>
  A condition on every candidate \<open>(op, cs)\<close> of every row of a table, with the index of the row.
\<close>

definition all_candidates ::
  "(opcode \<Rightarrow> opcode \<Rightarrow> rvc_constraint list \<Rightarrow> bool) \<Rightarrow> rv_comp_data list option list \<Rightarrow> bool" where
  "all_candidates P table \<longleftrightarrow>
     list_all (\<lambda>(i, row). case row of None \<Rightarrow> True
       | Some cds \<Rightarrow> list_all (\<lambda>(op, cs). case cs of None \<Rightarrow> True | Some cs \<Rightarrow> P i op cs) cds)
       (zip [0..<length table] table)"

lemma all_candidatesD:
  assumes "all_candidates P table" and "i < length table" and "table ! i = Some cds"
    and "(op, Some cs) \<in> set cds"
  shows "P i op cs"
proof -
  have "(i, Some cds) \<in> set (zip [0..<length table] table)"
    using assms(2,3) by (auto simp: in_set_zip intro!: exI [of _ i])
  then show ?thesis using assms(1,4) by (fastforce simp: all_candidates_def list_all_iff)
qed

text \<open>Every array of constraints and of candidates ends with its terminator and nowhere else.\<close>

fun constraints_terminated :: "rvc_constraint list \<Rightarrow> bool" where
  "constraints_terminated [] = False"
| "constraints_terminated (c # cs) = (if c = rvc_end then cs = [] else constraints_terminated cs)"

fun candidates_terminated :: "rv_comp_data list \<Rightarrow> bool" where
  "candidates_terminated [] = False"
| "candidates_terminated ((op, None) # rest) = (rest = [])"
| "candidates_terminated ((op, Some cs) # rest) = candidates_terminated rest"

definition candidate_ok :: "opcode list \<Rightarrow> opcode \<Rightarrow> opcode \<Rightarrow> rvc_constraint list \<Rightarrow> bool" where
  "candidate_ok decomp i op cs \<longleftrightarrow> 0 < i \<and> op < 319 \<and> decomp ! op = i \<and> constraints_terminated cs"

lemma comp_tables_ok:
  "all_candidates (candidate_ok rv_inst_decomp_rv32) rv_inst_comp_rv32"
  "all_candidates (candidate_ok rv_inst_decomp_rv64) rv_inst_comp_rv64"
  "all_candidates (candidate_ok rv_inst_decomp_rv128) rv_inst_comp_rv128"
  by code_simp+

definition pseudo_ok :: "opcode \<Rightarrow> opcode \<Rightarrow> rvc_constraint list \<Rightarrow> bool" where
  "pseudo_ok i op cs \<longleftrightarrow> op < 319 \<and> rv_inst_depseudo ! op = (i, Some cs) \<and> constraints_terminated cs"

lemma pseudo_table_ok: "all_candidates pseudo_ok rv_inst_pseudo"
  by code_simp

lemma index_of_candidate: "all_candidates P table \<Longrightarrow> length table = 319 \<Longrightarrow> table ! i = Some cds \<Longrightarrow>
   i < 319 \<Longrightarrow> (op, Some cs) \<in> set cds \<Longrightarrow> P i op cs"
  by (rule all_candidatesD) auto

lemma decompress_compressed:
  assumes "all_candidates (candidate_ok decomp) table" and "length table = 319"
    and "dec_op dec < 319" and "comp_with table dec = (True, dec')"
  shows "decompress_with decomp dec' = dec\<lparr>dec_codec := rv_inst_codec ! dec_op dec\<rparr>"
proof -
  obtain cds op cs where h: "table ! dec_op dec = Some cds" "(op, Some cs) \<in> set cds"
    "dec' = dec\<lparr>dec_op := op, dec_codec := rv_inst_codec ! op\<rparr>"
    using comp_with_hit [OF assms(4)] by metis
  have "candidate_ok decomp (dec_op dec) op cs"
    by (rule index_of_candidate [OF assms(1,2) h(1) assms(3) h(2)])
  then show ?thesis by (simp add: candidate_ok_def decompress_with_def h(3))
qed

section \<open>Pseudo-instructions\<close>

lemma constraint_assign_holds: "constraint_holds dec c \<Longrightarrow> constraint_assign dec c = dec"
  by (cases c) auto

lemma constraint_assign_op [simp]:
  "dec_op (constraint_assign dec c) = dec_op dec" "dec_codec (constraint_assign dec c) = dec_codec dec"
  by (cases c; simp)+

lemma constraint_holds_op [simp]:
  "constraint_holds (dec\<lparr>dec_op := op, dec_codec := cd\<rparr>) c = constraint_holds dec c"
  by (cases c) auto

lemma constraint_check_op [simp]:
  "constraint_check (dec\<lparr>dec_op := op, dec_codec := cd\<rparr>) cs = constraint_check dec cs"
  by (induction cs) auto

lemma constraint_set_checked: "constraint_check dec cs \<Longrightarrow> constraint_set dec cs = dec"
  by (induction dec cs rule: constraint_set.induct) (auto simp: constraint_assign_holds split: if_splits)

section \<open>Instruction fetch\<close>

text \<open>The length of an instruction is decided by its first byte.\<close>

lemma inst_length_first_byte: "byte_of a 0 = byte_of b 0 \<Longrightarrow> inst_length a = inst_length b"
proof -
  assume "byte_of a 0 = byte_of b 0"
  then have "a AND mask 8 = b AND mask 8"
    using ucast_ucast_mask [where 'a = 8, of a] ucast_ucast_mask [where 'a = 8, of b]
    by (simp add: byte_of_def)
  then have "a AND m = b AND m" if "m AND mask 8 = m" for m
    using that by (rule masked_eq_mono)
  from this [of "0b11"] this [of "0b11100"] this [of "0b111111"] this [of "0b1111111"]
  show ?thesis by (simp add: inst_length_def mask_eq_exp_minus_1)
qed

lemma inst_fetch_length:
  "inst_fetch mem addr = (inst, len) \<Longrightarrow> len = inst_length (ucast (load_le32 mem addr))"
  by (auto simp: inst_fetch_def inst_length_def Let_def split: if_splits)

lemma inst_fetch_bytes:
  assumes "inst_fetch mem addr = (inst, len)" and "i < 8"
  shows "byte_of inst i = (if i < len then mem (addr + of_nat i) else 0)"
proof -
  have "i = 4 \<or> i = 5 \<or> i = 6 \<or> i = 7 \<or> i < 4" using assms(2) by linarith
  then show ?thesis
    using assms
    by (auto simp: inst_fetch_def Let_def byte_of_or byte_of_load16 byte_of_load32
        byte_of_push [of 4, simplified] byte_of_mask [of _ 2, simplified mask_eq_exp_minus_1, simplified]
        add.assoc split: if_splits)
qed

section \<open>Properties\<close>

text \<open>
  C29. Compression is undone by decompression: whenever \<^verbatim>\<open>compress_inst_rv32\<close>,
  \<^verbatim>\<open>compress_inst_rv64\<close> or \<^verbatim>\<open>compress_inst_rv128\<close> replaces an instruction,
  the matching \<^verbatim>\<open>decompress_inst\<close> restores the original opcode and codec with all
  operands as they were; whenever it returns false, the instruction is untouched.
\<close>

theorem compress_decompress:
  assumes "dec_op dec < 319"
  shows "(compress_inst_rv32 dec = (True, dec') \<longrightarrow>
        decompress_inst_rv32 dec' = dec\<lparr>dec_codec := rv_inst_codec ! dec_op dec\<rparr>) \<and>
     (compress_inst_rv64 dec = (True, dec') \<longrightarrow>
        decompress_inst_rv64 dec' = dec\<lparr>dec_codec := rv_inst_codec ! dec_op dec\<rparr>) \<and>
     (compress_inst_rv128 dec = (True, dec') \<longrightarrow>
        decompress_inst_rv128 dec' = dec\<lparr>dec_codec := rv_inst_codec ! dec_op dec\<rparr>) \<and>
     (compress_inst_rv32 dec = (False, dec') \<or> compress_inst_rv64 dec = (False, dec') \<or>
        compress_inst_rv128 dec = (False, dec') \<longrightarrow> dec' = dec)"
  unfolding compress_inst_rv32_def compress_inst_rv64_def compress_inst_rv128_def
    decompress_inst_rv32_def decompress_inst_rv64_def decompress_inst_rv128_def
  by (intro conjI impI; (elim disjE)?;
      (rule comp_with_miss, assumption | rule decompress_compressed [OF comp_tables_ok(1)]
       | rule decompress_compressed [OF comp_tables_ok(2)]
       | rule decompress_compressed [OF comp_tables_ok(3)])?;
      simp add: table_lengths assms)

text \<open>The decoded form of \<^verbatim>\<open>addi a0, a0, -3\<close>.\<close>

definition addi_a0 :: decode where
  "addi_a0 = decode_init\<lparr>dec_op := rv_op_addi, dec_codec := rv_codec_i, dec_rd := 10, dec_rs1 := 10,
     dec_imm := - 3\<rparr>"

theorem compress_decompress_witness:
  "compress_inst_rv64 addi_a0 = (True, addi_a0\<lparr>dec_op := rv_op_c_addi, dec_codec := rv_codec_ci\<rparr>) \<and>
   decompress_inst_rv64 (addi_a0\<lparr>dec_op := rv_op_c_addi, dec_codec := rv_codec_ci\<rparr>) = addi_a0"
proof -
  have c: "compress_inst_rv64 addi_a0 =
      (True, addi_a0\<lparr>dec_op := rv_op_c_addi, dec_codec := rv_codec_ci\<rparr>)"
    by code_simp
  have b: "dec_op addi_a0 < 319" by (simp add: addi_a0_def)
  have "addi_a0\<lparr>dec_codec := rv_inst_codec ! dec_op addi_a0\<rparr> = addi_a0"
    by (simp add: addi_a0_def meta_nth)
  then show ?thesis using compress_decompress [OF b] c by metis
qed

text \<open>
  Pseudo-instructions are a faithful renaming: when \<^verbatim>\<open>decode_pseudo_inst\<close> replaces
  an instruction by a pseudo-instruction, \<^verbatim>\<open>encode_pseudo\<close> restores the original
  opcode, codec and operands; when it returns false the instruction is untouched.
\<close>

theorem pseudo_round_trip:
  assumes "dec_op dec < 319"
  shows "(decode_pseudo_inst dec = (True, dec') \<longrightarrow>
        encode_pseudo dec' = (True, dec\<lparr>dec_codec := rv_inst_codec ! dec_op dec\<rparr>)) \<and>
     (decode_pseudo_inst dec = (False, dec') \<longrightarrow> dec' = dec)"
proof (intro conjI impI)
  assume "decode_pseudo_inst dec = (True, dec')"
  then obtain cds op cs where h: "rv_inst_pseudo ! dec_op dec = Some cds" "(op, Some cs) \<in> set cds"
    "constraint_check dec cs" "dec' = dec\<lparr>dec_op := op, dec_codec := rv_inst_codec ! op\<rparr>"
    unfolding decode_pseudo_inst_def by (elim comp_with_hit)
  have "pseudo_ok (dec_op dec) op cs"
    by (rule index_of_candidate [OF pseudo_table_ok _ h(1) assms h(2)]) (simp add: table_lengths)
  then have "encode_pseudo dec' = (True, constraint_set
      (dec\<lparr>dec_op := dec_op dec, dec_codec := rv_inst_codec ! dec_op dec\<rparr>) cs)"
    by (simp add: encode_pseudo_def pseudo_ok_def h(4))
  moreover have "constraint_set
      (dec\<lparr>dec_op := dec_op dec, dec_codec := rv_inst_codec ! dec_op dec\<rparr>) cs =
      dec\<lparr>dec_op := dec_op dec, dec_codec := rv_inst_codec ! dec_op dec\<rparr>"
    by (rule constraint_set_checked) (simp only: constraint_check_op h(3))
  ultimately show "encode_pseudo dec' = (True, dec\<lparr>dec_codec := rv_inst_codec ! dec_op dec\<rparr>)" by simp
qed (auto simp: decode_pseudo_inst_def dest: comp_with_miss)

theorem pseudo_round_trip_witness:
  "decode_pseudo_inst (addi_a0\<lparr>dec_imm := 0\<rparr>) =
     (True, addi_a0\<lparr>dec_imm := 0, dec_op := rv_op_mv, dec_codec := rv_codec_i\<rparr>) \<and>
   encode_pseudo (addi_a0\<lparr>dec_imm := 0, dec_op := rv_op_mv, dec_codec := rv_codec_i\<rparr>) =
     (True, addi_a0\<lparr>dec_imm := 0\<rparr>)"
proof -
  have c: "decode_pseudo_inst (addi_a0\<lparr>dec_imm := 0\<rparr>) =
      (True, addi_a0\<lparr>dec_imm := 0, dec_op := rv_op_mv, dec_codec := rv_codec_i\<rparr>)"
    by code_simp
  have b: "dec_op (addi_a0\<lparr>dec_imm := 0\<rparr>) < 319" by (simp add: addi_a0_def)
  have "addi_a0\<lparr>dec_imm := 0, dec_codec := rv_inst_codec ! dec_op (addi_a0\<lparr>dec_imm := 0\<rparr>)\<rparr> =
      addi_a0\<lparr>dec_imm := 0\<rparr>"
    by (simp add: addi_a0_def meta_nth)
  then show ?thesis using pseudo_round_trip [OF b] c by metis
qed

text \<open>
  Instruction fetch: the length stored in \<^verbatim>\<open>pc_offset\<close> is 0, 2, 4, 6 or 8 and is
  the length that \<^verbatim>\<open>inst_length\<close> computes from the fetched instruction (0 for an
  illegal prefix); the instruction consists of exactly that many bytes of memory in
  little-endian order, and nothing beyond them.
\<close>

theorem inst_fetch_correct:
  assumes "inst_fetch mem addr = (inst, len)"
  shows "len \<in> {0, 2, 4, 6, 8} \<and>
     (len \<noteq> 0 \<longrightarrow> inst_length inst = len) \<and>
     (\<forall>i < 8. byte_of inst i = (if i < len then mem (addr + of_nat i) else 0))"
proof (intro conjI impI allI)
  show "len \<in> {0, 2, 4, 6, 8}"
    using assms by (auto simp: inst_fetch_def Let_def split: if_splits)
  show "byte_of inst i = (if i < len then mem (addr + of_nat i) else 0)" if "i < 8" for i
    by (rule inst_fetch_bytes [OF assms that])
  assume "len \<noteq> 0"
  then have "byte_of inst 0 = byte_of (ucast (load_le32 mem addr)) 0"
    using inst_fetch_bytes [OF assms, of 0] by (simp add: byte_of_load32)
  then have "inst_length inst = inst_length (ucast (load_le32 mem addr))"
    by (rule inst_length_first_byte)
  then show "inst_length inst = len" using inst_fetch_length [OF assms] by simp
qed

theorem inst_fetch_correct_witness:
  "inst_fetch (\<lambda>a. if a = 0x1000 then 0x05 else 0x31) 0x1000 = (0x3105, 2) \<and> inst_length 0x3105 = 2"
proof -
  have f: "inst_fetch (\<lambda>a. if a = 0x1000 then 0x05 else 0x31) 0x1000 = (0x3105, 2)"
    by (simp add: inst_fetch_def load_le32_def load_le16_def Let_def)
  show ?thesis using inst_fetch_correct [OF f] f by simp
qed

end
