(* ===== verification/Roundtrip.thy ===== *)
theory Roundtrip
  imports Codec
begin

text \<open>
  Encoding inverts decoding. The operand laws of the locale \<open>operand_codec\<close> are lifted to
  whole instructions: first codec by codec (the operand bits written by an encoder of
  \<^verbatim>\<open>encode.h\<close> are the bits read by the decoder of the same codec in \<^verbatim>\<open>decode.h\<close>),
  then to \<^verbatim>\<open>encode_inst\<close> and \<^verbatim>\<open>decode_inst\<close> through the match and mask tables.
\<close>

unbundle bit_operations_syntax

section \<open>Truncating stores into the decoded instruction lose nothing\<close>

lemma operand_encode_cong:
  assumes "operand_wf opd"
    and "x AND imm_mask (op_segs opd) = y AND imm_mask (op_segs opd)"
  shows "operand_encode opd x = operand_encode opd y"
proof -
  have ok: "list_all piece_ok (imm_pieces (op_segs opd))" using assms(1) by (simp add: operand_wf_def)
  have "bit x (j - p + m) = bit y (j - p + m)"
    if "(n, m, p) \<in> set (imm_pieces (op_segs opd))" "p \<le> j" "j \<le> p + (n - m)" for n m p j
  proof -
    have "piece_ok (n, m, p)" using that(1) ok unfolding list_all_iff by blast
    then have "bit (imm_mask (op_segs opd)) (j - p + m)"
      using that by (auto simp: bit_imm_mask [OF ok] intro!: bexI [of _ "(n, m, p)"])
    then show ?thesis using bit_and_eqD [OF assms(2)] by (simp add: bit_and_iff)
  qed
  then have "imm_encode (op_segs opd) x = imm_encode (op_segs opd) y"
    by (intro bit_word_eqI) (auto simp: bit_imm_encode [OF ok] intro!: bex_cong)
  then show ?thesis by (simp add: operand_encode_def)
qed

lemma operand_encode_narrow:
  assumes "operand_wf opd" and "imm_mask (op_segs opd) AND m = imm_mask (op_segs opd)"
    and "x AND m = y AND m"
  shows "operand_encode opd x = operand_encode opd y"
  by (rule operand_encode_cong [OF assms(1) masked_eq_mono [OF assms(3,2)]])

lemma scast_ucast_mask:
  fixes x :: u64
  shows "scast (ucast x :: u32) AND mask 32 = x AND mask 32"
  by (rule bit_word_eqI) (auto simp: bit_and_iff bit_signed_iff bit_ucast_iff bit_mask_iff)

lemma plus_8_mask: 
  fixes x :: u64
  shows "(ucast (ucast (x + 8) :: u8) + 8) AND mask 3 = x AND mask 3"
proof -
  have drop8: "take_bit 3 (y + 8) = take_bit 3 y" for y :: u64
    by transfer (simp add: take_bit_eq_mod)
  have "take_bit 3 (ucast (ucast (x + 8) :: u8) :: u64) = take_bit 3 (x + 8)"
    by (rule bit_word_eqI) (auto simp: bit_take_bit_iff bit_ucast_iff)
  then show ?thesis by (simp add: drop8 flip: take_bit_eq_mask)
qed

lemma encode_reg:
  "operand_wf opd \<Longrightarrow> imm_mask (op_segs opd) AND mask 8 = imm_mask (op_segs opd) \<Longrightarrow>
   operand_encode opd (ucast (ucast x :: u8)) = operand_encode opd x"
  using ucast_ucast_mask [where 'a = 8, of x] by (intro operand_encode_narrow) auto

lemma encode_reg_b3:
  "operand_wf opd \<Longrightarrow> imm_mask (op_segs opd) AND mask 3 = imm_mask (op_segs opd) \<Longrightarrow>
   operand_encode opd (ucast (ucast (x + 8) :: u8) + 8) = operand_encode opd x"
  using plus_8_mask [of x] by (intro operand_encode_narrow) auto

lemma encode_imm:
  "operand_wf opd \<Longrightarrow> imm_mask (op_segs opd) AND mask 32 = imm_mask (op_segs opd) \<Longrightarrow>
   operand_encode opd (scast (ucast x :: u32)) = operand_encode opd x"
  using scast_ucast_mask [of x] by (intro operand_encode_narrow) auto

lemma encode_field:
  "operand_wf opd \<Longrightarrow> imm_mask (op_segs opd) AND mask LENGTH('a) = imm_mask (op_segs opd) \<Longrightarrow>
   operand_encode opd (ucast (ucast x :: 'a::len word)) = operand_encode opd x"
  using ucast_ucast_mask [where 'a = 'a, of x] by (intro operand_encode_narrow) auto

named_theorems enc_cast \<open>re-encoding a decoded field that was stored at the width of its member\<close>

lemma encode_regs [enc_cast]:
  "operand_encode operand_crs1rd (ucast (ucast x :: u8)) = operand_encode operand_crs1rd x"
  "operand_encode operand_crs2 (ucast (ucast x :: u8)) = operand_encode operand_crs2 x"
  "operand_encode operand_crd (ucast (ucast x :: u8)) = operand_encode operand_crd x"
  "operand_encode operand_crs1 (ucast (ucast x :: u8)) = operand_encode operand_crs1 x"
  "operand_encode operand_rd (ucast (ucast x :: u8)) = operand_encode operand_rd x"
  "operand_encode operand_rs1 (ucast (ucast x :: u8)) = operand_encode operand_rs1 x"
  "operand_encode operand_rs2 (ucast (ucast x :: u8)) = operand_encode operand_rs2 x"
  "operand_encode operand_rs3 (ucast (ucast x :: u8)) = operand_encode operand_rs3 x"
  by (rule encode_reg; simp add: operand_eval mask_eq_exp_minus_1)+

lemma encode_reg_b3s [enc_cast]:
  "operand_encode operand_crdq (ucast (ucast (x + 8) :: u8) + 8) = operand_encode operand_crdq x"
  "operand_encode operand_crs1q (ucast (ucast (x + 8) :: u8) + 8) = operand_encode operand_crs1q x"
  "operand_encode operand_crs2q (ucast (ucast (x + 8) :: u8) + 8) = operand_encode operand_crs2q x"
  "operand_encode operand_crs1rdq (ucast (ucast (x + 8) :: u8) + 8) = operand_encode operand_crs1rdq x"
  by (rule encode_reg_b3; simp add: operand_eval mask_eq_exp_minus_1)+

lemma encode_imms [enc_cast]:
  "operand_encode operand_cimmi (scast (ucast x :: u32)) = operand_encode operand_cimmi x"
  "operand_encode operand_cimmsh5 (scast (ucast x :: u32)) = operand_encode operand_cimmsh5 x"
  "operand_encode operand_cimmsh6 (scast (ucast x :: u32)) = operand_encode operand_cimmsh6 x"
  "operand_encode operand_cimmui (scast (ucast x :: u32)) = operand_encode operand_cimmui x"
  "operand_encode operand_cimmlwsp (scast (ucast x :: u32)) = operand_encode operand_cimmlwsp x"
  "operand_encode operand_cimmldsp (scast (ucast x :: u32)) = operand_encode operand_cimmldsp x"
  "operand_encode operand_cimmlqsp (scast (ucast x :: u32)) = operand_encode operand_cimmlqsp x"
  "operand_encode operand_cimm16sp (scast (ucast x :: u32)) = operand_encode operand_cimm16sp x"
  "operand_encode operand_cimmswsp (scast (ucast x :: u32)) = operand_encode operand_cimmswsp x"
  "operand_encode operand_cimmsdsp (scast (ucast x :: u32)) = operand_encode operand_cimmsdsp x"
  "operand_encode operand_cimmsqsp (scast (ucast x :: u32)) = operand_encode operand_cimmsqsp x"
  "operand_encode operand_cimm4spn (scast (ucast x :: u32)) = operand_encode operand_cimm4spn x"
  "operand_encode operand_cimmw (scast (ucast x :: u32)) = operand_encode operand_cimmw x"
  "operand_encode operand_cimmd (scast (ucast x :: u32)) = operand_encode operand_cimmd x"
  "operand_encode operand_cimmq (scast (ucast x :: u32)) = operand_encode operand_cimmq x"
  "operand_encode operand_cimmb (scast (ucast x :: u32)) = operand_encode operand_cimmb x"
  "operand_encode operand_cimmj (scast (ucast x :: u32)) = operand_encode operand_cimmj x"
  "operand_encode operand_imm12 (scast (ucast x :: u32)) = operand_encode operand_imm12 x"
  "operand_encode operand_csr12 (scast (ucast x :: u32)) = operand_encode operand_csr12 x"
  "operand_encode operand_shamt5 (scast (ucast x :: u32)) = operand_encode operand_shamt5 x"
  "operand_encode operand_shamt6 (scast (ucast x :: u32)) = operand_encode operand_shamt6 x"
  "operand_encode operand_shamt7 (scast (ucast x :: u32)) = operand_encode operand_shamt7 x"
  "operand_encode operand_simm12 (scast (ucast x :: u32)) = operand_encode operand_simm12 x"
  "operand_encode operand_sbimm12 (scast (ucast x :: u32)) = operand_encode operand_sbimm12 x"
  "operand_encode operand_imm20 (scast (ucast x :: u32)) = operand_encode operand_imm20 x"
  "operand_encode operand_jimm20 (scast (ucast x :: u32)) = operand_encode operand_jimm20 x"
  by (rule encode_imm; simp add: operand_eval mask_eq_exp_minus_1)+

lemma encode_fields [enc_cast]:
  "operand_encode operand_rm (ucast (ucast x :: 3 word)) = operand_encode operand_rm x"
  "operand_encode operand_aq (ucast (ucast x :: 1 word)) = operand_encode operand_aq x"
  "operand_encode operand_rl (ucast (ucast x :: 1 word)) = operand_encode operand_rl x"
  "operand_encode operand_pred (ucast (ucast x :: 4 word)) = operand_encode operand_pred x"
  "operand_encode operand_succ (ucast (ucast x :: 4 word)) = operand_encode operand_succ x"
  by (rule encode_field; simp add: operand_eval mask_eq_exp_minus_1)+

section \<open>The instruction bits of a codec\<close>

text \<open>The instruction bits that the operands of a codec occupy.\<close>

fun codec_owned :: "rv_codec \<Rightarrow> u64" where
  "codec_owned rv_codec_illegal = 0"
| "codec_owned rv_codec_none = 0x0"
| "codec_owned rv_codec_ci_none = 0x0"
| "codec_owned rv_codec_cr = 0xffc"
| "codec_owned rv_codec_cr_mv = 0xffc"
| "codec_owned rv_codec_cr_jalr = 0xf80"
| "codec_owned rv_codec_cr_jr = 0xf80"
| "codec_owned rv_codec_ci = 0x1ffc"
| "codec_owned rv_codec_ci_sh5 = 0xffc"
| "codec_owned rv_codec_ci_sh6 = 0x1ffc"
| "codec_owned rv_codec_ci_li = 0x1ffc"
| "codec_owned rv_codec_ci_lui = 0x1ffc"
| "codec_owned rv_codec_ci_lwsp = 0x1ffc"
| "codec_owned rv_codec_ci_ldsp = 0x1ffc"
| "codec_owned rv_codec_ci_lqsp = 0x1ffc"
| "codec_owned rv_codec_ci_16sp = 0x107c"
| "codec_owned rv_codec_css_swsp = 0x1ffc"
| "codec_owned rv_codec_css_sdsp = 0x1ffc"
| "codec_owned rv_codec_css_sqsp = 0x1ffc"
| "codec_owned rv_codec_ciw_4spn = 0x1ffc"
| "codec_owned rv_codec_cl_lw = 0x1ffc"
| "codec_owned rv_codec_cl_ld = 0x1ffc"
| "codec_owned rv_codec_cl_lq = 0x1ffc"
| "codec_owned rv_codec_cs = 0x39c"
| "codec_owned rv_codec_cs_sw = 0x1ffc"
| "codec_owned rv_codec_cs_sd = 0x1ffc"
| "codec_owned rv_codec_cs_sq = 0x1ffc"
| "codec_owned rv_codec_cb = 0x1ffc"
| "codec_owned rv_codec_cb_imm = 0x13fc"
| "codec_owned rv_codec_cb_sh5 = 0x3fc"
| "codec_owned rv_codec_cb_sh6 = 0x13fc"
| "codec_owned rv_codec_cj = 0x1ffc"
| "codec_owned rv_codec_cj_jal = 0x1ffc"
| "codec_owned rv_codec_r = 0x1ff8f80"
| "codec_owned rv_codec_r_m = 0x1ffff80"
| "codec_owned rv_codec_r_l = 0x60f8f80"
| "codec_owned rv_codec_r_a = 0x7ff8f80"
| "codec_owned rv_codec_r4_m = 0xf9ffff80"
| "codec_owned rv_codec_r_f = 0xff00000"
| "codec_owned rv_codec_i = 0xffff8f80"
| "codec_owned rv_codec_i_csr = 0xffff8f80"
| "codec_owned rv_codec_i_sh5 = 0x1ff8f80"
| "codec_owned rv_codec_i_sh6 = 0x3ff8f80"
| "codec_owned rv_codec_i_sh7 = 0x7ff8f80"
| "codec_owned rv_codec_s = 0xffff8f80"
| "codec_owned rv_codec_sb = 0xffff8f80"
| "codec_owned rv_codec_u = 0xffffff80"
| "codec_owned rv_codec_uj = 0xffffff80"
section \<open>Re-encoding a decoded instruction\<close>

lemmas opd_enc_dec =
  opd_rd.enc_dec opd_rs1.enc_dec opd_rs2.enc_dec opd_rs3.enc_dec opd_frd.enc_dec
  opd_frs1.enc_dec opd_frs2.enc_dec opd_frs3.enc_dec opd_aq.enc_dec opd_rl.enc_dec
  opd_pred.enc_dec opd_succ.enc_dec opd_rm.enc_dec opd_imm20.enc_dec opd_oimm20.enc_dec
  opd_jimm20.enc_dec opd_imm12.enc_dec opd_oimm12.enc_dec opd_csr12.enc_dec opd_simm12.enc_dec
  opd_sbimm12.enc_dec opd_zimm.enc_dec opd_shamt5.enc_dec opd_shamt6.enc_dec opd_shamt7.enc_dec
  opd_crd0.enc_dec opd_crdq.enc_dec opd_crs1q.enc_dec opd_crs1rdq.enc_dec opd_crs2q.enc_dec
  opd_crd.enc_dec opd_crs1.enc_dec opd_crs1rd.enc_dec opd_crs2.enc_dec opd_cfrdq.enc_dec
  opd_cfrs2q.enc_dec opd_cfrs2.enc_dec opd_cfrd.enc_dec opd_cimmsh5.enc_dec opd_cimmsh6.enc_dec
  opd_cimmi.enc_dec opd_cnzimmi.enc_dec opd_cimmui.enc_dec opd_cimmlwsp.enc_dec opd_cimmldsp.enc_dec
  opd_cimmlqsp.enc_dec opd_cimm16sp.enc_dec opd_cimmj.enc_dec opd_cimmb.enc_dec opd_cimmswsp.enc_dec
  opd_cimmsdsp.enc_dec opd_cimmsqsp.enc_dec opd_cimm4spn.enc_dec opd_cimmw.enc_dec opd_cimmd.enc_dec
  opd_cimmq.enc_dec

text \<open>
  \<open>codec_ok c\<close>: re-encoding what the decoder of codec \<open>c\<close> read passes every assertion of
  the encoder and writes back exactly the codec's instruction bits.
\<close>

lemma encode_decode_operands:
  assumes "c \<noteq> rv_codec_cs" and "c = rv_inst_codec ! dec_op dec"
  shows "encode_operands c (decode_inst_type dec inst) = Some (inst AND codec_owned c)"
  using assms
  by (cases c) (simp_all add: decode_inst_type_def encode_operands_def encode_codec_defs
      decode_codec_defs enc_cast opd_enc_dec bit.conj_disj_distrib [symmetric])

lemma decode_inst_type_frame [simp]:
  "dec_op (decode_inst_type dec inst) = dec_op dec"
  "dec_codec (decode_inst_type dec inst) = rv_inst_codec ! dec_op dec"
  by (cases "rv_inst_codec ! dec_op dec"; simp add: decode_inst_type_def decode_codec_defs)+

lemma decode_inst_frame [simp]:
  "dec_op (decode_inst isa dec inst) = decode_inst_op isa inst"
  "dec_codec (decode_inst isa dec inst) = rv_inst_codec ! decode_inst_op isa inst"
  by (simp_all add: decode_inst_def)

lemma dec_codec_same: "dec_codec d = c \<Longrightarrow> d\<lparr>dec_codec := c\<rparr> = d"
  by auto

text \<open>The bits of an instruction word that an opcode determines: its fixed bits and its operands.\<close>

definition op_bits :: "opcode \<Rightarrow> u64" where
  "op_bits op = rv_inst_mask ! op OR codec_owned (rv_inst_codec ! op)"

lemma encode_decode_bits:
  assumes "decode_inst_op isa inst \<noteq> rv_op_illegal"
    and "rv_inst_codec ! decode_inst_op isa inst \<noteq> rv_codec_cs"
  shows "encode_inst (decode_inst isa dec inst) =
     Some (decode_inst isa dec inst, inst AND op_bits (decode_inst_op isa inst))"
proof -
  let ?op = "decode_inst_op isa inst"
  have m: "inst AND rv_inst_mask ! ?op = rv_inst_match ! ?op"
    using decode_inst_op_sound [of inst isa] assms(1) by (simp add: op_sound_def op_matches_def)
  have "encode_operands (rv_inst_codec ! ?op) (decode_inst isa dec inst) =
      Some (inst AND codec_owned (rv_inst_codec ! ?op))"
    unfolding decode_inst_def by (rule encode_decode_operands [OF assms(2)]) simp
  then show ?thesis
    by (simp add: encode_inst_def op_bits_def bit.conj_disj_distrib m Let_def dec_codec_same)
qed

text \<open>
  For every opcode but \<^verbatim>\<open>fence\<close> and \<^verbatim>\<open>fence.i\<close> these are all the bits of
  the instruction.
\<close>

definition op_row_full :: "rv_codec \<times> u64 \<times> u64 \<Rightarrow> bool" where
  "op_row_full = (\<lambda>(c, v, m). m AND 3 = 3 \<and>
     (if v AND 3 = 3
      then m OR codec_owned c = 0xffffffff \<and> m AND 0b11100 = 0b11100 \<and> v AND 0b11100 \<noteq> 0b11100
      else m OR codec_owned c = 0xffff))"

definition op_rows :: "(rv_codec \<times> u64 \<times> u64) list" where
  "op_rows = zip rv_inst_codec (zip rv_inst_match rv_inst_mask)"

lemma op_rows_full:
  "list_all op_row_full (take 37 (drop 1 op_rows))" "list_all op_row_full (take 233 (drop 40 op_rows))"
  by (simp_all add: op_row_full_def op_rows_def rv_inst_codec_def rv_inst_match_def rv_inst_mask_def)

lemma list_all_slice:
  "list_all P (take n (drop k xs)) \<Longrightarrow> k \<le> i \<Longrightarrow> i < k + n \<Longrightarrow> i < length xs \<Longrightarrow> P (xs ! i)"
  by (auto simp: list_all_length dest: spec [of _ "i - k"])

lemma op_bits_full:
  assumes "0 < op" and "op < 273" and "op \<noteq> rv_op_fence" and "op \<noteq> rv_op_fence_i"
  shows "rv_inst_mask ! op AND 3 = 3"
    and "op_bits op = (if rv_inst_match ! op AND 3 = 3 then 0xffffffff else 0xffff)"
    and "rv_inst_match ! op AND 3 = 3 \<Longrightarrow>
      rv_inst_mask ! op AND 0b11100 = 0b11100 \<and> rv_inst_match ! op AND 0b11100 \<noteq> 0b11100"
proof -
  have row: "op_row_full (op_rows ! op)"
  proof (cases "op < 38")
    case True
    then show ?thesis
      using assms by (intro list_all_slice [OF op_rows_full(1)]) (simp_all add: op_rows_def table_lengths)
  next
    case False
    then show ?thesis
      using assms by (intro list_all_slice [OF op_rows_full(2)]) (simp_all add: op_rows_def table_lengths)
  qed
  show "rv_inst_mask ! op AND 3 = 3"
    and "op_bits op = (if rv_inst_match ! op AND 3 = 3 then 0xffffffff else 0xffff)"
    and "rv_inst_match ! op AND 3 = 3 \<Longrightarrow>
      rv_inst_mask ! op AND 0b11100 = 0b11100 \<and> rv_inst_match ! op AND 0b11100 \<noteq> 0b11100"
    using row assms(2)
    by (simp_all add: op_row_full_def op_rows_def op_bits_def table_lengths split: if_splits)
qed

lemma decoded_length:
  assumes "decode_inst_op isa inst \<notin> {rv_op_illegal, rv_op_fence, rv_op_fence_i}"
  shows "op_bits (decode_inst_op isa inst) = mask (8 * inst_length inst)"
proof -
  let ?op = "decode_inst_op isa inst"
  have op: "0 < ?op" "?op < 273" "?op \<noteq> rv_op_fence" "?op \<noteq> rv_op_fence_i"
    using decode_inst_op_bound [of isa inst] assms by (auto simp: op_in_range_def)
  have m: "inst AND rv_inst_mask ! ?op = rv_inst_match ! ?op"
    using decode_inst_op_sound [of inst isa] assms by (simp add: op_sound_def op_matches_def)
  have low: "inst AND 3 = rv_inst_match ! ?op AND 3"
    by (rule masked_mono [OF m]) (use op_bits_full(1) [OF op] in \<open>simp add: and.commute\<close>)
  show ?thesis
  proof (cases "rv_inst_match ! ?op AND 3 = 3")
    case True
    have "inst AND 0b11100 = rv_inst_match ! ?op AND 0b11100"
      by (rule masked_mono [OF m]) (use op_bits_full(3) [OF op True] in \<open>simp add: and.commute\<close>)
    then show ?thesis
      using op_bits_full(2,3) [OF op] True low by (simp add: inst_length_def mask_eq_exp_minus_1)
  next
    case False
    then show ?thesis
      using op_bits_full(2) [OF op] low by (simp add: inst_length_def mask_eq_exp_minus_1)
  qed
qed

section \<open>Properties\<close>

text \<open>
  C6. Re-assembling a disassembled instruction gives it back: for every instantiation of the
  decoder and every instruction word it accepts that has no bits beyond its own length, encoding
  the decoded structure succeeds (no assertion of an encoder fails) and yields the same word. The
  codec \<^verbatim>\<open>cs\<close> is excluded because its encoder drops an operand, and
  \<^verbatim>\<open>fence\<close> and \<^verbatim>\<open>fence.i\<close> because their reserved bits are not
  decoded.
\<close>

theorem encode_decode_inst:
  assumes "decode_inst_op isa inst \<notin> {rv_op_illegal, rv_op_fence, rv_op_fence_i}"
    and "rv_inst_codec ! decode_inst_op isa inst \<noteq> rv_codec_cs"
    and "inst AND mask (8 * inst_length inst) = inst"
  shows "encode_inst (decode_inst isa dec inst) = Some (decode_inst isa dec inst, inst)"
  using encode_decode_bits [of isa inst dec] decoded_length [OF assms(1)] assms by simp

theorem encode_decode_inst_witness:
  "encode_inst (decode_inst isa_rv64 decode_init 0xff010113) =
     Some (decode_inst isa_rv64 decode_init 0xff010113, 0xff010113) \<and>
   decode_inst_op isa_rv64 0xff010113 = rv_op_addi"
proof -
  have op: "decode_inst_op isa_rv64 0xff010113 = rv_op_addi" by code_simp
  have c: "rv_inst_codec ! rv_op_addi = rv_codec_i" by (simp add: meta_nth)
  have m: "(0xff010113 :: u64) AND mask (8 * inst_length 0xff010113) = 0xff010113"
    by (simp add: inst_length_def mask_eq_exp_minus_1)
  show ?thesis using encode_decode_inst [of isa_rv64 "0xff010113" decode_init] op c m by simp
qed

end
