(* ===== verification/Checkpoint.thy ===== *)
theory Checkpoint
  imports Bytes
begin

text \<open>
  The checkpoint recorder of \<^verbatim>\<open>src/src/util/fmt.h\<close> and \<^verbatim>\<open>src/src/util/fmt.cc\<close>:
  the page and execution records, the memory trace with its pointer caches, and the manager that
  opens and closes checkpoints. Pointers are explicit: \<^verbatim>\<open>new\<close> returns a fresh address of a
  heap of records, the unordered maps and the caches hold such addresses, and \<^verbatim>\<open>NULL\<close> is
  \<open>None\<close>. Undefined behaviour of the source (dereferencing \<^verbatim>\<open>NULL\<close>, writing outside
  a record) is the result \<open>None\<close>. The host is little-endian; an object of type
  \<^verbatim>\<open>T\<close> is its size in bytes together with a 64-bit value.
\<close>

unbundle bit_operations_syntax

section \<open>Page and execution records\<close>

record page_rec =
  visited :: "nat \<Rightarrow> u8"
  content :: "nat \<Rightarrow> u8"

definition PageRec_new :: page_rec where
  "PageRec_new = \<lparr>visited = (\<lambda>_. 0), content = (\<lambda>_. 0)\<rparr>"

definition page_check :: "nat \<Rightarrow> page_rec \<Rightarrow> nat \<Rightarrow> u8" where
  "page_check n pg offset = drop_bit (offset mod 8) (visited pg (offset div 8)) AND mask n"

definition page_set :: "nat \<Rightarrow> page_rec \<Rightarrow> nat \<Rightarrow> page_rec" where
  "page_set n pg offset = pg\<lparr>visited := (visited pg)(offset div 8 :=
     visited pg (offset div 8) OR push_bit (offset mod 8) (mask n))\<rparr>"

definition page_put :: "nat \<Rightarrow> page_rec \<Rightarrow> nat \<Rightarrow> u64 \<Rightarrow> page_rec option" where
  "page_put n pg offset data =
     (if offset + n \<le> 4096
      then Some ((page_set n pg offset)\<lparr>content := (\<lambda>j. if offset \<le> j \<and> j < offset + n
          then byte_of data (j - offset) else content pg j)\<rparr>)
      else None)"

record exec_rec =
  exec_count :: "nat \<Rightarrow> u32"

definition ExecRec_new :: exec_rec where
  "ExecRec_new = \<lparr>exec_count = (\<lambda>_. 0)\<rparr>"

record store_rec =
  st_addr :: u64
  st_size :: nat

definition StoreRec_new :: store_rec where
  "StoreRec_new = \<lparr>st_addr = 0, st_size = 0\<rparr>"

section \<open>The memory trace\<close>

record ptr_cache =
  pc_idx :: u64
  pc_ptr :: "nat option"

definition PtrCache_new :: ptr_cache where
  "PtrCache_new = \<lparr>pc_idx = 0, pc_ptr = None\<rparr>"

record mem_trace =
  mt_pages :: "u64 \<Rightarrow> nat option"
  mt_execs :: "u64 \<Rightarrow> nat option"
  mt_stores :: "nat \<Rightarrow> store_rec"
  mt_fetch_cache :: ptr_cache
  mt_load_cache :: ptr_cache
  mt_exec_cache :: ptr_cache
  mt_page_heap :: "nat \<Rightarrow> page_rec"
  mt_page_next :: nat
  mt_exec_heap :: "nat \<Rightarrow> exec_rec"
  mt_exec_next :: nat

definition MemTrace_new :: mem_trace where
  "MemTrace_new = \<lparr>mt_pages = Map.empty, mt_execs = Map.empty, mt_stores = (\<lambda>_. StoreRec_new),
     mt_fetch_cache = PtrCache_new, mt_load_cache = PtrCache_new, mt_exec_cache = PtrCache_new,
     mt_page_heap = (\<lambda>_. PageRec_new), mt_page_next = 0,
     mt_exec_heap = (\<lambda>_. ExecRec_new), mt_exec_next = 0\<rparr>"

definition STREC_SIZE :: nat where
  "STREC_SIZE = 256"

definition get_page :: "u64 \<Rightarrow> mem_trace \<Rightarrow> nat \<times> mem_trace" where
  "get_page pn mt =
     (case mt_pages mt pn of
        Some p \<Rightarrow> (p, mt)
      | None \<Rightarrow>
          (mt_page_next mt,
           mt\<lparr>mt_pages := (mt_pages mt)(pn \<mapsto> mt_page_next mt),
              mt_page_heap := (mt_page_heap mt)(mt_page_next mt := PageRec_new),
              mt_page_next := mt_page_next mt + 1\<rparr>))"

text \<open>The overload with a cache returns the pointer, the new value of the cache and the trace.\<close>

definition get_page_cached ::
  "u64 \<Rightarrow> ptr_cache \<Rightarrow> mem_trace \<Rightarrow> nat option \<times> ptr_cache \<times> mem_trace" where
  "get_page_cached pn cache mt =
     (if pn \<noteq> pc_idx cache
      then let (p, mt') = get_page pn mt in (Some p, \<lparr>pc_idx = pn, pc_ptr = Some p\<rparr>, mt')
      else (pc_ptr cache, cache, mt))"

definition fetch_page_of :: "u64 \<Rightarrow> mem_trace \<Rightarrow> nat option \<times> mem_trace" where
  "fetch_page_of pn mt =
     (let (p, c, mt') = get_page_cached pn (mt_fetch_cache mt) mt in (p, mt'\<lparr>mt_fetch_cache := c\<rparr>))"

definition load_page_of :: "u64 \<Rightarrow> mem_trace \<Rightarrow> nat option \<times> mem_trace" where
  "load_page_of pn mt =
     (let (p, c, mt') = get_page_cached pn (mt_load_cache mt) mt in (p, mt'\<lparr>mt_load_cache := c\<rparr>))"

definition get_exec :: "u64 \<Rightarrow> mem_trace \<Rightarrow> nat \<times> mem_trace" where
  "get_exec pn mt =
     (case mt_execs mt pn of
        Some p \<Rightarrow> (p, mt)
      | None \<Rightarrow>
          (mt_exec_next mt,
           mt\<lparr>mt_execs := (mt_execs mt)(pn \<mapsto> mt_exec_next mt),
              mt_exec_heap := (mt_exec_heap mt)(mt_exec_next mt := ExecRec_new),
              mt_exec_next := mt_exec_next mt + 1\<rparr>))"

text \<open>
  \<^verbatim>\<open>get_exec_counter\<close> returns a reference: the record pointer and the index of the counter in
  it.
\<close>

definition get_exec_counter :: "u64 \<Rightarrow> mem_trace \<Rightarrow> (nat option \<times> nat) \<times> mem_trace" where
  "get_exec_counter addr mt =
     (let pn = drop_bit 12 addr;
          mt' = (if pn \<noteq> pc_idx (mt_exec_cache mt)
                 then let (p, m) = get_exec pn mt
                      in m\<lparr>mt_exec_cache := \<lparr>pc_idx = pn, pc_ptr = Some p\<rparr>\<rparr>
                 else mt)
      in ((pc_ptr (mt_exec_cache mt'), unat (addr AND 0xfff) div 2), mt'))"

definition bump_exec_counter :: "u64 \<Rightarrow> mem_trace \<Rightarrow> mem_trace option" where
  "bump_exec_counter addr mt =
     (case get_exec_counter addr mt of
        ((None, i), mt') \<Rightarrow> None
      | ((Some p, i), mt') \<Rightarrow>
          Some (mt'\<lparr>mt_exec_heap := (mt_exec_heap mt')(p := (mt_exec_heap mt' p)
            \<lparr>exec_count := (exec_count (mt_exec_heap mt' p))
               (i := exec_count (mt_exec_heap mt' p) i + 1)\<rparr>)\<rparr>))"

text \<open>Dereferencing a page pointer.\<close>

definition put_at :: "nat \<Rightarrow> nat option \<Rightarrow> nat \<Rightarrow> u64 \<Rightarrow> mem_trace \<Rightarrow> mem_trace option" where
  "put_at n page offset data mt =
     (case page of None \<Rightarrow> None
      | Some p \<Rightarrow> (case page_put n (mt_page_heap mt p) offset data of None \<Rightarrow> None
         | Some pg \<Rightarrow> Some (mt\<lparr>mt_page_heap := (mt_page_heap mt)(p := pg)\<rparr>)))"

definition check_at :: "nat \<Rightarrow> nat option \<Rightarrow> nat \<Rightarrow> mem_trace \<Rightarrow> u8 option" where
  "check_at n page offset mt = map_option (\<lambda>p. page_check n (mt_page_heap mt p) offset) page"

text \<open>
  The private \<^verbatim>\<open>fetch\<close> on one page. The loop runs over the bytes whose mask bit is set and
  writes each of them at \<^verbatim>\<open>offset\<close>, as in the source.
\<close>

fun fetch_partial :: "nat list \<Rightarrow> u8 \<Rightarrow> nat option \<Rightarrow> nat \<Rightarrow> u64 \<Rightarrow> mem_trace \<Rightarrow> mem_trace option" where
  "fetch_partial [] m page offset inst mt = Some mt"
| "fetch_partial (i # is) m page offset inst mt =
     (if bit m i
      then (case put_at 1 page offset (drop_bit (8 * i) inst) mt of None \<Rightarrow> None
         | Some mt' \<Rightarrow> fetch_partial is m page offset inst mt')
      else fetch_partial is m page offset inst mt)"

definition fetch_in_page ::
  "nat \<Rightarrow> nat option \<Rightarrow> nat \<Rightarrow> u64 \<Rightarrow> mem_trace \<Rightarrow> (bool \<times> mem_trace) option" where
  "fetch_in_page n page offset inst mt =
     (case check_at n page offset mt of None \<Rightarrow> None
      | Some m \<Rightarrow>
          if m = 0 then map_option (Pair True) (put_at n page offset inst mt)
          else if m = mask n then Some (False, mt)
          else map_option (Pair False) (fetch_partial [0..<n] m page offset inst mt))"

definition mt_fetch :: "u64 \<Rightarrow> u64 \<Rightarrow> nat \<Rightarrow> mem_trace \<Rightarrow> (bool \<times> mem_trace) option" where
  "mt_fetch addr inst len mt0 =
     (case bump_exec_counter addr mt0 of None \<Rightarrow> None
      | Some mt1 \<Rightarrow>
          let pn = drop_bit 12 addr;
              (page, mt2) = fetch_page_of pn mt1;
              offset = unat (addr AND 0xfff)
          in if len = 2 then fetch_in_page 2 page offset (inst AND 0xffff) mt2
             else if addr AND 3 = 0 then fetch_in_page 4 page offset (inst AND 0xffffffff) mt2
             else (case fetch_in_page 2 page offset (inst AND 0xffff) mt2 of None \<Rightarrow> None
                | Some (first1, mt3) \<Rightarrow>
                    let (page', offset', mt4) =
                          (if offset + 2 = 4096
                           then let (p, m) = fetch_page_of (pn + 1) mt3 in (p, 0, m)
                           else (page, offset + 2, mt3))
                    in (case fetch_in_page 2 page' offset' (drop_bit 16 inst AND 0xffff) mt4 of
                          None \<Rightarrow> None
                        | Some (first2, mt5) \<Rightarrow> Some (first1 \<and> first2, mt5))))"


text \<open>
  The byte loop of \<^verbatim>\<open>load\<close>: \<open>k\<close> bytes are left, \<open>i\<close> is the loop counter and
  \<open>offset\<close> may be negative after the page boundary was crossed.
\<close>

fun load_bytes ::
  "nat \<Rightarrow> nat \<Rightarrow> u64 \<Rightarrow> nat option \<Rightarrow> int \<Rightarrow> u64 \<Rightarrow> mem_trace \<Rightarrow> mem_trace option" where
  "load_bytes 0 i pn page offset data mt = Some mt"
| "load_bytes (Suc k) i pn page offset data mt =
     (let (page', offset', mt') =
            (if offset + int i = 4096
             then let (p, m) = load_page_of (pn + 1) mt in (p, offset - 4096, m)
             else (page, offset, mt));
          off = nat (offset' + int i)
      in case check_at 1 page' off mt' of None \<Rightarrow> None
         | Some c \<Rightarrow>
             if c = 0
             then (case put_at 1 page' off (drop_bit (8 * i) data) mt' of None \<Rightarrow> None
                | Some mt'' \<Rightarrow> load_bytes k (Suc i) pn page' offset' data mt'')
             else load_bytes k (Suc i) pn page' offset' data mt')"

definition mt_load :: "nat \<Rightarrow> u64 \<Rightarrow> u64 \<Rightarrow> mem_trace \<Rightarrow> mem_trace option" where
  "mt_load n addr data mt0 =
     (let pn = drop_bit 12 addr;
          (page, mt) = load_page_of pn mt0;
          offset = unat (addr AND 0xfff);
          bytewise = load_bytes n 0 pn page (int offset) data mt
      in if offset mod n = 0
         then (case check_at n page offset mt of None \<Rightarrow> None
            | Some c \<Rightarrow>
                if c = 0 then put_at n page offset data mt
                else if c = mask n then Some mt
                else bytewise)
         else bytewise)"

fun store_hash :: "nat \<Rightarrow> u64 \<Rightarrow> u64 \<Rightarrow> u64" where
  "store_hash 0 shift hash = hash"
| "store_hash (Suc k) shift hash = store_hash k (drop_bit 8 shift) (hash XOR (shift AND 255))"

definition mt_store :: "nat \<Rightarrow> u64 \<Rightarrow> mem_trace \<Rightarrow> mem_trace option" where
  "mt_store n addr mt0 =
     (case mt_load n addr 0 mt0 of None \<Rightarrow> None
      | Some mt \<Rightarrow>
          let hash = unat (store_hash 8 addr 0)
          in Some (mt\<lparr>mt_stores := (mt_stores mt)(hash := \<lparr>st_addr = addr, st_size = n\<rparr>)\<rparr>))"

section \<open>What a page has recorded\<close>

text \<open>The recorded byte at an offset of a page, \<open>None\<close> when it was never touched.\<close>

definition page_view :: "page_rec \<Rightarrow> nat \<Rightarrow> u8 option" where
  "page_view pg j = (if bit (visited pg (j div 8)) (j mod 8) then Some (content pg j) else None)"

text \<open>The sizes of the types \<^verbatim>\<open>T\<close> the templates are instantiated with.\<close>

definition access_size :: "nat \<Rightarrow> bool" where
  "access_size n \<longleftrightarrow> n = 1 \<or> n = 2 \<or> n = 4 \<or> n = 8"

lemma aligned_fits:
  assumes "access_size n" and "off mod n = 0"
  shows "off mod 8 + n \<le> 8" and "off < 4096 \<Longrightarrow> off + n \<le> 4096"
  using assms unfolding access_size_def by presburger+

text \<open>An aligned object lies in a single byte of the visited bitmap.\<close>

lemma aligned_cell:
  assumes "access_size n" and "off mod n = 0" and "i < n"
  shows "(off + i) div 8 = off div 8" and "(off + i) mod 8 = off mod 8 + i"
proof -
  have l: "off mod 8 + i < 8" using aligned_fits(1) [OF assms(1,2)] assms(3) by linarith
  then show "(off + i) mod 8 = off mod 8 + i" by (metis mod_add_left_eq mod_less)
  then show "(off + i) div 8 = off div 8"
    using div_mult_mod_eq [of "off + i" 8] div_mult_mod_eq [of off 8] by linarith
qed

lemma aligned_cell_iff:
  assumes "access_size n" and "off mod n = 0"
  shows "off \<le> j \<and> j < off + n \<longleftrightarrow>
     j div 8 = off div 8 \<and> off mod 8 \<le> j mod 8 \<and> j mod 8 < off mod 8 + n"
proof
  assume "off \<le> j \<and> j < off + n"
  then obtain i where "j = off + i" "i < n" by (auto simp: le_iff_add)
  then show "j div 8 = off div 8 \<and> off mod 8 \<le> j mod 8 \<and> j mod 8 < off mod 8 + n"
    using aligned_cell [OF assms] by simp
next
  assume a: "j div 8 = off div 8 \<and> off mod 8 \<le> j mod 8 \<and> j mod 8 < off mod 8 + n"
  have "j = off div 8 * 8 + j mod 8" using a by (metis div_mult_mod_eq)
  moreover have "off = off div 8 * 8 + off mod 8" by simp
  ultimately show "off \<le> j \<and> j < off + n" using a by linarith
qed

lemma bit_page_check:
  "bit (page_check n pg off) i \<longleftrightarrow> i < n \<and> bit (visited pg (off div 8)) (off mod 8 + i)"
  by (auto simp: page_check_def bit_and_iff bit_drop_bit_eq bit_mask_iff dest: bit_imp_le_length)

lemma bit_page_check_view:
  assumes "access_size n" and "off mod n = 0"
  shows "bit (page_check n pg off) i \<longleftrightarrow> i < n \<and> page_view pg (off + i) \<noteq> None"
  using aligned_cell [OF assms, of i] by (auto simp: bit_page_check page_view_def)

lemma page_check_0:
  assumes "access_size n" and "off mod n = 0"
  shows "page_check n pg off = 0 \<longleftrightarrow> (\<forall>i < n. page_view pg (off + i) = None)"
proof -
  have "n \<le> 8" using assms(1) by (auto simp: access_size_def)
  then show ?thesis
    using bit_page_check_view [OF assms, of pg] by (auto simp: bit_eq_iff dest: less_le_trans)
qed

lemma page_check_full:
  assumes "access_size n" and "off mod n = 0"
  shows "page_check n pg off = mask n \<longleftrightarrow> (\<forall>i < n. page_view pg (off + i) \<noteq> None)"
proof -
  have "n \<le> 8" using assms(1) by (auto simp: access_size_def)
  then show ?thesis
    using bit_page_check_view [OF assms, of pg] by (auto simp: bit_eq_iff bit_mask_iff dest: less_le_trans)
qed

lemma bit_push_mask: "y < 8 \<Longrightarrow> bit (push_bit x (mask n) :: u8) y \<longleftrightarrow> x \<le> y \<and> y < x + n"
  by (auto simp: bit_push_bit_iff bit_mask_iff)

lemma page_put_view:
  assumes "access_size n" and "off mod n = 0" and "off < 4096"
  obtains pg' where "page_put n pg off d = Some pg'"
    and "\<And>j. page_view pg' j = (if off \<le> j \<and> j < off + n then Some (byte_of d (j - off)) else page_view pg j)"
proof -
  define pg' where "pg' = (page_set n pg off)\<lparr>content := (\<lambda>j. if off \<le> j \<and> j < off + n
          then byte_of d (j - off) else content pg j)\<rparr>"
  have put: "page_put n pg off d = Some pg'"
    using aligned_fits(2) [OF assms(1,2)] assms(3) by (simp add: page_put_def pg'_def)
  have "bit (push_bit (off mod 8) (mask n) :: u8) (j mod 8) \<longleftrightarrow>
      off mod 8 \<le> j mod 8 \<and> j mod 8 < off mod 8 + n" for j
    by (rule bit_push_mask) simp
  then have "bit (visited pg' (j div 8)) (j mod 8) \<longleftrightarrow>
      off \<le> j \<and> j < off + n \<or> bit (visited pg (j div 8)) (j mod 8)" for j
    unfolding aligned_cell_iff [OF assms(1,2)] pg'_def by (auto simp: page_set_def bit_or_iff)
  then have "page_view pg' j =
      (if off \<le> j \<and> j < off + n then Some (byte_of d (j - off)) else page_view pg j)" for j
    by (auto simp: page_view_def pg'_def)
  with put show thesis by (rule that)
qed

section \<open>Invariant and abstraction of the trace\<close>

text \<open>
  A pointer cache is either untouched or agrees with the map it caches.
\<close>

definition cache_ok :: "(u64 \<Rightarrow> nat option) \<Rightarrow> ptr_cache \<Rightarrow> bool" where
  "cache_ok m c \<longleftrightarrow> pc_idx c = 0 \<and> pc_ptr c = None \<or> pc_ptr c \<noteq> None \<and> m (pc_idx c) = pc_ptr c"

definition heap_map_ok :: "(u64 \<Rightarrow> nat option) \<Rightarrow> nat \<Rightarrow> bool" where
  "heap_map_ok m next \<longleftrightarrow> (\<forall>a b p. m a = Some p \<longrightarrow> m b = Some p \<longrightarrow> a = b) \<and>
     (\<forall>a p. m a = Some p \<longrightarrow> p < next)"

lemma heap_map_ok_insert: "heap_map_ok m next \<Longrightarrow> heap_map_ok (m(a \<mapsto> next)) (Suc next)"
  unfolding heap_map_ok_def by (metis fun_upd_apply less_Suc_eq nat_neq_iff option.inject)

definition mt_inv :: "mem_trace \<Rightarrow> bool" where
  "mt_inv mt \<longleftrightarrow> heap_map_ok (mt_pages mt) (mt_page_next mt) \<and>
     heap_map_ok (mt_execs mt) (mt_exec_next mt) \<and>
     cache_ok (mt_pages mt) (mt_fetch_cache mt) \<and> cache_ok (mt_pages mt) (mt_load_cache mt) \<and>
     cache_ok (mt_execs mt) (mt_exec_cache mt)"

text \<open>
  The abstract trace: the recorded byte at every address. The address is a natural number, so that
  the page after the last one does not alias the first.
\<close>

definition trace_map :: "mem_trace \<Rightarrow> nat \<Rightarrow> u8 option" where
  "trace_map mt a =
     (if a div 4096 < 2 ^ 64
      then case mt_pages mt (of_nat (a div 4096)) of None \<Rightarrow> None
         | Some p \<Rightarrow> page_view (mt_page_heap mt p) (a mod 4096)
      else None)"

definition exec_map :: "mem_trace \<Rightarrow> nat \<Rightarrow> u32" where
  "exec_map mt a =
     (case mt_execs mt (of_nat (a div 4096)) of None \<Rightarrow> 0
      | Some p \<Rightarrow> exec_count (mt_exec_heap mt p) (a mod 4096 div 2))"

text \<open>The specification: a byte is recorded when it is touched for the first time.\<close>

definition record_bytes :: "(nat \<Rightarrow> u8 option) \<Rightarrow> nat \<Rightarrow> nat \<Rightarrow> u64 \<Rightarrow> nat \<Rightarrow> u8 option" where
  "record_bytes m a n d x =
     (if a \<le> x \<and> x < a + n \<and> m x = None then Some (byte_of d (x - a)) else m x)"

lemma record_bytes_0 [simp]: "record_bytes m a 0 d = m"
  by (auto simp: record_bytes_def)

lemma byte_of_drop: "byte_of (drop_bit (8 * i) d) j = byte_of d (i + j)"
  by (simp add: byte_of_def add.commute algebra_simps)

lemma record_bytes_Suc:
  "record_bytes m a (Suc k) (drop_bit (8 * i) d) =
   record_bytes (record_bytes m a 1 (drop_bit (8 * i) d)) (Suc a) k (drop_bit (8 * Suc i) d)"
proof
  fix x
  have "a < x \<Longrightarrow> i + (x - a) = Suc i + (x - Suc a)" by simp
  then show "record_bytes m a (Suc k) (drop_bit (8 * i) d) x =
      record_bytes (record_bytes m a 1 (drop_bit (8 * i) d)) (Suc a) k (drop_bit (8 * Suc i) d) x"
    unfolding record_bytes_def byte_of_drop by (cases "x = a") auto
qed

lemma record_bytes_full: "\<forall>i < n. m (a + i) \<noteq> None \<Longrightarrow> record_bytes m a n d = m"
proof
  fix x
  assume f: "\<forall>i < n. m (a + i) \<noteq> None"
  then have "a \<le> x \<Longrightarrow> x < a + n \<Longrightarrow> m x \<noteq> None"
    by (metis le_add_diff_inverse nat_add_left_cancel_less)
  then show "record_bytes m a n d x = m x" by (auto simp: record_bytes_def)
qed

section \<open>Pages of the trace\<close>

lemma trace_map_put:
  assumes "mt_inv mt" and "mt_pages mt q = Some p"
  shows "trace_map (mt\<lparr>mt_page_heap := (mt_page_heap mt)(p := pg)\<rparr>) a =
     (if a div 4096 = unat q then page_view pg (a mod 4096) else trace_map mt a)"
proof (cases "a div 4096 = unat q")
  case True
  moreover have "unat q < 2 ^ 64" using unsigned_less [of q] by simp
  ultimately show ?thesis using assms(2) by (simp add: trace_map_def)
next
  case False
  have "mt_pages mt (of_nat (a div 4096)) \<noteq> Some p" if "a div 4096 < 2 ^ 64"
  proof
    assume "mt_pages mt (of_nat (a div 4096)) = Some p"
    then have "of_nat (a div 4096) = q"
      using assms unfolding mt_inv_def heap_map_ok_def by blast
    then have "unat (of_nat (a div 4096) :: u64) = unat q" by simp
    then show False using that False by (simp add: unat_of_nat)
  qed
  then show ?thesis using False by (auto simp: trace_map_def split: option.split)
qed

lemma trace_map_page:
  assumes "mt_pages mt q = Some p" and "off < 4096"
  shows "trace_map mt (unat q * 4096 + off) = page_view (mt_page_heap mt p) off"
proof -
  have "unat q < 2 ^ 64" using unsigned_less [of q] by simp
  then show ?thesis using assms by (simp add: trace_map_def)
qed

text \<open>The parts of a trace that recording a byte leaves alone.\<close>

definition mt_rest where
  "mt_rest mt = (mt_execs mt, mt_exec_heap mt, mt_exec_next mt, mt_exec_cache mt, mt_stores mt)"

text \<open>
  \<open>recorded mt mt' a n d\<close>: from \<open>mt\<close> to \<open>mt'\<close> exactly the untouched bytes among the
  \<open>n\<close> bytes at \<open>a\<close> were recorded, the invariant holds and nothing else changed.
\<close>

definition recorded :: "mem_trace \<Rightarrow> mem_trace \<Rightarrow> nat \<Rightarrow> nat \<Rightarrow> u64 \<Rightarrow> bool" where
  "recorded mt mt' a n d \<longleftrightarrow> mt_inv mt' \<and> trace_map mt' = record_bytes (trace_map mt) a n d \<and>
     mt_rest mt' = mt_rest mt \<and> (\<forall>q p. mt_pages mt q = Some p \<longrightarrow> mt_pages mt' q = Some p)"

lemma recorded_refl: "mt_inv mt \<Longrightarrow> \<forall>i < n. trace_map mt (a + i) \<noteq> None \<Longrightarrow> recorded mt mt a n d"
  by (simp add: recorded_def record_bytes_full)

lemma recorded_step:
  assumes "recorded mt mt' a 1 (drop_bit (8 * i) d)"
    and "recorded mt' mt'' (Suc a) k (drop_bit (8 * Suc i) d)"
  shows "recorded mt mt'' a (Suc k) (drop_bit (8 * i) d)"
  using assms unfolding recorded_def record_bytes_Suc by auto

lemma recorded_trans_same:
  assumes "mt_inv mt'" and "trace_map mt' = trace_map mt" and "mt_rest mt' = mt_rest mt"
    and "\<And>q p. mt_pages mt q = Some p \<Longrightarrow> mt_pages mt' q = Some p"
    and "recorded mt' mt'' a n d"
  shows "recorded mt mt'' a n d"
  using assms by (auto simp: recorded_def)

lemma put_at_recorded:
  assumes "mt_inv mt" and "mt_pages mt q = Some p" and "access_size n" and "off mod n = 0"
    and "off < 4096" and "page_check n (mt_page_heap mt p) off = 0"
  obtains mt' where "put_at n (Some p) off d mt = Some mt'"
    and "recorded mt mt' (unat q * 4096 + off) n d"
proof -
  obtain pg where pg: "page_put n (mt_page_heap mt p) off d = Some pg"
    "\<And>j. page_view pg j = (if off \<le> j \<and> j < off + n then Some (byte_of d (j - off))
        else page_view (mt_page_heap mt p) j)"
    using page_put_view [OF assms(3,4,5)] by metis
  define mt' where "mt' = mt\<lparr>mt_page_heap := (mt_page_heap mt)(p := pg)\<rparr>"
  have none: "page_view (mt_page_heap mt p) (off + i) = None" if "i < n" for i
    using assms(6) that by (simp add: page_check_0 [OF assms(3,4)])
  have "trace_map mt' x = record_bytes (trace_map mt) (unat q * 4096 + off) n d x" for x
  proof (cases "x div 4096 = unat q")
    case True
    then have x: "x = unat q * 4096 + x mod 4096" by (metis div_mult_mod_eq)
    have "trace_map mt x = page_view (mt_page_heap mt p) (x mod 4096)"
      using trace_map_page [OF assms(2), of "x mod 4096"] x by simp
    moreover have "trace_map mt' x = page_view pg (x mod 4096)"
      using True by (simp add: mt'_def trace_map_put [OF assms(1,2)])
    moreover have "off \<le> x mod 4096 \<Longrightarrow> x mod 4096 < off + n \<Longrightarrow>
        page_view (mt_page_heap mt p) (x mod 4096) = None"
      using none [of "x mod 4096 - off"] by simp
    moreover have "unat q * 4096 + off \<le> x \<longleftrightarrow> off \<le> x mod 4096"
      "x < unat q * 4096 + off + n \<longleftrightarrow> x mod 4096 < off + n"
      "x - (unat q * 4096 + off) = x mod 4096 - off"
      using x by linarith+
    ultimately show ?thesis by (auto simp: record_bytes_def pg(2))
  next
    case False
    have "off + n \<le> 4096" using aligned_fits(2) [OF assms(3,4,5)] .
    have "\<not> (unat q * 4096 + off \<le> x \<and> x < unat q * 4096 + off + n)"
    proof
      assume "unat q * 4096 + off \<le> x \<and> x < unat q * 4096 + off + n"
      then have "x div 4096 = unat q" using \<open>off + n \<le> 4096\<close> by (intro div_nat_eqI) auto
      with False show False ..
    qed
    then show ?thesis using False by (auto simp: mt'_def trace_map_put [OF assms(1,2)] record_bytes_def)
  qed
  then have "recorded mt mt' (unat q * 4096 + off) n d"
    using assms(1) by (auto simp: recorded_def mt'_def mt_inv_def mt_rest_def)
  moreover have "put_at n (Some p) off d mt = Some mt'" by (simp add: put_at_def pg(1) mt'_def)
  ultimately show thesis by (rule that [rotated])
qed

text \<open>One byte, as both byte loops do it.\<close>

lemma byte_recorded:
  assumes "mt_inv mt" and "mt_pages mt q = Some p" and "off < 4096"
  shows "page_check 1 (mt_page_heap mt p) off = 0 \<Longrightarrow>
      \<exists>mt'. put_at 1 (Some p) off d mt = Some mt' \<and> recorded mt mt' (unat q * 4096 + off) 1 d"
    and "page_check 1 (mt_page_heap mt p) off \<noteq> 0 \<Longrightarrow> recorded mt mt (unat q * 4096 + off) 1 d"
proof -
  have s: "access_size 1" and m: "off mod 1 = 0" by (simp_all add: access_size_def)
  show "\<exists>mt'. put_at 1 (Some p) off d mt = Some mt' \<and> recorded mt mt' (unat q * 4096 + off) 1 d"
    if "page_check 1 (mt_page_heap mt p) off = 0"
    by (rule put_at_recorded [OF assms(1,2) s m assms(3) that]) blast
  show "recorded mt mt (unat q * 4096 + off) 1 d" if "page_check 1 (mt_page_heap mt p) off \<noteq> 0"
    using that assms(1) page_check_0 [OF s, of off]
    by (intro recorded_refl) (auto simp: trace_map_page [OF assms(2,3)])
qed

section \<open>The interface of a page lookup\<close>

text \<open>
  What \<^verbatim>\<open>fetch\<close> and \<^verbatim>\<open>load\<close> rely on when they look up a page through their cache:
  a valid pointer to the record of that page, the trace otherwise unchanged.
\<close>

locale page_source =
  fixes page_of :: "u64 \<Rightarrow> mem_trace \<Rightarrow> nat option \<times> mem_trace"
  assumes page_of_valid: "mt_inv mt \<Longrightarrow> pn \<noteq> 0 \<Longrightarrow> \<exists>p mt'. page_of pn mt = (Some p, mt') \<and> mt_inv mt' \<and>
     mt_pages mt' pn = Some p \<and> trace_map mt' = trace_map mt \<and> mt_rest mt' = mt_rest mt \<and>
     (\<forall>q r. mt_pages mt q = Some r \<longrightarrow> mt_pages mt' q = Some r)"
begin

lemma page_ofE:
  assumes "mt_inv mt" and "pn \<noteq> 0"
  obtains p mt' where "page_of pn mt = (Some p, mt')" and "mt_inv mt'" and "mt_pages mt' pn = Some p"
    and "\<And>mt'' a n d. recorded mt' mt'' a n d \<Longrightarrow> recorded mt mt'' a n d"
    and "trace_map mt' = trace_map mt" and "mt_rest mt' = mt_rest mt"
    and "\<And>q r. mt_pages mt q = Some r \<Longrightarrow> mt_pages mt' q = Some r"
proof -
  obtain p mt' where p: "page_of pn mt = (Some p, mt')" "mt_inv mt'" "mt_pages mt' pn = Some p"
    "trace_map mt' = trace_map mt" "mt_rest mt' = mt_rest mt"
    "\<forall>q r. mt_pages mt q = Some r \<longrightarrow> mt_pages mt' q = Some r"
    using page_of_valid [OF assms] by blast
  show thesis
    by (rule that [OF p(1-3) _ p(4,5)]) (use p in \<open>auto intro: recorded_trans_same\<close>)
qed

end

lemma get_page_valid:
  assumes "mt_inv mt" and "get_page pn mt = (p, mt')"
  shows "mt_inv mt'" and "mt_pages mt' pn = Some p" and "trace_map mt' = trace_map mt"
    and "mt_rest mt' = mt_rest mt" and "\<forall>q r. mt_pages mt q = Some r \<longrightarrow> mt_pages mt' q = Some r"
    and "mt_fetch_cache mt' = mt_fetch_cache mt" and "mt_load_cache mt' = mt_load_cache mt"
proof -
  have new: "page_view PageRec_new j = None" for j by (simp add: page_view_def PageRec_new_def)
  have fresh: "mt_pages mt q \<noteq> Some (mt_page_next mt)" for q
    using assms(1) by (auto simp: mt_inv_def heap_map_ok_def)
  show "mt_pages mt' pn = Some p" "\<forall>q r. mt_pages mt q = Some r \<longrightarrow> mt_pages mt' q = Some r"
    "mt_rest mt' = mt_rest mt" "mt_fetch_cache mt' = mt_fetch_cache mt"
    "mt_load_cache mt' = mt_load_cache mt"
    using assms(2) by (auto simp: get_page_def mt_rest_def split: option.splits)
  show "trace_map mt' = trace_map mt"
    using assms(2) fresh new by (fastforce simp: get_page_def trace_map_def split: option.splits)
  show "mt_inv mt'"
  proof (cases "mt_pages mt pn")
    case None
    have "cache_ok (mt_pages mt) c \<Longrightarrow> cache_ok ((mt_pages mt)(pn \<mapsto> k)) c" for c k
      using None by (auto simp: cache_ok_def)
    then show ?thesis
      using assms None heap_map_ok_insert
      by (auto simp: get_page_def mt_inv_def)
  qed (use assms in \<open>simp add: get_page_def\<close>)
qed

lemma get_page_cached_valid:
  assumes "mt_inv mt" and "pn \<noteq> 0" and "cache_ok (mt_pages mt) cache"
    and "get_page_cached pn cache mt = (p, cache', mt')"
  obtains q where "p = Some q" and "mt_pages mt' pn = Some q" and "cache_ok (mt_pages mt') cache'"
    and "mt' = mt \<or> get_page pn mt = (q, mt')"
proof (cases "pn = pc_idx cache")
  case True
  then show thesis using assms that by (auto simp: get_page_cached_def cache_ok_def)
next
  case False
  obtain q m where q: "get_page pn mt = (q, m)" by fastforce
  then have "p = Some q" "cache' = \<lparr>pc_idx = pn, pc_ptr = Some q\<rparr>" "mt' = m"
    using False assms(4) by (auto simp: get_page_cached_def)
  then show thesis
    using that [of q] get_page_valid(2) [OF assms(1) q] q by (simp add: cache_ok_def)
qed

lemma mt_inv_fetch_cache: "mt_inv mt \<Longrightarrow> cache_ok (mt_pages mt) c \<Longrightarrow> mt_inv (mt\<lparr>mt_fetch_cache := c\<rparr>)"
  by (simp add: mt_inv_def)

lemma mt_inv_load_cache: "mt_inv mt \<Longrightarrow> cache_ok (mt_pages mt) c \<Longrightarrow> mt_inv (mt\<lparr>mt_load_cache := c\<rparr>)"
  by (simp add: mt_inv_def)

lemma trace_map_cache [simp]:
  "trace_map (mt\<lparr>mt_fetch_cache := c\<rparr>) = trace_map mt"
  "trace_map (mt\<lparr>mt_load_cache := c\<rparr>) = trace_map mt"
  "mt_rest (mt\<lparr>mt_fetch_cache := c\<rparr>) = mt_rest mt"
  "mt_rest (mt\<lparr>mt_load_cache := c\<rparr>) = mt_rest mt"
  by (auto simp: trace_map_def mt_rest_def cong: if_cong option.case_cong)

text \<open>The cached lookup agrees with the uncached one, for any cache that satisfies the invariant.\<close>

lemma cached_lookup:
  assumes "mt_inv mt" and "pn \<noteq> 0" and "cache_ok (mt_pages mt) cache"
  obtains q c m where "get_page_cached pn cache mt = (Some q, c, m)" and "mt_inv m"
    and "mt_pages m pn = Some q" and "cache_ok (mt_pages m) c" and "trace_map m = trace_map mt"
    and "mt_rest m = mt_rest mt" and "\<forall>a r. mt_pages mt a = Some r \<longrightarrow> mt_pages m a = Some r"
proof -
  obtain p c m where l: "get_page_cached pn cache mt = (p, c, m)" by (metis prod_cases3)
  show thesis
  proof (rule get_page_cached_valid [OF assms l])
    fix q
    assume q: "p = Some q" "mt_pages m pn = Some q" "cache_ok (mt_pages m) c"
      "m = mt \<or> get_page pn mt = (q, m)"
    have "mt_inv m \<and> trace_map m = trace_map mt \<and> mt_rest m = mt_rest mt \<and>
        (\<forall>a r. mt_pages mt a = Some r \<longrightarrow> mt_pages m a = Some r)"
      using q(4) assms(1) get_page_valid [OF assms(1), of pn q m] by auto
    then show thesis using that [of q c m] l q by simp
  qed
qed

interpretation fetch_pages: page_source fetch_page_of
proof
  fix mt and pn :: u64
  assume a: "mt_inv mt" "pn \<noteq> 0"
  then have c: "cache_ok (mt_pages mt) (mt_fetch_cache mt)" by (simp add: mt_inv_def)
  show "\<exists>p mt'. fetch_page_of pn mt = (Some p, mt') \<and> mt_inv mt' \<and> mt_pages mt' pn = Some p \<and>
      trace_map mt' = trace_map mt \<and> mt_rest mt' = mt_rest mt \<and>
      (\<forall>q r. mt_pages mt q = Some r \<longrightarrow> mt_pages mt' q = Some r)"
    by (rule cached_lookup [OF a c]) (simp add: fetch_page_of_def mt_inv_fetch_cache)
qed

interpretation load_pages: page_source load_page_of
proof
  fix mt and pn :: u64
  assume a: "mt_inv mt" "pn \<noteq> 0"
  then have c: "cache_ok (mt_pages mt) (mt_load_cache mt)" by (simp add: mt_inv_def)
  show "\<exists>p mt'. load_page_of pn mt = (Some p, mt') \<and> mt_inv mt' \<and> mt_pages mt' pn = Some p \<and>
      trace_map mt' = trace_map mt \<and> mt_rest mt' = mt_rest mt \<and>
      (\<forall>q r. mt_pages mt q = Some r \<longrightarrow> mt_pages mt' q = Some r)"
    by (rule cached_lookup [OF a c]) (simp add: load_page_of_def mt_inv_load_cache)
qed

section \<open>Loads and stores\<close>

lemma unat_page: "unat (drop_bit 12 (addr :: u64)) = unat addr div 4096"
proof -
  have "unat addr < 2 ^ 64" using unsigned_less [of addr] by simp
  then have "take_bit 64 (unat addr) = unat addr" by (rule take_bit_nat_eq_self)
  then have "unat (drop_bit 12 addr) = drop_bit 12 (unat addr)" by (simp add: unsigned_drop_bit_eq)
  then show ?thesis by (simp add: drop_bit_eq_div)
qed

lemma unat_offset: "unat ((addr :: u64) AND 0xfff) = unat addr mod 4096"
proof -
  have "addr AND 0xfff = take_bit 12 addr" by (simp add: take_bit_eq_mask mask_eq_exp_minus_1)
  then have "unat (addr AND 0xfff) = take_bit 12 (unat addr)" by (simp add: unsigned_take_bit_eq)
  then show ?thesis by (simp add: take_bit_eq_mod)
qed

lemma page_number:
  fixes addr :: u64
  shows "unat (drop_bit 12 addr + 1) = unat (drop_bit 12 addr) + 1" and "drop_bit 12 addr + 1 \<noteq> 0"
proof -
  have "unat addr < 2 ^ 64" using unsigned_less [of addr] by simp
  then have "unat (drop_bit 12 addr) < 2 ^ 52" unfolding unat_page by simp
  then show s: "unat (drop_bit 12 addr + 1) = unat (drop_bit 12 addr) + 1"
    by (simp add: unat_word_ariths)
  show "drop_bit 12 addr + 1 \<noteq> 0" using s by (metis unsigned_0 add_eq_0_iff_both_eq_0 one_neq_zero)
qed

lemma page_nonzero: "drop_bit 12 (addr :: u64) \<noteq> 0 \<longleftrightarrow> 4096 \<le> unat addr"
  using unat_page [of addr] unat_eq_zero [of "drop_bit 12 addr"] by (metis div_eq_0_iff not_less zero_neq_numeral)

text \<open>One iteration of the byte loop followed by the rest of the loop.\<close>

lemma byte_then_rest:
  assumes "mt_inv m" and "mt_pages m q = Some p" and "off < 4096"
    and rest: "\<And>m1. mt_inv m1 \<Longrightarrow> mt_pages m1 q = Some p \<Longrightarrow> \<exists>m'. F m1 = Some m' \<and>
      recorded m1 m' (Suc (unat q * 4096 + off)) k (drop_bit (8 * Suc i) data)"
  shows "\<exists>m'. (case check_at 1 (Some p) off m of None \<Rightarrow> None
      | Some c \<Rightarrow> if c = 0 then (case put_at 1 (Some p) off (drop_bit (8 * i) data) m of None \<Rightarrow> None
          | Some m1 \<Rightarrow> F m1) else F m) = Some m' \<and>
     recorded m m' (unat q * 4096 + off) (Suc k) (drop_bit (8 * i) data)"
proof (cases "page_check 1 (mt_page_heap m p) off = 0")
  case True
  then obtain m1 where m1: "put_at 1 (Some p) off (drop_bit (8 * i) data) m = Some m1"
    "recorded m m1 (unat q * 4096 + off) 1 (drop_bit (8 * i) data)"
    using byte_recorded(1) [OF assms(1-3)] by blast
  then have "mt_inv m1" "mt_pages m1 q = Some p" using assms(2) by (auto simp: recorded_def)
  then obtain m' where "F m1 = Some m'"
    "recorded m1 m' (Suc (unat q * 4096 + off)) k (drop_bit (8 * Suc i) data)"
    using rest by blast
  then show ?thesis
    using True m1 recorded_step [OF m1(2)] by (simp add: check_at_def)
next
  case False
  obtain m' where "F m = Some m'"
    "recorded m m' (Suc (unat q * 4096 + off)) k (drop_bit (8 * Suc i) data)"
    using rest [OF assms(1,2)] by blast
  then show ?thesis
    using False recorded_step [OF byte_recorded(2) [OF assms(1-3) False]] by (simp add: check_at_def)
qed

lemma load_bytes_recorded:
  assumes "mt_inv mt" and "mt_pages mt q = Some p"
    and "0 \<le> offset + int i" and "offset + int i \<le> 4096"
    and "q = pn \<and> k \<le> 8 \<or> offset + int i + int k \<le> 4096"
    and "unat (pn + 1) = unat pn + 1" and "pn + 1 \<noteq> 0"
  shows "\<exists>mt'. load_bytes k i pn (Some p) offset data mt = Some mt' \<and>
     recorded mt mt' (unat q * 4096 + nat (offset + int i)) k (drop_bit (8 * i) data)"
  using assms
proof (induction k arbitrary: i offset mt p q)
  case 0
  then show ?case by (simp add: recorded_def)
next
  case (Suc k)
  show ?case
  proof (cases "offset + int i = 4096")
    case True
    then have q: "q = pn" and k: "Suc k \<le> 8" using Suc.prems(5) by auto
    obtain p' m where m: "load_page_of (pn + 1) mt = (Some p', m)" "mt_inv m"
      "mt_pages m (pn + 1) = Some p'"
      "\<And>mt'' a n d. recorded m mt'' a n d \<Longrightarrow> recorded mt mt'' a n d"
      by (rule load_pages.page_ofE [OF Suc.prems(1,7)]) (rule that)
    have "\<exists>mt'. load_bytes k (Suc i) pn (Some p') (offset - 4096) data m1 = Some mt' \<and>
        recorded m1 mt' (Suc (unat (pn + 1) * 4096 + 0)) k (drop_bit (8 * Suc i) data)"
      if "mt_inv m1" "mt_pages m1 (pn + 1) = Some p'" for m1
      using Suc.IH [OF that, of "offset - 4096" "Suc i"] True k Suc.prems(6,7) by simp
    note rest = byte_then_rest [OF m(2,3) zero_less_numeral this]
    have z: "nat (offset - 4096 + int i) = 0" using True by simp
    have "load_bytes (Suc k) i pn (Some p) offset data mt =
        (case check_at 1 (Some p') 0 m of None \<Rightarrow> None
         | Some c \<Rightarrow> if c = 0 then (case put_at 1 (Some p') 0 (drop_bit (8 * i) data) m of None \<Rightarrow> None
             | Some m1 \<Rightarrow> load_bytes k (Suc i) pn (Some p') (offset - 4096) data m1)
           else load_bytes k (Suc i) pn (Some p') (offset - 4096) data m)"
      using True m(1) by (simp add: Let_def z cong: option.case_cong if_cong)
    then obtain mt' where r: "load_bytes (Suc k) i pn (Some p) offset data mt = Some mt'"
      "recorded m mt' (unat (pn + 1) * 4096 + 0) (Suc k) (drop_bit (8 * i) data)"
      using rest by metis
    have "unat q * 4096 + nat (offset + int i) = unat (pn + 1) * 4096 + 0"
      using True q Suc.prems(6) by simp
    then show ?thesis using r(1) m(4) [OF r(2)] by metis
  next
    case False
    have off: "nat (offset + int i) < 4096" using False Suc.prems(3,4) by linarith
    have n: "nat (offset + int (Suc i)) = Suc (nat (offset + int i))" using Suc.prems(3) by linarith
    have "\<exists>mt'. load_bytes k (Suc i) pn (Some p) offset data m1 = Some mt' \<and>
        recorded m1 mt' (Suc (unat q * 4096 + nat (offset + int i))) k (drop_bit (8 * Suc i) data)"
      if "mt_inv m1" "mt_pages m1 q = Some p" for m1
      using Suc.IH [OF that, of offset "Suc i"] False n Suc.prems(3-7) by auto
    from byte_then_rest [OF Suc.prems(1,2) off this]
    show ?thesis using False by (simp add: Let_def)
  qed
qed

lemma mt_load_recorded:
  assumes "mt_inv mt" and "access_size n" and "4096 \<le> unat addr"
  obtains mt' where "mt_load n addr data mt = Some mt'" and "recorded mt mt' (unat addr) n data"
proof -
  let ?pn = "drop_bit 12 addr"
  define off where off: "off = unat (addr AND 0xfff)"
  have pn: "?pn \<noteq> 0" using assms(3) by (simp add: page_nonzero)
  have bound: "off < 4096" and a: "unat addr = unat ?pn * 4096 + off"
    by (simp_all only: off unat_offset unat_page) simp_all
  obtain p m where m: "load_page_of ?pn mt = (Some p, m)" "mt_inv m" "mt_pages m ?pn = Some p"
    "\<And>mt'' a n d. recorded m mt'' a n d \<Longrightarrow> recorded mt mt'' a n d"
    by (rule load_pages.page_ofE [OF assms(1) pn]) (rule that)
  have n8: "n \<le> 8" using assms(2) by (auto simp: access_size_def)
  obtain b where b: "load_bytes n 0 ?pn (Some p) (int off) data m = Some b"
    "recorded m b (unat addr) n data"
    using load_bytes_recorded [OF m(2,3), of "int off" 0 ?pn n data] bound n8 page_number [of addr] a
    by auto
  show thesis
  proof (cases "off mod n = 0")
    case True
    consider (none) "page_check n (mt_page_heap m p) off = 0"
      | (all) "page_check n (mt_page_heap m p) off \<noteq> 0" "page_check n (mt_page_heap m p) off = mask n"
      | (some) "page_check n (mt_page_heap m p) off \<noteq> 0" "page_check n (mt_page_heap m p) off \<noteq> mask n"
      by blast
    then show thesis
    proof cases
      case none
      obtain mt' where "put_at n (Some p) off data m = Some mt'" "recorded m mt' (unat addr) n data"
        using put_at_recorded [OF m(2,3) assms(2) True bound none] a by metis
      then show thesis using that m(1,4) True none by (simp add: mt_load_def check_at_def flip: off)
    next
      case all
      then have "\<forall>i < n. trace_map m (unat addr + i) \<noteq> None"
        using page_check_full [OF assms(2) True, of "mt_page_heap m p"]
          trace_map_page [OF m(3)] aligned_fits(2) [OF assms(2) True bound]
        by (simp add: a add.assoc)
      then have "recorded m m (unat addr) n data" by (rule recorded_refl [OF m(2)])
      then show thesis using that m(1,4) True all by (simp add: mt_load_def check_at_def flip: off)
    next
      case some
      then show thesis using that m(1,4) True b by (simp add: mt_load_def check_at_def flip: off)
    qed
  next
    case False
    then show thesis using that m(1,4) b by (simp add: mt_load_def flip: off)
  qed
qed

lemma store_hash_masked: "hash AND 255 = hash \<Longrightarrow> store_hash k shift hash AND 255 = store_hash k shift hash"
  by (induction k shift hash rule: store_hash.induct) (simp_all add: bit.conj_xor_distrib2 and.assoc)

lemma store_hash_bound: "unat (store_hash 8 addr 0) < STREC_SIZE"
proof -
  have "store_hash 8 addr 0 = store_hash 8 addr 0 AND 255" by (rule store_hash_masked [symmetric]) simp
  also have "\<dots> \<le> 255" by (rule word_and_le1)
  finally show ?thesis by (simp add: word_le_nat_alt STREC_SIZE_def)
qed

lemma mt_store_recorded:
  assumes "mt_inv mt" and "access_size n" and "4096 \<le> unat addr"
  obtains mt' where "mt_store n addr mt = Some mt'" and "mt_inv mt'"
    and "trace_map mt' = record_bytes (trace_map mt) (unat addr) n 0"
    and "mt_stores mt' = (mt_stores mt)(unat (store_hash 8 addr 0) := \<lparr>st_addr = addr, st_size = n\<rparr>)"
proof -
  obtain m where m: "mt_load n addr 0 mt = Some m" "recorded mt m (unat addr) n 0"
    by (rule mt_load_recorded [OF assms])
  define mt' where "mt' = m\<lparr>mt_stores := (mt_stores m)(unat (store_hash 8 addr 0) :=
      \<lparr>st_addr = addr, st_size = n\<rparr>)\<rparr>"
  have "trace_map mt' = trace_map m" by (auto simp: mt'_def trace_map_def cong: if_cong option.case_cong)
  then have "mt_inv mt'" "trace_map mt' = record_bytes (trace_map mt) (unat addr) n 0"
    using m(2) by (auto simp: recorded_def mt'_def mt_inv_def)
  moreover have "mt_stores mt' = (mt_stores mt)(unat (store_hash 8 addr 0) := \<lparr>st_addr = addr, st_size = n\<rparr>)"
    using m(2) by (simp add: recorded_def mt'_def mt_rest_def)
  ultimately show thesis using that [of mt'] m(1) by (simp add: mt_store_def mt'_def Let_def)
qed

section \<open>Instruction fetches\<close>

text \<open>
  The fetch of \<open>n\<close> bytes on one page, when the bytes are all untouched or all recorded. The
  remaining case, where the source writes at the wrong offset, is excluded by the last premise.
\<close>

lemma fetch_in_page_recorded:
  assumes "mt_inv mt" and "mt_pages mt q = Some p" and "access_size n" and "off mod n = 0"
    and "off < 4096"
    and "(\<forall>i < n. trace_map mt (unat q * 4096 + off + i) = None) \<or>
      (\<forall>i < n. trace_map mt (unat q * 4096 + off + i) \<noteq> None)"
  obtains mt' where "fetch_in_page n (Some p) off inst mt =
      Some (\<forall>i < n. trace_map mt (unat q * 4096 + off + i) = None, mt')"
    and "recorded mt mt' (unat q * 4096 + off) n inst"
proof -
  have n: "0 < n" using assms(3) by (auto simp: access_size_def)
  have view: "trace_map mt (unat q * 4096 + off + i) = page_view (mt_page_heap mt p) (off + i)" if "i < n" for i
    using trace_map_page [OF assms(2), of "off + i"] aligned_fits(2) [OF assms(3,4,5)] that
    by (simp add: add.assoc)
  show thesis
  proof (cases "\<forall>i < n. trace_map mt (unat q * 4096 + off + i) = None")
    case True
    then have c: "page_check n (mt_page_heap mt p) off = 0"
      using page_check_0 [OF assms(3,4)] view by simp
    obtain mt' where "put_at n (Some p) off inst mt = Some mt'" "recorded mt mt' (unat q * 4096 + off) n inst"
      by (rule put_at_recorded [OF assms(1-5) c])
    then show thesis using that True c by (simp add: fetch_in_page_def check_at_def)
  next
    case False
    then have all: "\<forall>i < n. trace_map mt (unat q * 4096 + off + i) \<noteq> None" using assms(6) by blast
    then have f: "page_check n (mt_page_heap mt p) off = mask n"
      using page_check_full [OF assms(3,4)] view by simp
    have z: "page_check n (mt_page_heap mt p) off \<noteq> 0"
      using page_check_0 [OF assms(3,4)] view all n by fastforce
    have "recorded mt mt (unat q * 4096 + off) n inst" by (rule recorded_refl [OF assms(1) all])
    then show thesis using that False f z by (simp add: fetch_in_page_def check_at_def)
  qed
qed

text \<open>The execution counter of an instruction is incremented and nothing else is.\<close>

lemma get_exec_valid:
  assumes "mt_inv mt" and "get_exec pn mt = (p, mt')"
  shows "mt_inv mt'" and "mt_execs mt' pn = Some p" and "exec_map mt' = exec_map mt"
    and "trace_map mt' = trace_map mt" and "mt_pages mt' = mt_pages mt" and "mt_stores mt' = mt_stores mt"
proof -
  have fresh: "mt_execs mt q \<noteq> Some (mt_exec_next mt)" for q
    using assms(1) by (auto simp: mt_inv_def heap_map_ok_def)
  show "mt_execs mt' pn = Some p" "mt_pages mt' = mt_pages mt" "mt_stores mt' = mt_stores mt"
    using assms(2) by (auto simp: get_exec_def split: option.splits)
  show "trace_map mt' = trace_map mt"
    using assms(2) by (auto simp: get_exec_def trace_map_def split: option.splits
        cong: if_cong option.case_cong)
  show "exec_map mt' = exec_map mt"
    using assms(2) fresh by (fastforce simp: get_exec_def exec_map_def ExecRec_new_def split: option.splits)
  show "mt_inv mt'"
  proof (cases "mt_execs mt pn")
    case None
    have "cache_ok (mt_execs mt) c \<Longrightarrow> cache_ok ((mt_execs mt)(pn \<mapsto> k)) c" for c k
      using None by (auto simp: cache_ok_def)
    then show ?thesis using assms None heap_map_ok_insert by (auto simp: get_exec_def mt_inv_def)
  qed (use assms in \<open>simp add: get_exec_def\<close>)
qed

lemma get_exec_counter_valid:
  assumes "mt_inv mt" and "4096 \<le> unat addr"
  obtains p mt' where "get_exec_counter addr mt = ((Some p, unat (addr AND 0xfff) div 2), mt')"
    and "mt_inv mt'" and "mt_execs mt' (drop_bit 12 addr) = Some p" and "exec_map mt' = exec_map mt"
    and "trace_map mt' = trace_map mt" and "mt_stores mt' = mt_stores mt"
proof (cases "drop_bit 12 addr = pc_idx (mt_exec_cache mt)")
  case True
  then obtain p where "pc_ptr (mt_exec_cache mt) = Some p" "mt_execs mt (drop_bit 12 addr) = Some p"
    using assms page_nonzero [of addr] by (auto simp: mt_inv_def cache_ok_def)
  then show thesis using that True assms(1) by (simp add: get_exec_counter_def Let_def)
next
  case False
  obtain p m where g: "get_exec (drop_bit 12 addr) mt = (p, m)" by fastforce
  define m' where "m' = m\<lparr>mt_exec_cache := \<lparr>pc_idx = drop_bit 12 addr, pc_ptr = Some p\<rparr>\<rparr>"
  have e: "exec_map m' = exec_map m" "trace_map m' = trace_map m"
    by (auto simp: m'_def exec_map_def trace_map_def cong: if_cong option.case_cong)
  have "mt_inv m'" "mt_execs m' (drop_bit 12 addr) = Some p" "mt_stores m' = mt_stores mt"
    using get_exec_valid [OF assms(1) g] by (auto simp: m'_def mt_inv_def cache_ok_def)
  moreover have "get_exec_counter addr mt = ((Some p, unat (addr AND 0xfff) div 2), m')"
    using False g by (simp add: get_exec_counter_def m'_def Let_def)
  ultimately show thesis using that e get_exec_valid(3,4) [OF assms(1) g] by simp
qed

lemma exec_map_page:
  assumes "mt_inv mt" and "mt_execs mt q = Some p"
  shows "exec_map (mt\<lparr>mt_exec_heap := (mt_exec_heap mt)(p := er)\<rparr>) (unat a) =
     (if drop_bit 12 a = q then exec_count er (unat (a AND 0xfff) div 2) else exec_map mt (unat a))"
proof -
  have "of_nat (unat (drop_bit 12 a)) = drop_bit 12 a" by simp
  then have w: "of_nat (unat a div 4096) = drop_bit 12 a" by (simp only: unat_page)
  have "mt_execs mt b = Some p \<Longrightarrow> b = q" for b
    using assms unfolding mt_inv_def heap_map_ok_def by blast
  then have "drop_bit 12 a \<noteq> q \<Longrightarrow> mt_execs mt (drop_bit 12 a) \<noteq> Some p" by blast
  then show ?thesis
    using assms(2) unfolding exec_map_def w unat_offset
    by (cases "drop_bit 12 a = q") (simp_all split: option.split)
qed

definition same_half :: "u64 \<Rightarrow> u64 \<Rightarrow> bool" where
  "same_half a b \<longleftrightarrow> unat a div 2 = unat b div 2"

lemma same_half_iff:
  "same_half a b \<longleftrightarrow> drop_bit 12 a = drop_bit 12 b \<and> unat (a AND 0xfff) div 2 = unat (b AND 0xfff) div 2"
proof -
  have "drop_bit 12 a = drop_bit 12 b \<longleftrightarrow> unat a div 4096 = unat b div 4096"
    by (metis unat_page word_unat_eq_iff)
  moreover have "x div 4096 = x div 2 div 2048" "x mod 4096 div 2 = x div 2 mod 2048" for x :: nat
    using mod_mult2_eq [of x 2 2048] by (simp_all flip: div_mult2_eq)
  ultimately show ?thesis unfolding same_half_def unat_offset by (metis div_mult_mod_eq)
qed

lemma bump_exec_counter_valid:
  assumes "mt_inv mt" and "4096 \<le> unat addr"
  obtains mt' where "bump_exec_counter addr mt = Some mt'" and "mt_inv mt'"
    and "\<And>a. exec_map mt' (unat a) = exec_map mt (unat a) + (if same_half a addr then 1 else 0)"
    and "trace_map mt' = trace_map mt" and "mt_stores mt' = mt_stores mt"
proof -
  obtain p m where c: "get_exec_counter addr mt = ((Some p, unat (addr AND 0xfff) div 2), m)"
    and m: "mt_inv m" "mt_execs m (drop_bit 12 addr) = Some p" "exec_map m = exec_map mt"
    "trace_map m = trace_map mt" "mt_stores m = mt_stores mt"
    by (rule get_exec_counter_valid [OF assms])
  define er where "er = (mt_exec_heap m p)\<lparr>exec_count := (exec_count (mt_exec_heap m p))
      (unat (addr AND 0xfff) div 2 := exec_count (mt_exec_heap m p) (unat (addr AND 0xfff) div 2) + 1)\<rparr>"
  define m' where "m' = m\<lparr>mt_exec_heap := (mt_exec_heap m)(p := er)\<rparr>"
  have b: "bump_exec_counter addr mt = Some m'"
    by (simp add: bump_exec_counter_def c m'_def er_def)
  have i: "mt_inv m'" using m(1) by (simp add: mt_inv_def m'_def)
  have t: "trace_map m' = trace_map mt"
    unfolding m(4) [symmetric] by (auto simp: m'_def trace_map_def cong: if_cong option.case_cong)
  have s: "mt_stores m' = mt_stores mt" by (simp add: m'_def m(5))
  have "exec_map m (unat a) = exec_count (mt_exec_heap m p) (unat (a AND 0xfff) div 2)"
    if "drop_bit 12 a = drop_bit 12 addr" for a
    using exec_map_page [OF m(1,2), of "mt_exec_heap m p" a] that by simp
  then have "exec_map m' (unat a) = exec_map mt (unat a) + (if same_half a addr then 1 else 0)" for a
    unfolding m(3) [symmetric] m'_def exec_map_page [OF m(1,2)] same_half_iff
    by (auto simp: er_def)
  then show thesis using that [OF b i _ t s] by blast
qed

lemma record_bytes_cong:
  "(\<And>i. i < n \<Longrightarrow> byte_of d i = byte_of e i) \<Longrightarrow> record_bytes m a n d = record_bytes m a n e"
  by (auto simp: record_bytes_def fun_eq_iff)

lemma record_bytes_split:
  "record_bytes (record_bytes m a 2 d) (a + 2) 2 (drop_bit 16 d) = record_bytes m a 4 d"
proof
  fix x
  have "byte_of (drop_bit 16 d) (x - (a + 2)) = byte_of d (x - a)" if "a + 2 \<le> x"
  proof -
    have "x - a = 2 + (x - (a + 2))" using that by linarith
    then show ?thesis using byte_of_drop [of 2 d "x - (a + 2)"] by simp
  qed
  then show "record_bytes (record_bytes m a 2 d) (a + 2) 2 (drop_bit 16 d) x = record_bytes m a 4 d x"
    by (auto simp: record_bytes_def)
qed

text \<open>The bytes of the range are all untouched, or all recorded.\<close>

definition uniform :: "(nat \<Rightarrow> u8 option) \<Rightarrow> nat \<Rightarrow> nat \<Rightarrow> bool" where
  "uniform m a n \<longleftrightarrow> (\<forall>i < n. m (a + i) = None) \<or> (\<forall>i < n. m (a + i) \<noteq> None)"

definition fresh_span :: "(nat \<Rightarrow> u8 option) \<Rightarrow> nat \<Rightarrow> nat \<Rightarrow> bool" where
  "fresh_span m a n \<longleftrightarrow> (\<forall>i < n. m (a + i) = None)"

text \<open>What the fetch of one unit of 2 or 4 bytes does.\<close>

definition fetched :: "mem_trace \<Rightarrow> bool \<Rightarrow> mem_trace \<Rightarrow> nat \<Rightarrow> nat \<Rightarrow> u64 \<Rightarrow> bool" where
  "fetched mt first mt' a n inst \<longleftrightarrow>
     first = fresh_span (trace_map mt) a n \<and> recorded mt mt' a n inst"

lemma fetch_unit:
  assumes "mt_inv mt" and "mt_pages mt q = Some p" and "access_size n" and "off mod n = 0"
    and "off < 4096" and "uniform (trace_map mt) (unat q * 4096 + off) n"
    and "\<forall>i < n. byte_of d i = byte_of inst i"
  obtains first mt' where "fetch_in_page n (Some p) off d mt = Some (first, mt')"
    and "fetched mt first mt' (unat q * 4096 + off) n inst"
proof -
  obtain mt' where f: "fetch_in_page n (Some p) off d mt =
      Some (\<forall>i < n. trace_map mt (unat q * 4096 + off + i) = None, mt')"
    "recorded mt mt' (unat q * 4096 + off) n d"
    by (rule fetch_in_page_recorded [OF assms(1-5) assms(6) [unfolded uniform_def]])
  have "recorded mt mt' (unat q * 4096 + off) n inst"
    using f(2) record_bytes_cong [of n d inst] assms(7) by (simp add: recorded_def)
  then show thesis using that f(1) by (simp add: fetched_def fresh_span_def)
qed

definition fetch_ok :: "(nat \<Rightarrow> u8 option) \<Rightarrow> u64 \<Rightarrow> nat \<Rightarrow> bool" where
  "fetch_ok m addr len \<longleftrightarrow> 4096 \<le> unat addr \<and> unat addr mod 2 = 0 \<and>
     (len = 2 \<and> uniform m (unat addr) 2 \<or>
      len = 4 \<and> (if unat addr mod 4 = 0 then uniform m (unat addr) 4
        else uniform m (unat addr) 2 \<and> uniform m (unat addr + 2) 2))"

lemma low_bytes:
  "\<forall>i < 2. byte_of (w AND 0xffff) i = byte_of w i"
  "\<forall>i < 4. byte_of (w AND 0xffffffff) i = byte_of w i"
  using byte_of_mask [of w 2] byte_of_mask [of w 4] by (simp_all add: mask_eq_exp_minus_1)

lemma offset_mod: "n dvd 4096 \<Longrightarrow> unat ((addr :: u64) AND 0xfff) mod n = unat addr mod n"
  by (simp add: unat_offset mod_mod_cancel)

lemma and_3_iff: "(addr :: u64) AND 3 = 0 \<longleftrightarrow> unat addr mod 4 = 0"
proof -
  have "addr AND 3 = take_bit 2 addr" by (simp add: take_bit_eq_mask mask_eq_exp_minus_1)
  then have "unat (addr AND 3) = take_bit 2 (unat addr)" by (simp add: unsigned_take_bit_eq)
  then have "unat (addr AND 3) = unat addr mod 4" by (simp add: take_bit_eq_mod)
  then show ?thesis by (metis unat_eq_zero)
qed

lemma fetched_uniform_frame:
  assumes "fetched mt first mt' a n inst" and "uniform (trace_map mt) b k" and "a + n \<le> b"
  shows "uniform (trace_map mt') b k" and "fresh_span (trace_map mt') b k = fresh_span (trace_map mt) b k"
proof -
  have "trace_map mt' (b + i) = trace_map mt (b + i)" for i
    using assms(1,3) by (simp add: fetched_def recorded_def record_bytes_def)
  then show "uniform (trace_map mt') b k" "fresh_span (trace_map mt') b k = fresh_span (trace_map mt) b k"
    using assms(2) by (simp_all add: uniform_def fresh_span_def)
qed

lemma fetched_join:
  assumes "fetched mt f1 m a 2 inst" and "recorded m m' x 0 d" and "fetched m' f2 mt' (a + 2) 2 (drop_bit 16 inst)"
  shows "fetched mt (f1 \<and> f2) mt' a 4 inst"
proof -
  have t: "trace_map m' = trace_map m" using assms(2) by (simp add: recorded_def)
  have "trace_map m (a + 2 + i) = trace_map mt (a + 2 + i)" for i
    using assms(1) by (simp add: fetched_def recorded_def record_bytes_def)
  then have "fresh_span (trace_map m') (a + 2) 2 = fresh_span (trace_map mt) (a + 2) 2"
    by (simp add: t fresh_span_def)
  moreover have "fresh_span (trace_map mt) a 4 \<longleftrightarrow> fresh_span (trace_map mt) a 2 \<and> fresh_span (trace_map mt) (a + 2) 2"
  proof -
    have "(i :: nat) < 4 \<longleftrightarrow> i < 2 \<or> (\<exists>j < 2. i = 2 + j)" for i by presburger
    then show ?thesis unfolding fresh_span_def by (auto simp: add.assoc)
  qed
  ultimately show ?thesis
    using assms record_bytes_split [of "trace_map mt" a inst]
    by (auto simp: fetched_def recorded_def t)
qed

lemma fetch_page_recorded:
  assumes "mt_inv mt" and "pn \<noteq> 0"
  obtains p m where "fetch_page_of pn mt = (Some p, m)" and "mt_inv m" and "mt_pages m pn = Some p"
    and "recorded mt m x 0 d"
proof (rule fetch_pages.page_ofE [OF assms])
  fix p m
  assume a: "fetch_page_of pn mt = (Some p, m)" "mt_inv m" "mt_pages m pn = Some p"
    "trace_map m = trace_map mt" "mt_rest m = mt_rest mt"
    "\<And>q r. mt_pages mt q = Some r \<Longrightarrow> mt_pages m q = Some r"
  then have "recorded mt m x 0 d" by (simp add: recorded_def)
  with a(1-3) show thesis by (rule that)
qed

lemma recorded_0_fetched:
  assumes "recorded mt m x 0 e" and "fetched m first mt' a n inst"
  shows "fetched mt first mt' a n inst"
  using assms by (auto simp: fetched_def recorded_def)

lemma mt_fetch_half:
  assumes "mt_inv mt" and "4096 \<le> unat addr" and "unat addr mod 2 = 0"
    and "n = 2 \<or> n = 4 \<and> unat addr mod 4 = 0" and "uniform (trace_map mt) (unat addr) n"
    and "\<forall>i < n. byte_of d i = byte_of inst i"
  obtains p m first mt' where "fetch_page_of (drop_bit 12 addr) mt = (Some p, m)"
    and "fetch_in_page n (Some p) (unat (addr AND 0xfff)) d m = Some (first, mt')"
    and "fetched mt first mt' (unat addr) n inst" and "mt_pages mt' (drop_bit 12 addr) = Some p"
proof -
  define off where off: "off = unat (addr AND 0xfff)"
  have pn: "drop_bit 12 addr \<noteq> 0" using assms(2) by (simp add: page_nonzero)
  have bound: "off < 4096" and a: "unat addr = unat (drop_bit 12 addr) * 4096 + off"
    by (simp_all only: off unat_offset unat_page) simp_all
  have al: "access_size n" "off mod n = 0"
    using assms(3,4) offset_mod [of n addr] by (auto simp: access_size_def off)
  obtain p m where m: "fetch_page_of (drop_bit 12 addr) mt = (Some p, m)" "mt_inv m"
    "mt_pages m (drop_bit 12 addr) = Some p" "recorded mt m 0 0 0"
    by (rule fetch_page_recorded [OF assms(1) pn])
  have "uniform (trace_map m) (unat (drop_bit 12 addr) * 4096 + off) n"
    using assms(5) m(4) by (simp add: recorded_def a)
  then obtain first mt' where f: "fetch_in_page n (Some p) off d m = Some (first, mt')"
    "fetched m first mt' (unat (drop_bit 12 addr) * 4096 + off) n inst"
    using fetch_unit [OF m(2,3) al bound _ assms(6)] by blast
  then show thesis
    using that [OF m(1)] recorded_0_fetched [OF m(4) f(2)] m(3) off a
    by (simp add: fetched_def recorded_def)
qed

text \<open>
  \<open>fetched_once mt first mt' addr len inst\<close>: the specification of \<^verbatim>\<open>fetch\<close>. The untouched
  bytes of the instruction are recorded, the result tells whether all of them were untouched, and
  the counter of the instruction's halfword goes up by one.
\<close>

definition fetched_once :: "mem_trace \<Rightarrow> bool \<Rightarrow> mem_trace \<Rightarrow> u64 \<Rightarrow> nat \<Rightarrow> u64 \<Rightarrow> bool" where
  "fetched_once mt first mt' addr len inst \<longleftrightarrow> mt_inv mt' \<and>
     first = fresh_span (trace_map mt) (unat addr) len \<and>
     trace_map mt' = record_bytes (trace_map mt) (unat addr) len inst \<and>
     mt_stores mt' = mt_stores mt \<and>
     (\<forall>a. exec_map mt' (unat a) = exec_map mt (unat a) + (if same_half a addr then 1 else 0))"

lemma exec_map_rest: "mt_rest m = mt_rest m' \<Longrightarrow> exec_map m = exec_map m'"
  by (rule ext) (auto simp: exec_map_def mt_rest_def split: option.split)

lemma fetched_onceI:
  assumes "trace_map m = trace_map mt" and "mt_stores m = mt_stores mt"
    and "\<And>a. exec_map m (unat a) = exec_map mt (unat a) + (if same_half a addr then 1 else 0)"
    and "fetched m first mt' (unat addr) len inst"
  shows "fetched_once mt first mt' addr len inst"
  using assms exec_map_rest [of mt' m]
  by (auto simp: fetched_once_def fetched_def recorded_def mt_rest_def)

lemma second_half:
  assumes "fetched b f1 m (unat addr) 2 inst" and "mt_pages m (drop_bit 12 addr) = Some p"
    and "unat addr mod 4 = 2" and "uniform (trace_map b) (unat addr + 2) 2"
    and "off = unat (addr AND 0xfff)"
  obtains page off' m4 f2 mt' where
    "(if off + 2 = 4096 then let (q, m') = fetch_page_of (drop_bit 12 addr + 1) m in (q, 0, m')
      else (Some p, off + 2, m)) = (page, off', m4)"
    and "fetch_in_page 2 page off' (drop_bit 16 inst AND 0xffff) m4 = Some (f2, mt')"
    and "fetched b (f1 \<and> f2) mt' (unat addr) 4 inst"
proof -
  have m: "mt_inv m" using assms(1) by (simp add: fetched_def recorded_def)
  have bound: "off < 4096" and a: "unat addr = unat (drop_bit 12 addr) * 4096 + off"
    by (simp_all only: assms(5) unat_offset unat_page) simp_all
  have off: "off mod 4 = 2" using assms(3) offset_mod [of 4 addr] by (simp add: assms(5))
  have two: "access_size 2" by (simp add: access_size_def)
  have u: "uniform (trace_map m) (unat addr + 2) 2"
    by (rule fetched_uniform_frame(1) [OF assms(1,4)]) simp
  show thesis
  proof (cases "off + 2 = 4096")
    case True
    obtain q m4 where f: "fetch_page_of (drop_bit 12 addr + 1) m = (Some q, m4)" "mt_inv m4"
      "mt_pages m4 (drop_bit 12 addr + 1) = Some q" "recorded m m4 0 0 0"
      by (rule fetch_page_recorded [OF m page_number(2)])
    have x: "unat (drop_bit 12 addr + 1) * 4096 + 0 = unat addr + 2"
      using True by (simp add: page_number(1) a)
    have "uniform (trace_map m4) (unat (drop_bit 12 addr + 1) * 4096 + 0) 2"
      using u f(4) unfolding x by (simp add: recorded_def)
    then obtain f2 mt' where g: "fetch_in_page 2 (Some q) 0 (drop_bit 16 inst AND 0xffff) m4 = Some (f2, mt')"
      "fetched m4 f2 mt' (unat (drop_bit 12 addr + 1) * 4096 + 0) 2 (drop_bit 16 inst)"
      by (rule fetch_unit [OF f(2,3) two mod_0 zero_less_numeral _ low_bytes(1)])
    show thesis
      using that [OF _ g(1) fetched_join [OF assms(1) f(4) g(2) [unfolded x]]] True f(1) by simp
  next
    case False
    have l: "off + 2 < 4096" "(off + 2) mod 2 = 0" using False bound off by presburger+
    have x: "unat (drop_bit 12 addr) * 4096 + (off + 2) = unat addr + 2" by (simp add: a)
    have "uniform (trace_map m) (unat (drop_bit 12 addr) * 4096 + (off + 2)) 2" using u unfolding x .
    then obtain f2 mt' where g: "fetch_in_page 2 (Some p) (off + 2) (drop_bit 16 inst AND 0xffff) m = Some (f2, mt')"
      "fetched m f2 mt' (unat (drop_bit 12 addr) * 4096 + (off + 2)) 2 (drop_bit 16 inst)"
      by (rule fetch_unit [OF m assms(2) two l(2,1) _ low_bytes(1)])
    have "recorded m m 0 0 0" using m by (simp add: recorded_def)
    then show thesis
      using that [OF _ g(1) fetched_join [OF assms(1) _ g(2) [unfolded x]]] False by simp
  qed
qed

lemma mt_fetch_recorded:
  assumes "mt_inv mt" and "fetch_ok (trace_map mt) addr len"
  obtains first mt' where "mt_fetch addr inst len mt = Some (first, mt')"
    and "fetched_once mt first mt' addr len inst"
proof -
  have a: "4096 \<le> unat addr" "unat addr mod 2 = 0" using assms(2) by (simp_all add: fetch_ok_def)
  obtain b where b: "bump_exec_counter addr mt = Some b" "mt_inv b" "trace_map b = trace_map mt"
    "mt_stores b = mt_stores mt"
    and x: "\<And>a. exec_map b (unat a) = exec_map mt (unat a) + (if same_half a addr then 1 else 0)"
    by (rule bump_exec_counter_valid [OF assms(1) a(1)]) (rule that)
  note once = fetched_onceI [OF b(3,4) x]
  have two: "2 = (2 :: nat) \<or> 2 = (4 :: nat) \<and> unat addr mod 4 = 0" by simp
  consider (two) "len = 2" "uniform (trace_map b) (unat addr) 2"
    | (four) "len = 4" "unat addr mod 4 = 0" "uniform (trace_map b) (unat addr) 4"
    | (halves) "len = 4" "unat addr mod 4 \<noteq> 0" "uniform (trace_map b) (unat addr) 2"
      "uniform (trace_map b) (unat addr + 2) 2"
    using assms(2) b(3) by (auto simp: fetch_ok_def split: if_splits)
  then show thesis
  proof cases
    case two
    obtain p m f m' where h: "fetch_page_of (drop_bit 12 addr) b = (Some p, m)"
      "fetch_in_page 2 (Some p) (unat (addr AND 0xfff)) (inst AND 0xffff) m = Some (f, m')"
      "fetched b f m' (unat addr) 2 inst"
      by (rule mt_fetch_half [OF b(2) a \<open>2 = 2 \<or> _\<close> two(2) low_bytes(1)]) (rule that)
    show thesis using that once [OF h(3)] h two(1) b(1) by (simp add: mt_fetch_def)
  next
    case four
    obtain p m f m' where h: "fetch_page_of (drop_bit 12 addr) b = (Some p, m)"
      "fetch_in_page 4 (Some p) (unat (addr AND 0xfff)) (inst AND 0xffffffff) m = Some (f, m')"
      "fetched b f m' (unat addr) 4 inst"
      by (rule mt_fetch_half [OF b(2) a _ four(3) low_bytes(2)]) (use four(2) in simp, rule that)
    show thesis
      using that once [OF h(3)] h four(1,2) b(1) and_3_iff [of addr] by (simp add: mt_fetch_def)
  next
    case halves
    obtain p m f1 m3 where h: "fetch_page_of (drop_bit 12 addr) b = (Some p, m)"
      "fetch_in_page 2 (Some p) (unat (addr AND 0xfff)) (inst AND 0xffff) m = Some (f1, m3)"
      "fetched b f1 m3 (unat addr) 2 inst" "mt_pages m3 (drop_bit 12 addr) = Some p"
      by (rule mt_fetch_half [OF b(2) a \<open>2 = 2 \<or> _\<close> halves(3) low_bytes(1)]) (rule that)
    have r: "unat addr mod 4 = 2" using halves(2) a(2) by presburger
    obtain page off' m4 f2 mt' where s:
      "(if unat (addr AND 0xfff) + 2 = 4096
        then let (q, m') = fetch_page_of (drop_bit 12 addr + 1) m3 in (q, 0, m')
        else (Some p, unat (addr AND 0xfff) + 2, m3)) = (page, off', m4)"
      "fetch_in_page 2 page off' (drop_bit 16 inst AND 0xffff) m4 = Some (f2, mt')"
      "fetched b (f1 \<and> f2) mt' (unat addr) 4 inst"
      by (rule second_half [OF h(3,4) r halves(4) refl])
    have "mt_fetch addr inst len mt = Some (f1 \<and> f2, mt')"
      using halves(1,2) and_3_iff [of addr] h(1,2) s(1,2) b(1) unfolding mt_fetch_def Let_def by simp
    then show thesis using that once [OF s(3)] halves(1) by simp
  qed
qed

section \<open>Replaying a checkpoint\<close>

text \<open>
  The accesses of the simulated program as \<^verbatim>\<open>mmu_proxy\<close> performs them: the value is
  read from or written to guest memory and reported to the recorder. The guest memory is a flat
  array of bytes.
\<close>

datatype access = Fetch u64 nat | Load nat u64 | Store nat u64 u64

fun read_mem :: "(nat \<Rightarrow> u8) \<Rightarrow> nat \<Rightarrow> nat \<Rightarrow> u64" where
  "read_mem gm a 0 = 0"
| "read_mem gm a (Suc n) = ucast (gm a) OR push_bit 8 (read_mem gm (Suc a) n)"

definition write_mem :: "(nat \<Rightarrow> u8) \<Rightarrow> nat \<Rightarrow> nat \<Rightarrow> u64 \<Rightarrow> nat \<Rightarrow> u8" where
  "write_mem gm a n d x = (if a \<le> x \<and> x < a + n then byte_of d (x - a) else gm x)"

fun access_value :: "(nat \<Rightarrow> u8) \<Rightarrow> access \<Rightarrow> u64" where
  "access_value gm (Fetch addr len) = read_mem gm (unat addr) len"
| "access_value gm (Load n addr) = read_mem gm (unat addr) n"
| "access_value gm (Store n addr d) = 0"

fun access_mem :: "(nat \<Rightarrow> u8) \<Rightarrow> access \<Rightarrow> nat \<Rightarrow> u8" where
  "access_mem gm (Store n addr d) = write_mem gm (unat addr) n d"
| "access_mem gm _ = gm"

fun access_trace :: "(nat \<Rightarrow> u8) \<Rightarrow> access \<Rightarrow> mem_trace \<Rightarrow> mem_trace option" where
  "access_trace gm (Fetch addr len) mt = map_option snd (mt_fetch addr (read_mem gm (unat addr) len) len mt)"
| "access_trace gm (Load n addr) mt = mt_load n addr (read_mem gm (unat addr) n) mt"
| "access_trace gm (Store n addr d) mt = mt_store n addr mt"

text \<open>The values a sequence of accesses reads, with and without the recorder.\<close>

fun run_values :: "(nat \<Rightarrow> u8) \<Rightarrow> access list \<Rightarrow> u64 list" where
  "run_values gm [] = []"
| "run_values gm (a # as) = access_value gm a # run_values (access_mem gm a) as"

fun run_traced :: "(nat \<Rightarrow> u8) \<Rightarrow> access list \<Rightarrow> mem_trace \<Rightarrow> mem_trace option" where
  "run_traced gm [] mt = Some mt"
| "run_traced gm (a # as) mt =
     (case access_trace gm a mt of None \<Rightarrow> None | Some mt' \<Rightarrow> run_traced (access_mem gm a) as mt')"

text \<open>The abstract recorder.\<close>

fun record_access :: "(nat \<Rightarrow> u8) \<Rightarrow> access \<Rightarrow> (nat \<Rightarrow> u8 option) \<Rightarrow> nat \<Rightarrow> u8 option" where
  "record_access gm (Fetch addr len) m = record_bytes m (unat addr) len (read_mem gm (unat addr) len)"
| "record_access gm (Load n addr) m = record_bytes m (unat addr) n (read_mem gm (unat addr) n)"
| "record_access gm (Store n addr d) m = record_bytes m (unat addr) n 0"

fun record_run :: "(nat \<Rightarrow> u8) \<Rightarrow> access list \<Rightarrow> (nat \<Rightarrow> u8 option) \<Rightarrow> nat \<Rightarrow> u8 option" where
  "record_run gm [] m = m"
| "record_run gm (a # as) m = record_run (access_mem gm a) as (record_access gm a m)"

text \<open>
  The accesses the recorder is built for: power-of-two sizes, nothing on page zero, halfword
  aligned fetches of whole instructions that do not overlap a partially recorded unit.
\<close>

fun access_ok :: "(nat \<Rightarrow> u8 option) \<Rightarrow> access \<Rightarrow> bool" where
  "access_ok m (Fetch addr len) = fetch_ok m addr len"
| "access_ok m (Load n addr) = (access_size n \<and> 4096 \<le> unat addr)"
| "access_ok m (Store n addr d) = (access_size n \<and> 4096 \<le> unat addr)"

fun run_ok :: "(nat \<Rightarrow> u8) \<Rightarrow> access list \<Rightarrow> (nat \<Rightarrow> u8 option) \<Rightarrow> bool" where
  "run_ok gm [] m = True"
| "run_ok gm (a # as) m = (access_ok m a \<and> run_ok (access_mem gm a) as (record_access gm a m))"

lemma byte_of_ucast: "byte_of (ucast (b :: u8)) i = (if i = 0 then b else 0)"
  by (rule bit_word_eqI) (auto simp: byte_of_def bit_ucast_iff bit_drop_bit_eq dest: bit_imp_le_length)

lemma byte_of_read_mem: "n \<le> 8 \<Longrightarrow> i < n \<Longrightarrow> byte_of (read_mem gm a n) i = gm (a + i)"
proof (induction gm a n arbitrary: i rule: read_mem.induct)
  case (2 gm a n)
  have "byte_of (push_bit 8 (read_mem gm (Suc a) n)) i = (if i = 0 then 0 else gm (a + i))"
    using 2 byte_of_push [of 1 "read_mem gm (Suc a) n" i] by (cases i) auto
  then show ?case by (simp add: byte_of_or byte_of_ucast)
qed simp

lemma read_mem_cong: "(\<And>i. i < n \<Longrightarrow> gm (a + i) = gm' (a + i)) \<Longrightarrow> read_mem gm a n = read_mem gm' a n"
proof (induction n arbitrary: a)
  case (Suc n)
  have "gm a = gm' a" using Suc.prems [of 0] by simp
  moreover have "read_mem gm (Suc a) n = read_mem gm' (Suc a) n"
    by (rule Suc.IH) (use Suc.prems in \<open>metis Suc_less_eq add_Suc add_Suc_right\<close>)
  ultimately show ?case by simp
qed simp

lemma record_bytes_keeps: "m x = Some b \<Longrightarrow> record_bytes m a n d x = Some b"
  by (simp add: record_bytes_def)

lemma record_access_keeps: "m x = Some b \<Longrightarrow> record_access gm a m x = Some b"
  by (cases a) (simp_all add: record_bytes_keeps)

lemma record_run_keeps: "m x = Some b \<Longrightarrow> record_run gm as m x = Some b"
  by (induction gm as m rule: record_run.induct) (simp_all add: record_access_keeps)

text \<open>
  The heart of the replay argument: a memory that agrees with the original on what is already
  recorded, and holds the recorded image elsewhere, yields the same values.
\<close>

lemma replay_values:
  assumes "run_ok gm as m"
    and "\<And>x. m x \<noteq> None \<Longrightarrow> gm x = gm' x"
    and "\<And>x b. m x = None \<Longrightarrow> record_run gm as m x = Some b \<Longrightarrow> gm' x = b"
  shows "run_values gm' as = run_values gm as"
  using assms
proof (induction as arbitrary: gm gm' m)
  case (Cons a as)
  let ?m = "record_access gm a m"
  have later: "?m x = Some b \<Longrightarrow> record_run gm (a # as) m x = Some b" for x b
    by (simp add: record_run_keeps)
  have read: "gm' x = gm x"
    if "a = Load n addr \<or> a = Fetch addr n" "unat addr \<le> x" "x < unat addr + n" for x n addr
  proof (cases "m x")
    case None
    have "n \<le> 8" using Cons.prems(1) that(1) by (auto simp: access_size_def fetch_ok_def)
    then have "byte_of (read_mem gm (unat addr) n) (x - unat addr) = gm x"
      using byte_of_read_mem [of n "x - unat addr" gm "unat addr"] that(2,3) by simp
    then have "?m x = Some (gm x)" using that None by (auto simp: record_bytes_def)
    then show ?thesis using Cons.prems(3) [OF None] later by blast
  qed (use Cons.prems(2) in force)
  have "access_value gm' a = access_value gm a"
  proof (cases a)
    case (Fetch addr len)
    then show ?thesis by (auto intro!: read_mem_cong read [of len addr])
  next
    case (Load n addr)
    then show ?thesis by (auto intro!: read_mem_cong read [of n addr])
  qed simp
  moreover have "run_values (access_mem gm' a) as = run_values (access_mem gm a) as"
  proof (rule Cons.IH)
    show "run_ok (access_mem gm a) as ?m" using Cons.prems(1) by simp
    show "access_mem gm a x = access_mem gm' a x" if "?m x \<noteq> None" for x
    proof (cases "m x")
      case None
      then show ?thesis
        using that read by (cases a) (auto simp: record_bytes_def write_mem_def split: if_splits)
    next
      case (Some b)
      then show ?thesis using Cons.prems(2) [of x] by (cases a) (auto simp: write_mem_def)
    qed
    show "access_mem gm' a x = b" if "?m x = None" "record_run (access_mem gm a) as ?m x = Some b" for x b
    proof -
      have "m x = None" using that(1) record_access_keeps [of m x _ gm a] by (cases "m x") auto
      moreover have "access_mem gm' a x = gm' x"
        using that(1) calculation by (cases a) (auto simp: record_bytes_def write_mem_def split: if_splits)
      ultimately show ?thesis using Cons.prems(3) [of x b] that(2) by simp
    qed
  qed
  ultimately show ?case by simp
qed simp

lemma access_traced:
  assumes "mt_inv mt" and "access_ok (trace_map mt) a"
  obtains mt' where "access_trace gm a mt = Some mt'" and "mt_inv mt'"
    and "trace_map mt' = record_access gm a (trace_map mt)"
proof (cases a)
  case (Fetch addr len)
  then have ok: "fetch_ok (trace_map mt) addr len" using assms(2) by simp
  obtain f m where "mt_fetch addr (read_mem gm (unat addr) len) len mt = Some (f, m)"
    "fetched_once mt f m addr len (read_mem gm (unat addr) len)"
    by (rule mt_fetch_recorded [OF assms(1) ok])
  then show thesis using that [of m] Fetch by (simp add: fetched_once_def)
next
  case (Load n addr)
  then have ok: "access_size n" "4096 \<le> unat addr" using assms(2) by simp_all
  obtain m where "mt_load n addr (read_mem gm (unat addr) n) mt = Some m"
    "recorded mt m (unat addr) n (read_mem gm (unat addr) n)"
    by (rule mt_load_recorded [OF assms(1) ok])
  then show thesis using that [of m] Load by (simp add: recorded_def)
next
  case (Store n addr d)
  then have ok: "access_size n" "4096 \<le> unat addr" using assms(2) by simp_all
  obtain m where "mt_store n addr mt = Some m" "mt_inv m"
    "trace_map m = record_bytes (trace_map mt) (unat addr) n 0"
    by (rule mt_store_recorded [OF assms(1) ok])
  then show thesis using that [of m] Store by simp
qed

lemma run_traced_refines:
  assumes "mt_inv mt" and "run_ok gm as (trace_map mt)"
  obtains mt' where "run_traced gm as mt = Some mt'" and "mt_inv mt'"
    and "trace_map mt' = record_run gm as (trace_map mt)"
  using assms
proof (induction as arbitrary: gm mt thesis)
  case (Cons a as)
  obtain m where m: "access_trace gm a mt = Some m" "mt_inv m"
    "trace_map m = record_access gm a (trace_map mt)"
    using access_traced [OF Cons.prems(2), of a gm] Cons.prems(3) by auto
  show thesis
    by (rule Cons.IH [OF _ m(2), of "access_mem gm a"]) (use m Cons.prems in auto)
qed simp

lemma MemTrace_new_inv: "mt_inv MemTrace_new" "trace_map MemTrace_new = (\<lambda>_. None)"
  by (auto simp: mt_inv_def MemTrace_new_def heap_map_ok_def cache_ok_def PtrCache_new_def trace_map_def)

section \<open>The checkpoint manager\<close>

text \<open>
  What is written to the output file, one constructor per \<^verbatim>\<open>fprintf\<close> format. The pages and
  execution records of a dump are written in the unspecified order of an unordered map, so the
  event holds the maps.
\<close>

datatype event =
    EvBegin u64 "u64 list" "u64 list"
  | EvBreakEcall u64
  | EvBreakFirst u64
  | EvBreakFirstRvc u64
  | EvBreakRepeat u64 u32 int
  | EvFile u64 u64
  | EvDump mem_trace
  | EvStore u64 nat u64
  | EvSyscall u64
  | EvReturn u64 "(u64 \<times> u8 list) option"
  | EvExit u32

text \<open>
  \<^verbatim>\<open>out\<close> is \<open>None\<close> when no output file was opened, otherwise what was written to it.
\<close>

record ckpt =
  ck_out :: "event list option"
  ck_period :: u64
  ck_begin_instret :: u64
  ck_mem :: "mem_trace option"
  ck_monitor_pc :: u64

text \<open>
  The results of an operation: it completes, it calls \<^verbatim>\<open>exit\<close>, or its behaviour is
  undefined.
\<close>

datatype 'a ck_outcome = Done 'a | Exit int | Undef

definition ck_print :: "event \<Rightarrow> ckpt \<Rightarrow> ckpt" where
  "ck_print e ck = ck\<lparr>ck_out := map_option (\<lambda>es. es @ [e]) (ck_out ck)\<rparr>"


text \<open>
  What the manager reads of the processor, and the guest memory \<open>gm\<close> it reads the final value of
  recorded stores from; \<open>fopen_ok\<close> tells whether the dump file could be opened.
\<close>

record ckpt_env =
  env_instret :: u64
  env_ireg :: "u64 list"
  env_freg :: "u64 list"
  env_rd :: int
  env_gm :: "nat \<Rightarrow> u8"
  env_fopen_ok :: bool

text \<open>
  The store trace of \<^verbatim>\<open>break_here\<close>. The switch has no default: an entry of another size
  would print an uninitialised variable, which is undefined.
\<close>

fun dump_stores :: "(nat \<Rightarrow> u8) \<Rightarrow> store_rec list \<Rightarrow> ckpt \<Rightarrow> ckpt ck_outcome" where
  "dump_stores gm [] ck = Done ck"
| "dump_stores gm (st # sts) ck =
     (if st_addr st \<noteq> 0
      then if access_size (st_size st)
        then dump_stores gm sts
          (ck_print (EvStore (st_addr st) (st_size st) (read_mem gm (unat (st_addr st)) (st_size st))) ck)
        else Undef
      else dump_stores gm sts ck)"

definition break_here :: "ckpt_env \<Rightarrow> u64 \<Rightarrow> ckpt \<Rightarrow> ckpt ck_outcome" where
  "break_here env instret ck =
     (if \<not> env_fopen_ok env then Exit (- 1)
      else case ck_mem ck of None \<Rightarrow> Undef
        | Some mt \<Rightarrow>
            (case dump_stores (env_gm env) (map (mt_stores mt) [0..<STREC_SIZE])
                (ck_print (EvDump mt) (ck_print (EvFile (ck_begin_instret ck) instret) ck)) of
               Done ck' \<Rightarrow> Done (ck'\<lparr>ck_mem := None\<rparr>)
             | Exit rc \<Rightarrow> Exit rc
             | Undef \<Rightarrow> Undef))"






definition ck_load :: "nat \<Rightarrow> u64 \<Rightarrow> u64 \<Rightarrow> ckpt \<Rightarrow> ckpt ck_outcome" where
  "ck_load n addr data ck =
     (case ck_mem ck of None \<Rightarrow> Done ck
      | Some mt \<Rightarrow> (case mt_load n addr data mt of None \<Rightarrow> Undef
         | Some mt' \<Rightarrow> Done (ck\<lparr>ck_mem := Some mt'\<rparr>)))"

definition ck_store :: "nat \<Rightarrow> u64 \<Rightarrow> ckpt \<Rightarrow> ckpt ck_outcome" where
  "ck_store n addr ck =
     (case ck_mem ck of None \<Rightarrow> Done ck
      | Some mt \<Rightarrow> (case mt_store n addr mt of None \<Rightarrow> Undef
         | Some mt' \<Rightarrow> Done (ck\<lparr>ck_mem := Some mt'\<rparr>)))"

fun store_each :: "nat \<Rightarrow> u64 \<Rightarrow> mem_trace \<Rightarrow> mem_trace option" where
  "store_each 0 addr mt = Some mt"
| "store_each (Suc k) addr mt =
     (case mt_store 1 addr mt of None \<Rightarrow> None | Some mt' \<Rightarrow> store_each k (addr + 1) mt')"

text \<open>\<^verbatim>\<open>syscall\<close>: \<open>res\<close> is the result buffer, \<open>None\<close> for a null address.\<close>

definition ck_syscall :: "(nat \<Rightarrow> u8) \<Rightarrow> u64 \<Rightarrow> (u64 \<times> nat) option \<Rightarrow> ckpt \<Rightarrow> ckpt ck_outcome" where
  "ck_syscall gm retval res ck =
     (case ck_mem ck of None \<Rightarrow> Done ck
      | Some mt \<Rightarrow>
          (case res of
             None \<Rightarrow> Done (ck_print (EvReturn retval None) ck)
           | Some (addr, sz) \<Rightarrow>
               (case store_each sz addr mt of None \<Rightarrow> Undef
                | Some mt' \<Rightarrow> Done (ck_print (EvReturn retval
                    (Some (addr, map (\<lambda>i. gm (unat addr + i)) [0..<sz]))) (ck\<lparr>ck_mem := Some mt'\<rparr>)))))"

definition ck_exit :: "ckpt_env \<Rightarrow> u32 \<Rightarrow> ckpt \<Rightarrow> ckpt ck_outcome" where
  "ck_exit env rc ck =
     (case ck_mem ck of None \<Rightarrow> Done ck
      | Some mt \<Rightarrow> break_here env (env_instret env) (ck_print (EvExit rc) ck))"

section \<open>Invariant of the manager\<close>

text \<open>Every entry of the store trace that would be printed has one of the four sizes.\<close>

definition stores_ok :: "mem_trace \<Rightarrow> bool" where
  "stores_ok mt \<longleftrightarrow> (\<forall>i. st_addr (mt_stores mt i) \<noteq> 0 \<longrightarrow> access_size (st_size (mt_stores mt i)))"

definition ck_inv :: "ckpt \<Rightarrow> bool" where
  "ck_inv ck \<longleftrightarrow> (\<forall>mt. ck_mem ck = Some mt \<longrightarrow> mt_inv mt \<and> stores_ok mt \<and> ck_out ck \<noteq> None)"

definition ck_trace :: "ckpt \<Rightarrow> nat \<Rightarrow> u8 option" where
  "ck_trace ck = (case ck_mem ck of None \<Rightarrow> (\<lambda>_. None) | Some mt \<Rightarrow> trace_map mt)"

lemma ck_print_simps [simp]:
  "ck_mem (ck_print e ck) = ck_mem ck" "ck_period (ck_print e ck) = ck_period ck"
  "ck_begin_instret (ck_print e ck) = ck_begin_instret ck"
  "ck_out (ck_print e ck) = None \<longleftrightarrow> ck_out ck = None"
  "ck_inv (ck_print e ck) = ck_inv ck" "ck_trace (ck_print e ck) = ck_trace ck"
  by (simp_all add: ck_print_def ck_inv_def ck_trace_def)

lemma stores_ok_new: "stores_ok MemTrace_new"
  by (simp add: stores_ok_def MemTrace_new_def StoreRec_new_def)

lemma stores_ok_rest: "mt_stores mt' = mt_stores mt \<Longrightarrow> stores_ok mt' = stores_ok mt"
  by (simp add: stores_ok_def)


lemma dump_stores_done:
  "\<forall>st \<in> set sts. st_addr st \<noteq> 0 \<longrightarrow> access_size (st_size st) \<Longrightarrow>
   \<exists>ck'. dump_stores gm sts ck = Done ck' \<and> (ck_out ck' = None \<longleftrightarrow> ck_out ck = None)"
  by (induction gm sts ck rule: dump_stores.induct) auto

lemma break_here_done:
  assumes "ck_mem ck = Some mt" and "stores_ok mt" and "env_fopen_ok env"
  obtains ck' where "break_here env instret ck = Done ck'" and "ck_mem ck' = None"
    and "ck_out ck' = None \<longleftrightarrow> ck_out ck = None"
proof -
  have "\<forall>st \<in> set (map (mt_stores mt) [0..<STREC_SIZE]). st_addr st \<noteq> 0 \<longrightarrow> access_size (st_size st)"
    using assms(2) by (auto simp: stores_ok_def)
  from dump_stores_done [OF this, of "env_gm env"
      "ck_print (EvDump mt) (ck_print (EvFile (ck_begin_instret ck) instret) ck)"]
  show thesis using that assms by (force simp: break_here_def)
qed








lemma mt_store_stores_ok:
  assumes "mt_inv mt" and "stores_ok mt" and "access_size n" and "4096 \<le> unat addr"
  obtains mt' where "mt_store n addr mt = Some mt'" and "mt_inv mt'" and "stores_ok mt'"
    and "trace_map mt' = record_bytes (trace_map mt) (unat addr) n 0"
proof -
  obtain m where m: "mt_store n addr mt = Some m" "mt_inv m"
    "trace_map m = record_bytes (trace_map mt) (unat addr) n 0"
    "mt_stores m = (mt_stores mt)(unat (store_hash 8 addr 0) := \<lparr>st_addr = addr, st_size = n\<rparr>)"
    by (rule mt_store_recorded [OF assms(1,3,4)])
  then have "stores_ok m" using assms(2,3) by (simp add: stores_ok_def)
  then show thesis using that m by blast
qed

text \<open>The invariant is kept by the operations the guest's loads, stores and exit call.\<close>

lemma ck_load_valid:
  assumes "ck_inv ck" and "access_size n" and "4096 \<le> unat addr"
  shows "\<exists>ck'. ck_load n addr data ck = Done ck' \<and> ck_inv ck' \<and>
     ck_trace ck' = (if ck_mem ck = None then ck_trace ck else record_bytes (ck_trace ck) (unat addr) n data)"
proof (cases "ck_mem ck")
  case (Some mt)
  then have mt: "mt_inv mt" "stores_ok mt" "ck_out ck \<noteq> None" using assms(1) by (auto simp: ck_inv_def)
  obtain m where m: "mt_load n addr data mt = Some m" "recorded mt m (unat addr) n data"
    by (rule mt_load_recorded [OF mt(1) assms(2,3)])
  then have "stores_ok m" using mt(2) stores_ok_rest [of m mt] by (simp add: recorded_def mt_rest_def)
  then show ?thesis using Some m mt by (simp add: ck_load_def ck_inv_def ck_trace_def recorded_def)
qed (use assms in \<open>simp add: ck_load_def\<close>)

lemma ck_store_valid:
  assumes "ck_inv ck" and "access_size n" and "4096 \<le> unat addr"
  shows "\<exists>ck'. ck_store n addr ck = Done ck' \<and> ck_inv ck' \<and>
     ck_trace ck' = (if ck_mem ck = None then ck_trace ck else record_bytes (ck_trace ck) (unat addr) n 0)"
proof (cases "ck_mem ck")
  case (Some mt)
  then have mt: "mt_inv mt" "stores_ok mt" "ck_out ck \<noteq> None" using assms(1) by (auto simp: ck_inv_def)
  obtain m where m: "mt_store n addr mt = Some m" "mt_inv m" "stores_ok m"
    "trace_map m = record_bytes (trace_map mt) (unat addr) n 0"
    by (rule mt_store_stores_ok [OF mt(1,2) assms(2,3)])
  then show ?thesis using Some mt(3) by (simp add: ck_store_def ck_inv_def ck_trace_def)
qed (use assms in \<open>simp add: ck_store_def\<close>)

lemma ck_exit_valid:
  assumes "ck_inv ck" and "env_fopen_ok env"
  shows "\<exists>ck'. ck_exit env rc ck = Done ck' \<and> ck_inv ck' \<and> ck_mem ck' = None"
proof (cases "ck_mem ck")
  case (Some mt)
  then have "stores_ok mt" using assms(1) by (simp add: ck_inv_def)
  then obtain ck' where "break_here env (env_instret env) (ck_print (EvExit rc) ck) = Done ck'"
    "ck_mem ck' = None"
    using break_here_done [of "ck_print (EvExit rc) ck" mt env "env_instret env"] Some assms(2) by auto
  then show ?thesis using Some by (simp add: ck_exit_def ck_inv_def)
qed (use assms in \<open>simp add: ck_exit_def\<close>)

lemma store_each_valid:
  assumes "mt_inv mt" and "stores_ok mt" and "4096 \<le> unat addr" and "unat addr + k < 2 ^ 64"
  shows "\<exists>mt'. store_each k addr mt = Some mt' \<and> mt_inv mt' \<and> stores_ok mt' \<and>
     (\<forall>x. trace_map mt' x = (if unat addr \<le> x \<and> x < unat addr + k \<and> trace_map mt x = None
        then Some 0 else trace_map mt x))"
  using assms
proof (induction k arbitrary: addr mt)
  case (Suc k)
  have s: "access_size 1" by (simp add: access_size_def)
  obtain m where m: "mt_store 1 addr mt = Some m" "mt_inv m" "stores_ok m"
    "trace_map m = record_bytes (trace_map mt) (unat addr) 1 0"
    by (rule mt_store_stores_ok [OF Suc.prems(1,2) s Suc.prems(3)])
  have u: "unat (addr + 1) = unat addr + 1"
    using Suc.prems(4) by (simp add: unat_word_ariths)
  obtain mt' where mt': "store_each k (addr + 1) m = Some mt'" "mt_inv mt'" "stores_ok mt'"
    "\<forall>x. trace_map mt' x = (if unat addr + 1 \<le> x \<and> x < unat addr + 1 + k \<and> trace_map m x = None
       then Some 0 else trace_map m x)"
    using Suc.IH [OF m(2,3), of "addr + 1"] Suc.prems(3,4) unfolding u by auto
  have "trace_map mt' x = (if unat addr \<le> x \<and> x < unat addr + Suc k \<and> trace_map mt x = None
       then Some 0 else trace_map mt x)" for x
    using mt'(4) by (cases "x = unat addr") (auto simp: m(4) record_bytes_def)
  then show ?case using m(1) mt'(1-3) by simp
qed simp

lemma ck_syscall_valid:
  assumes "ck_inv ck" and "4096 \<le> unat addr" and "unat addr + k < 2 ^ 64"
  shows "\<exists>ck'. ck_syscall gm retval (Some (addr, k)) ck = Done ck' \<and> ck_inv ck' \<and>
     (\<forall>x. ck_trace ck' x = (if ck_mem ck \<noteq> None \<and> unat addr \<le> x \<and> x < unat addr + k \<and> ck_trace ck x = None
        then Some 0 else ck_trace ck x))"
proof (cases "ck_mem ck")
  case (Some mt)
  then have mt: "mt_inv mt" "stores_ok mt" "ck_out ck \<noteq> None" using assms(1) by (auto simp: ck_inv_def)
  obtain m where m: "store_each k addr mt = Some m" "mt_inv m" "stores_ok m"
    "\<forall>x. trace_map m x = (if unat addr \<le> x \<and> x < unat addr + k \<and> trace_map mt x = None
        then Some 0 else trace_map mt x)"
    using store_each_valid [OF mt(1,2) assms(2,3)] by blast
  have "ck_inv (ck\<lparr>ck_mem := Some m\<rparr>)" using m(2,3) mt(3) by (simp add: ck_inv_def)
  then show ?thesis using Some m by (simp add: ck_syscall_def ck_trace_def)
qed (use assms in \<open>simp add: ck_syscall_def\<close>)

section \<open>Properties\<close>

text \<open>
  C1. A checkpoint can be replayed. Take a sequence of instruction fetches, loads and stores of
  the simulated program that keeps to what the recorder is built for (\<^verbatim>\<open>run_ok\<close>): loads and
  stores of 1, 2, 4 or 8 bytes and halfword aligned fetches of 2 or 4 bytes, none of them in the page at
  address 0, where a fetch finds each piece that it records at once (two bytes, or four aligned ones)
  accessed before as a whole or not at all. Run under the recorder from the start of a checkpoint, it never reaches undefined behaviour, and any memory
  whatsoever that holds the recorded bytes makes the same sequence read exactly the same values as the
  original memory did. What was not recorded does not matter. The conditions are needed: an access to
  the page at 0 is undefined behaviour of the recorder (\<^verbatim>\<open>mt_load_null_page\<close>), and a fetch of a
  partly recorded piece records a byte at the wrong place (\<^verbatim>\<open>fetch_partial_misplaces\<close>).
\<close>

theorem checkpoint_replay:
  assumes "run_ok gm as (\<lambda>_. None)"
  shows "\<exists>mt. run_traced gm as MemTrace_new = Some mt \<and> mt_inv mt \<and>
     (\<forall>gm'. (\<forall>x b. trace_map mt x = Some b \<longrightarrow> gm' x = b) \<longrightarrow> run_values gm' as = run_values gm as)"
proof -
  obtain mt where mt: "run_traced gm as MemTrace_new = Some mt" "mt_inv mt"
    "trace_map mt = record_run gm as (\<lambda>_. None)"
    using run_traced_refines [OF MemTrace_new_inv(1)] assms MemTrace_new_inv(2) by metis
  have "run_values gm' as = run_values gm as" if "\<forall>x b. trace_map mt x = Some b \<longrightarrow> gm' x = b" for gm'
    by (rule replay_values [OF assms]) (use that mt(3) in auto)
  with mt(1,2) show ?thesis by blast
qed

text \<open>
  A fetch that straddles a page boundary, a misaligned load across pages, a store and a load
  of the stored value.
\<close>

definition sample_run :: "access list" where
  "sample_run = [Fetch 0x1ffe 4, Load 4 0x2ffe, Store 8 0x4000 0x1122334455667788, Load 2 0x4002]"

lemma read_mem_small:
  "read_mem gm a 2 = ucast (gm a) OR push_bit 8 (ucast (gm (a + 1)))"
  "read_mem gm a 4 = ucast (gm a) OR push_bit 8 (ucast (gm (a + 1)) OR
     push_bit 8 (ucast (gm (a + 2)) OR push_bit 8 (ucast (gm (a + 3)))))"
  by (simp_all add: eval_nat_numeral)

theorem checkpoint_replay_witness:
  "run_values (\<lambda>a. of_nat a) sample_run = [0x0100fffe, 0x0100fffe, 0, 0x5566] \<and>
   (\<exists>mt. run_traced (\<lambda>a. of_nat a) sample_run MemTrace_new = Some mt \<and> mt_inv mt \<and>
     (\<forall>gm'. (\<forall>x b. trace_map mt x = Some b \<longrightarrow> gm' x = b) \<longrightarrow>
       run_values gm' sample_run = run_values (\<lambda>a. of_nat a) sample_run))"
proof -
  have ok: "run_ok (\<lambda>a. of_nat a) sample_run (\<lambda>_. None)"
    by (simp add: sample_run_def fetch_ok_def uniform_def access_size_def)
  have "run_values (\<lambda>a. of_nat a) sample_run = [0x0100fffe, 0x0100fffe, 0, 0x5566]"
    by (simp add: sample_run_def read_mem_small write_mem_def byte_of_def)
  then show ?thesis using checkpoint_replay [OF ok] by blast
qed

text \<open>
  C13. A load is recorded as a first touch: for every type the templates are instantiated with,
  aligned or not and across a page boundary or not, exactly the bytes of the range that were never
  touched are recorded with the loaded data, every other recorded byte, every execution counter
  and every store record is unchanged, and no undefined behaviour is reached.
\<close>

theorem mt_load_first_touch:
  assumes "mt_inv mt" and "access_size n" and "4096 \<le> unat addr"
  shows "\<exists>mt'. mt_load n addr data mt = Some mt' \<and> mt_inv mt' \<and>
     trace_map mt' = record_bytes (trace_map mt) (unat addr) n data \<and> mt_rest mt' = mt_rest mt"
  using mt_load_recorded [OF assms] by (metis recorded_def)

theorem mt_load_first_touch_witness:
  "\<exists>mt'. mt_load 8 0x5ffd 0x0807060504030201 MemTrace_new = Some mt' \<and> trace_map mt' 0x6000 = Some 4"
proof -
  have "(4096 :: nat) \<le> unat (0x5ffd :: u64)" "access_size 8" by (simp_all add: access_size_def)
  from mt_load_first_touch [OF MemTrace_new_inv(1) this(2,1), of "0x0807060504030201"]
  show ?thesis by (auto simp: MemTrace_new_inv(2) record_bytes_def byte_of_def)
qed

text \<open>
  The fetch of an instruction of 2 or 4 bytes that overlaps no partially recorded unit: its
  untouched bytes are recorded, the result says whether all of them were untouched, and exactly
  the execution counter of the instruction's halfword is incremented (modulo \<open>2 ^ 32\<close>).
\<close>

theorem mt_fetch_first_touch:
  assumes "mt_inv mt" and "fetch_ok (trace_map mt) addr len"
  shows "\<exists>first mt'. mt_fetch addr inst len mt = Some (first, mt') \<and> fetched_once mt first mt' addr len inst"
  using mt_fetch_recorded [OF assms] by metis

theorem mt_fetch_first_touch_witness:
  "\<exists>mt'. mt_fetch 0x7ffe 0x00b50533 4 MemTrace_new = Some (True, mt') \<and>
     trace_map mt' 0x8001 = Some 0 \<and> exec_map mt' 0x7ffe = 1"
proof -
  have ok: "fetch_ok (trace_map MemTrace_new) 0x7ffe 4"
    by (simp add: fetch_ok_def uniform_def MemTrace_new_inv(2))
  have e: "exec_map MemTrace_new 0x7ffe = 0" by (simp add: exec_map_def MemTrace_new_def)
  obtain f mt' where f: "mt_fetch 0x7ffe 0x00b50533 4 MemTrace_new = Some (f, mt')"
    "fetched_once MemTrace_new f mt' 0x7ffe 4 0x00b50533"
    using mt_fetch_first_touch [OF MemTrace_new_inv(1) ok] by blast
  then have "\<forall>a. exec_map mt' (unat a) =
      exec_map MemTrace_new (unat a) + (if same_half a 0x7ffe then 1 else 0)"
    by (simp add: fetched_once_def)
  from this [THEN spec, of "0x7ffe"] have "exec_map mt' 0x7ffe = 1" by (simp add: same_half_def e)
  with f show ?thesis
    by (auto simp: fetched_once_def MemTrace_new_inv(2) fresh_span_def record_bytes_def byte_of_def)
qed

text \<open>
  Page zero: on a fresh trace a load of any size dereferences a null pointer exactly when the
  address is on page zero, because the initial index of the pointer cache is a valid page number.
\<close>

theorem mt_load_null_page:
  assumes "access_size n"
  shows "mt_load n addr data MemTrace_new = None \<longleftrightarrow> unat addr < 4096"
proof (cases "unat addr < 4096")
  case True
  then have z: "drop_bit 12 addr = 0" using page_nonzero [of addr] by linarith
  have "load_page_of 0 MemTrace_new = (None, MemTrace_new)"
    by (simp add: load_page_of_def get_page_cached_def MemTrace_new_def PtrCache_new_def)
  moreover have "load_bytes n 0 0 None (int (unat (addr AND 0xfff))) data MemTrace_new = None"
  proof -
    obtain k where "n = Suc k" using assms by (cases n) (auto simp: access_size_def)
    moreover have "unat (addr AND 0xfff) < 4096" by (simp add: unat_offset)
    ultimately show ?thesis by (simp add: check_at_def Let_def del: of_nat_unat)
  qed
  ultimately have "mt_load n addr data MemTrace_new = None"
    unfolding mt_load_def z by (simp add: check_at_def Let_def)
  with True show ?thesis by simp
next
  case False
  then have "4096 \<le> unat addr" by simp
  from mt_load_recorded [OF MemTrace_new_inv(1) assms this] have "mt_load n addr data MemTrace_new \<noteq> None"
    by (metis option.distinct(1))
  with False show ?thesis by simp
qed

theorem mt_load_null_page_witness: "access_size 4 \<and> mt_load 4 0x10 7 MemTrace_new = None"
proof -
  have "access_size 4" by (simp add: access_size_def)
  then show ?thesis using mt_load_null_page [of 4 "0x10" 7] by simp
qed


definition sample_env :: ckpt_env where
  "sample_env = \<lparr>env_instret = 10, env_ireg = [], env_freg = [], env_rd = 10, env_gm = (\<lambda>_. 0),
     env_fopen_ok = True\<rparr>"

definition sample_ckpt :: ckpt where
  "sample_ckpt = \<lparr>ck_out = Some [], ck_period = 3, ck_begin_instret = 5, ck_mem = Some MemTrace_new,
     ck_monitor_pc = 0\<rparr>"


text \<open>
  The invariant of the manager (a trace exists only while an output file is open, its caches
  agree with its maps, and every store record has a printable size) is kept by the hooks of loads,
  stores, system calls and exit, none of which reaches undefined behaviour; exit always closes the
  checkpoint.
\<close>

theorem ck_hooks_invariant:
  assumes "ck_inv ck" and "access_size n" and "4096 \<le> unat addr" and "unat addr + k < 2 ^ 64"
    and "env_fopen_ok env"
  shows "(\<exists>ck'. ck_load n addr data ck = Done ck' \<and> ck_inv ck') \<and>
     (\<exists>ck'. ck_store n addr ck = Done ck' \<and> ck_inv ck') \<and>
     (\<exists>ck'. ck_syscall gm retval (Some (addr, k)) ck = Done ck' \<and> ck_inv ck') \<and>
     (\<exists>ck'. ck_exit env rc ck = Done ck' \<and> ck_inv ck' \<and> ck_mem ck' = None)"
  using ck_load_valid [OF assms(1-3), of data] ck_store_valid [OF assms(1-3)]
    ck_syscall_valid [OF assms(1,3,4), of gm retval] ck_exit_valid [OF assms(1,5), of rc]
  by blast

theorem ck_hooks_invariant_witness:
  "\<exists>ck'. ck_exit sample_env 0 sample_ckpt = Done ck' \<and> ck_inv ck' \<and> ck_mem ck' = None"
proof -
  have i: "ck_inv sample_ckpt" "env_fopen_ok sample_env"
    using MemTrace_new_inv(1) stores_ok_new by (simp_all add: sample_ckpt_def sample_env_def ck_inv_def)
  have a: "access_size 8" "4096 \<le> unat (0x2000 :: u64)" "unat (0x2000 :: u64) + 16 < 2 ^ 64"
    by (simp_all add: access_size_def)
  show ?thesis using ck_hooks_invariant [OF i(1) a i(2)] by blast
qed

text \<open>
  The excluded case of \<^verbatim>\<open>fetch\<close>: with only the second byte of a 4-byte instruction
  recorded, the loop copies that byte over the first one and leaves the last two unrecorded.
\<close>

definition second_byte_only :: mem_trace where
  "second_byte_only = MemTrace_new\<lparr>mt_page_heap :=
     (\<lambda>_. \<lparr>visited = (\<lambda>_. 0)(0 := 2), content = (\<lambda>_. 0)(1 := 0x05)\<rparr>)\<rparr>"

theorem fetch_partial_misplaces:
  "map_option (\<lambda>(first, mt). map (page_view (mt_page_heap mt 0)) [0, 1, 2, 3])
     (fetch_in_page 4 (Some 0) 0 0x00000533 second_byte_only) =
   Some [Some 0x05, Some 0x05, None, None]"
  by (simp add: fetch_in_page_def check_at_def page_check_def second_byte_only_def page_view_def
      put_at_def page_put_def page_set_def byte_of_def upt_rec mask_eq_exp_minus_1)

end
