(* ===== verification/Memory.thy ===== *)
theory Memory
  imports Bytes
begin

text \<open>
  The memory bus of \<^verbatim>\<open>src/src/emu/mmu-memory.h\<close> for \<^verbatim>\<open>UX = u64\<close>. A segment is a record
  of its range and of its virtual load and store functions, which act on a world of type
  \<open>'w\<close>; RAM segments act on the host memory, devices on their own registers. A bus error is
  \<open>None\<close>. Sizes are in bytes.
\<close>

unbundle bit_operations_syntax

section \<open>Host memory\<close>

record world =
  host_mem :: "u64 \<Rightarrow> u8"

fun host_read :: "(u64 \<Rightarrow> u8) \<Rightarrow> u64 \<Rightarrow> nat \<Rightarrow> u64" where
  "host_read m a 0 = 0"
| "host_read m a (Suc n) = ucast (m a) OR push_bit 8 (host_read m (a + 1) n)"

fun host_write :: "(u64 \<Rightarrow> u8) \<Rightarrow> u64 \<Rightarrow> nat \<Rightarrow> u64 \<Rightarrow> u64 \<Rightarrow> u8" where
  "host_write m a 0 v = m"
| "host_write m a (Suc n) v = host_write (m(a := ucast v)) (a + 1) n (drop_bit 8 v)"

section \<open>Segments\<close>

record 'w memory_segment =
  seg_mpa :: u64
  seg_uva :: u64
  seg_size :: u64
  seg_flags :: u32
  seg_load :: "nat \<Rightarrow> u64 \<Rightarrow> 'w \<Rightarrow> (u64 \<times> 'w) option"
  seg_store :: "nat \<Rightarrow> u64 \<Rightarrow> u64 \<Rightarrow> 'w \<Rightarrow> 'w option"

text \<open>The default methods of \<^verbatim>\<open>memory_bus\<close> fail.\<close>

definition memory_segment_base :: "u64 \<Rightarrow> u64 \<Rightarrow> u64 \<Rightarrow> u32 \<Rightarrow> 'w memory_segment" where
  "memory_segment_base mpa uva sz flags = \<lparr>seg_mpa = mpa, seg_uva = uva, seg_size = sz, seg_flags = flags,
     seg_load = (\<lambda>n va w. None), seg_store = (\<lambda>n va val w. None)\<rparr>"

definition mmap_memory_segment :: "u64 \<Rightarrow> u64 \<Rightarrow> u64 \<Rightarrow> u32 \<Rightarrow> 'a world_scheme memory_segment" where
  "mmap_memory_segment mpa uva sz flags = (memory_segment_base mpa uva sz flags)
     \<lparr>seg_load := (\<lambda>n va w. Some (host_read (host_mem w) va n, w)),
      seg_store := (\<lambda>n va val w. Some (w\<lparr>host_mem := host_write (host_mem w) va n val\<rparr>))\<rparr>"

section \<open>The bus\<close>

type_synonym 'w user_memory = "'w memory_segment list"

definition add_segment :: "'w memory_segment \<Rightarrow> 'w user_memory \<Rightarrow> 'w user_memory" where
  "add_segment seg segments = segments @ [seg]"

definition add_mmap :: "u64 \<Rightarrow> u64 \<Rightarrow> u64 \<Rightarrow> u32 \<Rightarrow> 'a world_scheme user_memory \<Rightarrow> 'a world_scheme user_memory" where
  "add_mmap mpa uva sz flags = add_segment (mmap_memory_segment mpa uva sz flags)"

definition pma_ram :: u32 where
  "pma_ram = 0b111010"

text \<open>\<^verbatim>\<open>mmap\<close> is the host's; its result is the argument \<open>addr\<close>, \<open>None\<close> for \<^verbatim>\<open>MAP_FAILED\<close>.\<close>

definition add_ram :: "u64 option \<Rightarrow> u64 \<Rightarrow> u64 \<Rightarrow> 'a world_scheme user_memory \<Rightarrow> 'a world_scheme user_memory option" where
  "add_ram addr mpa sz segments =
     map_option (\<lambda>a. add_segment (mmap_memory_segment mpa a sz pma_ram) segments) addr"

definition clear_segments :: "'w user_memory \<Rightarrow> 'w user_memory" where
  "clear_segments segments = []"

definition seg_contains :: "'w memory_segment \<Rightarrow> u64 \<Rightarrow> bool" where
  "seg_contains seg mpa \<longleftrightarrow> seg_mpa seg \<le> mpa \<and>
     (mpa < seg_mpa seg + seg_size seg \<or> seg_mpa seg + seg_size seg = 0)"

fun mpa_to_uva :: "'w user_memory \<Rightarrow> u64 \<Rightarrow> ('w memory_segment \<times> u64) option" where
  "mpa_to_uva [] mpa = None"
| "mpa_to_uva (seg # segs) mpa =
     (if seg_contains seg mpa then Some (seg, seg_uva seg + (mpa - seg_mpa seg))
      else mpa_to_uva segs mpa)"

definition bus_load :: "'w user_memory \<Rightarrow> nat \<Rightarrow> u64 \<Rightarrow> 'w \<Rightarrow> (u64 \<times> 'w) option" where
  "bus_load segs n va w =
     (if n \<in> {1, 2, 4, 8}
      then (case mpa_to_uva segs va of None \<Rightarrow> None | Some (seg, uva) \<Rightarrow> seg_load seg n uva w)
      else None)"

definition bus_store :: "'w user_memory \<Rightarrow> nat \<Rightarrow> u64 \<Rightarrow> u64 \<Rightarrow> 'w \<Rightarrow> 'w option" where
  "bus_store segs n va val w =
     (if n \<in> {1, 2, 4, 8}
      then (case mpa_to_uva segs va of None \<Rightarrow> None | Some (seg, uva) \<Rightarrow> seg_store seg n uva val w)
      else None)"

section \<open>Host reads and writes\<close>

lemma host_write_outside:
  "(\<And>i. i < n \<Longrightarrow> x \<noteq> a + of_nat i) \<Longrightarrow> host_write m a n v x = m x"
proof (induction n arbitrary: m a v)
  case (Suc n)
  have "x \<noteq> a" using Suc.prems [of 0] by simp
  moreover have "x \<noteq> a + 1 + of_nat i" if "i < n" for i
    using Suc.prems [of "Suc i"] that by (simp add: algebra_simps)
  ultimately show ?case using Suc.IH [of "a + 1"] by simp
qed simp

lemma of_nat_small_inj: "i < 2 ^ 64 \<Longrightarrow> j < 2 ^ 64 \<Longrightarrow> (of_nat i :: u64) = of_nat j \<longleftrightarrow> i = j"
  by (simp add: of_nat_eq_iff word_of_nat_eq_iff take_bit_nat_eq_self)

lemma host_write_inside:
  "i < n \<Longrightarrow> n < 2 ^ 64 \<Longrightarrow> host_write m a n v (a + of_nat i) = byte_of v i"
proof (induction n arbitrary: m a v i)
  case (Suc n)
  show ?case
  proof (cases i)
    case 0
    have "a \<noteq> a + 1 + of_nat j" if "j < n" for j
      using of_nat_small_inj [of 0 "Suc j"] that Suc.prems(2) by (simp add: algebra_simps)
    then show ?thesis using 0 host_write_outside [of n a "a + 1"] by (simp add: byte_of_def)
  next
    case (Suc k)
    then have "host_write (m(a := ucast v)) (a + 1) n (drop_bit 8 v) (a + 1 + of_nat k) = byte_of (drop_bit 8 v) k"
      using Suc.IH [of k] Suc.prems by simp
    then show ?thesis using Suc by (simp add: byte_of_def algebra_simps)
  qed
qed simp

lemma byte_of_u8: "byte_of (ucast (b :: u8)) i = (if i = 0 then b else 0)"
  by (rule bit_word_eqI) (auto simp: byte_of_def bit_ucast_iff bit_drop_bit_eq dest: bit_imp_le_length)

lemma byte_of_host_read: "byte_of (host_read m a n) i = (if i < n \<and> i < 8 then m (a + of_nat i) else 0)"
proof (induction n arbitrary: a i)
  case (Suc n)
  have "byte_of (push_bit 8 (host_read m (a + 1) n)) i =
      (if 0 < i \<and> i < 8 \<and> i < Suc n then m (a + of_nat i) else 0)"
    using Suc.IH [of "a + 1" "i - 1"] byte_of_push [of 1 "host_read m (a + 1) n" i]
    by (cases i) (auto simp: algebra_simps)
  then show ?case by (auto simp: byte_of_or byte_of_u8)
qed simp

text \<open>Two words are equal when their bytes are.\<close>

lemma byte_eqI: "(\<And>i. i < 8 \<Longrightarrow> byte_of x i = byte_of y i) \<Longrightarrow> x = y"
proof (rule bit_word_eqI)
  fix n
  assume bytes: "\<And>i. i < 8 \<Longrightarrow> byte_of x i = byte_of y i" and n: "n < LENGTH(64)"
  have "bit (byte_of w (n div 8)) (n mod 8) = bit w n" for w
    by (simp add: byte_of_def bit_ucast_iff bit_drop_bit_eq)
  moreover have "n div 8 < 8" using n by simp
  ultimately show "bit x n = bit y n" using bytes by metis
qed

lemma host_read_write: "n \<le> 8 \<Longrightarrow> host_read (host_write m a n v) a n = v AND mask (8 * n)"
  by (rule byte_eqI) (simp add: byte_of_host_read host_write_inside byte_of_mask)

lemma host_read_cong: "(\<And>i. i < n \<Longrightarrow> m (a + of_nat i) = m' (a + of_nat i)) \<Longrightarrow> host_read m a n = host_read m' a n"
  by (rule byte_eqI) (simp add: byte_of_host_read)

section \<open>A byte-addressed memory\<close>

text \<open>
  The contract of a memory: loads do not change it, a load returns the last value stored at its
  address, and stores to other bytes do not affect it. \<open>ok\<close> holds of the accesses for which the
  contract is promised.
\<close>

definition bytes_apart :: "nat \<Rightarrow> u64 \<Rightarrow> nat \<Rightarrow> u64 \<Rightarrow> bool" where
  "bytes_apart n a k b \<longleftrightarrow> (\<forall>i\<in>{..<n}. \<forall>j\<in>{..<k}. a + of_nat i \<noteq> b + of_nat j)"

text \<open>A sequence of stores, \<open>None\<close> when one of them fails.\<close>

fun stores :: "(nat \<Rightarrow> u64 \<Rightarrow> u64 \<Rightarrow> 's \<Rightarrow> 's option) \<Rightarrow> (nat \<times> u64 \<times> u64) list \<Rightarrow> 's \<Rightarrow> 's option" where
  "stores store [] s = Some s"
| "stores store ((n, a, v) # ws) s = Option.bind (store n a v s) (stores store ws)"

locale byte_memory =
  fixes ok :: "'s \<Rightarrow> nat \<Rightarrow> u64 \<Rightarrow> bool"
    and load :: "nat \<Rightarrow> u64 \<Rightarrow> 's \<Rightarrow> (u64 \<times> 's) option"
    and store :: "nat \<Rightarrow> u64 \<Rightarrow> u64 \<Rightarrow> 's \<Rightarrow> 's option"
  assumes load_total: "ok s n a \<Longrightarrow> \<exists>v. load n a s = Some (v, s)"
    and store_total: "ok s n a \<Longrightarrow> \<exists>s'. store n a v s = Some s'"
    and store_ok: "ok s n a \<Longrightarrow> store n a v s = Some s' \<Longrightarrow> ok s' k b = ok s k b"
    and load_store_same: "ok s n a \<Longrightarrow> store n a v s = Some s' \<Longrightarrow> load n a s' = Some (v AND mask (8 * n), s')"
    and load_store_other: "ok s n a \<Longrightarrow> ok s k b \<Longrightarrow> bytes_apart n a k b \<Longrightarrow> store n a v s = Some s' \<Longrightarrow>
      load k b s = Some (x, s) \<Longrightarrow> load k b s' = Some (x, s')"
begin

lemma stores_total:
  "list_all (\<lambda>(n, a, v). ok s n a) ws \<Longrightarrow> \<exists>s'. stores store ws s = Some s' \<and> (\<forall>k b. ok s' k b = ok s k b)"
proof (induction ws arbitrary: s)
  case (Cons x ws)
  obtain n a v where x: "x = (n, a, v)" by (metis prod.exhaust)
  then obtain s1 where s1: "store n a v s = Some s1"
    using Cons.prems store_total [of s n a v] by auto
  have same: "ok s1 = ok s" using store_ok [OF _ s1] Cons.prems x by (auto simp: fun_eq_iff)
  then obtain s' where "stores store ws s1 = Some s'" "\<forall>k b. ok s' k b = ok s1 k b"
    using Cons.IH [of s1] Cons.prems by auto
  then show ?case using s1 x same by auto
qed simp

lemma load_after_others:
  "list_all (\<lambda>(n, a, v). ok s n a \<and> bytes_apart n a k b) ws \<Longrightarrow> ok s k b \<Longrightarrow>
    stores store ws s = Some s' \<Longrightarrow> load k b s = Some (x, s) \<Longrightarrow> load k b s' = Some (x, s')"
proof (induction ws arbitrary: s)
  case (Cons w ws)
  obtain n a v where w: "w = (n, a, v)" by (metis prod.exhaust)
  then obtain s1 where s1: "store n a v s = Some s1" "stores store ws s1 = Some s'"
    using Cons.prems(3) by (cases "store n a v s") auto
  have same: "ok s1 = ok s" using store_ok [OF _ s1(1)] Cons.prems w by (auto simp: fun_eq_iff)
  have "load k b s1 = Some (x, s1)"
    using load_store_other [OF _ _ _ s1(1) Cons.prems(4)] Cons.prems w by auto
  then show ?case using Cons.IH [of s1] Cons.prems same s1(2) by auto
qed simp

lemma last_store_wins:
  assumes "ok s k b" "list_all (\<lambda>(n, a, v). ok s n a) pre"
    and "list_all (\<lambda>(n, a, v). ok s n a \<and> bytes_apart n a k b) post"
  shows "\<exists>s'. stores store (pre @ (k, b, x) # post) s = Some s' \<and> load k b s' = Some (x AND mask (8 * k), s')"
proof -
  obtain s1 where s1: "stores store pre s = Some s1" "ok s1 = ok s"
    using stores_total [OF assms(2)] by (auto simp: fun_eq_iff)
  obtain s2 where s2: "store k b x s1 = Some s2" using store_total [of s1 k b] s1(2) assms(1) by auto
  have same: "ok s2 = ok s" using store_ok [OF _ s2] s1(2) assms(1) by (auto simp: fun_eq_iff)
  have "list_all (\<lambda>(n, a, v). ok s2 n a) post" using assms(3) same by (auto simp: list_all_iff)
  then obtain s' where s': "stores store post s2 = Some s'" using stores_total by blast
  have "load k b s2 = Some (x AND mask (8 * k), s2)"
    using load_store_same [OF _ s2] s1(2) assms(1) by simp
  then have "load k b s' = Some (x AND mask (8 * k), s')"
    using load_after_others [OF _ _ s'] assms same by simp
  moreover have "stores store (pre @ ws) s = Option.bind (stores store pre s) (stores store ws)" for ws
    by (induction pre arbitrary: s) (auto split: Option.bind_split)
  ultimately show ?thesis using s1(1) s2 s' by simp
qed

end

section \<open>RAM\<close>

text \<open>
  The bus obtained by mapping RAM ranges one after the other: machine address, host address, size.
  The host ranges, which the host hands out, do not overlap.
\<close>

type_synonym ram_range = "u64 \<times> u64 \<times> u64"

definition ram_segment :: "ram_range \<Rightarrow> 'a world_scheme memory_segment" where
  "ram_segment r = (case r of (mpa, uva, sz) \<Rightarrow> mmap_memory_segment mpa uva sz pma_ram)"

definition ram_bus :: "ram_range list \<Rightarrow> 'a world_scheme user_memory" where
  "ram_bus rs = fold (\<lambda>(mpa, uva, sz). add_mmap mpa uva sz pma_ram) rs []"

lemma ram_bus_eq: "ram_bus rs = map ram_segment rs"
proof -
  have "fold (\<lambda>(mpa, uva, sz). add_mmap mpa uva sz pma_ram) rs segs = segs @ map ram_segment rs"
    for segs :: "'a world_scheme user_memory"
    by (induction rs arbitrary: segs) (auto simp: add_mmap_def add_segment_def ram_segment_def)
  then show ?thesis by (simp add: ram_bus_def)
qed

definition host_apart :: "ram_range \<Rightarrow> ram_range \<Rightarrow> bool" where
  "host_apart r r' = (case r of (mpa, uva, sz) \<Rightarrow> case r' of (mpa', uva', sz') \<Rightarrow>
     unat uva + unat sz \<le> unat uva' \<or> unat uva' + unat sz' \<le> unat uva)"

definition ram_layout :: "ram_range list \<Rightarrow> bool" where
  "ram_layout rs \<longleftrightarrow> list_all (\<lambda>(mpa, uva, sz). unat uva + unat sz \<le> 2 ^ 64) rs \<and> sorted_wrt host_apart rs"

text \<open>The bus checks only the first byte of an access; the contract is for accesses that fit.\<close>

definition in_segment :: "'w user_memory \<Rightarrow> nat \<Rightarrow> u64 \<Rightarrow> bool" where
  "in_segment segs n a \<longleftrightarrow> n \<in> {1, 2, 4, 8} \<and> (case mpa_to_uva segs a of None \<Rightarrow> False
     | Some (seg, uva) \<Rightarrow> unat (a - seg_mpa seg) + n \<le> unat (seg_size seg))"

lemma ram_segment_sel [simp]:
  "seg_mpa (ram_segment (mpa, uva, sz)) = mpa" "seg_size (ram_segment (mpa, uva, sz)) = sz"
  "seg_uva (ram_segment (mpa, uva, sz)) = uva"
  "seg_load (ram_segment (mpa, uva, sz)) n a w = Some (host_read (host_mem w) a n, w)"
  "seg_store (ram_segment (mpa, uva, sz)) n a v w = Some (w\<lparr>host_mem := host_write (host_mem w) a n v\<rparr>)"
  by (simp_all add: ram_segment_def mmap_memory_segment_def memory_segment_base_def)

lemma mpa_to_uva_ram_ex:
  "mpa_to_uva (map ram_segment rs) a = Some (seg, u) \<Longrightarrow>
    \<exists>(mpa, uva, sz)\<in>set rs. seg = ram_segment (mpa, uva, sz) \<and> u = uva + (a - mpa)"
proof (induction rs)
  case (Cons r rs)
  obtain mpa uva sz where r: "r = (mpa, uva, sz)" by (metis prod.exhaust)
  show ?case
    using Cons by (cases "seg_contains (ram_segment r :: 'a world_scheme memory_segment) a") (auto simp: r)
qed simp

lemma mpa_to_uva_ram:
  assumes "mpa_to_uva (map ram_segment rs) a = Some (seg, u)"
  obtains mpa uva sz where "(mpa, uva, sz) \<in> set rs" "seg = ram_segment (mpa, uva, sz)" "u = uva + (a - mpa)"
  using mpa_to_uva_ram_ex [OF assms] by blast

lemma in_segment_ram:
  assumes "in_segment (ram_bus rs :: 'a world_scheme user_memory) n a" "ram_layout rs"
  obtains mpa uva sz where "(mpa, uva, sz) \<in> set rs"
    "mpa_to_uva (ram_bus rs :: 'a world_scheme user_memory) a = Some (ram_segment (mpa, uva, sz), uva + (a - mpa))"
    "unat (a - mpa) + n \<le> unat sz" "unat uva + unat sz \<le> 2 ^ 64" "n \<in> {1, 2, 4, 8}"
proof -
  obtain seg u where res: "mpa_to_uva (map ram_segment rs :: 'a world_scheme user_memory) a = Some (seg, u)"
    "unat (a - seg_mpa seg) + n \<le> unat (seg_size seg)" "n \<in> {1, 2, 4, 8}"
    using assms(1) unfolding in_segment_def ram_bus_eq
    by (cases "mpa_to_uva (map ram_segment rs :: 'a world_scheme user_memory) a") (simp_all split: prod.splits)
  obtain mpa uva sz where r: "(mpa, uva, sz) \<in> set rs" "seg = ram_segment (mpa, uva, sz)" "u = uva + (a - mpa)"
    by (rule mpa_to_uva_ram [OF res(1)])
  have "unat uva + unat sz \<le> 2 ^ 64" using assms(2) r(1) by (auto simp: ram_layout_def list_all_iff)
  then show thesis using that r res by (simp add: ram_bus_eq)
qed

lemma host_apart_set:
  assumes "sorted_wrt host_apart rs" "r \<in> set rs" "r' \<in> set rs" "r \<noteq> r'"
  shows "host_apart r r'"
proof -
  have sym: "host_apart x y \<Longrightarrow> host_apart y x" for x y
    by (auto simp: host_apart_def split: prod.splits)
  obtain i j where "i < length rs" "j < length rs" "rs ! i = r" "rs ! j = r'"
    using assms(2,3) by (auto simp: in_set_conv_nth)
  then show ?thesis
    using sorted_wrt_nth_less [OF assms(1), of i j] sorted_wrt_nth_less [OF assms(1), of j i] sym assms(4)
    by (metis linorder_neqE_nat)
qed

text \<open>The host address of byte \<open>i\<close> of an access that fits lies in the host range of its segment.\<close>

lemma unat_host_byte:
  assumes "unat (d :: u64) + n \<le> unat sz" "unat uva + unat (sz :: u64) \<le> 2 ^ 64" "i < n"
  shows "unat (uva + d + of_nat i) = unat uva + unat d + i"
proof -
  have small: "unat uva + unat d + i < 2 ^ 64" using assms by linarith
  then have "unat (of_nat (unat uva + unat d + i) :: u64) = unat uva + unat d + i"
    by (subst unat_of_nat) simp
  moreover have "(of_nat (unat uva + unat d + i) :: u64) = uva + d + of_nat i" by simp
  ultimately show ?thesis by simp
qed

lemma host_bytes_apart:
  assumes "in_segment (ram_bus rs :: 'a world_scheme user_memory) n a"
    and "in_segment (ram_bus rs :: 'a world_scheme user_memory) k b" "ram_layout rs" "bytes_apart n a k b"
    and "mpa_to_uva (ram_bus rs :: 'a world_scheme user_memory) a = Some (seg, u)"
    and "mpa_to_uva (ram_bus rs :: 'a world_scheme user_memory) b = Some (seg', u')"
  shows "bytes_apart n u k u'"
proof -
  obtain mpa uva sz where A: "(mpa, uva, sz) \<in> set rs" "u = uva + (a - mpa)"
    "unat (a - mpa) + n \<le> unat sz" "unat uva + unat sz \<le> 2 ^ 64"
    using in_segment_ram [OF assms(1,3)] assms(5) by (metis option.inject prod.inject)
  obtain mpa' uva' sz' where B: "(mpa', uva', sz') \<in> set rs" "u' = uva' + (b - mpa')"
    "unat (b - mpa') + k \<le> unat sz'" "unat uva' + unat sz' \<le> 2 ^ 64"
    using in_segment_ram [OF assms(2,3)] assms(6) by (metis option.inject prod.inject)
  show ?thesis
  proof (cases "(mpa, uva, sz) = (mpa', uva', sz')")
    case True
    have shift: "u + x = (uva - mpa) + (a + x)" "u' + x = (uva - mpa) + (b + x)" for x
      using True by (simp_all add: A(2) B(2))
    show ?thesis using assms(4) unfolding bytes_apart_def shift by simp
  next
    case False
    then have "host_apart (mpa, uva, sz) (mpa', uva', sz')"
      using host_apart_set [OF _ A(1) B(1)] assms(3) by (simp add: ram_layout_def)
    moreover have "unat (u + of_nat i) = unat uva + unat (a - mpa) + i" if "i < n" for i
      using unat_host_byte [OF A(3,4) that] A(2) by simp
    moreover have "unat (u' + of_nat j) = unat uva' + unat (b - mpa') + j" if "j < k" for j
      using unat_host_byte [OF B(3,4) that] B(2) by simp
    ultimately have "unat (u + of_nat i) \<noteq> unat (u' + of_nat j)" if "i < n" "j < k" for i j
      using that A(3) B(3) by (auto simp: host_apart_def)
    then show ?thesis unfolding bytes_apart_def by (metis lessThan_iff)
  qed
qed

text \<open>The bus as a state: the ranges and the world.\<close>

definition ram_ok :: "ram_range list \<times> 'a world_scheme \<Rightarrow> nat \<Rightarrow> u64 \<Rightarrow> bool" where
  "ram_ok s n a \<longleftrightarrow> ram_layout (fst s) \<and> in_segment (ram_bus (fst s) :: 'a world_scheme user_memory) n a"

definition ram_load :: "nat \<Rightarrow> u64 \<Rightarrow> ram_range list \<times> 'a world_scheme \<Rightarrow> (u64 \<times> ram_range list \<times> 'a world_scheme) option" where
  "ram_load n a s = map_option (\<lambda>(v, w). (v, fst s, w)) (bus_load (ram_bus (fst s)) n a (snd s))"

definition ram_store :: "nat \<Rightarrow> u64 \<Rightarrow> u64 \<Rightarrow> ram_range list \<times> 'a world_scheme \<Rightarrow> (ram_range list \<times> 'a world_scheme) option" where
  "ram_store n a v s = map_option (Pair (fst s)) (bus_store (ram_bus (fst s)) n a v (snd s))"

lemma ram_access:
  fixes w :: "'a world_scheme"
  assumes "ram_ok (rs, w) n a"
  obtains seg u where "mpa_to_uva (ram_bus rs :: 'a world_scheme user_memory) a = Some (seg, u)" "n \<in> {1, 2, 4, 8}"
    "\<forall>w' :: 'a world_scheme. ram_load n a (rs, w') = Some (host_read (host_mem w') u n, rs, w')"
    "\<forall>v (w' :: 'a world_scheme). ram_store n a v (rs, w') = Some (rs, w'\<lparr>host_mem := host_write (host_mem w') u n v\<rparr>)"
proof -
  have *: "in_segment (ram_bus rs :: 'a world_scheme user_memory) n a" "ram_layout rs"
    using assms by (simp_all add: ram_ok_def)
  show thesis
    by (rule in_segment_ram [OF *])
      (rule that, assumption, simp_all add: ram_load_def ram_store_def bus_load_def bus_store_def)
qed

interpretation ram: byte_memory ram_ok ram_load ram_store
proof unfold_locales
  fix s :: "ram_range list \<times> 'a world_scheme" and n a v
  assume ok: "ram_ok s n a"
  obtain rs w where s: "s = (rs, w)" by (cases s) simp
  obtain seg u where acc: "mpa_to_uva (ram_bus rs :: 'a world_scheme user_memory) a = Some (seg, u)" "n \<in> {1, 2, 4, 8}"
    "\<forall>w' :: 'a world_scheme. ram_load n a (rs, w') = Some (host_read (host_mem w') u n, rs, w')"
    "\<forall>v (w' :: 'a world_scheme). ram_store n a v (rs, w') = Some (rs, w'\<lparr>host_mem := host_write (host_mem w') u n v\<rparr>)"
    by (rule ram_access [OF ok [unfolded s]])
  show "\<exists>v. ram_load n a s = Some (v, s)" "\<exists>s'. ram_store n a v s = Some s'"
    by (simp_all add: s acc(3,4))
  fix s' assume st: "ram_store n a v s = Some s'"
  then have s': "s' = (rs, w\<lparr>host_mem := host_write (host_mem w) u n v\<rparr>)" by (simp add: s acc(4))
  show "ram_ok s' k b = ram_ok s k b" for k b by (simp add: s s' ram_ok_def)
  show "ram_load n a s' = Some (v AND mask (8 * n), s')"
    using acc(2) host_read_write [of n] by (auto simp: s' acc(3))
  fix k b x
  assume okb: "ram_ok s k b" and apart: "bytes_apart n a k b" and ld: "ram_load k b s = Some (x, s)"
  obtain seg' u' where acc': "mpa_to_uva (ram_bus rs :: 'a world_scheme user_memory) b = Some (seg', u')"
    "\<forall>w' :: 'a world_scheme. ram_load k b (rs, w') = Some (host_read (host_mem w') u' k, rs, w')"
    by (rule ram_access [OF okb [unfolded s]])
  have "bytes_apart n u k u'"
    using host_bytes_apart [OF _ _ _ apart acc(1) acc'(1)] ok okb by (simp add: s ram_ok_def)
  then have "host_read (host_write (host_mem w) u n v) u' k = host_read (host_mem w) u' k"
    by (intro host_read_cong host_write_outside) (metis bytes_apart_def lessThan_iff)
  then show "ram_load k b s' = Some (x, s')" using ld by (simp add: s s' acc'(2))
qed

text \<open>
  C28. The memory bus implements a byte-addressed memory over any list of RAM segments whose host
  ranges do not overlap: after a sequence of stores of 1, 2, 4 or 8 bytes, each inside one segment,
  every store has succeeded and a load returns the bytes of the last store to its address that no
  later store overlaps, whatever earlier stores did.
\<close>

theorem bus_last_store_wins:
  assumes "ram_ok s k b" "list_all (\<lambda>(n, a, v). ram_ok s n a) pre"
    and "list_all (\<lambda>(n, a, v). ram_ok s n a \<and> bytes_apart n a k b) post"
  shows "\<exists>s'. stores ram_store (pre @ (k, b, x) # post) s = Some s' \<and> ram_load k b s' = Some (x AND mask (8 * k), s')"
  using assms by (rule ram.last_store_wins)

theorem bus_last_store_wins_witness:
  "\<exists>s'. stores ram_store [(8, 0x80000008, 1), (4, 0x80000008, 0x123456789), (4, 0x1000, 3)]
      ([(0x80000000, 0x7f0000000000, 0x1000), (0x1000, 0x7e0000000000, 0x1000)], \<lparr>host_mem = \<lambda>a. 0\<rparr>) = Some s' \<and>
    ram_load 4 0x80000008 s' = Some (0x23456789, s')"
proof -
  let ?s = "([(0x80000000, 0x7f0000000000, 0x1000), (0x1000, 0x7e0000000000, 0x1000)], \<lparr>host_mem = \<lambda>a. 0\<rparr>)"
  have ok: "ram_ok ?s 8 0x80000008" "ram_ok ?s 4 0x80000008" "ram_ok ?s 4 0x1000"
    by (simp_all add: ram_ok_def ram_layout_def host_apart_def in_segment_def ram_bus_eq seg_contains_def
        ram_segment_def mmap_memory_segment_def memory_segment_base_def)
  have apart: "bytes_apart 4 0x1000 4 0x80000008"
    by (simp add: bytes_apart_def lessThan_nat_numeral lessThan_Suc)
  show ?thesis
    using bus_last_store_wins [of ?s 4 "0x80000008" "[(8, 0x80000008, 1)]" "[(4, 0x1000, 3)]" "0x123456789"] ok apart
    by (simp add: mask_numeral)
qed

end
