(* ===== verification/Replay.thy ===== *)
theory Replay
  imports Checkpoint Memory "HOL-Library.Product_Lexorder"
begin

text \<open>
  The replay of a checkpoint on RISC-V hardware: the table of system calls that
  \<^verbatim>\<open>src/ckpt/parse.py\<close> writes (\<^verbatim>\<open>SysCall.make_entry\<close>,
  \<^verbatim>\<open>make_replay_table\<close>), the routine that walks it in place of every system call
  (\<^verbatim>\<open>src/ckpt/replay.c\<close>), and the stubs around it (\<^verbatim>\<open>src/ckpt/far.S\<close>,
  \<^verbatim>\<open>src/ckpt/near.S\<close>).

  The table and the replay stack lie in the memory of the replayed program, and the routine writes that
  memory, so all share one memory of bytes. A pointer is a \<open>u64\<close>; the loops of the routine run as
  long as the table tells them to, and \<open>None\<close> says that they do not end. The two counters that the
  routine reads are an argument. What it prints is part of the result. The registers of the program are
  a function from register numbers. The frame that a compiler gives the C function below the stack
  pointer of \<^verbatim>\<open>far.S\<close> is not code of the repository and left out.
\<close>

unbundle bit_operations_syntax

section \<open>The replay routine\<close>

type_synonym guest = "nat \<Rightarrow> u8"

definition REPLAY_RET :: u64 where "REPLAY_RET = 0"
definition REPLAY_EXIT :: u64 where "REPLAY_EXIT = 1"
definition REPLAY_ENTRY :: u64 where "REPLAY_ENTRY = 2"
definition REPLAY_RET_VERBOSE :: u64 where "REPLAY_RET_VERBOSE = 3"

lemmas replay_codes = REPLAY_RET_def REPLAY_EXIT_def REPLAY_ENTRY_def REPLAY_RET_VERBOSE_def

text \<open>The members of the \<^verbatim>\<open>replay_cfg\<close> at \<open>head\<close>: \<^verbatim>\<open>addr\<close>, \<^verbatim>\<open>size\<close>, \<^verbatim>\<open>data\<close>.\<close>

definition cfg_addr :: "guest \<Rightarrow> u64 \<Rightarrow> u64" where
  "cfg_addr gm head = read_mem gm (unat head) 8"

definition cfg_size :: "guest \<Rightarrow> u64 \<Rightarrow> u64" where
  "cfg_size gm head = read_mem gm (unat (head + 8)) 8"

definition cfg_data :: "u64 \<Rightarrow> u64" where
  "cfg_data head = head + 16"

text \<open>
  \<^verbatim>\<open>check_stores\<close>: the result \<open>Some None\<close> is the null pointer. A size other than the four
  widths is not compared.
\<close>

partial_function (option) check_stores :: "guest \<Rightarrow> u64 \<Rightarrow> u64 option option" where
  "check_stores gm head =
     (if cfg_addr gm head = REPLAY_RET then Some (Some head)
      else if cfg_size gm head \<in> {1, 2, 4, 8} \<and>
          read_mem gm (unat (cfg_addr gm head)) (unat (cfg_size gm head)) \<noteq>
          read_mem gm (unat (cfg_data head)) (unat (cfg_size gm head))
        then Some None
      else check_stores gm (head + 16 + 8))"

text \<open>
  \<^verbatim>\<open>do *dest++ = *src++; while (--n);\<close>: the bytes are copied one by one, in ascending order,
  and a count of zero wraps around.
\<close>

fun copy_bytes :: "nat \<Rightarrow> u64 \<Rightarrow> u64 \<Rightarrow> guest \<Rightarrow> guest" where
  "copy_bytes 0 dest src gm = gm"
| "copy_bytes (Suc n) dest src gm = copy_bytes n (dest + 1) (src + 1) (gm(unat dest := gm (unat src)))"

definition fast_memcpy :: "u64 \<Rightarrow> u64 \<Rightarrow> u64 \<Rightarrow> guest \<Rightarrow> guest" where
  "fast_memcpy dest src n gm = copy_bytes (Suc (unat (n - 1))) dest src gm"

text \<open>\<^verbatim>\<open>raw_log_u64\<close>: sixteen hexadecimal digits and a newline.\<close>

definition hex_digit :: "u64 \<Rightarrow> char" where
  "hex_digit b = (if b < 10 then char_of (48 + unat b) else char_of (97 + unat b - 10))"

definition raw_log_u64 :: "u64 \<Rightarrow> string" where
  "raw_log_u64 v = map (\<lambda>i. hex_digit (drop_bit (4 * (15 - i)) v AND 0xf)) [0..<16] @ [CHR 0x0A]"

text \<open>A double word of memory.\<close>

definition load8 :: "guest \<Rightarrow> u64 \<Rightarrow> u64" where
  "load8 gm a = read_mem gm (unat a) 8"

definition store8 :: "u64 \<Rightarrow> u64 \<Rightarrow> guest \<Rightarrow> guest" where
  "store8 a v gm = write_mem gm (unat a) 8 v"

text \<open>
  \<^verbatim>\<open>replay\<close> returns the address of the next entry, or the process exits with a status. The
  size of an entry is read again after its data has been copied.
\<close>

datatype replay_end = Return u64 | Exit int

partial_function (option) replay ::
  "u64 \<times> u64 \<Rightarrow> guest \<Rightarrow> u64 \<Rightarrow> u64 \<Rightarrow> (replay_end \<times> guest \<times> string) option" where
  "replay counters gm head csrv =
     (let addr = cfg_addr gm head in
      if addr = REPLAY_RET then Some (Return (head + 16), gm, [])
      else if addr = REPLAY_RET_VERBOSE
        then Some (Return (head + 16), gm, ''syscall '' @ raw_log_u64 (cfg_size gm head))
      else if addr = REPLAY_EXIT
        then Option.bind (check_stores gm (head + 16)) (\<lambda>ok.
          Some (if ok = None then (Exit (- 1), gm, ''store assertion failed'' @ [CHR 0x0A])
            else (Exit 0, gm, ''finish'' @ [CHR 0x0A] @
              ''cycle '' @ raw_log_u64 (fst counters - load8 gm csrv) @
              ''instret '' @ raw_log_u64 (snd counters - load8 gm (csrv + 8)))))
      else if addr = REPLAY_ENTRY
        then Some (Return (head + 16), store8 (csrv + 8) (snd counters) (store8 csrv (fst counters) gm), [])
      else let gm' = fast_memcpy addr (cfg_data head) (cfg_size gm head) gm in
        replay counters gm' (head + 16 + ((cfg_size gm' head + 7) AND NOT 7)) csrv)"

section \<open>The stubs\<close>

text \<open>
  \<^verbatim>\<open>far_call\<close> (\<^verbatim>\<open>far.S\<close>): the registers that a C function may change are stored
  below the replay stack pointer, which the word at \<^verbatim>\<open>REPLAY_SP\<close> names, and loaded again after the
  call. The word at the replay stack pointer is the address of the next entry, kept between the calls, and
  the counters of the entry follow it. The value returned in \<^verbatim>\<open>a0\<close> is the word before the next
  entry, the \<^verbatim>\<open>size\<close> of the entry that ended the call. The return address comes in \<^verbatim>\<open>a0\<close>
  and is left in \<^verbatim>\<open>sp\<close>, to which the stub jumps.

  The parameter \<open>clobber\<close> is what the compiled \<^verbatim>\<open>replay\<close> leaves in the registers that the
  calling convention lets it change.
\<close>

type_synonym int_regs = "nat \<Rightarrow> u64"

definition saved_regs :: "nat list" where
  "saved_regs = [1, 5, 6, 7, 10, 11, 12, 13, 14, 15, 16, 17, 28, 29, 30, 31]"

text \<open>The same slots on the way back: the fifth one, the return address, goes to \<^verbatim>\<open>sp\<close>.\<close>

definition restored_regs :: "nat list" where
  "restored_regs = [1, 5, 6, 7, 2, 11, 12, 13, 14, 15, 16, 17, 28, 29, 30, 31]"

fun save_regs :: "u64 \<Rightarrow> nat list \<Rightarrow> int_regs \<Rightarrow> guest \<Rightarrow> guest" where
  "save_regs sp [] regs gm = gm"
| "save_regs sp (r # rs) regs gm = save_regs (sp + 8) rs regs (store8 sp (regs r) gm)"

fun load_regs :: "u64 \<Rightarrow> nat list \<Rightarrow> guest \<Rightarrow> int_regs \<Rightarrow> int_regs" where
  "load_regs sp [] gm regs = regs"
| "load_regs sp (r # rs) gm regs = load_regs (sp + 8) rs gm (regs(r := load8 gm sp))"

definition caller_saved :: "nat set" where
  "caller_saved = {1, 5, 6, 7, 28, 29, 30, 31} \<union> {10..17}"

definition far_call :: "u64 \<Rightarrow> int_regs \<Rightarrow> u64 \<times> u64 \<Rightarrow> int_regs \<Rightarrow> guest \<Rightarrow>
    ((int_regs, int) sum \<times> guest \<times> string) option" where
  "far_call replay_sp clobber counters regs gm =
     (let sp = load8 gm replay_sp - 128;
          gm = save_regs sp saved_regs regs gm
      in map_option (\<lambda>(e, gm, out). case e of
            Exit status \<Rightarrow> (Inr status, gm, out)
          | Return a0 \<Rightarrow>
              let gm = store8 (sp + 128) a0 gm;
                regs = (\<lambda>r. if r \<in> caller_saved then clobber r else regs r)(10 := load8 gm (a0 - 8))
              in (Inl (load_regs sp restored_regs gm regs), gm, out))
          (replay counters gm (load8 gm (sp + 128)) (sp + 136)))"

text \<open>
  \<^verbatim>\<open>near_call\<close> (\<^verbatim>\<open>near.S\<close>), which takes the place of an instruction that writes \<open>rd\<close>:
  a system call (\<^verbatim>\<open>a0\<close>), or an \<^verbatim>\<open>sc\<close> with another register or with \<^verbatim>\<open>sp\<close>. \<open>ret\<close>
  is the address after the call of \<^verbatim>\<open>far_call\<close>; \<open>None\<close> also says that \<^verbatim>\<open>far_call\<close>
  jumps elsewhere. The parts of addresses that \<^verbatim>\<open>lui\<close> leaves in \<^verbatim>\<open>a0\<close> and \<^verbatim>\<open>sp\<close> are
  overwritten before they are read.
\<close>

definition call_far :: "u64 \<Rightarrow> u64 \<Rightarrow> int_regs \<Rightarrow> u64 \<times> u64 \<Rightarrow> int_regs \<Rightarrow> guest \<Rightarrow>
    ((int_regs, int) sum \<times> guest \<times> string) option" where
  "call_far replay_sp ret clobber counters regs gm =
     Option.bind (far_call replay_sp clobber counters (regs(10 := ret)) gm) (\<lambda>(r, rest).
       case r of Inl regs \<Rightarrow> if regs 2 = ret then Some (r, rest) else None | Inr status \<Rightarrow> Some (r, rest))"

definition near_call :: "u64 \<Rightarrow> u64 \<Rightarrow> nat \<Rightarrow> u64 \<Rightarrow> int_regs \<Rightarrow> u64 \<times> u64 \<Rightarrow> int_regs \<Rightarrow> guest \<Rightarrow>
    ((int_regs, int) sum \<times> guest \<times> string) option" where
  "near_call near_buf replay_sp rd ret clobber counters regs gm =
     (if rd = 2 then
        map_option (\<lambda>(r, gm, out). (map_sum (\<lambda>regs. regs(2 := regs 10, 10 := load8 gm near_buf)) id r, gm, out))
          (call_far replay_sp ret clobber counters regs (store8 near_buf (regs 10) gm))
      else
        let regs = (if rd = 10 then regs else regs(rd := regs 10)) in
        map_option (\<lambda>(r, gm, out).
            (map_sum (\<lambda>regs. (if rd = 10 then regs else regs(10 := regs rd, rd := regs 10))(2 := load8 gm near_buf)) id r,
             gm, out))
          (call_far replay_sp ret clobber counters regs (store8 near_buf (regs 2) gm)))"

text \<open>
  The entry of a checkpoint: the loader starts the program in \<^verbatim>\<open>far_call\<close>, with the address of a
  \<^verbatim>\<open>near.S\<close> without the call in \<^verbatim>\<open>a0\<close>, which only restores \<^verbatim>\<open>sp\<close>.
\<close>

definition entry_call :: "u64 \<Rightarrow> u64 \<Rightarrow> u64 \<Rightarrow> int_regs \<Rightarrow> u64 \<times> u64 \<Rightarrow> int_regs \<Rightarrow> guest \<Rightarrow>
    ((int_regs, int) sum \<times> guest \<times> string) option" where
  "entry_call near_buf replay_sp entry_addr clobber counters regs gm =
     map_option (\<lambda>(r, gm, out). (map_sum (\<lambda>regs. regs(2 := load8 gm near_buf)) id r, gm, out))
       (call_far replay_sp entry_addr clobber counters regs gm)"

section \<open>The table\<close>

definition le_bytes :: "nat \<Rightarrow> u64 \<Rightarrow> u8 list" where
  "le_bytes n w = map (byte_of w) [0..<n]"

record sys_call =
  sc_retval :: u64
  sc_is_break :: bool
  sc_waddr :: "u64 option"
  sc_wdata :: "u8 list"

definition make_entry :: "bool \<Rightarrow> sys_call \<Rightarrow> u8 list" where
  "make_entry verbose sc =
     (case sc_waddr sc of None \<Rightarrow> []
      | Some a \<Rightarrow> let n = length (sc_wdata sc); padded_size = (n + 7) div 8 * 8 in
          le_bytes 8 a @ le_bytes 8 (of_nat n) @ sc_wdata sc @ replicate (padded_size - n) 0) @
     (if sc_is_break sc then le_bytes 8 REPLAY_EXIT @ le_bytes 8 0
      else le_bytes 8 (if verbose then REPLAY_RET_VERBOSE else REPLAY_RET) @ le_bytes 8 (sc_retval sc))"

type_synonym store_assertion = "u64 \<times> nat \<times> u64"

definition store_bytes :: "store_assertion \<Rightarrow> u8 list" where
  "store_bytes = (\<lambda>(addr, size, data). le_bytes 8 addr @ le_bytes 8 (of_nat size) @ le_bytes 8 data)"

definition make_replay_table :: "bool \<Rightarrow> u64 \<Rightarrow> sys_call list \<Rightarrow> store_assertion list \<Rightarrow> u8 list" where
  "make_replay_table verbose areg syscalls asserts =
     le_bytes 8 REPLAY_ENTRY @ le_bytes 8 areg @
     concat (map (make_entry verbose) syscalls) @
     concat (map store_bytes (sort asserts)) @ le_bytes 8 0 @ le_bytes 8 0"

text \<open>
  The replay stack of \<^verbatim>\<open>process_once\<close>: \<^verbatim>\<open>regfile\<close>, \<^verbatim>\<open>replay_sp\<close>, \<^verbatim>\<open>replay_pc\<close>,
  the table of \<open>n\<close> bytes and \<^verbatim>\<open>near_buf\<close>.
\<close>

definition replay_sp_addr :: "u64 \<Rightarrow> u64" where
  "replay_sp_addr regs_addr = regs_addr + 64 * 8"

definition replay_table_addr :: "u64 \<Rightarrow> u64" where
  "replay_table_addr regs_addr = replay_sp_addr regs_addr + 8 + 8"

definition near_buf_addr :: "u64 \<Rightarrow> nat \<Rightarrow> u64" where
  "near_buf_addr regs_addr n = replay_table_addr regs_addr + of_nat n"

section \<open>Bytes in memory\<close>

text \<open>The memory holds the bytes \<open>bs\<close> from \<open>h\<close> on.\<close>

definition holds :: "guest \<Rightarrow> u64 \<Rightarrow> u8 list \<Rightarrow> bool" where
  "holds gm h bs \<longleftrightarrow> unat h + length bs < 2 ^ 64 \<and> (\<forall>i < length bs. gm (unat h + i) = bs ! i)"

lemma unat_plus: "unat h + n < 2 ^ 64 \<Longrightarrow> unat (h + of_nat n :: u64) = unat h + n"
proof -
  assume a: "unat h + n < 2 ^ 64"
  then have "h + of_nat n = (of_nat (unat h + n) :: u64)" by simp
  then show ?thesis using a by (simp only: unsigned_of_nat) (simp add: take_bit_nat_eq_self_iff)
qed

lemma holds_append:
  "holds gm h (xs @ ys) \<longleftrightarrow> unat h + length xs + length ys < 2 ^ 64 \<and> holds gm h xs \<and> holds gm (h + of_nat (length xs)) ys"
proof (cases "unat h + length xs + length ys < 2 ^ 64")
  case True
  then have u: "unat (h + of_nat (length xs)) = unat h + length xs" by (intro unat_plus) simp
  show ?thesis
    using True unfolding holds_def u
    by (auto simp: nth_append add.assoc) (metis add_diff_inverse_nat nat_add_left_cancel_less)
qed (simp add: holds_def)

lemma holds_bound: "holds gm h bs \<Longrightarrow> unat h + length bs < 2 ^ 64"
  by (simp add: holds_def)

lemma holds_cong:
  assumes "holds gm h bs" "\<And>x. unat h \<le> x \<Longrightarrow> x < unat h + length bs \<Longrightarrow> gm' x = gm x"
  shows "holds gm' h bs"
  using assms by (simp add: holds_def)

lemma length_le_bytes [simp]: "length (le_bytes n w) = n"
  by (simp add: le_bytes_def)

lemma byte_of_read_mem_iff: "n \<le> 8 \<Longrightarrow> byte_of (read_mem gm a n) i = (if i < n then gm (a + i) else 0)"
proof (induction gm a n arbitrary: i rule: read_mem.induct)
  case (2 gm a n)
  have "byte_of (push_bit 8 (read_mem gm (Suc a) n)) i = (if i = 0 then 0 else if i < 8 then byte_of (read_mem gm (Suc a) n) (i - 1) else 0)"
    using byte_of_push [of 1 "read_mem gm (Suc a) n" i] by (cases i) auto
  moreover have "byte_of (ucast (gm a) :: u64) i = (if i = 0 then gm a else 0)"
    by (rule bit_word_eqI) (auto simp: byte_of_def bit_ucast_iff bit_drop_bit_eq dest: bit_imp_le_length)
  ultimately show ?case using 2 by (cases i) (auto simp: byte_of_or)
qed simp

lemma read_le_bytes:
  assumes "holds gm h (le_bytes m w)" "n \<le> m" "m \<le> 8"
  shows "read_mem gm (unat h) n = take_bit (8 * n) w"
proof (rule byte_eqI)
  fix i :: nat assume "i < 8"
  have "byte_of (take_bit (8 * n) w) i = (if i < n then byte_of w i else 0)"
    by (simp add: take_bit_eq_mask byte_of_mask)
  then show "byte_of (read_mem gm (unat h) n) i = byte_of (take_bit (8 * n) w) i"
    using assms by (auto simp: byte_of_read_mem_iff holds_def le_bytes_def)
qed

lemma read_le_bytes8: "holds gm h (le_bytes 8 w) \<Longrightarrow> read_mem gm (unat h) 8 = w"
  using read_le_bytes [of gm h 8 w 8] by (simp add: take_bit_word_eq_self)

section \<open>One entry\<close>

lemma copy_bytes_apart:
  assumes "unat dest + n < 2 ^ 64" "unat src + n < 2 ^ 64" "unat dest + n \<le> unat src \<or> unat src + n \<le> unat dest"
  shows "copy_bytes n dest src gm = (\<lambda>x. if unat dest \<le> x \<and> x < unat dest + n then gm (unat src + (x - unat dest)) else gm x)"
  using assms
proof (induction n dest src gm rule: copy_bytes.induct)
  case (2 n dest src gm)
  have d: "unat (dest + 1) = unat dest + 1" "unat (src + 1) = unat src + 1"
    using unat_plus [of dest 1] unat_plus [of src 1] 2(2,3) by simp_all
  have IH: "copy_bytes n (dest + 1) (src + 1) (gm(unat dest := gm (unat src))) =
      (\<lambda>x. if unat dest + 1 \<le> x \<and> x < unat dest + 1 + n then (gm(unat dest := gm (unat src))) (unat src + 1 + (x - (unat dest + 1)))
        else (gm(unat dest := gm (unat src))) x)"
    using 2(2-4) unfolding d [symmetric] by (intro 2(1)) (auto simp: d)
  show ?case unfolding copy_bytes.simps IH
  proof (rule ext)
    fix x
    have "unat src + 1 + (x - (unat dest + 1)) = unat src + (x - unat dest)" if "unat dest + 1 \<le> x" using that by simp
    moreover have "unat src + (x - unat dest) \<noteq> unat dest" if "unat dest + 1 \<le> x" "x < unat dest + 1 + n"
      using that 2(4) by linarith
    ultimately show "(if unat dest + 1 \<le> x \<and> x < unat dest + 1 + n
        then (gm(unat dest := gm (unat src))) (unat src + 1 + (x - (unat dest + 1))) else (gm(unat dest := gm (unat src))) x) =
      (if unat dest \<le> x \<and> x < unat dest + Suc n then gm (unat src + (x - unat dest)) else gm x)"
      by (cases "x = unat dest") auto
  qed
qed (auto simp: fun_eq_iff)

text \<open>What a recorded call does to the memory.\<close>

definition put_bytes :: "u64 \<Rightarrow> u8 list \<Rightarrow> guest \<Rightarrow> guest" where
  "put_bytes a bs gm = (\<lambda>x. if unat a \<le> x \<and> x < unat a + length bs then bs ! (x - unat a) else gm x)"

definition after_call :: "sys_call \<Rightarrow> guest \<Rightarrow> guest" where
  "after_call sc gm = (case sc_waddr sc of None \<Rightarrow> gm | Some a \<Rightarrow> put_bytes a (sc_wdata sc) gm)"

text \<open>
  A call that the routine can replay: its write is not empty and apart from the bytes \<open>A\<close> that the
  replay keeps for itself, and its address is none of the control codes.
\<close>

definition call_ok :: "nat set \<Rightarrow> sys_call \<Rightarrow> bool" where
  "call_ok A sc \<longleftrightarrow> (case sc_waddr sc of None \<Rightarrow> True
     | Some a \<Rightarrow> 4 \<le> unat a \<and> sc_wdata sc \<noteq> [] \<and> unat a + length (sc_wdata sc) < 2 ^ 64 \<and>
         {unat a ..< unat a + length (sc_wdata sc)} \<inter> A = {})"

lemma call_ok_apart:
  assumes "call_ok A sc" "sc_waddr sc = Some a" "{m..<n} \<subseteq> A" "m < n"
  shows "unat a + length (sc_wdata sc) \<le> m \<or> n \<le> unat a"
proof (rule ccontr)
  assume "\<not> ?thesis"
  moreover have "sc_wdata sc \<noteq> []" using assms(1,2) by (simp add: call_ok_def)
  ultimately have "max m (unat a) \<in> {m..<n}" "max m (unat a) \<in> {unat a ..< unat a + length (sc_wdata sc)}"
    using assms(4) by auto
  moreover have "{unat a ..< unat a + length (sc_wdata sc)} \<inter> A = {}" using assms(1,2) by (simp add: call_ok_def)
  ultimately show False using assms(3) by blast
qed

lemma round_up8: "n + 7 < 2 ^ 64 \<Longrightarrow> (of_nat n + 7 :: u64) AND NOT 7 = of_nat ((n + 7) div 8 * 8)"
proof -
  assume n: "n + 7 < 2 ^ 64"
  have m: "(7 :: u64) = mask 3" by (simp add: mask_eq_exp_minus_1)
  have "x AND NOT (mask 3) = push_bit 3 (drop_bit 3 x)" for x :: u64
    by (rule bit_word_eqI) (auto simp: bit_and_iff bit_not_iff bit_mask_iff bit_push_bit_iff bit_drop_bit_eq not_less)
  moreover have "drop_bit 3 (of_nat (n + 7) :: u64) = of_nat ((n + 7) div 8)"
  proof -
    have u: "unat (of_nat k :: u64) = k" if "k < 2 ^ 64" for k using unat_plus [of 0 k] that by simp
    have "unat (drop_bit 3 (of_nat (n + 7) :: u64)) = (n + 7) div 8"
      unfolding unat_drop_bit_eq u [OF n] by (simp add: drop_bit_eq_div)
    moreover have "(n + 7) div 8 < 2 ^ 64" using n by simp
    ultimately show ?thesis unfolding word_unat_eq_iff by (simp only: u)
  qed
  moreover have "of_nat n + 7 = (of_nat (n + 7) :: u64)" by simp
  ultimately show ?thesis unfolding m by (simp add: push_bit_eq_mult mult.commute)
qed


lemma replay_data:
  assumes h: "holds gm h (le_bytes 8 a @ le_bytes 8 (of_nat n) @ bs @ replicate p 0 @ rest)"
    and n: "length bs = n" "bs \<noteq> []" "p = (n + 7) div 8 * 8 - n"
    and a: "4 \<le> unat a" "unat a + n < 2 ^ 64"
      "unat a + n \<le> unat h \<or> unat h + (16 + n + p + length rest) \<le> unat a"
  shows "replay c gm h csrv = replay c (put_bytes a bs gm) (h + of_nat (16 + n + p)) csrv"
    and "holds (put_bytes a bs gm) (h + of_nat (16 + n + p)) rest"
proof -
  let ?gm' = "put_bytes a bs gm"
  have bound: "unat h + (16 + n + p + length rest) < 2 ^ 64" using holds_bound [OF h] n(1) by simp
  have parts: "holds gm h (le_bytes 8 a)" "holds gm (h + 8) (le_bytes 8 (of_nat n))" "holds gm (h + 16) bs"
    "holds gm (h + of_nat (16 + n + p)) rest"
    using h n(1) by (simp_all add: holds_append add.assoc add_ac)
  have addr: "cfg_addr gm h = a" "cfg_size gm h = of_nat n"
    using parts read_le_bytes8 by (simp_all add: cfg_addr_def cfg_size_def)
  have u: "unat (h + 8) = unat h + 8" "unat (h + 16) = unat h + 16"
    using unat_plus [of h 8] unat_plus [of h 16] bound by simp_all
  have un: "unat (of_nat n :: u64) = n" using unat_plus [of 0 n] a(2) by simp
  then have "unat ((of_nat n :: u64) - 1) = n - 1"
    using n(1,2) a(2) unat_plus [of 0 "n - 1"] by (cases n) auto
  then have "fast_memcpy a (cfg_data h) (of_nat n) gm = copy_bytes n a (h + 16) gm"
    using n(1,2) by (cases n) (simp_all add: fast_memcpy_def cfg_data_def)
  also have "\<dots> = (\<lambda>x. if unat a \<le> x \<and> x < unat a + n then gm (unat (h + 16) + (x - unat a)) else gm x)"
    using a bound u by (intro copy_bytes_apart) auto
  also have "\<dots> = ?gm'"
  proof
    fix x
    have "gm (unat (h + 16) + (x - unat a)) = bs ! (x - unat a)" if "unat a \<le> x \<and> x < unat a + n"
    proof -
      have "x - unat a < length bs" using that n(1) by linarith
      then show ?thesis using parts(3) by (simp only: holds_def)
    qed
    then show "(if unat a \<le> x \<and> x < unat a + n then gm (unat (h + 16) + (x - unat a)) else gm x) = ?gm' x"
      unfolding put_bytes_def n(1) by (rule if_cong [OF refl _ refl])
  qed
  finally have copy: "fast_memcpy a (cfg_data h) (of_nat n) gm = ?gm'" .
  have keep: "holds ?gm' k xs" if "holds gm k xs" "unat h \<le> unat k" "unat k + length xs \<le> unat h + (16 + n + p + length rest)" for k xs
    by (rule holds_cong [OF that(1)]) (use that a(3) n(1) in \<open>auto simp: put_bytes_def\<close>)
  have "cfg_size ?gm' h = of_nat n"
  proof -
    have "holds ?gm' (h + 8) (le_bytes 8 (of_nat n))" by (rule keep [OF parts(2)]) (use u bound in simp_all)
    then show ?thesis unfolding cfg_size_def by (rule read_le_bytes8)
  qed
  moreover have "(of_nat n + 7 :: u64) AND NOT 7 = of_nat (n + p)"
    using round_up8 [of n] bound n(3) by simp
  moreover have "a \<noteq> REPLAY_RET" "a \<noteq> REPLAY_RET_VERBOSE" "a \<noteq> REPLAY_EXIT" "a \<noteq> REPLAY_ENTRY"
    using a(1) by (auto simp: replay_codes)
  ultimately show "replay c gm h csrv = replay c ?gm' (h + of_nat (16 + n + p)) csrv"
    by (subst replay.simps) (simp add: addr copy Let_def add_ac)
  show "holds ?gm' (h + of_nat (16 + n + p)) rest"
    by (rule keep [OF parts(4)]) (use bound unat_plus [of h "16 + n + p"] in simp_all)
qed


text \<open>A whole call: the writes, then the word that ends it.\<close>

lemma after_call_keeps: "call_ok A sc \<Longrightarrow> x \<in> A \<Longrightarrow> after_call sc gm x = gm x"
  by (auto simp: after_call_def call_ok_def put_bytes_def split: option.splits)

lemma make_entry_length: "length (make_entry v sc) = (case sc_waddr sc of None \<Rightarrow> 16
    | Some a \<Rightarrow> 32 + (length (sc_wdata sc) + 7) div 8 * 8)"
  by (simp add: make_entry_def Let_def split: option.splits)

definition entry_end :: "bool \<Rightarrow> sys_call \<Rightarrow> u8 list" where
  "entry_end v sc =
     (if sc_is_break sc then le_bytes 8 REPLAY_EXIT @ le_bytes 8 0
      else le_bytes 8 (if v then REPLAY_RET_VERBOSE else REPLAY_RET) @ le_bytes 8 (sc_retval sc))"

lemma replay_writes:
  assumes "holds gm h (make_entry v sc @ rest)" "call_ok A sc"
    "{unat h ..< unat h + length (make_entry v sc @ rest)} \<subseteq> A"
  shows "replay c gm h csrv = replay c (after_call sc gm) (h + of_nat (length (make_entry v sc) - 16)) csrv"
    and "holds (after_call sc gm) (h + of_nat (length (make_entry v sc) - 16)) (entry_end v sc @ rest)"
proof -
  have "replay c gm h csrv = replay c (after_call sc gm) (h + of_nat (length (make_entry v sc) - 16)) csrv \<and>
    holds (after_call sc gm) (h + of_nat (length (make_entry v sc) - 16)) (entry_end v sc @ rest)"
  proof (cases "sc_waddr sc")
    case None
    then show ?thesis using assms(1) by (simp add: after_call_def make_entry_length) (simp add: make_entry_def entry_end_def)
  next
    case (Some a)
    let ?n = "length (sc_wdata sc)"
    let ?p = "(?n + 7) div 8 * 8 - ?n"
    have e: "make_entry v sc @ rest = le_bytes 8 a @ le_bytes 8 (of_nat ?n) @ sc_wdata sc @ replicate ?p 0 @ entry_end v sc @ rest"
      by (simp add: make_entry_def entry_end_def Some Let_def)
    have l: "length (make_entry v sc) - 16 = 16 + ?n + ?p" by (simp add: make_entry_length Some)
    have ok: "4 \<le> unat a" "unat a + ?n < 2 ^ 64" "sc_wdata sc \<noteq> []"
      using assms(2) by (auto simp: call_ok_def Some)
    have "unat a + ?n \<le> unat h \<or> unat h + length (make_entry v sc @ rest) \<le> unat a"
      by (rule call_ok_apart [OF assms(2) Some assms(3)]) (simp add: make_entry_length Some)
    then have "unat a + ?n \<le> unat h \<or> unat h + (16 + ?n + ?p + length (entry_end v sc @ rest)) \<le> unat a"
      unfolding e by auto
    then show ?thesis
      using replay_data [OF assms(1) [unfolded e] refl ok(3) refl ok(1,2)] unfolding l by (simp add: after_call_def Some)
  qed
  then show "replay c gm h csrv = replay c (after_call sc gm) (h + of_nat (length (make_entry v sc) - 16)) csrv"
    "holds (after_call sc gm) (h + of_nat (length (make_entry v sc) - 16)) (entry_end v sc @ rest)" by blast+
qed

lemma replay_call:
  assumes "holds gm h (make_entry v sc @ rest)" "call_ok A sc" "\<not> sc_is_break sc"
    "{unat h ..< unat h + length (make_entry v sc @ rest)} \<subseteq> A"
  shows "\<exists>out. replay c gm h csrv = Some (Return (h + of_nat (length (make_entry v sc))), after_call sc gm, out)"
    and "load8 (after_call sc gm) (h + of_nat (length (make_entry v sc)) - 8) = sc_retval sc"
    and "holds (after_call sc gm) (h + of_nat (length (make_entry v sc))) rest"
proof -
  let ?k = "h + of_nat (length (make_entry v sc) - 16)"
  let ?code = "if v then REPLAY_RET_VERBOSE else REPLAY_RET"
  have l: "length (make_entry v sc) = (length (make_entry v sc) - 16) + 16"
    by (simp add: make_entry_length split: option.splits)
  have k: "?k + 16 = h + of_nat (length (make_entry v sc))"
    by (subst (2) l) (simp only: of_nat_add, simp)
  note w = replay_writes [OF assms(1,2,4)]
  have parts: "holds (after_call sc gm) ?k (le_bytes 8 ?code)" "holds (after_call sc gm) (?k + 8) (le_bytes 8 (sc_retval sc))"
    "holds (after_call sc gm) (?k + 16) rest"
    using w(2) assms(3) by (simp_all add: entry_end_def holds_append add.assoc)
  have r: "cfg_addr (after_call sc gm) ?k = ?code" "cfg_size (after_call sc gm) ?k = sc_retval sc"
    using parts(1,2) read_le_bytes8 by (simp_all add: cfg_addr_def cfg_size_def)
  have "\<exists>out. replay c (after_call sc gm) ?k csrv = Some (Return (?k + 16), after_call sc gm, out)"
    by (subst replay.simps) (simp add: r Let_def replay_codes)
  then show "\<exists>out. replay c gm h csrv = Some (Return (h + of_nat (length (make_entry v sc))), after_call sc gm, out)"
    unfolding w(1) k .
  show "load8 (after_call sc gm) (h + of_nat (length (make_entry v sc)) - 8) = sc_retval sc"
    unfolding k [symmetric] load8_def using read_le_bytes8 [OF parts(2)] by (simp add: algebra_simps)
  show "holds (after_call sc gm) (h + of_nat (length (make_entry v sc))) rest" using parts(3) unfolding k .
qed

section \<open>The store assertions\<close>

definition assertion_ok :: "store_assertion \<Rightarrow> bool" where
  "assertion_ok = (\<lambda>(addr, size, data). addr \<noteq> 0 \<and> size \<in> {1, 2, 4, 8})"

definition assertion_holds :: "guest \<Rightarrow> store_assertion \<Rightarrow> bool" where
  "assertion_holds gm = (\<lambda>(addr, size, data). read_mem gm (unat addr) size = take_bit (8 * size) data)"

lemma check_stores_correct:
  assumes "holds gm h (concat (map store_bytes as) @ le_bytes 8 0 @ rest)" "list_all assertion_ok as"
  shows "\<exists>r. check_stores gm h = Some r \<and> (r = None \<longleftrightarrow> \<not> list_all (assertion_holds gm) as)"
  using assms
proof (induction as arbitrary: h)
  case Nil
  then have "cfg_addr gm h = 0" using read_le_bytes8 by (simp add: holds_append cfg_addr_def)
  then show ?case by (subst check_stores.simps) (simp add: replay_codes)
next
  case (Cons as1 as)
  obtain addr size data where x: "as1 = (addr, size, data)" by (cases as1)
  have ok: "addr \<noteq> 0" "size = 1 \<or> size = 2 \<or> size = 4 \<or> size = 8" "list_all assertion_ok as"
    using Cons.prems(2) by (simp_all add: x assertion_ok_def)
  have parts: "holds gm h (le_bytes 8 addr)" "holds gm (h + 8) (le_bytes 8 (of_nat size))" "holds gm (h + 16) (le_bytes 8 data)"
    "holds gm (h + 16 + 8) (concat (map store_bytes as) @ le_bytes 8 0 @ rest)"
    using Cons.prems(1) by (simp_all add: x store_bytes_def holds_append add.assoc)
  have f: "cfg_addr gm h = addr" "cfg_size gm h = of_nat size"
    using parts(1,2) read_le_bytes8 by (simp_all add: cfg_addr_def cfg_size_def)
  have s: "unat (of_nat size :: u64) = size" "(of_nat size :: u64) \<in> {1, 2, 4, 8}" using ok(2) by auto
  have d: "read_mem gm (unat (cfg_data h)) size = take_bit (8 * size) data"
    using read_le_bytes [OF parts(3), of size] ok(2) by (auto simp: cfg_data_def)
  have "check_stores gm h = (if assertion_holds gm as1 then check_stores gm (h + 16 + 8) else Some None)"
    by (subst check_stores.simps) (use ok(1) s in \<open>simp add: f d x assertion_holds_def replay_codes\<close>)
  then show ?case using Cons.IH [OF parts(4) ok(3)] by auto
qed

section \<open>Registers on the replay stack\<close>

lemma load_store_same [simp]: "load8 (store8 a v gm) a = v"
  unfolding load8_def store8_def by (rule byte_eqI) (simp add: byte_of_read_mem_iff write_mem_def)

lemma load8_cong: "(\<And>i. i < 8 \<Longrightarrow> gm (unat a + i) = gm' (unat a + i)) \<Longrightarrow> load8 gm a = load8 gm' a"
  unfolding load8_def by (rule read_mem_cong) simp

lemma load_store_apart: "unat a + 8 \<le> unat b \<or> unat b + 8 \<le> unat a \<Longrightarrow> load8 (store8 a v gm) b = load8 gm b"
  by (rule load8_cong) (auto simp: store8_def write_mem_def)

lemma store8_outside: "x < unat a \<or> unat a + 8 \<le> x \<Longrightarrow> store8 a v gm x = gm x"
  by (auto simp: store8_def write_mem_def)

lemma unat_add8: "unat sp + 8 * Suc n < 2 ^ 64 \<Longrightarrow> unat (sp + 8 :: u64) = unat sp + 8"
  using unat_plus [of sp 8] by simp

lemma save_regs_outside:
  "unat sp + 8 * length rs < 2 ^ 64 \<Longrightarrow> x < unat sp \<or> unat sp + 8 * length rs \<le> x \<Longrightarrow> save_regs sp rs regs gm x = gm x"
proof (induction sp rs regs gm rule: save_regs.induct)
  case (2 sp r rs regs gm)
  have u: "unat (sp + 8) = unat sp + 8" using 2(2) by (intro unat_add8 [of _ "length rs"]) simp
  have "save_regs (sp + 8) rs regs (store8 sp (regs r) gm) x = store8 sp (regs r) gm x"
    by (rule 2(1)) (use 2(2,3) u in auto)
  also have "\<dots> = gm x" using 2(3) by (intro store8_outside) auto
  finally show ?case by simp
qed simp

lemma save_regs_slot:
  "unat sp + 8 * length rs < 2 ^ 64 \<Longrightarrow> i < length rs \<Longrightarrow> load8 (save_regs sp rs regs gm) (sp + of_nat (8 * i)) = regs (rs ! i)"
proof (induction sp rs regs gm arbitrary: i rule: save_regs.induct)
  case (2 sp r rs regs gm)
  have u: "unat (sp + 8) = unat sp + 8" using 2(2) by (intro unat_add8 [of _ "length rs"]) simp
  show ?case
  proof (cases i)
    case 0
    have "load8 (save_regs (sp + 8) rs regs (store8 sp (regs r) gm)) sp = load8 (store8 sp (regs r) gm) sp"
      by (rule load8_cong, rule save_regs_outside) (use 2(2) u in auto)
    then show ?thesis by (simp add: 0)
  next
    case (Suc j)
    have "load8 (save_regs (sp + 8) rs regs (store8 sp (regs r) gm)) (sp + 8 + of_nat (8 * j)) = regs (rs ! j)"
      by (rule 2(1)) (use 2(2,3) u Suc in auto)
    then show ?thesis by (simp add: Suc add_ac)
  qed
qed simp

lemma load_regs_slots:
  assumes "\<And>i. i < length rs \<Longrightarrow> load8 gm (sp + of_nat (8 * i)) = vs ! i" "length vs = length rs"
  shows "load_regs sp rs gm regs = fold (\<lambda>(r, v) regs. regs(r := v)) (zip rs vs) regs"
  using assms
proof (induction rs arbitrary: sp vs regs)
  case (Cons r rs)
  obtain v vs' where vs: "vs = v # vs'" using Cons.prems(2) by (cases vs) auto
  have "load8 gm (sp + 8 + of_nat (8 * i)) = vs' ! i" if "i < length rs" for i
    using Cons.prems(1) [of "Suc i"] that by (simp add: vs add_ac)
  then show ?case using Cons.IH Cons.prems(1) [of 0] Cons.prems(2) by (simp add: vs)
qed simp

text \<open>
  What \<^verbatim>\<open>far_call\<close> saves and loads again, whatever the C function leaves in the registers: all
  registers keep their values, but \<^verbatim>\<open>a0\<close> has the result and \<^verbatim>\<open>sp\<close> the return address.
\<close>

lemma restored_all:
  assumes "\<And>i. i < 16 \<Longrightarrow> load8 gm (sp + of_nat (8 * i)) = regs (saved_regs ! i)"
  shows "load_regs sp restored_regs gm ((\<lambda>r. if r \<in> caller_saved then clobber r else regs r)(10 := v)) =
    regs(10 := v, 2 := regs 10)"
proof -
  have len: "length saved_regs = 16" "length restored_regs = 16" by (simp_all add: saved_regs_def restored_regs_def)
  have "load_regs sp restored_regs gm ((\<lambda>r. if r \<in> caller_saved then clobber r else regs r)(10 := v)) =
    fold (\<lambda>(r, v) regs. regs(r := v)) (zip restored_regs (map regs saved_regs))
      ((\<lambda>r. if r \<in> caller_saved then clobber r else regs r)(10 := v))"
    by (rule load_regs_slots) (use assms len in simp_all)
  also have "\<dots> = regs(10 := v, 2 := regs 10)"
  proof
    fix r
    have "r \<in> caller_saved \<longleftrightarrow> r \<in> set saved_regs"
      by (auto simp: caller_saved_def saved_regs_def)
    then show "fold (\<lambda>(r, v) regs. regs(r := v)) (zip restored_regs (map regs saved_regs))
      ((\<lambda>r. if r \<in> caller_saved then clobber r else regs r)(10 := v)) r = (regs(10 := v, 2 := regs 10)) r"
      by (simp add: saved_regs_def restored_regs_def)
  qed
  finally show ?thesis .
qed

text \<open>
  The bytes that a replay keeps for itself: what \<^verbatim>\<open>process_once\<close> lays out after the register
  file, and the part of the loader's stack around the replay stack pointer \<open>S\<close>.
\<close>

definition replay_area :: "u64 \<Rightarrow> nat \<Rightarrow> u64 \<Rightarrow> nat set" where
  "replay_area R n S = {unat R + 512 ..< unat R + 536 + n} \<union> {unat S - 128 ..< unat S + 24}"

definition layout_ok :: "u64 \<Rightarrow> nat \<Rightarrow> u64 \<Rightarrow> bool" where
  "layout_ok R n S \<longleftrightarrow> unat R + 536 + n < 2 ^ 64 \<and> 128 \<le> unat S \<and> unat S + 24 < 2 ^ 64 \<and>
     (unat S + 24 \<le> unat R + 512 \<or> unat R + 536 + n \<le> unat S - 128)"

text \<open>The replay stack between the calls: \<open>h\<close> is the address of the next entry.\<close>

definition replay_at :: "u64 \<Rightarrow> u64 \<Rightarrow> guest \<Rightarrow> u64 \<Rightarrow> bool" where
  "replay_at R S gm h \<longleftrightarrow> load8 gm (replay_sp_addr R) = S \<and> load8 gm S = h"

lemma layout_addresses:
  assumes "layout_ok R n S"
  shows "unat (replay_sp_addr R) = unat R + 512" "unat (replay_table_addr R) = unat R + 528"
    "unat (near_buf_addr R n) = unat R + 528 + n"
    "unat (S - 128) = unat S - 128" "unat (S + 8) = unat S + 8" "unat (S + 16) = unat S + 16"
proof -
  have b: "unat R + 536 + n < 2 ^ 64" "128 \<le> unat S" "unat S + 24 < 2 ^ 64" using assms by (simp_all add: layout_ok_def)
  show "unat (replay_sp_addr R) = unat R + 512" using unat_plus [of R 512] b by (simp add: replay_sp_addr_def)
  show t: "unat (replay_table_addr R) = unat R + 528"
    using unat_plus [of R 528] b by (simp add: replay_table_addr_def replay_sp_addr_def add.commute)
  show "unat (near_buf_addr R n) = unat R + 528 + n"
    using unat_plus [of "replay_table_addr R" n] b by (simp add: near_buf_addr_def t)
  show "unat (S - 128) = unat S - 128" using b by (simp add: unat_sub word_le_nat_alt)
  show "unat (S + 8) = unat S + 8" "unat (S + 16) = unat S + 16"
    using unat_plus [of S 8] unat_plus [of S 16] b by simp_all
qed

text \<open>
  The stub around one call of the routine. The routine may change anything but the saved registers.
\<close>

lemma far_call_returns:
  assumes L: "layout_ok R n S" and at: "replay_at R S gm h"
    and r: "replay c (save_regs (S - 128) saved_regs regs gm) h (S + 8) = Some (Return next, gm', out)"
    and keep: "\<And>x. unat S - 128 \<le> x \<Longrightarrow> x < unat S \<Longrightarrow> gm' x = save_regs (S - 128) saved_regs regs gm x"
  shows "far_call (replay_sp_addr R) clobber c regs gm =
    Some (Inl (regs(10 := load8 (store8 S next gm') (next - 8), 2 := regs 10)), store8 S next gm', out)"
proof -
  note u = layout_addresses [OF L]
  have b: "128 \<le> unat S" "unat S + 24 < 2 ^ 64" using L by (simp_all add: layout_ok_def)
  have len: "length saved_regs = 16" by (simp add: saved_regs_def)
  let ?gm1 = "save_regs (S - 128) saved_regs regs gm"
  have "load8 ?gm1 S = load8 gm S"
    by (rule load8_cong, rule save_regs_outside) (use b u len in auto)
  then have head: "load8 ?gm1 S = h" using at by (simp add: replay_at_def)
  have slot: "load8 (store8 S next gm') (S - 128 + of_nat (8 * i)) = regs (saved_regs ! i)" if "i < 16" for i
  proof -
    have ui: "unat (S - 128 + of_nat (8 * i)) = unat S - 128 + 8 * i"
      using unat_plus [of "S - 128" "8 * i"] u(4) b that by simp
    have "load8 (store8 S next gm') (S - 128 + of_nat (8 * i)) = load8 gm' (S - 128 + of_nat (8 * i))"
      by (rule load_store_apart) (unfold ui, use b that in linarith)
    also have "\<dots> = load8 ?gm1 (S - 128 + of_nat (8 * i))"
      by (rule load8_cong, unfold ui, rule keep) (use b that in linarith)+
    also have "\<dots> = regs (saved_regs ! i)" by (rule save_regs_slot) (use b u len that in auto)
    finally show ?thesis .
  qed
  have sp: "load8 gm (replay_sp_addr R) = S" using at by (simp add: replay_at_def)
  have s: "S - 128 + 128 = S" "S - 128 + 136 = S + 8" by (simp_all add: algebra_simps)
  show ?thesis
    unfolding far_call_def Let_def sp s head r using restored_all [of "store8 S next gm'" "S - 128" regs, OF slot]
    by simp
qed

lemma call_far_returns:
  assumes "layout_ok R n S" "replay_at R S gm h"
    and "replay c (save_regs (S - 128) saved_regs (regs(10 := ret)) gm) h (S + 8) = Some (Return next, gm', out)"
    and "\<And>x. unat S - 128 \<le> x \<Longrightarrow> x < unat S \<Longrightarrow> gm' x = save_regs (S - 128) saved_regs (regs(10 := ret)) gm x"
  shows "call_far (replay_sp_addr R) ret clobber c regs gm =
    Some (Inl (regs(10 := load8 (store8 S next gm') (next - 8), 2 := ret)), store8 S next gm', out)"
proof -
  note f = far_call_returns [OF assms(1-3), of clobber]
  show ?thesis unfolding call_far_def by (subst f) (use assms(4) in simp_all)
qed

text \<open>
  A call of the routine during the replay: the recorded bytes are written where they belong, the
  recorded value is in \<^verbatim>\<open>a0\<close>, no other byte is changed but in the area of the replay, which is
  ready for the next call.
\<close>

lemma after_call_cong: "gm x = gm' x \<Longrightarrow> after_call sc gm x = after_call sc gm' x"
  by (simp add: after_call_def put_bytes_def split: option.splits)

lemma replayed_memory:
  assumes L: "layout_ok R n S" and at: "replay_at R S gm h" and ok: "call_ok (replay_area R n S) sc" "\<not> sc_is_break sc"
    and hold: "holds gm h (make_entry v sc @ rest)"
    and within: "unat (replay_table_addr R) \<le> unat h"
      "unat h + length (make_entry v sc @ rest) \<le> unat (replay_table_addr R) + n"
  obtains gm' out where
    "call_far (replay_sp_addr R) ret clobber c regs gm = Some (Inl (regs(10 := sc_retval sc, 2 := ret)), gm', out)"
    "replay_at R S gm' (h + of_nat (length (make_entry v sc)))" "holds gm' (h + of_nat (length (make_entry v sc))) rest"
    "\<And>x. x \<notin> replay_area R n S \<Longrightarrow> gm' x = after_call sc gm x" "load8 gm' (near_buf_addr R n) = load8 gm (near_buf_addr R n)"
proof -
  note u = layout_addresses [OF L]
  have b: "unat R + 536 + n < 2 ^ 64" "128 \<le> unat S" "unat S + 24 < 2 ^ 64"
    "unat S + 24 \<le> unat R + 512 \<or> unat R + 536 + n \<le> unat S - 128"
    using L by (simp_all add: layout_ok_def)
  let ?gm1 = "save_regs (S - 128) saved_regs (regs(10 := ret)) gm"
  let ?k = "h + of_nat (length (make_entry v sc))"
  have gm1: "?gm1 x = gm x" if "x < unat S - 128 \<or> unat S \<le> x" for x
    by (rule save_regs_outside) (use that b u in \<open>simp_all add: saved_regs_def\<close>)
  have table: "{unat h ..< unat h + length (make_entry v sc @ rest)} \<subseteq> replay_area R n S"
    using within u by (auto simp: replay_area_def)
  have apart: "x < unat S - 128 \<or> unat S + 24 \<le> x" if "unat R + 512 \<le> x" "x < unat R + 536 + n" for x
    using that b(4) by linarith
  have "holds ?gm1 h (make_entry v sc @ rest)"
  proof (rule holds_cong [OF hold], rule gm1)
    fix x assume "unat h \<le> x" "x < unat h + length (make_entry v sc @ rest)"
    then have "unat R + 512 \<le> x" "x < unat R + 536 + n" using within u by simp_all
    then show "x < unat S - 128 \<or> unat S \<le> x" using apart [of x] by linarith
  qed
  note rc = replay_call [OF this ok table]
  obtain out where out: "replay c ?gm1 h (S + 8) = Some (Return ?k, after_call sc ?gm1, out)" using rc(1) by blast
  have keep: "after_call sc ?gm1 x = ?gm1 x" if "x \<in> replay_area R n S" for x
    by (rule after_call_keeps [OF ok(1) that])
  let ?gm' = "store8 S ?k (after_call sc ?gm1)"
  have outside: "?gm' x = after_call sc ?gm1 x" if "unat R + 512 \<le> x" "x < unat R + 536 + n" for x
    by (rule store8_outside) (use apart [OF that] in linarith)
  have same: "?gm' x = gm x" if "unat R + 512 \<le> x" "x < unat R + 536 + n" for x
    using outside [OF that] keep [of x] gm1 [of x] apart [OF that] that by (auto simp: replay_area_def)
  have uk: "unat ?k = unat h + length (make_entry v sc)"
    using holds_bound [OF hold] by (intro unat_plus) simp
  have "16 \<le> length (make_entry v sc)" by (simp add: make_entry_length split: option.splits)
  then have uk8: "unat (?k - 8) = unat ?k - 8" using uk by (simp add: unat_sub word_le_nat_alt)
  have val: "load8 ?gm' (?k - 8) = sc_retval sc"
  proof -
    have "load8 ?gm' (?k - 8) = load8 (after_call sc ?gm1) (?k - 8)"
    proof (rule load8_cong, rule outside)
      fix i :: nat assume "i < 8"
      then show "unat R + 512 \<le> unat (?k - 8) + i" "unat (?k - 8) + i < unat R + 536 + n"
        using uk uk8 \<open>16 \<le> length (make_entry v sc)\<close> within u by simp_all
    qed
    then show ?thesis using rc(2) by simp
  qed
  show thesis
  proof
    show "call_far (replay_sp_addr R) ret clobber c regs gm = Some (Inl (regs(10 := sc_retval sc, 2 := ret)), ?gm', out)"
      using call_far_returns [OF L at out, of clobber] keep val by (simp add: replay_area_def)
    have "load8 ?gm' (replay_sp_addr R) = load8 gm (replay_sp_addr R)"
      by (rule load8_cong, rule same) (use u in simp_all)
    then show "replay_at R S ?gm' ?k" using at by (simp add: replay_at_def)
    show "holds ?gm' ?k rest"
    proof (rule holds_cong [OF rc(3)], rule outside)
      fix x assume "unat ?k \<le> x" "x < unat ?k + length rest"
      then show "unat R + 512 \<le> x" "x < unat R + 536 + n" using uk within u by simp_all
    qed
    show "load8 ?gm' (near_buf_addr R n) = load8 gm (near_buf_addr R n)"
      by (rule load8_cong, rule same) (use u in simp_all)
    fix x assume x: "x \<notin> replay_area R n S"
    then have xs: "x < unat S - 128 \<or> unat S + 24 \<le> x" by (auto simp: replay_area_def)
    then have "?gm' x = after_call sc ?gm1 x" by (intro store8_outside) linarith
    also have "\<dots> = after_call sc gm x"
      using gm1 [of x] xs by (auto simp: after_call_def put_bytes_def split: option.splits)
    finally show "?gm' x = after_call sc gm x" .
  qed
qed

lemma near_buf_store:
  assumes L: "layout_ok R n S" and at: "replay_at R S gm h"
  shows "replay_at R S (store8 (near_buf_addr R n) w gm) h"
    and "x \<notin> replay_area R n S \<Longrightarrow> store8 (near_buf_addr R n) w gm x = gm x"
    and "x < unat (replay_table_addr R) + n \<Longrightarrow> store8 (near_buf_addr R n) w gm x = gm x"
proof -
  note u = layout_addresses [OF L]
  have b: "unat S + 24 \<le> unat R + 512 \<or> unat R + 536 + n \<le> unat S - 128" using L by (simp add: layout_ok_def)
  have "load8 (store8 (near_buf_addr R n) w gm) (replay_sp_addr R) = load8 gm (replay_sp_addr R)"
    by (rule load_store_apart) (simp add: u)
  moreover have "load8 (store8 (near_buf_addr R n) w gm) S = load8 gm S"
    by (rule load_store_apart) (use b u in linarith)
  ultimately show "replay_at R S (store8 (near_buf_addr R n) w gm) h" using at by (simp add: replay_at_def)
  show "store8 (near_buf_addr R n) w gm x = gm x" if "x \<notin> replay_area R n S"
    by (rule store8_outside) (use that u in \<open>auto simp: replay_area_def\<close>)
  show "store8 (near_buf_addr R n) w gm x = gm x" if "x < unat (replay_table_addr R) + n"
    by (rule store8_outside) (use that u in simp)
qed

text \<open>
  A replayed instruction with destination register \<open>rd\<close>: the recorded value is in it and every other
  register is as before, the stack pointer and the registers that the C function changes included.
\<close>

lemma near_call_replays:
  assumes L: "layout_ok R n S" and at: "replay_at R S gm h" and ok: "call_ok (replay_area R n S) sc" "\<not> sc_is_break sc"
    and hold: "holds gm h (make_entry v sc @ rest)"
    and within: "unat (replay_table_addr R) \<le> unat h"
      "unat h + length (make_entry v sc @ rest) \<le> unat (replay_table_addr R) + n"
  obtains gm' out where
    "near_call (near_buf_addr R n) (replay_sp_addr R) rd ret clobber c regs gm = Some (Inl (regs(rd := sc_retval sc)), gm', out)"
    "replay_at R S gm' (h + of_nat (length (make_entry v sc)))" "holds gm' (h + of_nat (length (make_entry v sc))) rest"
    "\<And>x. x \<notin> replay_area R n S \<Longrightarrow> gm' x = after_call sc gm x"
proof -
  define regs1 where "regs1 = (if rd = 2 \<or> rd = 10 then regs else regs(rd := regs 10))"
  define w where "w = (if rd = 2 then regs 10 else regs1 2)"
  let ?gm = "store8 (near_buf_addr R n) w gm"
  note nb = near_buf_store [OF L at, where w = w]
  have "holds ?gm h (make_entry v sc @ rest)"
    by (rule holds_cong [OF hold], rule nb(3)) (use within in linarith)
  then obtain gm' out where f:
    "call_far (replay_sp_addr R) ret clobber c regs1 ?gm = Some (Inl (regs1(10 := sc_retval sc, 2 := ret)), gm', out)"
    "replay_at R S gm' (h + of_nat (length (make_entry v sc)))" "holds gm' (h + of_nat (length (make_entry v sc))) rest"
    "\<And>x. x \<notin> replay_area R n S \<Longrightarrow> gm' x = after_call sc ?gm x" "load8 gm' (near_buf_addr R n) = load8 ?gm (near_buf_addr R n)"
    using replayed_memory [OF L nb(1) ok _ within] by metis
  have buf: "load8 gm' (near_buf_addr R n) = w" using f(5) by simp
  show thesis
  proof
    show "near_call (near_buf_addr R n) (replay_sp_addr R) rd ret clobber c regs gm = Some (Inl (regs(rd := sc_retval sc)), gm', out)"
      using f(1) buf by (auto simp: near_call_def regs1_def w_def Let_def fun_eq_iff)
    show "replay_at R S gm' (h + of_nat (length (make_entry v sc)))" by (rule f(2))
    show "holds gm' (h + of_nat (length (make_entry v sc))) rest" by (rule f(3))
    fix x assume x: "x \<notin> replay_area R n S"
    then show "gm' x = after_call sc gm x" using f(4) [OF x] after_call_cong [of ?gm x gm sc] nb(2) [OF x] by simp
  qed
qed

section \<open>Properties\<close>

text \<open>
  The replayed program between the calls, and the calls it makes: what the program does to the memory
  before a call, the registers it calls with, the address it returns to, what the C function leaves in
  the registers it may change, and the counters.
\<close>

record visit =
  vs_prog :: "guest \<Rightarrow> guest"
  vs_regs :: int_regs
  vs_ret :: u64
  vs_clobber :: int_regs
  vs_counters :: "u64 \<times> u64"

text \<open>The registers after every call, and the memory at the end.\<close>

fun replay_run :: "u64 \<Rightarrow> nat \<Rightarrow> visit list \<Rightarrow> guest \<Rightarrow> (int_regs list \<times> guest) option" where
  "replay_run R n [] gm = Some ([], gm)"
| "replay_run R n (v # vs) gm =
     Option.bind (near_call (near_buf_addr R n) (replay_sp_addr R) 10 (vs_ret v) (vs_clobber v) (vs_counters v)
         (vs_regs v) (vs_prog v gm)) (\<lambda>(r, gm, out).
       case r of Inr status \<Rightarrow> None
       | Inl regs \<Rightarrow> map_option (\<lambda>(rs, gm). (regs # rs, gm)) (replay_run R n vs gm))"

text \<open>Memories that agree but for the bytes \<open>A\<close>, and programs that neither look at those nor change them.\<close>

definition agree :: "nat set \<Rightarrow> guest \<Rightarrow> guest \<Rightarrow> bool" where
  "agree A gm gm' \<longleftrightarrow> (\<forall>x. x \<notin> A \<longrightarrow> gm x = gm' x)"

definition ignores :: "nat set \<Rightarrow> (guest \<Rightarrow> guest) \<Rightarrow> bool" where
  "ignores A prog \<longleftrightarrow> (\<forall>gm gm'. agree A gm gm' \<longrightarrow> agree A (prog gm) (prog gm')) \<and> (\<forall>gm x. x \<in> A \<longrightarrow> prog gm x = gm x)"

fun recorded_run :: "(guest \<Rightarrow> guest) list \<Rightarrow> sys_call list \<Rightarrow> guest \<Rightarrow> guest" where
  "recorded_run (prog # progs) (sc # scs) gm = recorded_run progs scs (after_call sc (prog gm))"
| "recorded_run _ _ gm = gm"

lemma ignored_area:
  assumes "ignores A prog" "{m ..< m + length bs} \<subseteq> A"
  shows "unat h = m \<Longrightarrow> holds gm h bs \<Longrightarrow> holds (prog gm) h bs"
  by (erule holds_cong) (use assms in \<open>auto simp: ignores_def\<close>)

lemma ignored_load: "ignores A prog \<Longrightarrow> {unat a ..< unat a + 8} \<subseteq> A \<Longrightarrow> load8 (prog gm) a = load8 gm a"
proof (rule load8_cong)
  fix i :: nat assume a: "ignores A prog" "{unat a ..< unat a + 8} \<subseteq> A" "i < 8"
  then have "unat a + i \<in> A" by (intro subsetD [OF a(2)]) simp
  then show "prog gm (unat a + i) = gm (unat a + i)" using a(1) by (simp add: ignores_def)
qed

lemma ignored_at:
  assumes "layout_ok R n S" "ignores (replay_area R n S) prog"
  shows "replay_at R S (prog gm) h = replay_at R S gm h"
proof -
  have "{unat (replay_sp_addr R) ..< unat (replay_sp_addr R) + 8} \<subseteq> replay_area R n S"
    unfolding layout_addresses(1) [OF assms(1)] replay_area_def by auto
  moreover have "{unat S ..< unat S + 8} \<subseteq> replay_area R n S" unfolding replay_area_def by auto
  ultimately show ?thesis unfolding replay_at_def using ignored_load [OF assms(2)] by simp
qed

lemma replay_run_calls:
  assumes L: "layout_ok R n S"
    and "replay_at R S gm h" "holds gm h (concat (map (make_entry v) scs) @ rest)"
    and "unat (replay_table_addr R) \<le> unat h"
    and "unat h + length (concat (map (make_entry v) scs) @ rest) \<le> unat (replay_table_addr R) + n"
    and "list_all (call_ok (replay_area R n S)) scs" "list_all (\<lambda>sc. \<not> sc_is_break sc) scs"
    and "length vs = length scs" "list_all (ignores (replay_area R n S)) (map vs_prog vs)"
    and "agree (replay_area R n S) gm gm2"
  shows "\<exists>gm' h'. replay_run R n vs gm = Some (map2 (\<lambda>v sc. (vs_regs v)(10 := sc_retval sc)) vs scs, gm') \<and>
    agree (replay_area R n S) gm' (recorded_run (map vs_prog vs) scs gm2) \<and> replay_at R S gm' h' \<and> holds gm' h' rest"
  using assms(2-)
proof (induction scs arbitrary: gm gm2 h vs)
  case Nil
  then show ?case by auto
next
  case (Cons sc scs)
  obtain u us where vs: "vs = u # us" using Cons.prems(7) by (cases vs) auto
  let ?rest = "concat (map (make_entry v) scs) @ rest"
  let ?A = "replay_area R n S"
  have ig: "ignores ?A (vs_prog u)" using Cons.prems(8) by (simp add: vs)
  have h: "holds (vs_prog u gm) h (make_entry v sc @ ?rest)"
  proof (rule ignored_area [OF ig _ refl])
    show "{unat h ..< unat h + length (make_entry v sc @ ?rest)} \<subseteq> ?A"
      using Cons.prems(3,4) layout_addresses [OF L] by (auto simp: replay_area_def)
  qed (use Cons.prems(2) in simp)
  have at: "replay_at R S (vs_prog u gm) h" using ignored_at [OF L ig] Cons.prems(1) by simp
  have ok: "call_ok ?A sc" "\<not> sc_is_break sc" and b: "unat h + length (make_entry v sc @ ?rest) \<le> unat (replay_table_addr R) + n"
    using Cons.prems(4-6) by simp_all
  let ?h = "h + of_nat (length (make_entry v sc))"
  have uh: "unat ?h = unat h + length (make_entry v sc)"
    using holds_bound [OF h] by (intro unat_plus) simp
  obtain gm1 out where call: "near_call (near_buf_addr R n) (replay_sp_addr R) 10 (vs_ret u) (vs_clobber u) (vs_counters u)
      (vs_regs u) (vs_prog u gm) = Some (Inl ((vs_regs u)(10 := sc_retval sc)), gm1, out)"
    "replay_at R S gm1 ?h" "holds gm1 ?h ?rest" "\<And>x. x \<notin> ?A \<Longrightarrow> gm1 x = after_call sc (vs_prog u gm) x"
    using near_call_replays [OF L at ok h Cons.prems(3) b] by metis
  have "agree ?A (vs_prog u gm) (vs_prog u gm2)" using ig Cons.prems(9) by (simp add: ignores_def)
  then have ag: "agree ?A gm1 (after_call sc (vs_prog u gm2))"
    using call(4) after_call_cong unfolding agree_def by metis
  have "\<exists>gm' h'. replay_run R n us gm1 = Some (map2 (\<lambda>v sc. (vs_regs v)(10 := sc_retval sc)) us scs, gm') \<and>
    agree ?A gm' (recorded_run (map vs_prog us) scs (after_call sc (vs_prog u gm2))) \<and> replay_at R S gm' h' \<and> holds gm' h' rest"
    by (rule Cons.IH [OF call(2,3) _ _ _ _ _ _ ag]) (use Cons.prems(3,5-8) b uh in \<open>simp_all add: vs\<close>)
  then obtain gm' h' where IH: "replay_run R n us gm1 = Some (map2 (\<lambda>v sc. (vs_regs v)(10 := sc_retval sc)) us scs, gm')"
    "agree ?A gm' (recorded_run (map vs_prog us) scs (after_call sc (vs_prog u gm2)))" "replay_at R S gm' h'" "holds gm' h' rest"
    by blast
  then show ?case by (intro exI [of _ gm'] exI [of _ h']) (simp add: vs call(1) del: fun_upd_apply)
qed

text \<open>
  The replay stack as \<^verbatim>\<open>process_once\<close> and the entry of the loader leave it: the replay stack pointer,
  the pointer to the table, the table, and the stack pointer of the program.
\<close>

definition replay_loaded :: "u64 \<Rightarrow> u64 \<Rightarrow> u8 list \<Rightarrow> u64 \<Rightarrow> guest \<Rightarrow> bool" where
  "replay_loaded R S table sp gm \<longleftrightarrow> replay_at R S gm (replay_table_addr R) \<and>
     holds gm (replay_table_addr R) table \<and> load8 gm (near_buf_addr R (length table)) = sp"

text \<open>The entry returns the recorded \<^verbatim>\<open>a0\<close>, restores the stack pointer and stores the counters.\<close>

lemma entry_call_returns:
  assumes L: "layout_ok R n S" and gm: "replay_loaded R S (le_bytes 8 REPLAY_ENTRY @ le_bytes 8 areg @ rest) sp gm"
    and n: "n = length (le_bytes 8 REPLAY_ENTRY @ le_bytes 8 areg @ rest)"
  obtains gm' where
    "entry_call (near_buf_addr R n) (replay_sp_addr R) ret clobber (cycle, instret) regs gm =
       Some (Inl (regs(10 := areg, 2 := sp)), gm', [])"
    "replay_at R S gm' (replay_table_addr R + 16)" "holds gm' (replay_table_addr R + 16) rest"
    "agree (replay_area R n S) gm' gm" "load8 gm' (S + 8) = cycle" "load8 gm' (S + 16) = instret"
proof -
  note u = layout_addresses [OF L]
  have b: "unat R + 536 + n < 2 ^ 64" "128 \<le> unat S" "unat S + 24 < 2 ^ 64"
    "unat S + 24 \<le> unat R + 512 \<or> unat R + 536 + n \<le> unat S - 128"
    using L by (simp_all add: layout_ok_def)
  let ?T = "replay_table_addr R"
  let ?gm1 = "save_regs (S - 128) saved_regs (regs(10 := ret)) gm"
  let ?gm2 = "store8 (S + 8 + 8) instret (store8 (S + 8) cycle ?gm1)"
  let ?gm' = "store8 S (?T + 16) ?gm2"
  have S16: "S + 8 + 8 = S + 16" by simp
  have outside: "?gm' x = gm x" if "x < unat S - 128 \<or> unat S + 24 \<le> x" for x
  proof -
    have "?gm' x = ?gm1 x"
      using that unfolding S16 by (subst store8_outside, use u in linarith)+ simp
    also have "\<dots> = gm x" by (rule save_regs_outside) (use that b u in \<open>auto simp: saved_regs_def\<close>)
    finally show ?thesis .
  qed
  have apart: "x < unat S - 128 \<or> unat S + 24 \<le> x" if "unat R + 512 \<le> x" "x < unat R + 536 + n" for x
    using that b(4) by linarith
  have gm1: "?gm1 x = gm x" if "unat R + 512 \<le> x" "x < unat R + 536 + n" for x
    by (rule save_regs_outside) (use apart [OF that] b u in \<open>auto simp: saved_regs_def\<close>)
  have u16: "unat (?T + 8) = unat R + 536" "unat (?T + 16) = unat R + 544"
    using unat_plus [of ?T 8] unat_plus [of ?T 16] u b n by simp_all
  have hold: "holds g ?T (le_bytes 8 REPLAY_ENTRY)" "load8 g (?T + 8) = areg" "holds g (?T + 16) rest"
    if same: "\<And>x. unat R + 512 \<le> x \<Longrightarrow> x < unat R + 536 + n \<Longrightarrow> g x = gm x" for g
  proof -
    have "holds g ?T (le_bytes 8 REPLAY_ENTRY @ le_bytes 8 areg @ rest)"
      by (rule holds_cong [OF conjunct1 [OF conjunct2 [OF gm [unfolded replay_loaded_def]]]], rule same) (use u n in simp_all)
    then show "holds g ?T (le_bytes 8 REPLAY_ENTRY)" "load8 g (?T + 8) = areg" "holds g (?T + 16) rest"
      using read_le_bytes8 by (simp_all add: holds_append load8_def add.assoc)
  qed
  have "cfg_addr ?gm1 ?T = REPLAY_ENTRY"
    unfolding cfg_addr_def by (rule read_le_bytes8 [OF hold(1) [OF gm1]])
  then have r: "replay (cycle, instret) ?gm1 ?T (S + 8) = Some (Return (?T + 16), ?gm2, [])"
    by (subst replay.simps) (simp add: replay_codes)
  have keep: "?gm2 x = ?gm1 x" if "unat S - 128 \<le> x" "x < unat S" for x
    using that unfolding S16 by (subst store8_outside, use u in linarith)+ simp
  have same: "?gm' x = gm x" if "unat R + 512 \<le> x" "x < unat R + 536 + n" for x
    by (rule outside [OF apart [OF that]])
  have at: "replay_at R S gm ?T" using gm by (simp add: replay_loaded_def)
  have f: "call_far (replay_sp_addr R) ret clobber (cycle, instret) regs gm = Some (Inl (regs(10 := areg, 2 := ret)), ?gm', [])"
    using call_far_returns [OF L at r keep, of clobber] hold(2) [OF same] by (simp add: algebra_simps)
  have buf: "load8 ?gm' (near_buf_addr R n) = sp"
  proof -
    have "load8 ?gm' (near_buf_addr R n) = load8 gm (near_buf_addr R n)"
      by (rule load8_cong, rule same) (use u in simp_all)
    then show ?thesis using gm n by (simp add: replay_loaded_def)
  qed
  show thesis
  proof
    show "entry_call (near_buf_addr R n) (replay_sp_addr R) ret clobber (cycle, instret) regs gm =
       Some (Inl (regs(10 := areg, 2 := sp)), ?gm', [])"
      by (simp only: entry_call_def f option.map prod.case map_sum.simps buf fun_upd_upd)
    have "load8 ?gm' (replay_sp_addr R) = load8 gm (replay_sp_addr R)"
      by (rule load8_cong, rule same) (use u in simp_all)
    then show "replay_at R S ?gm' (?T + 16)" using at by (simp add: replay_at_def)
    show "holds ?gm' (?T + 16) rest" by (rule hold(3) [OF same])
    show "agree (replay_area R n S) ?gm' gm"
      unfolding agree_def by (intro allI impI outside) (auto simp: replay_area_def)
    have "load8 ?gm' (S + 8) = load8 ?gm2 (S + 8)" by (rule load_store_apart) (use u in simp)
    also have "\<dots> = cycle" unfolding S16 by (subst load_store_apart) (use u in simp_all)
    finally show "load8 ?gm' (S + 8) = cycle" .
    have "load8 ?gm' (S + 16) = load8 ?gm2 (S + 16)" by (rule load_store_apart) (use u in simp)
    then show "load8 ?gm' (S + 16) = instret" unfolding S16 by simp
  qed
qed

text \<open>
  The replayed program sees the recorded system calls. Let the memory hold the replay stack of a
  checkpoint, and let the program run from call to call, doing whatever it does to the rest of the
  memory. The entry returns the recorded \<^verbatim>\<open>a0\<close> and stack pointer and stores the counters; every
  further call returns with the value of the recorded call in \<^verbatim>\<open>a0\<close> and no other register changed,
  after the recorded bytes have been written where they belong and nowhere else. No call is skipped or
  repeated.
\<close>

theorem replay_returns_recorded:
  assumes L: "layout_ok R n S" and gm: "replay_loaded R S (make_replay_table v areg (scs @ rest) asserts) sp gm"
    and n: "n = length (make_replay_table v areg (scs @ rest) asserts)"
    and "list_all (call_ok (replay_area R n S)) scs" "list_all (\<lambda>sc. \<not> sc_is_break sc) scs"
    and "length vs = length scs" "list_all (ignores (replay_area R n S)) (map vs_prog vs)"
    and "agree (replay_area R n S) gm gm2"
  shows "\<exists>gm1 gm'. entry_call (near_buf_addr R n) (replay_sp_addr R) ret clobber (cycle, instret) regs gm =
      Some (Inl (regs(10 := areg, 2 := sp)), gm1, []) \<and> load8 gm1 (S + 8) = cycle \<and> load8 gm1 (S + 16) = instret \<and>
    replay_run R n vs gm1 = Some (map2 (\<lambda>v sc. (vs_regs v)(10 := sc_retval sc)) vs scs, gm') \<and>
    agree (replay_area R n S) gm' (recorded_run (map vs_prog vs) scs gm2)"
proof -
  let ?tail = "concat (map (make_entry v) rest) @ concat (map store_bytes (sort asserts)) @ le_bytes 8 0 @ le_bytes 8 0"
  let ?rest = "concat (map (make_entry v) scs) @ ?tail"
  have table: "make_replay_table v areg (scs @ rest) asserts = le_bytes 8 REPLAY_ENTRY @ le_bytes 8 areg @ ?rest"
    by (simp add: make_replay_table_def)
  obtain gm1 where e: "entry_call (near_buf_addr R n) (replay_sp_addr R) ret clobber (cycle, instret) regs gm =
       Some (Inl (regs(10 := areg, 2 := sp)), gm1, [])"
    "replay_at R S gm1 (replay_table_addr R + 16)" "holds gm1 (replay_table_addr R + 16) ?rest"
    "agree (replay_area R n S) gm1 gm" "load8 gm1 (S + 8) = cycle" "load8 gm1 (S + 16) = instret"
    using entry_call_returns [OF L gm [unfolded table] n [unfolded table]] by metis
  have ag: "agree (replay_area R n S) gm1 gm2" using e(4) assms(8) by (simp add: agree_def)
  have len: "n = 16 + length ?rest" by (simp add: n table)
  have u: "unat (replay_table_addr R + 16) = unat (replay_table_addr R) + 16"
    using unat_plus [of "replay_table_addr R" 16] L len layout_addresses [OF L] by (simp add: layout_ok_def)
  have "\<exists>gm' h'. replay_run R n vs gm1 = Some (map2 (\<lambda>v sc. (vs_regs v)(10 := sc_retval sc)) vs scs, gm') \<and>
    agree (replay_area R n S) gm' (recorded_run (map vs_prog vs) scs gm2) \<and> replay_at R S gm' h' \<and> holds gm' h' ?tail"
    by (rule replay_run_calls [OF L e(2,3) _ _ assms(4-7) ag]) (use u len in simp_all)
  then show ?thesis using e(1,5,6) by blast
qed

lemma replay_exits:
  assumes "holds gm h (make_entry v sc @ concat (map store_bytes (sort asserts)) @ le_bytes 8 0 @ le_bytes 8 0)"
    and "sc_is_break sc" "sc_waddr sc = None" "list_all assertion_ok asserts"
  shows "\<exists>out. replay counters gm h csrv =
    Some (Exit (if list_all (assertion_holds gm) asserts then 0 else - 1), gm, out)"
proof -
  have parts: "holds gm h (le_bytes 8 REPLAY_EXIT)"
    "holds gm (h + 16) (concat (map store_bytes (sort asserts)) @ le_bytes 8 0 @ le_bytes 8 0)"
    using assms(1-3) by (simp_all add: make_entry_def holds_append add.assoc)
  have "list_all assertion_ok (sort asserts)" using assms(4) by (simp add: list_all_iff)
  then obtain r where r: "check_stores gm (h + 16) = Some r" "r = None \<longleftrightarrow> \<not> list_all (assertion_holds gm) asserts"
    using check_stores_correct [OF parts(2)] by (auto simp: list_all_iff)
  have "cfg_addr gm h = REPLAY_EXIT" using parts(1) read_le_bytes8 by (simp add: cfg_addr_def)
  then have "\<exists>out. replay counters gm h csrv =
      Some (Exit (if r = None then - 1 else 0), gm, out)"
    by (subst replay.simps) (simp add: r(1) replay_codes)
  then show ?thesis unfolding r(2) by (auto split: if_splits)
qed

text \<open>
  The exit through the stub, which has stored the registers below the replay stack pointer; the verdict
  is about the memory of the program, as long as no recorded store lies there.
\<close>

lemma assertion_holds_cong:
  assumes "\<And>x. unat addr \<le> x \<Longrightarrow> x < unat addr + sz \<Longrightarrow> gm' x = gm x"
  shows "assertion_holds gm' (addr, sz, data) = assertion_holds gm (addr, sz, data)"
  using read_mem_cong [of sz gm' "unat addr" gm] assms by (simp add: assertion_holds_def)

lemma far_call_exits:
  fixes sc asserts and v :: bool
  defines "bs \<equiv> make_entry v sc @ concat (map store_bytes (sort asserts)) @ le_bytes 8 0 @ le_bytes 8 0"
  assumes L: "layout_ok R n S" and at: "replay_at R S gm h" and hold: "holds gm h bs"
    and apart: "unat S \<le> unat h \<or> unat h + length bs \<le> unat S - 128"
    and ok: "sc_is_break sc" "sc_waddr sc = None" "list_all assertion_ok asserts"
    and stores: "\<And>addr sz data. (addr, sz, data) \<in> set asserts \<Longrightarrow> unat S \<le> unat addr \<or> unat addr + sz \<le> unat S - 128"
  shows "\<exists>gm' out. far_call (replay_sp_addr R) clobber counters regs gm =
    Some (Inr (if list_all (assertion_holds gm) asserts then 0 else - 1), gm', out)"
proof -
  note u = layout_addresses [OF L]
  have b: "128 \<le> unat S" "unat S + 24 < 2 ^ 64" using L by (simp_all add: layout_ok_def)
  let ?gm1 = "save_regs (S - 128) saved_regs regs gm"
  have gm1: "?gm1 x = gm x" if "x < unat S - 128 \<or> unat S \<le> x" for x
    by (rule save_regs_outside) (use that b u in \<open>simp_all add: saved_regs_def\<close>)
  have head: "load8 ?gm1 S = h"
    using load8_cong [of ?gm1 S gm, OF gm1] at by (simp add: replay_at_def)
  have "holds ?gm1 h bs" by (rule holds_cong [OF hold], rule gm1) (use apart in linarith)
  then obtain out where out: "replay counters ?gm1 h (S + 8) =
      Some (Exit (if list_all (assertion_holds ?gm1) asserts then 0 else - 1), ?gm1, out)"
    using replay_exits [OF _ ok] unfolding bs_def by blast
  have "assertion_holds ?gm1 as1 = assertion_holds gm as1" if "as1 \<in> set asserts" for as1
  proof -
    obtain addr sz data where x: "as1 = (addr, sz, data)" by (cases as1)
    show ?thesis unfolding x
      by (rule assertion_holds_cong, rule gm1) (use stores [of addr sz data] that x in \<open>auto\<close>)
  qed
  then have same: "list_all (assertion_holds ?gm1) asserts = list_all (assertion_holds gm) asserts"
    by (auto simp: list_all_iff)
  have sp: "load8 gm (replay_sp_addr R) = S" using at by (simp add: replay_at_def)
  have s: "S - 128 + 128 = S" "S - 128 + 136 = S + 8" by (simp_all add: algebra_simps)
  show ?thesis unfolding far_call_def Let_def sp s head out same by simp
qed

text \<open>
  C11. A replay ends with a verdict. At the entry of the break, in a memory that holds the rest of
  the table, the process exits: with status 0 exactly if every recorded store is found in memory
  with the recorded bytes, otherwise with status -1. The walk over the assertions ends.
\<close>

theorem replay_exit_checks_stores:
  assumes "holds gm h (make_entry v sc @ concat (map store_bytes (sort asserts)) @ le_bytes 8 0 @ le_bytes 8 0)"
    and "sc_is_break sc" "sc_waddr sc = None" "list_all assertion_ok asserts"
  shows "\<exists>out. replay counters gm h csrv =
    Some (Exit (if list_all (assertion_holds gm) asserts then 0 else - 1), gm, out)"
  by (rule replay_exits [OF assms])

lemma holds_put_bytes: "unat h + length bs < 2 ^ 64 \<Longrightarrow> holds (put_bytes h bs gm) h bs"
  by (simp add: holds_def put_bytes_def)

text \<open>A memory with a replay stack.\<close>

definition load_replay :: "u64 \<Rightarrow> u64 \<Rightarrow> u8 list \<Rightarrow> u64 \<Rightarrow> guest \<Rightarrow> guest" where
  "load_replay R S table sp gm = store8 (near_buf_addr R (length table)) sp (store8 S (replay_table_addr R)
     (store8 (replay_sp_addr R) S (put_bytes (replay_table_addr R) table gm)))"

lemma load_replay_loaded:
  assumes L: "layout_ok R (length table) S"
  shows "replay_loaded R S table sp (load_replay R S table sp gm)"
    and "agree (replay_area R (length table) S) (load_replay R S table sp gm) gm"
proof -
  note u = layout_addresses [OF L]
  have b: "unat R + 536 + length table < 2 ^ 64" "128 \<le> unat S" "unat S + 24 < 2 ^ 64"
    "unat S + 24 \<le> unat R + 512 \<or> unat R + 536 + length table \<le> unat S - 128"
    using L by (simp_all add: layout_ok_def)
  let ?gm1 = "put_bytes (replay_table_addr R) table gm"
  let ?gm2 = "store8 (replay_sp_addr R) S ?gm1"
  have at: "replay_at R S (store8 S (replay_table_addr R) ?gm2) (replay_table_addr R)"
    unfolding replay_at_def by (subst load_store_apart) (use b u in \<open>auto\<close>)
  have "holds ?gm1 (replay_table_addr R) table" by (rule holds_put_bytes) (use b u in simp)
  then have "holds (load_replay R S table sp gm) (replay_table_addr R) table"
  proof (rule holds_cong)
    fix x assume x: "unat (replay_table_addr R) \<le> x" "x < unat (replay_table_addr R) + length table"
    have "load_replay R S table sp gm x = store8 S (replay_table_addr R) ?gm2 x"
      unfolding load_replay_def by (rule near_buf_store(3) [OF L at x(2)])
    also have "\<dots> = ?gm2 x" by (rule store8_outside) (use x b u in linarith)
    also have "\<dots> = ?gm1 x" by (rule store8_outside) (use x u in linarith)
    finally show "load_replay R S table sp gm x = ?gm1 x" .
  qed
  moreover have "replay_at R S (load_replay R S table sp gm) (replay_table_addr R)"
    unfolding load_replay_def by (rule near_buf_store(1) [OF L at])
  ultimately show "replay_loaded R S table sp (load_replay R S table sp gm)"
    by (simp add: replay_loaded_def load_replay_def)
  show "agree (replay_area R (length table) S) (load_replay R S table sp gm) gm"
    unfolding agree_def
  proof (intro allI impI)
    fix x assume x: "x \<notin> replay_area R (length table) S"
    then have xs: "x < unat R + 512 \<or> unat R + 536 + length table \<le> x" "x < unat S - 128 \<or> unat S + 24 \<le> x"
      by (auto simp: replay_area_def)
    have "load_replay R S table sp gm x = store8 S (replay_table_addr R) ?gm2 x"
      unfolding load_replay_def by (rule near_buf_store(2) [OF L at x])
    also have "\<dots> = ?gm2 x" by (rule store8_outside) (use xs in linarith)
    also have "\<dots> = ?gm1 x" by (rule store8_outside) (use xs u in linarith)
    also have "\<dots> = gm x" using xs(1) u by (auto simp: put_bytes_def)
    finally show "load_replay R S table sp gm x = gm x" .
  qed
qed

text \<open>A call that returns 5 and three bytes, and the break after it.\<close>

definition sample_call :: sys_call where
  "sample_call = \<lparr>sc_retval = 5, sc_is_break = False, sc_waddr = Some 0x1000, sc_wdata = [1, 2, 3]\<rparr>"

definition sample_break :: sys_call where
  "sample_break = \<lparr>sc_retval = 0, sc_is_break = True, sc_waddr = None, sc_wdata = []\<rparr>"

lemma sample_table_length: "length (make_replay_table v areg [sample_call, sample_break] [(0x500, 1, 7)]) = 112"
  by (simp add: make_replay_table_def make_entry_length sample_call_def sample_break_def store_bytes_def)

lemma sample_layout: "n < 0x1000 \<Longrightarrow> layout_ok 0x2000 n 0x9000"
  by (simp add: layout_ok_def)

text \<open>A program that stores to an address outside the area of the replay ignores the area.\<close>

lemma store_ignores: "a \<notin> A \<Longrightarrow> ignores A (\<lambda>gm. gm(a := b))"
  by (auto simp: ignores_def agree_def)

theorem replay_returns_recorded_witness:
  "\<exists>gm1 gm'. let table = make_replay_table False 42 ([sample_call] @ [sample_break]) [(0x500, 1, 7)];
      gm = load_replay 0x2000 0x9000 table 0x7000 (\<lambda>_. 0);
      v = \<lparr>vs_prog = \<lambda>gm. gm(0x500 := 7), vs_regs = \<lambda>r. 64, vs_ret = 0x44, vs_clobber = \<lambda>r. 99, vs_counters = (11, 25)\<rparr>
    in entry_call (near_buf_addr 0x2000 112) (replay_sp_addr 0x2000) 0x40 (\<lambda>r. 99) (10, 20) (\<lambda>r. 3) gm =
        Some (Inl ((\<lambda>r. 3)(10 := 42, 2 := 0x7000)), gm1, []) \<and>
      replay_run 0x2000 112 [v] gm1 = Some ([(\<lambda>r. 64)(10 := 5)], gm') \<and>
      agree (replay_area 0x2000 112 0x9000) gm' (put_bytes 0x1000 [1, 2, 3] ((\<lambda>_. 0)(0x500 := 7)))"
proof -
  let ?table = "make_replay_table False 42 ([sample_call] @ [sample_break]) [(0x500, 1, 7)]"
  let ?v = "\<lparr>vs_prog = \<lambda>gm. gm(0x500 := 7), vs_regs = \<lambda>r. 64, vs_ret = 0x44, vs_clobber = \<lambda>r. 99, vs_counters = (11, 25)\<rparr>"
  have l: "length ?table = 112" using sample_table_length by simp
  have L: "layout_ok 0x2000 112 0x9000" by (rule sample_layout) simp
  have L': "layout_ok 0x2000 (length ?table) 0x9000" unfolding l by (rule L)
  have ok: "list_all (call_ok (replay_area 0x2000 112 0x9000)) [sample_call]" "list_all (\<lambda>sc. \<not> sc_is_break sc) [sample_call]"
    "list_all (ignores (replay_area 0x2000 112 0x9000)) (map vs_prog [?v])"
    by (auto simp: call_ok_def sample_call_def replay_area_def intro!: store_ignores)
  have "recorded_run (map vs_prog [?v]) [sample_call] (\<lambda>_. 0) = put_bytes 0x1000 [1, 2, 3] ((\<lambda>_. 0)(0x500 := 7))"
    "sc_retval sample_call = 5"
    by (simp_all add: after_call_def sample_call_def)
  then show ?thesis
    using replay_returns_recorded [OF L load_replay_loaded(1) [OF L', of "0x7000" "\<lambda>_. 0"] l [symmetric] ok(1,2) _ ok(3)
        load_replay_loaded(2) [OF L', of "0x7000" "\<lambda>_. 0", unfolded l], of "0x40" "\<lambda>r. 99" 10 20 "\<lambda>r. 3"]
    by (simp add: Let_def del: fun_upd_apply) blast
qed

theorem replay_exit_checks_stores_witness:
  "\<exists>out. replay (30, 40) (put_bytes 0x3000 (make_entry False sample_break @ store_bytes (0x500, 1, 7) @ le_bytes 8 0 @ le_bytes 8 0)
      ((\<lambda>_. 0)(0x500 := 7))) 0x3000 0x9008 =
    Some (Exit 0, put_bytes 0x3000 (make_entry False sample_break @ store_bytes (0x500, 1, 7) @ le_bytes 8 0 @ le_bytes 8 0)
      ((\<lambda>_. 0)(0x500 := 7)), out)"
proof -
  let ?bs = "make_entry False sample_break @ store_bytes (0x500, 1, 7) @ le_bytes 8 0 @ le_bytes 8 0"
  let ?gm = "put_bytes 0x3000 ?bs ((\<lambda>_. 0)(0x500 := 7))"
  have "holds ?gm 0x3000 ?bs"
    by (rule holds_put_bytes) (simp add: make_entry_length sample_break_def store_bytes_def)
  moreover have "list_all (assertion_holds ?gm) [(0x500, 1, 7)]"
    by (simp add: assertion_holds_def put_bytes_def take_bit_eq_mod)
  ultimately show ?thesis
    using replay_exit_checks_stores [where gm = ?gm and h = "0x3000" and v = False and sc = sample_break and asserts = "[(0x500, 1, 7)]"
      and counters = "(30, 40)" and csrv = "0x9008"]
    by (simp add: assertion_ok_def sample_break_def)
qed

end
