(* ===== verification/Loader.thy ===== *)
theory Loader
  imports Replay "HOL-Library.Multiset"
begin

text \<open>
  The loader of a checkpoint: where \<^verbatim>\<open>src/ckpt/main.c\<close> puts the code that restores the
  memory, and that code, \<^verbatim>\<open>map_pages\<close> of \<^verbatim>\<open>src/ckpt/cl.c\<close>.

  The C library's sort, the system calls and the decompressor are not part of the repository: they
  are arguments, and the theorems name what they assume of them.
\<close>

unbundle bit_operations_syntax

section \<open>Where the loader goes\<close>

record mmap_cfg =
  mc_addr :: u64
  mc_offset :: u64
  mc_size :: u32
  mc_length :: u32

definition CL_BASE :: u64 where "CL_BASE = 0x60000000"
definition CL_TOP :: u64 where "CL_TOP = 0x80000000"
definition CL_STACK_SIZE :: u64 where "CL_STACK_SIZE = 4096"
definition CL_BUF_SIZE :: nat where "CL_BUF_SIZE = 2048"

definition ALIGN_PAGE :: "u64 \<Rightarrow> u64" where
  "ALIGN_PAGE a = (a + 0xfff) AND NOT 0xfff"

definition COMPARE :: "u64 \<Rightarrow> u64 \<Rightarrow> int" where
  "COMPARE a b = (if a = b then 0 else if a < b then - 1 else 1)"

definition less_addr :: "mmap_cfg \<Rightarrow> mmap_cfg \<Rightarrow> int" where
  "less_addr a b = COMPARE (mc_addr a) (mc_addr b)"

definition less_offset :: "mmap_cfg \<Rightarrow> mmap_cfg \<Rightarrow> int" where
  "less_offset a b = COMPARE (mc_offset a) (mc_offset b)"

definition mc_end :: "mmap_cfg \<Rightarrow> u64" where
  "mc_end mc = mc_addr mc + ucast (mc_size mc)"

text \<open>The size of an array of \<open>mmap_cfg\<close>, 24 bytes each, and of the two mappings.\<close>

definition mc_map_size :: "nat \<Rightarrow> u64" where
  "mc_map_size mc_num = ALIGN_PAGE (of_nat mc_num * 24 + CL_STACK_SIZE)"

definition total_size :: "u64 \<Rightarrow> nat \<Rightarrow> u64" where
  "total_size cl_size mc_num = ALIGN_PAGE cl_size + mc_map_size mc_num"

fun find_base :: "u64 \<Rightarrow> u64 \<Rightarrow> mmap_cfg list \<Rightarrow> u64" where
  "find_base sz found_base [] = found_base"
| "find_base sz found_base (mc # mcs) =
     find_base sz (if mc_addr mc < found_base + sz \<and> found_base < mc_end mc then mc_end mc else found_base) mcs"

definition place_cl :: "((mmap_cfg \<Rightarrow> mmap_cfg \<Rightarrow> int) \<Rightarrow> mmap_cfg list \<Rightarrow> mmap_cfg list) \<Rightarrow> u64 \<Rightarrow> mmap_cfg list \<Rightarrow> u64 option" where
  "place_cl qsort cl_size mcs =
     (let sz = total_size cl_size (length mcs);
          found_base = find_base sz CL_BASE (qsort less_addr mcs)
      in if CL_TOP < found_base + sz then None else Some found_base)"

text \<open>The documented behaviour of \<^verbatim>\<open>qsort\<close>.\<close>

definition sorts :: "((mmap_cfg \<Rightarrow> mmap_cfg \<Rightarrow> int) \<Rightarrow> mmap_cfg list \<Rightarrow> mmap_cfg list) \<Rightarrow> bool" where
  "sorts qsort \<longleftrightarrow> (\<forall>cmp xs. mset (qsort cmp xs) = mset xs \<and>
     ((\<forall>a b c. (cmp a b \<le> 0 \<or> cmp b a \<le> 0) \<and> (cmp a b \<le> 0 \<longrightarrow> cmp b c \<le> 0 \<longrightarrow> cmp a c \<le> 0)) \<longrightarrow>
       sorted_wrt (\<lambda>a b. cmp a b \<le> 0) (qsort cmp xs)))"

text \<open>The loader at \<open>b\<close> and the pages of \<open>mc\<close> share an address.\<close>

definition overlaps :: "u64 \<Rightarrow> nat \<Rightarrow> mmap_cfg \<Rightarrow> bool" where
  "overlaps sz b mc \<longleftrightarrow> unat (mc_addr mc) < b + unat sz \<and> b < unat (mc_addr mc) + unat (mc_size mc)"

text \<open>No mapping wraps around the address space, which a process cannot have anyway.\<close>

definition mapping_ok :: "mmap_cfg \<Rightarrow> bool" where
  "mapping_ok mc \<longleftrightarrow> unat (mc_addr mc) + unat (mc_size mc) < 2 ^ 63"

lemma mc_end_unat: "mapping_ok mc \<Longrightarrow> unat (mc_end mc) = unat (mc_addr mc) + unat (mc_size mc)"
proof -
  assume ok: "mapping_ok mc"
  have "(ucast (mc_size mc) :: u64) = of_nat (unat (mc_size mc))" by simp
  then show ?thesis using unat_plus [of "mc_addr mc" "unat (mc_size mc)"] ok by (simp add: mc_end_def mapping_ok_def)
qed

lemma find_base_correct:
  assumes "sorted_wrt (\<lambda>a b. less_addr a b \<le> 0) mcs" "list_all mapping_ok mcs" "unat sz < 2 ^ 62" "unat b < 2 ^ 63"
  shows "unat b \<le> unat (find_base sz b mcs)" "unat (find_base sz b mcs) < 2 ^ 63"
    "\<forall>mc \<in> set mcs. \<not> overlaps sz (unat (find_base sz b mcs)) mc"
    "\<forall>x. unat b \<le> x \<and> x < unat (find_base sz b mcs) \<longrightarrow> (\<exists>mc \<in> set mcs. overlaps sz x mc)"
    "\<forall>mc. (\<forall>m \<in> set mcs. mc_addr mc \<le> mc_addr m) \<and> \<not> overlaps sz (unat b) mc \<longrightarrow>
       \<not> overlaps sz (unat (find_base sz b mcs)) mc"
proof -
  have "unat b \<le> unat (find_base sz b mcs) \<and> unat (find_base sz b mcs) < 2 ^ 63 \<and>
    (\<forall>mc \<in> set mcs. \<not> overlaps sz (unat (find_base sz b mcs)) mc) \<and>
    (\<forall>x. unat b \<le> x \<and> x < unat (find_base sz b mcs) \<longrightarrow> (\<exists>mc \<in> set mcs. overlaps sz x mc)) \<and>
    (\<forall>mc. (\<forall>m \<in> set mcs. mc_addr mc \<le> mc_addr m) \<and> \<not> overlaps sz (unat b) mc \<longrightarrow>
       \<not> overlaps sz (unat (find_base sz b mcs)) mc)"
    using assms
  proof (induction mcs arbitrary: b)
    case (Cons mc mcs)
    let ?b = "if mc_addr mc < b + sz \<and> b < mc_end mc then mc_end mc else b"
    have ok: "mapping_ok mc" "list_all mapping_ok mcs" using Cons.prems(2) by simp_all
    have e: "unat (mc_end mc) = unat (mc_addr mc) + unat (mc_size mc)" by (rule mc_end_unat [OF ok(1)])
    have t: "unat (b + sz) = unat b + unat sz"
      using unat_plus [of b "unat sz"] Cons.prems(3,4) by simp
    have cond: "(mc_addr mc < b + sz \<and> b < mc_end mc) \<longleftrightarrow> overlaps sz (unat b) mc"
      by (simp add: overlaps_def word_less_nat_alt t e)
    have less: "mc_addr mc \<le> mc_addr m" if "m \<in> set mcs" for m
      using Cons.prems(1) that by (force simp: less_addr_def COMPARE_def split: if_splits)
    have "unat ?b < 2 ^ 63" using Cons.prems(4) ok(1) by (simp add: e mapping_ok_def)
    then have IH: "unat ?b \<le> unat (find_base sz ?b mcs)" "unat (find_base sz ?b mcs) < 2 ^ 63"
      "\<forall>mc \<in> set mcs. \<not> overlaps sz (unat (find_base sz ?b mcs)) mc"
      "\<forall>x. unat ?b \<le> x \<and> x < unat (find_base sz ?b mcs) \<longrightarrow> (\<exists>mc \<in> set mcs. overlaps sz x mc)"
      "\<forall>mc. (\<forall>m \<in> set mcs. mc_addr mc \<le> mc_addr m) \<and> \<not> overlaps sz (unat ?b) mc \<longrightarrow>
         \<not> overlaps sz (unat (find_base sz ?b mcs)) mc"
      using Cons.IH [of ?b] Cons.prems(1,3) ok(2) by (simp_all split del: if_split)
    have free: "\<not> overlaps sz (unat ?b) mc" by (auto simp: cond) (simp add: overlaps_def e)
    have r: "find_base sz b (mc # mcs) = find_base sz ?b mcs" by simp
    have up: "unat b \<le> unat ?b" by (auto simp: cond overlaps_def e)
    have *: "overlaps sz x mc" if "unat b \<le> x" "x < unat ?b" for x
      using that by (auto simp: cond overlaps_def e split: if_splits)
    have **: "\<not> overlaps sz (unat ?b) m"
      if "\<forall>m' \<in> set (mc # mcs). mc_addr m \<le> mc_addr m'" "\<not> overlaps sz (unat b) m" for m
    proof -
      note h = that
      consider "unat (mc_addr m) + unat (mc_size m) \<le> unat b" | "unat b + unat sz \<le> unat (mc_addr m)"
        using h(2) by (force simp: overlaps_def)
      then show ?thesis
      proof cases
        case 1
        then show ?thesis using up unfolding overlaps_def by linarith
      next
        case 2
        have "unat (mc_addr m) \<le> unat (mc_addr mc)" using h(1) by (simp add: word_le_nat_alt)
        then have "\<not> overlaps sz (unat b) mc" using 2 by (simp add: overlaps_def)
        then show ?thesis using h(2) by (simp add: cond)
      qed
    qed
    show ?case unfolding r
    proof (intro conjI ballI allI impI)
      show "unat b \<le> unat (find_base sz ?b mcs)" using IH(1) up by simp
      show "unat (find_base sz ?b mcs) < 2 ^ 63" by (rule IH(2))
      fix m assume "m \<in> set (mc # mcs)"
      then show "\<not> overlaps sz (unat (find_base sz ?b mcs)) m"
        using IH(3,5) free less by (simp only: set_ConsD list.set) blast
    next
      fix x assume "unat b \<le> x \<and> x < unat (find_base sz ?b mcs)"
      then show "\<exists>m \<in> set (mc # mcs). overlaps sz x m"
        using IH(4) * by (cases "x < unat ?b") (auto split del: if_split)
    next
      fix m assume "(\<forall>m' \<in> set (mc # mcs). mc_addr m \<le> mc_addr m') \<and> \<not> overlaps sz (unat b) m"
      then show "\<not> overlaps sz (unat (find_base sz ?b mcs)) m"
        using IH(5) ** by (simp only: list.set) blast
    qed
  qed (auto simp: overlaps_def)
  then show "unat b \<le> unat (find_base sz b mcs)" "unat (find_base sz b mcs) < 2 ^ 63"
    "\<forall>mc \<in> set mcs. \<not> overlaps sz (unat (find_base sz b mcs)) mc"
    "\<forall>x. unat b \<le> x \<and> x < unat (find_base sz b mcs) \<longrightarrow> (\<exists>mc \<in> set mcs. overlaps sz x mc)"
    "\<forall>mc. (\<forall>m \<in> set mcs. mc_addr mc \<le> mc_addr m) \<and> \<not> overlaps sz (unat b) mc \<longrightarrow>
       \<not> overlaps sz (unat (find_base sz b mcs)) mc" by blast+
qed


lemma align_page_small: "unat a < 2 ^ 40 \<Longrightarrow> unat (ALIGN_PAGE a) < 2 ^ 41"
proof -
  assume a: "unat a < 2 ^ 40"
  have "unat (a + 0xfff) = unat a + 0xfff" using unat_plus [of a "0xfff"] a by simp
  moreover have "unat ((a + 0xfff) AND NOT 0xfff) \<le> unat (a + 0xfff)"
    by (simp add: word_and_le2 flip: word_le_nat_alt)
  ultimately show ?thesis using a by (simp add: ALIGN_PAGE_def)
qed

lemma total_size_small:
  assumes "unat cl_size < 2 ^ 40" "n < 2 ^ 32"
  shows "unat (total_size cl_size n) < 2 ^ 42"
proof -
  have "of_nat n * 24 + 4096 = (of_nat (n * 24 + 4096) :: u64)" by simp
  then have "unat (of_nat n * 24 + 4096 :: u64) = n * 24 + 4096"
    using unat_plus [of 0 "n * 24 + 4096"] assms(2) by (simp only: add_0) simp
  then have "unat (mc_map_size n) < 2 ^ 41"
    unfolding mc_map_size_def CL_STACK_SIZE_def using assms(2) by (intro align_page_small) simp
  moreover have "unat (ALIGN_PAGE cl_size) < 2 ^ 41" using assms(1) by (rule align_page_small)
  ultimately show ?thesis unfolding total_size_def using unat_add_lem [of "ALIGN_PAGE cl_size" "mc_map_size n"] by simp
qed

lemma sorts_addr:
  assumes "sorts qsort"
  shows "sorted_wrt (\<lambda>a b. less_addr a b \<le> 0) (qsort less_addr mcs)" "set (qsort less_addr mcs) = set mcs"
proof -
  have *: "(less_addr a b \<le> 0) \<longleftrightarrow> mc_addr a \<le> mc_addr b" for a b
    by (auto simp: less_addr_def COMPARE_def)
  show "sorted_wrt (\<lambda>a b. less_addr a b \<le> 0) (qsort less_addr mcs)"
    using assms unfolding sorts_def by (elim allE [of _ less_addr]) (auto simp: *)
  have "mset (qsort less_addr mcs) = mset mcs" using assms unfolding sorts_def by blast
  then show "set (qsort less_addr mcs) = set mcs" by (rule mset_eq_setD)
qed

text \<open>
  C9. The loader lands on free ground. For every checkpoint image, \<^verbatim>\<open>main\<close> either finds an
  address for the code that restores the memory, and then this code and its table lie inside the
  window reserved for them, apart from every page that will be mapped, at the lowest such address;
  or it reports that there is none, and then every address of the window is in the way of some page.
\<close>

theorem place_cl_correct:
  assumes "sorts qsort" "list_all mapping_ok mcs" "unat cl_size < 2 ^ 40" "length mcs < 2 ^ 32"
  defines "sz \<equiv> total_size cl_size (length mcs)"
  shows "case place_cl qsort cl_size mcs of
      Some b \<Rightarrow> CL_BASE \<le> b \<and> unat b + unat sz \<le> unat CL_TOP \<and> (\<forall>mc \<in> set mcs. \<not> overlaps sz (unat b) mc) \<and>
        (\<forall>x. unat CL_BASE \<le> x \<and> x < unat b \<longrightarrow> (\<exists>mc \<in> set mcs. overlaps sz x mc))
    | None \<Rightarrow> \<forall>x. unat CL_BASE \<le> x \<and> x + unat sz \<le> unat CL_TOP \<longrightarrow> (\<exists>mc \<in> set mcs. overlaps sz x mc)"
proof -
  note srt = sorts_addr [OF assms(1), of mcs]
  let ?b = "find_base sz CL_BASE (qsort less_addr mcs)"
  have "list_all mapping_ok (qsort less_addr mcs)" using assms(2) srt(2) by (simp add: list_all_iff)
  moreover have t: "unat sz < 2 ^ 42" unfolding sz_def by (rule total_size_small [OF assms(3,4)])
  ultimately have fb: "unat CL_BASE \<le> unat ?b" "unat ?b < 2 ^ 63" "\<forall>mc \<in> set mcs. \<not> overlaps sz (unat ?b) mc"
    "\<forall>x. unat CL_BASE \<le> x \<and> x < unat ?b \<longrightarrow> (\<exists>mc \<in> set mcs. overlaps sz x mc)"
    using find_base_correct(1-4) [OF srt(1), of sz CL_BASE] unfolding srt(2) by (simp_all add: CL_BASE_def)
  have u: "unat (?b + sz) = unat ?b + unat sz" using unat_plus [of ?b "unat sz"] fb(2) t by simp
  show ?thesis
  proof (cases "CL_TOP < ?b + sz")
    case True
    then have "unat CL_TOP < unat ?b + unat sz" by (simp add: word_less_nat_alt u)
    then have "\<forall>x. unat CL_BASE \<le> x \<and> x + unat sz \<le> unat CL_TOP \<longrightarrow> (\<exists>mc \<in> set mcs. overlaps sz x mc)"
      using fb(4) by auto
    then show ?thesis using True by (simp add: place_cl_def Let_def sz_def [symmetric])
  next
    case False
    then have "unat ?b + unat sz \<le> unat CL_TOP" by (simp add: word_less_nat_alt u)
    then show ?thesis using False fb by (simp add: place_cl_def Let_def sz_def [symmetric] word_le_nat_alt)
  qed
qed


text \<open>A sort, and one page in the way at the start of the window.\<close>

fun insert_by :: "(mmap_cfg \<Rightarrow> mmap_cfg \<Rightarrow> int) \<Rightarrow> mmap_cfg \<Rightarrow> mmap_cfg list \<Rightarrow> mmap_cfg list" where
  "insert_by cmp x [] = [x]"
| "insert_by cmp x (y # ys) = (if cmp x y \<le> 0 then x # y # ys else y # insert_by cmp x ys)"

definition insertion_sort :: "(mmap_cfg \<Rightarrow> mmap_cfg \<Rightarrow> int) \<Rightarrow> mmap_cfg list \<Rightarrow> mmap_cfg list" where
  "insertion_sort cmp xs = foldr (insert_by cmp) xs []"

lemma mset_insert_by [simp]: "mset (insert_by cmp x ys) = add_mset x (mset ys)"
  by (induction ys) auto

lemma insertion_sort_sorts: "sorts insertion_sort"
  unfolding sorts_def
proof (intro allI conjI impI)
  fix cmp xs
  show "mset (insertion_sort cmp xs) = mset xs" by (induction xs) (simp_all add: insertion_sort_def)
  assume total: "\<forall>a b c. (cmp a b \<le> 0 \<or> cmp b a \<le> 0) \<and> (cmp a b \<le> 0 \<longrightarrow> cmp b c \<le> 0 \<longrightarrow> cmp a c \<le> 0)"
  have "sorted_wrt (\<lambda>a b. cmp a b \<le> 0) (insert_by cmp x ys)" if "sorted_wrt (\<lambda>a b. cmp a b \<le> 0) ys" for x ys
    using that
  proof (induction ys)
    case (Cons y ys)
    have "set (insert_by cmp x ys) = insert x (set ys)" by (induction ys) auto
    then show ?case using Cons total by auto
  qed simp
  then show "sorted_wrt (\<lambda>a b. cmp a b \<le> 0) (insertion_sort cmp xs)"
    unfolding insertion_sort_def by (induction xs) auto
qed

theorem place_cl_correct_witness:
  "place_cl insertion_sort 0x800 [\<lparr>mc_addr = 0x60001000, mc_offset = 0, mc_size = 0x1000, mc_length = 0x1000\<rparr>] = Some 0x60002000 \<and>
    \<not> overlaps 0x3000 0x60002000 \<lparr>mc_addr = 0x60001000, mc_offset = 0, mc_size = 0x1000, mc_length = 0x1000\<rparr>"
proof -
  let ?mcs = "[\<lparr>mc_addr = 0x60001000, mc_offset = 0, mc_size = 0x1000, mc_length = 0x1000\<rparr>]"
  have sz: "total_size 0x800 1 = 0x3000" by code_simp
  have p: "place_cl insertion_sort 0x800 ?mcs = Some 0x60002000"
    by (simp add: place_cl_def insertion_sort_def sz [simplified] mc_end_def CL_BASE_def CL_TOP_def Let_def)
  have "list_all mapping_ok ?mcs" by (simp add: mapping_ok_def)
  from place_cl_correct [OF insertion_sort_sorts this, of "0x800"] show ?thesis
    using p sz by simp
qed

section \<open>Mapping the pages\<close>

text \<open>
  What \<^verbatim>\<open>map_pages\<close> asks of the system, as functions of the memory: the two uses of
  \<^verbatim>\<open>mmap\<close>, with \<open>None\<close> for a negative result, \<^verbatim>\<open>lseek\<close> with the new position,
  \<^verbatim>\<open>read\<close> at a position with the bytes read, and \<^verbatim>\<open>fastlz_decompress\<close> with the bytes
  of the output, none on failure. The file descriptor is that of the dump.
\<close>

record raw_env =
  raw_mmap_file :: "u64 \<Rightarrow> u32 \<Rightarrow> u64 \<Rightarrow> guest \<Rightarrow> guest option"
  raw_mmap_anon :: "u64 \<Rightarrow> u32 \<Rightarrow> guest \<Rightarrow> guest option"
  raw_lseek :: "u64 \<Rightarrow> nat option"
  raw_read :: "nat \<Rightarrow> u32 \<Rightarrow> u8 list"
  fastlz_decompress :: "u8 list \<Rightarrow> u32 \<Rightarrow> u8 list"

datatype map_result = Mapped guest | Panic string | Overflow

text \<open>\<^verbatim>\<open>*p = *p\<close> for a word of every page.\<close>

definition touch_pages :: "u64 \<Rightarrow> u32 \<Rightarrow> guest \<Rightarrow> guest" where
  "touch_pages addr n gm =
     fold (\<lambda>k gm. write_mem gm (unat (addr + of_nat (4096 * k))) 8 (read_mem gm (unat (addr + of_nat (4096 * k))) 8))
       [0..<(unat n + 4095) div 4096] gm"

text \<open>
  One round of the loop. The buffer on the stack has \<^verbatim>\<open>CL_BUF_SIZE\<close> bytes; a longer read
  writes past it.
\<close>

definition map_page :: "raw_env \<Rightarrow> mmap_cfg \<Rightarrow> guest \<Rightarrow> map_result" where
  "map_page env mc gm =
     (if mc_size mc = mc_length mc then
        (case raw_mmap_file env (mc_addr mc) (mc_size mc) (mc_offset mc) gm of
           None \<Rightarrow> Panic ''mmap file failed''
         | Some gm \<Rightarrow> Mapped (touch_pages (mc_addr mc) (mc_size mc) gm))
      else
        (case raw_mmap_anon env (mc_addr mc) (mc_size mc) gm of
           None \<Rightarrow> Panic ''mmap anonymous failed''
         | Some gm \<Rightarrow>
             (case raw_lseek env (mc_offset mc) of
                None \<Rightarrow> Panic ''lseek failed''
              | Some pos \<Rightarrow>
                  let buf = raw_read env pos (mc_length mc) in
                  if CL_BUF_SIZE < length buf then Overflow
                  else if length buf \<noteq> unat (mc_length mc) then Panic ''read failed''
                  else let out = fastlz_decompress env buf (mc_size mc) in
                    if out = [] then Panic ''decompress failed''
                    else Mapped (put_bytes (mc_addr mc) out gm))))"

fun map_pages :: "raw_env \<Rightarrow> mmap_cfg list \<Rightarrow> guest \<Rightarrow> map_result" where
  "map_pages env [] gm = Mapped gm"
| "map_pages env (mc # mcs) gm =
     (case map_page env mc gm of Mapped gm \<Rightarrow> map_pages env mcs gm | r \<Rightarrow> r)"

text \<open>
  \<^verbatim>\<open>main\<close> from the parsed configuration on: it exits when there is no room, otherwise it
  hands the configuration, in the order of the file, to the code it has placed.
\<close>

definition load_image ::
  "((mmap_cfg \<Rightarrow> mmap_cfg \<Rightarrow> int) \<Rightarrow> mmap_cfg list \<Rightarrow> mmap_cfg list) \<Rightarrow> raw_env \<Rightarrow> u64 \<Rightarrow> mmap_cfg list \<Rightarrow> guest \<Rightarrow>
    (u64 \<times> map_result) option" where
  "load_image qsort env cl_size mcs gm =
     map_option (\<lambda>cl_p. (cl_p, map_pages env (qsort less_offset mcs) gm)) (place_cl qsort cl_size mcs)"

text \<open>
  The documented behaviour of the system calls on a dump with the bytes \<open>dump\<close>: a mapping changes
  its own addresses only, to the bytes of the file or to zero, and a read gives the bytes of the
  file. The decompressor writes at most the bytes it is allowed to.
\<close>

definition posix :: "(nat \<Rightarrow> u8) \<Rightarrow> raw_env \<Rightarrow> bool" where
  "posix dump env \<longleftrightarrow>
     (\<forall>a n off gm gm'. raw_mmap_file env a n off gm = Some gm' \<longrightarrow>
        (\<forall>x. gm' x = (if unat a \<le> x \<and> x < unat a + unat n then dump (unat off + (x - unat a)) else gm x))) \<and>
     (\<forall>a n gm gm'. raw_mmap_anon env a n gm = Some gm' \<longrightarrow>
        (\<forall>x. gm' x = (if unat a \<le> x \<and> x < unat a + unat n then 0 else gm x))) \<and>
     (\<forall>off pos. raw_lseek env off = Some pos \<longrightarrow> pos = unat off) \<and>
     (\<forall>pos n. raw_read env pos n = map (\<lambda>i. dump (pos + i)) [0..<length (raw_read env pos n)]) \<and>
     (\<forall>bs n. length (fastlz_decompress env bs n) \<le> unat n)"

lemma posixD:
  assumes "posix dump env"
  shows "raw_mmap_file env a n off gm = Some gm' \<Longrightarrow>
      gm' x = (if unat a \<le> x \<and> x < unat a + unat n then dump (unat off + (x - unat a)) else gm x)"
    and "raw_mmap_anon env a n gm = Some gm' \<Longrightarrow> gm' x = (if unat a \<le> x \<and> x < unat a + unat n then 0 else gm x)"
    and "raw_lseek env off = Some pos \<Longrightarrow> pos = unat off"
    and "raw_read env pos n = map (\<lambda>i. dump (pos + i)) [0..<length (raw_read env pos n)]"
    and "length (fastlz_decompress env bs n) \<le> unat n"
  using assms unfolding posix_def by blast+

text \<open>What the pages of an entry have to hold.\<close>

definition page_bytes :: "(nat \<Rightarrow> u8) \<Rightarrow> raw_env \<Rightarrow> mmap_cfg \<Rightarrow> nat \<Rightarrow> u8" where
  "page_bytes dump env mc i =
     (if mc_size mc = mc_length mc then dump (unat (mc_offset mc) + i)
      else let out = fastlz_decompress env (map (\<lambda>i. dump (unat (mc_offset mc) + i)) [0..<unat (mc_length mc)]) (mc_size mc)
        in if i < length out then out ! i else 0)"

lemma write_back: "write_mem gm a 8 (read_mem gm a 8) = gm"
  by (auto simp: write_mem_def byte_of_read_mem fun_eq_iff)

lemma touch_pages_id: "touch_pages addr n gm = gm"
proof -
  have "fold (\<lambda>k gm. write_mem gm (f k) 8 (read_mem gm (f k) 8)) ks gm = gm" for f and ks :: "nat list"
    by (induction ks arbitrary: gm) (simp_all add: write_back)
  then show ?thesis by (simp add: touch_pages_def)
qed

definition inside :: "mmap_cfg \<Rightarrow> nat \<Rightarrow> bool" where
  "inside mc x \<longleftrightarrow> unat (mc_addr mc) \<le> x \<and> x < unat (mc_addr mc) + unat (mc_size mc)"

lemma map_page_correct:
  assumes "posix dump env" "map_page env mc gm = Mapped gm'"
  shows "gm' x = (if inside mc x then page_bytes dump env mc (x - unat (mc_addr mc)) else gm x)"
proof (cases "mc_size mc = mc_length mc")
  case True
  then obtain g where "raw_mmap_file env (mc_addr mc) (mc_size mc) (mc_offset mc) gm = Some g" "gm' = g"
    using assms(2) by (auto simp: map_page_def touch_pages_id split: option.splits)
  then show ?thesis using posixD(1) [OF assms(1), of "mc_addr mc" "mc_size mc" "mc_offset mc" gm g x] True
    by (simp only: inside_def page_bytes_def if_True simp_thms)
next
  case False
  let ?bs = "raw_read env (unat (mc_offset mc)) (mc_length mc)"
  obtain g where g: "raw_mmap_anon env (mc_addr mc) (mc_size mc) gm = Some g" "length ?bs = unat (mc_length mc)"
    "gm' = put_bytes (mc_addr mc) (fastlz_decompress env ?bs (mc_size mc)) g"
    using assms(2) False posixD(3) [OF assms(1)] by (auto simp: map_page_def Let_def split: option.splits if_splits)
  have "?bs = map (\<lambda>i. dump (unat (mc_offset mc) + i)) [0..<unat (mc_length mc)]"
    unfolding g(2) [symmetric] by (rule posixD(4) [OF assms(1)])
  moreover have "g x = (if inside mc x then 0 else gm x)" "length (fastlz_decompress env ?bs (mc_size mc)) \<le> unat (mc_size mc)"
    using posixD(2) [OF assms(1) g(1)] posixD(5) [OF assms(1)] by (simp_all add: inside_def)
  ultimately show ?thesis using False
    by (auto simp: g(3) put_bytes_def inside_def page_bytes_def Let_def)
qed

lemma map_pages_bytes:
  assumes "posix dump env" "map_pages env mcs gm = Mapped gm'"
    and "sorted_wrt (\<lambda>a b. \<forall>x. \<not> (inside a x \<and> inside b x)) mcs"
  shows "(\<forall>mc \<in> set mcs. \<forall>x. inside mc x \<longrightarrow> gm' x = page_bytes dump env mc (x - unat (mc_addr mc))) \<and>
    (\<forall>x. (\<forall>mc \<in> set mcs. \<not> inside mc x) \<longrightarrow> gm' x = gm x)"
  using assms(2,3)
proof (induction mcs arbitrary: gm)
  case (Cons mc mcs)
  obtain g where g: "map_page env mc gm = Mapped g" "map_pages env mcs g = Mapped gm'"
    using Cons.prems(1) by (auto split: map_result.splits)
  note IH = Cons.IH [OF g(2)] and one = map_page_correct [OF assms(1) g(1)]
  show ?case using IH Cons.prems(2) one by auto
qed simp

text \<open>
  C10. The loader restores the memory. When \<^verbatim>\<open>map_pages\<close> returns, every byte of every entry
  of the configuration is the byte of the dump, as it is or decompressed, and every byte outside all
  of them is untouched, provided no two entries overlap.
\<close>

theorem map_pages_restores:
  assumes "posix dump env" "map_pages env mcs gm = Mapped gm'"
    and "sorted_wrt (\<lambda>a b. \<forall>x. \<not> (inside a x \<and> inside b x)) mcs"
  shows "(\<forall>mc \<in> set mcs. \<forall>x. inside mc x \<longrightarrow> gm' x = page_bytes dump env mc (x - unat (mc_addr mc))) \<and>
    (\<forall>x. (\<forall>mc \<in> set mcs. \<not> inside mc x) \<longrightarrow> gm' x = gm x)"
  using assms by (rule map_pages_bytes)

text \<open>An image of a plain page and of a page packed into 16 bytes.\<close>

definition sample_env :: raw_env where
  "sample_env = \<lparr>
     raw_mmap_file = (\<lambda>a n off gm. Some (\<lambda>x. if unat a \<le> x \<and> x < unat a + unat n then of_nat (unat off + (x - unat a)) else gm x)),
     raw_mmap_anon = (\<lambda>a n gm. Some (\<lambda>x. if unat a \<le> x \<and> x < unat a + unat n then 0 else gm x)),
     raw_lseek = (\<lambda>off. Some (unat off)),
     raw_read = (\<lambda>pos n. map (\<lambda>i. of_nat (pos + i)) [0..<unat n]),
     fastlz_decompress = (\<lambda>bs n. take (unat n) (bs @ bs))\<rparr>"

definition sample_image :: "mmap_cfg list" where
  "sample_image = [\<lparr>mc_addr = 0x10000, mc_offset = 0, mc_size = 0x1000, mc_length = 0x1000\<rparr>,
     \<lparr>mc_addr = 0x20000, mc_offset = 0x1000, mc_size = 0x1000, mc_length = 16\<rparr>]"

lemma sample_env_posix: "posix of_nat sample_env"
  by (auto simp: posix_def sample_env_def min_def)

lemma sample_image_mapped: "\<exists>gm'. map_pages sample_env sample_image gm = Mapped gm'"
  by (simp add: sample_image_def map_page_def sample_env_def Let_def CL_BUF_SIZE_def take_eq_Nil)

lemma sample_image_apart: "sorted_wrt (\<lambda>a b. \<forall>x. \<not> (inside a x \<and> inside b x)) sample_image"
  by (auto simp: sample_image_def inside_def)

theorem map_pages_restores_witness:
  "\<exists>gm'. map_pages sample_env sample_image (\<lambda>_. 7) = Mapped gm' \<and> gm' 0x10005 = 5 \<and> gm' 0x20013 = 3 \<and> gm' 0x30000 = 7"
proof -
  obtain gm' where m: "map_pages sample_env sample_image (\<lambda>_. 7) = Mapped gm'" using sample_image_mapped by blast
  note r = map_pages_restores [OF sample_env_posix m sample_image_apart]
  have "gm' 0x10005 = 5" "gm' 0x20013 = 3" "gm' 0x30000 = 7"
    using r by (auto simp: sample_image_def inside_def page_bytes_def sample_env_def Let_def nth_append)
  with m show ?thesis by blast
qed

section \<open>From record to replay\<close>

text \<open>
  C4. A checkpoint restores enough of the memory. Record a sequence of fetches, loads and stores from
  the start of a checkpoint that meets the conditions of \<^verbatim>\<open>run_ok\<close>: loads and stores of 1, 2, 4 or 8
  bytes and halfword aligned fetches of 2 or 4 bytes, none of them in the page at address 0, where a
  fetch finds each piece that it records at once (two bytes, or four aligned ones) accessed before as a
  whole or not at all; a partly recorded piece is recorded at the wrong place
  (\<^verbatim>\<open>fetch_partial_misplaces\<close>). Build an image that holds every recorded byte in one of its pages,
  in any layout of pages that do not overlap and with or without compression, and let the loader map it:
  then the same sequence, run on the memory that the loader leaves, reads the values of the original run.
\<close>

theorem restored_run_reads_recorded:
  assumes "run_ok gm as (\<lambda>_. None)" "run_traced gm as MemTrace_new = Some mt"
    and "posix dump env" "sorted_wrt (\<lambda>a b. \<forall>x. \<not> (inside a x \<and> inside b x)) mcs"
    and "\<forall>x b. trace_map mt x = Some b \<longrightarrow>
      (\<exists>mc \<in> set mcs. inside mc x \<and> page_bytes dump env mc (x - unat (mc_addr mc)) = b)"
    and "map_pages env mcs gm0 = Mapped gm'"
  shows "run_values gm' as = run_values gm as"
proof (rule replay_values [OF assms(1)])
  have "trace_map mt = record_run gm as (\<lambda>_. None)"
    using run_traced_refines [OF MemTrace_new_inv(1)] assms(1,2) MemTrace_new_inv(2) by fastforce
  then show "\<And>x b. record_run gm as (\<lambda>_. None) x = Some b \<Longrightarrow> gm' x = b"
    using map_pages_bytes [OF assms(3,6,4)] assms(5) by metis
qed simp

definition sample_program :: "access list" where
  "sample_program = [Load 4 0x10004, Store 2 0x10004 0xabcd, Load 4 0x10004]"

theorem restored_run_reads_recorded_witness:
  "\<exists>gm'. map_pages sample_env sample_image (\<lambda>_. 7) = Mapped gm' \<and>
    run_values gm' sample_program = run_values (\<lambda>x. of_nat (x - 0x10000)) sample_program"
proof -
  let ?gm = "\<lambda>x. of_nat (x - 0x10000) :: u8"
  have ok: "run_ok ?gm sample_program (\<lambda>_. None)"
    by (simp add: sample_program_def access_size_def)
  obtain mt where mt: "run_traced ?gm sample_program MemTrace_new = Some mt"
    "trace_map mt = record_run ?gm sample_program (\<lambda>_. None)"
    using ok unfolding MemTrace_new_inv(2) [symmetric] by (rule run_traced_refines [OF MemTrace_new_inv(1)])
  obtain gm' where m: "map_pages sample_env sample_image (\<lambda>_. 7) = Mapped gm'" using sample_image_mapped by blast
  let ?m = "record_bytes (\<lambda>_. None) 0x10004 4 (read_mem ?gm 0x10004 4)"
  have touched: "record_bytes ?m a n d = ?m" if "0x10004 \<le> a" "a + n \<le> 0x10008" for a n d
    using that by (auto simp: record_bytes_def fun_eq_iff)
  have "record_run ?gm sample_program (\<lambda>_. None) = ?m"
    unfolding sample_program_def record_run.simps record_access.simps by (simp add: touched)
  then have "trace_map mt x = (if 0x10004 \<le> x \<and> x < 0x10008 then Some (of_nat (x - 0x10000)) else None)" for x
    unfolding mt(2) by (auto simp: record_bytes_def byte_of_read_mem_iff)
  then have "\<forall>x b. trace_map mt x = Some b \<longrightarrow>
      (\<exists>mc \<in> set sample_image. inside mc x \<and> page_bytes of_nat sample_env mc (x - unat (mc_addr mc)) = b)"
    by (auto simp: sample_image_def inside_def page_bytes_def)
  from restored_run_reads_recorded [OF ok mt(1) sample_env_posix sample_image_apart this m] m show ?thesis by blast
qed

end
