(* ===== verification/Tlb.thy ===== *)
theory Tlb
  imports Memory
begin

text \<open>
  The direct-mapped, tagged TLB of \<^verbatim>\<open>src/src/emu/tlb-soft.h\<close> in its RV64 instantiation
  \<^verbatim>\<open>tagged_tlb_rv64<128>\<close> (26 ASID bits, 38 PPN bits). The bit fields of an entry keep their
  widths, so that storing a wider value truncates. \<^verbatim>\<open>lookup\<close> and \<^verbatim>\<open>insert\<close> return a
  pointer into the array, which is the index of the entry.
\<close>

unbundle bit_operations_syntax

record tlb_entry =
  te_ppn :: "38 word"
  te_asid :: "26 word"
  te_vpn :: "52 word"
  te_ptel :: "2 word"
  te_pteb :: "10 word"
  te_pdid :: u32
  te_pma :: u32

definition tlb_entry_default :: tlb_entry where
  "tlb_entry_default = \<lparr>te_ppn = - 1, te_asid = - 1, te_vpn = - 1, te_ptel = 0, te_pteb = 0,
     te_pdid = 0, te_pma = 0\<rparr>"

definition tlb_entry_make :: "u64 \<Rightarrow> u64 \<Rightarrow> u64 \<Rightarrow> u64 \<Rightarrow> u64 \<Rightarrow> u64 \<Rightarrow> tlb_entry" where
  "tlb_entry_make pdid asid vpn ptel pteb ppn = \<lparr>te_ppn = ucast ppn, te_asid = ucast asid,
     te_vpn = ucast vpn, te_ptel = ucast ptel, te_pteb = ucast pteb, te_pdid = ucast pdid, te_pma = 0\<rparr>"

definition tlb_size :: nat where
  "tlb_size = 128"

definition tlb_mask :: u64 where
  "tlb_mask = 127"

definition tlb_new :: "tlb_entry list" where
  "tlb_new = replicate tlb_size tlb_entry_default"

definition tlb_flush :: "u64 \<Rightarrow> tlb_entry list \<Rightarrow> tlb_entry list" where
  "tlb_flush pdid tlb =
     map (\<lambda>e. if ucast (te_pdid e) \<noteq> pdid then e else tlb_entry_default) tlb"

definition tlb_flush_asid :: "u64 \<Rightarrow> u64 \<Rightarrow> tlb_entry list \<Rightarrow> tlb_entry list" where
  "tlb_flush_asid pdid asid tlb =
     map (\<lambda>e. if asid \<noteq> 0 \<and> ucast (te_pdid e) \<noteq> pdid \<and> ucast (te_asid e) \<noteq> asid then e
        else tlb_entry_default) tlb"

definition tlb_index :: "u64 \<Rightarrow> nat" where
  "tlb_index va = unat (drop_bit 12 va AND tlb_mask)"

definition tlb_hit :: "u64 \<Rightarrow> u64 \<Rightarrow> u64 \<Rightarrow> tlb_entry \<Rightarrow> bool" where
  "tlb_hit pdid asid va e \<longleftrightarrow>
     ucast (te_pdid e) = pdid \<and> ucast (te_asid e) = asid \<and> ucast (te_vpn e) = drop_bit 12 va"

definition tlb_lookup :: "u64 \<Rightarrow> u64 \<Rightarrow> u64 \<Rightarrow> tlb_entry list \<Rightarrow> nat option" where
  "tlb_lookup pdid asid va tlb =
     (let i = tlb_index va in if tlb_hit pdid asid va (tlb ! i) then Some i else None)"

definition tlb_insert ::
  "u64 \<Rightarrow> u64 \<Rightarrow> u64 \<Rightarrow> u64 \<Rightarrow> u64 \<Rightarrow> u64 \<Rightarrow> tlb_entry list \<Rightarrow> nat \<times> tlb_entry list" where
  "tlb_insert pdid asid va ptel pteb ppn tlb =
     (let i = tlb_index va
      in (i, tlb[i := tlb_entry_make pdid asid (drop_bit 12 va) ptel pteb ppn]))"

section \<open>The TLB as a map\<close>

lemma tlb_index_bound: "tlb_index va < tlb_size"
proof -
  have "drop_bit 12 va AND tlb_mask \<le> tlb_mask" by (rule word_and_le1)
  then show ?thesis by (simp add: tlb_index_def tlb_size_def tlb_mask_def word_le_nat_alt)
qed

definition tlb_wf :: "tlb_entry list \<Rightarrow> bool" where
  "tlb_wf tlb \<longleftrightarrow> length tlb = tlb_size"

lemma tlb_wf_ops:
  "tlb_wf tlb_new" "tlb_wf tlb \<Longrightarrow> tlb_wf (tlb_flush pdid tlb)"
  "tlb_wf tlb \<Longrightarrow> tlb_wf (tlb_flush_asid pdid asid tlb)"
  "tlb_wf tlb \<Longrightarrow> tlb_wf (snd (tlb_insert pdid asid va ptel pteb ppn tlb))"
  by (simp_all add: tlb_wf_def tlb_new_def tlb_flush_def tlb_flush_asid_def tlb_insert_def Let_def)

lemma tlb_nth_flush:
  "tlb_wf tlb \<Longrightarrow> tlb_flush pdid tlb ! tlb_index va =
    (if ucast (te_pdid (tlb ! tlb_index va)) \<noteq> pdid then tlb ! tlb_index va else tlb_entry_default)"
  using tlb_index_bound [of va] by (simp add: tlb_flush_def tlb_wf_def)

text \<open>
  What a client of the TLB sees: the page number and level, and the flags, of the entry that a
  lookup finds.
\<close>

definition tlb_map :: "tlb_entry list \<Rightarrow> u64 \<Rightarrow> u64 \<Rightarrow> u64 \<Rightarrow> (38 word \<times> 2 word \<times> 10 word) option" where
  "tlb_map tlb pdid asid va =
     map_option (\<lambda>i. (te_ppn (tlb ! i), te_ptel (tlb ! i), te_pteb (tlb ! i))) (tlb_lookup pdid asid va tlb)"

text \<open>An identifier fits its field when it survives the truncation.\<close>

definition tlb_tag_ok :: "u64 \<Rightarrow> u64 \<Rightarrow> bool" where
  "tlb_tag_ok pdid asid \<longleftrightarrow> pdid AND mask 32 = pdid \<and> asid AND mask 26 = asid"

lemma ucast_fits:
  fixes x :: u64
  assumes fits: "x AND mask LENGTH('a) = x"
  shows "ucast (ucast x :: 'a::len word) = x"
proof (rule bit_word_eqI)
  fix n assume "n < LENGTH(64)"
  have "bit x n \<Longrightarrow> n < LENGTH('a)"
    using fits bit_and_iff [of x "mask LENGTH('a)" n] by (auto simp: bit_mask_iff)
  then show "bit (ucast (ucast x :: 'a word) :: u64) n = bit x n"
    using \<open>n < LENGTH(64)\<close> by (auto simp: bit_ucast_iff)
qed

lemma vpn_fits: "drop_bit 12 (va :: u64) AND mask 52 = drop_bit 12 va"
  by (rule bit_word_eqI) (auto simp: bit_and_iff bit_mask_iff bit_drop_bit_eq dest: bit_imp_le_length)

lemma tlb_hit_make:
  assumes "tlb_tag_ok pdid asid"
  shows "tlb_hit pdid' asid' va' (tlb_entry_make pdid asid (drop_bit 12 va) ptel pteb ppn) \<longleftrightarrow>
    pdid' = pdid \<and> asid' = asid \<and> drop_bit 12 va' = drop_bit 12 va"
  using assms ucast_fits [where 'a = 32, of pdid] ucast_fits [where 'a = 26, of asid]
    ucast_fits [where 'a = 52, of "drop_bit 12 va"] vpn_fits [of va]
  by (auto simp: tlb_hit_def tlb_entry_make_def tlb_tag_ok_def)

lemma tlb_index_page: "drop_bit 12 va' = drop_bit 12 va \<Longrightarrow> tlb_index va' = tlb_index va"
  by (simp add: tlb_index_def)

text \<open>The value stored for a translation, after truncation to the fields of the entry.\<close>

definition tlb_value :: "u64 \<Rightarrow> u64 \<Rightarrow> u64 \<Rightarrow> 38 word \<times> 2 word \<times> 10 word" where
  "tlb_value ptel pteb ppn = (ucast ppn, ucast ptel, ucast pteb)"

lemma tlb_map_insert:
  assumes "tlb_wf tlb" "tlb_tag_ok pdid asid"
  shows "tlb_map (snd (tlb_insert pdid asid va ptel pteb ppn tlb)) pdid' asid' va' =
    (if pdid' = pdid \<and> asid' = asid \<and> drop_bit 12 va' = drop_bit 12 va then Some (tlb_value ptel pteb ppn)
     else if tlb_index va' = tlb_index va then None
     else tlb_map tlb pdid' asid' va')"
proof -
  have "tlb_index va < length tlb" using assms(1) tlb_index_bound by (simp add: tlb_wf_def)
  then show ?thesis
    using tlb_index_page [of va' va] tlb_hit_make [OF assms(2), of pdid' asid' va' va ptel pteb ppn]
    by (auto simp: tlb_map_def tlb_lookup_def tlb_insert_def Let_def tlb_value_def tlb_entry_make_def)
qed

text \<open>
  The default entry is not marked invalid: it matches protection domain 0, the last ASID and the
  last page of the address space.
\<close>

definition default_tag :: "u64 \<Rightarrow> u64 \<Rightarrow> u64 \<Rightarrow> bool" where
  "default_tag pdid asid va \<longleftrightarrow> pdid = 0 \<and> asid = mask 26 \<and> drop_bit 12 va = mask 52"

lemma ucast_ones: "(ucast (- 1 :: 26 word) :: u64) = mask 26" "(ucast (- 1 :: 52 word) :: u64) = mask 52"
  by (rule bit_word_eqI, auto simp: bit_ucast_iff bit_mask_iff)+

lemma tlb_hit_default: "tlb_hit pdid asid va tlb_entry_default \<longleftrightarrow> default_tag pdid asid va"
  unfolding tlb_hit_def tlb_entry_default_def default_tag_def by (auto simp del: mask_numeral simp: ucast_ones)

lemma tlb_map_flush:
  assumes "tlb_wf tlb" "\<not> default_tag pdid' asid' va"
  shows "tlb_map (tlb_flush pdid tlb) pdid' asid' va = (if pdid' = pdid then None else tlb_map tlb pdid' asid' va)"
  using assms tlb_hit_default [of pdid' asid' va]
  by (auto simp: tlb_map_def tlb_lookup_def Let_def tlb_nth_flush tlb_hit_def)

lemma tlb_nth_flush_asid:
  "tlb_wf tlb \<Longrightarrow> tlb_flush_asid pdid asid tlb ! tlb_index va =
    (if asid \<noteq> 0 \<and> ucast (te_pdid (tlb ! tlb_index va)) \<noteq> pdid \<and> ucast (te_asid (tlb ! tlb_index va)) \<noteq> asid
     then tlb ! tlb_index va else tlb_entry_default)"
  using tlb_index_bound [of va] by (simp add: tlb_flush_asid_def tlb_wf_def)

lemma tlb_map_flush_asid:
  assumes "tlb_wf tlb" "\<not> default_tag pdid' asid' va"
  shows "tlb_map (tlb_flush_asid pdid asid tlb) pdid' asid' va =
    (if asid = 0 \<or> pdid' = pdid \<or> asid' = asid then None else tlb_map tlb pdid' asid' va)"
  using assms tlb_hit_default [of pdid' asid' va]
  by (auto simp: tlb_map_def tlb_lookup_def Let_def tlb_nth_flush_asid tlb_hit_def)

lemma tlb_map_new: "\<not> default_tag pdid asid va \<Longrightarrow> tlb_map tlb_new pdid asid va = None"
  using tlb_index_bound [of va]
  by (simp add: tlb_map_def tlb_lookup_def Let_def tlb_new_def tlb_hit_default)

section \<open>A translation cache\<close>

text \<open>
  What the MMU may rely on: a cache forgets at any time, but a hit is the last translation inserted
  for the tag since the tag was last invalidated. Tags on which the contract is promised satisfy
  \<open>ok\<close>.
\<close>

locale translation_cache =
  fixes wf :: "'s \<Rightarrow> bool"
    and ok :: "'t \<Rightarrow> bool"
    and look :: "'s \<Rightarrow> 't \<Rightarrow> 'e option"
    and ins :: "'t \<Rightarrow> 'e \<Rightarrow> 's \<Rightarrow> 's"
    and inval :: "'k \<Rightarrow> 's \<Rightarrow> 's"
    and covers :: "'k \<Rightarrow> 't \<Rightarrow> bool"
    and empty :: 's
  assumes wf_empty: "wf empty"
    and wf_ins: "wf s \<Longrightarrow> wf (ins t e s)"
    and wf_inval: "wf s \<Longrightarrow> wf (inval k s)"
    and look_empty: "ok t \<Longrightarrow> look empty t = None"
    and look_ins: "wf s \<Longrightarrow> ok t \<Longrightarrow> ok t' \<Longrightarrow>
      look (ins t e s) t' = Some e' \<Longrightarrow> if t' = t then e' = e else look s t' = Some e'"
    and look_inserted: "wf s \<Longrightarrow> ok t \<Longrightarrow> look (ins t e s) t = Some e"
    and look_inval: "wf s \<Longrightarrow> ok t \<Longrightarrow>
      look (inval k s) t = (if covers k t then None else look s t)"
begin

definition below :: "'s \<Rightarrow> ('t \<Rightarrow> 'e option) \<Rightarrow> bool" where
  "below s m \<longleftrightarrow> wf s \<and> (\<forall>t e. ok t \<longrightarrow> look s t = Some e \<longrightarrow> m t = Some e)"

lemma below_empty: "below empty (\<lambda>t. None)"
  by (simp add: below_def wf_empty look_empty)

lemma below_ins:
  assumes "below s m" "ok t"
  shows "below (ins t e s) (m(t \<mapsto> e))"
  unfolding below_def
proof (intro conjI allI impI)
  show "wf (ins t e s)" using assms(1) wf_ins by (simp add: below_def)
  fix t' e' assume "ok t'" "look (ins t e s) t' = Some e'"
  then have "if t' = t then e' = e else look s t' = Some e'"
    using assms look_ins by (auto simp: below_def)
  then show "(m(t \<mapsto> e)) t' = Some e'"
    using assms(1) \<open>ok t'\<close> by (auto simp: below_def split: if_splits)
qed

lemma below_inval: "below s m \<Longrightarrow> below (inval k s) (\<lambda>t. if covers k t then None else m t)"
  by (simp add: below_def look_inval wf_inval)

lemma below_hit: "below s m \<Longrightarrow> ok t \<Longrightarrow> look s t = Some e \<Longrightarrow> m t = Some e"
  by (simp add: below_def)

end

type_synonym tlb_tag = "u64 \<times> u64 \<times> u64"

definition tag_ok :: "tlb_tag \<Rightarrow> bool" where
  "tag_ok t = (case t of (pdid, asid, vpn) \<Rightarrow> tlb_tag_ok pdid asid \<and> vpn AND mask 52 = vpn
     \<and> \<not> default_tag pdid asid (push_bit 12 vpn))"

definition look_tag :: "tlb_entry list \<Rightarrow> tlb_tag \<Rightarrow> (38 word \<times> 2 word \<times> 10 word) option" where
  "look_tag tlb t = (case t of (pdid, asid, vpn) \<Rightarrow> tlb_map tlb pdid asid (push_bit 12 vpn))"

definition insert_tag :: "tlb_tag \<Rightarrow> 38 word \<times> 2 word \<times> 10 word \<Rightarrow> tlb_entry list \<Rightarrow> tlb_entry list" where
  "insert_tag t e tlb = (case t of (pdid, asid, vpn) \<Rightarrow> case e of (ppn, ptel, pteb) \<Rightarrow>
     snd (tlb_insert pdid asid (push_bit 12 vpn) (ucast ptel) (ucast pteb) (ucast ppn) tlb))"

text \<open>The two invalidation requests, and the tags that they remove.\<close>

datatype tlb_request = Flush u64 | Flush_asid u64 u64

fun tlb_invalidate :: "tlb_request \<Rightarrow> tlb_entry list \<Rightarrow> tlb_entry list" where
  "tlb_invalidate (Flush pdid) tlb = tlb_flush pdid tlb"
| "tlb_invalidate (Flush_asid pdid asid) tlb = tlb_flush_asid pdid asid tlb"

fun tlb_covers :: "tlb_request \<Rightarrow> tlb_tag \<Rightarrow> bool" where
  "tlb_covers (Flush pdid) (pdid', asid', vpn') \<longleftrightarrow> pdid' = pdid"
| "tlb_covers (Flush_asid pdid asid) (pdid', asid', vpn') \<longleftrightarrow> asid = 0 \<or> pdid' = pdid \<or> asid' = asid"

lemma vpn_of_page:
  assumes "vpn AND mask 52 = vpn"
  shows "drop_bit 12 (push_bit 12 (vpn :: u64)) = vpn"
proof (rule bit_word_eqI)
  fix n assume "n < LENGTH(64)"
  have "bit vpn n \<Longrightarrow> n < 52" using assms bit_and_iff [of vpn "mask 52" n] by (auto simp: bit_mask_iff)
  then show "bit (drop_bit 12 (push_bit 12 vpn)) n = bit vpn n"
    by (auto simp: bit_drop_bit_eq bit_push_bit_iff)
qed

lemma ucast_up_down: "LENGTH('a) \<le> 64 \<Longrightarrow> ucast (ucast (x :: 'a::len word) :: u64) = x"
  by (rule bit_word_eqI) (simp add: bit_ucast_iff)

lemma wf_insert_tag: "tlb_wf tlb \<Longrightarrow> tlb_wf (insert_tag t e tlb)"
  by (simp add: insert_tag_def tlb_wf_ops split: prod.splits)

lemma look_tag_insert:
  assumes "tlb_wf tlb" "tag_ok t" "tag_ok t'"
  shows "look_tag (insert_tag t e tlb) t' = (if t' = t then Some e
    else if tlb_index (push_bit 12 (snd (snd t'))) = tlb_index (push_bit 12 (snd (snd t))) then None
    else look_tag tlb t')"
proof -
  obtain pdid asid vpn pdid' asid' vpn' ppn ptel pteb
    where t: "t = (pdid, asid, vpn)" "t' = (pdid', asid', vpn')" "e = (ppn, ptel, pteb)"
    by (metis prod.exhaust)
  have vpn: "vpn AND mask 52 = vpn" "vpn' AND mask 52 = vpn'" "tlb_tag_ok pdid asid"
    using assms(2,3) by (simp_all add: t tag_ok_def)
  show ?thesis
    using tlb_map_insert [OF assms(1) vpn(3), of "push_bit 12 vpn" "ucast ptel" "ucast pteb" "ucast ppn"
        pdid' asid' "push_bit 12 vpn'"] vpn_of_page [OF vpn(1)] vpn_of_page [OF vpn(2)]
    by (auto simp: t look_tag_def insert_tag_def tlb_value_def ucast_up_down)
qed

lemma look_tag_invalidate:
  assumes "tlb_wf tlb" "tag_ok t"
  shows "look_tag (tlb_invalidate r tlb) t = (if tlb_covers r t then None else look_tag tlb t)"
proof -
  obtain pdid' asid' vpn' where t: "t = (pdid', asid', vpn')" by (metis prod.exhaust)
  have "\<not> default_tag pdid' asid' (push_bit 12 vpn')" using assms(2) by (simp add: t tag_ok_def)
  then show ?thesis
    using tlb_map_flush [OF assms(1)] tlb_map_flush_asid [OF assms(1)]
    by (cases r) (simp_all add: t look_tag_def)
qed

interpretation tlb: translation_cache tlb_wf tag_ok look_tag insert_tag tlb_invalidate tlb_covers tlb_new
proof unfold_locales
  fix t :: tlb_tag assume "tag_ok t"
  then show "look_tag tlb_new t = None"
    by (auto simp: look_tag_def tag_ok_def tlb_map_new split: prod.splits)
next
  fix k s assume "tlb_wf s"
  then show "tlb_wf (tlb_invalidate k s)" by (cases k) (simp_all add: tlb_wf_ops)
next
  fix s t e t' e'
  assume *: "tlb_wf s" "tag_ok t" "tag_ok t'" "look_tag (insert_tag t e s) t' = Some e'"
  show "if t' = t then e' = e else look_tag s t' = Some e'"
    using *(4) unfolding look_tag_insert [OF *(1-3)] by (auto split: if_splits)
qed (auto simp: tlb_wf_ops wf_insert_tag look_tag_insert look_tag_invalidate simp del: tlb_invalidate.simps)

section \<open>Sequences of TLB operations\<close>

text \<open>
  A history of insertions and invalidations, newest last, run on the array and on the
  specification, which is the map of the translations inserted and not invalidated since.
\<close>

datatype tlb_event = Insert tlb_tag "38 word \<times> 2 word \<times> 10 word" | Invalidate tlb_request

fun tlb_run :: "tlb_event list \<Rightarrow> tlb_entry list \<Rightarrow> tlb_entry list" where
  "tlb_run [] tlb = tlb"
| "tlb_run (Insert t e # es) tlb = tlb_run es (insert_tag t e tlb)"
| "tlb_run (Invalidate r # es) tlb = tlb_run es (tlb_invalidate r tlb)"

fun map_run :: "tlb_event list \<Rightarrow> (tlb_tag \<Rightarrow> (38 word \<times> 2 word \<times> 10 word) option) \<Rightarrow>
  tlb_tag \<Rightarrow> (38 word \<times> 2 word \<times> 10 word) option" where
  "map_run [] m = m"
| "map_run (Insert t e # es) m = map_run es (m(t \<mapsto> e))"
| "map_run (Invalidate r # es) m = map_run es (\<lambda>t. if tlb_covers r t then None else m t)"

fun event_ok :: "tlb_event \<Rightarrow> bool" where
  "event_ok (Insert t e) \<longleftrightarrow> tag_ok t"
| "event_ok (Invalidate r) \<longleftrightarrow> True"

lemma tlb_run_below:
  "tlb.below tlb m \<Longrightarrow> list_all event_ok es \<Longrightarrow> tlb.below (tlb_run es tlb) (map_run es m)"
  by (induction es tlb arbitrary: m rule: tlb_run.induct)
    (auto intro: tlb.below_ins tlb.below_inval simp del: tlb_invalidate.simps)

text \<open>
  C19. The direct-mapped TLB refines a map from tags to translations: after any sequence of
  insertions and flushes from power-up, a lookup that hits returns the last translation inserted
  for exactly that protection domain, address space and page, and that translation has not been
  invalidated since by a flush of its protection domain or address space. The contract holds for
  tags that fit the bit fields of an entry and are not the tag of the default entry.
\<close>

theorem tlb_refines_map:
  assumes "list_all event_ok es" "tag_ok t" "look_tag (tlb_run es tlb_new) t = Some e"
  shows "map_run es (\<lambda>t. None) t = Some e"
  using tlb_run_below [OF tlb.below_empty assms(1)] assms(2,3) by (rule tlb.below_hit)

theorem tlb_refines_map_witness:
  "map_run [Insert (1, 2, 3) (7, 0, 1), Invalidate (Flush 5), Insert (1, 2, 4) (9, 0, 1)] (\<lambda>t. None) (1, 2, 3) = Some (7, 0, 1)"
proof (rule tlb_refines_map)
  have ok: "tag_ok (1, 2, 3)" "tag_ok (1, 2, 4)"
    by (simp_all add: tag_ok_def tlb_tag_ok_def default_tag_def mask_numeral)
  then show "list_all event_ok [Insert (1, 2, 3) (7, 0, 1), Invalidate (Flush 5), Insert (1, 2, 4) (9, 0, 1)]"
    "tag_ok (1, 2, 3)" by simp_all
  show "look_tag (tlb_run [Insert (1, 2, 3) (7, 0, 1), Invalidate (Flush 5), Insert (1, 2, 4) (9, 0, 1)] tlb_new) (1, 2, 3)
    = Some (7, 0, 1)"
    by (simp add: look_tag_insert look_tag_invalidate ok tlb_wf_ops wf_insert_tag tlb.wf_inval
        tlb_index_def tlb_mask_def del: tlb_invalidate.simps)
qed

end
