(* ===== verification/Cpu.thy ===== *)
theory Cpu
  imports Tlb
begin

text \<open>
  The state of an RV64 hart with the soft MMU: the registers of \<^verbatim>\<open>processor_base\<close> and
  \<^verbatim>\<open>processor_priv\<close> (\<^verbatim>\<open>src/src/emu/processor-base.h\<close>,
  \<^verbatim>\<open>src/src/emu/processor-priv-1.9.h\<close>), the two TLBs and the bus of \<^verbatim>\<open>mmu_soft\<close>, and the
  world that the segments of the bus act on. The unions of bit fields are the words they overlay.
  Floating-point registers, the JIT's trace state and the histograms are left out.
\<close>

unbundle bit_operations_syntax

record cpu =
  pc :: u64
  ireg :: "u64 list"
  hart_id :: u16
  log_flags :: u32
  lr :: u64
  badaddr :: u64
  running :: bool
  debugging :: bool
  breakpoint :: u64
  cpu_time :: u64
  instret :: u64
  fcsr :: u32
  pdid :: u64
  mode :: u64
  resetvec :: u64
  misa :: u64
  mvendorid :: u64
  marchid :: u64
  mimpid :: u64
  mhartid :: u64
  mstatus :: u64
  mtvec :: u64
  medeleg :: u64
  mideleg :: u64
  mip :: u64
  mie :: u64
  mhcounteren :: u64
  mscounteren :: u64
  mucounteren :: u64
  mscratch :: u64
  mepc :: u64
  mcause :: u64
  mbadaddr :: u64
  mbase :: u64
  mbound :: u64
  mibase :: u64
  mibound :: u64
  mdbase :: u64
  mdbound :: u64
  stvec :: u64
  sedeleg :: u64
  sideleg :: u64
  sscratch :: u64
  sepc :: u64
  scause :: u64
  sbadaddr :: u64
  sptbr :: u64

record 'w hart = cpu +
  l1_itlb :: "tlb_entry list"
  l1_dtlb :: "tlb_entry list"
  mem_bus :: "'w user_memory"
  hart_world :: 'w

text \<open>
  The constructors; registers that they leave indeterminate are 0 here.
\<close>

definition hart_init :: "'w user_memory \<Rightarrow> 'w \<Rightarrow> 'w hart" where
  "hart_init bus w = \<lparr>pc = 0, ireg = replicate 32 0, hart_id = 0, log_flags = 0, lr = 0, badaddr = 0,
     running = True, debugging = False, breakpoint = 0, cpu_time = 0, instret = 0, fcsr = 0,
     pdid = 0, mode = 3, resetvec = 0x1000, misa = 0, mvendorid = 0, marchid = 0, mimpid = 0, mhartid = 0,
     mstatus = 0, mtvec = 0, medeleg = 0, mideleg = 0, mip = 0, mie = 0, mhcounteren = 0, mscounteren = 0,
     mucounteren = 0, mscratch = 0, mepc = 0, mcause = 0, mbadaddr = 0, mbase = 0, mbound = 0, mibase = 0,
     mibound = 0, mdbase = 0, mdbound = 0, stvec = 0, sedeleg = 0, sideleg = 0, sscratch = 0, sepc = 0,
     scause = 0, sbadaddr = 0, sptbr = 0,
     l1_itlb = tlb_new, l1_dtlb = tlb_new, mem_bus = bus, hart_world = w\<rparr>"

section \<open>Enumerations\<close>

abbreviation (input) rv_mode_U :: u64 where "rv_mode_U \<equiv> 0"
abbreviation (input) rv_mode_S :: u64 where "rv_mode_S \<equiv> 1"
abbreviation (input) rv_mode_H :: u64 where "rv_mode_H \<equiv> 2"
abbreviation (input) rv_mode_M :: u64 where "rv_mode_M \<equiv> 3"

abbreviation (input) rv_vm_mbare :: u64 where "rv_vm_mbare \<equiv> 0"
abbreviation (input) rv_vm_sv32 :: u64 where "rv_vm_sv32 \<equiv> 8"
abbreviation (input) rv_vm_sv39 :: u64 where "rv_vm_sv39 \<equiv> 9"
abbreviation (input) rv_vm_sv48 :: u64 where "rv_vm_sv48 \<equiv> 10"

abbreviation (input) rv_cause_misaligned_fetch :: nat where "rv_cause_misaligned_fetch \<equiv> 0"
abbreviation (input) rv_cause_fault_fetch :: nat where "rv_cause_fault_fetch \<equiv> 1"
abbreviation (input) rv_cause_illegal_instruction :: nat where "rv_cause_illegal_instruction \<equiv> 2"
abbreviation (input) rv_cause_breakpoint :: nat where "rv_cause_breakpoint \<equiv> 3"
abbreviation (input) rv_cause_misaligned_load :: nat where "rv_cause_misaligned_load \<equiv> 4"
abbreviation (input) rv_cause_fault_load :: nat where "rv_cause_fault_load \<equiv> 5"
abbreviation (input) rv_cause_misaligned_store :: nat where "rv_cause_misaligned_store \<equiv> 6"
abbreviation (input) rv_cause_fault_store :: nat where "rv_cause_fault_store \<equiv> 7"
abbreviation (input) rv_cause_user_ecall :: nat where "rv_cause_user_ecall \<equiv> 8"
abbreviation (input) rv_cause_supervisor_ecall :: nat where "rv_cause_supervisor_ecall \<equiv> 9"
abbreviation (input) rv_cause_hypervisor_ecall :: nat where "rv_cause_hypervisor_ecall \<equiv> 10"
abbreviation (input) rv_cause_machine_ecall :: nat where "rv_cause_machine_ecall \<equiv> 11"

section \<open>Bit fields\<close>

definition bits_get :: "nat \<Rightarrow> nat \<Rightarrow> u64 \<Rightarrow> u64" where
  "bits_get lo n x = drop_bit lo x AND mask n"

definition bits_set :: "nat \<Rightarrow> nat \<Rightarrow> u64 \<Rightarrow> u64 \<Rightarrow> u64" where
  "bits_set lo n v x = (x AND NOT (push_bit lo (mask n))) OR push_bit lo (v AND mask n)"

lemma bit_bits_get: "bit (bits_get lo n x) i \<longleftrightarrow> i < n \<and> bit x (lo + i)"
  by (auto simp: bits_get_def bit_and_iff bit_mask_iff bit_drop_bit_eq dest: bit_imp_le_length)

lemma bit_bits_set:
  "bit (bits_set lo n v x) i \<longleftrightarrow> i < 64 \<and> (if lo \<le> i \<and> i < lo + n then bit v (i - lo) else bit x i)"
  by (auto simp: bits_set_def bit_or_iff bit_and_iff bit_not_iff bit_push_bit_iff bit_mask_iff
      dest: bit_imp_le_length)

lemma bits_get_set_same: "lo + n \<le> 64 \<Longrightarrow> bits_get lo n (bits_set lo n v x) = v AND mask n"
  by (rule bit_word_eqI) (auto simp: bit_bits_get bit_bits_set bit_and_iff bit_mask_iff)

lemma bits_get_set_other: "lo + n \<le> lo' \<or> lo' + n' \<le> lo \<Longrightarrow> bits_get lo n (bits_set lo' n' v x) = bits_get lo n x"
  by (rule bit_word_eqI) (auto simp: bit_bits_get bit_bits_set dest: bit_imp_le_length)

lemma bits_set_set: "bits_set lo n v (bits_set lo n u x) = bits_set lo n v x"
  by (rule bit_word_eqI) (simp add: bit_bits_set)

lemma bits_get_bound: "unat (bits_get lo n x) < 2 ^ n"
  by (metis bits_get_def take_bit_eq_mask take_bit_word_beyond_length_eq unsigned_take_bit_eq
      take_bit_nat_less_exp)

lemmas bits_simps [simp] = bits_get_set_same bits_get_set_other bits_set_set

section \<open>Outcomes\<close>

text \<open>
  A step of the machine returns, leaves by the \<^verbatim>\<open>longjmp\<close> of \<^verbatim>\<open>raise\<close> with a cause, panics, or
  is undefined in C++. \<^verbatim>\<open>raise\<close> tests the \<^verbatim>\<open>exceptions\<close> bit, which the constructor sets and
  nothing clears.
\<close>

datatype ('a, 's) outcome = Ok 'a 's | Raised nat 's | Panicked | Undefined

definition raise_ex :: "nat \<Rightarrow> u64 \<Rightarrow> 's cpu_scheme \<Rightarrow> ('a, 's cpu_scheme) outcome" where
  "raise_ex cause addr s = Raised cause (s\<lparr>badaddr := addr\<rparr>)"

fun bind_ok :: "('a, 's) outcome \<Rightarrow> ('a \<Rightarrow> 's \<Rightarrow> ('b, 's) outcome) \<Rightarrow> ('b, 's) outcome" where
  "bind_ok (Ok a s) f = f a s"
| "bind_ok (Raised c s) f = Raised c s"
| "bind_ok Panicked f = Panicked"
| "bind_ok Undefined f = Undefined"

lemma bind_ok_Ok: "bind_ok m f = Ok b s' \<longleftrightarrow> (\<exists>a s. m = Ok a s \<and> f a s = Ok b s')"
  by (cases m) auto

lemma bind_ok_Raised: "bind_ok m f = Raised c s' \<longleftrightarrow> m = Raised c s' \<or> (\<exists>a s. m = Ok a s \<and> f a s = Raised c s')"
  by (cases m) auto

end
