(* ===== verification/Mmu.thy ===== *)
theory Mmu
  imports Cpu
begin

text \<open>
  The soft MMU of \<^verbatim>\<open>src/src/emu/mmu-soft.h\<close> for RV64, with the page table entries of
  \<^verbatim>\<open>pte.h\<close> and the atomic operations of \<^verbatim>\<open>amo.h\<close>: effective privilege, page table walk
  with accessed and dirty flags, TLB, access checks, and the fetch, load, store and amo operations
  that instructions call. Logging and the histograms are left out.
\<close>

unbundle bit_operations_syntax

datatype mmu_op = Op_fetch | Op_load | Op_store

section \<open>Page table entries\<close>

abbreviation (input) pte_flag_V :: u64 where "pte_flag_V \<equiv> 1"
abbreviation (input) pte_flag_R :: u64 where "pte_flag_R \<equiv> 2"
abbreviation (input) pte_flag_W :: u64 where "pte_flag_W \<equiv> 4"
abbreviation (input) pte_flag_X :: u64 where "pte_flag_X \<equiv> 8"
abbreviation (input) pte_flag_U :: u64 where "pte_flag_U \<equiv> 16"
abbreviation (input) pte_flag_A :: u64 where "pte_flag_A \<equiv> 64"
abbreviation (input) pte_flag_D :: u64 where "pte_flag_D \<equiv> 128"

text \<open>
  The page table modes. \<open>ptm_int_ppn\<close> marks sv32, whose 22-bit \<^verbatim>\<open>ppn\<close> field is promoted to
  \<^verbatim>\<open>int\<close> before it is shifted.
\<close>

record ptm =
  ptm_levels :: nat
  ptm_bits :: nat
  ptm_size :: nat
  ptm_ppn_bits :: nat
  ptm_int_ppn :: bool

definition sv32 :: ptm where
  "sv32 = \<lparr>ptm_levels = 2, ptm_bits = 10, ptm_size = 4, ptm_ppn_bits = 22, ptm_int_ppn = True\<rparr>"

definition sv39 :: ptm where
  "sv39 = \<lparr>ptm_levels = 3, ptm_bits = 9, ptm_size = 8, ptm_ppn_bits = 44, ptm_int_ppn = False\<rparr>"

definition sv48 :: ptm where
  "sv48 = \<lparr>ptm_levels = 4, ptm_bits = 9, ptm_size = 8, ptm_ppn_bits = 44, ptm_int_ppn = False\<rparr>"

definition pte_flags :: "u64 \<Rightarrow> u64" where
  "pte_flags pte = bits_get 0 10 pte"

definition pte_ppn :: "ptm \<Rightarrow> u64 \<Rightarrow> u64" where
  "pte_ppn m pte = bits_get 10 (ptm_ppn_bits m) pte"

definition pte_next :: "ptm \<Rightarrow> u64 \<Rightarrow> u64" where
  "pte_next m pte = (if ptm_int_ppn m then scast (push_bit 12 (ucast (pte_ppn m pte) :: u32))
     else push_bit 12 (pte_ppn m pte))"

section \<open>Access checks\<close>

definition misaligned :: "nat \<Rightarrow> u64 \<Rightarrow> bool" where
  "misaligned n va \<longleftrightarrow> va AND (of_nat n - 1) \<noteq> 0"

abbreviation status_mprv :: "('a) cpu_scheme \<Rightarrow> u64" where "status_mprv s \<equiv> bits_get 17 1 (mstatus s)"
abbreviation status_mpp :: "('a) cpu_scheme \<Rightarrow> u64" where "status_mpp s \<equiv> bits_get 11 2 (mstatus s)"
abbreviation status_pum :: "('a) cpu_scheme \<Rightarrow> u64" where "status_pum s \<equiv> bits_get 18 1 (mstatus s)"
abbreviation status_mxr :: "('a) cpu_scheme \<Rightarrow> u64" where "status_mxr s \<equiv> bits_get 19 1 (mstatus s)"
abbreviation status_vm :: "('a) cpu_scheme \<Rightarrow> u64" where "status_vm s \<equiv> bits_get 24 4 (mstatus s)"

definition fetch_access_fault :: "('a) cpu_scheme \<Rightarrow> u64 \<Rightarrow> tlb_entry option \<Rightarrow> bool" where
  "fetch_access_fault s privilege_level tlb_ent = (case tlb_ent of None \<Rightarrow> False
   | Some e \<Rightarrow> let pteb = ucast (te_pteb e) :: u64 in
       pteb AND pte_flag_X = 0 \<or>
       (if pteb AND pte_flag_U \<noteq> 0 then privilege_level > rv_mode_U else privilege_level < rv_mode_S))"

definition load_access_fault :: "('a) cpu_scheme \<Rightarrow> u64 \<Rightarrow> tlb_entry option \<Rightarrow> bool" where
  "load_access_fault s privilege_level tlb_ent = (case tlb_ent of None \<Rightarrow> False
   | Some e \<Rightarrow> let pteb = ucast (te_pteb e) :: u64 in
       (pteb AND pte_flag_R = 0 \<and> \<not> (pteb AND pte_flag_X \<noteq> 0 \<and> status_mxr s \<noteq> 0)) \<or>
       (if pteb AND pte_flag_U \<noteq> 0 then privilege_level > rv_mode_U \<and> status_pum s \<noteq> 0
        else privilege_level < rv_mode_S))"

definition store_access_fault :: "('a) cpu_scheme \<Rightarrow> u64 \<Rightarrow> tlb_entry option \<Rightarrow> bool" where
  "store_access_fault s privilege_level tlb_ent = (case tlb_ent of None \<Rightarrow> False
   | Some e \<Rightarrow> let pteb = ucast (te_pteb e) :: u64 in
       pteb AND pte_flag_W = 0 \<or>
       (if pteb AND pte_flag_U \<noteq> 0 then privilege_level > rv_mode_U \<and> status_pum s \<noteq> 0
        else privilege_level < rv_mode_S))"

definition effective_mode :: "('a) cpu_scheme \<Rightarrow> mmu_op \<Rightarrow> u64" where
  "effective_mode s op =
     (if mode s \<ge> rv_mode_M \<and> status_mprv s = 1 \<and> op \<noteq> Op_fetch \<and> status_mpp s \<le> rv_mode_S
      then status_mpp s else mode s)"

section \<open>The page table walk\<close>

definition page_translate_offset :: "ptm \<Rightarrow> u64 \<Rightarrow> u64 \<Rightarrow> nat \<Rightarrow> u64" where
  "page_translate_offset m ppn va level =
     push_bit 12 ppn + (va AND mask (ptm_bits m * level + 12))"

definition ad_flags :: "mmu_op \<Rightarrow> u64" where
  "ad_flags op = pte_flag_A OR (if op = Op_store then pte_flag_D else 0)"

definition walk_fault :: "mmu_op \<Rightarrow> u64 \<Rightarrow> 'w hart \<Rightarrow> ('a, 'w hart) outcome" where
  "walk_fault op va s = raise_ex (case op of Op_fetch \<Rightarrow> rv_cause_fault_fetch
     | Op_load \<Rightarrow> rv_cause_fault_load | Op_store \<Rightarrow> rv_cause_fault_store) va s"

definition bus_read :: "nat \<Rightarrow> u64 \<Rightarrow> 'w hart \<Rightarrow> (u64 \<times> 'w hart) option" where
  "bus_read n a s = map_option (\<lambda>(v, w). (v, s\<lparr>hart_world := w\<rparr>)) (bus_load (mem_bus s) n a (hart_world s))"

definition bus_write :: "nat \<Rightarrow> u64 \<Rightarrow> u64 \<Rightarrow> 'w hart \<Rightarrow> 'w hart option" where
  "bus_write n a v s = map_option (\<lambda>w. s\<lparr>hart_world := w\<rparr>) (bus_store (mem_bus s) n a v (hart_world s))"

text \<open>
  The loop over the levels. Its counter is unsigned, so that \<^verbatim>\<open>level >= 0\<close> always holds; \<open>k\<close> is the
  level plus one, and 0 is the level that the decrement of level 0 wraps to, where the shift is
  \<^verbatim>\<open>page_shift - bits\<close>. Below it the shift exceeds the width of the address, and a leaf there
  shifts by a negative amount: both are undefined.
\<close>

definition walk_shift :: "ptm \<Rightarrow> nat \<Rightarrow> nat" where
  "walk_shift m k = (if k = 0 then 12 - ptm_bits m else ptm_bits m * (k - 1) + 12)"

definition pte_addr :: "ptm \<Rightarrow> u64 \<Rightarrow> u64 \<Rightarrow> nat \<Rightarrow> u64" where
  "pte_addr m ppn va k = ppn + (drop_bit (walk_shift m k) va AND mask (ptm_bits m)) * of_nat (ptm_size m)"

definition pte_pointer :: "u64 \<Rightarrow> bool" where
  "pte_pointer pte \<longleftrightarrow> (drop_bit 1 pte OR drop_bit 2 pte OR drop_bit 3 pte) AND 1 = 0"

definition pte_invalid :: "u64 \<Rightarrow> bool" where
  "pte_invalid pte \<longleftrightarrow> (NOT (pte_flags pte) OR
     (drop_bit 1 (NOT (pte_flags pte)) AND drop_bit 2 (pte_flags pte))) AND 1 \<noteq> 0"

definition walk_leaf :: "ptm \<Rightarrow> u64 \<Rightarrow> mmu_op \<Rightarrow> nat \<Rightarrow> u64 \<Rightarrow> u64 \<Rightarrow> 'w hart \<Rightarrow> (u64 \<times> u64 \<times> nat, 'w hart) outcome" where
  "walk_leaf m va op k pte_mpa pte s =
     (if k = 0 then Undefined
      else if mask (walk_shift m k - 12) AND pte_ppn m pte \<noteq> 0 then walk_fault op va s
      else let pte' = pte OR ad_flags op; pa = page_translate_offset m (pte_ppn m pte) va (k - 1) in
        if pte_flags pte AND ad_flags op = ad_flags op then Ok (pa, pte, k - 1) s
        else case bus_write (ptm_size m) pte_mpa pte' s of
            None \<Rightarrow> walk_fault op va s
          | Some s' \<Rightarrow> Ok (pa, pte', k - 1) s')"

fun walk_levels :: "ptm \<Rightarrow> u64 \<Rightarrow> mmu_op \<Rightarrow> u64 \<Rightarrow> nat \<Rightarrow> 'w hart \<Rightarrow> (u64 \<times> u64 \<times> nat, 'w hart) outcome" where
  "walk_levels m va op ppn k s =
     (let pte_mpa = pte_addr m ppn va k in
      case bus_read (ptm_size m) pte_mpa s of
        None \<Rightarrow> walk_fault op va s
      | Some (pte, s') \<Rightarrow>
          if pte_pointer pte then
            (case k of 0 \<Rightarrow> Undefined | Suc j \<Rightarrow> walk_levels m va op (pte_next m pte) j s')
          else if pte_invalid pte then walk_fault op va s'
          else if pte_flags pte AND (pte_flag_R OR pte_flag_X) \<noteq> 0 then walk_leaf m va op k pte_mpa pte s'
          else (case k of 0 \<Rightarrow> Undefined | Suc j \<Rightarrow> walk_levels m va op ppn j s'))"

declare walk_levels.simps [simp del]

definition walk_page_table :: "ptm \<Rightarrow> u64 \<Rightarrow> mmu_op \<Rightarrow> 'w hart \<Rightarrow> (u64 \<times> u64 \<times> nat, 'w hart) outcome" where
  "walk_page_table m va op s =
     walk_levels m va op (push_bit 12 (sptbr s AND mask 38)) (ptm_levels m) s"

section \<open>Address translation\<close>

definition op_tlb :: "mmu_op \<Rightarrow> 'w hart \<Rightarrow> tlb_entry list" where
  "op_tlb op s = (if op = Op_fetch then l1_itlb s else l1_dtlb s)"

definition set_op_tlb :: "mmu_op \<Rightarrow> tlb_entry list \<Rightarrow> 'w hart \<Rightarrow> 'w hart" where
  "set_op_tlb op tlb s = (if op = Op_fetch then s\<lparr>l1_itlb := tlb\<rparr> else s\<lparr>l1_dtlb := tlb\<rparr>)"

definition page_translate_addr_tlb_miss ::
  "ptm \<Rightarrow> u64 \<Rightarrow> mmu_op \<Rightarrow> 'w hart \<Rightarrow> (u64 \<times> tlb_entry option, 'w hart) outcome" where
  "page_translate_addr_tlb_miss m va op s =
     bind_ok (walk_page_table m va op s) (\<lambda>(pa, pte, level) s'.
       if pa = 0 then Ok (0, None) s'
       else let (i, tlb) = tlb_insert (pdid s') (drop_bit 38 (sptbr s')) va (of_nat level)
                  (pte_flags pte) (pte_ppn m pte) (op_tlb op s')
            in Ok (pa, Some (tlb ! i)) (set_op_tlb op tlb s'))"

definition page_translate_addr ::
  "ptm \<Rightarrow> u64 \<Rightarrow> mmu_op \<Rightarrow> 'w hart \<Rightarrow> (u64 \<times> tlb_entry option, 'w hart) outcome" where
  "page_translate_addr m va op s =
     (case tlb_lookup (pdid s) (drop_bit 38 (sptbr s)) va (op_tlb op s) of
        Some i \<Rightarrow>
          (let e = op_tlb op s ! i in
           if ucast (te_pteb e) AND ad_flags op \<noteq> ad_flags op
           then Ok (page_translate_offset m (ucast (te_ppn e)) va (unat (te_ptel e)), Some e) s
           else page_translate_addr_tlb_miss m va op s)
      | None \<Rightarrow> page_translate_addr_tlb_miss m va op s)"

definition translate_addr :: "mmu_op \<Rightarrow> u64 \<Rightarrow> 'w hart \<Rightarrow> (u64 \<times> tlb_entry option, 'w hart) outcome" where
  "translate_addr op va s =
     (if effective_mode s op \<ge> rv_mode_M \<or> status_vm s = rv_vm_mbare then Ok (va, None) s
      else if status_vm s = rv_vm_sv32 then page_translate_addr sv32 va op s
      else if status_vm s = rv_vm_sv39 then page_translate_addr sv39 va op s
      else if status_vm s = rv_vm_sv48 then page_translate_addr sv48 va op s
      else Panicked)"

section \<open>Loads, stores and atomic operations\<close>

text \<open>
  A load that translates to address 0 returns without writing its result, which is \<open>None\<close>.
\<close>

definition mmu_load :: "nat \<Rightarrow> u64 \<Rightarrow> 'w hart \<Rightarrow> (u64 option, 'w hart) outcome" where
  "mmu_load n va s =
     (if misaligned n va then raise_ex rv_cause_misaligned_load va s
      else bind_ok (translate_addr Op_load va s) (\<lambda>(mpa, e) s'.
        if mpa = 0 then Ok None s'
        else if load_access_fault s' (mode s') e then raise_ex rv_cause_fault_load va s'
        else case bus_read n mpa s' of
            None \<Rightarrow> raise_ex rv_cause_fault_load va s'
          | Some (v, s'') \<Rightarrow> Ok (Some v) s''))"

definition mmu_store :: "nat \<Rightarrow> u64 \<Rightarrow> u64 \<Rightarrow> 'w hart \<Rightarrow> (unit, 'w hart) outcome" where
  "mmu_store n va val s =
     (if misaligned n va then raise_ex rv_cause_misaligned_store va s
      else bind_ok (translate_addr Op_store va s) (\<lambda>(mpa, e) s'.
        if mpa = 0 then Ok () s'
        else if store_access_fault s' (mode s') e then raise_ex rv_cause_fault_store va s'
        else case bus_write n mpa val s' of
            None \<Rightarrow> raise_ex rv_cause_fault_store va s'
          | Some s'' \<Rightarrow> Ok () s''))"

datatype amo_op = Amoswap | Amoadd | Amoxor | Amoor | Amoand | Amomin | Amomax | Amominu | Amomaxu

fun amo_fn :: "amo_op \<Rightarrow> 'a::len word \<Rightarrow> 'a word \<Rightarrow> 'a word" where
  "amo_fn Amoswap x y = y"
| "amo_fn Amoadd x y = x + y"
| "amo_fn Amoxor x y = x XOR y"
| "amo_fn Amoor x y = x OR y"
| "amo_fn Amoand x y = x AND y"
| "amo_fn Amomin x y = (if y <s x then y else x)"
| "amo_fn Amomax x y = (if x <s y then y else x)"
| "amo_fn Amominu x y = (if y < x then y else x)"
| "amo_fn Amomaxu x y = (if x < y then y else x)"

text \<open>A value of the signed type of \<open>n\<close> bytes, converted to \<^verbatim>\<open>UX\<close>.\<close>

definition sext :: "nat \<Rightarrow> u64 \<Rightarrow> u64" where
  "sext n x = (if n = 1 then scast (ucast x :: u8) else if n = 2 then scast (ucast x :: u16)
     else if n = 4 then scast (ucast x :: u32) else x)"

definition mmu_amo :: "nat \<Rightarrow> amo_op \<Rightarrow> u64 \<Rightarrow> u64 \<Rightarrow> 'w hart \<Rightarrow> (u64 option, 'w hart) outcome" where
  "mmu_amo n a_op va val2 s =
     (if misaligned n va then raise_ex rv_cause_misaligned_store va s
      else bind_ok (translate_addr Op_store va s) (\<lambda>(mpa, e) s'.
        if mpa = 0 then Ok None s'
        else if load_access_fault s' (mode s') e then raise_ex rv_cause_fault_store va s'
        else case bus_read n mpa s' of
            None \<Rightarrow> raise_ex rv_cause_fault_store va s'
          | Some (val1, s'') \<Rightarrow>
              if store_access_fault s'' (mode s'') e then raise_ex rv_cause_fault_store va s''
              else case bus_write n mpa (amo_fn a_op (sext n val1) (sext n val2)) s'' of
                  None \<Rightarrow> raise_ex rv_cause_fault_store va s''
                | Some s3 \<Rightarrow> Ok (Some val1) s3))"

section \<open>Instruction fetch\<close>

text \<open>The remaining 16-bit parcels of an instruction, at the given indices.\<close>

fun fetch_parcels :: "u64 \<Rightarrow> u64 \<Rightarrow> nat list \<Rightarrow> u64 \<Rightarrow> 'w hart \<Rightarrow> (u64, 'w hart) outcome" where
  "fetch_parcels va mpa [] inst s = Ok inst s"
| "fetch_parcels va mpa (i # is) inst s =
     (case bus_read 2 (mpa + of_nat (2 * i)) s of
        None \<Rightarrow> raise_ex rv_cause_fault_fetch va s
      | Some (v, s') \<Rightarrow> fetch_parcels va mpa is (inst OR push_bit (16 * i) v) s')"

text \<open>The result is the instruction and \<^verbatim>\<open>pc_offset\<close>, which a fetch from address 0 leaves alone.\<close>

definition mmu_inst_fetch :: "u64 \<Rightarrow> u64 \<Rightarrow> 'w hart \<Rightarrow> (u64 \<times> u64, 'w hart) outcome" where
  "mmu_inst_fetch va pc_offset s =
     (if misaligned 2 va then raise_ex rv_cause_misaligned_fetch va s
      else bind_ok (translate_addr Op_fetch va s) (\<lambda>(mpa, e) s'.
        if mpa = 0 then Ok (0, pc_offset) s'
        else if fetch_access_fault s' (mode s') e then raise_ex rv_cause_fault_fetch va s'
        else case bus_read 2 mpa s' of
            None \<Rightarrow> raise_ex rv_cause_fault_fetch va s'
          | Some (inst, s'') \<Rightarrow>
              if inst AND 0b11 \<noteq> 0b11 then Ok (inst, 2) s''
              else if inst AND 0b11100 \<noteq> 0b11100 then
                bind_ok (fetch_parcels va mpa [1] inst s'') (\<lambda>i. Ok (i, 4))
              else if inst AND 0b111111 = 0b011111 then
                bind_ok (fetch_parcels va mpa [1, 2] inst s'') (\<lambda>i. Ok (i, 6))
              else if inst AND 0b1111111 = 0b0111111 then
                bind_ok (fetch_parcels va mpa [1, 2, 3] inst s'') (\<lambda>i. Ok (i, 8))
              else raise_ex rv_cause_fault_fetch va s''))"

section \<open>What the MMU may change\<close>

text \<open>The MMU changes the TLBs and the world, and \<^verbatim>\<open>raise\<close> sets \<^verbatim>\<open>badaddr\<close>; nothing else.\<close>

definition mmu_frame :: "'w hart \<Rightarrow> 'w hart \<Rightarrow> bool" where
  "mmu_frame s s' \<longleftrightarrow> (\<exists>b it dt w. s' = s\<lparr>badaddr := b, l1_itlb := it, l1_dtlb := dt, hart_world := w\<rparr>)"

lemma mmu_frameI: "s' = s\<lparr>badaddr := b, l1_itlb := it, l1_dtlb := dt, hart_world := w\<rparr> \<Longrightarrow> mmu_frame s s'"
  unfolding mmu_frame_def by blast

lemma mmu_frame_refl [simp]: "mmu_frame s s"
  by (rule mmu_frameI [where b = "badaddr s" and it = "l1_itlb s" and dt = "l1_dtlb s" and w = "hart_world s"]) simp

lemma mmu_frame_trans:
  assumes "mmu_frame s s'" "mmu_frame s' s''"
  shows "mmu_frame s s''"
proof -
  obtain b it dt w b' it' dt' w' where
    "s' = s\<lparr>badaddr := b, l1_itlb := it, l1_dtlb := dt, hart_world := w\<rparr>"
    "s'' = s'\<lparr>badaddr := b', l1_itlb := it', l1_dtlb := dt', hart_world := w'\<rparr>"
    using assms unfolding mmu_frame_def by blast
  then have "s'' = s\<lparr>badaddr := b', l1_itlb := it', l1_dtlb := dt', hart_world := w'\<rparr>" by simp
  then show ?thesis by (rule mmu_frameI)
qed

fun all_states :: "('s \<Rightarrow> bool) \<Rightarrow> ('a, 's) outcome \<Rightarrow> bool" where
  "all_states P (Ok a s) = P s"
| "all_states P (Raised c s) = P s"
| "all_states P Panicked = True"
| "all_states P Undefined = True"

lemma all_states_bind:
  "all_states P m \<Longrightarrow> (\<And>a s. m = Ok a s \<Longrightarrow> P s \<Longrightarrow> all_states P (f a s)) \<Longrightarrow> all_states P (bind_ok m f)"
  by (cases m) auto

lemma frame_steps:
  "mmu_frame s (s\<lparr>badaddr := b\<rparr>)" "mmu_frame s (s\<lparr>l1_itlb := it\<rparr>)" "mmu_frame s (s\<lparr>l1_dtlb := dt\<rparr>)"
  "mmu_frame s (s\<lparr>hart_world := w\<rparr>)"
  by (rule mmu_frameI [where b = b and it = "l1_itlb s" and dt = "l1_dtlb s" and w = "hart_world s"], simp)
    (rule mmu_frameI [where b = "badaddr s" and it = it and dt = "l1_dtlb s" and w = "hart_world s"], simp,
     rule mmu_frameI [where b = "badaddr s" and it = "l1_itlb s" and dt = dt and w = "hart_world s"], simp,
     rule mmu_frameI [where b = "badaddr s" and it = "l1_itlb s" and dt = "l1_dtlb s" and w = w], simp)

lemma bus_read_frame: "bus_read n a s = Some (v, s') \<Longrightarrow> mmu_frame s s'"
  by (auto simp: bus_read_def frame_steps)

lemma bus_write_frame: "bus_write n a v s = Some s' \<Longrightarrow> mmu_frame s s'"
  by (auto simp: bus_write_def frame_steps)

lemma raise_frame: "all_states (mmu_frame s) (raise_ex c a s)"
  by (simp add: raise_ex_def frame_steps)

lemma set_op_tlb_frame: "mmu_frame s (set_op_tlb op tlb s)"
  by (simp add: set_op_tlb_def frame_steps)

text \<open>Frames compose along a computation.\<close>

lemma frame_after: "mmu_frame s s' \<Longrightarrow> all_states (mmu_frame s') m \<Longrightarrow> all_states (mmu_frame s) m"
  by (cases m) (auto intro: mmu_frame_trans)

lemma bind_frame:
  assumes "all_states (mmu_frame s) m" "\<And>a s'. m = Ok a s' \<Longrightarrow> all_states (mmu_frame s') (f a s')"
  shows "all_states (mmu_frame s) (bind_ok m f)"
  using assms by (auto intro!: all_states_bind intro: frame_after)

lemma read_frame:
  "(\<And>v s'. bus_read n a s = Some (v, s') \<Longrightarrow> all_states (mmu_frame s') (f v s')) \<Longrightarrow> all_states (mmu_frame s) g \<Longrightarrow>
    all_states (mmu_frame s) (case bus_read n a s of None \<Rightarrow> g | Some (v, s') \<Rightarrow> f v s')"
  by (auto split: option.split intro: frame_after [OF bus_read_frame])

lemma write_frame:
  "(\<And>s'. bus_write n a v s = Some s' \<Longrightarrow> all_states (mmu_frame s') (f s')) \<Longrightarrow> all_states (mmu_frame s) g \<Longrightarrow>
    all_states (mmu_frame s) (case bus_write n a v s of None \<Rightarrow> g | Some s' \<Rightarrow> f s')"
  by (auto split: option.split intro: frame_after [OF bus_write_frame])

lemma if_frame:
  "(c \<Longrightarrow> all_states P m) \<Longrightarrow> (\<not> c \<Longrightarrow> all_states P m') \<Longrightarrow> all_states P (if c then m else m')"
  by simp

lemmas frame_intros = read_frame write_frame if_frame bind_frame raise_frame

lemma walk_fault_frame: "all_states (mmu_frame s) (walk_fault op va s)"
  by (simp add: walk_fault_def raise_frame)

lemma walk_leaf_frame: "all_states (mmu_frame s) (walk_leaf m va op k a pte s)"
  by (auto simp: walk_leaf_def Let_def walk_fault_frame bus_write_frame split: option.splits)

lemma walk_levels_frame: "all_states (mmu_frame s) (walk_levels m va op ppn k s)"
proof (induction k arbitrary: ppn s)
  case 0
  show ?case
    by (subst walk_levels.simps) (auto simp: Let_def intro!: frame_intros walk_fault_frame walk_leaf_frame)
next
  case (Suc k)
  show ?case
    by (subst walk_levels.simps) (auto simp: Let_def intro!: frame_intros walk_fault_frame walk_leaf_frame Suc.IH)
qed

lemma translate_frame: "all_states (mmu_frame s) (translate_addr op va s)"
proof -
  have miss: "all_states (mmu_frame s) (page_translate_addr_tlb_miss m va op s)" for m
    unfolding page_translate_addr_tlb_miss_def walk_page_table_def
    by (rule bind_frame [OF walk_levels_frame]) (auto simp: Let_def set_op_tlb_frame split: prod.splits)
  then have "all_states (mmu_frame s) (page_translate_addr m va op s)" for m
    by (auto simp: page_translate_addr_def Let_def split: option.splits)
  then show ?thesis by (simp add: translate_addr_def)
qed

lemma fetch_parcels_frame: "all_states (mmu_frame s) (fetch_parcels va mpa is inst s)"
  by (induction va mpa "is" inst s rule: fetch_parcels.induct) (auto intro!: frame_intros)

lemma mmu_load_frame: "all_states (mmu_frame s) (mmu_load n va s)"
  unfolding mmu_load_def by (auto intro!: frame_intros translate_frame)

lemma mmu_store_frame: "all_states (mmu_frame s) (mmu_store n va v s)"
  unfolding mmu_store_def by (auto intro!: frame_intros translate_frame)

lemma mmu_amo_frame: "all_states (mmu_frame s) (mmu_amo n a_op va v s)"
  unfolding mmu_amo_def by (auto intro!: frame_intros translate_frame)

lemma mmu_inst_fetch_frame: "all_states (mmu_frame s) (mmu_inst_fetch va off s)"
  unfolding mmu_inst_fetch_def
  by (auto simp del: fetch_parcels.simps intro!: frame_intros translate_frame fetch_parcels_frame)

end
