(* ===== verification/Alu.thy ===== *)
theory Alu
  imports Prelude "HOL-Library.Signed_Division"
begin

text \<open>
  The arithmetic of \<^verbatim>\<open>src/src/asm/alu.h\<close> for any even register width: the high half of a
  product from half-width partial products, and division with the results that RISC-V assigns to
  division by zero and to overflow. The high halves are proved equal to those of the exact product.
\<close>

unbundle bit_operations_syntax

section \<open>Operations\<close>

definition mulhu :: "'a::len word \<Rightarrow> 'a word \<Rightarrow> 'a word" where
  "mulhu x y =
     (let qb = LENGTH('a) div 2; msk = push_bit qb 1 - 1;
        x0 = x AND msk; x1 = drop_bit qb x AND msk; y0 = y AND msk; y1 = drop_bit qb y AND msk;
        z0 = x0 * y0; z1 = x1 * y0; z2 = x0 * y1; z3 = x1 * y1;
        z4 = z1 + drop_bit qb z0; c1 = z2 + (z4 AND msk)
      in z3 + drop_bit qb z4 + drop_bit qb c1)"

definition mulh :: "'a::len word \<Rightarrow> 'a word \<Rightarrow> 'a word" where
  "mulh x y =
     (let qb = LENGTH('a) div 2; msk = push_bit qb 1 - 1;
        xs = of_bool (x <s 0); ys = of_bool (y <s 0);
        xu = (NOT xs + 1) XOR (x - xs); yu = (NOT ys + 1) XOR (y - ys);
        x0 = xu AND msk; x1 = drop_bit qb xu AND msk; y0 = yu AND msk; y1 = drop_bit qb yu AND msk;
        z0 = x0 * y0; z1 = x1 * y0; z2 = x0 * y1; z3 = x1 * y1;
        z4 = z1 + drop_bit qb z0; c1 = z2 + (z4 AND msk);
        h1 = z3 + drop_bit qb z4 + drop_bit qb c1; l1 = push_bit qb c1 + (z0 AND msk);
        rs = xs XOR ys; l2 = l1 - rs; hb = of_bool (l1 < l2); h2 = h1 - hb
      in - rs XOR h2)"

definition mulhsu :: "'a::len word \<Rightarrow> 'a word \<Rightarrow> 'a word" where
  "mulhsu x y =
     (let qb = LENGTH('a) div 2; msk = push_bit qb 1 - 1;
        xs = of_bool (x <s 0); xu = (NOT xs + 1) XOR (x - xs);
        x0 = xu AND msk; x1 = drop_bit qb xu AND msk; y0 = y AND msk; y1 = drop_bit qb y AND msk;
        z0 = x0 * y0; z1 = x1 * y0; z2 = x0 * y1; z3 = x1 * y1;
        z4 = z1 + drop_bit qb z0; c1 = z2 + (z4 AND msk);
        h1 = z3 + drop_bit qb z4 + drop_bit qb c1; l1 = push_bit qb c1 + (z0 AND msk);
        l2 = l1 - xs; hb = of_bool (l1 < l2); h2 = h1 - hb
      in - xs XOR h2)"

text \<open>The least signed value.\<close>

definition smin :: "'a::len word" where
  "smin = push_bit (LENGTH('a) - 1) 1"

definition alu_div :: "'a::len word \<Rightarrow> 'a word \<Rightarrow> 'a word" where
  "alu_div x y = (if x = smin \<and> y = - 1 then smin else if y = 0 then - 1
     else word_of_int (sint x sdiv sint y))"

definition alu_divu :: "'a::len word \<Rightarrow> 'a word \<Rightarrow> 'a word" where
  "alu_divu x y = (if y = 0 then - 1 else x div y)"

definition alu_rem :: "'a::len word \<Rightarrow> 'a word \<Rightarrow> 'a word" where
  "alu_rem x y = (if x = smin \<and> y = - 1 then 0 else if y = 0 then x
     else word_of_int (sint x smod sint y))"

definition alu_remu :: "'a::len word \<Rightarrow> 'a word \<Rightarrow> 'a word" where
  "alu_remu x y = (if y = 0 then x else x mod y)"

section \<open>The exact product from partial products\<close>

text \<open>The two halves that the three multiplications share.\<close>

definition prod_lo :: "'a::len word \<Rightarrow> 'a word \<Rightarrow> 'a word" where
  "prod_lo x y =
     (let qb = LENGTH('a) div 2; msk = push_bit qb 1 - 1;
        x0 = x AND msk; x1 = drop_bit qb x AND msk; y0 = y AND msk; y1 = drop_bit qb y AND msk;
        z0 = x0 * y0; z1 = x1 * y0; z2 = x0 * y1; z4 = z1 + drop_bit qb z0; c1 = z2 + (z4 AND msk)
      in push_bit qb c1 + (z0 AND msk))"

text \<open>In the natural numbers, with base \<open>B\<close>.\<close>

lemma partial_products:
  fixes x0 x1 y0 y1 B :: nat
  assumes "0 < B"
  defines "z0 \<equiv> x0 * y0" and "z4 \<equiv> x1 * y0 + x0 * y0 div B"
  defines "c1 \<equiv> x0 * y1 + z4 mod B"
  shows "(x1 * B + x0) * (y1 * B + y0) =
    (x1 * y1 + z4 div B + c1 div B) * (B * B) + ((c1 mod B) * B + z0 mod B)"
proof -
  have c1: "c1 = c1 div B * B + c1 mod B" and z4: "z4 = z4 div B * B + z4 mod B" and z0: "z0 = z0 div B * B + z0 mod B"
    by simp_all
  have z4B: "z4 * B = z4 div B * (B * B) + z4 mod B * B" by (metis z4 distrib_right mult.assoc)
  have c1B: "c1 * B = c1 div B * (B * B) + c1 mod B * B" by (metis c1 distrib_right mult.assoc)
  have "(x1 * B + x0) * (y1 * B + y0) = x1 * y1 * (B * B) + (x1 * y0 + x0 * y1) * B + z0"
    by (simp add: z0_def algebra_simps)
  also have "\<dots> = x1 * y1 * (B * B) + (z4 + x0 * y1) * B + z0 mod B"
    by (subst z0) (simp add: z4_def z0_def algebra_simps)
  also have "\<dots> = (x1 * y1 + z4 div B) * (B * B) + c1 * B + z0 mod B"
    using z4B by (simp add: c1_def distrib_right)
  also have "\<dots> = (x1 * y1 + z4 div B + c1 div B) * (B * B) + ((c1 mod B) * B + z0 mod B)"
    using c1B by (simp add: distrib_right)
  finally show ?thesis .
qed

lemma half_bounds:
  fixes x0 x1 y0 y1 B :: nat
  assumes "x0 < B" "x1 < B" "y0 < B" "y1 < B"
  shows "x1 * y0 + x0 * y0 div B < B * B" and "x0 * y1 + r mod B < B * B"
proof -
  have sq: "a * b + B \<le> B * B" if "a < B" "b < B" for a b
  proof -
    have "a * b \<le> (B - 1) * (B - 1)" using that by (intro mult_mono) auto
    moreover have "(B - 1) * (B - 1) + B \<le> B * B" using that by (cases B) auto
    ultimately show ?thesis by linarith
  qed
  have "x0 * y0 div B < B" using assms(1,3) by (simp add: less_mult_imp_div_less mult_strict_mono)
  then show "x1 * y0 + x0 * y0 div B < B * B" using sq [OF assms(2,3)] by linarith
  have "r mod B < B" using assms(1) by simp
  then show "x0 * y1 + r mod B < B * B" using sq [OF assms(1,4)] by linarith
qed

lemma unat_msk:
  fixes x :: "'a::len word"
  assumes "q < LENGTH('a)"
  shows "unat (x AND (2 ^ q - 1)) = unat x mod 2 ^ q"
proof -
  have "x AND (2 ^ q - 1) = take_bit q x" by (simp add: take_bit_eq_mask mask_eq_exp_minus_1)
  then have "unat (x AND (2 ^ q - 1)) = unat (take_bit q x)" by (rule arg_cong)
  also have "\<dots> = take_bit q (unat x)" by (rule unsigned_take_bit_eq)
  finally show ?thesis by (simp add: take_bit_eq_mod)
qed

lemma unat_add_small: "unat (x :: 'a::len word) + unat y < 2 ^ LENGTH('a) \<Longrightarrow> unat (x + y) = unat x + unat y"
  by (simp add: unat_word_ariths)

lemma unat_mult_small: "unat (x :: 'a::len word) * unat y < 2 ^ LENGTH('a) \<Longrightarrow> unat (x * y) = unat x * unat y"
  by (simp add: unat_word_ariths)

text \<open>The two halves of the product of two words of even width.\<close>

lemma prod_halves:
  fixes x y :: "'a::len word"
  assumes even: "2 * q = LENGTH('a)"
  shows "unat (mulhu x y) = unat x * unat y div 2 ^ LENGTH('a)" (is "?hi")
    and "unat (prod_lo x y) = unat x * unat y mod 2 ^ LENGTH('a)" (is "?lo")
proof -
  define B :: nat where "B = 2 ^ q"
  have q: "LENGTH('a) div 2 = q" "q < LENGTH('a)" using even len_gt_0 [where 'a = 'a] by linarith+
  have BB: "2 ^ LENGTH('a) = B * B" by (simp add: B_def even [symmetric] mult_2 power_add)
  have B0: "0 < B" by (simp add: B_def)
  define x0 x1 y0 y1 where "x0 = unat x mod B" "x1 = unat x div B" "y0 = unat y mod B" "y1 = unat y div B"
  have ub: "unat w < B * B" for w :: "'a word" using unsigned_less [where 'a = nat, of w] by (simp add: BB)
  have lt: "unat w div B < B" for w :: "'a word" using ub by (rule less_mult_imp_div_less)
  have bnd: "x0 < B" "x1 < B" "y0 < B" "y1 < B" using lt B0 by (simp_all add: x0_x1_y0_y1_def)
  define z4 c1 where "z4 = x1 * y0 + x0 * y0 div B" and "c1 = x0 * y1 + z4 mod B"
  have xy: "unat x = x1 * B + x0" "unat y = y1 * B + y0" by (simp_all add: x0_x1_y0_y1_def)
  have prod: "unat x * unat y = (x1 * y1 + z4 div B + c1 div B) * (B * B) + ((c1 mod B) * B + x0 * y0 mod B)"
    unfolding xy z4_def c1_def by (rule partial_products [OF B0])
  have low: "(c1 mod B) * B + x0 * y0 mod B < B * B"
  proof -
    have "c1 mod B * B + x0 * y0 mod B < c1 mod B * B + B" using B0 by simp
    also have "\<dots> = Suc (c1 mod B) * B" by simp
    also have "\<dots> \<le> B * B" using B0 by (intro mult_right_mono) (auto simp: Suc_le_eq)
    finally show ?thesis .
  qed
  have dm: "r < N \<Longrightarrow> (k * N + r) div N = k" "r < N \<Longrightarrow> (k * N + r) mod N = r" for k r N :: nat
    by simp_all
  have hi: "unat x * unat y div (B * B) = x1 * y1 + z4 div B + c1 div B"
    and lo: "unat x * unat y mod (B * B) = (c1 mod B) * B + x0 * y0 mod B"
    unfolding prod by (rule dm(1) [OF low], rule dm(2) [OF low])
  have "unat x * unat y < B * B * (B * B)"
    using ub [of x] ub [of y] by (intro mult_strict_mono') simp_all
  then have hib: "x1 * y1 + z4 div B + c1 div B < B * B" using hi by (metis less_mult_imp_div_less)
  have m: "a < B \<Longrightarrow> b < B \<Longrightarrow> a * b < B * B" for a b by (simp add: mult_strict_mono)
  have drop: "unat (drop_bit q w) = unat w div B" for w :: "'a word"
    unfolding B_def drop_bit_eq_div [symmetric] using q(2) by (simp only: unsigned_drop_bit_eq) (simp add: take_bit_nat_eq_self)
  have parts: "unat (x AND (2 ^ q - 1)) = x0" "unat (drop_bit q x AND (2 ^ q - 1)) = x1"
    "unat (y AND (2 ^ q - 1)) = y0" "unat (drop_bit q y AND (2 ^ q - 1)) = y1"
    using bnd by (simp_all only: unat_msk [OF q(2)] drop B_def [symmetric]) (simp_all add: x0_x1_y0_y1_def)
  let ?msk = "2 ^ q - 1 :: 'a word"
  define z0w z1w z2w z3w where "z0w = (x AND ?msk) * (y AND ?msk)" "z1w = (drop_bit q x AND ?msk) * (y AND ?msk)"
    "z2w = (x AND ?msk) * (drop_bit q y AND ?msk)" "z3w = (drop_bit q x AND ?msk) * (drop_bit q y AND ?msk)"
  define z4w where "z4w = z1w + drop_bit q z0w"
  define c1w where "c1w = z2w + (z4w AND ?msk)"
  have zs: "unat z0w = x0 * y0" "unat z1w = x1 * y0" "unat z2w = x0 * y1" "unat z3w = x1 * y1"
    using bnd m by (simp_all add: z0w_z1w_z2w_z3w_def unat_mult_small parts BB)
  have z4: "unat z4w = z4"
    using half_bounds(1) [OF bnd] unfolding z4w_def z4_def
    by (subst unat_add_small) (simp_all add: zs drop BB)
  have c1: "unat c1w = c1"
    using half_bounds(2) [OF bnd] unfolding c1w_def c1_def
    by (subst unat_add_small) (simp_all add: zs unat_msk [OF q(2)] z4 BB B_def [symmetric])
  have "mulhu x y = z3w + drop_bit q z4w + drop_bit q c1w"
    by (simp add: mulhu_def q z0w_z1w_z2w_z3w_def z4w_def c1w_def Let_def)
  moreover have "unat (z3w + drop_bit q z4w + drop_bit q c1w) = x1 * y1 + z4 div B + c1 div B"
    using hib by (simp add: unat_add_small zs drop z4 c1 BB)
  ultimately show ?hi by (simp add: BB hi)
  have "prod_lo x y = push_bit q c1w + (z0w AND ?msk)"
    by (simp add: prod_lo_def q z0w_z1w_z2w_z3w_def z4w_def c1w_def Let_def)
  moreover have "unat (push_bit q c1w) = (c1 mod B) * B"
  proof -
    have "unat (push_bit q c1w) = (c1 * B) mod (B * B)"
      using unsigned_push_bit_eq [where 'a = nat, of q c1w]
      by (simp only: take_bit_eq_mod push_bit_eq_mult [of _ c1] c1 BB B_def [symmetric])
    then show ?thesis by (simp add: mod_mult_mult2)
  qed
  moreover have "unat (z0w AND ?msk) = x0 * y0 mod B" by (simp add: unat_msk [OF q(2)] zs B_def)
  ultimately show ?lo using low by (simp add: unat_add_small BB lo)
qed

section \<open>Signed products\<close>

text \<open>The sign fix of the code, from the halves of the product of the magnitudes.\<close>

definition sign_fix :: "bool \<Rightarrow> 'a::len word \<Rightarrow> 'a word \<Rightarrow> 'a word" where
  "sign_fix neg h l = (let rs = of_bool neg; l2 = l - rs; hb = of_bool (l < l2); h2 = h - hb in - rs XOR h2)"

definition magnitude :: "'a::len word \<Rightarrow> 'a word" where
  "magnitude x = (let xs = of_bool (x <s 0) in (NOT xs + 1) XOR (x - xs))"

lemma of_bool_xor: "(of_bool a XOR of_bool b :: 'a::len word) = of_bool (a \<noteq> b)"
  by auto

lemma mulh_eq:
  "mulh x y = sign_fix ((x <s 0) \<noteq> (y <s 0)) (mulhu (magnitude x) (magnitude y)) (prod_lo (magnitude x) (magnitude y))"
  by (simp add: mulh_def sign_fix_def magnitude_def mulhu_def prod_lo_def Let_def of_bool_xor)

lemma mulhsu_eq: "mulhsu x y = sign_fix (x <s 0) (mulhu (magnitude x) y) (prod_lo (magnitude x) y)"
  by (simp add: mulhsu_def sign_fix_def magnitude_def mulhu_def prod_lo_def Let_def)

lemma magnitude_eq: "magnitude x = (if x <s 0 then - x else x)"
proof -
  have "- 1 XOR (x - 1) = - x" using minus_eq_not_minus_1 [of x] by (simp add: bit_eq_iff bit_simps)
  then show ?thesis by (simp add: magnitude_def)
qed

lemma uint_magnitude:
  fixes x :: "'a::len word"
  shows "uint (magnitude x) = \<bar>sint x\<bar>"
proof -
  have x: "x = word_of_int (sint x)" by simp
  then have "magnitude x = word_of_int \<bar>sint x\<bar>"
    unfolding magnitude_eq by (cases "sint x < 0") (simp_all add: word_sless_alt)
  moreover have "\<bar>sint x\<bar> < 2 ^ LENGTH('a)"
  proof -
    have "(2 :: int) ^ (LENGTH('a) - 1) < 2 ^ LENGTH('a)" by (rule power_strict_increasing) simp_all
    then show ?thesis using sint_lt [of x] sint_ge [of x] by linarith
  qed
  ultimately show ?thesis by (simp add: uint_word_of_int_eq take_bit_int_eq_self)
qed

lemma less_minus_one_iff: "(l :: 'a::len word) < l - 1 \<longleftrightarrow> l = 0"
proof (cases "l = 0")
  case False
  then have "unat (l - 1) < unat l" by (simp add: unat_minus_one unat_gt_0)
  then show ?thesis using False by (simp add: word_less_nat_alt)
qed (simp add: word_gt_0)

lemma sign_fix_eq:
  fixes h l :: "'a::len word"
  assumes P: "P = uint h * 2 ^ LENGTH('a) + uint l"
  shows "sign_fix neg h l = word_of_int ((if neg then - P else P) div 2 ^ LENGTH('a))"
proof (cases neg)
  case True
  let ?N = "2 ^ LENGTH('a) :: int"
  have l: "0 \<le> uint l" "uint l < ?N" using unsigned_less [where 'a = int, of l] by simp_all
  have "- P div ?N = - uint h + - uint l div ?N"
    using div_mult_self1 [of ?N "- uint l" "- uint h"] by (simp add: P algebra_simps)
  moreover have "- uint l div ?N = (if l = 0 then 0 else - 1)"
  proof (cases "l = 0")
    case False
    then have "0 < uint l" using l(1) by (metis less_le uint_0_iff)
    then have "(- uint l) div ?N = - 1" using l(2)
      by (intro int_div_pos_eq [of _ _ _ "?N - uint l"]) linarith+
    then show ?thesis using False by simp
  qed simp
  ultimately have "word_of_int (- P div ?N) = - h - of_bool (l \<noteq> 0)" by auto
  moreover have "sign_fix True h l = - h - of_bool (l \<noteq> 0)"
    by (cases "l = 0") (simp_all add: sign_fix_def less_minus_one_iff not_eq_complement word_gt_0)
  ultimately show ?thesis using True by simp
next
  case False
  have "P div 2 ^ LENGTH('a) = uint h"
    using unsigned_less [where 'a = int, of l] by (simp add: P div_pos_pos_trivial)
  then show ?thesis using False by (simp add: sign_fix_def)
qed

lemma mul_high:
  fixes x y :: "'a::len word"
  assumes "2 * q = LENGTH('a)"
  shows "mulhu x y = word_of_int (uint x * uint y div 2 ^ LENGTH('a)) \<and>
    mulh x y = word_of_int (sint x * sint y div 2 ^ LENGTH('a)) \<and>
    mulhsu x y = word_of_int (sint x * uint y div 2 ^ LENGTH('a))"
proof -
  let ?N = "2 ^ LENGTH('a) :: int"
  have u: "uint (mulhu a b) = uint a * uint b div ?N" "uint (prod_lo a b) = uint a * uint b mod ?N" for a b :: "'a word"
    using prod_halves [OF assms, of a b, THEN arg_cong [of _ _ int]] by (simp_all add: zdiv_int zmod_int)
  have P: "uint a * uint b = uint (mulhu a b) * ?N + uint (prod_lo a b)" for a b :: "'a word"
    unfolding u by (rule div_mult_mod_eq [symmetric])
  have "mulhu x y = word_of_int (uint (mulhu x y))" by simp
  moreover have "(if (x <s 0) \<noteq> (y <s 0) then - (\<bar>sint x\<bar> * \<bar>sint y\<bar>) else \<bar>sint x\<bar> * \<bar>sint y\<bar>) = sint x * sint y"
    by (auto simp: word_sless_alt abs_if)
  moreover have "(if x <s 0 then - (\<bar>sint x\<bar> * uint y) else \<bar>sint x\<bar> * uint y) = sint x * uint y"
    by (auto simp: word_sless_alt)
  ultimately show ?thesis
    using sign_fix_eq [OF P, of "(x <s 0) \<noteq> (y <s 0)" "magnitude x" "magnitude y"]
      sign_fix_eq [OF P, of "x <s 0" "magnitude x" y]
    unfolding mulh_eq mulhsu_eq uint_magnitude u(1) by simp
qed

text \<open>
  C31. \<^verbatim>\<open>mulhu\<close>, \<^verbatim>\<open>mulh\<close> and \<^verbatim>\<open>mulhsu\<close>, which multiply half-width parts and propagate the
  carries and the borrow of the sign by hand, return the high half of the exact product of their
  operands, for every even register width and all operands, read as unsigned, signed, and signed
  times unsigned.
\<close>

theorem mul_high_correct:
  fixes x y :: "'a::len word"
  assumes "2 * q = LENGTH('a)"
  shows "mulhu x y = word_of_int (uint x * uint y div 2 ^ LENGTH('a)) \<and>
    mulh x y = word_of_int (sint x * sint y div 2 ^ LENGTH('a)) \<and>
    mulhsu x y = word_of_int (sint x * uint y div 2 ^ LENGTH('a))"
  using assms by (rule mul_high)

theorem mul_high_correct_witness:
  "mulhu (- 1 :: u64) (- 1) = word_of_int (uint (- 1 :: u64) * uint (- 1 :: u64) div 2 ^ 64) \<and>
   mulh (- 1 :: u64) 5 = - 1 \<and> mulhsu (- 1 :: u64) 5 = - 1"
  using mul_high_correct [where 'a = 64 and q = 32, of "- 1" "- 1"] mul_high_correct [where 'a = 64 and q = 32, of "- 1" 5]
  by simp

end
