(* ===== verification/Interp.thy ===== *)
theory Interp
  imports Mmu Alu Decode
begin

text \<open>
  The RV64 interpreter, \<^verbatim>\<open>exec_inst_rv64\<close> of \<^verbatim>\<open>src/src/emu/interp.h\<close>, in its instantiations
  without floating point (\<^verbatim>\<open>RV_I\<close>, \<^verbatim>\<open>RV_IMA\<close>, \<^verbatim>\<open>RV_IMAC\<close>). The cases of its switch are
  grouped by extension and format; each group is the list of its labels and bodies. The result of an
  instruction is the offset to the next one, which is \<^verbatim>\<open>-1\<close> for an opcode that is not executed
  here. The build sets \<^verbatim>\<open>-fwrapv\<close>, so that signed arithmetic wraps; a shift by the width or more
  is undefined.
\<close>

unbundle bit_operations_syntax

section \<open>The memory management unit\<close>

text \<open>
  The interpreter is a template in the processor, whose \<^verbatim>\<open>mmu\<close> member it calls. Its accesses are
  given by their width in bytes; a load and an atomic operation return the value written to the
  local variable, \<open>None\<close> when it is left unwritten. \<open>soft_mmu\<close> is \<^verbatim>\<open>mmu_soft\<close>.
\<close>

record 's mmu_ops =
  mmu_ld :: "nat \<Rightarrow> u64 \<Rightarrow> 's \<Rightarrow> (u64 option, 's) outcome"
  mmu_st :: "nat \<Rightarrow> u64 \<Rightarrow> u64 \<Rightarrow> 's \<Rightarrow> (unit, 's) outcome"
  mmu_am :: "nat \<Rightarrow> amo_op \<Rightarrow> u64 \<Rightarrow> u64 \<Rightarrow> 's \<Rightarrow> (u64 option, 's) outcome"

definition soft_mmu :: "'w hart mmu_ops" where
  "soft_mmu = \<lparr>mmu_ld = mmu_load, mmu_st = mmu_store, mmu_am = mmu_amo\<rparr>"

section \<open>Operands and results\<close>

definition reg :: "u8 \<Rightarrow> 'a cpu_scheme \<Rightarrow> u64" where
  "reg r s = ireg s ! unat r"

definition rs1 :: "decode \<Rightarrow> 'a cpu_scheme \<Rightarrow> u64" where
  "rs1 d s = reg (dec_rs1 d) s"

definition rs2 :: "decode \<Rightarrow> 'a cpu_scheme \<Rightarrow> u64" where
  "rs2 d s = reg (dec_rs2 d) s"

definition simm :: "decode \<Rightarrow> u64" where
  "simm d = scast (dec_imm d)"

text \<open>\<^verbatim>\<open>proc.ireg[dec.rd] = (dec.rd == 0) ? 0 : v\<close>\<close>

definition set_rd :: "decode \<Rightarrow> u64 \<Rightarrow> 'a cpu_scheme \<Rightarrow> 'a cpu_scheme" where
  "set_rd d v s = s\<lparr>ireg := (ireg s)[unat (dec_rd d) := if dec_rd d = 0 then 0 else v]\<rparr>"

definition wr :: "decode \<Rightarrow> u64 \<Rightarrow> u64 \<Rightarrow> 'a cpu_scheme \<Rightarrow> (u64, 'a cpu_scheme) outcome" where
  "wr d v pc_offset s = Ok pc_offset (set_rd d v s)"

text \<open>
  A result that shifts a value of \<open>width\<close> bits by \<open>k\<close>. The shift is not evaluated when the
  destination is \<open>x0\<close>.
\<close>

definition wr_shift :: "nat \<Rightarrow> u64 \<Rightarrow> decode \<Rightarrow> (nat \<Rightarrow> u64) \<Rightarrow> u64 \<Rightarrow> 'a cpu_scheme \<Rightarrow> (u64, 'a cpu_scheme) outcome" where
  "wr_shift width k d f pc_offset s =
     (if dec_rd d \<noteq> 0 \<and> \<not> unat k < width then Undefined else wr d (f (unat k)) pc_offset s)"

text \<open>A 32-bit result, sign extended.\<close>

definition sw :: "u32 \<Rightarrow> u64" where
  "sw v = scast v"

abbreviation lo32 :: "u64 \<Rightarrow> u32" where "lo32 x \<equiv> ucast x"

section \<open>Base integer instructions\<close>

definition rvi_jump :: "decode \<Rightarrow> u64 \<Rightarrow> 'a cpu_scheme \<Rightarrow> (opcode \<times> (u64, 'a cpu_scheme) outcome) list" where
  "rvi_jump d pc_offset s = [
     (rv_op_lui, wr d (simm d) pc_offset s),
     (rv_op_auipc, wr d (pc s + simm d) pc_offset s),
     (rv_op_jal, wr d (pc s + pc_offset) (simm d) s),
     (rv_op_jalr, wr d (pc s + pc_offset) ((rs1 d s + simm d - pc s) AND NOT 1) s),
     (rv_op_beq, Ok (if rs1 d s = rs2 d s then simm d else pc_offset) s),
     (rv_op_bne, Ok (if rs1 d s \<noteq> rs2 d s then simm d else pc_offset) s),
     (rv_op_blt, Ok (if rs1 d s <s rs2 d s then simm d else pc_offset) s),
     (rv_op_bge, Ok (if \<not> rs1 d s <s rs2 d s then simm d else pc_offset) s),
     (rv_op_bltu, Ok (if rs1 d s < rs2 d s then simm d else pc_offset) s),
     (rv_op_bgeu, Ok (if \<not> rs1 d s < rs2 d s then simm d else pc_offset) s)]"

text \<open>
  A load of \<open>n\<close> bytes, converted by \<open>ext\<close>. When the MMU leaves the local variable unwritten, its
  value is used, which is undefined, unless the destination is \<open>x0\<close>.
\<close>

definition exec_load :: "'a cpu_scheme mmu_ops \<Rightarrow> nat \<Rightarrow> (u64 \<Rightarrow> u64) \<Rightarrow> u64 \<Rightarrow> decode \<Rightarrow> u64 \<Rightarrow> 'a cpu_scheme \<Rightarrow> (u64, 'a cpu_scheme) outcome" where
  "exec_load M n ext va d pc_offset s =
     bind_ok (mmu_ld M n va s) (\<lambda>t s'. case t of
         Some v \<Rightarrow> wr d (ext v) pc_offset s'
       | None \<Rightarrow> if dec_rd d = 0 then wr d 0 pc_offset s' else Undefined)"

definition exec_store :: "'a cpu_scheme mmu_ops \<Rightarrow> nat \<Rightarrow> u64 \<Rightarrow> u64 \<Rightarrow> u64 \<Rightarrow> 'a cpu_scheme \<Rightarrow> (u64, 'a cpu_scheme) outcome" where
  "exec_store M n va v pc_offset s = bind_ok (mmu_st M n va (take_bit (8 * n) v) s) (\<lambda>u s'. Ok pc_offset s')"

definition rvi_load_store :: "'a cpu_scheme mmu_ops \<Rightarrow> decode \<Rightarrow> u64 \<Rightarrow> 'a cpu_scheme \<Rightarrow> (opcode \<times> (u64, 'a cpu_scheme) outcome) list" where
  "rvi_load_store M d pc_offset s = [
     (rv_op_lb, exec_load M 1 (sext 1) (rs1 d s + simm d) d pc_offset s),
     (rv_op_lh, exec_load M 2 (sext 2) (rs1 d s + simm d) d pc_offset s),
     (rv_op_lw, exec_load M 4 (sext 4) (rs1 d s + simm d) d pc_offset s),
     (rv_op_lbu, exec_load M 1 id (rs1 d s + simm d) d pc_offset s),
     (rv_op_lhu, exec_load M 2 id (rs1 d s + simm d) d pc_offset s),
     (rv_op_sb, exec_store M 1 (rs1 d s + simm d) (rs2 d s) pc_offset s),
     (rv_op_sh, exec_store M 2 (rs1 d s + simm d) (rs2 d s) pc_offset s),
     (rv_op_sw, exec_store M 4 (rs1 d s + simm d) (rs2 d s) pc_offset s),
     (rv_op_lwu, exec_load M 4 id (rs1 d s + simm d) d pc_offset s),
     (rv_op_ld, exec_load M 8 id (rs1 d s + simm d) d pc_offset s),
     (rv_op_sd, exec_store M 8 (rs1 d s + simm d) (rs2 d s) pc_offset s)]"

definition rvi_imm :: "decode \<Rightarrow> u64 \<Rightarrow> 'a cpu_scheme \<Rightarrow> (opcode \<times> (u64, 'a cpu_scheme) outcome) list" where
  "rvi_imm d pc_offset s = [
     (rv_op_addi, wr d (rs1 d s + simm d) pc_offset s),
     (rv_op_slti, wr d (of_bool (rs1 d s <s simm d)) pc_offset s),
     (rv_op_sltiu, wr d (of_bool (rs1 d s < simm d)) pc_offset s),
     (rv_op_xori, wr d (rs1 d s XOR simm d) pc_offset s),
     (rv_op_ori, wr d (rs1 d s OR simm d) pc_offset s),
     (rv_op_andi, wr d (rs1 d s AND simm d) pc_offset s),
     (rv_op_slli, wr_shift 64 (simm d) d (\<lambda>k. push_bit k (rs1 d s)) pc_offset s),
     (rv_op_srli, wr_shift 64 (simm d) d (\<lambda>k. drop_bit k (rs1 d s)) pc_offset s),
     (rv_op_srai, wr_shift 64 (simm d) d (\<lambda>k. signed_drop_bit k (rs1 d s)) pc_offset s),
     (rv_op_addiw, wr d (sw (lo32 (rs1 d s) + dec_imm d)) pc_offset s),
     (rv_op_slliw, wr_shift 32 (simm d) d (\<lambda>k. sw (push_bit k (lo32 (rs1 d s)))) pc_offset s),
     (rv_op_srliw, wr_shift 32 (simm d) d (\<lambda>k. sw (drop_bit k (lo32 (rs1 d s)))) pc_offset s),
     (rv_op_sraiw, wr_shift 32 (simm d) d (\<lambda>k. sw (signed_drop_bit k (lo32 (rs1 d s)))) pc_offset s)]"

definition rvi_reg :: "decode \<Rightarrow> u64 \<Rightarrow> 'a cpu_scheme \<Rightarrow> (opcode \<times> (u64, 'a cpu_scheme) outcome) list" where
  "rvi_reg d pc_offset s = [
     (rv_op_add, wr d (rs1 d s + rs2 d s) pc_offset s),
     (rv_op_sub, wr d (rs1 d s - rs2 d s) pc_offset s),
     (rv_op_sll, wr_shift 64 (rs2 d s AND 0b1111111) d (\<lambda>k. push_bit k (rs1 d s)) pc_offset s),
     (rv_op_slt, wr d (of_bool (rs1 d s <s rs2 d s)) pc_offset s),
     (rv_op_sltu, wr d (of_bool (rs1 d s < rs2 d s)) pc_offset s),
     (rv_op_xor, wr d (rs1 d s XOR rs2 d s) pc_offset s),
     (rv_op_srl, wr_shift 64 (rs2 d s AND 0b1111111) d (\<lambda>k. drop_bit k (rs1 d s)) pc_offset s),
     (rv_op_sra, wr_shift 64 (rs2 d s AND 0b1111111) d (\<lambda>k. signed_drop_bit k (rs1 d s)) pc_offset s),
     (rv_op_or, wr d (rs1 d s OR rs2 d s) pc_offset s),
     (rv_op_and, wr d (rs1 d s AND rs2 d s) pc_offset s),
     (rv_op_addw, wr d (sw (lo32 (rs1 d s) + lo32 (rs2 d s))) pc_offset s),
     (rv_op_subw, wr d (sw (lo32 (rs1 d s) - lo32 (rs2 d s))) pc_offset s),
     (rv_op_sllw, wr_shift 32 (rs2 d s AND 0b11111) d (\<lambda>k. sw (push_bit k (lo32 (rs1 d s)))) pc_offset s),
     (rv_op_srlw, wr_shift 32 (rs2 d s AND 0b11111) d (\<lambda>k. sw (drop_bit k (lo32 (rs1 d s)))) pc_offset s),
     (rv_op_sraw, wr_shift 32 (rs2 d s AND 0b11111) d (\<lambda>k. sw (signed_drop_bit k (lo32 (rs1 d s)))) pc_offset s)]"

section \<open>Multiplication and division\<close>

definition rvm_cases :: "decode \<Rightarrow> u64 \<Rightarrow> 'a cpu_scheme \<Rightarrow> (opcode \<times> (u64, 'a cpu_scheme) outcome) list" where
  "rvm_cases d pc_offset s = [
     (rv_op_mul, wr d (rs1 d s * rs2 d s) pc_offset s),
     (rv_op_mulh, wr d (mulh (rs1 d s) (rs2 d s)) pc_offset s),
     (rv_op_mulhsu, wr d (mulhsu (rs1 d s) (rs2 d s)) pc_offset s),
     (rv_op_mulhu, wr d (mulhu (rs1 d s) (rs2 d s)) pc_offset s),
     (rv_op_div, wr d (alu_div (rs1 d s) (rs2 d s)) pc_offset s),
     (rv_op_divu, wr d (alu_divu (rs1 d s) (rs2 d s)) pc_offset s),
     (rv_op_rem, wr d (alu_rem (rs1 d s) (rs2 d s)) pc_offset s),
     (rv_op_remu, wr d (alu_remu (rs1 d s) (rs2 d s)) pc_offset s),
     (rv_op_mulw, wr d (sw (lo32 (rs1 d s) * lo32 (rs2 d s))) pc_offset s),
     (rv_op_divw, wr d (sw (alu_div (lo32 (rs1 d s)) (lo32 (rs2 d s)))) pc_offset s),
     (rv_op_divuw, wr d (sw (alu_divu (lo32 (rs1 d s)) (lo32 (rs2 d s)))) pc_offset s),
     (rv_op_remw, wr d (sw (alu_rem (lo32 (rs1 d s)) (lo32 (rs2 d s)))) pc_offset s),
     (rv_op_remuw, wr d (sw (alu_remu (lo32 (rs1 d s)) (lo32 (rs2 d s)))) pc_offset s)]"

section \<open>Atomic instructions\<close>

definition exec_lr :: "'a cpu_scheme mmu_ops \<Rightarrow> nat \<Rightarrow> decode \<Rightarrow> u64 \<Rightarrow> 'a cpu_scheme \<Rightarrow> (u64, 'a cpu_scheme) outcome" where
  "exec_lr M n d pc_offset s = exec_load M n (sext n) (rs1 d s) d pc_offset (s\<lparr>lr := rs1 d s\<rparr>)"

definition exec_sc :: "'a cpu_scheme mmu_ops \<Rightarrow> nat \<Rightarrow> decode \<Rightarrow> u64 \<Rightarrow> 'a cpu_scheme \<Rightarrow> (u64, 'a cpu_scheme) outcome" where
  "exec_sc M n d pc_offset s =
     (if lr s \<noteq> rs1 d s then wr d 1 pc_offset s
      else bind_ok (mmu_st M n (rs1 d s) (take_bit (8 * n) (rs2 d s)) s) (\<lambda>u s'. wr d 0 pc_offset s'))"

definition exec_amo :: "'a cpu_scheme mmu_ops \<Rightarrow> nat \<Rightarrow> amo_op \<Rightarrow> decode \<Rightarrow> u64 \<Rightarrow> 'a cpu_scheme \<Rightarrow> (u64, 'a cpu_scheme) outcome" where
  "exec_amo M n a_op d pc_offset s =
     bind_ok (mmu_am M n a_op (rs1 d s) (take_bit (8 * n) (rs2 d s)) s) (\<lambda>t s'. case t of
         Some v \<Rightarrow> wr d (sext n v) pc_offset s'
       | None \<Rightarrow> if dec_rd d = 0 then wr d 0 pc_offset s' else Undefined)"

definition rva_word :: "'a cpu_scheme mmu_ops \<Rightarrow> decode \<Rightarrow> u64 \<Rightarrow> 'a cpu_scheme \<Rightarrow> (opcode \<times> (u64, 'a cpu_scheme) outcome) list" where
  "rva_word M d pc_offset s = [
     (rv_op_lr_w, exec_lr M 4 d pc_offset s),
     (rv_op_sc_w, exec_sc M 4 d pc_offset s),
     (rv_op_amoswap_w, exec_amo M 4 Amoswap d pc_offset s),
     (rv_op_amoadd_w, exec_amo M 4 Amoadd d pc_offset s),
     (rv_op_amoxor_w, exec_amo M 4 Amoxor d pc_offset s),
     (rv_op_amoor_w, exec_amo M 4 Amoor d pc_offset s),
     (rv_op_amoand_w, exec_amo M 4 Amoand d pc_offset s),
     (rv_op_amomin_w, exec_amo M 4 Amomin d pc_offset s),
     (rv_op_amomax_w, exec_amo M 4 Amomax d pc_offset s),
     (rv_op_amominu_w, exec_amo M 4 Amominu d pc_offset s),
     (rv_op_amomaxu_w, exec_amo M 4 Amomaxu d pc_offset s)]"

definition rva_double :: "'a cpu_scheme mmu_ops \<Rightarrow> decode \<Rightarrow> u64 \<Rightarrow> 'a cpu_scheme \<Rightarrow> (opcode \<times> (u64, 'a cpu_scheme) outcome) list" where
  "rva_double M d pc_offset s = [
     (rv_op_lr_d, exec_lr M 8 d pc_offset s),
     (rv_op_sc_d, exec_sc M 8 d pc_offset s),
     (rv_op_amoswap_d, exec_amo M 8 Amoswap d pc_offset s),
     (rv_op_amoadd_d, exec_amo M 8 Amoadd d pc_offset s),
     (rv_op_amoxor_d, exec_amo M 8 Amoxor d pc_offset s),
     (rv_op_amoor_d, exec_amo M 8 Amoor d pc_offset s),
     (rv_op_amoand_d, exec_amo M 8 Amoand d pc_offset s),
     (rv_op_amomin_d, exec_amo M 8 Amomin d pc_offset s),
     (rv_op_amomax_d, exec_amo M 8 Amomax d pc_offset s),
     (rv_op_amominu_d, exec_amo M 8 Amominu d pc_offset s),
     (rv_op_amomaxu_d, exec_amo M 8 Amomaxu d pc_offset s)]"

section \<open>The switch\<close>

text \<open>The cases of \<^verbatim>\<open>rvf\<close> and \<^verbatim>\<open>rvd\<close>, which are off in these instantiations.\<close>

definition rvfd_ops :: "opcode list" where
  "rvfd_ops = [
     rv_op_flw, rv_op_fsw, rv_op_fmadd_s, rv_op_fmsub_s, rv_op_fnmsub_s, rv_op_fnmadd_s,
     rv_op_fadd_s, rv_op_fsub_s, rv_op_fmul_s, rv_op_fdiv_s, rv_op_fsgnj_s, rv_op_fsgnjn_s,
     rv_op_fsgnjx_s, rv_op_fmin_s, rv_op_fmax_s, rv_op_fsqrt_s, rv_op_fle_s, rv_op_flt_s,
     rv_op_feq_s, rv_op_fcvt_w_s, rv_op_fcvt_wu_s, rv_op_fcvt_s_w, rv_op_fcvt_s_wu, rv_op_fmv_x_s,
     rv_op_fclass_s, rv_op_fmv_s_x, rv_op_fcvt_l_s, rv_op_fcvt_lu_s, rv_op_fcvt_s_l, rv_op_fcvt_s_lu,
     rv_op_fld, rv_op_fsd, rv_op_fmadd_d, rv_op_fmsub_d, rv_op_fnmsub_d, rv_op_fnmadd_d,
     rv_op_fadd_d, rv_op_fsub_d, rv_op_fmul_d, rv_op_fdiv_d, rv_op_fsgnj_d, rv_op_fsgnjn_d,
     rv_op_fsgnjx_d, rv_op_fmin_d, rv_op_fmax_d, rv_op_fcvt_s_d, rv_op_fcvt_d_s, rv_op_fsqrt_d,
     rv_op_fle_d, rv_op_flt_d, rv_op_feq_d, rv_op_fcvt_w_d, rv_op_fcvt_wu_d, rv_op_fcvt_d_w,
     rv_op_fcvt_d_wu, rv_op_fclass_d, rv_op_fcvt_l_d, rv_op_fcvt_lu_d, rv_op_fmv_x_d, rv_op_fcvt_d_l,
     rv_op_fcvt_d_lu, rv_op_fmv_d_x]"

text \<open>An opcode of an extension that is off does nothing and falls through to the next instruction.\<close>

definition gate :: "bool \<Rightarrow> u64 \<Rightarrow> 'a cpu_scheme \<Rightarrow> (opcode \<times> (u64, 'a cpu_scheme) outcome) list \<Rightarrow> (opcode \<times> (u64, 'a cpu_scheme) outcome) list" where
  "gate ext pc_offset s cases = (if ext then cases else map (\<lambda>(op, m). (op, Ok pc_offset s)) cases)"

definition rv64_cases :: "'a cpu_scheme mmu_ops \<Rightarrow> bool \<Rightarrow> bool \<Rightarrow> bool \<Rightarrow> decode \<Rightarrow> u64 \<Rightarrow> 'a cpu_scheme \<Rightarrow> (opcode \<times> (u64, 'a cpu_scheme) outcome) list" where
  "rv64_cases M rvi rvm rva d pc_offset s =
     gate rvi pc_offset s (rvi_jump d pc_offset s @ rvi_load_store M d pc_offset s @ rvi_imm d pc_offset s @ rvi_reg d pc_offset s) @
     gate rvm pc_offset s (rvm_cases d pc_offset s) @
     gate rva pc_offset s (rva_word M d pc_offset s @ rva_double M d pc_offset s) @
     map (\<lambda>op. (op, Ok pc_offset s)) rvfd_ops"

definition exec_inst_rv64 :: "'a cpu_scheme mmu_ops \<Rightarrow> bool \<Rightarrow> bool \<Rightarrow> bool \<Rightarrow> decode \<Rightarrow> u64 \<Rightarrow> 'a cpu_scheme \<Rightarrow> (u64, 'a cpu_scheme) outcome" where
  "exec_inst_rv64 M rvi rvm rva d pc_offset s =
     switch (dec_op d) (rv64_cases M rvi rvm rva d pc_offset s) (Ok (- 1) s)"

end
