(* ===== verification/Priv.thy ===== *)
theory Priv
  imports Interp
begin

text \<open>
  The privileged instructions and traps of \<^verbatim>\<open>processor_privileged\<close>
  (\<^verbatim>\<open>src/src/emu/processor-priv-1.9.h\<close>, with the accessors of \<^verbatim>\<open>processor-impl.h\<close>): control
  and status registers, trap entry and return, interrupts, reset. The host's clock and floating-point
  flags, which two of the registers show, are an argument; setting the host's flags and rounding mode
  does not change the hart. Console output is left out.
\<close>

unbundle bit_operations_syntax

record host_env =
  get_time :: u64
  host_fflags :: u32

datatype csr_perm = Csr_rw | Csr_rs | Csr_rc

section \<open>Register accessors\<close>

text \<open>
  A register is given by its selector and its update. The result is zero when the mode is below the
  one that the register number encodes; the write is not guarded by the mode.
\<close>

definition csr_mode :: "nat \<Rightarrow> u64" where
  "csr_mode csr = of_nat (csr div 256 mod 4)"

definition csr_readonly :: "nat \<Rightarrow> bool" where
  "csr_readonly csr \<longleftrightarrow> csr div 4096 mod 2 = 1"

definition set_rd_csr :: "decode \<Rightarrow> u64 \<Rightarrow> 'a cpu_scheme \<Rightarrow> 'a cpu_scheme" where
  "set_rd_csr d v s = (if dec_rd d = 0 then s else s\<lparr>ireg := (ireg s)[unat (dec_rd d) := v]\<rparr>)"

fun csr_new :: "csr_perm \<Rightarrow> u64 \<Rightarrow> u64 \<Rightarrow> nat \<Rightarrow> u64 \<Rightarrow> u64" where
  "csr_new Csr_rw value wm shift x = (x AND NOT (push_bit shift wm)) OR push_bit shift (value AND wm)"
| "csr_new Csr_rs value wm shift x = (if value \<noteq> 0 then x OR push_bit shift (value AND wm) else x)"
| "csr_new Csr_rc value wm shift x = (if value \<noteq> 0 then x AND NOT (push_bit shift (value AND wm)) else x)"

definition set_csr ::
  "decode \<Rightarrow> u64 \<Rightarrow> csr_perm \<Rightarrow> nat \<Rightarrow> ('a cpu_scheme \<Rightarrow> u64) \<Rightarrow> ((u64 \<Rightarrow> u64) \<Rightarrow> 'a cpu_scheme \<Rightarrow> 'a cpu_scheme) \<Rightarrow>
   u64 \<Rightarrow> u64 \<Rightarrow> u64 \<Rightarrow> nat \<Rightarrow> 'a cpu_scheme \<Rightarrow> 'a cpu_scheme" where
  "set_csr d md op csr get upd value write_mask read_mask shift s =
     (let s' = set_rd_csr d (if md \<ge> csr_mode csr then drop_bit shift (get s) AND read_mask else 0) s in
      if csr_readonly csr then s' else upd (csr_new op value write_mask shift) s')"

definition get_csr :: "decode \<Rightarrow> u64 \<Rightarrow> nat \<Rightarrow> u64 \<Rightarrow> 'a cpu_scheme \<Rightarrow> 'a cpu_scheme" where
  "get_csr d md csr x s = set_rd_csr d (if md \<ge> csr_mode csr then x else 0) s"

definition hi_word :: "u64 \<Rightarrow> u64" where
  "hi_word x = scast (ucast (drop_bit 32 x) :: u32)"

fun csr_new_hi :: "csr_perm \<Rightarrow> u64 \<Rightarrow> u64 \<Rightarrow> u64" where
  "csr_new_hi Csr_rw value x = push_bit 32 value OR (x AND 0xffffffff)"
| "csr_new_hi Csr_rs value x = (if value \<noteq> 0 then x OR push_bit 32 value else x)"
| "csr_new_hi Csr_rc value x = (if value \<noteq> 0 then x AND (NOT (push_bit 32 value) OR 0xffffffff) else x)"

definition set_csr_hi ::
  "decode \<Rightarrow> u64 \<Rightarrow> csr_perm \<Rightarrow> nat \<Rightarrow> ('a cpu_scheme \<Rightarrow> u64) \<Rightarrow> ((u64 \<Rightarrow> u64) \<Rightarrow> 'a cpu_scheme \<Rightarrow> 'a cpu_scheme) \<Rightarrow> u64 \<Rightarrow> 'a cpu_scheme \<Rightarrow> 'a cpu_scheme" where
  "set_csr_hi d md op csr get upd value s =
     (let s' = set_rd_csr d (if md \<ge> csr_mode csr then hi_word (get s) else 0) s in
      if csr_readonly csr then s' else upd (csr_new_hi op value) s')"

definition get_csr_hi :: "decode \<Rightarrow> u64 \<Rightarrow> nat \<Rightarrow> u64 \<Rightarrow> 'a cpu_scheme \<Rightarrow> 'a cpu_scheme" where
  "get_csr_hi d md csr x s = set_rd_csr d (if md \<ge> csr_mode csr then hi_word x else 0) s"

text \<open>\<^verbatim>\<open>fcsr\<close> is a 32-bit register; the host's accrued flags are merged into it before it is read.\<close>

definition fcsr64 :: "'a cpu_scheme \<Rightarrow> u64" where
  "fcsr64 s = ucast (fcsr s)"

definition fcsr64_update :: "(u64 \<Rightarrow> u64) \<Rightarrow> 'a cpu_scheme \<Rightarrow> 'a cpu_scheme" where
  "fcsr64_update f s = s\<lparr>fcsr := ucast (f (ucast (fcsr s)))\<rparr>"

definition fenv_getflags :: "host_env \<Rightarrow> 'a cpu_scheme \<Rightarrow> 'a cpu_scheme" where
  "fenv_getflags env s = s\<lparr>fcsr := fcsr s OR (host_fflags env AND 0x1f)\<rparr>"

section \<open>The registers\<close>

abbreviation (input) rv_csr_fflags :: nat where "rv_csr_fflags \<equiv> 0x001"
abbreviation (input) rv_csr_frm :: nat where "rv_csr_frm \<equiv> 0x002"
abbreviation (input) rv_csr_fcsr :: nat where "rv_csr_fcsr \<equiv> 0x003"
abbreviation (input) rv_csr_cycle :: nat where "rv_csr_cycle \<equiv> 0xc00"
abbreviation (input) rv_csr_time :: nat where "rv_csr_time \<equiv> 0xc01"
abbreviation (input) rv_csr_instret :: nat where "rv_csr_instret \<equiv> 0xc02"
abbreviation (input) rv_csr_cycleh :: nat where "rv_csr_cycleh \<equiv> 0xc80"
abbreviation (input) rv_csr_timeh :: nat where "rv_csr_timeh \<equiv> 0xc81"
abbreviation (input) rv_csr_instreth :: nat where "rv_csr_instreth \<equiv> 0xc82"
abbreviation (input) rv_csr_misa :: nat where "rv_csr_misa \<equiv> 0x301"
abbreviation (input) rv_csr_mvendorid :: nat where "rv_csr_mvendorid \<equiv> 0xf11"
abbreviation (input) rv_csr_marchid :: nat where "rv_csr_marchid \<equiv> 0xf12"
abbreviation (input) rv_csr_mimpid :: nat where "rv_csr_mimpid \<equiv> 0xf13"
abbreviation (input) rv_csr_mhartid :: nat where "rv_csr_mhartid \<equiv> 0xf14"
abbreviation (input) rv_csr_mstatus :: nat where "rv_csr_mstatus \<equiv> 0x300"
abbreviation (input) rv_csr_mtvec :: nat where "rv_csr_mtvec \<equiv> 0x305"
abbreviation (input) rv_csr_medeleg :: nat where "rv_csr_medeleg \<equiv> 0x302"
abbreviation (input) rv_csr_mideleg :: nat where "rv_csr_mideleg \<equiv> 0x303"
abbreviation (input) rv_csr_mip :: nat where "rv_csr_mip \<equiv> 0x344"
abbreviation (input) rv_csr_mie :: nat where "rv_csr_mie \<equiv> 0x304"
abbreviation (input) rv_csr_mhcounteren :: nat where "rv_csr_mhcounteren \<equiv> 0x322"
abbreviation (input) rv_csr_mscounteren :: nat where "rv_csr_mscounteren \<equiv> 0x321"
abbreviation (input) rv_csr_mucounteren :: nat where "rv_csr_mucounteren \<equiv> 0x320"
abbreviation (input) rv_csr_mscratch :: nat where "rv_csr_mscratch \<equiv> 0x340"
abbreviation (input) rv_csr_mepc :: nat where "rv_csr_mepc \<equiv> 0x341"
abbreviation (input) rv_csr_mcause :: nat where "rv_csr_mcause \<equiv> 0x342"
abbreviation (input) rv_csr_mbadaddr :: nat where "rv_csr_mbadaddr \<equiv> 0x343"
abbreviation (input) rv_csr_mbase :: nat where "rv_csr_mbase \<equiv> 0x380"
abbreviation (input) rv_csr_mbound :: nat where "rv_csr_mbound \<equiv> 0x381"
abbreviation (input) rv_csr_mibase :: nat where "rv_csr_mibase \<equiv> 0x382"
abbreviation (input) rv_csr_mibound :: nat where "rv_csr_mibound \<equiv> 0x383"
abbreviation (input) rv_csr_mdbase :: nat where "rv_csr_mdbase \<equiv> 0x384"
abbreviation (input) rv_csr_mdbound :: nat where "rv_csr_mdbound \<equiv> 0x385"
abbreviation (input) rv_csr_mcycle :: nat where "rv_csr_mcycle \<equiv> 0xb00"
abbreviation (input) rv_csr_minstret :: nat where "rv_csr_minstret \<equiv> 0xb02"
abbreviation (input) rv_csr_mcycleh :: nat where "rv_csr_mcycleh \<equiv> 0xb80"
abbreviation (input) rv_csr_minstreth :: nat where "rv_csr_minstreth \<equiv> 0xb82"
abbreviation (input) rv_csr_sstatus :: nat where "rv_csr_sstatus \<equiv> 0x100"
abbreviation (input) rv_csr_stvec :: nat where "rv_csr_stvec \<equiv> 0x105"
abbreviation (input) rv_csr_sedeleg :: nat where "rv_csr_sedeleg \<equiv> 0x102"
abbreviation (input) rv_csr_sideleg :: nat where "rv_csr_sideleg \<equiv> 0x103"
abbreviation (input) rv_csr_sip :: nat where "rv_csr_sip \<equiv> 0x144"
abbreviation (input) rv_csr_sie :: nat where "rv_csr_sie \<equiv> 0x104"
abbreviation (input) rv_csr_sscratch :: nat where "rv_csr_sscratch \<equiv> 0x140"
abbreviation (input) rv_csr_sepc :: nat where "rv_csr_sepc \<equiv> 0x141"
abbreviation (input) rv_csr_scause :: nat where "rv_csr_scause \<equiv> 0x142"
abbreviation (input) rv_csr_sbadaddr :: nat where "rv_csr_sbadaddr \<equiv> 0x143"
abbreviation (input) rv_csr_sptbr :: nat where "rv_csr_sptbr \<equiv> 0x180"

definition user_csrs :: "host_env \<Rightarrow> decode \<Rightarrow> csr_perm \<Rightarrow> nat \<Rightarrow> u64 \<Rightarrow> u64 \<Rightarrow> 'w hart \<Rightarrow> (nat \<times> (u64, 'w hart) outcome) list" where
  "user_csrs env d op csr value pc_offset s = [
     (rv_csr_fflags, let s' = fenv_getflags env s in
        Ok pc_offset (set_csr d rv_mode_U op csr fcsr64 fcsr64_update value 0x1f 0x1f 0 s')),
     (rv_csr_frm, Ok pc_offset (set_csr d rv_mode_U op csr fcsr64 fcsr64_update value 0x3 0x3 5 s)),
     (rv_csr_fcsr, let s' = fenv_getflags env s in
        Ok pc_offset (set_csr d rv_mode_U op csr fcsr64 fcsr64_update value 0xff 0xff 0 s')),
     (rv_csr_cycle, Ok pc_offset (get_csr d rv_mode_U csr (instret s) s)),
     (rv_csr_time, let s' = s\<lparr>cpu_time := get_time env\<rparr> in
        Ok pc_offset (get_csr d rv_mode_U csr (cpu_time s') s')),
     (rv_csr_instret, Ok pc_offset (get_csr d (mode s) csr (instret s) s)),
     (rv_csr_cycleh, Ok pc_offset (get_csr_hi d (mode s) csr (instret s) s)),
     (rv_csr_timeh, Ok pc_offset (get_csr_hi d (mode s) csr (cpu_time s) s)),
     (rv_csr_instreth, Ok pc_offset (get_csr_hi d (mode s) csr (instret s) s))]"

definition machine_csrs :: "host_env \<Rightarrow> decode \<Rightarrow> csr_perm \<Rightarrow> nat \<Rightarrow> u64 \<Rightarrow> u64 \<Rightarrow> 'w hart \<Rightarrow> (nat \<times> (u64, 'w hart) outcome) list" where
  "machine_csrs env d op csr value pc_offset s = [
     (rv_csr_misa, Ok pc_offset (set_csr d (mode s) op csr misa misa_update value (mask 62) (- 1) 0 s)),
     (rv_csr_mvendorid, Ok pc_offset (get_csr d (mode s) csr (mvendorid s) s)),
     (rv_csr_marchid, Ok pc_offset (get_csr d (mode s) csr (marchid s) s)),
     (rv_csr_mimpid, Ok pc_offset (get_csr d (mode s) csr (mimpid s) s)),
     (rv_csr_mhartid, Ok pc_offset (get_csr d (mode s) csr (mhartid s) s)),
     (rv_csr_mstatus, Ok pc_offset (set_csr d (mode s) op csr mstatus mstatus_update value (mask 63) (- 1) 0 s)),
     (rv_csr_mtvec, Ok pc_offset (set_csr d (mode s) op csr mtvec mtvec_update value (- 1) (push_bit 2 (- 1)) 0 s)),
     (rv_csr_medeleg, Ok pc_offset (set_csr d (mode s) op csr medeleg medeleg_update value (- 1) (- 1) 0 s)),
     (rv_csr_mideleg, Ok pc_offset (set_csr d (mode s) op csr mideleg mideleg_update value (- 1) (- 1) 0 s)),
     (rv_csr_mip, Ok pc_offset (set_csr d (mode s) op csr mip mip_update value (- 1) (- 1) 0 s)),
     (rv_csr_mie, Ok pc_offset (set_csr d (mode s) op csr mie mie_update value (- 1) (- 1) 0 s)),
     (rv_csr_mhcounteren, Ok pc_offset (set_csr d (mode s) op csr mhcounteren mhcounteren_update value (- 1) (- 1) 0 s)),
     (rv_csr_mscounteren, Ok pc_offset (set_csr d (mode s) op csr mscounteren mscounteren_update value (- 1) (- 1) 0 s)),
     (rv_csr_mucounteren, Ok pc_offset (set_csr d (mode s) op csr mucounteren mucounteren_update value (- 1) (- 1) 0 s)),
     (rv_csr_mscratch, Ok pc_offset (set_csr d (mode s) op csr mscratch mscratch_update value (- 1) (- 1) 0 s)),
     (rv_csr_mepc, Ok pc_offset (set_csr d (mode s) op csr mepc mepc_update value (- 1) (- 1) 0 s)),
     (rv_csr_mcause, Ok pc_offset (set_csr d (mode s) op csr mcause mcause_update value (- 1) (- 1) 0 s)),
     (rv_csr_mbadaddr, Ok pc_offset (set_csr d (mode s) op csr mbadaddr mbadaddr_update value (- 1) (- 1) 0 s)),
     (rv_csr_mbase, Ok pc_offset (set_csr d (mode s) op csr mbase mbase_update value (- 1) (- 1) 0 s)),
     (rv_csr_mbound, Ok pc_offset (set_csr d (mode s) op csr mbound mbound_update value (- 1) (- 1) 0 s)),
     (rv_csr_mibase, Ok pc_offset (set_csr d (mode s) op csr mibase mibase_update value (- 1) (- 1) 0 s)),
     (rv_csr_mibound, Ok pc_offset (set_csr d (mode s) op csr mibound mibound_update value (- 1) (- 1) 0 s)),
     (rv_csr_mdbase, Ok pc_offset (set_csr d (mode s) op csr mdbase mdbase_update value (- 1) (- 1) 0 s)),
     (rv_csr_mdbound, Ok pc_offset (set_csr d (mode s) op csr mdbound mdbound_update value (- 1) (- 1) 0 s)),
     (rv_csr_mcycle, Ok pc_offset (set_csr d rv_mode_U op csr instret instret_update value (- 1) (- 1) 0 s)),
     (rv_csr_minstret, Ok pc_offset (set_csr d (mode s) op csr instret instret_update value (- 1) (- 1) 0 s)),
     (rv_csr_mcycleh, Ok pc_offset (set_csr_hi d (mode s) op csr instret instret_update value s)),
     (rv_csr_minstreth, Ok pc_offset (set_csr_hi d (mode s) op csr instret instret_update value s))]"

definition supervisor_csrs :: "host_env \<Rightarrow> decode \<Rightarrow> csr_perm \<Rightarrow> nat \<Rightarrow> u64 \<Rightarrow> u64 \<Rightarrow> 'w hart \<Rightarrow> (nat \<times> (u64, 'w hart) outcome) list" where
  "supervisor_csrs env d op csr value pc_offset s = [
     (rv_csr_sstatus, Ok pc_offset (set_csr d (mode s) op csr mstatus mstatus_update value
        0b1011110000100110011 (0b1011110000100110011 OR push_bit 63 1) 0 s)),
     (rv_csr_stvec, Ok pc_offset (set_csr d (mode s) op csr stvec stvec_update value (- 1) (push_bit 2 (- 1)) 0 s)),
     (rv_csr_sedeleg, Ok pc_offset (set_csr d (mode s) op csr sedeleg sedeleg_update value (- 1) (- 1) 0 s)),
     (rv_csr_sideleg, Ok pc_offset (set_csr d (mode s) op csr sideleg sideleg_update value (- 1) (- 1) 0 s)),
     (rv_csr_sip, Ok pc_offset (set_csr d (mode s) op csr mip mip_update value 0b001100110011 0b001100110011 0 s)),
     (rv_csr_sie, Ok pc_offset (set_csr d (mode s) op csr mie mie_update value 0b001100110011 0b001100110011 0 s)),
     (rv_csr_sscratch, Ok pc_offset (set_csr d (mode s) op csr sscratch sscratch_update value (- 1) (- 1) 0 s)),
     (rv_csr_sepc, Ok pc_offset (set_csr d (mode s) op csr sepc sepc_update value (- 1) (- 1) 0 s)),
     (rv_csr_scause, Ok pc_offset (set_csr d (mode s) op csr scause scause_update value (- 1) (- 1) 0 s)),
     (rv_csr_sbadaddr, Ok pc_offset (set_csr d (mode s) op csr sbadaddr sbadaddr_update value (- 1) (- 1) 0 s)),
     (rv_csr_sptbr, Ok pc_offset (set_csr d (mode s) op csr sptbr sptbr_update value (- 1) (- 1) 0 s))]"

text \<open>A register number that is not listed is an illegal instruction.\<close>

definition inst_csr :: "host_env \<Rightarrow> decode \<Rightarrow> csr_perm \<Rightarrow> nat \<Rightarrow> u64 \<Rightarrow> u64 \<Rightarrow> 'w hart \<Rightarrow> (u64, 'w hart) outcome" where
  "inst_csr env d op csr value pc_offset s =
     switch csr (user_csrs env d op csr value pc_offset s @ machine_csrs env d op csr value pc_offset s @
       supervisor_csrs env d op csr value pc_offset s) (Ok (- 1) s)"

section \<open>Privileged instructions\<close>

abbreviation status_sie :: "('a) cpu_scheme \<Rightarrow> u64" where "status_sie s \<equiv> bits_get 1 1 (mstatus s)"
abbreviation status_mie :: "('a) cpu_scheme \<Rightarrow> u64" where "status_mie s \<equiv> bits_get 3 1 (mstatus s)"
abbreviation status_spie :: "('a) cpu_scheme \<Rightarrow> u64" where "status_spie s \<equiv> bits_get 5 1 (mstatus s)"
abbreviation status_mpie :: "('a) cpu_scheme \<Rightarrow> u64" where "status_mpie s \<equiv> bits_get 7 1 (mstatus s)"
abbreviation status_spp :: "('a) cpu_scheme \<Rightarrow> u64" where "status_spp s \<equiv> bits_get 8 1 (mstatus s)"

definition sret :: "'w hart \<Rightarrow> (u64, 'w hart) outcome" where
  "sret s =
     (if mode s \<ge> rv_mode_S then
        let s1 = s\<lparr>mode := status_spp s\<rparr>;
          s2 = s1\<lparr>mstatus := bits_set 8 1 rv_mode_U (mstatus s1)\<rparr>;
          s3 = s2\<lparr>mstatus := bits_set 1 1 (status_spie s2) (mstatus s2)\<rparr>;
          s4 = s3\<lparr>mstatus := bits_set 5 1 0 (mstatus s3)\<rparr>
        in Ok (sepc s4 - pc s4) s4
      else Ok (- 1) s)"

definition mret :: "'w hart \<Rightarrow> (u64, 'w hart) outcome" where
  "mret s =
     (if mode s \<ge> rv_mode_M then
        let s1 = s\<lparr>mode := status_mpp s\<rparr>;
          s2 = s1\<lparr>mstatus := bits_set 11 2 rv_mode_U (mstatus s1)\<rparr>;
          s3 = s2\<lparr>mstatus := bits_set 3 1 (status_mpie s2) (mstatus s2)\<rparr>;
          s4 = s3\<lparr>mstatus := bits_set 7 1 0 (mstatus s3)\<rparr>
        in Ok (mepc s4 - pc s4) s4
      else Ok (- 1) s)"

definition sfence_vm :: "u64 \<Rightarrow> 'w hart \<Rightarrow> (u64, 'w hart) outcome" where
  "sfence_vm pc_offset s =
     (if mode s \<ge> rv_mode_S then
        Ok pc_offset (s\<lparr>l1_itlb := tlb_flush_asid (pdid s) (drop_bit 38 (sptbr s)) (l1_itlb s),
          l1_dtlb := tlb_flush_asid (pdid s) (drop_bit 38 (sptbr s)) (l1_dtlb s)\<rparr>)
      else Ok (- 1) s)"

definition csr_of :: "decode \<Rightarrow> nat" where
  "csr_of d = unat (dec_imm d)"

definition inst_priv :: "host_env \<Rightarrow> decode \<Rightarrow> u64 \<Rightarrow> 'w hart \<Rightarrow> (u64, 'w hart) outcome" where
  "inst_priv env d pc_offset s = switch (dec_op d) [
     (rv_op_csrrw, inst_csr env d Csr_rw (csr_of d) (rs1 d s) pc_offset s),
     (rv_op_csrrs, inst_csr env d Csr_rs (csr_of d) (rs1 d s) pc_offset s),
     (rv_op_csrrc, inst_csr env d Csr_rc (csr_of d) (rs1 d s) pc_offset s),
     (rv_op_csrrwi, inst_csr env d Csr_rw (csr_of d) (ucast (dec_rs1 d)) pc_offset s),
     (rv_op_csrrsi, inst_csr env d Csr_rs (csr_of d) (ucast (dec_rs1 d)) pc_offset s),
     (rv_op_csrrci, inst_csr env d Csr_rc (csr_of d) (ucast (dec_rs1 d)) pc_offset s),
     (rv_op_sret, sret s),
     (rv_op_mret, mret s),
     (rv_op_sfence_vm, sfence_vm pc_offset s),
     (rv_op_wfi, if mode s \<ge> rv_mode_S then Ok pc_offset s else Ok (- 1) s),
     (rv_op_fence, Ok pc_offset s),
     (rv_op_fence_i, Ok pc_offset s)] (Ok (- 1) s)"

section \<open>Traps\<close>

abbreviation (input) internal_cause_reset :: nat where "internal_cause_reset \<equiv> 0x1000"
abbreviation (input) internal_cause_cli :: nat where "internal_cause_cli \<equiv> 0x1001"
abbreviation (input) internal_cause_poweroff :: nat where "internal_cause_poweroff \<equiv> 0x1002"
abbreviation (input) internal_cause_fatal :: nat where "internal_cause_fatal \<equiv> 0x1003"

text \<open>\<^verbatim>\<open>P::debugging && (P::log & proc_log_trap_cli)\<close> leaves for the debugger.\<close>

definition trap_cli :: "'w hart \<Rightarrow> (unit, 'w hart) outcome" where
  "trap_cli s = (if debugging s \<and> bit (log_flags s) 12 then raise_ex internal_cause_cli (pc s) s else Ok () s)"

definition strap :: "nat \<Rightarrow> bool \<Rightarrow> 'w hart \<Rightarrow> (unit, 'w hart) outcome" where
  "strap cause interrupt s =
     (let s1 = s\<lparr>sepc := pc s, scause := of_nat cause OR (if interrupt then push_bit 63 1 else 0)\<rparr>;
        s2 = s1\<lparr>mstatus := bits_set 8 1 (mode s1) (mstatus s1)\<rparr>;
        s3 = s2\<lparr>mstatus := bits_set 5 1 (status_sie s2) (mstatus s2)\<rparr>;
        s4 = s3\<lparr>mstatus := bits_set 1 1 0 (mstatus s3)\<rparr>
      in trap_cli (s4\<lparr>mode := rv_mode_S, pc := stvec s4\<rparr>))"

definition mtrap :: "nat \<Rightarrow> bool \<Rightarrow> 'w hart \<Rightarrow> (unit, 'w hart) outcome" where
  "mtrap cause interrupt s =
     (let s1 = s\<lparr>mepc := pc s, mcause := of_nat cause OR (if interrupt then push_bit 63 1 else 0)\<rparr>;
        s2 = s1\<lparr>mstatus := bits_set 11 2 (mode s1) (mstatus s1)\<rparr>;
        s3 = s2\<lparr>mstatus := bits_set 7 1 (status_mie s2) (mstatus s2)\<rparr>;
        s4 = s3\<lparr>mstatus := bits_set 3 1 0 (mstatus s3)\<rparr>
      in trap_cli (s4\<lparr>mode := rv_mode_M, pc := mtvec s4\<rparr>))"

text \<open>
  One interrupt source of \<^verbatim>\<open>isr\<close>: the machine and supervisor pending bits follow the device, and a
  pending interrupt that is enabled traps, for the machine first. \<open>True\<close> means that it trapped.
\<close>

definition isr_source :: "nat \<Rightarrow> nat \<Rightarrow> bool \<Rightarrow> 'w hart \<Rightarrow> (bool, 'w hart) outcome" where
  "isr_source m_irq s_irq pending s =
     (let v = of_bool pending; s1 = s\<lparr>mip := bits_set s_irq 1 v (bits_set m_irq 1 v (mip s))\<rparr> in
      if pending then
        if status_mie s1 \<noteq> 0 \<and> bits_get m_irq 1 (mie s1) \<noteq> 0 then bind_ok (mtrap m_irq True s1) (\<lambda>u. Ok True)
        else if status_sie s1 \<noteq> 0 \<and> bits_get s_irq 1 (mie s1) \<noteq> 0 then bind_ok (strap s_irq True s1) (\<lambda>u. Ok True)
        else Ok False s1
      else Ok False s1)"

text \<open>
  \<^verbatim>\<open>isr\<close>, with what the devices report: the PLIC, the timer and the software interrupts. Interrupt
  numbers and bit positions in \<^verbatim>\<open>mip\<close> and \<^verbatim>\<open>mie\<close> agree.
\<close>

definition isr :: "bool \<Rightarrow> bool \<Rightarrow> bool \<Rightarrow> 'w hart \<Rightarrow> (unit, 'w hart) outcome" where
  "isr eip tip sip s =
     bind_ok (isr_source 11 9 eip s) (\<lambda>taken s1. if taken then Ok () s1
       else bind_ok (isr_source 7 5 tip s1) (\<lambda>taken s2. if taken then Ok () s2
         else bind_ok (isr_source 3 1 sip s2) (\<lambda>taken. Ok ())))"

definition trap_cause :: "decode \<Rightarrow> nat \<Rightarrow> 'w hart \<Rightarrow> nat" where
  "trap_cause d cause s =
     (if cause = rv_cause_illegal_instruction then
        if dec_op d = rv_op_ebreak then rv_cause_breakpoint
        else if dec_op d = rv_op_ecall then
          (if mode s = rv_mode_U then rv_cause_user_ecall else if mode s = rv_mode_S then rv_cause_supervisor_ecall
           else if mode s = rv_mode_H then rv_cause_hypervisor_ecall
           else if mode s = rv_mode_M then rv_cause_machine_ecall else cause)
        else cause
      else cause)"

definition set_badaddr :: "nat \<Rightarrow> bool" where
  "set_badaddr cause \<longleftrightarrow> cause \<in> {rv_cause_misaligned_fetch, rv_cause_misaligned_load, rv_cause_misaligned_store,
     rv_cause_fault_fetch, rv_cause_fault_load, rv_cause_fault_store}"

definition trap :: "decode \<Rightarrow> nat \<Rightarrow> 'w hart \<Rightarrow> (unit, 'w hart) outcome" where
  "trap d cause0 s =
     (if cause0 = internal_cause_reset then Ok () s
      else let cause = trap_cause d cause0 s in
        if dec_op d = rv_op_ebreak \<and> bit (log_flags s) 11 then raise_ex internal_cause_cli (pc s) s
        else if dec_op d = rv_op_ebreak then Ok () (s\<lparr>running := False\<rparr>)
        else if bit (medeleg s) cause then
          let s1 = (if set_badaddr cause then s\<lparr>sbadaddr := badaddr s\<rparr> else s);
            s2 = s1\<lparr>mip := bits_set 1 1 0 (bits_set 9 1 0 (bits_set 5 1 0 (mip s1)))\<rparr>
          in strap cause False s2
        else
          let s1 = (if set_badaddr cause then s\<lparr>mbadaddr := badaddr s\<rparr> else s);
            s2 = s1\<lparr>mip := bits_set 3 1 0 (bits_set 11 1 0 (bits_set 7 1 0 (mip s1)))\<rparr>
          in mtrap cause False s2)"

definition reset :: "'w hart \<Rightarrow> 'w hart" where
  "reset s = s\<lparr>mode := rv_mode_M, mstatus := bits_set 3 1 0 (bits_set 17 1 0 (bits_set 24 4 rv_vm_mbare (mstatus s))),
     mcause := 0, pc := resetvec s\<rparr>"

end
