(* ===== verification/Walk.thy ===== *)
theory Walk
  imports Mmu
begin

text \<open>
  The page table walk against the translation algorithm of the privileged architecture: a reference
  walker over an abstract read function, and the agreement of \<^verbatim>\<open>walk_page_table\<close> with it on
  well-formed tables. The last section shows what the walk and the TLB do outside them.
\<close>

unbundle bit_operations_syntax

section \<open>Bits of page table entries\<close>

lemma and_one_iff: "(x :: u64) AND 1 = 0 \<longleftrightarrow> \<not> bit x 0"
  by (simp add: and_one_eq bit_0 mod_2_eq_odd)

lemma pte_pointer_iff: "pte_pointer pte \<longleftrightarrow> \<not> bit pte 1 \<and> \<not> bit pte 2 \<and> \<not> bit pte 3"
  by (simp add: pte_pointer_def and_one_iff bit_or_iff bit_drop_bit_eq)

lemma bit_pte_flags: "bit (pte_flags pte) i \<longleftrightarrow> i < 10 \<and> bit pte i"
  by (simp add: pte_flags_def bit_bits_get)

lemma pte_invalid_iff: "pte_invalid pte \<longleftrightarrow> \<not> bit pte 0 \<or> (\<not> bit pte 1 \<and> bit pte 2)"
  by (simp add: pte_invalid_def and_one_iff bit_or_iff bit_and_iff bit_not_iff bit_drop_bit_eq bit_pte_flags)

lemma flag_test: "(x :: u64) AND 2 ^ n = 0 \<longleftrightarrow> \<not> (n < 64 \<and> bit x n)"
proof -
  have "x AND 2 ^ n = (if bit x n then 2 ^ n else 0)"
    by (rule bit_word_eqI) (auto simp: bit_and_iff bit_exp_iff)
  then show ?thesis by (auto dest: bit_imp_le_length)
qed

lemma pte_readable_iff: "pte_flags pte AND 10 = 0 \<longleftrightarrow> \<not> bit pte 1 \<and> \<not> bit pte 3"
proof -
  have "pte_flags pte AND (2 ^ 1 OR 2 ^ 3) = (pte_flags pte AND 2 ^ 1) OR (pte_flags pte AND 2 ^ 3)"
    by (simp only: bit.conj_disj_distrib)
  also have "\<dots> = 0 \<longleftrightarrow> \<not> bit pte 1 \<and> \<not> bit pte 3"
    by (simp only: or_eq_0_iff flag_test bit_pte_flags) simp
  finally show ?thesis by simp
qed

section \<open>The reference walker\<close>

text \<open>
  One level per step, from the root. A result is the address, the value and the level of the leaf;
  \<open>None\<close> is a page fault.
\<close>

definition sv_vpn :: "ptm \<Rightarrow> u64 \<Rightarrow> nat \<Rightarrow> u64" where
  "sv_vpn m va i = take_bit (ptm_bits m) (drop_bit (12 + ptm_bits m * i) va)"

fun sv_walk :: "ptm \<Rightarrow> (u64 \<Rightarrow> u64 option) \<Rightarrow> u64 \<Rightarrow> u64 \<Rightarrow> nat \<Rightarrow> (u64 \<times> u64 \<times> nat) option" where
  "sv_walk m rd va a i =
     (case rd (a + sv_vpn m va i * of_nat (ptm_size m)) of
        None \<Rightarrow> None
      | Some pte \<Rightarrow>
          if \<not> bit pte 0 \<or> \<not> bit pte 1 \<and> bit pte 2 then None
          else if bit pte 1 \<or> bit pte 3 then
            (if take_bit (ptm_bits m * i) (pte_ppn m pte) = 0
             then Some (a + sv_vpn m va i * of_nat (ptm_size m), pte, i) else None)
          else (case i of 0 \<Rightarrow> None | Suc j \<Rightarrow> sv_walk m rd va (pte_ppn m pte * 2 ^ 12) j))"

declare sv_walk.simps [simp del]

text \<open>The page number of the leaf above its level, the virtual address below it.\<close>

definition sv_pa :: "ptm \<Rightarrow> u64 \<Rightarrow> u64 \<Rightarrow> nat \<Rightarrow> u64" where
  "sv_pa m pte va i = push_bit (12 + ptm_bits m * i) (drop_bit (ptm_bits m * i) (pte_ppn m pte))
     OR take_bit (12 + ptm_bits m * i) va"

text \<open>
  The entries on the path that the code treats as the architecture does. An entry with one of its
  permission bits is judged by its own flags. An entry with none of them is a pointer to the code,
  whatever its valid bit: this agrees with the architecture when it is valid and above the last level,
  and also when the page it names is not on the bus where the code reads next, since both fault then.
  Below the last level the code reads once more, with the level counter at its minimum.
\<close>

fun path_ok :: "ptm \<Rightarrow> (u64 \<Rightarrow> u64 option) \<Rightarrow> u64 \<Rightarrow> u64 \<Rightarrow> nat \<Rightarrow> bool" where
  "path_ok m rd va a i =
     (case rd (a + sv_vpn m va i * of_nat (ptm_size m)) of
        None \<Rightarrow> True
      | Some pte \<Rightarrow> bit pte 1 \<or> bit pte 2 \<or> bit pte 3 \<or>
          rd (pte_addr m (pte_ppn m pte * 2 ^ 12) va i) = None \<or>
          bit pte 0 \<and> (case i of 0 \<Rightarrow> False | Suc j \<Rightarrow> path_ok m rd va (pte_ppn m pte * 2 ^ 12) j))"

declare path_ok.simps [simp del]

text \<open>The page table as the hart reads it.\<close>

definition pte_read :: "ptm \<Rightarrow> 'w hart \<Rightarrow> u64 \<Rightarrow> u64 option" where
  "pte_read m s a = map_option fst (bus_load (mem_bus s) (ptm_size m) a (hart_world s))"

definition reads_pure :: "'w hart \<Rightarrow> bool" where
  "reads_pure s \<longleftrightarrow> (\<forall>n a v w. bus_load (mem_bus s) n a (hart_world s) = Some (v, w) \<longrightarrow> w = hart_world s)"

lemma bus_read_pure: "reads_pure s \<Longrightarrow> bus_read (ptm_size m) a s = map_option (\<lambda>v. (v, s)) (pte_read m s a)"
  by (cases "bus_load (mem_bus s) (ptm_size m) a (hart_world s)")
    (auto simp: bus_read_def pte_read_def reads_pure_def)

section \<open>Agreement\<close>

lemma pte_next_eq: "\<not> ptm_int_ppn m \<Longrightarrow> pte_next m pte = pte_ppn m pte * 2 ^ 12"
  by (simp add: pte_next_def push_bit_eq_mult)

lemma pte_addr_eq: "pte_addr m a va (Suc i) = a + sv_vpn m va i * of_nat (ptm_size m)"
  by (simp add: pte_addr_def sv_vpn_def walk_shift_def take_bit_eq_mask add.commute)

lemma page_translate_offset_eq:
  assumes "take_bit (ptm_bits m * i) (pte_ppn m pte) = 0"
  shows "page_translate_offset m (pte_ppn m pte) va i = sv_pa m pte va i"
proof -
  let ?p = "pte_ppn m pte"
  have low: "\<not> bit ?p n" if "n < ptm_bits m * i" for n
    using assms that by (metis bit_take_bit_iff bit_0_eq bot_apply bot_bool_def)
  define d where "d = ptm_bits m * i"
  have p: "push_bit 12 ?p = push_bit (12 + d) (drop_bit d ?p)"
  proof (rule bit_word_eqI)
    fix n assume "n < LENGTH(64)"
    show "bit (push_bit 12 ?p) n = bit (push_bit (12 + d) (drop_bit d ?p)) n"
    proof (cases "12 + d \<le> n")
      case False
      then show ?thesis using low [of "n - 12"] by (auto simp: bit_push_bit_iff d_def)
    qed (auto simp: bit_push_bit_iff bit_drop_bit_eq)
  qed
  have "push_bit 12 ?p AND (va AND mask (ptm_bits m * i + 12)) = 0"
    by (rule bit_word_eqI) (simp add: p d_def bit_and_iff bit_push_bit_iff bit_mask_iff)
  then have "push_bit 12 ?p + (va AND mask (ptm_bits m * i + 12)) = push_bit 12 ?p OR (va AND mask (ptm_bits m * i + 12))"
    by (rule disjunctive_add_eq_or)
  then show ?thesis
    unfolding page_translate_offset_def sv_pa_def by (simp only: p) (simp add: d_def take_bit_eq_mask add.commute)
qed

text \<open>What the hart does with the leaf: set the accessed and dirty flags if they are clear.\<close>

definition touch_leaf :: "ptm \<Rightarrow> u64 \<Rightarrow> mmu_op \<Rightarrow> u64 \<times> u64 \<times> nat \<Rightarrow> 'w hart \<Rightarrow> (u64 \<times> u64 \<times> nat, 'w hart) outcome" where
  "touch_leaf m va op leaf s = (case leaf of (a, pte, i) \<Rightarrow>
     if pte_flags pte AND ad_flags op = ad_flags op then Ok (sv_pa m pte va i, pte, i) s
     else case bus_write (ptm_size m) a (pte OR ad_flags op) s of
         None \<Rightarrow> walk_fault op va s
       | Some s' \<Rightarrow> Ok (sv_pa m pte va i, pte OR ad_flags op, i) s')"

lemma walk_leaf_eq:
  "walk_leaf m va op (Suc i) a pte s =
    (if take_bit (ptm_bits m * i) (pte_ppn m pte) = 0 then touch_leaf m va op (a, pte, i) s else walk_fault op va s)"
  using page_translate_offset_eq [of m i pte va]
  by (auto simp: walk_leaf_def walk_shift_def touch_leaf_def Let_def take_bit_eq_mask and.commute
      split: option.split)

lemma walk_levels_step:
  assumes "reads_pure s"
  shows "walk_levels m va op a (Suc i) s =
    (case pte_read m s (a + sv_vpn m va i * of_nat (ptm_size m)) of
       None \<Rightarrow> walk_fault op va s
     | Some pte \<Rightarrow>
         if \<not> bit pte 1 \<and> \<not> bit pte 2 \<and> \<not> bit pte 3 then walk_levels m va op (pte_next m pte) i s
         else if \<not> bit pte 0 \<or> \<not> bit pte 1 \<and> bit pte 2 then walk_fault op va s
         else walk_leaf m va op (Suc i) (a + sv_vpn m va i * of_nat (ptm_size m)) pte s)"
  unfolding walk_levels.simps [of m va op a "Suc i"]
  by (cases "pte_read m s (a + sv_vpn m va i * of_nat (ptm_size m))")
    (auto simp: bus_read_pure [OF assms] pte_addr_eq pte_pointer_iff pte_invalid_iff pte_readable_iff Let_def)

text \<open>Where there is nothing to read the walk faults, at whatever level the counter stands.\<close>

lemma walk_levels_absent:
  assumes "reads_pure s" "pte_read m s (pte_addr m a va k) = None"
  shows "walk_levels m va op a k s = walk_fault op va s"
  by (simp add: walk_levels.simps [of m va op a k] bus_read_pure [OF assms(1)] assms(2))

lemma sv_walk_absent: "rd (pte_addr m a va (Suc i)) = None \<Longrightarrow> sv_walk m rd va a i = None"
  by (simp add: sv_walk.simps [of m rd va a i] pte_addr_eq)

lemma walk_levels_eq:
  assumes pure: "reads_pure s" and m: "\<not> ptm_int_ppn m"
  shows "path_ok m (pte_read m s) va a i \<Longrightarrow> walk_levels m va op a (Suc i) s =
    (case sv_walk m (pte_read m s) va a i of None \<Rightarrow> walk_fault op va s | Some leaf \<Rightarrow> touch_leaf m va op leaf s)"
proof (induction i arbitrary: a)
  case 0
  then show ?case
    unfolding walk_levels_step [OF pure] sv_walk.simps [of _ _ _ _ 0] path_ok.simps [of _ _ _ _ 0] walk_leaf_eq
      pte_next_eq [OF m]
    by (auto split: option.splits simp: walk_levels_absent [OF pure])
next
  case (Suc i)
  then show ?case
    unfolding walk_levels_step [OF pure, of m va op a] sv_walk.simps [of _ _ _ _ "Suc i"]
      path_ok.simps [of _ _ _ _ "Suc i"] walk_leaf_eq pte_next_eq [OF m]
    by (auto split: option.splits simp: walk_levels_absent [OF pure] sv_walk_absent)
qed

text \<open>
  The entry of a page that is not present, as an operating system writes it: the word 0. To the code
  it is a pointer to physical page 0; on a machine without memory there it is an ordinary entry of the
  path, and the walk ends at it with the page fault that the architecture asks for.
\<close>

lemma pte_addr_page_0: "pte_addr m 0 va i = (drop_bit (walk_shift m i) va AND mask (ptm_bits m)) * of_nat (ptm_size m)"
  by (simp add: pte_addr_def)

lemma absent_entry_ok:
  assumes "rd (a + sv_vpn m va i * of_nat (ptm_size m)) = Some 0" "rd (pte_addr m 0 va i) = None"
  shows "path_ok m rd va a i" and "sv_walk m rd va a i = None"
  using assms by (simp_all add: path_ok.simps [of m rd va a i] sv_walk.simps [of m rd va a i] pte_ppn_def bits_get_def)

text \<open>
  C8. For Sv39 and Sv48, on page tables in memory whose reads have no side effect,
  \<^verbatim>\<open>walk_page_table\<close> is the translation algorithm of the privileged architecture: it faults
  exactly when the reference walk finds no leaf, otherwise it returns the reference physical address,
  and it stores the leaf back with the accessed flag, and the dirty flag for a store, exactly when they
  are not all set. The condition on the path (\<^verbatim>\<open>path_ok\<close>) is about entries without permission
  bits only: such an entry is a valid pointer above the last level, or the page it names is not on the
  bus. It allows invalid entries with permission bits and, by \<^verbatim>\<open>absent_entry_ok\<close>, the entry 0 of
  a page that is not present on a machine without memory at physical address 0. Without it the
  statement is false: \<^verbatim>\<open>walk_follows_invalid_entry\<close> shows that the code goes on at the page that an
  invalid entry names, where the architecture faults.
\<close>

theorem walk_page_table_correct:
  assumes "m = sv39 \<or> m = sv48" "reads_pure s"
    and "path_ok m (pte_read m s) va (push_bit 12 (sptbr s AND mask 38)) (ptm_levels m - 1)"
  shows "walk_page_table m va op s =
    (case sv_walk m (pte_read m s) va (push_bit 12 (sptbr s AND mask 38)) (ptm_levels m - 1) of
       None \<Rightarrow> walk_fault op va s
     | Some leaf \<Rightarrow> touch_leaf m va op leaf s)"
proof -
  have "\<not> ptm_int_ppn m" "Suc (ptm_levels m - 1) = ptm_levels m" using assms(1) by (auto simp: sv39_def sv48_def)
  then show ?thesis using walk_levels_eq [OF assms(2) _ assms(3)] by (simp add: walk_page_table_def)
qed

section \<open>Access permissions\<close>

definition mmu_wf :: "'w hart \<Rightarrow> bool" where
  "mmu_wf s \<longleftrightarrow> tlb_wf (l1_itlb s) \<and> tlb_wf (l1_dtlb s)"

text \<open>
  What a page grants: loads need read permission, or execute permission under \<^verbatim>\<open>mxr\<close>; user pages
  are closed to supervisor data accesses under \<^verbatim>\<open>pum\<close> and to supervisor fetches, other pages are
  closed to user mode.
\<close>

definition page_grants :: "mmu_op \<Rightarrow> ('a) cpu_scheme \<Rightarrow> u64 \<Rightarrow> 10 word \<Rightarrow> bool" where
  "page_grants op s privilege_level flags \<longleftrightarrow>
     (case op of Op_fetch \<Rightarrow> bit flags 3
      | Op_load \<Rightarrow> bit flags 1 \<or> bit flags 3 \<and> status_mxr s \<noteq> 0
      | Op_store \<Rightarrow> bit flags 2) \<and>
     (if bit flags 4 then privilege_level = rv_mode_U \<or> op \<noteq> Op_fetch \<and> status_pum s = 0
      else privilege_level \<ge> rv_mode_S)"

lemma flag_bits:
  fixes f :: "10 word"
  shows "(ucast f :: u64) AND 2 = 0 \<longleftrightarrow> \<not> bit f 1" "(ucast f :: u64) AND 4 = 0 \<longleftrightarrow> \<not> bit f 2"
    "(ucast f :: u64) AND 8 = 0 \<longleftrightarrow> \<not> bit f 3" "(ucast f :: u64) AND 16 = 0 \<longleftrightarrow> \<not> bit f 4"
  using flag_test [of "ucast f" 1] flag_test [of "ucast f" 2] flag_test [of "ucast f" 3] flag_test [of "ucast f" 4]
  by (simp_all add: bit_ucast_iff)

lemma one_le_iff: "(1 :: u64) \<le> p \<longleftrightarrow> p \<noteq> 0"
  by (simp add: word_le_nat_alt Suc_le_eq unat_gt_0)

lemma page_grants_cong: "mstatus s' = mstatus s \<Longrightarrow> page_grants op s' p f = page_grants op s p f"
  by (cases op) (simp_all add: page_grants_def)

lemma access_fault_iff:
  "load_access_fault s p (Some e) \<longleftrightarrow> \<not> page_grants Op_load s p (te_pteb e)"
  "store_access_fault s p (Some e) \<longleftrightarrow> \<not> page_grants Op_store s p (te_pteb e)"
  "fetch_access_fault s p (Some e) \<longleftrightarrow> \<not> page_grants Op_fetch s p (te_pteb e)"
  by (auto simp: load_access_fault_def store_access_fault_def fetch_access_fault_def page_grants_def Let_def
      flag_bits word_gt_0 one_le_iff not_le [of 1, symmetric])

lemma frame_fields:
  assumes "mmu_frame s s'"
  shows "mode s' = mode s" "mstatus s' = mstatus s" "pdid s' = pdid s" "sptbr s' = sptbr s" "mem_bus s' = mem_bus s"
  using assms by (auto simp: mmu_frame_def)

lemma translate_frame_Ok: "translate_addr op va s = Ok r s' \<Longrightarrow> mmu_frame s s'"
  using translate_frame [of s op va] by simp

text \<open>
  Under translation, the entry that the checks see is the one that the TLB holds for the address.
\<close>

definition same_tlbs :: "'w hart \<Rightarrow> 'w hart \<Rightarrow> bool" where
  "same_tlbs s s' \<longleftrightarrow> l1_itlb s' = l1_itlb s \<and> l1_dtlb s' = l1_dtlb s"

lemma walk_fault_same_tlbs: "all_states (same_tlbs s) (walk_fault op va s)"
  by (simp add: walk_fault_def raise_ex_def same_tlbs_def)

lemma walk_leaf_same_tlbs: "all_states (same_tlbs s) (walk_leaf m va op k a pte s)"
  by (auto simp: walk_leaf_def Let_def walk_fault_same_tlbs bus_write_def split: option.splits)
    (simp_all add: same_tlbs_def)

lemma same_tlbs_after: "same_tlbs s s' \<Longrightarrow> all_states (same_tlbs s') m \<Longrightarrow> all_states (same_tlbs s) m"
  by (cases m) (auto simp: same_tlbs_def)

lemma read_same_tlbs:
  assumes "\<And>v s'. all_states (same_tlbs s') (f v s')" "all_states (same_tlbs s) g"
  shows "all_states (same_tlbs s) (case bus_read n a s of None \<Rightarrow> g | Some (v, s') \<Rightarrow> f v s')"
proof (cases "bus_read n a s")
  case (Some r)
  obtain v s' where r: "r = (v, s')" by (cases r)
  have "same_tlbs s s'" using Some r by (auto simp: bus_read_def same_tlbs_def)
  then have "all_states (same_tlbs s) (f v s')" using assms(1) by (rule same_tlbs_after)
  then show ?thesis using Some r by simp
qed (simp add: assms(2))

lemmas same_tlbs_intros = read_same_tlbs if_frame walk_fault_same_tlbs walk_leaf_same_tlbs

lemma walk_levels_same_tlbs: "all_states (same_tlbs s) (walk_levels m va op a k s)"
proof (induction k arbitrary: a s)
  case 0
  show ?case by (subst walk_levels.simps) (auto simp: Let_def intro!: same_tlbs_intros)
next
  case (Suc k)
  show ?case by (subst walk_levels.simps) (auto simp: Let_def intro!: same_tlbs_intros Suc.IH)
qed

lemma walk_levels_tlb: "walk_levels m va op a k s = Ok r s' \<Longrightarrow> l1_itlb s' = l1_itlb s \<and> l1_dtlb s' = l1_dtlb s"
  using walk_levels_same_tlbs [of s m va op a k] by (simp add: same_tlbs_def)

lemma miss_entry:
  assumes "page_translate_addr_tlb_miss m va op s = Ok (mpa, e) s'" "mmu_wf s" "mpa \<noteq> 0"
  shows "e = Some (op_tlb op s' ! tlb_index va)" "mmu_wf s'"
  using assms tlb_index_bound [of va]
  by (auto simp: page_translate_addr_tlb_miss_def bind_ok_Ok Let_def walk_page_table_def tlb_insert_def
      mmu_wf_def tlb_wf_def op_tlb_def set_op_tlb_def dest!: walk_levels_tlb split: if_splits prod.splits)

lemma page_translate_entry:
  assumes "page_translate_addr m va op s = Ok (mpa, e) s'" "mmu_wf s" "mpa \<noteq> 0"
  shows "e = Some (op_tlb op s' ! tlb_index va)"
  using assms miss_entry(1) [of m va op s mpa e s']
  by (auto simp: page_translate_addr_def tlb_lookup_def Let_def split: option.splits if_splits)

lemma translate_entry:
  assumes "translate_addr op va s = Ok (mpa, e) s'" "mmu_wf s" "mpa \<noteq> 0"
    and "effective_mode s op < rv_mode_M" "status_vm s \<noteq> rv_vm_mbare"
  shows "e = Some (op_tlb op s' ! tlb_index va)"
  using assms page_translate_entry [OF _ assms(2,3)] by (auto simp: translate_addr_def split: if_splits)

text \<open>
  A load under address translation that returns a value was permitted by the page: the entry
  that the data TLB holds for the address grants read access at the privilege of the hart.
\<close>

theorem mmu_load_permitted:
  assumes "mmu_load n va s = Ok (Some v) s'" "mmu_wf s"
    and "effective_mode s Op_load < rv_mode_M" "status_vm s \<noteq> rv_vm_mbare"
  shows "page_grants Op_load s (mode s) (te_pteb (l1_dtlb s' ! tlb_index va))"
proof -
  obtain mpa e s1 where t: "translate_addr Op_load va s = Ok (mpa, e) s1" "mpa \<noteq> 0"
    "\<not> load_access_fault s1 (mode s1) e" "bus_read n mpa s1 = Some (v, s')"
    using assms(1) by (auto simp: mmu_load_def raise_ex_def bind_ok_Ok split: if_splits option.splits)
  have "e = Some (l1_dtlb s1 ! tlb_index va)"
    using translate_entry [OF t(1) assms(2) t(2) assms(3,4)] by (simp add: op_tlb_def)
  moreover have "l1_dtlb s' = l1_dtlb s1" using t(4) by (auto simp: bus_read_def)
  ultimately show ?thesis
    using t(3) frame_fields [OF translate_frame_Ok [OF t(1)]] by (simp add: access_fault_iff page_grants_cong [of s1 s])
qed

text \<open>
  A store under address translation that returns was checked at the mode of the hart, which under
  \<^verbatim>\<open>mprv\<close> is not the mode that its address was translated for.
\<close>

lemma mmu_store_checked:
  assumes "mmu_store n va v s = Ok () s'" "mmu_wf s"
    and "effective_mode s Op_store < rv_mode_M" "status_vm s \<noteq> rv_vm_mbare"
  shows "\<exists>mpa e s1. translate_addr Op_store va s = Ok (mpa, e) s1 \<and>
    (if mpa = 0 then s' = s1
     else page_grants Op_store s (mode s) (te_pteb (l1_dtlb s' ! tlb_index va)) \<and> bus_write n mpa v s1 = Some s')"
proof -
  obtain mpa e s1 where t: "translate_addr Op_store va s = Ok (mpa, e) s1"
    and r: "if mpa = 0 then s' = s1 else \<not> store_access_fault s1 (mode s1) e \<and> bus_write n mpa v s1 = Some s'"
    using assms(1) by (auto simp: mmu_store_def raise_ex_def bind_ok_Ok split: if_splits option.splits)
  show ?thesis
  proof (cases "mpa = 0")
    case False
    have "e = Some (l1_dtlb s1 ! tlb_index va)"
      using translate_entry [OF t(1) assms(2) False assms(3,4)] by (simp add: op_tlb_def)
    moreover have "l1_dtlb s' = l1_dtlb s1" using r False by (auto simp: bus_write_def)
    ultimately show ?thesis
      using t r False frame_fields [OF translate_frame_Ok [OF t(1)]] by (auto simp: access_fault_iff page_grants_cong [of s1 s])
  qed (use t r in auto)
qed

lemma effective_mode_eq: "mode s < rv_mode_M \<Longrightarrow> effective_mode s op = mode s"
  by (simp add: effective_mode_def not_le [symmetric])

text \<open>
  C20. A store in user or supervisor mode under address translation that returns either was permitted
  at its effective privilege by the page, as the data TLB holds it, and has written the value at the
  translated address, or its address translated to physical address 0 and it wrote nothing. Machine
  mode, whose stores are translated under \<^verbatim>\<open>mprv\<close>, is left out: there the check takes machine
  mode instead of the effective privilege, and \<^verbatim>\<open>mprv_stores_supervisor_page\<close> is a page that it
  grants although the effective privilege does not.
\<close>

theorem mmu_store_permitted:
  assumes "mmu_store n va v s = Ok () s'" "mmu_wf s"
    and "mode s < rv_mode_M" "status_vm s \<noteq> rv_vm_mbare"
  shows "\<exists>mpa e s1. translate_addr Op_store va s = Ok (mpa, e) s1 \<and>
    (if mpa = 0 then s' = s1
     else page_grants Op_store s (effective_mode s Op_store) (te_pteb (l1_dtlb s' ! tlb_index va)) \<and>
       bus_write n mpa v s1 = Some s')"
  using mmu_store_checked [OF assms(1,2) _ assms(4)] assms(3) unfolding effective_mode_eq [OF assms(3)] by blast

section \<open>Atomic operations\<close>

text \<open>
  A word operation is done on 64-bit sign extensions; its low word is the operation on words, for
  the signed and the unsigned comparisons as well.
\<close>

lemma bit_scast32: "bit (scast (z :: u32) :: u64) n \<longleftrightarrow> n < 64 \<and> bit z (if n < 32 then n else 31)"
  by (cases n "31 :: nat" rule: linorder_cases) (auto simp: bit_signed_iff)

lemma ucast_add32: "ucast (a + b :: u64) = (ucast a + ucast b :: u32)"
proof -
  have "take_bit 32 (x + y) = take_bit 32 (take_bit 64 x + take_bit 64 y)" for x y :: int
    using take_bit_add [of 32 x y] take_bit_add [of 32 "take_bit 64 x" "take_bit 64 y"] by simp
  then show ?thesis by transfer simp
qed

lemma top_bit_u32: "bit (z :: u32) 31 \<longleftrightarrow> 2 ^ 31 \<le> unat z"
proof -
  have "unat z < 2 ^ 32" using unsigned_less [of z] by simp
  then have "unat z div 2 ^ 31 = (if 2 ^ 31 \<le> unat z then 1 else 0)" by auto
  moreover have "bit z 31 = odd (unat z div 2 ^ 31)"
    by (metis bit_iff_odd bit_unsigned_iff possible_bit_nat)
  ultimately show ?thesis by simp
qed

lemma unat_scast32: "unat (scast (z :: u32) :: u64) = unat z + (if 2 ^ 31 \<le> unat z then 2 ^ 64 - 2 ^ 32 else 0)"
proof -
  have small: "unat z < 2 ^ 32" using unsigned_less [of z] by simp
  have "(scast z :: u64) = ucast z OR (if bit z 31 then push_bit 32 (- 1) else 0)"
    by (rule bit_word_eqI) (auto simp: bit_scast32 bit_or_iff bit_ucast_iff bit_push_bit_iff bit_not_iff bit_mask_iff
        dest: bit_imp_le_length)
  also have "\<dots> = ucast z + (if bit z 31 then push_bit 32 (- 1) else 0)"
    by (rule disjunctive_add_eq_or [symmetric], rule bit_word_eqI)
      (auto simp: bit_and_iff bit_ucast_iff bit_push_bit_iff bit_not_iff bit_mask_iff dest: bit_imp_le_length)
  finally have "unat (scast z :: u64) = unat (ucast z + (if bit z 31 then push_bit 32 (- 1) else 0) :: u64)" by simp
  also have "\<dots> = unat z + (if bit z 31 then 2 ^ 64 - 2 ^ 32 else 0)"
    using small by (simp add: unat_word_ariths unsigned_ucast_eq take_bit_nat_eq_self mask_numeral)
  finally show ?thesis by (simp add: top_bit_u32)
qed

lemma scast32_order:
  fixes x y :: u32
  shows "(scast x :: u64) < scast y \<longleftrightarrow> x < y" "(scast x :: u64) <s scast y \<longleftrightarrow> x <s y"
proof -
  show "(scast x :: u64) < scast y \<longleftrightarrow> x < y"
    using unsigned_less [of x] unsigned_less [of y] by (auto simp: word_less_nat_alt unat_scast32)
  show "(scast x :: u64) <s scast y \<longleftrightarrow> x <s y" by (simp add: word_sless_alt sint_up_scast is_up)
qed

lemma ucast_scast32 [simp]: "ucast (scast (x :: u32) :: u64) = x"
  by (rule bit_word_eqI) (auto simp: bit_ucast_iff bit_scast32)

lemma amo_fn_word: "ucast (amo_fn op (sext 4 x) (sext 4 y)) = amo_fn op (ucast x :: u32) (ucast y)"
proof -
  have "ucast (amo_fn op (scast a :: u64) (scast b)) = amo_fn op a b" for a b :: u32
    by (cases op) (simp_all add: scast32_order ucast_add32 bit_eq_iff bit_ucast_iff bit_scast32 bit_simps)
  then show ?thesis by (simp add: sext_def)
qed

text \<open>
  The meaning of the operations on words as the architecture gives it: addition modulo \<open>2 ^ 32\<close>,
  logic bit by bit, minimum and maximum of the signed or of the unsigned values.
\<close>

fun amo_meaning :: "amo_op \<Rightarrow> u32 \<Rightarrow> u32 \<Rightarrow> u32 \<Rightarrow> bool" where
  "amo_meaning Amoswap a b r = (r = b)"
| "amo_meaning Amoadd a b r = (uint r = (uint a + uint b) mod 2 ^ 32)"
| "amo_meaning Amoxor a b r = (\<forall>i < 32. bit r i = (bit a i \<noteq> bit b i))"
| "amo_meaning Amoor a b r = (\<forall>i < 32. bit r i = (bit a i \<or> bit b i))"
| "amo_meaning Amoand a b r = (\<forall>i < 32. bit r i = (bit a i \<and> bit b i))"
| "amo_meaning Amomin a b r = (sint r = min (sint a) (sint b))"
| "amo_meaning Amomax a b r = (sint r = max (sint a) (sint b))"
| "amo_meaning Amominu a b r = (uint r = min (uint a) (uint b))"
| "amo_meaning Amomaxu a b r = (uint r = max (uint a) (uint b))"

lemma amo_fn_meaning: "amo_meaning op a b (amo_fn op a b)"
  by (cases op) (auto simp: uint_word_ariths bit_simps word_sless_alt word_less_def min_def max_def)

text \<open>
  C32. An atomic word operation that returns a value is aligned, has passed the checks of read and write
  access, which the code makes for the current mode, returns the word that memory held at the translated address and replaces it by the 32-bit
  result of the operation on that word and the operand, signed and unsigned minimum and maximum
  included, although the code computes it on 64-bit values.
\<close>

theorem mmu_amo_word_correct:
  assumes "mmu_amo 4 a_op va val2 s = Ok (Some old) s'"
  shows "\<not> misaligned 4 va \<and> (\<exists>mpa e s1 s2 new. translate_addr Op_store va s = Ok (mpa, e) s1 \<and>
    \<not> load_access_fault s1 (mode s1) e \<and> \<not> store_access_fault s2 (mode s2) e \<and>
    bus_read 4 mpa s1 = Some (old, s2) \<and> bus_write 4 mpa new s2 = Some s' \<and>
    amo_meaning a_op (ucast old) (ucast val2) (ucast new))"
proof -
  have al: "\<not> misaligned 4 va" using assms by (auto simp: mmu_amo_def raise_ex_def)
  obtain mpa e s1 s2 where t: "translate_addr Op_store va s = Ok (mpa, e) s1"
    "\<not> load_access_fault s1 (mode s1) e" "bus_read 4 mpa s1 = Some (old, s2)"
    "\<not> store_access_fault s2 (mode s2) e"
    "bus_write 4 mpa (amo_fn a_op (sext 4 old) (sext 4 val2)) s2 = Some s'"
    using assms by (auto simp: mmu_amo_def raise_ex_def bind_ok_Ok split: if_splits option.splits)
  have "(ucast (amo_fn a_op (sext 4 old) (sext 4 val2)) :: u32) = amo_fn a_op (ucast old) (ucast val2)"
    by (rule amo_fn_word)
  then have "amo_meaning a_op (ucast old) (ucast val2) (ucast (amo_fn a_op (sext 4 old) (sext 4 val2)))"
    using amo_fn_meaning by metis
  then show ?thesis using al t by blast
qed

section \<open>Departures from the architecture\<close>

text \<open>
  An entry with no permission bit is followed as a pointer even when its valid bit is clear, where
  the architecture faults.
\<close>

theorem walk_follows_invalid_entry:
  assumes "reads_pure s" "pte_read m s (a + sv_vpn m va (Suc i) * of_nat (ptm_size m)) = Some pte"
    and "\<not> bit pte 0" "\<not> bit pte 1" "\<not> bit pte 2" "\<not> bit pte 3"
  shows "sv_walk m (pte_read m s) va a (Suc i) = None"
    and "walk_levels m va op a (Suc (Suc i)) s = walk_levels m va op (pte_next m pte) (Suc i) s"
  using assms by (simp_all add: sv_walk.simps [of _ _ _ _ "Suc i"] walk_levels_step [OF assms(1), of m va op a])

text \<open>
  The accessed and dirty test of a TLB hit is inverted: a store that hits an entry without the dirty
  flag uses it and leaves the page table alone, so that the dirty flag of a page that was first
  loaded from is never set.
\<close>

theorem store_hit_skips_dirty:
  assumes "tlb_lookup (pdid s) (drop_bit 38 (sptbr s)) va (l1_dtlb s) = Some i"
    and "\<not> bit (te_pteb (l1_dtlb s ! i)) 7"
  shows "\<exists>mpa. page_translate_addr m va Op_store s = Ok (mpa, Some (l1_dtlb s ! i)) s"
proof -
  let ?f = "ucast (te_pteb (l1_dtlb s ! i)) :: u64"
  have "?f AND ad_flags Op_store \<noteq> ad_flags Op_store"
  proof
    assume "?f AND ad_flags Op_store = ad_flags Op_store"
    then have "bit (?f AND ad_flags Op_store) 7 = bit (ad_flags Op_store) 7" by simp
    then show False using assms(2) by (simp add: ad_flags_def bit_and_iff bit_ucast_iff)
  qed
  then show ?thesis using assms(1) by (simp add: page_translate_addr_def op_tlb_def Let_def)
qed

text \<open>
  The access checks take the mode of the hart and not the effective mode of the access: in machine
  mode with \<^verbatim>\<open>mprv\<close> set and user mode in \<^verbatim>\<open>mpp\<close> the address is translated as for user mode, but a
  supervisor page does not fault, for a store as for a load.
\<close>

theorem mprv_stores_supervisor_page:
  assumes "mode s = rv_mode_M" "bit flags 2" "\<not> bit flags 4"
    and "bits_get 17 1 (mstatus s) = 1" "bits_get 11 2 (mstatus s) = rv_mode_U"
  shows "effective_mode s Op_store = rv_mode_U" and "page_grants Op_store s (mode s) flags"
    and "\<not> page_grants Op_store s (effective_mode s Op_store) flags"
  using assms by (simp_all add: page_grants_def effective_mode_def)

theorem mprv_reads_supervisor_page:
  assumes "mode s = rv_mode_M" "bit flags 1" "\<not> bit flags 4"
  shows "page_grants Op_load s (mode s) flags" and "\<not> page_grants Op_load s rv_mode_U flags"
  using assms by (simp_all add: page_grants_def)

section \<open>A concrete hart\<close>

text \<open>A supervisor-mode hart with one gigapage, read and written, at the root of its page table.\<close>

definition example_hart :: "world hart" where
  "example_hart = (hart_init (ram_bus [(0x80000000, 0x1000000, 0x1000)])
     \<lparr>host_mem = host_write (\<lambda>a. 0) 0x1000000 8 0x200000cf\<rparr>)
     \<lparr>mode := 1, mstatus := 0x9000000, sptbr := 0x80000\<rparr>"

lemma example_fields:
  "mode example_hart = 1" "mstatus example_hart = 0x9000000" "sptbr example_hart = 0x80000" "pdid example_hart = 0"
  "l1_dtlb example_hart = tlb_new" "mem_bus example_hart = ram_bus [(0x80000000, 0x1000000, 0x1000)]"
  "mmu_wf example_hart" "reads_pure example_hart"
  by (auto simp: example_hart_def hart_init_def mmu_wf_def tlb_wf_ops reads_pure_def bus_load_def ram_bus_eq
      split: if_splits)

lemma example_load:
  "bus_load (mem_bus example_hart) 8 0x80000000 (hart_world example_hart) = Some (0x200000cf, hart_world example_hart)"
  using host_read_write [of 8 "\<lambda>a. 0" "0x1000000" "0x200000cf"]
  by (simp add: example_hart_def hart_init_def bus_load_def ram_bus_eq seg_contains_def mask_numeral
      ram_segment_def mmap_memory_segment_def memory_segment_base_def)

text \<open>The second entry of the table is 0, and there is no memory at physical page 0.\<close>

lemma example_load_absent:
  "bus_load (mem_bus example_hart) 8 0x80000008 (hart_world example_hart) = Some (0, hart_world example_hart)"
  "bus_load (mem_bus example_hart) 8 0 (hart_world example_hart) = None"
proof -
  have "host_read (host_write (\<lambda>a. 0) 0x1000000 8 0x200000cf) 0x1000008 8 = 0"
    by code_simp
  then show "bus_load (mem_bus example_hart) 8 0x80000008 (hart_world example_hart) = Some (0, hart_world example_hart)"
    by (simp add: example_hart_def hart_init_def bus_load_def ram_bus_eq seg_contains_def
      ram_segment_def mmap_memory_segment_def memory_segment_base_def)
  show "bus_load (mem_bus example_hart) 8 0 (hart_world example_hart) = None"
    by (simp add: example_hart_def hart_init_def bus_load_def ram_bus_eq seg_contains_def
      ram_segment_def mmap_memory_segment_def memory_segment_base_def)
qed

lemma example_walk_absent:
  "sv_walk sv39 (pte_read sv39 example_hart) 0x40000000 0x80000000 2 = None"
  "path_ok sv39 (pte_read sv39 example_hart) 0x40000000 0x80000000 2"
proof -
  have "pte_read sv39 example_hart (0x80000000 + sv_vpn sv39 0x40000000 2 * of_nat (ptm_size sv39)) = Some 0"
    and "pte_read sv39 example_hart (pte_addr sv39 0 0x40000000 2) = None"
    by (simp_all add: sv_vpn_def sv39_def pte_read_def pte_addr_page_0 walk_shift_def example_load_absent
        mask_numeral take_bit_eq_mask)
  then show "sv_walk sv39 (pte_read sv39 example_hart) 0x40000000 0x80000000 2 = None"
    "path_ok sv39 (pte_read sv39 example_hart) 0x40000000 0x80000000 2"
    using absent_entry_ok by blast+
qed

lemma example_walk:
  "sv_walk sv39 (pte_read sv39 example_hart) 0x8 0x80000000 2 = Some (0x80000000, 0x200000cf, 2)"
  "path_ok sv39 (pte_read sv39 example_hart) 0x8 0x80000000 2"
  by (simp_all add: sv_walk.simps [of _ _ _ _ 2] path_ok.simps [of _ _ _ _ 2] sv_vpn_def sv39_def pte_read_def
      example_load pte_ppn_def bits_get_def)


lemma example_translate:
  assumes "op = Op_load \<or> op = Op_store"
  shows "\<exists>e tlb. translate_addr op 8 example_hart = Ok (0x80000008, Some e) (example_hart\<lparr>l1_dtlb := tlb\<rparr>) \<and>
     te_pteb e = 0xcf"
proof -
  have pure: "reads_pure example_hart" by (rule example_fields)
  have "touch_leaf sv39 8 op (0x80000000, 0x200000cf, 2) example_hart = Ok (0x80000008, 0x200000cf, 2) example_hart"
    by (simp add: touch_leaf_def pte_flags_def bits_get_def ad_flags_def mask_numeral sv_pa_def sv39_def pte_ppn_def)
  then have walk: "walk_page_table sv39 8 op example_hart = Ok (0x80000008, 0x200000cf, 2) example_hart"
    using walk_levels_eq [OF pure, of sv39 8 "0x80000000" 2] example_walk
    by (simp add: walk_page_table_def example_fields sv39_def mask_numeral)
  have miss: "tlb_lookup 0 0 8 tlb_new = None"
    by (simp add: tlb_lookup_def tlb_new_def tlb_index_def tlb_mask_def tlb_size_def tlb_hit_default default_tag_def mask_numeral)
  have vm: "bits_get 24 4 (mstatus example_hart) = 9" "effective_mode example_hart op = 1" "\<not> (3 :: u64) \<le> 1"
    by (simp_all add: example_fields bits_get_def mask_numeral effective_mode_def word_le_nat_alt)
  show ?thesis
    using assms walk miss
    by (auto simp: translate_addr_def vm page_translate_addr_def page_translate_addr_tlb_miss_def op_tlb_def
        example_fields set_op_tlb_def Let_def tlb_insert_def tlb_new_def tlb_index_def tlb_mask_def tlb_size_def
        tlb_entry_make_def pte_flags_def bits_get_def mask_numeral)
qed


lemma example_access:
  "n \<in> {4, 8} \<Longrightarrow> \<exists>v. bus_read n 0x80000008 (example_hart\<lparr>l1_dtlb := tlb\<rparr>) = Some (v, example_hart\<lparr>l1_dtlb := tlb\<rparr>)"
  "n \<in> {4, 8} \<Longrightarrow> \<exists>s'. bus_write n 0x80000008 v (example_hart\<lparr>l1_dtlb := tlb\<rparr>) = Some s'"
  by (auto simp: bus_read_def bus_write_def bus_load_def bus_store_def example_fields ram_bus_eq seg_contains_def
      ram_segment_def mmap_memory_segment_def memory_segment_base_def word_le_nat_alt word_less_nat_alt)

lemma example_granted:
  "te_pteb e = 0xcf \<Longrightarrow> \<not> load_access_fault (example_hart\<lparr>l1_dtlb := tlb\<rparr>) 1 (Some e)"
  "te_pteb e = 0xcf \<Longrightarrow> \<not> store_access_fault (example_hart\<lparr>l1_dtlb := tlb\<rparr>) 1 (Some e)"
  by (simp_all add: access_fault_iff page_grants_def bit_numeral_rec)

lemma example_mode: "effective_mode example_hart Op_load < 3" "effective_mode example_hart Op_store < 3" "status_vm example_hart \<noteq> 0"
  by (simp_all add: example_fields bits_get_def mask_numeral effective_mode_def word_less_nat_alt word_le_nat_alt)

lemma example_mmu_load: "\<exists>v s'. mmu_load 8 8 example_hart = Ok (Some v) s'"
proof -
  obtain e tlb where "translate_addr Op_load 8 example_hart = Ok (0x80000008, Some e) (example_hart\<lparr>l1_dtlb := tlb\<rparr>)"
    "te_pteb e = 0xcf" using example_translate by blast
  then show ?thesis
    using example_access(1) [of 8 tlb] example_granted(1) [of e tlb]
    by (auto simp: mmu_load_def misaligned_def example_fields)
qed

lemma example_mmu_store: "\<exists>s'. mmu_store 8 8 v example_hart = Ok () s'"
proof -
  obtain e tlb where "translate_addr Op_store 8 example_hart = Ok (0x80000008, Some e) (example_hart\<lparr>l1_dtlb := tlb\<rparr>)"
    "te_pteb e = 0xcf" using example_translate by blast
  then show ?thesis
    using example_access(2) [of 8 v tlb] example_granted(2) [of e tlb]
    by (auto simp: mmu_store_def misaligned_def example_fields)
qed

theorem walk_page_table_correct_witness:
  "walk_page_table sv39 8 Op_load example_hart = Ok (0x80000008, 0x200000cf, 2) example_hart \<and>
   walk_page_table sv39 0x40000000 Op_load example_hart = walk_fault Op_load 0x40000000 example_hart"
proof -
  have "walk_page_table sv39 8 Op_load example_hart = touch_leaf sv39 8 Op_load (0x80000000, 0x200000cf, 2) example_hart"
    using walk_page_table_correct [of sv39 example_hart 8 Op_load] example_walk example_fields(3,8)
    by (simp add: sv39_def mask_numeral)
  moreover have "walk_page_table sv39 0x40000000 Op_load example_hart = walk_fault Op_load 0x40000000 example_hart"
    using walk_page_table_correct [of sv39 example_hart "0x40000000" Op_load] example_walk_absent example_fields(3,8)
    by (simp add: sv39_def mask_numeral)
  ultimately show ?thesis
    by (simp add: touch_leaf_def pte_flags_def bits_get_def ad_flags_def mask_numeral sv_pa_def sv39_def pte_ppn_def)
qed

theorem mmu_load_permitted_witness:
  "\<exists>v s'. mmu_load 8 8 example_hart = Ok (Some v) s' \<and>
    page_grants Op_load example_hart (mode example_hart) (te_pteb (l1_dtlb s' ! tlb_index 8))"
  using example_mmu_load mmu_load_permitted [of 8 8 example_hart, OF _ example_fields(7) example_mode(1,3)] by blast

theorem mmu_store_permitted_witness:
  "effective_mode example_hart Op_store = rv_mode_S \<and>
   (\<exists>s' e s1. mmu_store 8 8 7 example_hart = Ok () s' \<and> translate_addr Op_store 8 example_hart = Ok (0x80000008, e) s1 \<and>
     page_grants Op_store example_hart rv_mode_S (te_pteb (l1_dtlb s' ! tlb_index 8)) \<and>
     bus_write 8 0x80000008 7 s1 = Some s')"
proof -
  have m: "mode example_hart < rv_mode_M" "effective_mode example_hart Op_store = rv_mode_S"
    by (simp_all add: effective_mode_def example_fields word_less_nat_alt word_le_nat_alt)
  obtain e s1 where t: "translate_addr Op_store 8 example_hart = Ok (0x80000008, e) s1"
    using example_translate [of Op_store] by blast
  obtain s' where w: "mmu_store 8 8 7 example_hart = Ok () s'" using example_mmu_store by blast
  show ?thesis
    using mmu_store_permitted [OF w example_fields(7) m(1) example_mode(3)] t w unfolding m(2) by auto
qed

lemma example_mmu_amo: "\<exists>v s'. mmu_amo 4 Amominu 8 7 example_hart = Ok (Some v) s'"
proof -
  obtain e tlb where t: "translate_addr Op_store 8 example_hart = Ok (0x80000008, Some e) (example_hart\<lparr>l1_dtlb := tlb\<rparr>)"
    "te_pteb e = 0xcf" using example_translate by blast
  obtain v where rd: "bus_read 4 0x80000008 (example_hart\<lparr>l1_dtlb := tlb\<rparr>) = Some (v, example_hart\<lparr>l1_dtlb := tlb\<rparr>)"
    using example_access(1) [of 4 tlb] by auto
  obtain s' where "bus_write 4 0x80000008 (amo_fn Amominu (sext 4 v) (sext 4 7)) (example_hart\<lparr>l1_dtlb := tlb\<rparr>) = Some s'"
    using example_access(2) [of 4 _ tlb] by blast
  then show ?thesis
    using t rd example_granted [of e tlb] by (simp add: mmu_amo_def misaligned_def example_fields)
qed

theorem mmu_amo_word_correct_witness:
  "\<exists>old s' mpa e s1 s2 new. mmu_amo 4 Amominu 8 7 example_hart = Ok (Some old) s' \<and>
    translate_addr Op_store 8 example_hart = Ok (mpa, e) s1 \<and> bus_read 4 mpa s1 = Some (old, s2) \<and>
    bus_write 4 mpa new s2 = Some s' \<and>
    uint (ucast new :: u32) = min (uint (ucast old :: u32)) 7"
proof -
  obtain old s' where "mmu_amo 4 Amominu 8 7 example_hart = Ok (Some old) s'" using example_mmu_amo by blast
  then show ?thesis using mmu_amo_word_correct [of Amominu 8 7 example_hart old s'] by fastforce
qed

end
