(* ===== verification/Interp_Spec.thy ===== *)
theory Interp_Spec
  imports Interp Walk
begin

text \<open>
  What the interpreter guarantees: the part of the hart that an instruction may change, the
  invariant of the register file, and the agreement of every register-register instruction with its
  meaning over the integers.
\<close>

unbundle bit_operations_syntax

section \<open>Frame and register file\<close>

definition ireg_ok :: "('a) cpu_scheme \<Rightarrow> bool" where
  "ireg_ok s \<longleftrightarrow> length (ireg s) = 32 \<and> ireg s ! 0 = 0"

lemma ireg_ok_set_rd: "ireg_ok s \<Longrightarrow> ireg_ok (set_rd d v s)"
  by (cases "dec_rd d = 0") (auto simp: ireg_ok_def set_rd_def nth_list_update unat_eq_zero)

lemma set_rd_ireg: "\<exists>R. set_rd d v s = s\<lparr>ireg := R\<rparr>"
  unfolding set_rd_def by blast

lemma all_states_mono: "all_states P m \<Longrightarrow> (\<And>s. P s \<Longrightarrow> Q s) \<Longrightarrow> all_states Q m"
  by (cases m) auto

text \<open>
  The contract of a memory management unit: \<open>E\<close> relates a state to those an access may leave. An
  access does not depend on the registers and does not change them.
\<close>

locale memory_unit =
  fixes M :: "'a cpu_scheme mmu_ops" and E :: "'a cpu_scheme \<Rightarrow> 'a cpu_scheme \<Rightarrow> bool"
  assumes E_refl: "E s s"
    and E_ireg: "E s s' \<Longrightarrow> ireg s' = ireg s"
    and E_set_ireg: "E s s' \<Longrightarrow> E (s\<lparr>ireg := regs\<rparr>) (s'\<lparr>ireg := regs\<rparr>)"
    and ld_frame: "all_states (E s) (mmu_ld M n va s)"
    and st_frame: "all_states (E s) (mmu_st M n va v s)"
    and am_frame: "all_states (E s) (mmu_am M n a_op va v s)"
begin

text \<open>What every body of the switch keeps: it changes registers, the reservation and what the unit changes.\<close>

definition keeps :: "'a cpu_scheme \<Rightarrow> 'a cpu_scheme \<Rightarrow> bool" where
  "keeps s s' \<longleftrightarrow> (\<exists>regs l. E (s\<lparr>ireg := regs, lr := l\<rparr>) s') \<and> (ireg_ok s \<longrightarrow> ireg_ok s')"

lemma keeps_E: "E s s' \<Longrightarrow> keeps s s'"
proof -
  assume e: "E s s'"
  then have "E (s\<lparr>ireg := ireg s, lr := lr s\<rparr>) s'" by simp
  then have "\<exists>regs l. E (s\<lparr>ireg := regs, lr := l\<rparr>) s'" by (intro exI)
  then show ?thesis using E_ireg [OF e] by (simp add: keeps_def ireg_ok_def)
qed

lemma keeps_refl [simp]: "keeps s s"
  by (rule keeps_E) (rule E_refl)

lemma keeps_set_rd: "keeps s s' \<Longrightarrow> keeps s (set_rd d v s')"
proof -
  assume k: "keeps s s'"
  then obtain regs l where e: "E (s\<lparr>ireg := regs, lr := l\<rparr>) s'" unfolding keeps_def by blast
  obtain R where R: "set_rd d v s' = s'\<lparr>ireg := R\<rparr>" using set_rd_ireg [of d v s'] by blast
  have "s\<lparr>ireg := regs, lr := l, ireg := R\<rparr> = s\<lparr>ireg := R, lr := l\<rparr>" by simp
  then have "E (s\<lparr>ireg := R, lr := l\<rparr>) (set_rd d v s')" using E_set_ireg [OF e, of R] by (simp only: R)
  then have "\<exists>regs l. E (s\<lparr>ireg := regs, lr := l\<rparr>) (set_rd d v s')" by (intro exI)
  then show ?thesis using k by (simp add: keeps_def ireg_ok_set_rd)
qed

lemma keeps_wr: "keeps s s' \<Longrightarrow> all_states (keeps s) (wr d v off s')"
  by (simp add: wr_def keeps_set_rd)

lemma keeps_wr_shift: "keeps s s' \<Longrightarrow> all_states (keeps s) (wr_shift k w d f off s')"
  by (simp add: wr_shift_def keeps_wr)

lemma keeps_bind:
  "all_states (E s) m \<Longrightarrow> (\<And>a s'. keeps s s' \<Longrightarrow> all_states (keeps s) (f a s')) \<Longrightarrow> all_states (keeps s) (bind_ok m f)"
  by (cases m) (auto intro: keeps_E)

lemma keeps_load: "all_states (keeps s) (exec_load M n ext va d off s)"
  unfolding exec_load_def by (rule keeps_bind [OF ld_frame]) (auto split: option.splits intro: keeps_wr)

lemma keeps_store: "all_states (keeps s) (exec_store M n va v off s)"
  unfolding exec_store_def by (rule keeps_bind [OF st_frame]) auto

lemma keeps_sc: "all_states (keeps s) (exec_sc M n d off s)"
  unfolding exec_sc_def by (auto intro!: keeps_wr keeps_bind [OF st_frame])

lemma keeps_amo: "all_states (keeps s) (exec_amo M n a_op d off s)"
  unfolding exec_amo_def by (rule keeps_bind [OF am_frame]) (auto split: option.splits intro: keeps_wr)

lemma keeps_lr_upd: "keeps (s\<lparr>lr := l\<rparr>) s' \<Longrightarrow> keeps s s'"
  by (auto simp: keeps_def ireg_ok_def)

lemma keeps_lr: "all_states (keeps s) (exec_lr M n d off s)"
proof -
  have "all_states (keeps (s\<lparr>lr := rs1 d s\<rparr>)) (exec_lr M n d off s)"
    unfolding exec_lr_def by (rule keeps_load)
  then show ?thesis by (cases "exec_lr M n d off s") (auto intro: keeps_lr_upd)
qed

lemmas keeps_intros = keeps_wr keeps_wr_shift keeps_load keeps_store keeps_sc keeps_amo keeps_lr keeps_refl

lemma gate_keep:
  assumes "list_all (\<lambda>(op, m). all_states (keeps s) m) cs"
  shows "list_all (\<lambda>(op, m). all_states (keeps s) m) (gate ext off s cs)"
proof (cases ext)
  case False
  have "list_all (\<lambda>(op, m). all_states (keeps s) m) (map (\<lambda>(op, m). (op, Ok off s)) cs)"
    by (induction cs) auto
  then show ?thesis using False by (simp add: gate_def)
qed (use assms in \<open>simp add: gate_def\<close>)

lemma rv64_cases_keep: "list_all (\<lambda>(op, m). all_states (keeps s) m) (rv64_cases M i mul a d off s)"
proof -
  have "list_all (\<lambda>(op, m). all_states (keeps s) m) (rvi_jump d off s)"
    "list_all (\<lambda>(op, m). all_states (keeps s) m) (rvi_load_store M d off s)"
    "list_all (\<lambda>(op, m). all_states (keeps s) m) (rvi_imm d off s)"
    "list_all (\<lambda>(op, m). all_states (keeps s) m) (rvi_reg d off s)"
    "list_all (\<lambda>(op, m). all_states (keeps s) m) (rvm_cases d off s)"
    "list_all (\<lambda>(op, m). all_states (keeps s) m) (rva_word M d off s)"
    "list_all (\<lambda>(op, m). all_states (keeps s) m) (rva_double M d off s)"
    by (simp_all only: rvi_jump_def rvi_load_store_def rvi_imm_def rvi_reg_def rvm_cases_def rva_word_def
        rva_double_def list.pred_inject prod.case all_states.simps keeps_intros simp_thms)
  moreover have "list_all (\<lambda>(op, m). all_states (keeps s) m) (map (\<lambda>op. (op, Ok off s)) ops)" for ops
    by (induction ops) auto
  ultimately show ?thesis
    unfolding rv64_cases_def by (simp only: list_all_append gate_keep simp_thms)
qed

lemma exec_keeps: "all_states (keeps s) (exec_inst_rv64 M i mul a d off s)"
  unfolding exec_inst_rv64_def
  by (rule switch_list_all) (use rv64_cases_keep [of s i mul a d off] in \<open>auto simp: list_all_iff\<close>)

end

lemma mmu_frame_set_ireg: "mmu_frame s s' \<Longrightarrow> mmu_frame (s\<lparr>ireg := regs\<rparr>) (s'\<lparr>ireg := regs\<rparr>)"
proof -
  assume "mmu_frame s s'"
  then obtain b it dt w where "s' = s\<lparr>badaddr := b, l1_itlb := it, l1_dtlb := dt, hart_world := w\<rparr>"
    unfolding mmu_frame_def by blast
  then have "s'\<lparr>ireg := regs\<rparr> = (s\<lparr>ireg := regs\<rparr>)\<lparr>badaddr := b, l1_itlb := it, l1_dtlb := dt, hart_world := w\<rparr>" by simp
  then show ?thesis by (rule mmu_frameI)
qed

interpretation soft: memory_unit soft_mmu mmu_frame
  by unfold_locales
    (simp_all add: soft_mmu_def mmu_load_frame mmu_store_frame mmu_amo_frame mmu_frame_set_ireg,
     auto simp: mmu_frame_def)

lemma soft_keepsD:
  assumes "soft.keeps s s'"
  shows "(\<exists>regs l b it dt w. s' = s\<lparr>ireg := regs, lr := l, badaddr := b, l1_itlb := it,
      l1_dtlb := dt, hart_world := w\<rparr>) \<and> (ireg_ok s \<longrightarrow> ireg_ok s')"
proof -
  obtain regs l b it dt w where
    "s' = (s\<lparr>ireg := regs, lr := l\<rparr>)\<lparr>badaddr := b, l1_itlb := it, l1_dtlb := dt, hart_world := w\<rparr>"
    using assms unfolding soft.keeps_def mmu_frame_def by blast
  then have "s' = s\<lparr>ireg := regs, lr := l, badaddr := b, l1_itlb := it, l1_dtlb := dt, hart_world := w\<rparr>" by simp
  then have "\<exists>regs l b it dt w. s' = s\<lparr>ireg := regs, lr := l, badaddr := b, l1_itlb := it, l1_dtlb := dt, hart_world := w\<rparr>"
    by (intro exI)
  then show ?thesis using assms unfolding soft.keeps_def by (intro conjI) simp_all
qed

text \<open>
  Whatever the instruction and however it ends, executing it leaves the program counter, the
  privilege mode, the control and status registers and the memory map of the hart as they were: only
  integer registers, the reservation, the TLBs, memory and the fault address change. The register
  file keeps its 32 registers and \<open>x0\<close> stays zero.
\<close>

theorem exec_inst_frame:
  "all_states (\<lambda>s'. (\<exists>regs l b it dt w. s' = s\<lparr>ireg := regs, lr := l, badaddr := b, l1_itlb := it,
      l1_dtlb := dt, hart_world := w\<rparr>) \<and> (ireg_ok s \<longrightarrow> ireg_ok s')) (exec_inst_rv64 soft_mmu i m a d off s)"
  by (rule all_states_mono [OF soft.exec_keeps]) (rule soft_keepsD)

section \<open>Register-register instructions over the integers\<close>

text \<open>
  The meaning of each instruction as the manual gives it: integer arithmetic on the signed or
  unsigned values of the operands, reduced to the register, where a word instruction sign extends
  the low 32 bits of its result. Shift amounts are the low 6 bits, or 5 for words. Division
  truncates, by zero it gives all ones and leaves the dividend as remainder; the overflowing
  division needs no case of its own.
\<close>

definition s32 :: "int \<Rightarrow> u64" where
  "s32 z = word_of_int (signed_take_bit 31 z)"

definition rvi_spec :: "u64 \<Rightarrow> u64 \<Rightarrow> (opcode \<times> u64) list" where
  "rvi_spec x y =
     (let sx = sint x; sy = sint y; ux = uint x; uy = uint y; k = unat y mod 64; kw = unat y mod 32;
        wx = signed_take_bit 31 sx; wux = take_bit 32 ux
      in [
     (rv_op_add, word_of_int (sx + sy)),
     (rv_op_sub, word_of_int (sx - sy)),
     (rv_op_sll, word_of_int (ux * 2 ^ k)),
     (rv_op_slt, of_bool (sx < sy)),
     (rv_op_sltu, of_bool (ux < uy)),
     (rv_op_xor, word_of_int (ux XOR uy)),
     (rv_op_srl, word_of_int (ux div 2 ^ k)),
     (rv_op_sra, word_of_int (sx div 2 ^ k)),
     (rv_op_or, word_of_int (ux OR uy)),
     (rv_op_and, word_of_int (ux AND uy)),
     (rv_op_addw, s32 (sx + sy)),
     (rv_op_subw, s32 (sx - sy)),
     (rv_op_sllw, s32 (ux * 2 ^ kw)),
     (rv_op_srlw, s32 (wux div 2 ^ kw)),
     (rv_op_sraw, s32 (wx div 2 ^ kw))])"

definition rvm_spec :: "u64 \<Rightarrow> u64 \<Rightarrow> (opcode \<times> u64) list" where
  "rvm_spec x y =
     (let sx = sint x; sy = sint y; ux = uint x; uy = uint y;
        wx = signed_take_bit 31 sx; wy = signed_take_bit 31 sy; wux = take_bit 32 ux; wuy = take_bit 32 uy
      in [
     (rv_op_mul, word_of_int (sx * sy)),
     (rv_op_mulh, word_of_int (sx * sy div 2 ^ 64)),
     (rv_op_mulhsu, word_of_int (sx * uy div 2 ^ 64)),
     (rv_op_mulhu, word_of_int (ux * uy div 2 ^ 64)),
     (rv_op_div, if sy = 0 then - 1 else word_of_int (sx sdiv sy)),
     (rv_op_divu, if uy = 0 then - 1 else word_of_int (ux div uy)),
     (rv_op_rem, if sy = 0 then x else word_of_int (sx smod sy)),
     (rv_op_remu, if uy = 0 then x else word_of_int (ux mod uy)),
     (rv_op_mulw, s32 (sx * sy)),
     (rv_op_divw, if wy = 0 then - 1 else s32 (wx sdiv wy)),
     (rv_op_divuw, if wuy = 0 then - 1 else s32 (wux div wuy)),
     (rv_op_remw, if wy = 0 then s32 wx else s32 (wx smod wy)),
     (rv_op_remuw, if wuy = 0 then s32 wux else s32 (wux mod wuy))])"

definition alu_spec :: "u64 \<Rightarrow> u64 \<Rightarrow> (opcode \<times> u64) list" where
  "alu_spec x y = rvi_spec x y @ rvm_spec x y"

text \<open>The operators of the code on machine words, over the integers.\<close>

lemma uint_self: "take_bit LENGTH('a) (uint (x :: 'a::len word)) = uint x"
  by (simp add: take_bit_int_eq_self)

lemma word_ops:
  fixes x y :: "'a::len word"
  shows "x + y = word_of_int (sint x + sint y)" "x - y = word_of_int (sint x - sint y)"
    "x * y = word_of_int (sint x * sint y)" "push_bit k x = word_of_int (uint x * 2 ^ k)"
    "drop_bit k x = word_of_int (uint x div 2 ^ k)" "signed_drop_bit k x = word_of_int (sint x div 2 ^ k)"
  subgoal by simp
  subgoal by simp
  subgoal by simp
  subgoal by (simp add: push_bit_eq_mult)
  subgoal
  proof -
    have "drop_bit k x = word_of_int (uint (drop_bit k x))" by (rule word_of_int_uint [symmetric])
    then show ?thesis by (simp only: unsigned_drop_bit_eq uint_self) (simp add: drop_bit_eq_div)
  qed
  subgoal
  proof -
    have "signed_drop_bit k x = word_of_int (sint (signed_drop_bit k x))" by simp
    then show ?thesis by (simp only: sint_signed_drop_bit_eq) (simp add: drop_bit_eq_div)
  qed
  done

lemma sw_s32: "sw (word_of_int z) = s32 z"
proof -
  have "sint (word_of_int z :: u32) = signed_take_bit 31 z" by (simp add: sint_sbintrunc')
  then show ?thesis by (simp only: sw_def s32_def scast_eq)
qed

lemma lo32_values: "sint (lo32 x) = signed_take_bit 31 (sint x)" "uint (lo32 x) = take_bit 32 (uint x)"
proof -
  show "sint (lo32 x) = signed_take_bit 31 (sint x)"
  proof (rule bit_eqI)
    show "bit (sint (lo32 x)) n = bit (signed_take_bit 31 (sint x)) n" for n
      by (cases n "31 :: nat" rule: linorder_cases) (simp_all add: bit_signed_take_bit_iff bit_sint_iff bit_ucast_iff)
  qed
  show "uint (lo32 x) = take_bit 32 (uint x)" by (simp add: unsigned_ucast_eq)
qed


lemma sint_0_iff: "sint (y :: 'a::len word) = 0 \<longleftrightarrow> y = 0"
proof
  assume "sint y = 0"
  moreover have "y = word_of_int (sint y)" by simp
  ultimately show "y = 0" by (metis word_of_int_0)
qed simp

lemma minus_smin: "- smin = (smin :: 'a::len word)"
proof -
  have "(smin + smin :: 'a word) = 2 ^ Suc (LENGTH('a) - 1)"
    unfolding power_Suc smin_def by (simp del: word_exp_length_eq_0)
  also have "Suc (LENGTH('a) - 1) = LENGTH('a)" by simp
  also have "(2 :: 'a word) ^ LENGTH('a) = 0" by (rule word_exp_length_eq_0)
  finally show ?thesis by (simp add: minus_unique)
qed

lemma word_bitops:
  fixes x y :: "'a::len word"
  shows "x XOR y = word_of_int (uint x XOR uint y)" "x OR y = word_of_int (uint x OR uint y)"
    "x AND y = word_of_int (uint x AND uint y)"
  by (rule bit_word_eqI, simp add: bit_simps)+

lemma alu_div_spec:
  fixes x y :: "'a::len word"
  shows "alu_div x y = (if sint y = 0 then - 1 else word_of_int (sint x sdiv sint y))"
    "alu_rem x y = (if sint y = 0 then x else word_of_int (sint x smod sint y))"
    "alu_divu x y = (if uint y = 0 then - 1 else word_of_int (uint x div uint y))"
    "alu_remu x y = (if uint y = 0 then x else word_of_int (uint x mod uint y))"
proof -
  have "word_of_int (sint (smin :: 'a word) sdiv - 1) = (smin :: 'a word)"
    by (simp add: minus_smin)
  then show "alu_div x y = (if sint y = 0 then - 1 else word_of_int (sint x sdiv sint y))"
    by (auto simp: alu_div_def sint_0_iff)
  show "alu_rem x y = (if sint y = 0 then x else word_of_int (sint x smod sint y))"
    by (auto simp: alu_rem_def sint_0_iff signed_modulo_int_def)
  show "alu_divu x y = (if uint y = 0 then - 1 else word_of_int (uint x div uint y))"
    "alu_remu x y = (if uint y = 0 then x else word_of_int (uint x mod uint y))"
    by (auto simp: alu_divu_def alu_remu_def uint_0_iff word_div_def word_mod_def)
qed

lemma shift_amounts:
  fixes y :: u64
  shows "unat (y AND 0b11111) = unat y mod 32" "\<not> bit y 6 \<Longrightarrow> unat (y AND 0b1111111) = unat y mod 64"
proof -
  have m: "unat (y AND mask n) = unat y mod 2 ^ n" for n
    unfolding take_bit_eq_mask [symmetric] unsigned_take_bit_eq by (simp add: take_bit_eq_mod)
  show "unat (y AND 0b11111) = unat y mod 32" using m [of 5] by (simp add: mask_numeral)
  assume 6: "\<not> bit y 6"
  have "y AND mask 7 = y AND mask 6"
  proof (rule bit_word_eqI)
    show "bit (y AND mask 7) n = bit (y AND mask 6) n" for n
      using 6 by (cases n "6 :: nat" rule: linorder_cases) (auto simp: bit_and_iff bit_mask_iff)
  qed
  then show "unat (y AND 0b1111111) = unat y mod 64" using m [of 6] by (simp add: mask_numeral)
qed

lemma sw_values: "sw (- 1) = - 1" "sw (lo32 x) = s32 (signed_take_bit 31 (sint x))" "sw (lo32 x) = s32 (take_bit 32 (uint x))"
proof -
  show "sw (- 1) = - 1" by (simp add: sw_def)
  have "sw (lo32 x) = sw (word_of_int (sint (lo32 x)))" "sw (lo32 x) = sw (word_of_int (uint (lo32 x)))" by simp_all
  then show "sw (lo32 x) = s32 (signed_take_bit 31 (sint x))" "sw (lo32 x) = s32 (take_bit 32 (uint x))"
    by (simp_all only: sw_s32 lo32_values)
qed

lemma lo32_eq: "lo32 x = word_of_int (sint x)" "lo32 x = word_of_int (uint x)"
  by (rule bit_word_eqI, simp add: bit_ucast_iff bit_signed_iff, rule ucast_eq)

lemma word_instructions:
  "sw (lo32 x + lo32 y) = s32 (sint x + sint y)" "sw (lo32 x - lo32 y) = s32 (sint x - sint y)"
  "sw (lo32 x * lo32 y) = s32 (sint x * sint y)" "sw (push_bit k (lo32 x)) = s32 (uint x * 2 ^ k)"
  "sw (drop_bit k (lo32 x)) = s32 (take_bit 32 (uint x) div 2 ^ k)"
  "sw (signed_drop_bit k (lo32 x)) = s32 (signed_take_bit 31 (sint x) div 2 ^ k)"
  subgoal by (simp only: lo32_eq(1) wi_hom_add sw_s32)
  subgoal by (simp only: lo32_eq(1) wi_hom_sub sw_s32)
  subgoal by (simp only: lo32_eq(1) wi_hom_mult sw_s32)
  subgoal
  proof -
    have "push_bit k (lo32 x) = word_of_int (uint x * 2 ^ k)"
      by (simp only: lo32_eq(2) push_bit_eq_mult of_int_mult of_int_power of_int_numeral)
    then show ?thesis by (simp only: sw_s32)
  qed
  subgoal unfolding word_ops(5) [of k "lo32 x"] by (simp only: sw_s32 lo32_values)
  subgoal unfolding word_ops(6) [of k "lo32 x"] by (simp only: sw_s32 lo32_values)
  done

lemma word_divisions:
  "sw (alu_div (lo32 x) (lo32 y)) = (if signed_take_bit 31 (sint y) = 0 then - 1
     else s32 (signed_take_bit 31 (sint x) sdiv signed_take_bit 31 (sint y)))"
  "sw (alu_rem (lo32 x) (lo32 y)) = (if signed_take_bit 31 (sint y) = 0 then s32 (signed_take_bit 31 (sint x))
     else s32 (signed_take_bit 31 (sint x) smod signed_take_bit 31 (sint y)))"
  "sw (alu_divu (lo32 x) (lo32 y)) = (if take_bit 32 (uint y) = 0 then - 1
     else s32 (take_bit 32 (uint x) div take_bit 32 (uint y)))"
  "sw (alu_remu (lo32 x) (lo32 y)) = (if take_bit 32 (uint y) = 0 then s32 (take_bit 32 (uint x))
     else s32 (take_bit 32 (uint x) mod take_bit 32 (uint y)))"
  unfolding alu_div_spec lo32_values
  subgoal by (simp only: if_distrib [of sw] sw_s32 sw_values(1))
  subgoal by (simp only: if_distrib [of sw] sw_s32 sw_values(2))
  subgoal by (simp only: if_distrib [of sw] sw_s32 sw_values(1))
  subgoal by (simp only: if_distrib [of sw] sw_s32 sw_values(3))
  done

text \<open>The instructions that compute a register from two registers.\<close>

lemma switch_map_of: "switch v cs d = (case map_of cs v of Some m \<Rightarrow> m | None \<Rightarrow> d)"
  by (induction v cs d rule: switch.induct) auto

lemma rr_keys:
  "fst ` set (rvi_reg d off s @ rvm_cases d off s) \<inter> fst ` set (rvi_jump d off s @ rvi_load_store M d off s @ rvi_imm d off s) = {}"
  by (simp add: rvi_reg_def rvm_cases_def rvi_jump_def rvi_load_store_def rvi_imm_def)

lemma exec_rr:
  assumes "map_of (rvi_reg d off s @ rvm_cases d off s) (dec_op d) = Some m"
  shows "exec_inst_rv64 M True True a d off s = m"
proof -
  have "dec_op d \<in> fst ` set (rvi_reg d off s @ rvm_cases d off s)" using assms by (metis map_of_eq_None_iff option.distinct(1))
  then have "dec_op d \<notin> fst ` set (rvi_jump d off s @ rvi_load_store M d off s @ rvi_imm d off s)"
    using rr_keys [of d off s M] by blast
  then have "map_of (rvi_jump d off s @ rvi_load_store M d off s @ rvi_imm d off s) (dec_op d) = None"
    by (simp only: map_of_eq_None_iff not_False_eq_True)
  then show ?thesis
    using assms unfolding exec_inst_rv64_def rv64_cases_def gate_def switch_map_of
    by (auto simp: map_add_def split: option.splits)
qed

text \<open>
  A shift takes seven bits of its second operand: with bit 6 set it is undefined in C++, unless the
  destination is register zero, where the code does not evaluate it.
\<close>

definition shift_undefined :: "decode \<Rightarrow> 'a cpu_scheme \<Rightarrow> opcode \<Rightarrow> bool" where
  "shift_undefined d s op \<longleftrightarrow> op \<in> {rv_op_sll, rv_op_srl, rv_op_sra} \<and> bit (rs2 d s) 6 \<and> dec_rd d \<noteq> 0"

definition rr_entry :: "decode \<Rightarrow> u64 \<Rightarrow> 'a cpu_scheme \<Rightarrow> opcode \<times> (u64, 'a cpu_scheme) outcome \<Rightarrow> opcode \<times> u64 \<Rightarrow> bool" where
  "rr_entry d off s e e' \<longleftrightarrow> fst e = fst e' \<and> snd e = (if shift_undefined d s (fst e) then Undefined else Ok off (set_rd d (snd e') s))"

lemma rr_entryI: "v = v' \<Longrightarrow> op \<notin> {rv_op_sll, rv_op_srl, rv_op_sra} \<Longrightarrow> rr_entry d off s (op, wr d v off s) (op, v')"
  by (simp add: rr_entry_def wr_def shift_undefined_def)

lemma rr_entry_shift64:
  assumes "op \<in> {rv_op_sll, rv_op_srl, rv_op_sra}"
    and "\<not> bit (rs2 d s) 6 \<Longrightarrow> unat (rs2 d s AND 0b1111111) < 64 \<and> f (unat (rs2 d s AND 0b1111111)) = v'"
  shows "rr_entry d off s (op, wr_shift 64 (rs2 d s AND 0b1111111) d f off s) (op, v')"
proof -
  have "\<not> unat (rs2 d s AND 0b1111111) < 64" if "bit (rs2 d s) 6"
  proof -
    have "bit (unat (rs2 d s AND 0b1111111)) 6" using that by (simp add: bit_unsigned_iff bit_and_iff)
    then show ?thesis by (auto simp: bit_iff_odd)
  qed
  then show ?thesis
    using assms unfolding rr_entry_def wr_shift_def wr_def shift_undefined_def set_rd_def by auto
qed

lemma rr_entry_shift32:
  "op \<notin> {rv_op_sll, rv_op_srl, rv_op_sra} \<Longrightarrow> unat k < 32 \<and> f (unat k) = v' \<Longrightarrow>
    rr_entry d off s (op, wr_shift 32 k d f off s) (op, v')"
  unfolding rr_entry_def wr_shift_def wr_def shift_undefined_def by auto

lemma rvi_reg_entries: "list_all2 (rr_entry d off s) (rvi_reg d off s) (rvi_spec (rs1 d s) (rs2 d s))"
proof -
  have b: "k mod 64 < (64 :: nat)" "k mod 32 < (32 :: nat)" for k by simp_all
  show ?thesis
    unfolding rvi_reg_def rvi_spec_def Let_def
    by (intro list.rel_intros rr_entryI rr_entry_shift64 rr_entry_shift32)
      (simp_all only: shift_amounts b word_instructions word_ops(1,2) [of "rs1 d s" "rs2 d s"]
        word_ops(4-6) [of _ "rs1 d s"] word_bitops [of "rs1 d s" "rs2 d s"] word_sless_alt word_less_def
        insert_iff empty_iff simp_thms rel_simps not_True_eq_False not_False_eq_True)
qed

lemma rvm_entries: "list_all2 (rr_entry d off s) (rvm_cases d off s) (rvm_spec (rs1 d s) (rs2 d s))"
proof -
  have high: "mulhu x y = word_of_int (uint x * uint y div 2 ^ 64)" "mulh x y = word_of_int (sint x * sint y div 2 ^ 64)"
    "mulhsu x y = word_of_int (sint x * uint y div 2 ^ 64)" for x y :: u64
    using mul_high [where 'a = 64 and q = 32, of x y] by simp_all
  show ?thesis
    unfolding rvm_cases_def rvm_spec_def Let_def
    by (intro list.rel_intros rr_entryI)
      (simp_all only: high word_divisions alu_div_spec [of "rs1 d s" "rs2 d s"] word_instructions word_ops(3) [of "rs1 d s" "rs2 d s"]
        insert_iff empty_iff simp_thms rel_simps not_True_eq_False not_False_eq_True)
qed

lemma map_of_rr:
  "list_all2 (rr_entry d off s) cs es \<Longrightarrow> map_of es op = Some v \<Longrightarrow>
    map_of cs op = Some (if shift_undefined d s op then Undefined else Ok off (set_rd d v s))"
  by (induction cs es rule: list_all2_induct) (auto simp: rr_entry_def split: if_splits)

text \<open>
  C12. Every register-register instruction of RV64I and RV64M writes to its destination what its
  description over the integers gives and continues with the next instruction, including the word
  instructions, the high multiplications, and division by zero and overflow; with one exception, which
  is exact: \<^verbatim>\<open>sll\<close>, \<^verbatim>\<open>srl\<close> and \<^verbatim>\<open>sra\<close> take seven bits of the second operand where the manual
  takes six, and with bit 6 of it set and a destination other than register zero they shift by the width
  of the word or more, which is undefined.
\<close>

theorem exec_alu_spec:
  assumes "map_of (alu_spec (rs1 d s) (rs2 d s)) (dec_op d) = Some v"
  shows "exec_inst_rv64 M True True a d off s =
    (if dec_op d \<in> {rv_op_sll, rv_op_srl, rv_op_sra} \<and> bit (rs2 d s) 6 \<and> dec_rd d \<noteq> 0 then Undefined
     else Ok off (set_rd d v s))"
proof (rule exec_rr)
  have "list_all2 (rr_entry d off s) (rvi_reg d off s @ rvm_cases d off s) (alu_spec (rs1 d s) (rs2 d s))"
    unfolding alu_spec_def by (intro list_all2_appendI rvi_reg_entries rvm_entries)
  from map_of_rr [OF this assms]
  show "map_of (rvi_reg d off s @ rvm_cases d off s) (dec_op d) = Some
    (if dec_op d \<in> {rv_op_sll, rv_op_srl, rv_op_sra} \<and> bit (rs2 d s) 6 \<and> dec_rd d \<noteq> 0 then Undefined
     else Ok off (set_rd d v s))"
    unfolding shift_undefined_def .
qed

section \<open>A concrete instruction\<close>

text \<open>\<^verbatim>\<open>divw a0, a1, a2\<close> with the operands of the overflow case.\<close>

definition example_divw :: decode where
  "example_divw = decode_init\<lparr>dec_op := rv_op_divw, dec_rd := 10, dec_rs1 := 11, dec_rs2 := 12\<rparr>"

definition example_regs :: "world hart" where
  "example_regs = example_hart\<lparr>ireg := (replicate 32 0)[11 := 0x80000000, 12 := - 1]\<rparr>"

theorem exec_alu_spec_witness:
  "exec_inst_rv64 soft_mmu True True True example_divw 4 example_regs = Ok 4 (set_rd example_divw 0xffffffff80000000 example_regs) \<and>
   exec_inst_rv64 soft_mmu True True True (example_divw\<lparr>dec_op := rv_op_srl\<rparr>) 4 example_regs = Undefined"
proof -
  have regs: "rs1 example_divw example_regs = 0x80000000" "rs2 example_divw example_regs = - 1"
    by (simp_all add: rs1_def rs2_def reg_def example_divw_def example_regs_def)
  have srl: "rs1 (example_divw\<lparr>dec_op := rv_op_srl\<rparr>) example_regs = 0x80000000"
    "rs2 (example_divw\<lparr>dec_op := rv_op_srl\<rparr>) example_regs = - 1"
    by (simp_all add: rs1_def rs2_def reg_def example_divw_def example_regs_def)
  have st: "signed_take_bit 31 (0x80000000 :: int) = - 0x80000000" by code_simp
  have "dec_op example_divw = rv_op_divw" by (simp add: example_divw_def)
  then have "exec_inst_rv64 soft_mmu True True True example_divw 4 example_regs = Ok 4 (set_rd example_divw 0xffffffff80000000 example_regs)"
    using exec_alu_spec [of example_divw example_regs "0xffffffff80000000" soft_mmu True 4]
    by (simp add: regs alu_spec_def rvi_spec_def rvm_spec_def s32_def Let_def st)
  moreover obtain v where "map_of (alu_spec (rs1 (example_divw\<lparr>dec_op := rv_op_srl\<rparr>) example_regs)
      (rs2 (example_divw\<lparr>dec_op := rv_op_srl\<rparr>) example_regs)) rv_op_srl = Some v"
    by (simp add: alu_spec_def rvi_spec_def Let_def)
  then have "exec_inst_rv64 soft_mmu True True True (example_divw\<lparr>dec_op := rv_op_srl\<rparr>) 4 example_regs = Undefined"
    using exec_alu_spec [of "example_divw\<lparr>dec_op := rv_op_srl\<rparr>" example_regs v soft_mmu True 4]
    unfolding srl by (simp add: bit_minus_1_iff) (simp add: example_divw_def)
  ultimately show ?thesis by blast
qed

text \<open>\<^verbatim>\<open>xor a0, a1, a2\<close> keeps the register file well formed.\<close>

theorem exec_inst_frame_witness:
  "\<exists>s'. exec_inst_rv64 soft_mmu True True True (example_divw\<lparr>dec_op := rv_op_xor\<rparr>) 4 example_regs = Ok 4 s' \<and>
    ireg_ok s' \<and> ireg s' ! 10 = - 0x80000001"
proof -
  let ?d = "example_divw\<lparr>dec_op := rv_op_xor\<rparr>"
  have "map_of (rvi_reg ?d 4 example_regs @ rvm_cases ?d 4 example_regs) (dec_op ?d) =
      Some (wr ?d (rs1 ?d example_regs XOR rs2 ?d example_regs) 4 example_regs)"
    by (simp add: rvi_reg_def)
  then have ex: "exec_inst_rv64 soft_mmu True True True ?d 4 example_regs = Ok 4 (set_rd ?d (- 0x80000001) example_regs)"
    by (subst exec_rr) (assumption, simp add: wr_def rs1_def rs2_def reg_def example_divw_def example_regs_def)
  have "ireg_ok example_regs" by (simp add: ireg_ok_def example_regs_def)
  then have "ireg_ok (set_rd ?d (- 0x80000001) example_regs)"
    using exec_inst_frame [of example_regs True True True ?d 4] unfolding ex by simp
  then show ?thesis unfolding ex by (simp add: set_rd_def example_regs_def example_divw_def)
qed

end
