(* ===== verification/Priv_Spec.thy ===== *)
theory Priv_Spec
  imports Priv Interp_Spec
begin

text \<open>
  Trap entry and return, the views of \<^verbatim>\<open>mstatus\<close>, the order of interrupts, and where the
  privileged model departs from the architecture.
\<close>

unbundle bit_operations_syntax

section \<open>Trap entry and return\<close>

lemma fits_mask: "unat (m :: u64) < 2 ^ n \<Longrightarrow> m AND mask n = m"
proof -
  assume "unat m < 2 ^ n"
  then have "unat (take_bit n m) = unat m" unfolding unsigned_take_bit_eq by (rule take_bit_nat_eq_self)
  then show ?thesis by (simp add: take_bit_eq_mask word_unat_eq_iff)
qed

lemma mode_bits: "m \<le> 3 \<Longrightarrow> (m :: u64) AND mask 2 = m" "m \<le> 1 \<Longrightarrow> (m :: u64) AND mask 1 = m"
  using fits_mask [of m 2] fits_mask [of m 1] by (auto simp: word_le_nat_alt)

lemma one_bit: "bits_get lo 1 x AND mask 1 = bits_get lo 1 x"
  by (simp add: bits_get_def and.assoc)

text \<open>
  C25. Trap entry and return are inverse. A machine trap without a debugger saves the program counter
  and the cause, disables machine interrupts, enters machine mode at the trap vector, and a following
  \<^verbatim>\<open>mret\<close> returns to the interrupted instruction in the interrupted mode with the interrupt enable
  of before; the same holds of a supervisor trap from user or supervisor mode and \<^verbatim>\<open>sret\<close>.
\<close>

theorem trap_return_round_trip:
  assumes "\<not> debugging s"
  shows "(mode s \<le> rv_mode_M \<longrightarrow> (\<exists>s1 off s2. mtrap cause b s = Ok () s1 \<and> mode s1 = rv_mode_M \<and> pc s1 = mtvec s \<and>
      mepc s1 = pc s \<and> mcause s1 = of_nat cause OR (if b then push_bit 63 1 else 0) \<and> status_mie s1 = 0 \<and>
      mret s1 = Ok off s2 \<and> pc s2 + off = pc s \<and> mode s2 = mode s \<and> status_mie s2 = status_mie s)) \<and>
    (mode s \<le> rv_mode_S \<longrightarrow> (\<exists>s1 off s2. strap cause b s = Ok () s1 \<and> mode s1 = rv_mode_S \<and> pc s1 = stvec s \<and>
      sepc s1 = pc s \<and> scause s1 = of_nat cause OR (if b then push_bit 63 1 else 0) \<and> status_sie s1 = 0 \<and>
      sret s1 = Ok off s2 \<and> pc s2 + off = pc s \<and> mode s2 = mode s \<and> status_sie s2 = status_sie s))"
  using assms mode_bits [of "mode s"] one_bit
  by (simp add: mtrap_def mret_def strap_def sret_def trap_cli_def Let_def)

theorem trap_return_round_trip_witness:
  "\<exists>s1 off s2. mtrap rv_cause_breakpoint False example_hart = Ok () s1 \<and> mode s1 = rv_mode_M \<and>
    mret s1 = Ok off s2 \<and> pc s2 + off = pc example_hart \<and> mode s2 = mode example_hart"
proof -
  have "\<not> debugging example_hart" "mode example_hart \<le> rv_mode_M" by (simp_all add: example_hart_def hart_init_def)
  then show ?thesis using trap_return_round_trip [of example_hart rv_cause_breakpoint False] by blast
qed







section \<open>Interrupts\<close>

text \<open>Whether a pending source is enabled for machine mode, and for supervisor mode.\<close>

definition m_enabled :: "nat \<Rightarrow> 'w hart \<Rightarrow> bool" where
  "m_enabled irq s \<longleftrightarrow> status_mie s \<noteq> 0 \<and> bits_get irq 1 (mie s) \<noteq> 0"

definition s_enabled :: "nat \<Rightarrow> 'w hart \<Rightarrow> bool" where
  "s_enabled irq s \<longleftrightarrow> status_sie s \<noteq> 0 \<and> bits_get irq 1 (mie s) \<noteq> 0"

text \<open>Entering the handler of an interrupt.\<close>

definition interrupted :: "nat \<Rightarrow> nat \<Rightarrow> 'w hart \<Rightarrow> 'w hart \<Rightarrow> bool" where
  "interrupted m q s s' \<longleftrightarrow>
     (if m_enabled m s
      then mode s' = rv_mode_M \<and> pc s' = mtvec s \<and> mepc s' = pc s \<and> mcause s' = of_nat m OR push_bit 63 1 \<and> status_mie s' = 0
      else s_enabled q s \<and> mode s' = rv_mode_S \<and> pc s' = stvec s \<and> sepc s' = pc s \<and>
        scause s' = of_nat q OR push_bit 63 1 \<and> status_sie s' = 0)"

definition only_pending :: "'w hart \<Rightarrow> 'w hart \<Rightarrow> bool" where
  "only_pending s s' \<longleftrightarrow> (\<exists>p. s' = s\<lparr>mip := p\<rparr>)"

definition takes :: "nat \<Rightarrow> nat \<Rightarrow> bool \<Rightarrow> 'w hart \<Rightarrow> bool" where
  "takes m q p s \<longleftrightarrow> p \<and> (m_enabled m s \<or> s_enabled q s)"

lemma only_pending_fields:
  assumes "only_pending s s'"
  shows "m_enabled m s' = m_enabled m s" "s_enabled q s' = s_enabled q s" "interrupted m q s' s'' = interrupted m q s s''"
    "only_pending s' s'' \<Longrightarrow> only_pending s s''" "debugging s' = debugging s" "takes m q p s' = takes m q p s"
  using assms by (auto simp: only_pending_def m_enabled_def s_enabled_def interrupted_def takes_def)

lemma interrupted_trap:
  "\<not> debugging s \<Longrightarrow> m_enabled m s \<Longrightarrow> \<exists>s'. mtrap m True s = Ok () s' \<and> interrupted m q s s'"
  "\<not> debugging s \<Longrightarrow> \<not> m_enabled m s \<Longrightarrow> s_enabled q s \<Longrightarrow> \<exists>s'. strap q True s = Ok () s' \<and> interrupted m q s s'"
  by (simp_all add: mtrap_def strap_def trap_cli_def interrupted_def Let_def)

lemma isr_source_result:
  assumes "\<not> debugging s"
  shows "\<exists>s'. isr_source m q p s = Ok (takes m q p s) s' \<and>
    (if takes m q p s then interrupted m q s s' else only_pending s s')"
proof -
  define s1 where "s1 = s\<lparr>mip := bits_set q 1 (of_bool p) (bits_set m 1 (of_bool p) (mip s))\<rparr>"
  have u: "only_pending s s1" unfolding s1_def only_pending_def by blast
  have src: "isr_source m q p s = (if p then if m_enabled m s1 then bind_ok (mtrap m True s1) (\<lambda>u. Ok True)
      else if s_enabled q s1 then bind_ok (strap q True s1) (\<lambda>u. Ok True) else Ok False s1 else Ok False s1)"
    unfolding isr_source_def Let_def m_enabled_def s_enabled_def s1_def ..
  have "\<not> debugging s1" using assms by (simp add: only_pending_fields(5) [OF u])
  note m = interrupted_trap(1) [OF this, of m q] and q = interrupted_trap(2) [OF this, of m q]
  consider "p" "m_enabled m s" | "p" "\<not> m_enabled m s" "s_enabled q s" | "\<not> takes m q p s"
    unfolding takes_def by blast
  then show ?thesis
  proof cases
    case 1
    then show ?thesis using m unfolding src only_pending_fields(1-3) [OF u] by (auto simp: takes_def)
  next
    case 2
    then show ?thesis using q unfolding src only_pending_fields(1-3) [OF u] by (auto simp: takes_def)
  next
    case 3
    then show ?thesis using u unfolding src only_pending_fields(1-3) [OF u] by (auto simp: takes_def)
  qed
qed

text \<open>
  C26. The interrupt service routine takes exactly one interrupt when a pending one is enabled, and
  none otherwise: external before timer before software, each for machine mode before supervisor
  mode. It enters the handler with the interrupted program counter saved, the interrupt number as
  cause and interrupts of that mode disabled; when it takes none it changes only the pending bits.
\<close>

theorem isr_order:
  assumes "\<not> debugging s"
  shows "\<exists>s'. isr eip tip sip s = Ok () s' \<and>
    (if takes 11 9 eip s then interrupted 11 9 s s'
     else if takes 7 5 tip s then interrupted 7 5 s s'
     else if takes 3 1 sip s then interrupted 3 1 s s'
     else only_pending s s')"
proof -
  obtain s1 where 1: "isr_source 11 9 eip s = Ok (takes 11 9 eip s) s1"
    "if takes 11 9 eip s then interrupted 11 9 s s1 else only_pending s s1"
    using isr_source_result [OF assms] by blast
  show ?thesis
  proof (cases "takes 11 9 eip s")
    case True
    then show ?thesis using 1 by (simp add: isr_def)
  next
    case f1: False
    then have u1: "only_pending s s1" using 1(2) by simp
    then have "\<not> debugging s1" using assms by (simp add: only_pending_fields(5))
    then obtain s2 where 2: "isr_source 7 5 tip s1 = Ok (takes 7 5 tip s) s2"
      "if takes 7 5 tip s then interrupted 7 5 s s2 else only_pending s1 s2"
      using isr_source_result [of s1 7 5 tip] unfolding only_pending_fields(3,6) [OF u1] by blast
    show ?thesis
    proof (cases "takes 7 5 tip s")
      case True
      then show ?thesis using 1 2 f1 by (simp add: isr_def)
    next
      case f2: False
      then have u2: "only_pending s s2" using 2(2) only_pending_fields(4) [OF u1] by simp
      then have "\<not> debugging s2" using assms by (simp add: only_pending_fields(5))
      then obtain s3 where 3: "isr_source 3 1 sip s2 = Ok (takes 3 1 sip s) s3"
        "if takes 3 1 sip s then interrupted 3 1 s s3 else only_pending s2 s3"
        using isr_source_result [of s2 3 1 sip] unfolding only_pending_fields(3,6) [OF u2] by blast
      have "isr eip tip sip s = Ok () s3" using 1 2 3 f1 f2 by (simp add: isr_def)
      then show ?thesis using 3(2) f1 f2 only_pending_fields(4) [OF u2] by (auto split: if_splits)
    qed
  qed
qed

theorem isr_order_witness:
  "\<exists>s'. isr False True True (example_hart\<lparr>mstatus := 0x8, mie := 0x88\<rparr>) = Ok () s' \<and>
    interrupted 7 5 (example_hart\<lparr>mstatus := 0x8, mie := 0x88\<rparr>) s'"
proof -
  have "takes 7 5 True (example_hart\<lparr>mstatus := 0x8, mie := 0x88\<rparr>)" by (simp add: takes_def m_enabled_def bits_get_def)
  moreover have "\<not> takes 11 9 False (example_hart\<lparr>mstatus := 0x8, mie := 0x88\<rparr>)" by (simp add: takes_def)
  moreover have "\<not> debugging (example_hart\<lparr>mstatus := 0x8, mie := 0x88\<rparr>)" by (simp add: example_hart_def hart_init_def)
  ultimately show ?thesis
    using isr_order [of "example_hart\<lparr>mstatus := 0x8, mie := 0x88\<rparr>" False True True] by (simp only: if_True if_False not_False_eq_True simp_thms)
qed

text \<open>
  The routine does not look at the current mode: a supervisor interrupt that is enabled is taken in
  machine mode, which it leaves for supervisor mode. The architecture disables the interrupts of less
  privileged modes there.
\<close>

theorem isr_leaves_machine_mode:
  assumes "\<not> debugging s" "mode s = rv_mode_M" "\<not> m_enabled 11 s" "s_enabled 9 s"
  shows "\<exists>s'. isr True tip sip s = Ok () s' \<and> mode s' = rv_mode_S"
proof -
  obtain s' where "isr_source 11 9 True s = Ok True s'" "interrupted 11 9 s s'"
    using isr_source_result [OF assms(1), of 11 9 True] assms(4) by (auto simp: takes_def)
  then show ?thesis using assms(3) by (auto simp: isr_def interrupted_def)
qed

section \<open>Control and status registers\<close>








text \<open>
  The write of a register is not guarded by the mode: in user mode \<^verbatim>\<open>csrrw\<close> reads 0 from
  \<^verbatim>\<open>mtvec\<close> and yet sets it, where the architecture raises an illegal instruction exception.
\<close>

theorem user_writes_machine_csr:
  assumes "mode s = rv_mode_U"
  shows "inst_csr env d Csr_rw rv_csr_mtvec v off s = Ok off ((set_rd_csr d 0 s)\<lparr>mtvec := v\<rparr>)"
  unfolding inst_csr_def user_csrs_def machine_csrs_def append_Cons append_Nil
  using assms by (simp add: set_csr_def csr_mode_def csr_readonly_def)

end
