(* ===== verification/Runloop.thy ===== *)
theory Runloop
  imports Priv_Spec Codec
begin

text \<open>
  The run loop, \<^verbatim>\<open>processor_runloop\<close> of \<^verbatim>\<open>src/src/emu/processor-runloop.h\<close>: fetch, the cache of
  decoded instructions, execution, and the path that an exception takes through \<^verbatim>\<open>setjmp\<close>. The
  class is a template in the processor; \<open>proc_ops\<close> holds the members of it that the loop calls.
\<close>

unbundle bit_operations_syntax

section \<open>The processor of the loop\<close>

text \<open>
  \<open>p_ckpt\<close> is the call of \<^verbatim>\<open>checkpoint.fetch\<close>. \<^verbatim>\<open>checkpoint.execute\<close>, the log and the printing
  of registers only write to the console and are left out.
\<close>

record 's proc_ops =
  p_fetch :: "u64 \<Rightarrow> u64 \<Rightarrow> 's \<Rightarrow> (u64 \<times> u64, 's) outcome"
  p_decode :: "decode \<Rightarrow> u64 \<Rightarrow> decode"
  p_ckpt :: "decode \<Rightarrow> u64 \<Rightarrow> u64 \<Rightarrow> u64 \<Rightarrow> 's \<Rightarrow> (unit, 's) outcome"
  p_exec :: "decode \<Rightarrow> u64 \<Rightarrow> 's \<Rightarrow> (u64, 's) outcome"
  p_priv :: "decode \<Rightarrow> u64 \<Rightarrow> 's \<Rightarrow> (u64, 's) outcome"
  p_isr :: "'s \<Rightarrow> (unit, 's) outcome"
  p_trap :: "decode \<Rightarrow> nat \<Rightarrow> 's \<Rightarrow> (unit, 's) outcome"

type_synonym inst_cache = "(u64 \<times> decode) list"

definition inst_cache_size :: nat where
  "inst_cache_size = 8191"

text \<open>The constructor value-initialises the cache.\<close>

definition inst_cache_init :: inst_cache where
  "inst_cache_init = replicate inst_cache_size (0, decode_init)"

text \<open>
  The state of a call of \<^verbatim>\<open>step\<close>: the processor, the local variables \<^verbatim>\<open>dec\<close> and \<^verbatim>\<open>pc_offset\<close>, which
  keep their values across iterations, and the cache.
\<close>

record 's runner =
  proc :: 's
  cur_dec :: decode
  cur_offset :: u64
  icache :: inst_cache

datatype exit_cause = exit_cause_continue | exit_cause_cli | exit_cause_poweroff

section \<open>One iteration\<close>

definition cache_key :: "u64 \<Rightarrow> nat" where
  "cache_key inst = unat (inst mod of_nat inst_cache_size)"

definition cached_decode :: "'s proc_ops \<Rightarrow> decode \<Rightarrow> u64 \<Rightarrow> inst_cache \<Rightarrow> decode \<times> inst_cache" where
  "cached_decode P dec inst cache =
     (let k = cache_key inst in
      if fst (cache ! k) = inst then (snd (cache ! k), cache)
      else let d = p_decode P dec inst in (d, cache[k := (inst, d)]))"

text \<open>The state of the processor inside the state of the loop.\<close>

fun on_proc :: "('a, 's) outcome \<Rightarrow> 's runner \<Rightarrow> ('a, 's runner) outcome" where
  "on_proc (Ok a s) r = Ok a (r\<lparr>proc := s\<rparr>)"
| "on_proc (Raised c s) r = Raised c (r\<lparr>proc := s\<rparr>)"
| "on_proc Panicked r = Panicked"
| "on_proc Undefined r = Undefined"

text \<open>\<^verbatim>\<open>inst_exec\<close>, and \<^verbatim>\<open>inst_priv\<close> when it returns \<^verbatim>\<open>-1\<close>.\<close>

definition exec_or_priv :: "'s proc_ops \<Rightarrow> decode \<Rightarrow> u64 \<Rightarrow> 's \<Rightarrow> (u64, 's) outcome" where
  "exec_or_priv P d off s =
     bind_ok (p_exec P d off s) (\<lambda>new_offset s'. if new_offset \<noteq> - 1 then Ok new_offset s' else p_priv P d off s')"

definition retire :: "u64 \<Rightarrow> 'a cpu_scheme \<Rightarrow> 'a cpu_scheme" where
  "retire new_offset s = s\<lparr>pc := pc s + new_offset, instret := instret s + 1\<rparr>"

definition execute :: "'a cpu_scheme proc_ops \<Rightarrow> decode \<Rightarrow> u64 \<Rightarrow> 'a cpu_scheme \<Rightarrow> (unit, 'a cpu_scheme) outcome" where
  "execute P d off s =
     bind_ok (exec_or_priv P d off s) (\<lambda>new_offset s'.
       if new_offset \<noteq> - 1 then Ok () (retire new_offset s')
       else raise_ex rv_cause_illegal_instruction (pc s') s')"

text \<open>The body of the \<^verbatim>\<open>while\<close>; \<open>True\<close> means that it leaves for the debugger at a breakpoint.\<close>

definition loop_body :: "'a cpu_scheme proc_ops \<Rightarrow> 'a cpu_scheme runner \<Rightarrow> (bool, 'a cpu_scheme runner) outcome" where
  "loop_body P r =
     (let s = proc r in
      if pc s = breakpoint s \<and> breakpoint s \<noteq> 0 then Ok True r
      else bind_ok (on_proc (p_fetch P (pc s) (cur_offset r) s) r) (\<lambda>(inst, off) r1.
        let (d, cache) = cached_decode P (cur_dec r1) inst (icache r1);
          r2 = r1\<lparr>cur_offset := off, cur_dec := d, icache := cache\<rparr>;
          s2 = proc r2
        in bind_ok (on_proc (p_ckpt P d (pc s2) inst off s2) r2) (\<lambda>u r3.
          bind_ok (on_proc (execute P d off (proc r3)) r3) (\<lambda>u. Ok False))))"

section \<open>A call of step\<close>

text \<open>
  The control points of \<^verbatim>\<open>step\<close>: the head of the \<^verbatim>\<open>while\<close> loop, or the return of \<^verbatim>\<open>setjmp\<close> with the
  cause of an exception. An exception that is raised while a trap is handled returns there again.
\<close>

datatype control = Loop | Caught nat

datatype 's progress = Next control "'s runner" | Leave exit_cause "'s runner" | Stuck

fun after_trap :: "(unit, 'a cpu_scheme runner) outcome \<Rightarrow> 'a cpu_scheme progress" where
  "after_trap (Ok u r) = (if running (proc r) then Next Loop r else Leave exit_cause_poweroff r)"
| "after_trap (Raised c r) = Next (Caught c) r"
| "after_trap Panicked = Stuck"
| "after_trap Undefined = Stuck"

fun after_body :: "(bool, 's runner) outcome \<Rightarrow> 's progress" where
  "after_body (Ok b r) = (if b then Leave exit_cause_cli r else Next Loop r)"
| "after_body (Raised c r) = Next (Caught c) r"
| "after_body Panicked = Stuck"
| "after_body Undefined = Stuck"

definition step_control :: "'a cpu_scheme proc_ops \<Rightarrow> u64 \<Rightarrow> control \<Rightarrow> 'a cpu_scheme runner \<Rightarrow> 'a cpu_scheme progress" where
  "step_control P inststop c r = (case c of
       Caught cause \<Rightarrow>
         if cause = internal_cause_cli then Leave exit_cause_cli r
         else if cause = internal_cause_fatal \<or> cause = internal_cause_poweroff then Leave exit_cause_poweroff r
         else after_trap (on_proc (p_trap P (cur_dec r) cause (proc r)) r)
     | Loop \<Rightarrow>
         if instret (proc r) = inststop then Leave exit_cause_continue r
         else after_body (loop_body P r))"

text \<open>
  \<^verbatim>\<open>step\<close> runs until it leaves. A guest that keeps trapping or that writes \<^verbatim>\<open>minstret\<close> may never reach
  the count, and then the result is \<open>None\<close>. \<^verbatim>\<open>isr\<close> is called before \<^verbatim>\<open>setjmp\<close>: an exception there
  would jump into a frame that is gone.
\<close>

partial_function (option) step_from ::
  "'a cpu_scheme proc_ops \<Rightarrow> u64 \<Rightarrow> control \<Rightarrow> 'a cpu_scheme runner \<Rightarrow> 'a cpu_scheme progress option" where
  "step_from P inststop c r = (case step_control P inststop c r of
       Next c' r' \<Rightarrow> step_from P inststop c' r'
     | Leave e r' \<Rightarrow> Some (Leave e r')
     | Stuck \<Rightarrow> Some Stuck)"

definition step :: "'a cpu_scheme proc_ops \<Rightarrow> u64 \<Rightarrow> u64 \<Rightarrow> 'a cpu_scheme runner \<Rightarrow> 'a cpu_scheme progress option" where
  "step P clock count r =
     (let s = proc r; inststop = instret s + count in
      case p_isr P (s\<lparr>cpu_time := clock\<rparr>) of
        Ok u s' \<Rightarrow> step_from P inststop Loop (r\<lparr>proc := s', cur_dec := decode_init\<rparr>)
      | Raised c s' \<Rightarrow> Some Stuck
      | Panicked \<Rightarrow> Some Stuck
      | Undefined \<Rightarrow> Some Stuck)"

section \<open>The system emulator\<close>

text \<open>\<^verbatim>\<open>RV_64\<close> with \<^verbatim>\<open>RV_IMAC\<close>\<close>

definition isa_rv64imac :: isa where
  "isa_rv64imac = \<lparr>rv32 = False, rv64 = True, rv128 = False, rvi = True, rvm = True, rva = True,
     rvs = True, rvf = False, rvd = False, rvq = False, rvc = True\<rparr>"

text \<open>\<^verbatim>\<open>inst_decode\<close> of \<^verbatim>\<open>processor_rv64imac_model\<close>\<close>

definition inst_decode :: "decode \<Rightarrow> u64 \<Rightarrow> decode" where
  "inst_decode dec inst = decompress_inst_rv64 (decode_inst isa_rv64imac dec inst)"

text \<open>
  \<^verbatim>\<open>processor_privileged\<close> on \<^verbatim>\<open>processor_rv64imac_model\<close> and \<^verbatim>\<open>mmu_soft_rv64\<close>. \<open>env\<close> is the host
  and \<open>irqs\<close> what the devices report. The system emulator opens no checkpoint file, so the call of
  \<^verbatim>\<open>checkpoint.fetch\<close> returns at once.
\<close>

definition priv_rv64imac :: "host_env \<Rightarrow> bool \<times> bool \<times> bool \<Rightarrow> 'w hart proc_ops" where
  "priv_rv64imac env irqs = \<lparr>
     p_fetch = mmu_inst_fetch,
     p_decode = inst_decode,
     p_ckpt = (\<lambda>d a inst off s. Ok () s),
     p_exec = exec_inst_rv64 soft_mmu True True True,
     p_priv = inst_priv env,
     p_isr = (case irqs of (eip, tip, sip) \<Rightarrow> isr eip tip sip),
     p_trap = trap\<rparr>"

end
