(* ===== verification/Runloop_Spec.thy ===== *)
theory Runloop_Spec
  imports Runloop
begin

text \<open>
  What the run loop guarantees: the cache of decoded instructions is invisible, the state of the hart
  stays well formed, and a call of \<^verbatim>\<open>step\<close> that meets no exception retires the number of
  instructions it was asked for.
\<close>

unbundle bit_operations_syntax

section \<open>Runs\<close>

text \<open>\<open>n\<close> control steps of a call of \<^verbatim>\<open>step\<close>, or fewer when it leaves before.\<close>

fun run_steps :: "'a cpu_scheme proc_ops \<Rightarrow> u64 \<Rightarrow> nat \<Rightarrow> control \<Rightarrow> 'a cpu_scheme runner \<Rightarrow> 'a cpu_scheme progress" where
  "run_steps P stop 0 c r = Next c r"
| "run_steps P stop (Suc n) c r = (case step_control P stop c r of
      Next c' r' \<Rightarrow> run_steps P stop n c' r' | Leave e r' \<Rightarrow> Leave e r' | Stuck \<Rightarrow> Stuck)"

fun final :: "'s progress \<Rightarrow> bool" where
  "final (Next c r) = False"
| "final _ = True"

lemma step_from_run:
  "final x \<Longrightarrow> run_steps P stop n c r = x \<Longrightarrow> step_from P stop c r = Some x"
proof (induction n arbitrary: c r)
  case (Suc n)
  then show ?case by (subst step_from.simps) (auto split: progress.splits)
qed auto

lemma run_step_from:
  assumes "step_from P stop c r = Some x"
  shows "\<exists>n. run_steps P stop n c r = x \<and> final x"
proof (rule step_from.raw_induct [of "\<lambda>(((P, stop), c), r) x. \<exists>n. run_steps P stop n c r = x \<and> final x" P stop c r x,
      unfolded curry_def prod.case, OF _ assms])
  fix f P stop c r x
  assume IH: "\<And>P stop c r x. f P stop c r = Some x \<Longrightarrow> \<exists>n. run_steps P stop n c r = x \<and> final x"
    and x: "(case step_control P stop c r of Next c' r' \<Rightarrow> f P stop c' r' | Leave e r' \<Rightarrow> Some (Leave e r') | Stuck \<Rightarrow> Some Stuck) = Some x"
  show "\<exists>n. run_steps P stop n c r = x \<and> final x"
  proof (cases "step_control P stop c r")
    case (Next c' r')
    then obtain n where "run_steps P stop n c' r' = x" "final x" using IH x by fastforce
    then show ?thesis using Next by (intro exI [of _ "Suc n"]) simp
  next
    case (Leave e r')
    then have "x = Leave e r'" using x by simp
    then have "run_steps P stop (Suc 0) c r = x \<and> final x" by (simp add: Leave)
    then show ?thesis ..
  next
    case Stuck
    then have "x = Stuck" using x by simp
    then have "run_steps P stop (Suc 0) c r = x \<and> final x" by (simp add: Stuck)
    then show ?thesis ..
  qed
qed

section \<open>The cache of decoded instructions\<close>

text \<open>
  Two decoded instructions that no member of the processor tells apart: the same opcode, and the same
  operands when it is a legal one. Decoding leaves the other fields of the variable it writes to as
  they were.
\<close>

definition dec_same :: "decode \<Rightarrow> decode \<Rightarrow> bool" where
  "dec_same d d' \<longleftrightarrow> dec_op d = dec_op d' \<and> (dec_op d \<noteq> rv_op_illegal \<longrightarrow>
     dec_rd d = dec_rd d' \<and> dec_rs1 d = dec_rs1 d' \<and> dec_rs2 d = dec_rs2 d' \<and> dec_imm d = dec_imm d')"

text \<open>The loop without the cache: it decodes every instruction.\<close>

definition loop_body_ref :: "'a cpu_scheme proc_ops \<Rightarrow> 'a cpu_scheme runner \<Rightarrow> (bool, 'a cpu_scheme runner) outcome" where
  "loop_body_ref P r =
     (let s = proc r in
      if pc s = breakpoint s \<and> breakpoint s \<noteq> 0 then Ok True r
      else bind_ok (on_proc (p_fetch P (pc s) (cur_offset r) s) r) (\<lambda>(inst, off) r1.
        let d = p_decode P decode_init inst; r2 = r1\<lparr>cur_offset := off, cur_dec := d\<rparr>
        in bind_ok (on_proc (p_ckpt P d (pc (proc r2)) inst off (proc r2)) r2) (\<lambda>u r3.
          bind_ok (on_proc (execute P d off (proc r3)) r3) (\<lambda>u. Ok False))))"

definition step_control_ref :: "'a cpu_scheme proc_ops \<Rightarrow> u64 \<Rightarrow> control \<Rightarrow> 'a cpu_scheme runner \<Rightarrow> 'a cpu_scheme progress" where
  "step_control_ref P stop c r =
     (if c = Loop \<and> instret (proc r) \<noteq> stop then after_body (loop_body_ref P r) else step_control P stop c r)"

fun run_ref :: "'a cpu_scheme proc_ops \<Rightarrow> u64 \<Rightarrow> nat \<Rightarrow> control \<Rightarrow> 'a cpu_scheme runner \<Rightarrow> 'a cpu_scheme progress" where
  "run_ref P stop 0 c r = Next c r"
| "run_ref P stop (Suc n) c r = (case step_control_ref P stop c r of
      Next c' r' \<Rightarrow> run_ref P stop n c' r' | Leave e r' \<Rightarrow> Leave e r' | Stuck \<Rightarrow> Stuck)"

text \<open>No iteration of the run fetches the all-zero word.\<close>

fun fetched_zero :: "(u64 \<times> u64, 's) outcome \<Rightarrow> bool" where
  "fetched_zero (Ok (inst, off) s) = (inst = 0)"
| "fetched_zero _ = False"

fun zero_free :: "'a cpu_scheme proc_ops \<Rightarrow> u64 \<Rightarrow> nat \<Rightarrow> control \<Rightarrow> 'a cpu_scheme runner \<Rightarrow> bool" where
  "zero_free P stop 0 c r = True"
| "zero_free P stop (Suc n) c r =
     ((c = Loop \<longrightarrow> \<not> fetched_zero (p_fetch P (pc (proc r)) (cur_offset r) (proc r))) \<and>
      (case step_control_ref P stop c r of Next c' r' \<Rightarrow> zero_free P stop n c' r' | _ \<Rightarrow> True))"

text \<open>States that agree on all but the cache.\<close>

definition same_runner :: "'s runner \<Rightarrow> 's runner \<Rightarrow> bool" where
  "same_runner r r' \<longleftrightarrow> proc r = proc r' \<and> cur_offset r = cur_offset r' \<and> dec_same (cur_dec r) (cur_dec r')"

fun same_progress :: "'s progress \<Rightarrow> 's progress \<Rightarrow> bool" where
  "same_progress (Next c r) (Next c' r') \<longleftrightarrow> c = c' \<and> same_runner r r'"
| "same_progress (Leave e r) (Leave e' r') \<longleftrightarrow> e = e' \<and> same_runner r r'"
| "same_progress Stuck Stuck \<longleftrightarrow> True"
| "same_progress _ _ \<longleftrightarrow> False"

definition cache_ok :: "'s proc_ops \<Rightarrow> inst_cache \<Rightarrow> bool" where
  "cache_ok P C \<longleftrightarrow> length C = inst_cache_size \<and>
     (\<forall>inst. inst \<noteq> 0 \<longrightarrow> fst (C ! cache_key inst) = inst \<longrightarrow> dec_same (snd (C ! cache_key inst)) (p_decode P decode_init inst))"

lemma cache_key_bound: "cache_key inst < inst_cache_size"
proof -
  have "unat (inst mod of_nat inst_cache_size) = unat inst mod inst_cache_size"
    by (simp add: unat_mod inst_cache_size_def)
  then show ?thesis by (simp add: cache_key_def inst_cache_size_def)
qed

lemma cache_ok_init: "cache_ok P inst_cache_init"
  by (simp add: cache_ok_def inst_cache_init_def cache_key_bound)

text \<open>The simulation relation, lifted to the results of the operations.\<close>

definition sim :: "'s proc_ops \<Rightarrow> 's runner \<Rightarrow> 's runner \<Rightarrow> bool" where
  "sim P r r' \<longleftrightarrow> same_runner r r' \<and> cache_ok P (icache r)"

fun sim_outcome :: "'s proc_ops \<Rightarrow> ('a, 's runner) outcome \<Rightarrow> ('a, 's runner) outcome \<Rightarrow> bool" where
  "sim_outcome P (Ok a r) (Ok a' r') \<longleftrightarrow> a = a' \<and> sim P r r'"
| "sim_outcome P (Raised c r) (Raised c' r') \<longleftrightarrow> c = c' \<and> sim P r r'"
| "sim_outcome P Panicked Panicked \<longleftrightarrow> True"
| "sim_outcome P Undefined Undefined \<longleftrightarrow> True"
| "sim_outcome P _ _ \<longleftrightarrow> False"

fun sim_progress :: "'s proc_ops \<Rightarrow> 's progress \<Rightarrow> 's progress \<Rightarrow> bool" where
  "sim_progress P (Next c r) (Next c' r') \<longleftrightarrow> c = c' \<and> sim P r r'"
| "sim_progress P (Leave e r) (Leave e' r') \<longleftrightarrow> e = e' \<and> sim P r r'"
| "sim_progress P Stuck Stuck \<longleftrightarrow> True"
| "sim_progress P _ _ \<longleftrightarrow> False"

lemma sim_same: "sim_progress P x y \<Longrightarrow> same_progress x y"
  by (cases x; cases y) (auto simp: sim_def)

lemma sim_on_proc: "sim P r r' \<Longrightarrow> sim_outcome P (on_proc m r) (on_proc m r')"
  by (cases m) (auto simp: sim_def same_runner_def)

lemma sim_bind:
  "sim_outcome P m m' \<Longrightarrow> (\<And>a r r'. m = Ok a r \<Longrightarrow> sim P r r' \<Longrightarrow> sim_outcome P (f a r) (f' a r')) \<Longrightarrow>
    sim_outcome P (bind_ok m f) (bind_ok m' f')"
  by (cases m; cases m') auto

lemma sim_after_body: "sim_outcome P m m' \<Longrightarrow> sim_progress P (after_body m) (after_body m')"
  by (cases m; cases m') auto

lemma sim_after_trap: "sim_outcome P m m' \<Longrightarrow> sim_progress P (after_trap m) (after_trap m')"
  by (cases m; cases m') (auto simp: sim_def same_runner_def)

text \<open>
  The contract between the loop and the processor: what an instruction does depends on its decoding
  only up to \<open>dec_same\<close>, and decoding does not depend on the earlier contents of the variable.
\<close>

locale decoding_processor =
  fixes P :: "'a cpu_scheme proc_ops"
  assumes decode_same: "dec_same (p_decode P d inst) (p_decode P d' inst)"
    and ckpt_same: "dec_same d d' \<Longrightarrow> p_ckpt P d a inst off s = p_ckpt P d' a inst off s"
    and exec_same: "dec_same d d' \<Longrightarrow> p_exec P d off s = p_exec P d' off s"
    and priv_same: "dec_same d d' \<Longrightarrow> p_priv P d off s = p_priv P d' off s"
    and trap_same: "dec_same d d' \<Longrightarrow> p_trap P d cause s = p_trap P d' cause s"
begin

lemma cached_decode_ok:
  assumes "cache_ok P C" "inst \<noteq> 0" "cached_decode P dec inst C = (d, C')"
  shows "dec_same d (p_decode P decode_init inst)" "cache_ok P C'"
proof -
  have "dec_same d (p_decode P decode_init inst) \<and> cache_ok P C'"
  proof (cases "fst (C ! cache_key inst) = inst")
    case True
    then have "(d, C') = (snd (C ! cache_key inst), C)" unfolding assms(3) [symmetric] by (simp add: cached_decode_def Let_def)
    then have "d = snd (C ! cache_key inst)" "C' = C" by simp_all
    then show ?thesis using True assms(1,2) by (simp add: cache_ok_def)
  next
    case False
    then have "(d, C') = (p_decode P dec inst, C[cache_key inst := (inst, p_decode P dec inst)])"
      unfolding assms(3) [symmetric] by (simp add: cached_decode_def Let_def)
    then have miss: "d = p_decode P dec inst" "C' = C[cache_key inst := (inst, p_decode P dec inst)]" by simp_all
    have "dec_same (snd (C' ! cache_key i)) (p_decode P decode_init i)" if "i \<noteq> 0" "fst (C' ! cache_key i) = i" for i
    proof (cases "cache_key i = cache_key inst")
      case True
      then have "C' ! cache_key i = (inst, d)" using assms(1) cache_key_bound [of inst] by (simp add: miss cache_ok_def)
      then show ?thesis using that(2) by (simp add: miss decode_same)
    next
      case False
      then show ?thesis using assms(1) that by (simp add: miss cache_ok_def)
    qed
    then show ?thesis using assms(1) by (simp add: miss decode_same cache_ok_def)
  qed
  then show "dec_same d (p_decode P decode_init inst)" "cache_ok P C'" by simp_all
qed

lemma execute_same: "dec_same d d' \<Longrightarrow> execute P d off s = execute P d' off s"
proof -
  assume "dec_same d d'"
  then have eq: "p_exec P d off = p_exec P d' off" "p_priv P d off = p_priv P d' off" by (blast intro: exec_same priv_same)+
  show ?thesis unfolding execute_def exec_or_priv_def eq ..
qed

lemma loop_body_sim:
  assumes "sim P r r'" "\<not> fetched_zero (p_fetch P (pc (proc r')) (cur_offset r') (proc r'))"
  shows "sim_outcome P (loop_body P r) (loop_body_ref P r')"
proof -
  have eq: "proc r = proc r'" "cur_offset r = cur_offset r'" using assms(1) by (simp_all add: sim_def same_runner_def)
  define m where "m = p_fetch P (pc (proc r')) (cur_offset r') (proc r')"
  let ?f = "\<lambda>inst off r1. let (d, cache) = cached_decode P (cur_dec r1) inst (icache r1);
          r2 = r1\<lparr>cur_offset := off, cur_dec := d, icache := cache\<rparr>; s2 = proc r2
        in bind_ok (on_proc (p_ckpt P d (pc s2) inst off s2) r2) (\<lambda>u r3.
          bind_ok (on_proc (execute P d off (proc r3)) r3) (\<lambda>u. Ok False))"
  let ?g = "\<lambda>inst off r1. let d = p_decode P decode_init inst; r2 = r1\<lparr>cur_offset := off, cur_dec := d\<rparr>
        in bind_ok (on_proc (p_ckpt P d (pc (proc r2)) inst off (proc r2)) r2) (\<lambda>u r3.
          bind_ok (on_proc (execute P d off (proc r3)) r3) (\<lambda>u. Ok False))"
  have rest: "sim_outcome P (?f inst off r1) (?g inst off r1')"
    if s: "sim P r1 r1'" and z: "inst \<noteq> 0" for inst off r1 r1'
  proof -
    obtain d C where c: "cached_decode P (cur_dec r1) inst (icache r1) = (d, C)" by fastforce
    have ok: "dec_same d (p_decode P decode_init inst)" "cache_ok P C"
      using cached_decode_ok [OF _ z c] s by (simp_all add: sim_def)
    then have s2: "sim P (r1\<lparr>cur_offset := off, cur_dec := d, icache := C\<rparr>)
        (r1'\<lparr>cur_offset := off, cur_dec := p_decode P decode_init inst\<rparr>)" and p: "proc r1 = proc r1'"
      using s by (simp_all add: sim_def same_runner_def)
    have "sim_outcome P (bind_ok (on_proc (execute P d off (proc r3)) r3) (\<lambda>u. Ok False))
        (bind_ok (on_proc (execute P (p_decode P decode_init inst) off (proc r3')) r3') (\<lambda>u. Ok False))"
      if "sim P r3 r3'" for r3 r3'
      using that by (intro sim_bind) (simp_all add: execute_same [OF ok(1)] sim_on_proc sim_def same_runner_def)
    then show ?thesis
      by (simp add: c Let_def p ckpt_same [OF ok(1)]) (rule sim_bind, rule sim_on_proc [OF s2])
  qed
  have "sim_outcome P (bind_ok (on_proc m r) (\<lambda>(inst, off). ?f inst off)) (bind_ok (on_proc m r') (\<lambda>(inst, off). ?g inst off))"
  proof (rule sim_bind [OF sim_on_proc [OF assms(1)]])
    fix a r1 r1'
    assume "on_proc m r = Ok a r1" and s: "sim P r1 r1'"
    then obtain inst off where "a = (inst, off)" "inst \<noteq> 0"
      using assms(2) unfolding m_def [symmetric] by (cases m; cases a) auto
    then show "sim_outcome P ((case a of (inst, off) \<Rightarrow> ?f inst off) r1) ((case a of (inst, off) \<Rightarrow> ?g inst off) r1')"
      using rest [OF s] by (simp only: prod.case)
  qed
  then show ?thesis
    using assms(1) unfolding loop_body_def loop_body_ref_def m_def by (simp add: eq Let_def)
qed

lemma step_control_sim:
  assumes "sim P r r'" "c = Loop \<Longrightarrow> \<not> fetched_zero (p_fetch P (pc (proc r')) (cur_offset r') (proc r'))"
  shows "sim_progress P (step_control P stop c r) (step_control_ref P stop c r')"
proof -
  have eq: "proc r = proc r'" and d: "dec_same (cur_dec r) (cur_dec r')" using assms(1) by (simp_all add: sim_def same_runner_def)
  show ?thesis
  proof (cases c)
    case Loop
    then show ?thesis
      using sim_after_body [OF loop_body_sim [OF assms(1)]] assms by (simp add: step_control_def step_control_ref_def eq)
  next
    case (Caught cause)
    then show ?thesis
      using assms(1) sim_after_trap [OF sim_on_proc [OF assms(1)]]
      by (simp add: step_control_def step_control_ref_def eq trap_same [OF d])
  qed
qed

lemma run_sim:
  "sim P r r' \<Longrightarrow> zero_free P stop n c r' \<Longrightarrow> sim_progress P (run_steps P stop n c r) (run_ref P stop n c r')"
proof (induction n arbitrary: c r r')
  case (Suc n)
  have "sim_progress P (step_control P stop c r) (step_control_ref P stop c r')"
    using Suc.prems by (intro step_control_sim) simp_all
  then show ?case
    using Suc.prems(2) Suc.IH by (cases "step_control P stop c r"; cases "step_control_ref P stop c r'") simp_all
qed simp

lemma cache_transparent:
  assumes "icache r = inst_cache_init" "zero_free P stop n c r"
  shows "same_progress (run_steps P stop n c r) (run_ref P stop n c r)"
  using assms run_sim [of r r stop n c] by (auto simp: sim_def same_runner_def dec_same_def cache_ok_init intro: sim_same)

end

section \<open>The system emulator\<close>

lemma codec_illegal: "op < 273 \<Longrightarrow> rv_inst_codec ! op = rv_codec_illegal \<Longrightarrow> op = rv_op_illegal"
proof -
  assume op: "op < 273" "rv_inst_codec ! op = rv_codec_illegal"
  have t: "rv_inst_codec = rv_codec_illegal # tl rv_inst_codec" "rv_codec_illegal \<notin> set (tl rv_inst_codec)"
    and n: "272 \<le> length (tl rv_inst_codec)"
    unfolding rv_inst_codec_def by simp_all
  show ?thesis
  proof (cases op)
    case (Suc k)
    then have "tl rv_inst_codec ! k = rv_codec_illegal" using op(2) t(1) by (metis nth_Cons_Suc)
    moreover have "k < length (tl rv_inst_codec)" using op(1) Suc n by simp
    ultimately show ?thesis using t(2) nth_mem by metis
  qed simp
qed

lemma decode_type_same:
  assumes "dec_op d = dec_op d'" "dec_op d < 273"
  shows "dec_same (decode_inst_type d inst) (decode_inst_type d' inst)"
proof (cases "rv_inst_codec ! dec_op d = rv_codec_illegal")
  case True
  then have "dec_op d = rv_op_illegal" using assms(2) by (rule codec_illegal [rotated])
  then show ?thesis using assms(1) True by (simp add: decode_inst_type_def dec_same_def)
next
  case False
  then show ?thesis
    using assms(1) by (cases "rv_inst_codec ! dec_op d") (simp_all add: decode_inst_type_def dec_same_def decode_codec_defs)
qed

lemma inst_decode_same: "dec_same (inst_decode d inst) (inst_decode d' inst)"
proof -
  have "dec_same (decode_inst isa_rv64imac d inst) (decode_inst isa_rv64imac d' inst)"
    unfolding decode_inst_def
    by (rule decode_type_same) (use decode_inst_op_bound [of isa_rv64imac inst] in \<open>simp_all add: op_in_range_def\<close>)
  moreover have "rv_inst_decomp_rv64 ! rv_op_illegal = rv_op_illegal" by (simp add: rv_inst_decomp_rv64_def)
  ultimately show ?thesis
    by (auto simp: inst_decode_def decompress_inst_rv64_def decompress_with_def dec_same_def Let_def)
qed

text \<open>The operands of an instruction.\<close>

lemma operands_same:
  assumes "dec_rd d = dec_rd d'" "dec_rs1 d = dec_rs1 d'" "dec_rs2 d = dec_rs2 d'" "dec_imm d = dec_imm d'"
  shows "rs1 d = (rs1 d' :: 'a cpu_scheme \<Rightarrow> u64)" "rs2 d = (rs2 d' :: 'a cpu_scheme \<Rightarrow> u64)" "simm d = simm d'"
    "set_rd d = (set_rd d' :: u64 \<Rightarrow> 'a cpu_scheme \<Rightarrow> 'a cpu_scheme)"
    "set_rd_csr d = (set_rd_csr d' :: u64 \<Rightarrow> 'a cpu_scheme \<Rightarrow> 'a cpu_scheme)" "csr_of d = csr_of d'"
  using assms by (auto simp: rs1_def rs2_def simm_def set_rd_def set_rd_csr_def csr_of_def fun_eq_iff)

lemmas interp_defs = rv64_cases_def rvi_jump_def rvi_load_store_def rvi_imm_def rvi_reg_def rvm_cases_def
  rva_word_def rva_double_def exec_load_def exec_store_def exec_lr_def exec_sc_def exec_amo_def wr_def wr_shift_def

lemma exec_inst_same:
  assumes "dec_same d d'"
  shows "exec_inst_rv64 M True True True d off s = exec_inst_rv64 M True True True d' off s"
proof (cases "dec_op d = rv_op_illegal")
  case True
  have "switch rv_op_illegal (rv64_cases M True True True d off s) (Ok (- 1) s) = Ok (- 1) s" for d
    unfolding switch_map_of interp_defs gate_def rvfd_ops_def by simp
  then show ?thesis using assms True by (simp add: exec_inst_rv64_def dec_same_def)
next
  case False
  then have f: "dec_rd d = dec_rd d'" "dec_rs1 d = dec_rs1 d'" "dec_rs2 d = dec_rs2 d'" "dec_imm d = dec_imm d'"
    and op: "dec_op d = dec_op d'" using assms by (simp_all add: dec_same_def)
  show ?thesis unfolding exec_inst_rv64_def interp_defs operands_same [OF f] f op ..
qed

lemma inst_priv_same:
  assumes "dec_same d d'"
  shows "inst_priv env d off s = inst_priv env d' off s"
proof (cases "dec_op d = rv_op_illegal")
  case True
  then show ?thesis using assms by (simp add: inst_priv_def dec_same_def)
next
  case False
  then have f: "dec_rd d = dec_rd d'" "dec_rs1 d = dec_rs1 d'" "dec_rs2 d = dec_rs2 d'" "dec_imm d = dec_imm d'"
    and op: "dec_op d = dec_op d'" using assms by (simp_all add: dec_same_def)
  show ?thesis
    unfolding inst_priv_def inst_csr_def user_csrs_def machine_csrs_def supervisor_csrs_def
      set_csr_def get_csr_def set_csr_hi_def get_csr_hi_def operands_same [OF f] f op ..
qed

lemma trap_same: "dec_same d d' \<Longrightarrow> trap d cause s = trap d' cause s"
  by (simp add: trap_def trap_cause_def dec_same_def)

interpretation priv: decoding_processor "priv_rv64imac env irqs" for env irqs
  by unfold_locales
    (simp_all add: priv_rv64imac_def inst_decode_same exec_inst_same inst_priv_same trap_same)

text \<open>
  C5. The cache of decoded instructions is invisible. From the cache that the constructor makes, a
  run of any number of control steps, traps included, reaches the same control point with the same
  hart as a run that decodes every instruction afresh, as long as no all-zero word is fetched.
\<close>

theorem runloop_cache_transparent:
  assumes "icache r = inst_cache_init" "zero_free (priv_rv64imac env irqs) stop n c r"
  shows "same_progress (run_steps (priv_rv64imac env irqs) stop n c r) (run_ref (priv_rv64imac env irqs) stop n c r)"
  using assms by (rule priv.cache_transparent)

text \<open>
  The exception: in a fresh cache the all-zero word hits the value-initialised entry and is illegal,
  as the architecture has it. Once another instruction has taken that entry, the word is decoded, as
  \<^verbatim>\<open>c.addi4spn\<close> with immediate zero, and executes as \<^verbatim>\<open>addi s0, sp, 0\<close>.
\<close>

theorem zero_word_depends_on_cache:
  "cached_decode (priv_rv64imac env irqs) d 0 inst_cache_init = (decode_init, inst_cache_init)"
  "fst (C ! 0) \<noteq> 0 \<Longrightarrow> dec_op (fst (cached_decode (priv_rv64imac env irqs) d 0 C)) = rv_op_addi"
proof -
  have k: "cache_key 0 = 0" by (simp add: cache_key_def)
  show "cached_decode (priv_rv64imac env irqs) d 0 inst_cache_init = (decode_init, inst_cache_init)"
    by (simp add: cached_decode_def k inst_cache_init_def inst_cache_size_def)
  have "decode_inst_op isa_rv64imac 0 = rv_op_c_addi4spn"
    by (simp add: decode_inst_op_def decode_op_c0_def isa_rv64imac_def inst_bits_def)
  then have "dec_op (inst_decode d 0) = rv_op_addi"
    by (simp add: inst_decode_def decode_inst_def decode_inst_type_def decompress_inst_rv64_def decompress_with_def
        decode_codec_defs rv_inst_codec_nth rv_inst_decomp_rv64_def)
  then show "dec_op (fst (cached_decode (priv_rv64imac env irqs) d 0 C)) = rv_op_addi" if "fst (C ! 0) \<noteq> 0"
    using that by (simp add: cached_decode_def k priv_rv64imac_def Let_def)
qed

section \<open>The invariant of the hart\<close>

definition hart_ok :: "'w hart \<Rightarrow> bool" where
  "hart_ok s \<longleftrightarrow> ireg_ok s \<and> mode s \<le> rv_mode_M"

lemma hart_ok_mmu: "mmu_frame s s' \<Longrightarrow> hart_ok s \<Longrightarrow> hart_ok s'"
  by (auto simp: mmu_frame_def hart_ok_def ireg_ok_def)

lemma hart_ok_exec: "soft.keeps s s' \<Longrightarrow> hart_ok s \<Longrightarrow> hart_ok s'"
  using soft_keepsD [of s s'] by (auto simp: hart_ok_def)

lemma hart_ok_set_rd_csr: "hart_ok s \<Longrightarrow> hart_ok (set_rd_csr d v s)"
  by (auto simp: hart_ok_def ireg_ok_def set_rd_csr_def nth_list_update unat_eq_zero)

lemma hart_ok_csr:
  "(\<And>f s. hart_ok (upd f s) = hart_ok s) \<Longrightarrow> hart_ok s \<Longrightarrow> hart_ok (set_csr d md op csr get upd v wm rm sh s)"
  "(\<And>f s. hart_ok (upd f s) = hart_ok s) \<Longrightarrow> hart_ok s \<Longrightarrow> hart_ok (set_csr_hi d md op csr get upd v s)"
  "hart_ok s \<Longrightarrow> hart_ok (get_csr d md csr x s)" "hart_ok s \<Longrightarrow> hart_ok (get_csr_hi d md csr x s)"
  by (simp_all add: set_csr_def set_csr_hi_def get_csr_def get_csr_hi_def hart_ok_set_rd_csr Let_def)

lemma hart_ok_upd:
  "hart_ok (misa_update f s) = hart_ok s" "hart_ok (mstatus_update f s) = hart_ok s" "hart_ok (mtvec_update f s) = hart_ok s"
  "hart_ok (medeleg_update f s) = hart_ok s" "hart_ok (mideleg_update f s) = hart_ok s" "hart_ok (mip_update f s) = hart_ok s"
  "hart_ok (mie_update f s) = hart_ok s" "hart_ok (mhcounteren_update f s) = hart_ok s"
  "hart_ok (mscounteren_update f s) = hart_ok s" "hart_ok (mucounteren_update f s) = hart_ok s"
  "hart_ok (mscratch_update f s) = hart_ok s" "hart_ok (mepc_update f s) = hart_ok s" "hart_ok (mcause_update f s) = hart_ok s"
  "hart_ok (mbadaddr_update f s) = hart_ok s" "hart_ok (mbase_update f s) = hart_ok s" "hart_ok (mbound_update f s) = hart_ok s"
  "hart_ok (mibase_update f s) = hart_ok s" "hart_ok (mibound_update f s) = hart_ok s" "hart_ok (mdbase_update f s) = hart_ok s"
  "hart_ok (mdbound_update f s) = hart_ok s" "hart_ok (instret_update f s) = hart_ok s" "hart_ok (cpu_time_update f s) = hart_ok s"
  "hart_ok (stvec_update f s) = hart_ok s" "hart_ok (sedeleg_update f s) = hart_ok s" "hart_ok (sideleg_update f s) = hart_ok s"
  "hart_ok (sscratch_update f s) = hart_ok s" "hart_ok (sepc_update f s) = hart_ok s" "hart_ok (scause_update f s) = hart_ok s"
  "hart_ok (sbadaddr_update f s) = hart_ok s" "hart_ok (sptbr_update f s) = hart_ok s" "hart_ok (pc_update f s) = hart_ok s"
  "hart_ok (badaddr_update f s) = hart_ok s" "hart_ok (running_update b s) = hart_ok s"
  "hart_ok (l1_itlb_update g s) = hart_ok s" "hart_ok (l1_dtlb_update g s) = hart_ok s"
  "hart_ok (fcsr64_update f s) = hart_ok s" "hart_ok (fenv_getflags env s) = hart_ok s"
  by (simp_all add: hart_ok_def ireg_ok_def fcsr64_update_def fenv_getflags_def)

lemma hart_ok_mode: "hart_ok (s\<lparr>mode := m\<rparr>) = (ireg_ok s \<and> m \<le> rv_mode_M)" "hart_ok s \<Longrightarrow> ireg_ok s"
  by (simp_all add: hart_ok_def ireg_ok_def)

lemma bits_get_mode: "n \<le> 2 \<Longrightarrow> bits_get lo n x \<le> 3"
proof -
  assume n: "n \<le> 2"
  have "unat (bits_get lo n x) < 2 ^ n" by (rule bits_get_bound)
  also have "(2 :: nat) ^ n \<le> 2 ^ 2" using n by (intro power_increasing) simp_all
  finally show ?thesis by (simp add: word_le_nat_alt)
qed

lemma switch_all: "list_all (\<lambda>(k, x). P x) cs \<Longrightarrow> P d \<Longrightarrow> P (switch v cs d)"
  by (rule switch_list_all) (auto simp: list_all_iff)

lemma inst_csr_ok: "hart_ok s \<Longrightarrow> all_states hart_ok (inst_csr env d op csr v off s)"
proof -
  assume s: "hart_ok s"
  have "list_all (\<lambda>(k, m). all_states hart_ok m) (user_csrs env d op csr v off s)"
    "list_all (\<lambda>(k, m). all_states hart_ok m) (machine_csrs env d op csr v off s)"
    "list_all (\<lambda>(k, m). all_states hart_ok m) (supervisor_csrs env d op csr v off s)"
    by (simp_all only: user_csrs_def machine_csrs_def supervisor_csrs_def list.pred_inject prod.case all_states.simps
        Let_def hart_ok_csr hart_ok_upd s simp_thms)
  note cases = this
  show ?thesis
    unfolding inst_csr_def
    by (rule switch_all [where P = "all_states hart_ok"]) (simp_all only: cases list_all_append simp_thms all_states.simps s)
qed

lemma inst_priv_ok: "hart_ok s \<Longrightarrow> all_states hart_ok (inst_priv env d off s)"
  unfolding inst_priv_def
  by (rule switch_list_all)
    (simp_all add: inst_csr_ok sret_def mret_def sfence_vm_def Let_def hart_ok_upd hart_ok_mode bits_get_mode)

lemma trap_entry_ok: "hart_ok s \<Longrightarrow> all_states hart_ok (mtrap cause b s)" "hart_ok s \<Longrightarrow> all_states hart_ok (strap cause b s)"
  by (simp_all add: mtrap_def strap_def trap_cli_def raise_ex_def Let_def hart_ok_def ireg_ok_def)

lemma trap_ok: "hart_ok s \<Longrightarrow> all_states hart_ok (trap d cause s)"
  by (simp add: trap_def Let_def trap_entry_ok hart_ok_upd raise_ex_def)

lemma all_states_bindI:
  "all_states P m \<Longrightarrow> (\<And>a s. P s \<Longrightarrow> all_states P (f a s)) \<Longrightarrow> all_states P (bind_ok m f)"
  by (cases m) auto

lemma isr_ok: "hart_ok s \<Longrightarrow> all_states hart_ok (isr e t i s)"
proof -
  have "hart_ok s \<Longrightarrow> all_states hart_ok (isr_source m q p s)" for m q p s
    unfolding isr_source_def Let_def
    by (auto simp: hart_ok_upd intro!: all_states_bindI trap_entry_ok)
  then show "hart_ok s \<Longrightarrow> all_states hart_ok (isr e t i s)"
    unfolding isr_def by (auto intro!: all_states_bindI)
qed

lemma all_states_on_proc: "all_states P m \<Longrightarrow> all_states (\<lambda>r. P (proc r)) (on_proc m r)"
  by (cases m) auto

abbreviation runner_ok :: "'w hart runner \<Rightarrow> bool" where "runner_ok r \<equiv> hart_ok (proc r)"

lemma execute_ok: "hart_ok s \<Longrightarrow> all_states hart_ok (execute (priv_rv64imac env irqs) d off s)"
proof -
  assume s: "hart_ok s"
  have "all_states hart_ok (exec_inst_rv64 soft_mmu True True True d off s)"
    by (rule all_states_mono [OF soft.exec_keeps]) (rule hart_ok_exec [OF _ s])
  then have "all_states hart_ok (exec_or_priv (priv_rv64imac env irqs) d off s)"
    unfolding exec_or_priv_def by (intro all_states_bindI) (simp_all add: priv_rv64imac_def inst_priv_ok)
  then show ?thesis
    unfolding execute_def by (rule all_states_bindI) (simp add: retire_def hart_ok_upd raise_ex_def)
qed

lemma loop_body_ok:
  assumes "runner_ok r"
  shows "all_states runner_ok (loop_body (priv_rv64imac env irqs) r)"
proof -
  have "all_states hart_ok (mmu_inst_fetch a off s)" if "hart_ok s" for a off and s :: "'a hart"
    by (rule all_states_mono [OF mmu_inst_fetch_frame]) (rule hart_ok_mmu [OF _ that])
  then have fetch: "all_states runner_ok (on_proc (p_fetch (priv_rv64imac env irqs) a off (proc r)) r)" for a off
    by (intro all_states_on_proc) (simp add: priv_rv64imac_def assms)
  have exec: "all_states runner_ok (bind_ok (on_proc (p_ckpt (priv_rv64imac env irqs) d a i off q) r2) (\<lambda>u r3.
          bind_ok (on_proc (execute (priv_rv64imac env irqs) d off (proc r3)) r3) (\<lambda>u. Ok False)))"
    if "hart_ok q" for d a i off q and r2 :: "'a hart runner"
    using that by (intro all_states_bindI all_states_on_proc execute_ok) (simp_all add: priv_rv64imac_def)
  show ?thesis
    unfolding loop_body_def Let_def
    using assms by (auto simp: split_beta intro!: all_states_bindI [OF fetch] exec)
qed

fun progress_ok :: "'w hart progress \<Rightarrow> bool" where
  "progress_ok (Next c r) = runner_ok r"
| "progress_ok (Leave e r) = runner_ok r"
| "progress_ok Stuck = True"

lemma step_control_ok: "runner_ok r \<Longrightarrow> progress_ok (step_control (priv_rv64imac env irqs) stop c r)"
proof (cases c)
  case Loop
  assume "runner_ok r"
  then show ?thesis
    using loop_body_ok [of r env irqs] Loop
    by (cases "loop_body (priv_rv64imac env irqs) r") (auto simp: step_control_def)
next
  case (Caught cause)
  assume r: "runner_ok r"
  then have "all_states runner_ok (on_proc (p_trap (priv_rv64imac env irqs) (cur_dec r) cause (proc r)) r)"
    by (intro all_states_on_proc) (simp add: priv_rv64imac_def trap_ok)
  then show ?thesis
    using r Caught by (cases "on_proc (p_trap (priv_rv64imac env irqs) (cur_dec r) cause (proc r)) r") (auto simp: step_control_def)
qed

lemma run_steps_ok: "runner_ok r \<Longrightarrow> progress_ok (run_steps (priv_rv64imac env irqs) stop n c r)"
proof (induction n arbitrary: c r)
  case (Suc n)
  then show ?case
    using step_control_ok [of r env irqs stop c] by (cases "step_control (priv_rv64imac env irqs) stop c r") auto
qed simp

text \<open>
  C21. Every call of \<^verbatim>\<open>step\<close> of the system emulator keeps the hart well formed, whatever the guest
  executes, however often it traps and however the call ends: the register file has 32 registers,
  \<open>x0\<close> is zero, and the privilege mode is one of the four the architecture has.
\<close>

theorem step_invariant:
  assumes "hart_ok (proc r)" "step (priv_rv64imac env irqs) clock count r = Some (Leave e r')"
  shows "hart_ok (proc r')"
proof -
  obtain eip tip sip where irqs: "irqs = (eip, tip, sip)" by (cases irqs)
  have isr: "all_states hart_ok (isr eip tip sip (proc r\<lparr>cpu_time := clock\<rparr>))"
    by (rule isr_ok) (simp add: assms(1) hart_ok_upd)
  obtain s' where "isr eip tip sip (proc r\<lparr>cpu_time := clock\<rparr>) = Ok () s'"
    "step_from (priv_rv64imac env irqs) (instret (proc r) + count) Loop (r\<lparr>proc := s', cur_dec := decode_init\<rparr>) = Some (Leave e r')"
    using assms(2) by (auto simp: step_def Let_def priv_rv64imac_def irqs split: outcome.splits)
  then obtain n where "run_steps (priv_rv64imac env irqs) (instret (proc r) + count) n Loop (r\<lparr>proc := s', cur_dec := decode_init\<rparr>) = Leave e r'"
    "hart_ok s'" using run_step_from isr by fastforce
  then show ?thesis
    using run_steps_ok [of "r\<lparr>proc := s', cur_dec := decode_init\<rparr>" env irqs "instret (proc r) + count" n Loop] by simp
qed

section \<open>Retired instructions\<close>

text \<open>The instructions that can write \<^verbatim>\<open>minstret\<close>.\<close>

definition csr_ops :: "opcode set" where
  "csr_ops = {rv_op_csrrw, rv_op_csrrs, rv_op_csrrc, rv_op_csrrwi, rv_op_csrrsi, rv_op_csrrci}"

text \<open>The next \<open>n\<close> iterations neither leave, nor raise an exception, nor access a register.\<close>

fun quiet :: "'a cpu_scheme proc_ops \<Rightarrow> nat \<Rightarrow> 'a cpu_scheme runner \<Rightarrow> bool" where
  "quiet P 0 r = True"
| "quiet P (Suc n) r = (case loop_body P r of
      Ok b r' \<Rightarrow> \<not> b \<and> dec_op (cur_dec r') \<notin> csr_ops \<and> quiet P n r'
    | Raised c r' \<Rightarrow> False | Panicked \<Rightarrow> False | Undefined \<Rightarrow> False)"

lemma exec_instret: "exec_inst_rv64 soft_mmu True True True d off s = Ok x s' \<Longrightarrow> instret s' = instret s"
  using soft.exec_keeps [of s True True True d off] soft_keepsD [of s s'] by auto

lemma priv_instret: "dec_op d \<notin> csr_ops \<Longrightarrow> inst_priv env d off s = Ok x s' \<Longrightarrow> instret s' = instret s"
  by (auto simp: inst_priv_def csr_ops_def sret_def mret_def sfence_vm_def Let_def split: if_splits)

lemma execute_instret:
  assumes "execute (priv_rv64imac env irqs) d off s = Ok u s'" "dec_op d \<notin> csr_ops"
  shows "instret s' = instret s + 1"
  using assms
  by (auto simp: execute_def exec_or_priv_def priv_rv64imac_def bind_ok_Ok retire_def raise_ex_def
      dest!: exec_instret priv_instret [OF assms(2)] split: if_splits)

lemma on_proc_Ok: "on_proc m r = Ok a r' \<longleftrightarrow> (\<exists>s. m = Ok a s \<and> r' = r\<lparr>proc := s\<rparr>)"
  by (cases m) auto

lemma loop_body_instret:
  assumes "loop_body (priv_rv64imac env irqs) r = Ok False r'" "dec_op (cur_dec r') \<notin> csr_ops"
  shows "instret (proc r') = instret (proc r) + 1"
proof -
  obtain inst off s1 d C s2 where
    f: "mmu_inst_fetch (pc (proc r)) (cur_offset r) (proc r) = Ok (inst, off) s1"
    and e: "execute (priv_rv64imac env irqs) d off s1 = Ok () s2" and r': "proc r' = s2" "cur_dec r' = d"
    using assms(1)
    by (auto simp: loop_body_def Let_def bind_ok_Ok on_proc_Ok priv_rv64imac_def split_beta split: if_splits)
  have "mmu_frame (proc r) s1"
    using mmu_inst_fetch_frame [of "proc r" "pc (proc r)" "cur_offset r"] by (simp add: f)
  then have "instret s1 = instret (proc r)" by (auto simp: mmu_frame_def)
  then show ?thesis using execute_instret [OF e] assms(2) r' by simp
qed

lemma quiet_run:
  assumes "quiet (priv_rv64imac env irqs) n r" "instret (proc r) + of_nat n = stop" "n < 2 ^ 64"
  shows "\<exists>r'. run_steps (priv_rv64imac env irqs) stop (Suc n) Loop r = Leave exit_cause_continue r' \<and> instret (proc r') = stop"
  using assms
proof (induction n arbitrary: r)
  case 0
  then show ?case by (simp add: step_control_def)
next
  case (Suc n)
  obtain r1 where b: "loop_body (priv_rv64imac env irqs) r = Ok False r1" "dec_op (cur_dec r1) \<notin> csr_ops"
    "quiet (priv_rv64imac env irqs) n r1"
    using Suc.prems(1) by (auto split: outcome.splits)
  have "\<not> 2 ^ 64 dvd Suc n" using Suc.prems(3) by (auto dest: dvd_imp_le)
  then have "(of_nat (Suc n) :: u64) \<noteq> 0" by (simp add: word_of_nat_eq_0_iff del: of_nat_Suc)
  then have ne: "instret (proc r) \<noteq> stop" using Suc.prems(2) by (metis add_cancel_right_right)
  have "instret (proc r1) + of_nat n = stop"
    using loop_body_instret [OF b(1,2)] Suc.prems(2) by (simp add: add_ac)
  then obtain r' where "run_steps (priv_rv64imac env irqs) stop (Suc n) Loop r1 = Leave exit_cause_continue r'" "instret (proc r') = stop"
    using Suc.IH [OF b(3)] Suc.prems(3) by auto
  then show ?case
    by (subst run_steps.simps) (simp add: step_control_def ne b(1) del: run_steps.simps)
qed

lemma isr_instret: "isr eip tip sip s = Ok () s' \<Longrightarrow> instret s' = instret s"
proof -
  have entry: "instret s = k \<Longrightarrow> all_states (\<lambda>s. instret s = k) (mtrap c b s)"
    "instret s = k \<Longrightarrow> all_states (\<lambda>s. instret s = k) (strap c b s)" for k c b and s :: "'a hart"
    by (simp_all add: mtrap_def strap_def trap_cli_def raise_ex_def Let_def)
  have source: "instret s = k \<Longrightarrow> all_states (\<lambda>s. instret s = k) (isr_source m q p s)" for k m q p and s :: "'a hart"
    unfolding isr_source_def Let_def by (auto intro!: all_states_bindI entry)
  have "all_states (\<lambda>s'. instret s' = instret s) (isr eip tip sip s)"
    unfolding isr_def by (auto intro!: all_states_bindI source)
  then show "isr eip tip sip s = Ok () s' \<Longrightarrow> instret s' = instret s" by simp
qed

text \<open>
  C22. A call of \<^verbatim>\<open>step\<close> terminates and retires exactly the number of instructions it is asked for,
  when the next instructions raise no exception, meet no breakpoint and do not access control and
  status registers, whether or not it first takes an interrupt.
\<close>

theorem step_retires_count:
  assumes "isr eip tip sip (proc r\<lparr>cpu_time := clock\<rparr>) = Ok () s"
    and "quiet (priv_rv64imac env (eip, tip, sip)) (unat count) (r\<lparr>proc := s, cur_dec := decode_init\<rparr>)"
  shows "\<exists>r'. step (priv_rv64imac env (eip, tip, sip)) clock count r = Some (Leave exit_cause_continue r') \<and>
    instret (proc r') = instret (proc r) + count"
proof -
  obtain r' where "run_steps (priv_rv64imac env (eip, tip, sip)) (instret (proc r) + count) (Suc (unat count)) Loop
      (r\<lparr>proc := s, cur_dec := decode_init\<rparr>) = Leave exit_cause_continue r'" "instret (proc r') = instret (proc r) + count"
    using quiet_run [OF assms(2), of "instret (proc r) + count"] isr_instret [OF assms(1)] unsigned_less [where 'a = nat, of count] by auto
  then have "step_from (priv_rv64imac env (eip, tip, sip)) (instret (proc r) + count) Loop
      (r\<lparr>proc := s, cur_dec := decode_init\<rparr>) = Some (Leave exit_cause_continue r')"
    by (intro step_from_run [OF _ \<open>run_steps _ _ _ _ _ = _\<close>]) simp
  then show ?thesis
    using \<open>instret (proc r') = _\<close> by (simp add: step_def Let_def priv_rv64imac_def assms(1))
qed

section \<open>A concrete run\<close>

text \<open>Memory with \<^verbatim>\<open>addi a0, a0, 5\<close> at the program counter of a hart in machine mode.\<close>

definition boot_hart :: "world hart" where
  "boot_hart = (hart_init (ram_bus [(0x80000000, 0x1000000, 0x1000)])
     \<lparr>host_mem = (\<lambda>_. 0)(0x1000000 := 0x13, 0x1000001 := 0x05, 0x1000002 := 0x55)\<rparr>)\<lparr>pc := 0x80000000\<rparr>"

definition boot_runner :: "world hart runner" where
  "boot_runner = \<lparr>proc = boot_hart, cur_dec = decode_init, cur_offset = 0, icache = inst_cache_init\<rparr>"

abbreviation boot_env :: host_env where "boot_env \<equiv> \<lparr>get_time = 0, host_fflags = 0\<rparr>"

lemma boot_bus:
  "bus_load (mem_bus boot_hart) 2 0x80000000 (hart_world boot_hart) = Some (0x0513, hart_world boot_hart)"
  "bus_load (mem_bus boot_hart) 2 0x80000002 (hart_world boot_hart) = Some (0x0055, hart_world boot_hart)"
proof -
  have two: "host_read m a 2 = ucast (m a) OR push_bit 8 (ucast (m (a + 1)))" for m a
    by (simp add: numeral_2_eq_2)
  show "bus_load (mem_bus boot_hart) 2 0x80000000 (hart_world boot_hart) = Some (0x0513, hart_world boot_hart)"
    "bus_load (mem_bus boot_hart) 2 0x80000002 (hart_world boot_hart) = Some (0x0055, hart_world boot_hart)"
    by (simp_all add: boot_hart_def hart_init_def bus_load_def ram_bus_eq seg_contains_def two)
qed

lemma boot_fetch:
  assumes "mode s = 3" "mstatus s = 0" "mem_bus s = mem_bus boot_hart" "hart_world s = hart_world boot_hart"
  shows "mmu_inst_fetch 0x80000000 off s = Ok (0x00550513, 4) s"
proof -
  have "s\<lparr>hart_world := hart_world boot_hart\<rparr> = s" unfolding assms(4) [symmetric] by simp
  then have r: "bus_read 2 0x80000000 s = Some (0x0513, s)" "bus_read 2 0x80000002 s = Some (0x0055, s)"
    unfolding bus_read_def assms(3,4) boot_bus by simp_all
  have "translate_addr Op_fetch 0x80000000 s = Ok (0x80000000, None) s"
    using assms by (simp add: translate_addr_def effective_mode_def)
  then show ?thesis
    using assms r by (simp add: mmu_inst_fetch_def misaligned_def fetch_access_fault_def)
qed

lemma boot_decode: "dec_same (inst_decode d 0x00550513) (decode_init\<lparr>dec_op := rv_op_addi, dec_rd := 10, dec_rs1 := 10, dec_imm := 5\<rparr>)"
proof -
  have "decode_inst_op isa_rv64imac 0x00550513 = rv_op_addi"
    by (simp add: decode_inst_op_def decode_op_q3_def decode_op_op_imm_def isa_rv64imac_def inst_bits_def)
  moreover have "operand_decode operand_rd 0x00550513 = 10" "operand_decode operand_rs1 0x00550513 = 10"
    "operand_decode operand_imm12 0x00550513 = 5"
    by code_simp+
  ultimately show ?thesis
    by (simp add: inst_decode_def decode_inst_def decode_inst_type_def decompress_inst_rv64_def decompress_with_def
        decode_codec_defs rv_inst_codec_nth rv_inst_decomp_rv64_def dec_same_def decode_init_def)
qed

lemma boot_exec:
  assumes "dec_same d (decode_init\<lparr>dec_op := rv_op_addi, dec_rd := 10, dec_rs1 := 10, dec_imm := 5\<rparr>)"
  shows "execute (priv_rv64imac env irqs) d 4 s = Ok () (retire 4 (set_rd d (reg 10 s + 5) s))"
proof -
  have d: "dec_op d = rv_op_addi" "dec_rs1 d = 10" "dec_imm d = 5" using assms by (simp_all add: dec_same_def)
  have "exec_inst_rv64 soft_mmu True True True d 4 s = Ok 4 (set_rd d (reg 10 s + 5) s)"
    unfolding exec_inst_rv64_def rv64_cases_def gate_def rvi_jump_def rvi_load_store_def rvi_imm_def append_Cons append_Nil if_True
    by (simp add: d wr_def rs1_def simm_def)
  then show ?thesis by (simp add: execute_def exec_or_priv_def priv_rv64imac_def)
qed

lemma boot_body:
  assumes "mode (proc r) = 3" "mstatus (proc r) = 0" "mem_bus (proc r) = mem_bus boot_hart"
    "hart_world (proc r) = hart_world boot_hart" "pc (proc r) = 0x80000000" "breakpoint (proc r) = 0"
    and "icache r = inst_cache_init"
  shows "\<exists>r'. loop_body (priv_rv64imac env irqs) r = Ok False r' \<and> dec_op (cur_dec r') = rv_op_addi"
    and "\<exists>r'. loop_body_ref (priv_rv64imac env irqs) r = Ok False r'"
proof -
  have f: "p_fetch (priv_rv64imac env irqs) 0x80000000 off (proc r) = Ok (0x00550513, 4) (proc r)" for off
    using boot_fetch [OF assms(1-4)] by (simp add: priv_rv64imac_def)
  have "cache_key 0x00550513 = 1979"
    by (simp add: cache_key_def inst_cache_size_def unat_mod)
  then have c: "cached_decode (priv_rv64imac env irqs) d 0x00550513 inst_cache_init =
      (inst_decode d 0x00550513, inst_cache_init[1979 := (0x00550513, inst_decode d 0x00550513)])" for d
    by (simp add: cached_decode_def inst_cache_init_def inst_cache_size_def priv_rv64imac_def Let_def)
  have ck: "p_ckpt (priv_rv64imac env irqs) d a i off s = Ok () s" "p_decode (priv_rv64imac env irqs) = inst_decode"
    for d a i off and s :: "world hart"
    by (simp_all add: priv_rv64imac_def)
  have op: "dec_op (inst_decode d 0x00550513) = rv_op_addi" for d using boot_decode [of d] by (simp add: dec_same_def)
  show "\<exists>r'. loop_body (priv_rv64imac env irqs) r = Ok False r' \<and> dec_op (cur_dec r') = rv_op_addi"
    by (simp add: loop_body_def Let_def assms(5-7) f c ck boot_exec [OF boot_decode] op)
  show "\<exists>r'. loop_body_ref (priv_rv64imac env irqs) r = Ok False r'"
    by (simp add: loop_body_ref_def Let_def assms(5-7) f ck boot_exec [OF boot_decode])
qed

lemma boot_fields:
  "mode boot_hart = 3" "mstatus boot_hart = 0" "pc boot_hart = 0x80000000" "breakpoint boot_hart = 0" "instret boot_hart = 0"
  "debugging boot_hart = False" "ireg boot_hart = replicate 32 0"
  by (simp_all add: boot_hart_def hart_init_def)

lemma boot_isr: "\<exists>p. isr False False False (boot_hart\<lparr>cpu_time := 0\<rparr>) = Ok () (boot_hart\<lparr>cpu_time := 0, mip := p\<rparr>)"
  by (rule exI) (simp add: isr_def isr_source_def Let_def)

theorem step_retires_count_witness:
  "\<exists>r'. step (priv_rv64imac boot_env (False, False, False)) 0 1 boot_runner = Some (Leave exit_cause_continue r') \<and>
    instret (proc r') = 1"
proof -
  obtain p where isr: "isr False False False (proc boot_runner\<lparr>cpu_time := 0\<rparr>) = Ok () (boot_hart\<lparr>cpu_time := 0, mip := p\<rparr>)"
    using boot_isr by (auto simp: boot_runner_def)
  have "\<exists>r'. loop_body (priv_rv64imac boot_env (False, False, False))
      (boot_runner\<lparr>proc := boot_hart\<lparr>cpu_time := 0, mip := p\<rparr>, cur_dec := decode_init\<rparr>) = Ok False r' \<and> dec_op (cur_dec r') = rv_op_addi"
    by (rule boot_body(1)) (simp_all add: boot_fields boot_runner_def)
  then have "quiet (priv_rv64imac boot_env (False, False, False)) (unat 1)
      (boot_runner\<lparr>proc := boot_hart\<lparr>cpu_time := 0, mip := p\<rparr>, cur_dec := decode_init\<rparr>)"
    by (auto simp: csr_ops_def)
  from step_retires_count [OF isr this] show ?thesis by (simp add: boot_runner_def boot_fields)
qed

theorem step_invariant_witness:
  "\<exists>e r'. step (priv_rv64imac boot_env (False, False, False)) 0 0 boot_runner = Some (Leave e r') \<and> hart_ok (proc r')"
proof -
  obtain p where "isr False False False (boot_hart\<lparr>cpu_time := 0\<rparr>) = Ok () (boot_hart\<lparr>cpu_time := 0, mip := p\<rparr>)"
    using boot_isr by blast
  then have "step (priv_rv64imac boot_env (False, False, False)) 0 0 boot_runner =
      Some (Leave exit_cause_continue (boot_runner\<lparr>proc := boot_hart\<lparr>cpu_time := 0, mip := p\<rparr>, cur_dec := decode_init\<rparr>))"
    by (simp add: step_def Let_def priv_rv64imac_def boot_runner_def boot_fields step_from.simps step_control_def)
  moreover have "hart_ok (proc boot_runner)" by (simp add: hart_ok_def ireg_ok_def boot_runner_def boot_fields)
  ultimately show ?thesis using step_invariant [of boot_runner boot_env "(False, False, False)" 0 0] by blast
qed

theorem runloop_cache_transparent_witness:
  "same_progress (run_steps (priv_rv64imac boot_env (False, False, False)) 9 1 Loop boot_runner)
    (run_ref (priv_rv64imac boot_env (False, False, False)) 9 1 Loop boot_runner)"
proof (rule runloop_cache_transparent)
  show "icache boot_runner = inst_cache_init" by (simp add: boot_runner_def)
  have "p_fetch (priv_rv64imac boot_env (False, False, False)) 0x80000000 0 boot_hart = Ok (0x00550513, 4) boot_hart"
    using boot_fetch [of boot_hart 0] by (simp add: priv_rv64imac_def boot_fields)
  moreover have "\<exists>r'. loop_body_ref (priv_rv64imac boot_env (False, False, False)) boot_runner = Ok False r'"
    by (rule boot_body(2)) (simp_all add: boot_runner_def boot_fields)
  then obtain r' where "loop_body_ref (priv_rv64imac boot_env (False, False, False)) boot_runner = Ok False r'" ..
  ultimately show "zero_free (priv_rv64imac boot_env (False, False, False)) 9 1 Loop boot_runner"
    by (simp add: step_control_ref_def boot_runner_def boot_fields)
qed

end
