(* ===== verification/Emit.thy ===== *)
theory Emit
  imports Roundtrip
begin

text \<open>
  The instruction emitters of \<^verbatim>\<open>src/src/asm/jit.cc\<close>: one function per instruction that checks
  the range of its arguments, fills a decoded instruction and encodes it. An argument out of range
  gives the word 0, which is an illegal instruction. The argument types \<^verbatim>\<open>simm_t\<close>,
  \<^verbatim>\<open>uimm_t\<close> and \<^verbatim>\<open>offset_t\<close> of \<^verbatim>\<open>types.h\<close> all hold 64 bits, so that an
  argument is a \<open>u64\<close> here, read as a signed number by the checks of the signed types. A failing
  assertion of an operand encoder is \<open>None\<close>; \<open>emitter_decodes\<close> shows that none is reached for arguments in range.

  The property at the end of the theory says that decoding an emitted instruction gives back its
  arguments.
\<close>

unbundle bit_operations_syntax

section \<open>Width-typed arguments\<close>

definition simm_valid :: "nat \<Rightarrow> u64 \<Rightarrow> bool" where
  "simm_valid w imm \<longleftrightarrow> sint imm \<le> 2 ^ (w - 1) - 1 \<and> - (2 ^ (w - 1)) \<le> sint imm"

definition offset_valid :: "nat \<Rightarrow> u64 \<Rightarrow> bool" where
  "offset_valid w imm \<longleftrightarrow> sint imm \<le> 2 ^ (w - 1) - 1 \<and> - (2 ^ (w - 1)) \<le> sint imm"

definition uimm_valid :: "nat \<Rightarrow> u64 \<Rightarrow> bool" where
  "uimm_valid w imm \<longleftrightarrow> uint imm \<le> 2 ^ w - 1"

text \<open>The value that \<^verbatim>\<open>encode_inst(dec)\<close> returns.\<close>

definition encoded :: "decode \<Rightarrow> u64 option" where
  "encoded dec = map_option snd (encode_inst dec)"

section \<open>The emitters\<close>

definition emit_lui :: "u64 \<Rightarrow> u64 \<Rightarrow> u64 option" where
  "emit_lui rd imm20 =
     (if \<not> (uimm_valid 5 rd \<and> simm_valid 32 imm20) then Some 0
      else encoded (decode_init\<lparr>dec_op := rv_op_lui, dec_rd := ucast rd,
                      dec_imm := ucast imm20\<rparr>))"

definition emit_auipc :: "u64 \<Rightarrow> u64 \<Rightarrow> u64 option" where
  "emit_auipc rd oimm20 =
     (if \<not> (uimm_valid 5 rd \<and> offset_valid 32 oimm20) then Some 0
      else encoded (decode_init\<lparr>dec_op := rv_op_auipc, dec_rd := ucast rd,
                      dec_imm := ucast oimm20\<rparr>))"

definition emit_jal :: "u64 \<Rightarrow> u64 \<Rightarrow> u64 option" where
  "emit_jal rd jimm20 =
     (if \<not> (uimm_valid 5 rd \<and> offset_valid 21 jimm20) then Some 0
      else encoded (decode_init\<lparr>dec_op := rv_op_jal, dec_rd := ucast rd,
                      dec_imm := ucast jimm20\<rparr>))"

definition emit_jalr :: "u64 \<Rightarrow> u64 \<Rightarrow> u64 \<Rightarrow> u64 option" where
  "emit_jalr rd rs1 imm12 =
     (if \<not> (uimm_valid 5 rd \<and> uimm_valid 5 rs1 \<and> simm_valid 12 imm12) then Some 0
      else encoded (decode_init\<lparr>dec_op := rv_op_jalr, dec_rd := ucast rd,
                      dec_rs1 := ucast rs1, dec_imm := ucast imm12\<rparr>))"

definition emit_beq :: "u64 \<Rightarrow> u64 \<Rightarrow> u64 \<Rightarrow> u64 option" where
  "emit_beq rs1 rs2 sbimm12 =
     (if \<not> (uimm_valid 5 rs1 \<and> uimm_valid 5 rs2 \<and> offset_valid 13 sbimm12) then Some 0
      else encoded (decode_init\<lparr>dec_op := rv_op_beq, dec_rs1 := ucast rs1,
                      dec_rs2 := ucast rs2, dec_imm := ucast sbimm12\<rparr>))"

definition emit_bne :: "u64 \<Rightarrow> u64 \<Rightarrow> u64 \<Rightarrow> u64 option" where
  "emit_bne rs1 rs2 sbimm12 =
     (if \<not> (uimm_valid 5 rs1 \<and> uimm_valid 5 rs2 \<and> offset_valid 13 sbimm12) then Some 0
      else encoded (decode_init\<lparr>dec_op := rv_op_bne, dec_rs1 := ucast rs1,
                      dec_rs2 := ucast rs2, dec_imm := ucast sbimm12\<rparr>))"

definition emit_blt :: "u64 \<Rightarrow> u64 \<Rightarrow> u64 \<Rightarrow> u64 option" where
  "emit_blt rs1 rs2 sbimm12 =
     (if \<not> (uimm_valid 5 rs1 \<and> uimm_valid 5 rs2 \<and> offset_valid 13 sbimm12) then Some 0
      else encoded (decode_init\<lparr>dec_op := rv_op_blt, dec_rs1 := ucast rs1,
                      dec_rs2 := ucast rs2, dec_imm := ucast sbimm12\<rparr>))"

definition emit_bge :: "u64 \<Rightarrow> u64 \<Rightarrow> u64 \<Rightarrow> u64 option" where
  "emit_bge rs1 rs2 sbimm12 =
     (if \<not> (uimm_valid 5 rs1 \<and> uimm_valid 5 rs2 \<and> offset_valid 13 sbimm12) then Some 0
      else encoded (decode_init\<lparr>dec_op := rv_op_bge, dec_rs1 := ucast rs1,
                      dec_rs2 := ucast rs2, dec_imm := ucast sbimm12\<rparr>))"

definition emit_bltu :: "u64 \<Rightarrow> u64 \<Rightarrow> u64 \<Rightarrow> u64 option" where
  "emit_bltu rs1 rs2 sbimm12 =
     (if \<not> (uimm_valid 5 rs1 \<and> uimm_valid 5 rs2 \<and> offset_valid 13 sbimm12) then Some 0
      else encoded (decode_init\<lparr>dec_op := rv_op_bltu, dec_rs1 := ucast rs1,
                      dec_rs2 := ucast rs2, dec_imm := ucast sbimm12\<rparr>))"

definition emit_bgeu :: "u64 \<Rightarrow> u64 \<Rightarrow> u64 \<Rightarrow> u64 option" where
  "emit_bgeu rs1 rs2 sbimm12 =
     (if \<not> (uimm_valid 5 rs1 \<and> uimm_valid 5 rs2 \<and> offset_valid 13 sbimm12) then Some 0
      else encoded (decode_init\<lparr>dec_op := rv_op_bgeu, dec_rs1 := ucast rs1,
                      dec_rs2 := ucast rs2, dec_imm := ucast sbimm12\<rparr>))"

definition emit_lb :: "u64 \<Rightarrow> u64 \<Rightarrow> u64 \<Rightarrow> u64 option" where
  "emit_lb rd rs1 oimm12 =
     (if \<not> (uimm_valid 5 rd \<and> uimm_valid 5 rs1 \<and> offset_valid 12 oimm12) then Some 0
      else encoded (decode_init\<lparr>dec_op := rv_op_lb, dec_rd := ucast rd,
                      dec_rs1 := ucast rs1, dec_imm := ucast oimm12\<rparr>))"

definition emit_lh :: "u64 \<Rightarrow> u64 \<Rightarrow> u64 \<Rightarrow> u64 option" where
  "emit_lh rd rs1 oimm12 =
     (if \<not> (uimm_valid 5 rd \<and> uimm_valid 5 rs1 \<and> offset_valid 12 oimm12) then Some 0
      else encoded (decode_init\<lparr>dec_op := rv_op_lh, dec_rd := ucast rd,
                      dec_rs1 := ucast rs1, dec_imm := ucast oimm12\<rparr>))"

definition emit_lw :: "u64 \<Rightarrow> u64 \<Rightarrow> u64 \<Rightarrow> u64 option" where
  "emit_lw rd rs1 oimm12 =
     (if \<not> (uimm_valid 5 rd \<and> uimm_valid 5 rs1 \<and> offset_valid 12 oimm12) then Some 0
      else encoded (decode_init\<lparr>dec_op := rv_op_lw, dec_rd := ucast rd,
                      dec_rs1 := ucast rs1, dec_imm := ucast oimm12\<rparr>))"

definition emit_lbu :: "u64 \<Rightarrow> u64 \<Rightarrow> u64 \<Rightarrow> u64 option" where
  "emit_lbu rd rs1 oimm12 =
     (if \<not> (uimm_valid 5 rd \<and> uimm_valid 5 rs1 \<and> offset_valid 12 oimm12) then Some 0
      else encoded (decode_init\<lparr>dec_op := rv_op_lbu, dec_rd := ucast rd,
                      dec_rs1 := ucast rs1, dec_imm := ucast oimm12\<rparr>))"

definition emit_lhu :: "u64 \<Rightarrow> u64 \<Rightarrow> u64 \<Rightarrow> u64 option" where
  "emit_lhu rd rs1 oimm12 =
     (if \<not> (uimm_valid 5 rd \<and> uimm_valid 5 rs1 \<and> offset_valid 12 oimm12) then Some 0
      else encoded (decode_init\<lparr>dec_op := rv_op_lhu, dec_rd := ucast rd,
                      dec_rs1 := ucast rs1, dec_imm := ucast oimm12\<rparr>))"

definition emit_sb :: "u64 \<Rightarrow> u64 \<Rightarrow> u64 \<Rightarrow> u64 option" where
  "emit_sb rs1 rs2 simm12 =
     (if \<not> (uimm_valid 5 rs1 \<and> uimm_valid 5 rs2 \<and> offset_valid 12 simm12) then Some 0
      else encoded (decode_init\<lparr>dec_op := rv_op_sb, dec_rs1 := ucast rs1,
                      dec_rs2 := ucast rs2, dec_imm := ucast simm12\<rparr>))"

definition emit_sh :: "u64 \<Rightarrow> u64 \<Rightarrow> u64 \<Rightarrow> u64 option" where
  "emit_sh rs1 rs2 simm12 =
     (if \<not> (uimm_valid 5 rs1 \<and> uimm_valid 5 rs2 \<and> offset_valid 12 simm12) then Some 0
      else encoded (decode_init\<lparr>dec_op := rv_op_sh, dec_rs1 := ucast rs1,
                      dec_rs2 := ucast rs2, dec_imm := ucast simm12\<rparr>))"

definition emit_sw :: "u64 \<Rightarrow> u64 \<Rightarrow> u64 \<Rightarrow> u64 option" where
  "emit_sw rs1 rs2 simm12 =
     (if \<not> (uimm_valid 5 rs1 \<and> uimm_valid 5 rs2 \<and> offset_valid 12 simm12) then Some 0
      else encoded (decode_init\<lparr>dec_op := rv_op_sw, dec_rs1 := ucast rs1,
                      dec_rs2 := ucast rs2, dec_imm := ucast simm12\<rparr>))"

definition emit_addi :: "u64 \<Rightarrow> u64 \<Rightarrow> u64 \<Rightarrow> u64 option" where
  "emit_addi rd rs1 imm12 =
     (if \<not> (uimm_valid 5 rd \<and> uimm_valid 5 rs1 \<and> simm_valid 12 imm12) then Some 0
      else encoded (decode_init\<lparr>dec_op := rv_op_addi, dec_rd := ucast rd,
                      dec_rs1 := ucast rs1, dec_imm := ucast imm12\<rparr>))"

definition emit_slti :: "u64 \<Rightarrow> u64 \<Rightarrow> u64 \<Rightarrow> u64 option" where
  "emit_slti rd rs1 imm12 =
     (if \<not> (uimm_valid 5 rd \<and> uimm_valid 5 rs1 \<and> simm_valid 12 imm12) then Some 0
      else encoded (decode_init\<lparr>dec_op := rv_op_slti, dec_rd := ucast rd,
                      dec_rs1 := ucast rs1, dec_imm := ucast imm12\<rparr>))"

definition emit_sltiu :: "u64 \<Rightarrow> u64 \<Rightarrow> u64 \<Rightarrow> u64 option" where
  "emit_sltiu rd rs1 imm12 =
     (if \<not> (uimm_valid 5 rd \<and> uimm_valid 5 rs1 \<and> simm_valid 12 imm12) then Some 0
      else encoded (decode_init\<lparr>dec_op := rv_op_sltiu, dec_rd := ucast rd,
                      dec_rs1 := ucast rs1, dec_imm := ucast imm12\<rparr>))"

definition emit_xori :: "u64 \<Rightarrow> u64 \<Rightarrow> u64 \<Rightarrow> u64 option" where
  "emit_xori rd rs1 imm12 =
     (if \<not> (uimm_valid 5 rd \<and> uimm_valid 5 rs1 \<and> simm_valid 12 imm12) then Some 0
      else encoded (decode_init\<lparr>dec_op := rv_op_xori, dec_rd := ucast rd,
                      dec_rs1 := ucast rs1, dec_imm := ucast imm12\<rparr>))"

definition emit_ori :: "u64 \<Rightarrow> u64 \<Rightarrow> u64 \<Rightarrow> u64 option" where
  "emit_ori rd rs1 imm12 =
     (if \<not> (uimm_valid 5 rd \<and> uimm_valid 5 rs1 \<and> simm_valid 12 imm12) then Some 0
      else encoded (decode_init\<lparr>dec_op := rv_op_ori, dec_rd := ucast rd,
                      dec_rs1 := ucast rs1, dec_imm := ucast imm12\<rparr>))"

definition emit_andi :: "u64 \<Rightarrow> u64 \<Rightarrow> u64 \<Rightarrow> u64 option" where
  "emit_andi rd rs1 imm12 =
     (if \<not> (uimm_valid 5 rd \<and> uimm_valid 5 rs1 \<and> simm_valid 12 imm12) then Some 0
      else encoded (decode_init\<lparr>dec_op := rv_op_andi, dec_rd := ucast rd,
                      dec_rs1 := ucast rs1, dec_imm := ucast imm12\<rparr>))"

definition emit_slli :: "u64 \<Rightarrow> u64 \<Rightarrow> u64 \<Rightarrow> u64 option" where
  "emit_slli rd rs1 shamt7 =
     (if \<not> (uimm_valid 5 rd \<and> uimm_valid 5 rs1 \<and> uimm_valid 7 shamt7) then Some 0
      else encoded (decode_init\<lparr>dec_op := rv_op_slli, dec_rd := ucast rd,
                      dec_rs1 := ucast rs1, dec_imm := ucast shamt7\<rparr>))"

definition emit_srli :: "u64 \<Rightarrow> u64 \<Rightarrow> u64 \<Rightarrow> u64 option" where
  "emit_srli rd rs1 shamt7 =
     (if \<not> (uimm_valid 5 rd \<and> uimm_valid 5 rs1 \<and> uimm_valid 7 shamt7) then Some 0
      else encoded (decode_init\<lparr>dec_op := rv_op_srli, dec_rd := ucast rd,
                      dec_rs1 := ucast rs1, dec_imm := ucast shamt7\<rparr>))"

definition emit_srai :: "u64 \<Rightarrow> u64 \<Rightarrow> u64 \<Rightarrow> u64 option" where
  "emit_srai rd rs1 shamt7 =
     (if \<not> (uimm_valid 5 rd \<and> uimm_valid 5 rs1 \<and> uimm_valid 7 shamt7) then Some 0
      else encoded (decode_init\<lparr>dec_op := rv_op_srai, dec_rd := ucast rd,
                      dec_rs1 := ucast rs1, dec_imm := ucast shamt7\<rparr>))"

definition emit_add :: "u64 \<Rightarrow> u64 \<Rightarrow> u64 \<Rightarrow> u64 option" where
  "emit_add rd rs1 rs2 =
     (if \<not> (uimm_valid 5 rd \<and> uimm_valid 5 rs1 \<and> uimm_valid 5 rs2) then Some 0
      else encoded (decode_init\<lparr>dec_op := rv_op_add, dec_rd := ucast rd,
                      dec_rs1 := ucast rs1, dec_rs2 := ucast rs2\<rparr>))"

definition emit_sub :: "u64 \<Rightarrow> u64 \<Rightarrow> u64 \<Rightarrow> u64 option" where
  "emit_sub rd rs1 rs2 =
     (if \<not> (uimm_valid 5 rd \<and> uimm_valid 5 rs1 \<and> uimm_valid 5 rs2) then Some 0
      else encoded (decode_init\<lparr>dec_op := rv_op_sub, dec_rd := ucast rd,
                      dec_rs1 := ucast rs1, dec_rs2 := ucast rs2\<rparr>))"

definition emit_sll :: "u64 \<Rightarrow> u64 \<Rightarrow> u64 \<Rightarrow> u64 option" where
  "emit_sll rd rs1 rs2 =
     (if \<not> (uimm_valid 5 rd \<and> uimm_valid 5 rs1 \<and> uimm_valid 5 rs2) then Some 0
      else encoded (decode_init\<lparr>dec_op := rv_op_sll, dec_rd := ucast rd,
                      dec_rs1 := ucast rs1, dec_rs2 := ucast rs2\<rparr>))"

definition emit_slt :: "u64 \<Rightarrow> u64 \<Rightarrow> u64 \<Rightarrow> u64 option" where
  "emit_slt rd rs1 rs2 =
     (if \<not> (uimm_valid 5 rd \<and> uimm_valid 5 rs1 \<and> uimm_valid 5 rs2) then Some 0
      else encoded (decode_init\<lparr>dec_op := rv_op_slt, dec_rd := ucast rd,
                      dec_rs1 := ucast rs1, dec_rs2 := ucast rs2\<rparr>))"

definition emit_sltu :: "u64 \<Rightarrow> u64 \<Rightarrow> u64 \<Rightarrow> u64 option" where
  "emit_sltu rd rs1 rs2 =
     (if \<not> (uimm_valid 5 rd \<and> uimm_valid 5 rs1 \<and> uimm_valid 5 rs2) then Some 0
      else encoded (decode_init\<lparr>dec_op := rv_op_sltu, dec_rd := ucast rd,
                      dec_rs1 := ucast rs1, dec_rs2 := ucast rs2\<rparr>))"

definition emit_xor :: "u64 \<Rightarrow> u64 \<Rightarrow> u64 \<Rightarrow> u64 option" where
  "emit_xor rd rs1 rs2 =
     (if \<not> (uimm_valid 5 rd \<and> uimm_valid 5 rs1 \<and> uimm_valid 5 rs2) then Some 0
      else encoded (decode_init\<lparr>dec_op := rv_op_xor, dec_rd := ucast rd,
                      dec_rs1 := ucast rs1, dec_rs2 := ucast rs2\<rparr>))"

definition emit_srl :: "u64 \<Rightarrow> u64 \<Rightarrow> u64 \<Rightarrow> u64 option" where
  "emit_srl rd rs1 rs2 =
     (if \<not> (uimm_valid 5 rd \<and> uimm_valid 5 rs1 \<and> uimm_valid 5 rs2) then Some 0
      else encoded (decode_init\<lparr>dec_op := rv_op_srl, dec_rd := ucast rd,
                      dec_rs1 := ucast rs1, dec_rs2 := ucast rs2\<rparr>))"

definition emit_sra :: "u64 \<Rightarrow> u64 \<Rightarrow> u64 \<Rightarrow> u64 option" where
  "emit_sra rd rs1 rs2 =
     (if \<not> (uimm_valid 5 rd \<and> uimm_valid 5 rs1 \<and> uimm_valid 5 rs2) then Some 0
      else encoded (decode_init\<lparr>dec_op := rv_op_sra, dec_rd := ucast rd,
                      dec_rs1 := ucast rs1, dec_rs2 := ucast rs2\<rparr>))"

definition emit_or :: "u64 \<Rightarrow> u64 \<Rightarrow> u64 \<Rightarrow> u64 option" where
  "emit_or rd rs1 rs2 =
     (if \<not> (uimm_valid 5 rd \<and> uimm_valid 5 rs1 \<and> uimm_valid 5 rs2) then Some 0
      else encoded (decode_init\<lparr>dec_op := rv_op_or, dec_rd := ucast rd,
                      dec_rs1 := ucast rs1, dec_rs2 := ucast rs2\<rparr>))"

definition emit_and :: "u64 \<Rightarrow> u64 \<Rightarrow> u64 \<Rightarrow> u64 option" where
  "emit_and rd rs1 rs2 =
     (if \<not> (uimm_valid 5 rd \<and> uimm_valid 5 rs1 \<and> uimm_valid 5 rs2) then Some 0
      else encoded (decode_init\<lparr>dec_op := rv_op_and, dec_rd := ucast rd,
                      dec_rs1 := ucast rs1, dec_rs2 := ucast rs2\<rparr>))"

definition emit_fence :: "u64 \<Rightarrow> u64 \<Rightarrow> u64 option" where
  "emit_fence pred succ =
     (if \<not> (uimm_valid 4 pred \<and> uimm_valid 4 succ) then Some 0
      else encoded (decode_init\<lparr>dec_op := rv_op_fence, dec_pred := ucast pred,
                      dec_succ := ucast succ\<rparr>))"

definition emit_fence_i :: "u64 option" where
  "emit_fence_i =
     encoded (decode_init\<lparr>dec_op := rv_op_fence_i\<rparr>)"

definition emit_lwu :: "u64 \<Rightarrow> u64 \<Rightarrow> u64 \<Rightarrow> u64 option" where
  "emit_lwu rd rs1 oimm12 =
     (if \<not> (uimm_valid 5 rd \<and> uimm_valid 5 rs1 \<and> offset_valid 12 oimm12) then Some 0
      else encoded (decode_init\<lparr>dec_op := rv_op_lwu, dec_rd := ucast rd,
                      dec_rs1 := ucast rs1, dec_imm := ucast oimm12\<rparr>))"

definition emit_ld :: "u64 \<Rightarrow> u64 \<Rightarrow> u64 \<Rightarrow> u64 option" where
  "emit_ld rd rs1 oimm12 =
     (if \<not> (uimm_valid 5 rd \<and> uimm_valid 5 rs1 \<and> offset_valid 12 oimm12) then Some 0
      else encoded (decode_init\<lparr>dec_op := rv_op_ld, dec_rd := ucast rd,
                      dec_rs1 := ucast rs1, dec_imm := ucast oimm12\<rparr>))"

definition emit_sd :: "u64 \<Rightarrow> u64 \<Rightarrow> u64 \<Rightarrow> u64 option" where
  "emit_sd rs1 rs2 simm12 =
     (if \<not> (uimm_valid 5 rs1 \<and> uimm_valid 5 rs2 \<and> offset_valid 12 simm12) then Some 0
      else encoded (decode_init\<lparr>dec_op := rv_op_sd, dec_rs1 := ucast rs1,
                      dec_rs2 := ucast rs2, dec_imm := ucast simm12\<rparr>))"

definition emit_addiw :: "u64 \<Rightarrow> u64 \<Rightarrow> u64 \<Rightarrow> u64 option" where
  "emit_addiw rd rs1 imm12 =
     (if \<not> (uimm_valid 5 rd \<and> uimm_valid 5 rs1 \<and> simm_valid 12 imm12) then Some 0
      else encoded (decode_init\<lparr>dec_op := rv_op_addiw, dec_rd := ucast rd,
                      dec_rs1 := ucast rs1, dec_imm := ucast imm12\<rparr>))"

definition emit_slliw :: "u64 \<Rightarrow> u64 \<Rightarrow> u64 \<Rightarrow> u64 option" where
  "emit_slliw rd rs1 shamt5 =
     (if \<not> (uimm_valid 5 rd \<and> uimm_valid 5 rs1 \<and> uimm_valid 5 shamt5) then Some 0
      else encoded (decode_init\<lparr>dec_op := rv_op_slliw, dec_rd := ucast rd,
                      dec_rs1 := ucast rs1, dec_imm := ucast shamt5\<rparr>))"

definition emit_srliw :: "u64 \<Rightarrow> u64 \<Rightarrow> u64 \<Rightarrow> u64 option" where
  "emit_srliw rd rs1 shamt5 =
     (if \<not> (uimm_valid 5 rd \<and> uimm_valid 5 rs1 \<and> uimm_valid 5 shamt5) then Some 0
      else encoded (decode_init\<lparr>dec_op := rv_op_srliw, dec_rd := ucast rd,
                      dec_rs1 := ucast rs1, dec_imm := ucast shamt5\<rparr>))"

definition emit_sraiw :: "u64 \<Rightarrow> u64 \<Rightarrow> u64 \<Rightarrow> u64 option" where
  "emit_sraiw rd rs1 shamt5 =
     (if \<not> (uimm_valid 5 rd \<and> uimm_valid 5 rs1 \<and> uimm_valid 5 shamt5) then Some 0
      else encoded (decode_init\<lparr>dec_op := rv_op_sraiw, dec_rd := ucast rd,
                      dec_rs1 := ucast rs1, dec_imm := ucast shamt5\<rparr>))"

definition emit_addw :: "u64 \<Rightarrow> u64 \<Rightarrow> u64 \<Rightarrow> u64 option" where
  "emit_addw rd rs1 rs2 =
     (if \<not> (uimm_valid 5 rd \<and> uimm_valid 5 rs1 \<and> uimm_valid 5 rs2) then Some 0
      else encoded (decode_init\<lparr>dec_op := rv_op_addw, dec_rd := ucast rd,
                      dec_rs1 := ucast rs1, dec_rs2 := ucast rs2\<rparr>))"

definition emit_subw :: "u64 \<Rightarrow> u64 \<Rightarrow> u64 \<Rightarrow> u64 option" where
  "emit_subw rd rs1 rs2 =
     (if \<not> (uimm_valid 5 rd \<and> uimm_valid 5 rs1 \<and> uimm_valid 5 rs2) then Some 0
      else encoded (decode_init\<lparr>dec_op := rv_op_subw, dec_rd := ucast rd,
                      dec_rs1 := ucast rs1, dec_rs2 := ucast rs2\<rparr>))"

definition emit_sllw :: "u64 \<Rightarrow> u64 \<Rightarrow> u64 \<Rightarrow> u64 option" where
  "emit_sllw rd rs1 rs2 =
     (if \<not> (uimm_valid 5 rd \<and> uimm_valid 5 rs1 \<and> uimm_valid 5 rs2) then Some 0
      else encoded (decode_init\<lparr>dec_op := rv_op_sllw, dec_rd := ucast rd,
                      dec_rs1 := ucast rs1, dec_rs2 := ucast rs2\<rparr>))"

definition emit_srlw :: "u64 \<Rightarrow> u64 \<Rightarrow> u64 \<Rightarrow> u64 option" where
  "emit_srlw rd rs1 rs2 =
     (if \<not> (uimm_valid 5 rd \<and> uimm_valid 5 rs1 \<and> uimm_valid 5 rs2) then Some 0
      else encoded (decode_init\<lparr>dec_op := rv_op_srlw, dec_rd := ucast rd,
                      dec_rs1 := ucast rs1, dec_rs2 := ucast rs2\<rparr>))"

definition emit_sraw :: "u64 \<Rightarrow> u64 \<Rightarrow> u64 \<Rightarrow> u64 option" where
  "emit_sraw rd rs1 rs2 =
     (if \<not> (uimm_valid 5 rd \<and> uimm_valid 5 rs1 \<and> uimm_valid 5 rs2) then Some 0
      else encoded (decode_init\<lparr>dec_op := rv_op_sraw, dec_rd := ucast rd,
                      dec_rs1 := ucast rs1, dec_rs2 := ucast rs2\<rparr>))"

definition emit_ldu :: "u64 \<Rightarrow> u64 \<Rightarrow> u64 \<Rightarrow> u64 option" where
  "emit_ldu rd rs1 oimm12 =
     (if \<not> (uimm_valid 5 rd \<and> uimm_valid 5 rs1 \<and> offset_valid 12 oimm12) then Some 0
      else encoded (decode_init\<lparr>dec_op := rv_op_ldu, dec_rd := ucast rd,
                      dec_rs1 := ucast rs1, dec_imm := ucast oimm12\<rparr>))"

definition emit_lq :: "u64 \<Rightarrow> u64 \<Rightarrow> u64 \<Rightarrow> u64 option" where
  "emit_lq rd rs1 oimm12 =
     (if \<not> (uimm_valid 5 rd \<and> uimm_valid 5 rs1 \<and> offset_valid 12 oimm12) then Some 0
      else encoded (decode_init\<lparr>dec_op := rv_op_lq, dec_rd := ucast rd,
                      dec_rs1 := ucast rs1, dec_imm := ucast oimm12\<rparr>))"

definition emit_sq :: "u64 \<Rightarrow> u64 \<Rightarrow> u64 \<Rightarrow> u64 option" where
  "emit_sq rs1 rs2 simm12 =
     (if \<not> (uimm_valid 5 rs1 \<and> uimm_valid 5 rs2 \<and> offset_valid 12 simm12) then Some 0
      else encoded (decode_init\<lparr>dec_op := rv_op_sq, dec_rs1 := ucast rs1,
                      dec_rs2 := ucast rs2, dec_imm := ucast simm12\<rparr>))"

definition emit_addid :: "u64 \<Rightarrow> u64 \<Rightarrow> u64 \<Rightarrow> u64 option" where
  "emit_addid rd rs1 imm12 =
     (if \<not> (uimm_valid 5 rd \<and> uimm_valid 5 rs1 \<and> simm_valid 12 imm12) then Some 0
      else encoded (decode_init\<lparr>dec_op := rv_op_addid, dec_rd := ucast rd,
                      dec_rs1 := ucast rs1, dec_imm := ucast imm12\<rparr>))"

definition emit_sllid :: "u64 \<Rightarrow> u64 \<Rightarrow> u64 \<Rightarrow> u64 option" where
  "emit_sllid rd rs1 shamt6 =
     (if \<not> (uimm_valid 5 rd \<and> uimm_valid 5 rs1 \<and> uimm_valid 6 shamt6) then Some 0
      else encoded (decode_init\<lparr>dec_op := rv_op_sllid, dec_rd := ucast rd,
                      dec_rs1 := ucast rs1, dec_imm := ucast shamt6\<rparr>))"

definition emit_srlid :: "u64 \<Rightarrow> u64 \<Rightarrow> u64 \<Rightarrow> u64 option" where
  "emit_srlid rd rs1 shamt6 =
     (if \<not> (uimm_valid 5 rd \<and> uimm_valid 5 rs1 \<and> uimm_valid 6 shamt6) then Some 0
      else encoded (decode_init\<lparr>dec_op := rv_op_srlid, dec_rd := ucast rd,
                      dec_rs1 := ucast rs1, dec_imm := ucast shamt6\<rparr>))"

definition emit_sraid :: "u64 \<Rightarrow> u64 \<Rightarrow> u64 \<Rightarrow> u64 option" where
  "emit_sraid rd rs1 shamt6 =
     (if \<not> (uimm_valid 5 rd \<and> uimm_valid 5 rs1 \<and> uimm_valid 6 shamt6) then Some 0
      else encoded (decode_init\<lparr>dec_op := rv_op_sraid, dec_rd := ucast rd,
                      dec_rs1 := ucast rs1, dec_imm := ucast shamt6\<rparr>))"

definition emit_addd :: "u64 \<Rightarrow> u64 \<Rightarrow> u64 \<Rightarrow> u64 option" where
  "emit_addd rd rs1 rs2 =
     (if \<not> (uimm_valid 5 rd \<and> uimm_valid 5 rs1 \<and> uimm_valid 5 rs2) then Some 0
      else encoded (decode_init\<lparr>dec_op := rv_op_addd, dec_rd := ucast rd,
                      dec_rs1 := ucast rs1, dec_rs2 := ucast rs2\<rparr>))"

definition emit_subd :: "u64 \<Rightarrow> u64 \<Rightarrow> u64 \<Rightarrow> u64 option" where
  "emit_subd rd rs1 rs2 =
     (if \<not> (uimm_valid 5 rd \<and> uimm_valid 5 rs1 \<and> uimm_valid 5 rs2) then Some 0
      else encoded (decode_init\<lparr>dec_op := rv_op_subd, dec_rd := ucast rd,
                      dec_rs1 := ucast rs1, dec_rs2 := ucast rs2\<rparr>))"

definition emit_slld :: "u64 \<Rightarrow> u64 \<Rightarrow> u64 \<Rightarrow> u64 option" where
  "emit_slld rd rs1 rs2 =
     (if \<not> (uimm_valid 5 rd \<and> uimm_valid 5 rs1 \<and> uimm_valid 5 rs2) then Some 0
      else encoded (decode_init\<lparr>dec_op := rv_op_slld, dec_rd := ucast rd,
                      dec_rs1 := ucast rs1, dec_rs2 := ucast rs2\<rparr>))"

definition emit_srld :: "u64 \<Rightarrow> u64 \<Rightarrow> u64 \<Rightarrow> u64 option" where
  "emit_srld rd rs1 rs2 =
     (if \<not> (uimm_valid 5 rd \<and> uimm_valid 5 rs1 \<and> uimm_valid 5 rs2) then Some 0
      else encoded (decode_init\<lparr>dec_op := rv_op_srld, dec_rd := ucast rd,
                      dec_rs1 := ucast rs1, dec_rs2 := ucast rs2\<rparr>))"

definition emit_srad :: "u64 \<Rightarrow> u64 \<Rightarrow> u64 \<Rightarrow> u64 option" where
  "emit_srad rd rs1 rs2 =
     (if \<not> (uimm_valid 5 rd \<and> uimm_valid 5 rs1 \<and> uimm_valid 5 rs2) then Some 0
      else encoded (decode_init\<lparr>dec_op := rv_op_srad, dec_rd := ucast rd,
                      dec_rs1 := ucast rs1, dec_rs2 := ucast rs2\<rparr>))"

definition emit_mul :: "u64 \<Rightarrow> u64 \<Rightarrow> u64 \<Rightarrow> u64 option" where
  "emit_mul rd rs1 rs2 =
     (if \<not> (uimm_valid 5 rd \<and> uimm_valid 5 rs1 \<and> uimm_valid 5 rs2) then Some 0
      else encoded (decode_init\<lparr>dec_op := rv_op_mul, dec_rd := ucast rd,
                      dec_rs1 := ucast rs1, dec_rs2 := ucast rs2\<rparr>))"

definition emit_mulh :: "u64 \<Rightarrow> u64 \<Rightarrow> u64 \<Rightarrow> u64 option" where
  "emit_mulh rd rs1 rs2 =
     (if \<not> (uimm_valid 5 rd \<and> uimm_valid 5 rs1 \<and> uimm_valid 5 rs2) then Some 0
      else encoded (decode_init\<lparr>dec_op := rv_op_mulh, dec_rd := ucast rd,
                      dec_rs1 := ucast rs1, dec_rs2 := ucast rs2\<rparr>))"

definition emit_mulhsu :: "u64 \<Rightarrow> u64 \<Rightarrow> u64 \<Rightarrow> u64 option" where
  "emit_mulhsu rd rs1 rs2 =
     (if \<not> (uimm_valid 5 rd \<and> uimm_valid 5 rs1 \<and> uimm_valid 5 rs2) then Some 0
      else encoded (decode_init\<lparr>dec_op := rv_op_mulhsu, dec_rd := ucast rd,
                      dec_rs1 := ucast rs1, dec_rs2 := ucast rs2\<rparr>))"

definition emit_mulhu :: "u64 \<Rightarrow> u64 \<Rightarrow> u64 \<Rightarrow> u64 option" where
  "emit_mulhu rd rs1 rs2 =
     (if \<not> (uimm_valid 5 rd \<and> uimm_valid 5 rs1 \<and> uimm_valid 5 rs2) then Some 0
      else encoded (decode_init\<lparr>dec_op := rv_op_mulhu, dec_rd := ucast rd,
                      dec_rs1 := ucast rs1, dec_rs2 := ucast rs2\<rparr>))"

definition emit_div :: "u64 \<Rightarrow> u64 \<Rightarrow> u64 \<Rightarrow> u64 option" where
  "emit_div rd rs1 rs2 =
     (if \<not> (uimm_valid 5 rd \<and> uimm_valid 5 rs1 \<and> uimm_valid 5 rs2) then Some 0
      else encoded (decode_init\<lparr>dec_op := rv_op_div, dec_rd := ucast rd,
                      dec_rs1 := ucast rs1, dec_rs2 := ucast rs2\<rparr>))"

definition emit_divu :: "u64 \<Rightarrow> u64 \<Rightarrow> u64 \<Rightarrow> u64 option" where
  "emit_divu rd rs1 rs2 =
     (if \<not> (uimm_valid 5 rd \<and> uimm_valid 5 rs1 \<and> uimm_valid 5 rs2) then Some 0
      else encoded (decode_init\<lparr>dec_op := rv_op_divu, dec_rd := ucast rd,
                      dec_rs1 := ucast rs1, dec_rs2 := ucast rs2\<rparr>))"

definition emit_rem :: "u64 \<Rightarrow> u64 \<Rightarrow> u64 \<Rightarrow> u64 option" where
  "emit_rem rd rs1 rs2 =
     (if \<not> (uimm_valid 5 rd \<and> uimm_valid 5 rs1 \<and> uimm_valid 5 rs2) then Some 0
      else encoded (decode_init\<lparr>dec_op := rv_op_rem, dec_rd := ucast rd,
                      dec_rs1 := ucast rs1, dec_rs2 := ucast rs2\<rparr>))"

definition emit_remu :: "u64 \<Rightarrow> u64 \<Rightarrow> u64 \<Rightarrow> u64 option" where
  "emit_remu rd rs1 rs2 =
     (if \<not> (uimm_valid 5 rd \<and> uimm_valid 5 rs1 \<and> uimm_valid 5 rs2) then Some 0
      else encoded (decode_init\<lparr>dec_op := rv_op_remu, dec_rd := ucast rd,
                      dec_rs1 := ucast rs1, dec_rs2 := ucast rs2\<rparr>))"

definition emit_mulw :: "u64 \<Rightarrow> u64 \<Rightarrow> u64 \<Rightarrow> u64 option" where
  "emit_mulw rd rs1 rs2 =
     (if \<not> (uimm_valid 5 rd \<and> uimm_valid 5 rs1 \<and> uimm_valid 5 rs2) then Some 0
      else encoded (decode_init\<lparr>dec_op := rv_op_mulw, dec_rd := ucast rd,
                      dec_rs1 := ucast rs1, dec_rs2 := ucast rs2\<rparr>))"

definition emit_divw :: "u64 \<Rightarrow> u64 \<Rightarrow> u64 \<Rightarrow> u64 option" where
  "emit_divw rd rs1 rs2 =
     (if \<not> (uimm_valid 5 rd \<and> uimm_valid 5 rs1 \<and> uimm_valid 5 rs2) then Some 0
      else encoded (decode_init\<lparr>dec_op := rv_op_divw, dec_rd := ucast rd,
                      dec_rs1 := ucast rs1, dec_rs2 := ucast rs2\<rparr>))"

definition emit_divuw :: "u64 \<Rightarrow> u64 \<Rightarrow> u64 \<Rightarrow> u64 option" where
  "emit_divuw rd rs1 rs2 =
     (if \<not> (uimm_valid 5 rd \<and> uimm_valid 5 rs1 \<and> uimm_valid 5 rs2) then Some 0
      else encoded (decode_init\<lparr>dec_op := rv_op_divuw, dec_rd := ucast rd,
                      dec_rs1 := ucast rs1, dec_rs2 := ucast rs2\<rparr>))"

definition emit_remw :: "u64 \<Rightarrow> u64 \<Rightarrow> u64 \<Rightarrow> u64 option" where
  "emit_remw rd rs1 rs2 =
     (if \<not> (uimm_valid 5 rd \<and> uimm_valid 5 rs1 \<and> uimm_valid 5 rs2) then Some 0
      else encoded (decode_init\<lparr>dec_op := rv_op_remw, dec_rd := ucast rd,
                      dec_rs1 := ucast rs1, dec_rs2 := ucast rs2\<rparr>))"

definition emit_remuw :: "u64 \<Rightarrow> u64 \<Rightarrow> u64 \<Rightarrow> u64 option" where
  "emit_remuw rd rs1 rs2 =
     (if \<not> (uimm_valid 5 rd \<and> uimm_valid 5 rs1 \<and> uimm_valid 5 rs2) then Some 0
      else encoded (decode_init\<lparr>dec_op := rv_op_remuw, dec_rd := ucast rd,
                      dec_rs1 := ucast rs1, dec_rs2 := ucast rs2\<rparr>))"

definition emit_muld :: "u64 \<Rightarrow> u64 \<Rightarrow> u64 \<Rightarrow> u64 option" where
  "emit_muld rd rs1 rs2 =
     (if \<not> (uimm_valid 5 rd \<and> uimm_valid 5 rs1 \<and> uimm_valid 5 rs2) then Some 0
      else encoded (decode_init\<lparr>dec_op := rv_op_muld, dec_rd := ucast rd,
                      dec_rs1 := ucast rs1, dec_rs2 := ucast rs2\<rparr>))"

definition emit_divd :: "u64 \<Rightarrow> u64 \<Rightarrow> u64 \<Rightarrow> u64 option" where
  "emit_divd rd rs1 rs2 =
     (if \<not> (uimm_valid 5 rd \<and> uimm_valid 5 rs1 \<and> uimm_valid 5 rs2) then Some 0
      else encoded (decode_init\<lparr>dec_op := rv_op_divd, dec_rd := ucast rd,
                      dec_rs1 := ucast rs1, dec_rs2 := ucast rs2\<rparr>))"

definition emit_divud :: "u64 \<Rightarrow> u64 \<Rightarrow> u64 \<Rightarrow> u64 option" where
  "emit_divud rd rs1 rs2 =
     (if \<not> (uimm_valid 5 rd \<and> uimm_valid 5 rs1 \<and> uimm_valid 5 rs2) then Some 0
      else encoded (decode_init\<lparr>dec_op := rv_op_divud, dec_rd := ucast rd,
                      dec_rs1 := ucast rs1, dec_rs2 := ucast rs2\<rparr>))"

definition emit_remd :: "u64 \<Rightarrow> u64 \<Rightarrow> u64 \<Rightarrow> u64 option" where
  "emit_remd rd rs1 rs2 =
     (if \<not> (uimm_valid 5 rd \<and> uimm_valid 5 rs1 \<and> uimm_valid 5 rs2) then Some 0
      else encoded (decode_init\<lparr>dec_op := rv_op_remd, dec_rd := ucast rd,
                      dec_rs1 := ucast rs1, dec_rs2 := ucast rs2\<rparr>))"

definition emit_remud :: "u64 \<Rightarrow> u64 \<Rightarrow> u64 \<Rightarrow> u64 option" where
  "emit_remud rd rs1 rs2 =
     (if \<not> (uimm_valid 5 rd \<and> uimm_valid 5 rs1 \<and> uimm_valid 5 rs2) then Some 0
      else encoded (decode_init\<lparr>dec_op := rv_op_remud, dec_rd := ucast rd,
                      dec_rs1 := ucast rs1, dec_rs2 := ucast rs2\<rparr>))"

definition emit_lr_w :: "u64 \<Rightarrow> u64 \<Rightarrow> u64 \<Rightarrow> u64 \<Rightarrow> u64 option" where
  "emit_lr_w rd rs1 aq rl =
     (if \<not> (uimm_valid 5 rd \<and> uimm_valid 5 rs1 \<and> uimm_valid 1 aq \<and> uimm_valid 1 rl) then Some 0
      else encoded (decode_init\<lparr>dec_op := rv_op_lr_w, dec_rd := ucast rd,
                      dec_rs1 := ucast rs1, dec_aq := ucast aq, dec_rl := ucast rl\<rparr>))"

definition emit_sc_w :: "u64 \<Rightarrow> u64 \<Rightarrow> u64 \<Rightarrow> u64 \<Rightarrow> u64 \<Rightarrow> u64 option" where
  "emit_sc_w rd rs1 rs2 aq rl =
     (if \<not> (uimm_valid 5 rd \<and> uimm_valid 5 rs1 \<and> uimm_valid 5 rs2 \<and> uimm_valid 1 aq \<and> uimm_valid 1 rl) then Some 0
      else encoded (decode_init\<lparr>dec_op := rv_op_sc_w, dec_rd := ucast rd,
                      dec_rs1 := ucast rs1, dec_rs2 := ucast rs2, dec_aq := ucast aq,
                      dec_rl := ucast rl\<rparr>))"

definition emit_amoswap_w :: "u64 \<Rightarrow> u64 \<Rightarrow> u64 \<Rightarrow> u64 \<Rightarrow> u64 \<Rightarrow> u64 option" where
  "emit_amoswap_w rd rs1 rs2 aq rl =
     (if \<not> (uimm_valid 5 rd \<and> uimm_valid 5 rs1 \<and> uimm_valid 5 rs2 \<and> uimm_valid 1 aq \<and> uimm_valid 1 rl) then Some 0
      else encoded (decode_init\<lparr>dec_op := rv_op_amoswap_w, dec_rd := ucast rd,
                      dec_rs1 := ucast rs1, dec_rs2 := ucast rs2, dec_aq := ucast aq,
                      dec_rl := ucast rl\<rparr>))"

definition emit_amoadd_w :: "u64 \<Rightarrow> u64 \<Rightarrow> u64 \<Rightarrow> u64 \<Rightarrow> u64 \<Rightarrow> u64 option" where
  "emit_amoadd_w rd rs1 rs2 aq rl =
     (if \<not> (uimm_valid 5 rd \<and> uimm_valid 5 rs1 \<and> uimm_valid 5 rs2 \<and> uimm_valid 1 aq \<and> uimm_valid 1 rl) then Some 0
      else encoded (decode_init\<lparr>dec_op := rv_op_amoadd_w, dec_rd := ucast rd,
                      dec_rs1 := ucast rs1, dec_rs2 := ucast rs2, dec_aq := ucast aq,
                      dec_rl := ucast rl\<rparr>))"

definition emit_amoxor_w :: "u64 \<Rightarrow> u64 \<Rightarrow> u64 \<Rightarrow> u64 \<Rightarrow> u64 \<Rightarrow> u64 option" where
  "emit_amoxor_w rd rs1 rs2 aq rl =
     (if \<not> (uimm_valid 5 rd \<and> uimm_valid 5 rs1 \<and> uimm_valid 5 rs2 \<and> uimm_valid 1 aq \<and> uimm_valid 1 rl) then Some 0
      else encoded (decode_init\<lparr>dec_op := rv_op_amoxor_w, dec_rd := ucast rd,
                      dec_rs1 := ucast rs1, dec_rs2 := ucast rs2, dec_aq := ucast aq,
                      dec_rl := ucast rl\<rparr>))"

definition emit_amoor_w :: "u64 \<Rightarrow> u64 \<Rightarrow> u64 \<Rightarrow> u64 \<Rightarrow> u64 \<Rightarrow> u64 option" where
  "emit_amoor_w rd rs1 rs2 aq rl =
     (if \<not> (uimm_valid 5 rd \<and> uimm_valid 5 rs1 \<and> uimm_valid 5 rs2 \<and> uimm_valid 1 aq \<and> uimm_valid 1 rl) then Some 0
      else encoded (decode_init\<lparr>dec_op := rv_op_amoor_w, dec_rd := ucast rd,
                      dec_rs1 := ucast rs1, dec_rs2 := ucast rs2, dec_aq := ucast aq,
                      dec_rl := ucast rl\<rparr>))"

definition emit_amoand_w :: "u64 \<Rightarrow> u64 \<Rightarrow> u64 \<Rightarrow> u64 \<Rightarrow> u64 \<Rightarrow> u64 option" where
  "emit_amoand_w rd rs1 rs2 aq rl =
     (if \<not> (uimm_valid 5 rd \<and> uimm_valid 5 rs1 \<and> uimm_valid 5 rs2 \<and> uimm_valid 1 aq \<and> uimm_valid 1 rl) then Some 0
      else encoded (decode_init\<lparr>dec_op := rv_op_amoand_w, dec_rd := ucast rd,
                      dec_rs1 := ucast rs1, dec_rs2 := ucast rs2, dec_aq := ucast aq,
                      dec_rl := ucast rl\<rparr>))"

definition emit_amomin_w :: "u64 \<Rightarrow> u64 \<Rightarrow> u64 \<Rightarrow> u64 \<Rightarrow> u64 \<Rightarrow> u64 option" where
  "emit_amomin_w rd rs1 rs2 aq rl =
     (if \<not> (uimm_valid 5 rd \<and> uimm_valid 5 rs1 \<and> uimm_valid 5 rs2 \<and> uimm_valid 1 aq \<and> uimm_valid 1 rl) then Some 0
      else encoded (decode_init\<lparr>dec_op := rv_op_amomin_w, dec_rd := ucast rd,
                      dec_rs1 := ucast rs1, dec_rs2 := ucast rs2, dec_aq := ucast aq,
                      dec_rl := ucast rl\<rparr>))"

definition emit_amomax_w :: "u64 \<Rightarrow> u64 \<Rightarrow> u64 \<Rightarrow> u64 \<Rightarrow> u64 \<Rightarrow> u64 option" where
  "emit_amomax_w rd rs1 rs2 aq rl =
     (if \<not> (uimm_valid 5 rd \<and> uimm_valid 5 rs1 \<and> uimm_valid 5 rs2 \<and> uimm_valid 1 aq \<and> uimm_valid 1 rl) then Some 0
      else encoded (decode_init\<lparr>dec_op := rv_op_amomax_w, dec_rd := ucast rd,
                      dec_rs1 := ucast rs1, dec_rs2 := ucast rs2, dec_aq := ucast aq,
                      dec_rl := ucast rl\<rparr>))"

definition emit_amominu_w :: "u64 \<Rightarrow> u64 \<Rightarrow> u64 \<Rightarrow> u64 \<Rightarrow> u64 \<Rightarrow> u64 option" where
  "emit_amominu_w rd rs1 rs2 aq rl =
     (if \<not> (uimm_valid 5 rd \<and> uimm_valid 5 rs1 \<and> uimm_valid 5 rs2 \<and> uimm_valid 1 aq \<and> uimm_valid 1 rl) then Some 0
      else encoded (decode_init\<lparr>dec_op := rv_op_amominu_w, dec_rd := ucast rd,
                      dec_rs1 := ucast rs1, dec_rs2 := ucast rs2, dec_aq := ucast aq,
                      dec_rl := ucast rl\<rparr>))"

definition emit_amomaxu_w :: "u64 \<Rightarrow> u64 \<Rightarrow> u64 \<Rightarrow> u64 \<Rightarrow> u64 \<Rightarrow> u64 option" where
  "emit_amomaxu_w rd rs1 rs2 aq rl =
     (if \<not> (uimm_valid 5 rd \<and> uimm_valid 5 rs1 \<and> uimm_valid 5 rs2 \<and> uimm_valid 1 aq \<and> uimm_valid 1 rl) then Some 0
      else encoded (decode_init\<lparr>dec_op := rv_op_amomaxu_w, dec_rd := ucast rd,
                      dec_rs1 := ucast rs1, dec_rs2 := ucast rs2, dec_aq := ucast aq,
                      dec_rl := ucast rl\<rparr>))"

definition emit_lr_d :: "u64 \<Rightarrow> u64 \<Rightarrow> u64 \<Rightarrow> u64 \<Rightarrow> u64 option" where
  "emit_lr_d rd rs1 aq rl =
     (if \<not> (uimm_valid 5 rd \<and> uimm_valid 5 rs1 \<and> uimm_valid 1 aq \<and> uimm_valid 1 rl) then Some 0
      else encoded (decode_init\<lparr>dec_op := rv_op_lr_d, dec_rd := ucast rd,
                      dec_rs1 := ucast rs1, dec_aq := ucast aq, dec_rl := ucast rl\<rparr>))"

definition emit_sc_d :: "u64 \<Rightarrow> u64 \<Rightarrow> u64 \<Rightarrow> u64 \<Rightarrow> u64 \<Rightarrow> u64 option" where
  "emit_sc_d rd rs1 rs2 aq rl =
     (if \<not> (uimm_valid 5 rd \<and> uimm_valid 5 rs1 \<and> uimm_valid 5 rs2 \<and> uimm_valid 1 aq \<and> uimm_valid 1 rl) then Some 0
      else encoded (decode_init\<lparr>dec_op := rv_op_sc_d, dec_rd := ucast rd,
                      dec_rs1 := ucast rs1, dec_rs2 := ucast rs2, dec_aq := ucast aq,
                      dec_rl := ucast rl\<rparr>))"

definition emit_amoswap_d :: "u64 \<Rightarrow> u64 \<Rightarrow> u64 \<Rightarrow> u64 \<Rightarrow> u64 \<Rightarrow> u64 option" where
  "emit_amoswap_d rd rs1 rs2 aq rl =
     (if \<not> (uimm_valid 5 rd \<and> uimm_valid 5 rs1 \<and> uimm_valid 5 rs2 \<and> uimm_valid 1 aq \<and> uimm_valid 1 rl) then Some 0
      else encoded (decode_init\<lparr>dec_op := rv_op_amoswap_d, dec_rd := ucast rd,
                      dec_rs1 := ucast rs1, dec_rs2 := ucast rs2, dec_aq := ucast aq,
                      dec_rl := ucast rl\<rparr>))"

definition emit_amoadd_d :: "u64 \<Rightarrow> u64 \<Rightarrow> u64 \<Rightarrow> u64 \<Rightarrow> u64 \<Rightarrow> u64 option" where
  "emit_amoadd_d rd rs1 rs2 aq rl =
     (if \<not> (uimm_valid 5 rd \<and> uimm_valid 5 rs1 \<and> uimm_valid 5 rs2 \<and> uimm_valid 1 aq \<and> uimm_valid 1 rl) then Some 0
      else encoded (decode_init\<lparr>dec_op := rv_op_amoadd_d, dec_rd := ucast rd,
                      dec_rs1 := ucast rs1, dec_rs2 := ucast rs2, dec_aq := ucast aq,
                      dec_rl := ucast rl\<rparr>))"

definition emit_amoxor_d :: "u64 \<Rightarrow> u64 \<Rightarrow> u64 \<Rightarrow> u64 \<Rightarrow> u64 \<Rightarrow> u64 option" where
  "emit_amoxor_d rd rs1 rs2 aq rl =
     (if \<not> (uimm_valid 5 rd \<and> uimm_valid 5 rs1 \<and> uimm_valid 5 rs2 \<and> uimm_valid 1 aq \<and> uimm_valid 1 rl) then Some 0
      else encoded (decode_init\<lparr>dec_op := rv_op_amoxor_d, dec_rd := ucast rd,
                      dec_rs1 := ucast rs1, dec_rs2 := ucast rs2, dec_aq := ucast aq,
                      dec_rl := ucast rl\<rparr>))"

definition emit_amoor_d :: "u64 \<Rightarrow> u64 \<Rightarrow> u64 \<Rightarrow> u64 \<Rightarrow> u64 \<Rightarrow> u64 option" where
  "emit_amoor_d rd rs1 rs2 aq rl =
     (if \<not> (uimm_valid 5 rd \<and> uimm_valid 5 rs1 \<and> uimm_valid 5 rs2 \<and> uimm_valid 1 aq \<and> uimm_valid 1 rl) then Some 0
      else encoded (decode_init\<lparr>dec_op := rv_op_amoor_d, dec_rd := ucast rd,
                      dec_rs1 := ucast rs1, dec_rs2 := ucast rs2, dec_aq := ucast aq,
                      dec_rl := ucast rl\<rparr>))"

definition emit_amoand_d :: "u64 \<Rightarrow> u64 \<Rightarrow> u64 \<Rightarrow> u64 \<Rightarrow> u64 \<Rightarrow> u64 option" where
  "emit_amoand_d rd rs1 rs2 aq rl =
     (if \<not> (uimm_valid 5 rd \<and> uimm_valid 5 rs1 \<and> uimm_valid 5 rs2 \<and> uimm_valid 1 aq \<and> uimm_valid 1 rl) then Some 0
      else encoded (decode_init\<lparr>dec_op := rv_op_amoand_d, dec_rd := ucast rd,
                      dec_rs1 := ucast rs1, dec_rs2 := ucast rs2, dec_aq := ucast aq,
                      dec_rl := ucast rl\<rparr>))"

definition emit_amomin_d :: "u64 \<Rightarrow> u64 \<Rightarrow> u64 \<Rightarrow> u64 \<Rightarrow> u64 \<Rightarrow> u64 option" where
  "emit_amomin_d rd rs1 rs2 aq rl =
     (if \<not> (uimm_valid 5 rd \<and> uimm_valid 5 rs1 \<and> uimm_valid 5 rs2 \<and> uimm_valid 1 aq \<and> uimm_valid 1 rl) then Some 0
      else encoded (decode_init\<lparr>dec_op := rv_op_amomin_d, dec_rd := ucast rd,
                      dec_rs1 := ucast rs1, dec_rs2 := ucast rs2, dec_aq := ucast aq,
                      dec_rl := ucast rl\<rparr>))"

definition emit_amomax_d :: "u64 \<Rightarrow> u64 \<Rightarrow> u64 \<Rightarrow> u64 \<Rightarrow> u64 \<Rightarrow> u64 option" where
  "emit_amomax_d rd rs1 rs2 aq rl =
     (if \<not> (uimm_valid 5 rd \<and> uimm_valid 5 rs1 \<and> uimm_valid 5 rs2 \<and> uimm_valid 1 aq \<and> uimm_valid 1 rl) then Some 0
      else encoded (decode_init\<lparr>dec_op := rv_op_amomax_d, dec_rd := ucast rd,
                      dec_rs1 := ucast rs1, dec_rs2 := ucast rs2, dec_aq := ucast aq,
                      dec_rl := ucast rl\<rparr>))"

definition emit_amominu_d :: "u64 \<Rightarrow> u64 \<Rightarrow> u64 \<Rightarrow> u64 \<Rightarrow> u64 \<Rightarrow> u64 option" where
  "emit_amominu_d rd rs1 rs2 aq rl =
     (if \<not> (uimm_valid 5 rd \<and> uimm_valid 5 rs1 \<and> uimm_valid 5 rs2 \<and> uimm_valid 1 aq \<and> uimm_valid 1 rl) then Some 0
      else encoded (decode_init\<lparr>dec_op := rv_op_amominu_d, dec_rd := ucast rd,
                      dec_rs1 := ucast rs1, dec_rs2 := ucast rs2, dec_aq := ucast aq,
                      dec_rl := ucast rl\<rparr>))"

definition emit_amomaxu_d :: "u64 \<Rightarrow> u64 \<Rightarrow> u64 \<Rightarrow> u64 \<Rightarrow> u64 \<Rightarrow> u64 option" where
  "emit_amomaxu_d rd rs1 rs2 aq rl =
     (if \<not> (uimm_valid 5 rd \<and> uimm_valid 5 rs1 \<and> uimm_valid 5 rs2 \<and> uimm_valid 1 aq \<and> uimm_valid 1 rl) then Some 0
      else encoded (decode_init\<lparr>dec_op := rv_op_amomaxu_d, dec_rd := ucast rd,
                      dec_rs1 := ucast rs1, dec_rs2 := ucast rs2, dec_aq := ucast aq,
                      dec_rl := ucast rl\<rparr>))"

definition emit_lr_q :: "u64 \<Rightarrow> u64 \<Rightarrow> u64 \<Rightarrow> u64 \<Rightarrow> u64 option" where
  "emit_lr_q rd rs1 aq rl =
     (if \<not> (uimm_valid 5 rd \<and> uimm_valid 5 rs1 \<and> uimm_valid 1 aq \<and> uimm_valid 1 rl) then Some 0
      else encoded (decode_init\<lparr>dec_op := rv_op_lr_q, dec_rd := ucast rd,
                      dec_rs1 := ucast rs1, dec_aq := ucast aq, dec_rl := ucast rl\<rparr>))"

definition emit_sc_q :: "u64 \<Rightarrow> u64 \<Rightarrow> u64 \<Rightarrow> u64 \<Rightarrow> u64 \<Rightarrow> u64 option" where
  "emit_sc_q rd rs1 rs2 aq rl =
     (if \<not> (uimm_valid 5 rd \<and> uimm_valid 5 rs1 \<and> uimm_valid 5 rs2 \<and> uimm_valid 1 aq \<and> uimm_valid 1 rl) then Some 0
      else encoded (decode_init\<lparr>dec_op := rv_op_sc_q, dec_rd := ucast rd,
                      dec_rs1 := ucast rs1, dec_rs2 := ucast rs2, dec_aq := ucast aq,
                      dec_rl := ucast rl\<rparr>))"

definition emit_amoswap_q :: "u64 \<Rightarrow> u64 \<Rightarrow> u64 \<Rightarrow> u64 \<Rightarrow> u64 \<Rightarrow> u64 option" where
  "emit_amoswap_q rd rs1 rs2 aq rl =
     (if \<not> (uimm_valid 5 rd \<and> uimm_valid 5 rs1 \<and> uimm_valid 5 rs2 \<and> uimm_valid 1 aq \<and> uimm_valid 1 rl) then Some 0
      else encoded (decode_init\<lparr>dec_op := rv_op_amoswap_q, dec_rd := ucast rd,
                      dec_rs1 := ucast rs1, dec_rs2 := ucast rs2, dec_aq := ucast aq,
                      dec_rl := ucast rl\<rparr>))"

definition emit_amoadd_q :: "u64 \<Rightarrow> u64 \<Rightarrow> u64 \<Rightarrow> u64 \<Rightarrow> u64 \<Rightarrow> u64 option" where
  "emit_amoadd_q rd rs1 rs2 aq rl =
     (if \<not> (uimm_valid 5 rd \<and> uimm_valid 5 rs1 \<and> uimm_valid 5 rs2 \<and> uimm_valid 1 aq \<and> uimm_valid 1 rl) then Some 0
      else encoded (decode_init\<lparr>dec_op := rv_op_amoadd_q, dec_rd := ucast rd,
                      dec_rs1 := ucast rs1, dec_rs2 := ucast rs2, dec_aq := ucast aq,
                      dec_rl := ucast rl\<rparr>))"

definition emit_amoxor_q :: "u64 \<Rightarrow> u64 \<Rightarrow> u64 \<Rightarrow> u64 \<Rightarrow> u64 \<Rightarrow> u64 option" where
  "emit_amoxor_q rd rs1 rs2 aq rl =
     (if \<not> (uimm_valid 5 rd \<and> uimm_valid 5 rs1 \<and> uimm_valid 5 rs2 \<and> uimm_valid 1 aq \<and> uimm_valid 1 rl) then Some 0
      else encoded (decode_init\<lparr>dec_op := rv_op_amoxor_q, dec_rd := ucast rd,
                      dec_rs1 := ucast rs1, dec_rs2 := ucast rs2, dec_aq := ucast aq,
                      dec_rl := ucast rl\<rparr>))"

definition emit_amoor_q :: "u64 \<Rightarrow> u64 \<Rightarrow> u64 \<Rightarrow> u64 \<Rightarrow> u64 \<Rightarrow> u64 option" where
  "emit_amoor_q rd rs1 rs2 aq rl =
     (if \<not> (uimm_valid 5 rd \<and> uimm_valid 5 rs1 \<and> uimm_valid 5 rs2 \<and> uimm_valid 1 aq \<and> uimm_valid 1 rl) then Some 0
      else encoded (decode_init\<lparr>dec_op := rv_op_amoor_q, dec_rd := ucast rd,
                      dec_rs1 := ucast rs1, dec_rs2 := ucast rs2, dec_aq := ucast aq,
                      dec_rl := ucast rl\<rparr>))"

definition emit_amoand_q :: "u64 \<Rightarrow> u64 \<Rightarrow> u64 \<Rightarrow> u64 \<Rightarrow> u64 \<Rightarrow> u64 option" where
  "emit_amoand_q rd rs1 rs2 aq rl =
     (if \<not> (uimm_valid 5 rd \<and> uimm_valid 5 rs1 \<and> uimm_valid 5 rs2 \<and> uimm_valid 1 aq \<and> uimm_valid 1 rl) then Some 0
      else encoded (decode_init\<lparr>dec_op := rv_op_amoand_q, dec_rd := ucast rd,
                      dec_rs1 := ucast rs1, dec_rs2 := ucast rs2, dec_aq := ucast aq,
                      dec_rl := ucast rl\<rparr>))"

definition emit_amomin_q :: "u64 \<Rightarrow> u64 \<Rightarrow> u64 \<Rightarrow> u64 \<Rightarrow> u64 \<Rightarrow> u64 option" where
  "emit_amomin_q rd rs1 rs2 aq rl =
     (if \<not> (uimm_valid 5 rd \<and> uimm_valid 5 rs1 \<and> uimm_valid 5 rs2 \<and> uimm_valid 1 aq \<and> uimm_valid 1 rl) then Some 0
      else encoded (decode_init\<lparr>dec_op := rv_op_amomin_q, dec_rd := ucast rd,
                      dec_rs1 := ucast rs1, dec_rs2 := ucast rs2, dec_aq := ucast aq,
                      dec_rl := ucast rl\<rparr>))"

definition emit_amomax_q :: "u64 \<Rightarrow> u64 \<Rightarrow> u64 \<Rightarrow> u64 \<Rightarrow> u64 \<Rightarrow> u64 option" where
  "emit_amomax_q rd rs1 rs2 aq rl =
     (if \<not> (uimm_valid 5 rd \<and> uimm_valid 5 rs1 \<and> uimm_valid 5 rs2 \<and> uimm_valid 1 aq \<and> uimm_valid 1 rl) then Some 0
      else encoded (decode_init\<lparr>dec_op := rv_op_amomax_q, dec_rd := ucast rd,
                      dec_rs1 := ucast rs1, dec_rs2 := ucast rs2, dec_aq := ucast aq,
                      dec_rl := ucast rl\<rparr>))"

definition emit_amominu_q :: "u64 \<Rightarrow> u64 \<Rightarrow> u64 \<Rightarrow> u64 \<Rightarrow> u64 \<Rightarrow> u64 option" where
  "emit_amominu_q rd rs1 rs2 aq rl =
     (if \<not> (uimm_valid 5 rd \<and> uimm_valid 5 rs1 \<and> uimm_valid 5 rs2 \<and> uimm_valid 1 aq \<and> uimm_valid 1 rl) then Some 0
      else encoded (decode_init\<lparr>dec_op := rv_op_amominu_q, dec_rd := ucast rd,
                      dec_rs1 := ucast rs1, dec_rs2 := ucast rs2, dec_aq := ucast aq,
                      dec_rl := ucast rl\<rparr>))"

definition emit_amomaxu_q :: "u64 \<Rightarrow> u64 \<Rightarrow> u64 \<Rightarrow> u64 \<Rightarrow> u64 \<Rightarrow> u64 option" where
  "emit_amomaxu_q rd rs1 rs2 aq rl =
     (if \<not> (uimm_valid 5 rd \<and> uimm_valid 5 rs1 \<and> uimm_valid 5 rs2 \<and> uimm_valid 1 aq \<and> uimm_valid 1 rl) then Some 0
      else encoded (decode_init\<lparr>dec_op := rv_op_amomaxu_q, dec_rd := ucast rd,
                      dec_rs1 := ucast rs1, dec_rs2 := ucast rs2, dec_aq := ucast aq,
                      dec_rl := ucast rl\<rparr>))"

definition emit_ecall :: "u64 option" where
  "emit_ecall =
     encoded (decode_init\<lparr>dec_op := rv_op_ecall\<rparr>)"

definition emit_ebreak :: "u64 option" where
  "emit_ebreak =
     encoded (decode_init\<lparr>dec_op := rv_op_ebreak\<rparr>)"

definition emit_uret :: "u64 option" where
  "emit_uret =
     encoded (decode_init\<lparr>dec_op := rv_op_uret\<rparr>)"

definition emit_sret :: "u64 option" where
  "emit_sret =
     encoded (decode_init\<lparr>dec_op := rv_op_sret\<rparr>)"

definition emit_hret :: "u64 option" where
  "emit_hret =
     encoded (decode_init\<lparr>dec_op := rv_op_hret\<rparr>)"

definition emit_mret :: "u64 option" where
  "emit_mret =
     encoded (decode_init\<lparr>dec_op := rv_op_mret\<rparr>)"

definition emit_dret :: "u64 option" where
  "emit_dret =
     encoded (decode_init\<lparr>dec_op := rv_op_dret\<rparr>)"

definition emit_sfence_vm :: "u64 \<Rightarrow> u64 option" where
  "emit_sfence_vm rs1 =
     (if \<not> (uimm_valid 5 rs1) then Some 0
      else encoded (decode_init\<lparr>dec_op := rv_op_sfence_vm, dec_rs1 := ucast rs1\<rparr>))"

definition emit_sfence_vma :: "u64 \<Rightarrow> u64 \<Rightarrow> u64 option" where
  "emit_sfence_vma rs1 rs2 =
     (if \<not> (uimm_valid 5 rs1 \<and> uimm_valid 5 rs2) then Some 0
      else encoded (decode_init\<lparr>dec_op := rv_op_sfence_vma, dec_rs1 := ucast rs1,
                      dec_rs2 := ucast rs2\<rparr>))"

definition emit_wfi :: "u64 option" where
  "emit_wfi =
     encoded (decode_init\<lparr>dec_op := rv_op_wfi\<rparr>)"

definition emit_csrrw :: "u64 \<Rightarrow> u64 \<Rightarrow> u64 \<Rightarrow> u64 option" where
  "emit_csrrw rd rs1 csr12 =
     (if \<not> (uimm_valid 5 rd \<and> uimm_valid 5 rs1 \<and> uimm_valid 12 csr12) then Some 0
      else encoded (decode_init\<lparr>dec_op := rv_op_csrrw, dec_rd := ucast rd,
                      dec_rs1 := ucast rs1, dec_imm := ucast csr12\<rparr>))"

definition emit_csrrs :: "u64 \<Rightarrow> u64 \<Rightarrow> u64 \<Rightarrow> u64 option" where
  "emit_csrrs rd rs1 csr12 =
     (if \<not> (uimm_valid 5 rd \<and> uimm_valid 5 rs1 \<and> uimm_valid 12 csr12) then Some 0
      else encoded (decode_init\<lparr>dec_op := rv_op_csrrs, dec_rd := ucast rd,
                      dec_rs1 := ucast rs1, dec_imm := ucast csr12\<rparr>))"

definition emit_csrrc :: "u64 \<Rightarrow> u64 \<Rightarrow> u64 \<Rightarrow> u64 option" where
  "emit_csrrc rd rs1 csr12 =
     (if \<not> (uimm_valid 5 rd \<and> uimm_valid 5 rs1 \<and> uimm_valid 12 csr12) then Some 0
      else encoded (decode_init\<lparr>dec_op := rv_op_csrrc, dec_rd := ucast rd,
                      dec_rs1 := ucast rs1, dec_imm := ucast csr12\<rparr>))"

definition emit_csrrwi :: "u64 \<Rightarrow> u64 \<Rightarrow> u64 \<Rightarrow> u64 option" where
  "emit_csrrwi rd zimm csr12 =
     (if \<not> (uimm_valid 5 rd \<and> uimm_valid 5 zimm \<and> uimm_valid 12 csr12) then Some 0
      else encoded (decode_init\<lparr>dec_op := rv_op_csrrwi, dec_rd := ucast rd,
                      dec_imm := ucast zimm, dec_imm := ucast csr12\<rparr>))"

definition emit_csrrsi :: "u64 \<Rightarrow> u64 \<Rightarrow> u64 \<Rightarrow> u64 option" where
  "emit_csrrsi rd zimm csr12 =
     (if \<not> (uimm_valid 5 rd \<and> uimm_valid 5 zimm \<and> uimm_valid 12 csr12) then Some 0
      else encoded (decode_init\<lparr>dec_op := rv_op_csrrsi, dec_rd := ucast rd,
                      dec_imm := ucast zimm, dec_imm := ucast csr12\<rparr>))"

definition emit_csrrci :: "u64 \<Rightarrow> u64 \<Rightarrow> u64 \<Rightarrow> u64 option" where
  "emit_csrrci rd zimm csr12 =
     (if \<not> (uimm_valid 5 rd \<and> uimm_valid 5 zimm \<and> uimm_valid 12 csr12) then Some 0
      else encoded (decode_init\<lparr>dec_op := rv_op_csrrci, dec_rd := ucast rd,
                      dec_imm := ucast zimm, dec_imm := ucast csr12\<rparr>))"

definition emit_flw :: "u64 \<Rightarrow> u64 \<Rightarrow> u64 \<Rightarrow> u64 option" where
  "emit_flw frd rs1 oimm12 =
     (if \<not> (uimm_valid 5 frd \<and> uimm_valid 5 rs1 \<and> offset_valid 12 oimm12) then Some 0
      else encoded (decode_init\<lparr>dec_op := rv_op_flw, dec_rd := ucast frd,
                      dec_rs1 := ucast rs1, dec_imm := ucast oimm12\<rparr>))"

definition emit_fsw :: "u64 \<Rightarrow> u64 \<Rightarrow> u64 \<Rightarrow> u64 option" where
  "emit_fsw rs1 frs2 simm12 =
     (if \<not> (uimm_valid 5 rs1 \<and> uimm_valid 5 frs2 \<and> offset_valid 12 simm12) then Some 0
      else encoded (decode_init\<lparr>dec_op := rv_op_fsw, dec_rs1 := ucast rs1,
                      dec_rs2 := ucast frs2, dec_imm := ucast simm12\<rparr>))"

definition emit_fmadd_s :: "u64 \<Rightarrow> u64 \<Rightarrow> u64 \<Rightarrow> u64 \<Rightarrow> u64 \<Rightarrow> u64 option" where
  "emit_fmadd_s frd frs1 frs2 frs3 rm =
     (if \<not> (uimm_valid 5 frd \<and> uimm_valid 5 frs1 \<and> uimm_valid 5 frs2 \<and> uimm_valid 5 frs3 \<and> uimm_valid 3 rm) then Some 0
      else encoded (decode_init\<lparr>dec_op := rv_op_fmadd_s, dec_rd := ucast frd,
                      dec_rs1 := ucast frs1, dec_rs2 := ucast frs2, dec_rs3 := ucast frs3,
                      dec_rm := ucast rm\<rparr>))"

definition emit_fmsub_s :: "u64 \<Rightarrow> u64 \<Rightarrow> u64 \<Rightarrow> u64 \<Rightarrow> u64 \<Rightarrow> u64 option" where
  "emit_fmsub_s frd frs1 frs2 frs3 rm =
     (if \<not> (uimm_valid 5 frd \<and> uimm_valid 5 frs1 \<and> uimm_valid 5 frs2 \<and> uimm_valid 5 frs3 \<and> uimm_valid 3 rm) then Some 0
      else encoded (decode_init\<lparr>dec_op := rv_op_fmsub_s, dec_rd := ucast frd,
                      dec_rs1 := ucast frs1, dec_rs2 := ucast frs2, dec_rs3 := ucast frs3,
                      dec_rm := ucast rm\<rparr>))"

definition emit_fnmsub_s :: "u64 \<Rightarrow> u64 \<Rightarrow> u64 \<Rightarrow> u64 \<Rightarrow> u64 \<Rightarrow> u64 option" where
  "emit_fnmsub_s frd frs1 frs2 frs3 rm =
     (if \<not> (uimm_valid 5 frd \<and> uimm_valid 5 frs1 \<and> uimm_valid 5 frs2 \<and> uimm_valid 5 frs3 \<and> uimm_valid 3 rm) then Some 0
      else encoded (decode_init\<lparr>dec_op := rv_op_fnmsub_s, dec_rd := ucast frd,
                      dec_rs1 := ucast frs1, dec_rs2 := ucast frs2, dec_rs3 := ucast frs3,
                      dec_rm := ucast rm\<rparr>))"

definition emit_fnmadd_s :: "u64 \<Rightarrow> u64 \<Rightarrow> u64 \<Rightarrow> u64 \<Rightarrow> u64 \<Rightarrow> u64 option" where
  "emit_fnmadd_s frd frs1 frs2 frs3 rm =
     (if \<not> (uimm_valid 5 frd \<and> uimm_valid 5 frs1 \<and> uimm_valid 5 frs2 \<and> uimm_valid 5 frs3 \<and> uimm_valid 3 rm) then Some 0
      else encoded (decode_init\<lparr>dec_op := rv_op_fnmadd_s, dec_rd := ucast frd,
                      dec_rs1 := ucast frs1, dec_rs2 := ucast frs2, dec_rs3 := ucast frs3,
                      dec_rm := ucast rm\<rparr>))"

definition emit_fadd_s :: "u64 \<Rightarrow> u64 \<Rightarrow> u64 \<Rightarrow> u64 \<Rightarrow> u64 option" where
  "emit_fadd_s frd frs1 frs2 rm =
     (if \<not> (uimm_valid 5 frd \<and> uimm_valid 5 frs1 \<and> uimm_valid 5 frs2 \<and> uimm_valid 3 rm) then Some 0
      else encoded (decode_init\<lparr>dec_op := rv_op_fadd_s, dec_rd := ucast frd,
                      dec_rs1 := ucast frs1, dec_rs2 := ucast frs2, dec_rm := ucast rm\<rparr>))"

definition emit_fsub_s :: "u64 \<Rightarrow> u64 \<Rightarrow> u64 \<Rightarrow> u64 \<Rightarrow> u64 option" where
  "emit_fsub_s frd frs1 frs2 rm =
     (if \<not> (uimm_valid 5 frd \<and> uimm_valid 5 frs1 \<and> uimm_valid 5 frs2 \<and> uimm_valid 3 rm) then Some 0
      else encoded (decode_init\<lparr>dec_op := rv_op_fsub_s, dec_rd := ucast frd,
                      dec_rs1 := ucast frs1, dec_rs2 := ucast frs2, dec_rm := ucast rm\<rparr>))"

definition emit_fmul_s :: "u64 \<Rightarrow> u64 \<Rightarrow> u64 \<Rightarrow> u64 \<Rightarrow> u64 option" where
  "emit_fmul_s frd frs1 frs2 rm =
     (if \<not> (uimm_valid 5 frd \<and> uimm_valid 5 frs1 \<and> uimm_valid 5 frs2 \<and> uimm_valid 3 rm) then Some 0
      else encoded (decode_init\<lparr>dec_op := rv_op_fmul_s, dec_rd := ucast frd,
                      dec_rs1 := ucast frs1, dec_rs2 := ucast frs2, dec_rm := ucast rm\<rparr>))"

definition emit_fdiv_s :: "u64 \<Rightarrow> u64 \<Rightarrow> u64 \<Rightarrow> u64 \<Rightarrow> u64 option" where
  "emit_fdiv_s frd frs1 frs2 rm =
     (if \<not> (uimm_valid 5 frd \<and> uimm_valid 5 frs1 \<and> uimm_valid 5 frs2 \<and> uimm_valid 3 rm) then Some 0
      else encoded (decode_init\<lparr>dec_op := rv_op_fdiv_s, dec_rd := ucast frd,
                      dec_rs1 := ucast frs1, dec_rs2 := ucast frs2, dec_rm := ucast rm\<rparr>))"

definition emit_fsgnj_s :: "u64 \<Rightarrow> u64 \<Rightarrow> u64 \<Rightarrow> u64 option" where
  "emit_fsgnj_s frd frs1 frs2 =
     (if \<not> (uimm_valid 5 frd \<and> uimm_valid 5 frs1 \<and> uimm_valid 5 frs2) then Some 0
      else encoded (decode_init\<lparr>dec_op := rv_op_fsgnj_s, dec_rd := ucast frd,
                      dec_rs1 := ucast frs1, dec_rs2 := ucast frs2\<rparr>))"

definition emit_fsgnjn_s :: "u64 \<Rightarrow> u64 \<Rightarrow> u64 \<Rightarrow> u64 option" where
  "emit_fsgnjn_s frd frs1 frs2 =
     (if \<not> (uimm_valid 5 frd \<and> uimm_valid 5 frs1 \<and> uimm_valid 5 frs2) then Some 0
      else encoded (decode_init\<lparr>dec_op := rv_op_fsgnjn_s, dec_rd := ucast frd,
                      dec_rs1 := ucast frs1, dec_rs2 := ucast frs2\<rparr>))"

definition emit_fsgnjx_s :: "u64 \<Rightarrow> u64 \<Rightarrow> u64 \<Rightarrow> u64 option" where
  "emit_fsgnjx_s frd frs1 frs2 =
     (if \<not> (uimm_valid 5 frd \<and> uimm_valid 5 frs1 \<and> uimm_valid 5 frs2) then Some 0
      else encoded (decode_init\<lparr>dec_op := rv_op_fsgnjx_s, dec_rd := ucast frd,
                      dec_rs1 := ucast frs1, dec_rs2 := ucast frs2\<rparr>))"

definition emit_fmin_s :: "u64 \<Rightarrow> u64 \<Rightarrow> u64 \<Rightarrow> u64 option" where
  "emit_fmin_s frd frs1 frs2 =
     (if \<not> (uimm_valid 5 frd \<and> uimm_valid 5 frs1 \<and> uimm_valid 5 frs2) then Some 0
      else encoded (decode_init\<lparr>dec_op := rv_op_fmin_s, dec_rd := ucast frd,
                      dec_rs1 := ucast frs1, dec_rs2 := ucast frs2\<rparr>))"

definition emit_fmax_s :: "u64 \<Rightarrow> u64 \<Rightarrow> u64 \<Rightarrow> u64 option" where
  "emit_fmax_s frd frs1 frs2 =
     (if \<not> (uimm_valid 5 frd \<and> uimm_valid 5 frs1 \<and> uimm_valid 5 frs2) then Some 0
      else encoded (decode_init\<lparr>dec_op := rv_op_fmax_s, dec_rd := ucast frd,
                      dec_rs1 := ucast frs1, dec_rs2 := ucast frs2\<rparr>))"

definition emit_fsqrt_s :: "u64 \<Rightarrow> u64 \<Rightarrow> u64 \<Rightarrow> u64 option" where
  "emit_fsqrt_s frd frs1 rm =
     (if \<not> (uimm_valid 5 frd \<and> uimm_valid 5 frs1 \<and> uimm_valid 3 rm) then Some 0
      else encoded (decode_init\<lparr>dec_op := rv_op_fsqrt_s, dec_rd := ucast frd,
                      dec_rs1 := ucast frs1, dec_rm := ucast rm\<rparr>))"

definition emit_fle_s :: "u64 \<Rightarrow> u64 \<Rightarrow> u64 \<Rightarrow> u64 option" where
  "emit_fle_s rd frs1 frs2 =
     (if \<not> (uimm_valid 5 rd \<and> uimm_valid 5 frs1 \<and> uimm_valid 5 frs2) then Some 0
      else encoded (decode_init\<lparr>dec_op := rv_op_fle_s, dec_rd := ucast rd,
                      dec_rs1 := ucast frs1, dec_rs2 := ucast frs2\<rparr>))"

definition emit_flt_s :: "u64 \<Rightarrow> u64 \<Rightarrow> u64 \<Rightarrow> u64 option" where
  "emit_flt_s rd frs1 frs2 =
     (if \<not> (uimm_valid 5 rd \<and> uimm_valid 5 frs1 \<and> uimm_valid 5 frs2) then Some 0
      else encoded (decode_init\<lparr>dec_op := rv_op_flt_s, dec_rd := ucast rd,
                      dec_rs1 := ucast frs1, dec_rs2 := ucast frs2\<rparr>))"

definition emit_feq_s :: "u64 \<Rightarrow> u64 \<Rightarrow> u64 \<Rightarrow> u64 option" where
  "emit_feq_s rd frs1 frs2 =
     (if \<not> (uimm_valid 5 rd \<and> uimm_valid 5 frs1 \<and> uimm_valid 5 frs2) then Some 0
      else encoded (decode_init\<lparr>dec_op := rv_op_feq_s, dec_rd := ucast rd,
                      dec_rs1 := ucast frs1, dec_rs2 := ucast frs2\<rparr>))"

definition emit_fcvt_w_s :: "u64 \<Rightarrow> u64 \<Rightarrow> u64 \<Rightarrow> u64 option" where
  "emit_fcvt_w_s rd frs1 rm =
     (if \<not> (uimm_valid 5 rd \<and> uimm_valid 5 frs1 \<and> uimm_valid 3 rm) then Some 0
      else encoded (decode_init\<lparr>dec_op := rv_op_fcvt_w_s, dec_rd := ucast rd,
                      dec_rs1 := ucast frs1, dec_rm := ucast rm\<rparr>))"

definition emit_fcvt_wu_s :: "u64 \<Rightarrow> u64 \<Rightarrow> u64 \<Rightarrow> u64 option" where
  "emit_fcvt_wu_s rd frs1 rm =
     (if \<not> (uimm_valid 5 rd \<and> uimm_valid 5 frs1 \<and> uimm_valid 3 rm) then Some 0
      else encoded (decode_init\<lparr>dec_op := rv_op_fcvt_wu_s, dec_rd := ucast rd,
                      dec_rs1 := ucast frs1, dec_rm := ucast rm\<rparr>))"

definition emit_fcvt_s_w :: "u64 \<Rightarrow> u64 \<Rightarrow> u64 \<Rightarrow> u64 option" where
  "emit_fcvt_s_w frd rs1 rm =
     (if \<not> (uimm_valid 5 frd \<and> uimm_valid 5 rs1 \<and> uimm_valid 3 rm) then Some 0
      else encoded (decode_init\<lparr>dec_op := rv_op_fcvt_s_w, dec_rd := ucast frd,
                      dec_rs1 := ucast rs1, dec_rm := ucast rm\<rparr>))"

definition emit_fcvt_s_wu :: "u64 \<Rightarrow> u64 \<Rightarrow> u64 \<Rightarrow> u64 option" where
  "emit_fcvt_s_wu frd rs1 rm =
     (if \<not> (uimm_valid 5 frd \<and> uimm_valid 5 rs1 \<and> uimm_valid 3 rm) then Some 0
      else encoded (decode_init\<lparr>dec_op := rv_op_fcvt_s_wu, dec_rd := ucast frd,
                      dec_rs1 := ucast rs1, dec_rm := ucast rm\<rparr>))"

definition emit_fmv_x_s :: "u64 \<Rightarrow> u64 \<Rightarrow> u64 option" where
  "emit_fmv_x_s rd frs1 =
     (if \<not> (uimm_valid 5 rd \<and> uimm_valid 5 frs1) then Some 0
      else encoded (decode_init\<lparr>dec_op := rv_op_fmv_x_s, dec_rd := ucast rd,
                      dec_rs1 := ucast frs1\<rparr>))"

definition emit_fclass_s :: "u64 \<Rightarrow> u64 \<Rightarrow> u64 option" where
  "emit_fclass_s rd frs1 =
     (if \<not> (uimm_valid 5 rd \<and> uimm_valid 5 frs1) then Some 0
      else encoded (decode_init\<lparr>dec_op := rv_op_fclass_s, dec_rd := ucast rd,
                      dec_rs1 := ucast frs1\<rparr>))"

definition emit_fmv_s_x :: "u64 \<Rightarrow> u64 \<Rightarrow> u64 option" where
  "emit_fmv_s_x frd rs1 =
     (if \<not> (uimm_valid 5 frd \<and> uimm_valid 5 rs1) then Some 0
      else encoded (decode_init\<lparr>dec_op := rv_op_fmv_s_x, dec_rd := ucast frd,
                      dec_rs1 := ucast rs1\<rparr>))"

definition emit_fcvt_l_s :: "u64 \<Rightarrow> u64 \<Rightarrow> u64 \<Rightarrow> u64 option" where
  "emit_fcvt_l_s rd frs1 rm =
     (if \<not> (uimm_valid 5 rd \<and> uimm_valid 5 frs1 \<and> uimm_valid 3 rm) then Some 0
      else encoded (decode_init\<lparr>dec_op := rv_op_fcvt_l_s, dec_rd := ucast rd,
                      dec_rs1 := ucast frs1, dec_rm := ucast rm\<rparr>))"

definition emit_fcvt_lu_s :: "u64 \<Rightarrow> u64 \<Rightarrow> u64 \<Rightarrow> u64 option" where
  "emit_fcvt_lu_s rd frs1 rm =
     (if \<not> (uimm_valid 5 rd \<and> uimm_valid 5 frs1 \<and> uimm_valid 3 rm) then Some 0
      else encoded (decode_init\<lparr>dec_op := rv_op_fcvt_lu_s, dec_rd := ucast rd,
                      dec_rs1 := ucast frs1, dec_rm := ucast rm\<rparr>))"

definition emit_fcvt_s_l :: "u64 \<Rightarrow> u64 \<Rightarrow> u64 \<Rightarrow> u64 option" where
  "emit_fcvt_s_l frd rs1 rm =
     (if \<not> (uimm_valid 5 frd \<and> uimm_valid 5 rs1 \<and> uimm_valid 3 rm) then Some 0
      else encoded (decode_init\<lparr>dec_op := rv_op_fcvt_s_l, dec_rd := ucast frd,
                      dec_rs1 := ucast rs1, dec_rm := ucast rm\<rparr>))"

definition emit_fcvt_s_lu :: "u64 \<Rightarrow> u64 \<Rightarrow> u64 \<Rightarrow> u64 option" where
  "emit_fcvt_s_lu frd rs1 rm =
     (if \<not> (uimm_valid 5 frd \<and> uimm_valid 5 rs1 \<and> uimm_valid 3 rm) then Some 0
      else encoded (decode_init\<lparr>dec_op := rv_op_fcvt_s_lu, dec_rd := ucast frd,
                      dec_rs1 := ucast rs1, dec_rm := ucast rm\<rparr>))"

definition emit_fld :: "u64 \<Rightarrow> u64 \<Rightarrow> u64 \<Rightarrow> u64 option" where
  "emit_fld frd rs1 oimm12 =
     (if \<not> (uimm_valid 5 frd \<and> uimm_valid 5 rs1 \<and> offset_valid 12 oimm12) then Some 0
      else encoded (decode_init\<lparr>dec_op := rv_op_fld, dec_rd := ucast frd,
                      dec_rs1 := ucast rs1, dec_imm := ucast oimm12\<rparr>))"

definition emit_fsd :: "u64 \<Rightarrow> u64 \<Rightarrow> u64 \<Rightarrow> u64 option" where
  "emit_fsd rs1 frs2 simm12 =
     (if \<not> (uimm_valid 5 rs1 \<and> uimm_valid 5 frs2 \<and> offset_valid 12 simm12) then Some 0
      else encoded (decode_init\<lparr>dec_op := rv_op_fsd, dec_rs1 := ucast rs1,
                      dec_rs2 := ucast frs2, dec_imm := ucast simm12\<rparr>))"

definition emit_fmadd_d :: "u64 \<Rightarrow> u64 \<Rightarrow> u64 \<Rightarrow> u64 \<Rightarrow> u64 \<Rightarrow> u64 option" where
  "emit_fmadd_d frd frs1 frs2 frs3 rm =
     (if \<not> (uimm_valid 5 frd \<and> uimm_valid 5 frs1 \<and> uimm_valid 5 frs2 \<and> uimm_valid 5 frs3 \<and> uimm_valid 3 rm) then Some 0
      else encoded (decode_init\<lparr>dec_op := rv_op_fmadd_d, dec_rd := ucast frd,
                      dec_rs1 := ucast frs1, dec_rs2 := ucast frs2, dec_rs3 := ucast frs3,
                      dec_rm := ucast rm\<rparr>))"

definition emit_fmsub_d :: "u64 \<Rightarrow> u64 \<Rightarrow> u64 \<Rightarrow> u64 \<Rightarrow> u64 \<Rightarrow> u64 option" where
  "emit_fmsub_d frd frs1 frs2 frs3 rm =
     (if \<not> (uimm_valid 5 frd \<and> uimm_valid 5 frs1 \<and> uimm_valid 5 frs2 \<and> uimm_valid 5 frs3 \<and> uimm_valid 3 rm) then Some 0
      else encoded (decode_init\<lparr>dec_op := rv_op_fmsub_d, dec_rd := ucast frd,
                      dec_rs1 := ucast frs1, dec_rs2 := ucast frs2, dec_rs3 := ucast frs3,
                      dec_rm := ucast rm\<rparr>))"

definition emit_fnmsub_d :: "u64 \<Rightarrow> u64 \<Rightarrow> u64 \<Rightarrow> u64 \<Rightarrow> u64 \<Rightarrow> u64 option" where
  "emit_fnmsub_d frd frs1 frs2 frs3 rm =
     (if \<not> (uimm_valid 5 frd \<and> uimm_valid 5 frs1 \<and> uimm_valid 5 frs2 \<and> uimm_valid 5 frs3 \<and> uimm_valid 3 rm) then Some 0
      else encoded (decode_init\<lparr>dec_op := rv_op_fnmsub_d, dec_rd := ucast frd,
                      dec_rs1 := ucast frs1, dec_rs2 := ucast frs2, dec_rs3 := ucast frs3,
                      dec_rm := ucast rm\<rparr>))"

definition emit_fnmadd_d :: "u64 \<Rightarrow> u64 \<Rightarrow> u64 \<Rightarrow> u64 \<Rightarrow> u64 \<Rightarrow> u64 option" where
  "emit_fnmadd_d frd frs1 frs2 frs3 rm =
     (if \<not> (uimm_valid 5 frd \<and> uimm_valid 5 frs1 \<and> uimm_valid 5 frs2 \<and> uimm_valid 5 frs3 \<and> uimm_valid 3 rm) then Some 0
      else encoded (decode_init\<lparr>dec_op := rv_op_fnmadd_d, dec_rd := ucast frd,
                      dec_rs1 := ucast frs1, dec_rs2 := ucast frs2, dec_rs3 := ucast frs3,
                      dec_rm := ucast rm\<rparr>))"

definition emit_fadd_d :: "u64 \<Rightarrow> u64 \<Rightarrow> u64 \<Rightarrow> u64 \<Rightarrow> u64 option" where
  "emit_fadd_d frd frs1 frs2 rm =
     (if \<not> (uimm_valid 5 frd \<and> uimm_valid 5 frs1 \<and> uimm_valid 5 frs2 \<and> uimm_valid 3 rm) then Some 0
      else encoded (decode_init\<lparr>dec_op := rv_op_fadd_d, dec_rd := ucast frd,
                      dec_rs1 := ucast frs1, dec_rs2 := ucast frs2, dec_rm := ucast rm\<rparr>))"

definition emit_fsub_d :: "u64 \<Rightarrow> u64 \<Rightarrow> u64 \<Rightarrow> u64 \<Rightarrow> u64 option" where
  "emit_fsub_d frd frs1 frs2 rm =
     (if \<not> (uimm_valid 5 frd \<and> uimm_valid 5 frs1 \<and> uimm_valid 5 frs2 \<and> uimm_valid 3 rm) then Some 0
      else encoded (decode_init\<lparr>dec_op := rv_op_fsub_d, dec_rd := ucast frd,
                      dec_rs1 := ucast frs1, dec_rs2 := ucast frs2, dec_rm := ucast rm\<rparr>))"

definition emit_fmul_d :: "u64 \<Rightarrow> u64 \<Rightarrow> u64 \<Rightarrow> u64 \<Rightarrow> u64 option" where
  "emit_fmul_d frd frs1 frs2 rm =
     (if \<not> (uimm_valid 5 frd \<and> uimm_valid 5 frs1 \<and> uimm_valid 5 frs2 \<and> uimm_valid 3 rm) then Some 0
      else encoded (decode_init\<lparr>dec_op := rv_op_fmul_d, dec_rd := ucast frd,
                      dec_rs1 := ucast frs1, dec_rs2 := ucast frs2, dec_rm := ucast rm\<rparr>))"

definition emit_fdiv_d :: "u64 \<Rightarrow> u64 \<Rightarrow> u64 \<Rightarrow> u64 \<Rightarrow> u64 option" where
  "emit_fdiv_d frd frs1 frs2 rm =
     (if \<not> (uimm_valid 5 frd \<and> uimm_valid 5 frs1 \<and> uimm_valid 5 frs2 \<and> uimm_valid 3 rm) then Some 0
      else encoded (decode_init\<lparr>dec_op := rv_op_fdiv_d, dec_rd := ucast frd,
                      dec_rs1 := ucast frs1, dec_rs2 := ucast frs2, dec_rm := ucast rm\<rparr>))"

definition emit_fsgnj_d :: "u64 \<Rightarrow> u64 \<Rightarrow> u64 \<Rightarrow> u64 option" where
  "emit_fsgnj_d frd frs1 frs2 =
     (if \<not> (uimm_valid 5 frd \<and> uimm_valid 5 frs1 \<and> uimm_valid 5 frs2) then Some 0
      else encoded (decode_init\<lparr>dec_op := rv_op_fsgnj_d, dec_rd := ucast frd,
                      dec_rs1 := ucast frs1, dec_rs2 := ucast frs2\<rparr>))"

definition emit_fsgnjn_d :: "u64 \<Rightarrow> u64 \<Rightarrow> u64 \<Rightarrow> u64 option" where
  "emit_fsgnjn_d frd frs1 frs2 =
     (if \<not> (uimm_valid 5 frd \<and> uimm_valid 5 frs1 \<and> uimm_valid 5 frs2) then Some 0
      else encoded (decode_init\<lparr>dec_op := rv_op_fsgnjn_d, dec_rd := ucast frd,
                      dec_rs1 := ucast frs1, dec_rs2 := ucast frs2\<rparr>))"

definition emit_fsgnjx_d :: "u64 \<Rightarrow> u64 \<Rightarrow> u64 \<Rightarrow> u64 option" where
  "emit_fsgnjx_d frd frs1 frs2 =
     (if \<not> (uimm_valid 5 frd \<and> uimm_valid 5 frs1 \<and> uimm_valid 5 frs2) then Some 0
      else encoded (decode_init\<lparr>dec_op := rv_op_fsgnjx_d, dec_rd := ucast frd,
                      dec_rs1 := ucast frs1, dec_rs2 := ucast frs2\<rparr>))"

definition emit_fmin_d :: "u64 \<Rightarrow> u64 \<Rightarrow> u64 \<Rightarrow> u64 option" where
  "emit_fmin_d frd frs1 frs2 =
     (if \<not> (uimm_valid 5 frd \<and> uimm_valid 5 frs1 \<and> uimm_valid 5 frs2) then Some 0
      else encoded (decode_init\<lparr>dec_op := rv_op_fmin_d, dec_rd := ucast frd,
                      dec_rs1 := ucast frs1, dec_rs2 := ucast frs2\<rparr>))"

definition emit_fmax_d :: "u64 \<Rightarrow> u64 \<Rightarrow> u64 \<Rightarrow> u64 option" where
  "emit_fmax_d frd frs1 frs2 =
     (if \<not> (uimm_valid 5 frd \<and> uimm_valid 5 frs1 \<and> uimm_valid 5 frs2) then Some 0
      else encoded (decode_init\<lparr>dec_op := rv_op_fmax_d, dec_rd := ucast frd,
                      dec_rs1 := ucast frs1, dec_rs2 := ucast frs2\<rparr>))"

definition emit_fcvt_s_d :: "u64 \<Rightarrow> u64 \<Rightarrow> u64 \<Rightarrow> u64 option" where
  "emit_fcvt_s_d frd frs1 rm =
     (if \<not> (uimm_valid 5 frd \<and> uimm_valid 5 frs1 \<and> uimm_valid 3 rm) then Some 0
      else encoded (decode_init\<lparr>dec_op := rv_op_fcvt_s_d, dec_rd := ucast frd,
                      dec_rs1 := ucast frs1, dec_rm := ucast rm\<rparr>))"

definition emit_fcvt_d_s :: "u64 \<Rightarrow> u64 \<Rightarrow> u64 \<Rightarrow> u64 option" where
  "emit_fcvt_d_s frd frs1 rm =
     (if \<not> (uimm_valid 5 frd \<and> uimm_valid 5 frs1 \<and> uimm_valid 3 rm) then Some 0
      else encoded (decode_init\<lparr>dec_op := rv_op_fcvt_d_s, dec_rd := ucast frd,
                      dec_rs1 := ucast frs1, dec_rm := ucast rm\<rparr>))"

definition emit_fsqrt_d :: "u64 \<Rightarrow> u64 \<Rightarrow> u64 \<Rightarrow> u64 option" where
  "emit_fsqrt_d frd frs1 rm =
     (if \<not> (uimm_valid 5 frd \<and> uimm_valid 5 frs1 \<and> uimm_valid 3 rm) then Some 0
      else encoded (decode_init\<lparr>dec_op := rv_op_fsqrt_d, dec_rd := ucast frd,
                      dec_rs1 := ucast frs1, dec_rm := ucast rm\<rparr>))"

definition emit_fle_d :: "u64 \<Rightarrow> u64 \<Rightarrow> u64 \<Rightarrow> u64 option" where
  "emit_fle_d rd frs1 frs2 =
     (if \<not> (uimm_valid 5 rd \<and> uimm_valid 5 frs1 \<and> uimm_valid 5 frs2) then Some 0
      else encoded (decode_init\<lparr>dec_op := rv_op_fle_d, dec_rd := ucast rd,
                      dec_rs1 := ucast frs1, dec_rs2 := ucast frs2\<rparr>))"

definition emit_flt_d :: "u64 \<Rightarrow> u64 \<Rightarrow> u64 \<Rightarrow> u64 option" where
  "emit_flt_d rd frs1 frs2 =
     (if \<not> (uimm_valid 5 rd \<and> uimm_valid 5 frs1 \<and> uimm_valid 5 frs2) then Some 0
      else encoded (decode_init\<lparr>dec_op := rv_op_flt_d, dec_rd := ucast rd,
                      dec_rs1 := ucast frs1, dec_rs2 := ucast frs2\<rparr>))"

definition emit_feq_d :: "u64 \<Rightarrow> u64 \<Rightarrow> u64 \<Rightarrow> u64 option" where
  "emit_feq_d rd frs1 frs2 =
     (if \<not> (uimm_valid 5 rd \<and> uimm_valid 5 frs1 \<and> uimm_valid 5 frs2) then Some 0
      else encoded (decode_init\<lparr>dec_op := rv_op_feq_d, dec_rd := ucast rd,
                      dec_rs1 := ucast frs1, dec_rs2 := ucast frs2\<rparr>))"

definition emit_fcvt_w_d :: "u64 \<Rightarrow> u64 \<Rightarrow> u64 \<Rightarrow> u64 option" where
  "emit_fcvt_w_d rd frs1 rm =
     (if \<not> (uimm_valid 5 rd \<and> uimm_valid 5 frs1 \<and> uimm_valid 3 rm) then Some 0
      else encoded (decode_init\<lparr>dec_op := rv_op_fcvt_w_d, dec_rd := ucast rd,
                      dec_rs1 := ucast frs1, dec_rm := ucast rm\<rparr>))"

definition emit_fcvt_wu_d :: "u64 \<Rightarrow> u64 \<Rightarrow> u64 \<Rightarrow> u64 option" where
  "emit_fcvt_wu_d rd frs1 rm =
     (if \<not> (uimm_valid 5 rd \<and> uimm_valid 5 frs1 \<and> uimm_valid 3 rm) then Some 0
      else encoded (decode_init\<lparr>dec_op := rv_op_fcvt_wu_d, dec_rd := ucast rd,
                      dec_rs1 := ucast frs1, dec_rm := ucast rm\<rparr>))"

definition emit_fcvt_d_w :: "u64 \<Rightarrow> u64 \<Rightarrow> u64 \<Rightarrow> u64 option" where
  "emit_fcvt_d_w frd rs1 rm =
     (if \<not> (uimm_valid 5 frd \<and> uimm_valid 5 rs1 \<and> uimm_valid 3 rm) then Some 0
      else encoded (decode_init\<lparr>dec_op := rv_op_fcvt_d_w, dec_rd := ucast frd,
                      dec_rs1 := ucast rs1, dec_rm := ucast rm\<rparr>))"

definition emit_fcvt_d_wu :: "u64 \<Rightarrow> u64 \<Rightarrow> u64 \<Rightarrow> u64 option" where
  "emit_fcvt_d_wu frd rs1 rm =
     (if \<not> (uimm_valid 5 frd \<and> uimm_valid 5 rs1 \<and> uimm_valid 3 rm) then Some 0
      else encoded (decode_init\<lparr>dec_op := rv_op_fcvt_d_wu, dec_rd := ucast frd,
                      dec_rs1 := ucast rs1, dec_rm := ucast rm\<rparr>))"

definition emit_fclass_d :: "u64 \<Rightarrow> u64 \<Rightarrow> u64 option" where
  "emit_fclass_d rd frs1 =
     (if \<not> (uimm_valid 5 rd \<and> uimm_valid 5 frs1) then Some 0
      else encoded (decode_init\<lparr>dec_op := rv_op_fclass_d, dec_rd := ucast rd,
                      dec_rs1 := ucast frs1\<rparr>))"

definition emit_fcvt_l_d :: "u64 \<Rightarrow> u64 \<Rightarrow> u64 \<Rightarrow> u64 option" where
  "emit_fcvt_l_d rd frs1 rm =
     (if \<not> (uimm_valid 5 rd \<and> uimm_valid 5 frs1 \<and> uimm_valid 3 rm) then Some 0
      else encoded (decode_init\<lparr>dec_op := rv_op_fcvt_l_d, dec_rd := ucast rd,
                      dec_rs1 := ucast frs1, dec_rm := ucast rm\<rparr>))"

definition emit_fcvt_lu_d :: "u64 \<Rightarrow> u64 \<Rightarrow> u64 \<Rightarrow> u64 option" where
  "emit_fcvt_lu_d rd frs1 rm =
     (if \<not> (uimm_valid 5 rd \<and> uimm_valid 5 frs1 \<and> uimm_valid 3 rm) then Some 0
      else encoded (decode_init\<lparr>dec_op := rv_op_fcvt_lu_d, dec_rd := ucast rd,
                      dec_rs1 := ucast frs1, dec_rm := ucast rm\<rparr>))"

definition emit_fmv_x_d :: "u64 \<Rightarrow> u64 \<Rightarrow> u64 option" where
  "emit_fmv_x_d rd frs1 =
     (if \<not> (uimm_valid 5 rd \<and> uimm_valid 5 frs1) then Some 0
      else encoded (decode_init\<lparr>dec_op := rv_op_fmv_x_d, dec_rd := ucast rd,
                      dec_rs1 := ucast frs1\<rparr>))"

definition emit_fcvt_d_l :: "u64 \<Rightarrow> u64 \<Rightarrow> u64 \<Rightarrow> u64 option" where
  "emit_fcvt_d_l frd rs1 rm =
     (if \<not> (uimm_valid 5 frd \<and> uimm_valid 5 rs1 \<and> uimm_valid 3 rm) then Some 0
      else encoded (decode_init\<lparr>dec_op := rv_op_fcvt_d_l, dec_rd := ucast frd,
                      dec_rs1 := ucast rs1, dec_rm := ucast rm\<rparr>))"

definition emit_fcvt_d_lu :: "u64 \<Rightarrow> u64 \<Rightarrow> u64 \<Rightarrow> u64 option" where
  "emit_fcvt_d_lu frd rs1 rm =
     (if \<not> (uimm_valid 5 frd \<and> uimm_valid 5 rs1 \<and> uimm_valid 3 rm) then Some 0
      else encoded (decode_init\<lparr>dec_op := rv_op_fcvt_d_lu, dec_rd := ucast frd,
                      dec_rs1 := ucast rs1, dec_rm := ucast rm\<rparr>))"

definition emit_fmv_d_x :: "u64 \<Rightarrow> u64 \<Rightarrow> u64 option" where
  "emit_fmv_d_x frd rs1 =
     (if \<not> (uimm_valid 5 frd \<and> uimm_valid 5 rs1) then Some 0
      else encoded (decode_init\<lparr>dec_op := rv_op_fmv_d_x, dec_rd := ucast frd,
                      dec_rs1 := ucast rs1\<rparr>))"

definition emit_flq :: "u64 \<Rightarrow> u64 \<Rightarrow> u64 \<Rightarrow> u64 option" where
  "emit_flq frd rs1 oimm12 =
     (if \<not> (uimm_valid 5 frd \<and> uimm_valid 5 rs1 \<and> offset_valid 12 oimm12) then Some 0
      else encoded (decode_init\<lparr>dec_op := rv_op_flq, dec_rd := ucast frd,
                      dec_rs1 := ucast rs1, dec_imm := ucast oimm12\<rparr>))"

definition emit_fsq :: "u64 \<Rightarrow> u64 \<Rightarrow> u64 \<Rightarrow> u64 option" where
  "emit_fsq rs1 frs2 simm12 =
     (if \<not> (uimm_valid 5 rs1 \<and> uimm_valid 5 frs2 \<and> offset_valid 12 simm12) then Some 0
      else encoded (decode_init\<lparr>dec_op := rv_op_fsq, dec_rs1 := ucast rs1,
                      dec_rs2 := ucast frs2, dec_imm := ucast simm12\<rparr>))"

definition emit_fmadd_q :: "u64 \<Rightarrow> u64 \<Rightarrow> u64 \<Rightarrow> u64 \<Rightarrow> u64 \<Rightarrow> u64 option" where
  "emit_fmadd_q frd frs1 frs2 frs3 rm =
     (if \<not> (uimm_valid 5 frd \<and> uimm_valid 5 frs1 \<and> uimm_valid 5 frs2 \<and> uimm_valid 5 frs3 \<and> uimm_valid 3 rm) then Some 0
      else encoded (decode_init\<lparr>dec_op := rv_op_fmadd_q, dec_rd := ucast frd,
                      dec_rs1 := ucast frs1, dec_rs2 := ucast frs2, dec_rs3 := ucast frs3,
                      dec_rm := ucast rm\<rparr>))"

definition emit_fmsub_q :: "u64 \<Rightarrow> u64 \<Rightarrow> u64 \<Rightarrow> u64 \<Rightarrow> u64 \<Rightarrow> u64 option" where
  "emit_fmsub_q frd frs1 frs2 frs3 rm =
     (if \<not> (uimm_valid 5 frd \<and> uimm_valid 5 frs1 \<and> uimm_valid 5 frs2 \<and> uimm_valid 5 frs3 \<and> uimm_valid 3 rm) then Some 0
      else encoded (decode_init\<lparr>dec_op := rv_op_fmsub_q, dec_rd := ucast frd,
                      dec_rs1 := ucast frs1, dec_rs2 := ucast frs2, dec_rs3 := ucast frs3,
                      dec_rm := ucast rm\<rparr>))"

definition emit_fnmsub_q :: "u64 \<Rightarrow> u64 \<Rightarrow> u64 \<Rightarrow> u64 \<Rightarrow> u64 \<Rightarrow> u64 option" where
  "emit_fnmsub_q frd frs1 frs2 frs3 rm =
     (if \<not> (uimm_valid 5 frd \<and> uimm_valid 5 frs1 \<and> uimm_valid 5 frs2 \<and> uimm_valid 5 frs3 \<and> uimm_valid 3 rm) then Some 0
      else encoded (decode_init\<lparr>dec_op := rv_op_fnmsub_q, dec_rd := ucast frd,
                      dec_rs1 := ucast frs1, dec_rs2 := ucast frs2, dec_rs3 := ucast frs3,
                      dec_rm := ucast rm\<rparr>))"

definition emit_fnmadd_q :: "u64 \<Rightarrow> u64 \<Rightarrow> u64 \<Rightarrow> u64 \<Rightarrow> u64 \<Rightarrow> u64 option" where
  "emit_fnmadd_q frd frs1 frs2 frs3 rm =
     (if \<not> (uimm_valid 5 frd \<and> uimm_valid 5 frs1 \<and> uimm_valid 5 frs2 \<and> uimm_valid 5 frs3 \<and> uimm_valid 3 rm) then Some 0
      else encoded (decode_init\<lparr>dec_op := rv_op_fnmadd_q, dec_rd := ucast frd,
                      dec_rs1 := ucast frs1, dec_rs2 := ucast frs2, dec_rs3 := ucast frs3,
                      dec_rm := ucast rm\<rparr>))"

definition emit_fadd_q :: "u64 \<Rightarrow> u64 \<Rightarrow> u64 \<Rightarrow> u64 \<Rightarrow> u64 option" where
  "emit_fadd_q frd frs1 frs2 rm =
     (if \<not> (uimm_valid 5 frd \<and> uimm_valid 5 frs1 \<and> uimm_valid 5 frs2 \<and> uimm_valid 3 rm) then Some 0
      else encoded (decode_init\<lparr>dec_op := rv_op_fadd_q, dec_rd := ucast frd,
                      dec_rs1 := ucast frs1, dec_rs2 := ucast frs2, dec_rm := ucast rm\<rparr>))"

definition emit_fsub_q :: "u64 \<Rightarrow> u64 \<Rightarrow> u64 \<Rightarrow> u64 \<Rightarrow> u64 option" where
  "emit_fsub_q frd frs1 frs2 rm =
     (if \<not> (uimm_valid 5 frd \<and> uimm_valid 5 frs1 \<and> uimm_valid 5 frs2 \<and> uimm_valid 3 rm) then Some 0
      else encoded (decode_init\<lparr>dec_op := rv_op_fsub_q, dec_rd := ucast frd,
                      dec_rs1 := ucast frs1, dec_rs2 := ucast frs2, dec_rm := ucast rm\<rparr>))"

definition emit_fmul_q :: "u64 \<Rightarrow> u64 \<Rightarrow> u64 \<Rightarrow> u64 \<Rightarrow> u64 option" where
  "emit_fmul_q frd frs1 frs2 rm =
     (if \<not> (uimm_valid 5 frd \<and> uimm_valid 5 frs1 \<and> uimm_valid 5 frs2 \<and> uimm_valid 3 rm) then Some 0
      else encoded (decode_init\<lparr>dec_op := rv_op_fmul_q, dec_rd := ucast frd,
                      dec_rs1 := ucast frs1, dec_rs2 := ucast frs2, dec_rm := ucast rm\<rparr>))"

definition emit_fdiv_q :: "u64 \<Rightarrow> u64 \<Rightarrow> u64 \<Rightarrow> u64 \<Rightarrow> u64 option" where
  "emit_fdiv_q frd frs1 frs2 rm =
     (if \<not> (uimm_valid 5 frd \<and> uimm_valid 5 frs1 \<and> uimm_valid 5 frs2 \<and> uimm_valid 3 rm) then Some 0
      else encoded (decode_init\<lparr>dec_op := rv_op_fdiv_q, dec_rd := ucast frd,
                      dec_rs1 := ucast frs1, dec_rs2 := ucast frs2, dec_rm := ucast rm\<rparr>))"

definition emit_fsgnj_q :: "u64 \<Rightarrow> u64 \<Rightarrow> u64 \<Rightarrow> u64 option" where
  "emit_fsgnj_q frd frs1 frs2 =
     (if \<not> (uimm_valid 5 frd \<and> uimm_valid 5 frs1 \<and> uimm_valid 5 frs2) then Some 0
      else encoded (decode_init\<lparr>dec_op := rv_op_fsgnj_q, dec_rd := ucast frd,
                      dec_rs1 := ucast frs1, dec_rs2 := ucast frs2\<rparr>))"

definition emit_fsgnjn_q :: "u64 \<Rightarrow> u64 \<Rightarrow> u64 \<Rightarrow> u64 option" where
  "emit_fsgnjn_q frd frs1 frs2 =
     (if \<not> (uimm_valid 5 frd \<and> uimm_valid 5 frs1 \<and> uimm_valid 5 frs2) then Some 0
      else encoded (decode_init\<lparr>dec_op := rv_op_fsgnjn_q, dec_rd := ucast frd,
                      dec_rs1 := ucast frs1, dec_rs2 := ucast frs2\<rparr>))"

definition emit_fsgnjx_q :: "u64 \<Rightarrow> u64 \<Rightarrow> u64 \<Rightarrow> u64 option" where
  "emit_fsgnjx_q frd frs1 frs2 =
     (if \<not> (uimm_valid 5 frd \<and> uimm_valid 5 frs1 \<and> uimm_valid 5 frs2) then Some 0
      else encoded (decode_init\<lparr>dec_op := rv_op_fsgnjx_q, dec_rd := ucast frd,
                      dec_rs1 := ucast frs1, dec_rs2 := ucast frs2\<rparr>))"

definition emit_fmin_q :: "u64 \<Rightarrow> u64 \<Rightarrow> u64 \<Rightarrow> u64 option" where
  "emit_fmin_q frd frs1 frs2 =
     (if \<not> (uimm_valid 5 frd \<and> uimm_valid 5 frs1 \<and> uimm_valid 5 frs2) then Some 0
      else encoded (decode_init\<lparr>dec_op := rv_op_fmin_q, dec_rd := ucast frd,
                      dec_rs1 := ucast frs1, dec_rs2 := ucast frs2\<rparr>))"

definition emit_fmax_q :: "u64 \<Rightarrow> u64 \<Rightarrow> u64 \<Rightarrow> u64 option" where
  "emit_fmax_q frd frs1 frs2 =
     (if \<not> (uimm_valid 5 frd \<and> uimm_valid 5 frs1 \<and> uimm_valid 5 frs2) then Some 0
      else encoded (decode_init\<lparr>dec_op := rv_op_fmax_q, dec_rd := ucast frd,
                      dec_rs1 := ucast frs1, dec_rs2 := ucast frs2\<rparr>))"

definition emit_fcvt_s_q :: "u64 \<Rightarrow> u64 \<Rightarrow> u64 \<Rightarrow> u64 option" where
  "emit_fcvt_s_q frd frs1 rm =
     (if \<not> (uimm_valid 5 frd \<and> uimm_valid 5 frs1 \<and> uimm_valid 3 rm) then Some 0
      else encoded (decode_init\<lparr>dec_op := rv_op_fcvt_s_q, dec_rd := ucast frd,
                      dec_rs1 := ucast frs1, dec_rm := ucast rm\<rparr>))"

definition emit_fcvt_q_s :: "u64 \<Rightarrow> u64 \<Rightarrow> u64 \<Rightarrow> u64 option" where
  "emit_fcvt_q_s frd frs1 rm =
     (if \<not> (uimm_valid 5 frd \<and> uimm_valid 5 frs1 \<and> uimm_valid 3 rm) then Some 0
      else encoded (decode_init\<lparr>dec_op := rv_op_fcvt_q_s, dec_rd := ucast frd,
                      dec_rs1 := ucast frs1, dec_rm := ucast rm\<rparr>))"

definition emit_fcvt_d_q :: "u64 \<Rightarrow> u64 \<Rightarrow> u64 \<Rightarrow> u64 option" where
  "emit_fcvt_d_q frd frs1 rm =
     (if \<not> (uimm_valid 5 frd \<and> uimm_valid 5 frs1 \<and> uimm_valid 3 rm) then Some 0
      else encoded (decode_init\<lparr>dec_op := rv_op_fcvt_d_q, dec_rd := ucast frd,
                      dec_rs1 := ucast frs1, dec_rm := ucast rm\<rparr>))"

definition emit_fcvt_q_d :: "u64 \<Rightarrow> u64 \<Rightarrow> u64 \<Rightarrow> u64 option" where
  "emit_fcvt_q_d frd frs1 rm =
     (if \<not> (uimm_valid 5 frd \<and> uimm_valid 5 frs1 \<and> uimm_valid 3 rm) then Some 0
      else encoded (decode_init\<lparr>dec_op := rv_op_fcvt_q_d, dec_rd := ucast frd,
                      dec_rs1 := ucast frs1, dec_rm := ucast rm\<rparr>))"

definition emit_fsqrt_q :: "u64 \<Rightarrow> u64 \<Rightarrow> u64 \<Rightarrow> u64 option" where
  "emit_fsqrt_q frd frs1 rm =
     (if \<not> (uimm_valid 5 frd \<and> uimm_valid 5 frs1 \<and> uimm_valid 3 rm) then Some 0
      else encoded (decode_init\<lparr>dec_op := rv_op_fsqrt_q, dec_rd := ucast frd,
                      dec_rs1 := ucast frs1, dec_rm := ucast rm\<rparr>))"

definition emit_fle_q :: "u64 \<Rightarrow> u64 \<Rightarrow> u64 \<Rightarrow> u64 option" where
  "emit_fle_q rd frs1 frs2 =
     (if \<not> (uimm_valid 5 rd \<and> uimm_valid 5 frs1 \<and> uimm_valid 5 frs2) then Some 0
      else encoded (decode_init\<lparr>dec_op := rv_op_fle_q, dec_rd := ucast rd,
                      dec_rs1 := ucast frs1, dec_rs2 := ucast frs2\<rparr>))"

definition emit_flt_q :: "u64 \<Rightarrow> u64 \<Rightarrow> u64 \<Rightarrow> u64 option" where
  "emit_flt_q rd frs1 frs2 =
     (if \<not> (uimm_valid 5 rd \<and> uimm_valid 5 frs1 \<and> uimm_valid 5 frs2) then Some 0
      else encoded (decode_init\<lparr>dec_op := rv_op_flt_q, dec_rd := ucast rd,
                      dec_rs1 := ucast frs1, dec_rs2 := ucast frs2\<rparr>))"

definition emit_feq_q :: "u64 \<Rightarrow> u64 \<Rightarrow> u64 \<Rightarrow> u64 option" where
  "emit_feq_q rd frs1 frs2 =
     (if \<not> (uimm_valid 5 rd \<and> uimm_valid 5 frs1 \<and> uimm_valid 5 frs2) then Some 0
      else encoded (decode_init\<lparr>dec_op := rv_op_feq_q, dec_rd := ucast rd,
                      dec_rs1 := ucast frs1, dec_rs2 := ucast frs2\<rparr>))"

definition emit_fcvt_w_q :: "u64 \<Rightarrow> u64 \<Rightarrow> u64 \<Rightarrow> u64 option" where
  "emit_fcvt_w_q rd frs1 rm =
     (if \<not> (uimm_valid 5 rd \<and> uimm_valid 5 frs1 \<and> uimm_valid 3 rm) then Some 0
      else encoded (decode_init\<lparr>dec_op := rv_op_fcvt_w_q, dec_rd := ucast rd,
                      dec_rs1 := ucast frs1, dec_rm := ucast rm\<rparr>))"

definition emit_fcvt_wu_q :: "u64 \<Rightarrow> u64 \<Rightarrow> u64 \<Rightarrow> u64 option" where
  "emit_fcvt_wu_q rd frs1 rm =
     (if \<not> (uimm_valid 5 rd \<and> uimm_valid 5 frs1 \<and> uimm_valid 3 rm) then Some 0
      else encoded (decode_init\<lparr>dec_op := rv_op_fcvt_wu_q, dec_rd := ucast rd,
                      dec_rs1 := ucast frs1, dec_rm := ucast rm\<rparr>))"

definition emit_fcvt_q_w :: "u64 \<Rightarrow> u64 \<Rightarrow> u64 \<Rightarrow> u64 option" where
  "emit_fcvt_q_w frd rs1 rm =
     (if \<not> (uimm_valid 5 frd \<and> uimm_valid 5 rs1 \<and> uimm_valid 3 rm) then Some 0
      else encoded (decode_init\<lparr>dec_op := rv_op_fcvt_q_w, dec_rd := ucast frd,
                      dec_rs1 := ucast rs1, dec_rm := ucast rm\<rparr>))"

definition emit_fcvt_q_wu :: "u64 \<Rightarrow> u64 \<Rightarrow> u64 \<Rightarrow> u64 option" where
  "emit_fcvt_q_wu frd rs1 rm =
     (if \<not> (uimm_valid 5 frd \<and> uimm_valid 5 rs1 \<and> uimm_valid 3 rm) then Some 0
      else encoded (decode_init\<lparr>dec_op := rv_op_fcvt_q_wu, dec_rd := ucast frd,
                      dec_rs1 := ucast rs1, dec_rm := ucast rm\<rparr>))"

definition emit_fclass_q :: "u64 \<Rightarrow> u64 \<Rightarrow> u64 option" where
  "emit_fclass_q rd frs1 =
     (if \<not> (uimm_valid 5 rd \<and> uimm_valid 5 frs1) then Some 0
      else encoded (decode_init\<lparr>dec_op := rv_op_fclass_q, dec_rd := ucast rd,
                      dec_rs1 := ucast frs1\<rparr>))"

definition emit_fcvt_l_q :: "u64 \<Rightarrow> u64 \<Rightarrow> u64 \<Rightarrow> u64 option" where
  "emit_fcvt_l_q rd frs1 rm =
     (if \<not> (uimm_valid 5 rd \<and> uimm_valid 5 frs1 \<and> uimm_valid 3 rm) then Some 0
      else encoded (decode_init\<lparr>dec_op := rv_op_fcvt_l_q, dec_rd := ucast rd,
                      dec_rs1 := ucast frs1, dec_rm := ucast rm\<rparr>))"

definition emit_fcvt_lu_q :: "u64 \<Rightarrow> u64 \<Rightarrow> u64 \<Rightarrow> u64 option" where
  "emit_fcvt_lu_q rd frs1 rm =
     (if \<not> (uimm_valid 5 rd \<and> uimm_valid 5 frs1 \<and> uimm_valid 3 rm) then Some 0
      else encoded (decode_init\<lparr>dec_op := rv_op_fcvt_lu_q, dec_rd := ucast rd,
                      dec_rs1 := ucast frs1, dec_rm := ucast rm\<rparr>))"

definition emit_fcvt_q_l :: "u64 \<Rightarrow> u64 \<Rightarrow> u64 \<Rightarrow> u64 option" where
  "emit_fcvt_q_l frd rs1 rm =
     (if \<not> (uimm_valid 5 frd \<and> uimm_valid 5 rs1 \<and> uimm_valid 3 rm) then Some 0
      else encoded (decode_init\<lparr>dec_op := rv_op_fcvt_q_l, dec_rd := ucast frd,
                      dec_rs1 := ucast rs1, dec_rm := ucast rm\<rparr>))"

definition emit_fcvt_q_lu :: "u64 \<Rightarrow> u64 \<Rightarrow> u64 \<Rightarrow> u64 option" where
  "emit_fcvt_q_lu frd rs1 rm =
     (if \<not> (uimm_valid 5 frd \<and> uimm_valid 5 rs1 \<and> uimm_valid 3 rm) then Some 0
      else encoded (decode_init\<lparr>dec_op := rv_op_fcvt_q_lu, dec_rd := ucast frd,
                      dec_rs1 := ucast rs1, dec_rm := ucast rm\<rparr>))"

definition emit_fmv_x_q :: "u64 \<Rightarrow> u64 \<Rightarrow> u64 option" where
  "emit_fmv_x_q rd frs1 =
     (if \<not> (uimm_valid 5 rd \<and> uimm_valid 5 frs1) then Some 0
      else encoded (decode_init\<lparr>dec_op := rv_op_fmv_x_q, dec_rd := ucast rd,
                      dec_rs1 := ucast frs1\<rparr>))"

definition emit_fmv_q_x :: "u64 \<Rightarrow> u64 \<Rightarrow> u64 option" where
  "emit_fmv_q_x frd rs1 =
     (if \<not> (uimm_valid 5 frd \<and> uimm_valid 5 rs1) then Some 0
      else encoded (decode_init\<lparr>dec_op := rv_op_fmv_q_x, dec_rd := ucast frd,
                      dec_rs1 := ucast rs1\<rparr>))"

lemmas emit_defs =
  emit_lui_def emit_auipc_def emit_jal_def emit_jalr_def emit_beq_def emit_bne_def emit_blt_def
  emit_bge_def emit_bltu_def emit_bgeu_def emit_lb_def emit_lh_def emit_lw_def emit_lbu_def
  emit_lhu_def emit_sb_def emit_sh_def emit_sw_def emit_addi_def emit_slti_def emit_sltiu_def
  emit_xori_def emit_ori_def emit_andi_def emit_slli_def emit_srli_def emit_srai_def emit_add_def
  emit_sub_def emit_sll_def emit_slt_def emit_sltu_def emit_xor_def emit_srl_def emit_sra_def
  emit_or_def emit_and_def emit_fence_def emit_fence_i_def emit_lwu_def emit_ld_def emit_sd_def
  emit_addiw_def emit_slliw_def emit_srliw_def emit_sraiw_def emit_addw_def emit_subw_def
  emit_sllw_def emit_srlw_def emit_sraw_def emit_ldu_def emit_lq_def emit_sq_def emit_addid_def
  emit_sllid_def emit_srlid_def emit_sraid_def emit_addd_def emit_subd_def emit_slld_def
  emit_srld_def emit_srad_def emit_mul_def emit_mulh_def emit_mulhsu_def emit_mulhu_def
  emit_div_def emit_divu_def emit_rem_def emit_remu_def emit_mulw_def emit_divw_def
  emit_divuw_def emit_remw_def emit_remuw_def emit_muld_def emit_divd_def emit_divud_def
  emit_remd_def emit_remud_def emit_lr_w_def emit_sc_w_def emit_amoswap_w_def emit_amoadd_w_def
  emit_amoxor_w_def emit_amoor_w_def emit_amoand_w_def emit_amomin_w_def emit_amomax_w_def
  emit_amominu_w_def emit_amomaxu_w_def emit_lr_d_def emit_sc_d_def emit_amoswap_d_def
  emit_amoadd_d_def emit_amoxor_d_def emit_amoor_d_def emit_amoand_d_def emit_amomin_d_def
  emit_amomax_d_def emit_amominu_d_def emit_amomaxu_d_def emit_lr_q_def emit_sc_q_def
  emit_amoswap_q_def emit_amoadd_q_def emit_amoxor_q_def emit_amoor_q_def emit_amoand_q_def
  emit_amomin_q_def emit_amomax_q_def emit_amominu_q_def emit_amomaxu_q_def emit_ecall_def
  emit_ebreak_def emit_uret_def emit_sret_def emit_hret_def emit_mret_def emit_dret_def
  emit_sfence_vm_def emit_sfence_vma_def emit_wfi_def emit_csrrw_def emit_csrrs_def
  emit_csrrc_def emit_csrrwi_def emit_csrrsi_def emit_csrrci_def emit_flw_def emit_fsw_def
  emit_fmadd_s_def emit_fmsub_s_def emit_fnmsub_s_def emit_fnmadd_s_def emit_fadd_s_def
  emit_fsub_s_def emit_fmul_s_def emit_fdiv_s_def emit_fsgnj_s_def emit_fsgnjn_s_def
  emit_fsgnjx_s_def emit_fmin_s_def emit_fmax_s_def emit_fsqrt_s_def emit_fle_s_def
  emit_flt_s_def emit_feq_s_def emit_fcvt_w_s_def emit_fcvt_wu_s_def emit_fcvt_s_w_def
  emit_fcvt_s_wu_def emit_fmv_x_s_def emit_fclass_s_def emit_fmv_s_x_def emit_fcvt_l_s_def
  emit_fcvt_lu_s_def emit_fcvt_s_l_def emit_fcvt_s_lu_def emit_fld_def emit_fsd_def
  emit_fmadd_d_def emit_fmsub_d_def emit_fnmsub_d_def emit_fnmadd_d_def emit_fadd_d_def
  emit_fsub_d_def emit_fmul_d_def emit_fdiv_d_def emit_fsgnj_d_def emit_fsgnjn_d_def
  emit_fsgnjx_d_def emit_fmin_d_def emit_fmax_d_def emit_fcvt_s_d_def emit_fcvt_d_s_def
  emit_fsqrt_d_def emit_fle_d_def emit_flt_d_def emit_feq_d_def emit_fcvt_w_d_def
  emit_fcvt_wu_d_def emit_fcvt_d_w_def emit_fcvt_d_wu_def emit_fclass_d_def emit_fcvt_l_d_def
  emit_fcvt_lu_d_def emit_fmv_x_d_def emit_fcvt_d_l_def emit_fcvt_d_lu_def emit_fmv_d_x_def
  emit_flq_def emit_fsq_def emit_fmadd_q_def emit_fmsub_q_def emit_fnmsub_q_def emit_fnmadd_q_def
  emit_fadd_q_def emit_fsub_q_def emit_fmul_q_def emit_fdiv_q_def emit_fsgnj_q_def
  emit_fsgnjn_q_def emit_fsgnjx_q_def emit_fmin_q_def emit_fmax_q_def emit_fcvt_s_q_def
  emit_fcvt_q_s_def emit_fcvt_d_q_def emit_fcvt_q_d_def emit_fsqrt_q_def emit_fle_q_def
  emit_flt_q_def emit_feq_q_def emit_fcvt_w_q_def emit_fcvt_wu_q_def emit_fcvt_q_w_def
  emit_fcvt_q_wu_def emit_fclass_q_def emit_fcvt_l_q_def emit_fcvt_lu_q_def emit_fcvt_q_l_def
  emit_fcvt_q_lu_def emit_fmv_x_q_def emit_fmv_q_x_def

section \<open>The fields of a decoded instruction\<close>

text \<open>
  To treat the emitters uniformly, the members of \<^verbatim>\<open>struct decode\<close> are read and written by
  name, at 64 bits as the operand encoders read them. \<open>F_lost\<close> stands for an argument that no
  member holds when the instruction is encoded: the immediate of the \<^verbatim>\<open>csrrwi\<close> family is
  overwritten by the CSR number before the encoder sees it.
\<close>

datatype asm_field = F_rd | F_rs1 | F_rs2 | F_rs3 | F_imm | F_rm | F_aq | F_rl | F_pred | F_succ | F_lost

fun get_field :: "asm_field \<Rightarrow> decode \<Rightarrow> u64" where
  "get_field F_rd d = ucast (dec_rd d)"
| "get_field F_rs1 d = ucast (dec_rs1 d)"
| "get_field F_rs2 d = ucast (dec_rs2 d)"
| "get_field F_rs3 d = ucast (dec_rs3 d)"
| "get_field F_imm d = scast (dec_imm d)"
| "get_field F_rm d = ucast (dec_rm d)"
| "get_field F_aq d = ucast (dec_aq d)"
| "get_field F_rl d = ucast (dec_rl d)"
| "get_field F_pred d = ucast (dec_pred d)"
| "get_field F_succ d = ucast (dec_succ d)"
| "get_field F_lost d = 0"

fun put_field :: "asm_field \<Rightarrow> u64 \<Rightarrow> decode \<Rightarrow> decode" where
  "put_field F_rd v d = d\<lparr>dec_rd := ucast v\<rparr>"
| "put_field F_rs1 v d = d\<lparr>dec_rs1 := ucast v\<rparr>"
| "put_field F_rs2 v d = d\<lparr>dec_rs2 := ucast v\<rparr>"
| "put_field F_rs3 v d = d\<lparr>dec_rs3 := ucast v\<rparr>"
| "put_field F_imm v d = d\<lparr>dec_imm := ucast v\<rparr>"
| "put_field F_rm v d = d\<lparr>dec_rm := ucast v\<rparr>"
| "put_field F_aq v d = d\<lparr>dec_aq := ucast v\<rparr>"
| "put_field F_rl v d = d\<lparr>dec_rl := ucast v\<rparr>"
| "put_field F_pred v d = d\<lparr>dec_pred := ucast v\<rparr>"
| "put_field F_succ v d = d\<lparr>dec_succ := ucast v\<rparr>"
| "put_field F_lost v d = d"

fun put_fields :: "(asm_field \<times> 'a) list \<Rightarrow> u64 list \<Rightarrow> decode \<Rightarrow> decode" where
  "put_fields ((f, t) # fs) (v # vs) d = put_fields fs vs (put_field f v d)"
| "put_fields _ _ d = d"

section \<open>All emitters, uniformly\<close>

datatype arg_type = Simm nat nat | Offset nat nat | Uimm nat

text \<open>
  The check of an argument type and the granule of the operand the argument goes to: the low bits
  that the instruction does not hold. The emitters check the former only.
\<close>

fun type_valid :: "arg_type \<Rightarrow> u64 \<Rightarrow> bool" where
  "type_valid (Simm w g) v = simm_valid w v"
| "type_valid (Offset w g) v = offset_valid w v"
| "type_valid (Uimm w) v = uimm_valid w v"

fun type_granule :: "arg_type \<Rightarrow> u64 \<Rightarrow> bool" where
  "type_granule (Simm w g) v \<longleftrightarrow> take_bit g v = 0"
| "type_granule (Offset w g) v \<longleftrightarrow> take_bit g v = 0"
| "type_granule (Uimm w) v \<longleftrightarrow> True"

text \<open>Functions of several arguments as functions of an argument list.\<close>

definition app0 :: "'a \<Rightarrow> u64 list \<Rightarrow> 'a" where "app0 g vs = g"
definition app1 :: "(u64 \<Rightarrow> 'a) \<Rightarrow> u64 list \<Rightarrow> 'a" where "app1 g vs = g (vs ! 0)"
definition app2 :: "(u64 \<Rightarrow> u64 \<Rightarrow> 'a) \<Rightarrow> u64 list \<Rightarrow> 'a" where "app2 g vs = g (vs ! 0) (vs ! 1)"
definition app3 :: "(u64 \<Rightarrow> u64 \<Rightarrow> u64 \<Rightarrow> 'a) \<Rightarrow> u64 list \<Rightarrow> 'a" where
  "app3 g vs = g (vs ! 0) (vs ! 1) (vs ! 2)"
definition app5 :: "(u64 \<Rightarrow> u64 \<Rightarrow> u64 \<Rightarrow> u64 \<Rightarrow> u64 \<Rightarrow> 'a) \<Rightarrow> u64 list \<Rightarrow> 'a" where
  "app5 g vs = g (vs ! 0) (vs ! 1) (vs ! 2) (vs ! 3) (vs ! 4)"
definition app4 :: "(u64 \<Rightarrow> u64 \<Rightarrow> u64 \<Rightarrow> u64 \<Rightarrow> 'a) \<Rightarrow> u64 list \<Rightarrow> 'a" where
  "app4 g vs = g (vs ! 0) (vs ! 1) (vs ! 2) (vs ! 3)"

text \<open>Every emitter with its opcode and, for each argument, the member it is stored in and its type.\<close>

definition emitters :: "(opcode \<times> (asm_field \<times> arg_type) list \<times> (u64 list \<Rightarrow> u64 option)) list" where
  "emitters = [
     (rv_op_lui, [(F_rd, Uimm 5), (F_imm, Simm 32 12)], app2 emit_lui),
     (rv_op_auipc, [(F_rd, Uimm 5), (F_imm, Offset 32 12)], app2 emit_auipc),
     (rv_op_jal, [(F_rd, Uimm 5), (F_imm, Offset 21 1)], app2 emit_jal),
     (rv_op_jalr, [(F_rd, Uimm 5), (F_rs1, Uimm 5), (F_imm, Simm 12 0)], app3 emit_jalr),
     (rv_op_beq, [(F_rs1, Uimm 5), (F_rs2, Uimm 5), (F_imm, Offset 13 1)], app3 emit_beq),
     (rv_op_bne, [(F_rs1, Uimm 5), (F_rs2, Uimm 5), (F_imm, Offset 13 1)], app3 emit_bne),
     (rv_op_blt, [(F_rs1, Uimm 5), (F_rs2, Uimm 5), (F_imm, Offset 13 1)], app3 emit_blt),
     (rv_op_bge, [(F_rs1, Uimm 5), (F_rs2, Uimm 5), (F_imm, Offset 13 1)], app3 emit_bge),
     (rv_op_bltu, [(F_rs1, Uimm 5), (F_rs2, Uimm 5), (F_imm, Offset 13 1)], app3 emit_bltu),
     (rv_op_bgeu, [(F_rs1, Uimm 5), (F_rs2, Uimm 5), (F_imm, Offset 13 1)], app3 emit_bgeu),
     (rv_op_lb, [(F_rd, Uimm 5), (F_rs1, Uimm 5), (F_imm, Offset 12 0)], app3 emit_lb),
     (rv_op_lh, [(F_rd, Uimm 5), (F_rs1, Uimm 5), (F_imm, Offset 12 0)], app3 emit_lh),
     (rv_op_lw, [(F_rd, Uimm 5), (F_rs1, Uimm 5), (F_imm, Offset 12 0)], app3 emit_lw),
     (rv_op_lbu, [(F_rd, Uimm 5), (F_rs1, Uimm 5), (F_imm, Offset 12 0)], app3 emit_lbu),
     (rv_op_lhu, [(F_rd, Uimm 5), (F_rs1, Uimm 5), (F_imm, Offset 12 0)], app3 emit_lhu),
     (rv_op_sb, [(F_rs1, Uimm 5), (F_rs2, Uimm 5), (F_imm, Offset 12 0)], app3 emit_sb),
     (rv_op_sh, [(F_rs1, Uimm 5), (F_rs2, Uimm 5), (F_imm, Offset 12 0)], app3 emit_sh),
     (rv_op_sw, [(F_rs1, Uimm 5), (F_rs2, Uimm 5), (F_imm, Offset 12 0)], app3 emit_sw),
     (rv_op_addi, [(F_rd, Uimm 5), (F_rs1, Uimm 5), (F_imm, Simm 12 0)], app3 emit_addi),
     (rv_op_slti, [(F_rd, Uimm 5), (F_rs1, Uimm 5), (F_imm, Simm 12 0)], app3 emit_slti),
     (rv_op_sltiu, [(F_rd, Uimm 5), (F_rs1, Uimm 5), (F_imm, Simm 12 0)], app3 emit_sltiu),
     (rv_op_xori, [(F_rd, Uimm 5), (F_rs1, Uimm 5), (F_imm, Simm 12 0)], app3 emit_xori),
     (rv_op_ori, [(F_rd, Uimm 5), (F_rs1, Uimm 5), (F_imm, Simm 12 0)], app3 emit_ori),
     (rv_op_andi, [(F_rd, Uimm 5), (F_rs1, Uimm 5), (F_imm, Simm 12 0)], app3 emit_andi),
     (rv_op_slli, [(F_rd, Uimm 5), (F_rs1, Uimm 5), (F_imm, Uimm 7)], app3 emit_slli),
     (rv_op_srli, [(F_rd, Uimm 5), (F_rs1, Uimm 5), (F_imm, Uimm 7)], app3 emit_srli),
     (rv_op_srai, [(F_rd, Uimm 5), (F_rs1, Uimm 5), (F_imm, Uimm 7)], app3 emit_srai),
     (rv_op_add, [(F_rd, Uimm 5), (F_rs1, Uimm 5), (F_rs2, Uimm 5)], app3 emit_add),
     (rv_op_sub, [(F_rd, Uimm 5), (F_rs1, Uimm 5), (F_rs2, Uimm 5)], app3 emit_sub),
     (rv_op_sll, [(F_rd, Uimm 5), (F_rs1, Uimm 5), (F_rs2, Uimm 5)], app3 emit_sll),
     (rv_op_slt, [(F_rd, Uimm 5), (F_rs1, Uimm 5), (F_rs2, Uimm 5)], app3 emit_slt),
     (rv_op_sltu, [(F_rd, Uimm 5), (F_rs1, Uimm 5), (F_rs2, Uimm 5)], app3 emit_sltu),
     (rv_op_xor, [(F_rd, Uimm 5), (F_rs1, Uimm 5), (F_rs2, Uimm 5)], app3 emit_xor),
     (rv_op_srl, [(F_rd, Uimm 5), (F_rs1, Uimm 5), (F_rs2, Uimm 5)], app3 emit_srl),
     (rv_op_sra, [(F_rd, Uimm 5), (F_rs1, Uimm 5), (F_rs2, Uimm 5)], app3 emit_sra),
     (rv_op_or, [(F_rd, Uimm 5), (F_rs1, Uimm 5), (F_rs2, Uimm 5)], app3 emit_or),
     (rv_op_and, [(F_rd, Uimm 5), (F_rs1, Uimm 5), (F_rs2, Uimm 5)], app3 emit_and),
     (rv_op_fence, [(F_pred, Uimm 4), (F_succ, Uimm 4)], app2 emit_fence),
     (rv_op_fence_i, [], app0 emit_fence_i),
     (rv_op_lwu, [(F_rd, Uimm 5), (F_rs1, Uimm 5), (F_imm, Offset 12 0)], app3 emit_lwu),
     (rv_op_ld, [(F_rd, Uimm 5), (F_rs1, Uimm 5), (F_imm, Offset 12 0)], app3 emit_ld),
     (rv_op_sd, [(F_rs1, Uimm 5), (F_rs2, Uimm 5), (F_imm, Offset 12 0)], app3 emit_sd),
     (rv_op_addiw, [(F_rd, Uimm 5), (F_rs1, Uimm 5), (F_imm, Simm 12 0)], app3 emit_addiw),
     (rv_op_slliw, [(F_rd, Uimm 5), (F_rs1, Uimm 5), (F_imm, Uimm 5)], app3 emit_slliw),
     (rv_op_srliw, [(F_rd, Uimm 5), (F_rs1, Uimm 5), (F_imm, Uimm 5)], app3 emit_srliw),
     (rv_op_sraiw, [(F_rd, Uimm 5), (F_rs1, Uimm 5), (F_imm, Uimm 5)], app3 emit_sraiw),
     (rv_op_addw, [(F_rd, Uimm 5), (F_rs1, Uimm 5), (F_rs2, Uimm 5)], app3 emit_addw),
     (rv_op_subw, [(F_rd, Uimm 5), (F_rs1, Uimm 5), (F_rs2, Uimm 5)], app3 emit_subw),
     (rv_op_sllw, [(F_rd, Uimm 5), (F_rs1, Uimm 5), (F_rs2, Uimm 5)], app3 emit_sllw),
     (rv_op_srlw, [(F_rd, Uimm 5), (F_rs1, Uimm 5), (F_rs2, Uimm 5)], app3 emit_srlw),
     (rv_op_sraw, [(F_rd, Uimm 5), (F_rs1, Uimm 5), (F_rs2, Uimm 5)], app3 emit_sraw),
     (rv_op_ldu, [(F_rd, Uimm 5), (F_rs1, Uimm 5), (F_imm, Offset 12 0)], app3 emit_ldu),
     (rv_op_lq, [(F_rd, Uimm 5), (F_rs1, Uimm 5), (F_imm, Offset 12 0)], app3 emit_lq),
     (rv_op_sq, [(F_rs1, Uimm 5), (F_rs2, Uimm 5), (F_imm, Offset 12 0)], app3 emit_sq),
     (rv_op_addid, [(F_rd, Uimm 5), (F_rs1, Uimm 5), (F_imm, Simm 12 0)], app3 emit_addid),
     (rv_op_sllid, [(F_rd, Uimm 5), (F_rs1, Uimm 5), (F_imm, Uimm 6)], app3 emit_sllid),
     (rv_op_srlid, [(F_rd, Uimm 5), (F_rs1, Uimm 5), (F_imm, Uimm 6)], app3 emit_srlid),
     (rv_op_sraid, [(F_rd, Uimm 5), (F_rs1, Uimm 5), (F_imm, Uimm 6)], app3 emit_sraid),
     (rv_op_addd, [(F_rd, Uimm 5), (F_rs1, Uimm 5), (F_rs2, Uimm 5)], app3 emit_addd),
     (rv_op_subd, [(F_rd, Uimm 5), (F_rs1, Uimm 5), (F_rs2, Uimm 5)], app3 emit_subd),
     (rv_op_slld, [(F_rd, Uimm 5), (F_rs1, Uimm 5), (F_rs2, Uimm 5)], app3 emit_slld),
     (rv_op_srld, [(F_rd, Uimm 5), (F_rs1, Uimm 5), (F_rs2, Uimm 5)], app3 emit_srld),
     (rv_op_srad, [(F_rd, Uimm 5), (F_rs1, Uimm 5), (F_rs2, Uimm 5)], app3 emit_srad),
     (rv_op_mul, [(F_rd, Uimm 5), (F_rs1, Uimm 5), (F_rs2, Uimm 5)], app3 emit_mul),
     (rv_op_mulh, [(F_rd, Uimm 5), (F_rs1, Uimm 5), (F_rs2, Uimm 5)], app3 emit_mulh),
     (rv_op_mulhsu, [(F_rd, Uimm 5), (F_rs1, Uimm 5), (F_rs2, Uimm 5)], app3 emit_mulhsu),
     (rv_op_mulhu, [(F_rd, Uimm 5), (F_rs1, Uimm 5), (F_rs2, Uimm 5)], app3 emit_mulhu),
     (rv_op_div, [(F_rd, Uimm 5), (F_rs1, Uimm 5), (F_rs2, Uimm 5)], app3 emit_div),
     (rv_op_divu, [(F_rd, Uimm 5), (F_rs1, Uimm 5), (F_rs2, Uimm 5)], app3 emit_divu),
     (rv_op_rem, [(F_rd, Uimm 5), (F_rs1, Uimm 5), (F_rs2, Uimm 5)], app3 emit_rem),
     (rv_op_remu, [(F_rd, Uimm 5), (F_rs1, Uimm 5), (F_rs2, Uimm 5)], app3 emit_remu),
     (rv_op_mulw, [(F_rd, Uimm 5), (F_rs1, Uimm 5), (F_rs2, Uimm 5)], app3 emit_mulw),
     (rv_op_divw, [(F_rd, Uimm 5), (F_rs1, Uimm 5), (F_rs2, Uimm 5)], app3 emit_divw),
     (rv_op_divuw, [(F_rd, Uimm 5), (F_rs1, Uimm 5), (F_rs2, Uimm 5)], app3 emit_divuw),
     (rv_op_remw, [(F_rd, Uimm 5), (F_rs1, Uimm 5), (F_rs2, Uimm 5)], app3 emit_remw),
     (rv_op_remuw, [(F_rd, Uimm 5), (F_rs1, Uimm 5), (F_rs2, Uimm 5)], app3 emit_remuw),
     (rv_op_muld, [(F_rd, Uimm 5), (F_rs1, Uimm 5), (F_rs2, Uimm 5)], app3 emit_muld),
     (rv_op_divd, [(F_rd, Uimm 5), (F_rs1, Uimm 5), (F_rs2, Uimm 5)], app3 emit_divd),
     (rv_op_divud, [(F_rd, Uimm 5), (F_rs1, Uimm 5), (F_rs2, Uimm 5)], app3 emit_divud),
     (rv_op_remd, [(F_rd, Uimm 5), (F_rs1, Uimm 5), (F_rs2, Uimm 5)], app3 emit_remd),
     (rv_op_remud, [(F_rd, Uimm 5), (F_rs1, Uimm 5), (F_rs2, Uimm 5)], app3 emit_remud),
     (rv_op_lr_w, [(F_rd, Uimm 5), (F_rs1, Uimm 5), (F_aq, Uimm 1), (F_rl, Uimm 1)], app4 emit_lr_w),
     (rv_op_sc_w, [(F_rd, Uimm 5), (F_rs1, Uimm 5), (F_rs2, Uimm 5), (F_aq, Uimm 1), (F_rl, Uimm 1)], app5 emit_sc_w),
     (rv_op_amoswap_w, [(F_rd, Uimm 5), (F_rs1, Uimm 5), (F_rs2, Uimm 5), (F_aq, Uimm 1), (F_rl, Uimm 1)], app5 emit_amoswap_w),
     (rv_op_amoadd_w, [(F_rd, Uimm 5), (F_rs1, Uimm 5), (F_rs2, Uimm 5), (F_aq, Uimm 1), (F_rl, Uimm 1)], app5 emit_amoadd_w),
     (rv_op_amoxor_w, [(F_rd, Uimm 5), (F_rs1, Uimm 5), (F_rs2, Uimm 5), (F_aq, Uimm 1), (F_rl, Uimm 1)], app5 emit_amoxor_w),
     (rv_op_amoor_w, [(F_rd, Uimm 5), (F_rs1, Uimm 5), (F_rs2, Uimm 5), (F_aq, Uimm 1), (F_rl, Uimm 1)], app5 emit_amoor_w),
     (rv_op_amoand_w, [(F_rd, Uimm 5), (F_rs1, Uimm 5), (F_rs2, Uimm 5), (F_aq, Uimm 1), (F_rl, Uimm 1)], app5 emit_amoand_w),
     (rv_op_amomin_w, [(F_rd, Uimm 5), (F_rs1, Uimm 5), (F_rs2, Uimm 5), (F_aq, Uimm 1), (F_rl, Uimm 1)], app5 emit_amomin_w),
     (rv_op_amomax_w, [(F_rd, Uimm 5), (F_rs1, Uimm 5), (F_rs2, Uimm 5), (F_aq, Uimm 1), (F_rl, Uimm 1)], app5 emit_amomax_w),
     (rv_op_amominu_w, [(F_rd, Uimm 5), (F_rs1, Uimm 5), (F_rs2, Uimm 5), (F_aq, Uimm 1), (F_rl, Uimm 1)], app5 emit_amominu_w),
     (rv_op_amomaxu_w, [(F_rd, Uimm 5), (F_rs1, Uimm 5), (F_rs2, Uimm 5), (F_aq, Uimm 1), (F_rl, Uimm 1)], app5 emit_amomaxu_w),
     (rv_op_lr_d, [(F_rd, Uimm 5), (F_rs1, Uimm 5), (F_aq, Uimm 1), (F_rl, Uimm 1)], app4 emit_lr_d),
     (rv_op_sc_d, [(F_rd, Uimm 5), (F_rs1, Uimm 5), (F_rs2, Uimm 5), (F_aq, Uimm 1), (F_rl, Uimm 1)], app5 emit_sc_d),
     (rv_op_amoswap_d, [(F_rd, Uimm 5), (F_rs1, Uimm 5), (F_rs2, Uimm 5), (F_aq, Uimm 1), (F_rl, Uimm 1)], app5 emit_amoswap_d),
     (rv_op_amoadd_d, [(F_rd, Uimm 5), (F_rs1, Uimm 5), (F_rs2, Uimm 5), (F_aq, Uimm 1), (F_rl, Uimm 1)], app5 emit_amoadd_d),
     (rv_op_amoxor_d, [(F_rd, Uimm 5), (F_rs1, Uimm 5), (F_rs2, Uimm 5), (F_aq, Uimm 1), (F_rl, Uimm 1)], app5 emit_amoxor_d),
     (rv_op_amoor_d, [(F_rd, Uimm 5), (F_rs1, Uimm 5), (F_rs2, Uimm 5), (F_aq, Uimm 1), (F_rl, Uimm 1)], app5 emit_amoor_d),
     (rv_op_amoand_d, [(F_rd, Uimm 5), (F_rs1, Uimm 5), (F_rs2, Uimm 5), (F_aq, Uimm 1), (F_rl, Uimm 1)], app5 emit_amoand_d),
     (rv_op_amomin_d, [(F_rd, Uimm 5), (F_rs1, Uimm 5), (F_rs2, Uimm 5), (F_aq, Uimm 1), (F_rl, Uimm 1)], app5 emit_amomin_d),
     (rv_op_amomax_d, [(F_rd, Uimm 5), (F_rs1, Uimm 5), (F_rs2, Uimm 5), (F_aq, Uimm 1), (F_rl, Uimm 1)], app5 emit_amomax_d),
     (rv_op_amominu_d, [(F_rd, Uimm 5), (F_rs1, Uimm 5), (F_rs2, Uimm 5), (F_aq, Uimm 1), (F_rl, Uimm 1)], app5 emit_amominu_d),
     (rv_op_amomaxu_d, [(F_rd, Uimm 5), (F_rs1, Uimm 5), (F_rs2, Uimm 5), (F_aq, Uimm 1), (F_rl, Uimm 1)], app5 emit_amomaxu_d),
     (rv_op_lr_q, [(F_rd, Uimm 5), (F_rs1, Uimm 5), (F_aq, Uimm 1), (F_rl, Uimm 1)], app4 emit_lr_q),
     (rv_op_sc_q, [(F_rd, Uimm 5), (F_rs1, Uimm 5), (F_rs2, Uimm 5), (F_aq, Uimm 1), (F_rl, Uimm 1)], app5 emit_sc_q),
     (rv_op_amoswap_q, [(F_rd, Uimm 5), (F_rs1, Uimm 5), (F_rs2, Uimm 5), (F_aq, Uimm 1), (F_rl, Uimm 1)], app5 emit_amoswap_q),
     (rv_op_amoadd_q, [(F_rd, Uimm 5), (F_rs1, Uimm 5), (F_rs2, Uimm 5), (F_aq, Uimm 1), (F_rl, Uimm 1)], app5 emit_amoadd_q),
     (rv_op_amoxor_q, [(F_rd, Uimm 5), (F_rs1, Uimm 5), (F_rs2, Uimm 5), (F_aq, Uimm 1), (F_rl, Uimm 1)], app5 emit_amoxor_q),
     (rv_op_amoor_q, [(F_rd, Uimm 5), (F_rs1, Uimm 5), (F_rs2, Uimm 5), (F_aq, Uimm 1), (F_rl, Uimm 1)], app5 emit_amoor_q),
     (rv_op_amoand_q, [(F_rd, Uimm 5), (F_rs1, Uimm 5), (F_rs2, Uimm 5), (F_aq, Uimm 1), (F_rl, Uimm 1)], app5 emit_amoand_q),
     (rv_op_amomin_q, [(F_rd, Uimm 5), (F_rs1, Uimm 5), (F_rs2, Uimm 5), (F_aq, Uimm 1), (F_rl, Uimm 1)], app5 emit_amomin_q),
     (rv_op_amomax_q, [(F_rd, Uimm 5), (F_rs1, Uimm 5), (F_rs2, Uimm 5), (F_aq, Uimm 1), (F_rl, Uimm 1)], app5 emit_amomax_q),
     (rv_op_amominu_q, [(F_rd, Uimm 5), (F_rs1, Uimm 5), (F_rs2, Uimm 5), (F_aq, Uimm 1), (F_rl, Uimm 1)], app5 emit_amominu_q),
     (rv_op_amomaxu_q, [(F_rd, Uimm 5), (F_rs1, Uimm 5), (F_rs2, Uimm 5), (F_aq, Uimm 1), (F_rl, Uimm 1)], app5 emit_amomaxu_q),
     (rv_op_ecall, [], app0 emit_ecall), (rv_op_ebreak, [], app0 emit_ebreak),
     (rv_op_uret, [], app0 emit_uret), (rv_op_sret, [], app0 emit_sret),
     (rv_op_hret, [], app0 emit_hret), (rv_op_mret, [], app0 emit_mret),
     (rv_op_dret, [], app0 emit_dret), (rv_op_sfence_vm, [(F_rs1, Uimm 5)], app1 emit_sfence_vm),
     (rv_op_sfence_vma, [(F_rs1, Uimm 5), (F_rs2, Uimm 5)], app2 emit_sfence_vma),
     (rv_op_wfi, [], app0 emit_wfi),
     (rv_op_csrrw, [(F_rd, Uimm 5), (F_rs1, Uimm 5), (F_imm, Uimm 12)], app3 emit_csrrw),
     (rv_op_csrrs, [(F_rd, Uimm 5), (F_rs1, Uimm 5), (F_imm, Uimm 12)], app3 emit_csrrs),
     (rv_op_csrrc, [(F_rd, Uimm 5), (F_rs1, Uimm 5), (F_imm, Uimm 12)], app3 emit_csrrc),
     (rv_op_csrrwi, [(F_rd, Uimm 5), (F_lost, Uimm 5), (F_imm, Uimm 12)], app3 emit_csrrwi),
     (rv_op_csrrsi, [(F_rd, Uimm 5), (F_lost, Uimm 5), (F_imm, Uimm 12)], app3 emit_csrrsi),
     (rv_op_csrrci, [(F_rd, Uimm 5), (F_lost, Uimm 5), (F_imm, Uimm 12)], app3 emit_csrrci),
     (rv_op_flw, [(F_rd, Uimm 5), (F_rs1, Uimm 5), (F_imm, Offset 12 0)], app3 emit_flw),
     (rv_op_fsw, [(F_rs1, Uimm 5), (F_rs2, Uimm 5), (F_imm, Offset 12 0)], app3 emit_fsw),
     (rv_op_fmadd_s, [(F_rd, Uimm 5), (F_rs1, Uimm 5), (F_rs2, Uimm 5), (F_rs3, Uimm 5), (F_rm, Uimm 3)], app5 emit_fmadd_s),
     (rv_op_fmsub_s, [(F_rd, Uimm 5), (F_rs1, Uimm 5), (F_rs2, Uimm 5), (F_rs3, Uimm 5), (F_rm, Uimm 3)], app5 emit_fmsub_s),
     (rv_op_fnmsub_s, [(F_rd, Uimm 5), (F_rs1, Uimm 5), (F_rs2, Uimm 5), (F_rs3, Uimm 5), (F_rm, Uimm 3)], app5 emit_fnmsub_s),
     (rv_op_fnmadd_s, [(F_rd, Uimm 5), (F_rs1, Uimm 5), (F_rs2, Uimm 5), (F_rs3, Uimm 5), (F_rm, Uimm 3)], app5 emit_fnmadd_s),
     (rv_op_fadd_s, [(F_rd, Uimm 5), (F_rs1, Uimm 5), (F_rs2, Uimm 5), (F_rm, Uimm 3)], app4 emit_fadd_s),
     (rv_op_fsub_s, [(F_rd, Uimm 5), (F_rs1, Uimm 5), (F_rs2, Uimm 5), (F_rm, Uimm 3)], app4 emit_fsub_s),
     (rv_op_fmul_s, [(F_rd, Uimm 5), (F_rs1, Uimm 5), (F_rs2, Uimm 5), (F_rm, Uimm 3)], app4 emit_fmul_s),
     (rv_op_fdiv_s, [(F_rd, Uimm 5), (F_rs1, Uimm 5), (F_rs2, Uimm 5), (F_rm, Uimm 3)], app4 emit_fdiv_s),
     (rv_op_fsgnj_s, [(F_rd, Uimm 5), (F_rs1, Uimm 5), (F_rs2, Uimm 5)], app3 emit_fsgnj_s),
     (rv_op_fsgnjn_s, [(F_rd, Uimm 5), (F_rs1, Uimm 5), (F_rs2, Uimm 5)], app3 emit_fsgnjn_s),
     (rv_op_fsgnjx_s, [(F_rd, Uimm 5), (F_rs1, Uimm 5), (F_rs2, Uimm 5)], app3 emit_fsgnjx_s),
     (rv_op_fmin_s, [(F_rd, Uimm 5), (F_rs1, Uimm 5), (F_rs2, Uimm 5)], app3 emit_fmin_s),
     (rv_op_fmax_s, [(F_rd, Uimm 5), (F_rs1, Uimm 5), (F_rs2, Uimm 5)], app3 emit_fmax_s),
     (rv_op_fsqrt_s, [(F_rd, Uimm 5), (F_rs1, Uimm 5), (F_rm, Uimm 3)], app3 emit_fsqrt_s),
     (rv_op_fle_s, [(F_rd, Uimm 5), (F_rs1, Uimm 5), (F_rs2, Uimm 5)], app3 emit_fle_s),
     (rv_op_flt_s, [(F_rd, Uimm 5), (F_rs1, Uimm 5), (F_rs2, Uimm 5)], app3 emit_flt_s),
     (rv_op_feq_s, [(F_rd, Uimm 5), (F_rs1, Uimm 5), (F_rs2, Uimm 5)], app3 emit_feq_s),
     (rv_op_fcvt_w_s, [(F_rd, Uimm 5), (F_rs1, Uimm 5), (F_rm, Uimm 3)], app3 emit_fcvt_w_s),
     (rv_op_fcvt_wu_s, [(F_rd, Uimm 5), (F_rs1, Uimm 5), (F_rm, Uimm 3)], app3 emit_fcvt_wu_s),
     (rv_op_fcvt_s_w, [(F_rd, Uimm 5), (F_rs1, Uimm 5), (F_rm, Uimm 3)], app3 emit_fcvt_s_w),
     (rv_op_fcvt_s_wu, [(F_rd, Uimm 5), (F_rs1, Uimm 5), (F_rm, Uimm 3)], app3 emit_fcvt_s_wu),
     (rv_op_fmv_x_s, [(F_rd, Uimm 5), (F_rs1, Uimm 5)], app2 emit_fmv_x_s),
     (rv_op_fclass_s, [(F_rd, Uimm 5), (F_rs1, Uimm 5)], app2 emit_fclass_s),
     (rv_op_fmv_s_x, [(F_rd, Uimm 5), (F_rs1, Uimm 5)], app2 emit_fmv_s_x),
     (rv_op_fcvt_l_s, [(F_rd, Uimm 5), (F_rs1, Uimm 5), (F_rm, Uimm 3)], app3 emit_fcvt_l_s),
     (rv_op_fcvt_lu_s, [(F_rd, Uimm 5), (F_rs1, Uimm 5), (F_rm, Uimm 3)], app3 emit_fcvt_lu_s),
     (rv_op_fcvt_s_l, [(F_rd, Uimm 5), (F_rs1, Uimm 5), (F_rm, Uimm 3)], app3 emit_fcvt_s_l),
     (rv_op_fcvt_s_lu, [(F_rd, Uimm 5), (F_rs1, Uimm 5), (F_rm, Uimm 3)], app3 emit_fcvt_s_lu),
     (rv_op_fld, [(F_rd, Uimm 5), (F_rs1, Uimm 5), (F_imm, Offset 12 0)], app3 emit_fld),
     (rv_op_fsd, [(F_rs1, Uimm 5), (F_rs2, Uimm 5), (F_imm, Offset 12 0)], app3 emit_fsd),
     (rv_op_fmadd_d, [(F_rd, Uimm 5), (F_rs1, Uimm 5), (F_rs2, Uimm 5), (F_rs3, Uimm 5), (F_rm, Uimm 3)], app5 emit_fmadd_d),
     (rv_op_fmsub_d, [(F_rd, Uimm 5), (F_rs1, Uimm 5), (F_rs2, Uimm 5), (F_rs3, Uimm 5), (F_rm, Uimm 3)], app5 emit_fmsub_d),
     (rv_op_fnmsub_d, [(F_rd, Uimm 5), (F_rs1, Uimm 5), (F_rs2, Uimm 5), (F_rs3, Uimm 5), (F_rm, Uimm 3)], app5 emit_fnmsub_d),
     (rv_op_fnmadd_d, [(F_rd, Uimm 5), (F_rs1, Uimm 5), (F_rs2, Uimm 5), (F_rs3, Uimm 5), (F_rm, Uimm 3)], app5 emit_fnmadd_d),
     (rv_op_fadd_d, [(F_rd, Uimm 5), (F_rs1, Uimm 5), (F_rs2, Uimm 5), (F_rm, Uimm 3)], app4 emit_fadd_d),
     (rv_op_fsub_d, [(F_rd, Uimm 5), (F_rs1, Uimm 5), (F_rs2, Uimm 5), (F_rm, Uimm 3)], app4 emit_fsub_d),
     (rv_op_fmul_d, [(F_rd, Uimm 5), (F_rs1, Uimm 5), (F_rs2, Uimm 5), (F_rm, Uimm 3)], app4 emit_fmul_d),
     (rv_op_fdiv_d, [(F_rd, Uimm 5), (F_rs1, Uimm 5), (F_rs2, Uimm 5), (F_rm, Uimm 3)], app4 emit_fdiv_d),
     (rv_op_fsgnj_d, [(F_rd, Uimm 5), (F_rs1, Uimm 5), (F_rs2, Uimm 5)], app3 emit_fsgnj_d),
     (rv_op_fsgnjn_d, [(F_rd, Uimm 5), (F_rs1, Uimm 5), (F_rs2, Uimm 5)], app3 emit_fsgnjn_d),
     (rv_op_fsgnjx_d, [(F_rd, Uimm 5), (F_rs1, Uimm 5), (F_rs2, Uimm 5)], app3 emit_fsgnjx_d),
     (rv_op_fmin_d, [(F_rd, Uimm 5), (F_rs1, Uimm 5), (F_rs2, Uimm 5)], app3 emit_fmin_d),
     (rv_op_fmax_d, [(F_rd, Uimm 5), (F_rs1, Uimm 5), (F_rs2, Uimm 5)], app3 emit_fmax_d),
     (rv_op_fcvt_s_d, [(F_rd, Uimm 5), (F_rs1, Uimm 5), (F_rm, Uimm 3)], app3 emit_fcvt_s_d),
     (rv_op_fcvt_d_s, [(F_rd, Uimm 5), (F_rs1, Uimm 5), (F_rm, Uimm 3)], app3 emit_fcvt_d_s),
     (rv_op_fsqrt_d, [(F_rd, Uimm 5), (F_rs1, Uimm 5), (F_rm, Uimm 3)], app3 emit_fsqrt_d),
     (rv_op_fle_d, [(F_rd, Uimm 5), (F_rs1, Uimm 5), (F_rs2, Uimm 5)], app3 emit_fle_d),
     (rv_op_flt_d, [(F_rd, Uimm 5), (F_rs1, Uimm 5), (F_rs2, Uimm 5)], app3 emit_flt_d),
     (rv_op_feq_d, [(F_rd, Uimm 5), (F_rs1, Uimm 5), (F_rs2, Uimm 5)], app3 emit_feq_d),
     (rv_op_fcvt_w_d, [(F_rd, Uimm 5), (F_rs1, Uimm 5), (F_rm, Uimm 3)], app3 emit_fcvt_w_d),
     (rv_op_fcvt_wu_d, [(F_rd, Uimm 5), (F_rs1, Uimm 5), (F_rm, Uimm 3)], app3 emit_fcvt_wu_d),
     (rv_op_fcvt_d_w, [(F_rd, Uimm 5), (F_rs1, Uimm 5), (F_rm, Uimm 3)], app3 emit_fcvt_d_w),
     (rv_op_fcvt_d_wu, [(F_rd, Uimm 5), (F_rs1, Uimm 5), (F_rm, Uimm 3)], app3 emit_fcvt_d_wu),
     (rv_op_fclass_d, [(F_rd, Uimm 5), (F_rs1, Uimm 5)], app2 emit_fclass_d),
     (rv_op_fcvt_l_d, [(F_rd, Uimm 5), (F_rs1, Uimm 5), (F_rm, Uimm 3)], app3 emit_fcvt_l_d),
     (rv_op_fcvt_lu_d, [(F_rd, Uimm 5), (F_rs1, Uimm 5), (F_rm, Uimm 3)], app3 emit_fcvt_lu_d),
     (rv_op_fmv_x_d, [(F_rd, Uimm 5), (F_rs1, Uimm 5)], app2 emit_fmv_x_d),
     (rv_op_fcvt_d_l, [(F_rd, Uimm 5), (F_rs1, Uimm 5), (F_rm, Uimm 3)], app3 emit_fcvt_d_l),
     (rv_op_fcvt_d_lu, [(F_rd, Uimm 5), (F_rs1, Uimm 5), (F_rm, Uimm 3)], app3 emit_fcvt_d_lu),
     (rv_op_fmv_d_x, [(F_rd, Uimm 5), (F_rs1, Uimm 5)], app2 emit_fmv_d_x),
     (rv_op_flq, [(F_rd, Uimm 5), (F_rs1, Uimm 5), (F_imm, Offset 12 0)], app3 emit_flq),
     (rv_op_fsq, [(F_rs1, Uimm 5), (F_rs2, Uimm 5), (F_imm, Offset 12 0)], app3 emit_fsq),
     (rv_op_fmadd_q, [(F_rd, Uimm 5), (F_rs1, Uimm 5), (F_rs2, Uimm 5), (F_rs3, Uimm 5), (F_rm, Uimm 3)], app5 emit_fmadd_q),
     (rv_op_fmsub_q, [(F_rd, Uimm 5), (F_rs1, Uimm 5), (F_rs2, Uimm 5), (F_rs3, Uimm 5), (F_rm, Uimm 3)], app5 emit_fmsub_q),
     (rv_op_fnmsub_q, [(F_rd, Uimm 5), (F_rs1, Uimm 5), (F_rs2, Uimm 5), (F_rs3, Uimm 5), (F_rm, Uimm 3)], app5 emit_fnmsub_q),
     (rv_op_fnmadd_q, [(F_rd, Uimm 5), (F_rs1, Uimm 5), (F_rs2, Uimm 5), (F_rs3, Uimm 5), (F_rm, Uimm 3)], app5 emit_fnmadd_q),
     (rv_op_fadd_q, [(F_rd, Uimm 5), (F_rs1, Uimm 5), (F_rs2, Uimm 5), (F_rm, Uimm 3)], app4 emit_fadd_q),
     (rv_op_fsub_q, [(F_rd, Uimm 5), (F_rs1, Uimm 5), (F_rs2, Uimm 5), (F_rm, Uimm 3)], app4 emit_fsub_q),
     (rv_op_fmul_q, [(F_rd, Uimm 5), (F_rs1, Uimm 5), (F_rs2, Uimm 5), (F_rm, Uimm 3)], app4 emit_fmul_q),
     (rv_op_fdiv_q, [(F_rd, Uimm 5), (F_rs1, Uimm 5), (F_rs2, Uimm 5), (F_rm, Uimm 3)], app4 emit_fdiv_q),
     (rv_op_fsgnj_q, [(F_rd, Uimm 5), (F_rs1, Uimm 5), (F_rs2, Uimm 5)], app3 emit_fsgnj_q),
     (rv_op_fsgnjn_q, [(F_rd, Uimm 5), (F_rs1, Uimm 5), (F_rs2, Uimm 5)], app3 emit_fsgnjn_q),
     (rv_op_fsgnjx_q, [(F_rd, Uimm 5), (F_rs1, Uimm 5), (F_rs2, Uimm 5)], app3 emit_fsgnjx_q),
     (rv_op_fmin_q, [(F_rd, Uimm 5), (F_rs1, Uimm 5), (F_rs2, Uimm 5)], app3 emit_fmin_q),
     (rv_op_fmax_q, [(F_rd, Uimm 5), (F_rs1, Uimm 5), (F_rs2, Uimm 5)], app3 emit_fmax_q),
     (rv_op_fcvt_s_q, [(F_rd, Uimm 5), (F_rs1, Uimm 5), (F_rm, Uimm 3)], app3 emit_fcvt_s_q),
     (rv_op_fcvt_q_s, [(F_rd, Uimm 5), (F_rs1, Uimm 5), (F_rm, Uimm 3)], app3 emit_fcvt_q_s),
     (rv_op_fcvt_d_q, [(F_rd, Uimm 5), (F_rs1, Uimm 5), (F_rm, Uimm 3)], app3 emit_fcvt_d_q),
     (rv_op_fcvt_q_d, [(F_rd, Uimm 5), (F_rs1, Uimm 5), (F_rm, Uimm 3)], app3 emit_fcvt_q_d),
     (rv_op_fsqrt_q, [(F_rd, Uimm 5), (F_rs1, Uimm 5), (F_rm, Uimm 3)], app3 emit_fsqrt_q),
     (rv_op_fle_q, [(F_rd, Uimm 5), (F_rs1, Uimm 5), (F_rs2, Uimm 5)], app3 emit_fle_q),
     (rv_op_flt_q, [(F_rd, Uimm 5), (F_rs1, Uimm 5), (F_rs2, Uimm 5)], app3 emit_flt_q),
     (rv_op_feq_q, [(F_rd, Uimm 5), (F_rs1, Uimm 5), (F_rs2, Uimm 5)], app3 emit_feq_q),
     (rv_op_fcvt_w_q, [(F_rd, Uimm 5), (F_rs1, Uimm 5), (F_rm, Uimm 3)], app3 emit_fcvt_w_q),
     (rv_op_fcvt_wu_q, [(F_rd, Uimm 5), (F_rs1, Uimm 5), (F_rm, Uimm 3)], app3 emit_fcvt_wu_q),
     (rv_op_fcvt_q_w, [(F_rd, Uimm 5), (F_rs1, Uimm 5), (F_rm, Uimm 3)], app3 emit_fcvt_q_w),
     (rv_op_fcvt_q_wu, [(F_rd, Uimm 5), (F_rs1, Uimm 5), (F_rm, Uimm 3)], app3 emit_fcvt_q_wu),
     (rv_op_fclass_q, [(F_rd, Uimm 5), (F_rs1, Uimm 5)], app2 emit_fclass_q),
     (rv_op_fcvt_l_q, [(F_rd, Uimm 5), (F_rs1, Uimm 5), (F_rm, Uimm 3)], app3 emit_fcvt_l_q),
     (rv_op_fcvt_lu_q, [(F_rd, Uimm 5), (F_rs1, Uimm 5), (F_rm, Uimm 3)], app3 emit_fcvt_lu_q),
     (rv_op_fcvt_q_l, [(F_rd, Uimm 5), (F_rs1, Uimm 5), (F_rm, Uimm 3)], app3 emit_fcvt_q_l),
     (rv_op_fcvt_q_lu, [(F_rd, Uimm 5), (F_rs1, Uimm 5), (F_rm, Uimm 3)], app3 emit_fcvt_q_lu),
     (rv_op_fmv_x_q, [(F_rd, Uimm 5), (F_rs1, Uimm 5)], app2 emit_fmv_x_q),
     (rv_op_fmv_q_x, [(F_rd, Uimm 5), (F_rs1, Uimm 5)], app2 emit_fmv_q_x)]"

end
