(* ===== verification/Emit_Spec.thy ===== *)
theory Emit_Spec
  imports Emit
begin

text \<open>
  What the emitters of \<open>Emit\<close> promise. All of them are instances of one function
  \<open>emit_spec\<close>; each 32-bit codec is a list of operands with the members of
  \<^verbatim>\<open>struct decode\<close> they hold; from the laws of the operands follows that an emitted
  instruction decodes to its opcode and arguments.
\<close>

unbundle bit_operations_syntax

section \<open>Members and their ranges\<close>

text \<open>The width of a member.\<close>

fun field_fits :: "asm_field \<Rightarrow> u64 \<Rightarrow> bool" where
  "field_fits F_imm v \<longleftrightarrow> simm_valid 32 v"
| "field_fits F_rm v \<longleftrightarrow> uimm_valid 3 v"
| "field_fits F_aq v \<longleftrightarrow> uimm_valid 1 v"
| "field_fits F_rl v \<longleftrightarrow> uimm_valid 1 v"
| "field_fits F_pred v \<longleftrightarrow> uimm_valid 4 v"
| "field_fits F_succ v \<longleftrightarrow> uimm_valid 4 v"
| "field_fits F_lost v \<longleftrightarrow> True"
| "field_fits _ v \<longleftrightarrow> uimm_valid 8 v"

lemma uimm_valid_take_bit: "uimm_valid w v \<longleftrightarrow> take_bit w v = v"
proof -
  have "uimm_valid w v \<longleftrightarrow> uint v < 2 ^ w" by (auto simp: uimm_valid_def)
  also have "\<dots> \<longleftrightarrow> take_bit w (uint v) = uint v" by (simp add: take_bit_int_eq_self_iff)
  also have "\<dots> \<longleftrightarrow> take_bit w v = v" by (simp add: word_uint_eq_iff unsigned_take_bit_eq)
  finally show ?thesis .
qed

lemma uimm_valid_ucast:
  assumes "uimm_valid LENGTH('a) v"
  shows "(ucast (ucast v :: 'a::len word) :: u64) = v"
proof (rule bit_word_eqI)
  fix i assume "i < LENGTH(64)"
  have "bit v i \<longleftrightarrow> i < LENGTH('a) \<and> bit v i"
    using assms by (metis uimm_valid_take_bit bit_take_bit_iff)
  then show "bit (ucast (ucast v :: 'a word) :: u64) i \<longleftrightarrow> bit v i"
    using \<open>i < LENGTH(64)\<close> by (auto simp: bit_ucast_iff)
qed

lemma simm_valid_sign_extend: "0 < w \<Longrightarrow> w \<le> 64 \<Longrightarrow> simm_valid w v \<longleftrightarrow> sign_extend w v = v"
proof -
  assume w: "0 < w" "w \<le> 64"
  have "sint (sign_extend w v) = signed_take_bit (w - 1) (sint v)"
    using w unfolding sign_extend_def
    by (intro bit_eqI) (auto simp: bit_sint_iff bit_signed_take_bit_iff min_def)
  then have "sign_extend w v = v \<longleftrightarrow> signed_take_bit (w - 1) (sint v) = sint v"
    by (metis word_eq_iff_signed)
  then show ?thesis
    by (auto simp: simm_valid_def signed_take_bit_int_eq_self_iff)
qed

lemma simm_valid_scast:
  assumes "simm_valid 32 v"
  shows "scast (ucast v :: u32) = v"
proof (rule bit_word_eqI)
  fix i assume "i < LENGTH(64)"
  have "sign_extend 32 v = v" using assms by (simp add: simm_valid_sign_extend)
  then have h: "bit v (min 31 i) = bit v i"
    using \<open>i < LENGTH(64)\<close> bit_sign_extend [of 32 v i] by simp
  show "bit (scast (ucast v :: u32) :: u64) i \<longleftrightarrow> bit v i"
    using \<open>i < LENGTH(64)\<close> by (simp add: bit_ucast_iff bit_signed_iff h min_less_iff_disj)
qed

lemma uimm_casts:
  "uimm_valid 8 v \<Longrightarrow> (ucast (ucast v :: u8) :: u64) = v" "uimm_valid 4 v \<Longrightarrow> (ucast (ucast v :: 4 word) :: u64) = v"
  "uimm_valid 3 v \<Longrightarrow> (ucast (ucast v :: 3 word) :: u64) = v" "uimm_valid 1 v \<Longrightarrow> (ucast (ucast v :: 1 word) :: u64) = v"
  by (rule uimm_valid_ucast; simp)+

lemma get_put_field [simp]:
  "field_fits f v \<Longrightarrow> f \<noteq> F_lost \<Longrightarrow> get_field f (put_field f v d) = v"
  by (cases f) (simp_all add: uimm_casts simm_valid_scast)

lemma get_put_other [simp]: "g \<noteq> f \<Longrightarrow> get_field g (put_field f v d) = get_field g d"
  by (cases f; cases g; simp)

lemma put_field_frame [simp]:
  "dec_op (put_field f v d) = dec_op d" "dec_codec (put_field f v d) = dec_codec d"
  by (cases f; simp)+

lemma put_fields_frame [simp]:
  "dec_op (put_fields fs vs d) = dec_op d" "dec_codec (put_fields fs vs d) = dec_codec d"
  by (induction fs vs d rule: put_fields.induct) simp_all

text \<open>Two decoded instructions with the same members are the same.\<close>

lemma ucast_eqD:
  assumes "(ucast a :: u64) = ucast b" "LENGTH('a) \<le> 64"
  shows "a = (b :: 'a::len word)"
proof (rule bit_word_eqI)
  fix i assume "i < LENGTH('a)"
  then show "bit a i \<longleftrightarrow> bit b i"
    using arg_cong [OF assms(1), of "\<lambda>w. bit w i"] assms(2) by (simp add: bit_ucast_iff)
qed

lemma scast_eqD:
  assumes "(scast a :: u64) = scast b"
  shows "a = (b :: u32)"
proof (rule bit_word_eqI)
  fix i assume "i < LENGTH(32)"
  then show "bit a i \<longleftrightarrow> bit b i"
    using arg_cong [OF assms, of "\<lambda>w. bit w i"] by (cases "i = 31") (auto simp: bit_signed_iff)
qed

lemma decode_eqI:
  assumes "dec_op d = dec_op d'" "dec_codec d = dec_codec d'" "\<And>f. get_field f d = get_field f d'"
  shows "d = d'"
proof -
  note m = assms(3)
  have "dec_rd d = dec_rd d'" "dec_rs1 d = dec_rs1 d'" "dec_rs2 d = dec_rs2 d'" "dec_rs3 d = dec_rs3 d'"
    "dec_rm d = dec_rm d'" "dec_aq d = dec_aq d'" "dec_rl d = dec_rl d'" "dec_pred d = dec_pred d'" "dec_succ d = dec_succ d'"
    using m [of F_rd] m [of F_rs1] m [of F_rs2] m [of F_rs3] m [of F_rm] m [of F_aq] m [of F_rl] m [of F_pred] m [of F_succ]
    by (simp_all add: ucast_eqD)
  moreover have "dec_imm d = dec_imm d'" using m [of F_imm] by (simp add: scast_eqD)
  ultimately show ?thesis using assms(1,2) by (cases d; cases d') simp
qed

section \<open>The codecs as lists of operands\<close>

text \<open>
  The 32-bit codecs, each as the members its decoder fills, with the operand of
  \<^verbatim>\<open>operands.h\<close> that holds the member and the instruction bits the operand owns. Every other
  codec is compressed and has no emitter.
\<close>

fun codec_operands :: "rv_codec \<Rightarrow> (asm_field \<times> imm_operand \<times> u64) list" where
  "codec_operands rv_codec_u = [(F_rd, operand_rd, 0xf80), (F_imm, operand_imm20, 0xfffff000)]"
| "codec_operands rv_codec_uj = [(F_rd, operand_rd, 0xf80), (F_imm, operand_jimm20, 0xfffff000)]"
| "codec_operands rv_codec_i = [(F_rd, operand_rd, 0xf80), (F_rs1, operand_rs1, 0xf8000), (F_imm, operand_imm12, 0xfff00000)]"
| "codec_operands rv_codec_i_sh5 = [(F_rd, operand_rd, 0xf80), (F_rs1, operand_rs1, 0xf8000), (F_imm, operand_shamt5, 0x1f00000)]"
| "codec_operands rv_codec_i_sh6 = [(F_rd, operand_rd, 0xf80), (F_rs1, operand_rs1, 0xf8000), (F_imm, operand_shamt6, 0x3f00000)]"
| "codec_operands rv_codec_i_sh7 = [(F_rd, operand_rd, 0xf80), (F_rs1, operand_rs1, 0xf8000), (F_imm, operand_shamt7, 0x7f00000)]"
| "codec_operands rv_codec_i_csr = [(F_rd, operand_rd, 0xf80), (F_rs1, operand_rs1, 0xf8000), (F_imm, operand_csr12, 0xfff00000)]"
| "codec_operands rv_codec_s = [(F_rs1, operand_rs1, 0xf8000), (F_rs2, operand_rs2, 0x1f00000), (F_imm, operand_simm12, 0xfe000f80)]"
| "codec_operands rv_codec_sb = [(F_rs1, operand_rs1, 0xf8000), (F_rs2, operand_rs2, 0x1f00000), (F_imm, operand_sbimm12, 0xfe000f80)]"
| "codec_operands rv_codec_r = [(F_rd, operand_rd, 0xf80), (F_rs1, operand_rs1, 0xf8000), (F_rs2, operand_rs2, 0x1f00000)]"
| "codec_operands rv_codec_r_m = [(F_rd, operand_rd, 0xf80), (F_rs1, operand_rs1, 0xf8000), (F_rs2, operand_rs2, 0x1f00000),
     (F_rm, operand_rm, 0x7000)]"
| "codec_operands rv_codec_r4_m = [(F_rd, operand_rd, 0xf80), (F_rs1, operand_rs1, 0xf8000), (F_rs2, operand_rs2, 0x1f00000),
     (F_rs3, operand_rs3, 0xf8000000), (F_rm, operand_rm, 0x7000)]"
| "codec_operands rv_codec_r_a = [(F_rd, operand_rd, 0xf80), (F_rs1, operand_rs1, 0xf8000), (F_rs2, operand_rs2, 0x1f00000),
     (F_aq, operand_aq, 0x4000000), (F_rl, operand_rl, 0x2000000)]"
| "codec_operands rv_codec_r_l = [(F_rd, operand_rd, 0xf80), (F_rs1, operand_rs1, 0xf8000),
     (F_aq, operand_aq, 0x4000000), (F_rl, operand_rl, 0x2000000)]"
| "codec_operands rv_codec_r_f = [(F_pred, operand_pred, 0xf000000), (F_succ, operand_succ, 0xf00000)]"
| "codec_operands _ = []"

definition wide_codecs :: "rv_codec list" where
  "wide_codecs = [rv_codec_none, rv_codec_u, rv_codec_uj, rv_codec_i, rv_codec_i_sh5, rv_codec_i_sh6,
     rv_codec_i_sh7, rv_codec_i_csr, rv_codec_s, rv_codec_sb, rv_codec_r, rv_codec_r_m, rv_codec_r4_m,
     rv_codec_r_a, rv_codec_r_l, rv_codec_r_f]"

definition operand_bits :: "(asm_field \<times> imm_operand \<times> u64) list \<Rightarrow> decode \<Rightarrow> u64" where
  "operand_bits os d = foldr (\<lambda>(f, opd, own) w. operand_encode opd (get_field f d) OR w) os 0"

lemma encode_operands_wide:
  "c \<in> set wide_codecs \<Longrightarrow> (c = rv_codec_r_l \<Longrightarrow> dec_rs2 d = 0) \<Longrightarrow>
   encode_operands c d = Some (operand_bits (codec_operands c) d)"
  by (auto simp: wide_codecs_def encode_operands_def encode_codec_defs operand_bits_def or.assoc)

text \<open>What a 32-bit decoder leaves in a member that its codec does not hold.\<close>

definition unheld :: "asm_field \<Rightarrow> decode \<Rightarrow> u64" where
  "unheld f d = (if f \<in> {F_rd, F_rs1, F_rs2, F_imm} then 0 else get_field f d)"

definition operand_value :: "asm_field \<Rightarrow> (asm_field \<times> imm_operand \<times> u64) list \<Rightarrow> u64 \<Rightarrow> decode \<Rightarrow> u64" where
  "operand_value f os w d = (case map_of os f of None \<Rightarrow> unheld f d | Some (opd, own) \<Rightarrow> operand_decode opd w)"

text \<open>Every operand satisfies the laws of \<open>operand_codec\<close> for the bits named above, and fits its member.\<close>

definition operand_lawful :: "asm_field \<times> imm_operand \<times> u64 \<Rightarrow> bool" where
  "operand_lawful = (\<lambda>(f, opd, own). operand_codec (operand_decode opd) (operand_encode opd) own (operand_valid opd) \<and>
     (\<forall>v. operand_valid opd v \<longrightarrow> field_fits f v) \<and> f \<noteq> F_lost)"

lemma operand_valid_unsigned:
  assumes "\<not> op_signed opd" "imm_mask (op_segs opd) = mask w" "w \<le> 64"
  shows "operand_valid opd v \<longleftrightarrow> uimm_valid w v"
  using assms by (simp add: operand_valid_def uimm_valid_take_bit take_bit_eq_mask)

lemma u64_eq_iff: "x = y \<longleftrightarrow> (\<forall>i < 64. bit x i \<longleftrightarrow> bit (y :: u64) i)"
  by (auto intro: bit_word_eqI)

lemma operand_valid_signed:
  assumes "op_signed opd" "op_width opd = w" "imm_mask (op_segs opd) = mask w AND NOT (mask g)" "0 < w" "w \<le> 64" "g < w"
  shows "operand_valid opd v \<longleftrightarrow> simm_valid w v \<and> take_bit g v = 0"
proof -
  define m where "m i = min (w - 1) i" for i
  have m: "m (m i) = m i" "i < g \<Longrightarrow> m i = i" "m i < 64" for i
    using assms(4-6) by (auto simp: m_def min_def)
  have "bit (sign_extend w (v AND (mask w AND NOT (mask g)))) i \<longleftrightarrow> bit v (m i) \<and> \<not> m i < g" if "i < 64" for i
    using that assms(4,5) by (auto simp: bit_sign_extend bit_and_iff bit_not_iff bit_mask_iff m_def)
  then have "operand_valid opd v \<longleftrightarrow> (\<forall>i < 64. bit v i \<longleftrightarrow> bit v (m i) \<and> \<not> m i < g)"
    unfolding operand_valid_def assms(2,3) if_P [OF assms(1)] u64_eq_iff by blast
  moreover have "simm_valid w v \<longleftrightarrow> (\<forall>i < 64. bit v i \<longleftrightarrow> bit v (m i))"
    unfolding simm_valid_sign_extend [OF assms(4,5)] u64_eq_iff bit_sign_extend [OF assms(4,5)] m_def by blast
  moreover have "take_bit g v = 0 \<longleftrightarrow> (\<forall>i < 64. i < g \<longrightarrow> \<not> bit v i)"
    unfolding u64_eq_iff bit_take_bit_iff by auto
  ultimately show ?thesis using m by metis
qed

lemma operand_ranges:
  "operand_valid operand_rd v \<longleftrightarrow> uimm_valid 5 v" "operand_valid operand_rs1 v \<longleftrightarrow> uimm_valid 5 v"
  "operand_valid operand_rs2 v \<longleftrightarrow> uimm_valid 5 v" "operand_valid operand_rs3 v \<longleftrightarrow> uimm_valid 5 v"
  "operand_valid operand_rm v \<longleftrightarrow> uimm_valid 3 v" "operand_valid operand_aq v \<longleftrightarrow> uimm_valid 1 v"
  "operand_valid operand_rl v \<longleftrightarrow> uimm_valid 1 v" "operand_valid operand_pred v \<longleftrightarrow> uimm_valid 4 v"
  "operand_valid operand_succ v \<longleftrightarrow> uimm_valid 4 v" "operand_valid operand_shamt5 v \<longleftrightarrow> uimm_valid 5 v"
  "operand_valid operand_shamt6 v \<longleftrightarrow> uimm_valid 6 v" "operand_valid operand_shamt7 v \<longleftrightarrow> uimm_valid 7 v"
  "operand_valid operand_csr12 v \<longleftrightarrow> uimm_valid 12 v"
  by (rule operand_valid_unsigned; simp add: operand_eval mask_eq_exp_minus_1)+

lemma operand_ranges_signed:
  "operand_valid operand_imm20 v \<longleftrightarrow> simm_valid 32 v \<and> take_bit 12 v = 0"
  "operand_valid operand_jimm20 v \<longleftrightarrow> simm_valid 21 v \<and> take_bit 1 v = 0"
  "operand_valid operand_imm12 v \<longleftrightarrow> simm_valid 12 v \<and> take_bit 0 v = 0"
  "operand_valid operand_simm12 v \<longleftrightarrow> simm_valid 12 v \<and> take_bit 0 v = 0"
  "operand_valid operand_sbimm12 v \<longleftrightarrow> simm_valid 13 v \<and> take_bit 1 v = 0"
  by (rule operand_valid_signed; simp add: operand_eval mask_eq_exp_minus_1)+

lemma uimm_valid_mono: "uimm_valid w v \<Longrightarrow> w \<le> w' \<Longrightarrow> uimm_valid w' v"
  unfolding uimm_valid_def by (smt (verit) power_increasing)

lemma uimm_valid_simm: "uimm_valid 12 v \<Longrightarrow> simm_valid 32 v"
proof -
  assume "uimm_valid 12 v"
  then have "uint v \<le> 4095" by (simp add: uimm_valid_def)
  moreover from this have "sint v = uint v"
    by (simp add: sint_uint signed_take_bit_int_eq_self_iff order_trans [of _ 0])
  ultimately show ?thesis by (simp add: simm_valid_def order_trans [of _ 0])
qed

lemma simm_valid_mono: "simm_valid w v \<Longrightarrow> w \<le> w' \<Longrightarrow> simm_valid w' v"
proof -
  assume "simm_valid w v" "w \<le> w'"
  moreover from this have "(2 :: int) ^ (w - 1) \<le> 2 ^ (w' - 1)" by (intro power_increasing) auto
  ultimately show ?thesis unfolding simm_valid_def by linarith
qed

lemma codec_operands_lawful: "list_all operand_lawful (codec_operands c)"
  by (cases c) (auto simp: operand_lawful_def operand_ranges operand_ranges_signed
      opd_rd.operand_codec_axioms opd_rs1.operand_codec_axioms opd_rs2.operand_codec_axioms
      opd_rs3.operand_codec_axioms opd_rm.operand_codec_axioms opd_aq.operand_codec_axioms
      opd_rl.operand_codec_axioms opd_pred.operand_codec_axioms opd_succ.operand_codec_axioms
      opd_imm20.operand_codec_axioms opd_jimm20.operand_codec_axioms opd_imm12.operand_codec_axioms
      opd_csr12.operand_codec_axioms opd_shamt5.operand_codec_axioms opd_shamt6.operand_codec_axioms
      opd_shamt7.operand_codec_axioms opd_simm12.operand_codec_axioms opd_sbimm12.operand_codec_axioms
      elim: uimm_valid_mono simm_valid_mono
      intro: uimm_valid_simm uimm_valid_mono [THEN uimm_valid_simm])

section \<open>Decoding what the operand encoders wrote\<close>

fun owned_apart :: "(asm_field \<times> imm_operand \<times> u64) list \<Rightarrow> bool" where
  "owned_apart [] \<longleftrightarrow> True"
| "owned_apart ((f, opd, own) # os) \<longleftrightarrow> list_all (\<lambda>(f', opd', own'). own AND own' = 0) os \<and> owned_apart os"

lemma codec_operands_apart: "owned_apart (codec_operands c)" "distinct (map fst (codec_operands c))"
  by (cases c; simp)+

lemma operand_bits_Cons: "operand_bits ((f, opd, own) # os) d = operand_encode opd (get_field f d) OR operand_bits os d"
  by (simp add: operand_bits_def)

lemma operand_bits_Nil [simp]: "operand_bits [] d = 0"
  by (simp add: operand_bits_def)

lemma operand_bits_outside:
  assumes "list_all operand_lawful os"
    and "\<And>f opd own. (f, opd, own) \<in> set os \<Longrightarrow> M AND own = 0 \<or> operand_encode opd (get_field f d) = 0"
  shows "operand_bits os d AND M = 0"
  using assms
proof (induction os)
  case (Cons x os)
  obtain f opd own where x: "x = (f, opd, own)" by (cases x)
  have "operand_codec (operand_decode opd) (operand_encode opd) own (operand_valid opd)"
    using Cons.prems(1) by (simp add: x operand_lawful_def)
  then have "M AND own = 0 \<Longrightarrow> operand_encode opd (get_field f d) AND M = 0"
    by (rule operand_codec.enc_outside)
  then have "operand_encode opd (get_field f d) AND M = 0"
    using Cons.prems(2) [of f opd own] by (auto simp: x)
  moreover have "operand_bits os d AND M = 0"
    using Cons.prems by (intro Cons.IH) auto
  ultimately show ?case by (simp add: x operand_bits_Cons bit.conj_disj_distrib2)
qed simp

lemma operand_bits_owned:
  assumes "list_all operand_lawful os" "owned_apart os" "(f, opd, own) \<in> set os"
  shows "operand_bits os d AND own = operand_encode opd (get_field f d)"
  using assms
proof (induction os)
  case (Cons x os)
  obtain f' opd' own' where x: "x = (f', opd', own')" by (cases x)
  have c: "operand_codec (operand_decode opd') (operand_encode opd') own' (operand_valid opd')"
    and os: "list_all operand_lawful os"
    using Cons.prems(1) by (simp_all add: x operand_lawful_def)
  show ?case
  proof (cases "(f, opd, own) = x")
    case True
    have "operand_bits os d AND own = 0"
      using Cons.prems(2) True x by (intro operand_bits_outside [OF os]) (auto simp: list_all_iff)
    then show ?thesis
      using operand_codec.enc_owned [OF c] True x by (simp add: operand_bits_Cons bit.conj_disj_distrib2)
  next
    case False
    then have m: "(f, opd, own) \<in> set os" using Cons.prems(3) by simp
    then have "own' AND own = 0" using Cons.prems(2) by (auto simp: x list_all_iff)
    then have "operand_encode opd' (get_field f' d) AND own = 0"
      using operand_codec.enc_outside [OF c, of own] by (simp add: and.commute)
    moreover have "operand_bits os d AND own = operand_encode opd (get_field f d)"
      using Cons.prems(2) by (intro Cons.IH [OF os _ m]) (simp add: x)
    ultimately show ?thesis by (simp add: x operand_bits_Cons bit.conj_disj_distrib2)
  qed
qed simp

lemma operand_read_back:
  assumes os: "list_all operand_lawful os" "owned_apart os" "(f, opd, own) \<in> set os"
    and "M AND own = 0" "operand_valid opd (get_field f d)"
  shows "operand_decode opd (M OR operand_bits os d) = get_field f d"
proof -
  have c: "operand_codec (operand_decode opd) (operand_encode opd) own (operand_valid opd)"
    using os(1,3) by (auto simp: list_all_iff operand_lawful_def)
  show ?thesis
    by (rule operand_codec.dec_of_owned [OF c assms(5)])
      (simp add: bit.conj_disj_distrib2 assms(4) operand_bits_owned [OF os])
qed

lemma operand_untouched:
  assumes os: "list_all operand_lawful os" "owned_apart os" "(f, opd, own) \<in> set os"
    and "operand_encode opd (get_field f d) = 0"
  shows "operand_decode opd (M OR operand_bits os d) = operand_decode opd M"
proof -
  have c: "operand_codec (operand_decode opd) (operand_encode opd) own (operand_valid opd)"
    using os(1,3) by (auto simp: list_all_iff operand_lawful_def)
  show ?thesis
    by (rule operand_codec.dec_owned [OF c])
      (simp add: bit.conj_disj_distrib2 assms(4) operand_bits_owned [OF os])
qed

text \<open>Each member after decoding is its operand read from the word, or what the codec leaves there.\<close>

lemma operand_decode_casts:
  "(ucast (ucast (operand_decode operand_rd w) :: u8) :: u64) = operand_decode operand_rd w"
  "(ucast (ucast (operand_decode operand_rs1 w) :: u8) :: u64) = operand_decode operand_rs1 w"
  "(ucast (ucast (operand_decode operand_rs2 w) :: u8) :: u64) = operand_decode operand_rs2 w"
  "(ucast (ucast (operand_decode operand_rs3 w) :: u8) :: u64) = operand_decode operand_rs3 w"
  "(ucast (ucast (operand_decode operand_rm w) :: 3 word) :: u64) = operand_decode operand_rm w"
  "(ucast (ucast (operand_decode operand_aq w) :: 1 word) :: u64) = operand_decode operand_aq w"
  "(ucast (ucast (operand_decode operand_rl w) :: 1 word) :: u64) = operand_decode operand_rl w"
  "(ucast (ucast (operand_decode operand_pred w) :: 4 word) :: u64) = operand_decode operand_pred w"
  "(ucast (ucast (operand_decode operand_succ w) :: 4 word) :: u64) = operand_decode operand_succ w"
  "(scast (ucast (operand_decode operand_imm20 w) :: u32) :: u64) = operand_decode operand_imm20 w"
  "(scast (ucast (operand_decode operand_jimm20 w) :: u32) :: u64) = operand_decode operand_jimm20 w"
  "(scast (ucast (operand_decode operand_imm12 w) :: u32) :: u64) = operand_decode operand_imm12 w"
  "(scast (ucast (operand_decode operand_simm12 w) :: u32) :: u64) = operand_decode operand_simm12 w"
  "(scast (ucast (operand_decode operand_sbimm12 w) :: u32) :: u64) = operand_decode operand_sbimm12 w"
  "(scast (ucast (operand_decode operand_csr12 w) :: u32) :: u64) = operand_decode operand_csr12 w"
  "(scast (ucast (operand_decode operand_shamt5 w) :: u32) :: u64) = operand_decode operand_shamt5 w"
  "(scast (ucast (operand_decode operand_shamt6 w) :: u32) :: u64) = operand_decode operand_shamt6 w"
  "(scast (ucast (operand_decode operand_shamt7 w) :: u32) :: u64) = operand_decode operand_shamt7 w"
  using opd_rd.valid_dec [of w] opd_rs1.valid_dec [of w] opd_rs2.valid_dec [of w] opd_rs3.valid_dec [of w]
    opd_rm.valid_dec [of w] opd_aq.valid_dec [of w] opd_rl.valid_dec [of w] opd_pred.valid_dec [of w]
    opd_succ.valid_dec [of w] opd_imm20.valid_dec [of w] opd_jimm20.valid_dec [of w] opd_imm12.valid_dec [of w]
    opd_simm12.valid_dec [of w] opd_sbimm12.valid_dec [of w] opd_csr12.valid_dec [of w] opd_shamt5.valid_dec [of w]
    opd_shamt6.valid_dec [of w] opd_shamt7.valid_dec [of w]
  unfolding operand_ranges operand_ranges_signed
  by (auto intro!: uimm_casts simm_valid_scast elim: uimm_valid_mono simm_valid_mono
      intro: uimm_valid_simm uimm_valid_mono [THEN uimm_valid_simm])

lemma get_field_decoded:
  assumes "rv_inst_codec ! dec_op d \<in> set wide_codecs"
  shows "get_field f (decode_inst_type d w) = operand_value f (codec_operands (rv_inst_codec ! dec_op d)) w d"
  using assms unfolding wide_codecs_def list.set insert_iff empty_iff
  by (elim disjE; cases f) (simp_all add: decode_inst_type_def decode_codec_defs operand_value_def unheld_def operand_decode_casts)

section \<open>The emitters, uniformly\<close>

definition emit_spec :: "opcode \<Rightarrow> (asm_field \<times> arg_type) list \<Rightarrow> u64 list \<Rightarrow> u64 option" where
  "emit_spec op fs vs =
     (if list_all2 (\<lambda>(f, t) v. type_valid t v) fs vs
      then encoded (put_fields fs vs (decode_init\<lparr>dec_op := op\<rparr>)) else Some 0)"

definition entry_ok :: "opcode \<times> (asm_field \<times> arg_type) list \<times> (u64 list \<Rightarrow> u64 option) \<Rightarrow> bool" where
  "entry_ok = (\<lambda>(op, fs, g). \<forall>vs. length vs = length fs \<longrightarrow> g vs = emit_spec op fs vs)"

lemma entry_okI:
  "h0 = emit_spec op [] [] \<Longrightarrow> entry_ok (op, [], app0 h0)"
  "(\<And>a. h1 a = emit_spec op [x1] [a]) \<Longrightarrow> entry_ok (op, [x1], app1 h1)"
  "(\<And>a b. h2 a b = emit_spec op [x1, x2] [a, b]) \<Longrightarrow> entry_ok (op, [x1, x2], app2 h2)"
  "(\<And>a b c. h3 a b c = emit_spec op [x1, x2, x3] [a, b, c]) \<Longrightarrow> entry_ok (op, [x1, x2, x3], app3 h3)"
  "(\<And>a b c d. h4 a b c d = emit_spec op [x1, x2, x3, x4] [a, b, c, d]) \<Longrightarrow>
    entry_ok (op, [x1, x2, x3, x4], app4 h4)"
  "(\<And>a b c d e. h5 a b c d e = emit_spec op [x1, x2, x3, x4, x5] [a, b, c, d, e]) \<Longrightarrow>
    entry_ok (op, [x1, x2, x3, x4, x5], app5 h5)"
  by (auto simp: entry_ok_def app0_def app1_def app2_def app3_def app4_def app5_def length_Suc_conv numeral_eq_Suc)

lemma emitters_ok: "list_all entry_ok emitters"
  unfolding emitters_def
  by ((rule list_all_consI | (rule entry_okI; simp add: emit_defs emit_spec_def; fail) | simp; fail)+)

lemma offset_simm: "offset_valid w v = simm_valid w v"
  by (simp add: offset_valid_def simm_valid_def)

text \<open>
  What the round trip relies on for each entry: the opcode has a 32-bit codec, its match value lies
  inside its mask, the mask fixes the bits that give the length, every argument is stored in a
  member of its own and fits the operand of that member, whose bits the mask leaves free.
\<close>

definition field_ok :: "rv_codec \<Rightarrow> u64 \<Rightarrow> asm_field \<times> arg_type \<Rightarrow> bool" where
  "field_ok c m = (\<lambda>(f, t). f = F_lost \<or>
     (case map_of (codec_operands c) f of None \<Rightarrow> False
      | Some (opd, own) \<Rightarrow> m AND own = 0 \<and> (\<forall>v. type_valid t v \<and> type_granule t v \<longrightarrow> operand_valid opd v)))"

definition wide_row :: "rv_codec \<Rightarrow> u64 \<Rightarrow> u64 \<Rightarrow> bool" where
  "wide_row c v m \<longleftrightarrow> c \<in> set wide_codecs \<and> v AND m = v \<and> v AND 0xffffffff = v \<and>
     m AND 0b11111 = 0b11111 \<and> v AND 0b11 = 0b11 \<and> v AND 0b11100 \<noteq> 0b11100"

definition fields_ok :: "opcode \<times> (asm_field \<times> arg_type) list \<times> 'a \<Rightarrow> bool" where
  "fields_ok = (\<lambda>(op, fs, g). wide_row (rv_inst_codec ! op) (rv_inst_match ! op) (rv_inst_mask ! op) \<and>
     op_refined_by op = [] \<and> distinct (map fst fs) \<and> list_all (field_ok (rv_inst_codec ! op) (rv_inst_mask ! op)) fs)"

lemma emitters_fields_ok: "list_all fields_ok emitters"
  unfolding emitters_def
  by ((rule list_all_consI
      | (simp add: fields_ok_def wide_row_def wide_codecs_def field_ok_def op_refined_by_def meta_nth
          operand_ranges operand_ranges_signed offset_simm; fail))+)

lemma get_field_codec [simp]: "get_field f (d\<lparr>dec_codec := c\<rparr>) = get_field f d"
  by (cases f) simp_all

lemma get_put_fields:
  assumes "distinct (map fst fs)" "list_all2 (\<lambda>(f, t) v. field_fits f v) fs vs" "f \<noteq> F_lost"
  shows "get_field f (put_fields fs vs d) =
    (case map_of (zip (map fst fs) vs) f of None \<Rightarrow> get_field f d | Some v \<Rightarrow> v)"
  using assms
proof (induction fs vs d rule: put_fields.induct)
  case (1 f' t fs v vs d)
  have z: "map_of (zip (map fst fs) vs) f' = None"
    using 1(2) by (auto simp: map_of_eq_None_iff dest: set_zip_leftD)
  have IH: "get_field f (put_fields fs vs (put_field f' v d)) =
      (case map_of (zip (map fst fs) vs) f of None \<Rightarrow> get_field f (put_field f' v d) | Some v \<Rightarrow> v)"
    using 1(2,3,4) by (intro 1(1)) simp_all
  have v: "field_fits f' v" using 1(3) by simp
  show ?case
  proof (cases "f = f'")
    case True
    then show ?thesis using z 1(4) v IH by simp
  next
    case False
    then show ?thesis using IH by (simp split: option.splits)
  qed
qed auto

lemma get_field_init: "get_field f (decode_init\<lparr>dec_op := op\<rparr>) = 0"
  by (cases f) (simp_all add: decode_init_def)

lemma operand_encode_0 [simp]: "operand_encode opd 0 = 0"
proof -
  have "S_encode_pack l rs 0 = 0" for l rs
    by (induction l rs "0 :: u64" rule: S_encode_pack.induct) (simp_all add: Let_def)
  then have "S_encode sg 0 = 0" for sg by (cases sg) simp
  then have "imm_encode segs 0 = 0" for segs by (induction segs) simp_all
  then show ?thesis by (simp add: operand_encode_def)
qed

lemma inside_mask: "x AND NOT m = 0 \<Longrightarrow> x AND m = (x :: u64)"
  by (metis bit.conj_disj_distrib bit.disj_cancel_right or.right_neutral bit.conj_one_right)

lemma inside_free:
  assumes "v AND m = v" "m AND own = (0 :: u64)"
  shows "v AND own = 0"
proof -
  have "v AND own = (v AND m) AND own" by (simp only: assms(1))
  also have "\<dots> = v AND (m AND own)" by (simp only: and.assoc)
  finally show ?thesis by (simp add: assms(2))
qed

lemma codec_operands_low: "(f, opd, own) \<in> set (codec_operands c) \<Longrightarrow> own AND NOT 0xffffffff = 0"
  by (cases c) auto

text \<open>
  What \<^verbatim>\<open>encode_inst\<close> makes of an RV64 instruction whose members fit their operands: one
  32-bit instruction word of the same opcode, from which every operand reads back; where a member is
  zero, the word has the bits of the bare opcode.
\<close>

lemma encoded_decodes:
  assumes row: "wide_row (rv_inst_codec ! op) (rv_inst_match ! op) (rv_inst_mask ! op)" and plain: "op_refined_by op = []"
    and op: "op \<in> set rv64_ops" "dec_op dec = op"
    and free: "\<And>f opd own. (f, opd, own) \<in> set (codec_operands (rv_inst_codec ! op)) \<Longrightarrow>
      rv_inst_mask ! op AND own = 0 \<and> operand_valid opd (get_field f dec) \<or> get_field f dec = 0"
    and rl: "rv_inst_codec ! op = rv_codec_r_l \<Longrightarrow> dec_rs2 dec = 0"
  obtains inst where "encoded dec = Some inst" "inst AND 0xffffffff = inst" "inst_length inst = 4"
    "decode_inst_op isa_rv64 inst = op"
    "\<And>f opd own. (f, opd, own) \<in> set (codec_operands (rv_inst_codec ! op)) \<Longrightarrow> rv_inst_mask ! op AND own = 0 \<Longrightarrow>
      operand_valid opd (get_field f dec) \<Longrightarrow> operand_decode opd inst = get_field f dec"
    "\<And>f opd own. (f, opd, own) \<in> set (codec_operands (rv_inst_codec ! op)) \<Longrightarrow> get_field f dec = 0 \<Longrightarrow>
      operand_decode opd inst = operand_decode opd (rv_inst_match ! op)"
proof -
  let ?c = "rv_inst_codec ! op" and ?v = "rv_inst_match ! op" and ?m = "rv_inst_mask ! op"
  let ?os = "codec_operands ?c"
  let ?dec = "dec\<lparr>dec_codec := ?c\<rparr>"
  define inst where "inst = ?v OR operand_bits ?os ?dec"
  note os = codec_operands_lawful [of ?c] codec_operands_apart(1) [of ?c]
  have bits_m: "operand_bits ?os ?dec AND ?m = 0"
    by (rule operand_bits_outside [OF os(1)]) (use free in fastforce)
  have bits_low: "operand_bits ?os ?dec AND NOT 0xffffffff = 0"
    by (rule operand_bits_outside [OF os(1)]) (use codec_operands_low in \<open>auto simp: and.commute\<close>)
  have match: "inst AND ?m = ?v" using row bits_m by (simp add: inst_def wide_row_def bit.conj_disj_distrib2)
  have sel: "decode_inst_op isa_rv64 inst = op"
    using match plain dec64.complete [OF op(1), of inst] by (simp add: op_selected_def op_matches_def)
  have low: "inst AND 0xffffffff = inst"
    using row inside_mask [OF bits_low] by (simp add: inst_def wide_row_def bit.conj_disj_distrib2)
  have l5: "inst AND 0b11111 = ?v AND 0b11111"
    by (rule masked_mono [OF match]) (use row in \<open>simp add: wide_row_def and.commute\<close>)
  then have "inst AND 0b11 = ?v AND 0b11" "inst AND 0b11100 = ?v AND 0b11100"
    by (rule masked_eq_mono; simp)+
  then have len: "inst_length inst = 4" using row by (simp add: inst_length_def wide_row_def)
  have "?c \<in> set wide_codecs" using row by (simp add: wide_row_def)
  then have "encode_operands ?c ?dec = Some (operand_bits ?os ?dec)" using rl by (intro encode_operands_wide) simp_all
  then have e: "encoded dec = Some inst" by (simp add: encoded_def encode_inst_def inst_def Let_def op(2))
  have read: "operand_decode opd inst = get_field f dec"
    if o: "(f, opd, own) \<in> set ?os" and m: "?m AND own = 0" and v: "operand_valid opd (get_field f dec)" for f opd own
  proof -
    have "?v AND ?m = ?v" using row by (simp add: wide_row_def)
    then have "?v AND own = 0" using m by (rule inside_free)
    then show ?thesis using operand_read_back [OF os o, of ?v ?dec, folded inst_def] v by simp
  qed
  have keep: "operand_decode opd inst = operand_decode opd ?v"
    if o: "(f, opd, own) \<in> set ?os" and z: "get_field f dec = 0" for f opd own
    using operand_untouched [OF os o, of ?dec ?v, folded inst_def] z by simp
  show ?thesis by (rule that [OF e low len sel read keep])
qed

text \<open>
  The generic round trip: what an emitter encodes is one 32-bit instruction, which decodes to what
  the bare opcode decodes to, with the arguments in their members.
\<close>

lemma emit_spec_decodes:
  assumes ok: "fields_ok (op, fs, g)" and op: "op \<in> set rv64_ops"
    and vs: "list_all2 (\<lambda>(f, t) v. type_valid t v \<and> type_granule t v) fs vs"
  obtains inst where "emit_spec op fs vs = Some inst" "inst AND 0xffffffff = inst" "inst_length inst = 4"
    "decode_inst isa_rv64 d inst = put_fields fs vs (decode_inst isa_rv64 d (rv_inst_match ! op))"
proof -
  let ?c = "rv_inst_codec ! op" and ?v = "rv_inst_match ! op" and ?m = "rv_inst_mask ! op"
  let ?os = "codec_operands ?c"
  define dec where "dec = put_fields fs vs (decode_init\<lparr>dec_op := op\<rparr>)"
  note os = codec_operands_lawful [of ?c] codec_operands_apart(1) [of ?c]
  have row: "wide_row ?c ?v ?m" "op_refined_by op = []" "distinct (map fst fs)" "list_all (field_ok ?c ?m) fs"
    using ok by (simp_all add: fields_ok_def)
  have arg: "m = F_lost \<or> (\<exists>opd own. (m, opd, own) \<in> set ?os \<and> map_of ?os m = Some (opd, own) \<and>
      ?m AND own = 0 \<and> operand_valid opd v \<and> field_fits m v)"
    if "((m, t), v) \<in> set (zip fs vs)" for m t v
  proof -
    have "field_ok ?c ?m (m, t)" "type_valid t v" "type_granule t v"
      using that row(4) vs by (auto simp: list_all_iff list_all2_iff dest: set_zip_leftD)
    then show ?thesis
      using os(1) by (fastforce simp: field_ok_def operand_lawful_def list_all_iff split: option.splits dest: map_of_SomeD)
  qed
  have fits: "list_all2 (\<lambda>(f, t) v. field_fits f v) fs vs"
    using vs arg by (fastforce simp: list_all2_iff)
  have zip: "\<exists>t. ((f, t), v) \<in> set (zip fs vs)" if h: "map_of (zip (map fst fs) vs) f = Some v" for f v
  proof -
    obtain n where "f = fst (fs ! n)" "v = vs ! n" "n < length fs" "n < length vs"
      using map_of_SomeD [OF h] by (auto simp: in_set_zip)
    then have "((f, snd (fs ! n)), v) \<in> set (zip fs vs)" by (auto simp: in_set_zip)
    then show ?thesis ..
  qed
  have get: "get_field f dec = (case map_of (zip (map fst fs) vs) f of None \<Rightarrow> 0 | Some v \<Rightarrow> v)" if "f \<noteq> F_lost" for f
    using get_put_fields [OF row(3) fits that] by (simp add: dec_def get_field_init cong: option.case_cong)
  have free: "?m AND own = 0 \<and> operand_valid opd (get_field f dec) \<or> get_field f dec = 0"
    if "(f, opd, own) \<in> set ?os" for f opd own
  proof (cases "map_of (zip (map fst fs) vs) f")
    case (Some v)
    have "f \<noteq> F_lost" using os(1) that by (auto simp: list_all_iff operand_lawful_def)
    moreover have "map_of ?os f = Some (opd, own)"
      using that codec_operands_apart(2) by (simp add: map_of_eq_Some_iff)
    ultimately show ?thesis using zip [OF Some] arg get [of f] Some by fastforce
  qed (use get os(1) that in \<open>auto simp: list_all_iff operand_lawful_def\<close>)
  have rl: "dec_rs2 dec = 0" if "?c = rv_codec_r_l"
  proof -
    have "map_of (zip (map fst fs) vs) F_rs2 = None"
      using zip [of F_rs2] arg [of F_rs2] that by (cases "map_of (zip (map fst fs) vs) F_rs2") fastforce+
    then have "get_field F_rs2 dec = 0" using get [of F_rs2] by simp
    then show ?thesis using ucast_eqD [of "dec_rs2 dec" 0] by simp
  qed
  have "dec_op dec = op" by (simp add: dec_def)
  from encoded_decodes [OF row(1,2) op this free rl] obtain inst
    where inst: "encoded dec = Some inst" "inst AND 0xffffffff = inst" "inst_length inst = 4" "decode_inst_op isa_rv64 inst = op"
      and read: "\<And>f opd own. (f, opd, own) \<in> set ?os \<Longrightarrow> ?m AND own = 0 \<Longrightarrow>
        operand_valid opd (get_field f dec) \<Longrightarrow> operand_decode opd inst = get_field f dec"
      and keep: "\<And>f opd own. (f, opd, own) \<in> set ?os \<Longrightarrow> get_field f dec = 0 \<Longrightarrow>
        operand_decode opd inst = operand_decode opd ?v" by blast
  have base: "decode_inst_op isa_rv64 ?v = op"
    using row(1,2) dec64.complete [OF op, of ?v] by (simp add: op_selected_def op_matches_def wide_row_def)
  have "list_all2 (\<lambda>(f, t) v. type_valid t v) fs vs" using vs by (rule list_all2_mono) auto
  then have emitted: "emit_spec op fs vs = Some inst" using inst(1) by (simp add: emit_spec_def dec_def)
  have wide: "?c \<in> set wide_codecs" using row(1) by (simp add: wide_row_def)
  have "get_field f (decode_inst isa_rv64 d inst) = get_field f (put_fields fs vs (decode_inst isa_rv64 d ?v))" for f
  proof (cases "f = F_lost")
    case False
    let ?d = "d\<lparr>dec_op := op\<rparr>"
    have dg: "get_field f (decode_inst isa_rv64 d w) = operand_value f ?os w ?d" if "decode_inst_op isa_rv64 w = op" for w
      using get_field_decoded [of ?d] wide that by (simp add: decode_inst_def)
    note put = get_put_fields [OF row(3) fits False]
    show ?thesis
    proof (cases "map_of ?os f")
      case None
      then have "map_of (zip (map fst fs) vs) f = None"
        using zip [of f] arg [of f] False by (cases "map_of (zip (map fst fs) vs) f") fastforce+
      then show ?thesis using put None by (simp add: dg inst base operand_value_def)
    next
      case (Some oo)
      obtain opd own where o: "map_of ?os f = Some (opd, own)" using Some by (cases oo) simp
      then have m: "(f, opd, own) \<in> set ?os" by (rule map_of_SomeD)
      show ?thesis
      proof (cases "map_of (zip (map fst fs) vs) f")
        case None
        then have "get_field f dec = 0" using get [OF False] by simp
        then show ?thesis using keep [OF m] None put by (simp add: dg inst base operand_value_def o)
      next
        case (Some v)
        have v: "get_field f dec = v" using get [OF False] Some by simp
        obtain t where "((f, t), v) \<in> set (zip fs vs)" using zip [OF Some] ..
        then have "?m AND own = 0" "operand_valid opd v" using arg o False by fastforce+
        then show ?thesis using read [OF m] v Some put by (simp add: dg inst base operand_value_def o)
      qed
    qed
  qed simp
  then have "decode_inst isa_rv64 d inst = put_fields fs vs (decode_inst isa_rv64 d ?v)"
    by (intro decode_eqI) (simp_all add: inst base)
  then show ?thesis using that emitted inst by blast
qed

lemma emitter_decodes:
  assumes "(op, fs, emit) \<in> set emitters" "op \<in> set rv64_ops"
    "list_all2 (\<lambda>(f, t) v. type_valid t v \<and> type_granule t v) fs vs"
  obtains inst where "emit vs = Some inst" "inst AND 0xffffffff = inst" "inst_length inst = 4"
    "decode_inst isa_rv64 d inst = put_fields fs vs (decode_inst isa_rv64 d (rv_inst_match ! op))"
proof -
  have "emit vs = emit_spec op fs vs" and f: "fields_ok (op, fs, emit)"
    using emitters_ok emitters_fields_ok assms(1) list_all2_lengthD [OF assms(3)] by (auto simp: list_all_iff entry_ok_def)
  then show ?thesis using emit_spec_decodes [OF f assms(2,3), of d] that by metis
qed

text \<open>The members that an emitter fills hold its arguments, unless the immediate is lost.\<close>

lemma fields_read_back:
  assumes ok: "fields_ok (op, fs, g)" and vs: "list_all2 (\<lambda>(f, t) v. type_valid t v \<and> type_granule t v) fs vs"
    and kept: "F_lost \<notin> fst ` set fs"
  shows "list_all2 (\<lambda>(f, t) v. get_field f (put_fields fs vs d) = v) fs vs"
proof -
  let ?c = "rv_inst_codec ! op" and ?m = "rv_inst_mask ! op"
  have row: "distinct (map fst fs)" "list_all (field_ok ?c ?m) fs" using ok by (simp_all add: fields_ok_def)
  have len: "length fs = length vs" using vs by (rule list_all2_lengthD)
  have fits: "list_all2 (\<lambda>(f, t) v. field_fits f v) fs vs"
    unfolding list_all2_iff
  proof (intro conjI ballI len)
    fix x assume x: "x \<in> set (zip fs vs)"
    obtain m t v where e: "x = ((m, t), v)" by (cases x) auto
    have m: "m \<noteq> F_lost" using x kept unfolding e by (force dest: set_zip_leftD)
    have "field_ok ?c ?m (m, t)" "type_valid t v" "type_granule t v"
      using x row(2) vs unfolding e by (auto simp: list_all_iff list_all2_iff dest: set_zip_leftD)
    then have "field_fits m v"
      using codec_operands_lawful [of ?c] m
      by (fastforce simp: field_ok_def operand_lawful_def list_all_iff split: option.splits dest: map_of_SomeD)
    then show "(case x of (x, y) \<Rightarrow> (case x of (f, t) \<Rightarrow> \<lambda>v. field_fits f v) y)" by (simp add: e)
  qed
  show ?thesis
    unfolding list_all2_conv_all_nth
  proof (intro conjI allI impI len)
    fix i assume i: "i < length fs"
    obtain f t where f: "fs ! i = (f, t)" by (cases "fs ! i")
    have m: "f \<noteq> F_lost" using kept nth_mem [OF i] unfolding f by force
    have "map_of (zip (map fst fs) vs) (map fst fs ! i) = Some (vs ! i)"
      using map_of_zip_nth [of "map fst fs" vs i] row(1) i len by simp
    then have "map_of (zip (map fst fs) vs) f = Some (vs ! i)" using f i by simp
    then have "get_field f (put_fields fs vs d) = vs ! i" using get_put_fields [OF row(1) fits m] by simp
    then show "(case fs ! i of (f, t) \<Rightarrow> \<lambda>v. get_field f (put_fields fs vs d) = v) (vs ! i)" by (simp add: f)
  qed
qed

text \<open>The emitters that lose an argument.\<close>

lemma emitters_lost: "list_all (\<lambda>(op, fs, g). F_lost \<in> fst ` set fs \<longrightarrow> op \<in> {rv_op_csrrwi, rv_op_csrrsi, rv_op_csrrci}) emitters"
  unfolding emitters_def by simp

section \<open>Properties\<close>

text \<open>
  C35. An emitted instruction says what was asked for. For each of the emitters of an RV64 instruction
  other than \<^verbatim>\<open>csrrwi\<close>, \<^verbatim>\<open>csrrsi\<close> and \<^verbatim>\<open>csrrci\<close>: when every argument is in the range of
  its type and a multiple of the granule of its operand (2 for the offset of a branch or jump,
  4096 for an upper immediate), the emitter returns one 32-bit instruction word. That word decodes to the
  opcode of the emitter with every argument, unchanged, in the member it was meant for and every other
  member as for the bare opcode. When an argument is out of range, the emitter returns the illegal
  instruction 0. The three excluded emitters lose their immediate (\<^verbatim>\<open>emit_csr_immediate_lost\<close>), and an
  offset that is not a multiple of the granule is rounded down silently (\<^verbatim>\<open>emit_odd_branch\<close>).
\<close>

theorem emitted_decodes:
  assumes "(op, fs, emit) \<in> set emitters" "op \<in> set rv64_ops" "op \<notin> {rv_op_csrrwi, rv_op_csrrsi, rv_op_csrrci}"
    and "length vs = length fs"
  shows "if list_all2 (\<lambda>(f, t) v. type_valid t v) fs vs
    then list_all2 (\<lambda>(f, t) v. type_granule t v) fs vs \<longrightarrow>
      (\<exists>inst. emit vs = Some inst \<and> inst AND 0xffffffff = inst \<and> inst_length inst = 4 \<and>
        decode_inst isa_rv64 d inst = put_fields fs vs (decode_inst isa_rv64 d (rv_inst_match ! op)) \<and>
        dec_op (decode_inst isa_rv64 d inst) = op \<and>
        list_all2 (\<lambda>(f, t) v. get_field f (decode_inst isa_rv64 d inst) = v) fs vs)
    else emit vs = Some 0"
proof -
  have e: "emit vs = emit_spec op fs vs"
    using emitters_ok assms(1,4) by (auto simp: list_all_iff entry_ok_def)
  have ok: "fields_ok (op, fs, emit)" using emitters_fields_ok assms(1) by (auto simp: list_all_iff)
  have kept: "F_lost \<notin> fst ` set fs" using bspec [OF emitters_lost [unfolded list_all_iff] assms(1)] assms(3) by auto
  have op: "decode_inst_op isa_rv64 (rv_inst_match ! op) = op"
    using ok dec64.complete [OF assms(2), of "rv_inst_match ! op"]
    by (simp add: fields_ok_def op_selected_def op_matches_def wide_row_def)
  show ?thesis
  proof (cases "list_all2 (\<lambda>(f, t) v. type_valid t v) fs vs")
    case True
    have vs: "list_all2 (\<lambda>(f, t) v. type_valid t v \<and> type_granule t v) fs vs"
      if "list_all2 (\<lambda>(f, t) v. type_granule t v) fs vs"
      using True that by (auto simp: list_all2_iff)
    show ?thesis
    proof (simp only: True if_True, intro impI)
      assume g: "list_all2 (\<lambda>(f, t) v. type_granule t v) fs vs"
      obtain inst where "emit vs = Some inst" "inst AND 0xffffffff = inst" "inst_length inst = 4"
        and d: "decode_inst isa_rv64 d inst = put_fields fs vs (decode_inst isa_rv64 d (rv_inst_match ! op))"
        using emitter_decodes [OF assms(1,2) vs [OF g], of d] by auto
      moreover have "dec_op (decode_inst isa_rv64 d inst) = op"
        unfolding d put_fields_frame decode_inst_frame by (rule op)
      moreover have "list_all2 (\<lambda>(f, t) v. get_field f (decode_inst isa_rv64 d inst) = v) fs vs"
        unfolding d by (rule fields_read_back [OF ok vs [OF g] kept])
      ultimately show "\<exists>inst. emit vs = Some inst \<and> inst AND 0xffffffff = inst \<and> inst_length inst = 4 \<and>
        decode_inst isa_rv64 d inst = put_fields fs vs (decode_inst isa_rv64 d (rv_inst_match ! op)) \<and>
        dec_op (decode_inst isa_rv64 d inst) = op \<and>
        list_all2 (\<lambda>(f, t) v. get_field f (decode_inst isa_rv64 d inst) = v) fs vs" by blast
    qed
  qed (simp add: e emit_spec_def)
qed

text \<open>\<^verbatim>\<open>beq a0, a1, -8\<close>, and the same branch to an address out of range.\<close>

theorem emitted_decodes_witness:
  "(\<exists>inst. emit_beq 10 11 (- 8) = Some inst \<and> dec_op (decode_inst isa_rv64 decode_init inst) = rv_op_beq \<and>
     dec_rs1 (decode_inst isa_rv64 decode_init inst) = 10 \<and> dec_rs2 (decode_inst isa_rv64 decode_init inst) = 11 \<and>
     dec_imm (decode_inst isa_rv64 decode_init inst) = - 8) \<and> emit_beq 10 11 0x1000 = Some 0"
proof -
  let ?fs = "[(F_rs1, Uimm 5), (F_rs2, Uimm 5), (F_imm, Offset 13 1)]"
  have m: "(rv_op_beq, ?fs, app3 emit_beq) \<in> set emitters" by (simp add: emitters_def)
  have o: "rv_op_beq \<in> set rv64_ops" "rv_op_beq \<notin> {rv_op_csrrwi, rv_op_csrrsi, rv_op_csrrci}" by (simp_all add: rv64_ops_def)
  have t: "take_bit (Suc 0) (- 8 :: u64) = 0" "sint (0x1000 :: u64) = 0x1000" by (simp_all add: take_bit_eq_mod)
  obtain inst where i: "emit_beq 10 11 (- 8) = Some inst" and d: "decode_inst isa_rv64 decode_init inst =
      put_fields ?fs [10, 11, - 8] (decode_inst isa_rv64 decode_init (rv_inst_match ! rv_op_beq))"
    using emitted_decodes [OF m o, of "[10, 11, - 8]" decode_init]
    by (auto simp: app3_def uimm_valid_def offset_valid_def t)
  have "decode_inst_op isa_rv64 (rv_inst_match ! rv_op_beq) = rv_op_beq"
    using dec64.complete [OF o(1)] by (simp add: op_selected_def op_matches_def op_refined_by_def meta_nth)
  then have op: "dec_op (decode_inst isa_rv64 decode_init inst) = rv_op_beq"
    unfolding d put_fields_frame decode_inst_frame .
  have "emit_beq 10 11 0x1000 = Some 0"
    using emitted_decodes [OF m o, of "[10, 11, 0x1000]"] by (simp add: app3_def uimm_valid_def offset_valid_def t)
  moreover have "dec_rs1 (decode_inst isa_rv64 decode_init inst) = 10" "dec_rs2 (decode_inst isa_rv64 decode_init inst) = 11"
    "dec_imm (decode_inst isa_rv64 decode_init inst) = - 8"
    unfolding d by simp_all
  ultimately show ?thesis using i op by blast
qed

text \<open>
  The immediate of \<^verbatim>\<open>csrrwi\<close>, \<^verbatim>\<open>csrrsi\<close> and \<^verbatim>\<open>csrrci\<close> never reaches the
  instruction: \<^verbatim>\<open>emit_csrrwi\<close> and its siblings assign it to \<^verbatim>\<open>dec.imm\<close>, which the
  CSR number then overwrites, and leave \<^verbatim>\<open>dec.rs1\<close>, where the encoder looks for it, at zero.
\<close>

lemma emit_csr_immediate_lost:
  assumes "uimm_valid 5 z" "uimm_valid 5 z'"
  shows "emit_csrrwi rd z csr = emit_csrrwi rd z' csr" "emit_csrrsi rd z csr = emit_csrrsi rd z' csr"
    "emit_csrrci rd z csr = emit_csrrci rd z' csr"
  using assms by (simp_all add: emit_csrrwi_def emit_csrrsi_def emit_csrrci_def)

text \<open>
  The types do not check the granule: a branch to an odd offset is emitted as the branch to the even
  offset below it.
\<close>

lemma emit_odd_branch: "emit_beq rs1 rs2 9 = emit_beq rs1 rs2 8"
proof -
  have "operand_encode operand_sbimm12 9 = operand_encode operand_sbimm12 8" by code_simp
  then show ?thesis
    by (simp add: emit_beq_def encoded_def encode_inst_def meta_nth encode_operands_def encode_sb_def offset_valid_def Let_def)
qed

end
