(* ===== verification/Assembler.thy ===== *)
theory Assembler
  imports Emit_Spec Bytes
begin

text \<open>
  The assembler of \<^verbatim>\<open>src/src/asm/assembler.cc\<close>: sections of bytes, labels and relocations, the
  instruction sequences that load a constant, alignment, relocation and link.

  The objects that the C++ code shares through \<^verbatim>\<open>std::shared_ptr\<close> live in lists of the state and
  are named by their index: a section by its index, which the code stores in it as well, a label and
  a relocation by the order of their creation. \<^verbatim>\<open>std::map\<close> keyed by section offsets, which the
  code iterates, is an association list in key order; the maps keyed by names are finite maps. Sizes
  and offsets are 64-bit words. \<open>None\<close> is undefined behaviour: an index outside a vector, a null
  \<^verbatim>\<open>label_ptr\<close> that is dereferenced, a signed overflow, or an assertion of an encoder that fails.
  The messages of \<^verbatim>\<open>link\<close> are left out; their count is its result.
\<close>

unbundle bit_operations_syntax

section \<open>State\<close>

type_synonym section_offset = "u64 \<times> u64"

record asm_section =
  sec_index :: u64
  sec_offset :: u64
  sec_name :: string
  sec_buf :: "u8 list"

record asm_label =
  lab_name :: string
  lab_offset :: section_offset
  lab_num :: u64

record asm_reloc =
  rel_offset :: section_offset
  rel_name :: string
  rel_type :: nat

record assembler =
  sections :: "asm_section list"
  section_map :: "string \<Rightarrow> nat option"
  labels :: "asm_label list"
  labels_byoffset :: "(section_offset \<times> nat) list"
  labels_byname :: "string \<Rightarrow> nat option"
  relocs :: "asm_reloc list"
  relocs_byoffset :: "(section_offset \<times> nat) list"
  strong_exports :: "string list"
  weak_exports :: "string list"
  current :: nat

text \<open>\<^verbatim>\<open>SHN_ABS\<close> and the relocation types of \<^verbatim>\<open>src/src/elf/elf.h\<close>.\<close>

definition SHN_ABS :: u64 where "SHN_ABS = 0xfff1"

definition R_RISCV_32 :: nat where "R_RISCV_32 = 1"
definition R_RISCV_64 :: nat where "R_RISCV_64 = 2"
definition R_RISCV_BRANCH :: nat where "R_RISCV_BRANCH = 16"
definition R_RISCV_JAL :: nat where "R_RISCV_JAL = 17"
definition R_RISCV_CALL :: nat where "R_RISCV_CALL = 18"
definition R_RISCV_PCREL_HI20 :: nat where "R_RISCV_PCREL_HI20 = 23"
definition R_RISCV_PCREL_LO12_I :: nat where "R_RISCV_PCREL_LO12_I = 24"
definition R_RISCV_PCREL_LO12_S :: nat where "R_RISCV_PCREL_LO12_S = 25"
definition R_RISCV_HI20 :: nat where "R_RISCV_HI20 = 26"
definition R_RISCV_LO12_I :: nat where "R_RISCV_LO12_I = 27"
definition R_RISCV_LO12_S :: nat where "R_RISCV_LO12_S = 28"

lemmas reloc_types =
  R_RISCV_32_def R_RISCV_64_def R_RISCV_BRANCH_def R_RISCV_JAL_def R_RISCV_CALL_def R_RISCV_PCREL_HI20_def
  R_RISCV_PCREL_LO12_I_def R_RISCV_PCREL_LO12_S_def R_RISCV_HI20_def R_RISCV_LO12_I_def R_RISCV_LO12_S_def

text \<open>\<^verbatim>\<open>std::pair\<close> is ordered lexicographically.\<close>

definition offset_less :: "section_offset \<Rightarrow> section_offset \<Rightarrow> bool" where
  "offset_less a b \<longleftrightarrow> fst a < fst b \<or> fst a = fst b \<and> snd a < snd b"

text \<open>\<^verbatim>\<open>m[k] = v\<close> on a map in key order.\<close>

fun map_put :: "section_offset \<Rightarrow> 'v \<Rightarrow> (section_offset \<times> 'v) list \<Rightarrow> (section_offset \<times> 'v) list" where
  "map_put k v [] = [(k, v)]"
| "map_put k v ((k', v') # m) =
     (if offset_less k k' then (k, v) # (k', v') # m
      else if k = k' then (k, v) # m
      else (k', v') # map_put k v m)"

text \<open>\<^verbatim>\<open>v[i]\<close> on a vector.\<close>

definition at :: "'a list \<Rightarrow> u64 \<Rightarrow> 'a option" where
  "at xs i = (if unat i < length xs then Some (xs ! unat i) else None)"

section \<open>Symbol names\<close>

definition isdigit :: "char \<Rightarrow> bool" where
  "isdigit c \<longleftrightarrow> 48 \<le> (of_char c :: nat) \<and> (of_char c :: nat) \<le> 57"

definition isalpha :: "char \<Rightarrow> bool" where
  "isalpha c \<longleftrightarrow> 65 \<le> (of_char c :: nat) \<and> (of_char c :: nat) \<le> 90 \<or> 97 \<le> (of_char c :: nat) \<and> (of_char c :: nat) \<le> 122"

definition isalnum :: "char \<Rightarrow> bool" where
  "isalnum c \<longleftrightarrow> isalpha c \<or> isdigit c"

definition symbol_char :: "char \<Rightarrow> bool" where
  "symbol_char c \<longleftrightarrow> isalnum c \<or> c = CHR ''_'' \<or> c = CHR ''.''"

definition check_symbol :: "string \<Rightarrow> bool" where
  "check_symbol arg =
     (if length arg < 1 \<or> \<not> (isalpha (arg ! 0) \<or> arg ! 0 = CHR ''_'') then False
      else list_all symbol_char (drop 1 arg))"

definition check_private :: "string \<Rightarrow> bool" where
  "check_private arg =
     (if length arg < 2 \<or> arg ! 0 \<noteq> CHR ''.'' \<or> \<not> (isalpha (arg ! 1) \<or> arg ! 1 = CHR ''_'') then False
      else list_all symbol_char (drop 2 arg))"

definition check_local :: "string \<Rightarrow> bool" where
  "check_local arg =
     (if length arg < 2 \<or> \<not> (last arg = CHR ''b'' \<or> last arg = CHR ''f'') then False
      else list_all isdigit (butlast arg))"

text \<open>\<^verbatim>\<open>strtoull\<close> in base 10 on a string of digits, and \<^verbatim>\<open>std::to_string\<close>.\<close>

definition strtoull :: "string \<Rightarrow> u64" where
  "strtoull cs = of_nat (min (2 ^ 64 - 1) (foldl (\<lambda>n c. 10 * n + (of_char c - 48)) 0 cs))"

fun to_string :: "nat \<Rightarrow> string" where
  "to_string n = (if n < 10 then [] else to_string (n div 10)) @ [char_of (48 + n mod 10)]"

definition to_string_s64 :: "u64 \<Rightarrow> string" where
  "to_string_s64 v = (if sint v < 0 then CHR ''-'' # to_string (nat (- sint v)) else to_string (nat (sint v)))"

section \<open>Sections and data\<close>

definition get_section :: "string \<Rightarrow> assembler \<Rightarrow> assembler" where
  "get_section name a =
     (case section_map a name of
        None \<Rightarrow>
          (let i = length (sections a);
               s = \<lparr>sec_index = of_nat i, sec_offset = 0, sec_name = name, sec_buf = []\<rparr>
           in a\<lparr>section_map := (section_map a)(name \<mapsto> i), sections := sections a @ [s], current := i\<rparr>)
      | Some i \<Rightarrow> a\<lparr>current := i\<rparr>)"

text \<open>The constructor. \<^verbatim>\<open>current\<close> is null before the first \<^verbatim>\<open>get_section\<close>.\<close>

definition assembler_init :: assembler where
  "assembler_init = get_section ''.text'' (get_section ''''
     \<lparr>sections = [], section_map = Map.empty, labels = [], labels_byoffset = [], labels_byname = Map.empty,
      relocs = [], relocs_byoffset = [], strong_exports = [], weak_exports = [], current = 0\<rparr>)"

definition global :: "string \<Rightarrow> assembler \<Rightarrow> assembler" where
  "global l a = a\<lparr>strong_exports := strong_exports a @ [l]\<rparr>"

definition weak :: "string \<Rightarrow> assembler \<Rightarrow> assembler" where
  "weak l a = a\<lparr>weak_exports := weak_exports a @ [l]\<rparr>"

definition cur_buf :: "assembler \<Rightarrow> u8 list" where
  "cur_buf a = sec_buf (sections a ! current a)"

definition current_offset :: "assembler \<Rightarrow> section_offset" where
  "current_offset a = (sec_index (sections a ! current a), of_nat (length (cur_buf a)))"

text \<open>A sequence of \<^verbatim>\<open>current->buf.push_back\<close>.\<close>

definition push_back :: "u8 list \<Rightarrow> assembler \<Rightarrow> assembler" where
  "push_back bs a = a\<lparr>sections := (sections a)[current a := (sections a ! current a)\<lparr>sec_buf := cur_buf a @ bs\<rparr>]\<rparr>"

definition append8 :: "u8 \<Rightarrow> assembler \<Rightarrow> assembler" where
  "append8 d = push_back [d]"

definition append16 :: "u16 \<Rightarrow> assembler \<Rightarrow> assembler" where
  "append16 d = push_back [ucast (d AND 0xff), ucast (drop_bit 8 d)]"

definition append32 :: "u32 \<Rightarrow> assembler \<Rightarrow> assembler" where
  "append32 d = push_back
     [ucast (d AND 0xff), ucast (drop_bit 8 d AND 0xff), ucast (drop_bit 16 d AND 0xff), ucast (drop_bit 24 d AND 0xff)]"

definition append64 :: "u64 \<Rightarrow> assembler \<Rightarrow> assembler" where
  "append64 d = push_back
     [ucast (d AND 0xff), ucast (drop_bit 8 d AND 0xff), ucast (drop_bit 16 d AND 0xff), ucast (drop_bit 24 d AND 0xff),
      ucast (drop_bit 32 d AND 0xff), ucast (drop_bit 40 d AND 0xff), ucast (drop_bit 48 d AND 0xff), ucast (drop_bit 56 d AND 0xff)]"

definition add_inst :: "u64 \<Rightarrow> assembler \<Rightarrow> assembler" where
  "add_inst inst a = switch (inst_length inst) [
     (2, append16 (ucast inst) a),
     (4, append32 (ucast inst) a),
     (6, append16 (ucast (drop_bit 32 inst)) (append32 (ucast inst) a)),
     (8, append64 inst a)] a"

section \<open>Constants\<close>

text \<open>
  \<^verbatim>\<open>bitextend\<close>, \<^verbatim>\<open>ctz\<close> and \<^verbatim>\<open>ispow2\<close> of \<^verbatim>\<open>src/src/asm/bits.h\<close> at 64 bits.
  On the smallest \<^verbatim>\<open>s64\<close> the decrement in \<^verbatim>\<open>ispow2\<close> overflows; here it wraps.
\<close>

definition bitextend :: "u64 \<Rightarrow> nat \<Rightarrow> u64" where
  "bitextend val b =
     (let m = push_bit (b - 1) 1; v = val AND (push_bit b 1 - 1) in (v XOR m) - m)"

definition ctz :: "u64 \<Rightarrow> nat" where
  "ctz val = length (takeWhile (\<lambda>i. \<not> bit val i) [0..<64])"

definition ispow2 :: "u64 \<Rightarrow> bool" where
  "ispow2 val \<longleftrightarrow> val \<noteq> 0 \<and> val AND (val - 1) = 0"

text \<open>\<^verbatim>\<open>add_inst(emit_...(...))\<close>\<close>

definition add_emitted :: "u64 option \<Rightarrow> assembler \<Rightarrow> assembler option" where
  "add_emitted e a = map_option (\<lambda>inst. add_inst inst a) e"

text \<open>The test of \<^verbatim>\<open>load_imm_r\<close> for a value of 32 bits, and whether \<^verbatim>\<open>val - lo\<close> overflows.\<close>

definition fits32 :: "u64 \<Rightarrow> bool" where
  "fits32 val \<longleftrightarrow> val AND NOT 0x7fffffff = 0 \<or> val AND NOT 0x7fffffff = NOT 0x7fffffff"

definition sub_overflows :: "u64 \<Rightarrow> u64 \<Rightarrow> bool" where
  "sub_overflows x y \<longleftrightarrow> sint x - sint y \<noteq> sint (x - y)"

text \<open>What the shift leaves of the upper part, and its amount.\<close>

definition imm_lo :: "u64 \<Rightarrow> u64" where
  "imm_lo val = bitextend val 12"

definition imm_shift :: "u64 \<Rightarrow> nat" where
  "imm_shift val = 12 + ctz (drop_bit 12 (val - imm_lo val))"

definition imm_hi :: "u64 \<Rightarrow> u64" where
  "imm_hi val = signed_drop_bit (imm_shift val) (val - imm_lo val)"

text \<open>The recursion of \<^verbatim>\<open>load_imm_r\<close> ends: the upper part is smaller than the value.\<close>

lemma bitextend_signed: "bitextend val 12 = signed_take_bit 11 val"
proof -
  have v: "val AND (push_bit 12 1 - 1) = take_bit 12 val"
    by (simp add: take_bit_eq_mask mask_eq_exp_minus_1)
  have s: "signed_take_bit 11 val = take_bit 12 val - 0x1000 * of_bool (bit val 11)"
    by (simp add: signed_take_bit_eq_take_bit_minus)
  have e: "bit (0x800 :: u64) n \<longleftrightarrow> n = 11" for n
    using bit_exp_iff [where 'a = "64 word", of 11 n] by auto
  show ?thesis
  proof (cases "bit val 11")
    case True
    have "(take_bit 12 val XOR 0x800) AND 0x800 = 0"
      by (rule bit_word_eqI) (simp only: bit_and_iff bit_xor_iff bit_take_bit_iff e, auto simp: True)
    from disjunctive_add_eq_xor [OF this]
    have "(take_bit 12 val XOR 0x800) + 0x800 = take_bit 12 val" by (simp add: xor.assoc)
    then have "take_bit 12 val XOR 0x800 = take_bit 12 val - 0x800" by (simp add: eq_diff_eq)
    then show ?thesis using v s by (simp add: bitextend_def Let_def True push_bit_eq_mult)
  next
    case False
    have "take_bit 12 val AND 0x800 = 0"
      by (rule bit_word_eqI) (simp only: bit_and_iff bit_take_bit_iff e, auto simp: False)
    from disjunctive_add_eq_xor [OF this]
    have "take_bit 12 val XOR 0x800 = take_bit 12 val + 0x800" by simp
    then show ?thesis using v s by (simp add: bitextend_def Let_def False push_bit_eq_mult)
  qed
qed

lemma sint_imm_lo: "sint (imm_lo val) = signed_take_bit 11 (sint val)"
  by (simp add: imm_lo_def bitextend_signed) (rule bit_eqI, auto simp: bit_sint_iff bit_signed_take_bit_iff min_def)

lemma imm_lo_bounds: "- 2048 \<le> sint (imm_lo val)" "sint (imm_lo val) \<le> 2047"
  using signed_take_bit_int_greater_eq_minus_exp [of 11 "sint val"] signed_take_bit_int_less_exp [of 11 "sint val"]
  by (simp_all add: sint_imm_lo)

lemma fits32_iff: "fits32 val \<longleftrightarrow> simm_valid 32 val"
proof -
  have m: "(0x7fffffff :: u64) = mask 31" by (simp add: mask_eq_exp_minus_1)
  have z: "val AND NOT 0x7fffffff = 0 \<longleftrightarrow> (\<forall>i < 64. 31 \<le> i \<longrightarrow> \<not> bit val i)"
    unfolding m u64_eq_iff by (auto simp: bit_and_iff bit_not_iff bit_mask_iff not_less)
  have o: "val AND NOT 0x7fffffff = NOT 0x7fffffff \<longleftrightarrow> (\<forall>i < 64. 31 \<le> i \<longrightarrow> bit val i)"
    unfolding m u64_eq_iff by (auto simp: bit_and_iff bit_not_iff bit_mask_iff not_less)
  have "simm_valid 32 val \<longleftrightarrow> (\<forall>i < 64. bit val i \<longleftrightarrow> bit val (min 31 i))"
    unfolding simm_valid_sign_extend [of 32, simplified] u64_eq_iff bit_sign_extend [of 32, simplified] by auto
  also have "\<dots> \<longleftrightarrow> (\<forall>i < 64. 31 \<le> i \<longrightarrow> bit val i = bit val 31)"
    by (auto simp: min_def)
  finally show ?thesis unfolding fits32_def z o by (metis le_refl numeral_less_iff rel_simps(76) semiring_norm(76,78,79,80,81))
qed

lemma abs_div_le: "0 < b \<Longrightarrow> \<bar>a div b\<bar> \<le> \<bar>a\<bar> div b + (1 :: int)"
proof (cases "a < 0")
  case True
  assume b: "0 < b"
  have "a div b = - (\<bar>a\<bar> div b) \<or> a div b = - (\<bar>a\<bar> div b) - 1"
    using True b zdiv_zminus1_eq_if [of b "- a"] by (auto split: if_splits)
  moreover have "0 \<le> \<bar>a\<bar> div b" using b by (simp add: pos_imp_zdiv_nonneg_iff)
  ultimately show ?thesis by linarith
qed (simp add: pos_imp_zdiv_nonneg_iff)

lemma imm_hi_bound:
  assumes "\<not> sub_overflows val (imm_lo val)"
  shows "\<bar>sint (imm_hi val)\<bar> \<le> \<bar>sint val - sint (imm_lo val)\<bar> div 2 ^ 12 + 1"
proof -
  let ?h = "sint val - sint (imm_lo val)"
  have "sint (imm_hi val) = ?h div 2 ^ imm_shift val"
    using assms by (simp add: imm_hi_def sint_signed_drop_bit_eq drop_bit_eq_div sub_overflows_def)
  also have "\<bar>\<dots>\<bar> \<le> \<bar>?h\<bar> div 2 ^ imm_shift val + 1"
    by (rule abs_div_le) simp
  also have "\<bar>?h\<bar> div 2 ^ imm_shift val \<le> \<bar>?h\<bar> div 2 ^ 12"
    by (intro zdiv_mono2 power_increasing) (auto simp: imm_shift_def)
  finally show ?thesis by simp
qed

lemma imm_hi_smaller:
  assumes "\<not> fits32 val" "\<not> sub_overflows val (imm_lo val)"
  shows "\<bar>sint (imm_hi val)\<bar> < \<bar>sint val\<bar>"
proof -
  have "2 ^ 31 \<le> sint val \<or> sint val < - (2 ^ 31)"
    using assms(1) by (auto simp: fits32_iff simm_valid_def)
  then have "\<bar>sint val - sint (imm_lo val)\<bar> div 2 ^ 12 + 1 < \<bar>sint val\<bar>"
    using imm_lo_bounds [of val] by simp linarith
  then show ?thesis using imm_hi_bound [OF assms(2)] by linarith
qed

function load_imm_r :: "u64 \<Rightarrow> u64 \<Rightarrow> assembler \<Rightarrow> assembler option" where
  "load_imm_r rd val a =
     (if fits32 val
      then Option.bind (add_emitted (emit_lui rd (push_bit 12 (signed_drop_bit 12 val))) a) (\<lambda>a.
        let val = val - push_bit 12 (signed_drop_bit 12 val) in
        if val \<noteq> 0 then add_emitted (emit_addi rd rd (bitextend val 12)) a else Some a)
      else if sub_overflows val (imm_lo val) then None
      else Option.bind (load_imm_r rd (imm_hi val) a) (\<lambda>a.
        Option.bind (add_emitted (emit_slli rd rd (of_nat (imm_shift val))) a) (\<lambda>a.
          if imm_lo val \<noteq> 0
          then add_emitted (emit_addi rd rd (scast (ucast (bitextend (imm_lo val) 12) :: u32))) a
          else Some a)))"
  by pat_completeness auto
termination
  by (relation "measure (\<lambda>(rd, val, a). nat \<bar>sint val\<bar>)") (use imm_hi_smaller in \<open>auto simp: zless_nat_eq_int_zless\<close>)

declare load_imm_r.simps [simp del] to_string.simps [simp del]

definition load_imm :: "u64 \<Rightarrow> u64 \<Rightarrow> assembler \<Rightarrow> assembler option" where
  "load_imm rd val a =
     (if - 2048 \<le> sint val \<and> sint val \<le> 2047
      then add_emitted (emit_addi rd 0 (scast (ucast val :: u32))) a
      else if ispow2 val
      then Option.bind (add_emitted (emit_addi rd 0 1) a)
             (add_emitted (emit_slli rd rd (of_nat (ctz val))))
      else load_imm_r rd val a)"

section \<open>Labels and relocations\<close>

type_synonym label_ptr = "nat option"
type_synonym reloc_ptr = "nat option"

definition find_label :: "string \<Rightarrow> assembler \<Rightarrow> label_ptr" where
  "find_label name a = labels_byname a name"

fun lookup_label_f :: "assembler \<Rightarrow> section_offset \<Rightarrow> u64 \<Rightarrow> bool \<Rightarrow> (section_offset \<times> nat) list \<Rightarrow> label_ptr" where
  "lookup_label_f a off num found [] = None"
| "lookup_label_f a off num found ((k, l) # m) =
     (let found = (if offset_less off k then True else found) in
      if found \<and> lab_num (labels a ! l) = num then Some l else lookup_label_f a off num found m)"

fun lookup_label_b :: "assembler \<Rightarrow> section_offset \<Rightarrow> u64 \<Rightarrow> label_ptr \<Rightarrow> (section_offset \<times> nat) list \<Rightarrow> label_ptr" where
  "lookup_label_b a off num found [] = found"
| "lookup_label_b a off num found ((k, l) # m) =
     (if offset_less off k then found
      else lookup_label_b a off num (if lab_num (labels a ! l) = num then Some l else found) m)"

text \<open>The label that a relocation at \<open>off\<close> means by \<open>name\<close>: \<^verbatim>\<open>1f\<close> and \<^verbatim>\<open>1b\<close> are local.\<close>

definition lookup_label :: "section_offset \<Rightarrow> string \<Rightarrow> assembler \<Rightarrow> label_ptr" where
  "lookup_label off name a =
     (if check_local name \<and> last name = CHR ''f''
      then lookup_label_f a off (strtoull (butlast name)) False (labels_byoffset a)
      else if check_local name \<and> last name = CHR ''b''
      then lookup_label_b a off (strtoull (butlast name)) None (labels_byoffset a)
      else find_label name a)"

definition add_label_at :: "string \<Rightarrow> section_offset \<Rightarrow> assembler \<Rightarrow> label_ptr \<times> assembler" where
  "add_label_at name off a =
     (if labels_byname a name \<noteq> None then (None, a)
      else let l = length (labels a) in
        (Some l, a\<lparr>labels := labels a @ [\<lparr>lab_name = name, lab_offset = off, lab_num = 0\<rparr>],
           labels_byname := (labels_byname a)(name \<mapsto> l),
           labels_byoffset := map_put off l (labels_byoffset a)\<rparr>))"

definition add_label :: "string \<Rightarrow> assembler \<Rightarrow> label_ptr \<times> assembler" where
  "add_label name a = add_label_at name (current_offset a) a"

text \<open>\<^verbatim>\<open>add_label(s64 num)\<close>: a loop over \<open>i\<close> until the name \<^verbatim>\<open>.L<num><i>\<close> is free.\<close>

definition num_label :: "u64 \<Rightarrow> nat \<Rightarrow> string" where
  "num_label num i = ''.L'' @ to_string_s64 num @ to_string i"

partial_function (option) free_label :: "u64 \<Rightarrow> nat \<Rightarrow> assembler \<Rightarrow> nat option" where
  "free_label num i a =
     (if labels_byname a (num_label num i) = None then Some i else free_label num (i + 1) a)"

definition add_label_num :: "u64 \<Rightarrow> assembler \<Rightarrow> (label_ptr \<times> assembler) option" where
  "add_label_num num a =
     Option.bind (free_label num 1 a) (\<lambda>i.
       case add_label (num_label num i) a of
         (Some l, a) \<Rightarrow> Some (Some l, a\<lparr>labels := (labels a)[l := (labels a ! l)\<lparr>lab_num := num\<rparr>]\<rparr>)
       | (None, a) \<Rightarrow> None)"

definition add_constant :: "string \<Rightarrow> u64 \<Rightarrow> assembler \<Rightarrow> label_ptr \<times> assembler" where
  "add_constant name val a = add_label_at name (SHN_ABS, val) a"

definition lookup_reloc :: "section_offset \<Rightarrow> assembler \<Rightarrow> reloc_ptr" where
  "lookup_reloc off a = map_of (relocs_byoffset a) off"

definition add_reloc :: "string \<Rightarrow> nat \<Rightarrow> assembler \<Rightarrow> reloc_ptr \<times> assembler" where
  "add_reloc name ty a =
     (if map_of (relocs_byoffset a) (current_offset a) \<noteq> None then (None, a)
      else let r = length (relocs a) in
        (Some r, a\<lparr>relocs := relocs a @ [\<lparr>rel_offset = current_offset a, rel_name = name, rel_type = ty\<rparr>],
           relocs_byoffset := map_put (current_offset a) r (relocs_byoffset a)\<rparr>))"

definition balign :: "u64 \<Rightarrow> assembler \<Rightarrow> assembler" where
  "balign align a =
     (if \<not> ispow2 align then a
      else if of_nat (length (cur_buf a)) AND (align - 1) = 0 then a
      else push_back (replicate (unat (align - (of_nat (length (cur_buf a)) AND (align - 1)))) 0) a)"

text \<open>\<^verbatim>\<open>balign(1 << s)\<close>: the shift is of an \<^verbatim>\<open>int\<close>.\<close>

definition p2align :: "nat \<Rightarrow> assembler \<Rightarrow> assembler option" where
  "p2align s a = (if s < 32 then Some (balign (scast (push_bit s 1 :: u32)) a) else None)"

section \<open>Relocation\<close>

definition label_offset :: "nat \<Rightarrow> assembler \<Rightarrow> u64 option" where
  "label_offset l a =
     (let off = lab_offset (labels a ! l) in
      map_option (\<lambda>s. sec_offset s + snd off) (at (sections a) (fst off)))"

definition reloc_offset :: "nat \<Rightarrow> assembler \<Rightarrow> u64 option" where
  "reloc_offset r a =
     (let off = rel_offset (relocs a ! r) in
      map_option (\<lambda>s. sec_offset s + snd off) (at (sections a) (fst off)))"

text \<open>
  \<^verbatim>\<open>label_buffer\<close> and \<^verbatim>\<open>reloc_buffer\<close> are pointers into the bytes of a section, here the
  section and the position in it.
\<close>

type_synonym buffer_ptr = "u64 \<times> nat"

definition label_buffer :: "nat \<Rightarrow> assembler \<Rightarrow> buffer_ptr option" where
  "label_buffer l a =
     (let off = lab_offset (labels a ! l) in
      Option.bind (at (sections a) (fst off)) (\<lambda>s.
        if unat (snd off) < length (sec_buf s) then Some (fst off, unat (snd off)) else None))"

definition reloc_buffer :: "nat \<Rightarrow> assembler \<Rightarrow> buffer_ptr option" where
  "reloc_buffer r a =
     (let off = rel_offset (relocs a ! r) in
      Option.bind (at (sections a) (fst off)) (\<lambda>s.
        if unat (snd off) < length (sec_buf s) then Some (fst off, unat (snd off)) else None))"

text \<open>
  \<^verbatim>\<open>inst_fetch\<close> at a pointer: it reads four bytes, and more for a longer instruction, all of which
  have to be in the section.
\<close>

definition fetch_at :: "buffer_ptr \<Rightarrow> assembler \<Rightarrow> (u64 \<times> nat) option" where
  "fetch_at p a =
     Option.bind (at (sections a) (fst p)) (\<lambda>s.
       let (inst, len) = inst_fetch (\<lambda>i. sec_buf s ! unat i) (of_nat (snd p)) in
       if snd p + max 4 len \<le> length (sec_buf s) then Some (inst, len) else None)"

text \<open>A store of the low \<open>n\<close> bytes of a word at a pointer, little endian.\<close>

definition poke :: "nat \<Rightarrow> buffer_ptr \<Rightarrow> u64 \<Rightarrow> assembler \<Rightarrow> assembler option" where
  "poke n p v a =
     Option.bind (at (sections a) (fst p)) (\<lambda>s.
       if snd p + n \<le> length (sec_buf s)
       then Some (a\<lparr>sections := (sections a)[unat (fst p) := s\<lparr>sec_buf :=
              take (snd p) (sec_buf s) @ map (byte_of v) [0..<n] @ drop (snd p + n) (sec_buf s)\<rparr>]\<rparr>)
       else None)"

definition reencode_inst :: "decode \<Rightarrow> buffer_ptr \<Rightarrow> assembler \<Rightarrow> assembler option" where
  "reencode_inst dec p a =
     Option.bind (encoded dec) (\<lambda>inst. switch (inst_length inst) [
       (2, poke 2 p (inst AND 0xffff) a),
       (4, poke 4 p (inst AND 0xffffffff) a)] (Some a))"

text \<open>\<^verbatim>\<open>((x + 0x800) >> 12) << 12\<close> on \<^verbatim>\<open>size_t\<close>, stored in an \<^verbatim>\<open>int\<close>.\<close>

definition hi20 :: "u64 \<Rightarrow> u32" where
  "hi20 x = ucast (push_bit 12 (drop_bit 12 (x + 0x800)))"

text \<open>
  \<^verbatim>\<open>relocate\<close>: the result is \<^verbatim>\<open>false\<close> when a symbol is not found. The name in the relocation
  becomes the name of the label, also when the relocation fails later.
\<close>

definition relocate :: "nat \<Rightarrow> assembler \<Rightarrow> (bool \<times> assembler) option" where
  "relocate r a =
     (case lookup_label (rel_offset (relocs a ! r)) (rel_name (relocs a ! r)) a of
        None \<Rightarrow> Some (False, a)
      | Some l \<Rightarrow>
          let lab = labels a ! l;
              a = a\<lparr>relocs := (relocs a)[r := (relocs a ! r)\<lparr>rel_name := lab_name lab\<rparr>]\<rparr>;
              ty = rel_type (relocs a ! r) in
          Option.bind (if fst (lab_offset lab) = SHN_ABS then Some (snd (lab_offset lab)) else label_offset l a) (\<lambda>label_off.
          Option.bind (reloc_offset r a) (\<lambda>reloc_off.
          Option.bind (reloc_buffer r a) (\<lambda>buf.
          Option.bind (fetch_at buf a) (\<lambda>(inst, len).
            let dec = decode_inst_rv64 decode_init inst;
                reencode = (\<lambda>imm. map_option (Pair True) (reencode_inst (dec\<lparr>dec_imm := imm\<rparr>) buf a)) in
            if ty = R_RISCV_JAL \<or> ty = R_RISCV_BRANCH then reencode (ucast (label_off - reloc_off))
            else if ty = R_RISCV_HI20 then reencode (hi20 label_off)
            else if ty = R_RISCV_LO12_I \<or> ty = R_RISCV_LO12_S then reencode (ucast label_off - hi20 label_off)
            else if ty = R_RISCV_PCREL_HI20 then reencode (hi20 (label_off - reloc_off))
            else if ty = R_RISCV_PCREL_LO12_I \<or> ty = R_RISCV_PCREL_LO12_S then
              (case map_of (relocs_byoffset a) (fst (rel_offset (relocs a ! r)), label_off) of
                 None \<Rightarrow> Some (False, a)
               | Some r' \<Rightarrow>
                   Option.bind (reloc_offset r' a) (\<lambda>reloc_off.
                     case find_label (rel_name (relocs a ! r')) a of
                       None \<Rightarrow> Some (False, a)
                     | Some l' \<Rightarrow>
                         Option.bind (label_offset l' a) (\<lambda>label_off.
                           reencode (ucast (label_off - reloc_off) - hi20 (label_off - reloc_off)))))
            else if ty = R_RISCV_CALL then
              (let upper = hi20 (label_off - reloc_off);
                   lower = ucast (label_off - reloc_off) - upper;
                   buf2 = (fst buf, snd buf + len) in
               Option.bind (fetch_at buf2 a) (\<lambda>(inst2, len2).
               Option.bind (reencode_inst ((decode_inst_rv64 decode_init inst2)\<lparr>dec_imm := lower\<rparr>) buf2 a) (\<lambda>a.
                 map_option (Pair True) (reencode_inst (dec\<lparr>dec_imm := upper\<rparr>) buf a))))
            else if ty = R_RISCV_32 then map_option (Pair True) (poke 4 buf label_off a)
            else if ty = R_RISCV_64 then map_option (Pair True) (poke 8 buf label_off a)
            else Some (True, a))))))"

text \<open>
  \<^verbatim>\<open>link\<close> lays the sections out one after the other, then applies the relocations in the order
  of their offsets. The result is the number of unresolved relocations.
\<close>

fun layout :: "u64 \<Rightarrow> asm_section list \<Rightarrow> asm_section list" where
  "layout off [] = []"
| "layout off (s # ss) = s\<lparr>sec_offset := off\<rparr> # layout (off + of_nat (length (sec_buf s))) ss"

fun relocate_all :: "nat list \<Rightarrow> assembler \<Rightarrow> (nat \<times> assembler) option" where
  "relocate_all [] a = Some (0, a)"
| "relocate_all (r # rs) a =
     Option.bind (relocate r a) (\<lambda>(ok, a).
       map_option (\<lambda>(n, a). ((if ok then n else n + 1), a)) (relocate_all rs a))"

definition link :: "assembler \<Rightarrow> (nat \<times> assembler) option" where
  "link a = relocate_all (map snd (relocs_byoffset a)) (a\<lparr>sections := layout 0 (sections a)\<rparr>)"

end
