(* ===== verification/Jit.thy ===== *)
theory Jit
  imports Assembler
begin

text \<open>
  The second half of \<^verbatim>\<open>src/src/asm/jit.cc\<close>: for every emitter a function that appends the
  instruction to the current section of an assembler and returns whether the arguments were in
  range. The C++ code repeats the body of the emitter in each; the property at the end says that the
  two halves agree.
\<close>

unbundle bit_operations_syntax

text \<open>\<^verbatim>\<open>as.add_inst(encode_inst(dec)); return true;\<close>\<close>

definition add_encoded :: "assembler \<Rightarrow> decode \<Rightarrow> (assembler \<times> bool) option" where
  "add_encoded a dec = map_option (\<lambda>inst. (add_inst inst a, True)) (encoded dec)"

definition asm_lui :: "assembler \<Rightarrow> u64 \<Rightarrow> u64 \<Rightarrow> (assembler \<times> bool) option" where
  "asm_lui a rd imm20 =
     (if \<not> (uimm_valid 5 rd \<and> simm_valid 32 imm20) then Some (a, False)
      else add_encoded a (decode_init\<lparr>dec_op := rv_op_lui, dec_rd := ucast rd,
                            dec_imm := ucast imm20\<rparr>))"

definition asm_auipc :: "assembler \<Rightarrow> u64 \<Rightarrow> u64 \<Rightarrow> (assembler \<times> bool) option" where
  "asm_auipc a rd oimm20 =
     (if \<not> (uimm_valid 5 rd \<and> offset_valid 32 oimm20) then Some (a, False)
      else add_encoded a (decode_init\<lparr>dec_op := rv_op_auipc, dec_rd := ucast rd,
                            dec_imm := ucast oimm20\<rparr>))"

definition asm_jal :: "assembler \<Rightarrow> u64 \<Rightarrow> u64 \<Rightarrow> (assembler \<times> bool) option" where
  "asm_jal a rd jimm20 =
     (if \<not> (uimm_valid 5 rd \<and> offset_valid 21 jimm20) then Some (a, False)
      else add_encoded a (decode_init\<lparr>dec_op := rv_op_jal, dec_rd := ucast rd,
                            dec_imm := ucast jimm20\<rparr>))"

definition asm_jalr :: "assembler \<Rightarrow> u64 \<Rightarrow> u64 \<Rightarrow> u64 \<Rightarrow> (assembler \<times> bool) option" where
  "asm_jalr a rd rs1 imm12 =
     (if \<not> (uimm_valid 5 rd \<and> uimm_valid 5 rs1 \<and> simm_valid 12 imm12) then Some (a, False)
      else add_encoded a (decode_init\<lparr>dec_op := rv_op_jalr, dec_rd := ucast rd,
                            dec_rs1 := ucast rs1, dec_imm := ucast imm12\<rparr>))"

definition asm_beq :: "assembler \<Rightarrow> u64 \<Rightarrow> u64 \<Rightarrow> u64 \<Rightarrow> (assembler \<times> bool) option" where
  "asm_beq a rs1 rs2 sbimm12 =
     (if \<not> (uimm_valid 5 rs1 \<and> uimm_valid 5 rs2 \<and> offset_valid 13 sbimm12) then Some (a, False)
      else add_encoded a (decode_init\<lparr>dec_op := rv_op_beq, dec_rs1 := ucast rs1,
                            dec_rs2 := ucast rs2, dec_imm := ucast sbimm12\<rparr>))"

definition asm_bne :: "assembler \<Rightarrow> u64 \<Rightarrow> u64 \<Rightarrow> u64 \<Rightarrow> (assembler \<times> bool) option" where
  "asm_bne a rs1 rs2 sbimm12 =
     (if \<not> (uimm_valid 5 rs1 \<and> uimm_valid 5 rs2 \<and> offset_valid 13 sbimm12) then Some (a, False)
      else add_encoded a (decode_init\<lparr>dec_op := rv_op_bne, dec_rs1 := ucast rs1,
                            dec_rs2 := ucast rs2, dec_imm := ucast sbimm12\<rparr>))"

definition asm_blt :: "assembler \<Rightarrow> u64 \<Rightarrow> u64 \<Rightarrow> u64 \<Rightarrow> (assembler \<times> bool) option" where
  "asm_blt a rs1 rs2 sbimm12 =
     (if \<not> (uimm_valid 5 rs1 \<and> uimm_valid 5 rs2 \<and> offset_valid 13 sbimm12) then Some (a, False)
      else add_encoded a (decode_init\<lparr>dec_op := rv_op_blt, dec_rs1 := ucast rs1,
                            dec_rs2 := ucast rs2, dec_imm := ucast sbimm12\<rparr>))"

definition asm_bge :: "assembler \<Rightarrow> u64 \<Rightarrow> u64 \<Rightarrow> u64 \<Rightarrow> (assembler \<times> bool) option" where
  "asm_bge a rs1 rs2 sbimm12 =
     (if \<not> (uimm_valid 5 rs1 \<and> uimm_valid 5 rs2 \<and> offset_valid 13 sbimm12) then Some (a, False)
      else add_encoded a (decode_init\<lparr>dec_op := rv_op_bge, dec_rs1 := ucast rs1,
                            dec_rs2 := ucast rs2, dec_imm := ucast sbimm12\<rparr>))"

definition asm_bltu :: "assembler \<Rightarrow> u64 \<Rightarrow> u64 \<Rightarrow> u64 \<Rightarrow> (assembler \<times> bool) option" where
  "asm_bltu a rs1 rs2 sbimm12 =
     (if \<not> (uimm_valid 5 rs1 \<and> uimm_valid 5 rs2 \<and> offset_valid 13 sbimm12) then Some (a, False)
      else add_encoded a (decode_init\<lparr>dec_op := rv_op_bltu, dec_rs1 := ucast rs1,
                            dec_rs2 := ucast rs2, dec_imm := ucast sbimm12\<rparr>))"

definition asm_bgeu :: "assembler \<Rightarrow> u64 \<Rightarrow> u64 \<Rightarrow> u64 \<Rightarrow> (assembler \<times> bool) option" where
  "asm_bgeu a rs1 rs2 sbimm12 =
     (if \<not> (uimm_valid 5 rs1 \<and> uimm_valid 5 rs2 \<and> offset_valid 13 sbimm12) then Some (a, False)
      else add_encoded a (decode_init\<lparr>dec_op := rv_op_bgeu, dec_rs1 := ucast rs1,
                            dec_rs2 := ucast rs2, dec_imm := ucast sbimm12\<rparr>))"

definition asm_lb :: "assembler \<Rightarrow> u64 \<Rightarrow> u64 \<Rightarrow> u64 \<Rightarrow> (assembler \<times> bool) option" where
  "asm_lb a rd rs1 oimm12 =
     (if \<not> (uimm_valid 5 rd \<and> uimm_valid 5 rs1 \<and> offset_valid 12 oimm12) then Some (a, False)
      else add_encoded a (decode_init\<lparr>dec_op := rv_op_lb, dec_rd := ucast rd,
                            dec_rs1 := ucast rs1, dec_imm := ucast oimm12\<rparr>))"

definition asm_lh :: "assembler \<Rightarrow> u64 \<Rightarrow> u64 \<Rightarrow> u64 \<Rightarrow> (assembler \<times> bool) option" where
  "asm_lh a rd rs1 oimm12 =
     (if \<not> (uimm_valid 5 rd \<and> uimm_valid 5 rs1 \<and> offset_valid 12 oimm12) then Some (a, False)
      else add_encoded a (decode_init\<lparr>dec_op := rv_op_lh, dec_rd := ucast rd,
                            dec_rs1 := ucast rs1, dec_imm := ucast oimm12\<rparr>))"

definition asm_lw :: "assembler \<Rightarrow> u64 \<Rightarrow> u64 \<Rightarrow> u64 \<Rightarrow> (assembler \<times> bool) option" where
  "asm_lw a rd rs1 oimm12 =
     (if \<not> (uimm_valid 5 rd \<and> uimm_valid 5 rs1 \<and> offset_valid 12 oimm12) then Some (a, False)
      else add_encoded a (decode_init\<lparr>dec_op := rv_op_lw, dec_rd := ucast rd,
                            dec_rs1 := ucast rs1, dec_imm := ucast oimm12\<rparr>))"

definition asm_lbu :: "assembler \<Rightarrow> u64 \<Rightarrow> u64 \<Rightarrow> u64 \<Rightarrow> (assembler \<times> bool) option" where
  "asm_lbu a rd rs1 oimm12 =
     (if \<not> (uimm_valid 5 rd \<and> uimm_valid 5 rs1 \<and> offset_valid 12 oimm12) then Some (a, False)
      else add_encoded a (decode_init\<lparr>dec_op := rv_op_lbu, dec_rd := ucast rd,
                            dec_rs1 := ucast rs1, dec_imm := ucast oimm12\<rparr>))"

definition asm_lhu :: "assembler \<Rightarrow> u64 \<Rightarrow> u64 \<Rightarrow> u64 \<Rightarrow> (assembler \<times> bool) option" where
  "asm_lhu a rd rs1 oimm12 =
     (if \<not> (uimm_valid 5 rd \<and> uimm_valid 5 rs1 \<and> offset_valid 12 oimm12) then Some (a, False)
      else add_encoded a (decode_init\<lparr>dec_op := rv_op_lhu, dec_rd := ucast rd,
                            dec_rs1 := ucast rs1, dec_imm := ucast oimm12\<rparr>))"

definition asm_sb :: "assembler \<Rightarrow> u64 \<Rightarrow> u64 \<Rightarrow> u64 \<Rightarrow> (assembler \<times> bool) option" where
  "asm_sb a rs1 rs2 simm12 =
     (if \<not> (uimm_valid 5 rs1 \<and> uimm_valid 5 rs2 \<and> offset_valid 12 simm12) then Some (a, False)
      else add_encoded a (decode_init\<lparr>dec_op := rv_op_sb, dec_rs1 := ucast rs1,
                            dec_rs2 := ucast rs2, dec_imm := ucast simm12\<rparr>))"

definition asm_sh :: "assembler \<Rightarrow> u64 \<Rightarrow> u64 \<Rightarrow> u64 \<Rightarrow> (assembler \<times> bool) option" where
  "asm_sh a rs1 rs2 simm12 =
     (if \<not> (uimm_valid 5 rs1 \<and> uimm_valid 5 rs2 \<and> offset_valid 12 simm12) then Some (a, False)
      else add_encoded a (decode_init\<lparr>dec_op := rv_op_sh, dec_rs1 := ucast rs1,
                            dec_rs2 := ucast rs2, dec_imm := ucast simm12\<rparr>))"

definition asm_sw :: "assembler \<Rightarrow> u64 \<Rightarrow> u64 \<Rightarrow> u64 \<Rightarrow> (assembler \<times> bool) option" where
  "asm_sw a rs1 rs2 simm12 =
     (if \<not> (uimm_valid 5 rs1 \<and> uimm_valid 5 rs2 \<and> offset_valid 12 simm12) then Some (a, False)
      else add_encoded a (decode_init\<lparr>dec_op := rv_op_sw, dec_rs1 := ucast rs1,
                            dec_rs2 := ucast rs2, dec_imm := ucast simm12\<rparr>))"

definition asm_addi :: "assembler \<Rightarrow> u64 \<Rightarrow> u64 \<Rightarrow> u64 \<Rightarrow> (assembler \<times> bool) option" where
  "asm_addi a rd rs1 imm12 =
     (if \<not> (uimm_valid 5 rd \<and> uimm_valid 5 rs1 \<and> simm_valid 12 imm12) then Some (a, False)
      else add_encoded a (decode_init\<lparr>dec_op := rv_op_addi, dec_rd := ucast rd,
                            dec_rs1 := ucast rs1, dec_imm := ucast imm12\<rparr>))"

definition asm_slti :: "assembler \<Rightarrow> u64 \<Rightarrow> u64 \<Rightarrow> u64 \<Rightarrow> (assembler \<times> bool) option" where
  "asm_slti a rd rs1 imm12 =
     (if \<not> (uimm_valid 5 rd \<and> uimm_valid 5 rs1 \<and> simm_valid 12 imm12) then Some (a, False)
      else add_encoded a (decode_init\<lparr>dec_op := rv_op_slti, dec_rd := ucast rd,
                            dec_rs1 := ucast rs1, dec_imm := ucast imm12\<rparr>))"

definition asm_sltiu :: "assembler \<Rightarrow> u64 \<Rightarrow> u64 \<Rightarrow> u64 \<Rightarrow> (assembler \<times> bool) option" where
  "asm_sltiu a rd rs1 imm12 =
     (if \<not> (uimm_valid 5 rd \<and> uimm_valid 5 rs1 \<and> simm_valid 12 imm12) then Some (a, False)
      else add_encoded a (decode_init\<lparr>dec_op := rv_op_sltiu, dec_rd := ucast rd,
                            dec_rs1 := ucast rs1, dec_imm := ucast imm12\<rparr>))"

definition asm_xori :: "assembler \<Rightarrow> u64 \<Rightarrow> u64 \<Rightarrow> u64 \<Rightarrow> (assembler \<times> bool) option" where
  "asm_xori a rd rs1 imm12 =
     (if \<not> (uimm_valid 5 rd \<and> uimm_valid 5 rs1 \<and> simm_valid 12 imm12) then Some (a, False)
      else add_encoded a (decode_init\<lparr>dec_op := rv_op_xori, dec_rd := ucast rd,
                            dec_rs1 := ucast rs1, dec_imm := ucast imm12\<rparr>))"

definition asm_ori :: "assembler \<Rightarrow> u64 \<Rightarrow> u64 \<Rightarrow> u64 \<Rightarrow> (assembler \<times> bool) option" where
  "asm_ori a rd rs1 imm12 =
     (if \<not> (uimm_valid 5 rd \<and> uimm_valid 5 rs1 \<and> simm_valid 12 imm12) then Some (a, False)
      else add_encoded a (decode_init\<lparr>dec_op := rv_op_ori, dec_rd := ucast rd,
                            dec_rs1 := ucast rs1, dec_imm := ucast imm12\<rparr>))"

definition asm_andi :: "assembler \<Rightarrow> u64 \<Rightarrow> u64 \<Rightarrow> u64 \<Rightarrow> (assembler \<times> bool) option" where
  "asm_andi a rd rs1 imm12 =
     (if \<not> (uimm_valid 5 rd \<and> uimm_valid 5 rs1 \<and> simm_valid 12 imm12) then Some (a, False)
      else add_encoded a (decode_init\<lparr>dec_op := rv_op_andi, dec_rd := ucast rd,
                            dec_rs1 := ucast rs1, dec_imm := ucast imm12\<rparr>))"

definition asm_slli :: "assembler \<Rightarrow> u64 \<Rightarrow> u64 \<Rightarrow> u64 \<Rightarrow> (assembler \<times> bool) option" where
  "asm_slli a rd rs1 shamt7 =
     (if \<not> (uimm_valid 5 rd \<and> uimm_valid 5 rs1 \<and> uimm_valid 7 shamt7) then Some (a, False)
      else add_encoded a (decode_init\<lparr>dec_op := rv_op_slli, dec_rd := ucast rd,
                            dec_rs1 := ucast rs1, dec_imm := ucast shamt7\<rparr>))"

definition asm_srli :: "assembler \<Rightarrow> u64 \<Rightarrow> u64 \<Rightarrow> u64 \<Rightarrow> (assembler \<times> bool) option" where
  "asm_srli a rd rs1 shamt7 =
     (if \<not> (uimm_valid 5 rd \<and> uimm_valid 5 rs1 \<and> uimm_valid 7 shamt7) then Some (a, False)
      else add_encoded a (decode_init\<lparr>dec_op := rv_op_srli, dec_rd := ucast rd,
                            dec_rs1 := ucast rs1, dec_imm := ucast shamt7\<rparr>))"

definition asm_srai :: "assembler \<Rightarrow> u64 \<Rightarrow> u64 \<Rightarrow> u64 \<Rightarrow> (assembler \<times> bool) option" where
  "asm_srai a rd rs1 shamt7 =
     (if \<not> (uimm_valid 5 rd \<and> uimm_valid 5 rs1 \<and> uimm_valid 7 shamt7) then Some (a, False)
      else add_encoded a (decode_init\<lparr>dec_op := rv_op_srai, dec_rd := ucast rd,
                            dec_rs1 := ucast rs1, dec_imm := ucast shamt7\<rparr>))"

definition asm_add :: "assembler \<Rightarrow> u64 \<Rightarrow> u64 \<Rightarrow> u64 \<Rightarrow> (assembler \<times> bool) option" where
  "asm_add a rd rs1 rs2 =
     (if \<not> (uimm_valid 5 rd \<and> uimm_valid 5 rs1 \<and> uimm_valid 5 rs2) then Some (a, False)
      else add_encoded a (decode_init\<lparr>dec_op := rv_op_add, dec_rd := ucast rd,
                            dec_rs1 := ucast rs1, dec_rs2 := ucast rs2\<rparr>))"

definition asm_sub :: "assembler \<Rightarrow> u64 \<Rightarrow> u64 \<Rightarrow> u64 \<Rightarrow> (assembler \<times> bool) option" where
  "asm_sub a rd rs1 rs2 =
     (if \<not> (uimm_valid 5 rd \<and> uimm_valid 5 rs1 \<and> uimm_valid 5 rs2) then Some (a, False)
      else add_encoded a (decode_init\<lparr>dec_op := rv_op_sub, dec_rd := ucast rd,
                            dec_rs1 := ucast rs1, dec_rs2 := ucast rs2\<rparr>))"

definition asm_sll :: "assembler \<Rightarrow> u64 \<Rightarrow> u64 \<Rightarrow> u64 \<Rightarrow> (assembler \<times> bool) option" where
  "asm_sll a rd rs1 rs2 =
     (if \<not> (uimm_valid 5 rd \<and> uimm_valid 5 rs1 \<and> uimm_valid 5 rs2) then Some (a, False)
      else add_encoded a (decode_init\<lparr>dec_op := rv_op_sll, dec_rd := ucast rd,
                            dec_rs1 := ucast rs1, dec_rs2 := ucast rs2\<rparr>))"

definition asm_slt :: "assembler \<Rightarrow> u64 \<Rightarrow> u64 \<Rightarrow> u64 \<Rightarrow> (assembler \<times> bool) option" where
  "asm_slt a rd rs1 rs2 =
     (if \<not> (uimm_valid 5 rd \<and> uimm_valid 5 rs1 \<and> uimm_valid 5 rs2) then Some (a, False)
      else add_encoded a (decode_init\<lparr>dec_op := rv_op_slt, dec_rd := ucast rd,
                            dec_rs1 := ucast rs1, dec_rs2 := ucast rs2\<rparr>))"

definition asm_sltu :: "assembler \<Rightarrow> u64 \<Rightarrow> u64 \<Rightarrow> u64 \<Rightarrow> (assembler \<times> bool) option" where
  "asm_sltu a rd rs1 rs2 =
     (if \<not> (uimm_valid 5 rd \<and> uimm_valid 5 rs1 \<and> uimm_valid 5 rs2) then Some (a, False)
      else add_encoded a (decode_init\<lparr>dec_op := rv_op_sltu, dec_rd := ucast rd,
                            dec_rs1 := ucast rs1, dec_rs2 := ucast rs2\<rparr>))"

definition asm_xor :: "assembler \<Rightarrow> u64 \<Rightarrow> u64 \<Rightarrow> u64 \<Rightarrow> (assembler \<times> bool) option" where
  "asm_xor a rd rs1 rs2 =
     (if \<not> (uimm_valid 5 rd \<and> uimm_valid 5 rs1 \<and> uimm_valid 5 rs2) then Some (a, False)
      else add_encoded a (decode_init\<lparr>dec_op := rv_op_xor, dec_rd := ucast rd,
                            dec_rs1 := ucast rs1, dec_rs2 := ucast rs2\<rparr>))"

definition asm_srl :: "assembler \<Rightarrow> u64 \<Rightarrow> u64 \<Rightarrow> u64 \<Rightarrow> (assembler \<times> bool) option" where
  "asm_srl a rd rs1 rs2 =
     (if \<not> (uimm_valid 5 rd \<and> uimm_valid 5 rs1 \<and> uimm_valid 5 rs2) then Some (a, False)
      else add_encoded a (decode_init\<lparr>dec_op := rv_op_srl, dec_rd := ucast rd,
                            dec_rs1 := ucast rs1, dec_rs2 := ucast rs2\<rparr>))"

definition asm_sra :: "assembler \<Rightarrow> u64 \<Rightarrow> u64 \<Rightarrow> u64 \<Rightarrow> (assembler \<times> bool) option" where
  "asm_sra a rd rs1 rs2 =
     (if \<not> (uimm_valid 5 rd \<and> uimm_valid 5 rs1 \<and> uimm_valid 5 rs2) then Some (a, False)
      else add_encoded a (decode_init\<lparr>dec_op := rv_op_sra, dec_rd := ucast rd,
                            dec_rs1 := ucast rs1, dec_rs2 := ucast rs2\<rparr>))"

definition asm_or :: "assembler \<Rightarrow> u64 \<Rightarrow> u64 \<Rightarrow> u64 \<Rightarrow> (assembler \<times> bool) option" where
  "asm_or a rd rs1 rs2 =
     (if \<not> (uimm_valid 5 rd \<and> uimm_valid 5 rs1 \<and> uimm_valid 5 rs2) then Some (a, False)
      else add_encoded a (decode_init\<lparr>dec_op := rv_op_or, dec_rd := ucast rd,
                            dec_rs1 := ucast rs1, dec_rs2 := ucast rs2\<rparr>))"

definition asm_and :: "assembler \<Rightarrow> u64 \<Rightarrow> u64 \<Rightarrow> u64 \<Rightarrow> (assembler \<times> bool) option" where
  "asm_and a rd rs1 rs2 =
     (if \<not> (uimm_valid 5 rd \<and> uimm_valid 5 rs1 \<and> uimm_valid 5 rs2) then Some (a, False)
      else add_encoded a (decode_init\<lparr>dec_op := rv_op_and, dec_rd := ucast rd,
                            dec_rs1 := ucast rs1, dec_rs2 := ucast rs2\<rparr>))"

definition asm_fence :: "assembler \<Rightarrow> u64 \<Rightarrow> u64 \<Rightarrow> (assembler \<times> bool) option" where
  "asm_fence a pred succ =
     (if \<not> (uimm_valid 4 pred \<and> uimm_valid 4 succ) then Some (a, False)
      else add_encoded a (decode_init\<lparr>dec_op := rv_op_fence, dec_pred := ucast pred,
                            dec_succ := ucast succ\<rparr>))"

definition asm_fence_i :: "assembler \<Rightarrow> (assembler \<times> bool) option" where
  "asm_fence_i a =
     add_encoded a (decode_init\<lparr>dec_op := rv_op_fence_i\<rparr>)"

definition asm_lwu :: "assembler \<Rightarrow> u64 \<Rightarrow> u64 \<Rightarrow> u64 \<Rightarrow> (assembler \<times> bool) option" where
  "asm_lwu a rd rs1 oimm12 =
     (if \<not> (uimm_valid 5 rd \<and> uimm_valid 5 rs1 \<and> offset_valid 12 oimm12) then Some (a, False)
      else add_encoded a (decode_init\<lparr>dec_op := rv_op_lwu, dec_rd := ucast rd,
                            dec_rs1 := ucast rs1, dec_imm := ucast oimm12\<rparr>))"

definition asm_ld :: "assembler \<Rightarrow> u64 \<Rightarrow> u64 \<Rightarrow> u64 \<Rightarrow> (assembler \<times> bool) option" where
  "asm_ld a rd rs1 oimm12 =
     (if \<not> (uimm_valid 5 rd \<and> uimm_valid 5 rs1 \<and> offset_valid 12 oimm12) then Some (a, False)
      else add_encoded a (decode_init\<lparr>dec_op := rv_op_ld, dec_rd := ucast rd,
                            dec_rs1 := ucast rs1, dec_imm := ucast oimm12\<rparr>))"

definition asm_sd :: "assembler \<Rightarrow> u64 \<Rightarrow> u64 \<Rightarrow> u64 \<Rightarrow> (assembler \<times> bool) option" where
  "asm_sd a rs1 rs2 simm12 =
     (if \<not> (uimm_valid 5 rs1 \<and> uimm_valid 5 rs2 \<and> offset_valid 12 simm12) then Some (a, False)
      else add_encoded a (decode_init\<lparr>dec_op := rv_op_sd, dec_rs1 := ucast rs1,
                            dec_rs2 := ucast rs2, dec_imm := ucast simm12\<rparr>))"

definition asm_addiw :: "assembler \<Rightarrow> u64 \<Rightarrow> u64 \<Rightarrow> u64 \<Rightarrow> (assembler \<times> bool) option" where
  "asm_addiw a rd rs1 imm12 =
     (if \<not> (uimm_valid 5 rd \<and> uimm_valid 5 rs1 \<and> simm_valid 12 imm12) then Some (a, False)
      else add_encoded a (decode_init\<lparr>dec_op := rv_op_addiw, dec_rd := ucast rd,
                            dec_rs1 := ucast rs1, dec_imm := ucast imm12\<rparr>))"

definition asm_slliw :: "assembler \<Rightarrow> u64 \<Rightarrow> u64 \<Rightarrow> u64 \<Rightarrow> (assembler \<times> bool) option" where
  "asm_slliw a rd rs1 shamt5 =
     (if \<not> (uimm_valid 5 rd \<and> uimm_valid 5 rs1 \<and> uimm_valid 5 shamt5) then Some (a, False)
      else add_encoded a (decode_init\<lparr>dec_op := rv_op_slliw, dec_rd := ucast rd,
                            dec_rs1 := ucast rs1, dec_imm := ucast shamt5\<rparr>))"

definition asm_srliw :: "assembler \<Rightarrow> u64 \<Rightarrow> u64 \<Rightarrow> u64 \<Rightarrow> (assembler \<times> bool) option" where
  "asm_srliw a rd rs1 shamt5 =
     (if \<not> (uimm_valid 5 rd \<and> uimm_valid 5 rs1 \<and> uimm_valid 5 shamt5) then Some (a, False)
      else add_encoded a (decode_init\<lparr>dec_op := rv_op_srliw, dec_rd := ucast rd,
                            dec_rs1 := ucast rs1, dec_imm := ucast shamt5\<rparr>))"

definition asm_sraiw :: "assembler \<Rightarrow> u64 \<Rightarrow> u64 \<Rightarrow> u64 \<Rightarrow> (assembler \<times> bool) option" where
  "asm_sraiw a rd rs1 shamt5 =
     (if \<not> (uimm_valid 5 rd \<and> uimm_valid 5 rs1 \<and> uimm_valid 5 shamt5) then Some (a, False)
      else add_encoded a (decode_init\<lparr>dec_op := rv_op_sraiw, dec_rd := ucast rd,
                            dec_rs1 := ucast rs1, dec_imm := ucast shamt5\<rparr>))"

definition asm_addw :: "assembler \<Rightarrow> u64 \<Rightarrow> u64 \<Rightarrow> u64 \<Rightarrow> (assembler \<times> bool) option" where
  "asm_addw a rd rs1 rs2 =
     (if \<not> (uimm_valid 5 rd \<and> uimm_valid 5 rs1 \<and> uimm_valid 5 rs2) then Some (a, False)
      else add_encoded a (decode_init\<lparr>dec_op := rv_op_addw, dec_rd := ucast rd,
                            dec_rs1 := ucast rs1, dec_rs2 := ucast rs2\<rparr>))"

definition asm_subw :: "assembler \<Rightarrow> u64 \<Rightarrow> u64 \<Rightarrow> u64 \<Rightarrow> (assembler \<times> bool) option" where
  "asm_subw a rd rs1 rs2 =
     (if \<not> (uimm_valid 5 rd \<and> uimm_valid 5 rs1 \<and> uimm_valid 5 rs2) then Some (a, False)
      else add_encoded a (decode_init\<lparr>dec_op := rv_op_subw, dec_rd := ucast rd,
                            dec_rs1 := ucast rs1, dec_rs2 := ucast rs2\<rparr>))"

definition asm_sllw :: "assembler \<Rightarrow> u64 \<Rightarrow> u64 \<Rightarrow> u64 \<Rightarrow> (assembler \<times> bool) option" where
  "asm_sllw a rd rs1 rs2 =
     (if \<not> (uimm_valid 5 rd \<and> uimm_valid 5 rs1 \<and> uimm_valid 5 rs2) then Some (a, False)
      else add_encoded a (decode_init\<lparr>dec_op := rv_op_sllw, dec_rd := ucast rd,
                            dec_rs1 := ucast rs1, dec_rs2 := ucast rs2\<rparr>))"

definition asm_srlw :: "assembler \<Rightarrow> u64 \<Rightarrow> u64 \<Rightarrow> u64 \<Rightarrow> (assembler \<times> bool) option" where
  "asm_srlw a rd rs1 rs2 =
     (if \<not> (uimm_valid 5 rd \<and> uimm_valid 5 rs1 \<and> uimm_valid 5 rs2) then Some (a, False)
      else add_encoded a (decode_init\<lparr>dec_op := rv_op_srlw, dec_rd := ucast rd,
                            dec_rs1 := ucast rs1, dec_rs2 := ucast rs2\<rparr>))"

definition asm_sraw :: "assembler \<Rightarrow> u64 \<Rightarrow> u64 \<Rightarrow> u64 \<Rightarrow> (assembler \<times> bool) option" where
  "asm_sraw a rd rs1 rs2 =
     (if \<not> (uimm_valid 5 rd \<and> uimm_valid 5 rs1 \<and> uimm_valid 5 rs2) then Some (a, False)
      else add_encoded a (decode_init\<lparr>dec_op := rv_op_sraw, dec_rd := ucast rd,
                            dec_rs1 := ucast rs1, dec_rs2 := ucast rs2\<rparr>))"

definition asm_ldu :: "assembler \<Rightarrow> u64 \<Rightarrow> u64 \<Rightarrow> u64 \<Rightarrow> (assembler \<times> bool) option" where
  "asm_ldu a rd rs1 oimm12 =
     (if \<not> (uimm_valid 5 rd \<and> uimm_valid 5 rs1 \<and> offset_valid 12 oimm12) then Some (a, False)
      else add_encoded a (decode_init\<lparr>dec_op := rv_op_ldu, dec_rd := ucast rd,
                            dec_rs1 := ucast rs1, dec_imm := ucast oimm12\<rparr>))"

definition asm_lq :: "assembler \<Rightarrow> u64 \<Rightarrow> u64 \<Rightarrow> u64 \<Rightarrow> (assembler \<times> bool) option" where
  "asm_lq a rd rs1 oimm12 =
     (if \<not> (uimm_valid 5 rd \<and> uimm_valid 5 rs1 \<and> offset_valid 12 oimm12) then Some (a, False)
      else add_encoded a (decode_init\<lparr>dec_op := rv_op_lq, dec_rd := ucast rd,
                            dec_rs1 := ucast rs1, dec_imm := ucast oimm12\<rparr>))"

definition asm_sq :: "assembler \<Rightarrow> u64 \<Rightarrow> u64 \<Rightarrow> u64 \<Rightarrow> (assembler \<times> bool) option" where
  "asm_sq a rs1 rs2 simm12 =
     (if \<not> (uimm_valid 5 rs1 \<and> uimm_valid 5 rs2 \<and> offset_valid 12 simm12) then Some (a, False)
      else add_encoded a (decode_init\<lparr>dec_op := rv_op_sq, dec_rs1 := ucast rs1,
                            dec_rs2 := ucast rs2, dec_imm := ucast simm12\<rparr>))"

definition asm_addid :: "assembler \<Rightarrow> u64 \<Rightarrow> u64 \<Rightarrow> u64 \<Rightarrow> (assembler \<times> bool) option" where
  "asm_addid a rd rs1 imm12 =
     (if \<not> (uimm_valid 5 rd \<and> uimm_valid 5 rs1 \<and> simm_valid 12 imm12) then Some (a, False)
      else add_encoded a (decode_init\<lparr>dec_op := rv_op_addid, dec_rd := ucast rd,
                            dec_rs1 := ucast rs1, dec_imm := ucast imm12\<rparr>))"

definition asm_sllid :: "assembler \<Rightarrow> u64 \<Rightarrow> u64 \<Rightarrow> u64 \<Rightarrow> (assembler \<times> bool) option" where
  "asm_sllid a rd rs1 shamt6 =
     (if \<not> (uimm_valid 5 rd \<and> uimm_valid 5 rs1 \<and> uimm_valid 6 shamt6) then Some (a, False)
      else add_encoded a (decode_init\<lparr>dec_op := rv_op_sllid, dec_rd := ucast rd,
                            dec_rs1 := ucast rs1, dec_imm := ucast shamt6\<rparr>))"

definition asm_srlid :: "assembler \<Rightarrow> u64 \<Rightarrow> u64 \<Rightarrow> u64 \<Rightarrow> (assembler \<times> bool) option" where
  "asm_srlid a rd rs1 shamt6 =
     (if \<not> (uimm_valid 5 rd \<and> uimm_valid 5 rs1 \<and> uimm_valid 6 shamt6) then Some (a, False)
      else add_encoded a (decode_init\<lparr>dec_op := rv_op_srlid, dec_rd := ucast rd,
                            dec_rs1 := ucast rs1, dec_imm := ucast shamt6\<rparr>))"

definition asm_sraid :: "assembler \<Rightarrow> u64 \<Rightarrow> u64 \<Rightarrow> u64 \<Rightarrow> (assembler \<times> bool) option" where
  "asm_sraid a rd rs1 shamt6 =
     (if \<not> (uimm_valid 5 rd \<and> uimm_valid 5 rs1 \<and> uimm_valid 6 shamt6) then Some (a, False)
      else add_encoded a (decode_init\<lparr>dec_op := rv_op_sraid, dec_rd := ucast rd,
                            dec_rs1 := ucast rs1, dec_imm := ucast shamt6\<rparr>))"

definition asm_addd :: "assembler \<Rightarrow> u64 \<Rightarrow> u64 \<Rightarrow> u64 \<Rightarrow> (assembler \<times> bool) option" where
  "asm_addd a rd rs1 rs2 =
     (if \<not> (uimm_valid 5 rd \<and> uimm_valid 5 rs1 \<and> uimm_valid 5 rs2) then Some (a, False)
      else add_encoded a (decode_init\<lparr>dec_op := rv_op_addd, dec_rd := ucast rd,
                            dec_rs1 := ucast rs1, dec_rs2 := ucast rs2\<rparr>))"

definition asm_subd :: "assembler \<Rightarrow> u64 \<Rightarrow> u64 \<Rightarrow> u64 \<Rightarrow> (assembler \<times> bool) option" where
  "asm_subd a rd rs1 rs2 =
     (if \<not> (uimm_valid 5 rd \<and> uimm_valid 5 rs1 \<and> uimm_valid 5 rs2) then Some (a, False)
      else add_encoded a (decode_init\<lparr>dec_op := rv_op_subd, dec_rd := ucast rd,
                            dec_rs1 := ucast rs1, dec_rs2 := ucast rs2\<rparr>))"

definition asm_slld :: "assembler \<Rightarrow> u64 \<Rightarrow> u64 \<Rightarrow> u64 \<Rightarrow> (assembler \<times> bool) option" where
  "asm_slld a rd rs1 rs2 =
     (if \<not> (uimm_valid 5 rd \<and> uimm_valid 5 rs1 \<and> uimm_valid 5 rs2) then Some (a, False)
      else add_encoded a (decode_init\<lparr>dec_op := rv_op_slld, dec_rd := ucast rd,
                            dec_rs1 := ucast rs1, dec_rs2 := ucast rs2\<rparr>))"

definition asm_srld :: "assembler \<Rightarrow> u64 \<Rightarrow> u64 \<Rightarrow> u64 \<Rightarrow> (assembler \<times> bool) option" where
  "asm_srld a rd rs1 rs2 =
     (if \<not> (uimm_valid 5 rd \<and> uimm_valid 5 rs1 \<and> uimm_valid 5 rs2) then Some (a, False)
      else add_encoded a (decode_init\<lparr>dec_op := rv_op_srld, dec_rd := ucast rd,
                            dec_rs1 := ucast rs1, dec_rs2 := ucast rs2\<rparr>))"

definition asm_srad :: "assembler \<Rightarrow> u64 \<Rightarrow> u64 \<Rightarrow> u64 \<Rightarrow> (assembler \<times> bool) option" where
  "asm_srad a rd rs1 rs2 =
     (if \<not> (uimm_valid 5 rd \<and> uimm_valid 5 rs1 \<and> uimm_valid 5 rs2) then Some (a, False)
      else add_encoded a (decode_init\<lparr>dec_op := rv_op_srad, dec_rd := ucast rd,
                            dec_rs1 := ucast rs1, dec_rs2 := ucast rs2\<rparr>))"

definition asm_mul :: "assembler \<Rightarrow> u64 \<Rightarrow> u64 \<Rightarrow> u64 \<Rightarrow> (assembler \<times> bool) option" where
  "asm_mul a rd rs1 rs2 =
     (if \<not> (uimm_valid 5 rd \<and> uimm_valid 5 rs1 \<and> uimm_valid 5 rs2) then Some (a, False)
      else add_encoded a (decode_init\<lparr>dec_op := rv_op_mul, dec_rd := ucast rd,
                            dec_rs1 := ucast rs1, dec_rs2 := ucast rs2\<rparr>))"

definition asm_mulh :: "assembler \<Rightarrow> u64 \<Rightarrow> u64 \<Rightarrow> u64 \<Rightarrow> (assembler \<times> bool) option" where
  "asm_mulh a rd rs1 rs2 =
     (if \<not> (uimm_valid 5 rd \<and> uimm_valid 5 rs1 \<and> uimm_valid 5 rs2) then Some (a, False)
      else add_encoded a (decode_init\<lparr>dec_op := rv_op_mulh, dec_rd := ucast rd,
                            dec_rs1 := ucast rs1, dec_rs2 := ucast rs2\<rparr>))"

definition asm_mulhsu :: "assembler \<Rightarrow> u64 \<Rightarrow> u64 \<Rightarrow> u64 \<Rightarrow> (assembler \<times> bool) option" where
  "asm_mulhsu a rd rs1 rs2 =
     (if \<not> (uimm_valid 5 rd \<and> uimm_valid 5 rs1 \<and> uimm_valid 5 rs2) then Some (a, False)
      else add_encoded a (decode_init\<lparr>dec_op := rv_op_mulhsu, dec_rd := ucast rd,
                            dec_rs1 := ucast rs1, dec_rs2 := ucast rs2\<rparr>))"

definition asm_mulhu :: "assembler \<Rightarrow> u64 \<Rightarrow> u64 \<Rightarrow> u64 \<Rightarrow> (assembler \<times> bool) option" where
  "asm_mulhu a rd rs1 rs2 =
     (if \<not> (uimm_valid 5 rd \<and> uimm_valid 5 rs1 \<and> uimm_valid 5 rs2) then Some (a, False)
      else add_encoded a (decode_init\<lparr>dec_op := rv_op_mulhu, dec_rd := ucast rd,
                            dec_rs1 := ucast rs1, dec_rs2 := ucast rs2\<rparr>))"

definition asm_div :: "assembler \<Rightarrow> u64 \<Rightarrow> u64 \<Rightarrow> u64 \<Rightarrow> (assembler \<times> bool) option" where
  "asm_div a rd rs1 rs2 =
     (if \<not> (uimm_valid 5 rd \<and> uimm_valid 5 rs1 \<and> uimm_valid 5 rs2) then Some (a, False)
      else add_encoded a (decode_init\<lparr>dec_op := rv_op_div, dec_rd := ucast rd,
                            dec_rs1 := ucast rs1, dec_rs2 := ucast rs2\<rparr>))"

definition asm_divu :: "assembler \<Rightarrow> u64 \<Rightarrow> u64 \<Rightarrow> u64 \<Rightarrow> (assembler \<times> bool) option" where
  "asm_divu a rd rs1 rs2 =
     (if \<not> (uimm_valid 5 rd \<and> uimm_valid 5 rs1 \<and> uimm_valid 5 rs2) then Some (a, False)
      else add_encoded a (decode_init\<lparr>dec_op := rv_op_divu, dec_rd := ucast rd,
                            dec_rs1 := ucast rs1, dec_rs2 := ucast rs2\<rparr>))"

definition asm_rem :: "assembler \<Rightarrow> u64 \<Rightarrow> u64 \<Rightarrow> u64 \<Rightarrow> (assembler \<times> bool) option" where
  "asm_rem a rd rs1 rs2 =
     (if \<not> (uimm_valid 5 rd \<and> uimm_valid 5 rs1 \<and> uimm_valid 5 rs2) then Some (a, False)
      else add_encoded a (decode_init\<lparr>dec_op := rv_op_rem, dec_rd := ucast rd,
                            dec_rs1 := ucast rs1, dec_rs2 := ucast rs2\<rparr>))"

definition asm_remu :: "assembler \<Rightarrow> u64 \<Rightarrow> u64 \<Rightarrow> u64 \<Rightarrow> (assembler \<times> bool) option" where
  "asm_remu a rd rs1 rs2 =
     (if \<not> (uimm_valid 5 rd \<and> uimm_valid 5 rs1 \<and> uimm_valid 5 rs2) then Some (a, False)
      else add_encoded a (decode_init\<lparr>dec_op := rv_op_remu, dec_rd := ucast rd,
                            dec_rs1 := ucast rs1, dec_rs2 := ucast rs2\<rparr>))"

definition asm_mulw :: "assembler \<Rightarrow> u64 \<Rightarrow> u64 \<Rightarrow> u64 \<Rightarrow> (assembler \<times> bool) option" where
  "asm_mulw a rd rs1 rs2 =
     (if \<not> (uimm_valid 5 rd \<and> uimm_valid 5 rs1 \<and> uimm_valid 5 rs2) then Some (a, False)
      else add_encoded a (decode_init\<lparr>dec_op := rv_op_mulw, dec_rd := ucast rd,
                            dec_rs1 := ucast rs1, dec_rs2 := ucast rs2\<rparr>))"

definition asm_divw :: "assembler \<Rightarrow> u64 \<Rightarrow> u64 \<Rightarrow> u64 \<Rightarrow> (assembler \<times> bool) option" where
  "asm_divw a rd rs1 rs2 =
     (if \<not> (uimm_valid 5 rd \<and> uimm_valid 5 rs1 \<and> uimm_valid 5 rs2) then Some (a, False)
      else add_encoded a (decode_init\<lparr>dec_op := rv_op_divw, dec_rd := ucast rd,
                            dec_rs1 := ucast rs1, dec_rs2 := ucast rs2\<rparr>))"

definition asm_divuw :: "assembler \<Rightarrow> u64 \<Rightarrow> u64 \<Rightarrow> u64 \<Rightarrow> (assembler \<times> bool) option" where
  "asm_divuw a rd rs1 rs2 =
     (if \<not> (uimm_valid 5 rd \<and> uimm_valid 5 rs1 \<and> uimm_valid 5 rs2) then Some (a, False)
      else add_encoded a (decode_init\<lparr>dec_op := rv_op_divuw, dec_rd := ucast rd,
                            dec_rs1 := ucast rs1, dec_rs2 := ucast rs2\<rparr>))"

definition asm_remw :: "assembler \<Rightarrow> u64 \<Rightarrow> u64 \<Rightarrow> u64 \<Rightarrow> (assembler \<times> bool) option" where
  "asm_remw a rd rs1 rs2 =
     (if \<not> (uimm_valid 5 rd \<and> uimm_valid 5 rs1 \<and> uimm_valid 5 rs2) then Some (a, False)
      else add_encoded a (decode_init\<lparr>dec_op := rv_op_remw, dec_rd := ucast rd,
                            dec_rs1 := ucast rs1, dec_rs2 := ucast rs2\<rparr>))"

definition asm_remuw :: "assembler \<Rightarrow> u64 \<Rightarrow> u64 \<Rightarrow> u64 \<Rightarrow> (assembler \<times> bool) option" where
  "asm_remuw a rd rs1 rs2 =
     (if \<not> (uimm_valid 5 rd \<and> uimm_valid 5 rs1 \<and> uimm_valid 5 rs2) then Some (a, False)
      else add_encoded a (decode_init\<lparr>dec_op := rv_op_remuw, dec_rd := ucast rd,
                            dec_rs1 := ucast rs1, dec_rs2 := ucast rs2\<rparr>))"

definition asm_muld :: "assembler \<Rightarrow> u64 \<Rightarrow> u64 \<Rightarrow> u64 \<Rightarrow> (assembler \<times> bool) option" where
  "asm_muld a rd rs1 rs2 =
     (if \<not> (uimm_valid 5 rd \<and> uimm_valid 5 rs1 \<and> uimm_valid 5 rs2) then Some (a, False)
      else add_encoded a (decode_init\<lparr>dec_op := rv_op_muld, dec_rd := ucast rd,
                            dec_rs1 := ucast rs1, dec_rs2 := ucast rs2\<rparr>))"

definition asm_divd :: "assembler \<Rightarrow> u64 \<Rightarrow> u64 \<Rightarrow> u64 \<Rightarrow> (assembler \<times> bool) option" where
  "asm_divd a rd rs1 rs2 =
     (if \<not> (uimm_valid 5 rd \<and> uimm_valid 5 rs1 \<and> uimm_valid 5 rs2) then Some (a, False)
      else add_encoded a (decode_init\<lparr>dec_op := rv_op_divd, dec_rd := ucast rd,
                            dec_rs1 := ucast rs1, dec_rs2 := ucast rs2\<rparr>))"

definition asm_divud :: "assembler \<Rightarrow> u64 \<Rightarrow> u64 \<Rightarrow> u64 \<Rightarrow> (assembler \<times> bool) option" where
  "asm_divud a rd rs1 rs2 =
     (if \<not> (uimm_valid 5 rd \<and> uimm_valid 5 rs1 \<and> uimm_valid 5 rs2) then Some (a, False)
      else add_encoded a (decode_init\<lparr>dec_op := rv_op_divud, dec_rd := ucast rd,
                            dec_rs1 := ucast rs1, dec_rs2 := ucast rs2\<rparr>))"

definition asm_remd :: "assembler \<Rightarrow> u64 \<Rightarrow> u64 \<Rightarrow> u64 \<Rightarrow> (assembler \<times> bool) option" where
  "asm_remd a rd rs1 rs2 =
     (if \<not> (uimm_valid 5 rd \<and> uimm_valid 5 rs1 \<and> uimm_valid 5 rs2) then Some (a, False)
      else add_encoded a (decode_init\<lparr>dec_op := rv_op_remd, dec_rd := ucast rd,
                            dec_rs1 := ucast rs1, dec_rs2 := ucast rs2\<rparr>))"

definition asm_remud :: "assembler \<Rightarrow> u64 \<Rightarrow> u64 \<Rightarrow> u64 \<Rightarrow> (assembler \<times> bool) option" where
  "asm_remud a rd rs1 rs2 =
     (if \<not> (uimm_valid 5 rd \<and> uimm_valid 5 rs1 \<and> uimm_valid 5 rs2) then Some (a, False)
      else add_encoded a (decode_init\<lparr>dec_op := rv_op_remud, dec_rd := ucast rd,
                            dec_rs1 := ucast rs1, dec_rs2 := ucast rs2\<rparr>))"

definition asm_lr_w :: "assembler \<Rightarrow> u64 \<Rightarrow> u64 \<Rightarrow> u64 \<Rightarrow> u64 \<Rightarrow> (assembler \<times> bool) option" where
  "asm_lr_w a rd rs1 aq rl =
     (if \<not> (uimm_valid 5 rd \<and> uimm_valid 5 rs1 \<and> uimm_valid 1 aq \<and> uimm_valid 1 rl) then Some (a, False)
      else add_encoded a (decode_init\<lparr>dec_op := rv_op_lr_w, dec_rd := ucast rd,
                            dec_rs1 := ucast rs1, dec_aq := ucast aq, dec_rl := ucast rl\<rparr>))"

definition asm_sc_w :: "assembler \<Rightarrow> u64 \<Rightarrow> u64 \<Rightarrow> u64 \<Rightarrow> u64 \<Rightarrow> u64 \<Rightarrow> (assembler \<times> bool) option" where
  "asm_sc_w a rd rs1 rs2 aq rl =
     (if \<not> (uimm_valid 5 rd \<and> uimm_valid 5 rs1 \<and> uimm_valid 5 rs2 \<and> uimm_valid 1 aq \<and> uimm_valid 1 rl) then Some (a, False)
      else add_encoded a (decode_init\<lparr>dec_op := rv_op_sc_w, dec_rd := ucast rd,
                            dec_rs1 := ucast rs1, dec_rs2 := ucast rs2, dec_aq := ucast aq,
                            dec_rl := ucast rl\<rparr>))"

definition asm_amoswap_w :: "assembler \<Rightarrow> u64 \<Rightarrow> u64 \<Rightarrow> u64 \<Rightarrow> u64 \<Rightarrow> u64 \<Rightarrow> (assembler \<times> bool) option" where
  "asm_amoswap_w a rd rs1 rs2 aq rl =
     (if \<not> (uimm_valid 5 rd \<and> uimm_valid 5 rs1 \<and> uimm_valid 5 rs2 \<and> uimm_valid 1 aq \<and> uimm_valid 1 rl) then Some (a, False)
      else add_encoded a (decode_init\<lparr>dec_op := rv_op_amoswap_w, dec_rd := ucast rd,
                            dec_rs1 := ucast rs1, dec_rs2 := ucast rs2, dec_aq := ucast aq,
                            dec_rl := ucast rl\<rparr>))"

definition asm_amoadd_w :: "assembler \<Rightarrow> u64 \<Rightarrow> u64 \<Rightarrow> u64 \<Rightarrow> u64 \<Rightarrow> u64 \<Rightarrow> (assembler \<times> bool) option" where
  "asm_amoadd_w a rd rs1 rs2 aq rl =
     (if \<not> (uimm_valid 5 rd \<and> uimm_valid 5 rs1 \<and> uimm_valid 5 rs2 \<and> uimm_valid 1 aq \<and> uimm_valid 1 rl) then Some (a, False)
      else add_encoded a (decode_init\<lparr>dec_op := rv_op_amoadd_w, dec_rd := ucast rd,
                            dec_rs1 := ucast rs1, dec_rs2 := ucast rs2, dec_aq := ucast aq,
                            dec_rl := ucast rl\<rparr>))"

definition asm_amoxor_w :: "assembler \<Rightarrow> u64 \<Rightarrow> u64 \<Rightarrow> u64 \<Rightarrow> u64 \<Rightarrow> u64 \<Rightarrow> (assembler \<times> bool) option" where
  "asm_amoxor_w a rd rs1 rs2 aq rl =
     (if \<not> (uimm_valid 5 rd \<and> uimm_valid 5 rs1 \<and> uimm_valid 5 rs2 \<and> uimm_valid 1 aq \<and> uimm_valid 1 rl) then Some (a, False)
      else add_encoded a (decode_init\<lparr>dec_op := rv_op_amoxor_w, dec_rd := ucast rd,
                            dec_rs1 := ucast rs1, dec_rs2 := ucast rs2, dec_aq := ucast aq,
                            dec_rl := ucast rl\<rparr>))"

definition asm_amoor_w :: "assembler \<Rightarrow> u64 \<Rightarrow> u64 \<Rightarrow> u64 \<Rightarrow> u64 \<Rightarrow> u64 \<Rightarrow> (assembler \<times> bool) option" where
  "asm_amoor_w a rd rs1 rs2 aq rl =
     (if \<not> (uimm_valid 5 rd \<and> uimm_valid 5 rs1 \<and> uimm_valid 5 rs2 \<and> uimm_valid 1 aq \<and> uimm_valid 1 rl) then Some (a, False)
      else add_encoded a (decode_init\<lparr>dec_op := rv_op_amoor_w, dec_rd := ucast rd,
                            dec_rs1 := ucast rs1, dec_rs2 := ucast rs2, dec_aq := ucast aq,
                            dec_rl := ucast rl\<rparr>))"

definition asm_amoand_w :: "assembler \<Rightarrow> u64 \<Rightarrow> u64 \<Rightarrow> u64 \<Rightarrow> u64 \<Rightarrow> u64 \<Rightarrow> (assembler \<times> bool) option" where
  "asm_amoand_w a rd rs1 rs2 aq rl =
     (if \<not> (uimm_valid 5 rd \<and> uimm_valid 5 rs1 \<and> uimm_valid 5 rs2 \<and> uimm_valid 1 aq \<and> uimm_valid 1 rl) then Some (a, False)
      else add_encoded a (decode_init\<lparr>dec_op := rv_op_amoand_w, dec_rd := ucast rd,
                            dec_rs1 := ucast rs1, dec_rs2 := ucast rs2, dec_aq := ucast aq,
                            dec_rl := ucast rl\<rparr>))"

definition asm_amomin_w :: "assembler \<Rightarrow> u64 \<Rightarrow> u64 \<Rightarrow> u64 \<Rightarrow> u64 \<Rightarrow> u64 \<Rightarrow> (assembler \<times> bool) option" where
  "asm_amomin_w a rd rs1 rs2 aq rl =
     (if \<not> (uimm_valid 5 rd \<and> uimm_valid 5 rs1 \<and> uimm_valid 5 rs2 \<and> uimm_valid 1 aq \<and> uimm_valid 1 rl) then Some (a, False)
      else add_encoded a (decode_init\<lparr>dec_op := rv_op_amomin_w, dec_rd := ucast rd,
                            dec_rs1 := ucast rs1, dec_rs2 := ucast rs2, dec_aq := ucast aq,
                            dec_rl := ucast rl\<rparr>))"

definition asm_amomax_w :: "assembler \<Rightarrow> u64 \<Rightarrow> u64 \<Rightarrow> u64 \<Rightarrow> u64 \<Rightarrow> u64 \<Rightarrow> (assembler \<times> bool) option" where
  "asm_amomax_w a rd rs1 rs2 aq rl =
     (if \<not> (uimm_valid 5 rd \<and> uimm_valid 5 rs1 \<and> uimm_valid 5 rs2 \<and> uimm_valid 1 aq \<and> uimm_valid 1 rl) then Some (a, False)
      else add_encoded a (decode_init\<lparr>dec_op := rv_op_amomax_w, dec_rd := ucast rd,
                            dec_rs1 := ucast rs1, dec_rs2 := ucast rs2, dec_aq := ucast aq,
                            dec_rl := ucast rl\<rparr>))"

definition asm_amominu_w :: "assembler \<Rightarrow> u64 \<Rightarrow> u64 \<Rightarrow> u64 \<Rightarrow> u64 \<Rightarrow> u64 \<Rightarrow> (assembler \<times> bool) option" where
  "asm_amominu_w a rd rs1 rs2 aq rl =
     (if \<not> (uimm_valid 5 rd \<and> uimm_valid 5 rs1 \<and> uimm_valid 5 rs2 \<and> uimm_valid 1 aq \<and> uimm_valid 1 rl) then Some (a, False)
      else add_encoded a (decode_init\<lparr>dec_op := rv_op_amominu_w, dec_rd := ucast rd,
                            dec_rs1 := ucast rs1, dec_rs2 := ucast rs2, dec_aq := ucast aq,
                            dec_rl := ucast rl\<rparr>))"

definition asm_amomaxu_w :: "assembler \<Rightarrow> u64 \<Rightarrow> u64 \<Rightarrow> u64 \<Rightarrow> u64 \<Rightarrow> u64 \<Rightarrow> (assembler \<times> bool) option" where
  "asm_amomaxu_w a rd rs1 rs2 aq rl =
     (if \<not> (uimm_valid 5 rd \<and> uimm_valid 5 rs1 \<and> uimm_valid 5 rs2 \<and> uimm_valid 1 aq \<and> uimm_valid 1 rl) then Some (a, False)
      else add_encoded a (decode_init\<lparr>dec_op := rv_op_amomaxu_w, dec_rd := ucast rd,
                            dec_rs1 := ucast rs1, dec_rs2 := ucast rs2, dec_aq := ucast aq,
                            dec_rl := ucast rl\<rparr>))"

definition asm_lr_d :: "assembler \<Rightarrow> u64 \<Rightarrow> u64 \<Rightarrow> u64 \<Rightarrow> u64 \<Rightarrow> (assembler \<times> bool) option" where
  "asm_lr_d a rd rs1 aq rl =
     (if \<not> (uimm_valid 5 rd \<and> uimm_valid 5 rs1 \<and> uimm_valid 1 aq \<and> uimm_valid 1 rl) then Some (a, False)
      else add_encoded a (decode_init\<lparr>dec_op := rv_op_lr_d, dec_rd := ucast rd,
                            dec_rs1 := ucast rs1, dec_aq := ucast aq, dec_rl := ucast rl\<rparr>))"

definition asm_sc_d :: "assembler \<Rightarrow> u64 \<Rightarrow> u64 \<Rightarrow> u64 \<Rightarrow> u64 \<Rightarrow> u64 \<Rightarrow> (assembler \<times> bool) option" where
  "asm_sc_d a rd rs1 rs2 aq rl =
     (if \<not> (uimm_valid 5 rd \<and> uimm_valid 5 rs1 \<and> uimm_valid 5 rs2 \<and> uimm_valid 1 aq \<and> uimm_valid 1 rl) then Some (a, False)
      else add_encoded a (decode_init\<lparr>dec_op := rv_op_sc_d, dec_rd := ucast rd,
                            dec_rs1 := ucast rs1, dec_rs2 := ucast rs2, dec_aq := ucast aq,
                            dec_rl := ucast rl\<rparr>))"

definition asm_amoswap_d :: "assembler \<Rightarrow> u64 \<Rightarrow> u64 \<Rightarrow> u64 \<Rightarrow> u64 \<Rightarrow> u64 \<Rightarrow> (assembler \<times> bool) option" where
  "asm_amoswap_d a rd rs1 rs2 aq rl =
     (if \<not> (uimm_valid 5 rd \<and> uimm_valid 5 rs1 \<and> uimm_valid 5 rs2 \<and> uimm_valid 1 aq \<and> uimm_valid 1 rl) then Some (a, False)
      else add_encoded a (decode_init\<lparr>dec_op := rv_op_amoswap_d, dec_rd := ucast rd,
                            dec_rs1 := ucast rs1, dec_rs2 := ucast rs2, dec_aq := ucast aq,
                            dec_rl := ucast rl\<rparr>))"

definition asm_amoadd_d :: "assembler \<Rightarrow> u64 \<Rightarrow> u64 \<Rightarrow> u64 \<Rightarrow> u64 \<Rightarrow> u64 \<Rightarrow> (assembler \<times> bool) option" where
  "asm_amoadd_d a rd rs1 rs2 aq rl =
     (if \<not> (uimm_valid 5 rd \<and> uimm_valid 5 rs1 \<and> uimm_valid 5 rs2 \<and> uimm_valid 1 aq \<and> uimm_valid 1 rl) then Some (a, False)
      else add_encoded a (decode_init\<lparr>dec_op := rv_op_amoadd_d, dec_rd := ucast rd,
                            dec_rs1 := ucast rs1, dec_rs2 := ucast rs2, dec_aq := ucast aq,
                            dec_rl := ucast rl\<rparr>))"

definition asm_amoxor_d :: "assembler \<Rightarrow> u64 \<Rightarrow> u64 \<Rightarrow> u64 \<Rightarrow> u64 \<Rightarrow> u64 \<Rightarrow> (assembler \<times> bool) option" where
  "asm_amoxor_d a rd rs1 rs2 aq rl =
     (if \<not> (uimm_valid 5 rd \<and> uimm_valid 5 rs1 \<and> uimm_valid 5 rs2 \<and> uimm_valid 1 aq \<and> uimm_valid 1 rl) then Some (a, False)
      else add_encoded a (decode_init\<lparr>dec_op := rv_op_amoxor_d, dec_rd := ucast rd,
                            dec_rs1 := ucast rs1, dec_rs2 := ucast rs2, dec_aq := ucast aq,
                            dec_rl := ucast rl\<rparr>))"

definition asm_amoor_d :: "assembler \<Rightarrow> u64 \<Rightarrow> u64 \<Rightarrow> u64 \<Rightarrow> u64 \<Rightarrow> u64 \<Rightarrow> (assembler \<times> bool) option" where
  "asm_amoor_d a rd rs1 rs2 aq rl =
     (if \<not> (uimm_valid 5 rd \<and> uimm_valid 5 rs1 \<and> uimm_valid 5 rs2 \<and> uimm_valid 1 aq \<and> uimm_valid 1 rl) then Some (a, False)
      else add_encoded a (decode_init\<lparr>dec_op := rv_op_amoor_d, dec_rd := ucast rd,
                            dec_rs1 := ucast rs1, dec_rs2 := ucast rs2, dec_aq := ucast aq,
                            dec_rl := ucast rl\<rparr>))"

definition asm_amoand_d :: "assembler \<Rightarrow> u64 \<Rightarrow> u64 \<Rightarrow> u64 \<Rightarrow> u64 \<Rightarrow> u64 \<Rightarrow> (assembler \<times> bool) option" where
  "asm_amoand_d a rd rs1 rs2 aq rl =
     (if \<not> (uimm_valid 5 rd \<and> uimm_valid 5 rs1 \<and> uimm_valid 5 rs2 \<and> uimm_valid 1 aq \<and> uimm_valid 1 rl) then Some (a, False)
      else add_encoded a (decode_init\<lparr>dec_op := rv_op_amoand_d, dec_rd := ucast rd,
                            dec_rs1 := ucast rs1, dec_rs2 := ucast rs2, dec_aq := ucast aq,
                            dec_rl := ucast rl\<rparr>))"

definition asm_amomin_d :: "assembler \<Rightarrow> u64 \<Rightarrow> u64 \<Rightarrow> u64 \<Rightarrow> u64 \<Rightarrow> u64 \<Rightarrow> (assembler \<times> bool) option" where
  "asm_amomin_d a rd rs1 rs2 aq rl =
     (if \<not> (uimm_valid 5 rd \<and> uimm_valid 5 rs1 \<and> uimm_valid 5 rs2 \<and> uimm_valid 1 aq \<and> uimm_valid 1 rl) then Some (a, False)
      else add_encoded a (decode_init\<lparr>dec_op := rv_op_amomin_d, dec_rd := ucast rd,
                            dec_rs1 := ucast rs1, dec_rs2 := ucast rs2, dec_aq := ucast aq,
                            dec_rl := ucast rl\<rparr>))"

definition asm_amomax_d :: "assembler \<Rightarrow> u64 \<Rightarrow> u64 \<Rightarrow> u64 \<Rightarrow> u64 \<Rightarrow> u64 \<Rightarrow> (assembler \<times> bool) option" where
  "asm_amomax_d a rd rs1 rs2 aq rl =
     (if \<not> (uimm_valid 5 rd \<and> uimm_valid 5 rs1 \<and> uimm_valid 5 rs2 \<and> uimm_valid 1 aq \<and> uimm_valid 1 rl) then Some (a, False)
      else add_encoded a (decode_init\<lparr>dec_op := rv_op_amomax_d, dec_rd := ucast rd,
                            dec_rs1 := ucast rs1, dec_rs2 := ucast rs2, dec_aq := ucast aq,
                            dec_rl := ucast rl\<rparr>))"

definition asm_amominu_d :: "assembler \<Rightarrow> u64 \<Rightarrow> u64 \<Rightarrow> u64 \<Rightarrow> u64 \<Rightarrow> u64 \<Rightarrow> (assembler \<times> bool) option" where
  "asm_amominu_d a rd rs1 rs2 aq rl =
     (if \<not> (uimm_valid 5 rd \<and> uimm_valid 5 rs1 \<and> uimm_valid 5 rs2 \<and> uimm_valid 1 aq \<and> uimm_valid 1 rl) then Some (a, False)
      else add_encoded a (decode_init\<lparr>dec_op := rv_op_amominu_d, dec_rd := ucast rd,
                            dec_rs1 := ucast rs1, dec_rs2 := ucast rs2, dec_aq := ucast aq,
                            dec_rl := ucast rl\<rparr>))"

definition asm_amomaxu_d :: "assembler \<Rightarrow> u64 \<Rightarrow> u64 \<Rightarrow> u64 \<Rightarrow> u64 \<Rightarrow> u64 \<Rightarrow> (assembler \<times> bool) option" where
  "asm_amomaxu_d a rd rs1 rs2 aq rl =
     (if \<not> (uimm_valid 5 rd \<and> uimm_valid 5 rs1 \<and> uimm_valid 5 rs2 \<and> uimm_valid 1 aq \<and> uimm_valid 1 rl) then Some (a, False)
      else add_encoded a (decode_init\<lparr>dec_op := rv_op_amomaxu_d, dec_rd := ucast rd,
                            dec_rs1 := ucast rs1, dec_rs2 := ucast rs2, dec_aq := ucast aq,
                            dec_rl := ucast rl\<rparr>))"

definition asm_lr_q :: "assembler \<Rightarrow> u64 \<Rightarrow> u64 \<Rightarrow> u64 \<Rightarrow> u64 \<Rightarrow> (assembler \<times> bool) option" where
  "asm_lr_q a rd rs1 aq rl =
     (if \<not> (uimm_valid 5 rd \<and> uimm_valid 5 rs1 \<and> uimm_valid 1 aq \<and> uimm_valid 1 rl) then Some (a, False)
      else add_encoded a (decode_init\<lparr>dec_op := rv_op_lr_q, dec_rd := ucast rd,
                            dec_rs1 := ucast rs1, dec_aq := ucast aq, dec_rl := ucast rl\<rparr>))"

definition asm_sc_q :: "assembler \<Rightarrow> u64 \<Rightarrow> u64 \<Rightarrow> u64 \<Rightarrow> u64 \<Rightarrow> u64 \<Rightarrow> (assembler \<times> bool) option" where
  "asm_sc_q a rd rs1 rs2 aq rl =
     (if \<not> (uimm_valid 5 rd \<and> uimm_valid 5 rs1 \<and> uimm_valid 5 rs2 \<and> uimm_valid 1 aq \<and> uimm_valid 1 rl) then Some (a, False)
      else add_encoded a (decode_init\<lparr>dec_op := rv_op_sc_q, dec_rd := ucast rd,
                            dec_rs1 := ucast rs1, dec_rs2 := ucast rs2, dec_aq := ucast aq,
                            dec_rl := ucast rl\<rparr>))"

definition asm_amoswap_q :: "assembler \<Rightarrow> u64 \<Rightarrow> u64 \<Rightarrow> u64 \<Rightarrow> u64 \<Rightarrow> u64 \<Rightarrow> (assembler \<times> bool) option" where
  "asm_amoswap_q a rd rs1 rs2 aq rl =
     (if \<not> (uimm_valid 5 rd \<and> uimm_valid 5 rs1 \<and> uimm_valid 5 rs2 \<and> uimm_valid 1 aq \<and> uimm_valid 1 rl) then Some (a, False)
      else add_encoded a (decode_init\<lparr>dec_op := rv_op_amoswap_q, dec_rd := ucast rd,
                            dec_rs1 := ucast rs1, dec_rs2 := ucast rs2, dec_aq := ucast aq,
                            dec_rl := ucast rl\<rparr>))"

definition asm_amoadd_q :: "assembler \<Rightarrow> u64 \<Rightarrow> u64 \<Rightarrow> u64 \<Rightarrow> u64 \<Rightarrow> u64 \<Rightarrow> (assembler \<times> bool) option" where
  "asm_amoadd_q a rd rs1 rs2 aq rl =
     (if \<not> (uimm_valid 5 rd \<and> uimm_valid 5 rs1 \<and> uimm_valid 5 rs2 \<and> uimm_valid 1 aq \<and> uimm_valid 1 rl) then Some (a, False)
      else add_encoded a (decode_init\<lparr>dec_op := rv_op_amoadd_q, dec_rd := ucast rd,
                            dec_rs1 := ucast rs1, dec_rs2 := ucast rs2, dec_aq := ucast aq,
                            dec_rl := ucast rl\<rparr>))"

definition asm_amoxor_q :: "assembler \<Rightarrow> u64 \<Rightarrow> u64 \<Rightarrow> u64 \<Rightarrow> u64 \<Rightarrow> u64 \<Rightarrow> (assembler \<times> bool) option" where
  "asm_amoxor_q a rd rs1 rs2 aq rl =
     (if \<not> (uimm_valid 5 rd \<and> uimm_valid 5 rs1 \<and> uimm_valid 5 rs2 \<and> uimm_valid 1 aq \<and> uimm_valid 1 rl) then Some (a, False)
      else add_encoded a (decode_init\<lparr>dec_op := rv_op_amoxor_q, dec_rd := ucast rd,
                            dec_rs1 := ucast rs1, dec_rs2 := ucast rs2, dec_aq := ucast aq,
                            dec_rl := ucast rl\<rparr>))"

definition asm_amoor_q :: "assembler \<Rightarrow> u64 \<Rightarrow> u64 \<Rightarrow> u64 \<Rightarrow> u64 \<Rightarrow> u64 \<Rightarrow> (assembler \<times> bool) option" where
  "asm_amoor_q a rd rs1 rs2 aq rl =
     (if \<not> (uimm_valid 5 rd \<and> uimm_valid 5 rs1 \<and> uimm_valid 5 rs2 \<and> uimm_valid 1 aq \<and> uimm_valid 1 rl) then Some (a, False)
      else add_encoded a (decode_init\<lparr>dec_op := rv_op_amoor_q, dec_rd := ucast rd,
                            dec_rs1 := ucast rs1, dec_rs2 := ucast rs2, dec_aq := ucast aq,
                            dec_rl := ucast rl\<rparr>))"

definition asm_amoand_q :: "assembler \<Rightarrow> u64 \<Rightarrow> u64 \<Rightarrow> u64 \<Rightarrow> u64 \<Rightarrow> u64 \<Rightarrow> (assembler \<times> bool) option" where
  "asm_amoand_q a rd rs1 rs2 aq rl =
     (if \<not> (uimm_valid 5 rd \<and> uimm_valid 5 rs1 \<and> uimm_valid 5 rs2 \<and> uimm_valid 1 aq \<and> uimm_valid 1 rl) then Some (a, False)
      else add_encoded a (decode_init\<lparr>dec_op := rv_op_amoand_q, dec_rd := ucast rd,
                            dec_rs1 := ucast rs1, dec_rs2 := ucast rs2, dec_aq := ucast aq,
                            dec_rl := ucast rl\<rparr>))"

definition asm_amomin_q :: "assembler \<Rightarrow> u64 \<Rightarrow> u64 \<Rightarrow> u64 \<Rightarrow> u64 \<Rightarrow> u64 \<Rightarrow> (assembler \<times> bool) option" where
  "asm_amomin_q a rd rs1 rs2 aq rl =
     (if \<not> (uimm_valid 5 rd \<and> uimm_valid 5 rs1 \<and> uimm_valid 5 rs2 \<and> uimm_valid 1 aq \<and> uimm_valid 1 rl) then Some (a, False)
      else add_encoded a (decode_init\<lparr>dec_op := rv_op_amomin_q, dec_rd := ucast rd,
                            dec_rs1 := ucast rs1, dec_rs2 := ucast rs2, dec_aq := ucast aq,
                            dec_rl := ucast rl\<rparr>))"

definition asm_amomax_q :: "assembler \<Rightarrow> u64 \<Rightarrow> u64 \<Rightarrow> u64 \<Rightarrow> u64 \<Rightarrow> u64 \<Rightarrow> (assembler \<times> bool) option" where
  "asm_amomax_q a rd rs1 rs2 aq rl =
     (if \<not> (uimm_valid 5 rd \<and> uimm_valid 5 rs1 \<and> uimm_valid 5 rs2 \<and> uimm_valid 1 aq \<and> uimm_valid 1 rl) then Some (a, False)
      else add_encoded a (decode_init\<lparr>dec_op := rv_op_amomax_q, dec_rd := ucast rd,
                            dec_rs1 := ucast rs1, dec_rs2 := ucast rs2, dec_aq := ucast aq,
                            dec_rl := ucast rl\<rparr>))"

definition asm_amominu_q :: "assembler \<Rightarrow> u64 \<Rightarrow> u64 \<Rightarrow> u64 \<Rightarrow> u64 \<Rightarrow> u64 \<Rightarrow> (assembler \<times> bool) option" where
  "asm_amominu_q a rd rs1 rs2 aq rl =
     (if \<not> (uimm_valid 5 rd \<and> uimm_valid 5 rs1 \<and> uimm_valid 5 rs2 \<and> uimm_valid 1 aq \<and> uimm_valid 1 rl) then Some (a, False)
      else add_encoded a (decode_init\<lparr>dec_op := rv_op_amominu_q, dec_rd := ucast rd,
                            dec_rs1 := ucast rs1, dec_rs2 := ucast rs2, dec_aq := ucast aq,
                            dec_rl := ucast rl\<rparr>))"

definition asm_amomaxu_q :: "assembler \<Rightarrow> u64 \<Rightarrow> u64 \<Rightarrow> u64 \<Rightarrow> u64 \<Rightarrow> u64 \<Rightarrow> (assembler \<times> bool) option" where
  "asm_amomaxu_q a rd rs1 rs2 aq rl =
     (if \<not> (uimm_valid 5 rd \<and> uimm_valid 5 rs1 \<and> uimm_valid 5 rs2 \<and> uimm_valid 1 aq \<and> uimm_valid 1 rl) then Some (a, False)
      else add_encoded a (decode_init\<lparr>dec_op := rv_op_amomaxu_q, dec_rd := ucast rd,
                            dec_rs1 := ucast rs1, dec_rs2 := ucast rs2, dec_aq := ucast aq,
                            dec_rl := ucast rl\<rparr>))"

definition asm_ecall :: "assembler \<Rightarrow> (assembler \<times> bool) option" where
  "asm_ecall a =
     add_encoded a (decode_init\<lparr>dec_op := rv_op_ecall\<rparr>)"

definition asm_ebreak :: "assembler \<Rightarrow> (assembler \<times> bool) option" where
  "asm_ebreak a =
     add_encoded a (decode_init\<lparr>dec_op := rv_op_ebreak\<rparr>)"

definition asm_uret :: "assembler \<Rightarrow> (assembler \<times> bool) option" where
  "asm_uret a =
     add_encoded a (decode_init\<lparr>dec_op := rv_op_uret\<rparr>)"

definition asm_sret :: "assembler \<Rightarrow> (assembler \<times> bool) option" where
  "asm_sret a =
     add_encoded a (decode_init\<lparr>dec_op := rv_op_sret\<rparr>)"

definition asm_hret :: "assembler \<Rightarrow> (assembler \<times> bool) option" where
  "asm_hret a =
     add_encoded a (decode_init\<lparr>dec_op := rv_op_hret\<rparr>)"

definition asm_mret :: "assembler \<Rightarrow> (assembler \<times> bool) option" where
  "asm_mret a =
     add_encoded a (decode_init\<lparr>dec_op := rv_op_mret\<rparr>)"

definition asm_dret :: "assembler \<Rightarrow> (assembler \<times> bool) option" where
  "asm_dret a =
     add_encoded a (decode_init\<lparr>dec_op := rv_op_dret\<rparr>)"

definition asm_sfence_vm :: "assembler \<Rightarrow> u64 \<Rightarrow> (assembler \<times> bool) option" where
  "asm_sfence_vm a rs1 =
     (if \<not> (uimm_valid 5 rs1) then Some (a, False)
      else add_encoded a (decode_init\<lparr>dec_op := rv_op_sfence_vm, dec_rs1 := ucast rs1\<rparr>))"

definition asm_sfence_vma :: "assembler \<Rightarrow> u64 \<Rightarrow> u64 \<Rightarrow> (assembler \<times> bool) option" where
  "asm_sfence_vma a rs1 rs2 =
     (if \<not> (uimm_valid 5 rs1 \<and> uimm_valid 5 rs2) then Some (a, False)
      else add_encoded a (decode_init\<lparr>dec_op := rv_op_sfence_vma, dec_rs1 := ucast rs1,
                            dec_rs2 := ucast rs2\<rparr>))"

definition asm_wfi :: "assembler \<Rightarrow> (assembler \<times> bool) option" where
  "asm_wfi a =
     add_encoded a (decode_init\<lparr>dec_op := rv_op_wfi\<rparr>)"

definition asm_csrrw :: "assembler \<Rightarrow> u64 \<Rightarrow> u64 \<Rightarrow> u64 \<Rightarrow> (assembler \<times> bool) option" where
  "asm_csrrw a rd rs1 csr12 =
     (if \<not> (uimm_valid 5 rd \<and> uimm_valid 5 rs1 \<and> uimm_valid 12 csr12) then Some (a, False)
      else add_encoded a (decode_init\<lparr>dec_op := rv_op_csrrw, dec_rd := ucast rd,
                            dec_rs1 := ucast rs1, dec_imm := ucast csr12\<rparr>))"

definition asm_csrrs :: "assembler \<Rightarrow> u64 \<Rightarrow> u64 \<Rightarrow> u64 \<Rightarrow> (assembler \<times> bool) option" where
  "asm_csrrs a rd rs1 csr12 =
     (if \<not> (uimm_valid 5 rd \<and> uimm_valid 5 rs1 \<and> uimm_valid 12 csr12) then Some (a, False)
      else add_encoded a (decode_init\<lparr>dec_op := rv_op_csrrs, dec_rd := ucast rd,
                            dec_rs1 := ucast rs1, dec_imm := ucast csr12\<rparr>))"

definition asm_csrrc :: "assembler \<Rightarrow> u64 \<Rightarrow> u64 \<Rightarrow> u64 \<Rightarrow> (assembler \<times> bool) option" where
  "asm_csrrc a rd rs1 csr12 =
     (if \<not> (uimm_valid 5 rd \<and> uimm_valid 5 rs1 \<and> uimm_valid 12 csr12) then Some (a, False)
      else add_encoded a (decode_init\<lparr>dec_op := rv_op_csrrc, dec_rd := ucast rd,
                            dec_rs1 := ucast rs1, dec_imm := ucast csr12\<rparr>))"

definition asm_csrrwi :: "assembler \<Rightarrow> u64 \<Rightarrow> u64 \<Rightarrow> u64 \<Rightarrow> (assembler \<times> bool) option" where
  "asm_csrrwi a rd zimm csr12 =
     (if \<not> (uimm_valid 5 rd \<and> uimm_valid 5 zimm \<and> uimm_valid 12 csr12) then Some (a, False)
      else add_encoded a (decode_init\<lparr>dec_op := rv_op_csrrwi, dec_rd := ucast rd,
                            dec_imm := ucast zimm, dec_imm := ucast csr12\<rparr>))"

definition asm_csrrsi :: "assembler \<Rightarrow> u64 \<Rightarrow> u64 \<Rightarrow> u64 \<Rightarrow> (assembler \<times> bool) option" where
  "asm_csrrsi a rd zimm csr12 =
     (if \<not> (uimm_valid 5 rd \<and> uimm_valid 5 zimm \<and> uimm_valid 12 csr12) then Some (a, False)
      else add_encoded a (decode_init\<lparr>dec_op := rv_op_csrrsi, dec_rd := ucast rd,
                            dec_imm := ucast zimm, dec_imm := ucast csr12\<rparr>))"

definition asm_csrrci :: "assembler \<Rightarrow> u64 \<Rightarrow> u64 \<Rightarrow> u64 \<Rightarrow> (assembler \<times> bool) option" where
  "asm_csrrci a rd zimm csr12 =
     (if \<not> (uimm_valid 5 rd \<and> uimm_valid 5 zimm \<and> uimm_valid 12 csr12) then Some (a, False)
      else add_encoded a (decode_init\<lparr>dec_op := rv_op_csrrci, dec_rd := ucast rd,
                            dec_imm := ucast zimm, dec_imm := ucast csr12\<rparr>))"

definition asm_flw :: "assembler \<Rightarrow> u64 \<Rightarrow> u64 \<Rightarrow> u64 \<Rightarrow> (assembler \<times> bool) option" where
  "asm_flw a frd rs1 oimm12 =
     (if \<not> (uimm_valid 5 frd \<and> uimm_valid 5 rs1 \<and> offset_valid 12 oimm12) then Some (a, False)
      else add_encoded a (decode_init\<lparr>dec_op := rv_op_flw, dec_rd := ucast frd,
                            dec_rs1 := ucast rs1, dec_imm := ucast oimm12\<rparr>))"

definition asm_fsw :: "assembler \<Rightarrow> u64 \<Rightarrow> u64 \<Rightarrow> u64 \<Rightarrow> (assembler \<times> bool) option" where
  "asm_fsw a rs1 frs2 simm12 =
     (if \<not> (uimm_valid 5 rs1 \<and> uimm_valid 5 frs2 \<and> offset_valid 12 simm12) then Some (a, False)
      else add_encoded a (decode_init\<lparr>dec_op := rv_op_fsw, dec_rs1 := ucast rs1,
                            dec_rs2 := ucast frs2, dec_imm := ucast simm12\<rparr>))"

definition asm_fmadd_s :: "assembler \<Rightarrow> u64 \<Rightarrow> u64 \<Rightarrow> u64 \<Rightarrow> u64 \<Rightarrow> u64 \<Rightarrow> (assembler \<times> bool) option" where
  "asm_fmadd_s a frd frs1 frs2 frs3 rm =
     (if \<not> (uimm_valid 5 frd \<and> uimm_valid 5 frs1 \<and> uimm_valid 5 frs2 \<and> uimm_valid 5 frs3 \<and> uimm_valid 3 rm) then Some (a, False)
      else add_encoded a (decode_init\<lparr>dec_op := rv_op_fmadd_s, dec_rd := ucast frd,
                            dec_rs1 := ucast frs1, dec_rs2 := ucast frs2, dec_rs3 := ucast frs3,
                            dec_rm := ucast rm\<rparr>))"

definition asm_fmsub_s :: "assembler \<Rightarrow> u64 \<Rightarrow> u64 \<Rightarrow> u64 \<Rightarrow> u64 \<Rightarrow> u64 \<Rightarrow> (assembler \<times> bool) option" where
  "asm_fmsub_s a frd frs1 frs2 frs3 rm =
     (if \<not> (uimm_valid 5 frd \<and> uimm_valid 5 frs1 \<and> uimm_valid 5 frs2 \<and> uimm_valid 5 frs3 \<and> uimm_valid 3 rm) then Some (a, False)
      else add_encoded a (decode_init\<lparr>dec_op := rv_op_fmsub_s, dec_rd := ucast frd,
                            dec_rs1 := ucast frs1, dec_rs2 := ucast frs2, dec_rs3 := ucast frs3,
                            dec_rm := ucast rm\<rparr>))"

definition asm_fnmsub_s :: "assembler \<Rightarrow> u64 \<Rightarrow> u64 \<Rightarrow> u64 \<Rightarrow> u64 \<Rightarrow> u64 \<Rightarrow> (assembler \<times> bool) option" where
  "asm_fnmsub_s a frd frs1 frs2 frs3 rm =
     (if \<not> (uimm_valid 5 frd \<and> uimm_valid 5 frs1 \<and> uimm_valid 5 frs2 \<and> uimm_valid 5 frs3 \<and> uimm_valid 3 rm) then Some (a, False)
      else add_encoded a (decode_init\<lparr>dec_op := rv_op_fnmsub_s, dec_rd := ucast frd,
                            dec_rs1 := ucast frs1, dec_rs2 := ucast frs2, dec_rs3 := ucast frs3,
                            dec_rm := ucast rm\<rparr>))"

definition asm_fnmadd_s :: "assembler \<Rightarrow> u64 \<Rightarrow> u64 \<Rightarrow> u64 \<Rightarrow> u64 \<Rightarrow> u64 \<Rightarrow> (assembler \<times> bool) option" where
  "asm_fnmadd_s a frd frs1 frs2 frs3 rm =
     (if \<not> (uimm_valid 5 frd \<and> uimm_valid 5 frs1 \<and> uimm_valid 5 frs2 \<and> uimm_valid 5 frs3 \<and> uimm_valid 3 rm) then Some (a, False)
      else add_encoded a (decode_init\<lparr>dec_op := rv_op_fnmadd_s, dec_rd := ucast frd,
                            dec_rs1 := ucast frs1, dec_rs2 := ucast frs2, dec_rs3 := ucast frs3,
                            dec_rm := ucast rm\<rparr>))"

definition asm_fadd_s :: "assembler \<Rightarrow> u64 \<Rightarrow> u64 \<Rightarrow> u64 \<Rightarrow> u64 \<Rightarrow> (assembler \<times> bool) option" where
  "asm_fadd_s a frd frs1 frs2 rm =
     (if \<not> (uimm_valid 5 frd \<and> uimm_valid 5 frs1 \<and> uimm_valid 5 frs2 \<and> uimm_valid 3 rm) then Some (a, False)
      else add_encoded a (decode_init\<lparr>dec_op := rv_op_fadd_s, dec_rd := ucast frd,
                            dec_rs1 := ucast frs1, dec_rs2 := ucast frs2, dec_rm := ucast rm\<rparr>))"

definition asm_fsub_s :: "assembler \<Rightarrow> u64 \<Rightarrow> u64 \<Rightarrow> u64 \<Rightarrow> u64 \<Rightarrow> (assembler \<times> bool) option" where
  "asm_fsub_s a frd frs1 frs2 rm =
     (if \<not> (uimm_valid 5 frd \<and> uimm_valid 5 frs1 \<and> uimm_valid 5 frs2 \<and> uimm_valid 3 rm) then Some (a, False)
      else add_encoded a (decode_init\<lparr>dec_op := rv_op_fsub_s, dec_rd := ucast frd,
                            dec_rs1 := ucast frs1, dec_rs2 := ucast frs2, dec_rm := ucast rm\<rparr>))"

definition asm_fmul_s :: "assembler \<Rightarrow> u64 \<Rightarrow> u64 \<Rightarrow> u64 \<Rightarrow> u64 \<Rightarrow> (assembler \<times> bool) option" where
  "asm_fmul_s a frd frs1 frs2 rm =
     (if \<not> (uimm_valid 5 frd \<and> uimm_valid 5 frs1 \<and> uimm_valid 5 frs2 \<and> uimm_valid 3 rm) then Some (a, False)
      else add_encoded a (decode_init\<lparr>dec_op := rv_op_fmul_s, dec_rd := ucast frd,
                            dec_rs1 := ucast frs1, dec_rs2 := ucast frs2, dec_rm := ucast rm\<rparr>))"

definition asm_fdiv_s :: "assembler \<Rightarrow> u64 \<Rightarrow> u64 \<Rightarrow> u64 \<Rightarrow> u64 \<Rightarrow> (assembler \<times> bool) option" where
  "asm_fdiv_s a frd frs1 frs2 rm =
     (if \<not> (uimm_valid 5 frd \<and> uimm_valid 5 frs1 \<and> uimm_valid 5 frs2 \<and> uimm_valid 3 rm) then Some (a, False)
      else add_encoded a (decode_init\<lparr>dec_op := rv_op_fdiv_s, dec_rd := ucast frd,
                            dec_rs1 := ucast frs1, dec_rs2 := ucast frs2, dec_rm := ucast rm\<rparr>))"

definition asm_fsgnj_s :: "assembler \<Rightarrow> u64 \<Rightarrow> u64 \<Rightarrow> u64 \<Rightarrow> (assembler \<times> bool) option" where
  "asm_fsgnj_s a frd frs1 frs2 =
     (if \<not> (uimm_valid 5 frd \<and> uimm_valid 5 frs1 \<and> uimm_valid 5 frs2) then Some (a, False)
      else add_encoded a (decode_init\<lparr>dec_op := rv_op_fsgnj_s, dec_rd := ucast frd,
                            dec_rs1 := ucast frs1, dec_rs2 := ucast frs2\<rparr>))"

definition asm_fsgnjn_s :: "assembler \<Rightarrow> u64 \<Rightarrow> u64 \<Rightarrow> u64 \<Rightarrow> (assembler \<times> bool) option" where
  "asm_fsgnjn_s a frd frs1 frs2 =
     (if \<not> (uimm_valid 5 frd \<and> uimm_valid 5 frs1 \<and> uimm_valid 5 frs2) then Some (a, False)
      else add_encoded a (decode_init\<lparr>dec_op := rv_op_fsgnjn_s, dec_rd := ucast frd,
                            dec_rs1 := ucast frs1, dec_rs2 := ucast frs2\<rparr>))"

definition asm_fsgnjx_s :: "assembler \<Rightarrow> u64 \<Rightarrow> u64 \<Rightarrow> u64 \<Rightarrow> (assembler \<times> bool) option" where
  "asm_fsgnjx_s a frd frs1 frs2 =
     (if \<not> (uimm_valid 5 frd \<and> uimm_valid 5 frs1 \<and> uimm_valid 5 frs2) then Some (a, False)
      else add_encoded a (decode_init\<lparr>dec_op := rv_op_fsgnjx_s, dec_rd := ucast frd,
                            dec_rs1 := ucast frs1, dec_rs2 := ucast frs2\<rparr>))"

definition asm_fmin_s :: "assembler \<Rightarrow> u64 \<Rightarrow> u64 \<Rightarrow> u64 \<Rightarrow> (assembler \<times> bool) option" where
  "asm_fmin_s a frd frs1 frs2 =
     (if \<not> (uimm_valid 5 frd \<and> uimm_valid 5 frs1 \<and> uimm_valid 5 frs2) then Some (a, False)
      else add_encoded a (decode_init\<lparr>dec_op := rv_op_fmin_s, dec_rd := ucast frd,
                            dec_rs1 := ucast frs1, dec_rs2 := ucast frs2\<rparr>))"

definition asm_fmax_s :: "assembler \<Rightarrow> u64 \<Rightarrow> u64 \<Rightarrow> u64 \<Rightarrow> (assembler \<times> bool) option" where
  "asm_fmax_s a frd frs1 frs2 =
     (if \<not> (uimm_valid 5 frd \<and> uimm_valid 5 frs1 \<and> uimm_valid 5 frs2) then Some (a, False)
      else add_encoded a (decode_init\<lparr>dec_op := rv_op_fmax_s, dec_rd := ucast frd,
                            dec_rs1 := ucast frs1, dec_rs2 := ucast frs2\<rparr>))"

definition asm_fsqrt_s :: "assembler \<Rightarrow> u64 \<Rightarrow> u64 \<Rightarrow> u64 \<Rightarrow> (assembler \<times> bool) option" where
  "asm_fsqrt_s a frd frs1 rm =
     (if \<not> (uimm_valid 5 frd \<and> uimm_valid 5 frs1 \<and> uimm_valid 3 rm) then Some (a, False)
      else add_encoded a (decode_init\<lparr>dec_op := rv_op_fsqrt_s, dec_rd := ucast frd,
                            dec_rs1 := ucast frs1, dec_rm := ucast rm\<rparr>))"

definition asm_fle_s :: "assembler \<Rightarrow> u64 \<Rightarrow> u64 \<Rightarrow> u64 \<Rightarrow> (assembler \<times> bool) option" where
  "asm_fle_s a rd frs1 frs2 =
     (if \<not> (uimm_valid 5 rd \<and> uimm_valid 5 frs1 \<and> uimm_valid 5 frs2) then Some (a, False)
      else add_encoded a (decode_init\<lparr>dec_op := rv_op_fle_s, dec_rd := ucast rd,
                            dec_rs1 := ucast frs1, dec_rs2 := ucast frs2\<rparr>))"

definition asm_flt_s :: "assembler \<Rightarrow> u64 \<Rightarrow> u64 \<Rightarrow> u64 \<Rightarrow> (assembler \<times> bool) option" where
  "asm_flt_s a rd frs1 frs2 =
     (if \<not> (uimm_valid 5 rd \<and> uimm_valid 5 frs1 \<and> uimm_valid 5 frs2) then Some (a, False)
      else add_encoded a (decode_init\<lparr>dec_op := rv_op_flt_s, dec_rd := ucast rd,
                            dec_rs1 := ucast frs1, dec_rs2 := ucast frs2\<rparr>))"

definition asm_feq_s :: "assembler \<Rightarrow> u64 \<Rightarrow> u64 \<Rightarrow> u64 \<Rightarrow> (assembler \<times> bool) option" where
  "asm_feq_s a rd frs1 frs2 =
     (if \<not> (uimm_valid 5 rd \<and> uimm_valid 5 frs1 \<and> uimm_valid 5 frs2) then Some (a, False)
      else add_encoded a (decode_init\<lparr>dec_op := rv_op_feq_s, dec_rd := ucast rd,
                            dec_rs1 := ucast frs1, dec_rs2 := ucast frs2\<rparr>))"

definition asm_fcvt_w_s :: "assembler \<Rightarrow> u64 \<Rightarrow> u64 \<Rightarrow> u64 \<Rightarrow> (assembler \<times> bool) option" where
  "asm_fcvt_w_s a rd frs1 rm =
     (if \<not> (uimm_valid 5 rd \<and> uimm_valid 5 frs1 \<and> uimm_valid 3 rm) then Some (a, False)
      else add_encoded a (decode_init\<lparr>dec_op := rv_op_fcvt_w_s, dec_rd := ucast rd,
                            dec_rs1 := ucast frs1, dec_rm := ucast rm\<rparr>))"

definition asm_fcvt_wu_s :: "assembler \<Rightarrow> u64 \<Rightarrow> u64 \<Rightarrow> u64 \<Rightarrow> (assembler \<times> bool) option" where
  "asm_fcvt_wu_s a rd frs1 rm =
     (if \<not> (uimm_valid 5 rd \<and> uimm_valid 5 frs1 \<and> uimm_valid 3 rm) then Some (a, False)
      else add_encoded a (decode_init\<lparr>dec_op := rv_op_fcvt_wu_s, dec_rd := ucast rd,
                            dec_rs1 := ucast frs1, dec_rm := ucast rm\<rparr>))"

definition asm_fcvt_s_w :: "assembler \<Rightarrow> u64 \<Rightarrow> u64 \<Rightarrow> u64 \<Rightarrow> (assembler \<times> bool) option" where
  "asm_fcvt_s_w a frd rs1 rm =
     (if \<not> (uimm_valid 5 frd \<and> uimm_valid 5 rs1 \<and> uimm_valid 3 rm) then Some (a, False)
      else add_encoded a (decode_init\<lparr>dec_op := rv_op_fcvt_s_w, dec_rd := ucast frd,
                            dec_rs1 := ucast rs1, dec_rm := ucast rm\<rparr>))"

definition asm_fcvt_s_wu :: "assembler \<Rightarrow> u64 \<Rightarrow> u64 \<Rightarrow> u64 \<Rightarrow> (assembler \<times> bool) option" where
  "asm_fcvt_s_wu a frd rs1 rm =
     (if \<not> (uimm_valid 5 frd \<and> uimm_valid 5 rs1 \<and> uimm_valid 3 rm) then Some (a, False)
      else add_encoded a (decode_init\<lparr>dec_op := rv_op_fcvt_s_wu, dec_rd := ucast frd,
                            dec_rs1 := ucast rs1, dec_rm := ucast rm\<rparr>))"

definition asm_fmv_x_s :: "assembler \<Rightarrow> u64 \<Rightarrow> u64 \<Rightarrow> (assembler \<times> bool) option" where
  "asm_fmv_x_s a rd frs1 =
     (if \<not> (uimm_valid 5 rd \<and> uimm_valid 5 frs1) then Some (a, False)
      else add_encoded a (decode_init\<lparr>dec_op := rv_op_fmv_x_s, dec_rd := ucast rd,
                            dec_rs1 := ucast frs1\<rparr>))"

definition asm_fclass_s :: "assembler \<Rightarrow> u64 \<Rightarrow> u64 \<Rightarrow> (assembler \<times> bool) option" where
  "asm_fclass_s a rd frs1 =
     (if \<not> (uimm_valid 5 rd \<and> uimm_valid 5 frs1) then Some (a, False)
      else add_encoded a (decode_init\<lparr>dec_op := rv_op_fclass_s, dec_rd := ucast rd,
                            dec_rs1 := ucast frs1\<rparr>))"

definition asm_fmv_s_x :: "assembler \<Rightarrow> u64 \<Rightarrow> u64 \<Rightarrow> (assembler \<times> bool) option" where
  "asm_fmv_s_x a frd rs1 =
     (if \<not> (uimm_valid 5 frd \<and> uimm_valid 5 rs1) then Some (a, False)
      else add_encoded a (decode_init\<lparr>dec_op := rv_op_fmv_s_x, dec_rd := ucast frd,
                            dec_rs1 := ucast rs1\<rparr>))"

definition asm_fcvt_l_s :: "assembler \<Rightarrow> u64 \<Rightarrow> u64 \<Rightarrow> u64 \<Rightarrow> (assembler \<times> bool) option" where
  "asm_fcvt_l_s a rd frs1 rm =
     (if \<not> (uimm_valid 5 rd \<and> uimm_valid 5 frs1 \<and> uimm_valid 3 rm) then Some (a, False)
      else add_encoded a (decode_init\<lparr>dec_op := rv_op_fcvt_l_s, dec_rd := ucast rd,
                            dec_rs1 := ucast frs1, dec_rm := ucast rm\<rparr>))"

definition asm_fcvt_lu_s :: "assembler \<Rightarrow> u64 \<Rightarrow> u64 \<Rightarrow> u64 \<Rightarrow> (assembler \<times> bool) option" where
  "asm_fcvt_lu_s a rd frs1 rm =
     (if \<not> (uimm_valid 5 rd \<and> uimm_valid 5 frs1 \<and> uimm_valid 3 rm) then Some (a, False)
      else add_encoded a (decode_init\<lparr>dec_op := rv_op_fcvt_lu_s, dec_rd := ucast rd,
                            dec_rs1 := ucast frs1, dec_rm := ucast rm\<rparr>))"

definition asm_fcvt_s_l :: "assembler \<Rightarrow> u64 \<Rightarrow> u64 \<Rightarrow> u64 \<Rightarrow> (assembler \<times> bool) option" where
  "asm_fcvt_s_l a frd rs1 rm =
     (if \<not> (uimm_valid 5 frd \<and> uimm_valid 5 rs1 \<and> uimm_valid 3 rm) then Some (a, False)
      else add_encoded a (decode_init\<lparr>dec_op := rv_op_fcvt_s_l, dec_rd := ucast frd,
                            dec_rs1 := ucast rs1, dec_rm := ucast rm\<rparr>))"

definition asm_fcvt_s_lu :: "assembler \<Rightarrow> u64 \<Rightarrow> u64 \<Rightarrow> u64 \<Rightarrow> (assembler \<times> bool) option" where
  "asm_fcvt_s_lu a frd rs1 rm =
     (if \<not> (uimm_valid 5 frd \<and> uimm_valid 5 rs1 \<and> uimm_valid 3 rm) then Some (a, False)
      else add_encoded a (decode_init\<lparr>dec_op := rv_op_fcvt_s_lu, dec_rd := ucast frd,
                            dec_rs1 := ucast rs1, dec_rm := ucast rm\<rparr>))"

definition asm_fld :: "assembler \<Rightarrow> u64 \<Rightarrow> u64 \<Rightarrow> u64 \<Rightarrow> (assembler \<times> bool) option" where
  "asm_fld a frd rs1 oimm12 =
     (if \<not> (uimm_valid 5 frd \<and> uimm_valid 5 rs1 \<and> offset_valid 12 oimm12) then Some (a, False)
      else add_encoded a (decode_init\<lparr>dec_op := rv_op_fld, dec_rd := ucast frd,
                            dec_rs1 := ucast rs1, dec_imm := ucast oimm12\<rparr>))"

definition asm_fsd :: "assembler \<Rightarrow> u64 \<Rightarrow> u64 \<Rightarrow> u64 \<Rightarrow> (assembler \<times> bool) option" where
  "asm_fsd a rs1 frs2 simm12 =
     (if \<not> (uimm_valid 5 rs1 \<and> uimm_valid 5 frs2 \<and> offset_valid 12 simm12) then Some (a, False)
      else add_encoded a (decode_init\<lparr>dec_op := rv_op_fsd, dec_rs1 := ucast rs1,
                            dec_rs2 := ucast frs2, dec_imm := ucast simm12\<rparr>))"

definition asm_fmadd_d :: "assembler \<Rightarrow> u64 \<Rightarrow> u64 \<Rightarrow> u64 \<Rightarrow> u64 \<Rightarrow> u64 \<Rightarrow> (assembler \<times> bool) option" where
  "asm_fmadd_d a frd frs1 frs2 frs3 rm =
     (if \<not> (uimm_valid 5 frd \<and> uimm_valid 5 frs1 \<and> uimm_valid 5 frs2 \<and> uimm_valid 5 frs3 \<and> uimm_valid 3 rm) then Some (a, False)
      else add_encoded a (decode_init\<lparr>dec_op := rv_op_fmadd_d, dec_rd := ucast frd,
                            dec_rs1 := ucast frs1, dec_rs2 := ucast frs2, dec_rs3 := ucast frs3,
                            dec_rm := ucast rm\<rparr>))"

definition asm_fmsub_d :: "assembler \<Rightarrow> u64 \<Rightarrow> u64 \<Rightarrow> u64 \<Rightarrow> u64 \<Rightarrow> u64 \<Rightarrow> (assembler \<times> bool) option" where
  "asm_fmsub_d a frd frs1 frs2 frs3 rm =
     (if \<not> (uimm_valid 5 frd \<and> uimm_valid 5 frs1 \<and> uimm_valid 5 frs2 \<and> uimm_valid 5 frs3 \<and> uimm_valid 3 rm) then Some (a, False)
      else add_encoded a (decode_init\<lparr>dec_op := rv_op_fmsub_d, dec_rd := ucast frd,
                            dec_rs1 := ucast frs1, dec_rs2 := ucast frs2, dec_rs3 := ucast frs3,
                            dec_rm := ucast rm\<rparr>))"

definition asm_fnmsub_d :: "assembler \<Rightarrow> u64 \<Rightarrow> u64 \<Rightarrow> u64 \<Rightarrow> u64 \<Rightarrow> u64 \<Rightarrow> (assembler \<times> bool) option" where
  "asm_fnmsub_d a frd frs1 frs2 frs3 rm =
     (if \<not> (uimm_valid 5 frd \<and> uimm_valid 5 frs1 \<and> uimm_valid 5 frs2 \<and> uimm_valid 5 frs3 \<and> uimm_valid 3 rm) then Some (a, False)
      else add_encoded a (decode_init\<lparr>dec_op := rv_op_fnmsub_d, dec_rd := ucast frd,
                            dec_rs1 := ucast frs1, dec_rs2 := ucast frs2, dec_rs3 := ucast frs3,
                            dec_rm := ucast rm\<rparr>))"

definition asm_fnmadd_d :: "assembler \<Rightarrow> u64 \<Rightarrow> u64 \<Rightarrow> u64 \<Rightarrow> u64 \<Rightarrow> u64 \<Rightarrow> (assembler \<times> bool) option" where
  "asm_fnmadd_d a frd frs1 frs2 frs3 rm =
     (if \<not> (uimm_valid 5 frd \<and> uimm_valid 5 frs1 \<and> uimm_valid 5 frs2 \<and> uimm_valid 5 frs3 \<and> uimm_valid 3 rm) then Some (a, False)
      else add_encoded a (decode_init\<lparr>dec_op := rv_op_fnmadd_d, dec_rd := ucast frd,
                            dec_rs1 := ucast frs1, dec_rs2 := ucast frs2, dec_rs3 := ucast frs3,
                            dec_rm := ucast rm\<rparr>))"

definition asm_fadd_d :: "assembler \<Rightarrow> u64 \<Rightarrow> u64 \<Rightarrow> u64 \<Rightarrow> u64 \<Rightarrow> (assembler \<times> bool) option" where
  "asm_fadd_d a frd frs1 frs2 rm =
     (if \<not> (uimm_valid 5 frd \<and> uimm_valid 5 frs1 \<and> uimm_valid 5 frs2 \<and> uimm_valid 3 rm) then Some (a, False)
      else add_encoded a (decode_init\<lparr>dec_op := rv_op_fadd_d, dec_rd := ucast frd,
                            dec_rs1 := ucast frs1, dec_rs2 := ucast frs2, dec_rm := ucast rm\<rparr>))"

definition asm_fsub_d :: "assembler \<Rightarrow> u64 \<Rightarrow> u64 \<Rightarrow> u64 \<Rightarrow> u64 \<Rightarrow> (assembler \<times> bool) option" where
  "asm_fsub_d a frd frs1 frs2 rm =
     (if \<not> (uimm_valid 5 frd \<and> uimm_valid 5 frs1 \<and> uimm_valid 5 frs2 \<and> uimm_valid 3 rm) then Some (a, False)
      else add_encoded a (decode_init\<lparr>dec_op := rv_op_fsub_d, dec_rd := ucast frd,
                            dec_rs1 := ucast frs1, dec_rs2 := ucast frs2, dec_rm := ucast rm\<rparr>))"

definition asm_fmul_d :: "assembler \<Rightarrow> u64 \<Rightarrow> u64 \<Rightarrow> u64 \<Rightarrow> u64 \<Rightarrow> (assembler \<times> bool) option" where
  "asm_fmul_d a frd frs1 frs2 rm =
     (if \<not> (uimm_valid 5 frd \<and> uimm_valid 5 frs1 \<and> uimm_valid 5 frs2 \<and> uimm_valid 3 rm) then Some (a, False)
      else add_encoded a (decode_init\<lparr>dec_op := rv_op_fmul_d, dec_rd := ucast frd,
                            dec_rs1 := ucast frs1, dec_rs2 := ucast frs2, dec_rm := ucast rm\<rparr>))"

definition asm_fdiv_d :: "assembler \<Rightarrow> u64 \<Rightarrow> u64 \<Rightarrow> u64 \<Rightarrow> u64 \<Rightarrow> (assembler \<times> bool) option" where
  "asm_fdiv_d a frd frs1 frs2 rm =
     (if \<not> (uimm_valid 5 frd \<and> uimm_valid 5 frs1 \<and> uimm_valid 5 frs2 \<and> uimm_valid 3 rm) then Some (a, False)
      else add_encoded a (decode_init\<lparr>dec_op := rv_op_fdiv_d, dec_rd := ucast frd,
                            dec_rs1 := ucast frs1, dec_rs2 := ucast frs2, dec_rm := ucast rm\<rparr>))"

definition asm_fsgnj_d :: "assembler \<Rightarrow> u64 \<Rightarrow> u64 \<Rightarrow> u64 \<Rightarrow> (assembler \<times> bool) option" where
  "asm_fsgnj_d a frd frs1 frs2 =
     (if \<not> (uimm_valid 5 frd \<and> uimm_valid 5 frs1 \<and> uimm_valid 5 frs2) then Some (a, False)
      else add_encoded a (decode_init\<lparr>dec_op := rv_op_fsgnj_d, dec_rd := ucast frd,
                            dec_rs1 := ucast frs1, dec_rs2 := ucast frs2\<rparr>))"

definition asm_fsgnjn_d :: "assembler \<Rightarrow> u64 \<Rightarrow> u64 \<Rightarrow> u64 \<Rightarrow> (assembler \<times> bool) option" where
  "asm_fsgnjn_d a frd frs1 frs2 =
     (if \<not> (uimm_valid 5 frd \<and> uimm_valid 5 frs1 \<and> uimm_valid 5 frs2) then Some (a, False)
      else add_encoded a (decode_init\<lparr>dec_op := rv_op_fsgnjn_d, dec_rd := ucast frd,
                            dec_rs1 := ucast frs1, dec_rs2 := ucast frs2\<rparr>))"

definition asm_fsgnjx_d :: "assembler \<Rightarrow> u64 \<Rightarrow> u64 \<Rightarrow> u64 \<Rightarrow> (assembler \<times> bool) option" where
  "asm_fsgnjx_d a frd frs1 frs2 =
     (if \<not> (uimm_valid 5 frd \<and> uimm_valid 5 frs1 \<and> uimm_valid 5 frs2) then Some (a, False)
      else add_encoded a (decode_init\<lparr>dec_op := rv_op_fsgnjx_d, dec_rd := ucast frd,
                            dec_rs1 := ucast frs1, dec_rs2 := ucast frs2\<rparr>))"

definition asm_fmin_d :: "assembler \<Rightarrow> u64 \<Rightarrow> u64 \<Rightarrow> u64 \<Rightarrow> (assembler \<times> bool) option" where
  "asm_fmin_d a frd frs1 frs2 =
     (if \<not> (uimm_valid 5 frd \<and> uimm_valid 5 frs1 \<and> uimm_valid 5 frs2) then Some (a, False)
      else add_encoded a (decode_init\<lparr>dec_op := rv_op_fmin_d, dec_rd := ucast frd,
                            dec_rs1 := ucast frs1, dec_rs2 := ucast frs2\<rparr>))"

definition asm_fmax_d :: "assembler \<Rightarrow> u64 \<Rightarrow> u64 \<Rightarrow> u64 \<Rightarrow> (assembler \<times> bool) option" where
  "asm_fmax_d a frd frs1 frs2 =
     (if \<not> (uimm_valid 5 frd \<and> uimm_valid 5 frs1 \<and> uimm_valid 5 frs2) then Some (a, False)
      else add_encoded a (decode_init\<lparr>dec_op := rv_op_fmax_d, dec_rd := ucast frd,
                            dec_rs1 := ucast frs1, dec_rs2 := ucast frs2\<rparr>))"

definition asm_fcvt_s_d :: "assembler \<Rightarrow> u64 \<Rightarrow> u64 \<Rightarrow> u64 \<Rightarrow> (assembler \<times> bool) option" where
  "asm_fcvt_s_d a frd frs1 rm =
     (if \<not> (uimm_valid 5 frd \<and> uimm_valid 5 frs1 \<and> uimm_valid 3 rm) then Some (a, False)
      else add_encoded a (decode_init\<lparr>dec_op := rv_op_fcvt_s_d, dec_rd := ucast frd,
                            dec_rs1 := ucast frs1, dec_rm := ucast rm\<rparr>))"

definition asm_fcvt_d_s :: "assembler \<Rightarrow> u64 \<Rightarrow> u64 \<Rightarrow> u64 \<Rightarrow> (assembler \<times> bool) option" where
  "asm_fcvt_d_s a frd frs1 rm =
     (if \<not> (uimm_valid 5 frd \<and> uimm_valid 5 frs1 \<and> uimm_valid 3 rm) then Some (a, False)
      else add_encoded a (decode_init\<lparr>dec_op := rv_op_fcvt_d_s, dec_rd := ucast frd,
                            dec_rs1 := ucast frs1, dec_rm := ucast rm\<rparr>))"

definition asm_fsqrt_d :: "assembler \<Rightarrow> u64 \<Rightarrow> u64 \<Rightarrow> u64 \<Rightarrow> (assembler \<times> bool) option" where
  "asm_fsqrt_d a frd frs1 rm =
     (if \<not> (uimm_valid 5 frd \<and> uimm_valid 5 frs1 \<and> uimm_valid 3 rm) then Some (a, False)
      else add_encoded a (decode_init\<lparr>dec_op := rv_op_fsqrt_d, dec_rd := ucast frd,
                            dec_rs1 := ucast frs1, dec_rm := ucast rm\<rparr>))"

definition asm_fle_d :: "assembler \<Rightarrow> u64 \<Rightarrow> u64 \<Rightarrow> u64 \<Rightarrow> (assembler \<times> bool) option" where
  "asm_fle_d a rd frs1 frs2 =
     (if \<not> (uimm_valid 5 rd \<and> uimm_valid 5 frs1 \<and> uimm_valid 5 frs2) then Some (a, False)
      else add_encoded a (decode_init\<lparr>dec_op := rv_op_fle_d, dec_rd := ucast rd,
                            dec_rs1 := ucast frs1, dec_rs2 := ucast frs2\<rparr>))"

definition asm_flt_d :: "assembler \<Rightarrow> u64 \<Rightarrow> u64 \<Rightarrow> u64 \<Rightarrow> (assembler \<times> bool) option" where
  "asm_flt_d a rd frs1 frs2 =
     (if \<not> (uimm_valid 5 rd \<and> uimm_valid 5 frs1 \<and> uimm_valid 5 frs2) then Some (a, False)
      else add_encoded a (decode_init\<lparr>dec_op := rv_op_flt_d, dec_rd := ucast rd,
                            dec_rs1 := ucast frs1, dec_rs2 := ucast frs2\<rparr>))"

definition asm_feq_d :: "assembler \<Rightarrow> u64 \<Rightarrow> u64 \<Rightarrow> u64 \<Rightarrow> (assembler \<times> bool) option" where
  "asm_feq_d a rd frs1 frs2 =
     (if \<not> (uimm_valid 5 rd \<and> uimm_valid 5 frs1 \<and> uimm_valid 5 frs2) then Some (a, False)
      else add_encoded a (decode_init\<lparr>dec_op := rv_op_feq_d, dec_rd := ucast rd,
                            dec_rs1 := ucast frs1, dec_rs2 := ucast frs2\<rparr>))"

definition asm_fcvt_w_d :: "assembler \<Rightarrow> u64 \<Rightarrow> u64 \<Rightarrow> u64 \<Rightarrow> (assembler \<times> bool) option" where
  "asm_fcvt_w_d a rd frs1 rm =
     (if \<not> (uimm_valid 5 rd \<and> uimm_valid 5 frs1 \<and> uimm_valid 3 rm) then Some (a, False)
      else add_encoded a (decode_init\<lparr>dec_op := rv_op_fcvt_w_d, dec_rd := ucast rd,
                            dec_rs1 := ucast frs1, dec_rm := ucast rm\<rparr>))"

definition asm_fcvt_wu_d :: "assembler \<Rightarrow> u64 \<Rightarrow> u64 \<Rightarrow> u64 \<Rightarrow> (assembler \<times> bool) option" where
  "asm_fcvt_wu_d a rd frs1 rm =
     (if \<not> (uimm_valid 5 rd \<and> uimm_valid 5 frs1 \<and> uimm_valid 3 rm) then Some (a, False)
      else add_encoded a (decode_init\<lparr>dec_op := rv_op_fcvt_wu_d, dec_rd := ucast rd,
                            dec_rs1 := ucast frs1, dec_rm := ucast rm\<rparr>))"

definition asm_fcvt_d_w :: "assembler \<Rightarrow> u64 \<Rightarrow> u64 \<Rightarrow> u64 \<Rightarrow> (assembler \<times> bool) option" where
  "asm_fcvt_d_w a frd rs1 rm =
     (if \<not> (uimm_valid 5 frd \<and> uimm_valid 5 rs1 \<and> uimm_valid 3 rm) then Some (a, False)
      else add_encoded a (decode_init\<lparr>dec_op := rv_op_fcvt_d_w, dec_rd := ucast frd,
                            dec_rs1 := ucast rs1, dec_rm := ucast rm\<rparr>))"

definition asm_fcvt_d_wu :: "assembler \<Rightarrow> u64 \<Rightarrow> u64 \<Rightarrow> u64 \<Rightarrow> (assembler \<times> bool) option" where
  "asm_fcvt_d_wu a frd rs1 rm =
     (if \<not> (uimm_valid 5 frd \<and> uimm_valid 5 rs1 \<and> uimm_valid 3 rm) then Some (a, False)
      else add_encoded a (decode_init\<lparr>dec_op := rv_op_fcvt_d_wu, dec_rd := ucast frd,
                            dec_rs1 := ucast rs1, dec_rm := ucast rm\<rparr>))"

definition asm_fclass_d :: "assembler \<Rightarrow> u64 \<Rightarrow> u64 \<Rightarrow> (assembler \<times> bool) option" where
  "asm_fclass_d a rd frs1 =
     (if \<not> (uimm_valid 5 rd \<and> uimm_valid 5 frs1) then Some (a, False)
      else add_encoded a (decode_init\<lparr>dec_op := rv_op_fclass_d, dec_rd := ucast rd,
                            dec_rs1 := ucast frs1\<rparr>))"

definition asm_fcvt_l_d :: "assembler \<Rightarrow> u64 \<Rightarrow> u64 \<Rightarrow> u64 \<Rightarrow> (assembler \<times> bool) option" where
  "asm_fcvt_l_d a rd frs1 rm =
     (if \<not> (uimm_valid 5 rd \<and> uimm_valid 5 frs1 \<and> uimm_valid 3 rm) then Some (a, False)
      else add_encoded a (decode_init\<lparr>dec_op := rv_op_fcvt_l_d, dec_rd := ucast rd,
                            dec_rs1 := ucast frs1, dec_rm := ucast rm\<rparr>))"

definition asm_fcvt_lu_d :: "assembler \<Rightarrow> u64 \<Rightarrow> u64 \<Rightarrow> u64 \<Rightarrow> (assembler \<times> bool) option" where
  "asm_fcvt_lu_d a rd frs1 rm =
     (if \<not> (uimm_valid 5 rd \<and> uimm_valid 5 frs1 \<and> uimm_valid 3 rm) then Some (a, False)
      else add_encoded a (decode_init\<lparr>dec_op := rv_op_fcvt_lu_d, dec_rd := ucast rd,
                            dec_rs1 := ucast frs1, dec_rm := ucast rm\<rparr>))"

definition asm_fmv_x_d :: "assembler \<Rightarrow> u64 \<Rightarrow> u64 \<Rightarrow> (assembler \<times> bool) option" where
  "asm_fmv_x_d a rd frs1 =
     (if \<not> (uimm_valid 5 rd \<and> uimm_valid 5 frs1) then Some (a, False)
      else add_encoded a (decode_init\<lparr>dec_op := rv_op_fmv_x_d, dec_rd := ucast rd,
                            dec_rs1 := ucast frs1\<rparr>))"

definition asm_fcvt_d_l :: "assembler \<Rightarrow> u64 \<Rightarrow> u64 \<Rightarrow> u64 \<Rightarrow> (assembler \<times> bool) option" where
  "asm_fcvt_d_l a frd rs1 rm =
     (if \<not> (uimm_valid 5 frd \<and> uimm_valid 5 rs1 \<and> uimm_valid 3 rm) then Some (a, False)
      else add_encoded a (decode_init\<lparr>dec_op := rv_op_fcvt_d_l, dec_rd := ucast frd,
                            dec_rs1 := ucast rs1, dec_rm := ucast rm\<rparr>))"

definition asm_fcvt_d_lu :: "assembler \<Rightarrow> u64 \<Rightarrow> u64 \<Rightarrow> u64 \<Rightarrow> (assembler \<times> bool) option" where
  "asm_fcvt_d_lu a frd rs1 rm =
     (if \<not> (uimm_valid 5 frd \<and> uimm_valid 5 rs1 \<and> uimm_valid 3 rm) then Some (a, False)
      else add_encoded a (decode_init\<lparr>dec_op := rv_op_fcvt_d_lu, dec_rd := ucast frd,
                            dec_rs1 := ucast rs1, dec_rm := ucast rm\<rparr>))"

definition asm_fmv_d_x :: "assembler \<Rightarrow> u64 \<Rightarrow> u64 \<Rightarrow> (assembler \<times> bool) option" where
  "asm_fmv_d_x a frd rs1 =
     (if \<not> (uimm_valid 5 frd \<and> uimm_valid 5 rs1) then Some (a, False)
      else add_encoded a (decode_init\<lparr>dec_op := rv_op_fmv_d_x, dec_rd := ucast frd,
                            dec_rs1 := ucast rs1\<rparr>))"

definition asm_flq :: "assembler \<Rightarrow> u64 \<Rightarrow> u64 \<Rightarrow> u64 \<Rightarrow> (assembler \<times> bool) option" where
  "asm_flq a frd rs1 oimm12 =
     (if \<not> (uimm_valid 5 frd \<and> uimm_valid 5 rs1 \<and> offset_valid 12 oimm12) then Some (a, False)
      else add_encoded a (decode_init\<lparr>dec_op := rv_op_flq, dec_rd := ucast frd,
                            dec_rs1 := ucast rs1, dec_imm := ucast oimm12\<rparr>))"

definition asm_fsq :: "assembler \<Rightarrow> u64 \<Rightarrow> u64 \<Rightarrow> u64 \<Rightarrow> (assembler \<times> bool) option" where
  "asm_fsq a rs1 frs2 simm12 =
     (if \<not> (uimm_valid 5 rs1 \<and> uimm_valid 5 frs2 \<and> offset_valid 12 simm12) then Some (a, False)
      else add_encoded a (decode_init\<lparr>dec_op := rv_op_fsq, dec_rs1 := ucast rs1,
                            dec_rs2 := ucast frs2, dec_imm := ucast simm12\<rparr>))"

definition asm_fmadd_q :: "assembler \<Rightarrow> u64 \<Rightarrow> u64 \<Rightarrow> u64 \<Rightarrow> u64 \<Rightarrow> u64 \<Rightarrow> (assembler \<times> bool) option" where
  "asm_fmadd_q a frd frs1 frs2 frs3 rm =
     (if \<not> (uimm_valid 5 frd \<and> uimm_valid 5 frs1 \<and> uimm_valid 5 frs2 \<and> uimm_valid 5 frs3 \<and> uimm_valid 3 rm) then Some (a, False)
      else add_encoded a (decode_init\<lparr>dec_op := rv_op_fmadd_q, dec_rd := ucast frd,
                            dec_rs1 := ucast frs1, dec_rs2 := ucast frs2, dec_rs3 := ucast frs3,
                            dec_rm := ucast rm\<rparr>))"

definition asm_fmsub_q :: "assembler \<Rightarrow> u64 \<Rightarrow> u64 \<Rightarrow> u64 \<Rightarrow> u64 \<Rightarrow> u64 \<Rightarrow> (assembler \<times> bool) option" where
  "asm_fmsub_q a frd frs1 frs2 frs3 rm =
     (if \<not> (uimm_valid 5 frd \<and> uimm_valid 5 frs1 \<and> uimm_valid 5 frs2 \<and> uimm_valid 5 frs3 \<and> uimm_valid 3 rm) then Some (a, False)
      else add_encoded a (decode_init\<lparr>dec_op := rv_op_fmsub_q, dec_rd := ucast frd,
                            dec_rs1 := ucast frs1, dec_rs2 := ucast frs2, dec_rs3 := ucast frs3,
                            dec_rm := ucast rm\<rparr>))"

definition asm_fnmsub_q :: "assembler \<Rightarrow> u64 \<Rightarrow> u64 \<Rightarrow> u64 \<Rightarrow> u64 \<Rightarrow> u64 \<Rightarrow> (assembler \<times> bool) option" where
  "asm_fnmsub_q a frd frs1 frs2 frs3 rm =
     (if \<not> (uimm_valid 5 frd \<and> uimm_valid 5 frs1 \<and> uimm_valid 5 frs2 \<and> uimm_valid 5 frs3 \<and> uimm_valid 3 rm) then Some (a, False)
      else add_encoded a (decode_init\<lparr>dec_op := rv_op_fnmsub_q, dec_rd := ucast frd,
                            dec_rs1 := ucast frs1, dec_rs2 := ucast frs2, dec_rs3 := ucast frs3,
                            dec_rm := ucast rm\<rparr>))"

definition asm_fnmadd_q :: "assembler \<Rightarrow> u64 \<Rightarrow> u64 \<Rightarrow> u64 \<Rightarrow> u64 \<Rightarrow> u64 \<Rightarrow> (assembler \<times> bool) option" where
  "asm_fnmadd_q a frd frs1 frs2 frs3 rm =
     (if \<not> (uimm_valid 5 frd \<and> uimm_valid 5 frs1 \<and> uimm_valid 5 frs2 \<and> uimm_valid 5 frs3 \<and> uimm_valid 3 rm) then Some (a, False)
      else add_encoded a (decode_init\<lparr>dec_op := rv_op_fnmadd_q, dec_rd := ucast frd,
                            dec_rs1 := ucast frs1, dec_rs2 := ucast frs2, dec_rs3 := ucast frs3,
                            dec_rm := ucast rm\<rparr>))"

definition asm_fadd_q :: "assembler \<Rightarrow> u64 \<Rightarrow> u64 \<Rightarrow> u64 \<Rightarrow> u64 \<Rightarrow> (assembler \<times> bool) option" where
  "asm_fadd_q a frd frs1 frs2 rm =
     (if \<not> (uimm_valid 5 frd \<and> uimm_valid 5 frs1 \<and> uimm_valid 5 frs2 \<and> uimm_valid 3 rm) then Some (a, False)
      else add_encoded a (decode_init\<lparr>dec_op := rv_op_fadd_q, dec_rd := ucast frd,
                            dec_rs1 := ucast frs1, dec_rs2 := ucast frs2, dec_rm := ucast rm\<rparr>))"

definition asm_fsub_q :: "assembler \<Rightarrow> u64 \<Rightarrow> u64 \<Rightarrow> u64 \<Rightarrow> u64 \<Rightarrow> (assembler \<times> bool) option" where
  "asm_fsub_q a frd frs1 frs2 rm =
     (if \<not> (uimm_valid 5 frd \<and> uimm_valid 5 frs1 \<and> uimm_valid 5 frs2 \<and> uimm_valid 3 rm) then Some (a, False)
      else add_encoded a (decode_init\<lparr>dec_op := rv_op_fsub_q, dec_rd := ucast frd,
                            dec_rs1 := ucast frs1, dec_rs2 := ucast frs2, dec_rm := ucast rm\<rparr>))"

definition asm_fmul_q :: "assembler \<Rightarrow> u64 \<Rightarrow> u64 \<Rightarrow> u64 \<Rightarrow> u64 \<Rightarrow> (assembler \<times> bool) option" where
  "asm_fmul_q a frd frs1 frs2 rm =
     (if \<not> (uimm_valid 5 frd \<and> uimm_valid 5 frs1 \<and> uimm_valid 5 frs2 \<and> uimm_valid 3 rm) then Some (a, False)
      else add_encoded a (decode_init\<lparr>dec_op := rv_op_fmul_q, dec_rd := ucast frd,
                            dec_rs1 := ucast frs1, dec_rs2 := ucast frs2, dec_rm := ucast rm\<rparr>))"

definition asm_fdiv_q :: "assembler \<Rightarrow> u64 \<Rightarrow> u64 \<Rightarrow> u64 \<Rightarrow> u64 \<Rightarrow> (assembler \<times> bool) option" where
  "asm_fdiv_q a frd frs1 frs2 rm =
     (if \<not> (uimm_valid 5 frd \<and> uimm_valid 5 frs1 \<and> uimm_valid 5 frs2 \<and> uimm_valid 3 rm) then Some (a, False)
      else add_encoded a (decode_init\<lparr>dec_op := rv_op_fdiv_q, dec_rd := ucast frd,
                            dec_rs1 := ucast frs1, dec_rs2 := ucast frs2, dec_rm := ucast rm\<rparr>))"

definition asm_fsgnj_q :: "assembler \<Rightarrow> u64 \<Rightarrow> u64 \<Rightarrow> u64 \<Rightarrow> (assembler \<times> bool) option" where
  "asm_fsgnj_q a frd frs1 frs2 =
     (if \<not> (uimm_valid 5 frd \<and> uimm_valid 5 frs1 \<and> uimm_valid 5 frs2) then Some (a, False)
      else add_encoded a (decode_init\<lparr>dec_op := rv_op_fsgnj_q, dec_rd := ucast frd,
                            dec_rs1 := ucast frs1, dec_rs2 := ucast frs2\<rparr>))"

definition asm_fsgnjn_q :: "assembler \<Rightarrow> u64 \<Rightarrow> u64 \<Rightarrow> u64 \<Rightarrow> (assembler \<times> bool) option" where
  "asm_fsgnjn_q a frd frs1 frs2 =
     (if \<not> (uimm_valid 5 frd \<and> uimm_valid 5 frs1 \<and> uimm_valid 5 frs2) then Some (a, False)
      else add_encoded a (decode_init\<lparr>dec_op := rv_op_fsgnjn_q, dec_rd := ucast frd,
                            dec_rs1 := ucast frs1, dec_rs2 := ucast frs2\<rparr>))"

definition asm_fsgnjx_q :: "assembler \<Rightarrow> u64 \<Rightarrow> u64 \<Rightarrow> u64 \<Rightarrow> (assembler \<times> bool) option" where
  "asm_fsgnjx_q a frd frs1 frs2 =
     (if \<not> (uimm_valid 5 frd \<and> uimm_valid 5 frs1 \<and> uimm_valid 5 frs2) then Some (a, False)
      else add_encoded a (decode_init\<lparr>dec_op := rv_op_fsgnjx_q, dec_rd := ucast frd,
                            dec_rs1 := ucast frs1, dec_rs2 := ucast frs2\<rparr>))"

definition asm_fmin_q :: "assembler \<Rightarrow> u64 \<Rightarrow> u64 \<Rightarrow> u64 \<Rightarrow> (assembler \<times> bool) option" where
  "asm_fmin_q a frd frs1 frs2 =
     (if \<not> (uimm_valid 5 frd \<and> uimm_valid 5 frs1 \<and> uimm_valid 5 frs2) then Some (a, False)
      else add_encoded a (decode_init\<lparr>dec_op := rv_op_fmin_q, dec_rd := ucast frd,
                            dec_rs1 := ucast frs1, dec_rs2 := ucast frs2\<rparr>))"

definition asm_fmax_q :: "assembler \<Rightarrow> u64 \<Rightarrow> u64 \<Rightarrow> u64 \<Rightarrow> (assembler \<times> bool) option" where
  "asm_fmax_q a frd frs1 frs2 =
     (if \<not> (uimm_valid 5 frd \<and> uimm_valid 5 frs1 \<and> uimm_valid 5 frs2) then Some (a, False)
      else add_encoded a (decode_init\<lparr>dec_op := rv_op_fmax_q, dec_rd := ucast frd,
                            dec_rs1 := ucast frs1, dec_rs2 := ucast frs2\<rparr>))"

definition asm_fcvt_s_q :: "assembler \<Rightarrow> u64 \<Rightarrow> u64 \<Rightarrow> u64 \<Rightarrow> (assembler \<times> bool) option" where
  "asm_fcvt_s_q a frd frs1 rm =
     (if \<not> (uimm_valid 5 frd \<and> uimm_valid 5 frs1 \<and> uimm_valid 3 rm) then Some (a, False)
      else add_encoded a (decode_init\<lparr>dec_op := rv_op_fcvt_s_q, dec_rd := ucast frd,
                            dec_rs1 := ucast frs1, dec_rm := ucast rm\<rparr>))"

definition asm_fcvt_q_s :: "assembler \<Rightarrow> u64 \<Rightarrow> u64 \<Rightarrow> u64 \<Rightarrow> (assembler \<times> bool) option" where
  "asm_fcvt_q_s a frd frs1 rm =
     (if \<not> (uimm_valid 5 frd \<and> uimm_valid 5 frs1 \<and> uimm_valid 3 rm) then Some (a, False)
      else add_encoded a (decode_init\<lparr>dec_op := rv_op_fcvt_q_s, dec_rd := ucast frd,
                            dec_rs1 := ucast frs1, dec_rm := ucast rm\<rparr>))"

definition asm_fcvt_d_q :: "assembler \<Rightarrow> u64 \<Rightarrow> u64 \<Rightarrow> u64 \<Rightarrow> (assembler \<times> bool) option" where
  "asm_fcvt_d_q a frd frs1 rm =
     (if \<not> (uimm_valid 5 frd \<and> uimm_valid 5 frs1 \<and> uimm_valid 3 rm) then Some (a, False)
      else add_encoded a (decode_init\<lparr>dec_op := rv_op_fcvt_d_q, dec_rd := ucast frd,
                            dec_rs1 := ucast frs1, dec_rm := ucast rm\<rparr>))"

definition asm_fcvt_q_d :: "assembler \<Rightarrow> u64 \<Rightarrow> u64 \<Rightarrow> u64 \<Rightarrow> (assembler \<times> bool) option" where
  "asm_fcvt_q_d a frd frs1 rm =
     (if \<not> (uimm_valid 5 frd \<and> uimm_valid 5 frs1 \<and> uimm_valid 3 rm) then Some (a, False)
      else add_encoded a (decode_init\<lparr>dec_op := rv_op_fcvt_q_d, dec_rd := ucast frd,
                            dec_rs1 := ucast frs1, dec_rm := ucast rm\<rparr>))"

definition asm_fsqrt_q :: "assembler \<Rightarrow> u64 \<Rightarrow> u64 \<Rightarrow> u64 \<Rightarrow> (assembler \<times> bool) option" where
  "asm_fsqrt_q a frd frs1 rm =
     (if \<not> (uimm_valid 5 frd \<and> uimm_valid 5 frs1 \<and> uimm_valid 3 rm) then Some (a, False)
      else add_encoded a (decode_init\<lparr>dec_op := rv_op_fsqrt_q, dec_rd := ucast frd,
                            dec_rs1 := ucast frs1, dec_rm := ucast rm\<rparr>))"

definition asm_fle_q :: "assembler \<Rightarrow> u64 \<Rightarrow> u64 \<Rightarrow> u64 \<Rightarrow> (assembler \<times> bool) option" where
  "asm_fle_q a rd frs1 frs2 =
     (if \<not> (uimm_valid 5 rd \<and> uimm_valid 5 frs1 \<and> uimm_valid 5 frs2) then Some (a, False)
      else add_encoded a (decode_init\<lparr>dec_op := rv_op_fle_q, dec_rd := ucast rd,
                            dec_rs1 := ucast frs1, dec_rs2 := ucast frs2\<rparr>))"

definition asm_flt_q :: "assembler \<Rightarrow> u64 \<Rightarrow> u64 \<Rightarrow> u64 \<Rightarrow> (assembler \<times> bool) option" where
  "asm_flt_q a rd frs1 frs2 =
     (if \<not> (uimm_valid 5 rd \<and> uimm_valid 5 frs1 \<and> uimm_valid 5 frs2) then Some (a, False)
      else add_encoded a (decode_init\<lparr>dec_op := rv_op_flt_q, dec_rd := ucast rd,
                            dec_rs1 := ucast frs1, dec_rs2 := ucast frs2\<rparr>))"

definition asm_feq_q :: "assembler \<Rightarrow> u64 \<Rightarrow> u64 \<Rightarrow> u64 \<Rightarrow> (assembler \<times> bool) option" where
  "asm_feq_q a rd frs1 frs2 =
     (if \<not> (uimm_valid 5 rd \<and> uimm_valid 5 frs1 \<and> uimm_valid 5 frs2) then Some (a, False)
      else add_encoded a (decode_init\<lparr>dec_op := rv_op_feq_q, dec_rd := ucast rd,
                            dec_rs1 := ucast frs1, dec_rs2 := ucast frs2\<rparr>))"

definition asm_fcvt_w_q :: "assembler \<Rightarrow> u64 \<Rightarrow> u64 \<Rightarrow> u64 \<Rightarrow> (assembler \<times> bool) option" where
  "asm_fcvt_w_q a rd frs1 rm =
     (if \<not> (uimm_valid 5 rd \<and> uimm_valid 5 frs1 \<and> uimm_valid 3 rm) then Some (a, False)
      else add_encoded a (decode_init\<lparr>dec_op := rv_op_fcvt_w_q, dec_rd := ucast rd,
                            dec_rs1 := ucast frs1, dec_rm := ucast rm\<rparr>))"

definition asm_fcvt_wu_q :: "assembler \<Rightarrow> u64 \<Rightarrow> u64 \<Rightarrow> u64 \<Rightarrow> (assembler \<times> bool) option" where
  "asm_fcvt_wu_q a rd frs1 rm =
     (if \<not> (uimm_valid 5 rd \<and> uimm_valid 5 frs1 \<and> uimm_valid 3 rm) then Some (a, False)
      else add_encoded a (decode_init\<lparr>dec_op := rv_op_fcvt_wu_q, dec_rd := ucast rd,
                            dec_rs1 := ucast frs1, dec_rm := ucast rm\<rparr>))"

definition asm_fcvt_q_w :: "assembler \<Rightarrow> u64 \<Rightarrow> u64 \<Rightarrow> u64 \<Rightarrow> (assembler \<times> bool) option" where
  "asm_fcvt_q_w a frd rs1 rm =
     (if \<not> (uimm_valid 5 frd \<and> uimm_valid 5 rs1 \<and> uimm_valid 3 rm) then Some (a, False)
      else add_encoded a (decode_init\<lparr>dec_op := rv_op_fcvt_q_w, dec_rd := ucast frd,
                            dec_rs1 := ucast rs1, dec_rm := ucast rm\<rparr>))"

definition asm_fcvt_q_wu :: "assembler \<Rightarrow> u64 \<Rightarrow> u64 \<Rightarrow> u64 \<Rightarrow> (assembler \<times> bool) option" where
  "asm_fcvt_q_wu a frd rs1 rm =
     (if \<not> (uimm_valid 5 frd \<and> uimm_valid 5 rs1 \<and> uimm_valid 3 rm) then Some (a, False)
      else add_encoded a (decode_init\<lparr>dec_op := rv_op_fcvt_q_wu, dec_rd := ucast frd,
                            dec_rs1 := ucast rs1, dec_rm := ucast rm\<rparr>))"

definition asm_fclass_q :: "assembler \<Rightarrow> u64 \<Rightarrow> u64 \<Rightarrow> (assembler \<times> bool) option" where
  "asm_fclass_q a rd frs1 =
     (if \<not> (uimm_valid 5 rd \<and> uimm_valid 5 frs1) then Some (a, False)
      else add_encoded a (decode_init\<lparr>dec_op := rv_op_fclass_q, dec_rd := ucast rd,
                            dec_rs1 := ucast frs1\<rparr>))"

definition asm_fcvt_l_q :: "assembler \<Rightarrow> u64 \<Rightarrow> u64 \<Rightarrow> u64 \<Rightarrow> (assembler \<times> bool) option" where
  "asm_fcvt_l_q a rd frs1 rm =
     (if \<not> (uimm_valid 5 rd \<and> uimm_valid 5 frs1 \<and> uimm_valid 3 rm) then Some (a, False)
      else add_encoded a (decode_init\<lparr>dec_op := rv_op_fcvt_l_q, dec_rd := ucast rd,
                            dec_rs1 := ucast frs1, dec_rm := ucast rm\<rparr>))"

definition asm_fcvt_lu_q :: "assembler \<Rightarrow> u64 \<Rightarrow> u64 \<Rightarrow> u64 \<Rightarrow> (assembler \<times> bool) option" where
  "asm_fcvt_lu_q a rd frs1 rm =
     (if \<not> (uimm_valid 5 rd \<and> uimm_valid 5 frs1 \<and> uimm_valid 3 rm) then Some (a, False)
      else add_encoded a (decode_init\<lparr>dec_op := rv_op_fcvt_lu_q, dec_rd := ucast rd,
                            dec_rs1 := ucast frs1, dec_rm := ucast rm\<rparr>))"

definition asm_fcvt_q_l :: "assembler \<Rightarrow> u64 \<Rightarrow> u64 \<Rightarrow> u64 \<Rightarrow> (assembler \<times> bool) option" where
  "asm_fcvt_q_l a frd rs1 rm =
     (if \<not> (uimm_valid 5 frd \<and> uimm_valid 5 rs1 \<and> uimm_valid 3 rm) then Some (a, False)
      else add_encoded a (decode_init\<lparr>dec_op := rv_op_fcvt_q_l, dec_rd := ucast frd,
                            dec_rs1 := ucast rs1, dec_rm := ucast rm\<rparr>))"

definition asm_fcvt_q_lu :: "assembler \<Rightarrow> u64 \<Rightarrow> u64 \<Rightarrow> u64 \<Rightarrow> (assembler \<times> bool) option" where
  "asm_fcvt_q_lu a frd rs1 rm =
     (if \<not> (uimm_valid 5 frd \<and> uimm_valid 5 rs1 \<and> uimm_valid 3 rm) then Some (a, False)
      else add_encoded a (decode_init\<lparr>dec_op := rv_op_fcvt_q_lu, dec_rd := ucast frd,
                            dec_rs1 := ucast rs1, dec_rm := ucast rm\<rparr>))"

definition asm_fmv_x_q :: "assembler \<Rightarrow> u64 \<Rightarrow> u64 \<Rightarrow> (assembler \<times> bool) option" where
  "asm_fmv_x_q a rd frs1 =
     (if \<not> (uimm_valid 5 rd \<and> uimm_valid 5 frs1) then Some (a, False)
      else add_encoded a (decode_init\<lparr>dec_op := rv_op_fmv_x_q, dec_rd := ucast rd,
                            dec_rs1 := ucast frs1\<rparr>))"

definition asm_fmv_q_x :: "assembler \<Rightarrow> u64 \<Rightarrow> u64 \<Rightarrow> (assembler \<times> bool) option" where
  "asm_fmv_q_x a frd rs1 =
     (if \<not> (uimm_valid 5 frd \<and> uimm_valid 5 rs1) then Some (a, False)
      else add_encoded a (decode_init\<lparr>dec_op := rv_op_fmv_q_x, dec_rd := ucast frd,
                            dec_rs1 := ucast rs1\<rparr>))"

lemmas asm_defs =
  asm_lui_def asm_auipc_def asm_jal_def asm_jalr_def asm_beq_def asm_bne_def asm_blt_def
  asm_bge_def asm_bltu_def asm_bgeu_def asm_lb_def asm_lh_def asm_lw_def asm_lbu_def asm_lhu_def
  asm_sb_def asm_sh_def asm_sw_def asm_addi_def asm_slti_def asm_sltiu_def asm_xori_def
  asm_ori_def asm_andi_def asm_slli_def asm_srli_def asm_srai_def asm_add_def asm_sub_def
  asm_sll_def asm_slt_def asm_sltu_def asm_xor_def asm_srl_def asm_sra_def asm_or_def asm_and_def
  asm_fence_def asm_fence_i_def asm_lwu_def asm_ld_def asm_sd_def asm_addiw_def asm_slliw_def
  asm_srliw_def asm_sraiw_def asm_addw_def asm_subw_def asm_sllw_def asm_srlw_def asm_sraw_def
  asm_ldu_def asm_lq_def asm_sq_def asm_addid_def asm_sllid_def asm_srlid_def asm_sraid_def
  asm_addd_def asm_subd_def asm_slld_def asm_srld_def asm_srad_def asm_mul_def asm_mulh_def
  asm_mulhsu_def asm_mulhu_def asm_div_def asm_divu_def asm_rem_def asm_remu_def asm_mulw_def
  asm_divw_def asm_divuw_def asm_remw_def asm_remuw_def asm_muld_def asm_divd_def asm_divud_def
  asm_remd_def asm_remud_def asm_lr_w_def asm_sc_w_def asm_amoswap_w_def asm_amoadd_w_def
  asm_amoxor_w_def asm_amoor_w_def asm_amoand_w_def asm_amomin_w_def asm_amomax_w_def
  asm_amominu_w_def asm_amomaxu_w_def asm_lr_d_def asm_sc_d_def asm_amoswap_d_def
  asm_amoadd_d_def asm_amoxor_d_def asm_amoor_d_def asm_amoand_d_def asm_amomin_d_def
  asm_amomax_d_def asm_amominu_d_def asm_amomaxu_d_def asm_lr_q_def asm_sc_q_def
  asm_amoswap_q_def asm_amoadd_q_def asm_amoxor_q_def asm_amoor_q_def asm_amoand_q_def
  asm_amomin_q_def asm_amomax_q_def asm_amominu_q_def asm_amomaxu_q_def asm_ecall_def
  asm_ebreak_def asm_uret_def asm_sret_def asm_hret_def asm_mret_def asm_dret_def
  asm_sfence_vm_def asm_sfence_vma_def asm_wfi_def asm_csrrw_def asm_csrrs_def asm_csrrc_def
  asm_csrrwi_def asm_csrrsi_def asm_csrrci_def asm_flw_def asm_fsw_def asm_fmadd_s_def
  asm_fmsub_s_def asm_fnmsub_s_def asm_fnmadd_s_def asm_fadd_s_def asm_fsub_s_def asm_fmul_s_def
  asm_fdiv_s_def asm_fsgnj_s_def asm_fsgnjn_s_def asm_fsgnjx_s_def asm_fmin_s_def asm_fmax_s_def
  asm_fsqrt_s_def asm_fle_s_def asm_flt_s_def asm_feq_s_def asm_fcvt_w_s_def asm_fcvt_wu_s_def
  asm_fcvt_s_w_def asm_fcvt_s_wu_def asm_fmv_x_s_def asm_fclass_s_def asm_fmv_s_x_def
  asm_fcvt_l_s_def asm_fcvt_lu_s_def asm_fcvt_s_l_def asm_fcvt_s_lu_def asm_fld_def asm_fsd_def
  asm_fmadd_d_def asm_fmsub_d_def asm_fnmsub_d_def asm_fnmadd_d_def asm_fadd_d_def asm_fsub_d_def
  asm_fmul_d_def asm_fdiv_d_def asm_fsgnj_d_def asm_fsgnjn_d_def asm_fsgnjx_d_def asm_fmin_d_def
  asm_fmax_d_def asm_fcvt_s_d_def asm_fcvt_d_s_def asm_fsqrt_d_def asm_fle_d_def asm_flt_d_def
  asm_feq_d_def asm_fcvt_w_d_def asm_fcvt_wu_d_def asm_fcvt_d_w_def asm_fcvt_d_wu_def
  asm_fclass_d_def asm_fcvt_l_d_def asm_fcvt_lu_d_def asm_fmv_x_d_def asm_fcvt_d_l_def
  asm_fcvt_d_lu_def asm_fmv_d_x_def asm_flq_def asm_fsq_def asm_fmadd_q_def asm_fmsub_q_def
  asm_fnmsub_q_def asm_fnmadd_q_def asm_fadd_q_def asm_fsub_q_def asm_fmul_q_def asm_fdiv_q_def
  asm_fsgnj_q_def asm_fsgnjn_q_def asm_fsgnjx_q_def asm_fmin_q_def asm_fmax_q_def
  asm_fcvt_s_q_def asm_fcvt_q_s_def asm_fcvt_d_q_def asm_fcvt_q_d_def asm_fsqrt_q_def
  asm_fle_q_def asm_flt_q_def asm_feq_q_def asm_fcvt_w_q_def asm_fcvt_wu_q_def asm_fcvt_q_w_def
  asm_fcvt_q_wu_def asm_fclass_q_def asm_fcvt_l_q_def asm_fcvt_lu_q_def asm_fcvt_q_l_def
  asm_fcvt_q_lu_def asm_fmv_x_q_def asm_fmv_q_x_def

section \<open>The two halves agree\<close>

text \<open>Every function with its opcode and arguments, in the order of \<open>emitters\<close>.\<close>

definition jitters :: "(opcode \<times> (asm_field \<times> arg_type) list \<times> (assembler \<Rightarrow> u64 list \<Rightarrow> (assembler \<times> bool) option)) list" where
  "jitters = [
     (rv_op_lui, [(F_rd, Uimm 5), (F_imm, Simm 32 12)], \<lambda>a. app2 (asm_lui a)),
     (rv_op_auipc, [(F_rd, Uimm 5), (F_imm, Offset 32 12)], \<lambda>a. app2 (asm_auipc a)),
     (rv_op_jal, [(F_rd, Uimm 5), (F_imm, Offset 21 1)], \<lambda>a. app2 (asm_jal a)),
     (rv_op_jalr, [(F_rd, Uimm 5), (F_rs1, Uimm 5), (F_imm, Simm 12 0)], \<lambda>a. app3 (asm_jalr a)),
     (rv_op_beq, [(F_rs1, Uimm 5), (F_rs2, Uimm 5), (F_imm, Offset 13 1)], \<lambda>a. app3 (asm_beq a)),
     (rv_op_bne, [(F_rs1, Uimm 5), (F_rs2, Uimm 5), (F_imm, Offset 13 1)], \<lambda>a. app3 (asm_bne a)),
     (rv_op_blt, [(F_rs1, Uimm 5), (F_rs2, Uimm 5), (F_imm, Offset 13 1)], \<lambda>a. app3 (asm_blt a)),
     (rv_op_bge, [(F_rs1, Uimm 5), (F_rs2, Uimm 5), (F_imm, Offset 13 1)], \<lambda>a. app3 (asm_bge a)),
     (rv_op_bltu, [(F_rs1, Uimm 5), (F_rs2, Uimm 5), (F_imm, Offset 13 1)], \<lambda>a. app3 (asm_bltu a)),
     (rv_op_bgeu, [(F_rs1, Uimm 5), (F_rs2, Uimm 5), (F_imm, Offset 13 1)], \<lambda>a. app3 (asm_bgeu a)),
     (rv_op_lb, [(F_rd, Uimm 5), (F_rs1, Uimm 5), (F_imm, Offset 12 0)], \<lambda>a. app3 (asm_lb a)),
     (rv_op_lh, [(F_rd, Uimm 5), (F_rs1, Uimm 5), (F_imm, Offset 12 0)], \<lambda>a. app3 (asm_lh a)),
     (rv_op_lw, [(F_rd, Uimm 5), (F_rs1, Uimm 5), (F_imm, Offset 12 0)], \<lambda>a. app3 (asm_lw a)),
     (rv_op_lbu, [(F_rd, Uimm 5), (F_rs1, Uimm 5), (F_imm, Offset 12 0)], \<lambda>a. app3 (asm_lbu a)),
     (rv_op_lhu, [(F_rd, Uimm 5), (F_rs1, Uimm 5), (F_imm, Offset 12 0)], \<lambda>a. app3 (asm_lhu a)),
     (rv_op_sb, [(F_rs1, Uimm 5), (F_rs2, Uimm 5), (F_imm, Offset 12 0)], \<lambda>a. app3 (asm_sb a)),
     (rv_op_sh, [(F_rs1, Uimm 5), (F_rs2, Uimm 5), (F_imm, Offset 12 0)], \<lambda>a. app3 (asm_sh a)),
     (rv_op_sw, [(F_rs1, Uimm 5), (F_rs2, Uimm 5), (F_imm, Offset 12 0)], \<lambda>a. app3 (asm_sw a)),
     (rv_op_addi, [(F_rd, Uimm 5), (F_rs1, Uimm 5), (F_imm, Simm 12 0)], \<lambda>a. app3 (asm_addi a)),
     (rv_op_slti, [(F_rd, Uimm 5), (F_rs1, Uimm 5), (F_imm, Simm 12 0)], \<lambda>a. app3 (asm_slti a)),
     (rv_op_sltiu, [(F_rd, Uimm 5), (F_rs1, Uimm 5), (F_imm, Simm 12 0)], \<lambda>a. app3 (asm_sltiu a)),
     (rv_op_xori, [(F_rd, Uimm 5), (F_rs1, Uimm 5), (F_imm, Simm 12 0)], \<lambda>a. app3 (asm_xori a)),
     (rv_op_ori, [(F_rd, Uimm 5), (F_rs1, Uimm 5), (F_imm, Simm 12 0)], \<lambda>a. app3 (asm_ori a)),
     (rv_op_andi, [(F_rd, Uimm 5), (F_rs1, Uimm 5), (F_imm, Simm 12 0)], \<lambda>a. app3 (asm_andi a)),
     (rv_op_slli, [(F_rd, Uimm 5), (F_rs1, Uimm 5), (F_imm, Uimm 7)], \<lambda>a. app3 (asm_slli a)),
     (rv_op_srli, [(F_rd, Uimm 5), (F_rs1, Uimm 5), (F_imm, Uimm 7)], \<lambda>a. app3 (asm_srli a)),
     (rv_op_srai, [(F_rd, Uimm 5), (F_rs1, Uimm 5), (F_imm, Uimm 7)], \<lambda>a. app3 (asm_srai a)),
     (rv_op_add, [(F_rd, Uimm 5), (F_rs1, Uimm 5), (F_rs2, Uimm 5)], \<lambda>a. app3 (asm_add a)),
     (rv_op_sub, [(F_rd, Uimm 5), (F_rs1, Uimm 5), (F_rs2, Uimm 5)], \<lambda>a. app3 (asm_sub a)),
     (rv_op_sll, [(F_rd, Uimm 5), (F_rs1, Uimm 5), (F_rs2, Uimm 5)], \<lambda>a. app3 (asm_sll a)),
     (rv_op_slt, [(F_rd, Uimm 5), (F_rs1, Uimm 5), (F_rs2, Uimm 5)], \<lambda>a. app3 (asm_slt a)),
     (rv_op_sltu, [(F_rd, Uimm 5), (F_rs1, Uimm 5), (F_rs2, Uimm 5)], \<lambda>a. app3 (asm_sltu a)),
     (rv_op_xor, [(F_rd, Uimm 5), (F_rs1, Uimm 5), (F_rs2, Uimm 5)], \<lambda>a. app3 (asm_xor a)),
     (rv_op_srl, [(F_rd, Uimm 5), (F_rs1, Uimm 5), (F_rs2, Uimm 5)], \<lambda>a. app3 (asm_srl a)),
     (rv_op_sra, [(F_rd, Uimm 5), (F_rs1, Uimm 5), (F_rs2, Uimm 5)], \<lambda>a. app3 (asm_sra a)),
     (rv_op_or, [(F_rd, Uimm 5), (F_rs1, Uimm 5), (F_rs2, Uimm 5)], \<lambda>a. app3 (asm_or a)),
     (rv_op_and, [(F_rd, Uimm 5), (F_rs1, Uimm 5), (F_rs2, Uimm 5)], \<lambda>a. app3 (asm_and a)),
     (rv_op_fence, [(F_pred, Uimm 4), (F_succ, Uimm 4)], \<lambda>a. app2 (asm_fence a)),
     (rv_op_fence_i, [], \<lambda>a. app0 (asm_fence_i a)),
     (rv_op_lwu, [(F_rd, Uimm 5), (F_rs1, Uimm 5), (F_imm, Offset 12 0)], \<lambda>a. app3 (asm_lwu a)),
     (rv_op_ld, [(F_rd, Uimm 5), (F_rs1, Uimm 5), (F_imm, Offset 12 0)], \<lambda>a. app3 (asm_ld a)),
     (rv_op_sd, [(F_rs1, Uimm 5), (F_rs2, Uimm 5), (F_imm, Offset 12 0)], \<lambda>a. app3 (asm_sd a)),
     (rv_op_addiw, [(F_rd, Uimm 5), (F_rs1, Uimm 5), (F_imm, Simm 12 0)], \<lambda>a. app3 (asm_addiw a)),
     (rv_op_slliw, [(F_rd, Uimm 5), (F_rs1, Uimm 5), (F_imm, Uimm 5)], \<lambda>a. app3 (asm_slliw a)),
     (rv_op_srliw, [(F_rd, Uimm 5), (F_rs1, Uimm 5), (F_imm, Uimm 5)], \<lambda>a. app3 (asm_srliw a)),
     (rv_op_sraiw, [(F_rd, Uimm 5), (F_rs1, Uimm 5), (F_imm, Uimm 5)], \<lambda>a. app3 (asm_sraiw a)),
     (rv_op_addw, [(F_rd, Uimm 5), (F_rs1, Uimm 5), (F_rs2, Uimm 5)], \<lambda>a. app3 (asm_addw a)),
     (rv_op_subw, [(F_rd, Uimm 5), (F_rs1, Uimm 5), (F_rs2, Uimm 5)], \<lambda>a. app3 (asm_subw a)),
     (rv_op_sllw, [(F_rd, Uimm 5), (F_rs1, Uimm 5), (F_rs2, Uimm 5)], \<lambda>a. app3 (asm_sllw a)),
     (rv_op_srlw, [(F_rd, Uimm 5), (F_rs1, Uimm 5), (F_rs2, Uimm 5)], \<lambda>a. app3 (asm_srlw a)),
     (rv_op_sraw, [(F_rd, Uimm 5), (F_rs1, Uimm 5), (F_rs2, Uimm 5)], \<lambda>a. app3 (asm_sraw a)),
     (rv_op_ldu, [(F_rd, Uimm 5), (F_rs1, Uimm 5), (F_imm, Offset 12 0)], \<lambda>a. app3 (asm_ldu a)),
     (rv_op_lq, [(F_rd, Uimm 5), (F_rs1, Uimm 5), (F_imm, Offset 12 0)], \<lambda>a. app3 (asm_lq a)),
     (rv_op_sq, [(F_rs1, Uimm 5), (F_rs2, Uimm 5), (F_imm, Offset 12 0)], \<lambda>a. app3 (asm_sq a)),
     (rv_op_addid, [(F_rd, Uimm 5), (F_rs1, Uimm 5), (F_imm, Simm 12 0)], \<lambda>a. app3 (asm_addid a)),
     (rv_op_sllid, [(F_rd, Uimm 5), (F_rs1, Uimm 5), (F_imm, Uimm 6)], \<lambda>a. app3 (asm_sllid a)),
     (rv_op_srlid, [(F_rd, Uimm 5), (F_rs1, Uimm 5), (F_imm, Uimm 6)], \<lambda>a. app3 (asm_srlid a)),
     (rv_op_sraid, [(F_rd, Uimm 5), (F_rs1, Uimm 5), (F_imm, Uimm 6)], \<lambda>a. app3 (asm_sraid a)),
     (rv_op_addd, [(F_rd, Uimm 5), (F_rs1, Uimm 5), (F_rs2, Uimm 5)], \<lambda>a. app3 (asm_addd a)),
     (rv_op_subd, [(F_rd, Uimm 5), (F_rs1, Uimm 5), (F_rs2, Uimm 5)], \<lambda>a. app3 (asm_subd a)),
     (rv_op_slld, [(F_rd, Uimm 5), (F_rs1, Uimm 5), (F_rs2, Uimm 5)], \<lambda>a. app3 (asm_slld a)),
     (rv_op_srld, [(F_rd, Uimm 5), (F_rs1, Uimm 5), (F_rs2, Uimm 5)], \<lambda>a. app3 (asm_srld a)),
     (rv_op_srad, [(F_rd, Uimm 5), (F_rs1, Uimm 5), (F_rs2, Uimm 5)], \<lambda>a. app3 (asm_srad a)),
     (rv_op_mul, [(F_rd, Uimm 5), (F_rs1, Uimm 5), (F_rs2, Uimm 5)], \<lambda>a. app3 (asm_mul a)),
     (rv_op_mulh, [(F_rd, Uimm 5), (F_rs1, Uimm 5), (F_rs2, Uimm 5)], \<lambda>a. app3 (asm_mulh a)),
     (rv_op_mulhsu, [(F_rd, Uimm 5), (F_rs1, Uimm 5), (F_rs2, Uimm 5)], \<lambda>a. app3 (asm_mulhsu a)),
     (rv_op_mulhu, [(F_rd, Uimm 5), (F_rs1, Uimm 5), (F_rs2, Uimm 5)], \<lambda>a. app3 (asm_mulhu a)),
     (rv_op_div, [(F_rd, Uimm 5), (F_rs1, Uimm 5), (F_rs2, Uimm 5)], \<lambda>a. app3 (asm_div a)),
     (rv_op_divu, [(F_rd, Uimm 5), (F_rs1, Uimm 5), (F_rs2, Uimm 5)], \<lambda>a. app3 (asm_divu a)),
     (rv_op_rem, [(F_rd, Uimm 5), (F_rs1, Uimm 5), (F_rs2, Uimm 5)], \<lambda>a. app3 (asm_rem a)),
     (rv_op_remu, [(F_rd, Uimm 5), (F_rs1, Uimm 5), (F_rs2, Uimm 5)], \<lambda>a. app3 (asm_remu a)),
     (rv_op_mulw, [(F_rd, Uimm 5), (F_rs1, Uimm 5), (F_rs2, Uimm 5)], \<lambda>a. app3 (asm_mulw a)),
     (rv_op_divw, [(F_rd, Uimm 5), (F_rs1, Uimm 5), (F_rs2, Uimm 5)], \<lambda>a. app3 (asm_divw a)),
     (rv_op_divuw, [(F_rd, Uimm 5), (F_rs1, Uimm 5), (F_rs2, Uimm 5)], \<lambda>a. app3 (asm_divuw a)),
     (rv_op_remw, [(F_rd, Uimm 5), (F_rs1, Uimm 5), (F_rs2, Uimm 5)], \<lambda>a. app3 (asm_remw a)),
     (rv_op_remuw, [(F_rd, Uimm 5), (F_rs1, Uimm 5), (F_rs2, Uimm 5)], \<lambda>a. app3 (asm_remuw a)),
     (rv_op_muld, [(F_rd, Uimm 5), (F_rs1, Uimm 5), (F_rs2, Uimm 5)], \<lambda>a. app3 (asm_muld a)),
     (rv_op_divd, [(F_rd, Uimm 5), (F_rs1, Uimm 5), (F_rs2, Uimm 5)], \<lambda>a. app3 (asm_divd a)),
     (rv_op_divud, [(F_rd, Uimm 5), (F_rs1, Uimm 5), (F_rs2, Uimm 5)], \<lambda>a. app3 (asm_divud a)),
     (rv_op_remd, [(F_rd, Uimm 5), (F_rs1, Uimm 5), (F_rs2, Uimm 5)], \<lambda>a. app3 (asm_remd a)),
     (rv_op_remud, [(F_rd, Uimm 5), (F_rs1, Uimm 5), (F_rs2, Uimm 5)], \<lambda>a. app3 (asm_remud a)),
     (rv_op_lr_w, [(F_rd, Uimm 5), (F_rs1, Uimm 5), (F_aq, Uimm 1), (F_rl, Uimm 1)], \<lambda>a. app4 (asm_lr_w a)),
     (rv_op_sc_w, [(F_rd, Uimm 5), (F_rs1, Uimm 5), (F_rs2, Uimm 5), (F_aq, Uimm 1), (F_rl, Uimm 1)], \<lambda>a. app5 (asm_sc_w a)),
     (rv_op_amoswap_w, [(F_rd, Uimm 5), (F_rs1, Uimm 5), (F_rs2, Uimm 5), (F_aq, Uimm 1), (F_rl, Uimm 1)], \<lambda>a. app5 (asm_amoswap_w a)),
     (rv_op_amoadd_w, [(F_rd, Uimm 5), (F_rs1, Uimm 5), (F_rs2, Uimm 5), (F_aq, Uimm 1), (F_rl, Uimm 1)], \<lambda>a. app5 (asm_amoadd_w a)),
     (rv_op_amoxor_w, [(F_rd, Uimm 5), (F_rs1, Uimm 5), (F_rs2, Uimm 5), (F_aq, Uimm 1), (F_rl, Uimm 1)], \<lambda>a. app5 (asm_amoxor_w a)),
     (rv_op_amoor_w, [(F_rd, Uimm 5), (F_rs1, Uimm 5), (F_rs2, Uimm 5), (F_aq, Uimm 1), (F_rl, Uimm 1)], \<lambda>a. app5 (asm_amoor_w a)),
     (rv_op_amoand_w, [(F_rd, Uimm 5), (F_rs1, Uimm 5), (F_rs2, Uimm 5), (F_aq, Uimm 1), (F_rl, Uimm 1)], \<lambda>a. app5 (asm_amoand_w a)),
     (rv_op_amomin_w, [(F_rd, Uimm 5), (F_rs1, Uimm 5), (F_rs2, Uimm 5), (F_aq, Uimm 1), (F_rl, Uimm 1)], \<lambda>a. app5 (asm_amomin_w a)),
     (rv_op_amomax_w, [(F_rd, Uimm 5), (F_rs1, Uimm 5), (F_rs2, Uimm 5), (F_aq, Uimm 1), (F_rl, Uimm 1)], \<lambda>a. app5 (asm_amomax_w a)),
     (rv_op_amominu_w, [(F_rd, Uimm 5), (F_rs1, Uimm 5), (F_rs2, Uimm 5), (F_aq, Uimm 1), (F_rl, Uimm 1)], \<lambda>a. app5 (asm_amominu_w a)),
     (rv_op_amomaxu_w, [(F_rd, Uimm 5), (F_rs1, Uimm 5), (F_rs2, Uimm 5), (F_aq, Uimm 1), (F_rl, Uimm 1)], \<lambda>a. app5 (asm_amomaxu_w a)),
     (rv_op_lr_d, [(F_rd, Uimm 5), (F_rs1, Uimm 5), (F_aq, Uimm 1), (F_rl, Uimm 1)], \<lambda>a. app4 (asm_lr_d a)),
     (rv_op_sc_d, [(F_rd, Uimm 5), (F_rs1, Uimm 5), (F_rs2, Uimm 5), (F_aq, Uimm 1), (F_rl, Uimm 1)], \<lambda>a. app5 (asm_sc_d a)),
     (rv_op_amoswap_d, [(F_rd, Uimm 5), (F_rs1, Uimm 5), (F_rs2, Uimm 5), (F_aq, Uimm 1), (F_rl, Uimm 1)], \<lambda>a. app5 (asm_amoswap_d a)),
     (rv_op_amoadd_d, [(F_rd, Uimm 5), (F_rs1, Uimm 5), (F_rs2, Uimm 5), (F_aq, Uimm 1), (F_rl, Uimm 1)], \<lambda>a. app5 (asm_amoadd_d a)),
     (rv_op_amoxor_d, [(F_rd, Uimm 5), (F_rs1, Uimm 5), (F_rs2, Uimm 5), (F_aq, Uimm 1), (F_rl, Uimm 1)], \<lambda>a. app5 (asm_amoxor_d a)),
     (rv_op_amoor_d, [(F_rd, Uimm 5), (F_rs1, Uimm 5), (F_rs2, Uimm 5), (F_aq, Uimm 1), (F_rl, Uimm 1)], \<lambda>a. app5 (asm_amoor_d a)),
     (rv_op_amoand_d, [(F_rd, Uimm 5), (F_rs1, Uimm 5), (F_rs2, Uimm 5), (F_aq, Uimm 1), (F_rl, Uimm 1)], \<lambda>a. app5 (asm_amoand_d a)),
     (rv_op_amomin_d, [(F_rd, Uimm 5), (F_rs1, Uimm 5), (F_rs2, Uimm 5), (F_aq, Uimm 1), (F_rl, Uimm 1)], \<lambda>a. app5 (asm_amomin_d a)),
     (rv_op_amomax_d, [(F_rd, Uimm 5), (F_rs1, Uimm 5), (F_rs2, Uimm 5), (F_aq, Uimm 1), (F_rl, Uimm 1)], \<lambda>a. app5 (asm_amomax_d a)),
     (rv_op_amominu_d, [(F_rd, Uimm 5), (F_rs1, Uimm 5), (F_rs2, Uimm 5), (F_aq, Uimm 1), (F_rl, Uimm 1)], \<lambda>a. app5 (asm_amominu_d a)),
     (rv_op_amomaxu_d, [(F_rd, Uimm 5), (F_rs1, Uimm 5), (F_rs2, Uimm 5), (F_aq, Uimm 1), (F_rl, Uimm 1)], \<lambda>a. app5 (asm_amomaxu_d a)),
     (rv_op_lr_q, [(F_rd, Uimm 5), (F_rs1, Uimm 5), (F_aq, Uimm 1), (F_rl, Uimm 1)], \<lambda>a. app4 (asm_lr_q a)),
     (rv_op_sc_q, [(F_rd, Uimm 5), (F_rs1, Uimm 5), (F_rs2, Uimm 5), (F_aq, Uimm 1), (F_rl, Uimm 1)], \<lambda>a. app5 (asm_sc_q a)),
     (rv_op_amoswap_q, [(F_rd, Uimm 5), (F_rs1, Uimm 5), (F_rs2, Uimm 5), (F_aq, Uimm 1), (F_rl, Uimm 1)], \<lambda>a. app5 (asm_amoswap_q a)),
     (rv_op_amoadd_q, [(F_rd, Uimm 5), (F_rs1, Uimm 5), (F_rs2, Uimm 5), (F_aq, Uimm 1), (F_rl, Uimm 1)], \<lambda>a. app5 (asm_amoadd_q a)),
     (rv_op_amoxor_q, [(F_rd, Uimm 5), (F_rs1, Uimm 5), (F_rs2, Uimm 5), (F_aq, Uimm 1), (F_rl, Uimm 1)], \<lambda>a. app5 (asm_amoxor_q a)),
     (rv_op_amoor_q, [(F_rd, Uimm 5), (F_rs1, Uimm 5), (F_rs2, Uimm 5), (F_aq, Uimm 1), (F_rl, Uimm 1)], \<lambda>a. app5 (asm_amoor_q a)),
     (rv_op_amoand_q, [(F_rd, Uimm 5), (F_rs1, Uimm 5), (F_rs2, Uimm 5), (F_aq, Uimm 1), (F_rl, Uimm 1)], \<lambda>a. app5 (asm_amoand_q a)),
     (rv_op_amomin_q, [(F_rd, Uimm 5), (F_rs1, Uimm 5), (F_rs2, Uimm 5), (F_aq, Uimm 1), (F_rl, Uimm 1)], \<lambda>a. app5 (asm_amomin_q a)),
     (rv_op_amomax_q, [(F_rd, Uimm 5), (F_rs1, Uimm 5), (F_rs2, Uimm 5), (F_aq, Uimm 1), (F_rl, Uimm 1)], \<lambda>a. app5 (asm_amomax_q a)),
     (rv_op_amominu_q, [(F_rd, Uimm 5), (F_rs1, Uimm 5), (F_rs2, Uimm 5), (F_aq, Uimm 1), (F_rl, Uimm 1)], \<lambda>a. app5 (asm_amominu_q a)),
     (rv_op_amomaxu_q, [(F_rd, Uimm 5), (F_rs1, Uimm 5), (F_rs2, Uimm 5), (F_aq, Uimm 1), (F_rl, Uimm 1)], \<lambda>a. app5 (asm_amomaxu_q a)),
     (rv_op_ecall, [], \<lambda>a. app0 (asm_ecall a)),
     (rv_op_ebreak, [], \<lambda>a. app0 (asm_ebreak a)),
     (rv_op_uret, [], \<lambda>a. app0 (asm_uret a)), (rv_op_sret, [], \<lambda>a. app0 (asm_sret a)),
     (rv_op_hret, [], \<lambda>a. app0 (asm_hret a)), (rv_op_mret, [], \<lambda>a. app0 (asm_mret a)),
     (rv_op_dret, [], \<lambda>a. app0 (asm_dret a)),
     (rv_op_sfence_vm, [(F_rs1, Uimm 5)], \<lambda>a. app1 (asm_sfence_vm a)),
     (rv_op_sfence_vma, [(F_rs1, Uimm 5), (F_rs2, Uimm 5)], \<lambda>a. app2 (asm_sfence_vma a)),
     (rv_op_wfi, [], \<lambda>a. app0 (asm_wfi a)),
     (rv_op_csrrw, [(F_rd, Uimm 5), (F_rs1, Uimm 5), (F_imm, Uimm 12)], \<lambda>a. app3 (asm_csrrw a)),
     (rv_op_csrrs, [(F_rd, Uimm 5), (F_rs1, Uimm 5), (F_imm, Uimm 12)], \<lambda>a. app3 (asm_csrrs a)),
     (rv_op_csrrc, [(F_rd, Uimm 5), (F_rs1, Uimm 5), (F_imm, Uimm 12)], \<lambda>a. app3 (asm_csrrc a)),
     (rv_op_csrrwi, [(F_rd, Uimm 5), (F_lost, Uimm 5), (F_imm, Uimm 12)], \<lambda>a. app3 (asm_csrrwi a)),
     (rv_op_csrrsi, [(F_rd, Uimm 5), (F_lost, Uimm 5), (F_imm, Uimm 12)], \<lambda>a. app3 (asm_csrrsi a)),
     (rv_op_csrrci, [(F_rd, Uimm 5), (F_lost, Uimm 5), (F_imm, Uimm 12)], \<lambda>a. app3 (asm_csrrci a)),
     (rv_op_flw, [(F_rd, Uimm 5), (F_rs1, Uimm 5), (F_imm, Offset 12 0)], \<lambda>a. app3 (asm_flw a)),
     (rv_op_fsw, [(F_rs1, Uimm 5), (F_rs2, Uimm 5), (F_imm, Offset 12 0)], \<lambda>a. app3 (asm_fsw a)),
     (rv_op_fmadd_s, [(F_rd, Uimm 5), (F_rs1, Uimm 5), (F_rs2, Uimm 5), (F_rs3, Uimm 5), (F_rm, Uimm 3)], \<lambda>a. app5 (asm_fmadd_s a)),
     (rv_op_fmsub_s, [(F_rd, Uimm 5), (F_rs1, Uimm 5), (F_rs2, Uimm 5), (F_rs3, Uimm 5), (F_rm, Uimm 3)], \<lambda>a. app5 (asm_fmsub_s a)),
     (rv_op_fnmsub_s, [(F_rd, Uimm 5), (F_rs1, Uimm 5), (F_rs2, Uimm 5), (F_rs3, Uimm 5), (F_rm, Uimm 3)], \<lambda>a. app5 (asm_fnmsub_s a)),
     (rv_op_fnmadd_s, [(F_rd, Uimm 5), (F_rs1, Uimm 5), (F_rs2, Uimm 5), (F_rs3, Uimm 5), (F_rm, Uimm 3)], \<lambda>a. app5 (asm_fnmadd_s a)),
     (rv_op_fadd_s, [(F_rd, Uimm 5), (F_rs1, Uimm 5), (F_rs2, Uimm 5), (F_rm, Uimm 3)], \<lambda>a. app4 (asm_fadd_s a)),
     (rv_op_fsub_s, [(F_rd, Uimm 5), (F_rs1, Uimm 5), (F_rs2, Uimm 5), (F_rm, Uimm 3)], \<lambda>a. app4 (asm_fsub_s a)),
     (rv_op_fmul_s, [(F_rd, Uimm 5), (F_rs1, Uimm 5), (F_rs2, Uimm 5), (F_rm, Uimm 3)], \<lambda>a. app4 (asm_fmul_s a)),
     (rv_op_fdiv_s, [(F_rd, Uimm 5), (F_rs1, Uimm 5), (F_rs2, Uimm 5), (F_rm, Uimm 3)], \<lambda>a. app4 (asm_fdiv_s a)),
     (rv_op_fsgnj_s, [(F_rd, Uimm 5), (F_rs1, Uimm 5), (F_rs2, Uimm 5)], \<lambda>a. app3 (asm_fsgnj_s a)),
     (rv_op_fsgnjn_s, [(F_rd, Uimm 5), (F_rs1, Uimm 5), (F_rs2, Uimm 5)], \<lambda>a. app3 (asm_fsgnjn_s a)),
     (rv_op_fsgnjx_s, [(F_rd, Uimm 5), (F_rs1, Uimm 5), (F_rs2, Uimm 5)], \<lambda>a. app3 (asm_fsgnjx_s a)),
     (rv_op_fmin_s, [(F_rd, Uimm 5), (F_rs1, Uimm 5), (F_rs2, Uimm 5)], \<lambda>a. app3 (asm_fmin_s a)),
     (rv_op_fmax_s, [(F_rd, Uimm 5), (F_rs1, Uimm 5), (F_rs2, Uimm 5)], \<lambda>a. app3 (asm_fmax_s a)),
     (rv_op_fsqrt_s, [(F_rd, Uimm 5), (F_rs1, Uimm 5), (F_rm, Uimm 3)], \<lambda>a. app3 (asm_fsqrt_s a)),
     (rv_op_fle_s, [(F_rd, Uimm 5), (F_rs1, Uimm 5), (F_rs2, Uimm 5)], \<lambda>a. app3 (asm_fle_s a)),
     (rv_op_flt_s, [(F_rd, Uimm 5), (F_rs1, Uimm 5), (F_rs2, Uimm 5)], \<lambda>a. app3 (asm_flt_s a)),
     (rv_op_feq_s, [(F_rd, Uimm 5), (F_rs1, Uimm 5), (F_rs2, Uimm 5)], \<lambda>a. app3 (asm_feq_s a)),
     (rv_op_fcvt_w_s, [(F_rd, Uimm 5), (F_rs1, Uimm 5), (F_rm, Uimm 3)], \<lambda>a. app3 (asm_fcvt_w_s a)),
     (rv_op_fcvt_wu_s, [(F_rd, Uimm 5), (F_rs1, Uimm 5), (F_rm, Uimm 3)], \<lambda>a. app3 (asm_fcvt_wu_s a)),
     (rv_op_fcvt_s_w, [(F_rd, Uimm 5), (F_rs1, Uimm 5), (F_rm, Uimm 3)], \<lambda>a. app3 (asm_fcvt_s_w a)),
     (rv_op_fcvt_s_wu, [(F_rd, Uimm 5), (F_rs1, Uimm 5), (F_rm, Uimm 3)], \<lambda>a. app3 (asm_fcvt_s_wu a)),
     (rv_op_fmv_x_s, [(F_rd, Uimm 5), (F_rs1, Uimm 5)], \<lambda>a. app2 (asm_fmv_x_s a)),
     (rv_op_fclass_s, [(F_rd, Uimm 5), (F_rs1, Uimm 5)], \<lambda>a. app2 (asm_fclass_s a)),
     (rv_op_fmv_s_x, [(F_rd, Uimm 5), (F_rs1, Uimm 5)], \<lambda>a. app2 (asm_fmv_s_x a)),
     (rv_op_fcvt_l_s, [(F_rd, Uimm 5), (F_rs1, Uimm 5), (F_rm, Uimm 3)], \<lambda>a. app3 (asm_fcvt_l_s a)),
     (rv_op_fcvt_lu_s, [(F_rd, Uimm 5), (F_rs1, Uimm 5), (F_rm, Uimm 3)], \<lambda>a. app3 (asm_fcvt_lu_s a)),
     (rv_op_fcvt_s_l, [(F_rd, Uimm 5), (F_rs1, Uimm 5), (F_rm, Uimm 3)], \<lambda>a. app3 (asm_fcvt_s_l a)),
     (rv_op_fcvt_s_lu, [(F_rd, Uimm 5), (F_rs1, Uimm 5), (F_rm, Uimm 3)], \<lambda>a. app3 (asm_fcvt_s_lu a)),
     (rv_op_fld, [(F_rd, Uimm 5), (F_rs1, Uimm 5), (F_imm, Offset 12 0)], \<lambda>a. app3 (asm_fld a)),
     (rv_op_fsd, [(F_rs1, Uimm 5), (F_rs2, Uimm 5), (F_imm, Offset 12 0)], \<lambda>a. app3 (asm_fsd a)),
     (rv_op_fmadd_d, [(F_rd, Uimm 5), (F_rs1, Uimm 5), (F_rs2, Uimm 5), (F_rs3, Uimm 5), (F_rm, Uimm 3)], \<lambda>a. app5 (asm_fmadd_d a)),
     (rv_op_fmsub_d, [(F_rd, Uimm 5), (F_rs1, Uimm 5), (F_rs2, Uimm 5), (F_rs3, Uimm 5), (F_rm, Uimm 3)], \<lambda>a. app5 (asm_fmsub_d a)),
     (rv_op_fnmsub_d, [(F_rd, Uimm 5), (F_rs1, Uimm 5), (F_rs2, Uimm 5), (F_rs3, Uimm 5), (F_rm, Uimm 3)], \<lambda>a. app5 (asm_fnmsub_d a)),
     (rv_op_fnmadd_d, [(F_rd, Uimm 5), (F_rs1, Uimm 5), (F_rs2, Uimm 5), (F_rs3, Uimm 5), (F_rm, Uimm 3)], \<lambda>a. app5 (asm_fnmadd_d a)),
     (rv_op_fadd_d, [(F_rd, Uimm 5), (F_rs1, Uimm 5), (F_rs2, Uimm 5), (F_rm, Uimm 3)], \<lambda>a. app4 (asm_fadd_d a)),
     (rv_op_fsub_d, [(F_rd, Uimm 5), (F_rs1, Uimm 5), (F_rs2, Uimm 5), (F_rm, Uimm 3)], \<lambda>a. app4 (asm_fsub_d a)),
     (rv_op_fmul_d, [(F_rd, Uimm 5), (F_rs1, Uimm 5), (F_rs2, Uimm 5), (F_rm, Uimm 3)], \<lambda>a. app4 (asm_fmul_d a)),
     (rv_op_fdiv_d, [(F_rd, Uimm 5), (F_rs1, Uimm 5), (F_rs2, Uimm 5), (F_rm, Uimm 3)], \<lambda>a. app4 (asm_fdiv_d a)),
     (rv_op_fsgnj_d, [(F_rd, Uimm 5), (F_rs1, Uimm 5), (F_rs2, Uimm 5)], \<lambda>a. app3 (asm_fsgnj_d a)),
     (rv_op_fsgnjn_d, [(F_rd, Uimm 5), (F_rs1, Uimm 5), (F_rs2, Uimm 5)], \<lambda>a. app3 (asm_fsgnjn_d a)),
     (rv_op_fsgnjx_d, [(F_rd, Uimm 5), (F_rs1, Uimm 5), (F_rs2, Uimm 5)], \<lambda>a. app3 (asm_fsgnjx_d a)),
     (rv_op_fmin_d, [(F_rd, Uimm 5), (F_rs1, Uimm 5), (F_rs2, Uimm 5)], \<lambda>a. app3 (asm_fmin_d a)),
     (rv_op_fmax_d, [(F_rd, Uimm 5), (F_rs1, Uimm 5), (F_rs2, Uimm 5)], \<lambda>a. app3 (asm_fmax_d a)),
     (rv_op_fcvt_s_d, [(F_rd, Uimm 5), (F_rs1, Uimm 5), (F_rm, Uimm 3)], \<lambda>a. app3 (asm_fcvt_s_d a)),
     (rv_op_fcvt_d_s, [(F_rd, Uimm 5), (F_rs1, Uimm 5), (F_rm, Uimm 3)], \<lambda>a. app3 (asm_fcvt_d_s a)),
     (rv_op_fsqrt_d, [(F_rd, Uimm 5), (F_rs1, Uimm 5), (F_rm, Uimm 3)], \<lambda>a. app3 (asm_fsqrt_d a)),
     (rv_op_fle_d, [(F_rd, Uimm 5), (F_rs1, Uimm 5), (F_rs2, Uimm 5)], \<lambda>a. app3 (asm_fle_d a)),
     (rv_op_flt_d, [(F_rd, Uimm 5), (F_rs1, Uimm 5), (F_rs2, Uimm 5)], \<lambda>a. app3 (asm_flt_d a)),
     (rv_op_feq_d, [(F_rd, Uimm 5), (F_rs1, Uimm 5), (F_rs2, Uimm 5)], \<lambda>a. app3 (asm_feq_d a)),
     (rv_op_fcvt_w_d, [(F_rd, Uimm 5), (F_rs1, Uimm 5), (F_rm, Uimm 3)], \<lambda>a. app3 (asm_fcvt_w_d a)),
     (rv_op_fcvt_wu_d, [(F_rd, Uimm 5), (F_rs1, Uimm 5), (F_rm, Uimm 3)], \<lambda>a. app3 (asm_fcvt_wu_d a)),
     (rv_op_fcvt_d_w, [(F_rd, Uimm 5), (F_rs1, Uimm 5), (F_rm, Uimm 3)], \<lambda>a. app3 (asm_fcvt_d_w a)),
     (rv_op_fcvt_d_wu, [(F_rd, Uimm 5), (F_rs1, Uimm 5), (F_rm, Uimm 3)], \<lambda>a. app3 (asm_fcvt_d_wu a)),
     (rv_op_fclass_d, [(F_rd, Uimm 5), (F_rs1, Uimm 5)], \<lambda>a. app2 (asm_fclass_d a)),
     (rv_op_fcvt_l_d, [(F_rd, Uimm 5), (F_rs1, Uimm 5), (F_rm, Uimm 3)], \<lambda>a. app3 (asm_fcvt_l_d a)),
     (rv_op_fcvt_lu_d, [(F_rd, Uimm 5), (F_rs1, Uimm 5), (F_rm, Uimm 3)], \<lambda>a. app3 (asm_fcvt_lu_d a)),
     (rv_op_fmv_x_d, [(F_rd, Uimm 5), (F_rs1, Uimm 5)], \<lambda>a. app2 (asm_fmv_x_d a)),
     (rv_op_fcvt_d_l, [(F_rd, Uimm 5), (F_rs1, Uimm 5), (F_rm, Uimm 3)], \<lambda>a. app3 (asm_fcvt_d_l a)),
     (rv_op_fcvt_d_lu, [(F_rd, Uimm 5), (F_rs1, Uimm 5), (F_rm, Uimm 3)], \<lambda>a. app3 (asm_fcvt_d_lu a)),
     (rv_op_fmv_d_x, [(F_rd, Uimm 5), (F_rs1, Uimm 5)], \<lambda>a. app2 (asm_fmv_d_x a)),
     (rv_op_flq, [(F_rd, Uimm 5), (F_rs1, Uimm 5), (F_imm, Offset 12 0)], \<lambda>a. app3 (asm_flq a)),
     (rv_op_fsq, [(F_rs1, Uimm 5), (F_rs2, Uimm 5), (F_imm, Offset 12 0)], \<lambda>a. app3 (asm_fsq a)),
     (rv_op_fmadd_q, [(F_rd, Uimm 5), (F_rs1, Uimm 5), (F_rs2, Uimm 5), (F_rs3, Uimm 5), (F_rm, Uimm 3)], \<lambda>a. app5 (asm_fmadd_q a)),
     (rv_op_fmsub_q, [(F_rd, Uimm 5), (F_rs1, Uimm 5), (F_rs2, Uimm 5), (F_rs3, Uimm 5), (F_rm, Uimm 3)], \<lambda>a. app5 (asm_fmsub_q a)),
     (rv_op_fnmsub_q, [(F_rd, Uimm 5), (F_rs1, Uimm 5), (F_rs2, Uimm 5), (F_rs3, Uimm 5), (F_rm, Uimm 3)], \<lambda>a. app5 (asm_fnmsub_q a)),
     (rv_op_fnmadd_q, [(F_rd, Uimm 5), (F_rs1, Uimm 5), (F_rs2, Uimm 5), (F_rs3, Uimm 5), (F_rm, Uimm 3)], \<lambda>a. app5 (asm_fnmadd_q a)),
     (rv_op_fadd_q, [(F_rd, Uimm 5), (F_rs1, Uimm 5), (F_rs2, Uimm 5), (F_rm, Uimm 3)], \<lambda>a. app4 (asm_fadd_q a)),
     (rv_op_fsub_q, [(F_rd, Uimm 5), (F_rs1, Uimm 5), (F_rs2, Uimm 5), (F_rm, Uimm 3)], \<lambda>a. app4 (asm_fsub_q a)),
     (rv_op_fmul_q, [(F_rd, Uimm 5), (F_rs1, Uimm 5), (F_rs2, Uimm 5), (F_rm, Uimm 3)], \<lambda>a. app4 (asm_fmul_q a)),
     (rv_op_fdiv_q, [(F_rd, Uimm 5), (F_rs1, Uimm 5), (F_rs2, Uimm 5), (F_rm, Uimm 3)], \<lambda>a. app4 (asm_fdiv_q a)),
     (rv_op_fsgnj_q, [(F_rd, Uimm 5), (F_rs1, Uimm 5), (F_rs2, Uimm 5)], \<lambda>a. app3 (asm_fsgnj_q a)),
     (rv_op_fsgnjn_q, [(F_rd, Uimm 5), (F_rs1, Uimm 5), (F_rs2, Uimm 5)], \<lambda>a. app3 (asm_fsgnjn_q a)),
     (rv_op_fsgnjx_q, [(F_rd, Uimm 5), (F_rs1, Uimm 5), (F_rs2, Uimm 5)], \<lambda>a. app3 (asm_fsgnjx_q a)),
     (rv_op_fmin_q, [(F_rd, Uimm 5), (F_rs1, Uimm 5), (F_rs2, Uimm 5)], \<lambda>a. app3 (asm_fmin_q a)),
     (rv_op_fmax_q, [(F_rd, Uimm 5), (F_rs1, Uimm 5), (F_rs2, Uimm 5)], \<lambda>a. app3 (asm_fmax_q a)),
     (rv_op_fcvt_s_q, [(F_rd, Uimm 5), (F_rs1, Uimm 5), (F_rm, Uimm 3)], \<lambda>a. app3 (asm_fcvt_s_q a)),
     (rv_op_fcvt_q_s, [(F_rd, Uimm 5), (F_rs1, Uimm 5), (F_rm, Uimm 3)], \<lambda>a. app3 (asm_fcvt_q_s a)),
     (rv_op_fcvt_d_q, [(F_rd, Uimm 5), (F_rs1, Uimm 5), (F_rm, Uimm 3)], \<lambda>a. app3 (asm_fcvt_d_q a)),
     (rv_op_fcvt_q_d, [(F_rd, Uimm 5), (F_rs1, Uimm 5), (F_rm, Uimm 3)], \<lambda>a. app3 (asm_fcvt_q_d a)),
     (rv_op_fsqrt_q, [(F_rd, Uimm 5), (F_rs1, Uimm 5), (F_rm, Uimm 3)], \<lambda>a. app3 (asm_fsqrt_q a)),
     (rv_op_fle_q, [(F_rd, Uimm 5), (F_rs1, Uimm 5), (F_rs2, Uimm 5)], \<lambda>a. app3 (asm_fle_q a)),
     (rv_op_flt_q, [(F_rd, Uimm 5), (F_rs1, Uimm 5), (F_rs2, Uimm 5)], \<lambda>a. app3 (asm_flt_q a)),
     (rv_op_feq_q, [(F_rd, Uimm 5), (F_rs1, Uimm 5), (F_rs2, Uimm 5)], \<lambda>a. app3 (asm_feq_q a)),
     (rv_op_fcvt_w_q, [(F_rd, Uimm 5), (F_rs1, Uimm 5), (F_rm, Uimm 3)], \<lambda>a. app3 (asm_fcvt_w_q a)),
     (rv_op_fcvt_wu_q, [(F_rd, Uimm 5), (F_rs1, Uimm 5), (F_rm, Uimm 3)], \<lambda>a. app3 (asm_fcvt_wu_q a)),
     (rv_op_fcvt_q_w, [(F_rd, Uimm 5), (F_rs1, Uimm 5), (F_rm, Uimm 3)], \<lambda>a. app3 (asm_fcvt_q_w a)),
     (rv_op_fcvt_q_wu, [(F_rd, Uimm 5), (F_rs1, Uimm 5), (F_rm, Uimm 3)], \<lambda>a. app3 (asm_fcvt_q_wu a)),
     (rv_op_fclass_q, [(F_rd, Uimm 5), (F_rs1, Uimm 5)], \<lambda>a. app2 (asm_fclass_q a)),
     (rv_op_fcvt_l_q, [(F_rd, Uimm 5), (F_rs1, Uimm 5), (F_rm, Uimm 3)], \<lambda>a. app3 (asm_fcvt_l_q a)),
     (rv_op_fcvt_lu_q, [(F_rd, Uimm 5), (F_rs1, Uimm 5), (F_rm, Uimm 3)], \<lambda>a. app3 (asm_fcvt_lu_q a)),
     (rv_op_fcvt_q_l, [(F_rd, Uimm 5), (F_rs1, Uimm 5), (F_rm, Uimm 3)], \<lambda>a. app3 (asm_fcvt_q_l a)),
     (rv_op_fcvt_q_lu, [(F_rd, Uimm 5), (F_rs1, Uimm 5), (F_rm, Uimm 3)], \<lambda>a. app3 (asm_fcvt_q_lu a)),
     (rv_op_fmv_x_q, [(F_rd, Uimm 5), (F_rs1, Uimm 5)], \<lambda>a. app2 (asm_fmv_x_q a)),
     (rv_op_fmv_q_x, [(F_rd, Uimm 5), (F_rs1, Uimm 5)], \<lambda>a. app2 (asm_fmv_q_x a))]"

definition jit_spec :: "opcode \<Rightarrow> (asm_field \<times> arg_type) list \<Rightarrow> assembler \<Rightarrow> u64 list \<Rightarrow> (assembler \<times> bool) option" where
  "jit_spec op fs a vs =
     (if list_all2 (\<lambda>(f, t) v. type_valid t v) fs vs
      then add_encoded a (put_fields fs vs (decode_init\<lparr>dec_op := op\<rparr>)) else Some (a, False))"

definition jit_ok :: "opcode \<times> (asm_field \<times> arg_type) list \<times> (assembler \<Rightarrow> u64 list \<Rightarrow> (assembler \<times> bool) option) \<Rightarrow> bool" where
  "jit_ok = (\<lambda>(op, fs, g). \<forall>a vs. length vs = length fs \<longrightarrow> g a vs = jit_spec op fs a vs)"

lemma jit_okI:
  "(\<And>a. h0 a = jit_spec op [] a []) \<Longrightarrow> jit_ok (op, [], \<lambda>a. app0 (h0 a))"
  "(\<And>a p. h1 a p = jit_spec op [x1] a [p]) \<Longrightarrow> jit_ok (op, [x1], \<lambda>a. app1 (h1 a))"
  "(\<And>a p q. h2 a p q = jit_spec op [x1, x2] a [p, q]) \<Longrightarrow> jit_ok (op, [x1, x2], \<lambda>a. app2 (h2 a))"
  "(\<And>a p q r. h3 a p q r = jit_spec op [x1, x2, x3] a [p, q, r]) \<Longrightarrow> jit_ok (op, [x1, x2, x3], \<lambda>a. app3 (h3 a))"
  "(\<And>a p q r s. h4 a p q r s = jit_spec op [x1, x2, x3, x4] a [p, q, r, s]) \<Longrightarrow>
    jit_ok (op, [x1, x2, x3, x4], \<lambda>a. app4 (h4 a))"
  "(\<And>a p q r s t. h5 a p q r s t = jit_spec op [x1, x2, x3, x4, x5] a [p, q, r, s, t]) \<Longrightarrow>
    jit_ok (op, [x1, x2, x3, x4, x5], \<lambda>a. app5 (h5 a))"
  by (auto simp: jit_ok_def app0_def app1_def app2_def app3_def app4_def app5_def length_Suc_conv numeral_eq_Suc)

lemma jitters_ok: "list_all jit_ok jitters"
  unfolding jitters_def
  by ((rule list_all_consI | (rule jit_okI; simp add: asm_defs jit_spec_def; fail) | simp; fail)+)

lemma jitters_emitters: "map (\<lambda>(op, fs, g). (op, fs)) jitters = map (\<lambda>(op, fs, g). (op, fs)) emitters"
  unfolding jitters_def emitters_def by simp

section \<open>Properties\<close>

text \<open>
  C37. The assembling function of an instruction does what its emitter does: with every argument in
  range it appends the very instruction that the emitter returns and reports success, otherwise it
  leaves the assembler as it is and reports failure. The two tables pair them in the same order.
\<close>

theorem jit_appends_emitted:
  assumes "i < length emitters" "emitters ! i = (op, fs, emit)" "length vs = length fs"
  shows "\<exists>asm. i < length jitters \<and> jitters ! i = (op, fs, asm) \<and> asm a vs =
    (if list_all2 (\<lambda>(f, t) v. type_valid t v) fs vs
     then map_option (\<lambda>inst. (add_inst inst a, True)) (emit vs) else Some (a, False))"
proof -
  have l: "length jitters = length emitters" using arg_cong [OF jitters_emitters, of length] by simp
  then have i: "i < length jitters" using assms(1) by simp
  obtain asm where j: "jitters ! i = (op, fs, asm)"
    using arg_cong [OF jitters_emitters, of "\<lambda>xs. xs ! i"] i assms(1,2) by (cases "jitters ! i") auto
  have "emit vs = emit_spec op fs vs" "asm a vs = jit_spec op fs a vs"
    using nth_mem [OF assms(1)] nth_mem [OF i] emitters_ok jitters_ok assms(2,3) j
    by (auto simp: list_all_iff entry_ok_def jit_ok_def)
  then show ?thesis using i j by (auto simp: emit_spec_def jit_spec_def add_encoded_def)
qed

theorem jit_appends_emitted_witness:
  "asm_addi assembler_init 10 0 (- 1) = map_option (\<lambda>inst. (add_inst inst assembler_init, True)) (emit_addi 10 0 (- 1)) \<and>
   asm_addi assembler_init 10 0 0x800 = Some (assembler_init, False)"
proof -
  let ?fs = "[(F_rd, Uimm 5), (F_rs1, Uimm 5), (F_imm, Simm 12 0)]"
  have i: "18 < length emitters" "emitters ! 18 = (rv_op_addi, ?fs, app3 emit_addi)"
    by (simp_all add: emitters_def)
  have j: "jitters ! 18 = (rv_op_addi, ?fs, \<lambda>a. app3 (asm_addi a))" by (simp add: jitters_def)
  have s: "sint (0x800 :: u64) = 0x800" by simp
  show ?thesis
    using jit_appends_emitted [OF i, of "[10, 0, - 1]" assembler_init] jit_appends_emitted [OF i, of "[10, 0, 0x800]" assembler_init]
    by (simp add: j app3_def uimm_valid_def simm_valid_def s)
qed

end
