(* ===== verification/Load_Imm.thy ===== *)
theory Load_Imm
  imports Assembler Interp_Spec
begin

text \<open>
  \<^verbatim>\<open>load_imm\<close> (\<^verbatim>\<open>src/src/asm/assembler.cc\<close>) against the interpreter: the instructions it
  assembles are executed, one after the other, and the register they leave is compared with the
  constant.
\<close>

unbundle bit_operations_syntax

section \<open>Assembled words\<close>

definition code_bytes :: "u64 list \<Rightarrow> u8 list" where
  "code_bytes ws = concat (map (\<lambda>w. map (byte_of w) [0..<4]) ws)"

lemma code_bytes_simps [simp]:
  "code_bytes [] = []" "code_bytes (v @ w) = code_bytes v @ code_bytes w"
  by (simp_all add: code_bytes_def)

lemma push_back_frame [simp]:
  "current (push_back bs a) = current a" "length (sections (push_back bs a)) = length (sections a)"
  by (simp_all add: push_back_def)

lemma push_back_append:
  "current a < length (sections a) \<Longrightarrow> push_back cs (push_back bs a) = push_back (bs @ cs) a"
  by (simp add: push_back_def cur_buf_def)

lemma push_back_nil: "current a < length (sections a) \<Longrightarrow> push_back [] a = a"
  by (simp add: push_back_def cur_buf_def)

lemma add_inst_word: "inst_length w = 4 \<Longrightarrow> add_inst w a = push_back (code_bytes [w]) a"
proof -
  assume l: "inst_length w = 4"
  have b: "ucast (drop_bit n (ucast w :: u32) AND 0xff) = (ucast (drop_bit n w) :: u8)" if "n \<le> 24" for n
  proof (rule bit_word_eqI)
    fix i assume i: "i < LENGTH(8)"
    have m: "(0xff :: u32) = mask 8" by (simp add: mask_eq_exp_minus_1)
    show "bit (ucast (drop_bit n (ucast w :: u32) AND 0xff) :: u8) i \<longleftrightarrow> bit (ucast (drop_bit n w) :: u8) i"
      unfolding m using i that by (simp add: bit_ucast_iff bit_and_iff bit_drop_bit_eq bit_mask_iff)
  qed
  show ?thesis
    using b [of 0] b [of 8] b [of 16] b [of 24]
    by (simp add: add_inst_def l append32_def code_bytes_def byte_of_def upt_rec)
qed

section \<open>Execution of straight-line code\<close>

fun run_code :: "'a cpu_scheme mmu_ops \<Rightarrow> u64 list \<Rightarrow> 'a cpu_scheme \<Rightarrow> 'a cpu_scheme option" where
  "run_code M [] s = Some s"
| "run_code M (w # ws) s =
     (case exec_inst_rv64 M True True True (decode_inst_rv64 decode_init w) 4 s of
        Ok off s' \<Rightarrow> if off = 4 then run_code M ws s' else None
      | _ \<Rightarrow> None)"

lemma run_code_append: "run_code M (v @ w) s = Option.bind (run_code M v s) (run_code M w)"
  by (induction v arbitrary: s) (simp_all split: outcome.splits)

lemma exec_lui: "dec_op d = rv_op_lui \<Longrightarrow> exec_inst_rv64 M True True True d off s = wr d (simm d) off s"
  unfolding exec_inst_rv64_def rv64_cases_def gate_def rvi_jump_def switch_map_of by simp

lemma exec_addi: "dec_op d = rv_op_addi \<Longrightarrow> exec_inst_rv64 M True True True d off s = wr d (rs1 d s + simm d) off s"
  unfolding exec_inst_rv64_def rv64_cases_def gate_def rvi_jump_def rvi_load_store_def rvi_imm_def switch_map_of by simp

lemma exec_slli: "dec_op d = rv_op_slli \<Longrightarrow>
    exec_inst_rv64 M True True True d off s = wr_shift 64 (simm d) d (\<lambda>k. push_bit k (rs1 d s)) off s"
  unfolding exec_inst_rv64_def rv64_cases_def gate_def rvi_jump_def rvi_load_store_def rvi_imm_def switch_map_of by simp

text \<open>Writing and reading a register by number.\<close>

definition put_reg :: "u64 \<Rightarrow> u64 \<Rightarrow> 'a cpu_scheme \<Rightarrow> 'a cpu_scheme" where
  "put_reg r v s = s\<lparr>ireg := (ireg s)[unat r := v]\<rparr>"

lemma put_reg_put_reg: "put_reg r w (put_reg r v s) = put_reg r w s"
  by (simp add: put_reg_def)

text \<open>A decoded instruction that decompression leaves alone.\<close>

lemma decode_wide:
  assumes "rv_inst_decomp_rv64 ! decode_inst_op isa_rv64 w = rv_op_illegal"
  shows "decode_inst_rv64 d w = decode_inst isa_rv64 d w"
  using assms by (simp add: decode_inst_rv64_def decompress_inst_rv64_def decompress_with_def Let_def)

lemma reg_number:
  assumes "uimm_valid 5 r"
  shows "unat (ucast r :: u8) = unat r" "(ucast r :: u8) = 0 \<longleftrightarrow> r = 0" "unat r < 32"
proof -
  have "uint r < 32" using assms by (simp add: uimm_valid_def)
  then have "nat (uint r) < nat 32" by (subst nat_less_eq_zless) simp_all
  then show l: "unat r < 32" by simp
  then show u: "unat (ucast r :: u8) = unat r" by (simp add: unsigned_ucast_eq take_bit_nat_eq_self_iff)
  show "(ucast r :: u8) = 0 \<longleftrightarrow> r = 0" using unat_eq_zero [of "ucast r :: u8"] unat_eq_zero [of r] u by simp
qed

lemma emitted_word:
  assumes "(op, fs, emit) \<in> set emitters" "op \<in> set rv64_ops" "rv_inst_decomp_rv64 ! op = rv_op_illegal"
    "list_all2 (\<lambda>(f, t) v. type_valid t v \<and> type_granule t v) fs vs"
  obtains w d where "emit vs = Some w" "inst_length w = 4" "dec_op d = op"
    "decode_inst_rv64 decode_init w = put_fields fs vs d"
proof -
  obtain w where w: "emit vs = Some w" "inst_length w = 4"
    "decode_inst isa_rv64 decode_init w = put_fields fs vs (decode_inst isa_rv64 decode_init (rv_inst_match ! op))"
    using emitter_decodes [OF assms(1,2,4), of decode_init] by blast
  have "decode_inst_op isa_rv64 (rv_inst_match ! op) = op"
    using emitters_fields_ok assms(1) dec64.complete [OF assms(2), of "rv_inst_match ! op"]
    by (auto simp: list_all_iff fields_ok_def wide_row_def op_selected_def op_matches_def)
  moreover from this have "decode_inst_op isa_rv64 w = op"
    using arg_cong [OF w(3), of dec_op] by simp
  ultimately show ?thesis
    using that [OF w(1,2), of "decode_inst isa_rv64 decode_init (rv_inst_match ! op)"] decode_wide [of w decode_init] assms(3) w(3)
    by simp
qed

lemma run_lui:
  assumes "uimm_valid 5 rd" "rd \<noteq> 0" "simm_valid 32 imm" "take_bit 12 imm = 0"
  obtains w where "emit_lui rd imm = Some w" "inst_length w = 4"
    "\<And>s. run_code M [w] s = Some (put_reg rd imm s)"
proof -
  have m: "(rv_op_lui, [(F_rd, Uimm 5), (F_imm, Simm 32 12)], app2 emit_lui) \<in> set emitters"
    by (simp add: emitters_def)
  have o: "rv_op_lui \<in> set rv64_ops" "rv_inst_decomp_rv64 ! rv_op_lui = rv_op_illegal" by (simp_all add: rv64_ops_def rv_inst_decomp_rv64_def)
  obtain w d where w: "app2 emit_lui [rd, imm] = Some w" "inst_length w = 4" "dec_op d = rv_op_lui"
    "decode_inst_rv64 decode_init w = put_fields [(F_rd, Uimm 5), (F_imm, Simm 32 12)] [rd, imm] d"
    using emitted_word [OF m o, of "[rd, imm]"] assms by auto
  have "run_code M [w] s = Some (put_reg rd imm s)" for s
    using assms reg_number [OF assms(1)] simm_valid_scast [OF assms(3)]
    by (simp add: w exec_lui wr_def set_rd_def simm_def put_reg_def)
  then show ?thesis using w(1,2) that by (simp add: app2_def)
qed

lemma run_addi:
  assumes "uimm_valid 5 rd" "rd \<noteq> 0" "uimm_valid 5 r" "simm_valid 12 imm"
  obtains w where "emit_addi rd r imm = Some w" "inst_length w = 4"
    "\<And>s. run_code M [w] s = Some (put_reg rd (ireg s ! unat r + imm) s)"
proof -
  let ?fs = "[(F_rd, Uimm 5), (F_rs1, Uimm 5), (F_imm, Simm 12 0)]"
  have m: "(rv_op_addi, ?fs, app3 emit_addi) \<in> set emitters"
    by (simp add: emitters_def)
  have o: "rv_op_addi \<in> set rv64_ops" "rv_inst_decomp_rv64 ! rv_op_addi = rv_op_illegal" by (simp_all add: rv64_ops_def rv_inst_decomp_rv64_def)
  obtain w d where w: "app3 emit_addi [rd, r, imm] = Some w" "inst_length w = 4" "dec_op d = rv_op_addi"
    "decode_inst_rv64 decode_init w = put_fields ?fs [rd, r, imm] d"
    using emitted_word [OF m o, of "[rd, r, imm]"] assms by auto
  have "run_code M [w] s = Some (put_reg rd (ireg s ! unat r + imm) s)" for s
    using assms reg_number [OF assms(1)] reg_number [OF assms(3)] simm_valid_scast [OF simm_valid_mono [OF assms(4)]]
    by (simp add: w exec_addi wr_def set_rd_def simm_def put_reg_def rs1_def reg_def)
  then show ?thesis using w(1,2) that by (simp add: app3_def)
qed

lemma run_slli:
  assumes "uimm_valid 5 rd" "rd \<noteq> 0" "uimm_valid 5 r" "k < 64"
  obtains w where "emit_slli rd r (of_nat k) = Some w" "inst_length w = 4"
    "\<And>s. run_code M [w] s = Some (put_reg rd (push_bit k (ireg s ! unat r)) s)"
proof -
  let ?fs = "[(F_rd, Uimm 5), (F_rs1, Uimm 5), (F_imm, Uimm 7)]"
  have m: "(rv_op_slli, ?fs, app3 emit_slli) \<in> set emitters"
    by (simp add: emitters_def)
  have o: "rv_op_slli \<in> set rv64_ops" "rv_inst_decomp_rv64 ! rv_op_slli = rv_op_illegal" by (simp_all add: rv64_ops_def rv_inst_decomp_rv64_def)
  have k: "uint (of_nat k :: u64) = int k" "unat (of_nat k :: u64) = k"
    using assms(4) by (simp_all add: unat_of_nat unsigned_of_nat take_bit_nat_eq_self_iff)
  have v: "uimm_valid 7 (of_nat k)" using assms(4) by (simp add: uimm_valid_def k)
  obtain w d where w: "app3 emit_slli [rd, r, of_nat k] = Some w" "inst_length w = 4" "dec_op d = rv_op_slli"
    "decode_inst_rv64 decode_init w = put_fields ?fs [rd, r, of_nat k] d"
    using emitted_word [OF m o, of "[rd, r, of_nat k]"] assms v by auto
  have i: "scast (ucast (of_nat k :: u64) :: u32) = (of_nat k :: u64)"
    using uimm_valid_simm [OF uimm_valid_mono [OF v]] by (intro simm_valid_scast) simp
  have "run_code M [w] s = Some (put_reg rd (push_bit k (ireg s ! unat r)) s)" for s
    using assms reg_number [OF assms(1)] reg_number [OF assms(3)]
    by (simp add: w exec_slli wr_shift_def wr_def set_rd_def simm_def put_reg_def rs1_def reg_def i k)
  then show ?thesis using w(1,2) that by (simp add: app3_def)
qed

text \<open>Assembling two pieces of code one after the other.\<close>

definition assembles :: "(assembler \<Rightarrow> assembler option) \<Rightarrow> (u64 list \<Rightarrow> bool) \<Rightarrow> bool" where
  "assembles f P \<longleftrightarrow> (\<exists>ws. P ws \<and> (\<forall>a. current a < length (sections a) \<longrightarrow> f a = Some (push_back (code_bytes ws) a)))"

lemma assembles_word:
  assumes "e = Some w" "inst_length w = 4" "P [w]"
  shows "assembles (add_emitted e) P"
  using assms unfolding assembles_def by (intro exI [of _ "[w]"]) (simp add: add_emitted_def add_inst_word)

lemma assembles_nothing: "P [] \<Longrightarrow> assembles Some P"
  unfolding assembles_def by (intro exI [of _ "[]"]) (simp add: push_back_nil)

lemma assembles_bind:
  assumes "assembles f P" "\<And>ws. P ws \<Longrightarrow> assembles g (\<lambda>ws'. Q (ws @ ws'))"
  shows "assembles (\<lambda>a. Option.bind (f a) g) Q"
proof -
  obtain ws where ws: "P ws" "\<And>a. current a < length (sections a) \<Longrightarrow> f a = Some (push_back (code_bytes ws) a)"
    using assms(1) by (auto simp: assembles_def)
  obtain ws' where "Q (ws @ ws')" "\<And>a. current a < length (sections a) \<Longrightarrow> g a = Some (push_back (code_bytes ws') a)"
    using assms(2) [OF ws(1)] by (auto simp: assembles_def)
  then show ?thesis
    unfolding assembles_def by (intro exI [of _ "ws @ ws'"]) (simp add: ws(2) push_back_append)
qed

text \<open>\<open>leaves rd v ws\<close>: on any hart the code leaves \<open>v\<close> in register \<open>rd\<close> and changes nothing else.\<close>

definition leaves :: "'a cpu_scheme mmu_ops \<Rightarrow> u64 \<Rightarrow> u64 \<Rightarrow> u64 list \<Rightarrow> bool" where
  "leaves M rd v ws \<longleftrightarrow> (\<forall>s. length (ireg s) = 32 \<longrightarrow> ireg s ! 0 = 0 \<longrightarrow> run_code M ws s = Some (put_reg rd v s))"

lemma leaves_step:
  assumes "leaves M rd v ws" "uimm_valid 5 rd" "rd \<noteq> 0"
    and "\<And>s. run_code M [w] s = Some (put_reg rd (g (ireg s ! unat rd)) s)"
  shows "leaves M rd (g v) (ws @ [w])"
  using assms reg_number [OF assms(2)] by (simp add: leaves_def run_code_append put_reg_def)

section \<open>What \<^verbatim>\<open>load_imm_r\<close> leaves in the register\<close>

text \<open>
  The innermost value of the recursion and the sum of the shifts applied to it. When bit 11 of that
  value is set, the code leaves \<open>2 ^ 12\<close>, shifted, too little: the \<^verbatim>\<open>addi\<close> after the
  \<^verbatim>\<open>lui\<close> subtracts what \<^verbatim>\<open>lui\<close> has not been rounded up for.
\<close>

function imm_chunk :: "u64 \<Rightarrow> u64 \<times> nat" where
  "imm_chunk val =
     (if fits32 val \<or> sub_overflows val (imm_lo val) then (val, 0)
      else let (c, k) = imm_chunk (imm_hi val) in (c, imm_shift val + k))"
  by pat_completeness auto
termination
  by (relation "measure (\<lambda>val. nat \<bar>sint val\<bar>)") (use imm_hi_smaller in \<open>auto simp: zless_nat_eq_int_zless\<close>)

declare imm_chunk.simps [simp del]

definition imm_error :: "u64 \<Rightarrow> u64" where
  "imm_error val = (case imm_chunk val of (c, k) \<Rightarrow> if bit c 11 then push_bit (12 + k) 1 else 0)"

definition chunk_error :: "u64 \<Rightarrow> u64" where
  "chunk_error val = (if bit val 11 then 0x1000 else 0)"

lemma imm_error_simps:
  "fits32 val \<Longrightarrow> imm_error val = chunk_error val"
  "\<not> fits32 val \<Longrightarrow> \<not> sub_overflows val (imm_lo val) \<Longrightarrow> imm_error val = push_bit (imm_shift val) (imm_error (imm_hi val))"
  by (subst imm_error_def, subst imm_chunk.simps, simp add: imm_error_def chunk_error_def push_bit_push_bit push_bit_eq_mult
      split: prod.splits)
    (subst imm_error_def, subst imm_chunk.simps, simp add: imm_error_def push_bit_eq_mult power_add ac_simps split: prod.splits)

text \<open>The upper 20 bits and the rest.\<close>

definition upper :: "u64 \<Rightarrow> u64" where
  "upper val = push_bit 12 (signed_drop_bit 12 val)"

lemma upper_lower: "val - upper val = take_bit 12 val"
proof -
  have "upper val = val AND NOT (mask 12)"
    unfolding upper_def u64_eq_iff by (auto simp: bit_push_bit_iff bit_signed_drop_bit_iff bit_and_iff bit_not_iff bit_mask_iff)
  moreover have "(val AND NOT (mask 12)) + (val AND mask 12) = (val AND NOT (mask 12)) OR (val AND mask 12)"
    by (rule disjunctive_add_eq_or) (simp add: bit_eq_iff bit_and_iff bit_not_iff)
  moreover have "\<dots> = val" by (rule bit_word_eqI) (auto simp: bit_or_iff bit_and_iff bit_not_iff)
  ultimately show ?thesis by (simp add: take_bit_eq_mask algebra_simps)
qed

lemma upper_range:
  assumes "fits32 val"
  shows "simm_valid 32 (upper val)" "take_bit 12 (upper val) = 0"
proof -
  show "take_bit 12 (upper val) = 0" by (simp add: upper_def take_bit_push_bit)
  have v: "bit val i = bit val (min 31 i)" if "i < 64" for i
  proof -
    have "sign_extend 32 val = val" using assms by (simp add: fits32_iff simm_valid_sign_extend)
    from arg_cong [OF this, of "\<lambda>w. bit w i"] show ?thesis using that by (simp add: bit_sign_extend)
  qed
  have "bit (upper val) i \<longleftrightarrow> 12 \<le> i \<and> i < 64 \<and> bit val i" for i
    by (auto simp: upper_def bit_push_bit_iff bit_signed_drop_bit_iff)
  then have "bit (sign_extend 32 (upper val)) i = bit (upper val) i" if "i < 64" for i
    using that by (simp add: bit_sign_extend v [OF that, symmetric] min_less_iff_disj)
  then have "sign_extend 32 (upper val) = upper val" by (simp add: u64_eq_iff)
  then show "simm_valid 32 (upper val)" by (simp add: simm_valid_sign_extend)
qed

lemma lower_range: "simm_valid 12 (bitextend val 12)"
  using imm_lo_bounds [of val] by (simp add: simm_valid_def imm_lo_def)

lemma upper_plus_lower: "upper val + bitextend (take_bit 12 val) 12 = val - chunk_error val"
proof -
  have b: "bitextend (take_bit 12 val) 12 = take_bit 12 val - chunk_error val"
    by (simp add: bitextend_signed signed_take_bit_take_bit signed_take_bit_eq_take_bit_minus chunk_error_def bit_take_bit_iff)
  show ?thesis unfolding b by (simp add: upper_lower [symmetric])
qed

text \<open>The recursive step: shifting the upper part back and adding the lower part gives the value.\<close>

lemma ctz_below: "i < ctz x \<Longrightarrow> \<not> bit x i"
proof -
  assume i: "i < ctz x"
  let ?xs = "takeWhile (\<lambda>i. \<not> bit x i) [0..<64]"
  have "?xs ! i = [0..<64] ! i" using i unfolding ctz_def by (rule takeWhile_nth)
  moreover have "i < 64" using i length_takeWhile_le [of "\<lambda>i. \<not> bit x i" "[0..<64]"] by (simp add: ctz_def)
  ultimately have "?xs ! i = i" by simp
  moreover have "?xs ! i \<in> set ?xs" using i by (simp add: ctz_def)
  ultimately show ?thesis by (auto dest: set_takeWhileD)
qed

lemma ctz_zeros: "take_bit (ctz x) x = 0"
  using ctz_below [of _ x] by (auto simp: bit_take_bit_iff intro!: bit_word_eqI)

lemma ctz_bit: 
  assumes "x \<noteq> 0"
  shows "ctz x < 64" "bit x (ctz x)"
proof -
  obtain j where j: "j < 64" "bit x j" using assms by (auto simp: u64_eq_iff)
  show l: "ctz x < 64"
  proof (rule ccontr)
    assume "\<not> ctz x < 64"
    then show False using ctz_below [of j x] j by simp
  qed
  then show "bit x (ctz x)"
    using nth_length_takeWhile [of "\<lambda>i. \<not> bit x i" "[0..<64]"] by (simp add: ctz_def)
qed

lemma imm_lo_low: "take_bit 12 (val - imm_lo val) = 0"
proof -
  have "imm_lo val = take_bit 12 val - push_bit 12 (of_bool (bit val 11))"
    by (simp add: imm_lo_def bitextend_signed signed_take_bit_eq_take_bit_minus push_bit_eq_mult)
  then have "val - imm_lo val = (push_bit 12 (drop_bit 12 val) + take_bit 12 val) - imm_lo val"
    by (simp only: bits_ident)
  also have "\<dots> = push_bit 12 (drop_bit 12 val + of_bool (bit val 11))"
    unfolding \<open>imm_lo val = _\<close> by (simp add: push_bit_add)
  finally show ?thesis by (simp add: take_bit_push_bit)
qed

lemma imm_zeros: "take_bit (imm_shift val) (val - imm_lo val) = 0"
proof -
  let ?x = "val - imm_lo val"
  have "\<not> bit ?x i" if "i < imm_shift val" for i
  proof (cases "i < 12")
    case True
    then show ?thesis using imm_lo_low [of val] by (metis bit_take_bit_iff bit_0_eq bot_apply bot_bool_def)
  next
    case False
    then have "\<not> bit (drop_bit 12 ?x) (i - 12)" using that by (intro ctz_below) (simp add: imm_shift_def)
    then show ?thesis using False by (simp add: bit_drop_bit_eq)
  qed
  then show ?thesis by (auto simp: u64_eq_iff bit_take_bit_iff)
qed

lemma imm_shift_less: 
  assumes "\<not> fits32 val"
  shows "imm_shift val < 64"
proof -
  have "val \<noteq> imm_lo val"
    using assms imm_lo_bounds [of val] by (auto simp: fits32_iff simm_valid_def)
  then have x: "val - imm_lo val \<noteq> 0" by simp
  have "drop_bit 12 (val - imm_lo val) \<noteq> 0"
  proof
    assume "drop_bit 12 (val - imm_lo val) = 0"
    then have "val - imm_lo val = 0" using imm_lo_low [of val] by (metis bits_ident push_bit_of_0 add_0)
    then show False using x by simp
  qed
  then have "ctz (drop_bit 12 (val - imm_lo val)) < 64" "bit (drop_bit 12 (val - imm_lo val)) (ctz (drop_bit 12 (val - imm_lo val)))"
    by (rule ctz_bit)+
  then show ?thesis by (auto simp: imm_shift_def bit_drop_bit_eq dest: bit_imp_le_length)
qed

lemma imm_hi_shifted: 
  shows "push_bit (imm_shift val) (imm_hi val) = val - imm_lo val"
proof -
  have z: "\<not> bit (val - imm_lo val) i" if "i < imm_shift val" "i < 64" for i
    using that imm_zeros [of val] by (auto simp: u64_eq_iff bit_take_bit_iff)
  have "bit (push_bit (imm_shift val) (imm_hi val)) i = bit (val - imm_lo val) i" if "i < 64" for i
    using z [of i] that by (cases "i < imm_shift val") (auto simp: imm_hi_def bit_push_bit_iff bit_signed_drop_bit_iff)
  then show ?thesis by (simp add: u64_eq_iff)
qed
text \<open>\<^verbatim>\<open>val - lo\<close> overflows for the largest values only.\<close>

lemma sub_in_range:
  assumes "sint val < 2 ^ 63 - 2048"
  shows "\<not> sub_overflows val (imm_lo val)" "\<bar>sint (imm_hi val)\<bar> \<le> 2 ^ 52"
proof -
  let ?h = "sint val - sint (imm_lo val)"
  have v: "- (2 ^ 63) \<le> sint val" "sint val < 2 ^ 63" 
    using sint_greater_eq [of val] sint_less [of val] by simp_all
  have "?h = 4096 * (sint val div 4096 + of_bool (bit (sint val) 11))"
    unfolding sint_imm_lo signed_take_bit_eq_take_bit_minus
    by (simp add: take_bit_eq_mod minus_mod_eq_mult_div [symmetric] algebra_simps)
  moreover have "- (2 ^ 63) div 4096 \<le> sint val div 4096" using v(1) by (intro zdiv_mono1) simp_all
  ultimately have "- (2 ^ 63) \<le> ?h" by simp
  moreover have "?h < 2 ^ 63" using assms imm_lo_bounds [of val] by simp
  ultimately have "sint (val - imm_lo val) = ?h"
    by (simp add: sint_word_ariths signed_take_bit_int_eq_self)
  then show o: "\<not> sub_overflows val (imm_lo val)" by (simp add: sub_overflows_def)
  have "\<bar>?h\<bar> \<le> 2 ^ 63" using \<open>- (2 ^ 63) \<le> ?h\<close> \<open>?h < 2 ^ 63\<close> by simp
  then have "\<bar>?h\<bar> div 2 ^ 12 \<le> 2 ^ 63 div 2 ^ 12" by (intro zdiv_mono1) simp_all
  then show "\<bar>sint (imm_hi val)\<bar> \<le> 2 ^ 52" using imm_hi_bound [OF o] by simp
qed

lemma assembles_cong: "(\<And>a. f a = g a) \<Longrightarrow> assembles g P \<Longrightarrow> assembles f P"
  by (simp add: assembles_def)

lemma assembles_addi:
  assumes "uimm_valid 5 rd" "rd \<noteq> 0" "simm_valid 12 imm" "leaves M rd v ws" "v + imm = v'"
  shows "assembles (add_emitted (emit_addi rd rd imm)) (\<lambda>ws'. leaves M rd v' (ws @ ws'))"
proof -
  obtain w where w: "emit_addi rd rd imm = Some w" "inst_length w = 4"
    "\<And>s. run_code M [w] s = Some (put_reg rd (ireg s ! unat rd + imm) s)"
    using run_addi [OF assms(1,2,1,3)] by blast
  show ?thesis
    using leaves_step [OF assms(4,1,2), of w "\<lambda>x. x + imm"] w(3) assms(5) by (intro assembles_word [OF w(1,2)]) simp
qed

lemma assembles_slli:
  assumes "uimm_valid 5 rd" "rd \<noteq> 0" "k < 64" "leaves M rd v ws" "push_bit k v = v'"
  shows "assembles (add_emitted (emit_slli rd rd (of_nat k))) (\<lambda>ws'. leaves M rd v' (ws @ ws'))"
proof -
  obtain w where w: "emit_slli rd rd (of_nat k) = Some w" "inst_length w = 4"
    "\<And>s. run_code M [w] s = Some (put_reg rd (push_bit k (ireg s ! unat rd)) s)"
    using run_slli [OF assms(1,2,1,3)] by blast
  show ?thesis
    using leaves_step [OF assms(4,1,2), of w "push_bit k"] w(3) assms(5) by (intro assembles_word [OF w(1,2)]) simp
qed

lemma load_imm_r_code:
  assumes rd: "uimm_valid 5 rd" "rd \<noteq> 0" and "sint val < 2 ^ 63 - 2048"
  shows "assembles (load_imm_r rd val) (leaves M rd (val - imm_error val))"
  using assms(3)
proof (induction val rule: imm_chunk.induct)
  case (1 val)
  show ?case
  proof (cases "fits32 val")
    case True
    let ?g = "if take_bit 12 val \<noteq> 0 then add_emitted (emit_addi rd rd (bitextend (take_bit 12 val) 12)) else Some"
    obtain w where w: "emit_lui rd (upper val) = Some w" "inst_length w = 4"
      "\<And>s. run_code M [w] s = Some (put_reg rd (upper val) s)"
      using run_lui [OF rd upper_range [OF True]] by blast
    have "load_imm_r rd val a = Option.bind (add_emitted (emit_lui rd (upper val)) a) ?g" for a
      by (subst load_imm_r.simps) (simp add: True upper_def [symmetric] upper_lower)
    then show ?thesis
    proof (rule assembles_cong)
      show "assembles (\<lambda>a. Option.bind (add_emitted (emit_lui rd (upper val)) a) ?g) (leaves M rd (val - imm_error val))"
      proof (rule assembles_bind [where P = "leaves M rd (upper val)"])
        show "assembles (add_emitted (emit_lui rd (upper val))) (leaves M rd (upper val))"
          by (rule assembles_word [OF w(1,2)]) (use w(3) in \<open>auto simp only: leaves_def\<close>)
        fix ws assume ws: "leaves M rd (upper val) ws"
        show "assembles ?g (\<lambda>ws'. leaves M rd (val - imm_error val) (ws @ ws'))"
        proof (cases "take_bit 12 val = 0")
          case z: True
          have "bit (take_bit 12 val) 11 = bit val 11" by (simp add: bit_take_bit_iff)
          then have "\<not> bit val 11" unfolding z by simp
          then show ?thesis
            using ws upper_lower [of val] True z by (auto simp: imm_error_simps chunk_error_def intro!: assembles_nothing)
        next
          case False
          then show ?thesis
            using upper_plus_lower [of val] True by (simp add: imm_error_simps assembles_addi [OF rd lower_range ws])
        qed
      qed
    qed
  next
    case False
    note r = sub_in_range [OF 1(2)] imm_shift_less [OF False] imm_hi_shifted [of val]
    let ?v = "imm_hi val - imm_error (imm_hi val)"
    let ?g = "if imm_lo val \<noteq> 0 then add_emitted (emit_addi rd rd (imm_lo val)) else Some"
    have lo12: "simm_valid 12 (imm_lo val)" using lower_range [of val] by (simp add: imm_lo_def)
    have "bitextend (imm_lo val) 12 = imm_lo val" by (simp add: imm_lo_def bitextend_signed)
    then have lo: "scast (ucast (bitextend (imm_lo val) 12) :: u32) = imm_lo val"
      using simm_valid_scast [OF simm_valid_mono [OF lo12]] by simp
    have "assembles (load_imm_r rd (imm_hi val)) (leaves M rd ?v)"
      using r(2) False r(1) by (intro 1(1)) auto
    moreover have "assembles (\<lambda>a. Option.bind (add_emitted (emit_slli rd rd (of_nat (imm_shift val))) a) ?g)
        (\<lambda>ws'. leaves M rd (val - imm_error val) (ws @ ws'))" if ws: "leaves M rd ?v ws" for ws
    proof (rule assembles_bind)
      show "assembles (add_emitted (emit_slli rd rd (of_nat (imm_shift val))))
          (\<lambda>ws'. leaves M rd (push_bit (imm_shift val) ?v) (ws @ ws'))"
        by (rule assembles_slli [OF rd r(3) ws]) simp
      have e: "push_bit (imm_shift val) ?v + imm_lo val = val - imm_error val"
        using r(4) by (simp add: imm_error_simps False r(1) push_bit_eq_mult algebra_simps)
      fix ws' assume "leaves M rd (push_bit (imm_shift val) ?v) (ws @ ws')"
      then show "assembles ?g (\<lambda>ws''. leaves M rd (val - imm_error val) (ws @ ws' @ ws''))"
        using assembles_addi [OF rd lo12 _ e, of M "ws @ ws'"] e by (auto intro!: assembles_nothing)
    qed
    ultimately have "assembles (\<lambda>a. Option.bind (load_imm_r rd (imm_hi val) a)
        (\<lambda>a. Option.bind (add_emitted (emit_slli rd rd (of_nat (imm_shift val))) a) ?g)) (leaves M rd (val - imm_error val))"
      by (rule assembles_bind)
    then show ?thesis
      by (rule assembles_cong [rotated]) (subst load_imm_r.simps, use r(1) in \<open>cases "imm_lo val = 0"; simp add: False lo\<close>)
  qed
qed

lemma ispow2_ctz:
  assumes "ispow2 val"
  shows "ctz val < 64" "push_bit (ctz val) 1 = val"
proof -
  let ?k = "ctz val"
  have v: "val \<noteq> 0" "val AND (val - 1) = 0" using assms by (simp_all add: ispow2_def)
  note k = ctz_bit [OF v(1)] ctz_below [of _ val]
  then show "?k < 64" by blast
  define r where "r = val AND NOT (mask (Suc ?k))"
  define p where "p = push_bit ?k (1 :: u64)"
  have p: "bit p n \<longleftrightarrow> n = ?k" for n
    using k(1) bit_exp_iff [where 'a = "64 word", of ?k n] by (auto simp: p_def push_bit_eq_mult)
  have "val = p OR r"
    using k by (intro bit_word_eqI) (auto simp: p r_def bit_or_iff bit_and_iff bit_not_iff bit_mask_iff not_less_eq linorder_neq_iff)
  moreover have "p + r = p OR r"
    by (rule disjunctive_add_eq_or) (rule bit_word_eqI, auto simp: p r_def bit_and_iff bit_not_iff bit_mask_iff)
  ultimately have s: "val = p + r" by simp
  then have "val - 1 = r + mask ?k" by (simp add: mask_eq_exp_minus_1 p_def push_bit_eq_mult add.commute)
  also have "\<dots> = r OR mask ?k"
    by (rule disjunctive_add_eq_or) (rule bit_word_eqI, auto simp: r_def bit_and_iff bit_not_iff bit_mask_iff)
  finally have "val AND (r OR mask ?k) = 0" using v(2) by simp
  then have "val AND r = 0" by (simp add: bit.conj_disj_distrib or_eq_0_iff)
  then have "r = 0" by (simp add: r_def and.assoc [symmetric])
  then show "push_bit ?k 1 = val" using s by (simp add: p_def add.commute)
qed

lemma load_imm_code:
  assumes rd: "uimm_valid 5 rd" "rd \<noteq> 0" and "sint val < 2 ^ 63 - 2048"
  shows "assembles (load_imm rd val) (leaves M rd
    (val - (if simm_valid 12 val \<or> ispow2 val then 0 else imm_error val)))"
proof -
  have x0: "leaves M rd v [w]" if "\<And>s. run_code M [w] s = Some (put_reg rd (ireg s ! unat (0 :: u64) + v) s)" for v w
    using that by (simp add: leaves_def)
  show ?thesis
  proof (cases "simm_valid 12 val")
    case True
    have v: "scast (ucast val :: u32) = val" using simm_valid_scast [OF simm_valid_mono [OF True]] by simp
    obtain w where w: "emit_addi rd 0 val = Some w" "inst_length w = 4"
      "\<And>s. run_code M [w] s = Some (put_reg rd (ireg s ! unat (0 :: u64) + val) s)"
      using run_addi [OF rd _ True, of 0] by (auto simp: uimm_valid_def)
    have "load_imm rd val a = add_emitted (emit_addi rd 0 val) a" for a
      using True v by (simp add: load_imm_def simm_valid_def)
    moreover have "assembles (add_emitted (emit_addi rd 0 val)) (leaves M rd val)"
      by (rule assembles_word [where P = "leaves M rd val", OF w(1,2) x0 [OF w(3)]])
    ultimately show ?thesis using True by (simp add: assembles_def)
  next
    case False
    have n: "\<not> (- 2048 \<le> sint val \<and> sint val \<le> 2047)" using False by (auto simp: simm_valid_def)
    show ?thesis
    proof (cases "ispow2 val")
      case True
      note p = ispow2_ctz [OF True]
      obtain w where w: "emit_addi rd 0 1 = Some w" "inst_length w = 4"
        "\<And>s. run_code M [w] s = Some (put_reg rd (ireg s ! unat (0 :: u64) + 1) s)"
        using run_addi [OF rd, of 0 1] by (auto simp: uimm_valid_def simm_valid_def)
      have "assembles (\<lambda>a. Option.bind (add_emitted (emit_addi rd 0 1) a) (add_emitted (emit_slli rd rd (of_nat (ctz val)))))
          (leaves M rd val)"
        by (rule assembles_bind [OF assembles_word [where P = "leaves M rd 1", OF w(1,2) x0 [OF w(3)]]], rule assembles_slli [OF rd p(1) _ p(2)])
      moreover have "load_imm rd val a = Option.bind (add_emitted (emit_addi rd 0 1) a)
          (add_emitted (emit_slli rd rd (of_nat (ctz val))))" for a
        using n True by (auto simp: load_imm_def)
      ultimately show ?thesis using True by (simp add: assembles_def)
    next
      case np: False
      have "load_imm rd val a = load_imm_r rd val a" for a using n np by (auto simp: load_imm_def)
      then show ?thesis using load_imm_r_code [OF assms, of M] False np by (simp add: assembles_def)
    qed
  qed
qed

section \<open>Properties\<close>

text \<open>
  C33. The code that \<^verbatim>\<open>load_imm\<close> assembles for a constant, executed by the interpreter, leaves
  the constant in the register and changes nothing else, except for the constants whose innermost
  32-bit chunk has bit 11 set: there the register is too small by \<open>imm_error\<close>, which is \<open>2 ^ 12\<close>
  shifted by the shifts of the outer levels. The bytes are appended to the current section and the
  recursion ends, for every constant below the last 2048 ones, for which the C++ code overflows.
\<close>

theorem load_imm_loads:
  assumes "0 < rd" "rd < 32" "sint val < 2 ^ 63 - 2048"
    and "current a < length (sections a)" "length (ireg s) = 32" "ireg s ! 0 = 0"
  shows "\<exists>ws. load_imm rd val a = Some (push_back (code_bytes ws) a) \<and>
    run_code M ws s = Some (s\<lparr>ireg := (ireg s)[unat rd :=
      val - (if simm_valid 12 val \<or> ispow2 val then 0 else imm_error val)]\<rparr>)"
proof -
  have "uimm_valid 5 rd" "rd \<noteq> 0"
    using assms(1,2) by (auto simp: uimm_valid_def word_less_def)
  from load_imm_code [OF this assms(3), of M] show ?thesis
    using assms(4-6) by (auto simp: assembles_def leaves_def put_reg_def)
qed

text \<open>
  Two constants that are not loaded: \<^verbatim>\<open>0x12345fff\<close> gives \<^verbatim>\<open>0x12344fff\<close>, and the
  negative power of two \<^verbatim>\<open>-0x100000000\<close> gives \<^verbatim>\<open>-0x100100000000\<close>.
\<close>

lemma load_imm_errors:
  "fits32 0x12345fff" "imm_error 0x12345fff = 0x1000"
  "imm_error (- 0x100000000) = 0x100000000000"
proof -
  show f: "fits32 0x12345fff" by (simp add: fits32_def)
  have "bit (0x12345fff :: u64) 11" by simp
  then show "imm_error 0x12345fff = 0x1000" by (simp add: imm_error_simps(1) [OF f] chunk_error_def)
  have lo: "imm_lo (- 0x100000000) = 0" by code_simp
  have sh: "imm_shift (- 0x100000000) = 32" by code_simp
  have hi: "imm_hi (- 0x100000000) = - 1" by code_simp
  have "imm_error (- 1) = chunk_error (- 1)" by (rule imm_error_simps(1)) (simp add: fits32_def)
  then have e: "imm_error (- 1) = 0x1000" by (simp add: chunk_error_def)
  have "\<not> fits32 (- 0x100000000)" by code_simp
  moreover have "\<not> sub_overflows (- 0x100000000) (imm_lo (- 0x100000000))" by (simp add: lo sub_overflows_def)
  ultimately have "imm_error (- 0x100000000) = push_bit (imm_shift (- 0x100000000)) (imm_error (imm_hi (- 0x100000000)))"
    by (rule imm_error_simps(2))
  then show "imm_error (- 0x100000000) = 0x100000000000" unfolding sh hi e by simp
qed

theorem load_imm_loads_witness:
  "\<exists>ws. load_imm 10 0x12345fff assembler_init = Some (push_back (code_bytes ws) assembler_init) \<and>
    run_code soft_mmu ws example_hart = Some (example_hart\<lparr>ireg := (replicate 32 0)[10 := 0x12344fff]\<rparr>)"
proof -
  have r: "ireg example_hart = replicate 32 0" by (simp add: example_hart_def hart_init_def)
  have n: "\<not> simm_valid 12 0x12345fff" "\<not> ispow2 0x12345fff" by code_simp+
  have v: "sint (0x12345fff :: u64) < 2 ^ 63 - 2048" by code_simp
  have a: "current assembler_init < length (sections assembler_init)"
    by (simp add: assembler_init_def get_section_def Let_def)
  show ?thesis
    using load_imm_loads [of 10 "0x12345fff" assembler_init example_hart soft_mmu] v a r n
    by (simp add: load_imm_errors)
qed

end
