(* ===== verification/Assembler_Spec.thy ===== *)
theory Assembler_Spec
  imports Load_Imm
begin

text \<open>
  What every use of the assembler keeps true, and what the labels promise. The operations of
  \<open>Assembler\<close> are the steps of a transition relation; \<open>assembler_wf\<close> holds in every state that
  they reach from the constructor.
\<close>

unbundle bit_operations_syntax

section \<open>Well-formedness\<close>

text \<open>
  An ordered map whose values are pointers into a list: the keys ascend, what a key points to carries
  that key and is the last element of the list that does, and the key of every element is in the map.
  A map from names has every element under its name.
\<close>

definition map_wf :: "('a \<Rightarrow> section_offset) \<Rightarrow> 'a list \<Rightarrow> (section_offset \<times> nat) list \<Rightarrow> bool" where
  "map_wf key xs m \<longleftrightarrow> sorted_wrt offset_less (map fst m) \<and> 
     (\<forall>(k, i) \<in> set m. i < length xs \<and> key (xs ! i) = k \<and> (\<forall>j < length xs. key (xs ! j) = k \<longrightarrow> j \<le> i)) \<and>
     key ` set xs \<subseteq> fst ` set m"

definition names_wf :: "('a \<Rightarrow> string) \<Rightarrow> 'a list \<Rightarrow> (string \<Rightarrow> nat option) \<Rightarrow> bool" where
  "names_wf name xs m \<longleftrightarrow> finite (dom m) \<and> (\<forall>n i. m n = Some i \<longrightarrow> i < length xs \<and> name (xs ! i) = n) \<and>
     (\<forall>i < length xs. m (name (xs ! i)) = Some i)"

definition assembler_wf :: "assembler \<Rightarrow> bool" where
  "assembler_wf a \<longleftrightarrow> current a < length (sections a) \<and>
     (\<forall>i < length (sections a). sec_index (sections a ! i) = of_nat i) \<and>
     names_wf sec_name (sections a) (section_map a) \<and>
     names_wf lab_name (labels a) (labels_byname a) \<and>
     map_wf lab_offset (labels a) (labels_byoffset a) \<and>
     map_wf rel_offset (relocs a) (relocs_byoffset a)"

lemma offset_less_trans: "offset_less a b \<Longrightarrow> offset_less b c \<Longrightarrow> offset_less a c"
  by (auto simp: offset_less_def)

lemma offset_less_irrefl [simp]: "\<not> offset_less a a"
  by (simp add: offset_less_def)

lemma offset_less_asym: "offset_less a b \<Longrightarrow> \<not> offset_less b a"
  by (auto simp: offset_less_def)

lemma offset_less_linear: "offset_less a b \<or> a = b \<or> offset_less b a"
  by (cases a; cases b) (auto simp: offset_less_def)

lemma map_put_set: "set (map_put k v m) \<subseteq> insert (k, v) (set m)" "(k, v) \<in> set (map_put k v m)"
  by (induction k v m rule: map_put.induct) auto

lemma map_put_keys: "fst ` set (map_put k v m) = insert k (fst ` set m)"
  by (induction k v m rule: map_put.induct) auto

lemma map_put_sorted: "sorted_wrt offset_less (map fst m) \<Longrightarrow> sorted_wrt offset_less (map fst (map_put k v m))"
proof (induction k v m rule: map_put.induct)
  case (2 k v k' v' m)
  have "offset_less k k' \<or> k = k' \<or> offset_less k' k" by (rule offset_less_linear)
  moreover have "offset_less k' x" if "x \<in> fst ` set m" for x using that 2(2) by auto
  ultimately show ?case
    using 2 map_put_keys [of k v m] by (auto intro: offset_less_trans simp flip: set_map)
qed simp

lemma sorted_offset_keys: "sorted_wrt offset_less (map fst m) \<Longrightarrow> (k, i) \<in> set m \<Longrightarrow> (k, j) \<in> set m \<Longrightarrow> i = j"
  by (induction m) auto

lemma map_wf_put:
  assumes "map_wf key xs m" "key x = k"
  shows "map_wf key (xs @ [x]) (map_put k (length xs) m)"
proof -
  have m: "sorted_wrt offset_less (map fst m)" "key ` set xs \<subseteq> fst ` set m"
    "\<And>k i. (k, i) \<in> set m \<Longrightarrow> i < length xs \<and> key (xs ! i) = k \<and> (\<forall>j < length xs. key (xs ! j) = k \<longrightarrow> j \<le> i)"
    using assms(1) by (auto simp: map_wf_def)
  note s = map_put_sorted [OF m(1), of k "length xs"]
  have "i < length (xs @ [x]) \<and> key ((xs @ [x]) ! i) = k' \<and> (\<forall>j < length (xs @ [x]). key ((xs @ [x]) ! j) = k' \<longrightarrow> j \<le> i)"
    if e: "(k', i) \<in> set (map_put k (length xs) m)" for k' i
  proof (cases "k' = k")
    case True
    then have "i = length xs" using sorted_offset_keys [OF s] e map_put_set(2) by metis
    then show ?thesis using True assms(2) by simp
  next
    case False
    then have "(k', i) \<in> set m" using e map_put_set(1) [of k "length xs" m] by auto
    then show ?thesis using m(3) False assms(2) by (fastforce simp: nth_append less_Suc_eq)
  qed
  then show ?thesis
    unfolding map_wf_def using s m(2) assms(2) by (auto simp: map_put_keys)
qed

lemma names_wf_put:
  assumes "names_wf name xs m" "name x = n" "m n = None"
  shows "names_wf name (xs @ [x]) (m(n \<mapsto> length xs))"
proof -
  have m: "m n' = Some i \<Longrightarrow> i < length xs \<and> name (xs ! i) = n'" "i < length xs \<Longrightarrow> m (name (xs ! i)) = Some i" for n' i
    using assms(1) by (auto simp: names_wf_def)
  have "i < length (xs @ [x]) \<and> name ((xs @ [x]) ! i) = n'" if "(m(n \<mapsto> length xs)) n' = Some i" for n' i
    using that m(1) [of n' i] assms(2) by (auto simp: nth_append split: if_splits)
  moreover have "(m(n \<mapsto> length xs)) (name ((xs @ [x]) ! i)) = Some i" if "i < length (xs @ [x])" for i
    using that m(2) [of i] assms(2,3) by (cases "i = length xs") (auto simp: nth_append)
  moreover have "finite (dom (m(n \<mapsto> length xs)))" using assms(1) by (simp add: names_wf_def)
  ultimately show ?thesis unfolding names_wf_def by blast
qed

lemma map_wf_update:
  assumes "map_wf key xs m" "i < length xs" "key x = key (xs ! i)"
  shows "map_wf key (xs[i := x]) m"
proof -
  have k: "key (xs[i := x] ! j) = key (xs ! j)" for j
    using assms(2,3) by (cases "i = j") simp_all
  then have "map key (xs[i := x]) = map key xs" using assms(2) by (intro nth_equalityI) simp_all
  then have "key ` set (xs[i := x]) = key ` set xs" by (metis list.set_map)
  then show ?thesis using assms(1) by (simp add: map_wf_def k)
qed

lemma names_wf_update:
  assumes "names_wf name xs m" "i < length xs" "name x = name (xs ! i)"
  shows "names_wf name (xs[i := x]) m"
proof -
  have "name (xs[i := x] ! j) = name (xs ! j)" for j
    using assms(2,3) by (cases "i = j") simp_all
  then show ?thesis using assms(1) by (simp add: names_wf_def)
qed

section \<open>Every operation keeps it\<close>

named_theorems wf_steps \<open>an operation of the assembler keeps it well formed\<close>

lemma wf_sections:
  assumes "assembler_wf a" "i < length (sections a)" "sec_index s = sec_index (sections a ! i)" "sec_name s = sec_name (sections a ! i)"
  shows "assembler_wf (a\<lparr>sections := (sections a)[i := s]\<rparr>)"
  using assms by (auto simp: assembler_wf_def nth_list_update intro: names_wf_update)

lemma wf_push_back [wf_steps]: "assembler_wf a \<Longrightarrow> assembler_wf (push_back bs a)"
  unfolding push_back_def by (rule wf_sections) (simp_all add: assembler_wf_def)

lemma wf_add_inst [wf_steps]: "assembler_wf a \<Longrightarrow> assembler_wf (add_inst inst a)"
  unfolding add_inst_def append16_def append32_def append64_def
  by (intro switch_rule [where P = assembler_wf]) (auto intro: wf_push_back)

lemma wf_add_emitted [wf_steps]: "assembler_wf a \<Longrightarrow> add_emitted e a = Some a' \<Longrightarrow> assembler_wf a'"
  by (auto simp: add_emitted_def intro: wf_add_inst)

lemma wf_load_imm_r: "assembler_wf a \<Longrightarrow> load_imm_r rd val a = Some a' \<Longrightarrow> assembler_wf a'"
proof (induction rd val a arbitrary: a' rule: load_imm_r.induct)
  case (1 rd val a)
  show ?case
  proof (cases "fits32 val")
    case True
    then show ?thesis
      using 1(2,3) by (subst (asm) load_imm_r.simps)
        (auto simp: Let_def bind_eq_Some_conv split: if_splits intro: wf_add_emitted)
  next
    case False
    then obtain a1 a2 where "\<not> sub_overflows val (imm_lo val)" "load_imm_r rd (imm_hi val) a = Some a1"
      "add_emitted (emit_slli rd rd (of_nat (imm_shift val))) a1 = Some a2"
      "a' = a2 \<or> (\<exists>e. add_emitted e a2 = Some a')"
      using 1(3) by (subst (asm) load_imm_r.simps) (auto simp: bind_eq_Some_conv split: if_splits)
    then show ?thesis using 1(1) [OF False _ 1(2)] by (auto intro: wf_add_emitted)
  qed
qed

lemma wf_load_imm [wf_steps]: "assembler_wf a \<Longrightarrow> load_imm rd val a = Some a' \<Longrightarrow> assembler_wf a'"
  by (auto simp: load_imm_def bind_eq_Some_conv split: if_splits intro: wf_add_emitted wf_load_imm_r)

lemma wf_get_section [wf_steps]: "assembler_wf a \<Longrightarrow> assembler_wf (get_section name a)"
proof -
  assume wf: "assembler_wf a"
  show ?thesis
  proof (cases "section_map a name")
    case None
    then show ?thesis
      using wf by (auto simp: assembler_wf_def get_section_def Let_def nth_append less_Suc_eq intro!: names_wf_put)
  next
    case (Some i)
    then have "i < length (sections a)" using wf by (simp add: assembler_wf_def names_wf_def)
    then show ?thesis using wf Some by (simp add: assembler_wf_def get_section_def)
  qed
qed

lemma wf_exports [wf_steps]: "assembler_wf a \<Longrightarrow> assembler_wf (global l a)" "assembler_wf a \<Longrightarrow> assembler_wf (weak l a)"
  by (simp_all add: assembler_wf_def global_def weak_def)

lemma wf_add_label_at [wf_steps]: "assembler_wf a \<Longrightarrow> assembler_wf (snd (add_label_at name off a))"
  by (auto simp: add_label_at_def Let_def assembler_wf_def intro!: names_wf_put map_wf_put)

lemma wf_add_label [wf_steps]:
  "assembler_wf a \<Longrightarrow> assembler_wf (snd (add_label name a))" "assembler_wf a \<Longrightarrow> assembler_wf (snd (add_constant name val a))"
  by (simp_all add: add_label_def add_constant_def wf_add_label_at)

lemma wf_add_label_num [wf_steps]: "assembler_wf a \<Longrightarrow> add_label_num num a = Some (p, a') \<Longrightarrow> assembler_wf a'"
proof -
  assume wf: "assembler_wf a" and a': "add_label_num num a = Some (p, a')"
  then obtain i where i: "(case add_label (num_label num i) a of
      (Some l, a) \<Rightarrow> Some (Some l, a\<lparr>labels := (labels a)[l := (labels a ! l)\<lparr>lab_num := num\<rparr>]\<rparr>)
    | (None, a) \<Rightarrow> None) = Some (p, a')"
    by (auto simp: add_label_num_def bind_eq_Some_conv)
  obtain q a1 where "add_label (num_label num i) a = (q, a1)" by (cases "add_label (num_label num i) a")
  with i obtain l where l: "add_label (num_label num i) a = (Some l, a1)"
    and "a' = a1\<lparr>labels := (labels a1)[l := (labels a1 ! l)\<lparr>lab_num := num\<rparr>]\<rparr>"
    by (auto split: option.splits)
  moreover have "assembler_wf a1" using wf_add_label(1) [OF wf, of "num_label num i"] l by simp
  moreover have "l < length (labels a1)" using l by (auto simp: add_label_def add_label_at_def Let_def split: if_splits)
  ultimately show ?thesis by (auto simp: assembler_wf_def intro: map_wf_update names_wf_update)
qed

lemma wf_add_reloc [wf_steps]: "assembler_wf a \<Longrightarrow> assembler_wf (snd (add_reloc name ty a))"
  by (auto simp: add_reloc_def Let_def assembler_wf_def intro!: map_wf_put)

lemma wf_balign [wf_steps]: "assembler_wf a \<Longrightarrow> assembler_wf (balign n a)"
  by (simp add: balign_def wf_push_back)

lemma wf_p2align [wf_steps]: "assembler_wf a \<Longrightarrow> p2align s a = Some a' \<Longrightarrow> assembler_wf a'"
  by (auto simp: p2align_def wf_balign split: if_splits)

lemma wf_poke: "assembler_wf a \<Longrightarrow> poke n p v a = Some a' \<Longrightarrow> assembler_wf a' \<and> relocs a' = relocs a"
  by (auto simp: poke_def at_def bind_eq_Some_conv split: if_splits intro!: wf_sections)

lemma wf_reencode: "assembler_wf a \<Longrightarrow> reencode_inst dec p a = Some a' \<Longrightarrow> assembler_wf a' \<and> relocs a' = relocs a"
  unfolding reencode_inst_def by (auto simp: bind_eq_Some_conv split: if_splits dest: wf_poke)

text \<open>What holds of the state that a computation returns, if it does.\<close>

definition returns :: "('b \<Rightarrow> bool) \<Rightarrow> ('a \<times> 'b) option \<Rightarrow> bool" where
  "returns Q m \<longleftrightarrow> (\<forall>x a. m = Some (x, a) \<longrightarrow> Q a)"

lemma returns_rules:
  "(\<And>x. m = Some x \<Longrightarrow> returns Q (f x)) \<Longrightarrow> returns Q (Option.bind m f)"
  "(b \<Longrightarrow> returns Q u) \<Longrightarrow> (\<not> b \<Longrightarrow> returns Q v) \<Longrightarrow> returns Q (if b then u else v)"
  "(\<And>a. m' = Some a \<Longrightarrow> Q a) \<Longrightarrow> returns Q (map_option (Pair x') m')"
  "Q a \<Longrightarrow> returns Q (Some (x', a))"
  "(\<And>x y. p = (x, y) \<Longrightarrow> returns Q (h x y)) \<Longrightarrow> returns Q (case p of (x, y) \<Rightarrow> h x y)"
  "returns Q u \<Longrightarrow> (\<And>x. o' = Some x \<Longrightarrow> returns Q (f x)) \<Longrightarrow> returns Q (case o' of None \<Rightarrow> u | Some x \<Rightarrow> f x)"
  by (auto simp: returns_def bind_eq_Some_conv split: if_splits prod.splits option.splits)

lemma wf_relocate:
  assumes wf: "assembler_wf a" and r: "r < length (relocs a)"
  shows "returns (\<lambda>a'. assembler_wf a' \<and> length (relocs a') = length (relocs a)) (relocate r a)"
proof (cases "lookup_label (rel_offset (relocs a ! r)) (rel_name (relocs a ! r)) a")
  case (Some l)
  define b where "b = a\<lparr>relocs := (relocs a)[r := (relocs a ! r)\<lparr>rel_name := lab_name (labels a ! l)\<rparr>]\<rparr>"
  have w: "assembler_wf b" using wf r by (auto simp: assembler_wf_def b_def intro: map_wf_update)
  let ?Q = "\<lambda>a'. assembler_wf a' \<and> length (relocs a') = length (relocs a)"
  have k0: "?Q b" using w by (simp add: b_def)
  have k1: "reencode_inst dec p b = Some a' \<Longrightarrow> ?Q a'" for dec p a' using wf_reencode [OF w] k0 by simp
  have k2: "poke n p v b = Some a' \<Longrightarrow> ?Q a'" for n p v a' using wf_poke [OF w] k0 by simp
  have k3: "reencode_inst dec p b = Some c \<Longrightarrow> reencode_inst dec' p' c = Some a' \<Longrightarrow> ?Q a'" for dec p c dec' p' a'
    using wf_reencode [OF w, of dec p c] wf_reencode [of c dec' p' a'] k0 by simp
  show ?thesis
    unfolding relocate_def Some option.case Let_def b_def [symmetric]
    by (intro returns_rules) (erule k1 | rule k0 | erule k2 | erule k3, assumption)+
qed (simp add: relocate_def returns_rules wf)

lemma wf_relocate_all:
  "assembler_wf a \<Longrightarrow> \<forall>r \<in> set rs. r < length (relocs a) \<Longrightarrow> relocate_all rs a = Some (n, a') \<Longrightarrow> assembler_wf a'"
proof (induction rs arbitrary: a n)
  case (Cons r rs)
  obtain ok a1 n' where "relocate r a = Some (ok, a1)" and a1: "relocate_all rs a1 = Some (n', a')"
    using Cons.prems(3) by (auto simp: bind_eq_Some_conv)
  then have "assembler_wf a1" "length (relocs a1) = length (relocs a)"
    using wf_relocate [OF Cons.prems(1), of r] Cons.prems(2) by (auto simp: returns_def)
  then show ?case using Cons.IH [OF _ _ a1] Cons.prems(2) by simp
qed simp

lemma layout_frame [simp]:
  "length (layout off ss) = length ss"
  "i < length ss \<Longrightarrow> sec_index (layout off ss ! i) = sec_index (ss ! i)"
  "i < length ss \<Longrightarrow> sec_name (layout off ss ! i) = sec_name (ss ! i)"
  "i < length ss \<Longrightarrow> sec_buf (layout off ss ! i) = sec_buf (ss ! i)"
  by (induction off ss arbitrary: i rule: layout.induct) (auto simp: nth_Cons split: nat.splits)

lemma wf_link [wf_steps]: "assembler_wf a \<Longrightarrow> link a = Some (n, a') \<Longrightarrow> assembler_wf a'"
proof -
  assume wf: "assembler_wf a" and l: "link a = Some (n, a')"
  have "assembler_wf (a\<lparr>sections := layout 0 (sections a)\<rparr>)"
    using wf by (simp add: assembler_wf_def names_wf_def)
  moreover have "\<forall>r \<in> set (map snd (relocs_byoffset a)). r < length (relocs a)"
    using wf by (auto simp: assembler_wf_def map_wf_def)
  ultimately show ?thesis using l wf_relocate_all unfolding link_def by fastforce
qed

section \<open>Reachable states\<close>

inductive asm_step :: "assembler \<Rightarrow> assembler \<Rightarrow> bool" where
  step_section: "asm_step a (get_section name a)"
| step_global: "asm_step a (global l a)"
| step_weak: "asm_step a (weak l a)"
| step_append8: "asm_step a (append8 d8 a)"
| step_append16: "asm_step a (append16 d16 a)"
| step_append32: "asm_step a (append32 d32 a)"
| step_append64: "asm_step a (append64 d64 a)"
| step_inst: "asm_step a (add_inst inst a)"
| step_load_imm: "load_imm rd val a = Some a' \<Longrightarrow> asm_step a a'"
| step_label: "asm_step a (snd (add_label name a))"
| step_label_num: "add_label_num num a = Some (p, a') \<Longrightarrow> asm_step a a'"
| step_constant: "asm_step a (snd (add_constant name val a))"
| step_reloc: "asm_step a (snd (add_reloc name ty a))"
| step_balign: "asm_step a (balign n a)"
| step_p2align: "p2align k a = Some a' \<Longrightarrow> asm_step a a'"
| step_link: "link a = Some (m, a') \<Longrightarrow> asm_step a a'"

lemma wf_step: "asm_step a a' \<Longrightarrow> assembler_wf a \<Longrightarrow> assembler_wf a'"
  by (induction rule: asm_step.induct) (auto simp: append8_def append16_def append32_def append64_def intro: wf_steps)

lemma wf_init: "assembler_wf assembler_init"
  by (simp add: assembler_init_def get_section_def Let_def assembler_wf_def names_wf_def map_wf_def nth_Cons split: nat.splits)

section \<open>Decimal numerals\<close>

definition parse_decimal :: "string \<Rightarrow> nat" where
  "parse_decimal cs = foldl (\<lambda>n c. 10 * n + (of_char c - 48)) 0 cs"

lemma parse_to_string: "parse_decimal (to_string n) = n"
proof (induction n rule: to_string.induct)
  case (1 n)
  have d: "of_char (char_of (48 + n mod 10) :: char) = (48 + n mod 10 :: nat)"
    by (simp add: of_char_of)
  show ?case
  proof (cases "n < 10")
    case True
    then show ?thesis using d by (subst to_string.simps) (simp add: parse_decimal_def)
  next
    case False
    then show ?thesis using 1 d by (subst to_string.simps) (simp add: parse_decimal_def)
  qed
qed

lemma to_string_inject: "to_string m = to_string n \<longleftrightarrow> m = n"
  by (metis parse_to_string)

lemma digits_to_string: "list_all isdigit (to_string n)" "to_string n \<noteq> []"
proof -
  have d: "isdigit (char_of (48 + k mod 10))" for k :: nat
    using mod_less_divisor [of 10 k] by (simp add: isdigit_def of_char_of)
  show "list_all isdigit (to_string n)"
    by (induction n rule: to_string.induct) (subst to_string.simps, auto simp: d)
  show "to_string n \<noteq> []" by (simp add: to_string.simps [of n])
qed

section \<open>Numeric labels\<close>

lemma num_label_inject: "num_label num i = num_label num j \<longleftrightarrow> i = j"
  by (simp add: num_label_def to_string_inject)

text \<open>The loop of \<^verbatim>\<open>add_label(s64)\<close> ends, since only finitely many names are taken.\<close>

lemma free_label_ends:
  assumes "finite (dom (labels_byname a))"
  shows "\<exists>j. free_label num i a = Some j \<and> labels_byname a (num_label num j) = None"
proof -
  have "\<exists>j \<ge> i. num_label num j \<notin> dom (labels_byname a)"
  proof (rule ccontr)
    assume "\<not> (\<exists>j \<ge> i. num_label num j \<notin> dom (labels_byname a))"
    then have "num_label num ` {i..} \<subseteq> dom (labels_byname a)" by auto
    then have "finite (num_label num ` {i..})" using assms by (rule finite_subset)
    then have "finite {i..}" by (rule finite_imageD) (simp add: inj_on_def num_label_inject)
    then show False by (simp add: infinite_Ici)
  qed
  then obtain j where j: "i \<le> j" "labels_byname a (num_label num j) = None" by auto
  from j show ?thesis
  proof (induction "j - i" arbitrary: i)
    case 0
    then show ?case by (subst free_label.simps) auto
  next
    case (Suc n)
    then show ?case
    proof (cases "labels_byname a (num_label num i) = None")
      case True
      then show ?thesis by (subst free_label.simps) auto
    next
      case False
      then show ?thesis using Suc.hyps(1) [of "i + 1"] Suc.hyps(2) Suc.prems by (subst free_label.simps) auto
    qed
  qed
qed

text \<open>
  A backward reference means the last label of its number at or before the relocation, a forward
  reference the first one after it. The labels are those that were added, with their positions and
  numbers. The code searches the map from positions, where a label is hidden by one added later at the same
  position; \<open>unhidden\<close> says that this does not happen to a label of the number.
\<close>

definition label_at :: "assembler \<Rightarrow> u64 \<Rightarrow> section_offset \<Rightarrow> nat \<Rightarrow> bool" where
  "label_at a num k l \<longleftrightarrow> l < length (labels a) \<and> lab_offset (labels a ! l) = k \<and> lab_num (labels a ! l) = num"

definition unhidden :: "assembler \<Rightarrow> u64 \<Rightarrow> bool" where
  "unhidden a num \<longleftrightarrow> (\<forall>l < length (labels a). lab_num (labels a ! l) = num \<longrightarrow>
     (\<forall>l' < length (labels a). l < l' \<longrightarrow> lab_offset (labels a ! l') \<noteq> lab_offset (labels a ! l)))"

lemma label_at_indexed:
  assumes "assembler_wf a" "unhidden a num"
  shows "label_at a num k l \<longleftrightarrow> (k, l) \<in> set (labels_byoffset a) \<and> lab_num (labels a ! l) = num"
proof
  have m: "map_wf lab_offset (labels a) (labels_byoffset a)" using assms(1) by (simp add: assembler_wf_def)
  assume h: "label_at a num k l"
  then have l: "l < length (labels a)" "lab_offset (labels a ! l) = k" "lab_num (labels a ! l) = num"
    by (simp_all add: label_at_def)
  then have "k \<in> lab_offset ` set (labels a)" by force
  then have "k \<in> fst ` set (labels_byoffset a)" using m by (auto simp: map_wf_def)
  then obtain l' where l': "(k, l') \<in> set (labels_byoffset a)" by force
  have "\<forall>(k, i) \<in> set (labels_byoffset a). i < length (labels a) \<and> lab_offset (labels a ! i) = k \<and>
      (\<forall>j < length (labels a). lab_offset (labels a ! j) = k \<longrightarrow> j \<le> i)"
    using m by (simp add: map_wf_def)
  from bspec [OF this l'] have k: "l' < length (labels a)" "lab_offset (labels a ! l') = k" "l \<le> l'"
    using l(1,2) by simp_all
  have "lab_offset (labels a ! l') \<noteq> lab_offset (labels a ! l)" if "l < l'"
    using assms(2) l(1,3) k(1) that unfolding unhidden_def by simp
  then have "l' = l" using k(2,3) l(2) by fastforce
  then show "(k, l) \<in> set (labels_byoffset a) \<and> lab_num (labels a ! l) = num" using l' l(3) by simp
next
  assume "(k, l) \<in> set (labels_byoffset a) \<and> lab_num (labels a ! l) = num"
  moreover have "map_wf lab_offset (labels a) (labels_byoffset a)" using assms(1) by (simp add: assembler_wf_def)
  ultimately show "label_at a num k l" by (auto simp: map_wf_def label_at_def)
qed

definition by_offset :: "(section_offset \<times> nat) list \<Rightarrow> bool" where
  "by_offset m \<longleftrightarrow> sorted_wrt (\<lambda>x y. offset_less (fst x) (fst y)) m"

lemma by_offset_simps [simp]:
  "by_offset []" "by_offset (x # m) \<longleftrightarrow> (\<forall>y \<in> set m. offset_less (fst x) (fst y)) \<and> by_offset m"
  by (simp_all add: by_offset_def)

lemma lookup_label_b_filter:
  "by_offset m \<Longrightarrow> lookup_label_b a off num found m =
    (case filter (\<lambda>(k, l). \<not> offset_less off k \<and> lab_num (labels a ! l) = num) m of
       [] \<Rightarrow> found | xs \<Rightarrow> Some (snd (last xs)))"
proof (induction m arbitrary: found)
  case (Cons x m)
  obtain k l where x: "x = (k, l)" by (cases x)
  show ?case
  proof (cases "offset_less off k")
    case True
    then have "filter (\<lambda>(k, l). \<not> offset_less off k \<and> lab_num (labels a ! l) = num) m = []"
      using Cons.prems by (auto simp: x filter_empty_conv dest: offset_less_trans)
    then show ?thesis using True by (simp add: x)
  qed (use Cons in \<open>auto simp: x split: list.splits\<close>)
qed simp

lemma lookup_label_f_filter:
  "by_offset m \<Longrightarrow> (found \<Longrightarrow> \<forall>x \<in> set m. offset_less off (fst x)) \<Longrightarrow> lookup_label_f a off num found m =
    (case filter (\<lambda>(k, l). offset_less off k \<and> lab_num (labels a ! l) = num) m of
       [] \<Rightarrow> None | x # xs \<Rightarrow> Some (snd x))"
proof (induction m arbitrary: found)
  case (Cons x m)
  obtain k l where x: "x = (k, l)" by (cases x)
  show ?case
  proof (cases "offset_less off k")
    case True
    then have "\<forall>x \<in> set m. offset_less off (fst x)"
      using Cons.prems(1) by (auto simp: x dest: offset_less_trans)
    then show ?thesis using True Cons.IH [of True] Cons.prems(1) by (simp add: x)
  next
    case False
    then have "\<not> found" using Cons.prems(2) by (auto simp: x)
    then show ?thesis using False Cons.IH [of False] Cons.prems(1) by (simp add: x)
  qed
qed simp

lemma by_offset_last: "by_offset xs \<Longrightarrow> x \<in> set xs \<Longrightarrow> \<not> offset_less (fst (last xs)) (fst x)"
proof (induction xs)
  case (Cons y xs)
  show ?case
  proof (cases "xs = []")
    case False
    then have "offset_less (fst y) (fst (last xs))" using Cons.prems(1) last_in_set [OF False] by simp
    then show ?thesis using Cons False by (auto dest: offset_less_asym)
  qed (use Cons.prems in simp)
qed simp

lemma by_offset_hd: "by_offset xs \<Longrightarrow> x \<in> set xs \<Longrightarrow> \<not> offset_less (fst x) (fst (hd xs))"
  by (cases xs) (auto dest: offset_less_trans)

lemma by_offset_filter: "by_offset m \<Longrightarrow> by_offset (filter P m)"
  by (simp add: by_offset_def sorted_wrt_filter)

definition nearest :: "(section_offset \<Rightarrow> section_offset \<Rightarrow> bool) \<Rightarrow> (section_offset \<Rightarrow> bool) \<Rightarrow> assembler \<Rightarrow> u64 \<Rightarrow> label_ptr \<Rightarrow> bool" where
  "nearest nearer P a num p \<longleftrightarrow>
     (case p of None \<Rightarrow> \<forall>k l. label_at a num k l \<longrightarrow> \<not> P k
      | Some l \<Rightarrow> \<exists>k. label_at a num k l \<and> P k \<and> (\<forall>k' l'. label_at a num k' l' \<longrightarrow> P k' \<longrightarrow> \<not> nearer k' k))"

lemma wf_by_offset: "assembler_wf a \<Longrightarrow> by_offset (labels_byoffset a)"
  by (simp add: assembler_wf_def map_wf_def by_offset_def sorted_wrt_map)

lemma lookup_b_nearest:
  assumes "assembler_wf a" "unhidden a num"
  shows "nearest (\<lambda>k' k. offset_less k k') (\<lambda>k. \<not> offset_less off k) a num (lookup_label_b a off num None (labels_byoffset a))"
proof -
  let ?xs = "filter (\<lambda>(k, l). \<not> offset_less off k \<and> lab_num (labels a ! l) = num) (labels_byoffset a)"
  have s: "by_offset ?xs" by (intro by_offset_filter wf_by_offset assms(1))
  show ?thesis
  proof (cases ?xs)
    case Nil
    then show ?thesis using lookup_label_b_filter [OF wf_by_offset [OF assms(1)], of a off num None]
      by (auto simp: nearest_def label_at_indexed [OF assms] filter_empty_conv)
  next
    case (Cons y ys)
    then have m: "last ?xs \<in> set ?xs" by (metis last_in_set list.distinct(1))
    obtain k l where kl: "last ?xs = (k, l)" by (cases "last ?xs")
    have r: "lookup_label_b a off num None (labels_byoffset a) = Some l"
      using lookup_label_b_filter [OF wf_by_offset [OF assms(1)], of a off num None] Cons kl by simp
    have "label_at a num k l" "\<not> offset_less off k" using m unfolding kl by (simp_all add: label_at_indexed [OF assms])
    moreover have "\<not> offset_less k k'" if "label_at a num k' l'" "\<not> offset_less off k'" for k' l'
      using by_offset_last [OF s, of "(k', l')"] that unfolding kl by (simp add: label_at_indexed [OF assms])
    ultimately show ?thesis unfolding nearest_def r option.case by blast
  qed
qed

lemma lookup_f_nearest:
  assumes "assembler_wf a" "unhidden a num"
  shows "nearest offset_less (offset_less off) a num (lookup_label_f a off num False (labels_byoffset a))"
proof -
  let ?xs = "filter (\<lambda>(k, l). offset_less off k \<and> lab_num (labels a ! l) = num) (labels_byoffset a)"
  have s: "by_offset ?xs" by (intro by_offset_filter wf_by_offset assms(1))
  note f = lookup_label_f_filter [OF wf_by_offset [OF assms(1)], of False off a num]
  show ?thesis
  proof (cases ?xs)
    case Nil
    then show ?thesis using f by (auto simp: nearest_def label_at_indexed [OF assms] filter_empty_conv)
  next
    case (Cons y ys)
    obtain k l where kl: "y = (k, l)" by (cases y)
    have m: "(k, l) \<in> set ?xs" unfolding Cons kl by simp
    have r: "lookup_label_f a off num False (labels_byoffset a) = Some l" using f Cons kl by simp
    have "label_at a num k l" "offset_less off k" using m by (simp_all add: label_at_indexed [OF assms])
    moreover have "\<not> offset_less k' k" if "label_at a num k' l'" "offset_less off k'" for k' l'
    proof -
      have "(k', l') \<in> set ?xs" using that by (simp add: label_at_indexed [OF assms])
      then show ?thesis using by_offset_hd [OF s, of "(k', l')"] unfolding Cons kl by simp
    qed
    ultimately show ?thesis unfolding nearest_def r option.case by blast
  qed
qed

lemma strtoull_to_string: "n < 2 ^ 64 \<Longrightarrow> strtoull (to_string n) = of_nat n"
  using parse_to_string [of n] by (simp add: strtoull_def parse_decimal_def)

lemma local_name: "check_local (to_string n @ [c]) \<longleftrightarrow> c = CHR ''b'' \<or> c = CHR ''f''"
  using digits_to_string [of n] by (cases "to_string n") (auto simp: check_local_def)

section \<open>Properties\<close>

text \<open>
  C38. Every sequence of operations from the constructor leaves the assembler well formed: the current
  section exists, a section knows its index, names and offsets lead to the section, label or
  relocation that bears them, every section and label is found under its name, the position of every
  label and relocation leads to the one added there last, and the maps that are iterated are in
  ascending order.
\<close>

theorem assembler_invariant: "asm_step\<^sup>*\<^sup>* assembler_init a \<Longrightarrow> assembler_wf a"
  by (induction rule: rtranclp_induct) (auto intro: wf_init wf_step)

theorem assembler_invariant_witness:
  "assembler_wf (snd (add_label ''main'' (get_section ''.data'' assembler_init)))"
proof -
  have "asm_step\<^sup>*\<^sup>* assembler_init (get_section ''.data'' assembler_init)"
    by (rule r_into_rtranclp) (rule step_section)
  then have "asm_step\<^sup>*\<^sup>* assembler_init (snd (add_label ''main'' (get_section ''.data'' assembler_init)))"
    by (rule rtranclp.rtrancl_into_rtrancl) (rule step_label)
  then show ?thesis by (rule assembler_invariant)
qed

text \<open>
  C39. \<^verbatim>\<open>add_label(s64)\<close> always returns, and with a new label: the loop that looks for a free
  name ends in every state that the assembler can reach, the label gets a name that no other label
  has, the number and the current position, and no other label changes.
\<close>

theorem add_label_num_returns:
  assumes "assembler_wf a"
  shows "\<exists>name a'. add_label_num num a = Some (Some (length (labels a)), a') \<and> labels_byname a name = None \<and>
    labels_byname a' = (labels_byname a)(name \<mapsto> length (labels a)) \<and>
    labels a' = labels a @ [\<lparr>lab_name = name, lab_offset = current_offset a, lab_num = num\<rparr>]"
proof -
  have "finite (dom (labels_byname a))" using assms by (simp add: assembler_wf_def names_wf_def)
  from free_label_ends [OF this] obtain j
    where "free_label num 1 a = Some j" "labels_byname a (num_label num j) = None" by blast
  then show ?thesis
    by (intro exI [of _ "num_label num j"]) (simp add: add_label_num_def add_label_def add_label_at_def Let_def)
qed

theorem add_label_num_returns_witness: "\<exists>p a'. add_label_num 1 assembler_init = Some (Some p, a')"
  using add_label_num_returns [OF wf_init, of 1] by blast

text \<open>
  C40. A local label reference means the right label: \<^verbatim>\<open>1b\<close> the nearest label numbered 1 at or
  before the relocation, \<^verbatim>\<open>1f\<close> the nearest one after it, and neither is found only if there is
  none; positions are ordered by section and offset. The labels are all that were added and have the
  number, on two conditions, without which the statement is false. The number is at least 1, since a label
  without a number carries 0 (\<^verbatim>\<open>zero_finds_named_labels\<close>). And no label, named, numbered or constant, was
  added after one of that number at the same position, where it hides it
  (\<^verbatim>\<open>second_label_hides_first\<close>). The numeral survives the way from number to text and back.
\<close>

theorem local_label_nearest:
  assumes "assembler_wf a" "1 \<le> n" "n < 2 ^ 64" "unhidden a (of_nat n)"
  shows "nearest (\<lambda>k' k. offset_less k k') (\<lambda>k. \<not> offset_less off k) a (of_nat n) (lookup_label off (to_string n @ ''b'') a) \<and>
    nearest offset_less (offset_less off) a (of_nat n) (lookup_label off (to_string n @ ''f'') a)"
  using lookup_b_nearest [OF assms(1,4)] lookup_f_nearest [OF assms(1,4)] strtoull_to_string [OF assms(3)]
  by (simp add: lookup_label_def local_name)

theorem local_label_nearest_witness:
  "case add_label_num 1 assembler_init of Some (Some l, a) \<Rightarrow>
     lookup_label (1, 4) ''1b'' a = Some l \<and> lookup_label (1, 4) ''1f'' a = None | _ \<Rightarrow> False"
proof -
  obtain name a where a: "add_label_num 1 assembler_init = Some (Some 0, a)" "labels a = [\<lparr>lab_name = name, lab_offset = (1, 0), lab_num = 1\<rparr>]"
    using free_label_ends [of assembler_init 1 1] wf_init
    by (auto simp: assembler_wf_def names_wf_def add_label_num_def add_label_def add_label_at_def Let_def
        current_offset_def cur_buf_def assembler_init_def get_section_def)
  have wf: "assembler_wf a" using wf_add_label_num [OF wf_init a(1)] .
  have one: "to_string 1 @ ''b'' = ''1b''" "to_string 1 @ ''f'' = ''1f''" by code_simp+
  have "unhidden a (of_nat 1)" by (simp add: unhidden_def a(2))
  then have "nearest (\<lambda>k' k. offset_less k k') (\<lambda>k. \<not> offset_less (1, 4) k) a 1 (lookup_label (1, 4) ''1b'' a)"
    "nearest offset_less (offset_less (1, 4)) a 1 (lookup_label (1, 4) ''1f'' a)"
    using local_label_nearest [OF wf, of 1 "(1, 4)"] unfolding one by simp_all
  then have "lookup_label (1, 4) ''1b'' a = Some 0" "lookup_label (1, 4) ''1f'' a = None"
    by (auto simp: nearest_def label_at_def a(2) offset_less_def split: option.splits)
  then show ?thesis by (simp add: a(1))
qed

text \<open>
  Two defects of numeric labels. A label without a number carries the number 0, so that \<^verbatim>\<open>0b\<close>
  finds it; and a second label at the same position hides the first from local references.
\<close>

lemma zero_finds_named_labels: "lookup_label (1, 4) ''0b'' (snd (add_label ''main'' assembler_init)) = Some 0"
proof -
  let ?a = "snd (add_label ''main'' assembler_init)"
  have "check_local ''0b''" "strtoull (butlast ''0b'') = 0"
    by (simp_all add: check_local_def isdigit_def strtoull_def)
  moreover have "labels_byoffset ?a = [((1, 0), 0)]" "lab_num (labels ?a ! 0) = 0"
    by (simp_all add: add_label_def add_label_at_def Let_def current_offset_def cur_buf_def assembler_init_def get_section_def)
  ultimately show ?thesis by (simp add: lookup_label_def offset_less_def)
qed

lemma second_label_hides_first:
  "\<exists>p a. add_label_num 1 assembler_init = Some (p, a) \<and> lookup_label (1, 4) ''1b'' a = Some 0 \<and>
    lookup_label (1, 4) ''1b'' (snd (add_label ''x'' a)) = None"
proof -
  have one: "check_local ''1b''" "strtoull ''1'' = 1"
    by (simp_all add: check_local_def isdigit_def strtoull_def)
  have f: "free_label 1 1 assembler_init = Some 1"
    by (subst free_label.simps) (simp add: assembler_init_def get_section_def Let_def)
  have x: "num_label 1 1 \<noteq> ''x''" by (simp add: num_label_def)
  have init: "labels assembler_init = []" "labels_byoffset assembler_init = []" "labels_byname assembler_init = Map.empty"
    "current_offset assembler_init = (1, 0)"
    by (simp_all add: assembler_init_def get_section_def Let_def current_offset_def cur_buf_def)
  define a where "a = snd (the (add_label_num 1 assembler_init))"
  note num = add_label_num_def f [simplified] add_label_def add_label_at_def Let_def init
  have a: "add_label_num 1 assembler_init = Some (Some 0, a)"
    unfolding a_def by (simp add: num)
  have "current_offset a = current_offset assembler_init"
    unfolding a_def by (simp add: num current_offset_def cur_buf_def)
  then have "labels_byoffset a = [((1, 0), 0)]" "labels_byname a ''x'' = None" "lab_num (labels a ! 0) = 1"
    "current_offset a = (1, 0)" "length (labels a) = 1"
    using x unfolding a_def by (simp_all add: num)
  then have "lookup_label (1, 4) ''1b'' a = Some 0" "lookup_label (1, 4) ''1b'' (snd (add_label ''x'' a)) = None"
    by (simp_all add: lookup_label_def one offset_less_def add_label_def add_label_at_def Let_def nth_append)
  then show ?thesis using a by blast
qed

end
