(* ===== verification/Link_Spec.thy ===== *)
theory Link_Spec
  imports Assembler_Spec
begin

text \<open>
  What a relocation does to the code: the instruction it patches keeps its opcode and registers and
  gets the immediate that the relocation type asks for, and a relocated call, executed by the
  interpreter, arrives at its label.
\<close>

unbundle bit_operations_syntax

section \<open>Instructions in a section\<close>

lemma fetch_of_bytes:
  assumes "w AND 0xffffffff = w" "inst_length w = 4" "\<And>i. i < 4 \<Longrightarrow> mem (addr + of_nat i) = byte_of w i"
  shows "inst_fetch mem addr = (w, 4)"
proof -
  have w: "w AND mask (8 * 4) = w" using assms(1) by (simp add: mask_eq_exp_minus_1)
  have "(ucast (load_le32 mem addr) :: u64) = w"
  proof (rule byte_eqI)
    fix i :: nat assume "i < 8"
    have "\<not> i < 4 \<Longrightarrow> byte_of w i = 0" using byte_of_mask [of w 4 i] unfolding w by simp
    moreover have "byte_of (ucast (load_le32 mem addr)) i = (if i < 4 then mem (addr + of_nat i) else 0)"
      using \<open>i < 8\<close> by (auto simp: byte_of_load32)
    ultimately show "byte_of (ucast (load_le32 mem addr)) i = byte_of w i" using assms(3) [of i] by simp
  qed
  then show ?thesis using assms(2) by (auto simp: inst_fetch_def Let_def inst_length_def split: if_splits)
qed

lemma poke_Some:
  assumes "poke n p v a = Some a'"
  obtains s where "at (sections a) (fst p) = Some s" "snd p + n \<le> length (sec_buf s)"
    "a' = a\<lparr>sections := (sections a)[unat (fst p) := s\<lparr>sec_buf :=
       take (snd p) (sec_buf s) @ map (byte_of v) [0..<n] @ drop (snd p + n) (sec_buf s)\<rparr>]\<rparr>"
    "at (sections a') (fst p) = Some (s\<lparr>sec_buf :=
       take (snd p) (sec_buf s) @ map (byte_of v) [0..<n] @ drop (snd p + n) (sec_buf s)\<rparr>)"
  using assms by (auto simp: poke_def bind_eq_Some_conv at_def split: if_splits)

text \<open>The buffer of a section is addressable.\<close>

definition buf_ok :: "assembler \<Rightarrow> bool" where
  "buf_ok a \<longleftrightarrow> (\<forall>s \<in> set (sections a). length (sec_buf s) < 2 ^ 64)"

lemma fetch_SomeE:
  assumes "fetch_at p a = Some (w, n)"
  obtains s where "at (sections a) (fst p) = Some s" "snd p + max 4 n \<le> length (sec_buf s)"
    "inst_fetch (\<lambda>i. sec_buf s ! unat i) (of_nat (snd p)) = (w, n)"
proof -
  from assms obtain s where s: "at (sections a) (fst p) = Some s"
    "(case inst_fetch (\<lambda>i. sec_buf s ! unat i) (of_nat (snd p)) of (i, l) \<Rightarrow>
       if snd p + max 4 l \<le> length (sec_buf s) then Some (i, l) else None) = Some (w, n)"
    by (auto simp: fetch_at_def bind_eq_Some_conv)
  then show ?thesis using that by (cases "inst_fetch (\<lambda>i. sec_buf s ! unat i) (of_nat (snd p))") (auto split: if_splits)
qed

lemma fetch_poke:
  assumes "poke 4 p w a = Some a'" "w AND 0xffffffff = w" "inst_length w = 4" "buf_ok a"
  shows "fetch_at p a' = Some (w, 4)"
proof -
  obtain s where s: "at (sections a) (fst p) = Some s" "snd p + 4 \<le> length (sec_buf s)"
    "at (sections a') (fst p) = Some (s\<lparr>sec_buf := take (snd p) (sec_buf s) @ map (byte_of w) [0..<4] @ drop (snd p + 4) (sec_buf s)\<rparr>)"
    using poke_Some [OF assms(1)] by metis
  let ?b = "take (snd p) (sec_buf s) @ map (byte_of w) [0..<4] @ drop (snd p + 4) (sec_buf s)"
  have "s \<in> set (sections a)" using s(1) by (auto simp: at_def split: if_splits)
  then have l: "length (sec_buf s) < 2 ^ 64" using assms(4) by (simp add: buf_ok_def)
  have "?b ! unat (of_nat (snd p) + of_nat i :: u64) = byte_of w i" if "i < 4" for i
  proof -
    have "unat (of_nat (snd p) + of_nat i :: u64) = snd p + i"
      using that s(2) l by (simp flip: of_nat_add add: unsigned_of_nat take_bit_nat_eq_self)
    then show ?thesis using that s(2) by (simp add: nth_append)
  qed
  then have "inst_fetch (\<lambda>i. ?b ! unat i) (of_nat (snd p)) = (w, 4)"
    by (intro fetch_of_bytes assms(2,3)) simp
  then show ?thesis using s(2,3) by (simp add: fetch_at_def)
qed

lemma fetch_poke_apart:
  assumes "poke 4 p w a = Some a'" "fst q = fst p" "snd q = snd p + 4 \<or> snd p = snd q + 4" "fetch_at q a = Some (v, 4)" "buf_ok a"
  shows "fetch_at q a' = Some (v, 4)"
proof -
  obtain s where s: "at (sections a) (fst p) = Some s" "snd p + 4 \<le> length (sec_buf s)"
    "at (sections a') (fst p) = Some (s\<lparr>sec_buf := take (snd p) (sec_buf s) @ map (byte_of w) [0..<4] @ drop (snd p + 4) (sec_buf s)\<rparr>)"
    using poke_Some [OF assms(1)] by metis
  let ?b = "take (snd p) (sec_buf s) @ map (byte_of w) [0..<4] @ drop (snd p + 4) (sec_buf s)"
  have f: "inst_fetch (\<lambda>i. sec_buf s ! unat i) (of_nat (snd q)) = (v, 4)" "snd q + 4 \<le> length (sec_buf s)"
    using assms(2,4) s(1) by (auto simp: fetch_at_def bind_eq_Some_conv split: if_splits prod.splits)
  have "s \<in> set (sections a)" using s(1) by (auto simp: at_def split: if_splits)
  then have l: "length (sec_buf s) < 2 ^ 64" using assms(5) by (simp add: buf_ok_def)
  have "inst_fetch (\<lambda>i. ?b ! unat i) (of_nat (snd q)) = (v, 4)"
  proof (rule fetch_of_bytes)
    have b: "byte_of v i = (if i < 4 then sec_buf s ! unat (of_nat (snd q) + of_nat i :: u64) else 0)" if "i < 8" for i
      using inst_fetch_bytes [OF f(1) that] by simp
    then have "v AND mask (8 * 4) = v" by (intro byte_of_bounded) auto
    then show "v AND 0xffffffff = v" by (simp add: mask_eq_exp_minus_1)
    show "inst_length v = 4"
      using f(1) by (auto simp: inst_fetch_def Let_def inst_length_def split: if_splits)
    fix i :: nat assume i: "i < 4"
    then have "i < 8" by simp
    have "unat (of_nat (snd q) + of_nat i :: u64) = snd q + i"
      using i f(2) l by (simp flip: of_nat_add add: unsigned_of_nat take_bit_nat_eq_self)
    moreover have "?b ! (snd q + i) = sec_buf s ! (snd q + i)"
      using i assms(3) s(2) f(2) by (auto simp: nth_append)
    ultimately show "?b ! unat (of_nat (snd q) + of_nat i :: u64) = byte_of v i"
      using i b [OF \<open>i < 8\<close>] by (simp only: if_True)
  qed
  then show ?thesis using s(2,3) f(2) assms(2) by (simp add: fetch_at_def)
qed

section \<open>Re-encoding with another immediate\<close>

text \<open>An RV64 opcode whose operands, among them the immediate \<open>opd\<close>, are all free bits of its encoding.\<close>

definition patchable :: "opcode \<Rightarrow> imm_operand \<Rightarrow> bool" where
  "patchable op opd \<longleftrightarrow> op \<in> set rv64_ops \<and> op_refined_by op = [] \<and> rv_inst_decomp_rv64 ! op = rv_op_illegal \<and>
     wide_row (rv_inst_codec ! op) (rv_inst_match ! op) (rv_inst_mask ! op) \<and>
     list_all (\<lambda>(f, opd, own). rv_inst_mask ! op AND own = 0) (codec_operands (rv_inst_codec ! op)) \<and>
     list_ex (\<lambda>(f, opd', own). f = F_imm \<and> opd' = opd) (codec_operands (rv_inst_codec ! op))"

lemma get_field_imm: "get_field f (d\<lparr>dec_imm := imm\<rparr>) = (if f = F_imm then scast imm else get_field f d)"
  by (cases f) simp_all

lemma reencode_decodes:
  assumes p: "patchable op opd" and op: "decode_inst_op isa_rv64 w = op" and v: "operand_valid opd (scast imm)"
  obtains inst where "encoded ((decode_inst_rv64 decode_init w)\<lparr>dec_imm := imm\<rparr>) = Some inst"
    "inst AND 0xffffffff = inst" "inst_length inst = 4"
    "decode_inst_op isa_rv64 inst = op"
    "decode_inst_rv64 decode_init inst = (decode_inst_rv64 decode_init w)\<lparr>dec_imm := imm\<rparr>"
proof -
  let ?c = "rv_inst_codec ! op"
  let ?os = "codec_operands ?c"
  have p': "op \<in> set rv64_ops" "op_refined_by op = []" "rv_inst_decomp_rv64 ! op = rv_op_illegal"
    "wide_row ?c (rv_inst_match ! op) (rv_inst_mask ! op)"
    "\<And>f opd own. (f, opd, own) \<in> set ?os \<Longrightarrow> rv_inst_mask ! op AND own = 0"
    using p by (auto simp: patchable_def list_all_iff)
  have wide: "?c \<in> set wide_codecs" using p'(4) by (simp add: wide_row_def)
  have imm: "\<exists>own. (F_imm, opd, own) \<in> set ?os" using p by (auto simp: patchable_def list_ex_iff)
  let ?d = "decode_inst isa_rv64 decode_init w" and ?di = "decode_init\<lparr>dec_op := op\<rparr>"
  have d: "decode_inst_rv64 decode_init x = decode_inst isa_rv64 decode_init x" if "decode_inst_op isa_rv64 x = op" for x
    using decode_wide [of x decode_init] that p'(3) by simp
  have dg: "get_field f (decode_inst isa_rv64 decode_init x) = operand_value f ?os x ?di" if "decode_inst_op isa_rv64 x = op" for f x
    using get_field_decoded [of ?di] wide that by (simp add: decode_inst_def)
  let ?dec = "?d\<lparr>dec_imm := imm\<rparr>"
  have valid: "operand_valid o' (get_field f ?dec)" if m: "(f, o', own) \<in> set ?os" for f o' own
  proof -
    have mo: "map_of ?os f = Some (o', own)" using m codec_operands_apart(2) by (simp add: map_of_eq_Some_iff)
    show ?thesis
    proof (cases "f = F_imm")
      case True
      obtain own' where "map_of ?os F_imm = Some (opd, own')"
        using imm codec_operands_apart(2) [of ?c] by (auto simp: map_of_eq_Some_iff)
      then have "o' = opd" using mo True by simp
      then show ?thesis using True v by (simp add: get_field_imm)
    next
      case False
      have "operand_codec (operand_decode o') (operand_encode o') own (operand_valid o')"
        using codec_operands_lawful [of ?c] m by (auto simp: list_all_iff operand_lawful_def)
      moreover have "get_field f ?dec = operand_value f ?os w ?di"
        unfolding get_field_imm dg [OF op] using False by simp
      moreover have "operand_value f ?os w ?di = operand_decode o' w" using mo by (simp add: operand_value_def)
      ultimately show ?thesis using operand_codec.valid_dec by metis
    qed
  qed
  have rl: "?c \<noteq> rv_codec_r_l" using imm by auto
  have dop: "dec_op ?dec = op" using op by simp
  obtain inst where inst: "encoded ?dec = Some inst" "inst AND 0xffffffff = inst" "inst_length inst = 4"
    "decode_inst_op isa_rv64 inst = op"
    "\<And>f o' own. (f, o', own) \<in> set ?os \<Longrightarrow> rv_inst_mask ! op AND own = 0 \<Longrightarrow>
      operand_valid o' (get_field f ?dec) \<Longrightarrow> operand_decode o' inst = get_field f ?dec"
    by (rule encoded_decodes [OF p'(4,2,1) dop]) (use p'(5) valid rl in blast)+
  have "get_field f (decode_inst isa_rv64 decode_init inst) = get_field f ?dec" for f
  proof (cases "map_of ?os f")
    case None
    then have "f \<noteq> F_imm" using imm by (force simp: map_of_eq_None_iff)
    then show ?thesis using None by (simp add: dg inst(4) op get_field_imm operand_value_def)
  next
    case (Some y)
    obtain o' own where y: "y = (o', own)" by (cases y)
    then have m: "(f, o', own) \<in> set ?os" using Some by (auto dest: map_of_SomeD)
    show ?thesis using inst(5) [OF m p'(5) [OF m] valid [OF m]] Some y by (simp add: dg inst(4) operand_value_def)
  qed
  then have "decode_inst isa_rv64 decode_init inst = ?dec"
    by (intro decode_eqI) (simp_all add: inst(4) op)
  then show ?thesis using that inst(1-4) by (simp add: d op inst(4))
qed

lemma reencode_patches:
  assumes f: "fetch_at p a = Some (w, n)" and b: "buf_ok a"
    and p: "patchable op opd" "decode_inst_op isa_rv64 w = op" "operand_valid opd (scast imm)"
  obtains a' w' where "reencode_inst ((decode_inst_rv64 decode_init w)\<lparr>dec_imm := imm\<rparr>) p a = Some a'"
    "poke 4 p w' a = Some a'" "fetch_at p a' = Some (w', 4)" "buf_ok a'"
    "decode_inst_rv64 decode_init w' = (decode_inst_rv64 decode_init w)\<lparr>dec_imm := imm\<rparr>"
proof -
  obtain w' where w': "encoded ((decode_inst_rv64 decode_init w)\<lparr>dec_imm := imm\<rparr>) = Some w'"
    "w' AND 0xffffffff = w'" "inst_length w' = 4"
    "decode_inst_rv64 decode_init w' = (decode_inst_rv64 decode_init w)\<lparr>dec_imm := imm\<rparr>"
    by (rule reencode_decodes [OF p]) blast
  obtain s where s: "at (sections a) (fst p) = Some s" "snd p + 4 \<le> length (sec_buf s)"
    using f by (elim fetch_SomeE) auto
  then obtain a' where a': "poke 4 p w' a = Some a'" by (simp add: poke_def)
  have "buf_ok a'"
  proof -
    have "length (sec_buf s) < 2 ^ 64" using s(1) b by (auto simp: buf_ok_def at_def split: if_splits)
    then show ?thesis
      using b s(2) a' by (elim poke_Some) (auto simp: buf_ok_def s(1) dest!: set_update_subset_insert [THEN subsetD])
  qed
  moreover have "reencode_inst ((decode_inst_rv64 decode_init w)\<lparr>dec_imm := imm\<rparr>) p a = Some a'"
    by (simp add: reencode_inst_def w' a')
  ultimately show ?thesis using that a' fetch_poke [OF a' w'(2,3) b] w'(4) by blast
qed

section \<open>The values of the relocations\<close>

text \<open>
  What a relocation type asks of the instruction, and of the addresses \<open>L\<close> of the label and
  \<open>R\<close> of the relocation; for the lower part of a PC-relative address these are the addresses of the
  label and of the relocation of its upper part.
\<close>

definition rv_branches :: "opcode list" where
  "rv_branches = [rv_op_beq, rv_op_bne, rv_op_blt, rv_op_bge, rv_op_bltu, rv_op_bgeu]"

definition rv_lo12_i :: "opcode list" where
  "rv_lo12_i = [rv_op_addi, rv_op_addiw, rv_op_jalr, rv_op_lb, rv_op_lh, rv_op_lw, rv_op_ld, rv_op_lbu, rv_op_lhu, rv_op_lwu]"

definition rv_lo12_s :: "opcode list" where
  "rv_lo12_s = [rv_op_sb, rv_op_sh, rv_op_sw, rv_op_sd]"


text \<open>What the patched immediate \<open>v\<close> means: \<open>upper20 x\<close> is the multiple of 4096 nearest to \<open>x\<close>.\<close>

definition upper20 :: "u64 \<Rightarrow> int" where
  "upper20 x = (sint x + 2048) div 4096 * 4096"


lemma patchable_ops:
  "patchable rv_op_jal operand_jimm20"
  "op \<in> set rv_branches \<Longrightarrow> patchable op operand_sbimm12"
  "patchable rv_op_lui operand_imm20"
  "patchable rv_op_auipc operand_imm20"
  "op \<in> set rv_lo12_i \<Longrightarrow> patchable op operand_imm12"
  "op \<in> set rv_lo12_s \<Longrightarrow> patchable op operand_simm12"
  by (auto simp: patchable_def wide_row_def wide_codecs_def op_refined_by_def meta_nth rv_inst_decomp_rv64_def rv64_ops_def
      rv_branches_def rv_lo12_i_def rv_lo12_s_def)

lemma sint_add_2048:
  assumes "simm_valid 32 (x + 0x800)"
  shows "sint (x + 0x800) = sint x + 2048"
proof -
  have "sint (x + 0x800 - 0x800) = signed_take_bit 63 (sint (x + 0x800) - 2048)"
    by (simp only: sint_word_ariths) simp
  also have "\<dots> = sint (x + 0x800) - 2048"
    using assms by (intro signed_take_bit_int_eq_self) (simp_all add: simm_valid_def)
  finally show ?thesis by simp
qed

lemma sint_upper: "sint (upper y) = sint y div 4096 * 4096"
proof -
  have "upper y = 4096 * signed_drop_bit 12 y" by (simp add: upper_def push_bit_eq_mult)
  then have "sint (upper y) = signed_take_bit 63 (4096 * (sint y div 4096))"
    by (simp add: sint_word_ariths sint_signed_drop_bit_eq drop_bit_eq_div)
  also have "\<dots> = 4096 * (sint y div 4096)"
  proof (rule signed_take_bit_int_eq_self)
    have "- (2 ^ 63) div 4096 \<le> sint y div 4096"
      using sint_greater_eq [of y] by (intro zdiv_mono1) simp_all
    then show "- (2 ^ 63) \<le> 4096 * (sint y div 4096)" by simp
    show "4096 * (sint y div 4096) < 2 ^ 63"
      using sint_less [of y] by (simp add: minus_mod_eq_mult_div [symmetric])
  qed
  finally show ?thesis by simp
qed

lemma hi20_upper: "hi20 x = ucast (upper (x + 0x800))"
proof -
  have "push_bit 12 (drop_bit 12 y) = upper y" for y :: u64
    unfolding upper_def u64_eq_iff
    by (auto simp: bit_push_bit_iff bit_signed_drop_bit_iff bit_drop_bit_eq min_def)
  then show ?thesis by (simp add: hi20_def)
qed

lemma hi20_value:
  assumes "simm_valid 32 (x + 0x800)"
  shows "scast (hi20 x) = upper (x + 0x800)" "sint (upper (x + 0x800)) = upper20 x"
    "operand_valid operand_imm20 (scast (hi20 x))"
proof -
  have u: "simm_valid 32 (upper (x + 0x800))" "take_bit 12 (upper (x + 0x800)) = 0"
    using assms by (intro upper_range; simp add: fits32_iff)+
  then show e: "scast (hi20 x) = upper (x + 0x800)" by (simp add: hi20_upper simm_valid_scast)
  show "sint (upper (x + 0x800)) = upper20 x"
    using assms by (simp add: sint_upper sint_add_2048 upper20_def)
  show "operand_valid operand_imm20 (scast (hi20 x))" using u by (simp add: e operand_ranges_signed)
qed

lemma ucast_diff: "(ucast x :: u32) - ucast y = ucast (x - y :: u64)"
proof -
  have "take_bit 32 (uint x - uint y) = take_bit 32 (uint (x - y))"
    by (simp add: uint_word_ariths take_bit_eq_mod mod_mod_cancel)
  then have "(word_of_int (uint x - uint y) :: u32) = word_of_int (uint (x - y))"
    by (simp only: word_of_int_eq_iff) simp
  then show ?thesis unfolding ucast_eq wi_hom_sub .
qed

lemma lo12_value:
  assumes "simm_valid 32 (x + 0x800)"
  shows "scast (ucast x - hi20 x) = x - upper (x + 0x800)" "sint (x - upper (x + 0x800)) + upper20 x = sint x"
    "simm_valid 12 (x - upper (x + 0x800))"
proof -
  have d: "- 2048 \<le> sint x - upper20 x" "sint x - upper20 x \<le> 2047"
    by (simp_all add: upper20_def minus_mod_eq_div_mult [symmetric])
  have "sint (x - upper (x + 0x800)) = signed_take_bit 63 (sint x - upper20 x)"
    using hi20_value(2) [OF assms] by (simp add: sint_word_ariths)
  also have "\<dots> = sint x - upper20 x" using d by (intro signed_take_bit_int_eq_self) simp_all
  finally show l: "sint (x - upper (x + 0x800)) + upper20 x = sint x" by simp
  then show v: "simm_valid 12 (x - upper (x + 0x800))" using d by (simp add: simm_valid_def)
  have "(ucast x :: u32) - ucast (upper (x + 0x800)) = ucast (x - upper (x + 0x800))"
    by (rule ucast_diff)
  then show "scast (ucast x - hi20 x) = x - upper (x + 0x800)"
    using simm_valid_scast [OF simm_valid_mono [OF v, of 32]] by (simp add: hi20_upper)
qed

section \<open>Patching one instruction\<close>

text \<open>The bytes of the sections, and the address of a label, which may be a constant.\<close>

definition byte_at :: "u64 \<Rightarrow> nat \<Rightarrow> assembler \<Rightarrow> u8 option" where
  "byte_at s i a = Option.bind (at (sections a) s) (\<lambda>s. if i < length (sec_buf s) then Some (sec_buf s ! i) else None)"

definition label_address :: "nat \<Rightarrow> assembler \<Rightarrow> u64 option" where
  "label_address l a =
     (if fst (lab_offset (labels a ! l)) = SHN_ABS then Some (snd (lab_offset (labels a ! l))) else label_offset l a)"


lemma renamed_reloc:
  fixes a :: assembler and r :: nat and n :: string
  defines "a' \<equiv> a\<lparr>relocs := (relocs a)[r := (relocs a ! r)\<lparr>rel_name := n\<rparr>]\<rparr>"
  shows "rel_type (relocs a' ! r) = rel_type (relocs a ! r)" "rel_offset (relocs a' ! r) = rel_offset (relocs a ! r)"
    "label_offset l a' = label_offset l a" "reloc_offset r a' = reloc_offset r a" "reloc_buffer r a' = reloc_buffer r a"
    "fetch_at p a' = fetch_at p a" "buf_ok a' = buf_ok a" "byte_at s i a' = byte_at s i a"
    "relocs_byoffset a' = relocs_byoffset a" "find_label m a' = find_label m a" "sections a' = sections a"
    "h \<noteq> r \<Longrightarrow> relocs a' ! h = relocs a ! h" "reloc_offset h a' = reloc_offset h a"
proof -
  have *: "relocs a' ! r = (if r < length (relocs a) then (relocs a ! r)\<lparr>rel_name := n\<rparr> else relocs a ! r)"
    by (simp add: a'_def list_update_beyond)
  show "rel_type (relocs a' ! r) = rel_type (relocs a ! r)" "rel_offset (relocs a' ! r) = rel_offset (relocs a ! r)"
    by (simp_all add: *)
  then show "reloc_offset r a' = reloc_offset r a" "reloc_buffer r a' = reloc_buffer r a"
    by (simp_all add: reloc_offset_def reloc_buffer_def a'_def)
  have "rel_offset (relocs a' ! h) = rel_offset (relocs a ! h)"
    by (cases "h = r") (simp_all add: *, simp add: a'_def)
  then show "reloc_offset h a' = reloc_offset h a"
    by (simp add: reloc_offset_def a'_def)
qed (simp_all add: a'_def label_offset_def fetch_at_def buf_ok_def byte_at_def find_label_def)











text \<open>
  The lower part of a PC-relative address in a section that does not start at 0: the code looks for the
  relocation of the upper part at the address of the label instead of its place in the section.
\<close>

lemma pcrel_lo12_unresolved:
  assumes "lookup_label (rel_offset (relocs a ! r)) (rel_name (relocs a ! r)) a = Some l"
    "label_address l a = Some L" "reloc_offset r a = Some R" "reloc_buffer r a = Some p" "fetch_at p a = Some (w, n)"
    "rel_type (relocs a ! r) = R_RISCV_PCREL_LO12_I \<or> rel_type (relocs a ! r) = R_RISCV_PCREL_LO12_S"
    "map_of (relocs_byoffset a) (fst (rel_offset (relocs a ! r)), L) = None"
  shows "\<exists>a'. relocate r a = Some (False, a')"
proof -
  define b where "b = a\<lparr>relocs := (relocs a)[r := (relocs a ! r)\<lparr>rel_name := lab_name (labels a ! l)\<rparr>]\<rparr>"
  note b = renamed_reloc [where a = a and r = r and n = "lab_name (labels a ! l)", folded b_def]
  show ?thesis
    unfolding relocate_def assms(1) option.case Let_def b_def [symmetric] b(1-6) assms(2) [unfolded label_address_def]
      assms(3-5) bind.bind_lunit prod.case
    using assms(6,7) by (elim disjE) (simp_all add: reloc_types b)
qed

section \<open>Calls\<close>

lemma decoded_rd:
  assumes "patchable op opd" "decode_inst_op isa_rv64 w = op" "map_of (codec_operands (rv_inst_codec ! op)) F_rd = Some (operand_rd, own)"
  shows "unat (dec_rd (decode_inst_rv64 decode_init w)) < 32"
proof -
  have p: "rv_inst_decomp_rv64 ! op = rv_op_illegal" "rv_inst_codec ! op \<in> set wide_codecs"
    using assms(1) by (auto simp: patchable_def wide_row_def)
  have d: "decode_inst_rv64 decode_init w = decode_inst isa_rv64 decode_init w"
    using decode_wide [of w decode_init] assms(2) p(1) by simp
  have "get_field F_rd (decode_inst isa_rv64 decode_init w) = operand_decode operand_rd w"
    using get_field_decoded [of "decode_init\<lparr>dec_op := op\<rparr>"] assms(2,3) p(2) by (simp add: decode_inst_def operand_value_def)
  then have v: "ucast (dec_rd (decode_inst isa_rv64 decode_init w)) = operand_decode operand_rd w" by simp
  have "(F_rd, operand_rd, own) \<in> set (codec_operands (rv_inst_codec ! op))" using assms(3) by (rule map_of_SomeD)
  then have "operand_codec (operand_decode operand_rd) (operand_encode operand_rd) own (operand_valid operand_rd)"
    using codec_operands_lawful [of "rv_inst_codec ! op"] by (auto simp: list_all_iff operand_lawful_def)
  then have "uimm_valid 5 (operand_decode operand_rd w)"
    using operand_codec.valid_dec operand_ranges(1) by blast
  moreover have "uint (ucast x :: u64) = uint x" for x :: u8 by (rule uint_up_ucast) (simp add: is_up)
  ultimately have "uint (dec_rd (decode_inst isa_rv64 decode_init w)) < 32"
    unfolding v [symmetric] by (simp add: uimm_valid_def)
  then have "nat (uint (dec_rd (decode_inst isa_rv64 decode_init w))) < nat 32" by (subst nat_less_eq_zless) simp_all
  then show ?thesis by (simp add: d)
qed

lemma exec_auipc: "dec_op d = rv_op_auipc \<Longrightarrow> exec_inst_rv64 M True True True d off s = wr d (pc s + simm d) off s"
  unfolding exec_inst_rv64_def rv64_cases_def gate_def rvi_jump_def switch_map_of by simp

lemma exec_jalr: "dec_op d = rv_op_jalr \<Longrightarrow>
    exec_inst_rv64 M True True True d off s = wr d (pc s + off) ((rs1 d s + simm d - pc s) AND NOT 1) s"
  unfolding exec_inst_rv64_def rv64_cases_def gate_def rvi_jump_def switch_map_of by simp

lemma even_keeps: "even x \<Longrightarrow> x AND NOT 1 = (x :: u64)"
  by (rule bit_word_eqI) (auto simp: bit_and_iff bit_not_iff bit_1_iff bit_0 intro!: gr0I)

text \<open>The pair of instructions with the immediates of a call reaches \<open>L\<close> from \<open>R\<close>.\<close>

lemma call_reaches:
  assumes d: "dec_op d1 = rv_op_auipc" "dec_op d2 = rv_op_jalr" "dec_rs1 d2 = dec_rd d1" "dec_rd d1 \<noteq> 0"
    "unat (dec_rd d1) < 32" "unat (dec_rd d2) < 32"
    and imm: "dec_imm d1 = hi20 (L - R)" "dec_imm d2 = ucast (L - R) - hi20 (L - R)"
    and range: "simm_valid 32 (L - R + 0x800)" "even (L - R)"
    and s: "pc s = R" "length (ireg s) = 32"
  shows "\<exists>s1 off s2. exec_inst_rv64 M True True True d1 4 s = Ok 4 s1 \<and>
    exec_inst_rv64 M True True True d2 4 (s1\<lparr>pc := R + 4\<rparr>) = Ok off s2 \<and> R + 4 + off = L \<and>
    reg (dec_rd d2) s2 = (if dec_rd d2 = 0 then 0 else R + 8) \<and>
    (\<forall>k. k \<noteq> dec_rd d1 \<longrightarrow> k \<noteq> dec_rd d2 \<longrightarrow> reg k s2 = reg k s)"
proof -
  let ?x = "L - R"
  have simm: "simm d1 = upper (?x + 0x800)" "simm d2 = ?x - upper (?x + 0x800)"
    using hi20_value(1) [OF range(1)] lo12_value(1) [OF range(1)] by (simp_all add: simm_def imm)
  let ?s1 = "set_rd d1 (R + upper (?x + 0x800)) s"
  let ?s2 = "set_rd d2 (R + 8) (?s1\<lparr>pc := R + 4\<rparr>)"
  have e1: "exec_inst_rv64 M True True True d1 4 s = Ok 4 ?s1"
    by (simp add: exec_auipc d(1) wr_def simm s(1))
  have r: "rs1 d2 (?s1\<lparr>pc := R + 4\<rparr>) = R + upper (?x + 0x800)"
    using d s(2) by (simp add: rs1_def reg_def set_rd_def)
  have "even (L - R - 4)" using range(2) by simp
  then have k: "(L - R - 4) AND NOT 1 = L - R - 4" by (rule even_keeps)
  have "exec_inst_rv64 M True True True d2 4 (?s1\<lparr>pc := R + 4\<rparr>) = Ok ((L - R - 4) AND NOT 1) ?s2"
    unfolding exec_jalr [OF d(2)] r simm wr_def by (simp add: algebra_simps)
  then have e2: "exec_inst_rv64 M True True True d2 4 (?s1\<lparr>pc := R + 4\<rparr>) = Ok (L - R - 4) ?s2" unfolding k .
  have n: "unat k \<noteq> unat j" if "k \<noteq> j" for k j :: u8 using that by (metis word_unat_eq_iff)
  show ?thesis
    by (intro exI conjI, rule e1, rule e2) (use d s(2) n in \<open>auto simp: reg_def set_rd_def\<close>)
qed

text \<open>
  C34. A call is a pair of instructions, \<^verbatim>\<open>auipc\<close> and \<^verbatim>\<open>jalr\<close> over the register
  it wrote. A relocation of such a pair succeeds, and the interpreter, running the two patched
  instructions from the address of the relocation, arrives at the label, with the address after
  the pair in the link register and every register but the two destinations as it was.
\<close>

theorem relocate_call:
  assumes "lookup_label (rel_offset (relocs a ! r)) (rel_name (relocs a ! r)) a = Some l"
    "label_address l a = Some L" "reloc_offset r a = Some R"
    "reloc_buffer r a = Some p" "rel_type (relocs a ! r) = R_RISCV_CALL" "buf_ok a"
    "fetch_at p a = Some (w1, 4)" "fetch_at (fst p, snd p + 4) a = Some (w2, n)"
    "decode_inst_op isa_rv64 w1 = rv_op_auipc" "decode_inst_op isa_rv64 w2 = rv_op_jalr"
    "d1 = decode_inst_rv64 decode_init w1" "d2 = decode_inst_rv64 decode_init w2"
    "dec_rs1 d2 = dec_rd d1" "dec_rd d1 \<noteq> 0"
    "simm_valid 32 (L - R + 0x800)" "even (L - R)"
    "pc s = R" "length (ireg s) = 32"
  shows "\<exists>a' w1' w2' s1 off s2. relocate r a = Some (True, a') \<and>
    fetch_at p a' = Some (w1', 4) \<and> fetch_at (fst p, snd p + 4) a' = Some (w2', 4) \<and>
    exec_inst_rv64 M True True True (decode_inst_rv64 decode_init w1') 4 s = Ok 4 s1 \<and>
    exec_inst_rv64 M True True True (decode_inst_rv64 decode_init w2') 4 (s1\<lparr>pc := R + 4\<rparr>) = Ok off s2 \<and>
    R + 4 + off = L \<and> reg (dec_rd d2) s2 = (if dec_rd d2 = 0 then 0 else R + 8) \<and>
    (\<forall>k. k \<noteq> dec_rd d1 \<longrightarrow> k \<noteq> dec_rd d2 \<longrightarrow> reg k s2 = reg k s)"
proof -
  define b where "b = a\<lparr>relocs := (relocs a)[r := (relocs a ! r)\<lparr>rel_name := lab_name (labels a ! l)\<rparr>]\<rparr>"
  note b = renamed_reloc [where a = a and r = r and n = "lab_name (labels a ! l)", folded b_def]
  let ?x = "L - R"
  have lo: "operand_valid operand_imm12 (scast (ucast ?x - hi20 ?x))"
    using lo12_value [OF assms(15)] by (simp add: operand_ranges_signed)
  have f: "fetch_at p b = Some (w1, 4)" "fetch_at (fst p, snd p + 4) b = Some (w2, n)" "buf_ok b"
    using assms(6-8) by (simp_all add: b)
  have jalr: "patchable rv_op_jalr operand_imm12" by (rule patchable_ops) (simp add: rv_lo12_i_def)
  obtain c w2' where c: "reencode_inst (d2\<lparr>dec_imm := ucast ?x - hi20 ?x\<rparr>) (fst p, snd p + 4) b = Some c"
    "poke 4 (fst p, snd p + 4) w2' b = Some c" "fetch_at (fst p, snd p + 4) c = Some (w2', 4)" "buf_ok c"
    "decode_inst_rv64 decode_init w2' = d2\<lparr>dec_imm := ucast ?x - hi20 ?x\<rparr>"
    unfolding assms(12) by (rule reencode_patches [OF f(2,3) jalr assms(10) lo])
  have fp: "fetch_at p c = Some (w1, 4)" by (rule fetch_poke_apart [OF c(2) _ _ f(1,3)]) simp_all
  obtain a' w1' where a': "reencode_inst (d1\<lparr>dec_imm := hi20 ?x\<rparr>) p c = Some a'"
    "poke 4 p w1' c = Some a'" "fetch_at p a' = Some (w1', 4)"
    "decode_inst_rv64 decode_init w1' = d1\<lparr>dec_imm := hi20 ?x\<rparr>"
    unfolding assms(11)
    by (rule reencode_patches [OF fp c(4) patchable_ops(4) assms(9) hi20_value(3) [OF assms(15)]])
  have f2: "fetch_at (fst p, snd p + 4) a' = Some (w2', 4)"
    by (rule fetch_poke_apart [OF a'(2) _ _ c(3,4)]) simp_all
  have "relocate r a = Some (True, a')"
    unfolding relocate_def assms(1) option.case Let_def b_def [symmetric] b(1-6) assms(2) [unfolded label_address_def] assms(3,4)
      assms(7,8) bind.bind_lunit prod.case assms(5)
    using c(1) a'(1) assms(11,12) by (simp add: reloc_types)
  moreover have op: "dec_op d1 = rv_op_auipc" "dec_op d2 = rv_op_jalr"
    using assms(9-12) decode_wide [of w1 decode_init] decode_wide [of w2 decode_init] by (simp_all add: rv_inst_decomp_rv64_def)
  moreover have "unat (dec_rd d1) < 32" "unat (dec_rd d2) < 32"
    unfolding assms(11,12)
    by (rule decoded_rd [OF patchable_ops(4) assms(9)], simp add: meta_nth, rule decoded_rd [OF jalr assms(10)], simp add: meta_nth)
  ultimately have "\<exists>s1 off s2. exec_inst_rv64 M True True True (d1\<lparr>dec_imm := hi20 ?x\<rparr>) 4 s = Ok 4 s1 \<and>
      exec_inst_rv64 M True True True (d2\<lparr>dec_imm := ucast ?x - hi20 ?x\<rparr>) 4 (s1\<lparr>pc := R + 4\<rparr>) = Ok off s2 \<and>
      R + 4 + off = L \<and> reg (dec_rd d2) s2 = (if dec_rd d2 = 0 then 0 else R + 8) \<and>
      (\<forall>k. k \<noteq> dec_rd d1 \<longrightarrow> k \<noteq> dec_rd d2 \<longrightarrow> reg k s2 = reg k s)"
    using call_reaches [of "d1\<lparr>dec_imm := hi20 ?x\<rparr>" "d2\<lparr>dec_imm := ucast ?x - hi20 ?x\<rparr>" L R s M] assms(13-18) by simp
  then show ?thesis using \<open>relocate r a = Some (True, a')\<close> a'(3,4) f2 c(5) by metis
qed

section \<open>An example\<close>

text \<open>
  A call to the constant \<^verbatim>\<open>f\<close> and a jump back to \<^verbatim>\<open>g\<close>, at address 0x1000.
\<close>

definition linked_code :: assembler where
  "linked_code = \<lparr>
     sections = [\<lparr>sec_index = 0, sec_offset = 0x1000, sec_name = ''.text'',
       sec_buf = [0x97, 0, 0, 0, 0xe7, 0x80, 0, 0, 0xef, 0, 0, 0]\<rparr>],
     section_map = [''.text'' \<mapsto> 0],
     labels = [\<lparr>lab_name = ''f'', lab_offset = (SHN_ABS, 0x12345678), lab_num = 0\<rparr>, \<lparr>lab_name = ''g'', lab_offset = (0, 0), lab_num = 0\<rparr>],
     labels_byoffset = [((0, 0), 1), ((SHN_ABS, 0x12345678), 0)], labels_byname = [''f'' \<mapsto> 0, ''g'' \<mapsto> 1],
     relocs = [\<lparr>rel_offset = (0, 0), rel_name = ''f'', rel_type = R_RISCV_CALL\<rparr>, \<lparr>rel_offset = (0, 8), rel_name = ''g'', rel_type = R_RISCV_JAL\<rparr>],
     relocs_byoffset = [((0, 0), 0), ((0, 8), 1)], strong_exports = [], weak_exports = [], current = 0\<rparr>"

lemma linked_code_fetch:
  "fetch_at (0, 0) linked_code = Some (0x97, 4)" "fetch_at (0, 4) linked_code = Some (0x80e7, 4)"
  "fetch_at (0, 8) linked_code = Some (0xef, 4)"
  by code_simp+

lemma linked_code_ops:
  "decode_inst_op isa_rv64 0x97 = rv_op_auipc" "decode_inst_op isa_rv64 0x80e7 = rv_op_jalr" "decode_inst_op isa_rv64 0xef = rv_op_jal"
  by code_simp+

lemma linked_code_regs:
  "dec_rd (decode_inst_rv64 decode_init 0x97) = 1" "dec_rd (decode_inst_rv64 decode_init 0x80e7) = 1"
  "dec_rs1 (decode_inst_rv64 decode_init 0x80e7) = 1"
  by code_simp+

lemma linked_code_places:
  "buf_ok linked_code"
  "lookup_label (rel_offset (relocs linked_code ! 0)) (rel_name (relocs linked_code ! 0)) linked_code = Some 0"
  "lookup_label (rel_offset (relocs linked_code ! 1)) (rel_name (relocs linked_code ! 1)) linked_code = Some 1"
  "label_address 0 linked_code = Some 0x12345678" "label_address 1 linked_code = Some 0x1000"
  "reloc_offset 0 linked_code = Some 0x1000" "reloc_offset 1 linked_code = Some 0x1008"
  "reloc_buffer 0 linked_code = Some (0, 0)" "reloc_buffer 1 linked_code = Some (0, 8)"
  "rel_type (relocs linked_code ! 0) = R_RISCV_CALL" "rel_type (relocs linked_code ! 1) = R_RISCV_JAL"
  by (simp_all add: linked_code_def buf_ok_def lookup_label_def check_local_def find_label_def label_address_def SHN_ABS_def
      label_offset_def reloc_offset_def reloc_buffer_def at_def)






theorem relocate_call_witness:
  "\<exists>a' w1' w2' s1 off s2. relocate 0 linked_code = Some (True, a') \<and>
    fetch_at (0, 0) a' = Some (w1', 4) \<and> fetch_at (0, 4) a' = Some (w2', 4) \<and>
    exec_inst_rv64 soft_mmu True True True (decode_inst_rv64 decode_init w1') 4 (example_regs\<lparr>pc := 0x1000\<rparr>) = Ok 4 s1 \<and>
    exec_inst_rv64 soft_mmu True True True (decode_inst_rv64 decode_init w2') 4 (s1\<lparr>pc := 0x1004\<rparr>) = Ok off s2 \<and>
    0x1004 + off = 0x12345678 \<and> reg 1 s2 = 0x1008"
proof -
  have "simm_valid 32 (0x12345678 - 0x1000 + 0x800)" "even (0x12345678 - 0x1000 :: u64)"
    by (simp_all add: simm_valid_def)
  from relocate_call [where s = "example_regs\<lparr>pc := 0x1000\<rparr>" and M = soft_mmu, OF linked_code_places(2,4,6,8,10,1) linked_code_fetch(1) _ linked_code_ops(1,2) refl refl _ _ this] 
  show ?thesis using linked_code_fetch(2) by (simp add: linked_code_regs example_regs_def) blast
qed
end
