(* ===== verification/Mmap.thy ===== *)
theory Mmap
  imports Bytes
begin

text \<open>
  The tracker of mapped pages (\<^verbatim>\<open>src/src/mem/mmap-core.c\<close>): three levels of bitmaps, which
  are themselves mapped on demand, the search for a free range, and the guest's mmap and munmap.

  The bitmaps are memory: an address that is not mapped has no byte, and reading it is undefined. A
  result is \<open>None\<close> where the behaviour is undefined or a loop does not end, otherwise
  \<open>Inl\<close> an exit status of the process or \<open>Inr\<close> a value. The mutex is left out. The
  kernel's \<^verbatim>\<open>mmap\<close> and \<^verbatim>\<open>munmap\<close> are arguments.
\<close>

unbundle bit_operations_syntax

section \<open>The bitmaps\<close>

definition GUEST_MMAP_BASE :: u64 where "GUEST_MMAP_BASE = 0x40000000"
definition HOST_MMAP_BASE :: u64 where "HOST_MMAP_BASE = 0x7fff00000000"
definition METADATA_BASE :: u64 where "METADATA_BASE = 0x7f0000000000"
definition MMAP_PAGE_SIZE :: u64 where "MMAP_PAGE_SIZE = 0x1000"
definition MMAP_PAGE_MASK :: u64 where "MMAP_PAGE_MASK = 0xfff"
definition LEVEL_SIZE :: u64 where "LEVEL_SIZE = 0x1000"
definition LEVEL_BYTES :: u64 where "LEVEL_BYTES = 0x200"
definition MAP_FAILED :: u64 where "MAP_FAILED = - 1"
definition MAP_FIXED :: u32 where "MAP_FIXED = 0x10"

lemmas mmap_consts = GUEST_MMAP_BASE_def HOST_MMAP_BASE_def METADATA_BASE_def MMAP_PAGE_SIZE_def
  MMAP_PAGE_MASK_def LEVEL_SIZE_def LEVEL_BYTES_def

type_synonym meta = "nat \<Rightarrow> u8 option"

record tracker =
  map_inited :: bool
  map_meta :: meta

text \<open>A fresh anonymous page at \<open>addr\<close>.\<close>

definition map_zero :: "u64 \<Rightarrow> meta \<Rightarrow> meta" where
  "map_zero addr m = (\<lambda>x. if unat addr \<le> x \<and> x < unat addr + 4096 then Some 0 else m x)"

text \<open>
  \<open>anon_map a\<close> is what the kernel returns for a fixed anonymous mapping of one page at \<open>a\<close>.
\<close>

definition init_mmap :: "(u64 \<Rightarrow> u64) \<Rightarrow> tracker \<Rightarrow> int + tracker" where
  "init_mmap anon_map t =
     (if map_inited t then Inr t
      else if anon_map METADATA_BASE = MAP_FAILED then Inl 1
      else Inr (t\<lparr>map_inited := True, map_meta := map_zero (anon_map METADATA_BASE) (map_meta t)\<rparr>))"

text \<open>\<^verbatim>\<open>level_bmap\<close>: the bitmap and the offset of the bit in it.\<close>

definition level_bmap :: "nat \<Rightarrow> u64 \<Rightarrow> u64 \<times> u64" where
  "level_bmap level addr =
     (if level = 3 then METADATA_BASE
      else if level = 2 then METADATA_BASE + MMAP_PAGE_SIZE + (drop_bit 36 addr AND 0xfff) * LEVEL_BYTES
      else if level = 1 then METADATA_BASE + MMAP_PAGE_SIZE + LEVEL_SIZE * LEVEL_BYTES +
        (drop_bit 24 addr AND 0xffffff) * LEVEL_BYTES
      else - 1,
      drop_bit (12 * level) addr AND MMAP_PAGE_MASK)"

text \<open>The address of the byte \<^verbatim>\<open>bmap[offset >> 3]\<close> and the index \<^verbatim>\<open>offset & 7\<close>.\<close>

definition bmap_cell :: "u64 \<times> u64 \<Rightarrow> nat \<times> nat" where
  "bmap_cell = (\<lambda>(bmap, offset). (unat (bmap + drop_bit 3 offset), unat (offset AND 7)))"

definition reify_level :: "(u64 \<Rightarrow> u64) \<Rightarrow> u64 \<Rightarrow> nat \<Rightarrow> meta \<Rightarrow> (int + meta) option" where
  "reify_level anon_map addr level m =
     (let (cell, i) = bmap_cell (level_bmap (level + 1) addr) in
      case m cell of None \<Rightarrow> None
      | Some b \<Rightarrow>
          if bit b i then Some (Inr m)
          else let map_addr = fst (level_bmap level addr) AND NOT (MMAP_PAGE_SIZE - 1);
                   rv = anon_map map_addr
               in if rv = MAP_FAILED \<or> rv \<noteq> map_addr then Some (Inl 1)
                  else Some (Inr ((map_zero map_addr m)(cell := Some 0xff))))"

definition reify_bmap :: "(u64 \<Rightarrow> u64) \<Rightarrow> u64 \<Rightarrow> meta \<Rightarrow> (int + meta) option" where
  "reify_bmap anon_map addr m =
     (case reify_level anon_map addr 2 m of None \<Rightarrow> None
      | Some (Inl rc) \<Rightarrow> Some (Inl rc)
      | Some (Inr m') \<Rightarrow> reify_level anon_map addr 1 m')"

definition level_present :: "u64 \<Rightarrow> nat \<Rightarrow> meta \<Rightarrow> bool option" where
  "level_present addr level m =
     (let (cell, i) = bmap_cell (level_bmap level addr) in map_option (\<lambda>b. bit b i) (m cell))"

definition page_present :: "u64 \<Rightarrow> meta \<Rightarrow> bool option" where
  "page_present addr m =
     (case level_present addr 3 m of None \<Rightarrow> None
      | Some False \<Rightarrow> Some False
      | Some True \<Rightarrow>
          (case level_present addr 2 m of None \<Rightarrow> None
           | Some False \<Rightarrow> Some False
           | Some True \<Rightarrow> level_present addr 1 m))"

section \<open>The loops\<close>

text \<open>
  \<^verbatim>\<open>find_free\<close>: the outer loop at \<open>addr\<close>, or, with \<open>inner\<close>, the inner loop, which
  looks for the end of the free range that starts at \<open>first\<close>. When the inner loop ends, the outer
  one goes on from where it stopped.
\<close>

partial_function (option) find_free_loop ::
  "(u64 \<Rightarrow> u64) \<Rightarrow> u64 \<Rightarrow> u64 \<Rightarrow> bool \<Rightarrow> u64 \<Rightarrow> u64 \<Rightarrow> meta \<Rightarrow> (int + u64 \<times> meta) option" where
  "find_free_loop anon_map limit len inner first addr m =
     (if \<not> inner
      then if addr < limit
        then Option.bind (reify_bmap anon_map addr m) (\<lambda>r.
          case r of Inl rc \<Rightarrow> Some (Inl rc)
          | Inr m' \<Rightarrow> find_free_loop anon_map limit len True addr addr m')
        else Some (Inr (0, m))
      else if addr < limit
        then Option.bind (page_present addr m) (\<lambda>p.
          if p then find_free_loop anon_map limit len False first (addr + MMAP_PAGE_SIZE) m
          else if len \<le> addr - first then Some (Inr (first, m))
          else find_free_loop anon_map limit len True first (addr + MMAP_PAGE_SIZE) m)
        else find_free_loop anon_map limit len False first (addr + MMAP_PAGE_SIZE) m)"

definition find_free :: "(u64 \<Rightarrow> u64) \<Rightarrow> u64 \<Rightarrow> u64 \<Rightarrow> u64 \<Rightarrow> meta \<Rightarrow> (int + u64 \<times> meta) option" where
  "find_free anon_map start limit len m = find_free_loop anon_map limit len False start start m"

text \<open>The loops of \<^verbatim>\<open>mark_used\<close> and \<^verbatim>\<open>mark_free\<close> differ in what they do to a byte.\<close>

partial_function (option) mark_loop ::
  "(u64 \<Rightarrow> u64) \<Rightarrow> (nat \<Rightarrow> u8 \<Rightarrow> u8) \<Rightarrow> u64 \<Rightarrow> u64 \<Rightarrow> meta \<Rightarrow> (int + meta) option" where
  "mark_loop anon_map upd stop addr m =
     (if addr < stop
      then Option.bind (reify_bmap anon_map addr m) (\<lambda>r.
        case r of Inl rc \<Rightarrow> Some (Inl rc)
        | Inr m' \<Rightarrow>
            let (cell, i) = bmap_cell (level_bmap 1 addr) in
            Option.bind (m' cell) (\<lambda>b.
              mark_loop anon_map upd stop (addr + MMAP_PAGE_SIZE) (m'(cell := Some (upd i b)))))
      else Some (Inr m))"

definition mark_used :: "(u64 \<Rightarrow> u64) \<Rightarrow> u64 \<Rightarrow> u64 \<Rightarrow> meta \<Rightarrow> (int + meta) option" where
  "mark_used anon_map start_of_range len m =
     mark_loop anon_map (\<lambda>i b. b OR push_bit i 1) (start_of_range + len) start_of_range m"

definition mark_free :: "(u64 \<Rightarrow> u64) \<Rightarrow> u64 \<Rightarrow> u64 \<Rightarrow> meta \<Rightarrow> (int + meta) option" where
  "mark_free anon_map start_of_range len m =
     mark_loop anon_map (\<lambda>i b. b AND NOT (push_bit i 1)) (start_of_range + len) start_of_range m"

section \<open>Mapping and unmapping\<close>

record mmap_args =
  ma_addr :: u64
  ma_len :: u64
  ma_prot :: u32
  ma_flags :: u32
  ma_fd :: u32
  ma_offset :: u64

definition mark_mapped :: "(u64 \<Rightarrow> u64) \<Rightarrow> u64 \<times> 'w \<Rightarrow> u64 \<Rightarrow> tracker \<Rightarrow> (int + u64 \<times> tracker \<times> 'w) option" where
  "mark_mapped anon_map = (\<lambda>(rv, w) len t.
     (if rv = MAP_FAILED then Some (Inr (rv, t, w))
      else map_option (map_sum id (\<lambda>m. (rv, t\<lparr>map_meta := m\<rparr>, w))) (mark_used anon_map rv len (map_meta t))))"

text \<open>
  \<open>mmap\<close> is the kernel's answer to a request, with the state of the world it acts on. The
  mappings of the guest and of the host differ in the range they are placed in.
\<close>

definition mmap_between :: "u64 \<Rightarrow> u64 \<Rightarrow> (u64 \<Rightarrow> u64) \<Rightarrow> (mmap_args \<Rightarrow> 'w \<Rightarrow> u64 \<times> 'w) \<Rightarrow> mmap_args \<Rightarrow>
    tracker \<Rightarrow> 'w \<Rightarrow> (int + u64 \<times> tracker \<times> 'w) option" where
  "mmap_between start limit anon_map mmap args t0 w =
     (case init_mmap anon_map t0 of Inl rc \<Rightarrow> Some (Inl rc)
      | Inr t \<Rightarrow>
          if ma_addr args = 0
          then (case find_free anon_map start limit (ma_len args) (map_meta t) of
              None \<Rightarrow> None
            | Some (Inl rc) \<Rightarrow> Some (Inl rc)
            | Some (Inr (addr, m)) \<Rightarrow>
                if addr = 0 then Some (Inr (0, t\<lparr>map_meta := m\<rparr>, w))
                else mark_mapped anon_map (mmap (args\<lparr>ma_addr := addr, ma_flags := ma_flags args OR MAP_FIXED\<rparr>) w)
                  (ma_len args) (t\<lparr>map_meta := m\<rparr>))
          else mark_mapped anon_map (mmap args w) (ma_len args) t)"

definition guest_mmap :: "(u64 \<Rightarrow> u64) \<Rightarrow> (mmap_args \<Rightarrow> 'w \<Rightarrow> u64 \<times> 'w) \<Rightarrow> mmap_args \<Rightarrow> tracker \<Rightarrow> 'w \<Rightarrow>
    (int + u64 \<times> tracker \<times> 'w) option" where
  "guest_mmap anon_map mmap args t w =
     (if HOST_MMAP_BASE < ma_addr args + ma_len args then Some (Inr (MAP_FAILED, t, w))
      else mmap_between GUEST_MMAP_BASE HOST_MMAP_BASE anon_map mmap args t w)"

definition host_mmap :: "(u64 \<Rightarrow> u64) \<Rightarrow> (mmap_args \<Rightarrow> 'w \<Rightarrow> u64 \<times> 'w) \<Rightarrow> mmap_args \<Rightarrow> tracker \<Rightarrow> 'w \<Rightarrow>
    (int + u64 \<times> tracker \<times> 'w) option" where
  "host_mmap anon_map mmap args t w =
     (if ma_addr args \<noteq> 0 \<and> ma_addr args < HOST_MMAP_BASE then Some (Inr (MAP_FAILED, t, w))
      else mmap_between HOST_MMAP_BASE (- 1) anon_map mmap args t w)"

text \<open>\<open>rv\<close> is the kernel's answer to the \<^verbatim>\<open>munmap\<close>.\<close>

definition guest_munmap :: "(u64 \<Rightarrow> u64) \<Rightarrow> u32 \<Rightarrow> u64 \<Rightarrow> u64 \<Rightarrow> tracker \<Rightarrow> (int + u32 \<times> tracker) option" where
  "guest_munmap anon_map rv addr len t0 =
     (case init_mmap anon_map t0 of Inl rc \<Rightarrow> Some (Inl rc)
      | Inr t \<Rightarrow>
          if rv = 0
          then map_option (map_sum id (\<lambda>m. (rv, t\<lparr>map_meta := m\<rparr>))) (mark_free anon_map addr len (map_meta t))
          else Some (Inr (rv, t)))"

section \<open>The levels as flat arrays of bits\<close>

lemma unat_add64: "unat x + unat y < 2 ^ 64 \<Longrightarrow> unat (x + y :: u64) = unat x + unat y"
  by (simp add: unat_word_ariths)

lemma unat_mult64: "unat x * unat y < 2 ^ 64 \<Longrightarrow> unat (x * y :: u64) = unat x * unat y"
  by (simp add: unat_word_ariths)

abbreviation B3 :: nat where "B3 \<equiv> 0x7f0000000000"
abbreviation B2 :: nat where "B2 \<equiv> 0x7f0000001000"
abbreviation B1 :: nat where "B1 \<equiv> 0x7f0000201000"

definition pageno :: "u64 \<Rightarrow> nat" where
  "pageno a = unat a div 2 ^ 12"

lemma mask_consts: "(0xfff :: u64) = mask 12" "(0xffffff :: u64) = mask 24" "(7 :: u64) = mask 3"
  by (simp_all add: mask_eq_exp_minus_1)

lemma offset_bits: "unat (drop_bit (12 * level) a AND MMAP_PAGE_MASK) = unat a div 2 ^ (12 * level) mod 2 ^ 12"
  by (simp add: MMAP_PAGE_MASK_def mask_consts unat_and_mask unat_drop)

text \<open>The cell of the bit at position \<open>i\<close> of the flat array at \<open>base\<close>.\<close>

lemma bmap_cell_flat:
  assumes "unat bmap = base" "unat off = i" "base + i div 8 < 2 ^ 64"
  shows "bmap_cell (bmap, off) = (base + i div 8, i mod 8)"
proof -
  have "unat (drop_bit 3 off) = i div 8" by (simp add: unat_drop assms(2))
  then have "unat (bmap + drop_bit 3 off) = base + i div 8" using assms(1,3) by (subst unat_add64) simp_all
  then show ?thesis by (simp add: bmap_cell_def mask_consts unat_and_mask assms(2))
qed

lemma cell_3:
  assumes "unat a < 2 ^ 48"
  shows "bmap_cell (level_bmap 3 a) = (B3 + pageno a div 2 ^ 27, pageno a div 2 ^ 24 mod 8)"
proof -
  have "unat a div 2 ^ 36 < 2 ^ 12" using assms by simp
  then have "unat (drop_bit (12 * 3) a AND MMAP_PAGE_MASK) = unat a div 2 ^ 36"
    unfolding offset_bits by simp
  then have "bmap_cell (level_bmap 3 a) = (B3 + unat a div 2 ^ 36 div 8, unat a div 2 ^ 36 mod 8)"
    unfolding level_bmap_def using assms by (intro bmap_cell_flat) (simp_all add: METADATA_BASE_def)
  then show ?thesis by (simp add: pageno_def div_mult2_eq [symmetric])
qed

lemma unat_bmap:
  assumes "i < 2 ^ 24" "unat x = i" "unat base \<le> B1"
  shows "unat (base + x * LEVEL_BYTES) = unat base + i * 512"
proof -
  have "unat (x * LEVEL_BYTES) = i * 512"
    using assms(1,2) by (subst unat_mult64) (simp_all add: LEVEL_BYTES_def)
  then show ?thesis using assms(1,3) by (subst unat_add64) simp_all
qed

lemma level_bmap_2:
  assumes "unat a < 2 ^ 48"
  shows "unat (fst (level_bmap 2 a)) = B2 + pageno a div 2 ^ 24 * 512"
proof -
  have "unat a div 2 ^ 36 < 2 ^ 12" using assms by simp
  then have x: "unat (drop_bit 36 a AND 0xfff) = unat a div 2 ^ 36"
    by (simp add: mask_consts unat_and_mask unat_drop)
  have b: "unat (METADATA_BASE + MMAP_PAGE_SIZE) = B2" by (simp add: METADATA_BASE_def MMAP_PAGE_SIZE_def)
  have "unat (METADATA_BASE + MMAP_PAGE_SIZE + (drop_bit 36 a AND 0xfff) * LEVEL_BYTES) = B2 + unat a div 2 ^ 36 * 512"
    using unat_bmap [OF _ x, of "METADATA_BASE + MMAP_PAGE_SIZE"] assms unfolding b by simp
  then show ?thesis by (simp add: level_bmap_def pageno_def div_mult2_eq [symmetric])
qed

lemma level_bmap_1:
  assumes "unat a < 2 ^ 48"
  shows "unat (fst (level_bmap 1 a)) = B1 + pageno a div 2 ^ 12 * 512"
proof -
  have "unat a div 2 ^ 24 < 2 ^ 24" using assms by simp
  then have x: "unat (drop_bit 24 a AND 0xffffff) = unat a div 2 ^ 24"
    by (simp add: mask_consts unat_and_mask unat_drop)
  have b: "unat (METADATA_BASE + MMAP_PAGE_SIZE + LEVEL_SIZE * LEVEL_BYTES) = B1" by (simp add: mmap_consts)
  have "unat (METADATA_BASE + MMAP_PAGE_SIZE + LEVEL_SIZE * LEVEL_BYTES + (drop_bit 24 a AND 0xffffff) * LEVEL_BYTES)
      = B1 + unat a div 2 ^ 24 * 512"
    using unat_bmap [OF _ x, of "METADATA_BASE + MMAP_PAGE_SIZE + LEVEL_SIZE * LEVEL_BYTES"] assms unfolding b by simp
  then show ?thesis by (simp add: level_bmap_def pageno_def div_mult2_eq [symmetric])
qed

lemma split_bitmap: "(q :: nat) div 4096 * 512 + q mod 4096 div 8 = q div 8" "(q :: nat) mod 4096 mod 8 = q mod 8"
proof -
  have "q mod 4096 = 8 * (q div 8 mod 512) + q mod 8" using mod_mult2_eq [of q 8 512] by simp
  moreover have "q div 4096 = q div 8 div 512" using div_mult2_eq [of q 8 512] by simp
  ultimately show "q div 4096 * 512 + q mod 4096 div 8 = q div 8" "q mod 4096 mod 8 = q mod 8" by simp_all
qed

lemma cell_low:
  assumes "unat a < 2 ^ 48" "level = 1 \<or> level = 2" "unat (fst (level_bmap level a)) = base + pageno a div 2 ^ (12 * level) * 512" "base \<le> B1"
  shows "bmap_cell (level_bmap level a) = (base + pageno a div 2 ^ (12 * (level - 1)) div 8, pageno a div 2 ^ (12 * (level - 1)) mod 8)"
proof -
  let ?q = "pageno a div 2 ^ (12 * (level - 1))"
  let ?off = "snd (level_bmap level a)"
  have q: "unat a div 2 ^ (12 * level) = ?q" "?q < 2 ^ 36"
    using assms(1,2) by (auto simp: pageno_def div_mult2_eq [symmetric])
  then have o: "unat ?off = ?q mod 2 ^ 12" by (simp add: level_bmap_def offset_bits)
  have d: "pageno a div 2 ^ (12 * level) = ?q div 2 ^ 12"
    using assms(2) by (auto simp: div_mult2_eq [symmetric])
  have "bmap_cell (fst (level_bmap level a), ?off) =
      (base + ?q div 2 ^ 12 * 512 + ?q mod 2 ^ 12 div 8, ?q mod 2 ^ 12 mod 8)"
    using assms(3,4) q(2) unfolding d by (intro bmap_cell_flat o) simp_all
  then show ?thesis by (simp add: add.assoc split_bitmap)
qed

lemma cell_2:
  assumes "unat a < 2 ^ 48"
  shows "bmap_cell (level_bmap 2 a) = (B2 + pageno a div 2 ^ 15, pageno a div 2 ^ 12 mod 8)"
  using cell_low [OF assms, of 2] level_bmap_2 [OF assms] by (simp add: div_mult2_eq [symmetric])

lemma cell_1:
  assumes "unat a < 2 ^ 48"
  shows "bmap_cell (level_bmap 1 a) = (B1 + pageno a div 8, pageno a mod 8)"
  using cell_low [OF assms, of 1] level_bmap_1 [OF assms] by simp

section \<open>The pages in use\<close>

text \<open>
  A byte of an upper level is all zero or all one, since one page of a level holds eight bitmaps, and
  the pages below a byte of ones are mapped.
\<close>

definition bitmaps_ok :: "meta \<Rightarrow> bool" where
  "bitmaps_ok m \<longleftrightarrow>
     (\<forall>k < 512. m (B3 + k) = Some 0 \<or> m (B3 + k) = Some 255) \<and>
     (\<forall>k < 512 * 4096. m (B3 + k div 4096) = Some 255 \<longrightarrow> m (B2 + k) = Some 0 \<or> m (B2 + k) = Some 255) \<and>
     (\<forall>k < 512 * 4096 * 4096. m (B3 + k div 4096 div 4096) = Some 255 \<longrightarrow> m (B2 + k div 4096) = Some 255 \<longrightarrow>
        m (B1 + k) \<noteq> None)"

text \<open>The set of pages, by number, that the tracker holds to be mapped.\<close>

definition used_pages :: "meta \<Rightarrow> nat set" where
  "used_pages m = {p. p < 2 ^ 36 \<and> m (B3 + p div 8 div 4096 div 4096) = Some 255 \<and>
     m (B2 + p div 8 div 4096) = Some 255 \<and> (\<exists>b. m (B1 + p div 8) = Some b \<and> bit b (p mod 8))}"

lemma page_bound: "unat a < 2 ^ 48 \<Longrightarrow> pageno a < 2 ^ 36"
  by (simp add: pageno_def)

lemma bit_255: "bit (255 :: int) i \<longleftrightarrow> i < 8"
proof -
  have "(255 :: int) = mask 8" by (simp add: mask_eq_exp_minus_1)
  then show ?thesis by (simp only: bit_mask_iff) simp
qed

lemma page_present_used:
  assumes "bitmaps_ok m" "unat a < 2 ^ 48"
  shows "page_present a m = Some (pageno a \<in> used_pages m)"
proof -
  let ?p = "pageno a"
  have p: "?p < 2 ^ 36" by (rule page_bound [OF assms(2)])
  have d: "?p div 2 ^ 27 = ?p div 8 div 4096 div 4096" "?p div 2 ^ 15 = ?p div 8 div 4096"
    by (simp_all add: div_mult2_eq [symmetric])
  have b: "?p div 8 div 4096 div 4096 < 512" "?p div 8 div 4096 < 512 * 4096" "?p div 8 < 512 * 4096 * 4096" using p by simp_all
  have l3: "m (B3 + ?p div 8 div 4096 div 4096) = Some 0 \<or> m (B3 + ?p div 8 div 4096 div 4096) = Some 255"
    and l2: "m (B3 + ?p div 8 div 4096 div 4096) = Some 255 \<Longrightarrow> m (B2 + ?p div 8 div 4096) = Some 0 \<or> m (B2 + ?p div 8 div 4096) = Some 255"
    and l1: "m (B3 + ?p div 8 div 4096 div 4096) = Some 255 \<Longrightarrow> m (B2 + ?p div 8 div 4096) = Some 255 \<Longrightarrow> m (B1 + ?p div 8) \<noteq> None"
    using assms(1) b unfolding bitmaps_ok_def by metis+
  note cells = cell_3 [OF assms(2)] cell_2 [OF assms(2)] cell_1 [OF assms(2)]
  show ?thesis
    unfolding page_present_def level_present_def cells d Let_def split
    using l3 l2 l1 p by (auto simp: used_pages_def bit_255 split: option.splits bool.splits; simp add: bit_255)
qed

section \<open>Mapping the bitmaps on demand\<close>

definition fill :: "nat \<Rightarrow> nat \<Rightarrow> meta \<Rightarrow> meta" where
  "fill base cell m = (\<lambda>x. if base \<le> x \<and> x < base + 4096 then Some 0 else m x)(cell := Some 255)"

lemma in_block: "base + k * 4096 \<le> base + i \<and> base + i < base + k * 4096 + 4096 \<longleftrightarrow> (i :: nat) div 4096 = k"
  by auto

lemma fill_below: "x < base \<Longrightarrow> fill base cell m x = (if x = cell then Some 255 else m x)"
  and fill_above: "base + 4096 \<le> x \<Longrightarrow> fill base cell m x = (if x = cell then Some 255 else m x)"
  by (auto simp: fill_def)

lemma fill_block: "cell < base \<Longrightarrow> fill (base + k * 4096) cell m (base + i) = (if i div 4096 = k then Some 0 else m (base + i))"
  unfolding fill_def using in_block [of base k i] by auto

lemma fill_level_2:
  assumes "bitmaps_ok m" "k < 512" "m (B3 + k) = Some 0"
  shows "bitmaps_ok (fill (B2 + k * 4096) (B3 + k) m)" "used_pages (fill (B2 + k * 4096) (B3 + k) m) = used_pages m"
proof -
  let ?m = "fill (B2 + k * 4096) (B3 + k) m"
  have v3: "?m (B3 + i) = (if i = k then Some 255 else m (B3 + i))" if "i < 512" for i
    using that by (subst fill_below) auto
  have v2: "?m (B2 + i) = (if i div 4096 = k then Some 0 else m (B2 + i))" for i
    using assms(2) by (intro fill_block) simp
  have v1: "?m (B1 + i) = m (B1 + i)" for i
    using assms(2) by (subst fill_above) auto
  show "bitmaps_ok ?m" unfolding bitmaps_ok_def
    using assms(1) by (auto simp: v3 v2 v1 less_mult_imp_div_less bitmaps_ok_def)
  show "used_pages ?m = used_pages m"
    unfolding used_pages_def using assms(3) by (auto simp: v3 v2 v1 less_mult_imp_div_less split: if_splits)
qed

lemma fill_level_1:
  assumes "bitmaps_ok m" "k < 512 * 4096" "m (B3 + k div 4096) = Some 255" "m (B2 + k) = Some 0"
  shows "bitmaps_ok (fill (B1 + k * 4096) (B2 + k) m)" "used_pages (fill (B1 + k * 4096) (B2 + k) m) = used_pages m"
proof -
  let ?m = "fill (B1 + k * 4096) (B2 + k) m"
  have v3: "?m (B3 + i) = m (B3 + i)" if "i < 512" for i
    using that by (subst fill_below) auto
  have v2: "?m (B2 + i) = (if i = k then Some 255 else m (B2 + i))" if "i < 512 * 4096" for i
    using that by (subst fill_below) auto
  have v1: "?m (B1 + i) = (if i div 4096 = k then Some 0 else m (B1 + i))" for i
    using assms(2) by (intro fill_block) simp
  show "bitmaps_ok ?m" unfolding bitmaps_ok_def
    using assms(1,3) by (auto simp: v3 v2 v1 less_mult_imp_div_less bitmaps_ok_def)
  show "used_pages ?m = used_pages m"
    unfolding used_pages_def using assms(4) by (auto simp: v3 v2 v1 less_mult_imp_div_less split: if_splits)
qed

lemma unat_lt64: "unat (x :: u64) < 2 ^ 64"
  by (rule order_less_le_trans [OF unsigned_less]) simp

lemma block_base: "4096 dvd base \<Longrightarrow> (base + i * 512) div 4096 * 4096 = base + i div 8 * (4096 :: nat)"
proof -
  assume "4096 dvd base"
  moreover have "i * 512 div 4096 = i div 8" using div_mult_mult2 [of 512 i 8] by simp
  ultimately show ?thesis by (simp add: div_plus_div_distrib_dvd_left)
qed

lemma unat_page_base: "unat (x AND NOT (MMAP_PAGE_SIZE - 1)) = unat x div 4096 * 4096"
proof -
  have m: "MMAP_PAGE_SIZE - 1 = mask 12" by (simp add: MMAP_PAGE_SIZE_def mask_eq_exp_minus_1)
  have "x AND NOT (mask 12) = push_bit 12 (drop_bit 12 x)"
    by (rule bit_word_eqI) (auto simp: bit_and_iff bit_not_iff bit_mask_iff bit_push_bit_iff bit_drop_bit_eq not_less)
  moreover have "unat (push_bit 12 (drop_bit 12 x)) = unat x div 4096 * 4096"
  proof -
    have d: "unat (drop_bit 12 x) = unat x div 4096" by (simp add: unat_drop)
    have "unat x div 4096 * 4096 < 2 ^ 64" using div_times_less_eq_dividend [of "unat x" 4096] unat_lt64 [of x] by linarith
    then show ?thesis by (simp add: push_bit_eq_mult mult.commute unat_mult64 d)
  qed
  ultimately show ?thesis unfolding m by simp
qed

definition maps_fixed :: "(u64 \<Rightarrow> u64) \<Rightarrow> bool" where
  "maps_fixed anon_map \<longleftrightarrow> (\<forall>a. anon_map a = a)"

lemma reify_level_fill:
  assumes "bmap_cell (level_bmap (level + 1) a) = (cell, q mod 8)" "unat (fst (level_bmap level a)) div 4096 * 4096 = base"
    "maps_fixed anon_map" "m cell = Some 0 \<or> m cell = Some 255" "base < B1 + 2 ^ 36"
  shows "reify_level anon_map a level m = Some (Inr (if m cell = Some 0 then fill base cell m else m))"
proof -
  let ?a = "fst (level_bmap level a) AND NOT (MMAP_PAGE_SIZE - 1)"
  have a: "unat ?a = base" unfolding unat_page_base by (rule assms(2))
  have "?a \<noteq> MAP_FAILED"
  proof
    assume "?a = MAP_FAILED"
    then have "unat ?a = 2 ^ 64 - 1"
      by (simp add: MAP_FAILED_def unsigned_minus_1_eq_mask mask_eq_exp_minus_1)
    then show False using a assms(5) by simp
  qed
  then show ?thesis
    using assms(3,4) a unfolding reify_level_def assms(1) Let_def split
    by (auto simp: maps_fixed_def map_zero_def fill_def bit_255)
qed

lemma reify_bmap_ok:
  assumes "bitmaps_ok m" "unat a < 2 ^ 48" "maps_fixed anon_map"
  shows "\<exists>m'. reify_bmap anon_map a m = Some (Inr m') \<and> bitmaps_ok m' \<and> used_pages m' = used_pages m \<and>
    m' (B3 + pageno a div 8 div 4096 div 4096) = Some 255 \<and> m' (B2 + pageno a div 8 div 4096) = Some 255"
proof -
  let ?p = "pageno a"
  let ?j = "?p div 8 div 4096"
  let ?k = "?j div 4096"
  have p: "?p < 2 ^ 36" by (rule page_bound [OF assms(2)])
  have d: "?p div 2 ^ 27 = ?k" "?p div 2 ^ 15 = ?j" by (simp_all add: div_mult2_eq [symmetric])
  have b: "?k < 512" "?j < 512 * 4096" using p by simp_all
  have a2: "unat (fst (level_bmap 2 a)) div 4096 * 4096 = B2 + ?k * 4096"
    and a1: "unat (fst (level_bmap 1 a)) div 4096 * 4096 = B1 + ?j * 4096"
    using block_base [of B2 "?p div 2 ^ 24"] block_base [of B1 "?p div 2 ^ 12"]
    unfolding level_bmap_2 [OF assms(2)] level_bmap_1 [OF assms(2)] by (simp_all add: div_mult2_eq [symmetric])
  define m1 where "m1 = (if m (B3 + ?k) = Some 0 then fill (B2 + ?k * 4096) (B3 + ?k) m else m)"
  have c3: "m (B3 + ?k) = Some 0 \<or> m (B3 + ?k) = Some 255" using assms(1) b(1) by (simp add: bitmaps_ok_def)
  have r2: "reify_level anon_map a 2 m = Some (Inr m1)"
    unfolding m1_def using cell_3 [OF assms(2)] c3 b(1) unfolding d
    by (intro reify_level_fill a2 assms(3)) simp_all
  have m1: "bitmaps_ok m1" "used_pages m1 = used_pages m" "m1 (B3 + ?k) = Some 255"
    using fill_level_2 [OF assms(1) b(1)] assms(1) c3 by (auto simp: m1_def) (simp add: fill_def)
  define m2 where "m2 = (if m1 (B2 + ?j) = Some 0 then fill (B1 + ?j * 4096) (B2 + ?j) m1 else m1)"
  have c2: "m1 (B2 + ?j) = Some 0 \<or> m1 (B2 + ?j) = Some 255" using m1(1,3) b(2) by (simp add: bitmaps_ok_def)
  have r1: "reify_level anon_map a 1 m1 = Some (Inr m2)"
  proof -
    have "bmap_cell (level_bmap (1 + 1) a) = (B2 + ?j, ?p div 2 ^ 12 mod 8)"
      using cell_2 [OF assms(2)] unfolding d by (simp only: one_add_one)
    then show ?thesis unfolding m2_def by (rule reify_level_fill) (use a1 assms(3) c2 b(2) in simp_all)
  qed
  have "bitmaps_ok m2" "used_pages m2 = used_pages m1" "m2 (B2 + ?j) = Some 255" "m2 (B3 + ?k) = Some 255"
    using fill_level_1 [OF m1(1) b(2) m1(3)] m1 c2 b(1) by (auto simp: m2_def) (simp_all add: fill_def)
  then show ?thesis using r2 r1 m1(2) by (simp add: reify_bmap_def)
qed

section \<open>Marking a range\<close>

definition page_count :: "u64 \<Rightarrow> nat" where
  "page_count len = (unat len + 4095) div 4096"

definition page_range :: "u64 \<Rightarrow> u64 \<Rightarrow> nat set" where
  "page_range a len = {pageno a ..< pageno a + page_count len}"

lemma mark_bit:
  assumes "bitmaps_ok m" "p < 2 ^ 36" "m (B3 + p div 8 div 4096 div 4096) = Some 255" "m (B2 + p div 8 div 4096) = Some 255"
    "m (B1 + p div 8) = Some b" "\<forall>j < 8. bit b' j = (if j = p mod 8 then v else bit b j)"
  shows "bitmaps_ok (m(B1 + p div 8 := Some b'))"
    and "used_pages (m(B1 + p div 8 := Some b')) = (if v then insert p (used_pages m) else used_pages m - {p})"
proof -
  let ?m = "m(B1 + p div 8 := Some b')"
  have v3: "?m (B3 + i) = m (B3 + i)" if "i < 512" for i using that by simp
  have v2: "?m (B2 + i) = m (B2 + i)" if "i < 512 * 4096" for i using that by simp
  show "bitmaps_ok ?m" unfolding bitmaps_ok_def
    using assms(1) by (simp add: v3 v2 less_mult_imp_div_less bitmaps_ok_def)
  have eq: "q = p \<longleftrightarrow> q div 8 = p div 8 \<and> q mod 8 = p mod 8" for q by (metis div_mult_mod_eq)
  have "q \<in> used_pages ?m \<longleftrightarrow> (if q = p then v else q \<in> used_pages m)" for q
  proof (cases "q < 2 ^ 36")
    case True
    then have "q div 8 div 4096 div 4096 < 512" "q div 8 div 4096 < 512 * 4096" by simp_all
    then have u: "q \<in> used_pages ?m \<longleftrightarrow> m (B3 + q div 8 div 4096 div 4096) = Some 255 \<and>
        m (B2 + q div 8 div 4096) = Some 255 \<and> (\<exists>b. ?m (B1 + q div 8) = Some b \<and> bit b (q mod 8))"
      unfolding used_pages_def using True v3 v2 by simp
    have "q mod 8 < 8" by simp
    then have b': "bit b' (q mod 8) = (if q mod 8 = p mod 8 then v else bit b (q mod 8))" using assms(6) by blast
    show ?thesis
    proof (cases "q div 8 = p div 8")
      case c: True
      then have "q \<in> used_pages ?m \<longleftrightarrow> bit b' (q mod 8)" unfolding u using assms(3,4) by simp
      moreover have "q \<in> used_pages m \<longleftrightarrow> bit b (q mod 8)" unfolding used_pages_def using True assms(3-5) c by simp
      ultimately show ?thesis using b' eq [of q] c by auto
    next
      case False
      then show ?thesis unfolding u using True eq [of q] by (auto simp: used_pages_def)
    qed
  next
    case False
    then show ?thesis using assms(2) by (auto simp: used_pages_def)
  qed
  then show "used_pages ?m = (if v then insert p (used_pages m) else used_pages m - {p})"
    by (intro set_eqI) (cases v; simp split: if_splits)
qed

lemma mark_loop_ok:
  assumes "bitmaps_ok m" "maps_fixed anon_map" "unat stop + 4096 \<le> 2 ^ 48" "unat a \<le> unat stop + 4095"
    and "\<And>i b j. j < 8 \<Longrightarrow> bit (upd i b) j = (if j = i then v else bit b j)"
    and "n = (unat stop - unat a + 4095) div 4096"
  shows "\<exists>m'. mark_loop anon_map upd stop a m = Some (Inr m') \<and> bitmaps_ok m' \<and>
    used_pages m' = (if v then used_pages m \<union> {pageno a ..< pageno a + n} else used_pages m - {pageno a ..< pageno a + n})"
  using assms(1,4,6)
proof (induction n arbitrary: a m)
  case 0
  then have "\<not> a < stop" by (simp add: word_less_nat_alt)
  then have "mark_loop anon_map upd stop a m = Some (Inr m)" by (subst mark_loop.simps) simp
  then show ?case using 0 by simp
next
  case (Suc n)
  then have less: "unat a < unat stop" by (cases "unat a < unat stop") simp_all
  then have a: "a < stop" "unat a < 2 ^ 48" using assms(3) by (simp_all add: word_less_nat_alt)
  let ?p = "pageno a"
  have p: "?p < 2 ^ 36" by (rule page_bound [OF a(2)])
  obtain m1 where r: "reify_bmap anon_map a m = Some (Inr m1)" "bitmaps_ok m1" "used_pages m1 = used_pages m"
    "m1 (B3 + ?p div 8 div 4096 div 4096) = Some 255" "m1 (B2 + ?p div 8 div 4096) = Some 255"
    using reify_bmap_ok [OF Suc.prems(1) a(2) assms(2)] by blast
  have "?p div 8 < 512 * 4096 * 4096" using p by simp
  then obtain b where b: "m1 (B1 + ?p div 8) = Some b" using r(2,4,5) unfolding bitmaps_ok_def by blast
  let ?m = "m1(B1 + ?p div 8 := Some (upd (?p mod 8) b))"
  have bits: "\<forall>j < 8. bit (upd (?p mod 8) b) j = (if j = ?p mod 8 then v else bit b j)" using assms(5) by blast
  note mk = mark_bit [OF r(2) p r(4,5) b bits]
  have u: "unat (a + MMAP_PAGE_SIZE) = unat a + 4096"
    using a(2) by (subst unat_add64) (simp_all add: MMAP_PAGE_SIZE_def)
  then have pn: "pageno (a + MMAP_PAGE_SIZE) = Suc ?p" by (simp add: pageno_def)
  have "\<exists>m'. mark_loop anon_map upd stop (a + MMAP_PAGE_SIZE) ?m = Some (Inr m') \<and> bitmaps_ok m' \<and>
    used_pages m' = (if v then used_pages ?m \<union> {Suc ?p ..< Suc ?p + n} else used_pages ?m - {Suc ?p ..< Suc ?p + n})"
    unfolding pn [symmetric] by (rule Suc.IH [OF mk(1)]) (use Suc.prems(3) less in \<open>simp_all add: u\<close>)
  moreover have "mark_loop anon_map upd stop a m = mark_loop anon_map upd stop (a + MMAP_PAGE_SIZE) ?m"
    by (subst mark_loop.simps) (simp add: a(1) r(1) cell_1 [OF a(2), unfolded One_nat_def] b)
  moreover have "{?p ..< ?p + Suc n} = insert ?p {Suc ?p ..< Suc ?p + n}" by auto
  ultimately show ?case using mk(2) r(3) by auto
qed

lemma mark_range:
  assumes "bitmaps_ok m" "maps_fixed anon_map" "unat a + unat len + 4096 \<le> 2 ^ 48"
  shows "\<exists>m'. mark_used anon_map a len m = Some (Inr m') \<and> bitmaps_ok m' \<and> used_pages m' = used_pages m \<union> page_range a len"
    and "\<exists>m'. mark_free anon_map a len m = Some (Inr m') \<and> bitmaps_ok m' \<and> used_pages m' = used_pages m - page_range a len"
proof -
  have s: "unat (a + len) = unat a + unat len" using assms(3) by (intro unat_add64) simp
  have n: "page_count len = (unat (a + len) - unat a + 4095) div 4096" by (simp add: s page_count_def)
  have b: "unat (a + len) + 4096 \<le> 2 ^ 48" "unat a \<le> unat (a + len) + 4095" using assms(3) by (simp_all add: s)
  have o: "bit (b OR push_bit i 1) j = (if j = i then True else bit b j)" if "j < 8" for i j :: nat and b :: u8
    using that by (auto simp: bit_or_iff bit_push_bit_iff bit_1_iff bit_exp_iff)
  have f: "bit (b AND NOT (push_bit i 1)) j = (if j = i then False else bit b j)" if "j < 8" for i j :: nat and b :: u8
    using that by (auto simp: bit_and_iff bit_not_iff bit_push_bit_iff bit_1_iff bit_exp_iff)
  show "\<exists>m'. mark_used anon_map a len m = Some (Inr m') \<and> bitmaps_ok m' \<and> used_pages m' = used_pages m \<union> page_range a len"
    using mark_loop_ok [OF assms(1,2) b o n] by (simp add: mark_used_def page_range_def)
  show "\<exists>m'. mark_free anon_map a len m = Some (Inr m') \<and> bitmaps_ok m' \<and> used_pages m' = used_pages m - page_range a len"
    using mark_loop_ok [OF assms(1,2) b f n] by (simp add: mark_free_def page_range_def)
qed

section \<open>The search\<close>

text \<open>
  A range of \<open>n\<close> free pages below page \<open>e\<close> that starts at page \<open>k\<close>. The inner loop tests the length
  before it has seen the page it stands on to be the last one needed, so that it looks for one page
  more than the range needs.
\<close>

definition free_range :: "nat set \<Rightarrow> nat \<Rightarrow> nat \<Rightarrow> nat \<Rightarrow> bool" where
  "free_range U e n k \<longleftrightarrow> k + n \<le> e \<and> (\<forall>j < n. k + j \<notin> U)"

definition spacious :: "nat set \<Rightarrow> nat \<Rightarrow> nat \<Rightarrow> nat \<Rightarrow> bool" where
  "spacious U e n k \<longleftrightarrow> k + n < e \<and> (\<forall>j \<le> n. k + j \<notin> U)"

definition first_fit :: "nat set \<Rightarrow> nat \<Rightarrow> nat \<Rightarrow> nat \<Rightarrow> u64 \<Rightarrow> bool" where
  "first_fit U s e n r \<longleftrightarrow>
     (if \<exists>k \<ge> s. spacious U e n k
      then \<exists>k. unat r = 4096 * k \<and> s \<le> k \<and> spacious U e n k \<and> (\<forall>i. s \<le> i \<longrightarrow> i < k \<longrightarrow> \<not> spacious U e n i)
      else r = 0)"

definition search_result :: "nat set \<Rightarrow> nat \<Rightarrow> nat \<Rightarrow> nat \<Rightarrow> (int + u64 \<times> meta) option \<Rightarrow> bool" where
  "search_result U s e n res \<longleftrightarrow>
     (\<exists>r m. res = Some (Inr (r, m)) \<and> bitmaps_ok m \<and> used_pages m = U \<and> first_fit U s e n r)"

lemma spacious_iff: "spacious U e n k \<longleftrightarrow> free_range U e (Suc n) k"
  by (auto simp: spacious_def free_range_def less_Suc_eq_le)

lemma first_fit_found:
  "unat r = 4096 * k \<Longrightarrow> s \<le> k \<Longrightarrow> spacious U e n k \<Longrightarrow> \<forall>i. s \<le> i \<longrightarrow> i < k \<longrightarrow> \<not> spacious U e n i \<Longrightarrow> first_fit U s e n r"
  unfolding first_fit_def by auto

lemma len_pages: "unat len \<le> 4096 * i \<longleftrightarrow> page_count len \<le> i"
  unfolding page_count_def by auto

lemma next_page:
  assumes "unat a = 4096 * p" "p < 2 ^ 36"
  shows "unat (a + MMAP_PAGE_SIZE) = 4096 * Suc p"
  using assms by (subst unat_add64) (simp_all add: MMAP_PAGE_SIZE_def)

lemma find_free_loop_ok:
  assumes "maps_fixed anon_map" "unat limit = 4096 * e" "e \<le> 2 ^ 36" "n = page_count len"
    and "bitmaps_ok m" "used_pages m = U" "unat a = 4096 * p" "s \<le> p"
    and "\<not> inner \<Longrightarrow> \<forall>i. s \<le> i \<longrightarrow> i < p \<longrightarrow> \<not> spacious U e n i"
    and "inner \<Longrightarrow> unat first = 4096 * k \<and> s \<le> k \<and> k \<le> p \<and> p \<le> k + n \<and> p \<le> e \<and>
      (\<forall>j. k \<le> j \<longrightarrow> j < p \<longrightarrow> j \<notin> U) \<and> (\<forall>i. s \<le> i \<longrightarrow> i < k \<longrightarrow> \<not> spacious U e n i)"
  shows "search_result U s e n (find_free_loop anon_map limit len inner first a m)"
  using assms(5-10)
proof (induction "2 * (e - p) + (if inner then 0 else 1)" arbitrary: inner first a m p k rule: less_induct)
  case less
  have lim: "a < limit \<longleftrightarrow> p < e" using less.prems(3) assms(2) by (simp add: word_less_nat_alt)
  have done_search: "search_result U s e n (find_free_loop anon_map limit len False first a' m)"
    if "unat a' = 4096 * p'" "e \<le> p'" "\<forall>i. s \<le> i \<longrightarrow> i < p' \<longrightarrow> \<not> spacious U e n i" for a' p'
  proof -
    have "\<not> a' < limit" using that(1,2) assms(2) by (simp add: word_less_nat_alt)
    moreover have "\<not> spacious U e n i" if "s \<le> i" for i
      using that \<open>e \<le> p'\<close> \<open>\<forall>i. s \<le> i \<longrightarrow> i < p' \<longrightarrow> \<not> spacious U e n i\<close> by (cases "i < p'") (auto simp: spacious_def)
    ultimately show ?thesis
      using less.prems(1,2) by (subst find_free_loop.simps) (auto simp: search_result_def first_fit_def)
  qed
  show ?case
  proof (cases inner)
    case outer: False
    note none = less.prems(5) [OF outer]
    show ?thesis
    proof (cases "p < e")
      case True
      have "unat a < 2 ^ 48" using less.prems(3) True assms(3) by simp
      then obtain m1 where r: "reify_bmap anon_map a m = Some (Inr m1)" "bitmaps_ok m1" "used_pages m1 = U"
        using reify_bmap_ok [OF less.prems(1) _ assms(1)] less.prems(2) by blast
      have "search_result U s e n (find_free_loop anon_map limit len True a a m1)"
        by (rule less.hyps [OF _ r(2,3) less.prems(3,4), of True a p]) (use outer none True less.prems(3,4) in auto)
      then show ?thesis using outer True lim r(1) by (subst find_free_loop.simps) simp
    next
      case False
      then show ?thesis using done_search [OF less.prems(3) _ none] outer by simp
    qed
  next
    case inner: True
    note inv = less.prems(6) [OF inner]
    have p36: "p \<le> 2 ^ 36" using inv assms(3) by simp
    have nopage: "\<forall>i. s \<le> i \<longrightarrow> i < Suc p \<longrightarrow> \<not> spacious U e n i" if "p \<in> U \<or> e \<le> p"
    proof (intro allI impI)
      fix i assume i: "s \<le> i" "i < Suc p"
      show "\<not> spacious U e n i"
      proof (cases "i < k")
        case False
        then have "p \<le> i + n" "i \<le> p" using inv i by auto
        then show ?thesis using that unfolding spacious_def by (metis le_add_diff_inverse le_diff_conv2 add.commute le_trans not_less nat_add_left_cancel_le)
      qed (use inv i in blast)
    qed
    show ?thesis
    proof (cases "p < e")
      case True
      have a48: "unat a < 2 ^ 48" using less.prems(3) True assms(3) by simp
      have pr: "page_present a m = Some (p \<in> U)"
        using page_present_used [OF less.prems(1) a48] less.prems(2,3) by (simp add: pageno_def)
      have nx: "unat (a + MMAP_PAGE_SIZE) = 4096 * Suc p" using next_page [OF less.prems(3)] True assms(3) by simp
      show ?thesis
      proof (cases "p \<in> U")
        case used: True
        have "search_result U s e n (find_free_loop anon_map limit len False first (a + MMAP_PAGE_SIZE) m)"
          by (rule less.hyps [OF _ less.prems(1,2) nx, of False]) (use inner True less.prems(4) nopage used in auto)
        then show ?thesis using inner True lim pr used by (subst find_free_loop.simps) simp
      next
        case free: False
        have fa: "unat (a - first) = 4096 * (p - k)"
          using inv less.prems(3) by (subst unat_sub) (simp_all add: word_le_nat_alt diff_mult_distrib2)
        have le: "len \<le> a - first \<longleftrightarrow> n \<le> p - k" unfolding word_le_nat_alt fa len_pages assms(4) ..
        show ?thesis
        proof (cases "n \<le> p - k")
          case n: True
          moreover have "k \<le> p" "p \<le> k + n" using inv by blast+
          ultimately have pk: "p = k + n" by simp
          then have "k + j \<notin> U" if "j \<le> n" for j using that inv free by (cases "j = n") auto
          then have "spacious U e n k" using True pk by (simp add: spacious_def)
          then have "first_fit U s e n first" using inv by (intro first_fit_found) auto
          then show ?thesis using inner True lim pr free le n less.prems(1,2)
            by (subst find_free_loop.simps) (simp add: search_result_def)
        next
          case n: False
          have "search_result U s e n (find_free_loop anon_map limit len True first (a + MMAP_PAGE_SIZE) m)"
            by (rule less.hyps [OF _ less.prems(1,2) nx, of True first k])
              (use inner True less.prems(4) inv n free in \<open>auto simp: less_Suc_eq\<close>)
          then show ?thesis using inner True lim pr free le n by (subst find_free_loop.simps) simp
        qed
      qed
    next
      case False
      have pe: "p = e" using False inv by simp
      have nx: "unat (a + MMAP_PAGE_SIZE) = 4096 * Suc p"
        using less.prems(3) p36 by (subst unat_add64) (simp_all add: MMAP_PAGE_SIZE_def)
      have "search_result U s e n (find_free_loop anon_map limit len False first (a + MMAP_PAGE_SIZE) m)"
        using done_search [OF nx] nopage pe by simp
      then show ?thesis using inner False lim by (subst find_free_loop.simps) simp
    qed
  qed
qed

lemma find_free_first_fit:
  assumes "maps_fixed anon_map" "bitmaps_ok m" "unat start = 4096 * s" "unat limit = 4096 * e" "e \<le> 2 ^ 36"
  shows "search_result (used_pages m) s e (page_count len) (find_free anon_map start limit len m)"
  unfolding find_free_def
  by (rule find_free_loop_ok [OF assms(1,4,5) refl assms(2) refl assms(3)]) auto

section \<open>Properties\<close>

definition tracker_ok :: "tracker \<Rightarrow> bool" where
  "tracker_ok t \<longleftrightarrow> map_inited t \<longrightarrow> bitmaps_ok (map_meta t)"

definition tracked :: "tracker \<Rightarrow> nat set" where
  "tracked t = (if map_inited t then used_pages (map_meta t) else {})"

lemma init_mmap_ok:
  assumes "tracker_ok t" "maps_fixed anon_map"
  shows "\<exists>t'. init_mmap anon_map t = Inr t' \<and> map_inited t' \<and> bitmaps_ok (map_meta t') \<and> used_pages (map_meta t') = tracked t"
proof (cases "map_inited t")
  case False
  let ?m = "map_zero METADATA_BASE (map_meta t)"
  have z: "?m (B3 + k) = Some 0" if "k < 4096" for k using that by (simp add: map_zero_def METADATA_BASE_def)
  have "bitmaps_ok ?m" unfolding bitmaps_ok_def by (simp add: z less_mult_imp_div_less)
  moreover have "used_pages ?m = {}" unfolding used_pages_def by (auto simp: z less_mult_imp_div_less)
  moreover have "METADATA_BASE \<noteq> MAP_FAILED" by (simp add: METADATA_BASE_def MAP_FAILED_def)
  ultimately show ?thesis using False assms(2) by (simp add: init_mmap_def maps_fixed_def tracked_def)
qed (use assms in \<open>simp add: init_mmap_def tracker_ok_def tracked_def\<close>)

lemma mark_mapped_ok:
  assumes "map_inited t" "bitmaps_ok (map_meta t)" "maps_fixed anon_map" "unat rv + unat len + 4096 \<le> 2 ^ 48 \<or> rv = MAP_FAILED"
  shows "\<exists>t'. mark_mapped anon_map (rv, w) len t = Some (Inr (rv, t', w)) \<and> tracker_ok t' \<and>
    tracked t' = (if rv = MAP_FAILED then used_pages (map_meta t) else used_pages (map_meta t) \<union> page_range rv len)"
proof (cases "rv = MAP_FAILED")
  case False
  then obtain m where "mark_used anon_map rv len (map_meta t) = Some (Inr m)" "bitmaps_ok m"
    "used_pages m = used_pages (map_meta t) \<union> page_range rv len"
    using mark_range(1) [OF assms(2,3), of rv len] assms(4) by blast
  then show ?thesis using assms(1) False by (simp add: mark_mapped_def tracker_ok_def tracked_def)
qed (use assms in \<open>simp add: mark_mapped_def tracker_ok_def tracked_def\<close>)

text \<open>
  The kernel places a fixed mapping where it was asked to, or fails.
\<close>

definition fixed_kernel :: "(mmap_args \<Rightarrow> 'w \<Rightarrow> u64 \<times> 'w) \<Rightarrow> bool" where
  "fixed_kernel mmap \<longleftrightarrow>
     (\<forall>r w. ma_flags r AND MAP_FIXED = MAP_FIXED \<longrightarrow> fst (mmap r w) = ma_addr r \<or> fst (mmap r w) = MAP_FAILED)"

lemma guest_mmap_result:
  assumes "maps_fixed anon_map" "fixed_kernel mmap" "tracker_ok t"
    and "ma_addr args = 0" "len = ma_len args" "len \<le> HOST_MMAP_BASE"
  shows "\<exists>r t' w'. guest_mmap anon_map mmap args t w = Some (Inr (r, t', w')) \<and> tracker_ok t' \<and>
    (r = 0 \<longleftrightarrow> \<not> (\<exists>k \<ge> pageno GUEST_MMAP_BASE. free_range (tracked t) (pageno HOST_MMAP_BASE) (Suc (page_count len)) k)) \<and>
    (if r = 0 \<or> r = MAP_FAILED then tracked t' = tracked t
     else GUEST_MMAP_BASE \<le> r \<and> unat r + unat len < unat HOST_MMAP_BASE \<and>
       page_range r len \<inter> tracked t = {} \<and> tracked t' = tracked t \<union> page_range r len)"
proof -
  have pb: "pageno GUEST_MMAP_BASE = 0x40000" "pageno HOST_MMAP_BASE = 0x7fff00000"
    by (simp_all add: pageno_def mmap_consts)
  obtain t1 where t1: "init_mmap anon_map t = Inr t1" "map_inited t1" "bitmaps_ok (map_meta t1)" "used_pages (map_meta t1) = tracked t"
    using init_mmap_ok [OF assms(3,1)] by blast
  have "unat GUEST_MMAP_BASE = 4096 * 0x40000" "unat HOST_MMAP_BASE = 4096 * 0x7fff00000"
    by (simp_all add: mmap_consts)
  then have "search_result (tracked t) 0x40000 0x7fff00000 (page_count len)
      (find_free anon_map GUEST_MMAP_BASE HOST_MMAP_BASE len (map_meta t1))"
    using find_free_first_fit [OF assms(1) t1(3)] t1(4) by simp
  then obtain r m where f: "find_free anon_map GUEST_MMAP_BASE HOST_MMAP_BASE len (map_meta t1) = Some (Inr (r, m))"
    "bitmaps_ok m" "used_pages m = tracked t" "first_fit (tracked t) 0x40000 0x7fff00000 (page_count len) r"
    unfolding search_result_def by blast
  let ?fit = "\<exists>k \<ge> 0x40000. spacious (tracked t) 0x7fff00000 (page_count len) k"
  let ?mm = "mmap (args\<lparr>ma_addr := r, ma_flags := ma_flags args OR MAP_FIXED\<rparr>) w"
  let ?rv = "fst ?mm"
  have call: "guest_mmap anon_map mmap args t w =
      (if r = 0 then Some (Inr (0, t1\<lparr>map_meta := m\<rparr>, w)) else mark_mapped anon_map (?rv, snd ?mm) len (t1\<lparr>map_meta := m\<rparr>))"
  proof -
    have "\<not> HOST_MMAP_BASE < ma_len args" using assms(5,6) by simp
    then show ?thesis using assms(4,5) f(1) by (simp add: guest_mmap_def mmap_between_def t1(1))
  qed
  show ?thesis
  proof (cases ?fit)
    case False
    then have "r = 0" using f(4) by (auto simp: first_fit_def)
    then show ?thesis using call False t1(2) f(2,3) unfolding pb spacious_iff by (simp add: tracker_ok_def tracked_def)
  next
    case True
    then obtain k where k: "unat r = 4096 * k" "0x40000 \<le> k" "spacious (tracked t) 0x7fff00000 (page_count len) k"
      using f(4) by (auto simp: first_fit_def)
    have len: "unat len \<le> 4096 * page_count len" by (simp add: len_pages)
    have b: "k + page_count len < 0x7fff00000" "\<forall>j \<le> page_count len. k + j \<notin> tracked t" using k(3) by (simp_all add: spacious_def)
    have r0: "r \<noteq> 0" using k(1,2) by auto
    have fl: "(ma_flags args OR MAP_FIXED) AND MAP_FIXED = MAP_FIXED"
      by (rule bit_word_eqI) (auto simp: bit_or_iff bit_and_iff)
    have rv: "?rv = r \<or> ?rv = MAP_FAILED" 
      using assms(2) [unfolded fixed_kernel_def, rule_format, of "args\<lparr>ma_addr := r, ma_flags := ma_flags args OR MAP_FIXED\<rparr>" w] fl by simp
    have "unat r + unat len + 4096 \<le> 2 ^ 48" using k(1) b(1) len by simp
    then have "unat ?rv + unat len + 4096 \<le> 2 ^ 48 \<or> ?rv = MAP_FAILED" using rv by metis
    then obtain t' where t': "mark_mapped anon_map (?rv, snd ?mm) len (t1\<lparr>map_meta := m\<rparr>) = Some (Inr (?rv, t', snd ?mm))" "tracker_ok t'"
      "tracked t' = (if ?rv = MAP_FAILED then tracked t else tracked t \<union> page_range ?rv len)"
      using mark_mapped_ok [of "t1\<lparr>map_meta := m\<rparr>" anon_map ?rv len "snd ?mm"] t1(2) f(2,3) assms(1) by auto
    have "page_range r len \<inter> tracked t = {}"
    proof -
      have "j \<notin> tracked t" if "k \<le> j" "j < k + page_count len" for j
        using b(2) [rule_format, of "j - k"] that by simp
      then show ?thesis using k(1) by (auto simp: page_range_def pageno_def)
    qed
    moreover have "GUEST_MMAP_BASE \<le> r" "unat r + unat len < unat HOST_MMAP_BASE"
      using k(1,2) b(1) len by (simp_all add: word_le_nat_alt mmap_consts)
    moreover have "?rv \<noteq> 0" using rv r0 by (auto simp: MAP_FAILED_def)
    moreover have "page_range ?rv len = page_range r len \<or> ?rv = MAP_FAILED" using rv by auto
    ultimately show ?thesis using r0 rv True unfolding call pb spacious_iff t'(1) if_not_P [OF r0]
      by (intro exI [of _ ?rv] exI [of _ t'] exI [of _ "snd ?mm"] conjI) (auto simp: t'(2,3))
  qed
qed

text \<open>
  C16. A mapping that the tracker places is fresh. For a request without an address that is not longer
  than the guest's part of the address space, the bitmaps are searched and updated without touching
  an unmapped page, and the result is one of three: 0; the failure of the kernel; or the address of a
  range between the two bases none of whose pages was in use, and these are the pages that are in use
  in addition from then on. It is 0, and the request refused, exactly if there is no range of free pages
  that is one page longer than the request: a free range of just the requested length is not enough for
  the code (\<^verbatim>\<open>exact_range_refused\<close>).
\<close>

theorem guest_mmap_fresh:
  assumes "maps_fixed anon_map" "fixed_kernel mmap" "tracker_ok t"
    and "ma_addr args = 0" "len = ma_len args" "len \<le> HOST_MMAP_BASE"
  shows "\<exists>r t' w'. guest_mmap anon_map mmap args t w = Some (Inr (r, t', w')) \<and> tracker_ok t' \<and>
    (r = 0 \<longleftrightarrow> \<not> (\<exists>k \<ge> pageno GUEST_MMAP_BASE. free_range (tracked t) (pageno HOST_MMAP_BASE) (Suc (page_count len)) k)) \<and>
    (if r = 0 \<or> r = MAP_FAILED then tracked t' = tracked t
     else GUEST_MMAP_BASE \<le> r \<and> unat r + unat len < unat HOST_MMAP_BASE \<and>
       page_range r len \<inter> tracked t = {} \<and> tracked t' = tracked t \<union> page_range r len)"
  by (rule guest_mmap_result [OF assms])

text \<open>
  The pages between the bases are all free, the request is for exactly them, and it is refused.
\<close>

lemma exact_range_refused:
  assumes "maps_fixed anon_map" "fixed_kernel mmap" "ma_addr args = 0" "ma_len args = HOST_MMAP_BASE - GUEST_MMAP_BASE"
  defines "t \<equiv> \<lparr>map_inited = False, map_meta = Map.empty\<rparr>"
  shows "free_range (tracked t) (pageno HOST_MMAP_BASE) (page_count (ma_len args)) (pageno GUEST_MMAP_BASE)"
    and "\<exists>t' w'. guest_mmap anon_map mmap args t w = Some (Inr (0, t', w'))"
proof -
  have t: "tracker_ok t" "tracked t = {}" by (simp_all add: t_def tracker_ok_def tracked_def)
  have n: "page_count (ma_len args) = 0x7ffec0000" using assms(4) by (simp add: page_count_def mmap_consts)
  have pb: "pageno GUEST_MMAP_BASE = 0x40000" "pageno HOST_MMAP_BASE = 0x7fff00000"
    by (simp_all add: pageno_def mmap_consts)
  show "free_range (tracked t) (pageno HOST_MMAP_BASE) (page_count (ma_len args)) (pageno GUEST_MMAP_BASE)"
    by (simp add: free_range_def n pb t)
  have "ma_len args \<le> HOST_MMAP_BASE" using assms(4) by (simp add: mmap_consts)
  moreover have "\<not> (\<exists>k \<ge> pageno GUEST_MMAP_BASE. free_range (tracked t) (pageno HOST_MMAP_BASE) (Suc (page_count (ma_len args))) k)"
    by (simp add: free_range_def n pb)
  ultimately show "\<exists>t' w'. guest_mmap anon_map mmap args t w = Some (Inr (0, t', w'))"
    using guest_mmap_result [OF assms(1,2) t(1) assms(3) refl, of w] by blast
qed

lemma guest_munmap_releases:
  assumes "maps_fixed anon_map" "tracker_ok t" "unat addr + unat len + 4096 \<le> 2 ^ 48"
  shows "\<exists>t'. guest_munmap anon_map rv addr len t = Some (Inr (rv, t')) \<and> tracker_ok t' \<and>
    tracked t' = (if rv = 0 then tracked t - page_range addr len else tracked t)"
proof -
  obtain t1 where t1: "init_mmap anon_map t = Inr t1" "map_inited t1" "bitmaps_ok (map_meta t1)" "used_pages (map_meta t1) = tracked t"
    using init_mmap_ok [OF assms(2,1)] by blast
  obtain m where "mark_free anon_map addr len (map_meta t1) = Some (Inr m)" "bitmaps_ok m"
    "used_pages m = used_pages (map_meta t1) - page_range addr len"
    using mark_range(2) [OF t1(3) assms(1,3)] by blast
  then show ?thesis using t1 by (simp add: guest_munmap_def tracker_ok_def tracked_def)
qed

theorem guest_mmap_fresh_witness:
  "\<exists>r t'. guest_mmap (\<lambda>a. a) (\<lambda>r w. (ma_addr r, w)) \<lparr>ma_addr = 0, ma_len = 0x2000, ma_prot = 3, ma_flags = 0x22, ma_fd = - 1, ma_offset = 0\<rparr>
      \<lparr>map_inited = False, map_meta = Map.empty\<rparr> () = Some (Inr (r, t', ())) \<and>
    r \<noteq> 0 \<and> (r = MAP_FAILED \<or> tracked t' = page_range r 0x2000)"
proof -
  let ?t = "\<lparr>map_inited = False, map_meta = Map.empty\<rparr>"
  have "maps_fixed (\<lambda>a. a)" "fixed_kernel (\<lambda>r (w :: unit). (ma_addr r, w))" "tracker_ok ?t" "tracked ?t = {}"
    by (simp_all add: maps_fixed_def fixed_kernel_def tracker_ok_def tracked_def)
  moreover have "free_range {} (pageno HOST_MMAP_BASE) (Suc (page_count 0x2000)) (pageno GUEST_MMAP_BASE)"
    by (simp add: free_range_def pageno_def page_count_def mmap_consts)
  ultimately show ?thesis
    using guest_mmap_fresh [of "\<lambda>a. a" "\<lambda>r w. (ma_addr r, w)" ?t
      "\<lparr>ma_addr = 0, ma_len = 0x2000, ma_prot = 3, ma_flags = 0x22, ma_fd = - 1, ma_offset = 0\<rparr>" "0x2000" "()"]
    by (auto simp: mmap_consts split: if_splits)
qed

end
