(* ===== verification/Syscalls.thy ===== *)
theory Syscalls
  imports Replay Mmap
begin

text \<open>
  The system calls of the user mode emulator (\<^verbatim>\<open>src/src/abi/unknown-abi.h\<close>): every
  \<^verbatim>\<open>abi_sys_*\<close> function and \<^verbatim>\<open>proxy_syscall\<close>, for RV64, on a Linux host, and what they
  hand to the checkpoint recorder. The members of \<^verbatim>\<open>processor_proxy\<close> and
  \<^verbatim>\<open>proxy_memory\<close> that they use are the fields of the state.

  The host's system calls are an argument: \<open>host c gm w\<close> is the answer to the call \<open>c\<close> of a process
  with the memory \<open>gm\<close> in the world \<open>w\<close>. It has the value in the return register, the error number,
  the bytes that the kernel wrote into the memory of the process, and the contents of the structure
  that the call fills. The guest's addresses are those of the process. What is printed to a log is
  left out.
\<close>

unbundle bit_operations_syntax

section \<open>The host\<close>

record host_stat =
  st_dev :: u64
  st_ino :: u64
  st_mode :: u64
  st_nlink :: u64
  st_uid :: u64
  st_gid :: u64
  st_rdev :: u64
  st_bytes :: u64
  st_blocks :: u64
  st_blksize :: u64
  st_atime :: "u64 \<times> u64"
  st_mtime :: "u64 \<times> u64"
  st_ctime :: "u64 \<times> u64"

record host_rusage =
  ru_utime :: "u64 \<times> u64"
  ru_stime :: "u64 \<times> u64"
  ru_maxrss :: u64
  ru_ixrss :: u64
  ru_idrss :: u64
  ru_isrss :: u64
  ru_minflt :: u64
  ru_majflt :: u64
  ru_nswap :: u64
  ru_inblock :: u64
  ru_oublock :: u64
  ru_msgsnd :: u64
  ru_msgrcv :: u64
  ru_nsignals :: u64
  ru_nvcsw :: u64
  ru_nivcsw :: u64

record host_tms =
  tms_utime :: u64
  tms_stime :: u64
  tms_cutime :: u64
  tms_cstime :: u64

text \<open>The strings of \<^verbatim>\<open>utsname\<close>, each with its terminating zero.\<close>

record host_utsname =
  u_sysname :: "u8 list"
  u_nodename :: "u8 list"
  u_release :: "u8 list"
  u_version :: "u8 list"
  u_machine :: "u8 list"

datatype host_call =
    Hgetcwd u64 u64
  | Hfcntl u32 u32 u64
  | Hioctl_TIOCGWINSZ u32
  | Hunlinkat u32 u64 u32
  | Hftruncate u32 u64
  | Hfaccessat u32 u64 u32 u32
  | Hopenat u32 u64 u32 u32
  | Hclose u32
  | Hlseek u32 u64 u32
  | Hread u32 u64 u64
  | Hwrite u32 u64 u64
  | Hreadv u32 "(u64 \<times> u64) list"
  | Hwritev u32 "(u64 \<times> u64) list"
  | Hpread u32 u64 u64 u64
  | Hpwrite u32 u64 u64 u64
  | Hreadlinkat u32 u64 u64 u64
  | Hfstatat u32 u64 u32
  | Hfstat u32
  | Hopen u64 u32 u32
  | Hunlink u64
  | Hstat u64
  | Hchown u64 u32 u32
  | Htime_ns
  | Htimes
  | Huname
  | Hgetrusage u32
  | Hgettimeofday
  | Hgetpid
  | Hmmap mmap_args
  | Hmunmap u64 u64
  | Hmprotect u64 u64 u32
  | Hfork
  | Hwait4 u32 u64 u32

record host_ret =
  hr_ret :: u64
  hr_errno :: int
  hr_out :: "(u64 \<times> u8 list) list"
  hr_stat :: host_stat
  hr_rusage :: host_rusage
  hr_tms :: host_tms
  hr_uname :: host_utsname
  hr_winsize :: "u16 \<times> u16 \<times> u16 \<times> u16"
  hr_timeval :: "u64 \<times> u64"
  hr_timezone :: "u32 \<times> u32"

type_synonym 'w host = "host_call \<Rightarrow> guest \<Rightarrow> 'w \<Rightarrow> host_ret \<times> 'w"

section \<open>The state\<close>

record proxy_memory =
  pm_segments :: "(u64 \<times> u64) list"
  pm_heap_begin :: u64
  pm_heap_end :: u64
  pm_brk :: u64

text \<open>
  \<open>px_env\<close> is what the recorder reads of the processor when it ends a checkpoint.
\<close>

record 'w proxy =
  px_ireg :: "u64 list"
  px_gm :: guest
  px_mem :: proxy_memory
  px_clear_child_tid :: u32
  px_ckpt :: ckpt
  px_env :: ckpt_env
  px_tracker :: tracker
  px_world :: 'w

text \<open>\<^verbatim>\<open>proc.ireg[rv_ireg_a0 + k]\<close>.\<close>

definition areg :: "nat \<Rightarrow> 'w proxy \<Rightarrow> u64" where
  "areg k s = px_ireg s ! (10 + k)"

definition set_result :: "u64 \<Rightarrow> 'w proxy \<Rightarrow> 'w proxy" where
  "set_result v s = s\<lparr>px_ireg := (px_ireg s)[10 := v]\<rparr>"

text \<open>Asking the host, with the bytes that it writes.\<close>

definition host_writes :: "host_ret \<Rightarrow> guest \<Rightarrow> guest" where
  "host_writes r = fold (\<lambda>(a, bs). put_bytes a bs) (hr_out r)"

definition ask :: "'w host \<Rightarrow> host_call \<Rightarrow> 'w proxy \<Rightarrow> host_ret \<times> 'w proxy" where
  "ask host c s = (let (r, w) = host c (px_gm s) (px_world s)
     in (r, s\<lparr>px_gm := host_writes r (px_gm s), px_world := w\<rparr>))"

text \<open>
  \<^verbatim>\<open>checkpoint.syscall\<close> and the assignment to \<^verbatim>\<open>a0\<close>. The recorder does not look at the
  registers, so their order, which differs between the functions, does not matter.
\<close>

definition give_back :: "u64 \<Rightarrow> (u64 \<times> nat) option \<Rightarrow> 'w proxy \<Rightarrow> 'w proxy ck_outcome" where
  "give_back v res s =
     (case ck_syscall (px_gm s) v res (px_ckpt s) of
        Done ck \<Rightarrow> Done (set_result v (s\<lparr>px_ckpt := ck\<rparr>))
      | ck_outcome.Exit rc \<Rightarrow> ck_outcome.Exit rc
      | Undef \<Rightarrow> Undef)"

text \<open>The result buffer; the recorder ignores a null address.\<close>

definition buffer :: "u64 \<Rightarrow> nat \<Rightarrow> (u64 \<times> nat) option" where
  "buffer a n = (if a = 0 then None else Some (a, n))"

section \<open>Conversions\<close>

text \<open>The cases of \<^verbatim>\<open>cvt_error\<close>: the number on a Linux host and the number in the guest.\<close>

definition errno_cases :: "(int \<times> u32) list" where
  "errno_cases =
     [(1, 1), (2, 2), (3, 3), (4, 4), (5, 5), (6, 6), (7, 7), (8, 8), (9, 9), (10, 10), (11, 11), (12, 12),
      (13, 13), (14, 14), (15, 15), (16, 16), (17, 17), (18, 18), (19, 19), (20, 20), (21, 21), (22, 22),
      (23, 23), (24, 24), (25, 25), (26, 26), (27, 27), (28, 28), (29, 29), (30, 30), (31, 31), (32, 32),
      (33, 33), (34, 34), (35, 35), (36, 36), (37, 37), (38, 38)]"

definition cvt_error :: "int \<Rightarrow> u32 \<Rightarrow> u32" where
  "cvt_error errno ret = (if 0 \<le>s ret then ret else - switch errno errno_cases 22)"

text \<open>The result of a host function as an \<^verbatim>\<open>int\<close>, and \<^verbatim>\<open>cvt_error\<close> of it in a register.\<close>

definition int_ret :: "host_ret \<Rightarrow> u32" where
  "int_ret r = ucast (hr_ret r)"

definition int_result :: "host_ret \<Rightarrow> u64" where
  "int_result r = scast (cvt_error (hr_errno r) (int_ret r))"

definition cvt_open_flags :: "u32 \<Rightarrow> u32" where
  "cvt_open_flags lxflags =
     (if lxflags AND 0x1 \<noteq> 0 then 0x1 else 0) OR
     (if lxflags AND 0x2 \<noteq> 0 then 0x2 else 0) OR
     (if lxflags AND 0x40 \<noteq> 0 then 0x40 else 0) OR
     (if lxflags AND 0x80 \<noteq> 0 then 0x80 else 0) OR
     (if lxflags AND 0x200 \<noteq> 0 then 0x200 else 0) OR
     (if lxflags AND 0x400 \<noteq> 0 then 0x400 else 0) OR
     (if lxflags AND 0x800 \<noteq> 0 then 0x800 else 0) OR
     (if lxflags AND 0x101000 \<noteq> 0 then 0x101000 else 0)"

text \<open>Members of a structure in guest memory: offset, size and value.\<close>

definition put_members :: "u64 \<Rightarrow> (nat \<times> nat \<times> u64) list \<Rightarrow> guest \<Rightarrow> guest" where
  "put_members base = fold (\<lambda>(off, n, v). put_bytes (base + of_nat off) (le_bytes n v))"

definition sizeof_abi_stat :: nat where "sizeof_abi_stat = 128"
definition sizeof_abi_rusage :: nat where "sizeof_abi_rusage = 272"
definition sizeof_abi_sysinfo :: nat where "sizeof_abi_sysinfo = 368"
definition sizeof_abi_timespec :: nat where "sizeof_abi_timespec = 16"
definition sizeof_abi_tms :: nat where "sizeof_abi_tms = 32"
definition sizeof_abi_new_utsname :: nat where "sizeof_abi_new_utsname = 390"

lemmas sizeof_defs = sizeof_abi_stat_def sizeof_abi_rusage_def sizeof_abi_sysinfo_def sizeof_abi_timespec_def
  sizeof_abi_tms_def sizeof_abi_new_utsname_def

definition cvt_abi_stat :: "u64 \<Rightarrow> host_stat \<Rightarrow> guest \<Rightarrow> guest" where
  "cvt_abi_stat guest_stat h = put_members guest_stat
     [(0, 8, st_dev h), (8, 8, st_ino h), (16, 4, st_mode h), (20, 4, st_nlink h), (24, 4, st_uid h),
      (28, 4, st_gid h), (32, 8, st_rdev h), (48, 8, st_bytes h), (64, 8, st_blocks h), (56, 4, st_blksize h),
      (72, 8, fst (st_atime h)), (80, 8, snd (st_atime h)), (88, 8, fst (st_mtime h)), (96, 8, snd (st_mtime h)),
      (104, 8, fst (st_ctime h)), (112, 8, snd (st_ctime h))]"

definition cvt_abi_rusage :: "u64 \<Rightarrow> host_rusage \<Rightarrow> guest \<Rightarrow> guest" where
  "cvt_abi_rusage guest_rusage h = put_members guest_rusage
     [(0, 8, fst (ru_utime h)), (8, 8, snd (ru_utime h)), (16, 8, fst (ru_stime h)), (24, 8, snd (ru_stime h)),
      (32, 8, ru_maxrss h), (40, 8, ru_ixrss h), (48, 8, ru_idrss h), (56, 8, ru_isrss h), (64, 8, ru_minflt h),
      (72, 8, ru_majflt h), (80, 8, ru_nswap h), (88, 8, ru_inblock h), (96, 8, ru_oublock h),
      (104, 8, ru_msgsnd h), (112, 8, ru_msgrcv h), (120, 8, ru_nsignals h), (128, 8, ru_nvcsw h),
      (136, 8, ru_nivcsw h)]"

text \<open>\<^verbatim>\<open>strncpy\<close>: exactly \<open>n\<close> bytes, the string and zeros after it.\<close>

definition c_strncpy :: "u64 \<Rightarrow> u8 list \<Rightarrow> nat \<Rightarrow> guest \<Rightarrow> guest" where
  "c_strncpy dest src n = put_bytes dest (take n (takeWhile (\<lambda>b. b \<noteq> 0) src @ replicate n 0))"

text \<open>\<^verbatim>\<open>strlen\<close>, \<open>None\<close> when no zero byte follows.\<close>

partial_function (option) c_strlen :: "guest \<Rightarrow> u64 \<Rightarrow> nat option" where
  "c_strlen gm a = (if gm (unat a) = 0 then Some 0 else Option.bind (c_strlen gm (a + 1)) (\<lambda>n. Some (Suc n)))"

section \<open>Files\<close>

definition dirfd :: "u64 \<Rightarrow> u32" where
  "dirfd x = (if x = - 100 then - 100 else ucast x)"

definition abi_sys_getcwd :: "'w host \<Rightarrow> 'w proxy \<Rightarrow> 'w proxy ck_outcome" where
  "abi_sys_getcwd host s =
     (let buf = areg 0 s;
          (r, s') = ask host (Hgetcwd buf (areg 1 s)) s
      in if hr_ret r \<noteq> 0
         then (case c_strlen (px_gm s') (hr_ret r) of None \<Rightarrow> Undef
            | Some n \<Rightarrow> give_back (scast (of_nat (n + 1) :: u32)) (buffer buf (unat (areg 1 s))) s')
         else give_back (scast (cvt_error (hr_errno r) (- 1))) (buffer buf (unat (areg 1 s))) s')"

text \<open>\<^verbatim>\<open>fcntl\<close>: the commands have the same numbers on a Linux host.\<close>

definition fcntl_cmd :: "u64 \<Rightarrow> u32" where
  "fcntl_cmd x = switch x [(0, 0), (1, 1), (2, 2), (3, 3), (4, 4), (8, 8), (9, 9), (10, - 1), (11, - 1),
     (5, 5), (6, 6), (7, 7), (1030, 1030)] (- 1)"

definition abi_sys_fcntl :: "'w host \<Rightarrow> 'w proxy \<Rightarrow> 'w proxy ck_outcome" where
  "abi_sys_fcntl host s =
     (let cmd = fcntl_cmd (areg 1 s) in
      if cmd = - 1 then give_back (- 22) None s
      else let (r, s') = ask host (Hfcntl (ucast (areg 0 s)) cmd (areg 2 s)) s
           in give_back (int_result r) None s')"

definition TIOCGWINSZ :: u64 where "TIOCGWINSZ = 0x5413"

definition abi_sys_ioctl :: "'w host \<Rightarrow> 'w proxy \<Rightarrow> 'w proxy ck_outcome" where
  "abi_sys_ioctl host s =
     (if areg 1 s = TIOCGWINSZ
      then let (r, s') = ask host (Hioctl_TIOCGWINSZ (ucast (areg 0 s))) s;
               (row, col, xpixel, ypixel) = hr_winsize r;
               s'' = (if int_ret r = 0
                 then s'\<lparr>px_gm := put_members (areg 2 s)
                   [(0, 2, ucast row), (2, 2, ucast col), (4, 2, ucast xpixel), (6, 2, ucast ypixel)] (px_gm s')\<rparr>
                 else s')
           in give_back (int_result r) None s''
      else give_back (- 22) None s)"

definition abi_sys_unlinkat :: "'w host \<Rightarrow> 'w proxy \<Rightarrow> 'w proxy ck_outcome" where
  "abi_sys_unlinkat host s =
     (let flag = (if areg 2 s AND 0x200 \<noteq> 0 then 0x200 else 0);
          (r, s') = ask host (Hunlinkat (dirfd (areg 0 s)) (areg 1 s) flag) s
      in give_back (int_result r) None s')"

definition abi_sys_ftruncate :: "'w host \<Rightarrow> 'w proxy \<Rightarrow> 'w proxy ck_outcome" where
  "abi_sys_ftruncate host s =
     (let (r, s') = ask host (Hftruncate (ucast (areg 0 s)) (areg 1 s)) s in give_back (int_result r) None s')"

definition abi_sys_faccessat :: "'w host \<Rightarrow> 'w proxy \<Rightarrow> 'w proxy ck_outcome" where
  "abi_sys_faccessat host s =
     (let flag = (if areg 3 s AND 0x200 \<noteq> 0 then 0x200 else 0);
          (r, s') = ask host (Hfaccessat (dirfd (areg 0 s)) (areg 1 s) (ucast (areg 2 s)) flag) s
      in give_back (int_result r) None s')"

definition abi_sys_openat :: "'w host \<Rightarrow> 'w proxy \<Rightarrow> 'w proxy ck_outcome" where
  "abi_sys_openat host s =
     (let (r, s') = ask host (Hopenat (dirfd (areg 0 s)) (areg 1 s) (cvt_open_flags (ucast (areg 2 s))) (ucast (areg 3 s))) s
      in give_back (int_result r) None s')"

definition abi_sys_close :: "'w host \<Rightarrow> 'w proxy \<Rightarrow> 'w proxy ck_outcome" where
  "abi_sys_close host s =
     (let (r, s') = ask host (Hclose (ucast (areg 0 s))) s in give_back (int_result r) None s')"

definition abi_sys_lseek :: "'w host \<Rightarrow> 'w proxy \<Rightarrow> 'w proxy ck_outcome" where
  "abi_sys_lseek host s =
     (let (r, s') = ask host (Hlseek (ucast (areg 0 s)) (areg 1 s) (ucast (areg 2 s))) s
      in give_back (int_result r) None s')"

text \<open>
  The calls that fill a buffer: \<^verbatim>\<open>if (ret > 0) checkpoint.syscall(ret, buf, ret)\<close>, with
  \<^verbatim>\<open>ret\<close> an \<^verbatim>\<open>int\<close>.
\<close>

definition give_buffer :: "u64 \<Rightarrow> host_ret \<Rightarrow> 'w proxy \<Rightarrow> 'w proxy ck_outcome" where
  "give_buffer buf r s =
     (if 0 <s int_ret r then give_back (int_result r) (buffer buf (unat (int_ret r))) s
      else give_back (int_result r) None s)"

definition abi_sys_read :: "'w host \<Rightarrow> 'w proxy \<Rightarrow> 'w proxy ck_outcome" where
  "abi_sys_read host s =
     (let (r, s') = ask host (Hread (ucast (areg 0 s)) (areg 1 s) (areg 2 s)) s in give_buffer (areg 1 s) r s')"

definition abi_sys_write :: "'w host \<Rightarrow> 'w proxy \<Rightarrow> 'w proxy ck_outcome" where
  "abi_sys_write host s =
     (let (r, s') = ask host (Hwrite (ucast (areg 0 s)) (areg 1 s) (areg 2 s)) s in give_back (int_result r) None s')"

text \<open>The vectors of \<^verbatim>\<open>readv\<close> and \<^verbatim>\<open>writev\<close>.\<close>

definition host_iov :: "guest \<Rightarrow> u64 \<Rightarrow> u32 \<Rightarrow> (u64 \<times> u64) list" where
  "host_iov gm abi_iov iovcnt = map (\<lambda>i. let a = abi_iov + 16 * of_nat i
     in (read_mem gm (unat a) 8, read_mem gm (unat (a + 8)) 8)) [0..<nat (sint iovcnt)]"

definition abi_sys_readv :: "'w host \<Rightarrow> 'w proxy \<Rightarrow> 'w proxy ck_outcome" where
  "abi_sys_readv host s =
     (let (r, s') = ask host (Hreadv (ucast (areg 0 s)) (host_iov (px_gm s) (areg 1 s) (ucast (areg 2 s)))) s
      in Done (set_result (int_result r) s'))"

definition abi_sys_writev :: "'w host \<Rightarrow> 'w proxy \<Rightarrow> 'w proxy ck_outcome" where
  "abi_sys_writev host s =
     (let (r, s') = ask host (Hwritev (ucast (areg 0 s)) (host_iov (px_gm s) (areg 1 s) (ucast (areg 2 s)))) s
      in Done (set_result (int_result r) s'))"

definition abi_sys_pread :: "'w host \<Rightarrow> 'w proxy \<Rightarrow> 'w proxy ck_outcome" where
  "abi_sys_pread host s =
     (let (r, s') = ask host (Hpread (ucast (areg 0 s)) (areg 1 s) (areg 2 s) (areg 3 s)) s
      in give_buffer (areg 1 s) r s')"

definition abi_sys_pwrite :: "'w host \<Rightarrow> 'w proxy \<Rightarrow> 'w proxy ck_outcome" where
  "abi_sys_pwrite host s =
     (let (r, s') = ask host (Hpwrite (ucast (areg 0 s)) (areg 1 s) (areg 2 s) (areg 3 s)) s
      in give_back (int_result r) None s')"

definition abi_sys_readlinkat :: "'w host \<Rightarrow> 'w proxy \<Rightarrow> 'w proxy ck_outcome" where
  "abi_sys_readlinkat host s =
     (let (r, s') = ask host (Hreadlinkat (dirfd (areg 0 s)) (areg 1 s) (areg 2 s) (areg 3 s)) s
      in give_buffer (areg 2 s) r s')"

text \<open>
  The structure is converted whatever the host returned; when the call failed it is the zeroed one.
\<close>

definition abi_sys_fstatat :: "'w host \<Rightarrow> 'w proxy \<Rightarrow> 'w proxy ck_outcome" where
  "abi_sys_fstatat host s =
     (let guest_stat = areg 2 s;
          (r, s') = ask host (Hfstatat (dirfd (areg 0 s)) (areg 1 s) (ucast (areg 3 s))) s;
          s'' = s'\<lparr>px_gm := cvt_abi_stat guest_stat (hr_stat r) (px_gm s')\<rparr>
      in if int_ret r = 0 then give_back 0 (buffer guest_stat sizeof_abi_stat) s''
         else give_back (int_result r) None s'')"

definition abi_sys_fstat :: "'w host \<Rightarrow> 'w proxy \<Rightarrow> 'w proxy ck_outcome" where
  "abi_sys_fstat host s =
     (let guest_stat = areg 1 s;
          (r, s') = ask host (Hfstat (ucast (areg 0 s))) s;
          s'' = s'\<lparr>px_gm := cvt_abi_stat guest_stat (hr_stat r) (px_gm s')\<rparr>
      in if int_ret r = 0 then give_back 0 (buffer guest_stat sizeof_abi_stat) s''
         else give_back (int_result r) None s'')"

definition abi_sys_open :: "'w host \<Rightarrow> 'w proxy \<Rightarrow> 'w proxy ck_outcome" where
  "abi_sys_open host s =
     (let (r, s') = ask host (Hopen (areg 0 s) (cvt_open_flags (ucast (areg 1 s))) (ucast (areg 2 s))) s
      in give_back (int_result r) None s')"

definition abi_sys_unlink :: "'w host \<Rightarrow> 'w proxy \<Rightarrow> 'w proxy ck_outcome" where
  "abi_sys_unlink host s =
     (let (r, s') = ask host (Hunlink (areg 0 s)) s in give_back (int_result r) None s')"

definition abi_sys_stat :: "'w host \<Rightarrow> 'w proxy \<Rightarrow> 'w proxy ck_outcome" where
  "abi_sys_stat host s =
     (let guest_stat = areg 1 s;
          (r, s') = ask host (Hstat (areg 0 s)) s
      in give_back (int_result r) (buffer guest_stat sizeof_abi_stat)
           (s'\<lparr>px_gm := cvt_abi_stat guest_stat (hr_stat r) (px_gm s')\<rparr>))"

definition abi_sys_chown :: "'w host \<Rightarrow> 'w proxy \<Rightarrow> 'w proxy ck_outcome" where
  "abi_sys_chown host s =
     (let (r, s') = ask host (Hchown (areg 0 s) (ucast (areg 1 s)) (ucast (areg 2 s))) s
      in give_back (int_result r) None s')"

section \<open>Time and process\<close>

text \<open>
  \<^verbatim>\<open>exit\<close> ends the checkpoint, then the process. The statistics that
  \<^verbatim>\<open>processor_proxy::exit\<close> prints are left out.
\<close>

definition abi_sys_exit :: "'w proxy \<Rightarrow> 'w proxy ck_outcome" where
  "abi_sys_exit s =
     (case ck_exit ((px_env s)\<lparr>env_gm := px_gm s, env_ireg := px_ireg s\<rparr>) (ucast (areg 0 s)) (px_ckpt s) of
        Done ck \<Rightarrow> ck_outcome.Exit (sint (ucast (areg 0 s) :: u32))
      | ck_outcome.Exit rc \<Rightarrow> ck_outcome.Exit rc
      | Undef \<Rightarrow> Undef)"

definition abi_sys_set_tid_address :: "'w proxy \<Rightarrow> 'w proxy ck_outcome" where
  "abi_sys_set_tid_address s =
     Done (set_result 1 (s\<lparr>px_clear_child_tid := ucast (read_mem (px_gm s) (unat (areg 0 s)) 4)\<rparr>))"

definition abi_sys_clock_gettime :: "'w host \<Rightarrow> 'w proxy \<Rightarrow> 'w proxy ck_outcome" where
  "abi_sys_clock_gettime host s =
     (let abi_ts = areg 1 s in
      if abi_ts \<noteq> 0
      then let (r, s') = ask host Htime_ns s; t = hr_ret r
           in give_back 0 (buffer abi_ts sizeof_abi_timespec)
             (s'\<lparr>px_gm := put_members abi_ts [(0, 8, t div 1000000000), (8, 8, t mod 1000000000)] (px_gm s')\<rparr>)
      else give_back (- 14) None s)"

definition abi_sys_rt_sigaction :: "'w proxy \<Rightarrow> 'w proxy ck_outcome" where
  "abi_sys_rt_sigaction s = give_back 0 None s"

definition abi_sys_rt_sigprocmask :: "'w proxy \<Rightarrow> 'w proxy ck_outcome" where
  "abi_sys_rt_sigprocmask s = give_back 0 None s"

definition abi_sys_times :: "'w host \<Rightarrow> 'w proxy \<Rightarrow> 'w proxy ck_outcome" where
  "abi_sys_times host s =
     (let guest_tms = areg 0 s;
          (r, s') = ask host Htimes s; t = hr_tms r
      in give_back (hr_ret r) (buffer guest_tms sizeof_abi_tms)
        (s'\<lparr>px_gm := put_members guest_tms [(0, 8, tms_utime t), (8, 8, tms_stime t), (16, 8, tms_cutime t),
           (24, 8, tms_cstime t)] (px_gm s')\<rparr>))"

definition put_utsname :: "u64 \<Rightarrow> host_utsname \<Rightarrow> guest \<Rightarrow> guest" where
  "put_utsname utsname h gm =
     c_strncpy (utsname + 260) (u_machine h) 64 (c_strncpy (utsname + 195) (u_version h) 64
       (c_strncpy (utsname + 130) (u_release h) 64 (c_strncpy (utsname + 65) (u_nodename h) 64
         (c_strncpy utsname (u_sysname h) 64 gm))))"

definition abi_sys_uname :: "'w host \<Rightarrow> 'w proxy \<Rightarrow> 'w proxy ck_outcome" where
  "abi_sys_uname host s =
     (let utsname = areg 0 s;
          (r, s') = ask host Huname s;
          s'' = s'\<lparr>px_gm := put_utsname utsname (hr_uname r) (px_gm s')\<rparr>
      in if int_ret r = 0 then give_back 0 (buffer utsname sizeof_abi_new_utsname) s''
         else give_back (int_result r) None s'')"

definition abi_sys_getrusage :: "'w host \<Rightarrow> 'w proxy \<Rightarrow> 'w proxy ck_outcome" where
  "abi_sys_getrusage host s =
     (let who = switch (areg 0 s) [(0, 0), (- 1, - 1)] 0;
          guest_rusage = areg 1 s;
          (r, s') = ask host (Hgetrusage who) s
      in if guest_rusage \<noteq> 0
         then give_back (int_result r) (buffer guest_rusage sizeof_abi_rusage)
           (s'\<lparr>px_gm := cvt_abi_rusage guest_rusage (hr_rusage r) (px_gm s')\<rparr>)
         else give_back (int_result r) None s')"

definition abi_sys_gettimeofday :: "'w host \<Rightarrow> 'w proxy \<Rightarrow> 'w proxy ck_outcome" where
  "abi_sys_gettimeofday host s =
     (let (r, s') = ask host Hgettimeofday s;
          gm = (if areg 0 s \<noteq> 0
            then put_members (areg 0 s) [(0, 8, fst (hr_timeval r)), (8, 8, snd (hr_timeval r))] (px_gm s')
            else px_gm s');
          gm' = (if areg 1 s \<noteq> 0
            then put_members (areg 1 s) [(0, 4, ucast (fst (hr_timezone r))), (4, 4, ucast (snd (hr_timezone r)))] gm
            else gm)
      in Done (set_result (int_result r) (s'\<lparr>px_gm := gm'\<rparr>)))"

definition abi_sys_gettid :: "'w host \<Rightarrow> 'w proxy \<Rightarrow> 'w proxy ck_outcome" where
  "abi_sys_gettid host s =
     (let (r, s') = ask host Hgetpid s in Done (set_result (scast (int_ret r)) s'))"

definition abi_sys_sysinfo :: "'w proxy \<Rightarrow> 'w proxy ck_outcome" where
  "abi_sys_sysinfo s =
     (let guest_sysinfo = areg 0 s
      in give_back 0 (buffer guest_sysinfo sizeof_abi_sysinfo)
        (s\<lparr>px_gm := put_bytes guest_sysinfo (replicate sizeof_abi_sysinfo 0) (px_gm s)\<rparr>))"

definition abi_sys_clone :: "'w host \<Rightarrow> 'w proxy \<Rightarrow> 'w proxy ck_outcome" where
  "abi_sys_clone host s =
     (if (ucast (areg 0 s) :: u32) = 17
      then let (r, s') = ask host Hfork s in Done (set_result (int_result r) s')
      else Done (set_result (- 22) s))"

definition abi_sys_execve :: "'w proxy \<Rightarrow> 'w proxy ck_outcome" where
  "abi_sys_execve s = Done (set_result (- 38) s)"

text \<open>
  \<^verbatim>\<open>WEXITSTATUS(ret) & 0xff << 8\<close> and \<^verbatim>\<open>WTERMSIG(ret) & 0x7f\<close>, applied to the process
  number that \<^verbatim>\<open>wait4\<close> returned.
\<close>

definition wait4_result :: "u32 \<Rightarrow> u32" where
  "wait4_result ret =
     (if 0 <s ret
      then (drop_bit 8 (ret AND 0xff00) AND push_bit 8 0xff) OR ((ret AND 0x7f) AND 0x7f)
      else 0)"

definition abi_sys_wait4 :: "'w host \<Rightarrow> 'w proxy \<Rightarrow> 'w proxy ck_outcome" where
  "abi_sys_wait4 host s =
     (let guest_rusage = areg 3 s;
          (r, s') = ask host (Hwait4 (ucast (areg 0 s)) (areg 1 s) (ucast (areg 2 s))) s;
          s'' = (if guest_rusage \<noteq> 0
            then s'\<lparr>px_gm := cvt_abi_rusage guest_rusage (hr_rusage r) (px_gm s')\<rparr> else s')
      in Done (set_result (scast (cvt_error (hr_errno r) (wait4_result (int_ret r)))) s''))"

text \<open>
  The cases of the switch in \<^verbatim>\<open>prlimit64\<close> have no \<^verbatim>\<open>break\<close>: every resource reaches the
  default, which returns, and the rest of the function is not reachable.
\<close>

definition abi_sys_prlimit64 :: "'w proxy \<Rightarrow> 'w proxy ck_outcome" where
  "abi_sys_prlimit64 s = Done (set_result 22 s)"

section \<open>Memory\<close>

definition round_up :: "u64 \<Rightarrow> u64 \<Rightarrow> u64" where
  "round_up addr page_size = (addr + page_size - 1) AND NOT (page_size - 1)"

text \<open>Addresses are signed here.\<close>

definition abi_sys_brk :: "'w host \<Rightarrow> 'w proxy \<Rightarrow> 'w proxy ck_outcome" where
  "abi_sys_brk host s =
     (let new_brk = areg 0 s;
          new_heap_end = round_up new_brk 4096;
          heap_end = pm_heap_end (px_mem s)
      in if new_brk = 0 then give_back (pm_brk (px_mem s)) None s
         else if new_brk \<le>s heap_end
         then give_back new_brk None (s\<lparr>px_mem := (px_mem s)\<lparr>pm_brk := new_brk\<rparr>\<rparr>)
         else let (r, s') = ask host (Hmmap \<lparr>ma_addr = heap_end, ma_len = new_heap_end - heap_end,
                  ma_prot = 3, ma_flags = 0x32, ma_fd = - 1, ma_offset = 0\<rparr>) s
              in if hr_ret r = MAP_FAILED then give_back (- 12) None s'
                 else give_back new_brk None (s'\<lparr>px_mem := (px_mem s')\<lparr>
                   pm_segments := pm_segments (px_mem s') @ [(heap_end, new_heap_end - heap_end)],
                   pm_heap_end := new_heap_end, pm_brk := new_brk\<rparr>\<rparr>))"

definition abi_sys_munmap :: "(u64 \<Rightarrow> u64) \<Rightarrow> 'w host \<Rightarrow> 'w proxy \<Rightarrow> 'w proxy ck_outcome" where
  "abi_sys_munmap anon_map host s =
     (let (r, s') = ask host (Hmunmap (areg 0 s) (areg 1 s)) s in
      case guest_munmap anon_map (int_ret r) (areg 0 s) (areg 1 s) (px_tracker s') of
        None \<Rightarrow> Undef
      | Some (Inl rc) \<Rightarrow> ck_outcome.Exit rc
      | Some (Inr (rv, t)) \<Rightarrow>
          give_back (scast (cvt_error (hr_errno r) rv)) None (s'\<lparr>px_tracker := t\<rparr>))"

definition abi_sys_mremap :: "'w proxy \<Rightarrow> 'w proxy ck_outcome" where
  "abi_sys_mremap s = give_back (- 38) None s"

text \<open>Protections and flags have the same bits on a Linux host.\<close>

definition cvt_prot :: "u32 \<Rightarrow> u32" where
  "cvt_prot abi_prot =
     (if abi_prot AND 1 \<noteq> 0 then 1 else 0) OR (if abi_prot AND 2 \<noteq> 0 then 2 else 0) OR
     (if abi_prot AND 4 \<noteq> 0 then 4 else 0)"

definition cvt_map_flags :: "u32 \<Rightarrow> u32" where
  "cvt_map_flags abi_flags =
     (if abi_flags AND 1 \<noteq> 0 then 1 else 0) OR (if abi_flags AND 2 \<noteq> 0 then 2 else 0) OR
     (if abi_flags AND 0x10 \<noteq> 0 then 0x10 else 0) OR (if abi_flags AND 0x20 \<noteq> 0 then 0x20 else 0)"

definition abi_sys_mmap :: "(u64 \<Rightarrow> u64) \<Rightarrow> 'w host \<Rightarrow> 'w proxy \<Rightarrow> 'w proxy ck_outcome" where
  "abi_sys_mmap anon_map host s =
     (case guest_mmap anon_map (\<lambda>args s. let (r, s') = ask host (Hmmap args) s in (hr_ret r, s'))
        \<lparr>ma_addr = areg 0 s, ma_len = areg 1 s, ma_prot = cvt_prot (ucast (areg 2 s)),
         ma_flags = cvt_map_flags (ucast (areg 3 s)), ma_fd = ucast (areg 4 s), ma_offset = areg 5 s\<rparr>
        (px_tracker s) s of
        None \<Rightarrow> Undef
      | Some (Inl rc) \<Rightarrow> ck_outcome.Exit rc
      | Some (Inr (ret, t, s')) \<Rightarrow> give_back ret None (s'\<lparr>px_tracker := t\<rparr>))"

definition abi_sys_mprotect :: "'w host \<Rightarrow> 'w proxy \<Rightarrow> 'w proxy ck_outcome" where
  "abi_sys_mprotect host s =
     (let abi_prot = ucast (areg 2 s);
          (r, s') = ask host (Hmprotect (areg 0 s) (areg 1 s) abi_prot) s
      in give_back (int_result r) None s')"

definition abi_sys_madvise :: "'w proxy \<Rightarrow> 'w proxy ck_outcome" where
  "abi_sys_madvise s = Done (set_result 0 s)"

section \<open>The dispatcher\<close>

text \<open>An unknown number ends in \<^verbatim>\<open>panic\<close>, which exits with status 9.\<close>

definition proxy_syscall :: "(u64 \<Rightarrow> u64) \<Rightarrow> 'w host \<Rightarrow> 'w proxy \<Rightarrow> 'w proxy ck_outcome" where
  "proxy_syscall anon_map host s = switch (areg 7 s)
     [(17, abi_sys_getcwd host s), (25, abi_sys_fcntl host s), (29, abi_sys_ioctl host s),
      (35, abi_sys_unlinkat host s), (46, abi_sys_ftruncate host s), (48, abi_sys_faccessat host s),
      (56, abi_sys_openat host s), (57, abi_sys_close host s), (62, abi_sys_lseek host s),
      (63, abi_sys_read host s), (64, abi_sys_write host s), (65, abi_sys_readv host s),
      (66, abi_sys_writev host s), (67, abi_sys_pread host s), (68, abi_sys_pwrite host s),
      (78, abi_sys_readlinkat host s), (79, abi_sys_fstatat host s), (80, abi_sys_fstat host s),
      (93, abi_sys_exit s), (94, abi_sys_exit s), (96, abi_sys_set_tid_address s),
      (113, abi_sys_clock_gettime host s), (134, abi_sys_rt_sigaction s), (135, abi_sys_rt_sigprocmask s),
      (153, abi_sys_times host s), (160, abi_sys_uname host s), (165, abi_sys_getrusage host s),
      (169, abi_sys_gettimeofday host s), (178, abi_sys_gettid host s), (179, abi_sys_sysinfo s),
      (214, abi_sys_brk host s), (215, abi_sys_munmap anon_map host s), (216, abi_sys_mremap s),
      (220, abi_sys_clone host s), (221, abi_sys_execve s), (222, abi_sys_mmap anon_map host s),
      (226, abi_sys_mprotect host s), (233, abi_sys_madvise s), (260, abi_sys_wait4 host s),
      (261, abi_sys_prlimit64 s), (1024, abi_sys_open host s), (1026, abi_sys_unlink host s),
      (1038, abi_sys_stat host s), (1039, abi_sys_chown host s)]
     (ck_outcome.Exit 9)"

end
