(* ===== verification/Proxy.thy ===== *)
theory Proxy
  imports Syscalls
begin

text \<open>
  The user mode emulator before its first instruction (\<^verbatim>\<open>src/src/emu/processor-proxy.h\<close>): the
  mapping of the segments of the executable and of the stack, and the arguments, the environment and
  the auxiliary vector on the stack. Reading the ELF file is left out: a program header is an
  argument, and so is the descriptor that opening the file returned. Strings are byte lists without
  the terminating zero.
\<close>

unbundle bit_operations_syntax

definition sp_of :: "'w proxy \<Rightarrow> u64" where
  "sp_of s = px_ireg s ! 2"

definition set_sp :: "u64 \<Rightarrow> 'w proxy \<Rightarrow> 'w proxy" where
  "set_sp v s = s\<lparr>px_ireg := (px_ireg s)[2 := v]\<rparr>"

text \<open>Going on after a part of a function that may panic.\<close>

definition and_then :: "'a ck_outcome \<Rightarrow> ('a \<Rightarrow> 'b ck_outcome) \<Rightarrow> 'b ck_outcome" where
  "and_then r f = (case r of Done x \<Rightarrow> f x | ck_outcome.Exit rc \<Rightarrow> ck_outcome.Exit rc | Undef \<Rightarrow> Undef)"

lemma and_then_Done: "and_then r f = Done y \<longleftrightarrow> (\<exists>x. r = Done x \<and> f x = Done y)"
  by (simp add: and_then_def split: ck_outcome.splits)

section \<open>Mapping\<close>

definition kernel_mmap :: "'w host \<Rightarrow> mmap_args \<Rightarrow> 'w proxy \<Rightarrow> u64 \<times> 'w proxy" where
  "kernel_mmap host args s = (let (r, s') = ask host (Hmmap args) s in (hr_ret r, s'))"

definition map_guest :: "(u64 \<Rightarrow> u64) \<Rightarrow> 'w host \<Rightarrow> mmap_args \<Rightarrow> 'w proxy \<Rightarrow> (u64 \<times> 'w proxy) ck_outcome" where
  "map_guest anon_map host args s =
     (case guest_mmap anon_map (kernel_mmap host) args (px_tracker s) s of
        None \<Rightarrow> Undef
      | Some (Inl rc) \<Rightarrow> ck_outcome.Exit rc
      | Some (Inr (addr, t, s')) \<Rightarrow> Done (addr, s'\<lparr>px_tracker := t\<rparr>))"

definition push_segment :: "u64 \<Rightarrow> u64 \<Rightarrow> proxy_memory \<Rightarrow> proxy_memory" where
  "push_segment addr len m = m\<lparr>pm_segments := pm_segments m @ [(addr, len)]\<rparr>"

text \<open>A failure of \<^verbatim>\<open>mmap\<close> ends in \<^verbatim>\<open>panic\<close>.\<close>

definition map_proxy_stack :: "(u64 \<Rightarrow> u64) \<Rightarrow> 'w host \<Rightarrow> u64 \<Rightarrow> u64 \<Rightarrow> 'w proxy \<Rightarrow> 'w proxy ck_outcome" where
  "map_proxy_stack anon_map host stack_top stack_size s =
     and_then (map_guest anon_map host \<lparr>ma_addr = stack_top - stack_size, ma_len = stack_size, ma_prot = 3,
       ma_flags = 0x32, ma_fd = - 1, ma_offset = 0\<rparr> s) (\<lambda>(addr, s).
     if addr = MAP_FAILED then ck_outcome.Exit 9
     else Done (set_sp stack_top (s\<lparr>px_mem := push_segment (stack_top - stack_size) stack_size (px_mem s)\<rparr>)))"

record elf_phdr =
  p_flags :: u32
  p_offset :: u64
  p_vaddr :: u64
  p_filesz :: u64
  p_memsz :: u64

definition elf_p_flags_mmap :: "u32 \<Rightarrow> u32" where
  "elf_p_flags_mmap v =
     (if v AND 1 \<noteq> 0 then 4 else 0) OR (if v AND 2 \<noteq> 0 then 2 else 0) OR (if v AND 4 \<noteq> 0 then 1 else 0)"

text \<open>
  \<open>fd\<close> is the descriptor of the executable. The second component of the result is \<^verbatim>\<open>imagebase\<close>.
  Addresses are compared as signed numbers.
\<close>

definition map_load_segment_user :: "(u64 \<Rightarrow> u64) \<Rightarrow> 'w host \<Rightarrow> u32 \<Rightarrow> elf_phdr \<Rightarrow> u64 \<Rightarrow> u64 \<Rightarrow> 'w proxy \<Rightarrow>
    ('w proxy \<times> u64) ck_outcome" where
  "map_load_segment_user anon_map host fd phdr voffset imagebase s =
     (if fd <s 0 then ck_outcome.Exit 9
      else
        let map_delta = p_offset phdr AND (4096 - 1);
            map_offset = p_offset phdr - map_delta;
            map_vaddr = p_vaddr phdr + voffset - map_delta;
            map_len = round_up (p_memsz phdr + map_delta) 4096;
            map_end = map_vaddr + map_len;
            brk = p_vaddr phdr + voffset + p_memsz phdr;
            imagebase' = (if imagebase = 0 then map_vaddr else imagebase)
        in and_then (map_guest anon_map host \<lparr>ma_addr = map_vaddr, ma_len = map_len,
             ma_prot = elf_p_flags_mmap (p_flags phdr), ma_flags = 0x12, ma_fd = fd, ma_offset = map_offset\<rparr> s) (\<lambda>(addr, s1).
           let (r, s2) = ask host (Hclose fd) s1 in
           if addr = MAP_FAILED then ck_outcome.Exit 9
           else
             let start = p_vaddr phdr + voffset + p_filesz phdr;
                 s3 = (if p_flags phdr AND 2 \<noteq> 0 \<and> p_filesz phdr < p_memsz phdr
                   then s2\<lparr>px_gm := put_bytes start (replicate (unat (map_end - start)) 0) (px_gm s2)\<rparr> else s2);
                 m = push_segment map_vaddr map_len (px_mem s3);
                 m' = (if pm_heap_begin m <s map_end then m\<lparr>pm_heap_begin := map_end, pm_heap_end := map_end\<rparr> else m);
                 m'' = (if pm_brk m' <s brk then m'\<lparr>pm_brk := brk\<rparr> else m')
             in Done (s3\<lparr>px_mem := m''\<rparr>, imagebase')))"

section \<open>The stack\<close>

definition copy_to_proxy_stack :: "u64 \<Rightarrow> u64 \<Rightarrow> u8 list \<Rightarrow> 'w proxy \<Rightarrow> 'w proxy ck_outcome" where
  "copy_to_proxy_stack stack_top stack_size data s =
     (let s' = set_sp (sp_of s - of_nat (length data)) s
      in if stack_size < stack_top - sp_of s' then ck_outcome.Exit 9
         else Done (s'\<lparr>px_gm := put_bytes (sp_of s') data (px_gm s')\<rparr>))"

text \<open>The random words, pushed without a check.\<close>

fun push_random :: "u32 list \<Rightarrow> 'w proxy \<Rightarrow> 'w proxy" where
  "push_random [] s = s"
| "push_random (random # randoms) s =
     (let s' = set_sp (sp_of s - 4) s
      in push_random randoms (s'\<lparr>px_gm := put_bytes (sp_of s') (le_bytes 4 (ucast random)) (px_gm s')\<rparr>))"

text \<open>Strings, each with its zero; the addresses are collected in the order of the strings.\<close>

fun push_strings :: "u64 \<Rightarrow> u64 \<Rightarrow> u8 list list \<Rightarrow> 'w proxy \<Rightarrow> (u64 list \<times> 'w proxy) ck_outcome" where
  "push_strings stack_top stack_size [] s = Done ([], s)"
| "push_strings stack_top stack_size (str # strs) s =
     and_then (copy_to_proxy_stack stack_top stack_size (str @ [0]) s) (\<lambda>s'.
     and_then (push_strings stack_top stack_size strs s') (\<lambda>(ps, s'').
     Done (sp_of s' # ps, s'')))"

record proxy_ids =
  id_imagebase :: u64
  id_phoff :: u64
  id_phnum :: u16
  id_phentsize :: u16
  id_uid :: u32
  id_euid :: u32
  id_gid :: u32
  id_egid :: u32

definition aux_data :: "proxy_ids \<Rightarrow> u64 \<Rightarrow> u64 list" where
  "aux_data ids random_data =
     [7, id_imagebase ids, 3, id_imagebase ids + id_phoff ids, 5, ucast (id_phnum ids), 4, ucast (id_phentsize ids),
      6, 4096, 25, random_data, 11, ucast (id_uid ids), 12, ucast (id_euid ids), 13, ucast (id_gid ids),
      14, ucast (id_egid ids), 0, 0]"

definition le_words :: "u64 list \<Rightarrow> u8 list" where
  "le_words ws = concat (map (le_bytes 8) ws)"

definition setup_proxy_stack :: "u32 list \<Rightarrow> proxy_ids \<Rightarrow> u8 list list \<Rightarrow> u8 list list \<Rightarrow> u64 \<Rightarrow> u64 \<Rightarrow>
    'w proxy \<Rightarrow> 'w proxy ck_outcome" where
  "setup_proxy_stack randoms ids host_cmdline host_env stack_top stack_size s =
     (let s1 = push_random randoms s; aux = aux_data ids (sp_of s1) in
      and_then (push_strings stack_top stack_size host_env s1) (\<lambda>(env_data, s2).
      and_then (push_strings stack_top stack_size host_cmdline s2) (\<lambda>(arg_data, s3).
      and_then (copy_to_proxy_stack stack_top stack_size (le_words aux) (set_sp (sp_of s3 AND NOT 15) s3)) (\<lambda>s4.
      and_then (copy_to_proxy_stack stack_top stack_size (le_words (env_data @ [0])) s4) (\<lambda>s5.
      and_then (copy_to_proxy_stack stack_top stack_size (le_words (arg_data @ [0])) s5) (\<lambda>s6.
      copy_to_proxy_stack stack_top stack_size (le_bytes 8 (of_nat (length host_cmdline))) s6))))))"

end
