(* ===== verification/Syscalls_Spec.thy ===== *)
theory Syscalls_Spec
  imports Syscalls
begin

text \<open>
  What the recorder keeps of a system call is what the call did. The replay of a checkpoint puts the
  recorded call in place of the real one, so the recorded value has to be the one that the program
  saw, and the recorded bytes all that the call changed in memory. This holds for the calls that
  \<open>recordable\<close> lists, and it carries over to the replay.
\<close>

unbundle bit_operations_syntax

section \<open>The recorded call\<close>

definition call_of :: "u64 \<Rightarrow> (u64 \<times> u8 list) option \<Rightarrow> sys_call" where
  "call_of v res = \<lparr>sc_retval = v, sc_is_break = False, sc_waddr = map_option fst res,
     sc_wdata = (case res of None \<Rightarrow> [] | Some (a, bs) \<Rightarrow> bs)\<rparr>"

definition recording :: "'w proxy \<Rightarrow> bool" where
  "recording s \<longleftrightarrow> ck_inv (px_ckpt s) \<and> ck_mem (px_ckpt s) \<noteq> None"

text \<open>
  The step from \<open>s\<close> to \<open>s'\<close> is recorded as the call \<open>sc\<close>: one event was written, and registers and
  memory changed as the call says.
\<close>

definition recorded_step :: "'w proxy \<Rightarrow> 'w proxy \<Rightarrow> sys_call \<Rightarrow> bool" where
  "recorded_step s s' sc \<longleftrightarrow> recording s' \<and>
     (\<exists>v res es. sc = call_of v res \<and> ck_out (px_ckpt s) = Some es \<and>
        ck_out (px_ckpt s') = Some (es @ [EvReturn v res])) \<and>
     px_ireg s' = (px_ireg s)[10 := sc_retval sc] \<and> px_gm s' = after_call sc (px_gm s)"

text \<open>\<open>gm'\<close> differs from \<open>gm\<close> at most in the \<open>n\<close> bytes at \<open>a\<close>.\<close>

definition confined :: "u64 \<Rightarrow> nat \<Rightarrow> guest \<Rightarrow> guest \<Rightarrow> bool" where
  "confined a n gm gm' \<longleftrightarrow> (\<forall>x. x < unat a \<or> unat a + n \<le> x \<longrightarrow> gm' x = gm x)"

definition room :: "u64 \<Rightarrow> nat \<Rightarrow> bool" where
  "room a n \<longleftrightarrow> 4096 \<le> unat a \<and> unat a + n < 2 ^ 64"

lemma confined_refl [simp]: "confined a n gm gm"
  by (simp add: confined_def)

lemma confined_put_bytes:
  "confined a n gm gm' \<Longrightarrow> unat a \<le> unat b \<Longrightarrow> unat b + length bs \<le> unat a + n \<Longrightarrow>
   confined a n gm (put_bytes b bs gm')"
  by (simp add: confined_def put_bytes_def)

lemma confined_put_fields:
  assumes "confined a n gm gm'" "unat a + n < 2 ^ 64" "list_all (\<lambda>(off, k, v). off + k \<le> n) fs"
  shows "confined a n gm (put_members a fs gm')"
  using assms(1,3) unfolding put_members_def
proof (induction fs arbitrary: gm')
  case (Cons f fs)
  obtain off k v where f: "f = (off, k, v)" by (cases f)
  have "unat (a + of_nat off) = unat a + off" using assms(2) Cons.prems(2) by (intro unat_plus) (simp add: f)
  then have "confined a n gm (put_bytes (a + of_nat off) (le_bytes k v) gm')"
    using Cons.prems by (intro confined_put_bytes) (simp_all add: f)
  then show ?case using Cons by (simp add: f)
qed simp

lemma put_confined:
  "confined a n gm gm' \<Longrightarrow> put_bytes a (map (\<lambda>i. gm' (unat a + i)) [0..<n]) gm = gm'"
  by (rule ext) (auto simp: confined_def put_bytes_def)

definition covered :: "(u64 \<times> nat) option \<Rightarrow> guest \<Rightarrow> guest \<Rightarrow> bool" where
  "covered res gm gm' \<longleftrightarrow> (case res of None \<Rightarrow> gm' = gm | Some (a, n) \<Rightarrow> room a n \<and> confined a n gm gm')"

lemma covered_None [simp]: "covered None gm gm' \<longleftrightarrow> gm' = gm"
  by (simp add: covered_def)

lemma covered_buffer: "room a n \<Longrightarrow> covered (buffer a n) gm gm' \<longleftrightarrow> confined a n gm gm'"
  by (auto simp: covered_def buffer_def room_def)

lemma ck_syscall_recorded:
  assumes "ck_inv ck" "ck_mem ck \<noteq> None" "covered res gm gm'"
  shows "\<exists>ck' bs. ck_syscall gm' v res ck = Done ck' \<and> ck_inv ck' \<and> ck_mem ck' \<noteq> None \<and>
    ck_out ck' = map_option (\<lambda>es. es @ [EvReturn v bs]) (ck_out ck) \<and> after_call (call_of v bs) gm = gm'"
proof (cases res)
  case None
  then show ?thesis using assms
    by (intro exI [of _ "ck_print (EvReturn v None) ck"] exI [of _ None])
      (auto simp: ck_syscall_def ck_print_def ck_inv_def after_call_def call_of_def)
next
  case (Some x)
  obtain a n where x: "x = (a, n)" by (cases x)
  have r: "4096 \<le> unat a" "unat a + n < 2 ^ 64" "confined a n gm gm'"
    using assms(3) by (simp_all add: Some x covered_def room_def)
  obtain ck' where ck': "ck_syscall gm' v res ck = Done ck'" "ck_inv ck'"
    using ck_syscall_valid [OF assms(1) r(1,2), of gm' v] unfolding Some x by blast
  have "ck_mem ck' \<noteq> None \<and> ck_out ck' = map_option (\<lambda>es. es @ [EvReturn v (Some (a, map (\<lambda>i. gm' (unat a + i)) [0..<n]))]) (ck_out ck)"
    using ck'(1) assms(2) by (auto simp: Some x ck_syscall_def ck_print_def split: option.splits)
  then show ?thesis using ck' put_confined [OF r(3)]
    by (intro exI [of _ ck'] exI [of _ "Some (a, map (\<lambda>i. gm' (unat a + i)) [0..<n])"]) (simp add: after_call_def call_of_def)
qed

lemma give_back_recorded:
  assumes "recording s" "px_ckpt s1 = px_ckpt s" "px_ireg s1 = px_ireg s" "covered res (px_gm s) (px_gm s1)"
  shows "\<exists>s' sc. give_back v res s1 = Done s' \<and> recorded_step s s' sc"
proof -
  have ck: "ck_inv (px_ckpt s)" "ck_mem (px_ckpt s) \<noteq> None" using assms(1) by (simp_all add: recording_def)
  then obtain es where es: "ck_out (px_ckpt s) = Some es" by (auto simp: ck_inv_def)
  obtain ck' bs where c: "ck_syscall (px_gm s1) v res (px_ckpt s) = Done ck'" "ck_inv ck'" "ck_mem ck' \<noteq> None"
    "ck_out ck' = Some (es @ [EvReturn v bs])" "after_call (call_of v bs) (px_gm s) = px_gm s1"
    using ck_syscall_recorded [OF ck assms(4), of v] unfolding es by auto
  then have "recorded_step s (set_result v (s1\<lparr>px_ckpt := ck'\<rparr>)) (call_of v bs)"
    using es assms(3) unfolding recorded_step_def recording_def set_result_def by (auto simp: call_of_def)
  then show ?thesis using c(1) assms(2) by (auto simp: give_back_def)
qed

section \<open>The kernel\<close>

definition fills :: "u64 \<Rightarrow> nat \<Rightarrow> host_ret \<Rightarrow> bool" where
  "fills buf n r \<longleftrightarrow> (\<forall>(a, bs) \<in> set (hr_out r). unat buf \<le> unat a \<and> unat a + length bs \<le> unat buf + n)"

definition positive :: "u32 \<Rightarrow> nat" where
  "positive ret = (if 0 <s ret then unat ret else 0)"

text \<open>
  What the manual pages say a call writes: reading calls write the bytes that they return, the others
  nothing but the structures that are results here. \<^verbatim>\<open>F_GETLK\<close>, \<^verbatim>\<open>readv\<close>,
  \<^verbatim>\<open>wait4\<close> and mappings are left open.
\<close>

fun writes_ok :: "guest \<Rightarrow> host_call \<Rightarrow> host_ret \<Rightarrow> bool" where
  "writes_ok gm (Hread fd buf n) r = fills buf (positive (int_ret r)) r"
| "writes_ok gm (Hpread fd buf n off) r = fills buf (positive (int_ret r)) r"
| "writes_ok gm (Hreadlinkat fd path buf n) r = fills buf (positive (int_ret r)) r"
| "writes_ok gm (Hgetcwd buf n) r =
     (fills buf (unat n) r \<and> (hr_ret r \<noteq> 0 \<longrightarrow> c_strlen (host_writes r gm) (hr_ret r) \<noteq> None))"
| "writes_ok gm (Hfcntl fd cmd x) r = (cmd = 5 \<or> hr_out r = [])"
| "writes_ok gm (Hreadv fd iov) r = True"
| "writes_ok gm (Hwait4 pid status options) r = True"
| "writes_ok gm (Hmmap args) r = True"
| "writes_ok gm (Hmunmap addr len) r = True"
| "writes_ok gm c r = (hr_out r = [])"

definition documented :: "'w host \<Rightarrow> bool" where
  "documented host \<longleftrightarrow> (\<forall>c gm w. writes_ok gm c (fst (host c gm w)))"

lemma confined_host_writes: "fills buf n r \<Longrightarrow> confined buf n gm (host_writes r gm)"
proof -
  have "fills buf n (r\<lparr>hr_out := os\<rparr>) \<Longrightarrow> confined buf n gm gm' \<Longrightarrow> confined buf n gm (fold (\<lambda>(a, bs). put_bytes a bs) os gm')" for os gm'
  proof (induction os arbitrary: gm')
    case (Cons o1 os)
    then have "confined buf n gm ((\<lambda>(a, bs). put_bytes a bs) o1 gm')"
      by (cases o1) (auto simp: fills_def intro: confined_put_bytes)
    then show ?case using Cons by (simp add: fills_def)
  qed simp
  from this [of "hr_out r" gm] show "fills buf n r \<Longrightarrow> confined buf n gm (host_writes r gm)"
    by (simp add: host_writes_def)
qed

lemma askE:
  assumes "documented host"
  obtains r s1 where "ask host c s = (r, s1)" "writes_ok (px_gm s) c r" "px_ckpt s1 = px_ckpt s"
    "px_ireg s1 = px_ireg s" "px_gm s1 = host_writes r (px_gm s)" "r = fst (host c (px_gm s) (px_world s))"
    "px_mem s1 = px_mem s"
proof (rule that)
  let ?r = "fst (host c (px_gm s) (px_world s))"
  let ?s = "s\<lparr>px_gm := host_writes ?r (px_gm s), px_world := snd (host c (px_gm s) (px_world s))\<rparr>"
  show "ask host c s = (?r, ?s)" by (simp add: ask_def split_beta)
  show "writes_ok (px_gm s) c ?r" using assms by (simp add: documented_def)
qed simp_all

lemma host_writes_Nil [simp]: "hr_out r = [] \<Longrightarrow> host_writes r gm = gm"
  by (simp add: host_writes_def)

section \<open>Calls by shape\<close>

named_theorems recorded_calls

definition ends_recorded :: "'w proxy \<Rightarrow> 'w proxy ck_outcome \<Rightarrow> bool" where
  "ends_recorded s out \<longleftrightarrow> (\<exists>s' sc. out = Done s' \<and> recorded_step s s' sc)"

lemma give_back_ends:
  "recording s \<Longrightarrow> px_ckpt s1 = px_ckpt s \<Longrightarrow> px_ireg s1 = px_ireg s \<Longrightarrow> covered res (px_gm s) (px_gm s1) \<Longrightarrow>
   ends_recorded s (give_back v res s1)"
  unfolding ends_recorded_def by (rule give_back_recorded)

lemma constant_call: "recording s \<Longrightarrow> ends_recorded s (give_back v None s)"
  by (rule give_back_ends) simp_all

definition quiet :: "host_call \<Rightarrow> bool" where
  "quiet c \<longleftrightarrow> (\<forall>gm r. writes_ok gm c r \<longrightarrow> hr_out r = [])"

definition reads_into :: "u64 \<Rightarrow> host_call \<Rightarrow> bool" where
  "reads_into buf c \<longleftrightarrow> (\<forall>gm r. writes_ok gm c r \<longrightarrow> fills buf (positive (int_ret r)) r)"

lemma quiet_call:
  assumes "documented host" "recording s" "quiet c"
  shows "ends_recorded s (let (r, s1) = ask host c s in give_back (f r) None s1)"
proof (rule askE [OF assms(1), of c s])
  fix r s1 assume a: "ask host c s = (r, s1)" "writes_ok (px_gm s) c r" "px_ckpt s1 = px_ckpt s"
    "px_ireg s1 = px_ireg s" "px_gm s1 = host_writes r (px_gm s)"
  have "hr_out r = []" using a(2) assms(3) unfolding quiet_def by blast
  then show ?thesis using a by (simp add: give_back_ends [OF assms(2)])
qed

lemma struct_call:
  assumes "documented host" "recording s" "quiet c" "room a n" "\<And>r gm. confined a n gm (g r gm)"
  shows "ends_recorded s (let (r, s1) = ask host c s in give_back (f r) (buffer a n) (s1\<lparr>px_gm := g r (px_gm s1)\<rparr>))"
proof (rule askE [OF assms(1), of c s])
  fix r s1 assume a: "ask host c s = (r, s1)" "writes_ok (px_gm s) c r" "px_ckpt s1 = px_ckpt s"
    "px_ireg s1 = px_ireg s" "px_gm s1 = host_writes r (px_gm s)"
  have "hr_out r = []" using a(2) assms(3) unfolding quiet_def by blast
  then show ?thesis using a assms(5) by (simp add: give_back_ends [OF assms(2)] covered_buffer [OF assms(4)])
qed

lemma struct_call_ok:
  assumes "documented host" "recording s" "quiet c" "room a n" "\<And>r gm. confined a n gm (g r gm)"
    and "int_ret (fst (host c (px_gm s) (px_world s))) = 0"
  shows "ends_recorded s (let (r, s1) = ask host c s; s2 = s1\<lparr>px_gm := g r (px_gm s1)\<rparr>
    in if int_ret r = 0 then give_back 0 (buffer a n) s2 else give_back (f r) None s2)"
proof (rule askE [OF assms(1), of c s])
  fix r s1 assume a: "ask host c s = (r, s1)" "writes_ok (px_gm s) c r" "px_ckpt s1 = px_ckpt s"
    "px_ireg s1 = px_ireg s" "px_gm s1 = host_writes r (px_gm s)" "r = fst (host c (px_gm s) (px_world s))"
  have "hr_out r = []" using a(2) assms(3) unfolding quiet_def by blast
  then show ?thesis using a assms(5,6) by (simp add: Let_def give_back_ends [OF assms(2)] covered_buffer [OF assms(4)])
qed

lemma unat_positive: "0 <s x \<Longrightarrow> unat (x :: u32) < 2 ^ 31"
proof -
  assume "0 <s x"
  then have "0 < sint x" by (simp add: word_sless_alt)
  moreover have "sint x < 2 ^ 31" using sint_lt [of x] by simp
  moreover have "uint x = take_bit 32 (sint x)" using uint_sint [of x] by simp
  moreover have "take_bit 32 (sint x) = sint x"
    by (rule take_bit_int_eq_self) (use calculation(1,2) in simp_all)
  ultimately have "uint x < 2 ^ 31" by linarith
  then have "int (unat x) < int (2 ^ 31)" by simp
  then show ?thesis by (simp only: of_nat_less_iff)
qed

lemma buffer_call:
  assumes "documented host" "recording s" "reads_into buf c" "room buf (2 ^ 31)"
  shows "ends_recorded s (let (r, s1) = ask host c s in give_buffer buf r s1)"
proof (rule askE [OF assms(1), of c s])
  fix r s1 assume a: "ask host c s = (r, s1)" "writes_ok (px_gm s) c r" "px_ckpt s1 = px_ckpt s"
    "px_ireg s1 = px_ireg s" "px_gm s1 = host_writes r (px_gm s)"
  have f: "fills buf (positive (int_ret r)) r" using a(2) assms(3) unfolding reads_into_def by blast
  then have conf: "confined buf (positive (int_ret r)) (px_gm s) (px_gm s1)"
    unfolding a(5) by (rule confined_host_writes)
  have "ends_recorded s (give_buffer buf r s1)"
  proof (cases "0 <s int_ret r")
    case True
    then have "unat (int_ret r) < 2 ^ 31" by (rule unat_positive)
    then have "room buf (unat (int_ret r))" using assms(4) by (simp add: room_def)
    then show ?thesis using True conf a(3,4)
      by (simp add: give_buffer_def positive_def give_back_ends [OF assms(2)] covered_buffer)
  next
    case False
    then have "px_gm s1 = px_gm s" using conf by (simp add: positive_def confined_def fun_eq_iff not_less [symmetric])
    then show ?thesis using False a(3,4) by (simp add: give_buffer_def give_back_ends [OF assms(2)])
  qed
  then show ?thesis using a(1) by simp
qed

section \<open>Every recordable call\<close>

lemma confined_stat: "room a sizeof_abi_stat \<Longrightarrow> confined a sizeof_abi_stat gm (cvt_abi_stat a h gm)"
  unfolding cvt_abi_stat_def by (rule confined_put_fields) (simp_all add: room_def sizeof_abi_stat_def)

lemma confined_rusage: "room a sizeof_abi_rusage \<Longrightarrow> confined a sizeof_abi_rusage gm (cvt_abi_rusage a h gm)"
  unfolding cvt_abi_rusage_def by (rule confined_put_fields) (simp_all add: room_def sizeof_abi_rusage_def)

lemma confined_utsname:
  assumes "room a sizeof_abi_new_utsname"
  shows "confined a sizeof_abi_new_utsname gm (put_utsname a h gm)"
proof -
  have u: "unat (a + 65) = unat a + 65" "unat (a + 130) = unat a + 130" "unat (a + 195) = unat a + 195" "unat (a + 260) = unat a + 260"
    using unat_plus [of a 65] unat_plus [of a 130] unat_plus [of a 195] unat_plus [of a 260] assms
    by (simp_all add: room_def sizeof_abi_new_utsname_def)
  show ?thesis unfolding put_utsname_def c_strncpy_def
    by (intro confined_put_bytes confined_refl) (auto simp: u sizeof_abi_new_utsname_def min_def)
qed

lemma quiet_calls:
  "quiet (Hioctl_TIOCGWINSZ fd)" "quiet (Hunlinkat fd p fl)" "quiet (Hftruncate fd n)" "quiet (Hfaccessat fd p m fl)"
  "quiet (Hopenat fd p fl m)" "quiet (Hclose fd)" "quiet (Hlseek fd off wh)" "quiet (Hwrite fd p n)"
  "quiet (Hwritev fd iov)" "quiet (Hpwrite fd p n off)" "quiet (Hfstatat fd p fl)" "quiet (Hfstat fd)" "quiet (Hopen p fl m)"
  "quiet (Hunlink p)" "quiet (Hstat p)" "quiet (Hchown p uid gid)" "quiet Htime_ns" "quiet Htimes" "quiet Huname"
  "quiet (Hgetrusage who)" "quiet (Hmprotect p n prot)" "cmd \<noteq> 5 \<Longrightarrow> quiet (Hfcntl fd cmd x)"
  by (simp_all add: quiet_def)

lemma reading_calls:
  "reads_into buf (Hread fd buf n)" "reads_into buf (Hpread fd buf n off)" "reads_into buf (Hreadlinkat fd p buf n)"
  by (simp_all add: reads_into_def)

text \<open>
  The calls that the record can express. Buffers lie above the first page, which the recorder cannot
  trace, and below the end of the address space.
\<close>

definition recordable :: "'w host \<Rightarrow> 'w proxy \<Rightarrow> bool" where
  "recordable host s \<longleftrightarrow> (let n = areg 7 s; succeeds = (\<lambda>c. int_ret (fst (host c (px_gm s) (px_world s))) = 0) in
     n \<in> {35, 46, 48, 56, 57, 62, 64, 68, 134, 135, 216, 226, 1024, 1026, 1039} \<or>
     n = 25 \<and> areg 1 s \<noteq> 5 \<or>
     n = 29 \<and> areg 1 s \<noteq> TIOCGWINSZ \<or>
     n = 214 \<and> (areg 0 s = 0 \<or> areg 0 s \<le>s pm_heap_end (px_mem s)) \<or>
     n = 17 \<and> room (areg 0 s) (unat (areg 1 s)) \<or>
     n \<in> {63, 67} \<and> room (areg 1 s) (2 ^ 31) \<or>
     n = 78 \<and> room (areg 2 s) (2 ^ 31) \<or>
     n = 113 \<and> (areg 1 s = 0 \<or> room (areg 1 s) sizeof_abi_timespec) \<or>
     n = 153 \<and> room (areg 0 s) sizeof_abi_tms \<or>
     n = 165 \<and> (areg 1 s = 0 \<or> room (areg 1 s) sizeof_abi_rusage) \<or>
     n = 179 \<and> room (areg 0 s) sizeof_abi_sysinfo \<or>
     n = 1038 \<and> room (areg 1 s) sizeof_abi_stat \<or>
     n = 80 \<and> room (areg 1 s) sizeof_abi_stat \<and> succeeds (Hfstat (ucast (areg 0 s))) \<or>
     n = 79 \<and> room (areg 2 s) sizeof_abi_stat \<and> succeeds (Hfstatat (dirfd (areg 0 s)) (areg 1 s) (ucast (areg 3 s))) \<or>
     n = 160 \<and> room (areg 0 s) sizeof_abi_new_utsname \<and> succeeds Huname)"

lemma fcntl_cmd_5: "fcntl_cmd x = 5 \<longleftrightarrow> x = 5"
  by (simp add: fcntl_cmd_def)

lemma quiet_handlers:
  assumes "documented host" "recording s"
  shows "ends_recorded s (abi_sys_unlinkat host s)" "ends_recorded s (abi_sys_ftruncate host s)"
    "ends_recorded s (abi_sys_faccessat host s)" "ends_recorded s (abi_sys_openat host s)"
    "ends_recorded s (abi_sys_close host s)" "ends_recorded s (abi_sys_lseek host s)"
    "ends_recorded s (abi_sys_write host s)" "ends_recorded s (abi_sys_pwrite host s)"
    "ends_recorded s (abi_sys_open host s)" "ends_recorded s (abi_sys_unlink host s)"
    "ends_recorded s (abi_sys_chown host s)" "ends_recorded s (abi_sys_mprotect host s)"
    "ends_recorded s (abi_sys_rt_sigaction s)" "ends_recorded s (abi_sys_rt_sigprocmask s)"
    "ends_recorded s (abi_sys_mremap s)"
    "areg 1 s \<noteq> 5 \<Longrightarrow> ends_recorded s (abi_sys_fcntl host s)"
    "areg 1 s \<noteq> TIOCGWINSZ \<Longrightarrow> ends_recorded s (abi_sys_ioctl host s)"
  unfolding abi_sys_unlinkat_def abi_sys_ftruncate_def abi_sys_faccessat_def abi_sys_openat_def abi_sys_close_def
    abi_sys_lseek_def abi_sys_write_def abi_sys_pwrite_def abi_sys_open_def abi_sys_unlink_def abi_sys_chown_def
    abi_sys_mprotect_def abi_sys_rt_sigaction_def abi_sys_rt_sigprocmask_def abi_sys_mremap_def abi_sys_fcntl_def
    abi_sys_ioctl_def Let_def
  by (simp_all add: quiet_call [OF assms, unfolded Let_def] quiet_calls constant_call [OF assms(2)] fcntl_cmd_5)

lemma buffer_handlers:
  assumes "documented host" "recording s"
  shows "room (areg 1 s) (2 ^ 31) \<Longrightarrow> ends_recorded s (abi_sys_read host s)"
    "room (areg 1 s) (2 ^ 31) \<Longrightarrow> ends_recorded s (abi_sys_pread host s)"
    "room (areg 2 s) (2 ^ 31) \<Longrightarrow> ends_recorded s (abi_sys_readlinkat host s)"
  unfolding abi_sys_read_def abi_sys_pread_def abi_sys_readlinkat_def
  by (rule buffer_call [OF assms]; simp add: reading_calls)+

lemma struct_handlers:
  assumes "documented host" "recording s"
  shows "room (areg 1 s) sizeof_abi_stat \<Longrightarrow> ends_recorded s (abi_sys_stat host s)"
    "room (areg 0 s) sizeof_abi_tms \<Longrightarrow> ends_recorded s (abi_sys_times host s)"
    "areg 1 s = 0 \<or> room (areg 1 s) sizeof_abi_rusage \<Longrightarrow> ends_recorded s (abi_sys_getrusage host s)"
    "areg 1 s = 0 \<or> room (areg 1 s) sizeof_abi_timespec \<Longrightarrow> ends_recorded s (abi_sys_clock_gettime host s)"
    "room (areg 1 s) sizeof_abi_stat \<Longrightarrow> int_ret (fst (host (Hfstat (ucast (areg 0 s))) (px_gm s) (px_world s))) = 0 \<Longrightarrow>
       ends_recorded s (abi_sys_fstat host s)"
    "room (areg 2 s) sizeof_abi_stat \<Longrightarrow>
       int_ret (fst (host (Hfstatat (dirfd (areg 0 s)) (areg 1 s) (ucast (areg 3 s))) (px_gm s) (px_world s))) = 0 \<Longrightarrow>
       ends_recorded s (abi_sys_fstatat host s)"
    "room (areg 0 s) sizeof_abi_new_utsname \<Longrightarrow> int_ret (fst (host Huname (px_gm s) (px_world s))) = 0 \<Longrightarrow>
       ends_recorded s (abi_sys_uname host s)"
    "room (areg 0 s) sizeof_abi_sysinfo \<Longrightarrow> ends_recorded s (abi_sys_sysinfo s)"
proof -
  show "room (areg 1 s) sizeof_abi_stat \<Longrightarrow> ends_recorded s (abi_sys_stat host s)"
    unfolding abi_sys_stat_def Let_def
    by (rule struct_call [OF assms quiet_calls(15), where g = "\<lambda>r. cvt_abi_stat (areg 1 s) (hr_stat r)", unfolded Let_def])
      (simp_all add: confined_stat)
  show "room (areg 0 s) sizeof_abi_tms \<Longrightarrow> ends_recorded s (abi_sys_times host s)"
    unfolding abi_sys_times_def Let_def
    by (rule struct_call [OF assms quiet_calls(18), where g = "\<lambda>r. put_members (areg 0 s) [(0, 8, tms_utime (hr_tms r)),
        (8, 8, tms_stime (hr_tms r)), (16, 8, tms_cutime (hr_tms r)), (24, 8, tms_cstime (hr_tms r))]", unfolded Let_def])
      (simp_all add: confined_put_fields room_def sizeof_abi_tms_def)
  show "areg 1 s = 0 \<or> room (areg 1 s) sizeof_abi_rusage \<Longrightarrow> ends_recorded s (abi_sys_getrusage host s)"
    unfolding abi_sys_getrusage_def Let_def
    using quiet_call [OF assms quiet_calls(20), where f = int_result, unfolded Let_def]
      struct_call [OF assms quiet_calls(20), where g = "\<lambda>r. cvt_abi_rusage (areg 1 s) (hr_rusage r)" and f = int_result
        and n = sizeof_abi_rusage and a = "areg 1 s", unfolded Let_def]
    by (cases "areg 1 s = 0") (simp_all add: confined_rusage cong del: prod.case_cong_weak)
  show "areg 1 s = 0 \<or> room (areg 1 s) sizeof_abi_timespec \<Longrightarrow> ends_recorded s (abi_sys_clock_gettime host s)"
    unfolding abi_sys_clock_gettime_def Let_def
    using constant_call [OF assms(2)] struct_call [OF assms quiet_calls(17), where f = "\<lambda>r. 0" and n = sizeof_abi_timespec and a = "areg 1 s"
        and g = "\<lambda>r. put_members (areg 1 s) [(0, 8, hr_ret r div 1000000000), (8, 8, hr_ret r mod 1000000000)]", unfolded Let_def]
    by (auto simp: confined_put_fields room_def sizeof_abi_timespec_def)
  show "room (areg 1 s) sizeof_abi_stat \<Longrightarrow> int_ret (fst (host (Hfstat (ucast (areg 0 s))) (px_gm s) (px_world s))) = 0 \<Longrightarrow>
       ends_recorded s (abi_sys_fstat host s)"
    unfolding abi_sys_fstat_def Let_def
    by (rule struct_call_ok [OF assms quiet_calls(12), where g = "\<lambda>r. cvt_abi_stat (areg 1 s) (hr_stat r)", unfolded Let_def])
      (simp_all add: confined_stat)
  show "room (areg 2 s) sizeof_abi_stat \<Longrightarrow>
       int_ret (fst (host (Hfstatat (dirfd (areg 0 s)) (areg 1 s) (ucast (areg 3 s))) (px_gm s) (px_world s))) = 0 \<Longrightarrow>
       ends_recorded s (abi_sys_fstatat host s)"
    unfolding abi_sys_fstatat_def Let_def
    by (rule struct_call_ok [OF assms quiet_calls(11), where g = "\<lambda>r. cvt_abi_stat (areg 2 s) (hr_stat r)", unfolded Let_def])
      (simp_all add: confined_stat)
  show "room (areg 0 s) sizeof_abi_new_utsname \<Longrightarrow> int_ret (fst (host Huname (px_gm s) (px_world s))) = 0 \<Longrightarrow>
       ends_recorded s (abi_sys_uname host s)"
    unfolding abi_sys_uname_def Let_def
    by (rule struct_call_ok [OF assms quiet_calls(19), where g = "\<lambda>r. put_utsname (areg 0 s) (hr_uname r)", unfolded Let_def])
      (simp_all add: confined_utsname)
  show "room (areg 0 s) sizeof_abi_sysinfo \<Longrightarrow> ends_recorded s (abi_sys_sysinfo s)"
    unfolding abi_sys_sysinfo_def Let_def
    by (rule give_back_ends [OF assms(2)]) (simp_all add: covered_buffer confined_put_bytes)
qed

lemma getcwd_handler:
  assumes "documented host" "recording s" "room (areg 0 s) (unat (areg 1 s))"
  shows "ends_recorded s (abi_sys_getcwd host s)"
proof (rule askE [OF assms(1), of "Hgetcwd (areg 0 s) (areg 1 s)" s])
  fix r s1 assume a: "ask host (Hgetcwd (areg 0 s) (areg 1 s)) s = (r, s1)" "writes_ok (px_gm s) (Hgetcwd (areg 0 s) (areg 1 s)) r"
    "px_ckpt s1 = px_ckpt s" "px_ireg s1 = px_ireg s" "px_gm s1 = host_writes r (px_gm s)"
  have "covered (buffer (areg 0 s) (unat (areg 1 s))) (px_gm s) (px_gm s1)"
    using a(2) confined_host_writes unfolding covered_buffer [OF assms(3)] a(5) by simp
  then have ends: "ends_recorded s (give_back v (buffer (areg 0 s) (unat (areg 1 s))) s1)" for v
    by (rule give_back_ends [OF assms(2) a(3,4)])
  show ?thesis using a(2) unfolding abi_sys_getcwd_def Let_def a(1)
    by (auto simp: a(5) [symmetric] ends [unfolded One_nat_def] split: option.splits)
qed

lemma brk_handler:
  assumes "recording s" "areg 0 s = 0 \<or> areg 0 s \<le>s pm_heap_end (px_mem s)"
  shows "ends_recorded s (abi_sys_brk host s)"
  using assms(2) unfolding abi_sys_brk_def Let_def
  by (auto intro!: give_back_ends [OF assms(1)])

lemma recordable_ends:
  assumes "documented host" "recording s" "recordable host s"
  shows "ends_recorded s (proxy_syscall anon_map host s)"
  using assms(3) quiet_handlers [OF assms(1,2)] buffer_handlers [OF assms(1,2)] struct_handlers [OF assms(1,2)]
    getcwd_handler [OF assms(1,2)] brk_handler [OF assms(2)]
  unfolding recordable_def Let_def proxy_syscall_def by (elim disjE conjE insertE emptyE) simp_all

section \<open>A recorded run and its replay\<close>

text \<open>
  The program in the emulator, from call to call: \<open>steps\<close> has for every call what the program does to
  the memory before it, and the registers it calls with. The result is the register file after every
  call, and the emulator at the end.
\<close>

definition at_call :: "(guest \<Rightarrow> guest) \<times> u64 list \<Rightarrow> 'w proxy \<Rightarrow> 'w proxy" where
  "at_call step s = s\<lparr>px_gm := fst step (px_gm s), px_ireg := snd step\<rparr>"

fun record_run :: "(u64 \<Rightarrow> u64) \<Rightarrow> 'w host \<Rightarrow> ((guest \<Rightarrow> guest) \<times> u64 list) list \<Rightarrow> 'w proxy \<Rightarrow>
    (u64 list list \<times> 'w proxy) option" where
  "record_run anon_map host [] s = Some ([], s)"
| "record_run anon_map host (step # steps) s =
     (case proxy_syscall anon_map host (at_call step s) of
        Done s' \<Rightarrow> map_option (\<lambda>(rs, s''). (px_ireg s' # rs, s'')) (record_run anon_map host steps s')
      | ck_outcome.Exit rc \<Rightarrow> None
      | Undef \<Rightarrow> None)"

fun recordable_run :: "(u64 \<Rightarrow> u64) \<Rightarrow> 'w host \<Rightarrow> ((guest \<Rightarrow> guest) \<times> u64 list) list \<Rightarrow> 'w proxy \<Rightarrow> bool" where
  "recordable_run anon_map host [] s = True"
| "recordable_run anon_map host (step # steps) s =
     (length (snd step) = 32 \<and> recordable host (at_call step s) \<and>
      (case proxy_syscall anon_map host (at_call step s) of Done s' \<Rightarrow> recordable_run anon_map host steps s' | _ \<Rightarrow> True))"

text \<open>The system calls that are listed in the output of the recorder.\<close>

fun recorded_call :: "event \<Rightarrow> sys_call list" where
  "recorded_call (EvReturn v res) = [call_of v res]"
| "recorded_call e = []"

lemma record_run_returns:
  assumes "documented host" "recording s" "recordable_run anon_map host steps s" "ck_out (px_ckpt s) = Some es"
  shows "\<exists>s' evs. let scs = concat (map recorded_call evs) in
    record_run anon_map host steps s = Some (map2 (\<lambda>step sc. (snd step)[10 := sc_retval sc]) steps scs, s') \<and> ck_out (px_ckpt s') = Some (es @ evs) \<and>
    length scs = length steps \<and> list_all (\<lambda>sc. \<not> sc_is_break sc) scs \<and>
    px_gm s' = recorded_run (map fst steps) scs (px_gm s)"
  using assms(2-4)
proof (induction steps arbitrary: s es)
  case Nil
  then show ?case by (intro exI [of _ s] exI [of _ "[]"]) simp
next
  case (Cons step steps)
  let ?s = "at_call step s"
  have rec: "recording ?s" "recordable host ?s" "length (px_ireg ?s) = 32" "ck_out (px_ckpt ?s) = Some es"
    "px_gm ?s = fst step (px_gm s)"
    using Cons.prems by (simp_all add: recording_def at_call_def)
  obtain s1 sc where s1: "proxy_syscall anon_map host ?s = Done s1" "recorded_step ?s s1 sc"
    using recordable_ends [OF assms(1) rec(1,2), of anon_map] unfolding ends_recorded_def by blast
  obtain v res where sc: "sc = call_of v res" "ck_out (px_ckpt s1) = Some (es @ [EvReturn v res])"
    and eff: "recording s1" "px_ireg s1 = (px_ireg ?s)[10 := sc_retval sc]" "px_gm s1 = after_call sc (fst step (px_gm s))"
    using s1(2) rec(4,5) unfolding recorded_step_def by auto
  have more: "recordable_run anon_map host steps s1" using Cons.prems(2) s1(1) by simp
  obtain s' evs where IH: "record_run anon_map host steps s1 =
      Some (map2 (\<lambda>step sc. (snd step)[10 := sc_retval sc]) steps (concat (map recorded_call evs)), s')"
    "ck_out (px_ckpt s') = Some ((es @ [EvReturn v res]) @ evs)" "length (concat (map recorded_call evs)) = length steps"
    "list_all (\<lambda>sc. \<not> sc_is_break sc) (concat (map recorded_call evs))"
    "px_gm s' = recorded_run (map fst steps) (concat (map recorded_call evs)) (px_gm s1)"
    using Cons.IH [OF eff(1) more sc(2)] unfolding Let_def by blast
  have "px_ireg s1 = (snd step)[10 := sc_retval sc]" using eff(2) by (simp add: at_call_def)
  then show ?case using IH s1(1) sc(1) eff(3)
    by (intro exI [of _ s'] exI [of _ "EvReturn v res # evs"]) (simp add: call_of_def)
qed

section \<open>Properties\<close>

text \<open>
  C3. A recorded system call is recorded as it happened. On a host whose calls write what their
  documentation says, while a checkpoint is open, every call that the record can express returns to
  the program; exactly one event is written; the value in it is the one in \<^verbatim>\<open>a0\<close>, no other
  register changes, and writing the bytes in it to their address turns the memory before the call
  into the memory after it.
\<close>

theorem syscall_recorded:
  assumes "documented host" "recording s" "recordable host s"
  shows "\<exists>s' sc. proxy_syscall anon_map host s = Done s' \<and> recorded_step s s' sc"
  using recordable_ends [OF assms] by (simp add: ends_recorded_def)

text \<open>A register file as the emulator has it.\<close>

definition reg_list :: "int_regs \<Rightarrow> u64 list" where
  "reg_list regs = map regs [0..<32]"

lemma reg_list_update: "reg_list (regs(10 := v)) = (reg_list regs)[10 := v]"
  by (rule nth_equalityI) (simp_all add: reg_list_def nth_list_update)

lemma reg_lists_after:
  "length vs = length scs \<Longrightarrow> map (reg_list \<circ> vs_regs) vs = map snd steps \<Longrightarrow>
   map reg_list (map2 (\<lambda>v sc. (vs_regs v)(10 := sc_retval sc)) vs scs) = map2 (\<lambda>step sc. (snd step)[10 := sc_retval sc]) steps scs"
proof (induction vs scs arbitrary: steps rule: list_induct2)
  case (Cons v vs sc scs)
  then show ?case by (cases steps) (simp_all add: reg_list_update del: fun_upd_apply)
qed simp

text \<open>
  C2. The replayed program sees what the recorded one saw. Let a run be recorded in the emulator from
  call to call, on a host whose calls do what their documentation says, with a checkpoint open, and let
  every call of the run be one that the record can express (\<^verbatim>\<open>recordable\<close>): a call that reports in
  \<^verbatim>\<open>a0\<close> and in at most one buffer that it recorded, outside the null page. Left out are
  \<^verbatim>\<open>readv\<close>, \<^verbatim>\<open>writev\<close>, \<^verbatim>\<open>set_tid_address\<close>, \<^verbatim>\<open>gettimeofday\<close>, \<^verbatim>\<open>gettid\<close>,
  \<^verbatim>\<open>munmap\<close>, \<^verbatim>\<open>mmap\<close>, \<^verbatim>\<open>clone\<close>, \<^verbatim>\<open>execve\<close>, \<^verbatim>\<open>madvise\<close>, \<^verbatim>\<open>wait4\<close>,
  \<^verbatim>\<open>prlimit64\<close> and the \<^verbatim>\<open>exit\<close> calls; a \<^verbatim>\<open>brk\<close> that extends the heap; \<^verbatim>\<open>fcntl\<close> with
  command 5 and \<^verbatim>\<open>ioctl\<close> with \<^verbatim>\<open>TIOCGWINSZ\<close>; and a failing \<^verbatim>\<open>fstat\<close>, \<^verbatim>\<open>fstatat\<close> or
  \<^verbatim>\<open>uname\<close>. For some of them the statement is false (\<^verbatim>\<open>readv_unrecorded\<close>,
  \<^verbatim>\<open>gettimeofday_unrecorded\<close>, \<^verbatim>\<open>failed_fstat_unrecorded\<close>). Let the replay stack that \<^verbatim>\<open>parse.py\<close> makes of the recorded calls
  be loaded into a memory that has the program's bytes everywhere else, and let neither the program nor a
  recorded write touch that area. Then the same program, with \<^verbatim>\<open>near_call\<close> in place of the system
  calls, starts with the recorded \<^verbatim>\<open>a0\<close> and stack pointer, has the same registers after every call as
  in the emulator, whatever the compiled routine leaves in the registers that it may change, and has
  the same memory at the end outside the area of the replay.
\<close>

theorem replay_repeats_recording:
  assumes "documented host" "recording s" "recordable_run anon_map host steps s" "ck_out (px_ckpt s) = Some es"
    and "record_run anon_map host steps s = Some (rs, s')" "ck_out (px_ckpt s') = Some (es @ evs)"
    and "scs = concat (map recorded_call evs)" "table = make_replay_table verbose first (scs @ rest) asserts"
    and "layout_ok R (length table) S" "A = replay_area R (length table) S" "list_all (call_ok A) scs"
    and "replay_loaded R S table sp gm" "agree A gm (px_gm s)"
    and "map vs_prog vs = map fst steps" "map (reg_list \<circ> vs_regs) vs = map snd steps" "list_all (ignores A) (map vs_prog vs)"
  shows "\<exists>gm1 gm' rs'.
    entry_call (near_buf_addr R (length table)) (replay_sp_addr R) ret clobber (cycle, instret) regs gm =
      Some (Inl (regs(10 := first, 2 := sp)), gm1, []) \<and>
    replay_run R (length table) vs gm1 = Some (rs', gm') \<and> map reg_list rs' = rs \<and> agree A gm' (px_gm s')"
proof -
  have r: "rs = map2 (\<lambda>step sc. (snd step)[10 := sc_retval sc]) steps scs" "length scs = length steps"
    "list_all (\<lambda>sc. \<not> sc_is_break sc) scs" "px_gm s' = recorded_run (map fst steps) scs (px_gm s)"
    using record_run_returns [OF assms(1-4)] assms(5-7) by (auto simp: Let_def)
  have len: "length vs = length scs" using arg_cong [OF assms(14), of length] r(2) by simp
  obtain gm1 gm' where e: "entry_call (near_buf_addr R (length table)) (replay_sp_addr R) ret clobber (cycle, instret) regs gm =
      Some (Inl (regs(10 := first, 2 := sp)), gm1, [])"
    "replay_run R (length table) vs gm1 = Some (map2 (\<lambda>v sc. (vs_regs v)(10 := sc_retval sc)) vs scs, gm')"
    "agree A gm' (recorded_run (map vs_prog vs) scs (px_gm s))"
    using replay_returns_recorded [OF assms(9) assms(12) [unfolded assms(8)] assms(8) [THEN arg_cong [of _ _ length]]
        assms(11) [unfolded assms(10)] r(3) len assms(16) [unfolded assms(10)] assms(13) [unfolded assms(10)],
        of ret clobber cycle instret regs]
    unfolding assms(10) by blast
  show ?thesis
    using e(1,2) reg_lists_after [OF len assms(15)] e(3) unfolding r(1,4) assms(14) by blast
qed

section \<open>Witnesses\<close>

text \<open>A host that answers every call with 0 and writes nothing.\<close>

definition sample_ret :: host_ret where
  "sample_ret = \<lparr>hr_ret = 0, hr_errno = 0, hr_out = [],
     hr_stat = \<lparr>st_dev = 0, st_ino = 0, st_mode = 0, st_nlink = 0, st_uid = 0, st_gid = 0, st_rdev = 0, st_bytes = 0,
       st_blocks = 0, st_blksize = 0, st_atime = (0, 0), st_mtime = (0, 0), st_ctime = (0, 0)\<rparr>,
     hr_rusage = \<lparr>ru_utime = (0, 0), ru_stime = (0, 0), ru_maxrss = 0, ru_ixrss = 0, ru_idrss = 0, ru_isrss = 0,
       ru_minflt = 0, ru_majflt = 0, ru_nswap = 0, ru_inblock = 0, ru_oublock = 0, ru_msgsnd = 0, ru_msgrcv = 0,
       ru_nsignals = 0, ru_nvcsw = 0, ru_nivcsw = 0\<rparr>,
     hr_tms = \<lparr>tms_utime = 0, tms_stime = 0, tms_cutime = 0, tms_cstime = 0\<rparr>,
     hr_uname = \<lparr>u_sysname = [], u_nodename = [], u_release = [], u_version = [], u_machine = []\<rparr>,
     hr_winsize = (0, 0, 0, 0), hr_timeval = (0, 0), hr_timezone = (0, 0)\<rparr>"

definition sample_host :: "unit host" where
  "sample_host c gm w = (sample_ret, w)"

definition sample_proxy :: "u64 list \<Rightarrow> unit proxy" where
  "sample_proxy regs = \<lparr>px_ireg = regs, px_gm = (\<lambda>_. 0),
     px_mem = \<lparr>pm_segments = [], pm_heap_begin = 0x10000, pm_heap_end = 0x10000, pm_brk = 0x10000\<rparr>,
     px_clear_child_tid = 0,
     px_ckpt = \<lparr>ck_out = Some [], ck_period = 1000, ck_begin_instret = 0, ck_mem = Some MemTrace_new, ck_monitor_pc = 0\<rparr>,
     px_env = sample_env, px_tracker = \<lparr>map_inited = False, map_meta = Map.empty\<rparr>, px_world = ()\<rparr>"

lemma sample_documented: "documented sample_host"
proof -
  have "hr_out sample_ret = []" "hr_ret sample_ret = 0" by (simp_all add: sample_ret_def)
  then have "writes_ok gm c sample_ret" for gm c
    by (cases "(gm, c, sample_ret)" rule: writes_ok.cases) (auto simp: fills_def)
  then show ?thesis by (simp add: documented_def sample_host_def)
qed

lemma sample_recording: "recording (sample_proxy regs)"
  by (simp add: recording_def sample_proxy_def ck_inv_def MemTrace_new_inv stores_ok_new)

theorem syscall_recorded_witness:
  "\<exists>s' sc. proxy_syscall (\<lambda>a. a) sample_host (sample_proxy ((replicate 32 0)[17 := 179, 10 := 0x1000])) = Done s' \<and>
    recorded_step (sample_proxy ((replicate 32 0)[17 := 179, 10 := 0x1000])) s' sc"
proof (rule syscall_recorded [OF sample_documented sample_recording])
  show "recordable sample_host (sample_proxy ((replicate 32 0)[17 := 179, 10 := 0x1000]))"
    by (simp add: recordable_def areg_def sample_proxy_def room_def sizeof_abi_sysinfo_def)
qed

theorem replay_repeats_recording_witness:
  "\<exists>gm1 gm' rs'. let table = make_replay_table False 42 [call_of 0 None] [];
      regs = (\<lambda>r. if r = 17 then 134 else 0);
      v = \<lparr>vs_prog = \<lambda>gm. gm(0x500 := 7), vs_regs = regs, vs_ret = 0x44, vs_clobber = \<lambda>r. 99, vs_counters = (11, 25)\<rparr>
    in entry_call (near_buf_addr 0x2000 48) (replay_sp_addr 0x2000) 0x40 (\<lambda>r. 99) (10, 20) (\<lambda>r. 3)
          (load_replay 0x2000 0x9000 table 0x7000 (\<lambda>_. 0)) = Some (Inl ((\<lambda>r. 3)(10 := 42, 2 := 0x7000)), gm1, []) \<and>
      replay_run 0x2000 48 [v] gm1 = Some (rs', gm') \<and> map reg_list rs' = [(replicate 32 0)[17 := 134]] \<and>
      agree (replay_area 0x2000 48 0x9000) gm' ((\<lambda>_. 0)(0x500 := 7))"
proof -
  let ?s = "sample_proxy (replicate 32 0)"
  let ?step = "(\<lambda>gm. gm(0x500 := 7), (replicate 32 0)[17 := 134]) :: (guest \<Rightarrow> guest) \<times> u64 list"
  let ?table = "make_replay_table False 42 ([call_of 0 None] @ []) []"
  let ?s1 = "set_result 0 ((at_call ?step ?s)\<lparr>px_ckpt := (px_ckpt ?s)\<lparr>ck_out := Some [EvReturn 0 None]\<rparr>\<rparr>)"
  let ?regs = "\<lambda>r. if r = 17 then 134 else 0"
  let ?v = "\<lparr>vs_prog = \<lambda>gm. gm(0x500 := 7), vs_regs = ?regs, vs_ret = 0x44, vs_clobber = \<lambda>r. 99, vs_counters = (11, 25)\<rparr>"
  have call: "proxy_syscall (\<lambda>a. a) sample_host (at_call ?step ?s) = Done ?s1"
    by (simp add: proxy_syscall_def areg_def at_call_def abi_sys_rt_sigaction_def give_back_def ck_syscall_def
        sample_proxy_def ck_print_def)
  have rb: "recordable_run (\<lambda>a. a) sample_host [?step] ?s"
    unfolding recordable_run.simps call
    by (simp add: recordable_def areg_def at_call_def)
  have ireg: "px_ireg ?s1 = (replicate 32 0)[17 := 134]"
    by (rule nth_equalityI) (auto simp: set_result_def at_call_def nth_list_update)
  have run: "record_run (\<lambda>a. a) sample_host [?step] ?s = Some ([(replicate 32 0)[17 := 134]], ?s1)"
    unfolding record_run.simps call by (simp add: ireg)
  have len: "length ?table = 48"
    by (simp add: make_replay_table_def make_entry_length call_of_def)
  have L: "layout_ok 0x2000 (length ?table) 0x9000" unfolding len by (rule sample_layout) simp
  have regs: "map (reg_list \<circ> vs_regs) [?v] = map snd [?step]"
    by (simp add: reg_list_def) (rule nth_equalityI, auto simp: nth_list_update)
  have ign: "list_all (ignores (replay_area 0x2000 48 0x9000)) (map vs_prog [?v])"
    by (auto simp: replay_area_def intro!: store_ignores)
  have ok: "list_all (call_ok (replay_area 0x2000 48 0x9000)) [call_of 0 None]" by (simp add: call_ok_def call_of_def)
  have gm: "px_gm ?s = (\<lambda>_. 0)" "px_gm ?s1 = (\<lambda>_. 0)(0x500 := 7)"
    by (simp_all add: sample_proxy_def set_result_def at_call_def)
  have "\<exists>gm1 gm' rs'. entry_call (near_buf_addr 0x2000 (length ?table)) (replay_sp_addr 0x2000) 0x40 (\<lambda>r. 99) (10, 20) (\<lambda>r. 3)
        (load_replay 0x2000 0x9000 ?table 0x7000 (\<lambda>_. 0)) = Some (Inl ((\<lambda>r. 3)(10 := 42, 2 := 0x7000)), gm1, []) \<and>
      replay_run 0x2000 (length ?table) [?v] gm1 = Some (rs', gm') \<and> map reg_list rs' = [(replicate 32 0)[17 := 134]] \<and>
      agree (replay_area 0x2000 48 0x9000) gm' (px_gm ?s1)"
    by (rule replay_repeats_recording [OF sample_documented sample_recording rb _ run, where scs = "[call_of 0 None]" and
          evs = "[EvReturn 0 None]" and es = "[]" and rest = "[]"])
      (use L load_replay_loaded [OF L] regs ign ok gm len in
        \<open>simp_all add: sample_proxy_def set_result_def at_call_def call_of_def\<close>)
  then show ?thesis unfolding gm(2) len by simp
qed

end
