(* ===== verification/Heap_Spec.thy ===== *)
theory Heap_Spec
  imports Syscalls_Spec
begin

text \<open>
  The heap of the user mode emulator (\<^verbatim>\<open>brk\<close> in \<^verbatim>\<open>src/src/abi/unknown-abi.h\<close>), and calls whose record
  or result is not what it should be.
\<close>

unbundle bit_operations_syntax

section \<open>The program break\<close>

text \<open>
  The program break lies in the mapped heap, whose end is in the 47 bits of user space and on a page
  boundary.
\<close>

definition heap_ok :: "proxy_memory \<Rightarrow> bool" where
  "heap_ok m \<longleftrightarrow> sint (pm_brk m) \<le> sint (pm_heap_end m) \<and> unat (pm_heap_end m) \<le> 2 ^ 47 \<and> 4096 dvd unat (pm_heap_end m)"

definition user_space :: "'w host \<Rightarrow> bool" where
  "user_space host \<longleftrightarrow> (\<forall>args gm w. hr_ret (fst (host (Hmmap args) gm w)) \<noteq> MAP_FAILED \<longrightarrow>
     unat (ma_addr args) + unat (ma_len args) \<le> 2 ^ 47)"

definition keeps_heap :: "'w proxy \<Rightarrow> 'w proxy ck_outcome \<Rightarrow> bool" where
  "keeps_heap s out \<longleftrightarrow> (\<forall>s'. out = Done s' \<longrightarrow> px_mem s' = px_mem s)"

lemma give_back_mem: "give_back v res s = Done s' \<Longrightarrow> px_mem s' = px_mem s"
  by (auto simp: give_back_def set_result_def split: ck_outcome.splits)

lemma ask_mem [simp]: "px_mem (snd (ask host c s)) = px_mem s"
  by (simp add: ask_def split_beta)

lemma ask_memD: "ask host c s = (r, s1) \<Longrightarrow> px_mem s1 = px_mem s"
  by (metis ask_mem snd_conv)

lemma sint_small: "unat (x :: u64) \<le> 2 ^ 47 \<Longrightarrow> sint x = int (unat x)"
proof -
  assume a: "unat x \<le> 2 ^ 47"
  have "sint x = signed_take_bit 63 (uint x)" by (simp add: sint_uint)
  also have "\<dots> = uint x"
  proof (rule signed_take_bit_int_eq_self)
    have u: "uint x = int (unat x)" by simp
    have "int (unat x) \<le> int (2 ^ 47)" using a by (simp only: of_nat_le_iff)
    then show "uint x < 2 ^ 63" unfolding u by simp
    show "- (2 ^ 63) \<le> uint x" unfolding u by (rule order_trans [of _ 0]) simp_all
  qed
  finally show ?thesis by simp
qed

text \<open>A kernel answer and a tracked mapping leave the heap as it is.\<close>

lemma mark_mapped_world: "mark_mapped anon_map x len t = Some (Inr (r, t', w')) \<Longrightarrow> w' = snd x"
  by (cases x) (auto simp: mark_mapped_def map_sum_def split: if_splits sum.splits; metis sum.exhaust)

lemma guest_mmap_world:
  assumes "guest_mmap anon_map mmap args t w = Some (Inr (r, t', w'))" "\<And>args w. f (snd (mmap args w)) = f w"
  shows "f w' = f w"
  using assms(1) unfolding guest_mmap_def mmap_between_def
  by (auto simp: assms(2) dest!: mark_mapped_world split: if_splits sum.splits option.splits)

lemma give_buffer_mem: "give_buffer buf r s = Done s' \<Longrightarrow> px_mem s' = px_mem s"
  by (auto simp: give_buffer_def dest!: give_back_mem split: if_splits)

lemma set_result_mem [simp]: "px_mem (set_result v s) = px_mem s"
  by (simp add: set_result_def)

lemma mmap_handler: "keeps_heap s (abi_sys_mmap anon_map host s)"
proof -
  let ?mm = "\<lambda>args s. case ask host (Hmmap args) s of (r, s') \<Rightarrow> (hr_ret r, s')"
  have m: "px_mem (snd (?mm args s)) = px_mem s" for args s by (simp add: split_beta)
  have "px_mem s1 = px_mem s" if "guest_mmap anon_map ?mm args t s = Some (Inr (r, t', s1))" for args t r t' s1
    by (rule guest_mmap_world [where f = px_mem, OF that m])
  then show ?thesis unfolding keeps_heap_def abi_sys_mmap_def Let_def
    by (auto dest!: give_back_mem split: option.splits sum.splits)
qed

lemma other_handlers:
  shows
    "keeps_heap s (abi_sys_getcwd host s)" "keeps_heap s (abi_sys_fcntl host s)"
    "keeps_heap s (abi_sys_ioctl host s)" "keeps_heap s (abi_sys_unlinkat host s)"
    "keeps_heap s (abi_sys_ftruncate host s)" "keeps_heap s (abi_sys_faccessat host s)"
    "keeps_heap s (abi_sys_openat host s)" "keeps_heap s (abi_sys_close host s)"
    "keeps_heap s (abi_sys_lseek host s)" "keeps_heap s (abi_sys_read host s)"
    "keeps_heap s (abi_sys_write host s)" "keeps_heap s (abi_sys_readv host s)"
    "keeps_heap s (abi_sys_writev host s)" "keeps_heap s (abi_sys_pread host s)"
    "keeps_heap s (abi_sys_pwrite host s)" "keeps_heap s (abi_sys_readlinkat host s)"
    "keeps_heap s (abi_sys_fstatat host s)" "keeps_heap s (abi_sys_fstat host s)"
    "keeps_heap s (abi_sys_open host s)" "keeps_heap s (abi_sys_unlink host s)"
    "keeps_heap s (abi_sys_stat host s)" "keeps_heap s (abi_sys_chown host s)"
    "keeps_heap s (abi_sys_clock_gettime host s)" "keeps_heap s (abi_sys_times host s)"
    "keeps_heap s (abi_sys_uname host s)" "keeps_heap s (abi_sys_getrusage host s)"
    "keeps_heap s (abi_sys_gettimeofday host s)" "keeps_heap s (abi_sys_gettid host s)"
    "keeps_heap s (abi_sys_clone host s)" "keeps_heap s (abi_sys_wait4 host s)"
    "keeps_heap s (abi_sys_mprotect host s)" 
    "keeps_heap s (abi_sys_set_tid_address s)" "keeps_heap s (abi_sys_rt_sigaction s)"
    "keeps_heap s (abi_sys_rt_sigprocmask s)" "keeps_heap s (abi_sys_sysinfo s)"
    "keeps_heap s (abi_sys_mremap s)" "keeps_heap s (abi_sys_execve s)" "keeps_heap s (abi_sys_madvise s)"
    "keeps_heap s (abi_sys_prlimit64 s)" "keeps_heap s (abi_sys_munmap anon_map host s)"
    
  unfolding keeps_heap_def Let_def
  abi_sys_getcwd_def abi_sys_fcntl_def abi_sys_ioctl_def abi_sys_unlinkat_def abi_sys_ftruncate_def
    abi_sys_faccessat_def abi_sys_openat_def abi_sys_close_def abi_sys_lseek_def abi_sys_read_def
    abi_sys_write_def abi_sys_readv_def abi_sys_writev_def abi_sys_pread_def abi_sys_pwrite_def
    abi_sys_readlinkat_def abi_sys_fstatat_def abi_sys_fstat_def abi_sys_open_def abi_sys_unlink_def
    abi_sys_stat_def abi_sys_chown_def abi_sys_clock_gettime_def abi_sys_times_def abi_sys_uname_def
    abi_sys_getrusage_def abi_sys_gettimeofday_def abi_sys_gettid_def abi_sys_clone_def abi_sys_wait4_def
    abi_sys_mprotect_def abi_sys_set_tid_address_def abi_sys_rt_sigaction_def
    abi_sys_rt_sigprocmask_def abi_sys_sysinfo_def abi_sys_mremap_def abi_sys_execve_def abi_sys_madvise_def
    abi_sys_prlimit64_def abi_sys_munmap_def
  by (auto dest!: give_back_mem give_buffer_mem ask_memD split: prod.splits if_splits option.splits sum.splits)

lemma exit_handler: "keeps_heap s (abi_sys_exit s)"
  by (simp add: keeps_heap_def abi_sys_exit_def split: ck_outcome.splits)

lemma sless_eq_sint: "x \<le>s y \<longleftrightarrow> sint x \<le> sint (y :: u64)"
  by (rule word_sle_eq)

lemma round_up_page:
  assumes "unat x < 2 ^ 63"
  shows "unat x \<le> unat (round_up x 4096)" "4096 dvd unat (round_up x 4096)"
proof -
  have "unat (x + 4095) = unat x + 4095" using assms by (subst unat_add64) simp_all
  moreover have "round_up x 4096 = (x + 4095) AND NOT (MMAP_PAGE_SIZE - 1)"
    by (simp add: round_up_def MMAP_PAGE_SIZE_def add.commute)
  ultimately have r: "unat (round_up x 4096) = (unat x + 4095) div 4096 * 4096"
    by (simp only: unat_page_base)
  show "unat x \<le> unat (round_up x 4096)" unfolding r
    using div_mult_mod_eq [of "unat x + 4095" 4096] mod_less_divisor [of 4096 "unat x + 4095"] by linarith
  show "4096 dvd unat (round_up x 4096)" unfolding r by simp
qed

lemma unat_sint_nonneg: "0 \<le> sint x \<Longrightarrow> unat (x :: u64) < 2 ^ 63"
proof -
  assume s: "0 \<le> sint x"
  have l: "sint x < 2 ^ 63" using sint_lt [of x] by simp
  have "uint x = take_bit 64 (sint x)" using uint_sint [of x] by simp
  also have "\<dots> = sint x" by (rule take_bit_int_eq_self) (use s l in simp_all)
  finally have "int (unat x) = sint x" by simp
  then have "int (unat x) < int (2 ^ 63)" using l by simp
  then show ?thesis by (simp only: of_nat_less_iff)
qed

lemma brk_heap:
  assumes "user_space host" "heap_ok (px_mem s)" "abi_sys_brk host s = Done s'"
  shows "heap_ok (px_mem s')"
proof -
  let ?b = "areg 0 s" and ?h = "pm_heap_end (px_mem s)"
  let ?e = "round_up ?b 4096"
  let ?args = "\<lparr>ma_addr = ?h, ma_len = ?e - ?h, ma_prot = 3, ma_flags = 0x32, ma_fd = - 1, ma_offset = 0\<rparr>"
  obtain r s1 where a: "ask host (Hmmap ?args) s = (r, s1)" by (cases "ask host (Hmmap ?args) s")
  have r: "r = fst (host (Hmmap ?args) (px_gm s) (px_world s))" "px_mem s1 = px_mem s"
    using a ask_memD [OF a] by (auto simp: ask_def split_beta)
  have eq: "abi_sys_brk host s =
      (if ?b = 0 then give_back (pm_brk (px_mem s)) None s
       else if ?b \<le>s ?h then give_back ?b None (s\<lparr>px_mem := (px_mem s)\<lparr>pm_brk := ?b\<rparr>\<rparr>)
       else if hr_ret r = MAP_FAILED then give_back (- 12) None s1
       else give_back ?b None (s1\<lparr>px_mem := (px_mem s1)\<lparr>
         pm_segments := pm_segments (px_mem s1) @ [(?h, ?e - ?h)], pm_heap_end := ?e, pm_brk := ?b\<rparr>\<rparr>))"
    by (simp add: abi_sys_brk_def Let_def a)
  show ?thesis
  proof (cases "?b \<noteq> 0 \<and> \<not> ?b \<le>s ?h \<and> hr_ret r \<noteq> MAP_FAILED")
    case True
    then have m: "px_mem s' = (px_mem s)\<lparr>pm_segments := pm_segments (px_mem s) @ [(?h, ?e - ?h)], pm_heap_end := ?e, pm_brk := ?b\<rparr>"
    proof -
      have "give_back ?b None (s1\<lparr>px_mem := (px_mem s1)\<lparr>pm_segments := pm_segments (px_mem s1) @ [(?h, ?e - ?h)],
          pm_heap_end := ?e, pm_brk := ?b\<rparr>\<rparr>) = Done s'"
        using True assms(3) unfolding eq by simp
      then show ?thesis using give_back_mem r(2) by force
    qed
    have h: "unat ?h \<le> 2 ^ 47" using assms(2) by (simp add: heap_ok_def)
    have sum: "unat ?h + unat (?e - ?h) \<le> 2 ^ 47"
      using assms(1) [unfolded user_space_def, rule_format, of ?args "px_gm s" "px_world s"] True r(1) by simp
    then have "unat (?h + (?e - ?h)) = unat ?h + unat (?e - ?h)" by (intro unat_add64) simp
    then have e: "unat ?e \<le> 2 ^ 47" using sum by simp
    have "0 \<le> sint ?h" using sint_small [OF h] by simp
    moreover have "\<not> sint ?b \<le> sint ?h" using True sless_eq_sint [of ?b ?h] by blast
    ultimately have "0 \<le> sint ?b" by linarith
    note ru = round_up_page [OF unat_sint_nonneg [OF this]]
    have b: "unat ?b \<le> 2 ^ 47" using ru(1) e by simp
    have "sint ?b \<le> sint ?e" unfolding sint_small [OF e] sint_small [OF b] of_nat_le_iff by (rule ru(1))
    then show ?thesis using e ru(2) unfolding heap_ok_def m by simp
  next
    case False
    then show ?thesis using assms(2,3) r(2) unfolding eq
      by (auto simp: heap_ok_def sless_eq_sint dest!: give_back_mem split: if_splits)
  qed
qed

text \<open>
  C18. The program break stays inside the heap. On a host whose mappings lie in user space, no system
  call lets the break pass the end of the mapped heap, which stays on a page boundary.
\<close>

theorem proxy_heap_invariant:
  assumes "user_space host" "heap_ok (px_mem s)" "proxy_syscall anon_map host s = Done s'"
  shows "heap_ok (px_mem s')"
proof -
  define Q where "Q out \<longleftrightarrow> (out = Done s' \<longrightarrow> heap_ok (px_mem s'))" for out
  have k: "keeps_heap s out \<Longrightarrow> Q out" for out using assms(2) by (simp add: keeps_heap_def Q_def)
  have b: "Q (abi_sys_brk host s)" using brk_heap [OF assms(1,2)] unfolding Q_def by blast
  have d: "Q (ck_outcome.Exit 9)" by (simp add: Q_def)
  have "Q (proxy_syscall anon_map host s)"
    unfolding proxy_syscall_def
    by (rule switch_list_all [where P = Q])
      (simp_all only: list.pred_inject prod.case b d other_handlers [THEN k] mmap_handler [THEN k] exit_handler [THEN k] simp_thms)
  then show ?thesis using assms(3) by (simp add: Q_def)
qed

text \<open>A host that maps where it is asked to, below \<open>2 ^ 47\<close>.\<close>

definition mapping_host :: "unit host" where
  "mapping_host c gm w = (sample_ret\<lparr>hr_ret := (case c of
     Hmmap args \<Rightarrow> if unat (ma_addr args) + unat (ma_len args) \<le> 2 ^ 47 then ma_addr args else MAP_FAILED
   | _ \<Rightarrow> 0)\<rparr>, w)"

text \<open>The heap of \<open>sample_proxy\<close> is empty; the call extends it by seventeen pages.\<close>

theorem proxy_heap_invariant_witness:
  "\<exists>s'. proxy_syscall (\<lambda>a. a) mapping_host (sample_proxy ((replicate 32 0)[10 := 0x20123, 17 := 214])) = Done s' \<and>
    heap_ok (px_mem s') \<and> areg 0 s' = 0x20123 \<and> pm_brk (px_mem s') = 0x20123 \<and> pm_heap_end (px_mem s') = 0x21000 \<and>
    pm_segments (px_mem s') = [(0x10000, 0x11000)]"
proof -
  let ?s = "sample_proxy ((replicate 32 0)[10 := 0x20123, 17 := 214])"
  have u: "user_space mapping_host" by (auto simp: user_space_def mapping_host_def)
  have h: "heap_ok (px_mem ?s)" by (simp add: heap_ok_def sample_proxy_def)
  have r: "round_up (0x20123 :: u64) 4096 = 0x21000" "\<not> (0x20123 :: u64) \<le>s 0x10000" by code_simp+
  obtain s' where s': "proxy_syscall (\<lambda>a. a) mapping_host ?s = Done s'" "areg 0 s' = 0x20123"
    "pm_brk (px_mem s') = 0x20123" "pm_heap_end (px_mem s') = 0x21000" "pm_segments (px_mem s') = [(0x10000, 0x11000)]"
    by (simp add: proxy_syscall_def areg_def abi_sys_brk_def ask_def mapping_host_def MAP_FAILED_def Let_def r mask_numeral
        sample_proxy_def give_back_def ck_syscall_def set_result_def)
  then show ?thesis using proxy_heap_invariant [OF u h s'(1)] by blast
qed

section \<open>Deviations\<close>

text \<open>\<^verbatim>\<open>wait4\<close> gives the guest seven bits of the process number, and 0 where it failed.\<close>

lemma wait4_loses_result: "wait4_result ret = (if 0 <s ret then ret AND 0x7f else 0)"
proof -
  have "drop_bit 8 (ret AND 0xff00) AND push_bit 8 0xff = (0 :: u32)"
  proof (rule bit_word_eqI)
    fix i assume "i < LENGTH(32)"
    have m: "(0xff00 :: u32) = push_bit 8 (mask 8)" "(0xff :: u32) = mask 8" by (simp_all add: mask_eq_exp_minus_1)
    show "bit (drop_bit 8 (ret AND 0xff00) AND push_bit 8 0xff) i \<longleftrightarrow> bit (0 :: u32) i"
      unfolding m by (auto simp: bit_and_iff bit_drop_bit_eq bit_push_bit_iff bit_mask_iff simp del: push_bit_mask_eq)
  qed
  then show ?thesis by (simp add: wait4_result_def)
qed

text \<open>\<^verbatim>\<open>readv\<close> and \<^verbatim>\<open>gettimeofday\<close> change the guest's memory and tell the recorder nothing.\<close>

lemma readv_unrecorded: "abi_sys_readv host s = Done s' \<Longrightarrow> px_ckpt s' = px_ckpt s"
  by (auto simp: abi_sys_readv_def ask_def set_result_def split_beta Let_def)

lemma gettimeofday_unrecorded: "abi_sys_gettimeofday host s = Done s' \<Longrightarrow> px_ckpt s' = px_ckpt s"
  by (auto simp: abi_sys_gettimeofday_def ask_def set_result_def split_beta Let_def)

text \<open>A failing \<^verbatim>\<open>fstat\<close> is recorded without the structure that it overwrote.\<close>

lemma failed_fstat_unrecorded:
  assumes "abi_sys_fstat host s = Done s'" "fst (host (Hfstat (ucast (areg 0 s))) (px_gm s) (px_world s)) = r"
    and "int_ret r \<noteq> 0" "ck_mem (px_ckpt s) \<noteq> None" "hr_out r = []"
  shows "ck_out (px_ckpt s') = map_option (\<lambda>es. es @ [EvReturn (int_result r) None]) (ck_out (px_ckpt s))"
    and "px_gm s' = cvt_abi_stat (areg 1 s) (hr_stat r) (px_gm s)"
  using assms by (auto simp: abi_sys_fstat_def ask_def split_beta Let_def give_back_def ck_syscall_def ck_print_def set_result_def
      split: option.splits ck_outcome.splits)

end
