(* ===== verification/Proxy_Spec.thy ===== *)
theory Proxy_Spec
  imports Proxy Heap_Spec
begin

text \<open>
  The stack that a program starts with: what is pushed lies in memory, is kept by the later pushes,
  and the pointers on the stack lead to it.
\<close>

unbundle bit_operations_syntax

section \<open>One push\<close>

text \<open>
  A stack whose pointer is at most \<open>tp\<close>, below which everything may be written.
\<close>

definition stack_ok :: "u64 \<Rightarrow> u64 \<Rightarrow> 'w proxy \<Rightarrow> bool" where
  "stack_ok tp sz s \<longleftrightarrow> length (px_ireg s) = 32 \<and> unat (sp_of s) \<le> unat tp \<and> unat sz \<le> unat tp \<and> unat tp < 2 ^ 62"

text \<open>Everything at or above the stack pointer of \<open>s\<close> is the same in \<open>s'\<close>.\<close>

definition keeps_above :: "'w proxy \<Rightarrow> 'w proxy \<Rightarrow> bool" where
  "keeps_above s s' \<longleftrightarrow> unat (sp_of s') \<le> unat (sp_of s) \<and> (\<forall>x \<ge> unat (sp_of s). px_gm s' x = px_gm s x)"

lemma keeps_above_refl [simp]: "keeps_above s s"
  by (simp add: keeps_above_def)

lemma keeps_above_trans: "keeps_above s s' \<Longrightarrow> keeps_above s' s'' \<Longrightarrow> keeps_above s s''"
  by (simp add: keeps_above_def)

lemma keeps_holds: "keeps_above s s' \<Longrightarrow> unat (sp_of s) \<le> unat a \<Longrightarrow> holds (px_gm s) a bs \<Longrightarrow> holds (px_gm s') a bs"
  by (erule holds_cong) (simp add: keeps_above_def)

lemma sp_set_sp: "length (px_ireg s) = 32 \<Longrightarrow> sp_of (set_sp v s) = v"
  by (simp add: sp_of_def set_sp_def)

lemma set_sp_simps [simp]: "px_gm (set_sp v s) = px_gm s" "length (px_ireg (set_sp v s)) = length (px_ireg s)"
  by (simp_all add: set_sp_def)

lemma sp_of_gm [simp]: "sp_of (s\<lparr>px_gm := gm\<rparr>) = sp_of s"
  by (simp add: sp_of_def)

text \<open>What a push leaves behind.\<close>

definition pushed :: "u64 \<Rightarrow> u64 \<Rightarrow> u8 list \<Rightarrow> 'w proxy \<Rightarrow> 'w proxy \<Rightarrow> bool" where
  "pushed tp sz data s s' \<longleftrightarrow> stack_ok tp sz s' \<and> keeps_above s s' \<and> holds (px_gm s') (sp_of s') data \<and>
     unat (sp_of s') + length data = unat (sp_of s)"

lemma unat_of_nat64: "n < 2 ^ 64 \<Longrightarrow> unat (of_nat n :: u64) = n"
  using unat_plus [of 0 n] by simp

lemma push_down:
  assumes "stack_ok tp sz s" "length data \<le> unat (sp_of s)" "sp = sp_of s - of_nat (length data)"
  shows "pushed tp sz data s ((set_sp sp s)\<lparr>px_gm := put_bytes sp data (px_gm s)\<rparr>)"
proof -
  have l: "length data < 2 ^ 64" using assms(2) unat_lt64 [of "sp_of s"] by linarith
  have "of_nat (length data) \<le> sp_of s" using assms(2) unat_of_nat64 [OF l] by (simp add: word_le_nat_alt)
  then have sp: "unat sp = unat (sp_of s) - length data" using assms(3) unat_of_nat64 [OF l] by (simp add: unat_sub)
  have b: "unat (sp_of s) < 2 ^ 62" using assms(1) by (simp add: stack_ok_def)
  have len: "length (px_ireg s) = 32" using assms(1) by (simp add: stack_ok_def)
  have "holds (put_bytes sp data (px_gm s)) sp data" using sp b assms(2) by (intro holds_put_bytes) simp
  moreover have "put_bytes sp data (px_gm s) x = px_gm s x" if "unat (sp_of s) \<le> x" for x
    using that sp assms(2) by (simp add: put_bytes_def)
  moreover have "unat (sp_of s) - length data \<le> unat tp" using assms(1) by (auto simp: stack_ok_def)
  ultimately show ?thesis using assms(1,2) sp len
    by (simp add: pushed_def keeps_above_def stack_ok_def sp_set_sp)
qed

lemma copy_pushes:
  assumes "stack_ok tp sz s" "copy_to_proxy_stack tp sz data s = Done s'" "length data < 2 ^ 62"
  shows "pushed tp sz data s s'"
proof -
  let ?sp = "sp_of s - of_nat (length data)"
  have len: "length (px_ireg s) = 32" and t: "unat (sp_of s) \<le> unat tp" "unat sz \<le> unat tp" "unat tp < 2 ^ 62"
    using assms(1) by (simp_all add: stack_ok_def)
  have s': "s' = (set_sp ?sp s)\<lparr>px_gm := put_bytes ?sp data (px_gm s)\<rparr>" and chk: "\<not> sz < tp - ?sp"
    using assms(2) by (auto simp: copy_to_proxy_stack_def Let_def sp_set_sp [OF len] split: if_splits)
  have l: "unat (of_nat (length data) :: u64) = length data" using assms(3) by (intro unat_of_nat64) simp
  have "unat (tp - sp_of s) = unat tp - unat (sp_of s)" using t(1) by (simp add: unat_sub word_le_nat_alt)
  then have "unat (tp - sp_of s + of_nat (length data)) = unat tp - unat (sp_of s) + length data"
    using t(3) assms(3) l by (subst unat_add64) simp_all
  moreover have "tp - ?sp = tp - sp_of s + of_nat (length data)" by simp
  ultimately have "unat tp - unat (sp_of s) + length data \<le> unat sz"
    using chk by (simp only: word_less_nat_alt not_less)
  then have "length data \<le> unat (sp_of s)" using t by linarith
  then show ?thesis unfolding s' by (rule push_down [OF assms(1) _ refl])
qed

section \<open>Sequences of pushes\<close>

text \<open>Two pushes in a row are one: the second lies right below the first.\<close>

lemma pushed_join:
  assumes "pushed tp sz data s s1" "pushed tp sz data' s1 s2"
  shows "pushed tp sz (data' @ data) s s2"
proof -
  have u: "unat (sp_of s2) + length data' = unat (sp_of s1)" "unat (sp_of s1) + length data = unat (sp_of s)"
    using assms by (simp_all add: pushed_def)
  have "sp_of s2 + of_nat (length data') = sp_of s1"
    using u(1) unat_plus [of "sp_of s2" "length data'"] unat_lt64 [of "sp_of s1"] by (simp add: word_unat_eq_iff)
  moreover have "holds (px_gm s2) (sp_of s1) data"
    using assms by (intro keeps_holds [of s1 s2]) (simp_all add: pushed_def)
  moreover have "unat (sp_of s2) + length data' + length data < 2 ^ 64" using u unat_lt64 [of "sp_of s"] by simp
  ultimately have "holds (px_gm s2) (sp_of s2) (data' @ data)" using assms(2) by (simp add: holds_append pushed_def)
  then show ?thesis using assms u unfolding pushed_def by (auto intro: keeps_above_trans)
qed

text \<open>The strings \<open>strs\<close> lie at the addresses \<open>ps\<close>, above the stack pointer.\<close>

definition strings_at :: "'w proxy \<Rightarrow> u64 list \<Rightarrow> u8 list list \<Rightarrow> bool" where
  "strings_at s ps strs \<longleftrightarrow> list_all2 (\<lambda>p str. unat (sp_of s) \<le> unat p \<and> holds (px_gm s) p (str @ [0])) ps strs"

lemma strings_at_kept: "keeps_above s s' \<Longrightarrow> strings_at s ps strs \<Longrightarrow> strings_at s' ps strs"
  unfolding strings_at_def
  by (erule list_all2_mono) (use keeps_holds in \<open>auto simp: keeps_above_def\<close>)

lemma push_strings_ok:
  assumes "stack_ok tp sz s" "push_strings tp sz strs s = Done (ps, s')" "list_all (\<lambda>str. length str < 2 ^ 61) strs"
  shows "stack_ok tp sz s' \<and> keeps_above s s' \<and> strings_at s' ps strs"
  using assms
proof (induction strs arbitrary: s ps)
  case Nil
  then show ?case by (simp add: strings_at_def)
next
  case (Cons str strs)
  obtain s1 ps1 where c: "copy_to_proxy_stack tp sz (str @ [0]) s = Done s1" "push_strings tp sz strs s1 = Done (ps1, s')"
    "ps = sp_of s1 # ps1"
    using Cons.prems(2) by (auto simp: and_then_Done)
  have p: "pushed tp sz (str @ [0]) s s1" using copy_pushes [OF Cons.prems(1) c(1)] Cons.prems(3) by simp
  have IH: "stack_ok tp sz s'" "keeps_above s1 s'" "strings_at s' ps1 strs"
    using Cons.IH [OF _ c(2)] p Cons.prems(3) by (auto simp: pushed_def)
  have "holds (px_gm s') (sp_of s1) (str @ [0])" using p IH(2) by (auto simp: pushed_def intro: keeps_holds)
  then show ?case using IH p c(3) unfolding pushed_def strings_at_def
    by (auto simp: keeps_above_def)
qed

lemma push_random_ok:
  assumes "stack_ok tp sz s" "4 * length rs \<le> unat (sp_of s)"
  shows "pushed tp sz (concat (map (\<lambda>r. le_bytes 4 (ucast r)) (rev rs))) s (push_random rs s)"
  using assms
proof (induction rs arbitrary: s)
  case Nil
  then show ?case using unat_lt64 [of "sp_of s"] by (simp add: pushed_def holds_def)
next
  case (Cons r rs)
  let ?s = "(set_sp (sp_of s - 4) s)\<lparr>px_gm := put_bytes (sp_of s - 4) (le_bytes 4 (ucast r)) (px_gm s)\<rparr>"
  have p: "pushed tp sz (le_bytes 4 (ucast r)) s ?s"
    by (rule push_down [OF Cons.prems(1)]) (use Cons.prems(2) in simp_all)
  then have sp: "unat (sp_of ?s) + 4 = unat (sp_of s)" by (simp add: pushed_def)
  have IH: "pushed tp sz (concat (map (\<lambda>r. le_bytes 4 (ucast r)) (rev rs))) ?s (push_random rs ?s)"
    by (rule Cons.IH) (use p Cons.prems(2) sp in \<open>auto simp: pushed_def\<close>)
  have e: "push_random (r # rs) s = push_random rs ?s"
    using Cons.prems(1) by (simp add: Let_def sp_set_sp stack_ok_def)
  show ?case unfolding e using pushed_join [OF p IH] by simp
qed

lemma words_length [simp]: "length (le_words ws) = 8 * length ws"
  by (induction ws) (simp_all add: le_words_def)

lemma le_words_append: "le_words (xs @ ys) = le_words xs @ le_words ys"
  by (simp add: le_words_def)

section \<open>The whole stack\<close>

lemma aligned_16: "unat (x AND NOT 15 :: u64) mod 16 = 0"
proof -
  have m: "(15 :: u64) = mask 4" by (simp add: mask_eq_exp_minus_1)
  have "take_bit 4 (x AND NOT (mask 4)) = 0"
    by (rule bit_word_eqI) (auto simp: bit_take_bit_iff bit_and_iff bit_not_iff bit_mask_iff)
  then have "take_bit 4 (unat (x AND NOT (mask 4))) = 0"
    by (metis unsigned_take_bit_eq unsigned_0)
  then show ?thesis unfolding m by (simp add: take_bit_eq_mod)
qed

lemma setup_pushes:
  assumes "setup_proxy_stack randoms ids cmdline envs tp sz s = Done s'"
    and "length (px_ireg s) = 32" "sp_of s = tp" "length randoms = 4"
    and "16 \<le> unat tp" "unat sz \<le> unat tp" "unat tp < 2 ^ 62"
    and "list_all (\<lambda>str. length str < 2 ^ 61) (cmdline @ envs)" "length cmdline < 2 ^ 58" "length envs < 2 ^ 58"
  shows "\<exists>argv envp base. base mod 16 = 0 \<and>
    unat (sp_of s') + 8 * (length cmdline + length envs + 3) + 176 = base \<and> strings_at s' argv cmdline \<and> strings_at s' envp envs \<and>
    holds (px_gm s') (sp_of s')
      (le_words ([of_nat (length cmdline)] @ argv @ [0] @ envp @ [0] @ aux_data ids (tp - 16))) \<and>
    holds (px_gm s') (tp - 16) (concat (map (\<lambda>r. le_bytes 4 (ucast r)) (rev randoms)))"
proof -
  let ?aux = "aux_data ids (sp_of (push_random randoms s))"
  let ?rand = "concat (map (\<lambda>r. le_bytes 4 (ucast r)) (rev randoms))"
  obtain envp s2 argv s3 s4 s5 s6 where steps: "push_strings tp sz envs (push_random randoms s) = Done (envp, s2)"
    "push_strings tp sz cmdline s2 = Done (argv, s3)"
    "copy_to_proxy_stack tp sz (le_words ?aux) (set_sp (sp_of s3 AND NOT 15) s3) = Done s4"
    "copy_to_proxy_stack tp sz (le_words (envp @ [0])) s4 = Done s5"
    "copy_to_proxy_stack tp sz (le_words (argv @ [0])) s5 = Done s6"
    "copy_to_proxy_stack tp sz (le_bytes 8 (of_nat (length cmdline))) s6 = Done s'"
    using assms(1) by (auto simp: setup_proxy_stack_def Let_def and_then_Done)
  have ok: "stack_ok tp sz s" using assms(2,3,6,7) by (simp add: stack_ok_def)
  have r: "pushed tp sz ?rand s (push_random randoms s)" using push_random_ok [OF ok] assms(3-5) by simp
  have "length ?rand = 16" using assms(4) by (simp add: length_concat comp_def sum_list_triv)
  then have "unat (sp_of (push_random randoms s)) + 16 = unat tp" using r assms(3) by (simp add: pushed_def)
  moreover have "unat (tp - 16) = unat tp - 16" using assms(5) by (simp add: unat_sub word_le_nat_alt)
  ultimately have sp1: "sp_of (push_random randoms s) = tp - 16" using assms(5) by (simp add: word_unat_eq_iff)
  have e: "stack_ok tp sz s2" "keeps_above (push_random randoms s) s2" "strings_at s2 envp envs"
    using push_strings_ok [OF _ steps(1)] r assms(8) by (auto simp: pushed_def)
  have a: "stack_ok tp sz s3" "keeps_above s2 s3" "strings_at s3 argv cmdline"
    using push_strings_ok [OF e(1) steps(2)] assms(8) by auto
  let ?s4 = "set_sp (sp_of s3 AND NOT 15) s3"
  have "unat (sp_of s3 AND NOT 15) \<le> unat (sp_of s3)" using word_and_le2 [of "sp_of s3" "NOT 15"] by (simp add: word_le_nat_alt)
  moreover have l3: "length (px_ireg s3) = 32" using a(1) by (simp add: stack_ok_def)
  ultimately have al: "stack_ok tp sz ?s4" "keeps_above s3 ?s4"
    using a(1) by (simp_all add: stack_ok_def keeps_above_def sp_set_sp)
  have lens: "length argv = length cmdline" "length envp = length envs"
    using a(3) e(3) by (auto simp: strings_at_def dest: list_all2_lengthD)
  have p4: "pushed tp sz (le_words ?aux) ?s4 s4" using copy_pushes [OF al(1) steps(3)] by (simp add: aux_data_def)
  then have p5: "pushed tp sz (le_words (envp @ [0])) s4 s5"
    using copy_pushes [OF _ steps(4)] assms(10) lens by (simp add: pushed_def)
  then have p6: "pushed tp sz (le_words (argv @ [0])) s5 s6"
    using copy_pushes [OF _ steps(5)] assms(9) lens by (simp add: pushed_def)
  then have p7: "pushed tp sz (le_bytes 8 (of_nat (length cmdline))) s6 s'"
    using copy_pushes [OF _ steps(6)] by (simp add: pushed_def)
  have "unat (sp_of ?s4) mod 16 = 0" unfolding sp_set_sp [OF l3] by (rule aligned_16)
  moreover have all: "pushed tp sz (le_bytes 8 (of_nat (length cmdline)) @ le_words (argv @ [0]) @ le_words (envp @ [0]) @ le_words ?aux) ?s4 s'"
    using pushed_join [OF pushed_join [OF pushed_join [OF p4 p5] p6] p7] by simp
  then have "unat (sp_of s') + 8 * (length cmdline + length envs + 3) + 176 = unat (sp_of ?s4)"
    by (simp add: pushed_def lens aux_data_def)
  moreover have k4: "keeps_above ?s4 s'" using all by (simp add: pushed_def)
  moreover have k3: "keeps_above s3 s'" and k2: "keeps_above s2 s'" and k1: "keeps_above (push_random randoms s) s'"
    using k4 al(2) a(2) e(2) keeps_above_trans by blast+
  moreover have "strings_at s' argv cmdline" "strings_at s' envp envs"
    using strings_at_kept k3 a(3) k2 e(3) by blast+
  moreover have "holds (px_gm s') (sp_of s') (le_words ([of_nat (length cmdline)] @ argv @ [0] @ envp @ [0] @ aux_data ids (tp - 16)))"
    using all unfolding sp1 pushed_def by (simp add: le_words_def)
  moreover have "holds (px_gm s') (tp - 16) ?rand"
    using keeps_holds [OF k1 order_refl, of ?rand] r sp1 by (simp add: pushed_def)
  ultimately show ?thesis
    by (intro exI [of _ argv] exI [of _ envp] exI [of _ "unat (sp_of ?s4)"] conjI)
qed

section \<open>Properties\<close>

text \<open>
  C17. A program starts with its arguments. When the stack is set up without running over its size,
  there lie at the stack pointer, in ascending order: the number of the arguments, a pointer to each
  argument, 0, a pointer to each string of the environment, 0, and the auxiliary vector; every
  pointer leads to the zero-terminated string, and the entry of the auxiliary vector for the random
  bytes to the sixteen bytes at the top of the stack.
\<close>

theorem proxy_stack_layout:
  assumes "setup_proxy_stack randoms ids cmdline envs tp sz s = Done s'"
    and "length (px_ireg s) = 32" "sp_of s = tp" "length randoms = 4"
    and "16 \<le> unat tp" "unat sz \<le> unat tp" "unat tp < 2 ^ 62"
    and "list_all (\<lambda>str. length str < 2 ^ 61) (cmdline @ envs)" "length cmdline < 2 ^ 58" "length envs < 2 ^ 58"
  shows "\<exists>argv envp. strings_at s' argv cmdline \<and> strings_at s' envp envs \<and>
    holds (px_gm s') (sp_of s')
      (le_words ([of_nat (length cmdline)] @ argv @ [0] @ envp @ [0] @ aux_data ids (tp - 16))) \<and>
    holds (px_gm s') (tp - 16) (concat (map (\<lambda>r. le_bytes 4 (ucast r)) (rev randoms)))"
  using setup_pushes [OF assms] by blast

text \<open>
  The ABI wants the stack pointer on a multiple of 16. It is aligned before the vectors are pushed, not
  for them: with an even number of strings the program starts eight bytes off.
\<close>

lemma stack_misaligned:
  assumes "setup_proxy_stack randoms ids cmdline envs tp sz s = Done s'"
    and "length (px_ireg s) = 32" "sp_of s = tp" "length randoms = 4"
    and "16 \<le> unat tp" "unat sz \<le> unat tp" "unat tp < 2 ^ 62"
    and "list_all (\<lambda>str. length str < 2 ^ 61) (cmdline @ envs)" "length cmdline < 2 ^ 58" "length envs < 2 ^ 58"
    and "even (length cmdline + length envs)"
  shows "unat (sp_of s') mod 16 = 8"
proof -
  obtain base :: nat where b: "base mod 16 = 0" "unat (sp_of s') + 8 * (length cmdline + length envs + 3) + 176 = base"
    using setup_pushes [OF assms(1-10)] by (elim exE conjE) (rule that)
  obtain k where "length cmdline + length envs = 2 * k" using assms(11) by blast
  then have "unat (sp_of s') + 16 * (k + 12) + 8 = base" using b(2) by simp
  then show ?thesis using b(1) by presburger
qed

theorem proxy_stack_layout_witness:
  "\<exists>s' argv. setup_proxy_stack [1, 2, 3, 4] \<lparr>id_imagebase = 0x10000, id_phoff = 64, id_phnum = 2, id_phentsize = 56,
      id_uid = 0, id_euid = 0, id_gid = 0, id_egid = 0\<rparr> [[108, 115]] [] 0x80000000 0x800000
      (sample_proxy ((replicate 32 0)[2 := 0x80000000])) = Done s' \<and>
    strings_at s' argv [[108, 115]] \<and> read_mem (px_gm s') (unat (sp_of s')) 8 = 1"
proof -
  let ?ids = "\<lparr>id_imagebase = 0x10000, id_phoff = 64, id_phnum = 2, id_phentsize = 56,
      id_uid = 0, id_euid = 0, id_gid = 0, id_egid = 0\<rparr>"
  let ?s = "sample_proxy ((replicate 32 0)[2 := 0x80000000])"
  obtain s' where d: "setup_proxy_stack [1, 2, 3, 4] ?ids [[108, 115]] [] 0x80000000 0x800000 ?s = Done s'"
    by (simp add: setup_proxy_stack_def Let_def and_then_def copy_to_proxy_stack_def set_sp_def sp_of_def sample_proxy_def
        aux_data_def)
  have "\<exists>argv envp. strings_at s' argv [[108, 115]] \<and> strings_at s' envp [] \<and>
    holds (px_gm s') (sp_of s')
      (le_words ([of_nat (length [[108 :: u8, 115]])] @ argv @ [0] @ envp @ [0] @ aux_data ?ids (0x80000000 - 16))) \<and>
    holds (px_gm s') (0x80000000 - 16) (concat (map (\<lambda>r. le_bytes 4 (ucast r)) (rev [1, 2, 3, 4 :: u32])))"
    by (rule proxy_stack_layout [OF d]) (simp_all add: sample_proxy_def sp_of_def)
  then obtain argv envp where a: "strings_at s' argv [[108, 115]]"
    and h: "holds (px_gm s') (sp_of s') (le_bytes 8 1 @ le_words (argv @ [0] @ envp @ [0] @ aux_data ?ids (0x80000000 - 16)))"
    by (auto simp: le_words_def)
  have "read_mem (px_gm s') (unat (sp_of s')) 8 = 1" using h by (intro read_le_bytes8) (simp add: holds_append)
  then show ?thesis using d a by blast
qed

end
