(* ===== verification/Queue.thy ===== *)
theory Queue
  imports Prelude
begin

text \<open>
  The queue between the console thread and the processor (\<^verbatim>\<open>queue_atomic\<close> of
  \<^verbatim>\<open>src/src/util/queue.h\<close>), for \<^verbatim>\<open>T = char\<close> as \<^verbatim>\<open>src/src/emu/console.h\<close> uses it.
  Every access to an atomic variable is one step of a thread; the value of \<open>pc\<close> says which access
  comes next and holds the local variables that are still needed. The steps of several threads
  interleave as a schedule says. A weak exchange may fail although the values agree.
\<close>

unbundle bit_operations_syntax

section \<open>The queue\<close>

record queue =
  vec :: "u8 list"
  size_limit :: u64
  counter_back :: u64
  version_back :: u64
  counter_front :: u64
  version_front :: u64

definition spin_limit :: nat where "spin_limit = 2 ^ 24"
definition offset_mask :: u64 where "offset_mask = push_bit 48 1 - 1"
definition version_mask :: u64 where "version_mask = push_bit 16 1 - 1"

definition pack_offset :: "u64 \<Rightarrow> u64 \<Rightarrow> u64" where
  "pack_offset version offset = push_bit 48 version OR offset"

definition unpack_offsets :: "u64 \<Rightarrow> u64 \<Rightarrow> u64 option" where
  "unpack_offsets counter pack =
     (if drop_bit 48 pack AND version_mask = counter AND version_mask then Some (pack AND offset_mask) else None)"

definition queue_init :: "u64 \<Rightarrow> queue" where
  "queue_init limit = \<lparr>vec = replicate (unat limit) 0, size_limit = limit,
     counter_back = 0, version_back = pack_offset 0 0, counter_front = 0, version_front = pack_offset 0 limit\<rparr>"

definition queue_empty :: "queue \<Rightarrow> bool" where
  "queue_empty q = (let back = version_back q AND offset_mask; front = version_front q AND offset_mask
     in front - back = size_limit q)"

definition queue_full :: "queue \<Rightarrow> bool" where
  "queue_full q = (let back = version_back q AND offset_mask; front = version_front q AND offset_mask
     in front = back)"

definition queue_size :: "queue \<Rightarrow> u64" where
  "queue_size q = (let back = version_back q AND offset_mask; front = version_front q AND offset_mask
     in if front < back then back - front else size_limit q - front + back)"

section \<open>The steps of a thread\<close>

text \<open>
  \<open>Push_front\<close> to \<open>Push_publish\<close> are the accesses of \<^verbatim>\<open>push_back\<close>, with the element, the front that
  was read, the number of attempts and what else the rest of the function needs; likewise for
  \<^verbatim>\<open>pop_front\<close>.
\<close>

datatype pc =
    Idle
  | Push_front u8
  | Push_counter u8 u64 nat
  | Push_version u8 u64 nat u64
  | Push_exchange u8 u64 nat u64 u64 u64 u64
  | Push_store u8 u64 u64
  | Push_publish u8 u64
  | Pop_back
  | Pop_counter u64 nat
  | Pop_version u64 nat u64
  | Pop_exchange u64 nat u64 u64 u64 u64
  | Pop_load u64 u64
  | Pop_publish u8 u64

text \<open>
  What a thread does to the outside: calls and returns. \<open>Pushed\<close> stands for the result
  \<^verbatim>\<open>true\<close>, \<open>Push_full\<close> and \<open>Push_gave_up\<close> for \<^verbatim>\<open>false\<close>, \<open>Pop_empty\<close> and \<open>Pop_gave_up\<close> for
  the zero element.
\<close>

datatype queue_event =
    Push_call | Pushed u8 | Push_full | Push_gave_up
  | Pop_call | Popped u8 | Pop_empty | Pop_gave_up

definition push_retry :: "u8 \<Rightarrow> u64 \<Rightarrow> nat \<Rightarrow> pc \<times> queue_event list" where
  "push_retry elem front spin_count =
     (if spin_count + 1 < spin_limit then (Push_counter elem front (spin_count + 1), [])
      else (Idle, [Push_gave_up]))"

definition pop_retry :: "u64 \<Rightarrow> nat \<Rightarrow> pc \<times> queue_event list" where
  "pop_retry back spin_count =
     (if spin_count + 1 < spin_limit then (Pop_counter back (spin_count + 1), [])
      else (Idle, [Pop_gave_up]))"

text \<open>\<open>weak\<close>: the exchange of this step fails without a reason.\<close>

fun queue_push_back :: "bool \<Rightarrow> queue \<Rightarrow> pc \<Rightarrow> queue \<times> pc \<times> queue_event list" where
  "queue_push_back weak q (Push_front elem) = (q, Push_counter elem (version_front q AND offset_mask) 0, [])"
| "queue_push_back weak q (Push_counter elem front k) = (q, Push_version elem front k (counter_back q), [])"
| "queue_push_back weak q (Push_version elem front k cb) =
     (q, case unpack_offsets cb (version_back q) of
        None \<Rightarrow> push_retry elem front k
      | Some back \<Rightarrow>
          if front = back then (Idle, [Push_full])
          else let new_version = (cb + 1) AND version_mask
               in (Push_exchange elem front k cb new_version (back AND (size_limit q - 1))
                     (pack_offset new_version ((back + 1) AND offset_mask)), []))"
| "queue_push_back weak q (Push_exchange elem front k cb new_version offset pack) =
     (if counter_back q = cb \<and> \<not> weak then (q\<lparr>counter_back := new_version\<rparr>, Push_store elem offset pack, [])
      else (q, push_retry elem front k))"
| "queue_push_back weak q (Push_store elem offset pack) =
     (q\<lparr>vec := (vec q)[unat offset := elem]\<rparr>, Push_publish elem pack, [])"
| "queue_push_back weak q (Push_publish elem pack) = (q\<lparr>version_back := pack\<rparr>, Idle, [Pushed elem])"
| "queue_push_back weak q t = (q, t, [])"

fun queue_pop_front :: "bool \<Rightarrow> queue \<Rightarrow> pc \<Rightarrow> queue \<times> pc \<times> queue_event list" where
  "queue_pop_front weak q Pop_back = (q, Pop_counter (version_back q AND offset_mask) 0, [])"
| "queue_pop_front weak q (Pop_counter back k) = (q, Pop_version back k (counter_front q), [])"
| "queue_pop_front weak q (Pop_version back k cf) =
     (q, case unpack_offsets cf (version_front q) of
        None \<Rightarrow> pop_retry back k
      | Some front \<Rightarrow>
          if front - back = size_limit q then (Idle, [Pop_empty])
          else let new_version = (cf + 1) AND version_mask
               in (Pop_exchange back k cf new_version (front AND (size_limit q - 1))
                     (pack_offset new_version ((front + 1) AND offset_mask)), []))"
| "queue_pop_front weak q (Pop_exchange back k cf new_version offset pack) =
     (if counter_front q = cf \<and> \<not> weak then (q\<lparr>counter_front := new_version\<rparr>, Pop_load offset pack, [])
      else (q, pop_retry back k))"
| "queue_pop_front weak q (Pop_load offset pack) = (q, Pop_publish (vec q ! unat offset) pack, [])"
| "queue_pop_front weak q (Pop_publish val pack) = (q\<lparr>version_front := pack\<rparr>, Idle, [Popped val])"
| "queue_pop_front weak q t = (q, t, [])"

fun pushing :: "pc \<Rightarrow> bool" where
  "pushing (Push_front elem) = True"
| "pushing (Push_counter elem front k) = True"
| "pushing (Push_version elem front k cb) = True"
| "pushing (Push_exchange elem front k cb new_version offset pack) = True"
| "pushing (Push_store elem offset pack) = True"
| "pushing (Push_publish elem pack) = True"
| "pushing t = False"

section \<open>Interleavings\<close>

text \<open>A thread that is in no operation may call one, and a thread in an operation goes on.\<close>

datatype action = Call_push u8 | Call_pop | Go bool

definition thread_act :: "action \<Rightarrow> queue \<Rightarrow> pc \<Rightarrow> queue \<times> pc \<times> queue_event list" where
  "thread_act a q t =
     (case a of
        Call_push elem \<Rightarrow> if t = Idle then (q, Push_front elem, [Push_call]) else (q, t, [])
      | Call_pop \<Rightarrow> if t = Idle then (q, Pop_back, [Pop_call]) else (q, t, [])
      | Go weak \<Rightarrow> if pushing t then queue_push_back weak q t else queue_pop_front weak q t)"

record queue_system =
  queue_of :: queue
  threads :: "nat \<Rightarrow> pc"
  history :: "queue_event list"

definition system_act :: "nat \<times> action \<Rightarrow> queue_system \<Rightarrow> queue_system" where
  "system_act = (\<lambda>(i, a) s. let (q, t, evs) = thread_act a (queue_of s) (threads s i)
     in \<lparr>queue_of = q, threads = (threads s)(i := t), history = history s @ evs\<rparr>)"

definition run_queue :: "u64 \<Rightarrow> (nat \<times> action) list \<Rightarrow> queue_system" where
  "run_queue limit sched =
     fold system_act sched \<lparr>queue_of = queue_init limit, threads = (\<lambda>i. Idle), history = []\<rparr>"

text \<open>The elements that have been put in and taken out.\<close>

definition put_in :: "queue_event list \<Rightarrow> u8 list" where
  "put_in evs = concat (map (\<lambda>e. case e of Pushed v \<Rightarrow> [v] | _ \<Rightarrow> []) evs)"

definition taken_out :: "queue_event list \<Rightarrow> u8 list" where
  "taken_out evs = concat (map (\<lambda>e. case e of Popped v \<Rightarrow> [v] | _ \<Rightarrow> []) evs)"

text \<open>One thread puts in and one takes out, as the console does.\<close>

definition spsc :: "nat \<Rightarrow> nat \<Rightarrow> (nat \<times> action) list \<Rightarrow> bool" where
  "spsc producer consumer = list_all (\<lambda>(i, a).
     (case a of Call_push elem \<Rightarrow> i = producer | Call_pop \<Rightarrow> i = consumer | Go weak \<Rightarrow> True))"

end
