(* ===== verification/Queue_Spec.thy ===== *)
theory Queue_Spec
  imports Queue
begin

text \<open>
  What the queue promises. The interleavings of the console thread, which puts in, and the processor,
  which takes out, keep an invariant over the shared words and the local variables of both; from it
  follow the order of the elements and that no operation waits for the other thread.
\<close>

unbundle bit_operations_syntax

section \<open>Versions and offsets\<close>

text \<open>The version after \<open>k\<close> operations.\<close>

definition ver :: "nat \<Rightarrow> u64" where
  "ver k = of_nat (k mod 2 ^ 16)"

lemma masks: "offset_mask = mask 48" "version_mask = mask 16"
  by (simp_all add: offset_mask_def version_mask_def mask_eq_exp_minus_1)

lemma unat_ver: "unat (ver k) = k mod 2 ^ 16"
  unfolding ver_def by (rule unat_small) (rule order.strict_trans1 [OF mod_le_divisor], simp_all)

lemma packed:
  assumes "k < 2 ^ 48"
  shows "pack_offset (ver v) (of_nat k) AND offset_mask = of_nat k"
    and "drop_bit 48 (pack_offset (ver v) (of_nat k)) = ver v"
proof -
  have m: "push_bit 48 x AND mask 48 = (0 :: u64)" for x
    by (rule bit_word_eqI) (auto simp: bit_and_iff bit_push_bit_iff bit_mask_iff)
  show "pack_offset (ver v) (of_nat k) AND offset_mask = of_nat k"
    unfolding pack_offset_def masks using small_and_mask [of k 48] assms
    by (simp add: bit.conj_disj_distrib2 m)
  have "ver v = ver v AND mask 16" by (simp add: word_unat_eq_iff unat_and_mask unat_ver)
  moreover have "drop_bit 48 (push_bit 48 x) = x AND mask 16" for x :: u64
    by (rule bit_word_eqI) (auto simp: bit_and_iff bit_push_bit_iff bit_mask_iff bit_drop_bit_eq)
  ultimately have "drop_bit 48 (push_bit 48 (ver v)) = ver v" by metis
  moreover have "drop_bit 48 (of_nat k :: u64) = 0"
    using assms by (simp add: word_unat_eq_iff unat_drop unat_small)
  ultimately show "drop_bit 48 (pack_offset (ver v) (of_nat k)) = ver v"
    by (simp add: pack_offset_def drop_bit_or)
qed

lemma unpack_same: "k < 2 ^ 48 \<Longrightarrow> unpack_offsets (ver v) (pack_offset (ver v) (of_nat k)) = Some (of_nat k)"
  by (simp add: unpack_offsets_def packed)

lemma ver_Suc: "(ver k + 1) AND version_mask = ver (Suc k)"
proof -
  have "ver k + 1 = of_nat (k mod 2 ^ 16 + 1)" by (simp add: ver_def)
  moreover have "k mod 2 ^ 16 + 1 < (2 ^ 64 :: nat)" using mod_less_divisor [of "2 ^ 16" k] by simp
  ultimately have "(ver k + 1) AND version_mask = of_nat ((k mod 2 ^ 16 + 1) mod 2 ^ 16)"
    unfolding masks by (metis small_and_mask)
  then show ?thesis by (simp add: ver_def mod_Suc_eq)
qed

lemma offset_Suc: "Suc k < 2 ^ 48 \<Longrightarrow> (of_nat k + 1) AND offset_mask = of_nat (Suc k)"
  using small_and_mask [of "Suc k" 48] unfolding masks by (simp add: add.commute)

lemma slot:
  assumes "N = 2 ^ m" "m \<le> 47" "k < 2 ^ 48"
  shows "(of_nat k :: u64) AND (of_nat N - 1) = of_nat (k mod N)"
proof -
  have "of_nat N - 1 = (mask m :: u64)" by (simp add: assms(1) mask_eq_exp_minus_1)
  then show ?thesis using small_and_mask [of k m] assms(1,3) by simp
qed

lemma slots_differ: "\<lbrakk>i < (k :: nat); k < i + N\<rbrakk> \<Longrightarrow> k mod N \<noteq> i mod N"
  by (metis add_diff_cancel_left' dvd_imp_le le_add_diff_inverse2 less_imp_le mod_eq_dvd_iff_nat not_less
      zero_less_diff less_diff_conv2 add.commute)

section \<open>The invariant\<close>

text \<open>
  What holds of the local variables of \<^verbatim>\<open>push_back\<close> when \<open>B\<close> elements have been put in
  and \<open>F\<close> taken out, \<open>C\<close> of them before the call.
\<close>

definition front_read :: "nat \<Rightarrow> nat \<Rightarrow> nat \<Rightarrow> u64 \<Rightarrow> bool" where
  "front_read N F C front \<longleftrightarrow> (\<exists>G. C \<le> G \<and> G \<le> F \<and> front = of_nat (N + G))"

fun push_ok :: "nat \<Rightarrow> nat \<Rightarrow> nat \<Rightarrow> nat \<Rightarrow> u8 list \<Rightarrow> pc \<Rightarrow> bool" where
  "push_ok N B F C v (Push_counter elem front k) = front_read N F C front"
| "push_ok N B F C v (Push_version elem front k cb) = (front_read N F C front \<and> cb = ver B)"
| "push_ok N B F C v (Push_exchange elem front k cb new_version offset pack) =
     (front_read N F C front \<and> B < N + F \<and> cb = ver B \<and> new_version = ver (Suc B) \<and>
      offset = of_nat (B mod N) \<and> pack = pack_offset (ver (Suc B)) (of_nat (Suc B)))"
| "push_ok N B F C v (Push_store elem offset pack) =
     (B < N + F \<and> offset = of_nat (B mod N) \<and> pack = pack_offset (ver (Suc B)) (of_nat (Suc B)))"
| "push_ok N B F C v (Push_publish elem pack) =
     (B < N + F \<and> v ! (B mod N) = elem \<and> pack = pack_offset (ver (Suc B)) (of_nat (Suc B)))"
| "push_ok N B F C v t = True"

text \<open>Likewise for \<^verbatim>\<open>pop_front\<close>; \<open>C\<close> elements had been put in before the call.\<close>

definition back_read :: "nat \<Rightarrow> nat \<Rightarrow> nat \<Rightarrow> u64 \<Rightarrow> bool" where
  "back_read F B C back \<longleftrightarrow> (\<exists>G. C \<le> G \<and> F \<le> G \<and> G \<le> B \<and> back = of_nat G)"

fun pop_ok :: "nat \<Rightarrow> u8 list \<Rightarrow> nat \<Rightarrow> nat \<Rightarrow> pc \<Rightarrow> bool" where
  "pop_ok N ps F C (Pop_counter back k) = back_read F (length ps) C back"
| "pop_ok N ps F C (Pop_version back k cf) = (back_read F (length ps) C back \<and> cf = ver F)"
| "pop_ok N ps F C (Pop_exchange back k cf new_version offset pack) =
     (back_read F (length ps) C back \<and> F < length ps \<and> cf = ver F \<and> new_version = ver (Suc F) \<and>
      offset = of_nat (F mod N) \<and> pack = pack_offset (ver (Suc F)) (of_nat (Suc (N + F))))"
| "pop_ok N ps F C (Pop_load offset pack) =
     (F < length ps \<and> offset = of_nat (F mod N) \<and> pack = pack_offset (ver (Suc F)) (of_nat (Suc (N + F))))"
| "pop_ok N ps F C (Pop_publish val pack) =
     (F < length ps \<and> val = ps ! F \<and> pack = pack_offset (ver (Suc F)) (of_nat (Suc (N + F))))"
| "pop_ok N ps F C t = True"

fun writing :: "pc \<Rightarrow> bool" where
  "writing (Push_store elem offset pack) = True"
| "writing (Push_publish elem pack) = True"
| "writing t = False"

fun reading :: "pc \<Rightarrow> bool" where
  "reading (Pop_load offset pack) = True"
| "reading (Pop_publish val pack) = True"
| "reading t = False"

text \<open>
  The elements \<open>ps\<close> have been put in and \<open>F\<close> of them taken out; \<open>tp\<close> is where the producer is
  in \<^verbatim>\<open>push_back\<close>, \<open>tc\<close> where the consumer is in \<^verbatim>\<open>pop_front\<close>.
\<close>

definition queue_ok :: "nat \<Rightarrow> queue \<Rightarrow> u8 list \<Rightarrow> nat \<Rightarrow> nat \<Rightarrow> nat \<Rightarrow> pc \<Rightarrow> pc \<Rightarrow> bool" where
  "queue_ok N q ps F CF CB tp tc \<longleftrightarrow>
     size_limit q = of_nat N \<and> length (vec q) = N \<and>
     version_back q = pack_offset (ver (length ps)) (of_nat (length ps)) \<and>
     version_front q = pack_offset (ver F) (of_nat (N + F)) \<and>
     counter_back q = ver (if writing tp then Suc (length ps) else length ps) \<and>
     counter_front q = ver (if reading tc then Suc F else F) \<and>
     F \<le> length ps \<and> length ps \<le> N + F \<and>
     (\<forall>i. F \<le> i \<and> i < length ps \<longrightarrow> vec q ! (i mod N) = ps ! i) \<and>
     (pushing tp \<longrightarrow> CF \<le> F \<and> length ps \<le> N + CF \<and> push_ok N (length ps) F CF (vec q) tp) \<and>
     (tc \<noteq> Idle \<longrightarrow> CB \<le> length ps \<and> F \<le> CB \<and> pop_ok N ps F CB tc)"

definition limit_ok :: "nat \<Rightarrow> bool" where
  "limit_ok N \<longleftrightarrow> (\<exists>m \<le> 47. N = 2 ^ m)"

lemma limit_pos: "limit_ok N \<Longrightarrow> 0 < N"
  by (auto simp: limit_ok_def)

lemma back_read_more: "back_read F B C back \<Longrightarrow> back_read F (Suc B) C back"
  by (auto simp: back_read_def)

lemma pop_ok_more: "pop_ok N ps F C tc \<Longrightarrow> pop_ok N (ps @ [v]) F C tc"
  by (cases tc) (auto simp: nth_append back_read_more)

lemma front_read_more: "front_read N F C front \<Longrightarrow> front_read N (Suc F) C front"
  by (auto simp: front_read_def)

lemma push_ok_more: "push_ok N B F C v tp \<Longrightarrow> push_ok N B (Suc F) C v tp"
  by (cases tp) (auto simp: front_read_more)

lemma put_in_simps [simp]:
  "put_in [] = []" "put_in (xs @ ys) = put_in xs @ put_in ys"
  "put_in [Push_call] = []" "put_in [Pushed v] = [v]" "put_in [Push_full] = []" "put_in [Push_gave_up] = []"
  "put_in [Pop_call] = []" "put_in [Popped v] = []" "put_in [Pop_empty] = []" "put_in [Pop_gave_up] = []"
  by (simp_all add: put_in_def)

lemma taken_out_simps [simp]:
  "taken_out [] = []" "taken_out (xs @ ys) = taken_out xs @ taken_out ys"
  "taken_out [Push_call] = []" "taken_out [Pushed v] = []" "taken_out [Push_full] = []" "taken_out [Push_gave_up] = []"
  "taken_out [Pop_call] = []" "taken_out [Popped v] = [v]" "taken_out [Pop_empty] = []" "taken_out [Pop_gave_up] = []"
  by (simp_all add: taken_out_def)

text \<open>A step of the producer.\<close>

lemma of_nat_eq_small: "\<lbrakk>i < 2 ^ 64; k < 2 ^ 64\<rbrakk> \<Longrightarrow> (of_nat i :: u64) = of_nat k \<longleftrightarrow> i = k"
  by (metis unat_small)

definition push_end :: "nat \<Rightarrow> nat \<Rightarrow> nat \<Rightarrow> pc \<Rightarrow> queue_event list \<Rightarrow> bool" where
  "push_end N B CF t evs \<longleftrightarrow> pushing t \<and> evs = [] \<or> t = Idle \<and>
     (evs = [Push_full] \<and> B = N + CF \<or> evs = [Push_gave_up] \<or> (\<exists>v. evs = [Pushed v]))"

lemma push_version_step:
  assumes "queue_ok N q ps F CF CB (Push_version elem front k cb) tc" "limit_ok N" "Suc (length ps) + N < 2 ^ 48"
  shows "queue_push_back weak q (Push_version elem front k cb) = (q, if length ps = N + CF \<and> front = of_nat (length ps) then (Idle, [Push_full])
      else (Push_exchange elem front k (ver (length ps)) (ver (Suc (length ps))) (of_nat (length ps mod N))
        (pack_offset (ver (Suc (length ps))) (of_nat (Suc (length ps)))), []))"
    and "front \<noteq> of_nat (length ps) \<or> length ps \<noteq> N + CF \<Longrightarrow> length ps < N + F"
proof -
  obtain G where g: "CF \<le> G" "G \<le> F" "front = of_nat (N + G)" and q: "cb = ver (length ps)" "length ps \<le> N + CF"
    "F \<le> length ps" "version_back q = pack_offset (ver (length ps)) (of_nat (length ps))" "size_limit q = of_nat N"
    using assms(1) by (auto simp: queue_ok_def front_read_def)
  have f: "front = of_nat (length ps) \<longleftrightarrow> N + G = length ps"
    unfolding g(3) using g(2) q(3) assms(3) by (intro of_nat_eq_small) simp_all
  then show "front \<noteq> of_nat (length ps) \<or> length ps \<noteq> N + CF \<Longrightarrow> length ps < N + F" using g(1,2) q(2) by auto
  obtain m where m: "N = 2 ^ m" "m \<le> 47" using assms(2) by (auto simp: limit_ok_def)
  have "N + G = length ps \<longleftrightarrow> length ps = N + CF \<and> N + G = length ps" using g(1) q(2) by auto
  then show "queue_push_back weak q (Push_version elem front k cb) = (q, if length ps = N + CF \<and> front = of_nat (length ps) then (Idle, [Push_full])
      else (Push_exchange elem front k (ver (length ps)) (ver (Suc (length ps))) (of_nat (length ps mod N))
        (pack_offset (ver (Suc (length ps))) (of_nat (Suc (length ps)))), []))"
    using assms(3) slot [OF m, of "length ps"] offset_Suc [of "length ps"] f
    by (simp add: q unpack_same ver_Suc Let_def)
qed

lemma queue_ok_push:
  assumes "queue_ok N q ps F CF CB tp tc" "limit_ok N" "Suc (length ps) + N < 2 ^ 48" "pushing tp"
    and "queue_push_back weak q tp = (q', tp', evs)"
  shows "queue_ok N q' (ps @ put_in evs) F CF CB tp' tc \<and> push_end N (length ps) CF tp' evs"
proof (cases tp)
  case (Push_front elem)
  have n: "N + F < 2 ^ 48" and q: "version_front q = pack_offset (ver F) (of_nat (N + F))" "CF \<le> F"
    using assms(1,3) by (auto simp: queue_ok_def Push_front)
  have "version_front q AND offset_mask = of_nat (N + F)" unfolding q by (rule packed [OF n])
  then have "front_read N F CF (version_front q AND offset_mask)" using q(2) unfolding front_read_def by blast
  then show ?thesis using assms(1,5) unfolding Push_front by (auto simp: queue_ok_def push_end_def)
next
  case (Push_counter elem front k)
  then show ?thesis using assms(1,5) by (auto simp: queue_ok_def push_end_def)
next
  case (Push_version elem front k cb)
  note step = push_version_step [OF assms(1) [unfolded Push_version] assms(2,3)]
  show ?thesis
  proof (cases "length ps = N + CF \<and> front = of_nat (length ps)")
    case True
    have "q' = q" "evs = [Push_full]" "tp' = Idle"
      using assms(5) unfolding Push_version step(1) if_P [OF True] by simp_all
    then show ?thesis using True assms(1) unfolding Push_version by (simp add: queue_ok_def push_end_def)
  next
    case False
    then have b: "length ps < N + F" using step(2) by blast
    have q: "q' = q" "evs = []" "tp' = Push_exchange elem front k (ver (length ps)) (ver (Suc (length ps)))
        (of_nat (length ps mod N)) (pack_offset (ver (Suc (length ps))) (of_nat (Suc (length ps))))"
      using assms(5) unfolding Push_version step(1) if_not_P [OF False] by simp_all
    show ?thesis using b assms(1) unfolding q Push_version by (simp add: queue_ok_def push_end_def)
  qed
next
  case (Push_exchange elem front k cb new_version offset pack)
  then show ?thesis using assms(1,5)
    by (auto simp: queue_ok_def push_end_def push_retry_def split: if_splits)
next
  case (Push_store elem offset pack)
  let ?B = "length ps"
  have q: "q' = q\<lparr>vec := (vec q)[?B mod N := elem]\<rparr>" "tp' = Push_publish elem pack" "evs = []"
    and b: "?B < N + F" "length (vec q) = N"
    using assms(1,3,5) unfolding Push_store
    by (auto simp: queue_ok_def unat_small order.strict_trans1 [OF mod_less_eq_dividend])
  have "(vec q)[?B mod N := elem] ! (i mod N) = ps ! i" if "F \<le> i" "i < ?B" for i
    using that b(1) slots_differ [of i ?B N] assms(1) unfolding Push_store by (auto simp: queue_ok_def)
  then show ?thesis using assms(1) b limit_pos [OF assms(2)] unfolding Push_store q
    by (simp add: queue_ok_def push_end_def)
next
  case (Push_publish elem pack)
  have q: "q' = q\<lparr>version_back := pack\<rparr>" "tp' = Idle" "evs = [Pushed elem]"
    using assms(5) unfolding Push_publish by simp_all
  have "vec q ! (i mod N) = (ps @ [elem]) ! i" if "F \<le> i" "i < Suc (length ps)" for i
    using that assms(1) unfolding Push_publish by (cases "i = length ps") (auto simp: queue_ok_def nth_append)
  moreover have "tc \<noteq> Idle \<longrightarrow> CB \<le> Suc (length ps) \<and> F \<le> CB \<and> pop_ok N (ps @ [elem]) F CB tc"
    using assms(1) pop_ok_more by (auto simp: queue_ok_def)
  ultimately show ?thesis using assms(1) unfolding Push_publish q
    by (simp add: queue_ok_def push_end_def)
qed (use assms(4) in simp_all)


text \<open>A step of the consumer.\<close>

definition pop_end :: "u8 list \<Rightarrow> nat \<Rightarrow> nat \<Rightarrow> pc \<Rightarrow> queue_event list \<Rightarrow> bool" where
  "pop_end ps F CB t evs \<longleftrightarrow> t \<noteq> Idle \<and> \<not> pushing t \<and> evs = [] \<or> t = Idle \<and>
     (evs = [Pop_empty] \<and> F = CB \<or> evs = [Pop_gave_up] \<or> F < length ps \<and> evs = [Popped (ps ! F)])"

lemma pop_version_step:
  assumes "queue_ok N q ps F CF CB tp (Pop_version back k cf)" "limit_ok N" "Suc (length ps) + N < 2 ^ 48"
  shows "queue_pop_front weak q (Pop_version back k cf) = (q, if F = CB \<and> back = of_nat F then (Idle, [Pop_empty])
      else (Pop_exchange back k (ver F) (ver (Suc F)) (of_nat (F mod N))
        (pack_offset (ver (Suc F)) (of_nat (Suc (N + F)))), []))"
    and "F \<noteq> CB \<or> back \<noteq> of_nat F \<Longrightarrow> F < length ps"
proof -
  obtain G where g: "CB \<le> G" "F \<le> G" "G \<le> length ps" "back = of_nat G" and q: "cf = ver F" "F \<le> CB" "F \<le> length ps"
    "version_front q = pack_offset (ver F) (of_nat (N + F))" "size_limit q = of_nat N"
    using assms(1) by (auto simp: queue_ok_def back_read_def)
  have eq: "back = of_nat F \<longleftrightarrow> G = F"
    unfolding g(4) using g(3) q(3) assms(3) by (intro of_nat_eq_small) simp_all
  then show "F \<noteq> CB \<or> back \<noteq> of_nat F \<Longrightarrow> F < length ps" using g(1,2,3) q(2) by auto
  obtain m where m: "N = 2 ^ m" "m \<le> 47" using assms(2) by (auto simp: limit_ok_def)
  have n: "N + F < 2 ^ 48" "Suc (N + F) < 2 ^ 48" using q(3) assms(3) by auto
  have "of_nat (N + F) - back = of_nat N \<longleftrightarrow> back = of_nat F" by (auto simp: algebra_simps)
  moreover have "G = F \<longleftrightarrow> F = CB \<and> G = F" using g(1) q(2) by auto
  moreover have "(N + F) mod N = F mod N" by simp
  ultimately show "queue_pop_front weak q (Pop_version back k cf) = (q, if F = CB \<and> back = of_nat F then (Idle, [Pop_empty])
      else (Pop_exchange back k (ver F) (ver (Suc F)) (of_nat (F mod N))
        (pack_offset (ver (Suc F)) (of_nat (Suc (N + F)))), []))"
    using slot [OF m n(1)] offset_Suc [OF n(2)] unpack_same [OF n(1), of F] eq
    by (simp add: q ver_Suc Let_def del: of_nat_add of_nat_Suc)
qed

lemma queue_ok_pop:
  assumes "queue_ok N q ps F CF CB tp tc" "limit_ok N" "Suc (length ps) + N < 2 ^ 48" "tc \<noteq> Idle" "\<not> pushing tc"
    and "queue_pop_front weak q tc = (q', tc', evs)"
  shows "queue_ok N q' ps (F + length (taken_out evs)) CF CB tp tc' \<and> pop_end ps F CB tc' evs"
proof (cases tc)
  case Pop_back
  have n: "length ps < 2 ^ 48" and q: "version_back q = pack_offset (ver (length ps)) (of_nat (length ps))"
    "CB \<le> length ps" "F \<le> length ps"
    using assms(1,3) by (auto simp: queue_ok_def Pop_back)
  have "version_back q AND offset_mask = of_nat (length ps)" unfolding q by (rule packed [OF n])
  then have "back_read F (length ps) CB (version_back q AND offset_mask)" using q(2,3) unfolding back_read_def by blast
  then show ?thesis using assms(1,6) unfolding Pop_back by (auto simp: queue_ok_def pop_end_def)
next
  case (Pop_counter bk k)
  then show ?thesis using assms(1,6) by (auto simp: queue_ok_def pop_end_def)
next
  case (Pop_version bk k cf)
  note step = pop_version_step [OF assms(1) [unfolded Pop_version] assms(2,3)]
  show ?thesis
  proof (cases "F = CB \<and> bk = of_nat F")
    case True
    have "q' = q" "evs = [Pop_empty]" "tc' = Idle"
      using assms(6) unfolding Pop_version step(1) if_P [OF True] by simp_all
    then show ?thesis using True assms(1) unfolding Pop_version by (simp add: queue_ok_def pop_end_def)
  next
    case False
    then have b: "F < length ps" using step(2) by blast
    have q: "q' = q" "evs = []" "tc' = Pop_exchange bk k (ver F) (ver (Suc F))
        (of_nat (F mod N)) (pack_offset (ver (Suc F)) (of_nat (Suc (N + F))))"
      using assms(6) unfolding Pop_version step(1) if_not_P [OF False] by simp_all
    show ?thesis using b assms(1) unfolding q Pop_version by (simp add: queue_ok_def pop_end_def)
  qed
next
  case (Pop_exchange bk k cf new_version offset pack)
  then show ?thesis using assms(1,6)
    by (auto simp: queue_ok_def pop_end_def pop_retry_def split: if_splits)
next
  case (Pop_load offset pack)
  have b: "F < length ps" "F < 2 ^ 64" "offset = of_nat (F mod N)" "vec q ! (F mod N) = ps ! F"
    using assms(1,3) unfolding Pop_load by (auto simp: queue_ok_def)
  have "unat offset = F mod N" unfolding b(3) using b(2) by (simp add: unat_small order.strict_trans1 [OF mod_less_eq_dividend])
  then have q: "q' = q" "tc' = Pop_publish (ps ! F) pack" "evs = []" using assms(6) b(4) unfolding Pop_load by simp_all
  show ?thesis using assms(1) b(1) unfolding Pop_load q by (simp add: queue_ok_def pop_end_def)
next
  case (Pop_publish val pack)
  have q: "q' = q\<lparr>version_front := pack\<rparr>" "tc' = Idle" "evs = [Popped (ps ! F)]" "F < length ps"
    using assms(1,6) unfolding Pop_publish by (simp_all add: queue_ok_def)
  have "pushing tp \<longrightarrow> CF \<le> Suc F \<and> length ps \<le> N + CF \<and> push_ok N (length ps) (Suc F) CF (vec q) tp"
    using assms(1) push_ok_more by (auto simp: queue_ok_def)
  then show ?thesis using assms(1) q(4) unfolding Pop_publish q(1,2,3)
    by (simp add: queue_ok_def pop_end_def)
qed (use assms(4,5) in simp_all)


section \<open>The system\<close>

text \<open>The history before the last call \<open>c\<close>.\<close>

definition before_last :: "queue_event \<Rightarrow> queue_event list \<Rightarrow> queue_event list" where
  "before_last c h = rev (tl (dropWhile (\<lambda>e. e \<noteq> c) (rev h)))"

lemma before_last_later: "c \<notin> set evs \<Longrightarrow> before_last c (h @ evs) = before_last c h"
proof -
  assume "c \<notin> set evs"
  then have "dropWhile (\<lambda>e. e \<noteq> c) (rev evs @ rev h) = dropWhile (\<lambda>e. e \<noteq> c) (rev h)"
    by (intro dropWhile_append2) auto
  then show ?thesis by (simp add: before_last_def)
qed

lemma before_last_call: "before_last c (h @ [c]) = h"
  by (simp add: before_last_def)

text \<open>
  A call of \<^verbatim>\<open>push_back\<close> that found the queue full and one of \<^verbatim>\<open>pop_front\<close> that found it empty
  were right when they were made.
\<close>

definition refusals_ok :: "nat \<Rightarrow> queue_event list \<Rightarrow> bool" where
  "refusals_ok N h \<longleftrightarrow> (\<forall>k < length h.
     (h ! k = Push_full \<longrightarrow> (let b = before_last Push_call (take k h) in length (put_in b) = length (taken_out b) + N)) \<and>
     (h ! k = Pop_empty \<longrightarrow> (let b = before_last Pop_call (take k h) in length (put_in b) = length (taken_out b))))"

lemma refusals_snoc:
  "refusals_ok N (h @ [e]) \<longleftrightarrow> refusals_ok N h \<and>
     (e = Push_full \<longrightarrow> length (put_in (before_last Push_call h)) = length (taken_out (before_last Push_call h)) + N) \<and>
     (e = Pop_empty \<longrightarrow> length (put_in (before_last Pop_call h)) = length (taken_out (before_last Pop_call h)))"
  unfolding refusals_ok_def Let_def by (auto simp: nth_append less_Suc_eq all_conj_distrib)

definition producer_at :: "nat \<Rightarrow> queue_system \<Rightarrow> pc" where
  "producer_at p s = (if pushing (threads s p) then threads s p else Idle)"

definition consumer_at :: "nat \<Rightarrow> queue_system \<Rightarrow> pc" where
  "consumer_at c s = (if pushing (threads s c) then Idle else threads s c)"

definition system_ok :: "nat \<Rightarrow> nat \<Rightarrow> nat \<Rightarrow> queue_system \<Rightarrow> bool" where
  "system_ok N p c s \<longleftrightarrow> (let h = history s; tp = producer_at p s; tc = consumer_at c s in
     queue_ok N (queue_of s) (put_in h) (length (taken_out h)) (length (taken_out (before_last Push_call h)))
       (length (put_in (before_last Pop_call h))) tp tc \<and>
     taken_out h = take (length (taken_out h)) (put_in h) \<and>
     (tp \<noteq> Idle \<longrightarrow> length (put_in (before_last Push_call h)) = length (put_in h)) \<and>
     (tc \<noteq> Idle \<longrightarrow> length (taken_out (before_last Pop_call h)) = length (taken_out h)) \<and>
     (\<forall>i. i \<noteq> p \<longrightarrow> \<not> pushing (threads s i)) \<and>
     (\<forall>i. i \<noteq> c \<longrightarrow> threads s i = Idle \<or> pushing (threads s i)) \<and>
     refusals_ok N h)"

lemma pushing_not_idle: "pushing t \<Longrightarrow> t \<noteq> Idle"
  by auto

lemma push_end_cases:
  assumes "push_end N B CF t evs"
  shows "Push_call \<notin> set evs" "Pop_call \<notin> set evs" "taken_out evs = []" "t \<noteq> Idle \<Longrightarrow> evs = []" "t = Idle \<or> pushing t"
  using assms by (auto simp: push_end_def)

lemma pop_end_cases:
  assumes "pop_end ps F CB t evs"
  shows "Push_call \<notin> set evs" "Pop_call \<notin> set evs" "put_in evs = []" "t \<noteq> Idle \<Longrightarrow> evs = []" "\<not> pushing t"
  using assms by (auto simp: pop_end_def)

lemma system_push:
  assumes "system_ok N p c s" "limit_ok N" "Suc (length (put_in (history s))) + N < 2 ^ 48" "pushing (threads s p)"
  shows "system_ok N p c (system_act (p, Go weak) s)"
proof -
  let ?h = "history s"
  have at: "producer_at p s = threads s p" using assms(4) by (simp add: producer_at_def)
  have ok: "queue_ok N (queue_of s) (put_in ?h) (length (taken_out ?h)) (length (taken_out (before_last Push_call ?h)))
       (length (put_in (before_last Pop_call ?h))) (threads s p) (consumer_at c s)"
    and h: "taken_out ?h = take (length (taken_out ?h)) (put_in ?h)" "refusals_ok N ?h"
      "length (put_in (before_last Push_call ?h)) = length (put_in ?h)"
      "consumer_at c s \<noteq> Idle \<longrightarrow> length (taken_out (before_last Pop_call ?h)) = length (taken_out ?h)"
    and t: "\<forall>i. i \<noteq> p \<longrightarrow> \<not> pushing (threads s i)" "\<forall>i. i \<noteq> c \<longrightarrow> threads s i = Idle \<or> pushing (threads s i)"
    using assms(1,4) unfolding system_ok_def Let_def at by auto
  obtain q' t' evs where st: "queue_push_back weak (queue_of s) (threads s p) = (q', t', evs)" by (metis prod_cases3)
  then have s': "system_act (p, Go weak) s = \<lparr>queue_of = q', threads = (threads s)(p := t'), history = ?h @ evs\<rparr>"
    using assms(4) by (simp add: system_act_def thread_act_def)
  note q = queue_ok_push [OF ok assms(2,3,4) st]
  note e = push_end_cases [OF conjunct2 [OF q]]
  have pt: "producer_at p (system_act (p, Go weak) s) = t'" using e(5) by (auto simp: producer_at_def s')
  have ct: "consumer_at c (system_act (p, Go weak) s) = consumer_at c s"
    using e(5) assms(4) by (auto simp: consumer_at_def s')
  have r: "refusals_ok N (?h @ evs)" using conjunct2 [OF q] h(2,3) by (auto simp: push_end_def refusals_snoc)
  have le: "length (taken_out ?h) \<le> length (put_in ?h)" using ok by (simp add: queue_ok_def)
  have t': "\<forall>i. i \<noteq> p \<longrightarrow> \<not> pushing (((threads s)(p := t')) i)"
    "\<forall>i. i \<noteq> c \<longrightarrow> ((threads s)(p := t')) i = Idle \<or> pushing (((threads s)(p := t')) i)"
    using t e(5) by auto
  show ?thesis
    unfolding system_ok_def Let_def pt ct
    using conjunct1 [OF q] e(4) h(1,3,4) r t' le by (simp add: s' before_last_later e(1,2,3))
qed


lemma system_pop:
  assumes "system_ok N p c s" "limit_ok N" "Suc (length (put_in (history s))) + N < 2 ^ 48"
    and "threads s c \<noteq> Idle" "\<not> pushing (threads s c)"
  shows "system_ok N p c (system_act (c, Go weak) s)"
proof -
  let ?h = "history s"
  have at: "consumer_at c s = threads s c" using assms(5) by (simp add: consumer_at_def)
  have ok: "queue_ok N (queue_of s) (put_in ?h) (length (taken_out ?h)) (length (taken_out (before_last Push_call ?h)))
       (length (put_in (before_last Pop_call ?h))) (producer_at p s) (threads s c)"
    and h: "taken_out ?h = take (length (taken_out ?h)) (put_in ?h)" "refusals_ok N ?h"
      "producer_at p s \<noteq> Idle \<longrightarrow> length (put_in (before_last Push_call ?h)) = length (put_in ?h)"
      "length (taken_out (before_last Pop_call ?h)) = length (taken_out ?h)"
    and t: "\<forall>i. i \<noteq> p \<longrightarrow> \<not> pushing (threads s i)" "\<forall>i. i \<noteq> c \<longrightarrow> threads s i = Idle \<or> pushing (threads s i)"
    using assms(1,4) unfolding system_ok_def Let_def at by auto
  obtain q' t' evs where st: "queue_pop_front weak (queue_of s) (threads s c) = (q', t', evs)" by (metis prod_cases3)
  then have s': "system_act (c, Go weak) s = \<lparr>queue_of = q', threads = (threads s)(c := t'), history = ?h @ evs\<rparr>"
    using assms(5) by (simp add: system_act_def thread_act_def)
  note q = queue_ok_pop [OF ok assms(2,3,4,5) st]
  note e = pop_end_cases [OF conjunct2 [OF q]]
  have ct: "consumer_at c (system_act (c, Go weak) s) = t'" using e(5) by (auto simp: consumer_at_def s')
  have pt: "producer_at p (system_act (c, Go weak) s) = producer_at p s"
    using e(5) assms(5) by (auto simp: producer_at_def s')
  have r: "refusals_ok N (?h @ evs)" using conjunct2 [OF q] h(2,4) by (auto simp: pop_end_def refusals_snoc)
  have le: "length (taken_out ?h) + length (taken_out evs) \<le> length (put_in ?h)" using conjunct1 [OF q] by (simp add: queue_ok_def)
  have po: "taken_out ?h @ taken_out evs = take (length (taken_out ?h) + length (taken_out evs)) (put_in ?h)"
    using conjunct2 [OF q] h(1) by (auto simp: pop_end_def take_Suc_conv_app_nth)
  have t': "\<forall>i. i \<noteq> p \<longrightarrow> \<not> pushing (((threads s)(c := t')) i)"
    "\<forall>i. i \<noteq> c \<longrightarrow> ((threads s)(c := t')) i = Idle \<or> pushing (((threads s)(c := t')) i)"
    using t e(5) by auto
  show ?thesis
    unfolding system_ok_def Let_def pt ct
    using conjunct1 [OF q] e(4) h(3,4) r t' le po by (simp add: s' before_last_later e(1,2,3))
qed

lemma system_idle:
  assumes "system_ok N p c s" "history s' = history s @ evs" "queue_of s' = queue_of s" "threads s' = threads s" "evs = []"
  shows "system_ok N p c s'"
proof -
  have "s' = s" using assms(2-5) by (cases s; cases s') simp
  then show ?thesis using assms(1) by simp
qed

lemma system_call_push:
  assumes "system_ok N p c s" "threads s p = Idle"
  shows "system_ok N p c (system_act (p, Call_push elem) s)"
proof -
  have s': "system_act (p, Call_push elem) s = s\<lparr>threads := (threads s)(p := Push_front elem), history := history s @ [Push_call]\<rparr>"
    using assms(2) by (simp add: system_act_def thread_act_def)
  have "producer_at p s = Idle" using assms(2) by (simp add: producer_at_def)
  moreover have "producer_at p (system_act (p, Call_push elem) s) = Push_front elem" by (simp add: producer_at_def s')
  moreover have "consumer_at c (system_act (p, Call_push elem) s) = consumer_at c s"
    using assms(2) by (simp add: consumer_at_def s')
  ultimately show ?thesis using assms(1) unfolding system_ok_def Let_def
    by (simp add: s' before_last_later before_last_call refusals_snoc queue_ok_def) blast
qed

lemma system_call_pop:
  assumes "system_ok N p c s" "threads s c = Idle"
  shows "system_ok N p c (system_act (c, Call_pop) s)"
proof -
  have s': "system_act (c, Call_pop) s = s\<lparr>threads := (threads s)(c := Pop_back), history := history s @ [Pop_call]\<rparr>"
    using assms(2) by (simp add: system_act_def thread_act_def)
  have "consumer_at c s = Idle" using assms(2) by (simp add: consumer_at_def)
  moreover have "consumer_at c (system_act (c, Call_pop) s) = Pop_back" by (simp add: consumer_at_def s')
  moreover have "producer_at p (system_act (c, Call_pop) s) = producer_at p s"
    using assms(2) by (simp add: producer_at_def s')
  ultimately show ?thesis using assms(1) unfolding system_ok_def Let_def
    by (simp add: s' before_last_later before_last_call refusals_snoc queue_ok_def)
qed

lemma system_act_ok:
  assumes "system_ok N p c s" "limit_ok N" "Suc (length (put_in (history s))) + N < 2 ^ 48" "spsc p c [(i, a)]"
  shows "system_ok N p c (system_act (i, a) s)"
proof (cases "\<exists>weak. a = Go weak")
  case True
  then obtain weak where a: "a = Go weak" by blast
  have t: "pushing (threads s i) \<longrightarrow> i = p" "threads s i \<noteq> Idle \<and> \<not> pushing (threads s i) \<longrightarrow> i = c"
    using assms(1) unfolding system_ok_def Let_def by auto
  consider "pushing (threads s i)" | "threads s i \<noteq> Idle" "\<not> pushing (threads s i)" | "threads s i = Idle" by blast
  then show ?thesis
  proof cases
    case 1 then show ?thesis using system_push [OF assms(1-3)] t(1) a by blast
  next
    case 2 then show ?thesis using system_pop [OF assms(1-3)] t(2) a by blast
  next
    case 3 then show ?thesis by (intro system_idle [OF assms(1)]) (auto simp: system_act_def thread_act_def a)
  qed
next
  case False
  show ?thesis
  proof (cases "threads s i = Idle")
    case True
    then show ?thesis using False assms(4) system_call_push [OF assms(1)] system_call_pop [OF assms(1)]
      by (cases a) (auto simp: spsc_def)
  next
    case busy: False
    then show ?thesis using False
      by (intro system_idle [OF assms(1)]) (cases a; auto simp: system_act_def thread_act_def)+
  qed
qed

lemma history_grows: "\<exists>evs. history (system_act x s) = history s @ evs"
  by (auto simp: system_act_def split: prod.splits)

lemma run_snoc: "run_queue limit (sched @ [x]) = system_act x (run_queue limit sched)"
  by (simp add: run_queue_def)

lemma system_init: "limit_ok (unat limit) \<Longrightarrow> system_ok (unat limit) p c (run_queue limit [])"
  by (auto simp: system_ok_def Let_def run_queue_def producer_at_def consumer_at_def queue_ok_def queue_init_def
      refusals_ok_def ver_def)

lemma queue_run_ok:
  assumes "limit_ok (unat limit)" "spsc p c sched" "Suc (length (put_in (history (run_queue limit sched)))) + unat limit < 2 ^ 48"
  shows "system_ok (unat limit) p c (run_queue limit sched)"
  using assms(2,3)
proof (induction sched rule: rev_induct)
  case Nil
  then show ?case using system_init [OF assms(1)] by simp
next
  case (snoc x sched)
  obtain evs where "history (run_queue limit (sched @ [x])) = history (run_queue limit sched) @ evs"
    unfolding run_snoc using history_grows by blast
  then have b: "Suc (length (put_in (history (run_queue limit sched)))) + unat limit < 2 ^ 48" using snoc.prems(2) by simp
  have sp: "spsc p c sched" "spsc p c [(fst x, snd x)]" using snoc.prems(1) by (simp_all add: spsc_def)
  have "system_ok (unat limit) p c (system_act (fst x, snd x) (run_queue limit sched))"
    by (rule system_act_ok [OF snoc.IH [OF sp(1) b] assms(1) b sp(2)])
  then show ?case unfolding run_snoc by simp
qed

lemma queue_size_ok:
  assumes "queue_ok N q ps F CF CB tp tc" "length ps + N < 2 ^ 48"
  shows "queue_size q = of_nat (length ps - F)"
proof -
  have n: "length ps < 2 ^ 48" "N + F < 2 ^ 48" and q: "F \<le> length ps" "length ps \<le> N + F" "size_limit q = of_nat N"
    "version_back q = pack_offset (ver (length ps)) (of_nat (length ps))" "version_front q = pack_offset (ver F) (of_nat (N + F))"
    using assms by (auto simp: queue_ok_def)
  have "\<not> (of_nat (N + F) :: u64) < of_nat (length ps)"
    using n q(2) by (simp add: word_less_nat_alt unat_small del: of_nat_add)
  then show ?thesis unfolding queue_size_def q(4,5) packed(1) [OF n(1)] packed(1) [OF n(2)] Let_def q(3)
    using q(1) by (simp add: of_nat_diff)
qed

text \<open>
  C14. The queue is a queue. While one thread puts in and one takes out, in every interleaving of their
  accesses, what has been taken out is a prefix of what has been put in, no more than the limit is
  left inside, and \<^verbatim>\<open>size\<close> is its number; a refused \<^verbatim>\<open>push_back\<close> was called on a full
  queue and a refused \<^verbatim>\<open>pop_front\<close> on an empty one. The offsets are not reduced when the front
  passes their limit, so this holds for the first 2 to the 48 elements.
\<close>

theorem queue_fifo:
  assumes "limit_ok (unat limit)" "spsc producer consumer sched" "h = history (run_queue limit sched)"
    and "Suc (length (put_in h)) + unat limit < 2 ^ 48"
  shows "\<exists>inside. put_in h = taken_out h @ inside \<and> length inside \<le> unat limit \<and>
    queue_size (queue_of (run_queue limit sched)) = of_nat (length inside) \<and> refusals_ok (unat limit) h"
proof -
  have s: "system_ok (unat limit) producer consumer (run_queue limit sched)"
    using queue_run_ok [OF assms(1,2)] assms(3,4) by simp
  then obtain CF CB tp tc where q: "queue_ok (unat limit) (queue_of (run_queue limit sched)) (put_in h) (length (taken_out h)) CF CB tp tc"
    and h: "taken_out h = take (length (taken_out h)) (put_in h)" "refusals_ok (unat limit) h"
    unfolding system_ok_def Let_def assms(3) by blast
  have "put_in h = taken_out h @ drop (length (taken_out h)) (put_in h)" using h(1) by (metis append_take_drop_id)
  moreover have "length (put_in h) - length (taken_out h) \<le> unat limit" using q unfolding queue_ok_def by linarith
  moreover have "queue_size (queue_of (run_queue limit sched)) = of_nat (length (put_in h) - length (taken_out h))"
    using queue_size_ok [OF q] assms(4) by simp
  ultimately show ?thesis using h(2)
    by (intro exI [of _ "drop (length (taken_out h)) (put_in h)"]) (simp del: of_nat_diff)
qed


section \<open>Progress\<close>

text \<open>The number of accesses that are left when no exchange fails.\<close>

fun left :: "pc \<Rightarrow> nat" where
  "left Idle = 0"
| "left (Push_front elem) = 6"
| "left (Push_counter elem front k) = 5"
| "left (Push_version elem front k cb) = 4"
| "left (Push_exchange elem front k cb new_version offset pack) = 3"
| "left (Push_store elem offset pack) = 2"
| "left (Push_publish elem pack) = 1"
| "left Pop_back = 6"
| "left (Pop_counter back k) = 5"
| "left (Pop_version back k cf) = 4"
| "left (Pop_exchange back k cf new_version offset pack) = 3"
| "left (Pop_load offset pack) = 2"
| "left (Pop_publish val pack) = 1"

lemma push_progress:
  assumes "queue_ok N q ps F CF CB tp tc" "limit_ok N" "Suc (length ps) + N < 2 ^ 48" "pushing tp"
    and "queue_push_back False q tp = (q', tp', evs)"
  shows "left tp' < left tp"
proof (cases tp)
  case (Push_version elem front k cb)
  show ?thesis using assms(5) unfolding Push_version
      push_version_step(1) [OF assms(1) [unfolded Push_version] assms(2,3)] by (auto split: if_splits)
next
  case (Push_exchange elem front k cb new_version offset pack)
  then show ?thesis using assms(1,5) by (auto simp: queue_ok_def)
qed (use assms(4,5) in auto)

lemma pop_progress:
  assumes "queue_ok N q ps F CF CB tp tc" "limit_ok N" "Suc (length ps) + N < 2 ^ 48" "tc \<noteq> Idle" "\<not> pushing tc"
    and "queue_pop_front False q tc = (q', tc', evs)"
  shows "left tc' < left tc"
proof (cases tc)
  case (Pop_version bk k cf)
  show ?thesis using assms(6) unfolding Pop_version
      pop_version_step(1) [OF assms(1) [unfolded Pop_version] assms(2,3)] by (auto split: if_splits)
next
  case (Pop_exchange bk k cf new_version offset pack)
  then show ?thesis using assms(1,6) by (auto simp: queue_ok_def)
qed (use assms(4-6) in auto)

lemma step_progress:
  assumes "system_ok N p c s" "limit_ok N" "Suc (length (put_in (history s))) + N < 2 ^ 48" "threads s i \<noteq> Idle"
  shows "left (threads (system_act (i, Go False) s) i) < left (threads s i)"
proof (cases "pushing (threads s i)")
  case True
  obtain q' t' evs where st: "queue_push_back False (queue_of s) (threads s i) = (q', t', evs)" by (metis prod_cases3)
  have "i = p" using assms(1) True unfolding system_ok_def Let_def by blast
  then have "\<exists>CF CB tc. queue_ok N (queue_of s) (put_in (history s)) (length (taken_out (history s))) CF CB (threads s i) tc"
    using assms(1) True unfolding system_ok_def Let_def producer_at_def by auto
  then have "left t' < left (threads s i)" using push_progress [OF _ assms(2,3) True st] by blast
  then show ?thesis using True st by (simp add: system_act_def thread_act_def)
next
  case False
  obtain q' t' evs where st: "queue_pop_front False (queue_of s) (threads s i) = (q', t', evs)" by (metis prod_cases3)
  have "i = c" using assms(1,4) False unfolding system_ok_def Let_def by blast
  then have "\<exists>CF CB tp. queue_ok N (queue_of s) (put_in (history s)) (length (taken_out (history s))) CF CB tp (threads s i)"
    using assms(1) False unfolding system_ok_def Let_def consumer_at_def by auto
  then have "left t' < left (threads s i)" using pop_progress [OF _ assms(2,3,4) False st] by blast
  then show ?thesis using False st by (simp add: system_act_def thread_act_def)
qed

lemma others_keep:
  "\<lbrakk>threads s i \<noteq> Idle; x \<noteq> (i, Go False); x \<noteq> (i, Go True)\<rbrakk> \<Longrightarrow> threads (system_act x s) i = threads s i"
  by (cases x; cases "snd x") (auto simp: system_act_def thread_act_def split: prod.splits)

lemma put_in_prefix: "length (put_in (history (run_queue limit sched))) \<le> length (put_in (history (run_queue limit (sched @ later))))"
proof (induction later rule: rev_induct)
  case (snoc x later)
  obtain evs where "history (run_queue limit ((sched @ later) @ [x])) = history (run_queue limit (sched @ later)) @ evs"
    unfolding run_snoc using history_grows by blast
  then show ?case using snoc.IH by simp
qed simp

lemma returns_within:
  assumes "limit_ok (unat limit)" "spsc p c (sched @ later)"
    and "Suc (length (put_in (history (run_queue limit (sched @ later))))) + unat limit < 2 ^ 48"
    and "(i, Go True) \<notin> set later" "left (threads (run_queue limit sched) i) \<le> count_list later (i, Go False)"
  shows "\<exists>k \<le> length later. threads (run_queue limit (sched @ take k later)) i = Idle"
  using assms(2-5)
proof (induction later arbitrary: sched)
  case Nil
  have "left t = 0 \<Longrightarrow> t = Idle" for t by (cases t) simp_all
  then show ?case using Nil.prems(4) by simp
next
  case (Cons x later)
  show ?case
  proof (cases "threads (run_queue limit sched) i = Idle")
    case True
    then show ?thesis by (intro exI [of _ 0]) simp
  next
    case busy: False
    have "Suc (length (put_in (history (run_queue limit sched)))) + unat limit < 2 ^ 48"
      using Cons.prems(2) put_in_prefix [of limit sched "x # later"] by simp
    moreover have "spsc p c sched" using Cons.prems(1) by (simp add: spsc_def)
    ultimately have "left (threads (system_act (i, Go False) (run_queue limit sched)) i) < left (threads (run_queue limit sched) i)"
      using queue_run_ok [OF assms(1)] by (intro step_progress [OF _ assms(1) _ busy]) blast+
    then have "left (threads (run_queue limit (sched @ [x])) i) \<le> count_list later (i, Go False)"
      using Cons.prems(3,4) others_keep [OF busy, of x] unfolding run_snoc by (cases "x = (i, Go False)") auto
    then obtain k where "k \<le> length later" "threads (run_queue limit ((sched @ [x]) @ take k later)) i = Idle"
      using Cons.IH [of "sched @ [x]"] Cons.prems(1,2,3) by auto
    then show ?thesis by (intro exI [of _ "Suc k"]) simp
  qed
qed

text \<open>
  C15. The queue does not wait. While one thread puts in and one takes out, an operation that has begun
  returns after at most six accesses of its own, whatever the other thread does in between or
  wherever it has stopped, if the exchanges of this thread do not fail without a reason.
\<close>

theorem queue_wait_free:
  assumes "limit_ok (unat limit)" "spsc producer consumer (sched @ later)"
    and "Suc (length (put_in (history (run_queue limit (sched @ later))))) + unat limit < 2 ^ 48"
    and "(i, Go True) \<notin> set later" "6 \<le> count_list later (i, Go False)"
  shows "\<exists>k \<le> length later. threads (run_queue limit (sched @ take k later)) i = Idle"
proof -
  have "left t \<le> 6" for t by (cases t) simp_all
  then show ?thesis by (intro returns_within [OF assms(1-4)] order_trans [OF _ assms(5)])
qed


section \<open>Examples\<close>

definition goes :: "nat \<Rightarrow> nat \<Rightarrow> (nat \<times> action) list" where
  "goes n i = replicate n (i, Go False)"

lemma goes_list:
  "goes 5 i = [(i, Go False), (i, Go False), (i, Go False), (i, Go False), (i, Go False)]"
  "goes 6 i = [(i, Go False), (i, Go False), (i, Go False), (i, Go False), (i, Go False), (i, Go False)]"
  by (simp_all add: goes_def numeral_eq_Suc)

lemma limit_ok_small: "limit_ok 1" "limit_ok 2"
  unfolding limit_ok_def by (rule exI [of _ 0], simp) (rule exI [of _ 1], simp)

definition sample_schedule :: "(nat \<times> action) list" where
  "sample_schedule = [(0, Call_push 7)] @ goes 6 0 @ [(1, Call_pop)] @ goes 6 1"

lemma queue_sample_run:
  "history (run_queue 2 sample_schedule) = [Push_call, Pushed 7, Pop_call, Popped 7]"
  by code_simp

theorem queue_fifo_witness:
  "\<exists>inside. put_in (history (run_queue 2 sample_schedule)) = taken_out (history (run_queue 2 sample_schedule)) @ inside \<and>
    length inside \<le> 2 \<and> queue_size (queue_of (run_queue 2 sample_schedule)) = of_nat (length inside) \<and>
    refusals_ok 2 (history (run_queue 2 sample_schedule))"
proof -
  have "spsc 0 1 sample_schedule" by (simp add: sample_schedule_def spsc_def goes_list)
  moreover have "Suc (length (put_in (history (run_queue 2 sample_schedule)))) + unat (2 :: u64) < 2 ^ 48"
    by (simp add: queue_sample_run put_in_def)
  ultimately show ?thesis using queue_fifo [of 2 0 1 sample_schedule] limit_ok_small by simp
qed

text \<open>
  With a second consumer the queue is not a queue: the first one has read the back of the empty queue
  and stops, an element goes through, and the first one, whose test only compares for equality, takes
  it again.
\<close>

lemma two_consumers_take_twice:
  fixes sched :: "(nat \<times> action) list"
  assumes "sched = [(1, Call_pop), (1, Go False), (0, Call_push 7)] @ goes 6 0 @ [(2, Call_pop)] @ goes 6 2 @ goes 5 1"
  shows "put_in (history (run_queue 1 sched)) = [7]" "taken_out (history (run_queue 1 sched)) = [7, 7]"
  unfolding assms by code_simp+

text \<open>With a second producer an element is overwritten.\<close>

lemma two_producers_overwrite:
  fixes sched :: "(nat \<times> action) list"
  assumes "sched = [(2, Call_push 8), (2, Go False), (0, Call_push 7)] @ goes 6 0 @ [(1, Call_pop)] @ goes 6 1 @
    [(0, Call_push 9)] @ goes 6 0 @ goes 5 2 @ [(1, Call_pop)] @ goes 6 1"
  shows "put_in (history (run_queue 1 sched)) = [7, 9, 8]" "taken_out (history (run_queue 1 sched)) = [7, 8]"
  unfolding assms by code_simp+

text \<open>An empty queue whose front has passed the offset limit is not seen to be empty.\<close>

lemma wrapped_front:
  assumes "size_limit q = 1" "version_back q = pack_offset (ver v) (of_nat (2 ^ 48 - 1))"
    and "version_front q = pack_offset (ver w) (of_nat (2 ^ 48) AND offset_mask)"
  shows "\<not> queue_empty q" "queue_size q = 2 ^ 48 - 1"
proof -
  have f: "(of_nat (2 ^ 48) AND offset_mask :: u64) = of_nat 0" by (simp add: offset_mask_def)
  have b: "version_back q AND offset_mask = 2 ^ 48 - 1" "version_front q AND offset_mask = 0"
    unfolding assms(2,3) f using packed(1) [of "2 ^ 48 - 1" v] packed(1) [of 0 w] by simp_all
  show "\<not> queue_empty q" "queue_size q = 2 ^ 48 - 1" by (simp_all add: queue_empty_def queue_size_def b assms(1))
qed

theorem queue_wait_free_witness:
  "\<exists>k \<le> 6. threads (run_queue 2 ([(0, Call_push 7)] @ take k (goes 6 0))) 0 = Idle"
proof -
  let ?s = "[(0, Call_push 7)] @ goes 6 0"
  have "history (run_queue 2 ?s) = [Push_call, Pushed 7]" by code_simp
  then have "Suc (length (put_in (history (run_queue 2 ?s)))) + unat (2 :: u64) < 2 ^ 48" by (simp add: put_in_def)
  moreover have "spsc 0 1 ?s" by (simp add: spsc_def goes_list)
  moreover have "count_list (goes 6 0) (0, Go False) = 6" by (simp add: goes_list)
  moreover have "length (goes 6 0) = 6" "(0, Go True) \<notin> set (goes 6 0)" by (simp_all add: goes_list)
  ultimately show ?thesis
    using queue_wait_free [of 2 0 1 "[(0, Call_push 7)]" "goes 6 0" 0] limit_ok_small by simp
qed

end
