(* ===== verification/Devices.thy ===== *)
theory Devices
  imports Priv_Spec
begin

text \<open>
  The devices on the bus of the system processor (\<^verbatim>\<open>src/src/emu/device-*.h\<close>): interrupt
  controller, timer, interprocessor interrupts, real time clock, UART, GPIO, HTIF, random numbers and
  configuration, and \<^verbatim>\<open>isr\<close> of \<^verbatim>\<open>src/src/emu/processor-priv-1.9.h\<close>, which asks them. The
  console has the characters that wait in its queue and those that were written to it. Loads and
  stores take the size of the access in bytes and the address inside the device; the ROM devices and
  what is printed are left out.
\<close>

unbundle bit_operations_syntax

section \<open>Accesses\<close>

text \<open>
  An access is done, raises \<^verbatim>\<open>internal_cause_poweroff\<close>, is a bus error (the default methods), or
  leaves the object that holds the registers, which is undefined.
\<close>

datatype 'a io = Io 'a | Power_off 'a | Bus_error | Outside

text \<open>The bytes of an array, and an access to it through a pointer to words of \<open>n\<close> bytes.\<close>

definition array_bytes :: "'a::len word list \<Rightarrow> u64 \<Rightarrow> u8" where
  "array_bytes xs p = (let w = LENGTH('a) div 8 in ucast (drop_bit (8 * (unat p mod w)) (xs ! (unat p div w))))"

definition access_at :: "nat \<Rightarrow> u64 \<Rightarrow> u64" where
  "access_at n va = va div of_nat n * of_nat n"

definition array_holds :: "'a::len word list \<Rightarrow> nat \<Rightarrow> u64 \<Rightarrow> bool" where
  "array_holds xs n va \<longleftrightarrow> unat (access_at n va) + n \<le> length xs * (LENGTH('a) div 8)"

definition array_load :: "u64 \<Rightarrow> 'a::len word list \<Rightarrow> nat \<Rightarrow> u64 \<Rightarrow> u64 io" where
  "array_load total_size xs n va =
     (if va < total_size - (of_nat n - 1)
      then if array_holds xs n va then Io (host_read (array_bytes xs) (access_at n va) n) else Outside
      else Io 0)"

definition array_store :: "u64 \<Rightarrow> 'a::len word list \<Rightarrow> nat \<Rightarrow> u64 \<Rightarrow> u64 \<Rightarrow> 'a word list io" where
  "array_store total_size xs n va val =
     (if va < total_size - (of_nat n - 1)
      then if array_holds xs n va
        then let w = LENGTH('a) div 8; m = host_write (array_bytes xs) (access_at n va) n val
             in Io (map (\<lambda>k. ucast (host_read m (of_nat (k * w)) w)) [0..<length xs])
        else Outside
      else Io xs)"

section \<open>The console\<close>

record console =
  con_in :: "u8 list"
  con_out :: "u8 list"

definition has_char :: "console \<Rightarrow> bool" where
  "has_char c \<longleftrightarrow> con_in c \<noteq> []"

definition read_char :: "console \<Rightarrow> u8 \<times> console" where
  "read_char c = (case con_in c of [] \<Rightarrow> (0, c) | x # xs \<Rightarrow> (x, c\<lparr>con_in := xs\<rparr>))"

definition write_char :: "u8 \<Rightarrow> console \<Rightarrow> console" where
  "write_char x c = c\<lparr>con_out := con_out c @ [x]\<rparr>"

section \<open>The interrupt controller\<close>

record plic =
  irq_pendings :: u32
  irq_served :: u32

definition plic_init :: plic where
  "plic_init = \<lparr>irq_pendings = 0, irq_served = 0\<rparr>"

text \<open>The shift of an \<^verbatim>\<open>int\<close> is undefined from 32 on.\<close>

definition set_irq :: "u64 \<Rightarrow> bool \<Rightarrow> plic \<Rightarrow> plic option" where
  "set_irq irq val p =
     (if irq < 32
      then Some (p\<lparr>irq_pendings := if val then irq_pendings p OR push_bit (unat irq) 1
                                   else irq_pendings p AND NOT (push_bit (unat irq) 1)\<rparr>)
      else None)"

definition irq_waiting :: "plic \<Rightarrow> u32" where
  "irq_waiting p = irq_pendings p AND NOT (irq_served p)"

definition irq_pending :: "plic \<Rightarrow> bool" where
  "irq_pending p \<longleftrightarrow> 0 < irq_waiting p"

definition irq_ctz :: "u32 \<Rightarrow> nat" where
  "irq_ctz x = length (takeWhile (\<lambda>i. \<not> bit x i) [0..<32])"

definition plic_claim :: "plic \<Rightarrow> u64 \<times> plic" where
  "plic_claim p =
     (if irq_waiting p \<noteq> 0
      then let i = irq_ctz (irq_waiting p)
           in (of_nat (i + 1), p\<lparr>irq_served := irq_served p OR push_bit i 1\<rparr>)
      else (0, p))"

definition plic_load :: "nat \<Rightarrow> u64 \<Rightarrow> plic \<Rightarrow> (u64 \<times> plic) io" where
  "plic_load n va p =
     (if n = 4 then Io (if va = 4 then plic_claim p else (0, p))
      else if n = 8 then Io (if va = 0 then plic_claim p else (0, p))
      else Bus_error)"

text \<open>\<open>irq\<close> is the value after \<^verbatim>\<open>val--\<close>.\<close>

definition plic_complete :: "nat \<Rightarrow> plic \<Rightarrow> plic" where
  "plic_complete irq p = (if irq < 32 then p\<lparr>irq_served := irq_served p AND NOT (push_bit irq 1)\<rparr> else p)"

definition plic_store :: "nat \<Rightarrow> u64 \<Rightarrow> u64 \<Rightarrow> plic \<Rightarrow> plic io" where
  "plic_store n va val p =
     (if n = 4 then Io (if va = 4 then plic_complete (unat (ucast val - 1 :: u32)) p else p)
      else if n = 8 then Io (if va = 0 then plic_complete (unat (val - 1)) p else p)
      else Bus_error)"

section \<open>The timer\<close>

record timer =
  timecmp :: "u64 list"
  claimed :: "u64 list"

definition timer_harts :: nat where "timer_harts = 4"
definition timer_size :: u64 where "timer_size = 64 * 4"

definition timer_init :: timer where
  "timer_init = \<lparr>timecmp = replicate timer_harts 0, claimed = replicate timer_harts (- 1)\<rparr>"

definition timer_pending :: "u64 \<Rightarrow> u64 \<Rightarrow> timer \<Rightarrow> bool \<times> timer" where
  "timer_pending hart time t =
     (if of_nat timer_harts \<le> hart \<or> 0 < claimed t ! unat hart then (False, t)
      else if timecmp t ! unat hart \<le> time then (True, t\<lparr>claimed := (claimed t)[unat hart := time]\<rparr>)
      else (False, t))"

definition timer_load :: "nat \<Rightarrow> u64 \<Rightarrow> timer \<Rightarrow> u64 io" where
  "timer_load n va t = array_load timer_size (timecmp t) n va"

definition timer_store :: "nat \<Rightarrow> u64 \<Rightarrow> u64 \<Rightarrow> timer \<Rightarrow> timer io" where
  "timer_store n va val t =
     (case array_store timer_size (timecmp t) n va val of
        Io xs \<Rightarrow> Io (if va < timer_size - (of_nat n - 1)
            then t\<lparr>timecmp := xs, claimed := (claimed t)[unat (drop_bit 3 va) := 0]\<rparr> else t)
      | _ \<Rightarrow> Outside)"

section \<open>Interprocessor interrupts\<close>

record mipi =
  hart_ipi :: "u32 list"

definition mipi_harts :: nat where "mipi_harts = 4"
definition mipi_size :: u64 where "mipi_size = 32 * 4"

definition mipi_init :: mipi where
  "mipi_init = \<lparr>hart_ipi = replicate mipi_harts 0\<rparr>"

text \<open>The signal is written behind the end of the array.\<close>

definition signal_ipi :: "u64 \<Rightarrow> u32 \<Rightarrow> mipi \<Rightarrow> mipi io" where
  "signal_ipi hart val m = (if of_nat mipi_harts \<le> hart then Io m else Outside)"

definition ipi_pending :: "u64 \<Rightarrow> mipi \<Rightarrow> bool" where
  "ipi_pending hart m \<longleftrightarrow> hart < of_nat mipi_harts \<and> 0 < hart_ipi m ! unat hart"

definition mipi_load :: "nat \<Rightarrow> u64 \<Rightarrow> mipi \<Rightarrow> u64 io" where
  "mipi_load n va m = array_load mipi_size (hart_ipi m) n va"

definition mipi_store :: "nat \<Rightarrow> u64 \<Rightarrow> u64 \<Rightarrow> mipi \<Rightarrow> mipi io" where
  "mipi_store n va val m =
     (case array_store mipi_size (hart_ipi m) n va val of Io xs \<Rightarrow> Io (m\<lparr>hart_ipi := xs\<rparr>) | _ \<Rightarrow> Outside)"

section \<open>The real time clock\<close>

text \<open>
  The registers of clock and HTIF are accessed by halves; \<open>old\<close> is what the variable for the result
  held, which other addresses leave there.
\<close>

record rtc =
  mtime :: u64

definition update_time :: "u64 \<Rightarrow> rtc \<Rightarrow> rtc" where
  "update_time time r = r\<lparr>mtime := time\<rparr>"

definition low_half :: "u64 \<Rightarrow> u64 \<Rightarrow> u64" where
  "low_half x val = (x AND push_bit 32 (- 1)) OR ucast (ucast val :: u32)"

definition high_half :: "u64 \<Rightarrow> u64 \<Rightarrow> u64" where
  "high_half x val = (x AND drop_bit 32 (- 1)) OR push_bit 32 (ucast (ucast val :: u32))"

definition rtc_load :: "u64 \<Rightarrow> nat \<Rightarrow> u64 \<Rightarrow> rtc \<Rightarrow> u64 io" where
  "rtc_load old n va r =
     (if n = 4 then Io (switch va [(0, ucast (ucast (mtime r) :: u32)), (4, drop_bit 32 (mtime r))] old)
      else if n = 8 then Io (if va = 0 then mtime r else old)
      else Bus_error)"

definition rtc_store :: "nat \<Rightarrow> u64 \<Rightarrow> u64 \<Rightarrow> rtc \<Rightarrow> rtc io" where
  "rtc_store n va val r =
     (if n = 4 then Io (switch va [(0, r\<lparr>mtime := low_half (mtime r) val\<rparr>),
        (4, r\<lparr>mtime := high_half (mtime r) val\<rparr>)] r)
      else if n = 8 then Io (if va = 0 then r\<lparr>mtime := val\<rparr> else r)
      else Bus_error)"

section \<open>HTIF\<close>

record htif =
  htif_tohost :: u64
  htif_fromhost :: u64

definition htif_device_command :: "u8 \<Rightarrow> u8 \<Rightarrow> u64" where
  "htif_device_command device command = push_bit 56 (ucast device) OR push_bit 48 (ucast command)"

definition htif_device :: "u64 \<Rightarrow> u8" where "htif_device var = ucast (drop_bit 56 var)"
definition htif_command :: "u64 \<Rightarrow> u8" where "htif_command var = ucast (drop_bit 48 var AND 0xff)"

definition handle_output :: "htif \<times> console \<Rightarrow> (htif \<times> console) io" where
  "handle_output = (\<lambda>(h, c).
     if htif_tohost h = 1 then Power_off (h, c)
     else let device = htif_device (htif_tohost h); command = htif_command (htif_tohost h);
              done = h\<lparr>htif_tohost := 0, htif_fromhost := htif_device_command device command\<rparr>
          in if device = 1
             then Io (switch command [(0, (done, c)), (1, (done, write_char (ucast (htif_tohost h AND 0xff)) c))] (h, c))
             else Io (h, c))"

definition handle_input :: "htif \<times> console \<Rightarrow> htif \<times> console" where
  "handle_input = (\<lambda>(h, c).
     if htif_fromhost h = 0 \<and> has_char c
     then let (x, c') = read_char c in (h\<lparr>htif_fromhost := htif_device_command 1 0 OR ucast x\<rparr>, c')
     else (h, c))"

definition htif_load :: "u64 \<Rightarrow> nat \<Rightarrow> u64 \<Rightarrow> htif \<times> console \<Rightarrow> (u64 \<times> htif \<times> console) io" where
  "htif_load old n va d =
     (let d' = handle_input d in
      if n = 4 then Io (switch va
        [(0, (ucast (ucast (htif_tohost (fst d)) :: u32), d)), (4, (drop_bit 32 (htif_tohost (fst d)), d)),
         (8, (ucast (ucast (htif_fromhost (fst d')) :: u32), d')), (12, (drop_bit 32 (htif_fromhost (fst d)), d))] (old, d))
      else if n = 8 then Io (switch va [(0, (htif_tohost (fst d), d)), (8, (htif_fromhost (fst d'), d'))] (old, d))
      else Bus_error)"

definition htif_store :: "nat \<Rightarrow> u64 \<Rightarrow> u64 \<Rightarrow> htif \<times> console \<Rightarrow> (htif \<times> console) io" where
  "htif_store n va val = (\<lambda>(h, c).
     if n = 4 then switch va
       [(0, handle_output (h\<lparr>htif_tohost := low_half (htif_tohost h) val\<rparr>, c)),
        (4, handle_output (h\<lparr>htif_tohost := high_half (htif_tohost h) val\<rparr>, c)),
        (8, Io (h\<lparr>htif_fromhost := low_half (htif_fromhost h) val\<rparr>, c)),
        (12, Io (h\<lparr>htif_fromhost := high_half (htif_fromhost h) val\<rparr>, c))] (Io (h, c))
     else if n = 8 then switch va
       [(0, handle_output (h\<lparr>htif_tohost := val\<rparr>, c)), (8, Io (h\<lparr>htif_fromhost := val\<rparr>, c))] (Io (h, c))
     else Bus_error)"

section \<open>GPIO\<close>

text \<open>The registers in the order of the structure.\<close>

record gpio =
  gpio_irq :: u64
  gpio_regs :: "u32 list"

definition gpio_size :: u64 where "gpio_size = 4 * 4"

definition gpio_ie :: "gpio \<Rightarrow> u32" where "gpio_ie g = gpio_regs g ! 0"
definition gpio_ip :: "gpio \<Rightarrow> u32" where "gpio_ip g = gpio_regs g ! 1"
definition gpio_out :: "gpio \<Rightarrow> u32" where "gpio_out g = gpio_regs g ! 3"

definition gpio_init :: "u64 \<Rightarrow> gpio" where
  "gpio_init irq = \<lparr>gpio_irq = irq, gpio_regs = replicate 4 0\<rparr>"

definition gpio_service :: "gpio \<Rightarrow> plic \<Rightarrow> plic option" where
  "gpio_service g = set_irq (gpio_irq g) (gpio_ie g AND gpio_ip g \<noteq> 0)"

definition gpio_load :: "nat \<Rightarrow> u64 \<Rightarrow> gpio \<Rightarrow> u64 io" where
  "gpio_load n va g = array_load gpio_size (gpio_regs g) n va"

text \<open>\<^verbatim>\<open>trigger\<close>: the flag says whether the processor is reset.\<close>

definition gpio_trigger :: "gpio \<Rightarrow> (gpio \<times> bool) io" where
  "gpio_trigger g = (let reset = gpio_out g AND 2 \<noteq> 0 in if gpio_out g AND 1 \<noteq> 0 then Power_off (g, False) else Io (g, reset))"

definition gpio_store :: "nat \<Rightarrow> u64 \<Rightarrow> u64 \<Rightarrow> gpio \<Rightarrow> (gpio \<times> bool) io" where
  "gpio_store n va val g =
     (case array_store gpio_size (gpio_regs g) n va val of
        Io xs \<Rightarrow> gpio_trigger (g\<lparr>gpio_regs := xs\<rparr>) | _ \<Rightarrow> Outside)"

section \<open>The UART\<close>

record uart =
  uart_irq :: u64
  rbr :: u8
  thr :: u8
  ier :: u8
  iir :: u8
  fcr :: u8
  lcr :: u8
  mcr :: u8
  lsr :: u8
  msr :: u8
  scr :: u8
  dll :: u8
  dlm :: u8

definition uart_init :: "u64 \<Rightarrow> uart" where
  "uart_init irq = \<lparr>uart_irq = irq, rbr = 0, thr = 0, ier = 0, iir = 0, fcr = 0, lcr = 0, mcr = 0, lsr = 0,
     msr = 0, scr = 0, dll = 0, dlm = 0\<rparr>"

definition uart_service :: "uart \<Rightarrow> console \<Rightarrow> plic \<Rightarrow> plic option" where
  "uart_service u c = set_irq (uart_irq u) (ier u AND 0x01 \<noteq> 0 \<and> has_char c)"

definition uart_dlab :: "uart \<Rightarrow> bool" where
  "uart_dlab u \<longleftrightarrow> lcr u AND 0x80 \<noteq> 0"

text \<open>
  The case of the enable register has no \<^verbatim>\<open>break\<close> and ends with the value of the identity register.
\<close>

definition uart_iir :: "console \<Rightarrow> u8" where
  "uart_iir c = (if has_char c then 0x06 else 0x02)"

definition uart_load :: "u8 \<Rightarrow> nat \<Rightarrow> u64 \<Rightarrow> uart \<times> console \<Rightarrow> (u8 \<times> uart \<times> console) io" where
  "uart_load old n va = (\<lambda>(u, c).
     if n \<noteq> 1 then Bus_error
     else if uart_dlab u
     then Io (switch va [(0, dll u), (1, dlm u), (3, lcr u), (4, mcr u)] old, u, c)
     else Io (if va = 0
       then let (u', c') = (if has_char c then let (x, c') = read_char c in (u\<lparr>rbr := x\<rparr>, c') else (u, c))
            in (rbr u', u', c')
       else (switch va [(1, uart_iir c), (2, uart_iir c), (3, lcr u), (4, mcr u),
         (5, 0x20 OR (if has_char c then 0x01 else 0)), (6, 0x80 OR 0x20), (7, scr u)] 0, u, c)))"

definition uart_store :: "nat \<Rightarrow> u64 \<Rightarrow> u8 \<Rightarrow> uart \<times> console \<Rightarrow> (uart \<times> console) io" where
  "uart_store n va val = (\<lambda>(u, c).
     if n \<noteq> 1 then Bus_error
     else if uart_dlab u
     then Io (switch va [(0, u\<lparr>dll := val\<rparr>), (1, u\<lparr>dlm := val\<rparr>), (3, u\<lparr>lcr := val\<rparr>), (4, u\<lparr>mcr := val\<rparr>)] u, c)
     else Io (switch va [(0, (u\<lparr>thr := val\<rparr>, write_char val c)), (1, (u\<lparr>ier := val AND 0x0f\<rparr>, c)),
       (3, (u\<lparr>lcr := val\<rparr>, c)), (4, (u\<lparr>mcr := val\<rparr>, c)), (7, (u\<lparr>scr := val\<rparr>, c))] (u, c)))"

section \<open>Configuration and random numbers\<close>

text \<open>\<^verbatim>\<open>num_harts\<close>, \<^verbatim>\<open>time_base\<close>, \<^verbatim>\<open>rom_base\<close>, \<^verbatim>\<open>rom_size\<close>, \<^verbatim>\<open>rom_entry\<close>, \<^verbatim>\<open>ram_base\<close> and \<^verbatim>\<open>ram_size\<close>.\<close>

record config =
  config_regs :: "u64 list"

definition config_size :: u64 where "config_size = 8 * 7"

definition config_load :: "nat \<Rightarrow> u64 \<Rightarrow> config \<Rightarrow> u64 io" where
  "config_load n va g = array_load config_size (config_regs g) n va"

definition config_store :: "nat \<Rightarrow> u64 \<Rightarrow> u64 \<Rightarrow> config \<Rightarrow> config io" where
  "config_store n va val g = Bus_error"

text \<open>\<open>r1\<close> and \<open>r2\<close> are the next two random numbers of the host, of 32 bits each.\<close>

definition rand_load :: "u32 \<Rightarrow> u32 \<Rightarrow> nat \<Rightarrow> u64 \<Rightarrow> u64" where
  "rand_load r1 r2 n va =
     (if va < 4096 - (of_nat n - 1)
      then if n = 8 then push_bit 32 (ucast r1) OR ucast r2 else ucast r1 AND mask (8 * n)
      else 0)"

section \<open>The interrupt routine and its devices\<close>

record devices =
  d_plic :: plic
  d_timer :: timer
  d_mipi :: mipi
  d_rtc :: rtc
  d_uart :: uart
  d_gpio :: gpio
  d_console :: console

text \<open>The interrupt lines are fixed when the devices are made.\<close>

definition devices_init :: "console \<Rightarrow> devices" where
  "devices_init c = \<lparr>d_plic = plic_init, d_timer = timer_init, d_mipi = mipi_init, d_rtc = \<lparr>mtime = 0\<rparr>,
     d_uart = uart_init 3, d_gpio = gpio_init 4, d_console = c\<rparr>"

text \<open>\<^verbatim>\<open>service\<close> of the devices with an interrupt line.\<close>

definition service_devices :: "devices \<Rightarrow> devices option" where
  "service_devices d =
     (case uart_service (d_uart d) (d_console d) (d_plic d) of
        None \<Rightarrow> None
      | Some p \<Rightarrow> map_option (\<lambda>p'. d\<lparr>d_plic := p'\<rparr>) (gpio_service (d_gpio d) p))"

definition clock_devices :: "'w hart \<Rightarrow> devices \<Rightarrow> bool \<times> devices" where
  "clock_devices s d =
     (let (tip, t) = timer_pending (ucast (hart_id s)) (cpu_time s) (d_timer d)
      in (tip, d\<lparr>d_rtc := update_time (cpu_time s) (d_rtc d), d_timer := t\<rparr>))"

text \<open>
  \<^verbatim>\<open>isr\<close> with its calls of the devices: the timer is only asked when no external interrupt is taken.
\<close>

definition isr_devices :: "devices \<Rightarrow> 'w hart \<Rightarrow> (unit, 'w hart) outcome \<times> devices" where
  "isr_devices d s = (case service_devices d of
     None \<Rightarrow> (Undefined, d)
   | Some d1 \<Rightarrow>
      (case isr_source 11 9 (irq_pending (d_plic d1)) s of
         Ok taken s1 \<Rightarrow>
           if taken then (Ok () s1, d1)
           else let (tip, d2) = clock_devices s1 d1 in
             (case isr_source 7 5 tip s1 of
                Ok taken s2 \<Rightarrow>
                  if taken then (Ok () s2, d2)
                  else (bind_ok (isr_source 3 1 (ipi_pending (ucast (hart_id s2)) (d_mipi d2) \<or> has_char (d_console d2)) s2)
                          (\<lambda>taken. Ok ()), d2)
              | Raised cause s2 \<Rightarrow> (Raised cause s2, d2) | Panicked \<Rightarrow> (Panicked, d2) | Undefined \<Rightarrow> (Undefined, d2))
       | Raised cause s1 \<Rightarrow> (Raised cause s1, d1) | Panicked \<Rightarrow> (Panicked, d1) | Undefined \<Rightarrow> (Undefined, d1)))"

end
