(* ===== verification/Devices_Spec.thy ===== *)
theory Devices_Spec
  imports Devices
begin

text \<open>
  How a device interrupts the processor: what the interrupt controller hands out, that \<^verbatim>\<open>isr\<close> with
  its devices is the routine of \<open>Priv\<close> on what they report, and the way of a typed character from the
  console to the handler. The last lemmas are about addresses that the devices check wrongly.
\<close>

unbundle bit_operations_syntax

section \<open>The interrupt controller\<close>

lemma bit_set_one:
  fixes x :: u32
  assumes "k < 32"
  shows "bit (x OR 2 ^ k) i \<longleftrightarrow> i = k \<or> bit x i" and "bit (x AND NOT (2 ^ k)) i \<longleftrightarrow> i \<noteq> k \<and> bit x i"
  using assms by (auto simp: bit_or_iff bit_and_iff bit_not_iff bit_exp_iff dest: bit_imp_le_length)

lemma bit_waiting: "bit (irq_waiting p) i \<longleftrightarrow> bit (irq_pendings p) i \<and> \<not> bit (irq_served p) i"
  by (auto simp: irq_waiting_def bit_and_iff bit_not_iff dest: bit_imp_le_length)

lemma irq_ctz_eq:
  assumes "bit x k" "\<And>i. i < k \<Longrightarrow> \<not> bit x i" "k < 32"
  shows "irq_ctz x = k"
proof -
  have "[0..<32] = [0..<k] @ k # [Suc k..<32]"
    using assms(3) by (metis le_add_same_cancel1 less_imp_le_nat le_Suc_ex upt_add_eq_append upt_conv_Cons zero_le add.left_neutral)
  moreover have "takeWhile (\<lambda>i. \<not> bit x i) ([0..<k] @ k # [Suc k..<32]) = [0..<k]"
    using assms(1,2) by (subst takeWhile_append2) auto
  ultimately show ?thesis by (simp add: irq_ctz_def)
qed

lemma lowest_bit:
  assumes "(x :: u32) \<noteq> 0"
  shows "\<exists>k < 32. bit x k \<and> (\<forall>i < k. \<not> bit x i)"
proof -
  have "\<exists>k. bit x k" using assms by (metis bit_eqI bit_0_eq bot_apply bot_bool_def)
  then have "bit x (LEAST k. bit x k)" by (rule LeastI_ex)
  moreover from this have "(LEAST k. bit x k) < 32" by (auto dest: bit_imp_le_length)
  ultimately show ?thesis by (meson not_less_Least)
qed

text \<open>
  A claim gives the waiting interrupt of the lowest number, plus one, and this interrupt waits no more
  until it is completed; the others are as before.
\<close>

lemma plic_claim_lowest:
  assumes "bit (irq_waiting p) k" "\<And>i. i < k \<Longrightarrow> \<not> bit (irq_waiting p) i"
  shows "plic_claim p = (of_nat (k + 1), p\<lparr>irq_served := irq_served p OR push_bit k 1\<rparr>)"
    and "bit (irq_waiting (snd (plic_claim p))) i \<longleftrightarrow> bit (irq_waiting p) i \<and> i \<noteq> k"
proof -
  have k: "k < 32" using assms(1) by (auto dest: bit_imp_le_length)
  have "irq_waiting p \<noteq> 0" using assms(1) by auto
  then show c: "plic_claim p = (of_nat (k + 1), p\<lparr>irq_served := irq_served p OR push_bit k 1\<rparr>)"
    using irq_ctz_eq [OF assms k] by (simp add: plic_claim_def)
  show "bit (irq_waiting (snd (plic_claim p))) i \<longleftrightarrow> bit (irq_waiting p) i \<and> i \<noteq> k"
    unfolding c using k by (auto simp: bit_waiting bit_set_one)
qed

lemma plic_complete_waiting:
  assumes "k < 32"
  shows "bit (irq_waiting (plic_complete k p)) i \<longleftrightarrow> (if i = k then bit (irq_pendings p) k else bit (irq_waiting p) i)"
  using assms by (auto simp: plic_complete_def bit_waiting bit_set_one)

lemma set_irq_line:
  assumes "irq < 32" "set_irq irq val p = Some p'"
  shows "irq_served p' = irq_served p"
    and "bit (irq_pendings p') i \<longleftrightarrow> (if i = unat irq then val else bit (irq_pendings p) i)"
proof -
  have "unat irq < 32" using assms(1) by (simp add: word_less_nat_alt)
  then show "irq_served p' = irq_served p" "bit (irq_pendings p') i \<longleftrightarrow> (if i = unat irq then val else bit (irq_pendings p) i)"
    using assms by (auto simp: set_irq_def bit_set_one split: if_splits)
qed

lemma set_irq_defined: "irq < 32 \<Longrightarrow> \<exists>p'. set_irq irq val p = Some p'"
  by (simp add: set_irq_def)

section \<open>The interrupt routine\<close>

text \<open>
  On what the devices report the routine is \<^verbatim>\<open>isr\<close> of \<open>Priv\<close>.
\<close>

lemma isr_source_id: "isr_source m q p s = Ok taken s' \<Longrightarrow> hart_id s' = hart_id s \<and> cpu_time s' = cpu_time s"
  by (auto simp: isr_source_def Let_def mtrap_def strap_def trap_cli_def raise_ex_def split: if_splits)

lemma isr_devices_isr:
  assumes "service_devices d = Some d1" "clock_devices s d1 = (tip, d2)"
  shows "fst (isr_devices d s) =
    isr (irq_pending (d_plic d1)) tip (ipi_pending (ucast (hart_id s)) (d_mipi d) \<or> has_char (d_console d)) s"
proof -
  have same: "d_mipi d2 = d_mipi d" "d_console d2 = d_console d"
    using assms by (auto simp: service_devices_def clock_devices_def split: option.splits prod.splits)
  show ?thesis
  proof (cases "isr_source 11 9 (irq_pending (d_plic d1)) s")
    case (Ok taken s1)
    have c: "clock_devices s1 d1 = (tip, d2)" "hart_id s1 = hart_id s"
      using isr_source_id [OF Ok] assms(2) by (simp_all add: clock_devices_def)
    show ?thesis
    proof (cases taken)
      case True
      then show ?thesis by (simp add: isr_devices_def isr_def assms(1) Ok)
    next
      case False
      show ?thesis
      proof (cases "isr_source 7 5 tip s1")
        case ok: (Ok taken' s2)
        then have "hart_id s2 = hart_id s" using isr_source_id [OF ok] c(2) by simp
        then show ?thesis using False by (simp add: isr_devices_def isr_def assms(1) Ok ok c(1) same)
      qed (use False in \<open>simp_all add: isr_devices_def isr_def assms(1) Ok c(1)\<close>)
    qed
  qed (simp_all add: isr_devices_def isr_def assms(1))
qed

lemma service_devices_lines:
  assumes "uart_irq (d_uart d) = 3" "gpio_irq (d_gpio d) = 4"
  shows "\<exists>p. service_devices d = Some (d\<lparr>d_plic := p\<rparr>) \<and> irq_served p = irq_served (d_plic d) \<and>
    (\<forall>i. bit (irq_pendings p) i \<longleftrightarrow>
      (if i = 3 then ier (d_uart d) AND 0x01 \<noteq> 0 \<and> has_char (d_console d)
       else if i = 4 then gpio_ie (d_gpio d) AND gpio_ip (d_gpio d) \<noteq> 0 else bit (irq_pendings (d_plic d)) i))"
proof -
  obtain p1 where 1: "uart_service (d_uart d) (d_console d) (d_plic d) = Some p1"
    using set_irq_defined [of 3] assms(1) by (fastforce simp: uart_service_def)
  obtain p2 where 2: "gpio_service (d_gpio d) p1 = Some p2"
    using set_irq_defined [of 4] assms(2) by (fastforce simp: gpio_service_def)
  note l1 = set_irq_line [OF _ 1 [unfolded uart_service_def assms(1)]]
    and l2 = set_irq_line [OF _ 2 [unfolded gpio_service_def assms(2)]]
  show ?thesis using 1 2 l1 l2 by (intro exI [of _ p2]) (auto simp: service_devices_def)
qed

text \<open>
  C27. A typed character reaches the handler. When a character waits in the console, the UART's
  interrupt is enabled and not in service and external interrupts are enabled in the processor, the
  interrupt routine enters the handler for external interrupts; there the controller hands out the
  UART's number and then no longer reports it, the UART's data register holds the character, which
  leaves the console, and once the handler has completed the interrupt the UART raises it again
  exactly if another character waits.
\<close>

theorem typed_character_interrupts:
  assumes "\<not> debugging s" "m_enabled 11 s \<or> s_enabled 9 s"
    and "uart_irq (d_uart d) = 3" "gpio_irq (d_gpio d) = 4"
    and "con_in (d_console d) = ch # rest" "ier (d_uart d) AND 0x01 \<noteq> 0" "\<not> uart_dlab (d_uart d)"
    and "\<not> bit (irq_served (d_plic d)) 3" "irq_pendings (d_plic d) AND mask 3 = 0"
  shows "\<exists>s' d' p u c p' p''. isr_devices d s = (Ok () s', d') \<and> interrupted 11 9 s s' \<and>
    plic_load 4 4 (d_plic d') = Io (4, p) \<and> \<not> bit (irq_waiting p) 3 \<and>
    uart_load old 1 0 (d_uart d', d_console d') = Io (ch, u, c) \<and> con_in c = rest \<and>
    plic_store 4 4 4 p = Io p' \<and> uart_service u c p' = Some p'' \<and> (bit (irq_waiting p'') 3 \<longleftrightarrow> rest \<noteq> [])"
proof -
  obtain p1 where 1: "service_devices d = Some (d\<lparr>d_plic := p1\<rparr>)" "irq_served p1 = irq_served (d_plic d)"
    "\<And>i. bit (irq_pendings p1) i \<longleftrightarrow>
      (if i = 3 then ier (d_uart d) AND 0x01 \<noteq> 0 \<and> has_char (d_console d)
       else if i = 4 then gpio_ie (d_gpio d) AND gpio_ip (d_gpio d) \<noteq> 0 else bit (irq_pendings (d_plic d)) i)"
    using service_devices_lines [OF assms(3,4)] by blast
  have low: "\<not> bit (irq_pendings (d_plic d)) i" if "i < 3" for i
    using arg_cong [OF assms(9), of "\<lambda>x. bit x i"] that by (simp add: bit_and_iff bit_mask_iff)
  have w: "bit (irq_waiting p1) 3" "\<And>i. i < 3 \<Longrightarrow> \<not> bit (irq_waiting p1) i"
    using 1(2,3) assms(5,6,8) low by (auto simp: bit_waiting has_char_def)
  then have pend: "irq_pending p1" unfolding irq_pending_def by (metis bit_0_eq bot_apply bot_bool_def word_gt_0)
  then have t: "takes 11 9 (irq_pending p1) s" using assms(2) by (simp add: takes_def)
  obtain s' where s': "isr_source 11 9 (irq_pending p1) s = Ok True s'" "interrupted 11 9 s s'"
    using isr_source_result [OF assms(1), of 11 9 "irq_pending p1"] t by auto
  have i: "isr_devices d s = (Ok () s', d\<lparr>d_plic := p1\<rparr>)" by (simp add: isr_devices_def 1(1) s'(1))
  define p where "p = p1\<lparr>irq_served := irq_served p1 OR push_bit 3 1\<rparr>"
  have pc: "plic_claim p1 = (4, p)" using plic_claim_lowest(1) [OF w] by (simp add: p_def)
  have pw: "\<not> bit (irq_waiting p) 3" using plic_claim_lowest(2) [OF w, of 3] by (simp add: pc)
  define u where "u = (d_uart d)\<lparr>rbr := ch\<rparr>"
  define c where "c = (d_console d)\<lparr>con_in := rest\<rparr>"
  have ul: "uart_load old 1 0 (d_uart d, d_console d) = Io (ch, u, c)"
    using assms(5,7) by (simp add: uart_load_def has_char_def read_char_def u_def c_def)
  have st: "plic_store 4 4 4 p = Io (plic_complete 3 p)" by (simp add: plic_store_def)
  obtain p'' where p'': "uart_service u c (plic_complete 3 p) = Some p''"
    using set_irq_defined [of 3] assms(3) by (fastforce simp: uart_service_def u_def)
  note l = set_irq_line [OF _ p'' [unfolded uart_service_def]]
  have "\<not> bit (irq_served p'') 3" using l(1) assms(3)
    by (simp add: u_def plic_complete_def bit_set_one [of 3, simplified])
  moreover have "bit (irq_pendings p'') 3 \<longleftrightarrow> rest \<noteq> []"
    using l(2) [of 3] assms(3,6) by (simp add: u_def c_def has_char_def)
  ultimately have "bit (irq_waiting p'') 3 \<longleftrightarrow> rest \<noteq> []"
    by (simp add: bit_waiting)
  then show ?thesis using i s'(2) pc pw ul st p''
    by (intro exI [of _ s'] exI [of _ "d\<lparr>d_plic := p1\<rparr>"] exI [of _ p] exI [of _ u] exI [of _ c]
        exI [of _ "plic_complete 3 p"] exI [of _ p'']) (simp add: plic_load_def c_def)
qed

theorem typed_character_interrupts_witness:
  fixes d :: devices
  defines "d \<equiv> (devices_init \<lparr>con_in = [0x61], con_out = []\<rparr>)\<lparr>d_uart := (uart_init 3)\<lparr>ier := 1\<rparr>\<rparr>"
  shows "\<exists>s' d' p u c. isr_devices d (example_hart\<lparr>mstatus := 0x8, mie := 0x800\<rparr>) = (Ok () s', d') \<and>
    plic_load 4 4 (d_plic d') = Io (4, p) \<and> uart_load 0 1 0 (d_uart d', d_console d') = Io (0x61, u, c) \<and> con_in c = []"
proof -
  have h: "\<not> debugging (example_hart\<lparr>mstatus := 0x8, mie := 0x800\<rparr>)" "m_enabled 11 (example_hart\<lparr>mstatus := 0x8, mie := 0x800\<rparr>)"
    by (simp_all add: example_hart_def hart_init_def m_enabled_def bits_get_def)
  have d: "uart_irq (d_uart d) = 3" "gpio_irq (d_gpio d) = 4" "con_in (d_console d) = 0x61 # []"
    "ier (d_uart d) AND 0x01 \<noteq> 0" "\<not> uart_dlab (d_uart d)" "\<not> bit (irq_served (d_plic d)) 3"
    "irq_pendings (d_plic d) AND mask 3 = 0"
    by (simp_all add: d_def devices_init_def uart_init_def gpio_init_def plic_init_def uart_dlab_def)
  show ?thesis using typed_character_interrupts [OF h(1) disjI1 [OF h(2)] d, of 0] by blast
qed

section \<open>The timer\<close>

text \<open>An expired timer reports once, until its register is written again.\<close>

lemma timer_reports_once:
  assumes "length (claimed t) = timer_harts" "timer_pending hart time t = (True, t')" "time \<noteq> 0"
  shows "\<not> fst (timer_pending hart time' t')"
proof -
  have "0 < unat time" using assms(3) by (metis unat_gt_0)
  then show ?thesis using assms(1,2)
    by (auto simp: timer_pending_def timer_harts_def word_le_nat_alt word_less_nat_alt split: if_splits)
qed

section \<open>Addresses and bits that the devices get wrong\<close>

text \<open>
  The sizes of timer and interprocessor interrupts count the bits of a word instead of its bytes, so
  addresses behind the registers pass the test.
\<close>

lemma timer_reads_outside: "timer_load 8 32 timer_init = Outside"
  by (simp add: timer_load_def array_load_def timer_size_def array_holds_def access_at_def timer_init_def timer_harts_def)

lemma mipi_reads_outside: "mipi_load 4 16 mipi_init = Outside"
  by (simp add: mipi_load_def array_load_def mipi_size_def array_holds_def access_at_def mipi_init_def mipi_harts_def)

lemma signal_writes_outside: "signal_ipi 0 val m = Outside"
  by (simp add: signal_ipi_def mipi_harts_def)

lemma enable_register_unreadable:
  "\<not> uart_dlab u \<Longrightarrow> uart_load old 1 1 (u, c) = Io (if has_char c then 0x06 else 0x02, u, c)"
  by (simp add: uart_load_def uart_iir_def)

text \<open>At time 0 the timer reports again and again.\<close>

lemma timer_reports_at_zero:
  assumes "timecmp t ! 0 = 0" "claimed t = [0, x, y, z]"
  shows "timer_pending 0 0 t = (True, t)"
  using assms by (simp add: timer_pending_def timer_harts_def)

end
