(* ===== verification/Spec2Isabelle.thy ===== *)
theory Spec2Isabelle
  imports Roundtrip Loader Runloop_Spec Jit Link_Spec Proxy_Spec Queue_Spec Devices_Spec
begin

text \<open>
  A verification development of rv8, a RISC-V simulator and binary translator with a recorder of
  checkpoints of user mode programs.

  \<^bold>\<open>The program.\<close> rv8 decodes RISC-V instructions with code generated from tables, executes
  them in an interpreter, and wraps the interpreter in two processors. The system processor
  (\<^verbatim>\<open>rv-sys\<close>) has privilege modes, traps and a soft MMU with a TLB and a page table walker over a bus
  of memory segments. The user mode processor (\<^verbatim>\<open>rv-sim\<close>) maps the program into the address space of
  the simulator and forwards its system calls to the host. While a program runs in it, the MMU and
  the system calls report to a recorder, which writes a checkpoint: the registers, the bytes that
  the run read before it wrote them, and what its system calls returned. A second program
  (\<^verbatim>\<open>src/ckpt\<close>) places and maps a checkpoint on a real machine and answers the system calls from the
  record. Beside these there is an assembler with one emitter per instruction.

  \<^bold>\<open>The theories\<close>, in the order of the imports, and the files of \<^verbatim>\<open>src/\<close> they model.

  \<^item> Instructions. \<^verbatim>\<open>Prelude\<close>: fixed width integers and the \<^verbatim>\<open>switch\<close> of C, with their lemmas.
    \<^verbatim>\<open>Bytes\<close>: little-endian bytes. \<^verbatim>\<open>Operands\<close>: \<^verbatim>\<open>src/src/asm/types.h\<close>, \<^verbatim>\<open>src/src/asm/operands.h\<close>. \<^verbatim>\<open>Meta\<close>: the
    tables of \<^verbatim>\<open>src/src/asm/meta.cc\<close>. \<^verbatim>\<open>Switch\<close>: \<^verbatim>\<open>src/src/asm/switch.h\<close>. \<^verbatim>\<open>Decode\<close>, \<^verbatim>\<open>Encode\<close>:
    \<^verbatim>\<open>src/src/asm/decode.h\<close>, \<^verbatim>\<open>src/src/asm/encode.h\<close>. \<^verbatim>\<open>Codec\<close>: \<^verbatim>\<open>src/src/asm/codec.h\<close>, \<^verbatim>\<open>src/src/asm/constraints.h\<close>.
    \<^verbatim>\<open>Roundtrip\<close> relates decoder and encoder.
  \<^item> The system processor. \<^verbatim>\<open>Memory\<close>: \<^verbatim>\<open>src/src/emu/mmu-memory.h\<close>. \<^verbatim>\<open>Tlb\<close>: \<^verbatim>\<open>src/src/emu/tlb-soft.h\<close>. \<^verbatim>\<open>Cpu\<close>: the
    state, from \<^verbatim>\<open>src/src/emu/processor-base.h\<close> and \<^verbatim>\<open>src/src/emu/processor-priv-1.9.h\<close>. \<^verbatim>\<open>Mmu\<close>:
    \<^verbatim>\<open>src/src/emu/mmu-soft.h\<close>, \<^verbatim>\<open>src/src/emu/pte.h\<close>, \<^verbatim>\<open>src/src/emu/amo.h\<close>, and \<^verbatim>\<open>Walk\<close>, its specification. \<^verbatim>\<open>Alu\<close>:
    \<^verbatim>\<open>src/src/asm/alu.h\<close>. \<^verbatim>\<open>Interp\<close>: the integer part of \<^verbatim>\<open>src/src/emu/interp.h\<close>, and \<^verbatim>\<open>Interp_Spec\<close>. \<^verbatim>\<open>Priv\<close>:
    \<^verbatim>\<open>src/src/emu/processor-priv-1.9.h\<close>, \<^verbatim>\<open>src/src/emu/processor-impl.h\<close>, and \<^verbatim>\<open>Priv_Spec\<close>. \<^verbatim>\<open>Runloop\<close>:
    \<^verbatim>\<open>src/src/emu/processor-runloop.h\<close>, and \<^verbatim>\<open>Runloop_Spec\<close>. \<^verbatim>\<open>Queue\<close>, \<^verbatim>\<open>Queue_Spec\<close>: the queue between
    console and processor, \<^verbatim>\<open>src/src/util/queue.h\<close>. \<^verbatim>\<open>Devices\<close>,
    \<^verbatim>\<open>Devices_Spec\<close>: the devices on the bus, \<^verbatim>\<open>src/src/emu/device-*.h\<close>, and the interrupt routine
    with its calls of them.
  \<^item> Checkpoints. \<^verbatim>\<open>Checkpoint\<close>: \<^verbatim>\<open>src/src/util/fmt.h\<close>, \<^verbatim>\<open>src/src/util/fmt.cc\<close> and the hooks of
    \<^verbatim>\<open>src/src/emu/mmu-proxy.h\<close>. \<^verbatim>\<open>Replay\<close>: \<^verbatim>\<open>src/ckpt/replay.c\<close>, the stubs
    \<^verbatim>\<open>src/ckpt/far.S\<close> and \<^verbatim>\<open>src/ckpt/near.S\<close> with the registers they store and load, and the table and the
    replay stack that \<^verbatim>\<open>src/ckpt/parse.py\<close> lays out. \<^verbatim>\<open>Loader\<close>: \<^verbatim>\<open>src/ckpt/main.c\<close>, \<^verbatim>\<open>src/ckpt/cl.c\<close>.
  \<^item> The user mode processor. \<^verbatim>\<open>Mmap\<close>: the page tracker of \<^verbatim>\<open>src/src/mem/mmap-core.c\<close>. \<^verbatim>\<open>Syscalls\<close>:
    \<^verbatim>\<open>src/src/abi/unknown-abi.h\<close>, with \<^verbatim>\<open>Syscalls_Spec\<close> (what is recorded and replayed) and \<^verbatim>\<open>Heap_Spec\<close>
    (the program break). \<^verbatim>\<open>Proxy\<close>: \<^verbatim>\<open>src/src/emu/processor-proxy.h\<close>, with \<^verbatim>\<open>Proxy_Spec\<close>.
  \<^item> The assembler. \<^verbatim>\<open>Emit\<close>, \<^verbatim>\<open>Emit_Spec\<close> and \<^verbatim>\<open>Jit\<close>: \<^verbatim>\<open>src/src/asm/jit.cc\<close>. \<^verbatim>\<open>Assembler\<close>,
    \<^verbatim>\<open>Assembler_Spec\<close>, \<^verbatim>\<open>Load_Imm\<close> and \<^verbatim>\<open>Link_Spec\<close>: \<^verbatim>\<open>src/src/asm/assembler.cc\<close>.

  \<^bold>\<open>How the model corresponds to the code.\<close> Definitions carry the names of the functions, types and
  tables they translate (with a suffix where HOL has the name); a member function is prefixed with
  its class where two classes share a name (\<^verbatim>\<open>mt_load\<close>, \<^verbatim>\<open>ck_load\<close>, \<^verbatim>\<open>mmu_load\<close>, \<^verbatim>\<open>bus_load\<close>).
  Structures are records, machine integers are words of their width, so that arithmetic wraps as in
  C++, and the state that a function changes is an argument and a result. Errors are values: an
  outcome type that says whether the code returned, ended the process, or did what C++ leaves
  undefined (\<^verbatim>\<open>Undef\<close>, or \<^verbatim>\<open>None\<close> where there is nothing else to tell), such as reading through a null
  pointer or past the end of an array. Templates are instantiated for RV64 in the emulators and for
  all three widths in the codec. Logging, histograms and printing are left out everywhere.

  What is not in the repository is an argument: the answers of the host to system calls
  (\<^verbatim>\<open>host\<close>), of its kernel to anonymous mappings (\<^verbatim>\<open>anon_map\<close>), the clock, and the random
  numbers. The run loop takes what the devices report as arguments; \<^verbatim>\<open>Devices_Spec\<close> shows that the
  interrupt routine with its devices is that routine on what they report. Where a theorem needs them to behave, a named predicate says
  what their documentation does: \<^verbatim>\<open>documented\<close> (a call writes only the buffer it was given and
  returns how many bytes it wrote), \<^verbatim>\<open>user_space\<close>, \<^verbatim>\<open>maps_fixed\<close> and \<^verbatim>\<open>fixed_kernel\<close> (a mapping at a
  fixed address is there or fails). Each such theorem is applied to a concrete host.

  Loops that need not end are \<^verbatim>\<open>partial_function (option)\<close>, with \<^verbatim>\<open>None\<close> for not ending (the page
  search and marking of \<^verbatim>\<open>Mmap\<close>, the search for a free label, the replay loops); the theorems about
  them show the result, not only what holds of a result. The page table walk recurses on the level;
  a pointer at level 0, after which the unsigned level of the code wraps, is \<^verbatim>\<open>Undefined\<close>. The run
  loop, which a guest that keeps trapping can hold up, is \<^verbatim>\<open>None\<close> then.

  \<^bold>\<open>Interfaces\<close> are locales, each interpreted on the model: \<^verbatim>\<open>operand_codec\<close> (a field of an
  instruction; every operand type), \<^verbatim>\<open>op_decoder\<close> (a decision tree against a table; both decoders),
  \<^verbatim>\<open>byte_memory\<close> (memory that returns the last store; the bus), \<^verbatim>\<open>translation_cache\<close> (the TLB),
  \<^verbatim>\<open>memory_unit\<close> (what the interpreter may ask of an MMU; the soft MMU), \<^verbatim>\<open>decoding_processor\<close> (what
  the run loop needs of a processor; the privileged one) and \<^verbatim>\<open>page_source\<close> (a cache of page records
  in the recorder; the fetch and the load cache).

  \<^bold>\<open>What is shown.\<close>

  Where a statement needs a condition on the program or the machine, the condition is in the text
  above the theorem, with the lemma that refutes the statement without it where there is one.

  \<^item> Instructions: the decision tree accepts exactly the words that a table entry matches, and
    gives its opcode; every operand field is a lossless codec; encoding undoes decoding and
    compression, with the exceptions named in the theorems.
  \<^item> The system processor: the walk of Sv39 and Sv48 agrees with the translation algorithm of the
    privileged architecture, as long as no entry without permission bits and without the valid bit
    names a page on the bus (\<^verbatim>\<open>path_ok\<close>); stores in user and supervisor mode are permitted by the page
    (in machine mode under \<^verbatim>\<open>mprv\<close> the code checks the wrong privilege); the TLB is a partial map; the bus returns the
    last store; the integer instructions compute what the manual says, but for the shifts with bit 6
    of the amount set, which are undefined; traps, returns, interrupts
    and views of the status register; the cache of decoded instructions cannot be observed by a
    program that fetches no all-zero word; the
    state stays well formed, and the loop ends after the number of instructions.
  \<^item> Checkpoints: a run on any memory that has the recorded bytes reads the recorded values, if it
    stays off page 0 and fetches no piece that was partly accessed before (\<^verbatim>\<open>run_ok\<close>); a
    recorded system call is what the call did; a run of calls that the record can express
    (\<^verbatim>\<open>recordable\<close>), replayed through the stubs and the table, has the same registers after every
    call and the same memory outside the area of the replay; the loader finds a free place if there is one, and restores the
    image; the check at the end accepts exactly the recorded memory.
  \<^item> The user mode processor: a mapping that the tracker places is fresh, and is refused exactly when
    no free range is one page longer than the request; the break stays in the heap, and the stack
    has the layout that a program expects.
  \<^item> The devices: a typed character reaches the handler for external interrupts, once.
  \<^item> The console queue, under every interleaving of the accesses of one producer and one consumer:
    elements come out in order, and no operation waits. Threads are sequences of accesses to the
    shared words; weaker orders of memory are left out.
  \<^item> The assembler: emitted words decode to their arguments, but for the three register
    instructions with an immediate (\<^verbatim>\<open>emit_csr_immediate_lost\<close>); relocations of ten types patch the
    immediate or the data that their type asks for, the lower part of a PC-relative address in a
    section at address 0; a relocated call arrives; constants are loaded; references to numbered
    labels resolve to the nearest one, where no later label hides one at its position.

  Where the code deviates from its comments or its purpose, the theorem states what the code does,
  and a lemma beside it exhibits the deviation (such as \<^verbatim>\<open>Load_Imm.load_imm_errors\<close>,
  \<^verbatim>\<open>Priv_Spec.user_writes_machine_csr\<close>, \<^verbatim>\<open>Heap_Spec.failed_fstat_unrecorded\<close>).

  \<^bold>\<open>Not modelled.\<close> Floating point (the host FPU or the softfloat library, a submodule) and so the
  F, D and Q cases of the interpreter; its RV32 and RV128 instances; the binary translator of
  \<^verbatim>\<open>src/src/jit\<close>, which emits host code through the asmjit library, a submodule; the debugger, logging
  and histograms; ELF reading and writing; the disassembler, its formats and the tables of names;
  the utilities, the vendored hash map (a map here), the generators of the files modelled here, the
  command line programs and tests, the firmware; the part of \<^verbatim>\<open>parse.py\<close> that patches code pages, and the
  frame that a compiler gives the C routine of the replay below its stack pointer;
  the ROM devices and the thread of the console; the lock of the page tracker, signals, and the sleep of \<^verbatim>\<open>wfi\<close>.
\<close>

end
